(* ===== verification/Prelude.thy ===== *)
theory Prelude
  imports Complex_Main "HOL-Library.AList" "HOL-Library.Char_ord" "HOL-Library.List_Lexorder"
    "HOL-Library.Product_Lexorder"
begin

text \<open>
  The prelude of the development: Python's exceptions as values of a sum type, the
  combinators that thread them (\<open>bindE\<close>, \<open>mapE\<close>, \<open>concatE\<close>, \<open>catchE\<close>), the lists of
  reason codes every validator of the framework returns (\<open>flag\<close>, \<open>uniq\<close> for
  \<open>dict.fromkeys\<close>), the string operations the code uses, and the character classes of its
  regular expressions.  A Python \<open>str\<close> is a HOL \<open>string\<close>: its characters are the code points
  below 256, and \<open>length\<close> is Python's \<open>len\<close>.

  Two collections of facts drive the automation: \<open>py_simps\<close> unfolds the combinators,
  \<open>shape_simps\<close> the regular-expression predicates.
\<close>

named_theorems py_simps
named_theorems shape_simps

section \<open>Exceptions and the result type\<close>

datatype exn =
    ValueError string
  | TypeError
  | KeyError string
  | AttributeError
  | OverflowError
  | OSError
  | RuntimeError string
  | SagaError string
  | Interrupted
  | ProviderContractError string

type_synonym 'a res = "exn + 'a"

definition bindE :: "'a res \<Rightarrow> ('a \<Rightarrow> 'b res) \<Rightarrow> 'b res" where
  "bindE m f = (case m of Inl e \<Rightarrow> Inl e | Inr x \<Rightarrow> f x)"

lemma bindE_Inl [simp]: "bindE (Inl e) f = Inl e"
  by (simp add: bindE_def)

lemma bindE_Inr [simp]: "bindE (Inr x) f = f x"
  by (simp add: bindE_def)

lemma bindE_eq_Inr: "bindE m f = Inr y \<longleftrightarrow> (\<exists>x. m = Inr x \<and> f x = Inr y)"
  by (cases m) auto

lemma bindE_eq_Inl: "bindE m f = Inl e \<longleftrightarrow> m = Inl e \<or> (\<exists>x. m = Inr x \<and> f x = Inl e)"
  by (cases m) auto

lemma bindE_assoc: "bindE (bindE m f) g = bindE m (\<lambda>x. bindE (f x) g)"
  by (cases m) auto

lemma bindE_cong [fundef_cong]:
  "m = m' \<Longrightarrow> (\<And>x. m' = Inr x \<Longrightarrow> f x = g x) \<Longrightarrow> bindE m f = bindE m' g"
  by (cases m') auto

lemma bindE_InrE:
  assumes "bindE m f = Inr y"
  obtains x where "m = Inr x" and "f x = Inr y"
  using assms by (auto simp: bindE_eq_Inr)

declare bindE_eq_Inr [py_simps]

text \<open>\<open>try: m except <caught>: h\<close>.\<close>

definition catchE :: "(exn \<Rightarrow> bool) \<Rightarrow> 'a res \<Rightarrow> (exn \<Rightarrow> 'a res) \<Rightarrow> 'a res" where
  "catchE caught m h = (case m of Inl e \<Rightarrow> (if caught e then h e else Inl e) | Inr x \<Rightarrow> Inr x)"

lemma catchE_Inr [simp]: "catchE c (Inr x) h = Inr x"
  by (simp add: catchE_def)

lemma catchE_Inl [simp]: "catchE c (Inl e) h = (if c e then h e else Inl e)"
  by (simp add: catchE_def)

lemma catchE_eq_Inr:
  "catchE c m h = Inr y \<longleftrightarrow> m = Inr y \<or> (\<exists>e. m = Inl e \<and> c e \<and> h e = Inr y)"
  by (cases m) auto

fun is_ValueError :: "exn \<Rightarrow> bool" where
  "is_ValueError (ValueError _) = True"
| "is_ValueError _ = False"

fun is_KTV :: "exn \<Rightarrow> bool" where
  "is_KTV (KeyError _) = True"
| "is_KTV TypeError = True"
| "is_KTV (ValueError _) = True"
| "is_KTV _ = False"

fun is_TV :: "exn \<Rightarrow> bool" where
  "is_TV TypeError = True"
| "is_TV (ValueError _) = True"
| "is_TV _ = False"

fun is_KV :: "exn \<Rightarrow> bool" where
  "is_KV (KeyError _) = True"
| "is_KV (ValueError _) = True"
| "is_KV _ = False"

text \<open>\<open>str(exc)\<close> of the exceptions the code formats (the interpreter's own messages are left empty),
  and \<open>type(exc).__name__\<close>.  \<open>Interrupted\<close> stands for \<open>KeyboardInterrupt\<close> and \<open>SystemExit\<close>.\<close>

fun exn_text :: "exn \<Rightarrow> string" where
  "exn_text (ValueError s) = s"
| "exn_text (SagaError s) = s"
| "exn_text (ProviderContractError s) = s"
| "exn_text (RuntimeError s) = s"
| "exn_text (KeyError s) = [CHR 0x27] @ s @ [CHR 0x27]"
| "exn_text _ = ''''"

fun exn_name :: "exn \<Rightarrow> string" where
  "exn_name (ValueError _) = ''ValueError''"
| "exn_name TypeError = ''TypeError''"
| "exn_name (KeyError _) = ''KeyError''"
| "exn_name AttributeError = ''AttributeError''"
| "exn_name OverflowError = ''OverflowError''"
| "exn_name OSError = ''OSError''"
| "exn_name (RuntimeError _) = ''RuntimeError''"
| "exn_name (SagaError _) = ''SagaError''"
| "exn_name Interrupted = ''KeyboardInterrupt''"
| "exn_name (ProviderContractError _) = ''ProviderContractError''"

text \<open>Comprehensions and loops whose body may raise: the first exception ends them.\<close>

primrec mapE :: "('a \<Rightarrow> 'b res) \<Rightarrow> 'a list \<Rightarrow> 'b list res" where
  "mapE f [] = Inr []"
| "mapE f (x # xs) = bindE (f x) (\<lambda>y. bindE (mapE f xs) (\<lambda>ys. Inr (y # ys)))"

primrec concatE :: "'a list res list \<Rightarrow> 'a list res" where
  "concatE [] = Inr []"
| "concatE (m # ms) = bindE m (\<lambda>x. bindE (concatE ms) (\<lambda>xs. Inr (x @ xs)))"

primrec filterE :: "('a \<Rightarrow> bool res) \<Rightarrow> 'a list \<Rightarrow> 'a list res" where
  "filterE p [] = Inr []"
| "filterE p (x # xs) =
     bindE (p x) (\<lambda>b. bindE (filterE p xs) (\<lambda>ys. Inr (if b then x # ys else ys)))"

primrec foldE :: "('a \<Rightarrow> 's \<Rightarrow> 's res) \<Rightarrow> 'a list \<Rightarrow> 's \<Rightarrow> 's res" where
  "foldE f [] s = Inr s"
| "foldE f (x # xs) s = bindE (f x s) (foldE f xs)"

text \<open>\<open>all(...)\<close> and \<open>any(...)\<close>, left to right and short-circuited.\<close>

primrec allE' :: "('a \<Rightarrow> bool res) \<Rightarrow> 'a list \<Rightarrow> bool res" where
  "allE' p [] = Inr True"
| "allE' p (x # xs) = bindE (p x) (\<lambda>b. if b then allE' p xs else Inr False)"

lemma mapE_eq_Inr: "mapE f xs = Inr ys \<longleftrightarrow> list_all2 (\<lambda>x y. f x = Inr y) xs ys"
  by (induction xs arbitrary: ys) (auto simp: bindE_eq_Inr list_all2_Cons1)

lemma mapE_in:
  assumes "mapE f xs = Inr ys" "x \<in> set xs"
  shows "\<exists>y \<in> set ys. f x = Inr y"
  using assms by (induction xs arbitrary: ys) (auto elim!: bindE_InrE)

lemma mapE_out:
  assumes "mapE f xs = Inr ys" "y \<in> set ys"
  shows "\<exists>x \<in> set xs. f x = Inr y"
  using assms by (induction xs arbitrary: ys) (auto elim!: bindE_InrE)

lemma mapE_length: "mapE f xs = Inr ys \<Longrightarrow> length ys = length xs"
  by (auto simp: mapE_eq_Inr dest: list_all2_lengthD)

lemma mapE_total: "(\<And>x. x \<in> set xs \<Longrightarrow> \<exists>y. f x = Inr y) \<Longrightarrow> \<exists>ys. mapE f xs = Inr ys"
proof (induction xs)
  case (Cons x xs)
  then obtain ys y where "mapE f xs = Inr ys" and "f x = Inr y"
    by (metis list.set_intros)
  then show ?case by simp
qed simp

lemma mapE_Inr [simp]: "mapE (\<lambda>x. Inr (f x)) xs = Inr (map f xs)"
  by (induction xs) auto

lemma concatE_Inr [simp]: "concatE (map (\<lambda>x. Inr (f x)) xs) = Inr (concat (map f xs))"
  by (induction xs) auto

lemma concatE_eq_Inr:
  "concatE ms = Inr ys \<longleftrightarrow> (\<exists>yss. list_all2 (\<lambda>m y. m = Inr y) ms yss \<and> ys = concat yss)"
  by (induction ms arbitrary: ys) (fastforce simp: bindE_eq_Inr list_all2_Cons1)+

lemma concatE_Nil_iff: "concatE ms = Inr [] \<longleftrightarrow> (\<forall>m \<in> set ms. m = Inr [])"
  by (induction ms) (auto simp: bindE_eq_Inr)

lemma concatE_append: "concatE (xs @ ys) = bindE (concatE xs) (\<lambda>a. bindE (concatE ys) (\<lambda>b. Inr (a @ b)))"
  by (induction xs) (auto simp: bindE_assoc bindE_def split: sum.splits)

lemma foldE_append: "foldE f (xs @ ys) s = bindE (foldE f xs s) (foldE f ys)"
  by (induction xs arbitrary: s) (auto simp: bindE_assoc intro: bindE_cong)

lemma filterE_total: "\<forall>x \<in> set xs. \<exists>b. p x = Inr b \<Longrightarrow> filterE p xs = Inr (filter (\<lambda>x. p x = Inr True) xs)"
  by (induction xs) auto

lemma filterE_Inr: "filterE p xs = Inr ys \<Longrightarrow> \<forall>x \<in> set xs. \<exists>b. p x = Inr b"
  by (induction xs arbitrary: ys) (auto elim!: bindE_InrE)

lemma filterE_eq_Inr: "filterE p xs = Inr ys \<longleftrightarrow>
   (\<forall>x \<in> set xs. \<exists>b. p x = Inr b) \<and> ys = filter (\<lambda>x. p x = Inr True) xs"
  using filterE_total [of xs p] filterE_Inr [of p xs ys] by auto

lemma filterE_append: "filterE p (xs @ ys) = bindE (filterE p xs) (\<lambda>a. bindE (filterE p ys) (\<lambda>b. Inr (a @ b)))"
  by (induction xs) (auto simp: bindE_def split: sum.splits)

lemma filterE_Nil_iff: "filterE p xs = Inr [] \<longleftrightarrow> (\<forall>x \<in> set xs. p x = Inr False)"
  by (induction xs) (auto elim!: bindE_InrE split: if_split_asm)

text \<open>A check that raises \<open>ValueError\<close> with a code.\<close>

definition guard :: "bool \<Rightarrow> string \<Rightarrow> unit res" where
  "guard ok code = (if ok then Inr () else Inl (ValueError code))"

lemma guard_Inr [simp]: "guard ok code = Inr u \<longleftrightarrow> ok"
  by (simp add: guard_def)

section \<open>Reason codes\<close>

definition flag :: "bool \<Rightarrow> string \<Rightarrow> string list" where
  "flag b m = (if b then [m] else [])"

lemma flag_simps [simp]: "flag True m = [m]" "flag False m = []"
  by (simp_all add: flag_def)

lemma flag_Nil_iff [simp]: "flag b m = [] \<longleftrightarrow> \<not> b" "[] = flag b m \<longleftrightarrow> \<not> b"
  by (simp_all add: flag_def)

lemma set_flag [simp]: "set (flag b m) = (if b then {m} else {})"
  by (simp add: flag_def)

definition flagE :: "bool \<Rightarrow> string \<Rightarrow> string list res" where
  "flagE b m = Inr (flag b m)"

lemma flagE_Inr_Nil [simp]: "flagE b m = Inr [] \<longleftrightarrow> \<not> b"
  by (simp add: flagE_def)

lemma flagE_not_Inl [simp]: "flagE b m \<noteq> Inl e"
  by (simp add: flagE_def)

text \<open>\<open>list(dict.fromkeys(xs))\<close>: the first occurrence of each element, in order.\<close>

primrec uniq_from :: "'a list \<Rightarrow> 'a list \<Rightarrow> 'a list" where
  "uniq_from seen [] = []"
| "uniq_from seen (x # xs) =
     (if x \<in> set seen then uniq_from seen xs else x # uniq_from (x # seen) xs)"

definition uniq :: "'a list \<Rightarrow> 'a list" where
  "uniq xs = uniq_from [] xs"

lemma set_uniq_from: "set (uniq_from seen xs) = set xs - set seen"
  by (induction xs arbitrary: seen) auto

lemma distinct_uniq_from: "distinct (uniq_from seen xs)"
  by (induction xs arbitrary: seen) (auto simp: set_uniq_from)

lemma set_uniq [simp]: "set (uniq xs) = set xs"
  by (simp add: uniq_def set_uniq_from)

lemma distinct_uniq [simp]: "distinct (uniq xs)"
  by (simp add: uniq_def distinct_uniq_from)

lemma uniq_Nil_iff [simp]: "uniq xs = [] \<longleftrightarrow> xs = []"
  by (metis set_uniq set_empty)

lemma uniq_Nil [simp]: "uniq [] = []"
  by simp

lemma uniq_from_distinct: "distinct xs \<Longrightarrow> set xs \<inter> set seen = {} \<Longrightarrow> uniq_from seen xs = xs"
  by (induction xs arbitrary: seen) auto

lemma uniq_distinct: "distinct xs \<Longrightarrow> uniq xs = xs"
  by (simp add: uniq_def uniq_from_distinct)

section \<open>Strings\<close>

definition starts_with :: "string \<Rightarrow> string \<Rightarrow> bool" where
  "starts_with s p = (take (length p) s = p)"

definition ends_with :: "string \<Rightarrow> string \<Rightarrow> bool" where
  "ends_with s p = (length p \<le> length s \<and> drop (length s - length p) s = p)"

primrec contains :: "string \<Rightarrow> string \<Rightarrow> bool" where
  "contains [] p = (p = [])"
| "contains (c # cs) p = (take (length p) (c # cs) = p \<or> contains cs p)"

definition is_space :: "char \<Rightarrow> bool" where
  "is_space c = (of_char c \<in> {9::nat, 10, 11, 12, 13, 28, 29, 30, 31, 32, 133, 160})"

definition strip :: "string \<Rightarrow> string" where
  "strip s = rev (dropWhile is_space (rev (dropWhile is_space s)))"

text \<open>\<open>sep.join(xs)\<close>.\<close>

fun join :: "string \<Rightarrow> string list \<Rightarrow> string" where
  "join sep [] = []"
| "join sep [x] = x"
| "join sep (x # xs) = x @ sep @ join sep xs"

text \<open>\<open>s.split(c)\<close> for a one-character separator.\<close>

primrec split_on :: "char \<Rightarrow> string \<Rightarrow> string list" where
  "split_on c [] = [[]]"
| "split_on c (x # xs) =
     (if x = c then [] # split_on c xs
      else (case split_on c xs of [] \<Rightarrow> [[x]] | w # ws \<Rightarrow> (x # w) # ws))"

text \<open>\<open>s.lower()\<close> and \<open>s.upper()\<close> on the ASCII letters.\<close>

definition lower_char :: "char \<Rightarrow> char" where
  "lower_char c = (if c \<in> set ''ABCDEFGHIJKLMNOPQRSTUVWXYZ'' then char_of (of_char c + (32::nat)) else c)"

definition lower :: "string \<Rightarrow> string" where
  "lower s = map lower_char s"

definition upper_char :: "char \<Rightarrow> char" where
  "upper_char c = (if c \<in> set ''abcdefghijklmnopqrstuvwxyz'' then char_of (of_char c - (32::nat)) else c)"

definition upper :: "string \<Rightarrow> string" where
  "upper s = map upper_char s"

lemma starts_with_append: "starts_with (p @ s) p"
  by (simp add: starts_with_def)

lemma starts_with_iff: "starts_with s p \<longleftrightarrow> (\<exists>r. s = p @ r)"
  unfolding starts_with_def by (metis append_take_drop_id append_eq_conv_conj)

lemma length_lower [simp]: "length (lower s) = length s"
  by (simp add: lower_def)

section \<open>Decimal numerals\<close>

definition digit_char :: "nat \<Rightarrow> char" where
  "digit_char d = char_of (48 + d)"

definition is_digit :: "char \<Rightarrow> bool" where
  "is_digit c = (48 \<le> (of_char c :: nat) \<and> (of_char c :: nat) \<le> 57)"

definition digit_val :: "char \<Rightarrow> nat" where
  "digit_val c = of_char c - 48"

fun nat_str :: "nat \<Rightarrow> string" where
  "nat_str n = (if n < 10 then [digit_char n] else nat_str (n div 10) @ [digit_char (n mod 10)])"

declare nat_str.simps [simp del]

definition int_str :: "int \<Rightarrow> string" where
  "int_str i = (if i < 0 then CHR ''-'' # nat_str (nat (- i)) else nat_str (nat i))"

definition digits_val :: "string \<Rightarrow> nat" where
  "digits_val s = foldl (\<lambda>a c. 10 * a + digit_val c) 0 s"

lemma of_char_digit_char: "d < 10 \<Longrightarrow> (of_char (digit_char d) :: nat) = 48 + d"
  by (simp add: digit_char_def)

lemma is_digit_digit_char: "d < 10 \<Longrightarrow> is_digit (digit_char d)"
  by (simp add: is_digit_def of_char_digit_char)

lemma digit_val_digit_char: "d < 10 \<Longrightarrow> digit_val (digit_char d) = d"
  by (simp add: digit_val_def of_char_digit_char)

lemma digits_val_snoc: "digits_val (s @ [c]) = 10 * digits_val s + digit_val c"
  by (simp add: digits_val_def)

lemma nat_str_digits: "list_all is_digit (nat_str n)"
proof (induction n rule: nat_str.induct)
  case (1 n)
  then show ?case
    by (subst nat_str.simps) (auto simp: is_digit_digit_char)
qed

lemma nat_str_nonempty: "nat_str n \<noteq> []"
  by (subst nat_str.simps) simp

lemma digits_val_nat_str: "digits_val (nat_str n) = n"
proof (induction n rule: nat_str.induct)
  case (1 n)
  show ?case
  proof (cases "n < 10")
    case True
    then show ?thesis
      by (subst nat_str.simps) (simp add: digits_val_def digit_val_digit_char)
  next
    case False
    with 1 have "digits_val (nat_str (n div 10)) = n div 10" by simp
    with False show ?thesis
      by (subst nat_str.simps) (simp add: digits_val_snoc digit_val_digit_char)
  qed
qed

lemma nat_str_inj: "nat_str m = nat_str n \<longleftrightarrow> m = n"
  by (metis digits_val_nat_str)

section \<open>Shapes: the regular expressions of the code as predicates\<close>

definition is_hex :: "char \<Rightarrow> bool" where
  "is_hex c = (c \<in> set ''0123456789abcdef'')"

text \<open>\<open>[0-9a-f]{n}\<close>.\<close>

definition hex_n :: "nat \<Rightarrow> string \<Rightarrow> bool" where
  "hex_n n s = (length s = n \<and> list_all is_hex s)"

abbreviation sha40 :: "string \<Rightarrow> bool" where "sha40 \<equiv> hex_n 40"
abbreviation sha256_hex :: "string \<Rightarrow> bool" where "sha256_hex \<equiv> hex_n 64"

definition is_alnum :: "char \<Rightarrow> bool" where
  "is_alnum c = (c \<in> set ''ABCDEFGHIJKLMNOPQRSTUVWXYZabcdefghijklmnopqrstuvwxyz0123456789'')"

definition is_AZ :: "char \<Rightarrow> bool" where
  "is_AZ c = (c \<in> set ''ABCDEFGHIJKLMNOPQRSTUVWXYZ'')"

lemma hex_n_length [shape_simps]: "hex_n n s \<Longrightarrow> length s = n"
  by (simp add: hex_n_def)

lemma hex_n_nonempty: "hex_n n s \<Longrightarrow> 0 < n \<Longrightarrow> s \<noteq> []"
  by (auto simp: hex_n_def)

lemma hex_n_replicate: "is_hex c \<Longrightarrow> hex_n n (replicate n c)"
  by (simp add: hex_n_def list_all_iff)

text \<open>A hash function with one value, and that value: what the witnesses run with.\<close>

definition flat_digest :: string where "flat_digest = replicate 64 (CHR ''a'')"

definition flat_sha :: "string \<Rightarrow> string" where "flat_sha s = flat_digest"

definition sample_sha40 :: string where "sample_sha40 = replicate 40 (CHR ''a'')"

lemma sample_sha40_shape: "sha40 sample_sha40"
  unfolding sample_sha40_def by (rule hex_n_replicate) code_simp

lemma flat_digest_shape: "sha256_hex flat_digest"
  unfolding flat_digest_def by (rule hex_n_replicate) code_simp

section \<open>Stores with a compare-and-set on a revision\<close>

text \<open>
  The contract the stores of the framework share: an update names the revision it was computed
  from, is refused when the store has moved on, and raises the revision by one.
\<close>

locale cas_store =
  fixes revision :: "'s \<Rightarrow> int"
    and update :: "'op \<Rightarrow> int \<Rightarrow> 's \<Rightarrow> 's res"
    and good :: "'s \<Rightarrow> bool"
  assumes update_revision: "good s \<Longrightarrow> update op n s = Inr s' \<Longrightarrow> revision s = n \<and> revision s' = n + 1"
    and update_good: "good s \<Longrightarrow> update op n s = Inr s' \<Longrightarrow> good s'"
begin

lemma stale_update_refused:
  assumes "good s" "update op n s = Inr s'"
  shows "\<exists>e. update op' n s' = Inl e"
proof (cases "update op' n s'")
  case (Inr s'')
  then have "revision s' = n" using update_revision [OF update_good [OF assms]] by blast
  then show ?thesis using update_revision [OF assms] by simp
qed simp

text \<open>A history of accepted updates is a chain: each was computed from what the one before wrote.\<close>

lemma history:
  assumes "foldE (\<lambda>(op, n). update op n) ops s = Inr s'" "good s"
  shows "good s' \<and> revision s' = revision s + int (length ops)
    \<and> (\<forall>i < length ops. snd (ops ! i) = revision s + int i)"
  using assms
proof (induction ops arbitrary: s)
  case (Cons x ops)
  obtain op n where x: "x = (op, n)" by (cases x)
  from Cons.prems(1) obtain t where t: "update op n s = Inr t" "foldE (\<lambda>(op, n). update op n) ops t = Inr s'"
    by (auto simp: x elim!: bindE_InrE)
  note u = update_revision [OF Cons.prems(2) t(1)]
  note h = Cons.IH [OF t(2) update_good [OF Cons.prems(2) t(1)]]
  have "snd ((x # ops) ! i) = revision s + int i" if "i < length (x # ops)" for i
    using that h u by (cases i) (auto simp: x)
  then show ?case using h u by simp
qed simp

end

end
