(* ===== verification/PyVal.thy ===== *)
theory PyVal
  imports Prelude
begin

text \<open>
  Python's dynamically typed values, as the framework meets them after \<open>json.loads\<close>:
  the datatype \<open>json\<close>, dictionaries as association lists with pairwise distinct keys in
  insertion order (\<open>dict_ok\<close>, what \<open>strict_json.loads\<close> guarantees), and the operations the
  code applies to values it has not validated yet: \<open>.get\<close>, \<open>[...]\<close>, truth value, \<open>==\<close>,
  membership in a set of strings, \<open>str()\<close>, \<open>int()\<close>, \<open>float()\<close> and \<open>json.dumps\<close>.  Where
  Python raises on a value of the wrong type, the operation returns the exception.

  A float carries its value and its \<open>repr\<close> text (which Python computes from the value); finite
  floats are rationals, and arithmetic rounding is never needed by the code modelled here.
\<close>

section \<open>Values\<close>

datatype pyfloat = Fin rat | PInf | NInf | NaN

datatype json =
    JNull
  | JBool bool
  | JInt int
  | JFloat pyfloat string
  | JStr string
  | JList "json list"
  | JObj "(string \<times> json) list"

type_synonym dict = "(string \<times> json) list"

fun is_str :: "json \<Rightarrow> bool" where "is_str (JStr _) = True" | "is_str _ = False"
fun is_bool :: "json \<Rightarrow> bool" where "is_bool (JBool _) = True" | "is_bool _ = False"
fun is_list :: "json \<Rightarrow> bool" where "is_list (JList _) = True" | "is_list _ = False"
fun is_dict :: "json \<Rightarrow> bool" where "is_dict (JObj _) = True" | "is_dict _ = False"

text \<open>\<open>isinstance(v, int)\<close>: \<open>bool\<close> is a subclass of \<open>int\<close>.\<close>

fun is_int :: "json \<Rightarrow> bool" where
  "is_int (JInt _) = True" | "is_int (JBool _) = True" | "is_int _ = False"

fun int_of :: "json \<Rightarrow> int" where
  "int_of (JInt i) = i" | "int_of (JBool b) = (if b then 1 else 0)" | "int_of _ = 0"

fun str_of :: "json \<Rightarrow> string" where "str_of (JStr s) = s" | "str_of _ = []"
fun list_of :: "json \<Rightarrow> json list" where "list_of (JList xs) = xs" | "list_of _ = []"
fun dict_of :: "json \<Rightarrow> dict" where "dict_of (JObj d) = d" | "dict_of _ = []"

text \<open>\<open>isinstance(v, int) and not isinstance(v, bool)\<close>.\<close>

definition strict_int :: "json \<Rightarrow> bool" where
  "strict_int v = (is_int v \<and> \<not> is_bool v)"

lemma is_str_iff: "is_str v \<longleftrightarrow> (\<exists>s. v = JStr s)" by (cases v) auto
lemma is_list_iff: "is_list v \<longleftrightarrow> (\<exists>s. v = JList s)" by (cases v) auto
lemma is_dict_iff: "is_dict v \<longleftrightarrow> (\<exists>s. v = JObj s)" by (cases v) auto
lemma is_bool_iff: "is_bool v \<longleftrightarrow> (\<exists>s. v = JBool s)" by (cases v) auto
lemma strict_int_iff: "strict_int v \<longleftrightarrow> (\<exists>i. v = JInt i)"
  by (cases v) (auto simp: strict_int_def)

lemmas type_iffs = is_str_iff is_list_iff is_dict_iff is_bool_iff strict_int_iff

lemma strict_int_simps [simp]:
  "strict_int (JInt i)" "\<not> strict_int (JBool b)" "\<not> strict_int JNull" "\<not> strict_int (JStr s)"
  "\<not> strict_int (JList xs)" "\<not> strict_int (JObj d)" "\<not> strict_int (JFloat f r)"
  by (simp_all add: strict_int_def)

section \<open>Dictionaries\<close>

definition dict_ok :: "dict \<Rightarrow> bool" where
  "dict_ok d = distinct (map fst d)"

text \<open>\<open>d.get(k)\<close>, \<open>d.get(k, v)\<close>, \<open>d[k] = v\<close>, \<open>d.pop(k, None)\<close> and \<open>k in d\<close>.\<close>

definition dget :: "dict \<Rightarrow> string \<Rightarrow> json" where
  "dget d k = (case map_of d k of None \<Rightarrow> JNull | Some v \<Rightarrow> v)"

definition dget_or :: "dict \<Rightarrow> string \<Rightarrow> json \<Rightarrow> json" where
  "dget_or d k v = (case map_of d k of None \<Rightarrow> v | Some w \<Rightarrow> w)"

definition dput :: "string \<Rightarrow> json \<Rightarrow> dict \<Rightarrow> dict" where
  "dput k v d = AList.update k v d"

definition ddel :: "string \<Rightarrow> dict \<Rightarrow> dict" where
  "ddel k d = filter (\<lambda>p. fst p \<noteq> k) d"

definition dhas :: "dict \<Rightarrow> string \<Rightarrow> bool" where
  "dhas d k = (map_of d k \<noteq> None)"

definition dkeys :: "dict \<Rightarrow> string list" where
  "dkeys d = map fst d"

text \<open>\<open>set(d) == set(ks)\<close> and \<open>set(d) - set(ks)\<close> (in insertion order).\<close>

definition keys_are :: "dict \<Rightarrow> string list \<Rightarrow> bool" where
  "keys_are d ks = (list_all (\<lambda>k. k \<in> set ks) (dkeys d) \<and> list_all (\<lambda>k. k \<in> set (dkeys d)) ks)"

definition keys_beyond :: "dict \<Rightarrow> string list \<Rightarrow> string list" where
  "keys_beyond d ks = filter (\<lambda>k. k \<notin> set ks) (dkeys d)"

lemma dget_dput [simp]: "dget (dput k v d) k' = (if k' = k then v else dget d k')"
  by (simp add: dget_def dput_def update_conv)

lemma dget_or_dput [simp]: "dget_or (dput k v d) k' w = (if k' = k then v else dget_or d k' w)"
  by (simp add: dget_or_def dput_def update_conv)

lemma map_of_dput: "map_of (dput k v d) = (map_of d)(k \<mapsto> v)"
  by (simp add: dput_def update_conv')

lemma dhas_dput [simp]: "dhas (dput k v d) k' \<longleftrightarrow> k' = k \<or> dhas d k'"
  by (simp add: dhas_def map_of_dput)

lemma map_of_ddel: "map_of (ddel k d) k' = (if k' = k then None else map_of d k')"
  by (induction d) (auto simp: ddel_def)

lemma dget_ddel [simp]: "dget (ddel k d) k' = (if k' = k then JNull else dget d k')"
  by (simp add: dget_def map_of_ddel)

lemma dict_ok_dput [simp]: "dict_ok d \<Longrightarrow> dict_ok (dput k v d)"
  by (simp add: dict_ok_def dput_def distinct_update)

lemma dict_ok_ddel [simp]: "dict_ok d \<Longrightarrow> dict_ok (ddel k d)"
  by (induction d) (auto simp: dict_ok_def ddel_def)

lemma dget_Cons [simp]: "dget ((k, v) # d) k' = (if k' = k then v else dget d k')"
  by (simp add: dget_def)

lemma dget_Nil [simp]: "dget [] k = JNull"
  by (simp add: dget_def)

lemma dget_or_Cons [simp]: "dget_or ((k, v) # d) k' w = (if k' = k then v else dget_or d k' w)"
  by (simp add: dget_or_def)

lemma dget_or_Nil [simp]: "dget_or [] k w = w"
  by (simp add: dget_or_def)

lemma dhas_Cons [simp]: "dhas ((k, v) # d) k' \<longleftrightarrow> k' = k \<or> dhas d k'"
  by (auto simp: dhas_def)

lemma dhas_Nil [simp]: "\<not> dhas [] k"
  by (simp add: dhas_def)

lemma keys_are_iff: "keys_are d ks \<longleftrightarrow> set (dkeys d) = set ks"
  by (auto simp: keys_are_def list_all_iff)

lemma keys_beyond_Nil: "keys_beyond d ks = [] \<longleftrightarrow> set (dkeys d) \<subseteq> set ks"
  by (auto simp: keys_beyond_def filter_empty_conv)

text \<open>\<open>strict_json._pairs\<close>: the dictionary of a JSON object, a duplicate key being an error.\<close>

primrec strict_pairs_from :: "dict \<Rightarrow> dict \<Rightarrow> dict res" where
  "strict_pairs_from acc [] = Inr acc"
| "strict_pairs_from acc (p # ps) =
     (if dhas acc (fst p) then Inl (ValueError (''DUPLICATE_JSON_KEY:'' @ fst p))
      else strict_pairs_from (acc @ [p]) ps)"

definition strict_pairs :: "dict \<Rightarrow> dict res" where
  "strict_pairs ps = strict_pairs_from [] ps"

section \<open>Truth value and equality\<close>

fun truthy :: "json \<Rightarrow> bool" where
  "truthy JNull = False"
| "truthy (JBool b) = b"
| "truthy (JInt i) = (i \<noteq> 0)"
| "truthy (JFloat f r) = (f \<noteq> Fin 0)"
| "truthy (JStr s) = (s \<noteq> [])"
| "truthy (JList xs) = (xs \<noteq> [])"
| "truthy (JObj d) = (d \<noteq> [])"

text \<open>\<open>v or w\<close>.\<close>

definition py_or :: "json \<Rightarrow> json \<Rightarrow> json" where
  "py_or v w = (if truthy v then v else w)"

text \<open>Numbers compare by value, across \<open>bool\<close>, \<open>int\<close> and \<open>float\<close>; a NaN equals nothing.\<close>

fun num_of :: "json \<Rightarrow> pyfloat option" where
  "num_of (JBool b) = Some (Fin (if b then 1 else 0))"
| "num_of (JInt i) = Some (Fin (of_int i))"
| "num_of (JFloat f r) = Some f"
| "num_of _ = None"

definition num_eq :: "json \<Rightarrow> json \<Rightarrow> bool" where
  "num_eq v w = (case (num_of v, num_of w) of
     (Some a, Some b) \<Rightarrow> a = b \<and> a \<noteq> NaN | _ \<Rightarrow> False)"

primrec eq_list :: "(json \<Rightarrow> bool) list \<Rightarrow> json list \<Rightarrow> bool" where
  "eq_list [] ys = (ys = [])"
| "eq_list (p # ps) ys = (case ys of [] \<Rightarrow> False | y # ys' \<Rightarrow> p y \<and> eq_list ps ys')"

definition eq_dict :: "(string \<times> (json \<Rightarrow> bool)) list \<Rightarrow> dict \<Rightarrow> bool" where
  "eq_dict ps d = (length ps = length d \<and>
     list_all (\<lambda>(k, p). case map_of d k of None \<Rightarrow> False | Some v \<Rightarrow> p v) ps)"

primrec py_eq :: "json \<Rightarrow> json \<Rightarrow> bool" where
  "py_eq JNull w = (w = JNull)"
| "py_eq (JBool b) w = num_eq (JBool b) w"
| "py_eq (JInt i) w = num_eq (JInt i) w"
| "py_eq (JFloat f r) w = num_eq (JFloat f r) w"
| "py_eq (JStr s) w = (w = JStr s)"
| "py_eq (JList xs) w = (case w of JList ys \<Rightarrow> eq_list (map py_eq xs) ys | _ \<Rightarrow> False)"
| "py_eq (JObj d) w = (case w of JObj e \<Rightarrow> eq_dict (map (map_prod id py_eq) d) e | _ \<Rightarrow> False)"

lemma py_eq_str [simp]: "py_eq v (JStr s) \<longleftrightarrow> v = JStr s"
  by (cases v) (auto simp: num_eq_def)

lemma py_eq_null [simp]: "py_eq v JNull \<longleftrightarrow> v = JNull"
  by (cases v) (auto simp: num_eq_def)

lemma num_eq_int [simp]: "num_eq (JInt i) (JInt j) \<longleftrightarrow> i = j"
  by (simp add: num_eq_def)

lemma py_eq_int [simp]: "py_eq (JInt i) (JInt j) \<longleftrightarrow> i = j"
  by (simp add: num_eq_def)

text \<open>
  Membership of a value in a set or dictionary of strings hashes the value first: a list or a
  dictionary raises \<open>TypeError\<close>.  Membership in a tuple or list only compares.
\<close>

fun hashable :: "json \<Rightarrow> bool" where
  "hashable (JList _) = False" | "hashable (JObj _) = False" | "hashable _ = True"

definition in_set :: "json \<Rightarrow> string list \<Rightarrow> bool res" where
  "in_set v S = (if hashable v then Inr (case v of JStr s \<Rightarrow> s \<in> set S | _ \<Rightarrow> False) else Inl TypeError)"

definition in_tuple :: "json \<Rightarrow> string list \<Rightarrow> bool" where
  "in_tuple v S = (case v of JStr s \<Rightarrow> s \<in> set S | _ \<Rightarrow> False)"

lemma in_set_str [simp]: "in_set (JStr s) S = Inr (s \<in> set S)"
  by (simp add: in_set_def)

lemma in_set_True: "in_set v S = Inr True \<longleftrightarrow> (\<exists>s. v = JStr s \<and> s \<in> set S)"
  by (cases v) (auto simp: in_set_def)

lemma in_set_Inl: "in_set v S = Inl e \<longleftrightarrow> \<not> hashable v \<and> e = TypeError"
  by (auto simp: in_set_def)

lemma in_tuple_iff: "in_tuple v S \<longleftrightarrow> (\<exists>s. v = JStr s \<and> s \<in> set S)"
  by (cases v) (auto simp: in_tuple_def)

section \<open>The order of numbers\<close>

text \<open>The order of floats as Python compares them; a NaN, which compares with nothing, is put last.\<close>

fun float_key :: "pyfloat \<Rightarrow> nat \<times> rat" where
  "float_key NInf = (0, 0)"
| "float_key (Fin q) = (1, q)"
| "float_key PInf = (2, 0)"
| "float_key NaN = (3, 0)"

lemma float_key_inj: "float_key a = float_key b \<longleftrightarrow> a = b"
  by (cases a; cases b) auto

instantiation pyfloat :: linorder
begin

definition less_eq_pyfloat :: "pyfloat \<Rightarrow> pyfloat \<Rightarrow> bool" where
  "less_eq_pyfloat a b = (float_key a \<le> float_key b)"

definition less_pyfloat :: "pyfloat \<Rightarrow> pyfloat \<Rightarrow> bool" where
  "less_pyfloat a b = (float_key a < float_key b)"

instance
  by standard (auto simp: less_eq_pyfloat_def less_pyfloat_def float_key_inj less_le)

end

text \<open>\<open>sorted(v)\<close> of the distinct elements of a set: texts or numbers; anything else does not compare.\<close>

definition sortedE :: "json list \<Rightarrow> json list res" where
  "sortedE xs = (if length xs \<le> 1 then Inr xs
     else if list_all is_str xs then Inr (sort_key str_of xs)
     else if list_all (\<lambda>v. num_of v \<noteq> None) xs then Inr (sort_key (\<lambda>v. the (num_of v)) xs)
     else Inl TypeError)"

section \<open>Access to values of unknown type\<close>

text \<open>\<open>v.get(k)\<close> and \<open>v.get(k, d)\<close> need an object with \<open>get\<close>; \<open>v[k]\<close> needs a dictionary with the key.\<close>

fun getE :: "json \<Rightarrow> string \<Rightarrow> json res" where
  "getE (JObj d) k = Inr (dget d k)"
| "getE _ k = Inl AttributeError"

fun getOrE :: "json \<Rightarrow> string \<Rightarrow> json \<Rightarrow> json res" where
  "getOrE (JObj d) k w = Inr (dget_or d k w)"
| "getOrE _ k w = Inl AttributeError"

definition ditemE :: "dict \<Rightarrow> string \<Rightarrow> json res" where
  "ditemE d k = (case map_of d k of None \<Rightarrow> Inl (KeyError k) | Some v \<Rightarrow> Inr v)"

fun itemE :: "json \<Rightarrow> string \<Rightarrow> json res" where
  "itemE (JObj d) k = ditemE d k"
| "itemE _ k = Inl TypeError"

text \<open>Iterating a value: a list gives its items, a dictionary its keys, a string its characters.\<close>

fun iterE :: "json \<Rightarrow> json list res" where
  "iterE (JList xs) = Inr xs"
| "iterE (JObj d) = Inr (map (\<lambda>p. JStr (fst p)) d)"
| "iterE (JStr s) = Inr (map (\<lambda>c. JStr [c]) s)"
| "iterE _ = Inl TypeError"

lemma getE_Inr: "getE v k = Inr w \<longleftrightarrow> (\<exists>d. v = JObj d \<and> w = dget d k)"
  by (cases v) auto

lemma ditemE_Inr: "ditemE d k = Inr v \<longleftrightarrow> map_of d k = Some v"
  by (auto simp: ditemE_def split: option.splits)

lemma ditemE_dget: "ditemE d k = Inr v \<Longrightarrow> dget d k = v"
  by (auto simp: ditemE_def dget_def split: option.splits)

lemma ditemE_dput [simp]: "ditemE (dput k v d) k' = (if k' = k then Inr v else ditemE d k')"
  by (simp add: ditemE_def map_of_dput)

lemma ditemE_Cons [simp]: "ditemE ((k, v) # d) k' = (if k' = k then Inr v else ditemE d k')"
  by (simp add: ditemE_def)

lemma ditemE_Nil [simp]: "ditemE [] k = Inl (KeyError k)"
  by (simp add: ditemE_def)

section \<open>Conversions\<close>

text \<open>\<open>repr\<close> of a string: single quotes unless the text has one and no double quote.\<close>

definition hex_digit :: "nat \<Rightarrow> char" where
  "hex_digit n = ''0123456789abcdef'' ! n"

definition repr_char :: "char \<Rightarrow> char \<Rightarrow> string" where
  "repr_char q c = (let n = of_char c :: nat in
     if c = q \<or> n = 92 then [char_of (92::nat), c]
     else if n = 9 then [char_of (92::nat), CHR ''t'']
     else if n = 10 then [char_of (92::nat), CHR ''n'']
     else if n = 13 then [char_of (92::nat), CHR ''r'']
     else if n < 32 \<or> (127 \<le> n \<and> n \<le> 160) \<or> n = 173
       then [char_of (92::nat), CHR ''x'', hex_digit (n div 16), hex_digit (n mod 16)]
     else [c])"

definition repr_str :: "string \<Rightarrow> string" where
  "repr_str s = (let q = (if char_of (39::nat) \<in> set s \<and> char_of (34::nat) \<notin> set s
                          then char_of (34::nat) else char_of (39::nat))
     in q # concat (map (repr_char q) s) @ [q])"

primrec py_repr :: "json \<Rightarrow> string" where
  "py_repr JNull = ''None''"
| "py_repr (JBool b) = (if b then ''True'' else ''False'')"
| "py_repr (JInt i) = int_str i"
| "py_repr (JFloat f r) = r"
| "py_repr (JStr s) = repr_str s"
| "py_repr (JList xs) = ''['' @ join '', '' (map py_repr xs) @ '']''"
| "py_repr (JObj d) = ''{'' @ join '', ''
     (map (\<lambda>(k, s). repr_str k @ '': '' @ s) (map (map_prod id py_repr) d)) @ ''}''"

fun py_str :: "json \<Rightarrow> string" where
  "py_str (JStr s) = s"
| "py_str v = py_repr v"

text \<open>\<open>str(v.get(k) or "")\<close>.\<close>

definition field_text :: "dict \<Rightarrow> string \<Rightarrow> string" where
  "field_text d k = py_str (py_or (dget d k) (JStr []))"

text \<open>\<open>int(v)\<close>: a float truncates towards zero, a text must be a decimal numeral.\<close>

definition trunc_rat :: "rat \<Rightarrow> int" where
  "trunc_rat q = (if 0 \<le> q then floor q else ceiling q)"

definition parse_int :: "string \<Rightarrow> int option" where
  "parse_int s = (let t = strip s;
       neg = (take 1 t = ''-'');
       ds = (if neg \<or> take 1 t = ''+'' then drop 1 t else t);
       groups = split_on (CHR ''_'') ds
     in if list_all (\<lambda>g. g \<noteq> [] \<and> list_all is_digit g) groups
        then Some ((if neg then - 1 else 1) * int (digits_val (concat groups))) else None)"

fun py_int :: "json \<Rightarrow> int res" where
  "py_int (JBool b) = Inr (if b then 1 else 0)"
| "py_int (JInt i) = Inr i"
| "py_int (JFloat (Fin q) r) = Inr (trunc_rat q)"
| "py_int (JFloat NaN r) = Inl (ValueError ''cannot convert float NaN to integer'')"
| "py_int (JFloat _ r) = Inl OverflowError"
| "py_int (JStr s) = (case parse_int s of Some i \<Rightarrow> Inr i | None \<Rightarrow> Inl (ValueError ''invalid literal for int()''))"
| "py_int _ = Inl TypeError"

text \<open>
  \<open>float(v)\<close>.  An integer of more than 1024 bits overflows; a text is a decimal literal or an
  infinity or NaN.  Values are exact rationals (the code only compares them with bounds of the
  same kind and with zero); a nonzero literal of magnitude at most half the least double is 0.0.
\<close>

definition underflow_bound :: rat where "underflow_bound = 1 / 2 ^ 1075"
definition overflow_bound :: rat where "overflow_bound = 2 ^ 1024 - 2 ^ 970"

definition to_double :: "rat \<Rightarrow> pyfloat" where
  "to_double q = (if \<bar>q\<bar> \<le> underflow_bound then Fin 0
     else if q \<ge> overflow_bound then PInf else if q \<le> - overflow_bound then NInf else Fin q)"

definition digit_groups :: "string \<Rightarrow> string option" where
  "digit_groups s = (let gs = split_on (CHR ''_'') s in
     if list_all (\<lambda>g. g \<noteq> [] \<and> list_all is_digit g) gs then Some (concat gs) else None)"

definition parse_exponent :: "string \<Rightarrow> int option" where
  "parse_exponent s = (let neg = (take 1 s = ''-'');
       ds = (if neg \<or> take 1 s = ''+'' then drop 1 s else s)
     in map_option (\<lambda>g. (if neg then - 1 else 1) * int (digits_val g)) (digit_groups ds))"

definition scale10 :: "rat \<Rightarrow> int \<Rightarrow> rat" where
  "scale10 q e = (if 0 \<le> e then q * 10 ^ nat e else q / 10 ^ nat (- e))"

definition parse_mantissa :: "string \<Rightarrow> rat option" where
  "parse_mantissa s = (case split_on (CHR ''.'') s of
     [a] \<Rightarrow> map_option (\<lambda>g. of_nat (digits_val g)) (digit_groups a)
   | [a, b] \<Rightarrow> (if a = [] \<and> b = [] then None else
       (case (if a = [] then Some [] else digit_groups a, if b = [] then Some [] else digit_groups b) of
          (Some g, Some h) \<Rightarrow> Some (of_nat (digits_val (g @ h)) / 10 ^ length h)
        | _ \<Rightarrow> None))
   | _ \<Rightarrow> None)"

definition parse_decimal :: "string \<Rightarrow> rat option" where
  "parse_decimal s = (case split_on (CHR ''e'') s of
     [m] \<Rightarrow> parse_mantissa m
   | [m, e] \<Rightarrow> (case (parse_mantissa m, parse_exponent e) of
        (Some q, Some x) \<Rightarrow> Some (scale10 q x) | _ \<Rightarrow> None)
   | _ \<Rightarrow> None)"

definition parse_float :: "string \<Rightarrow> pyfloat option" where
  "parse_float s = (let t = lower (strip s); neg = (take 1 t = ''-'');
       u = (if neg \<or> take 1 t = ''+'' then drop 1 t else t)
     in if u = ''inf'' \<or> u = ''infinity'' then Some (if neg then NInf else PInf)
        else if u = ''nan'' then Some NaN
        else map_option (\<lambda>q. to_double (if neg then - q else q)) (parse_decimal u))"

fun py_float :: "json \<Rightarrow> pyfloat res" where
  "py_float (JBool b) = Inr (Fin (if b then 1 else 0))"
| "py_float (JInt i) = (if \<bar>of_int i\<bar> \<ge> overflow_bound then Inl OverflowError else Inr (Fin (of_int i)))"
| "py_float (JFloat f r) = Inr f"
| "py_float (JStr s) = (case parse_float s of Some f \<Rightarrow> Inr f | None \<Rightarrow> Inl (ValueError ''could not convert string to float''))"
| "py_float _ = Inl TypeError"

text \<open>
  \<open>dict(v)\<close>: a dictionary is copied, a list must consist of pairs.  (A key that is not a text
  cannot occur in the dictionaries of the model; such a list is a \<open>TypeError\<close> here.)
\<close>

fun pair_of :: "json \<Rightarrow> (string \<times> json) res" where
  "pair_of (JList [JStr k, v]) = Inr (k, v)"
| "pair_of (JStr [a, b]) = Inr ([a], JStr [b])"
| "pair_of (JStr _) = Inl (ValueError ''dictionary update sequence element has the wrong length'')"
| "pair_of _ = Inl TypeError"

fun dict_castE :: "json \<Rightarrow> dict res" where
  "dict_castE (JObj d) = Inr d"
| "dict_castE (JList xs) = bindE (mapE pair_of xs) (\<lambda>ps. Inr (fold (\<lambda>p d. dput (fst p) (snd p) d) ps []))"
| "dict_castE (JStr []) = Inr []"
| "dict_castE (JStr _) = Inl (ValueError ''dictionary update sequence element has the wrong length'')"
| "dict_castE _ = Inl TypeError"

section \<open>Canonical JSON text\<close>

text \<open>
  \<open>json.dumps(v, ensure_ascii=False, sort_keys=True, separators=(i, k))\<close>: keys in code point
  order, the two separators as arguments (the code uses \<open>(",", ":")\<close> for digests and the default
  \<open>(", ", ": ")\<close> for text scans).
\<close>

definition json_char :: "char \<Rightarrow> string" where
  "json_char c = (let n = of_char c :: nat; b = char_of (92::nat) in
     if n = 34 \<or> n = 92 then [b, c]
     else if n = 10 then [b, CHR ''n'']
     else if n = 13 then [b, CHR ''r'']
     else if n = 9 then [b, CHR ''t'']
     else if n = 12 then [b, CHR ''f'']
     else if n = 8 then [b, CHR ''b'']
     else if n < 32 then [b, CHR ''u'', CHR ''0'', CHR ''0'', hex_digit (n div 16), hex_digit (n mod 16)]
     else [c])"

definition json_quote :: "string \<Rightarrow> string" where
  "json_quote s = char_of (34::nat) # concat (map json_char s) @ [char_of (34::nat)]"

fun json_float :: "pyfloat \<Rightarrow> string \<Rightarrow> string" where
  "json_float (Fin q) r = r"
| "json_float PInf r = ''Infinity''"
| "json_float NInf r = ''-Infinity''"
| "json_float NaN r = ''NaN''"

primrec dumps :: "string \<Rightarrow> string \<Rightarrow> json \<Rightarrow> string" where
  "dumps i k JNull = ''null''"
| "dumps i k (JBool b) = (if b then ''true'' else ''false'')"
| "dumps i k (JInt n) = int_str n"
| "dumps i k (JFloat f r) = json_float f r"
| "dumps i k (JStr s) = json_quote s"
| "dumps i k (JList xs) = ''['' @ join i (map (dumps i k) xs) @ '']''"
| "dumps i k (JObj d) = ''{'' @ join i
     (map (\<lambda>(n, s). json_quote n @ k @ s) (sort_key fst (map (map_prod id (dumps i k)) d))) @ ''}''"

definition canonical :: "json \<Rightarrow> string" where
  "canonical v = dumps '','' '':'' v"

end
