(* ===== verification/Policy.thy ===== *)
theory Policy
  imports PyVal
begin

text \<open>
  The policy engine (\<open>.adwf/lib/policy.py\<close>) and the check of the executable policy
  (\<open>.adwf/lib/policy_runtime.py\<close>).  A \<open>DecisionContext\<close> is a dataclass whose annotations Python
  does not enforce, and \<open>from_dict\<close> fills it from untrusted dictionaries, so its fields are values
  of unknown type and a field of the wrong type raises where the code uses it.  The Russian
  message of a decision is a function of its reason codes and is left out.
\<close>

section \<open>Tables\<close>

definition AUTONOMY_RANK :: "(string \<times> nat) list" where
  "AUTONOMY_RANK = [(''A0'', 0), (''A1'', 1), (''A2'', 2), (''A3'', 3), (''A4'', 4)]"

definition RISK_RANK :: "(string \<times> nat) list" where
  "RISK_RANK = [(''R0'', 0), (''R1'', 1), (''R2'', 2), (''R3'', 3), (''R4'', 4)]"

definition SAFE_HEALTH :: "string list" where
  "SAFE_HEALTH = [''VERIFIED'', ''HEALTHY'']"

definition ACTION_MIN_AUTONOMY :: "(string \<times> string) list" where
  "ACTION_MIN_AUTONOMY = [
    (''inspect'', ''A0''), (''plan'', ''A0''), (''reconcile'', ''A0''),
    (''edit'', ''A1''), (''test'', ''A1''), (''continue'', ''A1''), (''review'', ''A1''),
    (''verify'', ''A1''), (''observe'', ''A1''), (''record_incident'', ''A1''),
    (''commit'', ''A2''), (''push'', ''A2''), (''open_pr'', ''A2''), (''claim'', ''A2''),
    (''repair'', ''A2''), (''cleanup'', ''A2''),
    (''merge'', ''A3''), (''deploy_dev'', ''A3''), (''promote'', ''A3''), (''rollback'', ''A3''),
    (''close_issue'', ''A3''),
    (''deploy_prod'', ''A4''), (''delete'', ''A4''), (''trust_change'', ''A4''),
    (''owner_accept'', ''A4''), (''certify_recipe'', ''A4'')]"

section \<open>Contexts and decisions\<close>

record decision_context =
  dc_action :: json
  dc_autonomy :: json
  dc_risk :: json
  dc_max_autonomous_risk :: json
  dc_work_type :: json
  dc_health :: json
  dc_gates :: json
  dc_required_gates :: "json list"
  dc_exact_sha :: json
  dc_evidence_fresh :: json
  dc_human_approved :: json
  dc_destructive :: json
  dc_trust_change :: json
  dc_writer_conflict :: json
  dc_provider_allowed :: json
  dc_provider_potentially_paid :: json
  dc_projected_cost :: json
  dc_expected_policy_hash :: json
  dc_provider_facts_fresh :: json
  dc_owner_acceptance_exact :: json

definition CONTEXT_FIELDS :: "string list" where
  "CONTEXT_FIELDS = [''action'', ''autonomy'', ''risk'', ''max_autonomous_risk'', ''work_type'',
    ''health'', ''gates'', ''required_gates'', ''exact_sha'', ''evidence_fresh'', ''human_approved'',
    ''destructive'', ''trust_change'', ''writer_conflict'', ''provider_allowed'',
    ''provider_potentially_paid'', ''projected_cost'', ''expected_policy_hash'',
    ''provider_facts_fresh'', ''owner_acceptance_exact'']"

text \<open>\<open>DecisionContext.from_dict\<close>: unknown fields are refused, \<open>action\<close> is required.\<close>

definition context_from_dict :: "dict \<Rightarrow> decision_context res" where
  "context_from_dict d = (let unknown = keys_beyond d CONTEXT_FIELDS in
     if unknown \<noteq> [] then Inl (ValueError (''UNKNOWN_DECISION_CONTEXT_FIELDS:'' @ join '','' (sort unknown)))
     else bindE (iterE (dget_or d ''required_gates'' (JList []))) (\<lambda>gates.
       if \<not> dhas d ''action'' then Inl TypeError
       else Inr \<lparr>
         dc_action = dget d ''action'',
         dc_autonomy = dget_or d ''autonomy'' (JStr ''A1''),
         dc_risk = dget_or d ''risk'' (JStr ''R0''),
         dc_max_autonomous_risk = dget_or d ''max_autonomous_risk'' (JStr ''R1''),
         dc_work_type = dget_or d ''work_type'' (JStr ''feature''),
         dc_health = dget_or d ''health'' (JObj []),
         dc_gates = dget_or d ''gates'' (JObj []),
         dc_required_gates = gates,
         dc_exact_sha = dget_or d ''exact_sha'' (JBool False),
         dc_evidence_fresh = dget_or d ''evidence_fresh'' (JBool False),
         dc_human_approved = dget_or d ''human_approved'' (JBool False),
         dc_destructive = dget_or d ''destructive'' (JBool False),
         dc_trust_change = dget_or d ''trust_change'' (JBool False),
         dc_writer_conflict = dget_or d ''writer_conflict'' (JBool False),
         dc_provider_allowed = dget_or d ''provider_allowed'' (JBool True),
         dc_provider_potentially_paid = dget_or d ''provider_potentially_paid'' (JBool False),
         dc_projected_cost = dget_or d ''projected_cost'' (JFloat (Fin 0) ''0.0''),
         dc_expected_policy_hash = dget_or d ''expected_policy_hash'' JNull,
         dc_provider_facts_fresh = dget_or d ''provider_facts_fresh'' (JBool True),
         dc_owner_acceptance_exact = dget_or d ''owner_acceptance_exact'' (JBool False) \<rparr>))"

record decision =
  d_result :: string
  d_reason_codes :: "string list"
  d_policy_hash :: "string option"

definition mk_decision :: "string \<Rightarrow> string list \<Rightarrow> string option \<Rightarrow> decision" where
  "mk_decision r reasons h = \<lparr>d_result = r, d_reason_codes = uniq reasons, d_policy_hash = h\<rparr>"

section \<open>The rules\<close>

text \<open>
  The lists of a validated policy; the three tables must equal the built-in ones, so the built-in
  ones are used.
\<close>

record rules =
  r_safe_health :: json
  r_non_mutating :: json
  r_control_plane_optional :: json
  r_product_health_exempt :: json
  r_evidence_actions :: json
  r_always_human :: json

definition strs :: "string list \<Rightarrow> json" where
  "strs xs = JList (map JStr xs)"

definition default_rules :: rules where
  "default_rules = \<lparr>
     r_safe_health = strs (sort SAFE_HEALTH),
     r_non_mutating = strs [''inspect'', ''plan'', ''reconcile'', ''review'', ''verify'', ''observe''],
     r_control_plane_optional = strs [''edit'', ''test''],
     r_product_health_exempt = strs [''recovery'', ''verification'', ''governance''],
     r_evidence_actions = strs [''merge'', ''deploy_dev'', ''deploy_prod'', ''promote'', ''rollback'', ''close_issue''],
     r_always_human = strs [''delete'', ''deploy_prod'', ''trust_change'', ''owner_accept'', ''certify_recipe''] \<rparr>"

definition RULE_KEYS :: "string list" where
  "RULE_KEYS = [''action_min_autonomy'', ''autonomy_rank'', ''risk_rank'', ''safe_health'',
    ''non_mutating_actions'', ''control_plane_optional_actions'',
    ''product_health_exempt_work_types'', ''evidence_actions'', ''always_human_actions'']"

definition POLICY_IR_INVALID :: exn where
  "POLICY_IR_INVALID = ValueError ''POLICY_IR_INVALID''"

definition validated_rules :: "dict option \<Rightarrow> (rules \<times> string option) res" where
  "validated_rules ir = (case ir of None \<Rightarrow> Inr (default_rules, None) | Some p \<Rightarrow>
     (case dget p ''rules'' of JObj r \<Rightarrow>
        if \<not> keys_are r RULE_KEYS then Inl POLICY_IR_INVALID
        else (case dget p ''policy_hash'' of JStr h \<Rightarrow>
          if length h \<noteq> 64 then Inl POLICY_IR_INVALID
          else if \<not> py_eq (dget r ''action_min_autonomy'') (JObj (map (map_prod id JStr) ACTION_MIN_AUTONOMY))
            then Inl POLICY_IR_INVALID
          else if \<not> py_eq (dget r ''autonomy_rank'') (JObj (map (map_prod id (\<lambda>n. JInt (int n))) AUTONOMY_RANK))
               \<or> \<not> py_eq (dget r ''risk_rank'') (JObj (map (map_prod id (\<lambda>n. JInt (int n))) RISK_RANK))
            then Inl POLICY_IR_INVALID
          else Inr (\<lparr>
             r_safe_health = dget r ''safe_health'',
             r_non_mutating = dget r ''non_mutating_actions'',
             r_control_plane_optional = dget r ''control_plane_optional_actions'',
             r_product_health_exempt = dget r ''product_health_exempt_work_types'',
             r_evidence_actions = dget r ''evidence_actions'',
             r_always_human = dget r ''always_human_actions'' \<rparr>, Some h)
        | _ \<Rightarrow> Inl POLICY_IR_INVALID)
      | _ \<Rightarrow> Inl POLICY_IR_INVALID))"

text \<open>\<open>set(v)\<close> of a value, and membership in it.\<close>

definition set_ofE :: "json \<Rightarrow> json list res" where
  "set_ofE v = bindE (iterE v) (\<lambda>xs. if list_all hashable xs then Inr xs else Inl TypeError)"

definition memE :: "json \<Rightarrow> json list \<Rightarrow> bool res" where
  "memE v xs = (if hashable v then Inr (list_ex (py_eq v) xs) else Inl TypeError)"

definition in_ruleE :: "json \<Rightarrow> json \<Rightarrow> bool res" where
  "in_ruleE v rule = bindE (set_ofE rule) (memE v)"

text \<open>\<open>v > 0\<close>.\<close>

definition positiveE :: "json \<Rightarrow> bool res" where
  "positiveE v = (case num_of v of None \<Rightarrow> Inl TypeError
     | Some (Fin q) \<Rightarrow> Inr (0 < q) | Some PInf \<Rightarrow> Inr True | Some _ \<Rightarrow> Inr False)"

text \<open>\<open>v.get(k)\<close> for a key of unknown type.\<close>

definition get_keyE :: "json \<Rightarrow> json \<Rightarrow> json res" where
  "get_keyE v k = (case v of JObj d \<Rightarrow>
      (if hashable k then Inr (case k of JStr s \<Rightarrow> dget d s | _ \<Rightarrow> JNull) else Inl TypeError)
    | _ \<Rightarrow> Inl AttributeError)"

primrec health_unsafe :: "json \<Rightarrow> json list \<Rightarrow> string list \<Rightarrow> bool res" where
  "health_unsafe h safe [] = Inr False"
| "health_unsafe h safe (n # ns) = bindE (getE h n) (\<lambda>v. bindE (memE v safe) (\<lambda>b.
     if \<not> b then Inr True else health_unsafe h safe ns))"

primrec gate_not_pass :: "json \<Rightarrow> json list \<Rightarrow> bool res" where
  "gate_not_pass g [] = Inr False"
| "gate_not_pass g (n # ns) = bindE (get_keyE g n) (\<lambda>v.
     if v \<noteq> JStr ''PASS'' then Inr True else gate_not_pass g ns)"

definition opt_json :: "string option \<Rightarrow> json" where
  "opt_json h = (case h of None \<Rightarrow> JNull | Some s \<Rightarrow> JStr s)"

section \<open>The decision\<close>

text \<open>The first block of reasons: policy identity, provider and cost.\<close>

definition provider_reasons :: "decision_context \<Rightarrow> string option \<Rightarrow> string list res" where
  "provider_reasons c h = bindE (positiveE (dc_projected_cost c)) (\<lambda>paid. Inr (
     flag (dc_expected_policy_hash c \<noteq> JNull \<and> \<not> py_eq (dc_expected_policy_hash c) (opt_json h))
       ''POLICY_HASH_MISMATCH'' @
     flag (\<not> truthy (dc_provider_facts_fresh c)) ''PROVIDER_FACTS_NOT_FRESH'' @
     flag (\<not> truthy (dc_provider_allowed c) \<or> truthy (dc_provider_potentially_paid c))
       ''UNKNOWN_OR_PAID_PROVIDER'' @
     flag paid ''NON_ZERO_COST''))"

text \<open>Health is required of mutations only.\<close>

definition health_reasons :: "decision_context \<Rightarrow> rules \<Rightarrow> json list \<Rightarrow> string list res" where
  "health_reasons c r safe = bindE (in_ruleE (dc_action c) (r_non_mutating r)) (\<lambda>harmless.
     if harmless then Inr [] else
     bindE (in_ruleE (dc_action c) (r_control_plane_optional r)) (\<lambda>optional.
     bindE (health_unsafe (dc_health c) safe
        ([''package_integrity'', ''config_health''] @ (if optional then [] else [''control_plane_health'']))) (\<lambda>unsafe.
     bindE (in_ruleE (dc_work_type c) (r_product_health_exempt r)) (\<lambda>exempt.
     bindE (if exempt then Inr False else health_unsafe (dc_health c) safe [''product_health'']) (\<lambda>product.
       Inr (flag unsafe ''HEALTH_NOT_SAFE'' @ flag product ''PRODUCT_HEALTH_BLOCKS_FEATURE''))))))"

definition evidence_reasons :: "decision_context \<Rightarrow> rules \<Rightarrow> string list res" where
  "evidence_reasons c r = bindE (in_ruleE (dc_action c) (r_evidence_actions r)) (\<lambda>needs.
     if \<not> needs then Inr [] else
     bindE (gate_not_pass (dc_gates c) (dc_required_gates c)) (\<lambda>fail. Inr (
       flag fail ''GATE_NOT_PASS'' @
       flag (\<not> truthy (dc_exact_sha c)) ''SHA_NOT_EXACT'' @
       flag (\<not> truthy (dc_evidence_fresh c)) ''EVIDENCE_NOT_FRESH'')))"

definition rank :: "(string \<times> nat) list \<Rightarrow> json \<Rightarrow> nat" where
  "rank table v = (case map_of table (str_of v) of Some n \<Rightarrow> n | None \<Rightarrow> 0)"

definition min_autonomy :: "json \<Rightarrow> string" where
  "min_autonomy v = (case map_of ACTION_MIN_AUTONOMY (str_of v) of Some a \<Rightarrow> a | None \<Rightarrow> [])"

definition human_reasons :: "decision_context \<Rightarrow> rules \<Rightarrow> string list res" where
  "human_reasons c r = bindE
     (if min_autonomy (dc_action c) = ''A4'' then Inr True else in_ruleE (dc_action c) (r_always_human r))
     (\<lambda>always. Inr (
       flag (truthy (dc_destructive c) \<or> dc_action c = JStr ''delete'') ''DESTRUCTIVE_ACTION'' @
       flag (dc_action c = JStr ''deploy_prod'') ''PRODUCTION_DEPLOY'' @
       flag (truthy (dc_trust_change c) \<or> dc_risk c = JStr ''R4'' \<or> dc_action c = JStr ''trust_change'')
         ''R4_OR_TRUST_CHANGE'' @
       flag (dc_action c = JStr ''owner_accept'' \<and> \<not> truthy (dc_owner_acceptance_exact c))
         ''OWNER_ACCEPTANCE_NOT_EXACT'' @
       flag (dc_autonomy c = JStr ''A4'') ''A4_NEVER_AUTOMATIC'' @
       flag (rank RISK_RANK (dc_max_autonomous_risk c) < rank RISK_RANK (dc_risk c)) ''RISK_ABOVE_CEILING'' @
       flag (rank AUTONOMY_RANK (dc_autonomy c)
             < rank AUTONOMY_RANK (JStr (min_autonomy (dc_action c)))) ''AUTONOMY_TOO_LOW'' @
       flag always ''A4_NEVER_AUTOMATIC''))"

definition evaluate_permission :: "decision_context \<Rightarrow> dict option \<Rightarrow> decision res" where
  "evaluate_permission c ir = (case validated_rules ir of
     Inl e \<Rightarrow> (if is_TV e then Inr (mk_decision ''BLOCK'' [''POLICY_IR_INVALID''] None) else Inl e)
   | Inr (r, h) \<Rightarrow>
     bindE (set_ofE (r_safe_health r)) (\<lambda>safe.
     bindE (in_set (dc_action c) (map fst ACTION_MIN_AUTONOMY)) (\<lambda>known.
     if \<not> known then Inr (mk_decision ''BLOCK'' [''UNKNOWN_ACTION''] h) else
     bindE (in_set (dc_autonomy c) (map fst AUTONOMY_RANK)) (\<lambda>aut.
     if \<not> aut then Inr (mk_decision ''BLOCK'' [''INVALID_AUTONOMY''] h) else
     bindE (in_set (dc_risk c) (map fst RISK_RANK)) (\<lambda>rk.
     bindE (if rk then in_set (dc_max_autonomous_risk c) (map fst RISK_RANK) else Inr False) (\<lambda>mrk.
     if \<not> mrk then Inr (mk_decision ''BLOCK'' [''INVALID_RISK''] h) else
     bindE (provider_reasons c h) (\<lambda>first.
     if first \<noteq> [] then Inr (mk_decision ''BLOCK'' first h) else
     bindE (health_reasons c r safe) (\<lambda>hr.
     bindE (evidence_reasons c r) (\<lambda>er.
     let second = hr @ flag (truthy (dc_writer_conflict c)) ''WRITER_CONFLICT'' @ er in
     if second \<noteq> [] then Inr (mk_decision ''BLOCK'' second h) else
     bindE (human_reasons c r) (\<lambda>human.
     if human \<noteq> [] \<and> \<not> truthy (dc_human_approved c)
     then Inr (mk_decision ''HUMAN_REQUIRED'' human h)
     else Inr (mk_decision ''ALLOW'' [] h)))))))))))"

section \<open>The executable policy: \<open>policy_runtime.py\<close>\<close>

text \<open>
  \<open>sha\<close> is the hexadecimal SHA-256 of the UTF-8 encoding of a text.  The integrity digest of the
  policy is taken over its canonical JSON without the digest itself.
\<close>

definition verify_policy_ir :: "(string \<Rightarrow> string) \<Rightarrow> json \<Rightarrow> string list" where
  "verify_policy_ir sha policy = (case policy of JObj p \<Rightarrow>
       (let actual = dget p ''policy_hash''; expected = sha (canonical (JObj (ddel ''policy_hash'' p))) in
        flag (case actual of JStr s \<Rightarrow> length s \<noteq> 64 | _ \<Rightarrow> True) ''POLICY_HASH_INVALID'' @
        flag (actual \<noteq> JStr expected) ''POLICY_HASH_MISMATCH'' @
        flag (\<not> py_eq (dget p ''schema_version'') (JInt 2)) ''POLICY_SCHEMA_VERSION_INVALID'' @
        flag (\<not> is_dict (dget p ''rules'')) ''POLICY_RULES_MISSING'')
     | _ \<Rightarrow> [''POLICY_IR_NOT_OBJECT''])"

text \<open>
  The policy file as the loader sees it: unreadable or not strict JSON (the exception's class
  name), or a value.
\<close>

datatype json_file = Unreadable string | Parsed json

definition load_effective_policy :: "(string \<Rightarrow> string) \<Rightarrow> json_file \<Rightarrow> dict res" where
  "load_effective_policy sha file = (case file of
     Unreadable exc \<Rightarrow> Inl (ValueError (''POLICY_IR_UNREADABLE:'' @ exc))
   | Parsed policy \<Rightarrow> (let findings = verify_policy_ir sha policy in
       if findings \<noteq> [] then Inl (ValueError (''POLICY_IR_INVALID:'' @ join '','' findings))
       else Inr (dict_of policy)))"

definition evaluate_with_effective_policy ::
    "(string \<Rightarrow> string) \<Rightarrow> json_file \<Rightarrow> decision_context \<Rightarrow> decision res" where
  "evaluate_with_effective_policy sha file c = (case load_effective_policy sha file of
     Inl e \<Rightarrow> Inr \<lparr>d_result = ''BLOCK'', d_reason_codes = [''POLICY_IR_INVALID''], d_policy_hash = None\<rparr>
   | Inr policy \<Rightarrow> evaluate_permission c (Some policy))"

section \<open>Facts about decisions\<close>

lemma health_unsafe_False: "health_unsafe h safe ns = Inr False \<longleftrightarrow>
   (\<forall>n \<in> set ns. \<exists>v. getE h n = Inr v \<and> memE v safe = Inr True)"
  by (induction ns) (auto simp: bindE_eq_Inr)

lemma gate_not_pass_False: "gate_not_pass g ns = Inr False \<longleftrightarrow>
   (\<forall>n \<in> set ns. get_keyE g n = Inr (JStr ''PASS''))"
  by (induction ns) (auto simp: bindE_eq_Inr)

lemma py_eq_opt_json [simp]: "py_eq v (opt_json h) \<longleftrightarrow> v = opt_json h"
  by (simp add: opt_json_def split: option.split)

lemma provider_reasons_Nil: "provider_reasons c h = Inr [] \<longleftrightarrow>
   positiveE (dc_projected_cost c) = Inr False \<and> truthy (dc_provider_facts_fresh c)
   \<and> truthy (dc_provider_allowed c) \<and> \<not> truthy (dc_provider_potentially_paid c)
   \<and> (dc_expected_policy_hash c = JNull \<or> dc_expected_policy_hash c = opt_json h)"
  by (auto simp: provider_reasons_def bindE_eq_Inr)

text \<open>What a health check found in the health of a context.\<close>

definition health_safe :: "decision_context \<Rightarrow> json list \<Rightarrow> string \<Rightarrow> bool" where
  "health_safe c safe n = (\<exists>v. getE (dc_health c) n = Inr v \<and> memE v safe = Inr True)"

lemma health_reasons_Nil:
  assumes "health_reasons c r safe = Inr []"
  shows "in_ruleE (dc_action c) (r_non_mutating r) = Inr True
    \<or> health_safe c safe ''package_integrity'' \<and> health_safe c safe ''config_health''
      \<and> (in_ruleE (dc_action c) (r_control_plane_optional r) = Inr True \<or> health_safe c safe ''control_plane_health'')
      \<and> (in_ruleE (dc_work_type c) (r_product_health_exempt r) = Inr True \<or> health_safe c safe ''product_health'')"
proof (cases "in_ruleE (dc_action c) (r_non_mutating r) = Inr True")
  case False
  from assms False obtain optional exempt where r: "in_ruleE (dc_action c) (r_control_plane_optional r) = Inr optional"
    "health_unsafe (dc_health c) safe ([''package_integrity'', ''config_health''] @ (if optional then [] else [''control_plane_health''])) = Inr False"
    "in_ruleE (dc_work_type c) (r_product_health_exempt r) = Inr exempt"
    "exempt \<or> health_unsafe (dc_health c) safe [''product_health''] = Inr False"
    by (auto simp: health_reasons_def bindE_eq_Inr simp del: health_unsafe.simps split: if_split_asm)
  show ?thesis using r(2,4) unfolding health_unsafe_False r(1,3) health_safe_def by (cases optional; cases exempt) auto
qed simp

lemma evidence_reasons_Nil:
  assumes "evidence_reasons c r = Inr []"
  shows "in_ruleE (dc_action c) (r_evidence_actions r) = Inr False \<or> truthy (dc_exact_sha c) \<and> truthy (dc_evidence_fresh c)
    \<and> (\<forall>n \<in> set (dc_required_gates c). get_keyE (dc_gates c) n = Inr (JStr ''PASS''))"
  using assms by (auto simp: evidence_reasons_def bindE_eq_Inr gate_not_pass_False simp del: gate_not_pass.simps)

lemma human_reasons_Nil: "human_reasons c r = Inr [] \<Longrightarrow>
   \<not> truthy (dc_destructive c) \<and> \<not> truthy (dc_trust_change c) \<and> dc_risk c \<noteq> JStr ''R4''
   \<and> dc_autonomy c \<noteq> JStr ''A4'' \<and> min_autonomy (dc_action c) \<noteq> ''A4''
   \<and> dc_action c \<notin> {JStr ''delete'', JStr ''deploy_prod'', JStr ''trust_change''}
   \<and> (dc_action c = JStr ''owner_accept'' \<longrightarrow> truthy (dc_owner_acceptance_exact c))
   \<and> in_ruleE (dc_action c) (r_always_human r) = Inr False
   \<and> rank RISK_RANK (dc_risk c) \<le> rank RISK_RANK (dc_max_autonomous_risk c)
   \<and> rank AUTONOMY_RANK (JStr (min_autonomy (dc_action c))) \<le> rank AUTONOMY_RANK (dc_autonomy c)"
  by (auto simp: human_reasons_def bindE_eq_Inr split: if_split_asm)

lemma mk_decision_simps [simp]:
  "d_result (mk_decision r rs h) = r" "d_reason_codes (mk_decision r rs h) = uniq rs"
  "d_policy_hash (mk_decision r rs h) = h"
  by (simp_all add: mk_decision_def)

lemma evaluate_permission_shape:
  assumes "evaluate_permission c ir = Inr d"
  shows "(d_result d = ''ALLOW'' \<and> d_reason_codes d = [])
       \<or> (d_result d \<in> {''BLOCK'', ''HUMAN_REQUIRED''} \<and> d_reason_codes d \<noteq> [])"
proof (cases "validated_rules ir")
  case (Inl e)
  then show ?thesis using assms by (auto simp add: evaluate_permission_def split: if_split_asm)
next
  case (Inr x)
  then show ?thesis using assms
    by (cases x) (auto simp only: evaluate_permission_def Let_def sum.case prod.case mk_decision_simps uniq_Nil_iff
        sum.inject elim!: bindE_InrE split: if_split_asm)
qed

lemma evaluate_permission_distinct:
  assumes "evaluate_permission c ir = Inr d"
  shows "distinct (d_reason_codes d)"
proof (cases "validated_rules ir")
  case (Inl e)
  then show ?thesis using assms by (auto simp add: evaluate_permission_def split: if_split_asm)
next
  case (Inr x)
  then show ?thesis using assms
    by (cases x) (auto simp add: evaluate_permission_def Let_def elim!: bindE_InrE split: if_split_asm)
qed

lemma allow_facts:
  assumes "evaluate_permission c ir = Inr d" "d_result d = ''ALLOW''"
  shows "\<exists>r h safe hs. validated_rules ir = Inr (r, h) \<and> set_ofE (r_safe_health r) = Inr safe
    \<and> in_set (dc_action c) (map fst ACTION_MIN_AUTONOMY) = Inr True
    \<and> in_set (dc_autonomy c) (map fst AUTONOMY_RANK) = Inr True
    \<and> in_set (dc_risk c) (map fst RISK_RANK) = Inr True
    \<and> in_set (dc_max_autonomous_risk c) (map fst RISK_RANK) = Inr True
    \<and> provider_reasons c h = Inr [] \<and> health_reasons c r safe = Inr []
    \<and> evidence_reasons c r = Inr [] \<and> \<not> truthy (dc_writer_conflict c)
    \<and> human_reasons c r = Inr hs \<and> (hs = [] \<or> truthy (dc_human_approved c)) \<and> d_policy_hash d = h"
proof (cases "validated_rules ir")
  case (Inl e)
  then show ?thesis using assms by (auto simp add: evaluate_permission_def split: if_split_asm)
next
  case (Inr x)
  then show ?thesis using assms
    by (cases x) (auto simp add: evaluate_permission_def Let_def
         elim!: bindE_InrE split: if_split_asm)
qed

lemma reasons_approval [simp]:
  "provider_reasons (c\<lparr>dc_human_approved := b\<rparr>) h = provider_reasons c h"
  "health_reasons (c\<lparr>dc_human_approved := b\<rparr>) r safe = health_reasons c r safe"
  "evidence_reasons (c\<lparr>dc_human_approved := b\<rparr>) r = evidence_reasons c r"
  "human_reasons (c\<lparr>dc_human_approved := b\<rparr>) r = human_reasons c r"
  by (simp_all add: provider_reasons_def health_reasons_def evidence_reasons_def human_reasons_def cong: if_cong)

lemma human_approval:
  assumes "evaluate_permission (c\<lparr>dc_human_approved := JBool False\<rparr>) ir = Inr d"
  shows "evaluate_permission (c\<lparr>dc_human_approved := JBool True\<rparr>) ir
    = Inr (if d_result d = ''HUMAN_REQUIRED'' then d\<lparr>d_result := ''ALLOW'', d_reason_codes := []\<rparr> else d)"
proof (cases "validated_rules ir")
  case (Inl e)
  then show ?thesis using assms by (auto simp add: evaluate_permission_def split: if_split_asm)
next
  case (Inr x)
  then show ?thesis using assms
    by (cases x) (auto simp add: evaluate_permission_def Let_def
         elim!: bindE_InrE split: if_split_asm simp: mk_decision_def)
qed

lemma a4_needs_human:
  assumes "evaluate_permission c ir = Inr d" "d_result d = ''ALLOW''"
    "min_autonomy (dc_action c) = ''A4'' \<or> dc_risk c = JStr ''R4''"
  shows "truthy (dc_human_approved c)"
  using allow_facts [OF assms(1,2)] assms(3) human_reasons_Nil by blast

section \<open>Properties\<close>

text \<open>
  C18. An ALLOW is safe: it is bound to the current policy hash, free of cost, from a fresh and
  unpaid provider, without a writer conflict.  Unless the rules call the action non-mutating, the health of the
  package and of the configuration is confirmed safe, that of the control plane too unless the rules make it optional for the
  action, and that of the product unless they exempt the work type.  Unless the action needs no evidence, the commit is
  exact, the evidence fresh and every required gate at PASS.  And unless a human approved, the risk is below R4
  and within the ceiling, nothing destructive or touching the trust boundary is done, the action is none that
  always needs a human, an owner acceptance is exact, and the autonomy level reaches the action's minimum; neither is A4.
\<close>

theorem allow_is_safe:
  assumes "evaluate_permission c ir = Inr d" "d_result d = ''ALLOW''" "validated_rules ir = Inr (r, h)"
    and "set_ofE (r_safe_health r) = Inr safe"
  shows "dc_expected_policy_hash c \<in> {JNull, opt_json h} \<and> positiveE (dc_projected_cost c) = Inr False
    \<and> truthy (dc_provider_facts_fresh c) \<and> truthy (dc_provider_allowed c)
    \<and> \<not> truthy (dc_provider_potentially_paid c) \<and> \<not> truthy (dc_writer_conflict c)
    \<and> (in_ruleE (dc_action c) (r_non_mutating r) = Inr True
       \<or> (\<forall>n. n = ''package_integrity'' \<or> n = ''config_health''
             \<or> n = ''control_plane_health'' \<and> in_ruleE (dc_action c) (r_control_plane_optional r) \<noteq> Inr True
             \<or> n = ''product_health'' \<and> in_ruleE (dc_work_type c) (r_product_health_exempt r) \<noteq> Inr True
          \<longrightarrow> (\<exists>v. getE (dc_health c) n = Inr v \<and> memE v safe = Inr True)))
    \<and> (in_ruleE (dc_action c) (r_evidence_actions r) = Inr False
       \<or> truthy (dc_exact_sha c) \<and> truthy (dc_evidence_fresh c)
         \<and> (\<forall>n \<in> set (dc_required_gates c). get_keyE (dc_gates c) n = Inr (JStr ''PASS'')))
    \<and> (truthy (dc_human_approved c) \<or>
         \<not> truthy (dc_destructive c) \<and> \<not> truthy (dc_trust_change c) \<and> dc_risk c \<noteq> JStr ''R4''
         \<and> dc_autonomy c \<noteq> JStr ''A4'' \<and> min_autonomy (dc_action c) \<noteq> ''A4''
         \<and> dc_action c \<notin> {JStr ''delete'', JStr ''deploy_prod'', JStr ''trust_change''}
         \<and> (dc_action c = JStr ''owner_accept'' \<longrightarrow> truthy (dc_owner_acceptance_exact c))
         \<and> in_ruleE (dc_action c) (r_always_human r) = Inr False
         \<and> rank RISK_RANK (dc_risk c) \<le> rank RISK_RANK (dc_max_autonomous_risk c)
         \<and> rank AUTONOMY_RANK (JStr (min_autonomy (dc_action c))) \<le> rank AUTONOMY_RANK (dc_autonomy c))"
proof -
  from allow_facts [OF assms(1,2)] assms(3,4) obtain hs where
    f: "provider_reasons c h = Inr []" "health_reasons c r safe = Inr []" "evidence_reasons c r = Inr []"
    "\<not> truthy (dc_writer_conflict c)" "human_reasons c r = Inr hs"
    "hs = [] \<or> truthy (dc_human_approved c)"
    by auto
  have "truthy (dc_human_approved c) \<or> human_reasons c r = Inr []" using f(5,6) by auto
  then show ?thesis
    using f(1,4) health_reasons_Nil [OF f(2)] evidence_reasons_Nil [OF f(3)] human_reasons_Nil [of c r]
    unfolding provider_reasons_Nil health_safe_def by blast
qed

definition merge_context :: decision_context where
  "merge_context = \<lparr> dc_action = JStr ''merge'', dc_autonomy = JStr ''A3'', dc_risk = JStr ''R1'',
     dc_max_autonomous_risk = JStr ''R2'', dc_work_type = JStr ''feature'',
     dc_health = JObj [(''package_integrity'', JStr ''VERIFIED''), (''config_health'', JStr ''VERIFIED''),
        (''control_plane_health'', JStr ''HEALTHY''), (''product_health'', JStr ''HEALTHY'')],
     dc_gates = JObj [(''governance-gate'', JStr ''PASS'')],
     dc_required_gates = [JStr ''governance-gate''], dc_exact_sha = JBool True,
     dc_evidence_fresh = JBool True, dc_human_approved = JBool False, dc_destructive = JBool False,
     dc_trust_change = JBool False, dc_writer_conflict = JBool False,
     dc_provider_allowed = JBool True, dc_provider_potentially_paid = JBool False,
     dc_projected_cost = JInt 0, dc_expected_policy_hash = JNull,
     dc_provider_facts_fresh = JBool True, dc_owner_acceptance_exact = JBool False \<rparr>"

lemma allow_is_safe_witness:
  "evaluate_permission merge_context None = Inr (mk_decision ''ALLOW'' [] None)
   \<and> rank RISK_RANK (dc_risk merge_context) \<le> rank RISK_RANK (dc_max_autonomous_risk merge_context)
   \<and> get_keyE (dc_gates merge_context) (JStr ''governance-gate'') = Inr (JStr ''PASS'')
   \<and> (\<exists>v. getE (dc_health merge_context) ''product_health'' = Inr v \<and> memE v [JStr ''HEALTHY'', JStr ''VERIFIED''] = Inr True)"
proof -
  have e: "evaluate_permission merge_context None = Inr (mk_decision ''ALLOW'' [] None)"
    by code_simp
  have r: "validated_rules None = Inr (default_rules, None)" by (simp add: validated_rules_def)
  have s: "set_ofE (r_safe_health default_rules) = Inr [JStr ''HEALTHY'', JStr ''VERIFIED'']" by code_simp
  have i: "in_ruleE (dc_action merge_context) (r_evidence_actions default_rules) = Inr True"
    "in_ruleE (dc_action merge_context) (r_non_mutating default_rules) = Inr False"
    "in_ruleE (dc_work_type merge_context) (r_product_health_exempt default_rules) = Inr False" by code_simp+
  have human: "\<not> truthy (dc_human_approved merge_context)" by (simp add: merge_context_def)
  have gate: "JStr ''governance-gate'' \<in> set (dc_required_gates merge_context)" by (simp add: merge_context_def)
  note f = allow_is_safe [OF e mk_decision_simps(1) r s]
  have "rank RISK_RANK (dc_risk merge_context) \<le> rank RISK_RANK (dc_max_autonomous_risk merge_context)" using f human by blast
  moreover have "get_keyE (dc_gates merge_context) (JStr ''governance-gate'') = Inr (JStr ''PASS'')" using f i gate by auto
  moreover have "\<exists>v. getE (dc_health merge_context) ''product_health'' = Inr v \<and> memE v [JStr ''HEALTHY'', JStr ''VERIFIED''] = Inr True"
    using f i by auto
  ultimately show ?thesis using e by blast
qed

text \<open>
  A human's approval never opens what the policy blocks: with every other fact unchanged, an
  approval turns HUMAN_REQUIRED into ALLOW and leaves every other decision, its reasons and its
  policy hash as they were.
\<close>

theorem approval_only_answers_human_required:
  assumes "evaluate_permission (c\<lparr>dc_human_approved := JBool False\<rparr>) ir = Inr d"
  shows "evaluate_permission (c\<lparr>dc_human_approved := JBool True\<rparr>) ir
    = Inr (if d_result d = ''HUMAN_REQUIRED'' then d\<lparr>d_result := ''ALLOW'', d_reason_codes := []\<rparr> else d)"
  using assms by (rule human_approval)

lemma approval_only_answers_human_required_witness:
  "evaluate_permission (merge_context\<lparr>dc_risk := JStr ''R4'', dc_human_approved := JBool True\<rparr>) None
   = Inr (mk_decision ''ALLOW'' [] None)"
proof -
  have "evaluate_permission (merge_context\<lparr>dc_risk := JStr ''R4'', dc_human_approved := JBool False\<rparr>) None
     = Inr (mk_decision ''HUMAN_REQUIRED'' [''R4_OR_TRUST_CHANGE'', ''RISK_ABOVE_CEILING''] None)"
    by code_simp
  from approval_only_answers_human_required [OF this] show ?thesis
    by (simp add: mk_decision_def)
qed

text \<open>
  Decisions are explained: a decision is ALLOW with no reason code, or BLOCK or HUMAN_REQUIRED
  with at least one, and no code is repeated.
\<close>

theorem decision_is_explained:
  assumes "evaluate_permission c ir = Inr d"
  shows "((d_result d = ''ALLOW'') = (d_reason_codes d = []))
    \<and> d_result d \<in> {''ALLOW'', ''BLOCK'', ''HUMAN_REQUIRED''} \<and> distinct (d_reason_codes d)"
  using evaluate_permission_shape [OF assms] evaluate_permission_distinct [OF assms] by auto

lemma decision_is_explained_witness:
  "d_result (mk_decision ''BLOCK'' [''UNKNOWN_ACTION''] None) \<in> {''ALLOW'', ''BLOCK'', ''HUMAN_REQUIRED''}"
proof -
  have "evaluate_permission (merge_context\<lparr>dc_action := JStr ''format_disk''\<rparr>) None
     = Inr (mk_decision ''BLOCK'' [''UNKNOWN_ACTION''] None)"
    by code_simp
  from decision_is_explained [OF this] show ?thesis by blast
qed

section \<open>A sample policy\<close>

text \<open>The policy with the built-in rules, for the witnesses of the theories that decide under one.\<close>

definition sample_policy :: json where
  "sample_policy = JObj [(''schema_version'', JInt 2), (''policy_hash'', JStr (replicate 64 (CHR ''a''))),
     (''active_autonomy'', JStr ''A3''), (''max_autonomous_risk'', JStr ''R2''), (''max_parallel_writers'', JInt 2),
     (''rules'', JObj [(''action_min_autonomy'', JObj (map (map_prod id JStr) ACTION_MIN_AUTONOMY)),
        (''autonomy_rank'', JObj (map (map_prod id (\<lambda>n. JInt (int n))) AUTONOMY_RANK)),
        (''risk_rank'', JObj (map (map_prod id (\<lambda>n. JInt (int n))) RISK_RANK)),
        (''safe_health'', r_safe_health default_rules),
        (''non_mutating_actions'', r_non_mutating default_rules),
        (''control_plane_optional_actions'', r_control_plane_optional default_rules),
        (''product_health_exempt_work_types'', r_product_health_exempt default_rules),
        (''evidence_actions'', r_evidence_actions default_rules),
        (''always_human_actions'', r_always_human default_rules)])]"

lemma load_sample: "load_effective_policy flat_sha (Parsed sample_policy) = Inr (dict_of sample_policy)"
  by (simp add: load_effective_policy_def verify_policy_ir_def flat_sha_def flat_digest_def sample_policy_def flag_def Let_def num_eq_def)

lemma rules_sample: "validated_rules (Some (dict_of sample_policy)) = Inr (default_rules, Some (replicate 64 (CHR ''a'')))"
proof -
  have k: "keys_are (dict_of (dget (dict_of sample_policy) ''rules'')) RULE_KEYS" by code_simp
  have e: "py_eq (JObj (map (map_prod id JStr) ACTION_MIN_AUTONOMY)) (JObj (map (map_prod id JStr) ACTION_MIN_AUTONOMY))" by code_simp
  have f: "py_eq (JObj (map (map_prod id (\<lambda>n. JInt (int n))) AUTONOMY_RANK)) (JObj (map (map_prod id (\<lambda>n. JInt (int n))) AUTONOMY_RANK))" by code_simp
  have g: "py_eq (JObj (map (map_prod id (\<lambda>n. JInt (int n))) RISK_RANK)) (JObj (map (map_prod id (\<lambda>n. JInt (int n))) RISK_RANK))" by code_simp
  show ?thesis using k e f g
    by (simp add: validated_rules_def sample_policy_def del: py_eq.simps)
qed

end
