(* ===== verification/PyTime.thy ===== *)
theory PyTime
  imports PyVal
begin

text \<open>
  Timestamps.  An aware \<open>datetime\<close> is its instant: the microseconds since 0001-01-01T00:00 UTC.
  \<open>fromisoformat\<close> models the extended calendar forms of \<open>datetime.fromisoformat\<close>
  (\<open>YYYY-MM-DD\<close>, any separator, \<open>HH[:MM[:SS[.f]]]\<close>, an optional offset); compact and
  week-date forms, which no producer of the framework writes, give no value.  On top of it are
  \<open>evidence.parse_time\<close>, the one parser of the trusted code, and \<open>leases.iso\<close>, its printer.
  The locale \<open>time_codec\<close> states what every user of the two relies on; it is interpreted on them
  at the end.
\<close>

section \<open>The proleptic Gregorian calendar\<close>

definition is_leap :: "int \<Rightarrow> bool" where
  "is_leap y = (y mod 4 = 0 \<and> (y mod 100 \<noteq> 0 \<or> y mod 400 = 0))"

definition days_before_year :: "int \<Rightarrow> int" where
  "days_before_year y = (let z = y - 1 in z * 365 + z div 4 - z div 100 + z div 400)"

definition days_in_month :: "int \<Rightarrow> nat \<Rightarrow> int" where
  "days_in_month y m = (if m = 2 then (if is_leap y then 29 else 28)
     else if m = 4 \<or> m = 6 \<or> m = 9 \<or> m = 11 then 30 else 31)"

primrec days_before_month :: "int \<Rightarrow> nat \<Rightarrow> int" where
  "days_before_month y 0 = - days_in_month y 0"
| "days_before_month y (Suc m) = days_before_month y m + days_in_month y m"

definition ymd2ord :: "int \<Rightarrow> nat \<Rightarrow> int \<Rightarrow> int" where
  "ymd2ord y m d = days_before_year y + days_before_month y m + d"

definition max_ordinal :: int where "max_ordinal = 3652059"
definition day_us :: int where "day_us = 86400000000"

lemma int_div_step:
  fixes z n :: int
  assumes n: "0 < n"
  shows "(z + 1) div n = z div n + (if (z + 1) mod n = 0 then 1 else 0)"
proof (cases "(z + 1) mod n = 0")
  case True
  define q where "q = (z + 1) div n"
  have z: "z = - 1 + n * q"
    using True by (simp add: q_def)
      (metis add_diff_cancel_right' add.right_neutral mult_div_mod_eq uminus_add_conv_diff)
  have "z div n = q + (- 1) div n" unfolding z using n by (subst div_mult_self2) auto
  also have "(- 1) div n = - 1" using n by (rule div_eq_minus1)
  finally show ?thesis using True by (simp add: q_def)
next
  case False
  define a r where "a = z div n" and "r = z mod n"
  have z: "z + 1 = (r + 1) + n * a" by (simp add: a_def r_def)
  have r: "0 \<le> r" "r < n" using n by (simp_all add: r_def)
  have "r + 1 \<noteq> n" using False z by auto
  then have "(z + 1) div n = a" unfolding z using n r by (subst div_mult_self2) auto
  then show ?thesis using False by (simp add: a_def)
qed

lemma leap_arith:
  fixes y a b k :: int
  shows "(r \<longrightarrow> q) \<Longrightarrow> (q \<longrightarrow> p) \<Longrightarrow>
    y * 365 + (a + (if p then 1 else 0)) - (b + (if q then 1 else 0)) + (k + (if r then 1 else 0))
      = (y - 1) * 365 + a - b + k + (if p \<and> (\<not> q \<or> r) then 366 else 365)"
  by (cases p; cases q; cases r) simp_all

lemma int_div_pred: "0 < n \<Longrightarrow> y div n = (y - 1) div n + (if y mod n = 0 then 1 else 0)" for y n :: int
  using int_div_step [of n "y - 1"] by simp

lemma days_before_year_step:
  "days_before_year (y + 1) = days_before_year y + (if is_leap y then 366 else 365)"
proof -
  have c: "y mod 400 = 0 \<longrightarrow> y mod 100 = 0" "y mod 100 = 0 \<longrightarrow> y mod 4 = 0"
    using mod_mod_cancel [of 100 400 y] mod_mod_cancel [of 4 100 y] by force+
  have s: "y div 4 = (y - 1) div 4 + (if y mod 4 = 0 then 1 else 0)"
    "y div 100 = (y - 1) div 100 + (if y mod 100 = 0 then 1 else 0)"
    "y div 400 = (y - 1) div 400 + (if y mod 400 = 0 then 1 else 0)"
    by (rule int_div_pred, simp)+
  have e: "days_before_year (y + 1) = y * 365 + y div 4 - y div 100 + y div 400"
    "days_before_year y = (y - 1) * 365 + (y - 1) div 4 - (y - 1) div 100 + (y - 1) div 400"
    by (simp_all add: days_before_year_def Let_def)
  show ?thesis
    unfolding e is_leap_def s by (rule leap_arith [OF c])
qed

lemma days_in_month_bounds: "28 \<le> days_in_month y m" "days_in_month y m \<le> 31"
  by (auto simp: days_in_month_def)

lemma days_before_month_13: "days_before_month y 13 = (if is_leap y then 366 else 365)"
  by (simp add: days_in_month_def eval_nat_numeral)

lemma days_before_month_1 [simp]: "days_before_month y 1 = 0" "days_before_month y (Suc 0) = 0"
  by (simp_all add: One_nat_def)

text \<open>The inverse of \<open>ymd2ord\<close>, by the search \<open>datetime.fromordinal\<close> abbreviates.\<close>

function find_year :: "int \<Rightarrow> int \<Rightarrow> int" where
  "find_year y n = (if days_before_year (y + 1) < n then find_year (y + 1) n else y)"
  by pat_completeness auto
termination
  by (relation "measure (\<lambda>(y, n). nat (n - days_before_year y))")
    (auto simp: days_before_year_step split: if_splits)

declare find_year.simps [simp del]

function find_month :: "int \<Rightarrow> nat \<Rightarrow> int \<Rightarrow> nat \<times> int" where
  "find_month y m k = (if m < 12 \<and> days_in_month y m < k
     then find_month y (Suc m) (k - days_in_month y m) else (m, k))"
  by pat_completeness auto
termination
  by (relation "measure (\<lambda>(y, m, k). 12 - m)") auto

declare find_month.simps [simp del]

definition ord2ymd :: "int \<Rightarrow> int \<times> nat \<times> int" where
  "ord2ymd n = (let y = find_year ((n - 1) div 366 + 1) n; (m, d) = find_month y 1 (n - days_before_year y)
     in (y, m, d))"

lemma find_year_spec:
  "days_before_year y < n \<Longrightarrow> y \<le> find_year y n \<and> days_before_year (find_year y n) < n
     \<and> n \<le> days_before_year (find_year y n + 1)"
proof (induction y n rule: find_year.induct)
  case (1 y n)
  then show ?case by (cases "days_before_year (y + 1) < n") (auto simp: find_year.simps [of y n])
qed

lemma days_before_year_le: "1 \<le> y \<Longrightarrow> days_before_year y \<le> 366 * (y - 1)"
proof (induction y rule: int_ge_induct)
  case base
  then show ?case by (simp add: days_before_year_def)
next
  case (step y)
  then show ?case by (simp add: days_before_year_step)
qed

lemma days_before_year_mono: "y \<le> z \<Longrightarrow> days_before_year y \<le> days_before_year z"
proof (induction z rule: int_ge_induct)
  case base
  then show ?case by simp
next
  case (step z)
  then show ?case by (simp add: days_before_year_step)
qed

lemma find_month_spec:
  assumes "find_month y m k = (m', d)" "1 \<le> m" "m \<le> 12" "1 \<le> k"
    "days_before_month y m + k \<le> days_before_month y 13"
  shows "m \<le> m' \<and> m' \<le> 12 \<and> 1 \<le> d \<and> d \<le> days_in_month y m'
     \<and> days_before_month y m' + d = days_before_month y m + k"
  using assms
proof (induction y m k rule: find_month.induct)
  case (1 y m k)
  show ?case
  proof (cases "m < 12 \<and> days_in_month y m < k")
    case True
    with 1 show ?thesis by (auto simp: find_month.simps [of y m k])
  next
    case False
    with "1.prems" have md: "m' = m" "d = k" by (auto simp: find_month.simps [of y m k])
    have "k \<le> days_in_month y m"
    proof (cases "m < 12")
      case True
      with False show ?thesis by simp
    next
      case lt: False
      with "1.prems" have "m = 12" by simp
      moreover have "days_before_month y 13 = days_before_month y 12 + days_in_month y 12"
        using days_before_month.simps(2) [of y 12] by (simp add: eval_nat_numeral)
      ultimately show ?thesis using "1.prems"(5) by simp
    qed
    with md "1.prems" show ?thesis by simp
  qed
qed

lemma ord2ymd_spec:
  assumes "1 \<le> n" "n \<le> max_ordinal" "ord2ymd n = (y, m, d)"
  shows "1 \<le> y \<and> y \<le> 9999 \<and> 1 \<le> m \<and> m \<le> 12 \<and> 1 \<le> d \<and> d \<le> days_in_month y m
     \<and> ymd2ord y m d = n"
proof -
  define y0 where "y0 = (n - 1) div 366 + 1"
  have "1 \<le> y0" using assms(1) by (simp add: y0_def)
  moreover have "days_before_year y0 < n"
    using days_before_year_le [OF \<open>1 \<le> y0\<close>] unfolding y0_def by (simp add: assms(1))
  ultimately have Y: "y0 \<le> y" "days_before_year y < n" "n \<le> days_before_year (y + 1)"
    using find_year_spec [of y0 n] assms(3) by (auto simp: ord2ymd_def y0_def Let_def split: prod.splits)
  have y1: "1 \<le> y" using \<open>1 \<le> y0\<close> Y by simp
  have fm: "find_month y 1 (n - days_before_year y) = (m, d)"
    using assms(3) by (auto simp: ord2ymd_def Let_def split: prod.splits)
  have M: "1 \<le> m \<and> m \<le> 12 \<and> 1 \<le> d \<and> d \<le> days_in_month y m
      \<and> days_before_month y m + d = n - days_before_year y"
    using find_month_spec [OF fm] Y by (simp add: days_before_month_13 days_before_year_step)
  have "y \<le> 9999"
  proof (rule ccontr)
    assume "\<not> y \<le> 9999"
    then have "days_before_year 10000 \<le> days_before_year y" by (intro days_before_year_mono) simp
    moreover have "days_before_year 10000 = max_ordinal"
      by (simp add: days_before_year_def max_ordinal_def Let_def)
    ultimately show False using Y assms(2) by simp
  qed
  with y1 M show ?thesis by (simp add: ymd2ord_def)
qed

section \<open>Reading and writing ISO 8601 texts\<close>

definition two :: "string \<Rightarrow> (nat \<times> string) option" where
  "two s = (case s of a # b # r \<Rightarrow>
     (if is_digit a \<and> is_digit b then Some (10 * digit_val a + digit_val b, r) else None) | _ \<Rightarrow> None)"

definition after :: "string \<Rightarrow> string \<Rightarrow> string option" where
  "after p s = (if starts_with s p then Some (drop (length p) s) else None)"

definition iso_date :: "string \<Rightarrow> ((int \<times> nat \<times> int) \<times> string) option" where
  "iso_date s = (case two s of None \<Rightarrow> None | Some (c, s1) \<Rightarrow> (case two s1 of None \<Rightarrow> None | Some (yy, s2) \<Rightarrow>
     (case after ''-'' s2 of None \<Rightarrow> None | Some s3 \<Rightarrow> (case two s3 of None \<Rightarrow> None | Some (m, s4) \<Rightarrow>
     (case after ''-'' s4 of None \<Rightarrow> None | Some s5 \<Rightarrow> (case two s5 of None \<Rightarrow> None | Some (d, s6) \<Rightarrow>
       (let y = 100 * int c + int yy in
        if 1 \<le> y \<and> 1 \<le> m \<and> m \<le> 12 \<and> 1 \<le> d \<and> int d \<le> days_in_month y m
        then Some ((y, m, int d), s6) else None)))))))"

text \<open>Up to six digits of a fraction, as microseconds; further digits are dropped.\<close>

definition micros :: "string \<Rightarrow> nat" where
  "micros f = digits_val (take 6 f) * 10 ^ (6 - length (take 6 f))"

text \<open>\<open>HH[:MM[:SS[.f]]]\<close>: the microseconds of the day and the rest of the text.\<close>

definition iso_clock :: "string \<Rightarrow> ((nat \<times> nat \<times> nat \<times> nat) \<times> string) option" where
  "iso_clock s = (case two s of None \<Rightarrow> None | Some (h, s1) \<Rightarrow>
     (case after '':'' s1 of None \<Rightarrow> Some ((h, 0, 0, 0), s1) | Some s2 \<Rightarrow>
     (case two s2 of None \<Rightarrow> None | Some (m, s3) \<Rightarrow>
     (case after '':'' s3 of None \<Rightarrow> Some ((h, m, 0, 0), s3) | Some s4 \<Rightarrow>
     (case two s4 of None \<Rightarrow> None | Some (sec, s5) \<Rightarrow>
     (if take 1 s5 = ''.'' \<or> take 1 s5 = '',''
      then (let f = takeWhile is_digit (drop 1 s5) in
            if f = [] then None else Some ((h, m, sec, micros f), dropWhile is_digit (drop 1 s5)))
      else Some ((h, m, sec, 0), s5)))))))"

definition clock_us :: "nat \<times> nat \<times> nat \<times> nat \<Rightarrow> int" where
  "clock_us = (\<lambda>(h, m, s, u). (int h * 3600 + int m * 60 + int s) * 1000000 + int u)"

text \<open>The offset: none, \<open>Z\<close>, or a signed clock time below 24 hours.\<close>

definition iso_offset :: "string \<Rightarrow> int option option" where
  "iso_offset s = (if s = [] then Some None else if s = ''Z'' then Some (Some 0)
     else if take 1 s = ''+'' \<or> take 1 s = ''-'' then
       (case iso_clock (drop 1 s) of
          Some (c, []) \<Rightarrow> (if clock_us c < day_us
             then Some (Some (if take 1 s = ''-'' then - clock_us c else clock_us c)) else None)
        | _ \<Rightarrow> None)
     else None)"

text \<open>The local time and, for an aware value, its offset from UTC, in microseconds.\<close>

definition fromisoformat :: "string \<Rightarrow> (int \<times> int option) option" where
  "fromisoformat s = (case iso_date s of None \<Rightarrow> None | Some ((y, m, d), r) \<Rightarrow>
     (let day = (ymd2ord y m d - 1) * day_us in
      if length r \<le> 1 then Some (day, None)
      else (case iso_clock (drop 1 r) of None \<Rightarrow> None | Some ((h, mi, sec, u), tz) \<Rightarrow>
        (if h < 24 \<and> mi < 60 \<and> sec < 60
         then map_option (\<lambda>off. (day + clock_us (h, mi, sec, u), off)) (iso_offset tz) else None))))"

definition in_range :: "int \<Rightarrow> bool" where
  "in_range t = (0 \<le> t \<and> t < max_ordinal * day_us)"

definition replace_Z :: "string \<Rightarrow> string" where
  "replace_Z s = concat (map (\<lambda>c. if c = CHR ''Z'' then ''+00:00'' else [c]) s)"

text \<open>\<open>evidence.parse_time\<close>: the instant of an aware ISO text.\<close>

definition parse_time :: "string \<Rightarrow> int res" where
  "parse_time s = (case fromisoformat (replace_Z s) of
     None \<Rightarrow> Inl (ValueError ''Invalid isoformat string'')
   | Some (t, None) \<Rightarrow> Inl (ValueError ''timezone required'')
   | Some (t, Some off) \<Rightarrow> (if in_range (t - off) then Inr (t - off) else Inl OverflowError))"

definition pad2 :: "nat \<Rightarrow> string" where
  "pad2 n = [digit_char (n div 10 mod 10), digit_char (n mod 10)]"

definition pad6 :: "nat \<Rightarrow> string" where
  "pad6 n = pad2 (n div 10000 mod 100) @ pad2 (n div 100 mod 100) @ pad2 (n mod 100)"

text \<open>\<open>leases.iso\<close>: \<open>isoformat()\<close> in UTC with \<open>Z\<close>; the fraction only when it is not zero.\<close>

definition iso :: "int \<Rightarrow> string" where
  "iso t = (let (y, m, d) = ord2ymd (t div day_us + 1); w = nat (t mod day_us);
       sec = w div 1000000; u = w mod 1000000
     in pad2 (nat y div 100) @ pad2 (nat y mod 100) @ ''-'' @ pad2 m @ ''-'' @ pad2 (nat d) @ ''T''
        @ pad2 (sec div 3600) @ '':'' @ pad2 (sec div 60 mod 60) @ '':'' @ pad2 (sec mod 60)
        @ (if u = 0 then [] else ''.'' @ pad6 u) @ ''Z'')"

definition minutes :: "int \<Rightarrow> int" where "minutes k = k * 60000000"
definition seconds :: "int \<Rightarrow> int" where "seconds k = k * 1000000"


section \<open>Reading back what was written\<close>

lemma two_pad2 [simp]: "n < 100 \<Longrightarrow> two (pad2 n @ r) = Some (n, r)"
  by (simp add: two_def pad2_def is_digit_digit_char digit_val_digit_char)

lemma after_hit [simp]: "after [c] (c # r) = Some r"
  by (simp add: after_def starts_with_def)

lemma after_miss [simp]: "c \<noteq> c' \<Longrightarrow> after [c] (c' # r) = None"
  by (simp add: after_def starts_with_def)

lemma iso_date_pads:
  assumes "1 \<le> y" "y \<le> 9999" "1 \<le> m" "m \<le> 12" "1 \<le> d" "d \<le> days_in_month y m"
  shows "iso_date (pad2 (nat y div 100) @ pad2 (nat y mod 100) @ ''-'' @ pad2 m @ ''-'' @ pad2 (nat d) @ r)
    = Some ((y, m, d), r)"
proof -
  have n: "nat y div 100 < 100" "nat y mod 100 < 100" "m < 100" using assms by auto
  have d: "nat d < 100" using assms(6) days_in_month_bounds [of y m] by simp
  have y: "100 * int (nat y div 100) + int (nat y mod 100) = y"
    using assms(1) by (metis mult_div_mod_eq nat_0_le of_nat_add of_nat_mult of_nat_numeral order_trans zero_le_one)
  show ?thesis
    unfolding iso_date_def using n d y assms by (simp add: Let_def)
qed

lemma digits_pad2: "list_all is_digit (pad2 n)" "length (pad2 n) = 2"
  by (simp_all add: pad2_def is_digit_digit_char)

lemma digits_pad6: "list_all is_digit (pad6 n)" "length (pad6 n) = 6"
  by (simp_all add: pad6_def digits_pad2)

lemma takeWhile_digits: "list_all is_digit xs \<Longrightarrow> \<not> is_digit c \<Longrightarrow>
    takeWhile is_digit (xs @ c # r) = xs \<and> dropWhile is_digit (xs @ c # r) = c # r"
  by (induction xs) auto

lemma digits_val_pad2: "digits_val (pad2 n @ s) = foldl (\<lambda>a c. 10 * a + digit_val c) (n mod 100) s"
proof -
  have "10 * (n div 10 mod 10) + n mod 10 = n mod 100"
    using mod_mult2_eq [of n 10 10] by simp
  then show ?thesis
    by (simp add: digits_val_def pad2_def digit_val_digit_char)
qed

lemma foldl_pad2: "foldl (\<lambda>a c. 10 * a + digit_val c) k (pad2 n @ s)
   = foldl (\<lambda>a c. 10 * a + digit_val c) (100 * k + n mod 100) s"
proof -
  have "10 * (10 * k + n div 10 mod 10) + n mod 10 = 100 * k + n mod 100"
    using mod_mult2_eq [of n 10 10] by simp
  then have "10 * (10 * k + n div 10 mod 10) + n mod 10 = 100 * k + n mod 100"
    by simp
  then show ?thesis
    by (simp add: pad2_def digit_val_digit_char del: mult_Suc_right distrib_left_numeral)
qed

lemma micros_pad6: "u < 1000000 \<Longrightarrow> micros (pad6 u) = u"
proof -
  assume u: "u < 1000000"
  have "100 * (u div 10000) + u div 100 mod 100 = u div 100"
    using div_mult2_eq [of u 100 100] mult_div_mod_eq [of 100 "u div 100"] by simp
  then have "100 * (100 * (u div 10000) + u div 100 mod 100) + u mod 100 = u"
    by (metis mult_div_mod_eq)
  moreover have "digits_val (pad6 u) = 100 * (100 * (u div 10000 mod 100) + u div 100 mod 100) + u mod 100"
    using foldl_pad2 [of _ "u mod 100" "[]"] foldl_pad2 [of _ "u div 100 mod 100" "pad2 (u mod 100)"]
    by (simp add: pad6_def digits_val_pad2)
  ultimately show ?thesis
    using u by (simp add: micros_def digits_pad6)
qed

lemma iso_clock_pads:
  assumes "h < 100" "m < 100" "s < 100" "u < 1000000" "c \<notin> {CHR ''.'', CHR '',''}" "\<not> is_digit c"
  shows "iso_clock (pad2 h @ '':'' @ pad2 m @ '':'' @ pad2 s @ (if u = 0 then [] else ''.'' @ pad6 u) @ c # r)
    = Some ((h, m, s, u), c # r)"
proof (cases "u = 0")
  case True
  with assms show ?thesis by (simp add: iso_clock_def)
next
  case False
  have "pad6 u \<noteq> []" using digits_pad6(2) [of u] by force
  with False assms takeWhile_digits [OF digits_pad6(1) assms(6), of u r] show ?thesis
    by (simp add: iso_clock_def micros_pad6)
qed

lemma replace_Z_append [simp]: "replace_Z (xs @ ys) = replace_Z xs @ replace_Z ys"
  by (simp add: replace_Z_def)

lemma replace_Z_Cons [simp]: "c \<noteq> CHR ''Z'' \<Longrightarrow> replace_Z (c # s) = c # replace_Z s"
  by (simp add: replace_Z_def)

lemma replace_Z_Nil [simp]: "replace_Z [] = []" "replace_Z ''Z'' = ''+00:00''"
  by (simp_all add: replace_Z_def)

lemma replace_Z_digits: "list_all is_digit s \<Longrightarrow> replace_Z s = s"
  by (induction s) (auto simp: replace_Z_def is_digit_def)

lemma iso_offset_utc: "iso_offset ''+00:00'' = Some (Some 0)"
  by (simp add: iso_offset_def iso_clock_def two_def after_def starts_with_def is_digit_def
      digit_val_def clock_us_def day_us_def)

lemma nat_hms:
  fixes w :: nat
  shows "w div 3600 * 3600 + w div 60 mod 60 * 60 + w mod 60 = w"
proof -
  have "w div 3600 * 60 + w div 60 mod 60 = w div 60"
    using div_mult2_eq [of w 60 60] div_mult_mod_eq [of "w div 60" 60] by simp
  then have "(w div 3600 * 60 + w div 60 mod 60) * 60 + w mod 60 = w"
    by (metis div_mult_mod_eq)
  then show ?thesis by (simp add: algebra_simps)
qed

lemma clock_us_split:
  fixes w :: nat
  defines "s \<equiv> w div 1000000"
  shows "clock_us (s div 3600, s div 60 mod 60, s mod 60, w mod 1000000) = int w"
proof -
  have "int (s div 3600) * 3600 + int (s div 60 mod 60) * 60 + int (s mod 60) = int s"
    using nat_hms [of s] by (metis (no_types, opaque_lifting) of_nat_add of_nat_mult of_nat_numeral)
  moreover have "int s * 1000000 + int (w mod 1000000) = int w"
    unfolding s_def by (metis div_mult_mod_eq of_nat_add of_nat_mult of_nat_numeral)
  ultimately show ?thesis by (simp add: clock_us_def)
qed

text \<open>The round trip: \<open>parse_time\<close> reads back exactly the instant that \<open>iso\<close> printed.\<close>

lemma parse_time_iso_lemma:
  assumes "in_range t"
  shows "parse_time (iso t) = Inr t"
proof -
  define n w where "n = t div day_us + 1" and "w = nat (t mod day_us)"
  obtain y m d where ymd: "ord2ymd n = (y, m, d)" by (cases "ord2ymd n") auto
  have n: "1 \<le> n" "n \<le> max_ordinal"
    using assms by (auto simp: n_def in_range_def day_us_def max_ordinal_def)
  note Y = ord2ymd_spec [OF n ymd]
  have w: "w < 86400000000" "int w = t mod day_us" by (simp_all add: w_def day_us_def)
  define s u where "s = w div 1000000" and "u = w mod 1000000"
  have su: "s div 3600 < 24" "s div 60 mod 60 < 60" "s mod 60 < 60" "u < 1000000"
    using w(1) by (simp_all add: s_def u_def less_mult_imp_div_less)
  let ?frac = "if u = 0 then [] else ''.'' @ pad6 u"
  let ?date = "pad2 (nat y div 100) @ pad2 (nat y mod 100) @ ''-'' @ pad2 m @ ''-'' @ pad2 (nat d)"
  let ?clock = "pad2 (s div 3600) @ '':'' @ pad2 (s div 60 mod 60) @ '':'' @ pad2 (s mod 60) @ ?frac"
  have printed: "iso t = ?date @ ''T'' @ ?clock @ ''Z''"
    using ymd by (simp add: iso_def Let_def n_def w_def s_def u_def)
  have rep: "replace_Z (iso t) = ?date @ ''T'' @ ?clock @ ''+00:00''"
    unfolding printed by (simp add: replace_Z_digits digits_pad2 digits_pad6)
  have date: "iso_date (?date @ x) = Some ((y, m, d), x)" for x
    using iso_date_pads [of y m d x] Y by simp
  have clock: "iso_clock (?clock @ ''+00:00'') = Some ((s div 3600, s div 60 mod 60, s mod 60, u), ''+00:00'')"
    using iso_clock_pads [of "s div 3600" "s div 60 mod 60" "s mod 60" u "CHR ''+''" "''00:00''"] su
    by (simp add: is_digit_def)
  have "fromisoformat (?date @ ''T'' @ ?clock @ ''+00:00'') = Some ((n - 1) * day_us + int w, Some 0)"
    unfolding fromisoformat_def date using Y su clock clock_us_split [of w]
    by (simp add: Let_def iso_offset_utc s_def u_def)
  moreover have "(n - 1) * day_us + int w = t"
    unfolding n_def w(2) by (simp add: day_us_def)
  ultimately show ?thesis
    using assms by (simp add: parse_time_def rep)
qed

section \<open>What the users of timestamps rely on\<close>

locale time_codec =
  fixes reader :: "string \<Rightarrow> int res"
    and writer :: "int \<Rightarrow> string"
    and valid :: "int \<Rightarrow> bool"
  assumes parse_print: "valid t \<Longrightarrow> reader (writer t) = Inr t"
    and parse_valid: "reader s = Inr t \<Longrightarrow> valid t"
begin

lemma print_inj: "valid t \<Longrightarrow> valid u \<Longrightarrow> writer t = writer u \<longleftrightarrow> t = u"
  by (metis parse_print sum.inject(2))

lemma reprint: "reader s = Inr t \<Longrightarrow> reader (writer t) = reader s"
  using parse_print parse_valid by simp

lemma parse_str_print: "valid t \<Longrightarrow> reader (py_str (JStr (writer t))) = Inr t"
  by (simp add: parse_print)

end

interpretation utc: time_codec parse_time iso in_range
proof unfold_locales
  show "in_range t \<Longrightarrow> parse_time (iso t) = Inr t" for t
    by (rule parse_time_iso_lemma)
  show "parse_time s = Inr t \<Longrightarrow> in_range t" for s t
    by (auto simp: parse_time_def split: option.splits if_splits)
qed

end
