(* ===== verification/TrustedContext.thy ===== *)
theory TrustedContext
  imports Policy PyTime
begin

text \<open>
  The assurance snapshot (\<open>.adwf/lib/assurance.py\<close>) and the trusted context compiler
  (\<open>.adwf/lib/trusted_context.py\<close>), which turns a caller's identifiers, a snapshot and a provider
  readback into the context that the policy engine decides on.  The clock is the argument \<open>now\<close>,
  in microseconds; the policy file and SHA-256 are arguments as in the policy theory.
\<close>

section \<open>The assurance snapshot\<close>

definition SAFE :: "string list" where
  "SAFE = [''VERIFIED'', ''HEALTHY'']"

definition snapshot_digest :: "(string \<Rightarrow> string) \<Rightarrow> dict \<Rightarrow> string" where
  "snapshot_digest sha d = sha (canonical (JObj (ddel ''snapshot_digest'' d)))"

text \<open>An identifier of a fixed shape which, when a value is expected, must be that value.\<close>

definition bound_id :: "(string \<Rightarrow> bool) \<Rightarrow> json \<Rightarrow> string option \<Rightarrow> string \<Rightarrow> string \<Rightarrow> string list" where
  "bound_id shape v expected invalid mismatch = (case v of
     JStr s \<Rightarrow> if \<not> shape s then [invalid] else flag (case expected of None \<Rightarrow> False | Some e \<Rightarrow> s \<noteq> e) mismatch
   | _ \<Rightarrow> [invalid])"

text \<open>
  The times.  Two aware instants are compared as instants; comparing a naive one with the clock
  raises \<open>TypeError\<close>, which the code does not catch.
\<close>

definition instant :: "int \<times> int option \<Rightarrow> int" where
  "instant x = fst x - (case snd x of None \<Rightarrow> 0 | Some off \<Rightarrow> off)"

definition time_text :: "dict \<Rightarrow> string \<Rightarrow> string" where
  "time_text d k = replace_Z (py_str (dget_or d k (JStr [])))"

definition time_findings :: "int \<Rightarrow> dict \<Rightarrow> string list res" where
  "time_findings now d = (case (fromisoformat (time_text d ''verified_at''), fromisoformat (time_text d ''expires_at'')) of
     (Some v, Some e) \<Rightarrow>
       (let bad = flag (snd v = None \<or> snd e = None \<or> instant e \<le> instant v) ''ASSURANCE_TIME_INVALID'' in
        if snd e = None then Inl TypeError
        else Inr (bad @ flag (instant e \<le> now) ''ASSURANCE_STALE''))
   | _ \<Rightarrow> Inr [''ASSURANCE_TIME_INVALID''])"

definition validate_assurance_snapshot ::
    "(string \<Rightarrow> string) \<Rightarrow> int \<Rightarrow> json \<Rightarrow> string option \<Rightarrow> string option \<Rightarrow> string list res" where
  "validate_assurance_snapshot sha now v expected_sha expected_hash = (case v of
     JObj d \<Rightarrow> bindE (time_findings now d) (\<lambda>times. Inr (uniq (
        flag (\<not> py_eq (dget d ''schema_version'') (JInt 1)) ''ASSURANCE_SCHEMA_VERSION''
        @ bound_id sha40 (dget d ''subject_sha'') expected_sha ''ASSURANCE_SHA_INVALID'' ''ASSURANCE_SHA_MISMATCH''
        @ bound_id sha256_hex (dget d ''policy_hash'') expected_hash ''ASSURANCE_POLICY_HASH_INVALID'' ''ASSURANCE_POLICY_HASH_MISMATCH''
        @ flag (\<not> is_dict (dget d ''health'')) ''ASSURANCE_HEALTH_INVALID''
        @ flag (\<not> is_dict (dget d ''gates'')) ''ASSURANCE_GATES_INVALID''
        @ flag (\<not> is_dict (dget d ''cost'')) ''ASSURANCE_COST_INVALID''
        @ flag (\<not> is_dict (dget d ''evidence'')) ''ASSURANCE_EVIDENCE_INVALID''
        @ flag (\<not> is_dict (dget d ''provider'')) ''ASSURANCE_PROVIDER_INVALID''
        @ flag (dget d ''snapshot_digest'' \<noteq> JStr (snapshot_digest sha d)) ''ASSURANCE_DIGEST_INVALID''
        @ times)))
   | _ \<Rightarrow> Inr [''ASSURANCE_NOT_OBJECT''])"

definition REQUIRED_HEALTH :: "string list" where
  "REQUIRED_HEALTH = [''package_integrity'', ''config_health'', ''control_plane_health'', ''product_health'']"

definition gates_of :: "dict \<Rightarrow> json list res" where
  "gates_of d = iterE (py_or (dget d ''required_gates'') (JList []))"

definition machine_verified :: "(string \<Rightarrow> string) \<Rightarrow> int \<Rightarrow> json \<Rightarrow> string option \<Rightarrow> string res" where
  "machine_verified sha now v expected_sha = (if \<not> truthy v then Inr ''NOT_VERIFIED''
     else bindE (validate_assurance_snapshot sha now v expected_sha None) (\<lambda>errors.
     if errors \<noteq> [] then Inr (if errors = [''ASSURANCE_STALE''] then ''STALE'' else ''NOT_VERIFIED'')
     else (let d = dict_of v; cost = dict_of (dget d ''cost'') in
       bindE (allE' (\<lambda>n. in_set (dget (dict_of (dget d ''health'')) n) SAFE) REQUIRED_HEALTH) (\<lambda>healthy.
       if \<not> healthy then Inr ''NOT_VERIFIED''
       else bindE (gates_of d) (\<lambda>gates. bindE (gate_not_pass (dget d ''gates'') gates) (\<lambda>failing.
       Inr (if failing \<or> dget (dict_of (dget d ''evidence'')) ''refs_resolved'' \<noteq> JBool True
              \<or> dget (dict_of (dget d ''provider'')) ''readback_verified'' \<noteq> JBool True
              \<or> dget cost ''status'' \<noteq> JStr ''VERIFIED_ZERO'' \<or> \<not> py_eq (dget cost ''projected_cost_usd'') (JInt 0)
            then ''NOT_VERIFIED'' else ''VERIFIED'')))))))"

section \<open>The trusted context\<close>

definition ALLOWED_REQUEST_FIELDS :: "string list" where
  "ALLOWED_REQUEST_FIELDS = [''request_id'', ''subject_sha'', ''preview_digest'']"

definition RUNNER_ACTIONS :: "string list" where
  "RUNNER_ACTIONS = [''test'', ''review'', ''verify'', ''owner_accept'', ''merge'', ''promote'', ''observe'', ''close_issue'']"

text \<open>What the provider readback must show, in the order of the code.\<close>

definition provider_error :: "string \<Rightarrow> string \<Rightarrow> dict \<Rightarrow> string option" where
  "provider_error action subject_sha p =
     (if dget p ''subject_sha'' \<noteq> JStr subject_sha then Some ''PROVIDER_READBACK_SHA_MISMATCH''
      else if dget p ''facts_readback_verified'' \<noteq> JBool True then Some ''PROVIDER_FACTS_READBACK_NOT_VERIFIED''
      else if dget p ''repository_visibility'' \<noteq> JStr ''PUBLIC'' then Some ''PUBLIC_PROFILE_VISIBILITY_NOT_VERIFIED''
      else if action \<in> set RUNNER_ACTIONS \<and> dget p ''runner'' \<noteq> JStr ''ubuntu-24.04'' then Some ''STANDARD_RUNNER_NOT_VERIFIED''
      else if dget p ''larger_runner'' = JBool True then Some ''LARGER_RUNNER_BLOCKED''
      else None)"

text \<open>The owner accepted exactly this commit and this preview.\<close>

definition owner_exact :: "string \<Rightarrow> json \<Rightarrow> dict \<Rightarrow> bool" where
  "owner_exact subject_sha preview p = (let owner = dict_of (dget p ''owner_decision'') in
     dget owner ''readback_verified'' = JBool True \<and> dget owner ''decision'' = JStr ''ACCEPTED''
     \<and> dget owner ''head_sha'' = JStr subject_sha \<and> py_eq (dget owner ''preview_digest'') preview)"

definition policy_source :: "dict \<Rightarrow> unit res" where
  "policy_source policy = bindE (in_set (dget policy ''active_autonomy'') [''A0'', ''A1'', ''A2'', ''A3'']) (\<lambda>a.
     if \<not> a then Inl (ValueError ''EFFECTIVE_POLICY_TRUSTED_SOURCE_MISSING'')
     else bindE (in_set (dget policy ''max_autonomous_risk'') [''R0'', ''R1'', ''R2'', ''R3'']) (\<lambda>r.
     if \<not> r then Inl (ValueError ''EFFECTIVE_POLICY_TRUSTED_SOURCE_MISSING'') else Inr ()))"

definition trusted_context :: "string \<Rightarrow> string \<Rightarrow> string \<Rightarrow> dict \<Rightarrow> dict \<Rightarrow> json list \<Rightarrow> bool \<Rightarrow> decision_context" where
  "trusted_context action risk work_type policy a gates owner = \<lparr>
     dc_action = JStr action, dc_autonomy = JStr (py_str (dget policy ''active_autonomy'')), dc_risk = JStr risk,
     dc_max_autonomous_risk = JStr (py_str (dget policy ''max_autonomous_risk'')), dc_work_type = JStr work_type,
     dc_health = dget a ''health'', dc_gates = dget a ''gates'', dc_required_gates = gates, dc_exact_sha = JBool True,
     dc_evidence_fresh = JBool (dget (dict_of (dget a ''evidence'')) ''refs_resolved'' = JBool True),
     dc_human_approved = JBool owner, dc_destructive = JBool False, dc_trust_change = JBool False,
     dc_writer_conflict = JBool False, dc_provider_allowed = JBool True, dc_provider_potentially_paid = JBool False,
     dc_projected_cost = JFloat (Fin 0) ''0.0'', dc_expected_policy_hash = dget policy ''policy_hash'',
     dc_provider_facts_fresh = JBool True, dc_owner_acceptance_exact = JBool owner \<rparr>"

definition compile_trusted_context ::
    "(string \<Rightarrow> string) \<Rightarrow> json_file \<Rightarrow> int \<Rightarrow> string \<Rightarrow> string \<Rightarrow> string \<Rightarrow> dict \<Rightarrow> json \<Rightarrow> dict \<Rightarrow> decision_context res" where
  "compile_trusted_context sha file now action risk work_type request snapshot p =
     (let unknown = keys_beyond request ALLOWED_REQUEST_FIELDS; subject_sha = py_str (py_or (dget request ''subject_sha'') (JStr [])) in
      if unknown \<noteq> [] then Inl (ValueError (''CALLER_POSITIVE_FACTS_FORBIDDEN:'' @ join '','' (sort unknown)))
      else if \<not> sha40 subject_sha then Inl (ValueError ''TRUSTED_CONTEXT_SHA_REQUIRED'')
      else bindE (load_effective_policy sha file) (\<lambda>policy.
      bindE (validate_assurance_snapshot sha now snapshot (Some subject_sha) (Some (str_of (dget policy ''policy_hash'')))) (\<lambda>errors.
      if errors \<noteq> [] then Inl (ValueError (''ASSURANCE_INVALID:'' @ join '','' errors))
      else (case provider_error action subject_sha p of Some e \<Rightarrow> Inl (ValueError e)
      | None \<Rightarrow> bindE (policy_source policy) (\<lambda>_. let a = dict_of snapshot in
          bindE (gates_of a) (\<lambda>gates.
          Inr (trusted_context action risk work_type policy a gates
            (owner_exact subject_sha (dget request ''preview_digest'') p \<and> dget a ''policy_hash'' = dget policy ''policy_hash''))))))))"


lemma bound_id_Nil: "bound_id shape v expected i m = [] \<longleftrightarrow> (\<exists>s. v = JStr s \<and> shape s \<and> expected \<in> {None, Some s})"
  by (auto simp: bound_id_def split: json.split option.splits if_splits)

lemma time_findings_Nil: "time_findings now d = Inr [] \<longleftrightarrow>
   (\<exists>v o1 e o2. fromisoformat (time_text d ''verified_at'') = Some (v, Some o1) \<and> fromisoformat (time_text d ''expires_at'') = Some (e, Some o2)
      \<and> v - o1 < e - o2 \<and> now < e - o2)"
  by (auto simp: time_findings_def Let_def instant_def not_le split: option.splits prod.splits)

text \<open>What a snapshot without findings shows.\<close>

definition sound_snapshot :: "(string \<Rightarrow> string) \<Rightarrow> int \<Rightarrow> string \<Rightarrow> string \<Rightarrow> dict \<Rightarrow> bool" where
  "sound_snapshot sha now s h a = (sha40 s \<and> dget a ''subject_sha'' = JStr s \<and> dget a ''policy_hash'' = JStr h
     \<and> dget a ''snapshot_digest'' = JStr (snapshot_digest sha a) \<and> time_findings now a = Inr []
     \<and> (\<forall>k \<in> {''health'', ''gates'', ''cost'', ''evidence'', ''provider''}. is_dict (dget a k)))"

lemma snapshot_sound:
  assumes "validate_assurance_snapshot sha now v (Some s) (Some h) = Inr []"
  shows "\<exists>a. v = JObj a \<and> sound_snapshot sha now s h a"
  using assms by (cases v) (auto simp: validate_assurance_snapshot_def bindE_eq_Inr bound_id_Nil sound_snapshot_def)

lemma compiled:
  assumes "compile_trusted_context sha file now action risk work_type request snapshot p = Inr c"
  shows "\<exists>s policy h a gates. keys_beyond request ALLOWED_REQUEST_FIELDS = [] \<and> s = py_str (py_or (dget request ''subject_sha'') (JStr []))
     \<and> load_effective_policy sha file = Inr policy \<and> dget policy ''policy_hash'' = JStr h \<and> snapshot = JObj a \<and> sound_snapshot sha now s h a
     \<and> provider_error action s p = None \<and> policy_source policy = Inr () \<and> gates_of a = Inr gates
     \<and> c = trusted_context action risk work_type policy a gates (owner_exact s (dget request ''preview_digest'') p)"
proof -
  from assms obtain policy gates where c: "keys_beyond request ALLOWED_REQUEST_FIELDS = []" "load_effective_policy sha file = Inr policy"
    "validate_assurance_snapshot sha now snapshot (Some (py_str (py_or (dget request ''subject_sha'') (JStr [])))) (Some (str_of (dget policy ''policy_hash''))) = Inr []"
    "provider_error action (py_str (py_or (dget request ''subject_sha'') (JStr []))) p = None" "policy_source policy = Inr ()"
    "gates_of (dict_of snapshot) = Inr gates"
    "c = trusted_context action risk work_type policy (dict_of snapshot) gates
       (owner_exact (py_str (py_or (dget request ''subject_sha'') (JStr []))) (dget request ''preview_digest'') p
         \<and> dget (dict_of snapshot) ''policy_hash'' = dget policy ''policy_hash'')"
    by (auto simp: compile_trusted_context_def Let_def bindE_eq_Inr split: if_split_asm option.split_asm)
  from c(2) obtain h where h: "dget policy ''policy_hash'' = JStr h"
    by (auto simp: load_effective_policy_def verify_policy_ir_def Let_def split: json_file.splits if_splits json.splits)
  from snapshot_sound [OF c(3)] h obtain a where "snapshot = JObj a" "sound_snapshot sha now (py_str (py_or (dget request ''subject_sha'') (JStr []))) h a" by auto
  with c h show ?thesis by (auto simp: sound_snapshot_def)
qed


section \<open>Properties\<close>

lemma decided_by_policy:
  assumes "evaluate_with_effective_policy sha file c = Inr d" "load_effective_policy sha file = Inr policy"
  shows "evaluate_permission c (Some policy) = Inr d"
  using assms by (simp add: evaluate_with_effective_policy_def)

lemma trusted_context_fields:
  "dc_action (trusted_context action risk w policy a gates b) = JStr action" "dc_risk (trusted_context action risk w policy a gates b) = JStr risk"
  "truthy (dc_evidence_fresh (trusted_context action risk w policy a gates b)) \<longleftrightarrow> dget (dict_of (dget a ''evidence'')) ''refs_resolved'' = JBool True"
  "dc_required_gates (trusted_context action risk w policy a gates b) = gates" "dc_gates (trusted_context action risk w policy a gates b) = dget a ''gates''"
  "truthy (dc_human_approved (trusted_context action risk w policy a gates b)) \<longleftrightarrow> b"
  "dc_max_autonomous_risk (trusted_context action risk w policy a gates b) = JStr (py_str (dget policy ''max_autonomous_risk''))"
  "dc_expected_policy_hash (trusted_context action risk w policy a gates b) = dget policy ''policy_hash''"
  by (simp_all add: trusted_context_def)

text \<open>
  C4.  An ALLOW on a compiled context rests on readbacks only: the request names nothing but
  identifiers; the policy hash decided under is that of the policy file and of the snapshot; the
  snapshot is intact, current at the time of the decision and about the requested commit; the
  provider readback is about that commit too, verified, of a public repository without a larger
  runner; an action that needs evidence had its references resolved and every required gate at
  PASS; and unless the owner's acceptance of exactly this commit and preview was read back from the
  provider, the risk is below R4 and within the policy's ceiling and the action is not an A4 one.
\<close>

theorem trusted_allow_rests_on_readback:
  assumes "compile_trusted_context sha file now action risk work_type request snapshot p = Inr c"
    and "evaluate_with_effective_policy sha file c = Inr d" "d_result d = ''ALLOW''"
    and "load_effective_policy sha file = Inr policy" "validated_rules (Some policy) = Inr (r, h)"
  shows "\<exists>s a hash gates. dget policy ''policy_hash'' = JStr hash \<and> d_policy_hash d = Some hash \<and> snapshot = JObj a \<and> gates_of a = Inr gates
    \<and> s = py_str (py_or (dget request ''subject_sha'') (JStr [])) \<and> set (dkeys request) \<subseteq> set ALLOWED_REQUEST_FIELDS
    \<and> sound_snapshot sha now s hash a
    \<and> dget p ''subject_sha'' = JStr s \<and> dget p ''facts_readback_verified'' = JBool True
    \<and> dget p ''repository_visibility'' = JStr ''PUBLIC'' \<and> dget p ''larger_runner'' \<noteq> JBool True
    \<and> (in_ruleE (JStr action) (r_evidence_actions r) = Inr True \<longrightarrow>
         dget (dict_of (dget a ''evidence'')) ''refs_resolved'' = JBool True \<and> (\<forall>g \<in> set gates. get_keyE (dget a ''gates'') g = Inr (JStr ''PASS'')))
    \<and> (owner_exact s (dget request ''preview_digest'') p \<or>
         risk \<noteq> ''R4'' \<and> rank RISK_RANK (JStr risk) \<le> rank RISK_RANK (JStr (py_str (dget policy ''max_autonomous_risk''))) \<and> min_autonomy (JStr action) \<noteq> ''A4'')"
proof -
  obtain s a hash gates where k: "keys_beyond request ALLOWED_REQUEST_FIELDS = []" "s = py_str (py_or (dget request ''subject_sha'') (JStr []))"
    "dget policy ''policy_hash'' = JStr hash" "snapshot = JObj a" "sound_snapshot sha now s hash a" "provider_error action s p = None" "gates_of a = Inr gates"
    "c = trusted_context action risk work_type policy a gates (owner_exact s (dget request ''preview_digest'') p)"
    using compiled [OF assms(1)] assms(4) by auto
  have dec: "evaluate_permission c (Some policy) = Inr d" by (rule decided_by_policy [OF assms(2,4)])
  obtain hs where f: "provider_reasons c h = Inr []" "evidence_reasons c r = Inr []" "human_reasons c r = Inr hs"
      "hs = [] \<or> truthy (dc_human_approved c)" "d_policy_hash d = h"
    using allow_facts [OF dec assms(3)] assms(5) by auto
  have hash: "d_policy_hash d = Some hash"
    using f(1,5) k(3) by (auto simp: provider_reasons_Nil k(8) trusted_context_fields opt_json_def split: option.splits)
  have keys: "set (dkeys request) \<subseteq> set ALLOWED_REQUEST_FIELDS"
    using k(1) by (auto simp: keys_beyond_def filter_empty_conv)
  note fields = trusted_context_fields [of action risk work_type policy a gates "owner_exact s (dget request ''preview_digest'') p", folded k(8)]
  have evidence: "dget (dict_of (dget a ''evidence'')) ''refs_resolved'' = JBool True \<and> (\<forall>g \<in> set gates. get_keyE (dget a ''gates'') g = Inr (JStr ''PASS''))"
    if "in_ruleE (JStr action) (r_evidence_actions r) = Inr True"
    using evidence_reasons_Nil [OF f(2)] that by (auto simp: fields)
  have human: "risk \<noteq> ''R4'' \<and> rank RISK_RANK (JStr risk) \<le> rank RISK_RANK (JStr (py_str (dget policy ''max_autonomous_risk''))) \<and> min_autonomy (JStr action) \<noteq> ''A4''"
    if "\<not> owner_exact s (dget request ''preview_digest'') p"
    using human_reasons_Nil [of c r] f(3,4) that by (auto simp: fields)
  have provider: "dget p ''subject_sha'' = JStr s" "dget p ''facts_readback_verified'' = JBool True"
     "dget p ''repository_visibility'' = JStr ''PUBLIC''" "dget p ''larger_runner'' \<noteq> JBool True"
    using k(6) by (simp_all add: provider_error_def split: if_split_asm)
  show ?thesis using evidence human provider k hash keys by blast
qed

definition sample_snapshot :: dict where
  "sample_snapshot = [(''schema_version'', JInt 1), (''subject_sha'', JStr sample_sha40), (''policy_hash'', JStr (replicate 64 (CHR ''a''))),
     (''health'', JObj [(''package_integrity'', JStr ''VERIFIED''), (''config_health'', JStr ''VERIFIED''),
        (''control_plane_health'', JStr ''HEALTHY''), (''product_health'', JStr ''HEALTHY'')]),
     (''gates'', JObj [(''governance-gate'', JStr ''PASS'')]), (''required_gates'', JList [JStr ''governance-gate'']),
     (''cost'', JObj [(''status'', JStr ''VERIFIED_ZERO''), (''projected_cost_usd'', JInt 0)]),
     (''evidence'', JObj [(''refs_resolved'', JBool True)]), (''provider'', JObj [(''readback_verified'', JBool True)]),
     (''verified_at'', JStr ''2026-01-01T10:00:00Z''), (''expires_at'', JStr ''2026-01-01T12:00:00Z''),
     (''snapshot_digest'', JStr flat_digest)]"

definition sample_provider :: dict where
  "sample_provider = [(''subject_sha'', JStr sample_sha40), (''facts_readback_verified'', JBool True),
     (''repository_visibility'', JStr ''PUBLIC''), (''runner'', JStr ''ubuntu-24.04'')]"

definition sample_now :: int where "sample_now = 63902862000000000"

definition sample_trusted :: decision_context where
  "sample_trusted = trusted_context ''merge'' ''R1'' ''feature'' (dict_of sample_policy) sample_snapshot [JStr ''governance-gate''] False"

lemma sample_time_findings: "time_findings sample_now sample_snapshot = Inr []"
proof -
  have t: "fromisoformat ''2026-01-01T10:00:00+00:00'' = Some (63902858400000000, Some 0)"
    "fromisoformat ''2026-01-01T12:00:00+00:00'' = Some (63902865600000000, Some 0)" by code_simp+
  have "time_text sample_snapshot ''verified_at'' = ''2026-01-01T10:00:00+00:00''" "time_text sample_snapshot ''expires_at'' = ''2026-01-01T12:00:00+00:00''"
    by (simp_all add: time_text_def sample_snapshot_def dget_or_def replace_Z_def)
  then show ?thesis unfolding time_findings_Nil using t by (auto simp: sample_now_def)
qed

lemma sample_snapshot_valid: "validate_assurance_snapshot flat_sha sample_now (JObj sample_snapshot) (Some sample_sha40) (Some (replicate 64 (CHR ''a''))) = Inr []"
proof -
  have "sha256_hex (replicate 64 (CHR ''a''))" using flat_digest_shape by (simp add: flat_digest_def)
  then show ?thesis using sample_sha40_shape
    by (simp add: validate_assurance_snapshot_def sample_time_findings bound_id_Nil snapshot_digest_def flat_sha_def)
      (simp add: sample_snapshot_def bound_id_def num_eq_def)
qed

lemma sample_compiled:
  "compile_trusted_context flat_sha (Parsed sample_policy) sample_now ''merge'' ''R1'' ''feature'' [(''subject_sha'', JStr sample_sha40)] (JObj sample_snapshot) sample_provider
     = Inr sample_trusted"
proof -
  have ne: "sample_sha40 \<noteq> []" by (simp add: sample_sha40_def)
  have h: "dget (dict_of sample_policy) ''policy_hash'' = JStr (replicate 64 (CHR ''a''))" by (simp add: sample_policy_def)
  have p: "provider_error ''merge'' sample_sha40 sample_provider = None" by (simp add: provider_error_def sample_provider_def)
  have s: "policy_source (dict_of sample_policy) = Inr ()" by (simp add: policy_source_def sample_policy_def)
  have g: "gates_of sample_snapshot = Inr [JStr ''governance-gate'']" by (simp add: gates_of_def sample_snapshot_def py_or_def)
  have o': "\<not> owner_exact s v sample_provider" for s v by (simp add: owner_exact_def sample_provider_def)
  show ?thesis using sample_sha40_shape ne
    by (simp add: compile_trusted_context_def keys_beyond_def dkeys_def ALLOWED_REQUEST_FIELDS_def py_or_def load_sample h sample_snapshot_valid p s g o' sample_trusted_def)
qed

lemma sample_trusted_allowed: "evaluate_with_effective_policy flat_sha (Parsed sample_policy) sample_trusted = Inr (mk_decision ''ALLOW'' [] (Some (replicate 64 (CHR ''a''))))"
  unfolding evaluate_with_effective_policy_def load_sample sum.case evaluate_permission_def rules_sample prod.case by code_simp

lemma trusted_allow_rests_on_readback_witness:
  "sound_snapshot flat_sha sample_now sample_sha40 (replicate 64 (CHR ''a'')) sample_snapshot
   \<and> dget sample_provider ''repository_visibility'' = JStr ''PUBLIC'' \<and> get_keyE (dget sample_snapshot ''gates'') (JStr ''governance-gate'') = Inr (JStr ''PASS'')"
proof -
  have "in_ruleE (JStr ''merge'') (r_evidence_actions default_rules) = Inr True" by code_simp
  moreover have "gates_of sample_snapshot = Inr [JStr ''governance-gate'']" by (simp add: gates_of_def sample_snapshot_def py_or_def)
  moreover have "sample_sha40 \<noteq> []" by (simp add: sample_sha40_def)
  ultimately show ?thesis
    using trusted_allow_rests_on_readback [OF sample_compiled sample_trusted_allowed _ load_sample rules_sample]
    by (auto simp: py_or_def)
qed

section \<open>A finding\<close>

text \<open>A naive expiry is reported neither as invalid nor as stale: the validation itself raises \<open>TypeError\<close>.\<close>

lemma naive_expiry_raises:
  assumes "fromisoformat (time_text d ''verified_at'') = Some v" "fromisoformat (time_text d ''expires_at'') = Some (e, None)"
  shows "validate_assurance_snapshot sha now (JObj d) s h = Inl TypeError"
  using assms by (simp add: validate_assurance_snapshot_def time_findings_def Let_def)

end
