(* ===== verification/Glob.thy ===== *)
theory Glob
  imports Prelude
begin

text \<open>
  Shell patterns as \<open>fnmatch.fnmatchcase\<close> reads them, and the trust boundary classification
  (\<open>.adwf/lib/trust_boundary.py\<close>) that is written with them.  A star also matches a slash.
\<close>

section \<open>Patterns\<close>

text \<open>
  A character class: singles and ranges, a reversed range being empty, with a leading \<open>!\<close> for the
  complement.
\<close>

datatype class_item = Single char | Range char char

fun class_items :: "string \<Rightarrow> class_item list" where
  "class_items (c # m # d # s) = (if m = CHR ''-'' then Range c d # class_items s else Single c # class_items (m # d # s))"
| "class_items (c # s) = Single c # class_items s"
| "class_items [] = []"

fun item_has :: "class_item \<Rightarrow> char \<Rightarrow> bool" where
  "item_has (Single c) x = (x = c)"
| "item_has (Range c d) x = ((of_char c :: nat) \<le> of_char x \<and> (of_char x :: nat) \<le> of_char d)"

definition class_has :: "string \<Rightarrow> char \<Rightarrow> bool" where
  "class_has s x = (case s of c # t \<Rightarrow> if c = CHR ''!'' then \<not> list_ex (\<lambda>i. item_has i x) (class_items t)
     else list_ex (\<lambda>i. item_has i x) (class_items s) | [] \<Rightarrow> False)"

text \<open>
  The text of the class after an opening bracket and what follows the closing one.  A closing
  bracket that comes first, or after the \<open>!\<close>, belongs to the class.
\<close>

definition head_of_class :: "string \<Rightarrow> nat" where
  "head_of_class p = (let n = (if take 1 p = ''!'' then 1 else 0) in if take 1 (drop n p) = '']'' then Suc n else n)"

definition class_end :: "string \<Rightarrow> (string \<times> string) option" where
  "class_end p = (let n = head_of_class p; body = takeWhile (\<lambda>c. c \<noteq> CHR '']'') (drop n p); m = n + length body in
     if m < length p then Some (take m p, drop (Suc m) p) else None)"

datatype token = Any | Star | Lit char | Class string

lemma class_end_shorter: "class_end p = Some (s, r) \<Longrightarrow> length r < length p"
  by (auto simp: class_end_def Let_def split: if_split_asm)

function tokens :: "string \<Rightarrow> token list" where
  "tokens [] = []"
| "tokens (c # p) = (if c = CHR ''*'' then Star # tokens p else if c = CHR ''?'' then Any # tokens p
     else if c = CHR ''['' then (case class_end p of None \<Rightarrow> Lit c # tokens p | Some (s, r) \<Rightarrow> Class s # tokens r)
     else Lit c # tokens p)"
  by pat_completeness auto
termination by (relation "measure length") (auto dest: class_end_shorter)

fun tok_has :: "token \<Rightarrow> char \<Rightarrow> bool" where
  "tok_has Any x = True"
| "tok_has Star x = True"
| "tok_has (Lit c) x = (x = c)"
| "tok_has (Class s) x = class_has s x"

text \<open>The match of the whole text, by trying for a star every length.\<close>

fun glob_match :: "token list \<Rightarrow> string \<Rightarrow> bool" where
  "glob_match [] s = (s = [])"
| "glob_match (Star # ts) s = (glob_match ts s \<or> (case s of [] \<Rightarrow> False | _ # s' \<Rightarrow> glob_match (Star # ts) s'))"
| "glob_match (t # ts) s = (case s of [] \<Rightarrow> False | x # s' \<Rightarrow> tok_has t x \<and> glob_match ts s')"

definition fnmatchcase :: "string \<Rightarrow> string \<Rightarrow> bool" where
  "fnmatchcase name pat = glob_match (tokens pat) name"

section \<open>What a pattern means\<close>

text \<open>A text matches when it falls into one piece per token: any text for a star, one fitting character for the others.\<close>

definition fits :: "token \<Rightarrow> string \<Rightarrow> bool" where
  "fits t s = (t = Star \<or> (\<exists>x. s = [x] \<and> tok_has t x))"

lemma glob_star: "glob_match (Star # ts) s \<longleftrightarrow> (\<exists>p r. s = p @ r \<and> glob_match ts r)"
proof (induction s)
  case (Cons x s)
  have "glob_match (Star # ts) (x # s) \<longleftrightarrow> glob_match ts (x # s) \<or> (\<exists>p r. s = p @ r \<and> glob_match ts r)"
    by (subst glob_match.simps(2)) (simp only: list.case Cons.IH)
  then show ?case by (auto simp: Cons_eq_append_conv)
qed simp

lemma glob_one: "t \<noteq> Star \<Longrightarrow> glob_match (t # ts) s \<longleftrightarrow> (\<exists>x r. s = x # r \<and> tok_has t x \<and> glob_match ts r)"
  by (cases t; cases s) simp_all

lemma fits_Star: "fits Star s" by (simp add: fits_def)

lemma fits_one: "t \<noteq> Star \<Longrightarrow> fits t s \<longleftrightarrow> (\<exists>x. s = [x] \<and> tok_has t x)" by (simp add: fits_def)

lemma pieces_Cons: "(\<exists>ps. s = concat ps \<and> list_all2 P (t # ts) ps) \<longleftrightarrow> (\<exists>p r. s = p @ r \<and> P t p \<and> (\<exists>ps. r = concat ps \<and> list_all2 P ts ps))"
proof
  assume "\<exists>p r. s = p @ r \<and> P t p \<and> (\<exists>ps. r = concat ps \<and> list_all2 P ts ps)"
  then obtain p ps where "s = p @ concat ps" "P t p" "list_all2 P ts ps" by blast
  then have "s = concat (p # ps) \<and> list_all2 P (t # ts) (p # ps)" by simp
  then show "\<exists>ps. s = concat ps \<and> list_all2 P (t # ts) ps" by blast
next
  assume "\<exists>ps. s = concat ps \<and> list_all2 P (t # ts) ps"
  then obtain p ps where "s = concat (p # ps)" "P t p" "list_all2 P ts ps" unfolding list_all2_Cons1 by blast
  then show "\<exists>p r. s = p @ r \<and> P t p \<and> (\<exists>ps. r = concat ps \<and> list_all2 P ts ps)" by auto
qed

lemma glob_match_exact: "glob_match ts s \<longleftrightarrow> (\<exists>ps. s = concat ps \<and> list_all2 fits ts ps)"
proof (induction ts arbitrary: s)
  case (Cons t ts)
  show ?case
  proof (cases "t = Star")
    case True
    then show ?thesis unfolding True glob_star Cons.IH pieces_Cons by (simp add: fits_Star)
  next
    case False
    then show ?thesis unfolding glob_one [OF False] Cons.IH pieces_Cons fits_one [OF False] by (metis append_Cons append_Nil)
  qed
qed simp

lemma glob_literal: "glob_match (map Lit u @ ts) s \<longleftrightarrow> (\<exists>r. s = u @ r \<and> glob_match ts r)"
proof (induction u arbitrary: s)
  case (Cons c u)
  then show ?case by (cases s) auto
qed simp

definition plain :: "string \<Rightarrow> bool" where
  "plain u = list_all (\<lambda>c. c \<notin> set ''*?['') u"

lemma tokens_plain: "plain u \<Longrightarrow> tokens (u @ p) = map Lit u @ tokens p"
  by (induction u) (auto simp: plain_def)

text \<open>A plain text followed by stars stands for everything below it.\<close>

lemma fnmatch_below: "plain u \<Longrightarrow> fnmatchcase s (u @ ''**'') \<longleftrightarrow> starts_with s u"
proof -
  assume u: "plain u"
  have "glob_match [Star, Star] r" for r unfolding glob_star by auto
  then show ?thesis using tokens_plain [OF u, of "''**''"]
    by (auto simp: fnmatchcase_def glob_literal starts_with_def append_eq_conv_conj) (metis append_take_drop_id)
qed

lemma fnmatch_plain: "plain u \<Longrightarrow> fnmatchcase s u \<longleftrightarrow> s = u"
  using tokens_plain [of u "[]"] glob_literal [of u "[]" s] by (simp add: fnmatchcase_def)

section \<open>The trust boundary\<close>

definition TRUST_BOUNDARY_PATTERNS :: "string list" where
  "TRUST_BOUNDARY_PATTERNS = [''.adwf/**'', ''.github/workflows/adwf-*'', ''AGENTS.md'', ''ADWS.md'', ''SPECIFICATION.md'',
     ''.gitlab-ci.yml'', ''SECURITY.md'', ''docs/governance/**'', ''MANIFEST.json'', ''SHA256SUMS.txt'', ''.gitattributes'']"

definition backslash :: char where
  "backslash = CHR 0x5C"

definition normalize_path :: "string \<Rightarrow> string" where
  "normalize_path s = (let t = map (\<lambda>c. if c = backslash then CHR ''/'' else c) s in if starts_with t ''./'' then drop 2 t else t)"

definition path_match :: "string \<Rightarrow> string \<Rightarrow> bool" where
  "path_match path pattern = (let s = normalize_path path; pat = normalize_path pattern in
     if ends_with pat ''/**'' then s = take (length pat - 3) pat \<or> starts_with s (take (length pat - 2) pat)
     else fnmatchcase s pat)"

definition is_trust_boundary_path :: "string \<Rightarrow> bool" where
  "is_trust_boundary_path path = list_ex (path_match path) TRUST_BOUNDARY_PATTERNS"

record classification =
  cl_changed :: "string list"
  cl_trust_files :: "string list"
  cl_classification :: string

definition classify_changed_files :: "string list \<Rightarrow> classification" where
  "classify_changed_files paths = (let changed = sort (remdups (map normalize_path (filter (\<lambda>p. strip p \<noteq> []) paths)));
       protected = filter is_trust_boundary_path changed in
     \<lparr>cl_changed = changed, cl_trust_files = protected, cl_classification = (if protected = [] then ''NORMAL'' else ''GOVERNANCE'')\<rparr>)"

text \<open>What the patterns protect, written out.\<close>

definition protected_path :: "string \<Rightarrow> bool" where
  "protected_path s = (s = ''.adwf'' \<or> starts_with s ''.adwf/'' \<or> s = ''docs/governance'' \<or> starts_with s ''docs/governance/''
     \<or> starts_with s ''.github/workflows/adwf-'' \<or> s \<in> {''AGENTS.md'', ''ADWS.md'', ''SPECIFICATION.md'', ''.gitlab-ci.yml'',
        ''SECURITY.md'', ''MANIFEST.json'', ''SHA256SUMS.txt'', ''.gitattributes''})"

lemma fnmatch_under: "plain u \<Longrightarrow> fnmatchcase s (u @ ''*'') \<longleftrightarrow> starts_with s u"
proof -
  assume u: "plain u"
  have "glob_match [Star] r" for r unfolding glob_star by auto
  then show ?thesis using tokens_plain [OF u, of "''*''"]
    by (auto simp: fnmatchcase_def glob_literal starts_with_def append_eq_conv_conj) (metis append_take_drop_id)
qed

lemma boundary_exact: "is_trust_boundary_path path \<longleftrightarrow> protected_path (normalize_path path)"
proof -
  have "path_match path p \<longleftrightarrow> normalize_path path = p" if "p \<in> {''AGENTS.md'', ''ADWS.md'', ''SPECIFICATION.md'', ''.gitlab-ci.yml'',
        ''SECURITY.md'', ''MANIFEST.json'', ''SHA256SUMS.txt'', ''.gitattributes''}" for p
  proof -
    have "normalize_path p = p" "\<not> ends_with p ''/**''" "plain p" using that by (auto simp: normalize_path_def backslash_def starts_with_def ends_with_def plain_def)
    then show ?thesis by (simp add: path_match_def Let_def fnmatch_plain)
  qed
  moreover have "path_match path ''.github/workflows/adwf-*'' \<longleftrightarrow> starts_with (normalize_path path) ''.github/workflows/adwf-''"
  proof -
    have "normalize_path ''.github/workflows/adwf-*'' = ''.github/workflows/adwf-'' @ ''*''" "\<not> ends_with (''.github/workflows/adwf-'' @ ''*'') ''/**''"
      "plain ''.github/workflows/adwf-''" by (simp_all add: normalize_path_def backslash_def starts_with_def ends_with_def plain_def)
    then show ?thesis unfolding path_match_def Let_def by (metis fnmatch_under)
  qed
  moreover have "path_match path ''.adwf/**'' \<longleftrightarrow> normalize_path path = ''.adwf'' \<or> starts_with (normalize_path path) ''.adwf/''"
    by (simp add: path_match_def Let_def normalize_path_def backslash_def starts_with_def ends_with_def numeral_eq_Suc)
  moreover have "path_match path ''docs/governance/**'' \<longleftrightarrow> normalize_path path = ''docs/governance'' \<or> starts_with (normalize_path path) ''docs/governance/''"
    by (simp add: path_match_def Let_def normalize_path_def backslash_def starts_with_def ends_with_def numeral_eq_Suc)
  ultimately show ?thesis unfolding is_trust_boundary_path_def TRUST_BOUNDARY_PATTERNS_def protected_path_def by auto
qed

end
