(* ===== verification/WorkContracts.thy ===== *)
theory WorkContracts
  imports Glob Policy PyTime
begin

text \<open>
  The contracts of a creative work package and of its result (\<open>.adwf/lib/ai_work_contracts.py\<close>).
  A package is compiled from the run and the work memory; what an agent claims is bound to the
  package and checked against its write surfaces.  SHA-256 is an argument, the clock is the text of
  the current time, and the Russian default texts are the argument \<open>ru\<close>.
\<close>

section \<open>Shapes\<close>

definition CREATIVE_PHASES :: "string list" where "CREATIVE_PHASES = [''EXECUTE'', ''RECOVERY'']"
definition RESULT_OUTCOMES :: "string list" where "RESULT_OUTCOMES = [''PASS'', ''FAIL'', ''HUMAN_REQUIRED'', ''RETRY'']"
definition PACKAGE_RISKS :: "string list" where "PACKAGE_RISKS = [''R0'', ''R1'', ''R2'', ''R3'', ''R4'']"

definition PACKAGE_WORK_TYPES :: "string list" where
  "PACKAGE_WORK_TYPES = [''feature'', ''bug'', ''recovery'', ''verification'', ''governance'', ''docs'', ''migration'']"

definition DEFAULT_ALLOWED :: "json list" where "DEFAULT_ALLOWED = [JStr ''**'']"
definition DEFAULT_FORBIDDEN :: "json list" where "DEFAULT_FORBIDDEN = [JStr ''.git/**'', JStr ''.adwf-runtime/**'']"
definition DEFAULT_EVIDENCE :: "json list" where "DEFAULT_EVIDENCE = [JStr ''changed_paths'', JStr ''verification_claims'']"

definition tagged_hex :: "string \<Rightarrow> string \<Rightarrow> bool" where
  "tagged_hex tag s = (starts_with s tag \<and> hex_n 24 (drop (length tag) s))"

text \<open>A relative text without outer blanks and backslashes.\<close>

definition relative_text :: "string \<Rightarrow> bool" where
  "relative_text s = (strip s \<noteq> [] \<and> s = strip s \<and> \<not> starts_with s ''/'' \<and> backslash \<notin> set s)"

definition safe_pattern :: "string \<Rightarrow> bool" where
  "safe_pattern s = (relative_text s \<and> ''..'' \<notin> set (split_on (CHR ''/'') s))"

definition safe_path :: "string \<Rightarrow> bool" where
  "safe_path s = (relative_text s \<and> (\<forall>part \<in> set (split_on (CHR ''/'') s). part \<notin> {[], ''.'', ''..''}))"

definition is_text :: "(string \<Rightarrow> bool) \<Rightarrow> json \<Rightarrow> bool" where
  "is_text p v = (case v of JStr s \<Rightarrow> p s | _ \<Rightarrow> False)"

definition nonblank :: "string \<Rightarrow> bool" where
  "nonblank s = (strip s \<noteq> [])"

definition valid_timestamp :: "json \<Rightarrow> bool" where
  "valid_timestamp v = is_text (\<lambda>s. ends_with s ''Z'' \<and> fromisoformat (butlast s @ ''+00:00'') \<noteq> None) v"

text \<open>
  A list of distinct texts, each of the given shape.  \<open>len(set(values))\<close> raises for a list with an
  item that cannot be hashed.
\<close>

definition texts_invalid :: "(string \<Rightarrow> bool) \<Rightarrow> bool \<Rightarrow> json \<Rightarrow> bool res" where
  "texts_invalid p optional v = (case v of
     JList xs \<Rightarrow> if \<not> optional \<and> xs = [] then Inr True
       else if \<not> list_all hashable xs then Inl TypeError else Inr (\<not> (distinct xs \<and> list_all (is_text p) xs))
   | _ \<Rightarrow> Inr True)"

definition text_flag :: "(string \<Rightarrow> bool) \<Rightarrow> bool \<Rightarrow> json \<Rightarrow> string \<Rightarrow> string list res" where
  "text_flag p optional v code = bindE (texts_invalid p optional v) (\<lambda>bad. Inr (flag bad code))"

section \<open>Identifiers\<close>

definition pick :: "dict \<Rightarrow> string list \<Rightarrow> dict" where
  "pick d ks = map (\<lambda>k. (k, dget d k)) ks"

definition digest_without :: "(string \<Rightarrow> string) \<Rightarrow> string \<Rightarrow> dict \<Rightarrow> string" where
  "digest_without sha k d = sha (canonical (JObj (ddel k d)))"

definition package_id :: "(string \<Rightarrow> string) \<Rightarrow> dict \<Rightarrow> string" where
  "package_id sha d = ''AIWP-'' @ take 24 (sha (canonical (JObj (pick d [''run_id'', ''roadmap_id'', ''issue_id'', ''revision'', ''phase'', ''base_sha'']))))"

definition result_id :: "(string \<Rightarrow> string) \<Rightarrow> dict \<Rightarrow> string" where
  "result_id sha d = ''AIWR-'' @ take 24 (sha (canonical (JObj (pick d [''package_digest'', ''outcome'', ''head_sha'', ''created_at'']))))"

section \<open>The package\<close>

definition PACKAGE_FIELDS :: "string list" where
  "PACKAGE_FIELDS = [''$schema'', ''schema_version'', ''package_id'', ''package_digest'', ''run_id'', ''roadmap_id'', ''issue_id'', ''revision'',
     ''phase'', ''work_type'', ''risk'', ''base_sha'', ''goal'', ''acceptance_criteria'', ''verification_plan'', ''conflict_domains'',
     ''allowed_write_surfaces'', ''forbidden_write_surfaces'', ''required_evidence'', ''monetary_budget_usd'', ''created_at'']"

definition PACKAGE_SCHEMA :: string where "PACKAGE_SCHEMA = ''.adwf/schemas/ai-work-package.schema.json''"
definition RESULT_SCHEMA :: string where "RESULT_SCHEMA = ''.adwf/schemas/ai-work-result.schema.json''"

definition member_flag :: "json \<Rightarrow> string list \<Rightarrow> string \<Rightarrow> string list res" where
  "member_flag v S code = bindE (in_set v S) (\<lambda>b. Inr (flag (\<not> b) code))"

definition surfaces_clash :: "json \<Rightarrow> json \<Rightarrow> bool" where
  "surfaces_clash v w = (is_list v \<and> is_list w \<and> list_ex (\<lambda>x. list_ex (py_eq x) (list_of w)) (list_of v))"

definition package_head_findings :: "dict \<Rightarrow> string list res" where
  "package_head_findings d = concatE [
     flagE (\<not> keys_are d PACKAGE_FIELDS) ''PACKAGE_FIELDS_INVALID'',
     flagE (\<not> py_eq (dget d ''schema_version'') (JInt 1)) ''PACKAGE_SCHEMA_VERSION'',
     flagE (\<not> tagged_hex ''AIWP-'' (field_text d ''package_id'')) ''PACKAGE_ID_INVALID'',
     flagE (\<not> sha256_hex (field_text d ''package_digest'')) ''PACKAGE_DIGEST_INVALID'',
     flagE (\<not> sha40 (field_text d ''base_sha'')) ''PACKAGE_BASE_SHA_INVALID'',
     member_flag (dget d ''phase'') CREATIVE_PHASES ''PACKAGE_PHASE_INVALID'',
     member_flag (dget d ''risk'') PACKAGE_RISKS ''PACKAGE_RISK_INVALID'',
     member_flag (dget d ''work_type'') PACKAGE_WORK_TYPES ''PACKAGE_WORK_TYPE_INVALID'',
     flagE (dget d ''$schema'' \<noteq> JStr PACKAGE_SCHEMA) ''PACKAGE_SCHEMA_REF_INVALID'',
     flagE (\<not> valid_timestamp (dget d ''created_at'')) ''PACKAGE_CREATED_AT_INVALID'',
     flagE (field_text d ''run_id'' = [] \<or> field_text d ''roadmap_id'' = [] \<or> field_text d ''issue_id'' = []) ''PACKAGE_IDENTITY_MISSING'',
     flagE (\<not> strict_int (dget d ''revision'') \<or> int_of (dget d ''revision'') < 0) ''PACKAGE_REVISION_INVALID'',
     flagE (length (strip (field_text d ''goal'')) < 10) ''PACKAGE_GOAL_INVALID'']"

definition package_body_findings :: "(string \<Rightarrow> string) \<Rightarrow> dict \<Rightarrow> string list res" where
  "package_body_findings sha d = concatE [
     text_flag nonblank False (dget d ''acceptance_criteria'') ''PACKAGE_ACCEPTANCE_CRITERIA_INVALID'',
     text_flag nonblank False (dget d ''verification_plan'') ''PACKAGE_VERIFICATION_PLAN_INVALID'',
     text_flag nonblank False (dget d ''conflict_domains'') ''PACKAGE_CONFLICT_DOMAINS_INVALID'',
     text_flag nonblank False (dget d ''required_evidence'') ''PACKAGE_REQUIRED_EVIDENCE_INVALID'',
     text_flag safe_pattern False (dget d ''allowed_write_surfaces'') ''PACKAGE_ALLOWED_SURFACES_INVALID'',
     text_flag safe_pattern True (dget d ''forbidden_write_surfaces'') ''PACKAGE_FORBIDDEN_SURFACES_INVALID'',
     flagE (surfaces_clash (dget d ''allowed_write_surfaces'') (dget d ''forbidden_write_surfaces'')) ''PACKAGE_SURFACE_RULE_CONFLICT'',
     flagE (\<not> py_eq (dget d ''monetary_budget_usd'') (JInt 0)) ''PACKAGE_COST_NOT_FREE_ONLY'',
     flagE (dget d ''package_id'' \<noteq> JStr (package_id sha d)) ''PACKAGE_ID_MISMATCH'',
     flagE (dget d ''package_digest'' \<noteq> JStr (digest_without sha ''package_digest'' d)) ''PACKAGE_DIGEST_MISMATCH'']"

definition state_bindings :: "dict \<Rightarrow> dict" where
  "state_bindings s = [(''run_id'', dget s ''run_id''), (''roadmap_id'', dget s ''roadmap_id''), (''issue_id'', JStr (field_text s ''issue_id'')),
     (''revision'', dget s ''revision''), (''phase'', dget s ''phase''), (''work_type'', dget s ''work_type''), (''risk'', dget s ''risk''),
     (''base_sha'', dget s ''subject_sha'')]"

definition binding_findings :: "string \<Rightarrow> dict \<Rightarrow> dict \<Rightarrow> string list" where
  "binding_findings code d expected = concat (map (\<lambda>(k, v). flag (\<not> py_eq (dget d k) v) (code @ k)) expected)"

definition validate_work_package :: "(string \<Rightarrow> string) \<Rightarrow> dict \<Rightarrow> dict option \<Rightarrow> string list res" where
  "validate_work_package sha d expected = bindE (package_head_findings d) (\<lambda>hs. bindE (package_body_findings sha d) (\<lambda>bs.
     Inr (uniq (hs @ bs @ (case expected of None \<Rightarrow> []
       | Some s \<Rightarrow> binding_findings ''PACKAGE_STATE_BINDING_MISMATCH:'' d (state_bindings s))))))"

text \<open>\<open>_strings\<close>: the stripped texts of a list.\<close>

definition strings_of :: "json \<Rightarrow> string list" where
  "strings_of v = map (\<lambda>x. strip (str_of x)) (filter (is_text nonblank) (list_of v))"

definition first_text :: "json list \<Rightarrow> string" where
  "first_text vs = (case find truthy vs of None \<Rightarrow> [] | Some v \<Rightarrow> py_str v)"

definition texts_or :: "string list \<Rightarrow> string \<Rightarrow> json" where
  "texts_or xs fallback = JList (map JStr (if xs = [] then [fallback] else xs))"

definition goal_of :: "(string \<Rightarrow> string) \<Rightarrow> dict \<Rightarrow> string" where
  "goal_of ru memory = (let brief = dict_of (dget memory ''product_brief'');
       goal = strip (first_text [dget brief ''outcome_ru'', dget brief ''goal_ru'', dget memory ''task_ru'', JStr (ru ''goal'')]) in
     if length goal < 10 then ru ''goal_prefix'' @ goal else goal)"

text \<open>The surfaces and the evidence: the caller's, else the run's, else the default.\<close>

definition choose_list :: "json list option \<Rightarrow> json \<Rightarrow> json list \<Rightarrow> json" where
  "choose_list given v d = JList (case given of Some xs \<Rightarrow> xs | None \<Rightarrow> (case v of JList ys \<Rightarrow> ys | _ \<Rightarrow> d))"

record package_options =
  po_allowed :: "json list option"
  po_forbidden :: "json list option"
  po_evidence :: "json list option"
  po_created_at :: string

definition draft_package :: "(string \<Rightarrow> string) \<Rightarrow> dict \<Rightarrow> dict \<Rightarrow> package_options \<Rightarrow> string \<Rightarrow> int \<Rightarrow> dict" where
  "draft_package ru s memory po created revision =
     (let brief = dict_of (dget memory ''product_brief''); work_type = py_str (py_or (dget s ''work_type'') (JStr ''feature'')) in
     [(''$schema'', JStr PACKAGE_SCHEMA), (''schema_version'', JInt 1), (''package_id'', JStr []), (''package_digest'', JStr []),
      (''run_id'', JStr (field_text s ''run_id'')), (''roadmap_id'', JStr (field_text s ''roadmap_id'')), (''issue_id'', JStr (field_text s ''issue_id'')),
      (''revision'', JInt revision), (''phase'', JStr (field_text s ''phase'')), (''work_type'', JStr work_type), (''risk'', JStr (field_text s ''risk'')),
      (''base_sha'', JStr (field_text s ''subject_sha'')), (''goal'', JStr (goal_of ru memory)),
      (''acceptance_criteria'', texts_or (strings_of (dget brief ''acceptance_criteria_ru'')) (ru ''acceptance'')),
      (''verification_plan'', texts_or (strings_of (dget memory ''verification'')) (ru ''verification'')),
      (''conflict_domains'', texts_or (strings_of (dget s ''conflict_domains'')) (''work:'' @ work_type)),
      (''allowed_write_surfaces'', choose_list (po_allowed po) (dget s ''allowed_write_surfaces'') DEFAULT_ALLOWED),
      (''forbidden_write_surfaces'', choose_list (po_forbidden po) (dget s ''forbidden_write_surfaces'') DEFAULT_FORBIDDEN),
      (''required_evidence'', choose_list (po_evidence po) (dget s ''required_evidence'') DEFAULT_EVIDENCE),
      (''monetary_budget_usd'', JInt 0), (''created_at'', JStr (if po_created_at po = [] then created else po_created_at po))])"

definition compile_work_package ::
    "(string \<Rightarrow> string) \<Rightarrow> (string \<Rightarrow> string) \<Rightarrow> string \<Rightarrow> dict \<Rightarrow> dict option \<Rightarrow> package_options \<Rightarrow> dict res" where
  "compile_work_package sha ru created s memory po =
     bindE (guard (sha40 (field_text s ''subject_sha'')) ''AI_WORK_PACKAGE_BASE_SHA_REQUIRED'') (\<lambda>_.
     bindE (guard (field_text s ''phase'' \<in> set CREATIVE_PHASES) ''AI_WORK_PACKAGE_PHASE_NOT_CREATIVE'') (\<lambda>_.
     bindE (py_int (dget_or s ''revision'' (JInt (- 1)))) (\<lambda>revision.
     let d = draft_package ru s (case memory of None \<Rightarrow> [] | Some m \<Rightarrow> m) po created revision;
         d1 = dput ''package_id'' (JStr (package_id sha d)) d;
         package = dput ''package_digest'' (JStr (digest_without sha ''package_digest'' d1)) d1 in
     bindE (validate_work_package sha package (Some s)) (\<lambda>errors.
     bindE (guard (errors = []) (''AI_WORK_PACKAGE_INVALID:'' @ join '','' errors)) (\<lambda>_. Inr package)))))"

section \<open>The result\<close>

definition any_pattern :: "string \<Rightarrow> json \<Rightarrow> bool res" where
  "any_pattern path v = bindE (iterE (py_or v (JList []))) (\<lambda>ps. if list_all is_str ps then Inr (list_ex (\<lambda>p. fnmatchcase path (str_of p)) ps) else Inl TypeError)"

definition path_is_allowed :: "string \<Rightarrow> dict \<Rightarrow> bool res" where
  "path_is_allowed path d = (if \<not> safe_path path then Inr False
     else bindE (any_pattern path (dget d ''allowed_write_surfaces'')) (\<lambda>allowed.
       bindE (any_pattern path (dget d ''forbidden_write_surfaces'')) (\<lambda>forbidden. Inr (allowed \<and> \<not> forbidden))))"

definition RESULT_FIELDS :: "string list" where
  "RESULT_FIELDS = [''$schema'', ''schema_version'', ''result_id'', ''result_digest'', ''package_id'', ''package_digest'', ''run_id'', ''roadmap_id'',
     ''issue_id'', ''phase'', ''base_sha'', ''outcome'', ''head_sha'', ''changed_paths'', ''verification_claims'', ''evidence_claims'',
     ''reason_codes'', ''summary_ru'', ''cost_usd'', ''created_at'']"

definition RESULT_BINDINGS :: "string list" where
  "RESULT_BINDINGS = [''package_id'', ''package_digest'', ''run_id'', ''roadmap_id'', ''issue_id'', ''phase'', ''base_sha'']"

definition result_head_findings :: "dict \<Rightarrow> dict \<Rightarrow> string list res" where
  "result_head_findings r p = concatE [
     flagE (\<not> keys_are r RESULT_FIELDS) ''RESULT_FIELDS_INVALID'',
     flagE (\<not> py_eq (dget r ''schema_version'') (JInt 1)) ''RESULT_SCHEMA_VERSION'',
     flagE (dget r ''$schema'' \<noteq> JStr RESULT_SCHEMA) ''RESULT_SCHEMA_REF_INVALID'',
     flagE (\<not> valid_timestamp (dget r ''created_at'')) ''RESULT_CREATED_AT_INVALID'',
     Inr (binding_findings ''RESULT_PACKAGE_BINDING_MISMATCH:'' r (pick p RESULT_BINDINGS)),
     flagE (\<not> tagged_hex ''AIWR-'' (field_text r ''result_id'')) ''RESULT_ID_INVALID'',
     flagE (\<not> sha256_hex (field_text r ''result_digest'')) ''RESULT_DIGEST_INVALID'',
     member_flag (dget r ''outcome'') RESULT_OUTCOMES ''RESULT_OUTCOME_INVALID'',
     flagE (dget r ''head_sha'' \<noteq> JNull \<and> \<not> sha40 (py_str (dget r ''head_sha''))) ''RESULT_HEAD_SHA_INVALID'']"

definition forbidden_paths :: "dict \<Rightarrow> string list \<Rightarrow> string list res" where
  "forbidden_paths p paths = concatE (map (\<lambda>path. bindE (path_is_allowed path p) (\<lambda>ok. Inr (flag (\<not> ok) (''RESULT_WRITE_SURFACE_FORBIDDEN:'' @ path)))) paths)"

definition pass_findings :: "dict \<Rightarrow> dict \<Rightarrow> string list \<Rightarrow> string list res" where
  "pass_findings r p changed = (if dget r ''outcome'' \<noteq> JStr ''PASS'' then Inr []
     else bindE (set_ofE (py_or (dget r ''evidence_claims'') (JList []))) (\<lambda>claims.
       let missing = sort (map str_of (filter (\<lambda>x. \<not> list_ex (py_eq x) claims) (list_of (dget p ''required_evidence'')))) in Inr (
       flag (\<not> sha40 (field_text r ''head_sha'')) ''RESULT_PASS_HEAD_SHA_REQUIRED''
       @ flag (dget p ''phase'' = JStr ''EXECUTE'' \<and> changed = []) ''RESULT_PASS_CHANGED_PATHS_REQUIRED''
       @ flag (changed \<noteq> [] \<and> py_eq (dget r ''head_sha'') (dget p ''base_sha'')) ''RESULT_PASS_HEAD_EQUALS_BASE''
       @ flag (\<not> truthy (dget r ''verification_claims'')) ''RESULT_PASS_VERIFICATION_CLAIMS_REQUIRED''
       @ flag (missing \<noteq> []) (''RESULT_REQUIRED_EVIDENCE_CLAIM_MISSING:'' @ join '','' missing))))"

definition validate_work_result :: "(string \<Rightarrow> string) \<Rightarrow> dict \<Rightarrow> dict \<Rightarrow> string list res" where
  "validate_work_result sha r p = bindE (validate_work_package sha p None) (\<lambda>package_errors.
     if package_errors \<noteq> [] then Inr (map ((@) ''RESULT_PACKAGE_INVALID:'') package_errors)
     else bindE (result_head_findings r p) (\<lambda>hs.
     bindE (texts_invalid safe_path True (dget r ''changed_paths'')) (\<lambda>bad.
     let changed = (if bad then [] else map str_of (list_of (dget r ''changed_paths''))) in
     bindE (forbidden_paths p changed) (\<lambda>fs.
     bindE (concatE [
       text_flag nonblank True (dget r ''verification_claims'') ''RESULT_VERIFICATION_CLAIMS_INVALID'',
       text_flag nonblank True (dget r ''evidence_claims'') ''RESULT_EVIDENCE_CLAIMS_INVALID'',
       text_flag nonblank True (dget r ''reason_codes'') ''RESULT_REASON_CODES_INVALID'',
       flagE (\<not> py_eq (dget r ''cost_usd'') (JInt 0)) ''RESULT_COST_NOT_FREE_ONLY'']) (\<lambda>cs.
     bindE (pass_findings r p changed) (\<lambda>ps.
     Inr (uniq (hs @ flag bad ''RESULT_CHANGED_PATHS_INVALID'' @ fs @ cs @ ps
       @ flag (dget r ''result_id'' \<noteq> JStr (result_id sha r)) ''RESULT_ID_MISMATCH''
       @ flag (dget r ''result_digest'' \<noteq> JStr (digest_without sha ''result_digest'' r)) ''RESULT_DIGEST_MISMATCH''))))))))"

record work_claim =
  wc_outcome :: string
  wc_head :: json
  wc_changed :: json
  wc_verification :: json
  wc_evidence :: json
  wc_reasons :: json
  wc_summary :: string

definition build_work_result :: "(string \<Rightarrow> string) \<Rightarrow> dict \<Rightarrow> work_claim \<Rightarrow> string \<Rightarrow> dict res" where
  "build_work_result sha p w created = bindE (validate_work_package sha p None) (\<lambda>package_errors.
     bindE (guard (package_errors = []) (''AI_WORK_PACKAGE_INVALID:'' @ join '','' package_errors)) (\<lambda>_.
     let r = [(''$schema'', JStr RESULT_SCHEMA), (''schema_version'', JInt 1), (''result_id'', JStr []), (''result_digest'', JStr [])]
         @ pick p RESULT_BINDINGS
         @ [(''outcome'', JStr (wc_outcome w)), (''head_sha'', wc_head w), (''changed_paths'', wc_changed w),
            (''verification_claims'', wc_verification w), (''evidence_claims'', wc_evidence w), (''reason_codes'', wc_reasons w),
            (''summary_ru'', JStr (take 1000 (wc_summary w))), (''cost_usd'', JInt 0), (''created_at'', JStr created)];
         r1 = dput ''result_id'' (JStr (result_id sha r)) r;
         result = dput ''result_digest'' (JStr (digest_without sha ''result_digest'' r1)) r1 in
     bindE (validate_work_result sha result p) (\<lambda>errors.
     bindE (guard (errors = []) (''AI_WORK_RESULT_INVALID:'' @ join '','' errors)) (\<lambda>_. Inr result))))"

text \<open>A list stays, anything else becomes the empty list.\<close>

definition list_or_empty :: "json \<Rightarrow> json" where
  "list_or_empty v = (if is_list v then v else JList [])"

definition first_unbound :: "dict \<Rightarrow> dict \<Rightarrow> string list \<Rightarrow> string option" where
  "first_unbound said p ks = find (\<lambda>k. \<not> py_eq (dget said k) (dget p k)) ks"

definition canonicalize_low_trust_claim :: "(string \<Rightarrow> string) \<Rightarrow> dict \<Rightarrow> dict \<Rightarrow> string \<Rightarrow> dict res" where
  "canonicalize_low_trust_claim sha said p created = (case first_unbound said p [''package_id'', ''package_digest'', ''base_sha''] of
     Some k \<Rightarrow> Inl (ValueError (''AGENT_RESULT_PACKAGE_BINDING_MISMATCH:'' @ k))
   | None \<Rightarrow> build_work_result sha p \<lparr>wc_outcome = field_text said ''outcome'', wc_head = dget_or said ''head_sha'' (dget said ''subject_sha''),
       wc_changed = list_or_empty (dget said ''changed_paths''), wc_verification = list_or_empty (dget said ''verification_claims''),
       wc_evidence = list_or_empty (dget said ''evidence_claims''), wc_reasons = list_or_empty (dget said ''reason_codes''),
       wc_summary = field_text said ''summary_ru''\<rparr> created)"

section \<open>What an accepted result respects\<close>

lemma texts_valid: "texts_invalid p optional v = Inr False \<longleftrightarrow>
   (\<exists>ss. v = JList (map JStr ss) \<and> distinct ss \<and> list_all p ss \<and> (optional \<or> ss \<noteq> []))"
proof
  assume l: "texts_invalid p optional v = Inr False"
  then obtain xs where xs: "v = JList xs" "distinct xs" "list_all (is_text p) xs" "optional \<or> xs \<noteq> []"
    by (auto simp: texts_invalid_def split: json.splits if_splits)
  from xs(3) have m: "xs = map JStr (map str_of xs)" by (induction xs) (auto simp: is_text_def split: json.splits)
  have "list_all p (map str_of xs)" using xs(3) by (induction xs) (auto simp: is_text_def split: json.splits)
  moreover have "distinct (map str_of xs)" using xs(2) m by (metis distinct_map)
  ultimately show "\<exists>ss. v = JList (map JStr ss) \<and> distinct ss \<and> list_all p ss \<and> (optional \<or> ss \<noteq> [])"
    using xs(1,4) m by (intro exI [of _ "map str_of xs"]) auto
qed (auto simp: texts_invalid_def distinct_map inj_on_def list_all_iff is_text_def)

lemma text_flag_Nil: "text_flag p optional v code = Inr [] \<longleftrightarrow> texts_invalid p optional v = Inr False"
  by (auto simp: text_flag_def bindE_eq_Inr)

lemma member_flag_Nil: "member_flag v S code = Inr [] \<longleftrightarrow> (\<exists>s \<in> set S. v = JStr s)"
  by (auto simp: member_flag_def bindE_eq_Inr in_set_True)

lemma binding_Nil: "binding_findings code d e = [] \<longleftrightarrow> (\<forall>(k, v) \<in> set e. py_eq (dget d k) v)"
  by (induction e) (auto simp: binding_findings_def)

lemma forbidden_Nil: "forbidden_paths p paths = Inr [] \<longleftrightarrow> (\<forall>path \<in> set paths. path_is_allowed path p = Inr True)"
  by (induction paths) (auto simp: forbidden_paths_def bindE_eq_Inr)

text \<open>The write surfaces of a package: texts, and a path is within when one allows it and none forbids it.\<close>

definition within_surfaces :: "string list \<Rightarrow> string list \<Rightarrow> string \<Rightarrow> bool" where
  "within_surfaces allowed forbidden path = (safe_path path \<and> (\<exists>a \<in> set allowed. fnmatchcase path a) \<and> (\<forall>f \<in> set forbidden. \<not> fnmatchcase path f))"

lemma any_pattern_texts: "any_pattern path (JList (map JStr ps)) = Inr (\<exists>p \<in> set ps. fnmatchcase path p)"
  by (cases ps) (auto simp: any_pattern_def py_or_def list_all_iff list_ex_iff)

lemma path_allowed_iff:
  assumes "dget p ''allowed_write_surfaces'' = JList (map JStr as)" "dget p ''forbidden_write_surfaces'' = JList (map JStr fs)"
  shows "path_is_allowed path p = Inr True \<longleftrightarrow> within_surfaces as fs path"
  by (auto simp: path_is_allowed_def assms any_pattern_texts within_surfaces_def)

lemma valid_package_surfaces:
  assumes "validate_work_package sha p e = Inr []"
  shows "\<exists>as fs. dget p ''allowed_write_surfaces'' = JList (map JStr as) \<and> dget p ''forbidden_write_surfaces'' = JList (map JStr fs) \<and> as \<noteq> []"
  using assms by (auto simp: validate_work_package_def bindE_eq_Inr package_body_findings_def concatE_Nil_iff text_flag_Nil texts_valid)

lemma accepted_parts:
  assumes "validate_work_result sha r p = Inr []"
  shows "validate_work_package sha p None = Inr [] \<and> result_head_findings r p = Inr [] \<and> texts_invalid safe_path True (dget r ''changed_paths'') = Inr False
    \<and> forbidden_paths p (map str_of (list_of (dget r ''changed_paths''))) = Inr [] \<and> texts_invalid nonblank True (dget r ''evidence_claims'') = Inr False
    \<and> texts_invalid nonblank True (dget r ''verification_claims'') = Inr False
    \<and> pass_findings r p (map str_of (list_of (dget r ''changed_paths''))) = Inr []"
proof -
  from assms have v: "validate_work_package sha p None = Inr []"
    by (auto simp: validate_work_result_def bindE_eq_Inr split: if_split_asm)
  with assms obtain hs bad fs cs ps where "result_head_findings r p = Inr hs" "texts_invalid safe_path True (dget r ''changed_paths'') = Inr bad"
     "forbidden_paths p (if bad then [] else map str_of (list_of (dget r ''changed_paths''))) = Inr fs"
     "concatE [
       text_flag nonblank True (dget r ''verification_claims'') ''RESULT_VERIFICATION_CLAIMS_INVALID'',
       text_flag nonblank True (dget r ''evidence_claims'') ''RESULT_EVIDENCE_CLAIMS_INVALID'',
       text_flag nonblank True (dget r ''reason_codes'') ''RESULT_REASON_CODES_INVALID'',
       flagE (\<not> py_eq (dget r ''cost_usd'') (JInt 0)) ''RESULT_COST_NOT_FREE_ONLY''] = Inr cs"
     "pass_findings r p (if bad then [] else map str_of (list_of (dget r ''changed_paths''))) = Inr ps"
     "hs = [] \<and> \<not> bad \<and> fs = [] \<and> cs = [] \<and> ps = []"
    unfolding validate_work_result_def Let_def by (auto simp del: concatE.simps elim!: bindE_InrE)
  with v show ?thesis by (auto simp: concatE_Nil_iff text_flag_Nil simp del: concatE.simps)
qed

lemma pass_parts:
  assumes "pass_findings r p changed = Inr []" "dget r ''outcome'' = JStr ''PASS''"
    "dget p ''required_evidence'' = JList (map JStr es)" "dget r ''evidence_claims'' = JList (map JStr cs)"
  shows "sha40 (field_text r ''head_sha'') \<and> (dget p ''phase'' = JStr ''EXECUTE'' \<longrightarrow> changed \<noteq> [])
    \<and> (changed \<noteq> [] \<longrightarrow> \<not> py_eq (dget r ''head_sha'') (dget p ''base_sha'')) \<and> truthy (dget r ''verification_claims'') \<and> set es \<subseteq> set cs"
proof -
  have c: "set_ofE (py_or (JList (map JStr cs)) (JList [])) = Inr (map JStr cs)"
    by (cases cs) (auto simp: set_ofE_def py_or_def list_all_iff)
  have "filter (\<lambda>x. \<not> list_ex (py_eq x) (map JStr cs)) (map JStr es) = [] \<longleftrightarrow> set es \<subseteq> set cs"
    by (auto simp: filter_empty_conv list_ex_iff)
  moreover have "sort xs = [] \<longleftrightarrow> xs = []" for xs :: "string list" by (metis set_empty set_sort)
  ultimately show ?thesis using assms by (auto simp: pass_findings_def c Let_def)
qed

text \<open>What a claim says stands in its result: nothing is left out, added or changed on the way.\<close>

lemma built_result:
  assumes "build_work_result sha p w created = Inr r"
  shows "dget r ''outcome'' = JStr (wc_outcome w) \<and> dget r ''head_sha'' = wc_head w \<and> dget r ''changed_paths'' = wc_changed w
    \<and> dget r ''verification_claims'' = wc_verification w \<and> dget r ''evidence_claims'' = wc_evidence w \<and> dget r ''reason_codes'' = wc_reasons w"
proof -
  obtain d0 x y where r: "r = dput ''result_digest'' x (dput ''result_id'' y d0)"
    "d0 = [(''$schema'', JStr RESULT_SCHEMA), (''schema_version'', JInt 1), (''result_id'', JStr []), (''result_digest'', JStr [])]
         @ pick p RESULT_BINDINGS
         @ [(''outcome'', JStr (wc_outcome w)), (''head_sha'', wc_head w), (''changed_paths'', wc_changed w),
            (''verification_claims'', wc_verification w), (''evidence_claims'', wc_evidence w), (''reason_codes'', wc_reasons w),
            (''summary_ru'', JStr (take 1000 (wc_summary w))), (''cost_usd'', JInt 0), (''created_at'', JStr created)]"
    using assms unfolding build_work_result_def Let_def
    by (elim bindE_InrE) (rule that [OF _ refl], drule sum.inject(2) [THEN iffD1], erule sym)
  have "dget r k = dget d0 k" if "k \<noteq> ''result_digest''" "k \<noteq> ''result_id''" for k
    using that by (simp add: r(1) dget_def map_of_dput)
  then show ?thesis by (simp add: r(2) pick_def RESULT_BINDINGS_def dget_def)
qed

lemma canonicalized_claim:
  assumes "canonicalize_low_trust_claim sha said p created = Inr r"
  shows "dget r ''outcome'' = JStr (field_text said ''outcome'') \<and> dget r ''head_sha'' = dget_or said ''head_sha'' (dget said ''subject_sha'')
    \<and> list_of (dget r ''changed_paths'') = list_of (dget said ''changed_paths'')
    \<and> list_of (dget r ''verification_claims'') = list_of (dget said ''verification_claims'')
    \<and> list_of (dget r ''evidence_claims'') = list_of (dget said ''evidence_claims'')
    \<and> list_of (dget r ''reason_codes'') = list_of (dget said ''reason_codes'')
    \<and> (\<forall>k \<in> {''package_id'', ''package_digest'', ''base_sha''}. py_eq (dget said k) (dget p k))"
proof -
  have l: "list_of (list_or_empty v) = list_of v" for v by (cases v) (simp_all add: list_or_empty_def)
  from assms have "first_unbound said p [''package_id'', ''package_digest'', ''base_sha''] = None"
    by (simp only: canonicalize_low_trust_claim_def split: option.splits) simp
  then have "\<forall>k \<in> {''package_id'', ''package_digest'', ''base_sha''}. py_eq (dget said k) (dget p k)"
    unfolding first_unbound_def find_None_iff list.set by blast
  moreover from assms have b: "build_work_result sha p \<lparr>wc_outcome = field_text said ''outcome'', wc_head = dget_or said ''head_sha'' (dget said ''subject_sha''),
       wc_changed = list_or_empty (dget said ''changed_paths''), wc_verification = list_or_empty (dget said ''verification_claims''),
       wc_evidence = list_or_empty (dget said ''evidence_claims''), wc_reasons = list_or_empty (dget said ''reason_codes''),
       wc_summary = field_text said ''summary_ru''\<rparr> created = Inr r"
    by (simp only: canonicalize_low_trust_claim_def split: option.splits) simp
  note built_result [OF b, unfolded work_claim.select_convs]
  ultimately show ?thesis by (simp add: l)
qed

text \<open>
  C19.  What an agent claims stays in the surfaces of its package.  When its claim becomes a result,
  the claim and the result name the same intact package by its digest; the result carries the very outcome, commit,
  changed paths and evidence of the claim (a list that the claim lacks counts as empty); every changed path that the agent claimed is a relative
  path without empty, \<open>.\<close> or \<open>..\<close> parts that some allowed pattern matches and no forbidden
  one, so nothing under a forbidden directory was touched.  And a claimed PASS names a
  commit and some verification, claims all the evidence that the package requires, changed something in EXECUTE, and where it
  changed anything its commit is not the base; a PASS without changes in another phase may keep the base commit.
\<close>

theorem claimed_work_stays_in_its_surfaces:
  assumes "canonicalize_low_trust_claim sha said p created = Inr r"
  shows "\<exists>as fs paths es cs. dget p ''allowed_write_surfaces'' = JList (map JStr as) \<and> dget p ''forbidden_write_surfaces'' = JList (map JStr fs)
    \<and> list_of (dget said ''changed_paths'') = map JStr paths \<and> dget r ''changed_paths'' = JList (map JStr paths)
    \<and> distinct paths \<and> (\<forall>path \<in> set paths. within_surfaces as fs path)
    \<and> (\<forall>u. plain u \<and> u @ ''**'' \<in> set fs \<longrightarrow> (\<forall>path \<in> set paths. \<not> starts_with path u))
    \<and> dget p ''package_digest'' = JStr (digest_without sha ''package_digest'' p) \<and> dget r ''package_digest'' = dget p ''package_digest''
    \<and> (\<forall>k \<in> {''package_id'', ''package_digest'', ''base_sha''}. py_eq (dget said k) (dget p k))
    \<and> dget r ''outcome'' = JStr (field_text said ''outcome'') \<and> dget r ''head_sha'' = dget_or said ''head_sha'' (dget said ''subject_sha'')
    \<and> dget p ''required_evidence'' = JList (map JStr es)
    \<and> list_of (dget said ''evidence_claims'') = map JStr cs \<and> dget r ''evidence_claims'' = JList (map JStr cs)
    \<and> (field_text said ''outcome'' = ''PASS'' \<longrightarrow> sha40 (field_text r ''head_sha'') \<and> (dget p ''phase'' = JStr ''EXECUTE'' \<longrightarrow> paths \<noteq> [])
         \<and> (paths \<noteq> [] \<longrightarrow> \<not> py_eq (dget r ''head_sha'') (dget p ''base_sha''))
         \<and> list_of (dget said ''verification_claims'') \<noteq> [] \<and> set es \<subseteq> set cs)"
proof -
  have v: "validate_work_result sha r p = Inr []"
    using assms by (auto simp: canonicalize_low_trust_claim_def build_work_result_def Let_def elim!: bindE_InrE split: option.splits)
  note a = accepted_parts [OF v]
  obtain as fs where surfaces: "dget p ''allowed_write_surfaces'' = JList (map JStr as)" "dget p ''forbidden_write_surfaces'' = JList (map JStr fs)"
    using valid_package_surfaces a by blast
  obtain paths where paths: "dget r ''changed_paths'' = JList (map JStr paths)" "distinct paths" using a unfolding texts_valid by blast
  obtain cs where cs: "dget r ''evidence_claims'' = JList (map JStr cs)" using a unfolding texts_valid by blast
  have pk: "package_body_findings sha p = Inr []" using a by (auto simp: validate_work_package_def bindE_eq_Inr)
  then obtain es where es: "dget p ''required_evidence'' = JList (map JStr es)"
    by (auto simp: package_body_findings_def concatE_Nil_iff text_flag_Nil texts_valid simp del: concatE.simps)
  note c = canonicalized_claim [OF assms]
  have d: "dget p ''package_digest'' = JStr (digest_without sha ''package_digest'' p)"
    using pk by (simp add: package_body_findings_def concatE_Nil_iff del: concatE.simps)
  have rd: "dget r ''package_digest'' = dget p ''package_digest''"
    using a d by (simp add: result_head_findings_def concatE_Nil_iff binding_Nil pick_def RESULT_BINDINGS_def del: concatE.simps)
  have strs: "map str_of (list_of (dget r ''changed_paths'')) = paths" by (simp add: paths comp_def)
  have within: "\<forall>path \<in> set paths. within_surfaces as fs path"
    using a unfolding strs forbidden_Nil path_allowed_iff [OF surfaces] by blast
  then have "\<forall>u. plain u \<and> u @ ''**'' \<in> set fs \<longrightarrow> (\<forall>path \<in> set paths. \<not> starts_with path u)"
    using fnmatch_below unfolding within_surfaces_def by blast
  moreover have "field_text said ''outcome'' = ''PASS'' \<longrightarrow> sha40 (field_text r ''head_sha'') \<and> (dget p ''phase'' = JStr ''EXECUTE'' \<longrightarrow> paths \<noteq> [])
         \<and> (paths \<noteq> [] \<longrightarrow> \<not> py_eq (dget r ''head_sha'') (dget p ''base_sha'')) \<and> list_of (dget said ''verification_claims'') \<noteq> [] \<and> set es \<subseteq> set cs"
  proof
    assume "field_text said ''outcome'' = ''PASS''"
    then have pass: "dget r ''outcome'' = JStr ''PASS''" using c by simp
    have "is_list (dget r ''verification_claims'')" using a by (auto simp: texts_valid)
    with pass_parts [OF _ pass es cs, of paths] a c show "sha40 (field_text r ''head_sha'') \<and> (dget p ''phase'' = JStr ''EXECUTE'' \<longrightarrow> paths \<noteq> [])
         \<and> (paths \<noteq> [] \<longrightarrow> \<not> py_eq (dget r ''head_sha'') (dget p ''base_sha'')) \<and> list_of (dget said ''verification_claims'') \<noteq> [] \<and> set es \<subseteq> set cs"
      unfolding strs by (cases "dget r ''verification_claims''") auto
  qed
  moreover have "list_of (dget said ''changed_paths'') = map JStr paths" "list_of (dget said ''evidence_claims'') = map JStr cs"
    using c paths(1) cs by (metis list_of.simps(1))+
  ultimately show ?thesis using surfaces paths within d rd es cs c by blast
qed

section \<open>A sample package and a claim on it\<close>

definition sample_package :: dict where
  "sample_package = [(''$schema'', JStr PACKAGE_SCHEMA), (''schema_version'', JInt 1), (''package_id'', JStr (''AIWP-'' @ take 24 flat_digest)),
      (''package_digest'', JStr flat_digest), (''run_id'', JStr ''run-0001''), (''roadmap_id'', JStr ''R-1''), (''issue_id'', JStr ''7''),
      (''revision'', JInt 3), (''phase'', JStr ''EXECUTE''), (''work_type'', JStr ''feature''), (''risk'', JStr ''R1''),
      (''base_sha'', JStr sample_sha40), (''goal'', JStr ''build the core''), (''acceptance_criteria'', JList [JStr ''it works'']),
      (''verification_plan'', JList [JStr ''run the tests'']), (''conflict_domains'', JList [JStr ''work:feature'']),
      (''allowed_write_surfaces'', JList DEFAULT_ALLOWED), (''forbidden_write_surfaces'', JList DEFAULT_FORBIDDEN),
      (''required_evidence'', JList DEFAULT_EVIDENCE), (''monetary_budget_usd'', JInt 0), (''created_at'', JStr ''2026-01-01T10:00:00Z'')]"

definition sample_claim :: dict where
  "sample_claim = [(''package_id'', JStr (''AIWP-'' @ take 24 flat_digest)), (''package_digest'', JStr flat_digest), (''base_sha'', JStr sample_sha40),
      (''outcome'', JStr ''PASS''), (''head_sha'', JStr (replicate 40 (CHR ''b''))), (''changed_paths'', JList [JStr ''src/core.py'']),
      (''verification_claims'', JList [JStr ''tests pass'']), (''evidence_claims'', JList DEFAULT_EVIDENCE)]"

definition sample_work_result :: dict where
  "sample_work_result = [(''$schema'', JStr RESULT_SCHEMA), (''schema_version'', JInt 1), (''result_id'', JStr (''AIWR-'' @ take 24 flat_digest)),
      (''result_digest'', JStr flat_digest), (''package_id'', JStr (''AIWP-'' @ take 24 flat_digest)), (''package_digest'', JStr flat_digest),
      (''run_id'', JStr ''run-0001''), (''roadmap_id'', JStr ''R-1''), (''issue_id'', JStr ''7''), (''phase'', JStr ''EXECUTE''),
      (''base_sha'', JStr sample_sha40), (''outcome'', JStr ''PASS''), (''head_sha'', JStr (replicate 40 (CHR ''b''))),
      (''changed_paths'', JList [JStr ''src/core.py'']), (''verification_claims'', JList [JStr ''tests pass'']),
      (''evidence_claims'', JList DEFAULT_EVIDENCE), (''reason_codes'', JList []), (''summary_ru'', JStr []), (''cost_usd'', JInt 0),
      (''created_at'', JStr ''2026-01-01T10:00:00Z'')]"

lemma sample_shapes: "tagged_hex ''AIWP-'' (''AIWP-'' @ take 24 flat_digest)" "tagged_hex ''AIWR-'' (''AIWR-'' @ take 24 flat_digest)"
  "valid_timestamp (JStr ''2026-01-01T10:00:00Z'')" "sha40 (replicate 40 (CHR ''b''))" "sample_sha40 \<noteq> []" "flat_digest \<noteq> []"
proof -
  have "hex_n 24 (replicate 24 (CHR ''a''))" "sha40 (replicate 40 (CHR ''b''))" by (rule hex_n_replicate, code_simp)+
  then show "tagged_hex ''AIWP-'' (''AIWP-'' @ take 24 flat_digest)" "tagged_hex ''AIWR-'' (''AIWR-'' @ take 24 flat_digest)" "sha40 (replicate 40 (CHR ''b''))"
    by (simp_all add: tagged_hex_def flat_digest_def starts_with_def)
  show "valid_timestamp (JStr ''2026-01-01T10:00:00Z'')" by code_simp
qed (simp_all add: sample_sha40_def flat_digest_def)

lemma sample_texts: "text_flag nonblank b (JList [JStr ''it works'']) c = Inr []" "text_flag nonblank b (JList [JStr ''run the tests'']) c = Inr []"
  "text_flag nonblank b (JList [JStr ''work:feature'']) c = Inr []" "text_flag nonblank b (JList DEFAULT_EVIDENCE) c = Inr []"
  "text_flag safe_pattern b (JList DEFAULT_ALLOWED) c = Inr []" "text_flag safe_pattern b (JList DEFAULT_FORBIDDEN) c = Inr []"
  "text_flag nonblank b (JList [JStr ''tests pass'']) c = Inr []" "text_flag nonblank True (JList []) c = Inr []"
  "texts_invalid safe_path b (JList [JStr ''src/core.py'']) = Inr False"
proof -
  have "nonblank ''it works''" "nonblank ''run the tests''" "nonblank ''work:feature''" "nonblank ''changed_paths''" "nonblank ''verification_claims''"
    "nonblank ''tests pass''" "safe_pattern ''**''" "safe_pattern ''.git/**''" "safe_pattern ''.adwf-runtime/**''" "safe_path ''src/core.py''" by code_simp+
  then show "text_flag nonblank b (JList [JStr ''it works'']) c = Inr []" "text_flag nonblank b (JList [JStr ''run the tests'']) c = Inr []"
  "text_flag nonblank b (JList [JStr ''work:feature'']) c = Inr []" "text_flag nonblank b (JList DEFAULT_EVIDENCE) c = Inr []"
  "text_flag safe_pattern b (JList DEFAULT_ALLOWED) c = Inr []" "text_flag safe_pattern b (JList DEFAULT_FORBIDDEN) c = Inr []"
  "text_flag nonblank b (JList [JStr ''tests pass'']) c = Inr []" "text_flag nonblank True (JList []) c = Inr []"
  "texts_invalid safe_path b (JList [JStr ''src/core.py'']) = Inr False"
    by (simp_all add: text_flag_def texts_invalid_def is_text_def DEFAULT_EVIDENCE_def DEFAULT_ALLOWED_def DEFAULT_FORBIDDEN_def)
qed

lemma sample_package_valid: "validate_work_package flat_sha sample_package None = Inr []"
proof -
  have k: "keys_are sample_package PACKAGE_FIELDS" by (simp add: keys_are_def dkeys_def sample_package_def PACKAGE_FIELDS_def)
  have g: "10 \<le> length (strip ''build the core'')" by code_simp
  have "package_head_findings sample_package = Inr []"
    unfolding package_head_findings_def concatE_Nil_iff using k g sample_shapes flat_digest_shape sample_sha40_shape
    by (simp add: member_flag_Nil) (simp add: sample_package_def field_text_def py_or_def CREATIVE_PHASES_def PACKAGE_RISKS_def PACKAGE_WORK_TYPES_def strict_int_def num_eq_def)
  moreover have "package_body_findings flat_sha sample_package = Inr []"
    unfolding package_body_findings_def concatE_Nil_iff package_id_def digest_without_def flat_sha_def
    by (simp add: sample_package_def sample_texts surfaces_clash_def num_eq_def) (simp add: DEFAULT_ALLOWED_def DEFAULT_FORBIDDEN_def)
  ultimately show ?thesis by (simp add: validate_work_package_def)
qed

lemma sample_result_valid: "validate_work_result flat_sha sample_work_result sample_package = Inr []"
proof -
  have k: "keys_are sample_work_result RESULT_FIELDS" by (simp add: keys_are_def dkeys_def sample_work_result_def RESULT_FIELDS_def)
  have h: "result_head_findings sample_work_result sample_package = Inr []"
    unfolding result_head_findings_def concatE_Nil_iff using k sample_shapes flat_digest_shape
    by (simp add: member_flag_Nil binding_Nil pick_def RESULT_BINDINGS_def)
      (simp add: sample_work_result_def sample_package_def field_text_def py_or_def RESULT_OUTCOMES_def num_eq_def)
  have m: "fnmatchcase ''src/core.py'' ''**''" "\<not> fnmatchcase ''src/core.py'' ''.git/**''" "\<not> fnmatchcase ''src/core.py'' ''.adwf-runtime/**''" "safe_path ''src/core.py''"
    by code_simp+
  have w: "path_is_allowed ''src/core.py'' sample_package = Inr True"
    using m by (simp add: path_is_allowed_def any_pattern_def py_or_def sample_package_def DEFAULT_ALLOWED_def DEFAULT_FORBIDDEN_def)
  have "pass_findings sample_work_result sample_package [''src/core.py''] = Inr []"
    using sample_shapes by (simp add: pass_findings_def set_ofE_def py_or_def Let_def DEFAULT_EVIDENCE_def field_text_def sample_work_result_def)
      (simp add: sample_package_def DEFAULT_EVIDENCE_def sample_sha40_def numeral_eq_Suc)
  moreover have "dget sample_work_result ''changed_paths'' = JList [JStr ''src/core.py'']" "dget sample_work_result ''verification_claims'' = JList [JStr ''tests pass'']"
    "dget sample_work_result ''evidence_claims'' = JList DEFAULT_EVIDENCE" "dget sample_work_result ''reason_codes'' = JList []"
    "dget sample_work_result ''cost_usd'' = JInt 0" "dget sample_work_result ''result_id'' = JStr (result_id flat_sha sample_work_result)"
    "dget sample_work_result ''result_digest'' = JStr (digest_without flat_sha ''result_digest'' sample_work_result)"
    by (simp_all add: sample_work_result_def result_id_def digest_without_def flat_sha_def)
  ultimately show ?thesis
    by (simp add: validate_work_result_def sample_package_valid h sample_texts forbidden_paths_def w num_eq_def flagE_def)
qed

lemma sample_claim_accepted: "canonicalize_low_trust_claim flat_sha sample_claim sample_package ''2026-01-01T10:00:00Z'' = Inr sample_work_result"
proof -
  have f: "first_unbound sample_claim sample_package [''package_id'', ''package_digest'', ''base_sha''] = None"
    by (simp add: first_unbound_def sample_claim_def sample_package_def)
  have p: "pick sample_package RESULT_BINDINGS = [(''package_id'', JStr (''AIWP-'' @ take 24 flat_digest)), (''package_digest'', JStr flat_digest),
      (''run_id'', JStr ''run-0001''), (''roadmap_id'', JStr ''R-1''), (''issue_id'', JStr ''7''), (''phase'', JStr ''EXECUTE''), (''base_sha'', JStr sample_sha40)]"
    by (simp add: pick_def RESULT_BINDINGS_def sample_package_def)
  have c: "field_text sample_claim ''outcome'' = ''PASS''" "field_text sample_claim ''summary_ru'' = []" "dget_or sample_claim ''head_sha'' v = JStr (replicate 40 (CHR ''b''))"
    "dget sample_claim ''changed_paths'' = JList [JStr ''src/core.py'']" "dget sample_claim ''verification_claims'' = JList [JStr ''tests pass'']"
    "dget sample_claim ''evidence_claims'' = JList DEFAULT_EVIDENCE" "dget sample_claim ''reason_codes'' = JNull" for v
    by (simp_all add: sample_claim_def field_text_def py_or_def dget_or_def)
  show ?thesis unfolding canonicalize_low_trust_claim_def f option.case build_work_result_def sample_package_valid bindE_Inr p
    using sample_result_valid
    by (simp add: guard_def c list_or_empty_def result_id_def digest_without_def flat_sha_def dput_def Let_def sample_work_result_def)
qed

lemma claimed_work_stays_in_its_surfaces_witness:
  "within_surfaces [''**''] [''.git/**'', ''.adwf-runtime/**''] ''src/core.py'' \<and> sha40 (field_text sample_work_result ''head_sha'')"
proof -
  have d: "dget sample_package ''allowed_write_surfaces'' = JList [JStr ''**'']"
    "dget sample_package ''forbidden_write_surfaces'' = JList [JStr ''.git/**'', JStr ''.adwf-runtime/**'']"
    "dget sample_work_result ''changed_paths'' = JList [JStr ''src/core.py'']" "dget sample_work_result ''outcome'' = JStr ''PASS''"
    by (simp_all add: sample_package_def sample_work_result_def DEFAULT_ALLOWED_def DEFAULT_FORBIDDEN_def)
  obtain as fs paths where "JList [JStr ''**''] = JList (map JStr as)" "JList [JStr ''.git/**'', JStr ''.adwf-runtime/**''] = JList (map JStr fs)"
    "JList [JStr ''src/core.py''] = JList (map JStr paths)" "\<forall>path \<in> set paths. within_surfaces as fs path"
    and "sha40 (field_text sample_work_result ''head_sha'')"
    using claimed_work_stays_in_its_surfaces [OF sample_claim_accepted] unfolding d by (elim exE conjE) (rule that, assumption+, simp)
  then show ?thesis by (auto simp: Cons_eq_map_conv)
qed

end
