(* ===== verification/Orchestrator.thy ===== *)
theory Orchestrator
  imports Policy PyTime
begin

text \<open>
  The durable orchestrator (\<open>.adwf/lib/durable_orchestrator.py\<close>): the run and its journal, the
  hash-chained event log, the validation of a journal, the normalisation of a step result, and
  \<open>advance_run\<close>, the step function of the delivery state machine.

  A journal file is the record \<open>run\<close>; fields the code fills from unvalidated input keep values of
  unknown type.  The directory of journals is an association list from run ids to files.  What
  the code reads from its environment is the record \<open>env\<close>: the hash function, the policy file, the
  clock and the fresh UUID of the call.
\<close>

section \<open>Phases and tables\<close>

definition PHASES :: "string list" where
  "PHASES = [''RECONCILE'', ''AUTHORIZE'', ''CLAIM'', ''WORKSPACE'', ''EXECUTE'', ''OPEN_PR'',
    ''CI'', ''REVIEW'', ''PREVIEW'', ''OWNER_ACCEPTANCE'', ''MERGE'', ''PROMOTE'',
    ''OBSERVE'', ''DONE'', ''CLEANUP'', ''NEXT'', ''RECOVERY'']"

definition ACTION_BY_PHASE :: "(string \<times> string) list" where
  "ACTION_BY_PHASE = [(''RECONCILE'', ''reconcile''), (''AUTHORIZE'', ''plan''), (''CLAIM'', ''claim''),
    (''WORKSPACE'', ''edit''), (''EXECUTE'', ''edit''), (''OPEN_PR'', ''open_pr''), (''CI'', ''test''),
    (''REVIEW'', ''review''), (''PREVIEW'', ''verify''), (''OWNER_ACCEPTANCE'', ''owner_accept''),
    (''MERGE'', ''merge''), (''PROMOTE'', ''promote''), (''OBSERVE'', ''observe''), (''DONE'', ''close_issue''),
    (''CLEANUP'', ''cleanup''), (''NEXT'', ''reconcile''), (''RECOVERY'', ''repair'')]"

definition NEXT_PHASE :: "(string \<times> string) list" where
  "NEXT_PHASE = [(''RECONCILE'', ''AUTHORIZE''), (''AUTHORIZE'', ''CLAIM''), (''CLAIM'', ''WORKSPACE''),
    (''WORKSPACE'', ''EXECUTE''), (''EXECUTE'', ''OPEN_PR''), (''OPEN_PR'', ''CI''), (''CI'', ''REVIEW''),
    (''REVIEW'', ''PREVIEW''), (''PREVIEW'', ''OWNER_ACCEPTANCE''), (''OWNER_ACCEPTANCE'', ''MERGE''),
    (''MERGE'', ''PROMOTE''), (''PROMOTE'', ''OBSERVE''), (''OBSERVE'', ''DONE''), (''DONE'', ''CLEANUP''),
    (''CLEANUP'', ''NEXT'')]"

definition EVIDENCE_PHASES :: "string list" where
  "EVIDENCE_PHASES = [''CI'', ''REVIEW'', ''PREVIEW'', ''MERGE'', ''PROMOTE'', ''OBSERVE'', ''DONE'']"

definition SHA_PHASES :: "string list" where
  "SHA_PHASES = [''OPEN_PR'', ''CI'', ''REVIEW'', ''PREVIEW'', ''OWNER_ACCEPTANCE'', ''MERGE'',
    ''PROMOTE'', ''OBSERVE'', ''DONE'']"

definition OUTCOMES :: "string list" where
  "OUTCOMES = [''PASS'', ''FAIL'', ''BLOCK'', ''HUMAN_REQUIRED'', ''RETRY'', ''CHANGES_REQUESTED'',
    ''ROADMAP_COMPLETE'', ''NEXT_READY'']"

definition ACTIVE_STATUSES :: "string list" where
  "ACTIVE_STATUSES = [''RUNNING'', ''RETRY_WAIT'', ''RECOVERY'', ''HUMAN_REQUIRED'']"

definition DELIVERY_RESULT_PHASES :: "string list" where
  "DELIVERY_RESULT_PHASES = [''PROMOTE'', ''OBSERVE'', ''DONE'']"

definition DELIVERY_STATE_PHASES :: "string list" where
  "DELIVERY_STATE_PHASES = [''PROMOTE'', ''OBSERVE'', ''DONE'', ''CLEANUP'', ''NEXT'']"

definition lookup :: "(string \<times> string) list \<Rightarrow> string \<Rightarrow> string \<Rightarrow> string" where
  "lookup table k d = (case map_of table k of Some v \<Rightarrow> v | None \<Rightarrow> d)"

section \<open>Runs and events\<close>

record event =
  ev_sequence :: int
  ev_id :: string
  ev_key :: string
  ev_phase :: string
  ev_outcome :: string
  ev_subject_sha :: json
  ev_evidence_refs :: "json list"
  ev_reason_codes :: "json list"
  ev_decision :: decision
  ev_metadata :: dict
  ev_occurred_at :: string
  ev_previous :: "string option"
  ev_hash :: string

record run =
  run_schema_version :: json
  run_id :: string
  run_roadmap_id :: string
  run_issue_id :: string
  run_risk :: string
  run_work_type :: string
  run_product_impact :: bool
  run_owner_request_digest :: string
  run_phase :: string
  run_status :: string
  run_cycle :: int
  run_subject_sha :: json
  run_preview_digest :: json
  run_owner_acceptance_sha :: json
  run_delivery_sha :: json
  run_pull_request_number :: "int option"
  run_preview_attestation_id :: "string option"
  run_work_branch :: "string option"
  run_policy_hash :: string
  run_attempts :: "(string \<times> int) list"
  run_max_attempts :: int
  run_max_cycles :: int
  run_deadline_at :: string
  run_last_failed_phase :: "string option"
  run_blockers :: "json list"
  run_monetary_budget :: json
  run_events :: "event list"
  run_event_head :: "string option"
  run_revision :: int
  run_created_at :: string
  run_updated_at :: string

datatype journal_file = Broken | Journal run

type_synonym journal_dir = "(string \<times> journal_file) list"

record env =
  e_sha :: "string \<Rightarrow> string"
  e_policy :: json_file
  e_now :: int
  e_uuid :: string

text \<open>\<open>_event_hash\<close>: the digest of the event's canonical JSON without the digest itself.\<close>

definition decision_json :: "decision \<Rightarrow> json" where
  "decision_json d = JObj [(''result'', JStr (d_result d)), (''reason_codes'', strs (d_reason_codes d)),
     (''policy_hash'', opt_json (d_policy_hash d))]"

definition event_json :: "event \<Rightarrow> json" where
  "event_json e = JObj [(''sequence'', JInt (ev_sequence e)), (''event_id'', JStr (ev_id e)),
     (''idempotency_key'', JStr (ev_key e)), (''phase'', JStr (ev_phase e)),
     (''outcome'', JStr (ev_outcome e)), (''subject_sha'', ev_subject_sha e),
     (''evidence_refs'', JList (ev_evidence_refs e)), (''reason_codes'', JList (ev_reason_codes e)),
     (''decision'', decision_json (ev_decision e)), (''cost_usd'', JFloat (Fin 0) ''0.0''),
     (''metadata'', JObj (ev_metadata e)), (''occurred_at'', JStr (ev_occurred_at e)),
     (''previous_event_hash'', opt_json (ev_previous e))]"

definition event_hash :: "(string \<Rightarrow> string) \<Rightarrow> event \<Rightarrow> string" where
  "event_hash sha e = sha (canonical (event_json e))"

section \<open>Validation of a journal\<close>

text \<open>The loop over the events, with \<open>previous\<close> carried along.\<close>

primrec chain_findings :: "(string \<Rightarrow> string) \<Rightarrow> nat \<Rightarrow> string option \<Rightarrow> event list \<Rightarrow> string list" where
  "chain_findings sha i prev [] = []"
| "chain_findings sha i prev (e # es) =
     flag (ev_sequence e \<noteq> int i + 1) (''EVENT_SEQUENCE:'' @ nat_str i) @
     flag (ev_previous e \<noteq> prev) (''EVENT_CHAIN:'' @ nat_str i) @
     flag (ev_hash e \<noteq> event_hash sha e) (''EVENT_HASH:'' @ nat_str i) @
     chain_findings sha (Suc i) (Some (ev_hash e)) es"

definition last_hash :: "event list \<Rightarrow> string option" where
  "last_hash es = (if es = [] then None else Some (ev_hash (last es)))"

definition is_sha40 :: "json \<Rightarrow> bool" where
  "is_sha40 v = (case v of JStr s \<Rightarrow> sha40 s | _ \<Rightarrow> False)"

definition delivery_findings :: "run \<Rightarrow> string list" where
  "delivery_findings v =
     flag (run_delivery_sha v \<noteq> JNull \<and> \<not> is_sha40 (run_delivery_sha v)) ''DELIVERY_SHA'' @
     (if run_phase v \<in> set DELIVERY_STATE_PHASES
      then (if \<not> is_sha40 (run_delivery_sha v) then [''DELIVERY_SHA_REQUIRED'']
            else flag (\<not> py_eq (run_subject_sha v) (run_delivery_sha v)) ''DELIVERY_SUBJECT_MISMATCH'')
      else [])"

definition validate_journal :: "(string \<Rightarrow> string) \<Rightarrow> run \<Rightarrow> string list res" where
  "validate_journal sha v = bindE (py_float (run_monetary_budget v)) (\<lambda>budget. Inr (
     flag (\<not> py_eq (run_schema_version v) (JInt 1)) ''SCHEMA_VERSION'' @
     flag (run_phase v \<notin> set PHASES \<and> run_status v \<noteq> ''COMPLETE'') ''PHASE'' @
     flag (budget \<noteq> Fin 0) ''MONETARY_BUDGET'' @
     chain_findings sha 0 None (run_events v) @
     flag (run_event_head v \<noteq> last_hash (run_events v)) ''EVENT_HEAD'' @
     delivery_findings v))"

section \<open>The journal store\<close>

definition id_char :: "char \<Rightarrow> bool" where
  "id_char c = (is_alnum c \<or> c \<in> set ''_.-'')"

text \<open>\<open>_run_id\<close>: \<open>[a-zA-Z0-9][a-zA-Z0-9_.-]{7,96}\<close>, a fresh UUID for an empty value.\<close>

definition check_run_id :: "string \<Rightarrow> string \<Rightarrow> string res" where
  "check_run_id uuid v = (let r = (if v = [] then uuid else v) in
     if r \<noteq> [] \<and> is_alnum (hd r) \<and> list_all id_char (tl r) \<and> 8 \<le> length r \<and> length r \<le> 97
     then Inr r else Inl (ValueError ''RUN_ID_INVALID''))"

definition journal_load :: "env \<Rightarrow> journal_dir \<Rightarrow> string \<Rightarrow> run res" where
  "journal_load en dir rid = bindE (check_run_id (e_uuid en) rid) (\<lambda>r.
     (case map_of dir r of
        None \<Rightarrow> Inl (ValueError ''ORCHESTRATION_RUN_NOT_FOUND'')
      | Some Broken \<Rightarrow> Inl (ValueError ''JSON'')
      | Some (Journal v) \<Rightarrow> bindE (validate_journal (e_sha en) v) (\<lambda>findings.
          if findings \<noteq> [] then Inl (ValueError (''ORCHESTRATION_JOURNAL_INVALID:'' @ join '','' findings))
          else Inr v)))"

datatype active = ActiveRun run | BrokenRun string

text \<open>
  \<open>list_active\<close>: the journals in the order of their file names; one that cannot be read counts as
  \<open>BROKEN\<close>, one that is read and not valid is skipped.
\<close>

fun active_entry :: "(string \<Rightarrow> string) \<Rightarrow> string \<times> journal_file \<Rightarrow> active list res" where
  "active_entry sha (name, Broken) = Inr [BrokenRun name]"
| "active_entry sha (name, Journal v) = (case validate_journal sha v of
     Inr findings \<Rightarrow> Inr (if findings = [] \<and> run_status v \<in> set ACTIVE_STATUSES then [ActiveRun v] else [])
   | Inl e \<Rightarrow> (if is_ValueError e \<or> e = OSError then Inr [BrokenRun name] else Inl e))"

definition list_active :: "env \<Rightarrow> journal_dir \<Rightarrow> active list res" where
  "list_active en dir = concatE (map (active_entry (e_sha en)) (sort_key (\<lambda>p. fst p @ ''.json'') dir))"

text \<open>\<open>save\<close>: under the lock, compare the stored revision, then write the next one.\<close>

definition stored_revision :: "journal_file option \<Rightarrow> int res" where
  "stored_revision f = (case f of None \<Rightarrow> Inr (- 1) | Some Broken \<Rightarrow> Inl (ValueError ''JSON'')
     | Some (Journal v) \<Rightarrow> Inr (run_revision v))"

definition journal_save :: "env \<Rightarrow> journal_dir \<Rightarrow> run \<Rightarrow> int option \<Rightarrow> (run \<times> journal_dir) res" where
  "journal_save en dir v expected = bindE (check_run_id (e_uuid en) (run_id v)) (\<lambda>r.
     bindE (stored_revision (map_of dir r)) (\<lambda>actual.
       if expected \<noteq> None \<and> expected \<noteq> Some actual then Inl (ValueError ''ORCHESTRATION_REVISION_CONFLICT'')
       else (let payload = v\<lparr>run_revision := actual + 1, run_updated_at := iso (e_now en)\<rparr>
             in Inr (payload, AList.update r (Journal payload) dir))))"

section \<open>Creating a run\<close>

record run_request =
  rq_roadmap_id :: string
  rq_issue_id :: string
  rq_risk :: string
  rq_work_type :: string
  rq_product_impact :: bool
  rq_owner_request_digest :: string
  rq_run_id :: string
  rq_max_attempts :: int
  rq_max_cycles :: int
  rq_max_elapsed_minutes :: int

definition fresh_run :: "env \<Rightarrow> run_request \<Rightarrow> string \<Rightarrow> dict \<Rightarrow> int \<Rightarrow> run" where
  "fresh_run en q rid policy deadline = \<lparr>
     run_schema_version = JInt 1, run_id = rid, run_roadmap_id = rq_roadmap_id q,
     run_issue_id = rq_issue_id q, run_risk = rq_risk q, run_work_type = rq_work_type q,
     run_product_impact = rq_product_impact q,
     run_owner_request_digest = rq_owner_request_digest q,
     run_phase = ''RECONCILE'', run_status = ''RUNNING'', run_cycle = 0,
     run_subject_sha = JNull, run_preview_digest = JNull, run_owner_acceptance_sha = JNull,
     run_delivery_sha = JNull, run_pull_request_number = None,
     run_preview_attestation_id = None, run_work_branch = None,
     run_policy_hash = str_of (dget policy ''policy_hash''), run_attempts = [],
     run_max_attempts = max 0 (min (rq_max_attempts q) 10),
     run_max_cycles = max 1 (min (rq_max_cycles q) 1000),
     run_deadline_at = iso deadline, run_last_failed_phase = None, run_blockers = [],
     run_monetary_budget = JInt 0, run_events = [], run_event_head = None, run_revision = 0,
     run_created_at = iso (e_now en), run_updated_at = iso (e_now en) \<rparr>"

definition new_run :: "env \<Rightarrow> journal_dir \<Rightarrow> run_request \<Rightarrow> (run \<times> journal_dir) res" where
  "new_run en dir q = bindE (list_active en dir) (\<lambda>active.
     if active \<noteq> [] then Inl (ValueError ''ACTIVE_OR_BROKEN_ORCHESTRATION_EXISTS'')
     else bindE (load_effective_policy (e_sha en) (e_policy en)) (\<lambda>policy.
     bindE (check_run_id (e_uuid en) (rq_run_id q)) (\<lambda>rid.
     (let deadline = e_now en + minutes (max 1 (min (rq_max_elapsed_minutes q) 10080)) in
      if \<not> in_range deadline then Inl OverflowError
      else journal_save en dir (fresh_run en q rid policy deadline) None))))"

section \<open>Normalising a step result\<close>

record step_result =
  st_phase :: string
  st_outcome :: string
  st_key :: string
  st_subject_sha :: json
  st_preview_digest :: json
  st_evidence_refs :: "json list"
  st_reason_codes :: "json list"
  st_transient :: bool
  st_metadata :: dict

definition RESULT_FIELDS :: "string list" where
  "RESULT_FIELDS = [''phase'', ''outcome'', ''idempotency_key'', ''subject_sha'', ''preview_digest'',
    ''evidence_refs'', ''reason_codes'', ''transient'', ''cost_usd'', ''metadata'']"

text \<open>The checks on a result whose fields have been read, in the order of the code.\<close>

definition is_sha256 :: "json \<Rightarrow> bool" where
  "is_sha256 v = (case v of JStr s \<Rightarrow> sha256_hex s | _ \<Rightarrow> False)"

definition check_merge :: "step_result \<Rightarrow> step_result res" where
  "check_merge r = (if st_phase r = ''MERGE'' \<and> st_outcome r = ''PASS'' then
      (if dget (st_metadata r) ''merge_sha'' = JNull then Inl (ValueError ''MERGE_SHA_REQUIRED'')
       else if \<not> is_sha40 (dget (st_metadata r) ''merge_sha'') then Inl (ValueError ''MERGE_SHA_INVALID'')
       else Inr r)
    else Inr r)"

definition check_delivery :: "run \<Rightarrow> step_result \<Rightarrow> step_result res" where
  "check_delivery s r = (if st_phase r \<in> set DELIVERY_RESULT_PHASES then
      (if \<not> is_sha40 (run_delivery_sha s) then Inl (ValueError ''DELIVERY_SHA_REQUIRED'')
       else if \<not> py_eq (st_subject_sha r) (run_delivery_sha s)
         then Inl (ValueError ''DELIVERY_SUBJECT_SHA_MISMATCH'')
       else Inr r)
    else Inr r)"

definition check_outcome :: "run \<Rightarrow> step_result \<Rightarrow> step_result res" where
  "check_outcome s r =
    (if st_outcome r = ''PASS'' \<and> st_phase r \<in> set EVIDENCE_PHASES \<and> st_evidence_refs r = []
        \<and> \<not> truthy (dget (st_metadata r) ''not_applicable_reason'')
       then Inl (ValueError ''EVIDENCE_REQUIRED'')
     else if st_outcome r = ''RETRY'' \<and> \<not> st_transient r
       then Inl (ValueError ''RETRY_REQUIRES_TRANSIENT_CLASSIFICATION'')
     else if st_outcome r \<in> {''ROADMAP_COMPLETE'', ''NEXT_READY''} \<and> st_phase r \<noteq> ''NEXT''
       then Inl (ValueError ''NEXT_OUTCOME_WRONG_PHASE'')
     else if st_outcome r = ''CHANGES_REQUESTED'' \<and> st_phase r \<noteq> ''OWNER_ACCEPTANCE''
       then Inl (ValueError ''CHANGES_REQUESTED_WRONG_PHASE'')
     else if st_phase r = ''PREVIEW'' \<and> st_outcome r = ''PASS'' \<and> run_product_impact s
        \<and> \<not> is_sha256 (st_preview_digest r)
       then Inl (ValueError ''PREVIEW_DIGEST_REQUIRED'')
     else if st_phase r = ''OWNER_ACCEPTANCE'' \<and> st_outcome r = ''PASS''
        \<and> dget (st_metadata r) ''owner_acceptance_exact'' \<noteq> JBool True
       then Inl (ValueError ''OWNER_ACCEPTANCE_NOT_EXACT'')
     else if st_phase r = ''OWNER_ACCEPTANCE'' \<and> st_outcome r = ''PASS''
        \<and> \<not> py_eq (dget (st_metadata r) ''accepted_preview_digest'') (run_preview_digest s)
       then Inl (ValueError ''OWNER_ACCEPTANCE_PREVIEW_MISMATCH'')
     else Inr r)"

definition bind_sha :: "run \<Rightarrow> step_result \<Rightarrow> step_result res" where
  "bind_sha s r = (if st_phase r \<in> set SHA_PHASES then
      (let sha = py_or (st_subject_sha r) (run_subject_sha s) in
       if \<not> is_sha40 sha then Inl (ValueError ''EXACT_SHA_REQUIRED'') else Inr (r\<lparr>st_subject_sha := sha\<rparr>))
    else Inr r)"

definition normalize_result :: "dict \<Rightarrow> run \<Rightarrow> step_result res" where
  "normalize_result d s = (let unknown = keys_beyond d RESULT_FIELDS in
    if unknown \<noteq> [] then Inl (ValueError (''UNKNOWN_STEP_RESULT_FIELDS:'' @ join '','' (sort unknown)))
    else bindE (iterE (py_or (dget d ''evidence_refs'') (JList []))) (\<lambda>refs.
    bindE (iterE (py_or (dget d ''reason_codes'') (JList []))) (\<lambda>codes.
    bindE (py_float (dget_or d ''cost_usd'' (JInt 0))) (\<lambda>cost.
    bindE (dict_castE (py_or (dget d ''metadata'') (JObj []))) (\<lambda>meta.
    if dget d ''phase'' \<noteq> JStr (run_phase s) \<or> run_phase s \<notin> set PHASES
      then Inl (ValueError ''STEP_PHASE_MISMATCH'')
    else bindE (in_set (dget d ''outcome'') OUTCOMES) (\<lambda>known.
    if \<not> known then Inl (ValueError ''STEP_OUTCOME_INVALID'')
    else if \<not> is_str (dget d ''idempotency_key'') \<or> length (str_of (dget d ''idempotency_key'')) < 8
      then Inl (ValueError ''STEP_IDEMPOTENCY_KEY_INVALID'')
    else if cost \<noteq> Fin 0 then Inl (ValueError ''NON_ZERO_COST'')
    else bindE (bind_sha s \<lparr>st_phase = run_phase s, st_outcome = str_of (dget d ''outcome''),
        st_key = str_of (dget d ''idempotency_key''), st_subject_sha = dget d ''subject_sha'',
        st_preview_digest = dget d ''preview_digest'', st_evidence_refs = refs,
        st_reason_codes = codes, st_transient = (dget d ''transient'' = JBool True),
        st_metadata = meta\<rparr>) (\<lambda>r.
    bindE (check_merge r) (\<lambda>r. bindE (check_delivery s r) (check_outcome s)))))))))"

section \<open>Authorising a step\<close>

definition zero_cost :: json where "zero_cost = JFloat (Fin 0) ''0.0''"

definition dupdate :: "dict \<Rightarrow> dict \<Rightarrow> dict" where
  "dupdate d e = fold (\<lambda>p acc. dput (fst p) (snd p) acc) e d"

text \<open>\<open>_control_context\<close>: the caller's facts with the fields the run itself decides.\<close>

definition control_context :: "run \<Rightarrow> step_result \<Rightarrow> dict \<Rightarrow> decision_context res" where
  "control_context s r supplied =
    (let value = dupdate supplied [(''action'', JStr (lookup ACTION_BY_PHASE (run_phase s) [])),
           (''risk'', JStr (run_risk s)), (''work_type'', JStr (run_work_type s)),
           (''expected_policy_hash'', JStr (run_policy_hash s)), (''projected_cost'', zero_cost)]
     in context_from_dict (if run_phase s = ''OWNER_ACCEPTANCE''
        then dupdate value [(''human_approved'', JBool (st_outcome r = ''PASS'')),
           (''owner_acceptance_exact'',
              JBool (dget (st_metadata r) ''owner_acceptance_exact'' = JBool True))]
        else value))"

text \<open>
  The production path supplies a compiled context, which must be bound to this run; the legacy
  path compiles one from the caller's facts.
\<close>

definition operational_work_type :: "run \<Rightarrow> string" where
  "operational_work_type s = (if run_phase s = ''RECOVERY'' then ''recovery''
     else if run_phase s \<in> {''CI'', ''REVIEW'', ''PREVIEW'', ''OBSERVE''} then ''verification''
     else run_work_type s)"

definition bind_context :: "run \<Rightarrow> step_result \<Rightarrow> dict option \<Rightarrow> decision_context option \<Rightarrow> decision_context res" where
  "bind_context s r control trusted = (case trusted of
     Some c \<Rightarrow>
       (if dc_action c \<noteq> JStr (lookup ACTION_BY_PHASE (run_phase s) []) \<or> dc_risk c \<noteq> JStr (run_risk s)
           \<or> dc_work_type c \<noteq> JStr (operational_work_type s)
        then Inl (ValueError ''TRUSTED_CONTEXT_RUN_BINDING_MISMATCH'')
        else if dc_expected_policy_hash c \<noteq> JStr (run_policy_hash s)
        then Inl (ValueError ''TRUSTED_CONTEXT_POLICY_MISMATCH'')
        else bindE (py_float (dc_projected_cost c)) (\<lambda>cost.
          if cost \<noteq> Fin 0 then Inl (ValueError ''TRUSTED_CONTEXT_COST_MISMATCH'') else Inr c))
   | None \<Rightarrow> (case control of
       None \<Rightarrow> Inl (ValueError ''TRUSTED_OR_LEGACY_CONTEXT_REQUIRED'')
     | Some supplied \<Rightarrow> control_context s r supplied))"

section \<open>The event log\<close>

definition mk_event :: "env \<Rightarrow> run \<Rightarrow> step_result \<Rightarrow> decision \<Rightarrow> event" where
  "mk_event en s r d = (let e = \<lparr> ev_sequence = int (length (run_events s)) + 1, ev_id = e_uuid en,
       ev_key = st_key r, ev_phase = run_phase s, ev_outcome = st_outcome r,
       ev_subject_sha = st_subject_sha r, ev_evidence_refs = st_evidence_refs r,
       ev_reason_codes = st_reason_codes r, ev_decision = d, ev_metadata = st_metadata r,
       ev_occurred_at = iso (e_now en), ev_previous = run_event_head s, ev_hash = [] \<rparr>
     in e\<lparr>ev_hash := event_hash (e_sha en) e\<rparr>)"

definition append_event :: "env \<Rightarrow> step_result \<Rightarrow> decision \<Rightarrow> run \<Rightarrow> run" where
  "append_event en r d s = (let e = mk_event en s r d
     in s\<lparr>run_events := run_events s @ [e], run_event_head := Some (ev_hash e)\<rparr>)"

section \<open>The effects of a step\<close>

text \<open>What the result binds: the subject, and the references each phase produces.\<close>

definition bind_subject :: "step_result \<Rightarrow> run \<Rightarrow> run" where
  "bind_subject r s = (if truthy (st_subject_sha r) then
      (if truthy (run_subject_sha s) \<and> \<not> py_eq (run_subject_sha s) (st_subject_sha r)
       then s\<lparr>run_subject_sha := st_subject_sha r, run_preview_digest := JNull,
              run_owner_acceptance_sha := JNull, run_preview_attestation_id := None\<rparr>
       else s\<lparr>run_subject_sha := st_subject_sha r\<rparr>)
    else s)"

definition bind_branch :: "step_result \<Rightarrow> run \<Rightarrow> run res" where
  "bind_branch r s = (let b = dget (st_metadata r) ''branch'' in
     if run_phase s \<in> {''CLAIM'', ''EXECUTE'', ''RECOVERY''} \<and> truthy b then
       (if \<not> starts_with (py_str b) ''adwf/'' \<or> 180 < length (py_str b)
        then Inl (ValueError ''WORK_BRANCH_INVALID'') else Inr (s\<lparr>run_work_branch := Some (py_str b)\<rparr>))
     else Inr s)"

definition bind_pull_request :: "step_result \<Rightarrow> run \<Rightarrow> run res" where
  "bind_pull_request r s = (let n = dget (st_metadata r) ''pull_request_number'' in
     if run_phase s = ''OPEN_PR'' \<and> n \<noteq> JNull
     then bindE (py_int n) (\<lambda>i. Inr (s\<lparr>run_pull_request_number := Some i\<rparr>)) else Inr s)"

definition bind_references :: "step_result \<Rightarrow> run \<Rightarrow> run" where
  "bind_references r s0 = (let m = st_metadata r; ok = (st_outcome r = ''PASS'');
       s1 = (if run_phase s0 = ''PREVIEW'' \<and> truthy (dget m ''attestation_id'')
             then s0\<lparr>run_preview_attestation_id := Some (py_str (dget m ''attestation_id''))\<rparr> else s0);
       merged = JStr (py_str (dget m ''merge_sha''));
       s2 = (if run_phase s1 = ''MERGE'' \<and> ok
             then s1\<lparr>run_delivery_sha := merged, run_subject_sha := merged\<rparr> else s1);
       s3 = (if run_phase s2 = ''PREVIEW'' \<and> ok
             then s2\<lparr>run_preview_digest := st_preview_digest r\<rparr> else s2)
     in (if run_phase s3 = ''OWNER_ACCEPTANCE'' \<and> ok
         then s3\<lparr>run_owner_acceptance_sha := run_subject_sha s3\<rparr> else s3))"

definition apply_bindings :: "step_result \<Rightarrow> run \<Rightarrow> run res" where
  "apply_bindings r s = (let s1 = bind_subject r s; i = dget (st_metadata r) ''issue_id'';
       s2 = (if run_phase s1 = ''RECONCILE'' \<and> i \<noteq> JNull then s1\<lparr>run_issue_id := py_str i\<rparr> else s1)
     in bindE (bind_branch r s2) (\<lambda>s3. bindE (bind_pull_request r s3) (\<lambda>s4. Inr (bind_references r s4))))"

text \<open>The transition each outcome takes.\<close>

definition codes_or :: "step_result \<Rightarrow> string \<Rightarrow> json list" where
  "codes_or r d = (if st_reason_codes r = [] then [JStr d] else st_reason_codes r)"

definition enter_recovery :: "run \<Rightarrow> run" where
  "enter_recovery s = s\<lparr>run_last_failed_phase := Some (run_phase s), run_phase := ''RECOVERY'',
     run_status := ''RECOVERY''\<rparr>"

definition on_pass :: "run \<Rightarrow> run" where
  "on_pass s = (if run_phase s = ''REVIEW'' \<and> \<not> run_product_impact s then s\<lparr>run_phase := ''MERGE''\<rparr>
     else if run_phase s = ''RECOVERY''
       then s\<lparr>run_phase := (case run_last_failed_phase s of
                Some p \<Rightarrow> (if p = [] then ''RECONCILE'' else p) | None \<Rightarrow> ''RECONCILE''),
              run_last_failed_phase := None\<rparr>
     else s\<lparr>run_phase := lookup NEXT_PHASE (run_phase s) (run_phase s)\<rparr>)
     \<lparr>run_status := ''RUNNING'', run_blockers := []\<rparr>"

definition on_fail :: "step_result \<Rightarrow> run \<Rightarrow> run" where
  "on_fail r s = (if run_phase s = ''RECOVERY''
     then s\<lparr>run_status := ''BLOCKED'', run_blockers := codes_or r ''RECOVERY_FAILED''\<rparr>
     else enter_recovery s)"

definition attempts_of :: "run \<Rightarrow> string \<Rightarrow> int" where
  "attempts_of s p = (case map_of (run_attempts s) p of Some n \<Rightarrow> n | None \<Rightarrow> 0)"

definition on_retry :: "run \<Rightarrow> run" where
  "on_retry s = (let used = attempts_of s (run_phase s) + 1;
       s1 = s\<lparr>run_attempts := AList.update (run_phase s) used (run_attempts s)\<rparr>
     in if run_max_attempts s < used
        then (enter_recovery s1)\<lparr>run_blockers := [JStr ''RETRY_BUDGET_EXHAUSTED'']\<rparr>
        else s1\<lparr>run_status := ''RETRY_WAIT''\<rparr>)"

definition on_next_ready :: "run \<Rightarrow> run" where
  "on_next_ready s = (let s1 = s\<lparr>run_cycle := run_cycle s + 1\<rparr> in
     if run_max_cycles s \<le> run_cycle s1
     then s1\<lparr>run_status := ''BLOCKED'', run_blockers := [JStr ''MAX_CYCLES_REACHED'']\<rparr>
     else s1\<lparr>run_phase := ''RECONCILE'', run_status := ''RUNNING'', run_subject_sha := JNull,
            run_preview_digest := JNull, run_owner_acceptance_sha := JNull, run_delivery_sha := JNull,
            run_pull_request_number := None, run_preview_attestation_id := None,
            run_work_branch := None, run_attempts := []\<rparr>)"

definition apply_outcome :: "step_result \<Rightarrow> run \<Rightarrow> run" where
  "apply_outcome r s =
    (if st_outcome r = ''PASS'' then on_pass s
     else if st_outcome r = ''FAIL'' then on_fail r s
     else if st_outcome r = ''RETRY'' then on_retry s
     else if st_outcome r = ''CHANGES_REQUESTED''
       then s\<lparr>run_phase := ''EXECUTE'', run_status := ''RUNNING'', run_preview_digest := JNull,
              run_owner_acceptance_sha := JNull\<rparr>
     else if st_outcome r = ''HUMAN_REQUIRED''
       then s\<lparr>run_status := ''HUMAN_REQUIRED'', run_blockers := codes_or r ''HUMAN_DECISION_REQUIRED''\<rparr>
     else if st_outcome r = ''BLOCK''
       then s\<lparr>run_status := ''BLOCKED'', run_blockers := codes_or r ''STEP_BLOCKED''\<rparr>
     else if st_outcome r = ''ROADMAP_COMPLETE'' then s\<lparr>run_phase := ''NEXT'', run_status := ''COMPLETE''\<rparr>
     else if st_outcome r = ''NEXT_READY'' then on_next_ready s
     else s)"

section \<open>One step of a run\<close>

text \<open>
  The deadline: passed, not readable, or ahead.  A text without offset is read as UTC.
\<close>

datatype deadline = Passed | Ahead | BadDeadline

definition check_deadline :: "int \<Rightarrow> string \<Rightarrow> deadline res" where
  "check_deadline now text = (case fromisoformat (replace_Z text) of
     None \<Rightarrow> Inr BadDeadline
   | Some (t, off) \<Rightarrow> (let u = t - (case off of None \<Rightarrow> 0 | Some f \<Rightarrow> f) in
       if \<not> in_range u then Inl OverflowError else Inr (if u < now then Passed else Ahead)))"

definition block_run :: "string \<Rightarrow> run \<Rightarrow> run" where
  "block_run reason s = s\<lparr>run_status := ''BLOCKED'', run_blockers := [JStr reason]\<rparr>"

text \<open>The decided part of a step, from a normalised result and the policy's decision.\<close>

definition decide_step :: "env \<Rightarrow> step_result \<Rightarrow> decision \<Rightarrow> run \<Rightarrow> run res" where
  "decide_step en r d s =
    (if d_policy_hash d \<noteq> Some (run_policy_hash s) \<and> d_result d = ''ALLOW''
     then Inl (ValueError ''ORCHESTRATION_POLICY_DRIFT'')
     else let s1 = append_event en r d s in
       if d_result d \<noteq> ''ALLOW''
       then Inr (s1\<lparr>run_status := d_result d, run_blockers := map JStr (d_reason_codes d)\<rparr>)
       else bindE (apply_bindings r s1) (\<lambda>s2. Inr (apply_outcome r s2)))"

definition find_duplicate :: "run \<Rightarrow> json \<Rightarrow> event option" where
  "find_duplicate s key = find (\<lambda>e. JStr (ev_key e) = key) (run_events s)"

definition advance_run :: "env \<Rightarrow> journal_dir \<Rightarrow> string \<Rightarrow> dict \<Rightarrow> dict option \<Rightarrow> decision_context option
    \<Rightarrow> (run \<times> journal_dir) res" where
  "advance_run en dir rid d control trusted = bindE (journal_load en dir rid) (\<lambda>s.
     if run_status s \<in> {''COMPLETE'', ''BLOCKED''} then Inr (s, dir)
     else bindE (check_deadline (e_now en) (run_deadline_at s)) (\<lambda>dl.
     if dl = Passed
       then journal_save en dir (block_run ''ORCHESTRATION_TIME_BUDGET_EXHAUSTED'' s) (Some (run_revision s))
     else if dl = BadDeadline
       then journal_save en dir (block_run ''ORCHESTRATION_DEADLINE_INVALID'' s) (Some (run_revision s))
     else (case find_duplicate s (dget d ''idempotency_key'') of
       Some e \<Rightarrow> (if JStr (ev_phase e) \<noteq> dget d ''phase'' \<or> JStr (ev_outcome e) \<noteq> dget d ''outcome''
          then Inl (ValueError ''STEP_IDEMPOTENCY_CONFLICT'') else Inr (s, dir))
     | None \<Rightarrow>
         bindE (normalize_result d s) (\<lambda>r.
         bindE (bind_context s r control trusted) (\<lambda>c.
         bindE (evaluate_with_effective_policy (e_sha en) (e_policy en) c) (\<lambda>dec.
         bindE (decide_step en r dec s) (\<lambda>s'.
           journal_save en dir s' (Some (run_revision s)))))))))"

text \<open>\<open>advance_run_trusted\<close>, the production entry.\<close>

definition advance_run_trusted :: "env \<Rightarrow> journal_dir \<Rightarrow> string \<Rightarrow> dict \<Rightarrow> decision_context
    \<Rightarrow> (run \<times> journal_dir) res" where
  "advance_run_trusted en dir rid d c = advance_run en dir rid d None (Some c)"

end
