(* ===== verification/HashChain.thy ===== *)
theory HashChain
  imports PyVal
begin

text \<open>
  The contract of the append-only logs of the framework (the journal of a run, the evidence log), stated
  once: every entry names the digest of its predecessor, so a head determines the whole log.
\<close>

text \<open>
  A log whose entries name the digest of their predecessor.  \<open>links i p e\<close> is the check of the entry
  at position \<open>i\<close> after an entry with digest \<open>p\<close>, \<open>chained i p\<close> the check of a whole log.
\<close>

locale hash_chain =
  fixes links :: "nat \<Rightarrow> string option \<Rightarrow> 'e \<Rightarrow> bool"
    and chained :: "nat \<Rightarrow> string option \<Rightarrow> 'e list \<Rightarrow> bool"
    and stored :: "'e \<Rightarrow> string"
    and prev :: "'e \<Rightarrow> string option"
    and content :: "'e \<Rightarrow> json"
    and digest :: "json \<Rightarrow> string"
  assumes chained_Nil: "chained i p []"
    and chained_Cons: "chained i p (e # es) \<longleftrightarrow> links i p e \<and> chained (Suc i) (Some (stored e)) es"
    and links_prev: "links i p e \<Longrightarrow> prev e = p"
    and links_stored: "links i p e \<Longrightarrow> stored e = digest (content e)"
    and content_prev: "content e = content e' \<Longrightarrow> prev e = prev e'"
begin

definition head :: "string option \<Rightarrow> 'e list \<Rightarrow> string option" where
  "head p es = (if es = [] then p else Some (stored (last es)))"

lemma chained_append:
  "chained i p (es @ fs) \<longleftrightarrow> chained i p es \<and> chained (i + length es) (head p es) fs"
  by (induction es arbitrary: i p) (auto simp: chained_Nil chained_Cons head_def)

lemma chained_snoc:
  "chained i p (es @ [e]) \<longleftrightarrow> chained i p es \<and> links (i + length es) (head p es) e"
  by (simp add: chained_append chained_Cons chained_Nil)

lemma chained_stored: "chained i p es \<Longrightarrow> e \<in> set es \<Longrightarrow> stored e = digest (content e)"
  by (induction es arbitrary: i p) (auto simp: chained_Cons dest: links_stored)

lemma same_head_same_content:
  assumes "chained i None es" "chained j None fs" "head None es = head None fs"
    and "inj_on digest (content ` (set es \<union> set fs))"
  shows "map content es = map content fs"
  using assms
proof (induction es arbitrary: fs rule: rev_induct)
  case Nil
  then show ?case by (auto simp: head_def split: if_split_asm)
next
  case (snoc e es)
  from snoc.prems(3) have "fs \<noteq> []" by (auto simp: head_def split: if_split_asm)
  then obtain gs g where fs: "fs = gs @ [g]" by (cases fs rule: rev_cases) auto
  have sg: "stored e = digest (content e)" "stored g = digest (content g)"
    using snoc.prems(1,2) by (auto simp: fs intro: chained_stored)
  have "stored e = stored g" using snoc.prems(3) by (simp add: head_def fs)
  then have c: "content e = content g"
    using inj_onD [OF snoc.prems(4), of "content e" "content g"] sg by (simp add: fs)
  have "prev e = head None es" "prev g = head None gs"
    using snoc.prems(1,2) by (auto simp: fs chained_snoc dest: links_prev)
  then have "head None es = head None gs" using content_prev [OF c] by simp
  moreover have "inj_on digest (content ` (set es \<union> set gs))"
    using snoc.prems(4) by (rule inj_on_subset) (auto simp: fs)
  ultimately have "map content es = map content gs"
    using snoc.IH [of gs] snoc.prems(1,2) by (simp add: fs chained_snoc)
  then show ?case by (simp add: fs c)
qed

end

end
