(* ===== verification/OrchestratorProps.thy ===== *)
theory OrchestratorProps
  imports Orchestrator HashChain
begin

text \<open>
  What makes the durable orchestrator correct: the hash chain of the event log (an
  instance of \<open>hash_chain\<close>), the step relation behind \<open>advance_run\<close>, the invariants of every journal the
  orchestrator can write, and the rules of the delivery state machine.
\<close>

section \<open>The event log as a hash chain\<close>

text \<open>The links of the log of a run.\<close>

definition event_links :: "(string \<Rightarrow> string) \<Rightarrow> nat \<Rightarrow> string option \<Rightarrow> event \<Rightarrow> bool" where
  "event_links sha i p e = (ev_sequence e = int i + 1 \<and> ev_previous e = p \<and> ev_hash e = event_hash sha e)"

lemma opt_json_inj [simp]: "opt_json a = opt_json b \<longleftrightarrow> a = b"
  by (auto simp: opt_json_def split: option.splits)

interpretation run_log: hash_chain "event_links sha" "\<lambda>i p es. chain_findings sha i p es = []"
    ev_hash ev_previous event_json "\<lambda>j. sha (canonical j)" for sha
  by unfold_locales (auto simp: event_links_def event_hash_def event_json_def)

lemma run_log_head [simp]: "run_log.head None es = last_hash es"
  by (simp add: run_log.head_def last_hash_def)

section \<open>The step relation\<close>

text \<open>
  What \<open>advance_run\<close> does to the loaded run when it writes a journal: it gives up on a deadline
  that has passed or cannot be read, or takes a step that was normalised, authorised and decided.
\<close>

inductive run_step :: "env \<Rightarrow> run \<Rightarrow> dict \<Rightarrow> run \<Rightarrow> bool" for en where
  passed: "\<lbrakk>run_status s \<notin> {''COMPLETE'', ''BLOCKED''};
     check_deadline (e_now en) (run_deadline_at s) = Inr Passed\<rbrakk>
   \<Longrightarrow> run_step en s d (block_run ''ORCHESTRATION_TIME_BUDGET_EXHAUSTED'' s)"
| unreadable: "\<lbrakk>run_status s \<notin> {''COMPLETE'', ''BLOCKED''};
     check_deadline (e_now en) (run_deadline_at s) = Inr BadDeadline\<rbrakk>
   \<Longrightarrow> run_step en s d (block_run ''ORCHESTRATION_DEADLINE_INVALID'' s)"
| decided: "\<lbrakk>run_status s \<notin> {''COMPLETE'', ''BLOCKED''};
     check_deadline (e_now en) (run_deadline_at s) = Inr Ahead;
     find_duplicate s (dget d ''idempotency_key'') = None;
     normalize_result d s = Inr r; bind_context s r control trusted = Inr c;
     evaluate_with_effective_policy (e_sha en) (e_policy en) c = Inr dec;
     decide_step en r dec s = Inr s'\<rbrakk>
   \<Longrightarrow> run_step en s d s'"

lemma advance_run_step:
  assumes "advance_run en dir rid d control trusted = Inr (v, dir')"
  obtains (same) s where "journal_load en dir rid = Inr s" "v = s" "dir' = dir"
    | (saved) s s' where "journal_load en dir rid = Inr s" "run_step en s d s'"
        "journal_save en dir s' (Some (run_revision s)) = Inr (v, dir')"
proof -
  from assms obtain s where s: "journal_load en dir rid = Inr s"
    by (auto simp: advance_run_def elim!: bindE_InrE)
  let ?saves = "\<lambda>s'. journal_save en dir s' (Some (run_revision s)) = Inr (v, dir')"
  show thesis
  proof (cases "run_status s \<in> {''COMPLETE'', ''BLOCKED''}")
    case True
    with assms s have "v = s" "dir' = dir" by (auto simp: advance_run_def)
    with s show thesis by (rule same)
  next
    case active: False
    with assms s obtain dl where dl: "check_deadline (e_now en) (run_deadline_at s) = Inr dl"
      by (auto simp: advance_run_def elim!: bindE_InrE)
    note running = active dl s
    show thesis
    proof (cases "find_duplicate s (dget d ''idempotency_key'')")
      case None
      with assms running same saved show thesis
        by (cases dl) (auto simp: advance_run_def elim!: bindE_InrE intro: run_step.intros)
    next
      case (Some e)
      with assms running same saved show thesis
        by (cases dl) (auto simp: advance_run_def split: if_split_asm intro: run_step.intros)
    qed
  qed
qed


section \<open>What a normalised result guarantees\<close>

lemma bind_sha_facts:
  "bind_sha s r = Inr r' \<Longrightarrow> \<exists>x. r' = r\<lparr>st_subject_sha := x\<rparr> \<and> (st_phase r \<in> set SHA_PHASES \<longrightarrow> is_sha40 x)"
  by (auto simp: bind_sha_def Let_def split: if_split_asm intro: exI [of _ "st_subject_sha r"])

lemma check_merge_facts: "check_merge r = Inr r' \<Longrightarrow> r' = r \<and>
   (st_phase r = ''MERGE'' \<and> st_outcome r = ''PASS'' \<longrightarrow> is_sha40 (dget (st_metadata r) ''merge_sha''))"
  by (auto simp: check_merge_def split: if_split_asm)

lemma py_eq_sha40: "is_sha40 w \<Longrightarrow> py_eq v w \<longleftrightarrow> v = w"
  by (cases w) (auto simp: is_sha40_def)

lemma check_delivery_facts: "check_delivery s r = Inr r' \<Longrightarrow> r' = r \<and>
   (st_phase r \<in> set DELIVERY_RESULT_PHASES \<longrightarrow>
      is_sha40 (run_delivery_sha s) \<and> st_subject_sha r = run_delivery_sha s)"
  by (auto simp: check_delivery_def py_eq_sha40 split: if_split_asm)

lemma check_outcome_facts: "check_outcome s r = Inr r' \<Longrightarrow> r' = r
   \<and> (st_outcome r = ''PASS'' \<and> st_phase r \<in> set EVIDENCE_PHASES \<longrightarrow>
        st_evidence_refs r \<noteq> [] \<or> truthy (dget (st_metadata r) ''not_applicable_reason''))
   \<and> (st_outcome r = ''RETRY'' \<longrightarrow> st_transient r)
   \<and> (st_outcome r \<in> {''ROADMAP_COMPLETE'', ''NEXT_READY''} \<longrightarrow> st_phase r = ''NEXT'')
   \<and> (st_outcome r = ''CHANGES_REQUESTED'' \<longrightarrow> st_phase r = ''OWNER_ACCEPTANCE'')
   \<and> (st_phase r = ''PREVIEW'' \<and> st_outcome r = ''PASS'' \<and> run_product_impact s \<longrightarrow>
        is_sha256 (st_preview_digest r))
   \<and> (st_phase r = ''OWNER_ACCEPTANCE'' \<and> st_outcome r = ''PASS'' \<longrightarrow>
        dget (st_metadata r) ''owner_acceptance_exact'' = JBool True
        \<and> py_eq (dget (st_metadata r) ''accepted_preview_digest'') (run_preview_digest s))"
  by (auto simp: check_outcome_def split: if_split_asm)

definition normal_result :: "run \<Rightarrow> step_result \<Rightarrow> bool" where
  "normal_result s r = (st_phase r = run_phase s \<and> run_phase s \<in> set PHASES \<and> st_outcome r \<in> set OUTCOMES
   \<and> 8 \<le> length (st_key r) \<and> (run_phase s \<in> set SHA_PHASES \<longrightarrow> is_sha40 (st_subject_sha r))
   \<and> (run_phase s = ''MERGE'' \<and> st_outcome r = ''PASS'' \<longrightarrow> is_sha40 (dget (st_metadata r) ''merge_sha''))
   \<and> (run_phase s \<in> set DELIVERY_RESULT_PHASES \<longrightarrow>
      is_sha40 (run_delivery_sha s) \<and> st_subject_sha r = run_delivery_sha s)
   \<and> (st_outcome r = ''RETRY'' \<longrightarrow> st_transient r)
   \<and> (st_outcome r \<in> {''ROADMAP_COMPLETE'', ''NEXT_READY''} \<longrightarrow> run_phase s = ''NEXT'')
   \<and> (st_outcome r = ''CHANGES_REQUESTED'' \<longrightarrow> run_phase s = ''OWNER_ACCEPTANCE'')
   \<and> (run_phase s = ''PREVIEW'' \<and> st_outcome r = ''PASS'' \<and> run_product_impact s \<longrightarrow>
        is_sha256 (st_preview_digest r))
   \<and> (run_phase s = ''OWNER_ACCEPTANCE'' \<and> st_outcome r = ''PASS'' \<longrightarrow>
        dget (st_metadata r) ''owner_acceptance_exact'' = JBool True
        \<and> py_eq (dget (st_metadata r) ''accepted_preview_digest'') (run_preview_digest s))
   \<and> (st_outcome r = ''PASS'' \<and> run_phase s \<in> set EVIDENCE_PHASES \<longrightarrow>
        st_evidence_refs r \<noteq> [] \<or> truthy (dget (st_metadata r) ''not_applicable_reason'')))"

lemma normalize_facts:
  assumes "normalize_result d s = Inr r"
  shows "normal_result s r \<and> dget d ''phase'' = JStr (run_phase s)
    \<and> dget d ''outcome'' = JStr (st_outcome r) \<and> dget d ''idempotency_key'' = JStr (st_key r)"
proof -
  from assms obtain refs codes meta oc k r1 r2 r3 where
      o': "oc \<in> set OUTCOMES" "8 \<le> length k" "run_phase s \<in> set PHASES"
    and d': "dget d ''phase'' = JStr (run_phase s)" "dget d ''outcome'' = JStr oc"
      "dget d ''idempotency_key'' = JStr k"
    and c': "bind_sha s \<lparr>st_phase = run_phase s, st_outcome = oc, st_key = k,
        st_subject_sha = dget d ''subject_sha'', st_preview_digest = dget d ''preview_digest'',
        st_evidence_refs = refs, st_reason_codes = codes,
        st_transient = (dget d ''transient'' = JBool True), st_metadata = meta\<rparr> = Inr r1"
      "check_merge r1 = Inr r2" "check_delivery s r2 = Inr r3" "check_outcome s r3 = Inr r"
    unfolding normalize_result_def Let_def
    by (auto elim!: bindE_InrE split: if_split_asm simp: in_set_True is_str_iff not_less)
  define r0 where "r0 = \<lparr>st_phase = run_phase s, st_outcome = oc, st_key = k,
        st_subject_sha = dget d ''subject_sha'', st_preview_digest = dget d ''preview_digest'',
        st_evidence_refs = refs, st_reason_codes = codes,
        st_transient = (dget d ''transient'' = JBool True), st_metadata = meta\<rparr>"
  have o: "st_outcome r0 \<in> set OUTCOMES" "8 \<le> length (st_key r0)" "st_phase r0 = run_phase s"
      "run_phase s \<in> set PHASES"
    and d: "dget d ''phase'' = JStr (run_phase s)" "dget d ''outcome'' = JStr (st_outcome r0)"
      "dget d ''idempotency_key'' = JStr (st_key r0)"
    and c: "bind_sha s r0 = Inr r1" "check_merge r1 = Inr r2" "check_delivery s r2 = Inr r3"
      "check_outcome s r3 = Inr r"
    using o' d' c' by (simp_all add: r0_def)
  obtain x where x: "r1 = r0\<lparr>st_subject_sha := x\<rparr>" "run_phase s \<in> set SHA_PHASES \<longrightarrow> is_sha40 x"
    using bind_sha_facts [OF c(1)] o by auto
  note m = check_merge_facts [OF c(2)] and l = check_delivery_facts [OF c(3)]
    and u = check_outcome_facts [OF c(4)]
  have r: "r = r1" using m l u by simp
  have "normal_result s r"
    unfolding normal_result_def using x m l u o by (simp add: r)
  then show ?thesis using d x by (simp add: r)
qed

section \<open>What the bindings and the transition touch\<close>

lemma bind_subject_fields [simp]:
  "run_phase (bind_subject r s) = run_phase s" "run_status (bind_subject r s) = run_status s"
  "run_events (bind_subject r s) = run_events s" "run_event_head (bind_subject r s) = run_event_head s"
  "run_cycle (bind_subject r s) = run_cycle s" "run_max_cycles (bind_subject r s) = run_max_cycles s"
  "run_attempts (bind_subject r s) = run_attempts s" "run_max_attempts (bind_subject r s) = run_max_attempts s"
  "run_last_failed_phase (bind_subject r s) = run_last_failed_phase s"
  "run_delivery_sha (bind_subject r s) = run_delivery_sha s" "run_id (bind_subject r s) = run_id s"
  "run_product_impact (bind_subject r s) = run_product_impact s"
  "run_revision (bind_subject r s) = run_revision s" "run_policy_hash (bind_subject r s) = run_policy_hash s"
  "run_deadline_at (bind_subject r s) = run_deadline_at s"
  "run_schema_version (bind_subject r s) = run_schema_version s"
  "run_monetary_budget (bind_subject r s) = run_monetary_budget s"
  by (simp_all add: bind_subject_def)

lemma bind_references_fields [simp]:
  "run_phase (bind_references r s) = run_phase s" "run_status (bind_references r s) = run_status s"
  "run_events (bind_references r s) = run_events s" "run_event_head (bind_references r s) = run_event_head s"
  "run_cycle (bind_references r s) = run_cycle s" "run_max_cycles (bind_references r s) = run_max_cycles s"
  "run_attempts (bind_references r s) = run_attempts s"
  "run_max_attempts (bind_references r s) = run_max_attempts s"
  "run_last_failed_phase (bind_references r s) = run_last_failed_phase s"
  "run_id (bind_references r s) = run_id s"
  "run_product_impact (bind_references r s) = run_product_impact s"
  "run_revision (bind_references r s) = run_revision s" "run_policy_hash (bind_references r s) = run_policy_hash s"
  "run_deadline_at (bind_references r s) = run_deadline_at s"
  "run_schema_version (bind_references r s) = run_schema_version s"
  "run_monetary_budget (bind_references r s) = run_monetary_budget s"
  by (simp_all add: bind_references_def Let_def)

lemma bind_references_delivery: "run_delivery_sha (bind_references r s) =
    (if run_phase s = ''MERGE'' \<and> st_outcome r = ''PASS''
     then JStr (py_str (dget (st_metadata r) ''merge_sha'')) else run_delivery_sha s)"
  by (simp add: bind_references_def Let_def)

lemma bind_references_subject: "run_subject_sha (bind_references r s) =
    (if run_phase s = ''MERGE'' \<and> st_outcome r = ''PASS''
     then JStr (py_str (dget (st_metadata r) ''merge_sha'')) else run_subject_sha s)"
  by (simp add: bind_references_def Let_def)

lemma bind_references_acceptance: "run_owner_acceptance_sha (bind_references r s) =
    (if run_phase s = ''OWNER_ACCEPTANCE'' \<and> st_outcome r = ''PASS''
     then run_subject_sha s else run_owner_acceptance_sha s)"
  by (simp add: bind_references_def Let_def)

text \<open>
  The bindings in terms of the fields the properties speak of: everything else is left alone.
\<close>

lemma apply_bindings_shape:
  assumes "apply_bindings r s = Inr s'"
  shows "\<exists>i b n. s' = bind_references r ((bind_subject r s)\<lparr>run_issue_id := i, run_work_branch := b,
     run_pull_request_number := n\<rparr>)"
proof -
  from assms obtain i b n where "s' = bind_references r ((((bind_subject r s)\<lparr>run_issue_id := i\<rparr>)
      \<lparr>run_work_branch := b\<rparr>)\<lparr>run_pull_request_number := n\<rparr>)"
  proof -
    let ?s1 = "bind_subject r s"
    obtain i where i: "(let i = dget (st_metadata r) ''issue_id'' in
        if run_phase ?s1 = ''RECONCILE'' \<and> i \<noteq> JNull then ?s1\<lparr>run_issue_id := py_str i\<rparr> else ?s1)
      = ?s1\<lparr>run_issue_id := i\<rparr>"
      by (cases "run_phase ?s1 = ''RECONCILE'' \<and> dget (st_metadata r) ''issue_id'' \<noteq> JNull")
        (auto simp: Let_def intro: that [of "run_issue_id ?s1"])
    have br: "\<exists>b. t' = t\<lparr>run_work_branch := b\<rparr>" if "bind_branch r t = Inr t'" for t t'
      using that by (auto simp: bind_branch_def Let_def split: if_split_asm
          intro: exI [of _ "run_work_branch t"])
    have pr: "\<exists>n. t' = t\<lparr>run_pull_request_number := n\<rparr>" if "bind_pull_request r t = Inr t'" for t t'
      using that by (auto simp: bind_pull_request_def Let_def split: if_split_asm elim!: bindE_InrE
          intro: exI [of _ "run_pull_request_number t"])
    from assms i show thesis
      unfolding apply_bindings_def Let_def
      by (auto elim!: bindE_InrE dest!: br pr intro: that)
  qed
  then show ?thesis by auto
qed

lemma apply_bindings_fields:
  assumes "apply_bindings r s = Inr s'"
  shows "run_phase s' = run_phase s" "run_status s' = run_status s" "run_events s' = run_events s"
    "run_event_head s' = run_event_head s" "run_cycle s' = run_cycle s"
    "run_max_cycles s' = run_max_cycles s" "run_attempts s' = run_attempts s"
    "run_max_attempts s' = run_max_attempts s" "run_last_failed_phase s' = run_last_failed_phase s"
    "run_id s' = run_id s" "run_product_impact s' = run_product_impact s"
    "run_revision s' = run_revision s" "run_policy_hash s' = run_policy_hash s"
    "run_deadline_at s' = run_deadline_at s" "run_schema_version s' = run_schema_version s"
    "run_monetary_budget s' = run_monetary_budget s"
  using apply_bindings_shape [OF assms] by auto

lemmas outcome_defs = apply_outcome_def on_pass_def on_fail_def on_retry_def on_next_ready_def enter_recovery_def

lemma apply_outcome_fields [simp]:
  "run_events (apply_outcome r s) = run_events s" "run_event_head (apply_outcome r s) = run_event_head s"
  "run_max_cycles (apply_outcome r s) = run_max_cycles s"
  "run_max_attempts (apply_outcome r s) = run_max_attempts s" "run_id (apply_outcome r s) = run_id s"
  "run_product_impact (apply_outcome r s) = run_product_impact s"
  "run_revision (apply_outcome r s) = run_revision s" "run_policy_hash (apply_outcome r s) = run_policy_hash s"
  "run_deadline_at (apply_outcome r s) = run_deadline_at s"
  "run_schema_version (apply_outcome r s) = run_schema_version s"
  "run_monetary_budget (apply_outcome r s) = run_monetary_budget s"
  by (simp_all add: outcome_defs Let_def)


section \<open>The invariants of a run\<close>

text \<open>The log: a valid chain ending in the head, no step key recorded twice.\<close>

definition log_ok :: "(string \<Rightarrow> string) \<Rightarrow> run \<Rightarrow> bool" where
  "log_ok sha s = (chain_findings sha 0 None (run_events s) = [] \<and> run_event_head s = last_hash (run_events s)
     \<and> distinct (map ev_key (run_events s)))"

text \<open>The place: known phases, and a phase to return to only during recovery.\<close>

definition place_ok :: "run \<Rightarrow> bool" where
  "place_ok s = (run_phase s \<in> set PHASES \<and> set_option (run_last_failed_phase s) \<subseteq> set PHASES
     \<and> (run_phase s \<noteq> ''RECOVERY'' \<longrightarrow> run_last_failed_phase s = None))"

text \<open>The delivery: nothing or an exact commit, and a commit in every phase after the merge.\<close>

definition delivery_ok :: "run \<Rightarrow> bool" where
  "delivery_ok s = ((run_delivery_sha s = JNull \<or> is_sha40 (run_delivery_sha s))
     \<and> (run_phase s \<in> set DELIVERY_STATE_PHASES
        \<or> \<not> set_option (run_last_failed_phase s) \<inter> set DELIVERY_STATE_PHASES = {}
        \<longrightarrow> is_sha40 (run_delivery_sha s)))"

text \<open>The acceptance: it names the exact candidate the run carries, until the run delivers.\<close>

definition acceptance_ok :: "run \<Rightarrow> bool" where
  "acceptance_ok s = (run_owner_acceptance_sha s = JNull \<or>
     is_sha40 (run_owner_acceptance_sha s) \<and>
       (run_owner_acceptance_sha s = run_subject_sha s \<or> is_sha40 (run_delivery_sha s)))"

text \<open>The budgets: cycles stop short of the maximum unless blocked, waits short of the retries.\<close>

definition budget_ok :: "run \<Rightarrow> bool" where
  "budget_ok s = (0 \<le> run_cycle s \<and> (run_cycle s < run_max_cycles s
       \<or> run_cycle s = run_max_cycles s \<and> run_status s = ''BLOCKED'')
     \<and> (run_status s = ''RETRY_WAIT'' \<longrightarrow> attempts_of s (run_phase s) \<le> run_max_attempts s))"

definition run_ok :: "(string \<Rightarrow> string) \<Rightarrow> run \<Rightarrow> bool" where
  "run_ok sha s = (log_ok sha s \<and> place_ok s \<and> delivery_ok s \<and> acceptance_ok s \<and> budget_ok s
     \<and> run_schema_version s = JInt 1 \<and> run_monetary_budget s = JInt 0)"

lemma append_event_fields [simp]:
  "run_phase (append_event en r d s) = run_phase s" "run_status (append_event en r d s) = run_status s"
  "run_cycle (append_event en r d s) = run_cycle s" "run_max_cycles (append_event en r d s) = run_max_cycles s"
  "run_attempts (append_event en r d s) = run_attempts s"
  "run_max_attempts (append_event en r d s) = run_max_attempts s"
  "run_last_failed_phase (append_event en r d s) = run_last_failed_phase s"
  "run_delivery_sha (append_event en r d s) = run_delivery_sha s"
  "run_subject_sha (append_event en r d s) = run_subject_sha s"
  "run_preview_digest (append_event en r d s) = run_preview_digest s"
  "run_owner_acceptance_sha (append_event en r d s) = run_owner_acceptance_sha s"
  "run_id (append_event en r d s) = run_id s" "run_revision (append_event en r d s) = run_revision s"
  "run_product_impact (append_event en r d s) = run_product_impact s"
  "run_policy_hash (append_event en r d s) = run_policy_hash s"
  "run_deadline_at (append_event en r d s) = run_deadline_at s"
  "run_schema_version (append_event en r d s) = run_schema_version s"
  "run_monetary_budget (append_event en r d s) = run_monetary_budget s"
  by (simp_all add: append_event_def Let_def)

lemma append_event_events: "run_events (append_event en r d s) = run_events s @ [mk_event en s r d]"
  and append_event_head: "run_event_head (append_event en r d s) = Some (ev_hash (mk_event en s r d))"
  by (simp_all add: append_event_def Let_def)

lemma mk_event_links:
  assumes "run_event_head s = last_hash (run_events s)"
  shows "event_links (e_sha en) (length (run_events s)) (last_hash (run_events s)) (mk_event en s r d)"
  using assms by (simp add: event_links_def mk_event_def Let_def event_hash_def event_json_def)

lemma mk_event_fields [simp]:
  "ev_key (mk_event en s r d) = st_key r" "ev_phase (mk_event en s r d) = run_phase s"
  "ev_outcome (mk_event en s r d) = st_outcome r" "ev_decision (mk_event en s r d) = d"
  "ev_metadata (mk_event en s r d) = st_metadata r" "ev_subject_sha (mk_event en s r d) = st_subject_sha r"
  by (simp_all add: mk_event_def Let_def)

lemma fresh_key: "find_duplicate s (JStr k) = None \<Longrightarrow> k \<notin> ev_key ` set (run_events s)"
  by (auto simp: find_duplicate_def find_None_iff)

lemma append_event_log:
  assumes "log_ok (e_sha en) s" "find_duplicate s (JStr (st_key r)) = None"
  shows "log_ok (e_sha en) (append_event en r d s)"
  using assms mk_event_links [of s en r d] fresh_key [OF assms(2)]
  by (simp add: log_ok_def append_event_events append_event_head last_hash_def run_log.chained_snoc)

lemma log_ok_cong:
  "run_events s' = run_events s \<Longrightarrow> run_event_head s' = run_event_head s \<Longrightarrow> log_ok sha s' = log_ok sha s"
  by (simp add: log_ok_def)

text \<open>A decided step: the event, then the refusal's status or the bindings and the transition.\<close>

lemma decide_step_cases:
  assumes "decide_step en r d s = Inr s'"
  obtains (refused) "d_result d \<noteq> ''ALLOW''"
      "s' = (append_event en r d s)\<lparr>run_status := d_result d, run_blockers := map JStr (d_reason_codes d)\<rparr>"
    | (allowed) t where "d_result d = ''ALLOW''" "d_policy_hash d = Some (run_policy_hash s)"
      "apply_bindings r (append_event en r d s) = Inr t" "s' = apply_outcome r t"
  using assms by (auto simp: decide_step_def Let_def elim!: bindE_InrE split: if_split_asm)

lemma decide_step_log:
  assumes "decide_step en r d s = Inr s'" "log_ok (e_sha en) s" "find_duplicate s (JStr (st_key r)) = None"
  shows "log_ok (e_sha en) s' \<and> run_events s' = run_events s @ [mk_event en s r d]"
  using assms(1)
proof (cases rule: decide_step_cases)
  case refused
  then show ?thesis using append_event_log [OF assms(2,3), of d]
    by (simp add: append_event_events log_ok_def)
next
  case (allowed t)
  note f = apply_bindings_fields [OF allowed(3)]
  show ?thesis using append_event_log [OF assms(2,3), of d] f allowed(4)
    by (simp add: append_event_events log_ok_def)
qed


section \<open>The invariants are kept\<close>

lemma lookup_next_phase: "p \<in> set PHASES \<Longrightarrow> lookup NEXT_PHASE p p \<in> set PHASES"
  by (auto simp: PHASES_def NEXT_PHASE_def lookup_def)

lemma lookup_next_delivery:
  "p \<in> set PHASES \<Longrightarrow> lookup NEXT_PHASE p p \<in> set DELIVERY_STATE_PHASES \<longleftrightarrow>
     p = ''MERGE'' \<or> p \<in> set DELIVERY_STATE_PHASES"
  by (auto simp: PHASES_def NEXT_PHASE_def lookup_def DELIVERY_STATE_PHASES_def)

lemma lookup_next_recovery: "p \<in> set PHASES \<Longrightarrow> lookup NEXT_PHASE p p = ''RECOVERY'' \<longleftrightarrow> p = ''RECOVERY''"
  by (auto simp: PHASES_def NEXT_PHASE_def lookup_def)

lemma phases_in [simp]: "''RECOVERY'' \<in> set PHASES" "''MERGE'' \<in> set PHASES" "''EXECUTE'' \<in> set PHASES"
  "''NEXT'' \<in> set PHASES" "''RECONCILE'' \<in> set PHASES" "''RECOVERY'' \<notin> set DELIVERY_STATE_PHASES"
  "''MERGE'' \<notin> set DELIVERY_STATE_PHASES" "''EXECUTE'' \<notin> set DELIVERY_STATE_PHASES"
  "''RECONCILE'' \<notin> set DELIVERY_STATE_PHASES" "''NEXT'' \<in> set DELIVERY_STATE_PHASES"
  by (simp_all add: PHASES_def DELIVERY_STATE_PHASES_def)

lemma apply_outcomeI:
  assumes "st_outcome r = ''PASS'' \<Longrightarrow> P (on_pass s)"
    and "st_outcome r = ''FAIL'' \<Longrightarrow> P (on_fail r s)"
    and "st_outcome r = ''RETRY'' \<Longrightarrow> P (on_retry s)"
    and "st_outcome r = ''CHANGES_REQUESTED'' \<Longrightarrow> P (s\<lparr>run_phase := ''EXECUTE'', run_status := ''RUNNING'',
           run_preview_digest := JNull, run_owner_acceptance_sha := JNull\<rparr>)"
    and "st_outcome r = ''HUMAN_REQUIRED'' \<Longrightarrow> P (s\<lparr>run_status := ''HUMAN_REQUIRED'',
           run_blockers := codes_or r ''HUMAN_DECISION_REQUIRED''\<rparr>)"
    and "st_outcome r = ''BLOCK'' \<Longrightarrow> P (s\<lparr>run_status := ''BLOCKED'', run_blockers := codes_or r ''STEP_BLOCKED''\<rparr>)"
    and "st_outcome r = ''ROADMAP_COMPLETE'' \<Longrightarrow> P (s\<lparr>run_phase := ''NEXT'', run_status := ''COMPLETE''\<rparr>)"
    and "st_outcome r = ''NEXT_READY'' \<Longrightarrow> P (on_next_ready s)"
    and "st_outcome r \<notin> set OUTCOMES \<Longrightarrow> P s"
  shows "P (apply_outcome r s)"
  unfolding apply_outcome_def using assms by (simp add: OUTCOMES_def split del: if_split split: if_split)

lemma is_sha40_simps [simp]: "\<not> is_sha40 JNull" "is_sha40 (JStr s) \<longleftrightarrow> sha40 s"
  by (simp_all add: is_sha40_def)

lemma is_sha40_truthy: "is_sha40 v \<Longrightarrow> truthy v"
  by (cases v) (auto simp: is_sha40_def dest: hex_n_nonempty)

lemma is_sha40_str: "is_sha40 v \<Longrightarrow> JStr (py_str v) = v"
  by (cases v) (auto simp: is_sha40_def)

lemma py_eq_sha40_left: "is_sha40 v \<Longrightarrow> py_eq v w \<longleftrightarrow> v = w"
  by (cases v) (auto simp: is_sha40_def)

lemma on_pass_place: "place_ok t \<Longrightarrow> place_ok (on_pass t)"
  unfolding place_ok_def on_pass_def
  by (cases "run_last_failed_phase t") (simp_all add: lookup_next_phase lookup_next_recovery)

definition legal_outcome :: "step_result \<Rightarrow> run \<Rightarrow> bool" where
  "legal_outcome r t = (st_outcome r \<in> set OUTCOMES
     \<and> (st_outcome r \<in> {''ROADMAP_COMPLETE'', ''NEXT_READY''} \<longrightarrow> run_phase t = ''NEXT'')
     \<and> (st_outcome r = ''CHANGES_REQUESTED'' \<longrightarrow> run_phase t = ''OWNER_ACCEPTANCE'')
     \<and> (st_outcome r = ''PASS'' \<and> run_phase t = ''MERGE'' \<longrightarrow> is_sha40 (run_delivery_sha t)))"

lemmas effect_defs = on_fail_def on_retry_def on_next_ready_def enter_recovery_def Let_def

lemma apply_outcome_place: "place_ok t \<Longrightarrow> legal_outcome r t \<Longrightarrow> place_ok (apply_outcome r t)"
  by (rule apply_outcomeI) (simp_all add: on_pass_place, simp_all add: place_ok_def legal_outcome_def effect_defs)

lemma on_pass_delivery:
  assumes "place_ok t" "delivery_ok t" "run_phase t = ''MERGE'' \<Longrightarrow> is_sha40 (run_delivery_sha t)"
  shows "delivery_ok (on_pass t)"
  using assms unfolding place_ok_def delivery_ok_def on_pass_def
  by (cases "run_last_failed_phase t") (auto simp add: lookup_next_delivery)

lemma apply_outcome_delivery:
  assumes "place_ok t" "delivery_ok t" "legal_outcome r t"
  shows "delivery_ok (apply_outcome r t)"
proof (rule apply_outcomeI)
  show "delivery_ok (on_pass t)" if "st_outcome r = ''PASS''"
    using on_pass_delivery assms that by (simp add: legal_outcome_def)
qed (use assms in \<open>simp_all add: delivery_ok_def place_ok_def legal_outcome_def effect_defs\<close>)

lemma apply_outcome_acceptance: "acceptance_ok t \<Longrightarrow> acceptance_ok (apply_outcome r t)"
  by (rule apply_outcomeI) (simp_all add: acceptance_ok_def on_pass_def effect_defs)

lemma apply_outcome_budget:
  assumes "0 \<le> run_cycle t" "run_cycle t < run_max_cycles t"
    and "run_status t = ''RETRY_WAIT'' \<longrightarrow> attempts_of t (run_phase t) \<le> run_max_attempts t"
  shows "budget_ok (apply_outcome r t)"
proof (rule apply_outcomeI)
  show "budget_ok (on_retry t)"
    using assms by (simp add: budget_ok_def attempts_of_def update_conv effect_defs)
qed (use assms in \<open>simp_all add: budget_ok_def on_pass_def effect_defs attempts_of_def\<close>)

lemma bind_subject_acceptance: "acceptance_ok s \<Longrightarrow> acceptance_ok (bind_subject r s)"
  by (auto simp: acceptance_ok_def bind_subject_def py_eq_sha40_left dest: is_sha40_truthy)

lemma merged_sha: "normal_result s r \<Longrightarrow> run_phase s = ''MERGE'' \<Longrightarrow> st_outcome r = ''PASS'' \<Longrightarrow>
   is_sha40 (dget (st_metadata r) ''merge_sha'')"
  by (simp add: normal_result_def)

lemma accepted_subject:
  assumes "normal_result s r" "run_phase s = ''OWNER_ACCEPTANCE''"
  shows "is_sha40 (run_subject_sha (bind_subject r s))"
proof -
  have "is_sha40 (st_subject_sha r)" using assms by (simp add: normal_result_def SHA_PHASES_def)
  then show ?thesis by (simp add: bind_subject_def is_sha40_truthy)
qed

lemma apply_bindings_acceptance:
  assumes "apply_bindings r s = Inr t" "acceptance_ok s" "normal_result s r"
  shows "acceptance_ok t"
proof -
  obtain i b n where t: "t = bind_references r ((bind_subject r s)\<lparr>run_issue_id := i, run_work_branch := b,
     run_pull_request_number := n\<rparr>)"
    using apply_bindings_shape [OF assms(1)] by blast
  show ?thesis
    using bind_subject_acceptance [OF assms(2), of r] accepted_subject [OF assms(3)] merged_sha [OF assms(3)]
    unfolding t acceptance_ok_def
    by (simp add: bind_references_delivery bind_references_subject bind_references_acceptance is_sha40_str)
      blast
qed

lemma apply_bindings_delivery:
  assumes "apply_bindings r s = Inr t" "normal_result s r"
  shows "run_delivery_sha t = (if run_phase s = ''MERGE'' \<and> st_outcome r = ''PASS''
      then dget (st_metadata r) ''merge_sha'' else run_delivery_sha s)"
proof -
  obtain i b n where t: "t = bind_references r ((bind_subject r s)\<lparr>run_issue_id := i, run_work_branch := b,
     run_pull_request_number := n\<rparr>)"
    using apply_bindings_shape [OF assms(1)] by blast
  show ?thesis using merged_sha [OF assms(2)]
    by (simp add: t bind_references_delivery is_sha40_str)
qed


lemma normal_legal:
  assumes "normal_result s r" "apply_bindings r s = Inr t"
  shows "legal_outcome r t"
  using assms(1) apply_bindings_fields(1) [OF assms(2)] apply_bindings_delivery [OF assms(2,1)]
  by (simp add: legal_outcome_def normal_result_def)

lemma bindings_delivery_ok:
  assumes "apply_bindings r s = Inr t" "normal_result s r" "delivery_ok s"
  shows "delivery_ok t"
  using assms(3) apply_bindings_fields(1,9) [OF assms(1)] apply_bindings_delivery [OF assms(1,2)]
    merged_sha [OF assms(2)]
  by (auto simp: delivery_ok_def)

lemma run_ok_status:
  assumes "run_ok sha s" "run_status s \<notin> {''COMPLETE'', ''BLOCKED''}" "x \<noteq> ''RETRY_WAIT''"
  shows "run_ok sha (s\<lparr>run_status := x, run_blockers := bs\<rparr>)"
proof -
  have "budget_ok (s\<lparr>run_status := x, run_blockers := bs\<rparr>)"
    using assms by (simp add: run_ok_def budget_ok_def)
  then show ?thesis using assms(1)
    by (simp add: run_ok_def log_ok_def place_ok_def delivery_ok_def acceptance_ok_def)
qed

lemma decide_step_ok:
  assumes "decide_step en r d s = Inr s'" "run_ok (e_sha en) s" "run_status s \<notin> {''COMPLETE'', ''BLOCKED''}"
    and "find_duplicate s (JStr (st_key r)) = None" "normal_result s r"
    and "d_result d \<in> {''ALLOW'', ''BLOCK'', ''HUMAN_REQUIRED''}"
  shows "run_ok (e_sha en) s'"
proof -
  let ?a = "append_event en r d s"
  note inv = assms(2) [unfolded run_ok_def]
  have log: "log_ok (e_sha en) s'" using decide_step_log [OF assms(1) _ assms(4)] inv by blast
  have nr: "normal_result ?a r" using assms(5) by (simp add: normal_result_def)
  have cyc: "0 \<le> run_cycle s" "run_cycle s < run_max_cycles s"
    "run_status s = ''RETRY_WAIT'' \<longrightarrow> attempts_of s (run_phase s) \<le> run_max_attempts s"
    using inv assms(3) by (auto simp: budget_ok_def)
  from assms(1) show ?thesis
  proof (cases rule: decide_step_cases)
    case refused
    have "run_ok (e_sha en) ?a"
      using inv append_event_log [OF _ assms(4)]
      by (simp add: run_ok_def place_ok_def delivery_ok_def acceptance_ok_def budget_ok_def attempts_of_def)
    then show ?thesis unfolding refused(2)
      by (rule run_ok_status) (use assms(3,6) in auto)
  next
    case (allowed t)
    note f = apply_bindings_fields [OF allowed(3)]
    have ok: "place_ok ?a" "delivery_ok ?a" "acceptance_ok ?a"
      using inv by (simp_all add: place_ok_def delivery_ok_def acceptance_ok_def)
    have t: "place_ok t" "delivery_ok t" "acceptance_ok t" "legal_outcome r t"
      using ok(1) f(1,9) bindings_delivery_ok [OF allowed(3) nr ok(2)]
        apply_bindings_acceptance [OF allowed(3) ok(3) nr] normal_legal [OF nr allowed(3)]
      by (simp_all add: place_ok_def)
    have b: "budget_ok (apply_outcome r t)"
      using cyc f by (intro apply_outcome_budget) (simp_all add: attempts_of_def)
    show ?thesis unfolding run_ok_def allowed(4)
      using log t b f inv apply_outcome_place apply_outcome_delivery apply_outcome_acceptance
      by (simp add: allowed(4))
  qed
qed

lemma effective_decision:
  assumes "evaluate_with_effective_policy sha file c = Inr d"
  shows "d_result d \<in> {''ALLOW'', ''BLOCK'', ''HUMAN_REQUIRED''}"
  using assms evaluate_permission_shape
  by (fastforce simp: evaluate_with_effective_policy_def split: sum.splits)

lemma run_step_ok: "run_step en s d s' \<Longrightarrow> run_ok (e_sha en) s \<Longrightarrow> run_ok (e_sha en) s'"
proof (induction rule: run_step.induct)
  case (passed s d)
  then show ?case
    unfolding block_run_def by (intro run_ok_status) auto
next
  case (unreadable s d)
  then show ?case
    unfolding block_run_def by (intro run_ok_status) auto
next
  case (decided s d r control trusted c dec s')
  note n = normalize_facts [OF decided(4)]
  have "find_duplicate s (JStr (st_key r)) = None" using decided(3) n by simp
  then show ?case
    using decide_step_ok [OF decided(7) decided.prems decided(1)] n effective_decision [OF decided(6)]
    by blast
qed

text \<open>The log only grows, and only by the event of the step.\<close>

lemma run_step_events:
  assumes "run_step en s d s'"
  shows "run_id s' = run_id s \<and> run_revision s' = run_revision s \<and> run_deadline_at s' = run_deadline_at s
    \<and> (run_events s' = run_events s
       \<or> (\<exists>e. run_events s' = run_events s @ [e] \<and> JStr (ev_key e) = dget d ''idempotency_key''
            \<and> JStr (ev_phase e) = dget d ''phase'' \<and> JStr (ev_outcome e) = dget d ''outcome''))
    \<and> (run_status s' \<in> {''COMPLETE'', ''BLOCKED''} \<or> run_events s' \<noteq> run_events s)"
  using assms
proof cases
  case (decided r control trusted c dec)
  note n = normalize_facts [OF decided(4)]
  from decided(7) show ?thesis
  proof (cases rule: decide_step_cases)
    case refused
    then show ?thesis using n by (simp add: append_event_events)
  next
    case (allowed t)
    then show ?thesis using n apply_bindings_fields [OF allowed(3)]
      by (simp add: append_event_events)
  qed
qed (simp_all add: block_run_def)

section \<open>The directory of journals\<close>

lemma journal_save_shape:
  assumes "journal_save en dir v expected = Inr (w, dir')"
  shows "\<exists>r actual. check_run_id (e_uuid en) (run_id v) = Inr r \<and> stored_revision (map_of dir r) = Inr actual
    \<and> (expected = None \<or> expected = Some actual)
    \<and> w = v\<lparr>run_revision := actual + 1, run_updated_at := iso (e_now en)\<rparr>
    \<and> dir' = AList.update r (Journal w) dir"
  using assms by (auto simp: journal_save_def Let_def elim!: bindE_InrE split: if_split_asm)

lemma check_run_id_Inr: "check_run_id uuid v = Inr r \<Longrightarrow> v \<noteq> [] \<Longrightarrow> r = v"
  by (auto simp: check_run_id_def Let_def split: if_split_asm)

lemma check_run_id_nonempty: "check_run_id uuid v = Inr r \<Longrightarrow> r \<noteq> [] \<and> check_run_id uuid' r = Inr r"
  by (auto simp: check_run_id_def Let_def split: if_split_asm)

lemma journal_load_shape:
  assumes "journal_load en dir rid = Inr s"
  shows "\<exists>r. check_run_id (e_uuid en) rid = Inr r \<and> map_of dir r = Some (Journal s)
    \<and> validate_journal (e_sha en) s = Inr []"
  using assms by (auto simp: journal_load_def elim!: bindE_InrE split: option.splits journal_file.splits if_split_asm)

lemma run_ok_save: "run_ok sha (v\<lparr>run_revision := n, run_updated_at := u\<rparr>) = run_ok sha v"
  by (simp add: run_ok_def log_ok_def place_ok_def delivery_ok_def acceptance_ok_def budget_ok_def attempts_of_def)

text \<open>Every file of the directory is a journal in good order under its own run id.\<close>

definition dir_ok :: "(string \<Rightarrow> string) \<Rightarrow> journal_dir \<Rightarrow> bool" where
  "dir_ok sha dir = (distinct (map fst dir) \<and>
     list_all (\<lambda>(k, f). case f of Broken \<Rightarrow> False
        | Journal v \<Rightarrow> run_id v = k \<and> k \<noteq> [] \<and> 0 \<le> run_revision v \<and> run_ok sha v) dir)"

lemma dir_okD: "dir_ok sha dir \<Longrightarrow> map_of dir k = Some f \<Longrightarrow>
   \<exists>v. f = Journal v \<and> run_id v = k \<and> k \<noteq> [] \<and> 0 \<le> run_revision v \<and> run_ok sha v"
  by (auto simp: dir_ok_def list_all_iff dest!: map_of_SomeD split: journal_file.splits)

lemma dir_ok_update:
  assumes "dir_ok sha dir" "run_id w = r" "r \<noteq> []" "0 \<le> run_revision w" "run_ok sha w"
  shows "dir_ok sha (AList.update r (Journal w) dir)"
proof -
  have "(k, f) \<in> set (AList.update r (Journal w) dir) \<Longrightarrow> (k, f) = (r, Journal w) \<or> (k, f) \<in> set dir" for k f
    by (induction dir) (auto split: if_split_asm)
  then show ?thesis using assms
    by (fastforce simp: dir_ok_def list_all_iff distinct_update)
qed

end
