(* ===== verification/Delivery.thy ===== *)
theory Delivery
  imports OrchestratorProps
begin

text \<open>
  The delivery loop as a whole: the directories of journals the orchestrator can reach, and the
  properties of its runs.  The environment of each step (the clock, the UUID, the policy file) may
  change freely between steps; only the hash function is fixed.
\<close>

section \<open>Reachable directories\<close>

inductive reachable :: "(string \<Rightarrow> string) \<Rightarrow> journal_dir \<Rightarrow> bool" for sha where
  empty: "reachable sha []"
| created: "\<lbrakk>reachable sha dir; e_sha en = sha; new_run en dir q = Inr (v, dir')\<rbrakk> \<Longrightarrow> reachable sha dir'"
| advanced: "\<lbrakk>reachable sha dir; e_sha en = sha; advance_run en dir rid d control trusted = Inr (v, dir')\<rbrakk>
    \<Longrightarrow> reachable sha dir'"

lemma fresh_run_ok: "run_ok sha (fresh_run en q rid policy deadline)"
  by (simp add: fresh_run_def run_ok_def log_ok_def place_ok_def delivery_ok_def acceptance_ok_def
      budget_ok_def last_hash_def)

lemma new_run_shape:
  assumes "new_run en dir q = Inr (v, dir')"
  shows "\<exists>v0 policy deadline. check_run_id (e_uuid en) (rq_run_id q) = Inr (run_id v0)
    \<and> v0 = fresh_run en q (run_id v0) policy deadline \<and> list_active en dir = Inr []
    \<and> journal_save en dir v0 None = Inr (v, dir')"
proof -
  from assms obtain rid policy deadline where "list_active en dir = Inr []"
    "check_run_id (e_uuid en) (rq_run_id q) = Inr rid"
    "journal_save en dir (fresh_run en q rid policy deadline) None = Inr (v, dir')"
    unfolding new_run_def Let_def by (auto elim!: bindE_InrE split: if_split_asm)
  then show ?thesis
    by (intro exI [of _ "fresh_run en q rid policy deadline"] exI [of _ policy] exI [of _ deadline])
      (simp add: fresh_run_def)
qed

lemma saved_dir_ok:
  assumes "dir_ok sha dir" "journal_save en dir v expected = Inr (w, dir')" "run_ok sha v" "run_id v \<noteq> []"
  shows "dir_ok sha dir' \<and> map_of dir' (run_id v) = Some (Journal w) \<and> run_id w = run_id v
    \<and> (\<forall>k. k \<noteq> run_id v \<longrightarrow> map_of dir' k = map_of dir k)"
proof -
  obtain r actual where r: "check_run_id (e_uuid en) (run_id v) = Inr r" "stored_revision (map_of dir r) = Inr actual"
    "w = v\<lparr>run_revision := actual + 1, run_updated_at := iso (e_now en)\<rparr>" "dir' = AList.update r (Journal w) dir"
    using journal_save_shape [OF assms(2)] by blast
  have rid: "r = run_id v" using check_run_id_Inr [OF r(1) assms(4)] .
  have "- 1 \<le> actual"
    using r(2) dir_okD [OF assms(1), of r] by (auto simp: stored_revision_def split: option.splits)
  then have "dir_ok sha dir'"
    unfolding r(4) using assms(1,3,4) rid by (intro dir_ok_update) (simp_all add: r(3) run_ok_save)
  then show ?thesis using r(3,4) rid by (simp add: update_conv')
qed

lemma loaded:
  assumes "dir_ok (e_sha en) dir" "journal_load en dir rid = Inr s"
  shows "run_ok (e_sha en) s \<and> run_id s \<noteq> [] \<and> map_of dir (run_id s) = Some (Journal s)
    \<and> check_run_id (e_uuid en) rid = Inr (run_id s) \<and> validate_journal (e_sha en) s = Inr []"
  using journal_load_shape [OF assms(2)] dir_okD [OF assms(1)] by fastforce

text \<open>A step that writes, in a directory in good order.\<close>

lemma advance_run_saved:
  assumes "dir_ok (e_sha en) dir" "advance_run en dir rid d control trusted = Inr (v, dir')"
  obtains (same) "journal_load en dir rid = Inr v" "dir' = dir"
    | (saved) s s' where "journal_load en dir rid = Inr s" "run_step en s d s'"
      "v = s'\<lparr>run_revision := run_revision s + 1, run_updated_at := iso (e_now en)\<rparr>"
      "dir' = AList.update (run_id s) (Journal v) dir" "run_ok (e_sha en) s" "run_ok (e_sha en) v"
  using assms(2)
proof (cases rule: advance_run_step)
  case (same s)
  then show thesis using that(1) by simp
next
  case (saved s s')
  note l = loaded [OF assms(1) saved(1)]
  have id: "run_id s' = run_id s" using run_step_events [OF saved(2)] by simp
  have ok: "run_ok (e_sha en) s'" using run_step_ok [OF saved(2)] l by blast
  obtain r actual where r: "check_run_id (e_uuid en) (run_id s') = Inr r"
    "stored_revision (map_of dir r) = Inr actual"
    "v = s'\<lparr>run_revision := actual + 1, run_updated_at := iso (e_now en)\<rparr>" "dir' = AList.update r (Journal v) dir"
    using journal_save_shape [OF saved(3)] by blast
  have rid: "r = run_id s" using check_run_id_Inr [OF r(1)] id l by simp
  have "actual = run_revision s" using r(2) rid l by (simp add: stored_revision_def)
  then show thesis using that(2) [OF saved(1,2)] r(3,4) rid l ok by (simp add: run_ok_save)
qed

lemma reachable_dir_ok: "reachable sha dir \<Longrightarrow> dir_ok sha dir"
proof (induction rule: reachable.induct)
  case empty
  then show ?case by (simp add: dir_ok_def)
next
  case (created dir en q v dir')
  obtain v0 where v0: "check_run_id (e_uuid en) (rq_run_id q) = Inr (run_id v0)"
    "run_ok (e_sha en) v0" "journal_save en dir v0 None = Inr (v, dir')"
    using new_run_shape [OF created(3)] fresh_run_ok by metis
  then have "run_id v0 \<noteq> []" using check_run_id_nonempty by blast
  then show ?case using saved_dir_ok [OF created(4) v0(3)] v0(2) created(2) by blast
next
  case (advanced dir en rid d control trusted v dir')
  have ok: "dir_ok (e_sha en) dir" using advanced(2,4) by simp
  from ok advanced(3) show ?case
  proof (cases rule: advance_run_saved)
    case same
    then show ?thesis using advanced(4) by simp
  next
    case (saved s s')
    have "run_id v = run_id s" "0 \<le> run_revision v" "run_id s \<noteq> []"
      using saved(3) run_step_events [OF saved(2)] loaded [OF ok saved(1)] dir_okD [OF ok, of "run_id s"]
      by auto
    then show ?thesis unfolding saved(4)
      using dir_ok_update [OF advanced(4), of v "run_id s"] saved(6) advanced(2) by simp
  qed
qed


section \<open>A sample environment\<close>

text \<open>
  Concrete inputs for the witnesses: the sample policy, a request, a run at its start.
\<close>

definition sample_env :: "int \<Rightarrow> env" where
  "sample_env now = \<lparr>e_sha = flat_sha, e_policy = Parsed sample_policy, e_now = now, e_uuid = ''00000000-0000-4000-8000-000000000000''\<rparr>"

definition sample_request :: run_request where
  "sample_request = \<lparr>rq_roadmap_id = ''R-1'', rq_issue_id = ''7'', rq_risk = ''R1'', rq_work_type = ''feature'',
     rq_product_impact = True, rq_owner_request_digest = replicate 64 (CHR ''b''), rq_run_id = ''run-0001'',
     rq_max_attempts = 3, rq_max_cycles = 100, rq_max_elapsed_minutes = 1440\<rparr>"

definition sample_start :: int where "sample_start = 63900000000000000"

definition plain_step :: "string \<Rightarrow> string \<Rightarrow> string \<Rightarrow> dict" where
  "plain_step p oc k = [(''phase'', JStr p), (''outcome'', JStr oc), (''idempotency_key'', JStr k)]"

definition sample_facts :: dict where
  "sample_facts = [(''autonomy'', JStr ''A3''), (''health'', JObj [(''package_integrity'', JStr ''VERIFIED''),
     (''config_health'', JStr ''VERIFIED''), (''control_plane_health'', JStr ''HEALTHY''), (''product_health'', JStr ''HEALTHY'')])]"

definition sample_run :: run where
  "sample_run = \<lparr>
     run_schema_version = JInt 1, run_id = ''run-0001'', run_roadmap_id = ''R-1'',
     run_issue_id = ''7'', run_risk = ''R1'', run_work_type = ''feature'',
     run_product_impact = True, run_owner_request_digest = replicate 64 (CHR ''b''),
     run_phase = ''RECONCILE'', run_status = ''RUNNING'', run_cycle = 0,
     run_subject_sha = JNull, run_preview_digest = JNull, run_owner_acceptance_sha = JNull,
     run_delivery_sha = JNull, run_pull_request_number = None,
     run_preview_attestation_id = None, run_work_branch = None,
     run_policy_hash = replicate 64 (CHR ''a''), run_attempts = [],
     run_max_attempts = 3, run_max_cycles = 100,
     run_deadline_at = ''2030-01-01T00:00:00Z'', run_last_failed_phase = None, run_blockers = [],
     run_monetary_budget = JInt 0, run_events = [], run_event_head = None, run_revision = 0,
     run_created_at = ''2026-01-01T00:00:00Z'', run_updated_at = ''2026-01-01T00:00:00Z'' \<rparr>"


lemma sample_env_simps [simp]:
  "e_sha (sample_env t) = flat_sha" "e_policy (sample_env t) = Parsed sample_policy" "e_now (sample_env t) = t"
  by (simp_all add: sample_env_def)

lemma check_deadline_iso: "in_range t \<Longrightarrow> check_deadline now (iso t) = Inr (if t < now then Passed else Ahead)"
  using utc.parse_print [of t]
  by (auto simp: check_deadline_def parse_time_def Let_def split: option.splits if_split_asm)

definition sample_result :: step_result where
  "sample_result = \<lparr>st_phase = ''RECONCILE'', st_outcome = ''PASS'', st_key = ''key-00001'',
     st_subject_sha = JNull, st_preview_digest = JNull, st_evidence_refs = [], st_reason_codes = [],
     st_transient = False, st_metadata = []\<rparr>"

definition sample_fresh :: run where
  "sample_fresh = (fresh_run (sample_env sample_start) sample_request ''run-0001''
     (dict_of sample_policy) (sample_start + minutes 1440))\<lparr>run_updated_at := iso sample_start\<rparr>"

lemma sample_id: "check_run_id u ''run-0001'' = Inr ''run-0001''" by code_simp

lemma sample_created: "new_run (sample_env sample_start) [] sample_request = Inr (sample_fresh, [(''run-0001'', Journal sample_fresh)])"
proof -
  have d: "in_range (sample_start + minutes 1440)" by code_simp
  show ?thesis
    by (simp add: new_run_def list_active_def load_sample sample_id d sample_request_def Let_def journal_save_def
        fresh_run_def stored_revision_def sample_fresh_def)
qed

lemma sample_fresh_fields [simp]: "run_id sample_fresh = ''run-0001''" "run_status sample_fresh = ''RUNNING''"
   "run_phase sample_fresh = ''RECONCILE''" "run_events sample_fresh = []" "run_revision sample_fresh = 0"
   "run_deadline_at sample_fresh = iso (sample_start + minutes 1440)" "run_risk sample_fresh = ''R1''"
   "run_work_type sample_fresh = ''feature''" "run_policy_hash sample_fresh = replicate 64 (CHR ''a'')"
  by (simp_all add: sample_fresh_def fresh_run_def sample_request_def sample_policy_def)

lemma sample_loaded:
  "journal_load (sample_env t) [(''run-0001'', Journal sample_fresh)] ''run-0001'' = Inr sample_fresh"
proof -
  have "validate_journal flat_sha sample_fresh = Inr []"
    by (simp add: validate_journal_def delivery_findings_def last_hash_def sample_fresh_def fresh_run_def
        overflow_bound_def)
  then show ?thesis by (simp add: journal_load_def sample_id)
qed

lemma sample_normal: "normalize_result (plain_step ''RECONCILE'' ''PASS'' ''key-00001'') sample_fresh = Inr sample_result"
proof -
  let ?d = "plain_step ''RECONCILE'' ''PASS'' ''key-00001''"
  have p: "keys_beyond ?d RESULT_FIELDS = []" "dget ?d ''evidence_refs'' = JNull" "dget ?d ''reason_codes'' = JNull"
    "dget_or ?d ''cost_usd'' (JInt 0) = JInt 0" "dget ?d ''metadata'' = JNull" "dget ?d ''phase'' = JStr ''RECONCILE''"
    "dget ?d ''outcome'' = JStr ''PASS''" "dget ?d ''idempotency_key'' = JStr ''key-00001''"
    "dget ?d ''subject_sha'' = JNull" "dget ?d ''preview_digest'' = JNull" "dget ?d ''transient'' = JNull"
    "''PASS'' \<in> set OUTCOMES" "''RECONCILE'' \<in> set PHASES"
    by code_simp+
  show ?thesis
    by (simp add: normalize_result_def p py_or_def overflow_bound_def bind_sha_def check_merge_def check_delivery_def
       check_outcome_def SHA_PHASES_def DELIVERY_RESULT_PHASES_def EVIDENCE_PHASES_def sample_result_def)
qed

lemma sample_context: "control_context sample_fresh sample_result sample_facts = control_context sample_run sample_result sample_facts"
  by (simp add: control_context_def) (simp add: sample_run_def)

lemma sample_decision:
  "bindE (control_context sample_run sample_result sample_facts)
     (\<lambda>c. evaluate_permission c (Some (dict_of sample_policy)))
   = Inr (mk_decision ''ALLOW'' [] (Some (replicate 64 (CHR ''a''))))"
  unfolding evaluate_permission_def rules_sample sum.case prod.case by code_simp

lemma sample_advanced:
  "\<exists>v. advance_run (sample_env sample_start) [(''run-0001'', Journal sample_fresh)] ''run-0001''
       (plain_step ''RECONCILE'' ''PASS'' ''key-00001'') (Some sample_facts) None
     = Inr (v, [(''run-0001'', Journal v)]) \<and> run_phase v = ''AUTHORIZE'' \<and> run_id v = ''run-0001''
     \<and> run_revision v = 1 \<and> map ev_key (run_events v) = [''key-00001''] \<and> run_status v = ''RUNNING''
     \<and> run_deadline_at v = iso (sample_start + minutes 1440)"
proof -
  have r: "in_range (sample_start + minutes 1440)" by code_simp
  have dl: "check_deadline sample_start (iso (sample_start + minutes 1440)) = Inr Ahead"
    using check_deadline_iso [OF r, of sample_start] by (simp add: minutes_def)
  obtain c where c: "control_context sample_run sample_result sample_facts = Inr c"
    "evaluate_permission c (Some (dict_of sample_policy)) = Inr (mk_decision ''ALLOW'' [] (Some (replicate 64 (CHR ''a''))))"
    using sample_decision by (auto elim!: bindE_InrE)
  have k: "dget (plain_step ''RECONCILE'' ''PASS'' ''key-00001'') ''idempotency_key'' = JStr ''key-00001''" by code_simp
  have b: "apply_bindings sample_result s = Inr s" if "run_phase s = ''RECONCILE''" for s
    using that by (simp add: apply_bindings_def sample_result_def bind_subject_def bind_branch_def bind_pull_request_def
      bind_references_def Let_def)
  have nx: "lookup NEXT_PHASE ''RECONCILE'' ''RECONCILE'' = ''AUTHORIZE''" by code_simp
  show ?thesis
    by (simp add: advance_run_def sample_loaded dl k find_duplicate_def sample_normal bind_context_def sample_context c
        evaluate_with_effective_policy_def load_sample decide_step_def b journal_save_def sample_id stored_revision_def
        Let_def apply_outcome_def on_pass_def nx append_event_events)
     (simp add: sample_result_def nx append_event_events)
qed

section \<open>Lemmas for the properties\<close>

lemma context_action: "context_from_dict d = Inr c \<Longrightarrow> dc_action c = dget d ''action''"
  unfolding context_from_dict_def Let_def by (auto elim!: bindE_InrE split: if_split_asm)

lemma control_action: "control_context s r supplied = Inr c \<Longrightarrow>
   dc_action c = JStr (lookup ACTION_BY_PHASE (run_phase s) [])"
  unfolding control_context_def Let_def
  by (drule context_action) (simp add: dupdate_def split: if_split_asm)

lemma bind_context_action: "bind_context s r control trusted = Inr c \<Longrightarrow>
   dc_action c = JStr (lookup ACTION_BY_PHASE (run_phase s) [])"
  unfolding bind_context_def
  by (auto elim!: bindE_InrE split: if_split_asm option.splits dest: control_action)

lemma effective_allow:
  assumes "evaluate_with_effective_policy sha file c = Inr d" "d_result d = ''ALLOW''"
  shows "\<exists>p. load_effective_policy sha file = Inr p \<and> evaluate_permission c (Some p) = Inr d"
  using assms by (auto simp: evaluate_with_effective_policy_def split: sum.splits)

lemma lookup_next_merge: "p \<in> set PHASES \<Longrightarrow> lookup NEXT_PHASE p p = ''MERGE'' \<longleftrightarrow> p = ''OWNER_ACCEPTANCE''"
  by (auto simp: PHASES_def NEXT_PHASE_def lookup_def)

lemma enters_merge:
  assumes "run_phase (apply_outcome r t) = ''MERGE''" "run_phase t \<in> set PHASES" "run_phase t \<notin> {''MERGE'', ''RECOVERY''}"
  shows "st_outcome r = ''PASS'' \<and> (run_phase t = ''OWNER_ACCEPTANCE''
    \<or> run_phase t = ''REVIEW'' \<and> \<not> run_product_impact t)"
proof -
  have "run_phase (apply_outcome r t) = ''MERGE'' \<longrightarrow> st_outcome r = ''PASS'' \<and> (run_phase t = ''OWNER_ACCEPTANCE''
    \<or> run_phase t = ''REVIEW'' \<and> \<not> run_product_impact t)"
    by (rule apply_outcomeI) (use assms(2,3) in \<open>simp_all add: on_pass_def effect_defs lookup_next_merge\<close>)
  with assms(1) show ?thesis by blast
qed

lemma run_step_enters_merge:
  assumes "run_step en s d s'" "run_phase s \<notin> {''MERGE'', ''RECOVERY''}" "run_phase s' = ''MERGE''" "run_product_impact s"
  shows "run_phase s = ''OWNER_ACCEPTANCE'' \<and> is_sha40 (run_subject_sha s')
    \<and> run_owner_acceptance_sha s' = run_subject_sha s'
    \<and> (\<exists>e c. run_events s' = run_events s @ [e] \<and> ev_outcome e = ''PASS''
        \<and> d_result (ev_decision e) = ''ALLOW'' \<and> d_policy_hash (ev_decision e) = Some (run_policy_hash s)
        \<and> evaluate_with_effective_policy (e_sha en) (e_policy en) c = Inr (ev_decision e)
        \<and> dc_action c = JStr ''owner_accept'' \<and> truthy (dc_human_approved c)
        \<and> py_eq (dget (ev_metadata e) ''accepted_preview_digest'') (run_preview_digest s))"
  using assms(1)
proof cases
  case (decided r control trusted c dec)
  note n = normalize_facts [OF decided(4)]
  from decided(7) show ?thesis
  proof (cases rule: decide_step_cases)
    case refused
    then show ?thesis using assms(2,3) by simp
  next
    case (allowed t)
    note f = apply_bindings_fields [OF allowed(3)]
    have oc: "st_outcome r = ''PASS''" "run_phase s = ''OWNER_ACCEPTANCE''"
      using enters_merge [of r t] assms(2,3,4) allowed(4) f n by (auto simp: normal_result_def)
    have a: "dc_action c = JStr ''owner_accept''"
      using bind_context_action [OF decided(5)] oc(2) by (simp add: lookup_def ACTION_BY_PHASE_def)
    obtain p where p: "evaluate_permission c (Some p) = Inr dec"
      using effective_allow [OF decided(6) allowed(1)] by blast
    have h: "truthy (dc_human_approved c)"
      using a4_needs_human [OF p allowed(1)] a by (simp add: min_autonomy_def ACTION_MIN_AUTONOMY_def)
    obtain i b m where t: "t = bind_references r ((bind_subject r (append_event en r dec s))\<lparr>run_issue_id := i,
        run_work_branch := b, run_pull_request_number := m\<rparr>)"
      using apply_bindings_shape [OF allowed(3)] by blast
    have acc: "run_owner_acceptance_sha t = run_subject_sha t" "is_sha40 (run_subject_sha t)"
      using accepted_subject [of "append_event en r dec s" r] n oc
      by (simp_all add: t bind_references_acceptance bind_references_subject normal_result_def)
    have s': "s' = on_pass t" using allowed(4) oc(1) by (simp add: apply_outcome_def)
    have "run_owner_acceptance_sha s' = run_subject_sha s'" "is_sha40 (run_subject_sha s')"
      using acc by (simp_all add: s' on_pass_def)
    moreover have "run_events s' = run_events s @ [mk_event en s r dec]"
      using allowed(4) f by (simp add: append_event_events)
    ultimately show ?thesis
      using oc a h n allowed(1,2) decided(6) by (auto simp: normal_result_def intro!: exI [of _ c])
  qed
qed (use assms(2,3) in \<open>simp_all add: block_run_def\<close>)

lemma run_step_gate:
  assumes "run_step en s d s'"
  shows "(run_phase s' = run_phase s \<and> run_subject_sha s' = run_subject_sha s
      \<and> run_delivery_sha s' = run_delivery_sha s \<and> run_owner_acceptance_sha s' = run_owner_acceptance_sha s
      \<and> run_status s' \<in> {''BLOCKED'', ''BLOCK'', ''HUMAN_REQUIRED''})
    \<or> (\<exists>e c p. run_events s' = run_events s @ [e] \<and> d_result (ev_decision e) = ''ALLOW''
        \<and> d_policy_hash (ev_decision e) = Some (run_policy_hash s)
        \<and> load_effective_policy (e_sha en) (e_policy en) = Inr p
        \<and> evaluate_permission c (Some p) = Inr (ev_decision e)
        \<and> dc_action c = JStr (lookup ACTION_BY_PHASE (run_phase s) []))"
  using assms
proof cases
  case (decided r control trusted c dec)
  from decided(7) show ?thesis
  proof (cases rule: decide_step_cases)
    case refused
    then show ?thesis using effective_decision [OF decided(6)] by auto
  next
    case (allowed t)
    obtain p where p: "load_effective_policy (e_sha en) (e_policy en) = Inr p"
      "evaluate_permission c (Some p) = Inr dec"
      using effective_allow [OF decided(6) allowed(1)] by blast
    have "run_events s' = run_events s @ [mk_event en s r dec]"
      using allowed(4) apply_bindings_fields [OF allowed(3)] by (simp add: append_event_events)
    then show ?thesis using p allowed(1,2) bind_context_action [OF decided(5)]
      by (intro disjI2 exI [of _ "mk_event en s r dec"] exI [of _ c] exI [of _ p]) simp
  qed
qed (simp_all add: block_run_def)

lemma find_snoc: "find P (xs @ [e]) = (case find P xs of Some y \<Rightarrow> Some y | None \<Rightarrow> if P e then Some e else None)"
  by (induction xs) auto

lemma find_duplicate_last:
  assumes "run_events s = es @ [e]" "distinct (map ev_key (run_events s))"
  shows "find_duplicate s (JStr (ev_key e)) = Some e"
proof -
  have "find (\<lambda>x. JStr (ev_key x) = JStr (ev_key e)) es = None"
    using assms by (simp add: find_None_iff) (metis image_eqI)
  then show ?thesis by (simp add: find_duplicate_def assms(1) find_snoc)
qed

lemma decide_step_events: "decide_step en r d s = Inr s' \<Longrightarrow> run_events s' = run_events s @ [mk_event en s r d]"
  by (erule decide_step_cases) (auto simp: append_event_events dest: apply_bindings_fields(3))

lemma run_step_same_events:
  assumes "run_step en s d s'" "run_events s' = run_events s"
  shows "run_status s' = ''BLOCKED''"
  using assms by (auto simp: block_run_def elim!: run_step.cases dest: decide_step_events)

lemma journal_load_again:
  assumes "journal_load en dir rid = Inr v" "rid \<noteq> []" "e_sha en' = e_sha en"
  shows "journal_load en' dir rid = Inr v"
proof -
  obtain r where r: "check_run_id (e_uuid en) rid = Inr r" "map_of dir r = Some (Journal v)"
    "validate_journal (e_sha en) v = Inr []"
    using journal_load_shape [OF assms(1)] by blast
  have "r = rid" using check_run_id_Inr [OF r(1) assms(2)] .
  then show ?thesis
    using r check_run_id_nonempty [OF r(1), THEN conjunct2, of "e_uuid en'"] assms(3) by (simp add: journal_load_def)
qed

lemma advance_run_unsaved:
  assumes "dir_ok (e_sha en) dir" "advance_run en dir rid d control trusted = Inr (v, dir')"
    and "journal_load en dir rid = Inr v" "dir' = dir"
  shows "run_status v \<in> {''COMPLETE'', ''BLOCKED''} \<or> (\<exists>e. find_duplicate v (dget d ''idempotency_key'') = Some e
        \<and> JStr (ev_phase e) = dget d ''phase'' \<and> JStr (ev_outcome e) = dget d ''outcome'')"
proof -
  have no: "journal_save en dir s' (Some (run_revision v)) \<noteq> Inr (v, dir')" for s'
  proof
    assume sv: "journal_save en dir s' (Some (run_revision v)) = Inr (v, dir')"
    obtain actual where a: "run_revision v = actual"
      "v = s'\<lparr>run_revision := actual + 1, run_updated_at := iso (e_now en)\<rparr>"
      using journal_save_shape [OF sv] by blast
    from a(2) have "run_revision v = actual + 1" by simp
    with a(1) show False by simp
  qed
  show ?thesis
    using assms(2,3) unfolding advance_run_def
    by (auto simp: no elim!: bindE_InrE split: if_split_asm option.splits)
qed

section \<open>Properties\<close>

text \<open>
  C9. Every journal the orchestrator can reach, whatever the results, contexts, policies and clocks
  it was fed, is in good order: its event log is a valid hash chain ending in the recorded head with no
  step key recorded twice, its phase is known, every phase after the merge has an exact merged
  commit, a recorded owner acceptance names the exact candidate the run carries until it delivers,
  and the cycle and retry budgets hold.
\<close>

theorem journals_in_good_order:
  assumes "reachable sha dir" "map_of dir k = Some f"
  shows "\<exists>v. f = Journal v \<and> run_id v = k \<and> 0 \<le> run_revision v \<and> log_ok sha v \<and> place_ok v \<and> delivery_ok v
    \<and> acceptance_ok v \<and> budget_ok v"
  using dir_okD [OF reachable_dir_ok [OF assms(1)] assms(2)] by (auto simp: run_ok_def)

lemma sample_reachable: "reachable flat_sha [(''run-0001'', Journal sample_fresh)]"
  using reachable.created [OF reachable.empty _ sample_created, of flat_sha] by simp

lemma journals_in_good_order_witness: "log_ok flat_sha sample_fresh \<and> acceptance_ok sample_fresh"
  using journals_in_good_order [OF sample_reachable, of "''run-0001''" "Journal sample_fresh"] by simp

text \<open>
  C15. A step writes only its own run's journal and the journal is append-only: an accepted call leaves
  the directory alone, or raises the revision of a run that was not finished by exactly one and either
  appends exactly one event with a key not seen before or gives the run up as BLOCKED.
\<close>

theorem journal_is_append_only:
  assumes "reachable (e_sha en) dir" "advance_run en dir rid d control trusted = Inr (v, dir')"
  shows "\<exists>s. map_of dir (run_id v) = Some (Journal s) \<and> map_of dir' (run_id v) = Some (Journal v)
    \<and> (\<forall>k. k \<noteq> run_id v \<longrightarrow> map_of dir' k = map_of dir k)
    \<and> (v = s \<and> dir' = dir \<or>
       run_status s \<notin> {''COMPLETE'', ''BLOCKED''} \<and> run_revision v = run_revision s + 1
       \<and> (run_events v = run_events s \<and> run_status v = ''BLOCKED''
          \<or> (\<exists>e. run_events v = run_events s @ [e] \<and> ev_key e \<notin> ev_key ` set (run_events s))))"
proof -
  note ok = reachable_dir_ok [OF assms(1)]
  from ok assms(2) show ?thesis
  proof (cases rule: advance_run_saved)
    case same
    then show ?thesis using loaded [OF ok same(1)] by auto
  next
    case (saved s s')
    note ev = run_step_events [OF saved(2)]
    have live: "run_status s \<notin> {''COMPLETE'', ''BLOCKED''}"
      using saved(2) by cases auto
    have blocked: "run_status s' = ''BLOCKED''" if "run_events s' = run_events s"
      using run_step_same_events [OF saved(2) that] .
    have "distinct (map ev_key (run_events v))" using saved(6) by (simp add: run_ok_def log_ok_def)
    then have fresh: "ev_key e \<notin> ev_key ` set (run_events s)" if "run_events s' = run_events s @ [e]" for e
      using that by (simp add: saved(3))
    have v: "run_id v = run_id s" "run_revision v = run_revision s + 1" "run_events v = run_events s'"
      "run_status v = run_status s'" using ev by (simp_all add: saved(3))
    have "run_events v = run_events s \<and> run_status v = ''BLOCKED''
        \<or> (\<exists>e. run_events v = run_events s @ [e] \<and> ev_key e \<notin> ev_key ` set (run_events s))"
      using ev blocked fresh v by auto
    then show ?thesis
      using live loaded [OF ok saved(1)] v by (intro exI [of _ s]) (simp add: saved(4) update_conv')
  qed
qed

lemma journal_is_append_only_witness:
  "\<exists>v :: run. run_id v = ''run-0001'' \<and> run_phase v = ''AUTHORIZE'' \<and> run_revision v = run_revision sample_fresh + 1"
proof -
  obtain v where v: "advance_run (sample_env sample_start) [(''run-0001'', Journal sample_fresh)] ''run-0001''
       (plain_step ''RECONCILE'' ''PASS'' ''key-00001'') (Some sample_facts) None
     = Inr (v, [(''run-0001'', Journal v)])" "run_phase v = ''AUTHORIZE''"
    using sample_advanced by blast
  have "reachable (e_sha (sample_env sample_start)) [(''run-0001'', Journal sample_fresh)]"
    by (simp add: sample_reachable)
  from journal_is_append_only [OF this v(1)] v(2) show ?thesis
    by (intro exI [of _ v]) (auto split: if_split_asm)
qed

text \<open>
  C12. Retrying a step is harmless: after a call returned, the same step result given again, at any
  later moment before the deadline and with any context, returns the same run and writes nothing.  The run id is
  not empty and the journal that was saved still validates, which holds unless a recovery, cleanup or next
  step reported another commit after the merge (\<open>recovery_changes_commit\<close>).
\<close>

theorem replay_is_idempotent:
  assumes "reachable (e_sha en) dir" "advance_run en dir rid d control trusted = Inr (v, dir')"
    and "rid \<noteq> []" "e_sha en' = e_sha en" "validate_journal (e_sha en) v = Inr []"
    and "check_deadline (e_now en') (run_deadline_at v) = Inr Ahead"
  shows "advance_run en' dir' rid d control' trusted' = Inr (v, dir')"
proof -
  note ok = reachable_dir_ok [OF assms(1)]
  from ok assms(2) show ?thesis
  proof (cases rule: advance_run_saved)
    case same
    have "run_revision v + 1 \<noteq> run_revision v" by simp
    then have "run_status v \<in> {''COMPLETE'', ''BLOCKED''} \<or> (\<exists>e. find_duplicate v (dget d ''idempotency_key'') = Some e
        \<and> JStr (ev_phase e) = dget d ''phase'' \<and> JStr (ev_outcome e) = dget d ''outcome'')"
      using advance_run_unsaved [OF ok assms(2) same] by blast
    then show ?thesis
      using journal_load_again [OF same(1) assms(3,4)] assms(6) same(2)
      by (auto simp: advance_run_def)
  next
    case (saved s s')
    note ev = run_step_events [OF saved(2)]
    have l: "check_run_id (e_uuid en) rid = Inr (run_id s)" using loaded [OF ok saved(1)] by blast
    then have rid: "rid = run_id s" using check_run_id_Inr assms(3) by auto
    have load: "journal_load en' dir' rid = Inr v"
      using l check_run_id_nonempty [OF l, THEN conjunct2, of "e_uuid en'"] rid assms(4,5)
      by (simp add: journal_load_def saved(4) update_conv')
    have "distinct (map ev_key (run_events v))" using saved(6) by (simp add: run_ok_def log_ok_def)
    then have dup: "find_duplicate v (JStr (ev_key e)) = Some e" if "run_events s' = run_events s @ [e]" for e
      using that find_duplicate_last [of v "run_events s" e]
        \<open>distinct (map ev_key (run_events v))\<close> by (simp add: saved(3))
    have "run_status v \<in> {''COMPLETE'', ''BLOCKED''} \<or> (\<exists>e. find_duplicate v (dget d ''idempotency_key'') = Some e
        \<and> JStr (ev_phase e) = dget d ''phase'' \<and> JStr (ev_outcome e) = dget d ''outcome'')"
      using ev dup by (auto simp: saved(3))
    then show ?thesis using load assms(6) by (auto simp: advance_run_def)
  qed
qed

lemma run_ok_valid:
  assumes "run_ok sha v" "run_phase v \<notin> set DELIVERY_STATE_PHASES"
  shows "validate_journal sha v = Inr []"
  using assms by (auto simp: validate_journal_def delivery_findings_def run_ok_def log_ok_def place_ok_def
      delivery_ok_def overflow_bound_def)

lemma replay_is_idempotent_witness:
  "\<exists>v dir. advance_run (sample_env (sample_start + 1)) dir ''run-0001''
       (plain_step ''RECONCILE'' ''PASS'' ''key-00001'') None None = Inr (v, dir)
     \<and> run_phase v = ''AUTHORIZE'' \<and> run_revision v = 1"
proof -
  let ?en = "sample_env sample_start" and ?dir = "[(''run-0001'', Journal sample_fresh)]"
  obtain v where v: "advance_run ?en ?dir ''run-0001''
       (plain_step ''RECONCILE'' ''PASS'' ''key-00001'') (Some sample_facts) None
     = Inr (v, [(''run-0001'', Journal v)])" "run_phase v = ''AUTHORIZE''" "run_revision v = 1"
     "run_deadline_at v = iso (sample_start + minutes 1440)"
    using sample_advanced by (elim exE conjE) (rule that)
  have r: "reachable (e_sha ?en) ?dir" by (simp add: sample_reachable)
  have "reachable flat_sha [(''run-0001'', Journal v)]"
    using reachable.advanced [OF r refl v(1)] by simp
  from dir_okD [OF reachable_dir_ok [OF this], of "''run-0001''" "Journal v"]
  have val: "validate_journal (e_sha ?en) v = Inr []"
    using v(2) by (intro run_ok_valid) (simp_all add: DELIVERY_STATE_PHASES_def)
  have t: "in_range (sample_start + minutes 1440)" by code_simp
  have "check_deadline (e_now (sample_env (sample_start + 1))) (run_deadline_at v) = Inr Ahead"
    using check_deadline_iso [OF t, of "sample_start + 1"] by (simp add: v(4) minutes_def)
  from replay_is_idempotent [OF r v(1) _ _ val this] v(2,3) show ?thesis
    by (intro exI [of _ v] exI [of _ "[(''run-0001'', Journal v)]"]) simp
qed

text \<open>
  The journal is tamper-evident: two valid journals with the same recorded head carry the same
  history, event by event, as long as the digest does not collide on the events they hold.
\<close>

theorem same_head_same_history:
  assumes "validate_journal sha v = Inr []" "validate_journal sha w = Inr []"
    and "run_event_head v = run_event_head w"
    and "inj_on (\<lambda>j. sha (canonical j)) (event_json ` (set (run_events v) \<union> set (run_events w)))"
  shows "map event_json (run_events v) = map event_json (run_events w)"
proof (rule run_log.same_head_same_content [of sha 0 _ 0])
  show "run_log.head None (run_events v) = run_log.head None (run_events w)"
    using assms(1-3) by (auto simp: validate_journal_def elim!: bindE_InrE)
qed (use assms in \<open>auto simp: validate_journal_def elim!: bindE_InrE\<close>)

definition plain_env :: env where
  "plain_env = \<lparr>e_sha = id, e_policy = Unreadable ''FileNotFoundError'', e_now = sample_start, e_uuid = ''e-1''\<rparr>"

definition one_event_run :: run where
  "one_event_run = append_event plain_env sample_result (mk_decision ''ALLOW'' [] None) sample_run"

lemma one_event_run_valid: "validate_journal id (one_event_run\<lparr>run_status := x\<rparr>) = Inr []"
proof -
  have "log_ok (e_sha plain_env) sample_run" "find_duplicate sample_run (JStr (st_key sample_result)) = None"
    by (simp_all add: log_ok_def sample_run_def last_hash_def find_duplicate_def)
  from append_event_log [OF this] have "log_ok id one_event_run"
    by (simp add: one_event_run_def plain_env_def)
  then show ?thesis
    by (simp add: validate_journal_def log_ok_def delivery_findings_def one_event_run_def sample_run_def
      overflow_bound_def DELIVERY_STATE_PHASES_def PHASES_def)
qed

lemma same_head_same_history_witness:
  "map event_json (run_events one_event_run) = map event_json (run_events (one_event_run\<lparr>run_status := ''BLOCKED''\<rparr>))
   \<and> length (run_events one_event_run) = 1"
proof -
  have "one_event_run = one_event_run\<lparr>run_status := run_status one_event_run\<rparr>" by simp
  then have v: "validate_journal id one_event_run = Inr []" using one_event_run_valid by metis
  have "run_events one_event_run = [mk_event plain_env sample_run sample_result (mk_decision ''ALLOW'' [] None)]"
    by (simp add: one_event_run_def append_event_events) (simp add: sample_run_def)
  then show ?thesis
    using same_head_same_history [OF v one_event_run_valid, of "''BLOCKED''"] by simp
qed

text \<open>
  C1. A change for the owner reaches the merge only through an exact acceptance: in a directory in good
  order (as every reachable one is), a run with product
  impact enters MERGE (other than back from recovery) only by a PASS of OWNER_ACCEPTANCE whose
  decision was ALLOW under the run's own policy, with the owner's approval in the context, for the
  preview the run had recorded; and the acceptance is bound to the exact commit the run carries.
\<close>

theorem merge_needs_exact_acceptance:
  assumes "dir_ok (e_sha en) dir" "advance_run en dir rid d control trusted = Inr (v, dir')"
    and "map_of dir (run_id v) = Some (Journal s)" "run_product_impact s"
    and "run_phase s \<notin> {''MERGE'', ''RECOVERY''}" "run_phase v = ''MERGE''"
  shows "run_phase s = ''OWNER_ACCEPTANCE'' \<and> is_sha40 (run_subject_sha v)
    \<and> run_owner_acceptance_sha v = run_subject_sha v
    \<and> (\<exists>e c. run_events v = run_events s @ [e] \<and> ev_outcome e = ''PASS''
        \<and> d_result (ev_decision e) = ''ALLOW'' \<and> d_policy_hash (ev_decision e) = Some (run_policy_hash s)
        \<and> evaluate_with_effective_policy (e_sha en) (e_policy en) c = Inr (ev_decision e)
        \<and> dc_action c = JStr ''owner_accept'' \<and> truthy (dc_human_approved c)
        \<and> py_eq (dget (ev_metadata e) ''accepted_preview_digest'') (run_preview_digest s))"
proof -
  note ok = assms(1)
  from ok assms(2) show ?thesis
  proof (cases rule: advance_run_saved)
    case same
    then show ?thesis using loaded [OF ok same(1)] assms(3,5,6) by simp
  next
    case (saved s0 s')
    have "s0 = s"
      using assms(3) loaded [OF ok saved(1)] run_step_events [OF saved(2)] by (simp add: saved(3))
    then have step: "run_step en s d s'" using saved(2) by simp
    have "run_phase s' = ''MERGE''" using assms(6) by (simp add: saved(3))
    from run_step_enters_merge [OF step assms(5) this assms(4)] show ?thesis
      by (simp add: saved(3))
  qed
qed

text \<open>A run waiting for its owner, and the owner's acceptance of its preview.\<close>

definition waiting_run :: run where
  "waiting_run = sample_run\<lparr>run_phase := ''OWNER_ACCEPTANCE'', run_subject_sha := JStr (replicate 40 (CHR ''c'')),
     run_preview_digest := JStr (replicate 64 (CHR ''d''))\<rparr>"

definition acceptance_metadata :: dict where
  "acceptance_metadata = [(''owner_acceptance_exact'', JBool True),
     (''accepted_preview_digest'', JStr (replicate 64 (CHR ''d'')))]"

definition acceptance_step :: dict where
  "acceptance_step = [(''phase'', JStr ''OWNER_ACCEPTANCE''), (''outcome'', JStr ''PASS''),
     (''idempotency_key'', JStr ''key-00002''), (''metadata'', JObj acceptance_metadata)]"

definition acceptance_result :: step_result where
  "acceptance_result = \<lparr>st_phase = ''OWNER_ACCEPTANCE'', st_outcome = ''PASS'', st_key = ''key-00002'',
     st_subject_sha = JStr (replicate 40 (CHR ''c'')), st_preview_digest = JNull, st_evidence_refs = [],
     st_reason_codes = [], st_transient = False, st_metadata = acceptance_metadata\<rparr>"

lemma waiting_dir_ok: "dir_ok flat_sha [(''run-0001'', Journal waiting_run)]"
proof -
  have "hex_n 40 (replicate 40 (CHR ''c''))" by (rule hex_n_replicate) code_simp
  then show ?thesis
    by (simp add: dir_ok_def run_ok_def waiting_run_def sample_run_def log_ok_def place_ok_def delivery_ok_def
      acceptance_ok_def budget_ok_def last_hash_def PHASES_def DELIVERY_STATE_PHASES_def)
qed

lemma acceptance_normal: "normalize_result acceptance_step waiting_run = Inr acceptance_result"
proof -
  let ?d = acceptance_step and ?m = acceptance_metadata
  have p: "keys_beyond ?d RESULT_FIELDS = []" "dget ?d ''evidence_refs'' = JNull" "dget ?d ''reason_codes'' = JNull"
    "dget_or ?d ''cost_usd'' (JInt 0) = JInt 0" "dget ?d ''metadata'' = JObj ?m" "dget ?d ''phase'' = JStr ''OWNER_ACCEPTANCE''"
    "dget ?d ''outcome'' = JStr ''PASS''" "dget ?d ''idempotency_key'' = JStr ''key-00002''"
    "dget ?d ''subject_sha'' = JNull" "dget ?d ''preview_digest'' = JNull" "dget ?d ''transient'' = JNull"
    "''PASS'' \<in> set OUTCOMES" "''OWNER_ACCEPTANCE'' \<in> set PHASES"
    "dget ?m ''owner_acceptance_exact'' = JBool True"
    "dget ?m ''accepted_preview_digest'' = JStr (replicate 64 (CHR ''d''))" "?m \<noteq> []"
    by (simp_all add: acceptance_step_def acceptance_metadata_def keys_beyond_def dkeys_def RESULT_FIELDS_def
        OUTCOMES_def PHASES_def)
  have w: "run_phase waiting_run = ''OWNER_ACCEPTANCE''"
    "run_subject_sha waiting_run = JStr (replicate 40 (CHR ''c''))"
    "run_preview_digest waiting_run = JStr (replicate 64 (CHR ''d''))" by (simp_all add: waiting_run_def)
  have h: "sha40 (replicate 40 (CHR ''c''))" by (rule hex_n_replicate) code_simp
  show ?thesis
    using h by (simp add: normalize_result_def p w py_or_def overflow_bound_def bind_sha_def check_merge_def
       check_delivery_def check_outcome_def SHA_PHASES_def DELIVERY_RESULT_PHASES_def EVIDENCE_PHASES_def
       acceptance_result_def)
qed

lemma waiting_accepted:
  "\<exists>v. advance_run (sample_env sample_start) [(''run-0001'', Journal waiting_run)] ''run-0001''
       acceptance_step (Some sample_facts) None = Inr (v, [(''run-0001'', Journal v)])
     \<and> run_phase v = ''MERGE'' \<and> run_id v = ''run-0001''"
proof -
  have dl: "check_deadline sample_start (run_deadline_at waiting_run) = Inr Ahead" by code_simp
  have w: "run_status waiting_run = ''RUNNING''" "run_events waiting_run = []" "run_id waiting_run = ''run-0001''"
    "run_phase waiting_run = ''OWNER_ACCEPTANCE''" "run_revision waiting_run = 0"
    "run_policy_hash waiting_run = replicate 64 (CHR ''a'')"
    by (simp_all add: waiting_run_def sample_run_def)
  have v: "validate_journal flat_sha waiting_run = Inr []"
    by (simp add: validate_journal_def delivery_findings_def last_hash_def waiting_run_def sample_run_def
        overflow_bound_def PHASES_def DELIVERY_STATE_PHASES_def)
  have n: "normalize_result acceptance_step waiting_run = Inr acceptance_result" by (rule acceptance_normal)
  have e: "bindE (control_context waiting_run acceptance_result sample_facts)
     (\<lambda>c. evaluate_permission c (Some (dict_of sample_policy)))
     = Inr (mk_decision ''ALLOW'' [] (Some (replicate 64 (CHR ''a''))))"
    unfolding evaluate_permission_def rules_sample sum.case prod.case by code_simp
  then obtain c where c: "control_context waiting_run acceptance_result sample_facts = Inr c"
    "evaluate_permission c (Some (dict_of sample_policy)) = Inr (mk_decision ''ALLOW'' [] (Some (replicate 64 (CHR ''a''))))"
    by (auto elim!: bindE_InrE)
  have k: "dget acceptance_step ''idempotency_key'' = JStr ''key-00002''" by code_simp
  have nx: "lookup NEXT_PHASE ''OWNER_ACCEPTANCE'' ''OWNER_ACCEPTANCE'' = ''MERGE''" by code_simp
  have r': "st_outcome acceptance_result = ''PASS''" by (simp add: acceptance_result_def)
  have ab: "\<exists>t. apply_bindings acceptance_result s = Inr t" if "run_phase s = ''OWNER_ACCEPTANCE''" for s
    using that by (simp add: apply_bindings_def bind_branch_def bind_pull_request_def Let_def)
  define a where "a = append_event (sample_env sample_start) acceptance_result
     (mk_decision ''ALLOW'' [] (Some (replicate 64 (CHR ''a'')))) waiting_run"
  obtain t where t: "apply_bindings acceptance_result a = Inr t"
    using ab [of a] w by (auto simp: a_def)
  note f = apply_bindings_fields [OF t]
  have f': "run_phase t = ''OWNER_ACCEPTANCE''" "run_id t = ''run-0001''"
    using f w by (simp_all add: a_def)
  show ?thesis
    using f' w by (simp add: advance_run_def journal_load_def sample_id v dl k find_duplicate_def n bind_context_def c
        evaluate_with_effective_policy_def load_sample decide_step_def journal_save_def stored_revision_def
        Let_def apply_outcome_def on_pass_def r' a_def [symmetric] t)
     (simp add: a_def nx sample_id Let_def)
qed

lemma merge_needs_exact_acceptance_witness:
  "\<exists>v :: run. run_phase v = ''MERGE'' \<and> is_sha40 (run_subject_sha v) \<and> run_owner_acceptance_sha v = run_subject_sha v"
proof -
  obtain v where v: "advance_run (sample_env sample_start) [(''run-0001'', Journal waiting_run)] ''run-0001''
       acceptance_step (Some sample_facts) None = Inr (v, [(''run-0001'', Journal v)])"
     "run_phase v = ''MERGE''" "run_id v = ''run-0001''"
    using waiting_accepted by blast
  have ok: "dir_ok (e_sha (sample_env sample_start)) [(''run-0001'', Journal waiting_run)]"
    by (simp add: waiting_dir_ok)
  have "run_product_impact waiting_run" "run_phase waiting_run \<notin> {''MERGE'', ''RECOVERY''}"
    by (simp_all add: waiting_run_def sample_run_def)
  then show ?thesis
    using merge_needs_exact_acceptance [OF ok v(1), of waiting_run] v(2,3) by auto
qed

text \<open>
  C2. No step without permission: whatever a call is given, the phase, the candidate, the merged
  commit and the acceptance of a run stay as they were, or the journal records an ALLOW that the
  policy file on disk, verified against its own digest, gave for the action of the run's phase and under
  the policy hash the run was created with.
\<close>

theorem no_step_without_permission:
  assumes "reachable (e_sha en) dir" "advance_run en dir rid d control trusted = Inr (v, dir')"
    and "map_of dir (run_id v) = Some (Journal s)"
  shows "(run_phase v = run_phase s \<and> run_subject_sha v = run_subject_sha s
      \<and> run_delivery_sha v = run_delivery_sha s \<and> run_owner_acceptance_sha v = run_owner_acceptance_sha s)
    \<or> (\<exists>e c p. run_events v = run_events s @ [e] \<and> d_result (ev_decision e) = ''ALLOW''
        \<and> d_policy_hash (ev_decision e) = Some (run_policy_hash s)
        \<and> load_effective_policy (e_sha en) (e_policy en) = Inr p
        \<and> evaluate_permission c (Some p) = Inr (ev_decision e)
        \<and> dc_action c = JStr (lookup ACTION_BY_PHASE (run_phase s) []))"
proof -
  note ok = reachable_dir_ok [OF assms(1)]
  from ok assms(2) show ?thesis
  proof (cases rule: advance_run_saved)
    case same
    then show ?thesis using loaded [OF ok same(1)] assms(3) by simp
  next
    case (saved s0 s')
    have "s0 = s"
      using assms(3) loaded [OF ok saved(1)] run_step_events [OF saved(2)] by (simp add: saved(3))
    then have "run_step en s d s'" using saved(2) by simp
    note gate = run_step_gate [OF this]
    have f: "run_phase v = run_phase s'" "run_subject_sha v = run_subject_sha s'" "run_events v = run_events s'"
      "run_delivery_sha v = run_delivery_sha s'" "run_owner_acceptance_sha v = run_owner_acceptance_sha s'"
      by (simp_all add: saved(3))
    show ?thesis using gate unfolding f by blast
  qed
qed

lemma no_step_without_permission_witness:
  "\<exists>e :: event. \<exists>c p. ev_key e = ''key-00001'' \<and> d_result (ev_decision e) = ''ALLOW''
     \<and> evaluate_permission c (Some p) = Inr (ev_decision e) \<and> dc_action c = JStr ''reconcile''"
proof -
  obtain v where v: "advance_run (sample_env sample_start) [(''run-0001'', Journal sample_fresh)] ''run-0001''
       (plain_step ''RECONCILE'' ''PASS'' ''key-00001'') (Some sample_facts) None
     = Inr (v, [(''run-0001'', Journal v)])" "run_phase v = ''AUTHORIZE''" "run_id v = ''run-0001''"
     "map ev_key (run_events v) = [''key-00001'']"
    using sample_advanced by (elim exE conjE) (rule that)
  have r: "reachable (e_sha (sample_env sample_start)) [(''run-0001'', Journal sample_fresh)]"
    by (simp add: sample_reachable)
  have a: "lookup ACTION_BY_PHASE ''RECONCILE'' [] = ''reconcile''" by code_simp
  have m: "map_of [(''run-0001'', Journal sample_fresh)] (run_id v) = Some (Journal sample_fresh)"
    using v(3) by simp
  have p: "run_phase v \<noteq> run_phase sample_fresh" using v(2) by simp
  from no_step_without_permission [OF r v(1) m] p obtain e c p where
    e: "run_events v = run_events sample_fresh @ [e]" "d_result (ev_decision e) = ''ALLOW''"
      "evaluate_permission c (Some p) = Inr (ev_decision e)"
      "dc_action c = JStr (lookup ACTION_BY_PHASE (run_phase sample_fresh) [])"
    by (elim disjE exE conjE) simp_all
  have "ev_key e = ''key-00001''" using e(1) v(4) by simp
  then show ?thesis using e(2-4) a by (intro exI [of _ e] exI [of _ c] exI [of _ p]) simp
qed

section \<open>Where the machine does not do what it means to\<close>

text \<open>
  A refusal by policy leaves the run in the status BLOCK, which is neither one of the finished
  statuses (BLOCKED is) nor one of the active ones.
\<close>

lemma policy_block_status:
  assumes "decide_step en r d s = Inr s'" "d_result d = ''BLOCK''"
  shows "run_status s' = ''BLOCK'' \<and> run_status s' \<notin> {''COMPLETE'', ''BLOCKED''}
    \<and> run_status s' \<notin> set ACTIVE_STATUSES"
  using assms by (auto elim!: decide_step_cases simp: ACTIVE_STATUSES_def)

text \<open>So a second run can be created while the refused one can still be advanced.\<close>

lemma refused_run_is_not_listed:
  assumes "validate_journal (e_sha en) s = Inr fs" "run_status s = ''BLOCK''"
  shows "list_active en [(run_id s, Journal s)] = Inr []"
  using assms by (simp add: list_active_def ACTIVE_STATUSES_def)

text \<open>A journal that is read but not valid is skipped, whatever its status.\<close>

lemma invalid_journal_is_not_listed:
  assumes "validate_journal (e_sha en) s = Inr (f # fs)"
  shows "list_active en [(run_id s, Journal s)] = Inr []"
  using assms by (simp add: list_active_def)

text \<open>
  A new run under the id of a finished one replaces its journal: the events are gone.
\<close>

lemma new_run_replaces_journal:
  assumes "new_run en dir q = Inr (v, dir')"
  shows "run_events v = [] \<and> map_of dir' (run_id v) = Some (Journal v)"
proof -
  obtain v0 policy deadline where v0: "check_run_id (e_uuid en) (rq_run_id q) = Inr (run_id v0)"
    "v0 = fresh_run en q (run_id v0) policy deadline" "journal_save en dir v0 None = Inr (v, dir')"
    using new_run_shape [OF assms] by blast
  obtain r actual where r: "check_run_id (e_uuid en) (run_id v0) = Inr r"
    "v = v0\<lparr>run_revision := actual + 1, run_updated_at := iso (e_now en)\<rparr>" "dir' = AList.update r (Journal v) dir"
    using journal_save_shape [OF v0(3)] by blast
  have "r = run_id v0" using check_run_id_Inr [OF r(1)] check_run_id_nonempty [OF v0(1)] by blast
  moreover have "run_events v0 = []" by (subst v0(2)) (simp add: fresh_run_def)
  ultimately show ?thesis using r(2) by (simp add: r(3) update_conv')
qed

text \<open>
  Retries exhausted during recovery return to recovery: the phase to return to is lost and the run is not blocked.
\<close>

lemma recovery_retries_never_block:
  assumes "run_phase s = ''RECOVERY''" "run_max_attempts s < attempts_of s ''RECOVERY'' + 1"
  shows "run_phase (on_retry s) = ''RECOVERY'' \<and> run_status (on_retry s) = ''RECOVERY''
    \<and> run_last_failed_phase (on_retry s) = Some ''RECOVERY'' \<and> run_phase (on_pass (on_retry s)) = ''RECOVERY''"
  using assms by (simp add: on_retry_def enter_recovery_def on_pass_def Let_def)

text \<open>
  A recovery after the merge that reports another commit leaves a journal that can no longer be loaded.
\<close>

lemma recovery_commit_breaks_journal:
  assumes "run_phase s \<in> set DELIVERY_STATE_PHASES" "is_sha40 (run_delivery_sha s)"
    and "run_subject_sha s \<noteq> run_delivery_sha s" "validate_journal sha s = Inr fs"
  shows "''DELIVERY_SUBJECT_MISMATCH'' \<in> set fs"
  using assms by (auto simp: validate_journal_def delivery_findings_def py_eq_sha40 elim!: bindE_InrE)

lemma recovery_changes_commit:
  assumes "run_phase s = ''RECOVERY''" "run_last_failed_phase s = Some ''PROMOTE''" "is_sha40 (st_subject_sha r)"
    and "st_outcome r = ''PASS''" "apply_bindings r s = Inr t"
  shows "run_phase (apply_outcome r t) = ''PROMOTE''
    \<and> run_subject_sha (apply_outcome r t) = st_subject_sha r
    \<and> run_delivery_sha (apply_outcome r t) = run_delivery_sha s"
proof -
  obtain i b n where t: "t = bind_references r ((bind_subject r s)\<lparr>run_issue_id := i, run_work_branch := b,
     run_pull_request_number := n\<rparr>)"
    using apply_bindings_shape [OF assms(5)] by blast
  have "run_subject_sha t = st_subject_sha r" "run_delivery_sha t = run_delivery_sha s"
    using assms(1,3) by (simp_all add: t bind_references_subject bind_references_delivery bind_subject_def is_sha40_truthy)
  then show ?thesis
    using assms(1,2,4) apply_bindings_fields [OF assms(5)] by (simp add: apply_outcome_def on_pass_def)
qed

text \<open>
  An acceptance that reports another commit than the previewed one is recorded for that commit, while
  the preview it was checked against is forgotten.
\<close>

lemma acceptance_of_unpreviewed_commit:
  assumes "run_phase s = ''OWNER_ACCEPTANCE''" "st_outcome r = ''PASS''" "is_sha40 (st_subject_sha r)"
    and "is_sha40 (run_subject_sha s)" "run_subject_sha s \<noteq> st_subject_sha r" "apply_bindings r s = Inr t"
  shows "run_owner_acceptance_sha t = st_subject_sha r \<and> run_preview_digest t = JNull"
proof -
  obtain i b n where t: "t = bind_references r ((bind_subject r s)\<lparr>run_issue_id := i, run_work_branch := b,
     run_pull_request_number := n\<rparr>)"
    using apply_bindings_shape [OF assms(6)] by blast
  show ?thesis using assms(1-5)
    by (simp add: t bind_references_acceptance bind_references_subject bind_subject_def is_sha40_truthy
        py_eq_sha40_left bind_references_def Let_def)
qed

end
