(* ===== verification/StateEngine.thy ===== *)
theory StateEngine
  imports PyVal
begin

text \<open>
  The transition machine of work items (\<open>.adwf/lib/state_engine.py\<close>).  The machine (its states,
  transitions and preconditions) and the predicates come from configuration files, so they are
  dictionaries of values of unknown type.
\<close>

record transition_decision =
  td_result :: string
  td_from :: string
  td_to :: string
  td_reasons :: "string list"
  td_missing :: "json list"

text \<open>\<open>s in v\<close> for a text \<open>s\<close>: an element of a list, a key of a dictionary, a part of a text.\<close>

fun str_inE :: "string \<Rightarrow> json \<Rightarrow> bool res" where
  "str_inE s (JList xs) = Inr (JStr s \<in> set xs)"
| "str_inE s (JObj d) = Inr (s \<in> set (dkeys d))"
| "str_inE s (JStr t) = Inr (contains t s)"
| "str_inE s _ = Inl TypeError"

definition state_setE :: "json \<Rightarrow> json list res" where
  "state_setE v = bindE (iterE v) (\<lambda>xs. if list_all hashable xs then Inr xs else Inl TypeError)"

text \<open>\<open>predicates.get(name) is not True\<close>.\<close>

definition not_trueE :: "dict \<Rightarrow> json \<Rightarrow> bool res" where
  "not_trueE preds name = (if \<not> hashable name then Inl TypeError
     else Inr (case name of JStr s \<Rightarrow> dget preds s \<noteq> JBool True | _ \<Rightarrow> True))"

definition current_state :: "dict \<Rightarrow> string" where
  "current_state item = py_str (dget_or item ''state'' (JStr ''UNKNOWN''))"

definition evaluate_transition :: "dict \<Rightarrow> string \<Rightarrow> dict \<Rightarrow> dict \<Rightarrow> string option \<Rightarrow> transition_decision res" where
  "evaluate_transition item target machine preds expected = (let current = current_state item;
       block = (\<lambda>code. Inr \<lparr>td_result = ''BLOCK'', td_from = current, td_to = target, td_reasons = [code], td_missing = []\<rparr>)
     in bindE (state_setE (dget_or machine ''states'' (JList []))) (\<lambda>states.
     if JStr current \<notin> set states \<or> JStr target \<notin> set states then block ''UNKNOWN_STATE''
     else if expected \<noteq> None \<and> expected \<noteq> Some current then block ''EXPECTED_STATE_MISMATCH''
     else bindE (getOrE (dget_or machine ''transitions'' (JObj [])) current (JList [])) (\<lambda>targets.
     bindE (str_inE target targets) (\<lambda>edge.
     if \<not> edge then block ''TRANSITION_NOT_ALLOWED''
     else bindE (getOrE (dget_or machine ''preconditions'' (JObj [])) (current @ ''->'' @ target) (JList [])) (\<lambda>req.
     bindE (iterE req) (\<lambda>required.
     bindE (filterE (not_trueE preds) required) (\<lambda>missing.
     if missing \<noteq> []
     then Inr \<lparr>td_result = ''BLOCK'', td_from = current, td_to = target,
            td_reasons = [''PRECONDITION_NOT_TRUE''], td_missing = missing\<rparr>
     else Inr \<lparr>td_result = ''ALLOW'', td_from = current, td_to = target, td_reasons = [], td_missing = []\<rparr>)))))))"

definition apply_transition :: "dict \<Rightarrow> string \<Rightarrow> dict \<Rightarrow> dict \<Rightarrow> string option \<Rightarrow> (dict \<times> transition_decision) res" where
  "apply_transition item target machine preds expected =
     bindE (evaluate_transition item target machine preds expected) (\<lambda>d.
       Inr (if td_result d \<noteq> ''ALLOW'' then (item, d) else (dput ''state'' (JStr target) item, d)))"

section \<open>The machine as a relation\<close>

text \<open>An edge of the configured machine, with its preconditions.\<close>

definition is_state :: "dict \<Rightarrow> string \<Rightarrow> bool" where
  "is_state machine s = (\<exists>xs. state_setE (dget_or machine ''states'' (JList [])) = Inr xs \<and> JStr s \<in> set xs)"

definition edge :: "dict \<Rightarrow> string \<Rightarrow> string \<Rightarrow> bool" where
  "edge machine s t = (\<exists>ts. getOrE (dget_or machine ''transitions'' (JObj [])) s (JList []) = Inr ts
     \<and> str_inE t ts = Inr True)"

definition preconditions_hold :: "dict \<Rightarrow> dict \<Rightarrow> string \<Rightarrow> string \<Rightarrow> bool" where
  "preconditions_hold machine preds s t = (\<exists>req names.
     getOrE (dget_or machine ''preconditions'' (JObj [])) (s @ ''->'' @ t) (JList []) = Inr req
     \<and> iterE req = Inr names \<and> (\<forall>n \<in> set names. \<exists>k. n = JStr k \<and> dget preds k = JBool True))"

lemma not_trueE_False: "not_trueE preds n = Inr False \<longleftrightarrow> (\<exists>k. n = JStr k \<and> dget preds k = JBool True)"
  by (cases n) (auto simp: not_trueE_def)

lemma no_missing: "filterE (not_trueE preds) names = Inr [] \<longleftrightarrow>
   (\<forall>n \<in> set names. \<exists>k. n = JStr k \<and> dget preds k = JBool True)"
  by (simp add: filterE_Nil_iff not_trueE_False)

lemma evaluate_transition_shape:
  assumes "evaluate_transition item target machine preds expected = Inr d"
  shows "td_from d = current_state item \<and> td_to d = target
    \<and> (td_result d = ''ALLOW'' \<and> td_reasons d = [] \<and> td_missing d = [] \<or> td_result d = ''BLOCK'' \<and> length (td_reasons d) = 1)"
  using assms unfolding evaluate_transition_def Let_def
  by (auto elim!: bindE_InrE split: if_split_asm)

lemma evaluate_transition_allow:
  "(\<exists>d. evaluate_transition item target machine preds expected = Inr d \<and> td_result d = ''ALLOW'') \<longleftrightarrow>
     is_state machine (current_state item) \<and> is_state machine target
     \<and> expected \<in> {None, Some (current_state item)} \<and> edge machine (current_state item) target
     \<and> preconditions_hold machine preds (current_state item) target" (is "?L \<longleftrightarrow> ?R")
proof
  assume ?L
  then show ?R
    unfolding evaluate_transition_def Let_def is_state_def edge_def preconditions_hold_def
    by (auto elim!: bindE_InrE split: if_split_asm simp: no_missing [symmetric])
next
  assume ?R
  then obtain xs ts req names where
    "state_setE (dget_or machine ''states'' (JList [])) = Inr xs" "JStr (current_state item) \<in> set xs"
    "JStr target \<in> set xs" "expected \<in> {None, Some (current_state item)}"
    "getOrE (dget_or machine ''transitions'' (JObj [])) (current_state item) (JList []) = Inr ts"
    "str_inE target ts = Inr True"
    "getOrE (dget_or machine ''preconditions'' (JObj [])) (current_state item @ ''->'' @ target) (JList []) = Inr req"
    "iterE req = Inr names" "filterE (not_trueE preds) names = Inr []"
    unfolding is_state_def edge_def preconditions_hold_def by (auto simp: no_missing)
  then show ?L by (auto simp: evaluate_transition_def)
qed

text \<open>
  The items a machine can produce from an item: applied transitions, with predicates that may differ
  at each step.
\<close>

inductive evolves :: "dict \<Rightarrow> dict \<Rightarrow> dict \<Rightarrow> bool" for machine where
  start: "evolves machine item item"
| step: "evolves machine item item' \<Longrightarrow> apply_transition item' target machine preds expected = Inr (item'', d)
    \<Longrightarrow> evolves machine item item''"

inductive_cases evolvesE: "evolves machine item item'"

section \<open>Properties\<close>

text \<open>
  The machine decides by its table: a transition is allowed exactly when both states are declared,
  the caller's expectation of the current state holds, the table has the edge, and every
  precondition of the edge is the literal True.
\<close>

theorem transition_allowed_iff:
  "(\<exists>d. evaluate_transition item target machine preds expected = Inr d \<and> td_result d = ''ALLOW'') \<longleftrightarrow>
     is_state machine (current_state item) \<and> is_state machine target
     \<and> expected \<in> {None, Some (current_state item)} \<and> edge machine (current_state item) target
     \<and> preconditions_hold machine preds (current_state item) target"
  by (rule evaluate_transition_allow)

text \<open>
  C40. Items stay inside the machine: whatever transitions are applied, with whatever predicates, an item
  either is the one it was or is in a declared state reached over an edge of the table; and no field
  other than the state ever changes.
\<close>

theorem items_stay_in_machine:
  assumes "evolves machine item item'"
  shows "(item' = item \<or> (is_state machine (current_state item') \<and> (\<exists>s. edge machine s (current_state item'))))
    \<and> (\<forall>k. k \<noteq> ''state'' \<longrightarrow> dget item' k = dget item k)"
  using assms
proof induction
  case (start item)
  then show ?case by simp
next
  case (step item item' target preds expected item'' d)
  obtain d' where d': "evaluate_transition item' target machine preds expected = Inr d'"
    "item'' = (if td_result d' \<noteq> ''ALLOW'' then item' else dput ''state'' (JStr target) item')"
    using step(2) by (auto simp: apply_transition_def elim!: bindE_InrE split: if_split_asm)
  show ?case
  proof (cases "td_result d' = ''ALLOW''")
    case True
    then have "is_state machine target" "edge machine (current_state item') target"
      using d'(1) evaluate_transition_allow [of item' target machine preds expected] by blast+
    moreover have "current_state item'' = target"
      using True d'(2) by (simp add: current_state_def)
    ultimately show ?thesis using True d'(2) step.IH by auto
  next
    case False
    then show ?thesis using d'(2) step.IH by simp
  qed
qed

definition sample_machine :: dict where
  "sample_machine = [(''states'', JList [JStr ''READY'', JStr ''IN_PROGRESS'']),
     (''transitions'', JObj [(''READY'', JList [JStr ''IN_PROGRESS''])]),
     (''preconditions'', JObj [(''READY->IN_PROGRESS'', JList [JStr ''lease''])])]"

lemma items_stay_in_machine_witness:
  "is_state sample_machine (current_state [(''state'', JStr ''IN_PROGRESS'')])
   \<and> dget [(''state'', JStr ''IN_PROGRESS'')] ''id'' = dget [(''state'', JStr ''READY'')] ''id''"
proof -
  have "\<exists>d. apply_transition [(''state'', JStr ''READY'')] ''IN_PROGRESS'' sample_machine [(''lease'', JBool True)] None
      = Inr ([(''state'', JStr ''IN_PROGRESS'')], d)"
    by (simp add: apply_transition_def evaluate_transition_def current_state_def sample_machine_def state_setE_def
        not_trueE_def dput_def)
  then have "evolves sample_machine [(''state'', JStr ''READY'')] [(''state'', JStr ''IN_PROGRESS'')]"
    using evolves.step [OF evolves.start] by blast
  from items_stay_in_machine [OF this] show ?thesis by auto
qed

end
