(* ===== verification/Leases.thy ===== *)
theory Leases
  imports PyTime
begin

text \<open>
  Writer leases of the local queue (\<open>.adwf/lib/leases.py\<close>): activity, freshness, conflict domains, the
  fail-closed claim, the heartbeat and the reconciliation of stale leases.  The queue is a
  dictionary read from a file, so leases and issues are values of unknown type; \<open>now\<close> is the
  clock in microseconds and \<open>uuid\<close> the fresh UUID of a claim.
\<close>

section \<open>Activity and freshness\<close>

definition ACTIVE :: json where "ACTIVE = JStr ''ACTIVE''"

definition time_field :: "json \<Rightarrow> string \<Rightarrow> int res" where
  "time_field l k = bindE (itemE l k) (\<lambda>v. parse_time (py_str v))"

definition declared_active :: "json \<Rightarrow> bool res" where
  "declared_active l = bindE (getOrE l ''status'' ACTIVE) (\<lambda>s. Inr (s = ACTIVE))"

definition lease_active :: "json \<Rightarrow> int \<Rightarrow> bool res" where
  "lease_active l now = catchE is_KTV
     (bindE (time_field l ''expires_at'') (\<lambda>e. if now < e then declared_active l else Inr False))
     (\<lambda>_. Inr False)"

definition active_leases :: "json list \<Rightarrow> int \<Rightarrow> json list res" where
  "active_leases ls now = filterE (\<lambda>l. lease_active l now) ls"

definition DEFAULT_HEARTBEAT_TIMEOUT_MINUTES :: int where
  "DEFAULT_HEARTBEAT_TIMEOUT_MINUTES = 45"

definition expiry_errors :: "json \<Rightarrow> int \<Rightarrow> string list res" where
  "expiry_errors l now = catchE is_KTV
     (bindE (time_field l ''expires_at'') (\<lambda>e. flagE (e \<le> now) ''LEASE_EXPIRED''))
     (\<lambda>_. Inr [''LEASE_EXPIRY_INVALID''])"

definition heartbeat_errors :: "json \<Rightarrow> int \<Rightarrow> int \<Rightarrow> string list res" where
  "heartbeat_errors l now timeout = catchE is_KTV
     (bindE (time_field l ''heartbeat_at'') (\<lambda>h.
        if now < h then Inr [''LEASE_HEARTBEAT_IN_FUTURE'']
        else flagE (max 1 timeout * 60 * 1000000 < now - h) ''LEASE_HEARTBEAT_STALE''))
     (\<lambda>_. Inr [''LEASE_HEARTBEAT_INVALID''])"

definition lease_freshness_errors :: "json \<Rightarrow> int \<Rightarrow> int \<Rightarrow> string list res" where
  "lease_freshness_errors l now timeout = bindE (declared_active l) (\<lambda>a.
     bindE (expiry_errors l now) (\<lambda>xs. bindE (heartbeat_errors l now timeout) (\<lambda>ys.
       Inr (uniq (flag (\<not> a) ''LEASE_NOT_ACTIVE'' @ xs @ ys)))))"

definition lease_fresh :: "json \<Rightarrow> int \<Rightarrow> int \<Rightarrow> bool res" where
  "lease_fresh l now timeout = bindE (lease_freshness_errors l now timeout) (\<lambda>es. Inr (es = []))"

definition declared_but_stale :: "int \<Rightarrow> int \<Rightarrow> json \<Rightarrow> bool res" where
  "declared_but_stale now timeout l = bindE (declared_active l) (\<lambda>a.
     if a then bindE (lease_fresh l now timeout) (\<lambda>f. Inr (\<not> f)) else Inr False)"

definition invalid_declared_active_leases :: "json list \<Rightarrow> int \<Rightarrow> int \<Rightarrow> json list res" where
  "invalid_declared_active_leases ls now timeout = filterE (declared_but_stale now timeout) ls"

section \<open>Conflict domains\<close>

definition hash_listE :: "json \<Rightarrow> json list res" where
  "hash_listE v = bindE (iterE v) (\<lambda>xs. if list_all hashable xs then Inr xs else Inl TypeError)"

definition lease_domains :: "json list \<Rightarrow> json \<Rightarrow> json list res" where
  "lease_domains domains l = bindE (getOrE l ''conflict_domains'' (JList [])) (\<lambda>v.
     bindE (hash_listE v) (\<lambda>xs. Inr (filter (\<lambda>d. list_ex (py_eq d) xs) domains)))"

definition conflict_domains :: "json \<Rightarrow> json list \<Rightarrow> int \<Rightarrow> json list res" where
  "conflict_domains issue ls now = bindE (getOrE issue ''conflict_domains'' (JList [])) (\<lambda>v.
     bindE (hash_listE v) (\<lambda>domains. bindE (active_leases ls now) (\<lambda>act.
     bindE (mapE (lease_domains domains) act) (\<lambda>xss. sortedE (uniq (concat xss))))))"

section \<open>Names\<close>

text \<open>\<open>_slug\<close>: runs of other characters become one hyphen, hyphens at the ends are dropped.\<close>

definition slug_char :: "char \<Rightarrow> bool" where
  "slug_char c = (c \<in> set ''abcdefghijklmnopqrstuvwxyz0123456789'')"

fun hyphenate :: "bool \<Rightarrow> string \<Rightarrow> string" where
  "hyphenate inside [] = []"
| "hyphenate inside (c # cs) = (if slug_char c then c # hyphenate False cs
     else if inside then hyphenate True cs else CHR ''-'' # hyphenate True cs)"

definition strip_hyphens :: "string \<Rightarrow> string" where
  "strip_hyphens s = rev (dropWhile (\<lambda>c. c = CHR ''-'') (rev (dropWhile (\<lambda>c. c = CHR ''-'') s)))"

definition slug :: "string \<Rightarrow> string res" where
  "slug v = (let n = strip_hyphens (hyphenate False (lower v)) in
     if n = [] then Inl (ValueError ''WORKSPACE_IDENTITY_INVALID'') else Inr (take 48 n))"

section \<open>The claim\<close>

record claim_request =
  cl_issue_id :: string
  cl_worker_id :: string
  cl_base_sha :: string
  cl_ttl_minutes :: int
  cl_one_active_writer :: bool
  cl_permission_allowed :: bool
  cl_max_ready_age_days :: int

text \<open>The text of a field, \<open>str(item.get(k))\<close>.\<close>

definition text_field :: "json \<Rightarrow> string \<Rightarrow> string res" where
  "text_field v k = bindE (getE v k) (\<lambda>w. Inr (py_str w))"

definition has_text :: "string \<Rightarrow> string \<Rightarrow> json \<Rightarrow> bool res" where
  "has_text k t v = bindE (text_field v k) (\<lambda>s. Inr (s = t))"

definition ready_errors :: "json \<Rightarrow> int \<Rightarrow> int \<Rightarrow> unit res" where
  "ready_errors issue now days = catchE is_KV
     (bindE (time_field issue ''ready_since'') (\<lambda>r.
        if now - r < 0 \<or> days * 86400 * 1000000 < now - r then Inl (ValueError ''ISSUE_NOT_FRESH'') else Inr ()))
     (\<lambda>_. Inl (ValueError ''ISSUE_NOT_FRESH''))"

text \<open>The guards of a claim, in their order; the result is the issue's roadmap id.\<close>

definition any_has :: "string \<Rightarrow> string \<Rightarrow> json list \<Rightarrow> bool res" where
  "any_has k t vs = bindE (filterE (has_text k t) vs) (\<lambda>xs. Inr (xs \<noteq> []))"

definition claim_guards :: "claim_request \<Rightarrow> json list \<Rightarrow> json \<Rightarrow> json list \<Rightarrow> int \<Rightarrow> string res" where
  "claim_guards q issues issue ls now =
     bindE (invalid_declared_active_leases ls now DEFAULT_HEARTBEAT_TIMEOUT_MINUTES) (\<lambda>stale.
     bindE (guard (stale = []) ''LEASE_RECONCILIATION_REQUIRED'') (\<lambda>_.
     bindE (active_leases ls now) (\<lambda>current.
     bindE (guard (\<not> (cl_one_active_writer q \<and> current \<noteq> [])) ''ACTIVE_WRITER_EXISTS'') (\<lambda>_.
     bindE (getE issue ''state'') (\<lambda>state.
     bindE (guard (state = JStr ''READY'') ''ISSUE_NOT_READY'') (\<lambda>_.
     bindE (getE issue ''dependencies_resolved'') (\<lambda>deps.
     bindE (guard (deps = JBool True) ''DEPENDENCIES_NOT_VERIFIED'') (\<lambda>_.
     bindE (guard (cl_permission_allowed q) ''PERMISSION_NOT_ALLOWED'') (\<lambda>_.
     bindE (getE issue ''human_required'') (\<lambda>human.
     bindE (getE issue ''autonomy_allowed'') (\<lambda>auto.
     bindE (guard (human = JBool False \<and> auto = JBool True) ''ISSUE_NOT_AUTONOMOUS'') (\<lambda>_.
     bindE (getOrE issue ''roadmap_id'' (JStr [])) (\<lambda>rm.
     bindE (if py_str rm = [] then Inr [] else filterE (has_text ''roadmap_id'' (py_str rm)) issues) (\<lambda>same.
     bindE (guard (length same = 1) ''ROADMAP_ID_NOT_ONE_TO_ONE'') (\<lambda>_.
     bindE (ready_errors issue now (cl_max_ready_age_days q)) (\<lambda>_.
     bindE (any_has ''issue_id'' (cl_issue_id q) current) (\<lambda>leased.
     bindE (guard (\<not> leased) ''ISSUE_ALREADY_LEASED'') (\<lambda>_.
     bindE (conflict_domains issue ls now) (\<lambda>busy.
     bindE (guard (busy = []) ''CONFLICT_DOMAIN_BUSY'') (\<lambda>_.
     bindE (guard (strip (cl_worker_id q) \<noteq> [] \<and> sha40 (strip (cl_base_sha q))) ''WORKER_OR_SHA_MISSING'') (\<lambda>_.
       Inr (py_str rm))))))))))))))))))))))"

definition clamp_ttl :: "int \<Rightarrow> int" where
  "clamp_ttl m = max 1 (min m 240)"

definition new_lease :: "claim_request \<Rightarrow> string \<Rightarrow> string \<Rightarrow> string \<Rightarrow> json list \<Rightarrow> int \<Rightarrow> int \<Rightarrow> dict" where
  "new_lease q uuid rm key domains now expires = [
     (''lease_id'', JStr uuid), (''issue_id'', JStr (cl_issue_id q)), (''roadmap_id'', JStr rm),
     (''worker_id'', JStr (cl_worker_id q)), (''claimed_at'', JStr (iso now)),
     (''heartbeat_at'', JStr (iso now)), (''expires_at'', JStr (iso expires)),
     (''base_sha'', JStr (cl_base_sha q)), (''workspace_id'', JStr key),
     (''workspace_path'', JStr (''.adwf-runtime/workspaces/'' @ key)),
     (''branch'', JStr (''adwf/'' @ key)), (''conflict_domains'', JList domains),
     (''status'', ACTIVE)]"

definition claimed_issue :: "claim_request \<Rightarrow> string \<Rightarrow> string \<Rightarrow> int \<Rightarrow> int \<Rightarrow> dict \<Rightarrow> dict" where
  "claimed_issue q uuid key now expires d = dput ''expires_at'' (JStr (iso expires))
     (dput ''heartbeat_at'' (JStr (iso now)) (dput ''workspace_id'' (JStr key)
     (dput ''lease_id'' (JStr uuid) (dput ''writer_id'' (JStr (cl_worker_id q))
     (dput ''state'' (JStr ''IN_PROGRESS'') d)))))"

text \<open>Applying an update to the elements a predicate selects, in place.\<close>

definition update_where :: "(json \<Rightarrow> bool) \<Rightarrow> (dict \<Rightarrow> dict) \<Rightarrow> json list \<Rightarrow> json list" where
  "update_where p f xs = map (\<lambda>v. if p v then JObj (f (dict_of v)) else v) xs"

definition claim :: "dict \<Rightarrow> claim_request \<Rightarrow> string \<Rightarrow> int \<Rightarrow> (dict \<times> dict) res" where
  "claim queue q uuid now =
     bindE (iterE (dget_or queue ''issues'' (JList []))) (\<lambda>issues.
     bindE (filterE (has_text ''id'' (cl_issue_id q)) issues) (\<lambda>matches.
     bindE (guard (length matches = 1) ''ISSUE_ID_NOT_UNIQUE'') (\<lambda>_.
     (let issue = hd matches; stored = dget_or queue ''leases'' (JList []) in
     bindE (iterE stored) (\<lambda>ls.
     bindE (claim_guards q issues issue ls now) (\<lambda>rm.
     (let expires = now + minutes (clamp_ttl (cl_ttl_minutes q)) in
     if \<not> in_range expires then Inl OverflowError else
     bindE (slug rm) (\<lambda>a. bindE (slug (cl_issue_id q)) (\<lambda>b.
     bindE (iterE (dget_or (dict_of issue) ''conflict_domains'' (JList []))) (\<lambda>domains.
     if \<not> is_list stored then Inl AttributeError else
     (let key = a @ ''-issue-'' @ b; lease = new_lease q uuid rm key domains now expires in
     Inr (dput ''issues'' (JList (update_where (\<lambda>v. has_text ''id'' (cl_issue_id q) v = Inr True)
            (claimed_issue q uuid key now expires) issues))
          (dput ''leases'' (JList (ls @ [JObj lease])) queue), lease))))))))))))"

section \<open>Heartbeat and reconciliation\<close>

definition heartbeat :: "json \<Rightarrow> string \<Rightarrow> int \<Rightarrow> int \<Rightarrow> dict res" where
  "heartbeat l worker now ttl =
     bindE (lease_freshness_errors l now DEFAULT_HEARTBEAT_TIMEOUT_MINUTES) (\<lambda>errors.
     if errors \<noteq> [] then Inl (ValueError (''LEASE_NOT_RENEWABLE:'' @ join '','' errors)) else
     bindE (getE l ''worker_id'') (\<lambda>w.
     if w \<noteq> JStr worker then Inl (ValueError ''LEASE_OWNER_MISMATCH'') else
     (let expires = now + minutes (clamp_ttl ttl) in
      if \<not> in_range expires then Inl OverflowError
      else Inr (dput ''expires_at'' (JStr (iso expires)) (dput ''heartbeat_at'' (JStr (iso now)) (dict_of l))))))"

definition RECOVERABLE_STATES :: "string list" where
  "RECOVERABLE_STATES = [''CLAIMED'', ''IN_PROGRESS'', ''REVIEW'', ''VERIFICATION'']"

definition recover_issue :: "json \<Rightarrow> json \<Rightarrow> json res" where
  "recover_issue l issue = bindE (text_field issue ''id'') (\<lambda>i. bindE (text_field l ''issue_id'') (\<lambda>j.
     if i \<noteq> j then Inr issue else
     bindE (getE issue ''state'') (\<lambda>st. bindE (in_set st RECOVERABLE_STATES) (\<lambda>b.
       Inr (if b then JObj (dput ''state'' (JStr ''RECOVERY'') (dict_of issue)) else issue)))))"

record sweep =
  sw_leases :: "json list"
  sw_issues :: "json list"
  sw_expired :: "string list"

definition sweep_lease :: "int \<Rightarrow> json \<Rightarrow> sweep \<Rightarrow> sweep res" where
  "sweep_lease now l s = bindE (declared_but_stale now DEFAULT_HEARTBEAT_TIMEOUT_MINUTES l) (\<lambda>stale.
     if \<not> stale then Inr (s\<lparr>sw_leases := sw_leases s @ [l]\<rparr>) else
     (let l' = JObj (dput ''status'' (JStr ''EXPIRED'') (dict_of l)) in
      bindE (mapE (recover_issue l') (sw_issues s)) (\<lambda>issues.
        Inr (s\<lparr>sw_leases := sw_leases s @ [l'], sw_issues := issues,
               sw_expired := sw_expired s @ [py_str (dget_or (dict_of l) ''lease_id'' (JStr ''UNKNOWN''))]\<rparr>))))"

definition put_list :: "string \<Rightarrow> json list \<Rightarrow> dict \<Rightarrow> dict" where
  "put_list k xs d = (if is_list (dget d k) then dput k (JList xs) d else d)"

text \<open>
  The issues are looked up for every stale lease; when there is none they are never read, so a
  value there that cannot be iterated does no harm.
\<close>

definition reconcile :: "dict \<Rightarrow> int \<Rightarrow> (dict \<times> string list) res" where
  "reconcile queue now = bindE (iterE (dget_or queue ''leases'' (JList []))) (\<lambda>ls.
     bindE (case iterE (dget_or queue ''issues'' (JList [])) of Inr xs \<Rightarrow> Inr xs
        | Inl e \<Rightarrow> bindE (invalid_declared_active_leases ls now DEFAULT_HEARTBEAT_TIMEOUT_MINUTES)
             (\<lambda>stale. if stale = [] then Inr [] else Inl e)) (\<lambda>issues.
     bindE (foldE (sweep_lease now) ls \<lparr>sw_leases = [], sw_issues = issues, sw_expired = []\<rparr>) (\<lambda>s.
       Inr (put_list ''issues'' (sw_issues s) (put_list ''leases'' (sw_leases s) queue), sw_expired s))))"

section \<open>Facts\<close>

text \<open>A lease written now for a time ahead is active and fresh.\<close>

lemma time_field_str [simp]:
  "time_field (JObj (dput k v d)) k' = (if k' = k then parse_time (py_str v) else time_field (JObj d) k')"
  by (simp add: time_field_def)

lemma written_lease_fresh:
  assumes "in_range now" "in_range expires" "now < expires"
    and "time_field l ''heartbeat_at'' = parse_time (iso now)" "time_field l ''expires_at'' = parse_time (iso expires)"
    and "declared_active l = Inr True"
  shows "lease_active l now = Inr True \<and> lease_freshness_errors l now t = Inr []"
  using assms
  by (simp add: lease_active_def lease_freshness_errors_def expiry_errors_def heartbeat_errors_def
      utc.parse_print flagE_def max_def)

lemma clamp_ttl_bounds: "1 \<le> clamp_ttl m" "clamp_ttl m \<le> 240"
  by (simp_all add: clamp_ttl_def)

lemma minutes_pos: "0 < m \<Longrightarrow> now < now + minutes m"
  by (simp add: minutes_def)

lemma new_lease_fresh:
  assumes "in_range now" "in_range expires" "now < expires"
  shows "lease_active (JObj (new_lease q uuid rm key domains now expires)) now = Inr True
    \<and> lease_freshness_errors (JObj (new_lease q uuid rm key domains now expires)) now t = Inr []"
proof -
  let ?l = "JObj (new_lease q uuid rm key domains now expires)"
  have "time_field ?l ''heartbeat_at'' = parse_time (iso now)" "time_field ?l ''expires_at'' = parse_time (iso expires)"
    by (simp_all add: time_field_def new_lease_def)
  moreover have "declared_active ?l = Inr True"
    by (simp add: declared_active_def new_lease_def)
  ultimately show ?thesis using written_lease_fresh assms by blast
qed

text \<open>The guards of a claim, read backwards.\<close>

lemma claim_guards_facts:
  assumes "claim_guards q issues issue ls now = Inr rm"
  shows "invalid_declared_active_leases ls now DEFAULT_HEARTBEAT_TIMEOUT_MINUTES = Inr []
    \<and> (\<exists>current. active_leases ls now = Inr current \<and> (cl_one_active_writer q \<longrightarrow> current = [])
         \<and> any_has ''issue_id'' (cl_issue_id q) current = Inr False)
    \<and> conflict_domains issue ls now = Inr [] \<and> getE issue ''state'' = Inr (JStr ''READY'')
    \<and> getE issue ''dependencies_resolved'' = Inr (JBool True) \<and> cl_permission_allowed q
    \<and> getE issue ''human_required'' = Inr (JBool False) \<and> getE issue ''autonomy_allowed'' = Inr (JBool True)
    \<and> ready_errors issue now (cl_max_ready_age_days q) = Inr () \<and> sha40 (strip (cl_base_sha q))"
  using assms unfolding claim_guards_def by (elim bindE_InrE) auto

lemma claim_shape:
  assumes "claim queue q uuid now = Inr (queue', lease)"
  obtains issues issue ls rm key domains where
    "iterE (dget_or queue ''issues'' (JList [])) = Inr issues"
    "filterE (has_text ''id'' (cl_issue_id q)) issues = Inr [issue]"
    "dget_or queue ''leases'' (JList []) = JList ls"
    "claim_guards q issues issue ls now = Inr rm"
    "in_range (now + minutes (clamp_ttl (cl_ttl_minutes q)))"
    "lease = new_lease q uuid rm key domains now (now + minutes (clamp_ttl (cl_ttl_minutes q)))"
    "queue' = dput ''issues'' (JList (update_where (\<lambda>v. has_text ''id'' (cl_issue_id q) v = Inr True)
        (claimed_issue q uuid key now (now + minutes (clamp_ttl (cl_ttl_minutes q)))) issues))
        (dput ''leases'' (JList (ls @ [JObj lease])) queue)"
    "iterE (dget_or (dict_of issue) ''conflict_domains'' (JList [])) = Inr domains"
proof -
  from assms obtain issues matches st ls rm a b domains where *:
    "iterE (dget_or queue ''issues'' (JList [])) = Inr issues"
    "filterE (has_text ''id'' (cl_issue_id q)) issues = Inr matches" "length matches = 1"
    "dget_or queue ''leases'' (JList []) = st" "iterE st = Inr ls" "is_list st"
    "claim_guards q issues (hd matches) ls now = Inr rm"
    "in_range (now + minutes (clamp_ttl (cl_ttl_minutes q)))"
    "iterE (dget_or (dict_of (hd matches)) ''conflict_domains'' (JList [])) = Inr domains"
    "lease = new_lease q uuid rm (a @ ''-issue-'' @ b) domains now (now + minutes (clamp_ttl (cl_ttl_minutes q)))"
    "queue' = dput ''issues'' (JList (update_where (\<lambda>v. has_text ''id'' (cl_issue_id q) v = Inr True)
        (claimed_issue q uuid (a @ ''-issue-'' @ b) now (now + minutes (clamp_ttl (cl_ttl_minutes q)))) issues))
        (dput ''leases'' (JList (ls @ [JObj lease])) queue)"
    unfolding claim_def Let_def by (elim bindE_InrE) (auto elim!: bindE_InrE split: if_split_asm)
  have "matches = [hd matches]" using *(3) by (cases matches) auto
  moreover have "dget_or queue ''leases'' (JList []) = JList ls" using *(4-6) by (auto simp: is_list_iff)
  ultimately show thesis using that [of issues "hd matches" ls rm] * by simp
qed

lemma active_append_one:
  assumes "active_leases ls now = Inr xs" "lease_active l now = Inr True"
  shows "active_leases (ls @ [l]) now = Inr (xs @ [l])"
  using assms by (simp add: active_leases_def filterE_append)

lemma claim_active:
  assumes "claim queue q uuid now = Inr (queue', lease)" "in_range now"
  shows "\<exists>ls current. dget_or queue ''leases'' (JList []) = JList ls \<and> active_leases ls now = Inr current
    \<and> (cl_one_active_writer q \<longrightarrow> current = [])
    \<and> dget queue' ''leases'' = JList (ls @ [JObj lease])
    \<and> active_leases (ls @ [JObj lease]) now = Inr (current @ [JObj lease])
    \<and> invalid_declared_active_leases (ls @ [JObj lease]) now DEFAULT_HEARTBEAT_TIMEOUT_MINUTES = Inr []"
  using assms(1)
proof (cases rule: claim_shape)
  case (1 issues issue ls rm key domains)
  let ?e = "now + minutes (clamp_ttl (cl_ttl_minutes q))"
  have "now < ?e" using clamp_ttl_bounds(1) [of "cl_ttl_minutes q"] by (intro minutes_pos) simp
  note f = new_lease_fresh [OF assms(2) 1(5) this, of q uuid rm key domains DEFAULT_HEARTBEAT_TIMEOUT_MINUTES]
  note g = claim_guards_facts [OF 1(4)]
  have "declared_but_stale now DEFAULT_HEARTBEAT_TIMEOUT_MINUTES (JObj lease) = Inr False"
    using f by (simp add: declared_but_stale_def lease_fresh_def 1(6) declared_active_def new_lease_def)
  then have "invalid_declared_active_leases (ls @ [JObj lease]) now DEFAULT_HEARTBEAT_TIMEOUT_MINUTES = Inr []"
    using g by (simp add: invalid_declared_active_leases_def filterE_append)
  then show ?thesis using g f 1(3) active_append_one by (fastforce simp: 1(6,7))
qed

text \<open>No busy domain: no active lease names one that equals a domain of the issue.\<close>

lemma sortedE_Nil: "sortedE xs = Inr [] \<Longrightarrow> xs = []"
  by (auto simp: sortedE_def split: if_split_asm) (metis length_0_conv length_sort list.size(3))+

lemma no_busy_domain:
  assumes "conflict_domains issue ls now = Inr []"
  shows "\<exists>i domains. issue = JObj i \<and> iterE (dget_or i ''conflict_domains'' (JList [])) = Inr domains
    \<and> (\<forall>l \<in> set ls. lease_active l now = Inr True \<longrightarrow>
         (\<exists>e others. l = JObj e \<and> iterE (dget_or e ''conflict_domains'' (JList [])) = Inr others \<and> (\<forall>x \<in> set domains. \<forall>y \<in> set others. \<not> py_eq x y)))"
proof -
  from assms obtain v domains act xss where c: "getOrE issue ''conflict_domains'' (JList []) = Inr v" "hash_listE v = Inr domains"
    "active_leases ls now = Inr act" "mapE (lease_domains domains) act = Inr xss" "sortedE (uniq (concat xss)) = Inr []"
    unfolding conflict_domains_def by (elim bindE_InrE)
  have free: "ys = []" if "ys \<in> set xss" for ys using sortedE_Nil [OF c(5)] that by simp
  obtain i where i: "issue = JObj i" "v = dget_or i ''conflict_domains'' (JList [])" using c(1) by (cases issue) auto
  have d: "iterE v = Inr domains" using c(2) by (auto simp: hash_listE_def bindE_eq_Inr split: if_split_asm)
  have "\<exists>e others. l = JObj e \<and> iterE (dget_or e ''conflict_domains'' (JList [])) = Inr others \<and> (\<forall>x \<in> set domains. \<forall>y \<in> set others. \<not> py_eq x y)"
    if l: "l \<in> set ls" "lease_active l now = Inr True" for l
  proof -
    have "l \<in> set act" using c(3) l by (auto simp: active_leases_def filterE_eq_Inr)
    then obtain ys where ys: "lease_domains domains l = Inr ys" "ys \<in> set xss"
      using mapE_in [OF c(4)] by blast
    then obtain w others where w: "getOrE l ''conflict_domains'' (JList []) = Inr w" "hash_listE w = Inr others"
        "filter (\<lambda>d. list_ex (py_eq d) others) domains = []" using free [OF ys(2)] by (auto simp: lease_domains_def bindE_eq_Inr)
    then have "\<forall>x \<in> set domains. \<forall>y \<in> set others. \<not> py_eq x y" by (auto simp: filter_empty_conv list_ex_iff)
    moreover obtain e where "l = JObj e" "w = dget_or e ''conflict_domains'' (JList [])" using w(1) by (cases l) auto
    moreover have "iterE w = Inr others" using w(2) by (auto simp: hash_listE_def bindE_eq_Inr split: if_split_asm)
    ultimately show ?thesis by blast
  qed
  with i d show ?thesis by blast
qed

text \<open>
  C34. A claim is exclusive and live: when it succeeds, the lease it appends is active and fresh, no
  declared active lease is stale, and with one active writer it is the only active lease of the
  queue.  The lease is for the one issue of the queue with the claimed id, which was ready, and carries that issue's conflict domains; with
  or without that limit, no lease that was active shares one of them.
\<close>

theorem claim_is_exclusive:
  assumes "claim queue q uuid now = Inr (queue', lease)" "in_range now"
  shows "\<exists>ls. dget queue' ''leases'' = JList (ls @ [JObj lease]) \<and> dget_or queue ''leases'' (JList []) = JList ls
    \<and> lease_active (JObj lease) now = Inr True
    \<and> invalid_declared_active_leases (ls @ [JObj lease]) now DEFAULT_HEARTBEAT_TIMEOUT_MINUTES = Inr []
    \<and> (cl_one_active_writer q \<longrightarrow> active_leases (ls @ [JObj lease]) now = Inr [JObj lease])
    \<and> (\<exists>issues i domains. iterE (dget_or queue ''issues'' (JList [])) = Inr issues
         \<and> filter (\<lambda>x. \<exists>d. x = JObj d \<and> py_str (dget d ''id'') = cl_issue_id q) issues = [JObj i] \<and> dget i ''state'' = JStr ''READY''
         \<and> dget lease ''issue_id'' = JStr (cl_issue_id q)
         \<and> iterE (dget_or i ''conflict_domains'' (JList [])) = Inr domains \<and> dget lease ''conflict_domains'' = JList domains
         \<and> (\<forall>l \<in> set ls. lease_active l now = Inr True \<longrightarrow>
              (\<exists>e others. l = JObj e \<and> iterE (dget_or e ''conflict_domains'' (JList [])) = Inr others \<and> (\<forall>x \<in> set domains. \<forall>y \<in> set others. \<not> py_eq x y))))"
proof -
  obtain ls current where l: "dget_or queue ''leases'' (JList []) = JList ls" "active_leases ls now = Inr current"
    "cl_one_active_writer q \<longrightarrow> current = []" "dget queue' ''leases'' = JList (ls @ [JObj lease])"
    "active_leases (ls @ [JObj lease]) now = Inr (current @ [JObj lease])"
    "invalid_declared_active_leases (ls @ [JObj lease]) now DEFAULT_HEARTBEAT_TIMEOUT_MINUTES = Inr []"
    using claim_active [OF assms] by blast
  have a: "lease_active (JObj lease) now = Inr True"
    using l(2,5) by (auto simp: active_leases_def filterE_append elim!: bindE_InrE split: if_split_asm)
  have id: "(has_text ''id'' t x = Inr True) = (\<exists>d. x = JObj d \<and> py_str (dget d ''id'') = t)" for t x
    by (cases x) (auto simp: has_text_def text_field_def)
  from assms(1) show ?thesis
  proof (cases rule: claim_shape)
    case (1 issues issue ls' rm key domains)
    have one: "filter (\<lambda>x. \<exists>d. x = JObj d \<and> py_str (dget d ''id'') = cl_issue_id q) issues = [issue]"
      using 1(2) unfolding filterE_eq_Inr id by auto
    note g = claim_guards_facts [OF 1(4)]
    have ls: "ls' = ls" using 1(3) l(1) by simp
    from no_busy_domain [of issue ls' now] g obtain i domains' where i: "issue = JObj i" "iterE (dget_or i ''conflict_domains'' (JList [])) = Inr domains'"
      "\<forall>l \<in> set ls. lease_active l now = Inr True \<longrightarrow>
         (\<exists>e others. l = JObj e \<and> iterE (dget_or e ''conflict_domains'' (JList [])) = Inr others \<and> (\<forall>x \<in> set domains'. \<forall>y \<in> set others. \<not> py_eq x y))"
      unfolding ls by blast
    have "domains' = domains" using i(1,2) 1(8) by simp
    moreover have "dget lease ''conflict_domains'' = JList domains" "dget lease ''issue_id'' = JStr (cl_issue_id q)"
      by (simp_all add: 1(6) new_lease_def)
    moreover have "dget i ''state'' = JStr ''READY''" using g by (simp add: i(1))
    ultimately show ?thesis using 1(1) one i l a by auto
  qed
qed

definition ready_issue :: dict where
  "ready_issue = [(''id'', JStr ''7''), (''state'', JStr ''READY''), (''dependencies_resolved'', JBool True),
     (''human_required'', JBool False), (''autonomy_allowed'', JBool True), (''roadmap_id'', JStr ''ADWF-1''),
     (''ready_since'', JStr ''2026-01-01T00:00:00Z''), (''conflict_domains'', JList [JStr ''core''])]"

definition sample_claim :: claim_request where
  "sample_claim = \<lparr>cl_issue_id = ''7'', cl_worker_id = ''worker-1'', cl_base_sha = replicate 40 (CHR ''a''),
     cl_ttl_minutes = 120, cl_one_active_writer = True, cl_permission_allowed = True, cl_max_ready_age_days = 30\<rparr>"

definition claim_time :: int where "claim_time = 63903081600000000"

lemma ready_time: "parse_time ''2026-01-01T00:00:00Z'' = Inr 63902822400000000" by code_simp

lemma sample_claimed: "\<exists>lease queue'. claim [(''issues'', JList [JObj ready_issue])] sample_claim ''u-1'' claim_time
   = Inr (queue', lease)"
proof -
  let ?q = "[(''issues'', JList [JObj ready_issue])]"
  have h: "sha40 (strip (replicate 40 (CHR ''a'')))"
    by (simp add: strip_def is_space_def hex_n_def is_hex_def list_all_iff)
  have s: "slug ''ADWF-1'' = Inr ''adwf-1''" "slug ''7'' = Inr ''7''" by code_simp+
  have r: "in_range (63903081600000000 + minutes (clamp_ttl 120))" by code_simp
  have w: "strip ''worker-1'' \<noteq> []" by code_simp
  show ?thesis
    using h w by (simp add: claim_def claim_guards_def ready_issue_def sample_claim_def has_text_def text_field_def
        invalid_declared_active_leases_def active_leases_def ready_errors_def time_field_def ready_time
        any_has_def conflict_domains_def hash_listE_def sortedE_def s r Let_def guard_def claim_time_def)
qed


lemma claim_is_exclusive_witness:
  "\<exists>queue' lease. claim [(''issues'', JList [JObj ready_issue])] sample_claim ''u-1'' claim_time = Inr (queue', lease)
     \<and> active_leases (list_of (dget queue' ''leases'')) claim_time = Inr [JObj lease]"
proof -
  obtain lease queue' where c: "claim [(''issues'', JList [JObj ready_issue])] sample_claim ''u-1'' claim_time
      = Inr (queue', lease)" using sample_claimed by blast
  have "in_range claim_time" by code_simp
  from claim_is_exclusive [OF c this] have "active_leases (list_of (dget queue' ''leases'')) claim_time = Inr [JObj lease]"
    by (auto simp: sample_claim_def)
  with c show ?thesis by blast
qed

text \<open>
  A heartbeat never revives a lease: it is accepted only from the lease's own worker and only
  while the lease is active, unexpired and recently heard of, and then the renewed lease is fresh,
  expires at most 240 minutes ahead, and differs from the old one in its two times only.
\<close>

theorem heartbeat_never_revives:
  assumes "heartbeat l worker now ttl = Inr l'" "in_range now"
  shows "lease_freshness_errors l now DEFAULT_HEARTBEAT_TIMEOUT_MINUTES = Inr []
    \<and> getE l ''worker_id'' = Inr (JStr worker)
    \<and> lease_active (JObj l') now = Inr True
    \<and> lease_freshness_errors (JObj l') now DEFAULT_HEARTBEAT_TIMEOUT_MINUTES = Inr []
    \<and> (\<exists>e. time_field (JObj l') ''expires_at'' = Inr e \<and> now < e \<and> e \<le> now + minutes 240)
    \<and> (\<forall>k. k \<notin> {''heartbeat_at'', ''expires_at''} \<longrightarrow> dget l' k = dget (dict_of l) k)"
proof -
  let ?e = "now + minutes (clamp_ttl ttl)"
  from assms(1) have f: "lease_freshness_errors l now DEFAULT_HEARTBEAT_TIMEOUT_MINUTES = Inr []"
    "getE l ''worker_id'' = Inr (JStr worker)" "in_range ?e"
    "l' = dput ''expires_at'' (JStr (iso ?e)) (dput ''heartbeat_at'' (JStr (iso now)) (dict_of l))"
    unfolding heartbeat_def Let_def by (auto elim!: bindE_InrE split: if_split_asm)
  have e: "now < ?e" "?e \<le> now + minutes 240"
    using clamp_ttl_bounds [of ttl] by (simp_all add: minutes_def)
  have d: "declared_active l = Inr True"
    using f(1) by (auto simp: lease_freshness_errors_def elim!: bindE_InrE)
  have "declared_active (JObj l') = declared_active l"
    using f(2) by (auto simp: f(4) declared_active_def getE_Inr)
  then have n: "lease_active (JObj l') now = Inr True
      \<and> lease_freshness_errors (JObj l') now DEFAULT_HEARTBEAT_TIMEOUT_MINUTES = Inr []"
    using d by (intro written_lease_fresh [OF assms(2) f(3) e(1)]) (simp_all add: f(4))
  have "time_field (JObj l') ''expires_at'' = Inr ?e"
    by (simp add: f(3,4) utc.parse_print)
  then show ?thesis using f(1,2) n e by (auto simp: f(4))
qed

definition live_lease :: dict where
  "live_lease = [(''worker_id'', JStr ''worker-1''), (''status'', ACTIVE),
     (''heartbeat_at'', JStr ''2026-01-01T00:00:00Z''), (''expires_at'', JStr ''2026-01-01T02:00:00Z'')]"

lemma live_expiry: "parse_time ''2026-01-01T02:00:00Z'' = Inr 63902829600000000" by code_simp

lemma heartbeat_never_revives_witness:
  "\<exists>l'. heartbeat (JObj live_lease) ''worker-1'' 63902822460000000 120 = Inr l'
     \<and> lease_active (JObj l') 63902822460000000 = Inr True"
proof -
  have r: "in_range 63902822460000000" "in_range (63902822460000000 + minutes (clamp_ttl 120))" by code_simp+
  have "\<exists>l'. heartbeat (JObj live_lease) ''worker-1'' 63902822460000000 120 = Inr l'"
    using r(2) by (simp add: heartbeat_def lease_freshness_errors_def declared_active_def live_lease_def expiry_errors_def
        heartbeat_errors_def time_field_def ready_time live_expiry flagE_def DEFAULT_HEARTBEAT_TIMEOUT_MINUTES_def Let_def)
  then show ?thesis using heartbeat_never_revives r(1) by blast
qed


definition expire :: "int \<Rightarrow> json \<Rightarrow> json" where
  "expire now l = (if declared_but_stale now DEFAULT_HEARTBEAT_TIMEOUT_MINUTES l = Inr True
     then JObj (dput ''status'' (JStr ''EXPIRED'') (dict_of l)) else l)"

lemma expire_not_stale:
  assumes "declared_but_stale now DEFAULT_HEARTBEAT_TIMEOUT_MINUTES l = Inr b"
  shows "declared_but_stale now DEFAULT_HEARTBEAT_TIMEOUT_MINUTES (expire now l) = Inr False"
  using assms by (cases b) (auto simp: expire_def declared_but_stale_def declared_active_def ACTIVE_def)

lemma sweep_leases:
  assumes "foldE (sweep_lease now) ls s = Inr s'"
  shows "sw_leases s' = sw_leases s @ map (expire now) ls
    \<and> (\<forall>l \<in> set ls. \<exists>b. declared_but_stale now DEFAULT_HEARTBEAT_TIMEOUT_MINUTES l = Inr b)"
  using assms
proof (induction ls arbitrary: s)
  case (Cons l ls)
  from Cons.prems obtain t where t: "sweep_lease now l s = Inr t" "foldE (sweep_lease now) ls t = Inr s'"
    by (auto elim!: bindE_InrE)
  have "sw_leases t = sw_leases s @ [expire now l]
      \<and> (\<exists>b. declared_but_stale now DEFAULT_HEARTBEAT_TIMEOUT_MINUTES l = Inr b)"
    using t(1) by (auto simp: sweep_lease_def expire_def Let_def elim!: bindE_InrE split: if_split_asm)
  then show ?case using Cons.IH [OF t(2)] by auto
qed simp

lemma sweep_idle:
  assumes "\<forall>l \<in> set ls. declared_but_stale now DEFAULT_HEARTBEAT_TIMEOUT_MINUTES l = Inr False"
  shows "foldE (sweep_lease now) ls s = Inr (s\<lparr>sw_leases := sw_leases s @ ls\<rparr>)"
  using assms by (induction ls arbitrary: s) (simp_all add: sweep_lease_def)

lemma put_list_same: "dget d k = JList xs \<Longrightarrow> put_list k xs d = d"
  by (auto simp: put_list_def dput_def dget_def update_triv split: option.splits)

lemma put_list_not_list: "\<not> is_list (dget d k) \<Longrightarrow> put_list k xs d = d"
  by (simp add: put_list_def)

lemma dget_put_list: "dget (put_list k xs d) k' = (if k' = k \<and> is_list (dget d k) then JList xs else dget d k')"
  by (simp add: put_list_def)

lemma dget_or_dget: "dget_or d k v = (if dhas d k then dget d k else v)"
  by (auto simp: dget_or_def dget_def dhas_def split: option.splits)

lemma dhas_put_list: "dhas (put_list k xs d) k' = dhas d k'"
  by (auto simp: put_list_def dhas_def dget_def map_of_dput split: option.splits)

text \<open>
  Reconciliation retires exactly the stale leases: every lease keeps its place and its content,
  except that one declared active and no longer fresh becomes EXPIRED; afterwards no declared
  active lease is stale, so a claim is no longer refused for reconciliation, and reconciling again
  changes nothing.
\<close>

theorem reconcile_retires_stale_leases:
  assumes "reconcile queue now = Inr (queue', ids)" "dget queue ''leases'' = JList ls"
  shows "dget queue' ''leases'' = JList (map (expire now) ls)
    \<and> invalid_declared_active_leases (map (expire now) ls) now DEFAULT_HEARTBEAT_TIMEOUT_MINUTES = Inr []
    \<and> reconcile queue' now = Inr (queue', [])"
proof -
  have has: "dhas queue ''leases''" using assms(2) by (auto simp: dget_def dhas_def split: option.splits)
  obtain issues s where s: "foldE (sweep_lease now) ls \<lparr>sw_leases = [], sw_issues = issues, sw_expired = []\<rparr> = Inr s"
    "queue' = put_list ''issues'' (sw_issues s) (put_list ''leases'' (sw_leases s) queue)"
    using assms has by (auto simp: reconcile_def dget_or_dget elim!: bindE_InrE)
  have l: "sw_leases s = map (expire now) ls"
    and b: "\<forall>l \<in> set ls. \<exists>b. declared_but_stale now DEFAULT_HEARTBEAT_TIMEOUT_MINUTES l = Inr b"
    using sweep_leases [OF s(1)] by simp_all
  have n: "\<forall>l \<in> set (map (expire now) ls). declared_but_stale now DEFAULT_HEARTBEAT_TIMEOUT_MINUTES l = Inr False"
    using b expire_not_stale by auto
  then have i: "invalid_declared_active_leases (map (expire now) ls) now DEFAULT_HEARTBEAT_TIMEOUT_MINUTES = Inr []"
    by (auto simp: invalid_declared_active_leases_def filterE_eq_Inr)
  have d: "dget queue' ''leases'' = JList (map (expire now) ls)" "dhas queue' ''leases''"
    using assms(2) has by (simp_all add: s(2) l dget_put_list dhas_put_list)
  have same: "put_list ''issues'' xs queue' = queue'" if "iterE (dget_or queue' ''issues'' (JList [])) = Inr xs
      \<or> \<not> (\<exists>ys. iterE (dget_or queue' ''issues'' (JList [])) = Inr ys)" for xs
    using that by (cases "dget queue' ''issues''")
      (auto simp: put_list_not_list put_list_same dget_or_dget dget_def dhas_def split: if_split_asm option.splits)
  have "reconcile queue' now = Inr (queue', [])"
  proof (cases "iterE (dget_or queue' ''issues'' (JList []))")
    case (Inl e)
    then show ?thesis
      using d sweep_idle [OF n] i same [of "[]"]
      by (simp add: reconcile_def dget_or_dget put_list_same)
  next
    case (Inr xs)
    then show ?thesis
      using d sweep_idle [OF n] i same [of xs]
      by (simp add: reconcile_def dget_or_dget put_list_same)
  qed
  then show ?thesis using i d by blast
qed

lemma reconcile_retires_stale_leases_witness:
  "\<exists>queue'. reconcile [(''leases'', JList [JObj live_lease])] 63902829600000001 = Inr (queue', [''UNKNOWN''])
     \<and> reconcile queue' 63902829600000001 = Inr (queue', [])"
proof -
  let ?q = "[(''leases'', JList [JObj live_lease])]"
  have "\<exists>queue'. reconcile ?q 63902829600000001 = Inr (queue', [''UNKNOWN''])"
    by (simp add: reconcile_def sweep_lease_def declared_but_stale_def lease_fresh_def lease_freshness_errors_def
        declared_active_def live_lease_def expiry_errors_def heartbeat_errors_def time_field_def ready_time live_expiry
        flagE_def DEFAULT_HEARTBEAT_TIMEOUT_MINUTES_def Let_def)
  then show ?thesis using reconcile_retires_stale_leases [of ?q _ _ _ "[JObj live_lease]"] by fastforce
qed


definition name_char :: "char \<Rightarrow> bool" where
  "name_char c = (slug_char c \<or> c = CHR ''-'')"

lemma hyphenate_chars: "list_all name_char (hyphenate b s)"
  by (induction b s rule: hyphenate.induct) (auto simp: name_char_def)

lemma list_all_dropWhile: "list_all p xs \<Longrightarrow> list_all p (dropWhile q xs)"
  by (auto simp: list_all_iff dest: set_dropWhileD)

lemma list_all_take: "list_all p xs \<Longrightarrow> list_all p (take n xs)"
  by (auto simp: list_all_iff dest: in_set_takeD)

lemma strip_hyphens_chars: "list_all name_char s \<Longrightarrow> list_all name_char (strip_hyphens s)"
  by (simp add: strip_hyphens_def list_all_dropWhile)

lemma slug_safe:
  assumes "slug v = Inr s"
  shows "list_all name_char s \<and> s \<noteq> [] \<and> length s \<le> 48"
proof -
  let ?n = "strip_hyphens (hyphenate False (lower v))"
  have s: "s = take 48 ?n" "?n \<noteq> []"
    using assms by (simp_all add: slug_def Let_def split: if_split_asm)
  have "list_all name_char ?n" by (rule strip_hyphens_chars) (rule hyphenate_chars)
  then show ?thesis using s by (simp add: list_all_take)
qed

text \<open>
  A claim never names a workspace outside its directory: the path it records is the workspace
  directory followed by one name of lower-case letters, digits and hyphens, at most 103 of them.
\<close>

theorem workspace_path_is_confined:
  assumes "claim queue q uuid now = Inr (queue', lease)"
  shows "\<exists>key. dget lease ''workspace_path'' = JStr (''.adwf-runtime/workspaces/'' @ key)
    \<and> dget lease ''branch'' = JStr (''adwf/'' @ key) \<and> key \<noteq> [] \<and> length key \<le> 103 \<and> list_all name_char key"
proof -
  obtain a b rm domains e where s: "slug rm = Inr a" "slug (cl_issue_id q) = Inr b"
    "lease = new_lease q uuid rm (a @ ''-issue-'' @ b) domains now e"
    using assms unfolding claim_def Let_def by (elim bindE_InrE) (auto elim!: bindE_InrE split: if_split_asm)
  have "list_all name_char ''-issue-''" by code_simp
  then show ?thesis using slug_safe [OF s(1)] slug_safe [OF s(2)]
    by (intro exI [of _ "a @ ''-issue-'' @ b"]) (simp add: s(3) new_lease_def)
qed

lemma workspace_path_is_confined_witness:
  "\<exists>queue' lease. claim [(''issues'', JList [JObj ready_issue])] sample_claim ''u-1'' claim_time = Inr (queue', lease)
     \<and> (\<exists>key. dget lease ''branch'' = JStr (''adwf/'' @ key) \<and> list_all name_char key)"
proof -
  obtain lease queue' where c: "claim [(''issues'', JList [JObj ready_issue])] sample_claim ''u-1'' claim_time
      = Inr (queue', lease)" using sample_claimed by blast
  from workspace_path_is_confined [OF c] c show ?thesis by blast
qed

end
