(* ===== verification/LeaseRegistry.thy ===== *)
theory LeaseRegistry
  imports Leases "HOL-Library.Sublist"
begin

text \<open>
  The writer lease registry (\<open>.adwf/lib/lease_registry.py\<close>): conflict resources and their
  collisions, the strict validator of a registry, and the operations that acquire, renew and release
  a lease.  A registry is the value a provider read back, so the validator works on values of
  unknown type; the arguments of the operations have the types their callers give them.
\<close>

section \<open>Shapes\<close>

definition LEASE_REGISTRY_SCHEMA :: string where
  "LEASE_REGISTRY_SCHEMA = ''.adwf/schemas/writer-lease-registry.schema.json''"

definition LEASE_RESOURCE_KINDS :: "string list" where
  "LEASE_RESOURCE_KINDS = [''source'', ''projection'', ''runtime'', ''data'', ''provider'', ''release'', ''governance'']"

definition LEASE_REGISTRY_STATUSES :: "string list" where
  "LEASE_REGISTRY_STATUSES = [''ACTIVE'', ''RELEASED'']"

definition scope_char :: "char \<Rightarrow> bool" where
  "scope_char c = (is_alnum c \<or> c \<in> set ''_.:@+-'')"

definition safe_char :: "char \<Rightarrow> bool" where
  "safe_char c = (scope_char c \<or> c \<in> set ''/#'')"

definition branch_char :: "char \<Rightarrow> bool" where
  "branch_char c = (is_alnum c \<or> c \<in> set ''._/+-'')"

text \<open>Segments of scope characters between slashes.\<close>

definition scope_shape :: "string \<Rightarrow> bool" where
  "scope_shape s = list_all (\<lambda>p. p \<noteq> [] \<and> list_all scope_char p) (split_on (CHR ''/'') s)"

definition safe_id :: "nat \<Rightarrow> string \<Rightarrow> bool" where
  "safe_id n s = (1 \<le> length s \<and> length s \<le> n \<and> list_all safe_char s)"

definition roadmap_shape :: "string \<Rightarrow> bool" where
  "roadmap_shape s = (case split_on (CHR ''-'') s of
     [a, b] \<Rightarrow> a \<noteq> [] \<and> is_AZ (hd a) \<and> list_all (\<lambda>c. is_AZ c \<or> is_digit c \<or> c = CHR ''_'') a
       \<and> b \<noteq> [] \<and> list_all is_digit b
   | _ \<Rightarrow> False)"

definition uuid_shape :: "string \<Rightarrow> bool" where
  "uuid_shape s = (case split_on (CHR ''-'') s of
     [a, b, c, d, e] \<Rightarrow> hex_n 8 a \<and> hex_n 4 b \<and> hex_n 4 c \<and> hex_n 4 d \<and> hex_n 12 e
       \<and> hd c \<in> set ''12345'' \<and> hd d \<in> set ''89ab''
   | _ \<Rightarrow> False)"

definition repository_shape :: "string \<Rightarrow> bool" where
  "repository_shape s = (case split_on (CHR ''/'') s of
     [a, b] \<Rightarrow> a \<noteq> [] \<and> b \<noteq> [] \<and> list_all (\<lambda>c. \<not> is_space c) (a @ b) | _ \<Rightarrow> False)"

definition digits_shape :: "string \<Rightarrow> bool" where
  "digits_shape s = (s \<noteq> [] \<and> list_all is_digit s)"

definition branch_shape :: "string \<Rightarrow> bool" where
  "branch_shape s = (s \<noteq> [] \<and> is_alnum (hd s) \<and> length s \<le> 240 \<and> list_all branch_char s
     \<and> \<not> contains s ''..'' \<and> \<not> contains s ''//'' \<and> \<not> contains s [CHR ''@'', CHR ''{''] \<and> \<not> ends_with s ''/'')"

definition str_shape :: "(string \<Rightarrow> bool) \<Rightarrow> json \<Rightarrow> bool" where
  "str_shape p v = (case v of JStr s \<Rightarrow> p s | _ \<Rightarrow> False)"

section \<open>Conflict resources\<close>

record resource =
  rs_kind :: string
  rs_scope :: string
  rs_shared :: bool
  rs_global :: bool

definition resource_json :: "resource \<Rightarrow> json" where
  "resource_json r = JObj [(''kind'', JStr (rs_kind r)), (''scope'', JStr (rs_scope r)),
     (''shared'', JBool (rs_shared r)), (''global'', JBool (rs_global r))]"

definition bool_of :: "json \<Rightarrow> bool" where
  "bool_of v = (v = JBool True)"

definition validate_conflict_resource :: "json \<Rightarrow> resource res" where
  "validate_conflict_resource v = (case v of JObj d \<Rightarrow>
     if \<not> keys_are d [''kind'', ''scope'', ''shared'', ''global''] then Inl (ValueError ''CONFLICT_RESOURCE_FIELDS_INVALID'')
     else (let kind = dget d ''kind''; scope = dget d ''scope''; shared = dget d ''shared''; glob = dget d ''global'' in
     bindE (in_set kind LEASE_RESOURCE_KINDS) (\<lambda>known.
     if \<not> known then Inl (ValueError ''CONFLICT_RESOURCE_KIND_INVALID'')
     else if \<not> is_str scope \<or> 240 < length (str_of scope) \<or> \<not> scope_shape (str_of scope)
       then Inl (ValueError ''CONFLICT_RESOURCE_SCOPE_INVALID'')
     else if list_ex (\<lambda>p. p \<in> {''.'', ''..''}) (split_on (CHR ''/'') (str_of scope))
       then Inl (ValueError ''CONFLICT_RESOURCE_SCOPE_AMBIGUOUS'')
     else if \<not> is_bool shared \<or> \<not> is_bool glob then Inl (ValueError ''CONFLICT_RESOURCE_FLAGS_INVALID'')
     else if bool_of glob \<and> str_of scope \<noteq> ''global'' then Inl (ValueError ''CONFLICT_RESOURCE_GLOBAL_SCOPE_INVALID'')
     else if bool_of glob \<and> \<not> bool_of shared then Inl (ValueError ''CONFLICT_RESOURCE_GLOBAL_MUST_BE_SHARED'')
     else if \<not> bool_of glob \<and> str_of scope = ''global'' then Inl (ValueError ''CONFLICT_RESOURCE_SCOPE_AMBIGUOUS'')
     else Inr \<lparr>rs_kind = str_of kind, rs_scope = str_of scope, rs_shared = bool_of shared, rs_global = bool_of glob\<rparr>))
   | _ \<Rightarrow> Inl (ValueError ''CONFLICT_RESOURCE_FIELDS_INVALID''))"

definition resource_key :: "resource \<Rightarrow> string \<times> string" where
  "resource_key r = (rs_kind r, rs_scope r)"

definition canonical_conflict_resources :: "json \<Rightarrow> resource list res" where
  "canonical_conflict_resources v = (if \<not> is_list v \<or> list_of v = [] then Inl (ValueError ''CONFLICT_RESOURCES_REQUIRED'')
     else bindE (mapE validate_conflict_resource (list_of v)) (\<lambda>rs.
       if \<not> distinct (map resource_key rs) then Inl (ValueError ''CONFLICT_RESOURCE_DUPLICATE'')
       else Inr (sort_key (\<lambda>r. (rs_kind r, rs_scope r, rs_shared r, rs_global r)) rs)))"

definition require_canonical_conflict_resources :: "json \<Rightarrow> resource list res" where
  "require_canonical_conflict_resources v = bindE (canonical_conflict_resources v) (\<lambda>rs.
     if \<not> py_eq (JList (map resource_json rs)) v then Inl (ValueError ''CONFLICT_RESOURCES_NOT_CANONICAL'') else Inr rs)"

definition scope_overlap :: "string \<Rightarrow> string \<Rightarrow> bool" where
  "scope_overlap l r = (l = r \<or> starts_with l (r @ ''/'') \<or> starts_with r (l @ ''/''))"

text \<open>The collision of two resources, if any.\<close>

definition collision :: "resource \<Rightarrow> resource \<Rightarrow> string list" where
  "collision a b = (if rs_global a \<or> rs_global b then [''global:global'']
     else if rs_kind a \<noteq> rs_kind b then []
     else if scope_overlap (rs_scope a) (rs_scope b)
     then [rs_kind a @ '':'' @ (if length (rs_scope a) \<le> length (rs_scope b) then rs_scope a else rs_scope b)]
     else [])"

definition collisions :: "resource list \<Rightarrow> resource list \<Rightarrow> string list" where
  "collisions l r = sort (remdups (concat (map (\<lambda>a. concat (map (collision a) r)) l)))"

definition conflicting_resource_keys :: "json \<Rightarrow> json \<Rightarrow> string list res" where
  "conflicting_resource_keys l r = bindE (require_canonical_conflict_resources l) (\<lambda>ls.
     bindE (require_canonical_conflict_resources r) (\<lambda>rs. Inr (collisions ls rs)))"

section \<open>The validator\<close>

definition registry_digest :: "(string \<Rightarrow> string) \<Rightarrow> dict \<Rightarrow> string" where
  "registry_digest sha d = sha (canonical (JObj (ddel ''integrity_digest'' d)))"

definition registry_lease_freshness_errors :: "json \<Rightarrow> int \<Rightarrow> string list res" where
  "registry_lease_freshness_errors l now = catchE is_KTV
     (bindE (time_field l ''expires_at'') (\<lambda>e. bindE (time_field l ''heartbeat_at'') (\<lambda>h.
        Inr (flag (e \<le> now) ''LEASE_EXPIRED'' @
          (if now < h then [''LEASE_HEARTBEAT_IN_FUTURE'']
           else flag (DEFAULT_HEARTBEAT_TIMEOUT_MINUTES * 60 * 1000000 < now - h) ''LEASE_HEARTBEAT_STALE'')))))
     (\<lambda>_. Inr [''LEASE_TIME_INVALID''])"

definition LEASE_FIELDS :: "string list" where
  "LEASE_FIELDS = [''lease_id'', ''generation'', ''issue_id'', ''roadmap_id'', ''worker_id'', ''base_sha'',
     ''branch'', ''resources'', ''status'', ''claimed_at'', ''heartbeat_at'', ''expires_at'',
     ''released_at'', ''provider_reconciled_at'', ''provider_reconciliation_ref'']"

definition REGISTRY_FIELDS :: "string list" where
  "REGISTRY_FIELDS = [''$schema'', ''schema_version'', ''repository'', ''revision'', ''observed_main_sha'',
     ''max_parallel_writers'', ''leases'', ''integrity_digest'']"

definition RELEASE_FIELDS :: "string list" where
  "RELEASE_FIELDS = [''released_at'', ''provider_reconciled_at'', ''provider_reconciliation_ref'']"

definition get_time :: "dict \<Rightarrow> string \<Rightarrow> int res" where
  "get_time d k = parse_time (py_str (dget d k))"

text \<open>The times of a lease: findings made before a text fails to parse are kept.\<close>

definition release_time_findings :: "dict \<Rightarrow> string \<Rightarrow> int \<Rightarrow> string list res" where
  "release_time_findings d pre h = (if dget d ''status'' \<noteq> JStr ''RELEASED'' then Inr [] else
     catchE is_TV (bindE (get_time d ''released_at'') (\<lambda>r. bindE (get_time d ''provider_reconciled_at'') (\<lambda>p.
       flagE (r < h \<or> r < p) (pre @ ''_RELEASE_TIME_ORDER''))))
     (\<lambda>_. Inr [pre @ ''_TIME_INVALID'']))"

definition lease_time_findings :: "dict \<Rightarrow> string \<Rightarrow> string list res" where
  "lease_time_findings d pre = (case
     bindE (get_time d ''claimed_at'') (\<lambda>c. bindE (get_time d ''heartbeat_at'') (\<lambda>h.
       bindE (get_time d ''expires_at'') (\<lambda>e. Inr (c, h, e)))) of
     Inl x \<Rightarrow> if is_TV x then Inr [pre @ ''_TIME_INVALID''] else Inl x
   | Inr (c, h, e) \<Rightarrow> bindE (release_time_findings d pre h) (\<lambda>fs.
       Inr (flag (h < c \<or> e \<le> h) (pre @ ''_TIME_ORDER'') @ fs)))"

definition resource_findings :: "dict \<Rightarrow> string \<Rightarrow> string list res" where
  "resource_findings d pre = (case require_canonical_conflict_resources (dget d ''resources'') of
     Inr _ \<Rightarrow> Inr [] | Inl e \<Rightarrow> if is_ValueError e then Inr [pre @ ''_'' @ exn_text e] else Inl e)"

definition status_findings :: "dict \<Rightarrow> string \<Rightarrow> string list res" where
  "status_findings d pre = bindE (in_set (dget d ''status'') LEASE_REGISTRY_STATUSES) (\<lambda>known.
     Inr (flag (\<not> known) (pre @ ''_STATUS'') @
       flag (dget d ''status'' = JStr ''ACTIVE'' \<and> list_ex (\<lambda>k. dget d k \<noteq> JNull) RELEASE_FIELDS)
         (pre @ ''_ACTIVE_RELEASE_FIELDS'') @
       (if dget d ''status'' = JStr ''RELEASED''
        then concat (map (\<lambda>k. flag (\<not> is_str (dget d k) \<or> dget d k = JStr []) (pre @ ''_RELEASE_EVIDENCE'')) RELEASE_FIELDS)
        else [])))"

text \<open>The loop over the leases, with the identities and generations seen so far.\<close>

record scan =
  sc_ids :: "string list"
  sc_generations :: "int list"
  sc_active :: nat
  sc_findings :: "string list"

definition identity_findings :: "dict \<Rightarrow> string \<Rightarrow> string list" where
  "identity_findings d pre =
     flag (\<not> str_shape digits_shape (dget d ''issue_id'')) (pre @ ''_ISSUE_ID'') @
     flag (\<not> str_shape roadmap_shape (dget d ''roadmap_id'')) (pre @ ''_ROADMAP_ID'') @
     flag (\<not> str_shape (safe_id 240) (dget d ''worker_id'')) (pre @ ''_WORKER_ID'') @
     flag (\<not> str_shape branch_shape (dget d ''branch'')) (pre @ ''_BRANCH'') @
     flag (\<not> str_shape sha40 (dget d ''base_sha'')) (pre @ ''_BASE_SHA'')"

definition scan_lease :: "nat \<Rightarrow> json \<Rightarrow> scan \<Rightarrow> scan res" where
  "scan_lease i v s = (let pre = ''LEASE_'' @ nat_str i in case v of JObj d \<Rightarrow>
     if \<not> keys_are d LEASE_FIELDS then Inr (s\<lparr>sc_findings := sc_findings s @ [pre @ ''_FIELDS_INVALID'']\<rparr>)
     else (let lid = dget d ''lease_id''; gen = dget d ''generation'';
       id_ok = (str_shape uuid_shape lid \<and> str_of lid \<notin> set (sc_ids s));
       gen_ok = (strict_int gen \<and> 1 \<le> int_of gen \<and> int_of gen \<notin> set (sc_generations s)) in
     bindE (resource_findings d pre) (\<lambda>rf. bindE (status_findings d pre) (\<lambda>sf. bindE (lease_time_findings d pre) (\<lambda>tf.
       Inr \<lparr>sc_ids = (if id_ok then str_of lid # sc_ids s else sc_ids s),
            sc_generations = (if gen_ok then int_of gen # sc_generations s else sc_generations s),
            sc_active = sc_active s + (if dget d ''status'' = JStr ''ACTIVE'' then 1 else 0),
            sc_findings = sc_findings s @ flag (\<not> id_ok) (pre @ ''_ID'') @ flag (\<not> gen_ok) (pre @ ''_GENERATION'')
              @ identity_findings d pre @ rf @ sf @ tf\<rparr>))))
   | _ \<Rightarrow> Inr (s\<lparr>sc_findings := sc_findings s @ [pre @ ''_FIELDS_INVALID'']\<rparr>))"

primrec scan_leases :: "nat \<Rightarrow> json list \<Rightarrow> scan \<Rightarrow> scan res" where
  "scan_leases i [] s = Inr s"
| "scan_leases i (v # vs) s = bindE (scan_lease i v s) (scan_leases (Suc i) vs)"

text \<open>The pairwise checks of the active leases.\<close>

definition same_field :: "dict \<Rightarrow> dict \<Rightarrow> string \<Rightarrow> bool" where
  "same_field a b k = py_eq (dget a k) (dget b k)"

definition pair_findings :: "dict \<Rightarrow> dict \<Rightarrow> string list res" where
  "pair_findings a b = bindE (case conflicting_resource_keys (dget a ''resources'') (dget b ''resources'') of
       Inr ks \<Rightarrow> Inr (flag (ks \<noteq> []) ''LEASE_REGISTRY_ACTIVE_RESOURCE_CONFLICT'')
     | Inl e \<Rightarrow> if is_ValueError e then Inr [''LEASE_REGISTRY_ACTIVE_RESOURCE_INVALID''] else Inl e) (\<lambda>rf.
     Inr (flag (same_field a b ''issue_id'') ''LEASE_REGISTRY_ACTIVE_ISSUE_DUPLICATE'' @
       flag (same_field a b ''roadmap_id'') ''LEASE_REGISTRY_ACTIVE_ROADMAP_DUPLICATE'' @
       flag (same_field a b ''branch'') ''LEASE_REGISTRY_ACTIVE_BRANCH_DUPLICATE'' @ rf))"

primrec pairs_findings :: "dict list \<Rightarrow> string list res" where
  "pairs_findings [] = Inr []"
| "pairs_findings (a # as) = bindE (concatE (map (pair_findings a) as)) (\<lambda>fs. bindE (pairs_findings as) (\<lambda>gs. Inr (fs @ gs)))"

definition active_dicts :: "json list \<Rightarrow> dict list" where
  "active_dicts vs = filter (\<lambda>d. dget d ''status'' = JStr ''ACTIVE'') (map dict_of (filter is_dict vs))"

definition head_findings :: "dict \<Rightarrow> string list" where
  "head_findings d =
     flag (\<not> keys_are d REGISTRY_FIELDS) ''LEASE_REGISTRY_FIELDS_INVALID'' @
     flag (dget d ''$schema'' \<noteq> JStr LEASE_REGISTRY_SCHEMA) ''LEASE_REGISTRY_SCHEMA_REF'' @
     flag (\<not> py_eq (dget d ''schema_version'') (JInt 1)) ''LEASE_REGISTRY_SCHEMA_VERSION'' @
     flag (\<not> str_shape repository_shape (dget d ''repository'')) ''LEASE_REGISTRY_REPOSITORY'' @
     flag (\<not> strict_int (dget d ''revision'') \<or> int_of (dget d ''revision'') < 0) ''LEASE_REGISTRY_REVISION'' @
     flag (\<not> str_shape sha40 (dget d ''observed_main_sha'')) ''LEASE_REGISTRY_MAIN_SHA'' @
     flag (\<not> strict_int (dget d ''max_parallel_writers'')
        \<or> \<not> (1 \<le> int_of (dget d ''max_parallel_writers'') \<and> int_of (dget d ''max_parallel_writers'') \<le> 3))
       ''LEASE_REGISTRY_CEILING''"

definition validate_lease_registry :: "(string \<Rightarrow> string) \<Rightarrow> json \<Rightarrow> string list res" where
  "validate_lease_registry sha v = (case v of JObj d \<Rightarrow>
     (let bad = (\<not> is_list (dget d ''leases'') \<or> 200 < length (list_of (dget d ''leases'')));
          ls = (if bad then [] else list_of (dget d ''leases'')); ceiling = dget d ''max_parallel_writers'' in
      bindE (scan_leases 0 ls \<lparr>sc_ids = [], sc_generations = [], sc_active = 0, sc_findings = []\<rparr>) (\<lambda>s.
      bindE (pairs_findings (active_dicts ls)) (\<lambda>ps.
        Inr (uniq (head_findings d @ flag bad ''LEASE_REGISTRY_LEASES'' @ sc_findings s @
          flag (is_int ceiling \<and> int_of ceiling < int (sc_active s)) ''LEASE_REGISTRY_ACTIVE_CEILING_EXCEEDED'' @ ps @
          flag (dget d ''integrity_digest'' \<noteq> JStr (registry_digest sha d)) ''LEASE_REGISTRY_INTEGRITY'')))))
   | _ \<Rightarrow> Inr [''LEASE_REGISTRY_NOT_OBJECT''])"


section \<open>The operations\<close>

definition empty_lease_registry :: "(string \<Rightarrow> string) \<Rightarrow> string \<Rightarrow> string \<Rightarrow> int \<Rightarrow> dict res" where
  "empty_lease_registry sha repository main_sha maxw =
    (if \<not> repository_shape repository then Inl (ValueError ''LEASE_REGISTRY_REPOSITORY_INVALID'')
     else if \<not> sha40 main_sha then Inl (ValueError ''LEASE_REGISTRY_MAIN_SHA_INVALID'')
     else if \<not> (1 \<le> maxw \<and> maxw \<le> 3) then Inl (ValueError ''LEASE_REGISTRY_CEILING_INVALID'')
     else (let d = [(''$schema'', JStr LEASE_REGISTRY_SCHEMA), (''schema_version'', JInt 1),
         (''repository'', JStr repository), (''revision'', JInt 0), (''observed_main_sha'', JStr main_sha),
         (''max_parallel_writers'', JInt maxw), (''leases'', JList []), (''integrity_digest'', JStr [])]
       in Inr (dput ''integrity_digest'' (JStr (registry_digest sha d)) d)))"

definition reg_leases :: "dict \<Rightarrow> json list" where
  "reg_leases d = list_of (dget d ''leases'')"

definition reg_revision :: "dict \<Rightarrow> int" where
  "reg_revision d = int_of (dget d ''revision'')"

definition reg_active :: "dict \<Rightarrow> dict list" where
  "reg_active d = active_dicts (reg_leases d)"

definition validated_registry :: "(string \<Rightarrow> string) \<Rightarrow> json \<Rightarrow> dict res" where
  "validated_registry sha v = bindE (validate_lease_registry sha v) (\<lambda>fs.
     if fs \<noteq> [] then Inl (ValueError (''LEASE_REGISTRY_INVALID:'' @ join '','' fs)) else Inr (dict_of v))"

text \<open>
  The common end of the operations: the new leases, the next revision, the observed commit and the
  digest; the result is validated again before it is returned.
\<close>

definition commit_registry :: "(string \<Rightarrow> string) \<Rightarrow> string \<Rightarrow> dict \<Rightarrow> json list \<Rightarrow> string \<Rightarrow> dict res" where
  "commit_registry sha code d ls main_sha =
    (let d1 = dput ''observed_main_sha'' (JStr main_sha)
           (dput ''revision'' (JInt (reg_revision d + 1)) (dput ''leases'' (JList ls) d));
         d2 = dput ''integrity_digest'' (JStr (registry_digest sha d1)) d1
     in bindE (validate_lease_registry sha (JObj d2)) (\<lambda>fs.
       if fs \<noteq> [] then Inl (ValueError (code @ '':'' @ join '','' fs)) else Inr d2))"

record acquire_request =
  aq_revision :: int
  aq_main_sha :: string
  aq_ceiling :: int
  aq_issue_id :: string
  aq_roadmap_id :: string
  aq_worker_id :: string
  aq_base_sha :: string
  aq_branch :: string
  aq_resources :: json
  aq_ttl_minutes :: int
  aq_lease_id :: string

text \<open>The loop over the active leases; the first collision ends it.\<close>

fun exclude_active :: "acquire_request \<Rightarrow> json \<Rightarrow> dict list \<Rightarrow> unit res" where
  "exclude_active q resources [] = Inr ()"
| "exclude_active q resources (l # ls) =
    (if dget l ''issue_id'' = JStr (aq_issue_id q) then Inl (ValueError ''ISSUE_ALREADY_LEASED'')
     else if dget l ''roadmap_id'' = JStr (aq_roadmap_id q) then Inl (ValueError ''ROADMAP_ALREADY_LEASED'')
     else if dget l ''branch'' = JStr (aq_branch q) then Inl (ValueError ''BRANCH_ALREADY_LEASED'')
     else bindE (conflicting_resource_keys resources (dget l ''resources'')) (\<lambda>ks.
       if ks \<noteq> [] then Inl (ValueError ''CONFLICT_RESOURCE_BUSY'') else exclude_active q resources ls))"

definition any_stale :: "dict list \<Rightarrow> int \<Rightarrow> bool res" where
  "any_stale ls now = bindE (allE' (\<lambda>l. bindE (registry_lease_freshness_errors (JObj l) now) (\<lambda>es. Inr (es = []))) ls)
     (\<lambda>fresh. Inr (\<not> fresh))"

definition acquire_guards :: "dict \<Rightarrow> acquire_request \<Rightarrow> int \<Rightarrow> resource list res" where
  "acquire_guards d q now =
     bindE (guard (reg_revision d = aq_revision q) ''LEASE_REGISTRY_REVISION_CONFLICT'') (\<lambda>_.
     bindE (guard (sha40 (aq_main_sha q) \<and> sha40 (aq_base_sha q)) ''LEASE_SHA_INVALID'') (\<lambda>_.
     bindE (guard (dget d ''max_parallel_writers'' = JInt (aq_ceiling q)) ''LEASE_POLICY_CEILING_MISMATCH'') (\<lambda>_.
     bindE (guard (1 \<le> aq_ceiling q \<and> aq_ceiling q \<le> 3) ''LEASE_POLICY_CEILING_INVALID'') (\<lambda>_.
     bindE (require_canonical_conflict_resources (aq_resources q)) (\<lambda>rs.
     bindE (guard (dget d ''observed_main_sha'' = JStr (aq_main_sha q) \<or> reg_active d = []) ''LEASE_RECONCILIATION_REQUIRED'') (\<lambda>_.
     bindE (any_stale (reg_active d) now) (\<lambda>stale.
     bindE (guard (\<not> stale) ''LEASE_RECONCILIATION_REQUIRED'') (\<lambda>_.
     bindE (guard (int (length (reg_active d)) < aq_ceiling q) ''ACTIVE_WRITER_EXISTS'') (\<lambda>_.
     bindE (exclude_active q (JList (map resource_json rs)) (reg_active d)) (\<lambda>_.
     bindE (guard (digits_shape (aq_issue_id q)) ''LEASE_ISSUE_ID_INVALID'') (\<lambda>_.
     bindE (guard (roadmap_shape (aq_roadmap_id q)) ''LEASE_ROADMAP_ID_INVALID'') (\<lambda>_.
     bindE (guard (safe_id 240 (aq_worker_id q) \<and> branch_shape (aq_branch q)) ''LEASE_IDENTITY_INVALID'') (\<lambda>_.
       Inr rs)))))))))))))"

definition registry_lease :: "dict \<Rightarrow> acquire_request \<Rightarrow> string \<Rightarrow> resource list \<Rightarrow> int \<Rightarrow> int \<Rightarrow> dict" where
  "registry_lease d q lid rs now expires = [
     (''lease_id'', JStr lid), (''generation'', JInt (reg_revision d + 1)), (''issue_id'', JStr (aq_issue_id q)),
     (''roadmap_id'', JStr (aq_roadmap_id q)), (''worker_id'', JStr (aq_worker_id q)),
     (''base_sha'', JStr (aq_base_sha q)), (''branch'', JStr (aq_branch q)),
     (''resources'', JList (map resource_json rs)), (''status'', JStr ''ACTIVE''), (''claimed_at'', JStr (iso now)),
     (''heartbeat_at'', JStr (iso now)), (''expires_at'', JStr (iso expires)), (''released_at'', JNull),
     (''provider_reconciled_at'', JNull), (''provider_reconciliation_ref'', JNull)]"

definition bounded_ttl :: "int \<Rightarrow> int res" where
  "bounded_ttl m = (if 1 \<le> m \<and> m \<le> 240 then Inr m else Inl (ValueError ''LEASE_TTL_INVALID''))"

definition acquire_registry_lease ::
    "(string \<Rightarrow> string) \<Rightarrow> json \<Rightarrow> acquire_request \<Rightarrow> string \<Rightarrow> int \<Rightarrow> (dict \<times> dict) res" where
  "acquire_registry_lease sha registry q uuid now = bindE (validated_registry sha registry) (\<lambda>d.
     bindE (acquire_guards d q now) (\<lambda>rs.
     (let lid = (if aq_lease_id q = [] then uuid else aq_lease_id q) in
     bindE (guard (uuid_shape lid \<and> list_all (\<lambda>l. dget (dict_of l) ''lease_id'' \<noteq> JStr lid) (reg_leases d))
        ''LEASE_ID_INVALID'') (\<lambda>_.
     bindE (guard (length (reg_leases d) < 200) ''LEASE_REGISTRY_RETENTION_REQUIRED'') (\<lambda>_.
     bindE (bounded_ttl (aq_ttl_minutes q)) (\<lambda>ttl.
     (let expires = now + minutes ttl in if \<not> in_range expires then Inl OverflowError else
     (let lease = registry_lease d q lid rs now expires in
      bindE (commit_registry sha ''LEASE_REGISTRY_INVALID_AFTER_ACQUIRE'' d (reg_leases d @ [JObj lease]) (aq_main_sha q))
        (\<lambda>d'. Inr (d', lease))))))))))"

text \<open>The lease of an operation: exactly one with the id, active, of the worker.\<close>

definition with_id :: "string \<Rightarrow> json \<Rightarrow> bool" where
  "with_id lid v = (dget (dict_of v) ''lease_id'' = JStr lid)"

definition find_lease :: "dict \<Rightarrow> string \<Rightarrow> string \<Rightarrow> dict res" where
  "find_lease d lid worker = (case filter (with_id lid) (reg_leases d) of
     [v] \<Rightarrow> if dget (dict_of v) ''status'' \<noteq> JStr ''ACTIVE'' then Inl (ValueError ''LEASE_NOT_ACTIVE'')
        else if dget (dict_of v) ''worker_id'' \<noteq> JStr worker then Inl (ValueError ''LEASE_OWNER_MISMATCH'')
        else Inr (dict_of v)
   | _ \<Rightarrow> Inl (ValueError ''LEASE_NOT_ACTIVE''))"

definition heartbeat_registry_lease ::
    "(string \<Rightarrow> string) \<Rightarrow> json \<Rightarrow> int \<Rightarrow> string \<Rightarrow> string \<Rightarrow> string \<Rightarrow> int \<Rightarrow> int \<Rightarrow> dict res" where
  "heartbeat_registry_lease sha registry expected lid worker main_sha ttl now =
     bindE (validated_registry sha registry) (\<lambda>d.
     bindE (guard (reg_revision d = expected) ''LEASE_REGISTRY_REVISION_CONFLICT'') (\<lambda>_.
     bindE (find_lease d lid worker) (\<lambda>l.
     bindE (guard (dget d ''observed_main_sha'' = JStr main_sha) ''LEASE_RECONCILIATION_REQUIRED'') (\<lambda>_.
     bindE (registry_lease_freshness_errors (JObj l) now) (\<lambda>es.
     bindE (guard (es = []) ''LEASE_RECONCILIATION_REQUIRED'') (\<lambda>_.
     bindE (guard (sha40 main_sha) ''LEASE_SHA_INVALID'') (\<lambda>_.
     bindE (bounded_ttl ttl) (\<lambda>m.
     (let expires = now + minutes m in if \<not> in_range expires then Inl OverflowError else
      commit_registry sha ''LEASE_REGISTRY_INVALID_AFTER_HEARTBEAT'' d
        (update_where (with_id lid)
          (\<lambda>l. dput ''expires_at'' (JStr (iso expires)) (dput ''heartbeat_at'' (JStr (iso now)) l)) (reg_leases d))
        main_sha)))))))))"

definition release_registry_lease ::
    "(string \<Rightarrow> string) \<Rightarrow> json \<Rightarrow> int \<Rightarrow> string \<Rightarrow> string \<Rightarrow> string \<Rightarrow> bool \<Rightarrow> string \<Rightarrow> int \<Rightarrow> dict res" where
  "release_registry_lease sha registry expected lid worker main_sha reconciled ref now =
     bindE (validated_registry sha registry) (\<lambda>d.
     bindE (guard (reg_revision d = expected) ''LEASE_REGISTRY_REVISION_CONFLICT'') (\<lambda>_.
     bindE (guard reconciled ''LEASE_PROVIDER_RECONCILIATION_REQUIRED'') (\<lambda>_.
     bindE (guard (safe_id 500 ref) ''LEASE_PROVIDER_RECONCILIATION_REF_INVALID'') (\<lambda>_.
     bindE (guard (sha40 main_sha) ''LEASE_SHA_INVALID'') (\<lambda>_.
     bindE (find_lease d lid worker) (\<lambda>_.
      commit_registry sha ''LEASE_REGISTRY_INVALID_AFTER_RELEASE'' d
        (update_where (with_id lid)
          (\<lambda>l. dput ''provider_reconciliation_ref'' (JStr (strip ref)) (dput ''provider_reconciled_at'' (JStr (iso now))
            (dput ''released_at'' (JStr (iso now)) (dput ''status'' (JStr ''RELEASED'') l)))) (reg_leases d))
        main_sha))))))"

section \<open>Paths\<close>

lemma split_on_nonempty [simp]: "split_on c s \<noteq> []"
  by (induction s) (auto split: list.split)

lemma split_on_append: "split_on c (xs @ c # ys) = split_on c xs @ split_on c ys"
  by (induction xs) (auto split: list.split)

lemma join_Cons: "xs \<noteq> [] \<Longrightarrow> join sep (x # xs) = x @ sep @ join sep xs"
  by (cases xs) auto

lemma join_split_on: "join [c] (split_on c s) = s"
proof (induction s)
  case (Cons x s)
  obtain w ws where w: "split_on c s = w # ws" by (cases "split_on c s") auto
  show ?case using Cons w by (cases ws) (auto simp: join_Cons)
qed simp

lemma join_append: "xs \<noteq> [] \<Longrightarrow> ys \<noteq> [] \<Longrightarrow> join sep (xs @ ys) = join sep xs @ sep @ join sep ys"
proof (induction xs)
  case (Cons x xs)
  then show ?case by (cases "xs = []") (auto simp: join_Cons)
qed simp

text \<open>The overlap of two scopes is the prefix order on their paths.\<close>

lemma starts_with_path: "starts_with l (r @ ''/'') \<longleftrightarrow> strict_prefix (split_on (CHR ''/'') r) (split_on (CHR ''/'') l)"
proof
  assume "starts_with l (r @ ''/'')"
  then obtain t where "l = r @ CHR ''/'' # t" by (auto simp: starts_with_iff)
  then show "strict_prefix (split_on (CHR ''/'') r) (split_on (CHR ''/'') l)"
    by (simp add: split_on_append strict_prefix_def)
next
  assume "strict_prefix (split_on (CHR ''/'') r) (split_on (CHR ''/'') l)"
  then obtain ws where ws: "split_on (CHR ''/'') l = split_on (CHR ''/'') r @ ws" "ws \<noteq> []"
    by (auto simp: strict_prefix_def prefix_def)
  have "l = join ''/'' (split_on (CHR ''/'') r @ ws)" by (metis ws(1) join_split_on)
  also have "\<dots> = r @ ''/'' @ join ''/'' ws"
    using ws(2) by (simp add: join_append join_split_on)
  finally show "starts_with l (r @ ''/'')" by (auto simp: starts_with_iff)
qed

lemma scope_overlap_path: "scope_overlap l r \<longleftrightarrow>
   prefix (split_on (CHR ''/'') l) (split_on (CHR ''/'') r) \<or> prefix (split_on (CHR ''/'') r) (split_on (CHR ''/'') l)"
proof -
  have "split_on (CHR ''/'') l = split_on (CHR ''/'') r \<longleftrightarrow> l = r" by (metis join_split_on)
  then show ?thesis by (auto simp: scope_overlap_def starts_with_path strict_prefix_def)
qed

text \<open>What two resources sharing something means, and that the code's keys tell exactly that.\<close>

definition overlaps :: "resource \<Rightarrow> resource \<Rightarrow> bool" where
  "overlaps a b = (rs_global a \<or> rs_global b \<or> rs_kind a = rs_kind b \<and>
     (prefix (split_on (CHR ''/'') (rs_scope a)) (split_on (CHR ''/'') (rs_scope b))
      \<or> prefix (split_on (CHR ''/'') (rs_scope b)) (split_on (CHR ''/'') (rs_scope a))))"

lemma overlaps_sym: "overlaps a b \<longleftrightarrow> overlaps b a"
  by (auto simp: overlaps_def)

lemma collision_Nil: "collision a b = [] \<longleftrightarrow> \<not> overlaps a b"
  by (simp add: collision_def overlaps_def scope_overlap_path)

lemma collisions_Nil: "collisions l r = [] \<longleftrightarrow> (\<forall>a \<in> set l. \<forall>b \<in> set r. \<not> overlaps a b)"
proof -
  have "set (collisions l r) = (\<Union>a \<in> set l. \<Union>b \<in> set r. set (collision a b))"
    by (simp add: collisions_def)
  then have "collisions l r = [] \<longleftrightarrow> (\<forall>a \<in> set l. \<forall>b \<in> set r. collision a b = [])"
    by (metis (no_types, lifting) SUP_bot_conv(1) empty_set set_empty)
  then show ?thesis by (simp add: collision_Nil)
qed

lemma scope_overlap_sym: "scope_overlap l r = scope_overlap r l"
  by (auto simp: scope_overlap_def)

lemma same_length_overlap: "scope_overlap l r \<Longrightarrow> length l = length r \<Longrightarrow> l = r"
  by (auto simp: scope_overlap_def starts_with_iff)

lemma collision_sym: "collision a b = collision b a"
  by (auto simp: collision_def scope_overlap_sym dest: same_length_overlap)

lemma collisions_sym: "collisions l r = collisions r l"
proof -
  have "set (concat (map (\<lambda>a. concat (map (collision a) r)) l)) = set (concat (map (\<lambda>b. concat (map (collision b) l)) r))"
    using collision_sym by fastforce
  then show ?thesis
    unfolding collisions_def by (intro sorted_distinct_set_unique) (simp_all only: sorted_sort distinct_sort distinct_remdups set_sort set_remdups)
qed

section \<open>What a valid registry guarantees\<close>

definition resources_of :: "dict \<Rightarrow> resource list res" where
  "resources_of d = require_canonical_conflict_resources (dget d ''resources'')"

definition disjoint_leases :: "dict \<Rightarrow> dict \<Rightarrow> bool" where
  "disjoint_leases a b = (dget a ''issue_id'' \<noteq> dget b ''issue_id'' \<and> dget a ''roadmap_id'' \<noteq> dget b ''roadmap_id''
     \<and> dget a ''branch'' \<noteq> dget b ''branch''
     \<and> (\<exists>rs ss. resources_of a = Inr rs \<and> resources_of b = Inr ss \<and> (\<forall>r \<in> set rs. \<forall>s \<in> set ss. \<not> overlaps r s)))"

definition texts_of :: "dict \<Rightarrow> bool" where
  "texts_of d = (is_str (dget d ''issue_id'') \<and> is_str (dget d ''roadmap_id'') \<and> is_str (dget d ''branch''))"

lemma pair_findings_Nil:
  assumes "pair_findings a b = Inr []" "texts_of b"
  shows "disjoint_leases a b"
proof -
  obtain ks where k: "conflicting_resource_keys (dget a ''resources'') (dget b ''resources'') = Inr ks" "ks = []"
    "\<not> same_field a b ''issue_id''" "\<not> same_field a b ''roadmap_id''" "\<not> same_field a b ''branch''"
    using assms(1) by (auto simp: pair_findings_def elim!: bindE_InrE split: sum.splits if_split_asm)
  obtain rs ss where r: "resources_of a = Inr rs" "resources_of b = Inr ss" "collisions rs ss = []"
    using k(1,2) by (auto simp: conflicting_resource_keys_def resources_of_def elim!: bindE_InrE)
  have "dget a k \<noteq> dget b k" if "\<not> same_field a b k" "is_str (dget b k)" for k
    using that by (auto simp: same_field_def is_str_iff)
  then show ?thesis
    using k(3-5) assms(2) r by (auto simp: disjoint_leases_def texts_of_def collisions_Nil)
qed

lemma pairs_findings_Nil: "pairs_findings ds = Inr [] \<Longrightarrow> sorted_wrt (\<lambda>a b. pair_findings a b = Inr []) ds"
  by (induction ds) (auto elim!: bindE_InrE simp: concatE_Nil_iff)

lemma str_shape_str: "str_shape p v \<Longrightarrow> is_str v"
  by (cases v) (auto simp: str_shape_def)

lemma scan_lease_step:
  assumes "scan_lease i v s = Inr s'"
  shows "\<exists>fs. sc_findings s' = sc_findings s @ fs \<and> (fs = [] \<longrightarrow>
     sc_active s' = sc_active s + length (active_dicts [v]) \<and> is_dict v \<and> texts_of (dict_of v))"
proof (cases v)
  case (JObj d)
  then show ?thesis using assms
    by (auto simp: scan_lease_def Let_def active_dicts_def identity_findings_def texts_of_def
        elim!: bindE_InrE split: if_split_asm dest: str_shape_str)
qed (use assms in \<open>auto simp: scan_lease_def Let_def\<close>)

lemma active_dicts_Cons: "active_dicts (v # vs) = active_dicts [v] @ active_dicts vs"
  by (simp add: active_dicts_def)

lemma scan_leases_clean:
  assumes "scan_leases i vs s = Inr s'" "sc_findings s' = []"
  shows "sc_findings s = [] \<and> sc_active s' = sc_active s + length (active_dicts vs)
    \<and> (\<forall>v \<in> set vs. is_dict v \<and> texts_of (dict_of v))"
  using assms
proof (induction vs arbitrary: i s)
  case Nil
  then show ?case by (simp add: active_dicts_def)
next
  case (Cons v vs)
  from Cons.prems obtain t where t: "scan_lease i v s = Inr t" "scan_leases (Suc i) vs t = Inr s'"
    by (auto elim!: bindE_InrE)
  note c = Cons.IH [OF t(2) Cons.prems(2)]
  from scan_lease_step [OF t(1)] obtain fs where f: "sc_findings t = sc_findings s @ fs"
    "fs = [] \<longrightarrow> sc_active t = sc_active s + length (active_dicts [v]) \<and> is_dict v \<and> texts_of (dict_of v)"
    by blast
  have "fs = []" "sc_findings s = []" using c f(1) by simp_all
  then show ?case using c f(2) by (subst active_dicts_Cons) simp
qed

lemma valid_registry_facts:
  assumes "validate_lease_registry sha (JObj d) = Inr []"
  shows "is_list (dget d ''leases'') \<and> strict_int (dget d ''revision'') \<and> strict_int (dget d ''max_parallel_writers'')
    \<and> int (length (reg_active d)) \<le> int_of (dget d ''max_parallel_writers'') \<and> int_of (dget d ''max_parallel_writers'') \<le> 3
    \<and> dget d ''integrity_digest'' = JStr (registry_digest sha d)
    \<and> (\<forall>v \<in> set (reg_leases d). is_dict v) \<and> length (reg_leases d) \<le> 200
    \<and> sorted_wrt disjoint_leases (reg_active d)"
proof -
  let ?ls = "list_of (dget d ''leases'')"
  define bad where "bad = (\<not> is_list (dget d ''leases'') \<or> 200 < length ?ls)"
  define ls where "ls = (if bad then [] else ?ls)"
  from assms have v: "bindE (scan_leases 0 ls \<lparr>sc_ids = [], sc_generations = [], sc_active = 0, sc_findings = []\<rparr>)
     (\<lambda>s. bindE (pairs_findings (active_dicts ls)) (\<lambda>ps. Inr (uniq (head_findings d @ flag bad ''LEASE_REGISTRY_LEASES'' @ sc_findings s @
      flag (is_int (dget d ''max_parallel_writers'') \<and> int_of (dget d ''max_parallel_writers'') < int (sc_active s))
        ''LEASE_REGISTRY_ACTIVE_CEILING_EXCEEDED'' @ ps @
      flag (dget d ''integrity_digest'' \<noteq> JStr (registry_digest sha d)) ''LEASE_REGISTRY_INTEGRITY'')))) = Inr []"
    by (simp only: validate_lease_registry_def json.case Let_def bad_def ls_def)
  from v obtain s where s0: "scan_leases 0 ls \<lparr>sc_ids = [], sc_generations = [], sc_active = 0, sc_findings = []\<rparr> = Inr s"
    and v': "bindE (pairs_findings (active_dicts ls)) (\<lambda>ps. Inr (uniq (head_findings d @ flag bad ''LEASE_REGISTRY_LEASES'' @ sc_findings s @
      flag (is_int (dget d ''max_parallel_writers'') \<and> int_of (dget d ''max_parallel_writers'') < int (sc_active s))
        ''LEASE_REGISTRY_ACTIVE_CEILING_EXCEEDED'' @ ps @
      flag (dget d ''integrity_digest'' \<noteq> JStr (registry_digest sha d)) ''LEASE_REGISTRY_INTEGRITY''))) = Inr []"
    by (rule bindE_InrE)
  from v' obtain ps where p: "pairs_findings (active_dicts ls) = Inr ps"
    "head_findings d @ flag bad ''LEASE_REGISTRY_LEASES'' @ sc_findings s @
      flag (is_int (dget d ''max_parallel_writers'') \<and> int_of (dget d ''max_parallel_writers'') < int (sc_active s))
        ''LEASE_REGISTRY_ACTIVE_CEILING_EXCEEDED'' @ ps @
      flag (dget d ''integrity_digest'' \<noteq> JStr (registry_digest sha d)) ''LEASE_REGISTRY_INTEGRITY'' = []"
    by (rule bindE_InrE) (simp only: sum.inject uniq_Nil_iff)
  have ls: "\<not> bad" "ls = ?ls" using p(2) by (simp_all add: ls_def)
  have s: "head_findings d = []" "is_list (dget d ''leases'')" "length ?ls \<le> 200"
    "scan_leases 0 ?ls \<lparr>sc_ids = [], sc_generations = [], sc_active = 0, sc_findings = []\<rparr> = Inr s"
    "pairs_findings (active_dicts ?ls) = Inr []" "sc_findings s = []"
    "\<not> (is_int (dget d ''max_parallel_writers'') \<and> int_of (dget d ''max_parallel_writers'') < int (sc_active s))"
    "dget d ''integrity_digest'' = JStr (registry_digest sha d)"
    using s0 p ls by (simp_all add: bad_def)
  note c = scan_leases_clean [OF s(4,6)]
  have h: "strict_int (dget d ''revision'')" "strict_int (dget d ''max_parallel_writers'')"
    "int_of (dget d ''max_parallel_writers'') \<le> 3"
    using s(1) by (auto simp: head_findings_def)
  have t: "\<forall>b \<in> set (active_dicts ?ls). texts_of b" using c by (auto simp: active_dicts_def)
  have "sorted_wrt disjoint_leases (active_dicts ?ls)"
    using sorted_wrt_mono_rel [OF _ pairs_findings_Nil [OF s(5)]] pair_findings_Nil t by blast
  then show ?thesis
    using s c h by (auto simp: reg_active_def reg_leases_def strict_int_def)
qed

section \<open>The registry as a compare-and-set store\<close>

lemma commit_registry_facts:
  assumes "commit_registry sha code d ls m = Inr d'"
  shows "validate_lease_registry sha (JObj d') = Inr [] \<and> reg_leases d' = ls
    \<and> reg_revision d' = reg_revision d + 1 \<and> dget d' ''observed_main_sha'' = JStr m
    \<and> dget d' ''max_parallel_writers'' = dget d ''max_parallel_writers''"
  using assms by (auto simp: commit_registry_def Let_def reg_leases_def reg_revision_def
      elim!: bindE_InrE split: if_split_asm)

lemma validated_registry_facts:
  "validated_registry sha (JObj d) = Inr d' \<longleftrightarrow> d' = d \<and> validate_lease_registry sha (JObj d) = Inr []"
  by (auto simp: validated_registry_def elim!: bindE_InrE split: if_split_asm)

lemma acquire_guards_facts:
  assumes "acquire_guards d q now = Inr rs"
  shows "reg_revision d = aq_revision q \<and> any_stale (reg_active d) now = Inr False
    \<and> int (length (reg_active d)) < aq_ceiling q \<and> dget d ''max_parallel_writers'' = JInt (aq_ceiling q)
    \<and> exclude_active q (JList (map resource_json rs)) (reg_active d) = Inr ()
    \<and> require_canonical_conflict_resources (aq_resources q) = Inr rs"
  using assms unfolding acquire_guards_def by (elim bindE_InrE) auto

lemma acquire_shape:
  assumes "acquire_registry_lease sha (JObj d) q uuid now = Inr (d', lease)"
  obtains rs lid ttl where "validate_lease_registry sha (JObj d) = Inr []" "acquire_guards d q now = Inr rs"
    "1 \<le> ttl" "ttl \<le> 240" "in_range (now + minutes ttl)" "lease = registry_lease d q lid rs now (now + minutes ttl)"
    "commit_registry sha ''LEASE_REGISTRY_INVALID_AFTER_ACQUIRE'' d (reg_leases d @ [JObj lease]) (aq_main_sha q) = Inr d'"
    "list_all (\<lambda>l. dget (dict_of l) ''lease_id'' \<noteq> JStr lid) (reg_leases d)" "dget lease ''lease_id'' = JStr lid"
  using assms unfolding acquire_registry_lease_def Let_def
  by (elim bindE_InrE)
    (auto simp: validated_registry_facts bounded_ttl_def registry_lease_def split: if_split_asm elim!: bindE_InrE)

lemma heartbeat_shape:
  assumes "heartbeat_registry_lease sha (JObj d) n lid worker m ttl now = Inr d'"
  obtains l f where "validate_lease_registry sha (JObj d) = Inr []" "reg_revision d = n" "find_lease d lid worker = Inr l"
    "registry_lease_freshness_errors (JObj l) now = Inr []"
    "commit_registry sha ''LEASE_REGISTRY_INVALID_AFTER_HEARTBEAT'' d (update_where (with_id lid) f (reg_leases d)) m = Inr d'"
  using assms unfolding heartbeat_registry_lease_def Let_def
  by (elim bindE_InrE) (auto simp: validated_registry_facts split: if_split_asm)

lemma release_shape:
  assumes "release_registry_lease sha (JObj d) n lid worker m ok ref now = Inr d'"
  obtains l f where "validate_lease_registry sha (JObj d) = Inr []" "reg_revision d = n" "find_lease d lid worker = Inr l" "ok"
    "commit_registry sha ''LEASE_REGISTRY_INVALID_AFTER_RELEASE'' d (update_where (with_id lid) f (reg_leases d)) m = Inr d'"
  using assms unfolding release_registry_lease_def
  by (elim bindE_InrE) (auto simp: validated_registry_facts)

datatype registry_op =
    Acquire acquire_request string int
  | Heartbeat string string string int int
  | Release string string string bool string int

primrec registry_update :: "(string \<Rightarrow> string) \<Rightarrow> registry_op \<Rightarrow> int \<Rightarrow> dict \<Rightarrow> dict res" where
  "registry_update sha (Acquire q uuid now) n d =
     bindE (acquire_registry_lease sha (JObj d) (q\<lparr>aq_revision := n\<rparr>) uuid now) (\<lambda>(d', l). Inr d')"
| "registry_update sha (Heartbeat lid worker m ttl now) n d = heartbeat_registry_lease sha (JObj d) n lid worker m ttl now"
| "registry_update sha (Release lid worker m ok ref now) n d =
     release_registry_lease sha (JObj d) n lid worker m ok ref now"

definition registry_valid :: "(string \<Rightarrow> string) \<Rightarrow> dict \<Rightarrow> bool" where
  "registry_valid sha d = (validate_lease_registry sha (JObj d) = Inr [])"

lemma registry_update_facts:
  assumes "registry_update sha op n d = Inr d'"
  shows "reg_revision d = n \<and> reg_revision d' = n + 1 \<and> registry_valid sha d \<and> registry_valid sha d'"
proof (cases op)
  case (Acquire q uuid now)
  then obtain l where "acquire_registry_lease sha (JObj d) (q\<lparr>aq_revision := n\<rparr>) uuid now = Inr (d', l)"
    using assms by (auto elim!: bindE_InrE split: prod.splits)
  then show ?thesis
    by (elim acquire_shape) (auto simp: registry_valid_def dest!: commit_registry_facts acquire_guards_facts)
next
  case (Heartbeat lid worker m ttl now)
  then have "heartbeat_registry_lease sha (JObj d) n lid worker m ttl now = Inr d'" using assms by simp
  then show ?thesis
    by (elim heartbeat_shape) (auto simp: registry_valid_def dest!: commit_registry_facts)
next
  case (Release lid worker m ok ref now)
  then have "release_registry_lease sha (JObj d) n lid worker m ok ref now = Inr d'" using assms by simp
  then show ?thesis
    by (elim release_shape) (auto simp: registry_valid_def dest!: commit_registry_facts)
qed

interpretation registry: cas_store reg_revision "registry_update sha" "registry_valid sha" for sha
  by unfold_locales (auto dest: registry_update_facts)

section \<open>A sample registry\<close>

definition no_sha :: "string \<Rightarrow> string" where "no_sha s = ''digest''"

definition sample_registry :: dict where
  "sample_registry = [(''$schema'', JStr LEASE_REGISTRY_SCHEMA), (''schema_version'', JInt 1),
     (''repository'', JStr ''owner/repo''), (''revision'', JInt 0), (''observed_main_sha'', JStr sample_sha40),
     (''max_parallel_writers'', JInt 2), (''leases'', JList []), (''integrity_digest'', JStr flat_digest)]"

lemma sample_registry_valid: "validate_lease_registry flat_sha (JObj sample_registry) = Inr []"
proof -
  have r: "repository_shape ''owner/repo''" by code_simp
  have k: "keys_are sample_registry REGISTRY_FIELDS" by (simp add: keys_are_def dkeys_def sample_registry_def REGISTRY_FIELDS_def)
  have h: "head_findings sample_registry = []"
    using r k sample_sha40_shape by (simp add: head_findings_def) (simp add: sample_registry_def str_shape_def)
  show ?thesis
    using h by (simp add: validate_lease_registry_def Let_def) (simp add: sample_registry_def active_dicts_def
        registry_digest_def flat_sha_def)
qed

definition sample_resource :: resource where
  "sample_resource = \<lparr>rs_kind = ''source'', rs_scope = ''src/core'', rs_shared = False, rs_global = False\<rparr>"

definition sample_acquire :: acquire_request where
  "sample_acquire = \<lparr>aq_revision = 0, aq_main_sha = sample_sha40, aq_ceiling = 2, aq_issue_id = ''7'',
     aq_roadmap_id = ''ADWF-1'', aq_worker_id = ''worker-1'', aq_base_sha = sample_sha40, aq_branch = ''adwf/work'',
     aq_resources = JList [resource_json sample_resource], aq_ttl_minutes = 120, aq_lease_id = []\<rparr>"

definition sample_uuid :: string where "sample_uuid = ''00000000-0000-4000-8000-000000000001''"

lemma sample_resources: "require_canonical_conflict_resources (JList [resource_json sample_resource]) = Inr [sample_resource]"
  by code_simp

lemma sample_uuid_shape: "uuid_shape sample_uuid" by code_simp

lemma sample_lease_scan:
  "scan_lease 0 (JObj (registry_lease sample_registry sample_acquire sample_uuid [sample_resource] claim_time (claim_time + minutes 120)))
     \<lparr>sc_ids = [], sc_generations = [], sc_active = 0, sc_findings = []\<rparr>
   = Inr \<lparr>sc_ids = [sample_uuid], sc_generations = [1], sc_active = 1, sc_findings = []\<rparr>"
proof -
  let ?l = "registry_lease sample_registry sample_acquire sample_uuid [sample_resource] claim_time (claim_time + minutes 120)"
  have r: "in_range claim_time" "in_range (claim_time + minutes 120)" by code_simp+
  have k: "keys_are ?l LEASE_FIELDS" by (simp add: keys_are_def dkeys_def registry_lease_def LEASE_FIELDS_def)
  have i: "identity_findings ?l pre = []" for pre
  proof -
    have "digits_shape ''7''" "roadmap_shape ''ADWF-1''" "safe_id 240 ''worker-1''" "branch_shape ''adwf/work''" by code_simp+
    then show ?thesis using sample_sha40_shape
      by (simp add: identity_findings_def registry_lease_def sample_acquire_def str_shape_def)
  qed
  have rf: "resource_findings ?l pre = Inr []" for pre
    using sample_resources by (simp add: resource_findings_def registry_lease_def)
  have sf: "status_findings ?l pre = Inr []" for pre
    by (simp add: status_findings_def registry_lease_def LEASE_REGISTRY_STATUSES_def RELEASE_FIELDS_def)
  have tf: "lease_time_findings ?l pre = Inr []" for pre
  proof -
    have "get_time ?l ''claimed_at'' = Inr claim_time" "get_time ?l ''heartbeat_at'' = Inr claim_time"
      "get_time ?l ''expires_at'' = Inr (claim_time + minutes 120)"
      using r by (simp_all add: get_time_def registry_lease_def utc.parse_print)
    moreover have "dget ?l ''status'' = JStr ''ACTIVE''" by (simp add: registry_lease_def)
    ultimately show ?thesis by (simp add: lease_time_findings_def release_time_findings_def minutes_def)
  qed
  have g: "dget ?l ''lease_id'' = JStr sample_uuid" "dget ?l ''generation'' = JInt 1" "dget ?l ''status'' = JStr ''ACTIVE''"
    by (simp_all add: registry_lease_def reg_revision_def sample_registry_def)
  show ?thesis
    using k sample_uuid_shape by (simp add: scan_lease_def Let_def rf sf tf i g str_shape_def)
qed

definition sample_lease :: dict where
  "sample_lease = registry_lease sample_registry sample_acquire sample_uuid [sample_resource] claim_time (claim_time + minutes 120)"

text \<open>The registry with that lease, at a revision.\<close>

definition leased_registry :: "int \<Rightarrow> dict" where
  "leased_registry n = [(''$schema'', JStr LEASE_REGISTRY_SCHEMA), (''schema_version'', JInt 1),
     (''repository'', JStr ''owner/repo''), (''revision'', JInt n), (''observed_main_sha'', JStr sample_sha40),
     (''max_parallel_writers'', JInt 2), (''leases'', JList [JObj sample_lease]), (''integrity_digest'', JStr flat_digest)]"

lemma sample_lease_fields: "dget sample_lease ''lease_id'' = JStr sample_uuid" "dget sample_lease ''status'' = JStr ''ACTIVE''"
  "dget sample_lease ''worker_id'' = JStr ''worker-1''" "dget sample_lease ''heartbeat_at'' = JStr (iso claim_time)"
  "dget sample_lease ''expires_at'' = JStr (iso (claim_time + minutes 120))"
  by (simp_all add: sample_lease_def registry_lease_def sample_acquire_def)

lemma leased_registry_fields: "reg_leases (leased_registry n) = [JObj sample_lease]" "reg_revision (leased_registry n) = n"
  "reg_active (leased_registry n) = [sample_lease]" "dget (leased_registry n) ''observed_main_sha'' = JStr sample_sha40"
  by (simp_all add: leased_registry_def reg_leases_def reg_revision_def reg_active_def active_dicts_def sample_lease_fields)

lemma leased_registry_valid:
  assumes "0 \<le> n"
  shows "validate_lease_registry flat_sha (JObj (leased_registry n)) = Inr []"
proof -
  have r: "repository_shape ''owner/repo''" by code_simp
  have k: "keys_are (leased_registry n) REGISTRY_FIELDS"
    by (simp add: keys_are_def dkeys_def leased_registry_def REGISTRY_FIELDS_def)
  have h: "head_findings (leased_registry n) = []"
    using r k sample_sha40_shape assms by (simp add: head_findings_def) (simp add: leased_registry_def str_shape_def)
  have a: "active_dicts [JObj sample_lease] = [sample_lease]" by (simp add: active_dicts_def sample_lease_fields)
  have d: "dget (leased_registry n) ''leases'' = JList [JObj sample_lease]" "dget (leased_registry n) ''max_parallel_writers'' = JInt 2"
    "dget (leased_registry n) ''integrity_digest'' = JStr flat_digest" by (simp_all add: leased_registry_def)
  show ?thesis
    using h sample_lease_scan [folded sample_lease_def]
    by (simp add: validate_lease_registry_def Let_def a d registry_digest_def flat_sha_def)
qed

lemma leased_commit:
  assumes "0 \<le> n" "d \<in> {sample_registry, leased_registry n}" "reg_revision d = n"
  shows "commit_registry flat_sha x d [JObj sample_lease] sample_sha40 = Inr (leased_registry (n + 1))"
proof -
  have "dput ''integrity_digest'' (JStr flat_digest) (dput ''observed_main_sha'' (JStr sample_sha40)
           (dput ''revision'' (JInt (n + 1)) (dput ''leases'' (JList [JObj sample_lease]) d))) = leased_registry (n + 1)"
    using assms(2) by (auto simp: sample_registry_def leased_registry_def dput_def)
  then show ?thesis
    using leased_registry_valid [of "n + 1"] assms(1,3) by (simp add: commit_registry_def Let_def registry_digest_def flat_sha_def)
qed

lemma sample_acquired:
  "acquire_registry_lease flat_sha (JObj sample_registry) sample_acquire sample_uuid claim_time
     = Inr (leased_registry 1, sample_lease)"
proof -
  have s: "digits_shape ''7''" "roadmap_shape ''ADWF-1''" "safe_id 240 ''worker-1''" "branch_shape ''adwf/work''"
    by code_simp+
  have e: "in_range (claim_time + minutes 120)" by code_simp
  have f: "reg_leases sample_registry = []" "reg_revision sample_registry = 0" "reg_active sample_registry = []"
    "dget sample_registry ''max_parallel_writers'' = JInt 2" "dget sample_registry ''observed_main_sha'' = JStr sample_sha40"
    by (simp_all add: reg_leases_def reg_revision_def reg_active_def active_dicts_def sample_registry_def)
  have g: "acquire_guards sample_registry sample_acquire claim_time = Inr [sample_resource]"
    using s sample_sha40_shape
    by (simp add: acquire_guards_def f any_stale_def sample_acquire_def sample_resources guard_def)
  have q: "aq_main_sha sample_acquire = sample_sha40" "aq_ttl_minutes sample_acquire = 120" "aq_lease_id sample_acquire = []"
    by (simp_all add: sample_acquire_def)
  show ?thesis
    using sample_registry_valid sample_uuid_shape e leased_commit [of 0 sample_registry]
    by (simp add: acquire_registry_lease_def validated_registry_def g f q bounded_ttl_def Let_def guard_def
        sample_lease_def [symmetric])
qed

lemma sample_heartbeat:
  "heartbeat_registry_lease flat_sha (JObj (leased_registry 1)) 1 sample_uuid ''worker-1'' sample_sha40 120 claim_time
     = Inr (leased_registry 2)"
proof -
  have r: "in_range claim_time" "in_range (claim_time + minutes 120)" by code_simp+
  have o: "find_lease (leased_registry 1) sample_uuid ''worker-1'' = Inr sample_lease"
    by (simp add: find_lease_def leased_registry_fields with_id_def sample_lease_fields)
  have f: "registry_lease_freshness_errors (JObj sample_lease) claim_time = Inr []"
  proof -
    have "time_field (JObj sample_lease) ''expires_at'' = Inr (claim_time + minutes 120)"
      "time_field (JObj sample_lease) ''heartbeat_at'' = Inr claim_time"
      using r by (simp_all add: time_field_def sample_lease_def registry_lease_def utc.parse_print)
    then show ?thesis
      by (simp add: registry_lease_freshness_errors_def minutes_def DEFAULT_HEARTBEAT_TIMEOUT_MINUTES_def)
  qed
  have u: "update_where (with_id sample_uuid) (\<lambda>l. dput ''expires_at'' (JStr (iso (claim_time + minutes 120)))
      (dput ''heartbeat_at'' (JStr (iso claim_time)) l)) [JObj sample_lease] = [JObj sample_lease]"
    by (simp add: update_where_def with_id_def sample_lease_fields)
      (simp add: sample_lease_def registry_lease_def dput_def)
  show ?thesis
    using leased_registry_valid [of 1] leased_commit [of 1 "leased_registry 1"] r sample_sha40_shape
    by (simp add: heartbeat_registry_lease_def validated_registry_def leased_registry_fields o f u bounded_ttl_def
        guard_def Let_def)
qed

section \<open>Properties\<close>

text \<open>
  A registry the validator accepts excludes writers from each other: there are at most as many
  active leases as its ceiling, which is at most three, and any two of them hold different issues,
  roadmap items and branches, and resources none of which is global or on the other's path.
\<close>

theorem valid_registry_is_exclusive:
  assumes "validate_lease_registry sha (JObj d) = Inr []"
  shows "int (length (reg_active d)) \<le> int_of (dget d ''max_parallel_writers'')
    \<and> int_of (dget d ''max_parallel_writers'') \<le> 3 \<and> sorted_wrt disjoint_leases (reg_active d)"
  using valid_registry_facts [OF assms] by blast

lemma valid_registry_is_exclusive_witness:
  "length (reg_active (leased_registry 1)) = 1 \<and> int_of (dget (leased_registry 1) ''max_parallel_writers'') \<le> 3"
  using valid_registry_is_exclusive [OF leased_registry_valid, of 1] by (simp add: leased_registry_fields)

text \<open>
  C25. Acquiring a lease grants exclusive access: it is accepted only against the revision the caller
  read, while every active lease is live and below the ceiling; it appends one active lease, raises the
  revision by one, and in the registry it returns the new lease's resources overlap with no other
  active lease's.
\<close>

theorem acquire_is_exclusive:
  assumes "acquire_registry_lease sha (JObj d) q uuid now = Inr (d', lease)"
  shows "reg_revision d = aq_revision q \<and> reg_revision d' = aq_revision q + 1
    \<and> any_stale (reg_active d) now = Inr False \<and> int (length (reg_active d)) < aq_ceiling q
    \<and> reg_leases d' = reg_leases d @ [JObj lease] \<and> reg_active d' = reg_active d @ [lease]
    \<and> dget lease ''worker_id'' = JStr (aq_worker_id q)
    \<and> (\<forall>l \<in> set (reg_active d). disjoint_leases l lease)"
  using assms
proof (cases rule: acquire_shape)
  case (1 rs lid ttl)
  note c = commit_registry_facts [OF 1(7)] and g = acquire_guards_facts [OF 1(2)]
  have l: "dget lease ''worker_id'' = JStr (aq_worker_id q)" "dget lease ''status'' = JStr ''ACTIVE''"
    by (simp_all add: 1(6) registry_lease_def)
  then have a: "reg_active d' = reg_active d @ [lease]"
    using c by (simp add: reg_active_def active_dicts_def)
  have "sorted_wrt disjoint_leases (reg_active d @ [lease])"
    using c valid_registry_facts [of sha d'] by (simp add: a [symmetric])
  then show ?thesis using c g a l by (simp add: sorted_wrt_append)
qed

lemma acquire_is_exclusive_witness:
  "reg_revision (leased_registry 1) = 1 \<and> reg_active (leased_registry 1) = reg_active sample_registry @ [sample_lease]"
  using acquire_is_exclusive [OF sample_acquired] by (simp add: sample_acquire_def)

text \<open>
  C26. Of all the updates computed from one reading of the registry at most one is accepted: whatever
  sequence of acquisitions, heartbeats and releases was accepted, the registry stays valid and each
  update named exactly the revision its predecessor left.
\<close>

theorem registry_history_is_serial:
  assumes "foldE (\<lambda>(op, n). registry_update sha op n) ops d = Inr d'"
    and "validate_lease_registry sha (JObj d) = Inr []"
  shows "validate_lease_registry sha (JObj d') = Inr [] \<and> reg_revision d' = reg_revision d + int (length ops)
    \<and> (\<forall>i < length ops. snd (ops ! i) = reg_revision d + int i)
    \<and> (ops \<noteq> [] \<longrightarrow> (\<forall>op. \<exists>e. registry_update sha op (reg_revision d) d' = Inl e))"
proof -
  have v: "registry_valid sha d" using assms(2) by (simp add: registry_valid_def)
  note h = registry.history [OF assms(1) v]
  have "\<exists>e. registry_update sha op (reg_revision d) d' = Inl e" if "ops \<noteq> []" for op
  proof (cases "registry_update sha op (reg_revision d) d'")
    case (Inr d'')
    then have "reg_revision d' = reg_revision d" using registry_update_facts by blast
    then show ?thesis using h that by simp
  qed simp
  then show ?thesis using h by (simp add: registry_valid_def)
qed

lemma registry_history_is_serial_witness:
  "\<exists>e. registry_update flat_sha (Acquire sample_acquire sample_uuid claim_time) 0 (leased_registry 1) = Inl e"
proof -
  let ?op = "Acquire sample_acquire sample_uuid claim_time"
  have q: "sample_acquire\<lparr>aq_revision := 0\<rparr> = sample_acquire" by (simp add: sample_acquire_def)
  have "foldE (\<lambda>(op, n). registry_update flat_sha op n) [(?op, 0)] sample_registry = Inr (leased_registry 1)"
    by (simp add: q sample_acquired)
  moreover have "reg_revision sample_registry = 0" by (simp add: reg_revision_def sample_registry_def)
  ultimately show ?thesis
    using registry_history_is_serial [of flat_sha "[(?op, 0)]" sample_registry] sample_registry_valid
    by (simp del: registry_update.simps)
qed

lemma update_where_pointwise:
  "list_all2 (\<lambda>v w. w = v \<or> p v \<and> v \<in> set xs) xs (update_where p f xs)"
  by (simp add: update_where_def list_all2_map2 list_all2_same)

lemma find_lease_owner:
  assumes "find_lease d lid worker = Inr l" "v \<in> set (reg_leases d)" "with_id lid v"
  shows "dget (dict_of v) ''worker_id'' = JStr worker \<and> dget (dict_of v) ''status'' = JStr ''ACTIVE''"
proof -
  obtain w where w: "filter (with_id lid) (reg_leases d) = [w]" "dict_of w = l"
    "dget l ''worker_id'' = JStr worker" "dget l ''status'' = JStr ''ACTIVE''"
    using assms(1) by (auto simp: find_lease_def split: list.splits if_split_asm)
  have "v \<in> set (filter (with_id lid) (reg_leases d))" using assms(2,3) by simp
  then have "v = w" by (simp add: w(1))
  then show ?thesis using w by simp
qed

text \<open>
  C29. Nobody touches another writer's lease: an accepted heartbeat or release leaves every lease as it
  was except the caller's own, which was active and carried the caller's worker id.
\<close>

theorem only_the_owner_changes_a_lease:
  assumes "heartbeat_registry_lease sha (JObj d) n lid worker m ttl now = Inr d'
    \<or> release_registry_lease sha (JObj d) n lid worker m reconciled ref now = Inr d'"
  shows "list_all2 (\<lambda>v w. w = v \<or> dget (dict_of v) ''lease_id'' = JStr lid
      \<and> dget (dict_of v) ''worker_id'' = JStr worker \<and> dget (dict_of v) ''status'' = JStr ''ACTIVE'')
    (reg_leases d) (reg_leases d')"
proof -
  obtain l f where o: "find_lease d lid worker = Inr l" "reg_leases d' = update_where (with_id lid) f (reg_leases d)"
    using assms
  proof
    assume "heartbeat_registry_lease sha (JObj d) n lid worker m ttl now = Inr d'"
    then show thesis by (elim heartbeat_shape) (use that commit_registry_facts in blast)
  next
    assume "release_registry_lease sha (JObj d) n lid worker m reconciled ref now = Inr d'"
    then show thesis by (elim release_shape) (use that commit_registry_facts in blast)
  qed
  show ?thesis unfolding o(2)
    by (rule list_all2_mono [OF update_where_pointwise])
      (use find_lease_owner [OF o(1)] in \<open>auto simp: with_id_def\<close>)
qed

lemma only_the_owner_changes_a_lease_witness:
  "list_all2 (\<lambda>v w. w = v \<or> dget (dict_of v) ''worker_id'' = JStr ''worker-1'')
     (reg_leases (leased_registry 1)) (reg_leases (leased_registry 2))"
  by (rule list_all2_mono [OF only_the_owner_changes_a_lease [OF disjI1 [OF sample_heartbeat]]]) auto

text \<open>
  C31. The collision keys tell exactly whether resources overlap, and the test is symmetric: the keys
  are empty if and only if no resource of the one list is global, equal to, above or below a resource
  of the same kind in the other, and swapping the lists gives the same keys.
\<close>

theorem conflict_keys_are_exact:
  assumes "conflicting_resource_keys l r = Inr ks"
  shows "conflicting_resource_keys r l = Inr ks
    \<and> (\<exists>ls rs. require_canonical_conflict_resources l = Inr ls \<and> require_canonical_conflict_resources r = Inr rs
       \<and> (ks = [] \<longleftrightarrow> (\<forall>a \<in> set ls. \<forall>b \<in> set rs. \<not> overlaps a b)))"
  using assms by (auto simp: conflicting_resource_keys_def collisions_sym collisions_Nil elim!: bindE_InrE)

lemma conflict_keys_are_exact_witness:
  "\<exists>ks. conflicting_resource_keys (JList [resource_json sample_resource]) (JList [resource_json sample_resource]) = Inr ks
     \<and> ks \<noteq> []"
proof -
  have k: "conflicting_resource_keys (JList [resource_json sample_resource]) (JList [resource_json sample_resource])
    = Inr (collisions [sample_resource] [sample_resource])"
    by (simp add: conflicting_resource_keys_def sample_resources)
  have o: "overlaps sample_resource sample_resource" by (simp add: overlaps_def)
  show ?thesis using conflict_keys_are_exact [OF k] k o by (auto simp: sample_resources)
qed

end
