(* ===== verification/Orchestration.thy ===== *)
theory Orchestration
  imports Leases Policy
begin

text \<open>
  The choice of the next action (\<open>.adwf/lib/orchestration.py\<close>): the contract of the queue, the safety
  preflight, the order of the roadmap and the one authorisation boundary \<open>authorize_next_action\<close>.
  The queue and the policy context are values of unknown type.
\<close>

section \<open>Tables\<close>

definition PRIORITY_RANK :: "(string \<times> nat) list" where
  "PRIORITY_RANK = [(''P0'', 0), (''P1'', 1), (''P2'', 2), (''P3'', 3)]"

definition ACTIVE_ISSUE_STATES :: "string list" where
  "ACTIVE_ISSUE_STATES = [''CLAIMED'', ''IN_PROGRESS'', ''REVIEW'']"

definition LEASED_ISSUE_STATES :: "string list" where
  "LEASED_ISSUE_STATES = ACTIVE_ISSUE_STATES @ [''VERIFICATION'', ''RECOVERY'']"

section \<open>The roadmap order\<close>

definition rank_ofE :: "(string \<times> nat) list \<Rightarrow> json \<Rightarrow> int res" where
  "rank_ofE table v = (if \<not> hashable v then Inl TypeError
     else Inr (case v of JStr s \<Rightarrow> (case map_of table s of Some n \<Rightarrow> int n | None \<Rightarrow> 99) | _ \<Rightarrow> 99))"

type_synonym sort_tuple = "int \<times> int \<times> int \<times> int \<times> int \<times> string \<times> string"

definition issue_sort_key :: "dict \<Rightarrow> sort_tuple res" where
  "issue_sort_key i = bindE (rank_ofE PRIORITY_RANK (dget i ''priority'')) (\<lambda>p.
     bindE (py_int (dget_or i ''roadmap_order'' (JInt 999999))) (\<lambda>ord.
     bindE (py_int (dget_or i ''critical_path_score'' (JInt 0))) (\<lambda>score.
     bindE (rank_ofE RISK_RANK (dget i ''risk'')) (\<lambda>r.
       Inr (if dget i ''type'' = JStr ''recovery'' then 0 else 1, p, ord, - score, r,
            py_str (dget_or i ''ready_since'' (JStr ''9999'')), py_str (dget_or i ''id'' (JStr [])))))))"

text \<open>\<open>sorted(xs, key=_sort_key)\<close>: the keys of all elements first, then a stable sort.\<close>

definition sort_issues :: "dict list \<Rightarrow> dict list res" where
  "sort_issues xs = bindE (mapE issue_sort_key xs) (\<lambda>ks. Inr (map snd (sort_key fst (zip ks xs))))"

section \<open>The preflight\<close>

definition not_safe :: "dict \<Rightarrow> string \<Rightarrow> bool res" where
  "not_safe health name = bindE (in_set (dget health name) SAFE_HEALTH) (\<lambda>b. Inr (\<not> b))"

definition is_number :: "json \<Rightarrow> bool" where
  "is_number v = (case v of JInt _ \<Rightarrow> True | JFloat _ _ \<Rightarrow> True | _ \<Rightarrow> False)"

definition cost_findings :: "json \<Rightarrow> string list res" where
  "cost_findings raw = (if \<not> is_number raw then Inr [''PROJECTED_COST_INVALID'']
     else bindE (py_float raw) (\<lambda>c. flagE (c \<noteq> Fin 0) ''PROJECTED_COST_NOT_ZERO''))"

definition common_safety_findings :: "json \<Rightarrow> bool \<Rightarrow> string list res" where
  "common_safety_findings context require_control = (case context of JObj c \<Rightarrow>
     (case dget c ''health'' of JObj h \<Rightarrow>
        bindE (not_safe h ''package_integrity'') (\<lambda>a. bindE (not_safe h ''config_health'') (\<lambda>b.
        bindE (if require_control then not_safe h ''control_plane_health'' else Inr False) (\<lambda>d.
        bindE (cost_findings (dget c ''projected_cost'')) (\<lambda>cost. Inr (
          flag a ''HEALTH_NOT_SAFE:package_integrity'' @ flag b ''HEALTH_NOT_SAFE:config_health'' @
          flag d ''HEALTH_NOT_SAFE:control_plane_health'' @
          flag (dget c ''provider_allowed'' \<noteq> JBool True) ''PROVIDER_NOT_ALLOWED'' @
          flag (dget c ''provider_potentially_paid'' \<noteq> JBool False) ''PROVIDER_COST_CLASS_UNKNOWN_OR_PAID'' @
          cost @ flag (dget c ''writer_conflict'' = JBool True) ''WRITER_CONFLICT'')))))
      | _ \<Rightarrow> Inr [''HEALTH_CONTEXT_INVALID''])
   | _ \<Rightarrow> Inr [''POLICY_CONTEXT_INVALID''])"

definition ask_policy :: "dict \<Rightarrow> dict \<Rightarrow> string \<Rightarrow> json \<Rightarrow> dict option \<Rightarrow> decision res" where
  "ask_policy context issue action work_type ir =
     bindE (context_from_dict (dput ''work_type'' work_type (dput ''risk'' (dget_or issue ''risk'' (JStr ''UNKNOWN''))
       (dput ''action'' (JStr action) context)))) (\<lambda>c. evaluate_permission c ir)"

definition issue_type :: "dict \<Rightarrow> json" where
  "issue_type issue = dget_or issue ''type'' (JStr ''feature'')"

definition permission_for ::
    "json \<Rightarrow> dict \<Rightarrow> string \<Rightarrow> string option \<Rightarrow> bool \<Rightarrow> dict option \<Rightarrow> (string \<times> string list) res" where
  "permission_for context issue action work_type require_control ir =
     bindE (common_safety_findings context require_control) (\<lambda>findings.
     if findings \<noteq> [] then Inr (''BLOCK'', findings) else
     catchE is_TV
       (bindE (ask_policy (dict_of context) issue action
          (case work_type of Some w \<Rightarrow> JStr w | None \<Rightarrow> issue_type issue) ir)
         (\<lambda>d. Inr (d_result d, d_reason_codes d)))
       (\<lambda>e. Inr (''BLOCK'', [''POLICY_CONTEXT_INVALID:'' @ exn_text e])))"

section \<open>The queue\<close>

definition id_text :: "json \<Rightarrow> string" where
  "id_text v = py_str (py_or v (JStr []))"

definition ids_invalid :: "string \<Rightarrow> dict list \<Rightarrow> bool" where
  "ids_invalid k xs = (let ids = map (\<lambda>d. id_text (dget d k)) xs in [] \<in> set ids \<or> \<not> distinct ids)"

definition dicts_of :: "json \<Rightarrow> dict list" where
  "dicts_of v = map dict_of (list_of v)"

definition dict_list :: "json \<Rightarrow> bool" where
  "dict_list v = (is_list v \<and> list_all is_dict (list_of v))"

definition queue_contract_errors :: "json \<Rightarrow> string list" where
  "queue_contract_errors queue = (case queue of JObj q \<Rightarrow>
     (let issues = dget_or q ''issues'' (JList []); ls = dget_or q ''leases'' (JList []) in
      if \<not> dict_list issues then [''QUEUE_ISSUES_INVALID'']
      else if \<not> dict_list ls then [''QUEUE_LEASES_INVALID'']
      else flag (ids_invalid ''id'' (dicts_of issues)) ''QUEUE_ISSUE_IDS_INVALID_OR_DUPLICATE'' @
           flag (ids_invalid ''lease_id'' (dicts_of ls)) ''QUEUE_LEASE_IDS_INVALID_OR_DUPLICATE'')
   | _ \<Rightarrow> [''QUEUE_NOT_OBJECT''])"

definition queue_issues :: "json \<Rightarrow> dict list" where
  "queue_issues queue = dicts_of (dget_or (dict_of queue) ''issues'' (JList []))"

definition queue_leases :: "json \<Rightarrow> dict list" where
  "queue_leases queue = dicts_of (dget_or (dict_of queue) ''leases'' (JList []))"

section \<open>The choice of a ready issue\<close>

definition claimable_shape :: "dict \<Rightarrow> bool" where
  "claimable_shape i = (dget i ''state'' = JStr ''READY'' \<and> dget i ''dependencies_resolved'' = JBool True
     \<and> truthy (dget i ''ready_since'') \<and> dget i ''human_required'' = JBool False
     \<and> dget i ''autonomy_allowed'' = JBool True)"

definition claimable :: "json list \<Rightarrow> dict \<Rightarrow> dict option \<Rightarrow> int \<Rightarrow> dict \<Rightarrow> bool res" where
  "claimable ls context ir clock i = (if \<not> claimable_shape i then Inr False else
     bindE (conflict_domains (JObj i) ls clock) (\<lambda>busy. if busy \<noteq> [] then Inr False else
     catchE is_TV (bindE (ask_policy context i ''claim'' (issue_type i) ir) (\<lambda>d. Inr (d_result d = ''ALLOW'')))
       (\<lambda>_. Inr False)))"

text \<open>\<open>clock\<close> is the system clock, which the choice reads itself.\<close>

definition choose_next :: "json \<Rightarrow> json \<Rightarrow> dict option \<Rightarrow> int \<Rightarrow> dict option res" where
  "choose_next queue context ir clock = (if queue_contract_errors queue \<noteq> [] then Inr None else
     bindE (common_safety_findings context True) (\<lambda>fs. if fs \<noteq> [] then Inr None else
     bindE (active_leases (map JObj (queue_leases queue)) clock) (\<lambda>ls.
     bindE (filterE (claimable ls (dict_of context) ir clock) (queue_issues queue)) (\<lambda>candidates.
     if candidates = [] then Inr None else bindE (sort_issues candidates) (\<lambda>s. Inr (Some (hd s)))))))"

section \<open>The authorisation boundary\<close>

record outcome =
  oc_result :: string
  oc_action :: string
  oc_reason :: string
  oc_reason_codes :: "string list"
  oc_issue :: "dict option"

definition mk_outcome :: "string \<Rightarrow> string \<Rightarrow> dict option \<Rightarrow> string \<Rightarrow> string list \<Rightarrow> outcome" where
  "mk_outcome action reason issue result codes = \<lparr>oc_result = result, oc_action = action, oc_reason = reason,
     oc_reason_codes = uniq codes, oc_issue = issue\<rparr>"

text \<open>A structural conflict: only reconciliation is offered.\<close>

definition conflict :: "string \<Rightarrow> dict option \<Rightarrow> outcome" where
  "conflict reason issue = mk_outcome ''RECONCILE'' reason issue ''BLOCK'' [reason]"

definition project_field :: "dict \<Rightarrow> string \<Rightarrow> dict \<Rightarrow> dict" where
  "project_field issue k l = (if dget l k = JNull \<and> dget issue k \<noteq> JNull then dput k (dget issue k) l else l)"

definition effective_lease :: "dict \<Rightarrow> dict \<Rightarrow> dict" where
  "effective_lease l issue = fold (project_field issue)
     [''heartbeat_at'', ''expires_at'', ''workspace_status'', ''workspace_id'', ''worker_id''] l"

definition is_recovery :: "dict \<Rightarrow> bool" where
  "is_recovery i = (dget i ''state'' = JStr ''RECOVERY'' \<or> dget i ''type'' = JStr ''recovery'')"

definition in_verification :: "dict \<Rightarrow> bool" where
  "in_verification i = (dget i ''state'' \<in> {JStr ''REVIEW'', JStr ''VERIFICATION''})"

definition state_in :: "string list \<Rightarrow> dict \<Rightarrow> bool res" where
  "state_in states i = in_set (dget i ''state'') states"

definition authorized :: "string \<Rightarrow> string \<Rightarrow> string \<Rightarrow> dict \<Rightarrow> string \<times> string list \<Rightarrow> outcome" where
  "authorized action reason refusal issue answer = (if fst answer \<noteq> ''ALLOW''
     then mk_outcome ''BLOCKED'' refusal (Some issue) (fst answer) (snd answer)
     else mk_outcome action reason (Some issue) ''ALLOW'' [])"

text \<open>One declared writer: its lease must match its issue, be fresh and own an active workspace.\<close>

definition continue_existing :: "json \<Rightarrow> dict option \<Rightarrow> int \<Rightarrow> int \<Rightarrow> dict \<Rightarrow> dict list \<Rightarrow> outcome res" where
  "continue_existing context ir now timeout l issues =
     (let matches = filter (\<lambda>i. py_str (dget i ''id'') = py_str (dget l ''issue_id'')) issues in
     bindE (if length matches \<noteq> 1 then Inr False else state_in LEASED_ISSUE_STATES (hd matches)) (\<lambda>ok.
     if \<not> ok then Inr (conflict ''LEASE_STATE_SPLIT_BRAIN'' None) else
     (let issue = hd matches; eff = effective_lease l issue in
      if id_text (dget issue ''lease_id'') \<noteq> id_text (dget l ''lease_id'')
        then Inr (conflict ''LEASE_IDENTITY_SPLIT_BRAIN'' (Some issue))
      else if strip (id_text (dget eff ''workspace_id'')) = []
        then Inr (conflict ''WORKSPACE_IDENTITY_NOT_VERIFIED'' (Some issue))
      else if id_text (dget issue ''workspace_id'') \<noteq> id_text (dget eff ''workspace_id'')
        then Inr (conflict ''WORKSPACE_IDENTITY_SPLIT_BRAIN'' (Some issue))
      else bindE (lease_freshness_errors (JObj eff) now timeout) (\<lambda>fs.
        if fs \<noteq> [] then Inr (mk_outcome ''RECONCILE'' ''EXPIRED_OR_INVALID_ACTIVE_LEASE'' (Some issue) ''BLOCK'' fs)
        else if dget eff ''workspace_status'' \<noteq> JStr ''ACTIVE''
          then Inr (conflict ''WORKSPACE_NOT_ACTIVE'' (Some issue))
        else bindE (permission_for context issue (if in_verification issue then ''test'' else ''edit'')
            (if is_recovery issue then Some ''recovery'' else if in_verification issue then Some ''verification'' else None)
            (\<not> is_recovery issue) ir) (\<lambda>answer.
          Inr (authorized ''CONTINUE_EXISTING'' ''ONE_ACTIVE_WRITER'' ''EXISTING_WORK_NOT_AUTHORIZED'' issue answer))))))"

definition continue_unfinished :: "json \<Rightarrow> dict option \<Rightarrow> dict \<Rightarrow> outcome res" where
  "continue_unfinished context ir issue = bindE (permission_for context issue
      (if is_recovery issue then ''edit'' else ''inspect'')
      (Some (if is_recovery issue then ''recovery'' else ''verification'')) (\<not> is_recovery issue) ir) (\<lambda>answer.
     Inr (authorized ''CONTINUE_REVIEW_OR_RECOVERY'' ''UNFINISHED_HIGHER_PRIORITY_FLOW''
       ''REVIEW_OR_RECOVERY_NOT_AUTHORIZED'' issue answer))"

definition nothing_claimable :: "json \<Rightarrow> outcome" where
  "nothing_claimable queue = (if list_ex (\<lambda>i. dget i ''state'' = JStr ''READY'') (queue_issues queue)
     then mk_outcome ''BLOCKED'' ''READY_ITEMS_NOT_CLAIMABLE'' None ''BLOCK'' [''READY_ITEMS_NOT_CLAIMABLE'']
     else mk_outcome ''ROADMAP_COMPLETE_OR_EMPTY'' ''NO_ACTIVE_OR_READY_ITEM'' None ''ALLOW'' [])"

definition claim_ready :: "json \<Rightarrow> json \<Rightarrow> dict option \<Rightarrow> int \<Rightarrow> outcome res" where
  "claim_ready queue context ir clock = bindE (common_safety_findings context True) (\<lambda>common.
     if common \<noteq> [] then Inr (mk_outcome ''BLOCKED'' ''SAFETY_PREFLIGHT_BLOCKED'' None ''BLOCK'' common) else
     bindE (choose_next queue context ir clock) (\<lambda>found.
     case found of
       None \<Rightarrow> Inr (nothing_claimable queue)
     | Some issue \<Rightarrow> if issue = [] then Inr (nothing_claimable queue)
         else bindE (permission_for context issue ''claim'' None True ir) (\<lambda>answer.
         Inr (authorized ''CLAIM_ONE_READY'' ''DETERMINISTIC_ROADMAP_ORDER'' ''CLAIM_NOT_AUTHORIZED'' issue answer))))"

definition declared_leases :: "json \<Rightarrow> dict list" where
  "declared_leases queue = filter (\<lambda>l. dget_or l ''status'' ACTIVE = ACTIVE) (queue_leases queue)"

definition authorize_next_action :: "json \<Rightarrow> json \<Rightarrow> dict option \<Rightarrow> int \<Rightarrow> int \<Rightarrow> int \<Rightarrow> outcome res" where
  "authorize_next_action queue context ir now timeout clock =
     (let errors = queue_contract_errors queue; issues = queue_issues queue in
     if errors \<noteq> [] then Inr (mk_outcome ''BLOCKED'' ''QUEUE_CONTRACT_INVALID'' None ''BLOCK'' errors)
     else if \<not> is_dict context
       then Inr (mk_outcome ''BLOCKED'' ''POLICY_CONTEXT_INVALID'' None ''BLOCK'' [''POLICY_CONTEXT_INVALID''])
     else (case declared_leases queue of
       [l] \<Rightarrow> continue_existing context ir now timeout l issues
     | _ # _ # _ \<Rightarrow> Inr (conflict ''MULTIPLE_ACTIVE_WRITERS'' None)
     | [] \<Rightarrow>
        bindE (filterE (state_in ACTIVE_ISSUE_STATES) issues) (\<lambda>found. bindE (sort_issues found) (\<lambda>orphaned.
        if orphaned \<noteq> [] then Inr (conflict ''ACTIVE_ISSUE_WITHOUT_LEASE'' (Some (hd orphaned))) else
        bindE (filterE (state_in [''REVIEW'', ''VERIFICATION'', ''RECOVERY'']) issues) (\<lambda>found.
        bindE (sort_issues found) (\<lambda>higher.
        if higher \<noteq> [] then continue_unfinished context ir (hd higher)
        else claim_ready queue context ir clock))))))"

definition continue_decision :: "json \<Rightarrow> json \<Rightarrow> dict option \<Rightarrow> int \<Rightarrow> outcome res" where
  "continue_decision queue context ir clock =
     authorize_next_action queue context ir clock DEFAULT_HEARTBEAT_TIMEOUT_MINUTES clock"

section \<open>Facts\<close>

lemma mk_outcome_simps [simp]:
  "oc_result (mk_outcome a r i x cs) = x" "oc_action (mk_outcome a r i x cs) = a"
  "oc_issue (mk_outcome a r i x cs) = i" "oc_reason (mk_outcome a r i x cs) = r"
  by (simp_all add: mk_outcome_def)

lemma conflict_simps [simp]: "oc_result (conflict r i) = ''BLOCK''" "oc_action (conflict r i) = ''RECONCILE''"
  by (simp_all add: conflict_def)

text \<open>A policy that allows an action on an issue, after a clean preflight.\<close>

definition allowed_work :: "json \<Rightarrow> dict option \<Rightarrow> dict \<Rightarrow> string \<Rightarrow> json \<Rightarrow> bool \<Rightarrow> bool" where
  "allowed_work context ir issue action work_type require_control =
     (common_safety_findings context require_control = Inr []
      \<and> (\<exists>d. ask_policy (dict_of context) issue action work_type ir = Inr d \<and> d_result d = ''ALLOW''))"

lemma permission_for_allow:
  assumes "permission_for context issue action w rc ir = Inr answer" "fst answer = ''ALLOW''"
  shows "allowed_work context ir issue action (case w of Some t \<Rightarrow> JStr t | None \<Rightarrow> issue_type issue) rc"
  using assms unfolding permission_for_def allowed_work_def
  by (auto elim!: bindE_InrE split: if_split_asm simp: catchE_eq_Inr)

lemma authorized_allow: "oc_result (authorized a r x i answer) = ''ALLOW'' \<Longrightarrow>
   fst answer = ''ALLOW'' \<and> oc_action (authorized a r x i answer) = a \<and> oc_issue (authorized a r x i answer) = Some i"
  by (auto simp: authorized_def split: if_split_asm)

lemma sort_issues_least:
  assumes "sort_issues xs = Inr ys" "ys \<noteq> []"
  shows "hd ys \<in> set xs \<and> (\<exists>k. issue_sort_key (hd ys) = Inr k \<and>
     (\<forall>x \<in> set xs. \<exists>k'. issue_sort_key x = Inr k' \<and> k \<le> k'))"
proof -
  obtain ks where ks: "list_all2 (\<lambda>x k. issue_sort_key x = Inr k) xs ks" "ys = map snd (sort_key fst (zip ks xs))"
    using assms(1) by (auto simp: sort_issues_def mapE_eq_Inr elim!: bindE_InrE)
  let ?z = "sort_key fst (zip ks xs)"
  have z: "set ?z = set (zip ks xs)" and s: "sorted (map fst ?z)" by simp_all
  have ne: "?z \<noteq> []" using assms(2) ks(2) by auto
  then obtain k x r where h: "?z = (k, x) # r" by (cases ?z) auto
  have pair: "issue_sort_key x' = Inr k'" if "(k', x') \<in> set (zip ks xs)" for k' x'
    using that ks(1) by (auto simp: list_all2_conv_all_nth set_zip)
  have "(k, x) \<in> set (zip ks xs)" using h z by (metis list.set_intros(1))
  moreover have "\<exists>k'. issue_sort_key x' = Inr k' \<and> k \<le> k'" if x': "x' \<in> set xs" for x'
  proof -
    obtain i where i: "i < length xs" "x' = xs ! i" using x' by (auto simp: in_set_conv_nth)
    then have m: "(ks ! i, x') \<in> set ?z" using ks(1) unfolding z by (auto simp: list_all2_conv_all_nth set_zip)
    have "k \<le> ks ! i" using s m by (auto simp: h)
    then show ?thesis using pair m unfolding z by blast
  qed
  ultimately show ?thesis using pair ks(2) h by (auto dest: set_zip_rightD)
qed

lemma sort_issues_Nil: "sort_issues xs = Inr [] \<Longrightarrow> xs = []"
  by (auto simp: sort_issues_def mapE_eq_Inr elim!: bindE_InrE dest!: list_all2_lengthD)
    (metis length_0_conv length_sort length_zip list.size(3) min.idem)

text \<open>The chosen issue: one of the queue, claimable, and least in the roadmap order.\<close>

lemma choose_next_least:
  assumes "choose_next queue context ir clock = Inr (Some i)"
  shows "\<exists>ls k. active_leases (map JObj (queue_leases queue)) clock = Inr ls
    \<and> i \<in> set (queue_issues queue) \<and> claimable ls (dict_of context) ir clock i = Inr True
    \<and> issue_sort_key i = Inr k
    \<and> (\<forall>j \<in> set (queue_issues queue). claimable ls (dict_of context) ir clock j = Inr True \<longrightarrow>
         (\<exists>k'. issue_sort_key j = Inr k' \<and> k \<le> k'))"
proof -
  obtain ls candidates s where c: "active_leases (map JObj (queue_leases queue)) clock = Inr ls"
    "filterE (claimable ls (dict_of context) ir clock) (queue_issues queue) = Inr candidates"
    "candidates \<noteq> []" "sort_issues candidates = Inr s" "i = hd s"
    using assms unfolding choose_next_def by (auto elim!: bindE_InrE split: if_split_asm)
  have "s \<noteq> []" using c(3,4) sort_issues_Nil by blast
  from sort_issues_least [OF c(4) this] show ?thesis
    using c(1,2) by (auto simp: c(5) filterE_eq_Inr)
qed

lemma continue_existing_allow:
  assumes "continue_existing context ir now timeout l issues = Inr oc" "oc_result oc = ''ALLOW''"
  shows "oc_action oc = ''CONTINUE_EXISTING'' \<and> (\<exists>i. oc_issue oc = Some i
    \<and> filter (\<lambda>j. py_str (dget j ''id'') = py_str (dget l ''issue_id'')) issues = [i]
    \<and> state_in LEASED_ISSUE_STATES i = Inr True
    \<and> id_text (dget i ''lease_id'') = id_text (dget l ''lease_id'')
    \<and> lease_freshness_errors (JObj (effective_lease l i)) now timeout = Inr []
    \<and> dget (effective_lease l i) ''workspace_status'' = JStr ''ACTIVE''
    \<and> allowed_work context ir i (if in_verification i then ''test'' else ''edit'')
        (if is_recovery i then JStr ''recovery'' else if in_verification i then JStr ''verification'' else issue_type i) (\<not> is_recovery i))"
proof -
  define matches where "matches = filter (\<lambda>i. py_str (dget i ''id'') = py_str (dget l ''issue_id'')) issues"
  note d = assms(1) [unfolded continue_existing_def Let_def matches_def [symmetric]]
  obtain i where m: "matches = [i]" "state_in LEASED_ISSUE_STATES i = Inr True"
    using d assms(2) by (auto elim!: bindE_InrE split: if_split_asm simp: length_Suc_conv)
  let ?action = "if in_verification i then ''test'' else ''edit''"
  let ?w = "if is_recovery i then Some ''recovery'' else if in_verification i then Some ''verification'' else None"
  obtain answer where a: "id_text (dget i ''lease_id'') = id_text (dget l ''lease_id'')"
    "lease_freshness_errors (JObj (effective_lease l i)) now timeout = Inr []"
    "dget (effective_lease l i) ''workspace_status'' = JStr ''ACTIVE''"
    "permission_for context i ?action ?w (\<not> is_recovery i) ir = Inr answer"
    "oc = authorized ''CONTINUE_EXISTING'' ''ONE_ACTIVE_WRITER'' ''EXISTING_WORK_NOT_AUTHORIZED'' i answer"
    using d assms(2) m by (auto elim!: bindE_InrE split: if_split_asm)
  note b = authorized_allow [OF assms(2) [unfolded a(5)]]
  show ?thesis
    using m a b permission_for_allow [OF a(4) conjunct1 [OF b]] unfolding matches_def
    by (intro conjI exI [of _ i]) (auto split: if_split_asm)
qed

lemma continue_unfinished_allow:
  assumes "continue_unfinished context ir issue = Inr oc" "oc_result oc = ''ALLOW''"
  shows "oc_action oc = ''CONTINUE_REVIEW_OR_RECOVERY'' \<and> oc_issue oc = Some issue
    \<and> allowed_work context ir issue (if is_recovery issue then ''edit'' else ''inspect'')
        (JStr (if is_recovery issue then ''recovery'' else ''verification'')) (\<not> is_recovery issue)"
proof -
  obtain answer where a: "permission_for context issue (if is_recovery issue then ''edit'' else ''inspect'')
      (Some (if is_recovery issue then ''recovery'' else ''verification'')) (\<not> is_recovery issue) ir = Inr answer"
    "oc = authorized ''CONTINUE_REVIEW_OR_RECOVERY'' ''UNFINISHED_HIGHER_PRIORITY_FLOW'' ''REVIEW_OR_RECOVERY_NOT_AUTHORIZED'' issue answer"
    using assms(1) unfolding continue_unfinished_def by (auto elim!: bindE_InrE)
  note b = authorized_allow [OF assms(2) [unfolded a(2)]]
  show ?thesis using a b permission_for_allow [OF a(1)] by auto
qed

lemma claim_ready_allow:
  assumes "claim_ready queue context ir clock = Inr oc" "oc_result oc = ''ALLOW''"
  shows "oc_action oc = ''ROADMAP_COMPLETE_OR_EMPTY'' \<and> oc_issue oc = None
      \<and> \<not> list_ex (\<lambda>i. dget i ''state'' = JStr ''READY'') (queue_issues queue)
    \<or> oc_action oc = ''CLAIM_ONE_READY'' \<and> (\<exists>i. oc_issue oc = Some i
      \<and> choose_next queue context ir clock = Inr (Some i)
      \<and> allowed_work context ir i ''claim'' (issue_type i) True)"
proof -
  have n: "nothing_claimable queue = oc \<Longrightarrow> ?thesis"
    using assms(2) by (auto simp: nothing_claimable_def split: if_split_asm)
  obtain found where f: "choose_next queue context ir clock = Inr found"
    and c: "(case found of None \<Rightarrow> Inr (nothing_claimable queue)
     | Some issue \<Rightarrow> if issue = [] then Inr (nothing_claimable queue)
         else bindE (permission_for context issue ''claim'' None True ir) (\<lambda>answer.
         Inr (authorized ''CLAIM_ONE_READY'' ''DETERMINISTIC_ROADMAP_ORDER'' ''CLAIM_NOT_AUTHORIZED'' issue answer))) = Inr oc"
    using assms unfolding claim_ready_def by (elim bindE_InrE) (auto split: if_split_asm elim!: bindE_InrE)
  show ?thesis
  proof (cases "found = None \<or> found = Some []")
    case True then show ?thesis using c n by auto
  next
    case False
    then obtain i answer where a: "found = Some i" "permission_for context i ''claim'' None True ir = Inr answer"
      "oc = authorized ''CLAIM_ONE_READY'' ''DETERMINISTIC_ROADMAP_ORDER'' ''CLAIM_NOT_AUTHORIZED'' i answer"
      using c by (auto elim!: bindE_InrE split: option.splits)
    note b = authorized_allow [OF assms(2) [unfolded a(3)]]
    show ?thesis using f a b permission_for_allow [OF a(2)] by auto
  qed
qed

text \<open>The three ways to an outcome that is neither a refusal nor a conflict.\<close>

lemma authorize_allow_cases:
  assumes "authorize_next_action queue context ir now timeout clock = Inr oc" "oc_result oc = ''ALLOW''"
  obtains (existing) l where "declared_leases queue = [l]"
      "continue_existing context ir now timeout l (queue_issues queue) = Inr oc"
  | (unfinished) i where "declared_leases queue = []" "i \<in> set (queue_issues queue)"
      "continue_unfinished context ir i = Inr oc"
  | (claim) "declared_leases queue = []" "\<forall>i \<in> set (queue_issues queue). state_in LEASED_ISSUE_STATES i = Inr False"
      "claim_ready queue context ir clock = Inr oc"
proof (cases "declared_leases queue")
  case Nil
  obtain o1 o2 h1 h2 where s: "filterE (state_in ACTIVE_ISSUE_STATES) (queue_issues queue) = Inr o1"
    "sort_issues o1 = Inr o2" "o2 = []"
    "filterE (state_in [''REVIEW'', ''VERIFICATION'', ''RECOVERY'']) (queue_issues queue) = Inr h1"
    "sort_issues h1 = Inr h2"
    "(if h2 \<noteq> [] then continue_unfinished context ir (hd h2) else claim_ready queue context ir clock) = Inr oc"
    using assms Nil unfolding authorize_next_action_def Let_def
    by (auto elim!: bindE_InrE split: if_split_asm)
  show ?thesis
  proof (cases "h2 = []")
    case True
    have "o1 = []" "h1 = []" using s sort_issues_Nil True by blast+
    then have "\<forall>i \<in> set (queue_issues queue). state_in LEASED_ISSUE_STATES i = Inr False"
      using s by (auto simp: filterE_Nil_iff state_in_def in_set_def LEASED_ISSUE_STATES_def split: if_split_asm json.splits)
    then show ?thesis using claim Nil s True by simp
  next
    case False
    then have "hd h2 \<in> set h1" using sort_issues_least [OF s(5)] by blast
    then show ?thesis using unfinished Nil s False by (auto simp: filterE_eq_Inr)
  qed
next
  case (Cons l ls)
  then have "ls = []" using assms unfolding authorize_next_action_def Let_def
    by (cases ls) (auto split: if_split_asm)
  then show ?thesis using existing assms Cons unfolding authorize_next_action_def Let_def
    by (auto split: if_split_asm)
qed

lemma authorize_allow_contract:
  assumes "authorize_next_action queue context ir now timeout clock = Inr oc" "oc_result oc = ''ALLOW''"
  shows "queue_contract_errors queue = []"
  using assms unfolding authorize_next_action_def Let_def by (auto split: if_split_asm)

lemma choose_next_in: "choose_next queue context ir clock = Inr (Some i) \<Longrightarrow> i \<in> set (queue_issues queue)"
  using choose_next_least by blast

text \<open>What a preflight without findings shows.\<close>

lemma preflight_clean:
  assumes "common_safety_findings context require_control = Inr []"
  shows "\<exists>c h. context = JObj c \<and> dget c ''health'' = JObj h
    \<and> in_set (dget h ''package_integrity'') SAFE_HEALTH = Inr True \<and> in_set (dget h ''config_health'') SAFE_HEALTH = Inr True
    \<and> (require_control \<longrightarrow> in_set (dget h ''control_plane_health'') SAFE_HEALTH = Inr True)
    \<and> dget c ''provider_allowed'' = JBool True \<and> dget c ''provider_potentially_paid'' = JBool False
    \<and> py_float (dget c ''projected_cost'') = Inr (Fin 0) \<and> dget c ''writer_conflict'' \<noteq> JBool True"
  using assms unfolding common_safety_findings_def
  by (auto simp: bindE_eq_Inr not_safe_def cost_findings_def flagE_def split: json.splits if_split_asm)

text \<open>The context the policy decided on when it allowed an action on an issue.\<close>

lemma asked_context:
  assumes "ask_policy context issue action w ir = Inr d"
  shows "\<exists>dc. context_from_dict (dput ''work_type'' w (dput ''risk'' (dget_or issue ''risk'' (JStr ''UNKNOWN'')) (dput ''action'' (JStr action) context))) = Inr dc
    \<and> dc_action dc = JStr action \<and> dc_risk dc = dget_or issue ''risk'' (JStr ''UNKNOWN'') \<and> dc_work_type dc = w
    \<and> evaluate_permission dc ir = Inr d"
proof -
  from assms obtain dc where dc: "context_from_dict (dput ''work_type'' w (dput ''risk'' (dget_or issue ''risk'' (JStr ''UNKNOWN''))
      (dput ''action'' (JStr action) context))) = Inr dc" "evaluate_permission dc ir = Inr d" unfolding ask_policy_def by (elim bindE_InrE)
  then have "dc_action dc = JStr action \<and> dc_risk dc = dget_or issue ''risk'' (JStr ''UNKNOWN'') \<and> dc_work_type dc = w"
    by (auto simp: context_from_dict_def Let_def bindE_eq_Inr dget_def dget_or_def map_of_dput split: if_split_asm)
  with dc show ?thesis by blast
qed

text \<open>
  C16. No work without permission.  When the decision names an issue and allows work on it, the queue
  satisfies its contract, the issue is one of the queue and at most one lease is declared active.  The decision is a
  claim, with no lease active, or a continuation, and the policy engine itself allowed the very action it stands for, with the risk
  of this issue: \<open>claim\<close> under the issue's own work type for a claim; for the owned issue \<open>test\<close> while it is in review or
  verification and \<open>edit\<close> otherwise; for an unfinished one \<open>inspect\<close>, or \<open>edit\<close> in recovery.  And the safety preflight found the
  health of the package, of the configuration and, but for recovery work, of the control plane safe, the provider allowed and free, a
  cost of zero and no writer conflict.
\<close>

theorem work_is_permitted:
  assumes "authorize_next_action queue context ir now timeout clock = Inr oc" "oc_result oc = ''ALLOW''"
    "oc_issue oc = Some i"
  shows "queue_contract_errors queue = [] \<and> i \<in> set (queue_issues queue) \<and> length (declared_leases queue) \<le> 1
    \<and> (\<exists>action w dc d c h.
        (oc_action oc = ''CLAIM_ONE_READY'' \<and> declared_leases queue = [] \<and> action = ''claim'' \<and> w = dget_or i ''type'' (JStr ''feature'')
         \<or> oc_action oc = ''CONTINUE_EXISTING'' \<and> action = (if dget i ''state'' \<in> {JStr ''REVIEW'', JStr ''VERIFICATION''} then ''test'' else ''edit'')
           \<and> w = (if is_recovery i then JStr ''recovery'' else if dget i ''state'' \<in> {JStr ''REVIEW'', JStr ''VERIFICATION''} then JStr ''verification''
                  else dget_or i ''type'' (JStr ''feature''))
         \<or> oc_action oc = ''CONTINUE_REVIEW_OR_RECOVERY'' \<and> declared_leases queue = [] \<and> action = (if is_recovery i then ''edit'' else ''inspect'')
           \<and> w = (if is_recovery i then JStr ''recovery'' else JStr ''verification''))
      \<and> context = JObj c \<and> dget c ''health'' = JObj h
      \<and> context_from_dict (dput ''work_type'' w (dput ''risk'' (dget_or i ''risk'' (JStr ''UNKNOWN'')) (dput ''action'' (JStr action) c))) = Inr dc
      \<and> dc_action dc = JStr action \<and> dc_risk dc = dget_or i ''risk'' (JStr ''UNKNOWN'') \<and> dc_work_type dc = w
      \<and> evaluate_permission dc ir = Inr d \<and> d_result d = ''ALLOW''
      \<and> in_set (dget h ''package_integrity'') SAFE_HEALTH = Inr True \<and> in_set (dget h ''config_health'') SAFE_HEALTH = Inr True
      \<and> (oc_action oc \<noteq> ''CLAIM_ONE_READY'' \<and> is_recovery i \<or> in_set (dget h ''control_plane_health'') SAFE_HEALTH = Inr True)
      \<and> dget c ''provider_allowed'' = JBool True \<and> dget c ''provider_potentially_paid'' = JBool False
      \<and> py_float (dget c ''projected_cost'') = Inr (Fin 0) \<and> dget c ''writer_conflict'' \<noteq> JBool True)"
proof -
  have permitted: "\<exists>dc d c h. context = JObj c \<and> dget c ''health'' = JObj h
      \<and> context_from_dict (dput ''work_type'' w (dput ''risk'' (dget_or i ''risk'' (JStr ''UNKNOWN'')) (dput ''action'' (JStr action) c))) = Inr dc
      \<and> dc_action dc = JStr action \<and> dc_risk dc = dget_or i ''risk'' (JStr ''UNKNOWN'') \<and> dc_work_type dc = w
      \<and> evaluate_permission dc ir = Inr d \<and> d_result d = ''ALLOW''
      \<and> in_set (dget h ''package_integrity'') SAFE_HEALTH = Inr True \<and> in_set (dget h ''config_health'') SAFE_HEALTH = Inr True
      \<and> (control \<longrightarrow> in_set (dget h ''control_plane_health'') SAFE_HEALTH = Inr True)
      \<and> dget c ''provider_allowed'' = JBool True \<and> dget c ''provider_potentially_paid'' = JBool False
      \<and> py_float (dget c ''projected_cost'') = Inr (Fin 0) \<and> dget c ''writer_conflict'' \<noteq> JBool True"
    if a: "allowed_work context ir i action w control" for action w control
  proof -
    obtain d where d: "common_safety_findings context control = Inr []" "ask_policy (dict_of context) i action w ir = Inr d" "d_result d = ''ALLOW''"
      using a unfolding allowed_work_def by blast
    from preflight_clean [OF d(1)] asked_context [OF d(2)] d(3) show ?thesis by auto
  qed
  let ?stands_for = "\<lambda>action w. oc_action oc = ''CLAIM_ONE_READY'' \<and> declared_leases queue = [] \<and> action = ''claim'' \<and> w = dget_or i ''type'' (JStr ''feature'')
     \<or> oc_action oc = ''CONTINUE_EXISTING'' \<and> action = (if dget i ''state'' \<in> {JStr ''REVIEW'', JStr ''VERIFICATION''} then ''test'' else ''edit'')
       \<and> w = (if is_recovery i then JStr ''recovery'' else if dget i ''state'' \<in> {JStr ''REVIEW'', JStr ''VERIFICATION''} then JStr ''verification''
              else dget_or i ''type'' (JStr ''feature''))
     \<or> oc_action oc = ''CONTINUE_REVIEW_OR_RECOVERY'' \<and> declared_leases queue = [] \<and> action = (if is_recovery i then ''edit'' else ''inspect'')
       \<and> w = (if is_recovery i then JStr ''recovery'' else JStr ''verification'')"
  have "i \<in> set (queue_issues queue) \<and> length (declared_leases queue) \<le> 1
    \<and> (\<exists>action w control. ?stands_for action w \<and> allowed_work context ir i action w control
        \<and> (control \<or> oc_action oc \<noteq> ''CLAIM_ONE_READY'' \<and> is_recovery i))"
    using assms(1,2)
  proof (cases rule: authorize_allow_cases)
    case (existing l)
    from continue_existing_allow [OF existing(2) assms(2)] assms(3) have
      e: "filter (\<lambda>j. py_str (dget j ''id'') = py_str (dget l ''issue_id'')) (queue_issues queue) = [i]" "oc_action oc = ''CONTINUE_EXISTING''"
        and a: "allowed_work context ir i (if in_verification i then ''test'' else ''edit'')
          (if is_recovery i then JStr ''recovery'' else if in_verification i then JStr ''verification'' else issue_type i) (\<not> is_recovery i)" by auto
    have "i \<in> set (filter (\<lambda>j. py_str (dget j ''id'') = py_str (dget l ''issue_id'')) (queue_issues queue))" unfolding e(1) by simp
    then have "i \<in> set (queue_issues queue)" by (simp only: set_filter mem_Collect_eq)
    then show ?thesis using e(2) existing(1) a unfolding in_verification_def issue_type_def
      by (intro conjI exI [of _ "if dget i ''state'' \<in> {JStr ''REVIEW'', JStr ''VERIFICATION''} then ''test'' else ''edit''"]
        exI [of _ "if is_recovery i then JStr ''recovery'' else if dget i ''state'' \<in> {JStr ''REVIEW'', JStr ''VERIFICATION''} then JStr ''verification''
              else dget_or i ''type'' (JStr ''feature'')"] exI [of _ "\<not> is_recovery i"]) simp_all
  next
    case (unfinished j)
    from continue_unfinished_allow [OF unfinished(3) assms(2)] assms(3) have
      e: "oc_action oc = ''CONTINUE_REVIEW_OR_RECOVERY''" "i = j"
        and a: "allowed_work context ir i (if is_recovery i then ''edit'' else ''inspect'')
          (JStr (if is_recovery i then ''recovery'' else ''verification'')) (\<not> is_recovery i)" by auto
    show ?thesis using e unfinished(1,2) a by (cases "is_recovery i") auto
  next
    case claim
    from claim_ready_allow [OF claim(3) assms(2)] assms(3) have
      e: "oc_action oc = ''CLAIM_ONE_READY''" "choose_next queue context ir clock = Inr (Some i)"
        and a: "allowed_work context ir i ''claim'' (issue_type i) True" by auto
    show ?thesis using e(1) choose_next_in [OF e(2)] claim(1) a unfolding issue_type_def by auto
  qed
  then obtain action w control where o': "i \<in> set (queue_issues queue)" "length (declared_leases queue) \<le> 1" "?stands_for action w"
     "allowed_work context ir i action w control" "control \<or> oc_action oc \<noteq> ''CLAIM_ONE_READY'' \<and> is_recovery i" by (elim conjE exE) simp
  from permitted [OF o'(4)] show ?thesis
    using o'(1,2,3,5) authorize_allow_contract [OF assms(1,2)] by blast
qed

text \<open>A queue of two ready issues and a context under which the first one by priority is claimed.\<close>

definition ready_item :: "string \<Rightarrow> string \<Rightarrow> dict" where
  "ready_item i p = [(''id'', JStr i), (''state'', JStr ''READY''), (''priority'', JStr p), (''risk'', JStr ''R1''),
     (''dependencies_resolved'', JBool True), (''ready_since'', JStr ''2026-01-01''),
     (''human_required'', JBool False), (''autonomy_allowed'', JBool True)]"

definition ready_queue :: json where
  "ready_queue = JObj [(''issues'', JList [JObj (ready_item ''i-2'' ''P2''), JObj (ready_item ''i-1'' ''P1'')])]"

definition claim_context :: json where
  "claim_context = JObj [(''autonomy'', JStr ''A3''),
     (''health'', JObj [(''package_integrity'', JStr ''VERIFIED''), (''config_health'', JStr ''VERIFIED''),
        (''control_plane_health'', JStr ''HEALTHY''), (''product_health'', JStr ''HEALTHY'')]),
     (''evidence_fresh'', JBool True), (''provider_allowed'', JBool True),
     (''provider_potentially_paid'', JBool False), (''projected_cost'', JInt 0)]"

definition sample_decision_context :: "string \<Rightarrow> decision_context" where
  "sample_decision_context action = \<lparr>
     dc_action = JStr action, dc_autonomy = JStr ''A3'', dc_risk = JStr ''R1'', dc_max_autonomous_risk = JStr ''R1'',
     dc_work_type = JStr ''feature'', dc_health = dget (dict_of claim_context) ''health'', dc_gates = JObj [],
     dc_required_gates = [], dc_exact_sha = JBool False, dc_evidence_fresh = JBool True, dc_human_approved = JBool False,
     dc_destructive = JBool False, dc_trust_change = JBool False, dc_writer_conflict = JBool False,
     dc_provider_allowed = JBool True, dc_provider_potentially_paid = JBool False, dc_projected_cost = JInt 0,
     dc_expected_policy_hash = JNull, dc_provider_facts_fresh = JBool True, dc_owner_acceptance_exact = JBool False\<rparr>"

lemma sample_from_dict: "context_from_dict (dput ''work_type'' (JStr ''feature'') (dput ''risk'' (JStr ''R1'')
    (dput ''action'' (JStr action) (dict_of claim_context)))) = Inr (sample_decision_context action)"
  by (simp add: sample_decision_context_def context_from_dict_def claim_context_def keys_beyond_def dkeys_def
      dput_def CONTEXT_FIELDS_def Let_def dhas_def)

lemma sample_allowed: "action \<in> {''claim'', ''edit''} \<Longrightarrow>
    evaluate_permission (sample_decision_context action) None = Inr (mk_decision ''ALLOW'' [] None)"
  by (elim insertE emptyE; simp only:; code_simp)
lemma sample_policy:
  assumes "dget_or i ''risk'' (JStr ''UNKNOWN'') = JStr ''R1''" "action \<in> {''claim'', ''edit''}"
  shows "\<exists>d. ask_policy (dict_of claim_context) i action (JStr ''feature'') None = Inr d \<and> d_result d = ''ALLOW'' \<and> d_reason_codes d = []"
  using sample_allowed [OF assms(2)] by (simp add: ask_policy_def assms(1) sample_from_dict mk_decision_def)

lemma sample_preflight: "common_safety_findings claim_context True = Inr []"
proof -
  have "\<not> overflow_bound \<le> 0" by (simp add: overflow_bound_def)
  then show ?thesis by (simp add: common_safety_findings_def claim_context_def not_safe_def SAFE_HEALTH_def cost_findings_def is_number_def flagE_def)
qed

lemma sample_permission:
  assumes "dget_or i ''risk'' (JStr ''UNKNOWN'') = JStr ''R1''" "issue_type i = JStr ''feature''" "action \<in> {''claim'', ''edit''}"
  shows "permission_for claim_context i action None True None = Inr (''ALLOW'', [])"
  using sample_policy [OF assms(1,3)] by (auto simp: permission_for_def sample_preflight assms(2))

lemma sample_claimable: "claimable [] (dict_of claim_context) None 0 (ready_item i p) = Inr True"
proof -
  have r: "dget_or (ready_item i p) ''risk'' (JStr ''UNKNOWN'') = JStr ''R1''" "issue_type (ready_item i p) = JStr ''feature''"
    by (simp_all add: ready_item_def issue_type_def)
  have "conflict_domains (JObj (ready_item i p)) [] 0 = Inr []"
    by (simp add: conflict_domains_def ready_item_def hash_listE_def active_leases_def sortedE_def)
  then show ?thesis using sample_policy [OF r(1), of "''claim''"]
    by (auto simp: claimable_def claimable_shape_def ready_item_def issue_type_def)
qed

lemma sample_keys:
  "issue_sort_key (ready_item ''i-1'' ''P1'') = Inr (1, 1, 999999, 0, 1, ''2026-01-01'', ''i-1'')"
  "issue_sort_key (ready_item ''i-2'' ''P2'') = Inr (1, 2, 999999, 0, 1, ''2026-01-01'', ''i-2'')"
  by (simp_all add: issue_sort_key_def ready_item_def rank_ofE_def PRIORITY_RANK_def RISK_RANK_def)

lemma claim_context_dict: "is_dict claim_context"
  by (simp add: claim_context_def)

lemma sample_contents:
  "queue_contract_errors ready_queue = []" "declared_leases ready_queue = []" "queue_leases ready_queue = []"
  "queue_issues ready_queue = [ready_item ''i-2'' ''P2'', ready_item ''i-1'' ''P1'']"
  by code_simp+

lemma sample_choice: "authorize_next_action ready_queue claim_context None 0 45 0
   = Inr (mk_outcome ''CLAIM_ONE_READY'' ''DETERMINISTIC_ROADMAP_ORDER'' (Some (ready_item ''i-1'' ''P1'')) ''ALLOW'' [])"
proof -
  have f: "choose_next ready_queue claim_context None 0 = Inr (Some (ready_item ''i-1'' ''P1''))"
    by (simp add: choose_next_def sample_contents sample_preflight active_leases_def sample_claimable sort_issues_def sample_keys)
  have "claim_ready ready_queue claim_context None 0
   = Inr (mk_outcome ''CLAIM_ONE_READY'' ''DETERMINISTIC_ROADMAP_ORDER'' (Some (ready_item ''i-1'' ''P1'')) ''ALLOW'' [])"
    by (simp add: claim_ready_def f sample_preflight sample_permission issue_type_def authorized_def) (simp add: ready_item_def sample_permission issue_type_def)
  moreover have "state_in S (ready_item i p) = Inr (''READY'' \<in> set S)" for S i p
    by (simp add: state_in_def ready_item_def)
  ultimately show ?thesis
    by (simp add: authorize_next_action_def Let_def sample_contents claim_context_dict ACTIVE_ISSUE_STATES_def sort_issues_def)
qed

lemma work_is_permitted_witness:
  "\<exists>dc d. dc_action dc = JStr ''claim'' \<and> dc_work_type dc = JStr ''feature'' \<and> evaluate_permission dc None = Inr d \<and> d_result d = ''ALLOW''"
  using work_is_permitted [OF sample_choice] by (auto simp: ready_item_def)

text \<open>
  C17. A claim never joins a writer: the decision to claim is taken only when no lease is declared active
  and no issue of the queue is in a state that a lease would own, and the issue it names is the least
  claimable one in the roadmap order (recovery first, then priority, order, score, risk, age, id).
\<close>

theorem claim_takes_the_first_ready_issue:
  assumes "authorize_next_action queue context ir now timeout clock = Inr oc" "oc_result oc = ''ALLOW''"
    "oc_action oc = ''CLAIM_ONE_READY''"
  shows "declared_leases queue = [] \<and> (\<forall>j \<in> set (queue_issues queue). state_in LEASED_ISSUE_STATES j = Inr False)
    \<and> (\<exists>i ls k. oc_issue oc = Some i \<and> i \<in> set (queue_issues queue)
        \<and> active_leases (map JObj (queue_leases queue)) clock = Inr ls
        \<and> claimable ls (dict_of context) ir clock i = Inr True \<and> issue_sort_key i = Inr k
        \<and> (\<forall>j \<in> set (queue_issues queue). claimable ls (dict_of context) ir clock j = Inr True \<longrightarrow>
             (\<exists>k'. issue_sort_key j = Inr k' \<and> k \<le> k')))"
  using assms(1,2)
proof (cases rule: authorize_allow_cases)
  case (existing l)
  then show ?thesis using continue_existing_allow [OF existing(2) assms(2)] assms(3) by simp
next
  case (unfinished j)
  then show ?thesis using continue_unfinished_allow [OF unfinished(3) assms(2)] assms(3) by simp
next
  case claim
  from claim_ready_allow [OF claim(3) assms(2)] assms(3) obtain i where
    i: "oc_issue oc = Some i" "choose_next queue context ir clock = Inr (Some i)" by auto
  from choose_next_least [OF i(2)] i(1) claim(1,2) show ?thesis by auto
qed

lemma claim_takes_the_first_ready_issue_witness:
  "declared_leases ready_queue = [] \<and> (\<exists>k. issue_sort_key (ready_item ''i-1'' ''P1'') = Inr k)"
  using claim_takes_the_first_ready_issue [OF sample_choice] by auto

text \<open>
  Continuing has exactly one writer: existing work is continued only when the queue declares exactly one
  active lease, exactly one issue answers to it, the two name the same lease, the lease (completed from the
  issue) is fresh and its workspace is active.
\<close>

theorem continuation_has_one_fresh_writer:
  assumes "authorize_next_action queue context ir now timeout clock = Inr oc" "oc_result oc = ''ALLOW''"
    "oc_action oc = ''CONTINUE_EXISTING''"
  shows "\<exists>l i. declared_leases queue = [l] \<and> oc_issue oc = Some i
    \<and> filter (\<lambda>j. py_str (dget j ''id'') = py_str (dget l ''issue_id'')) (queue_issues queue) = [i]
    \<and> id_text (dget i ''lease_id'') = id_text (dget l ''lease_id'')
    \<and> lease_freshness_errors (JObj (effective_lease l i)) now timeout = Inr []
    \<and> dget (effective_lease l i) ''workspace_status'' = JStr ''ACTIVE''"
  using assms(1,2)
proof (cases rule: authorize_allow_cases)
  case (existing l)
  then show ?thesis using continue_existing_allow [OF existing(2) assms(2)] by auto
next
  case (unfinished j)
  then show ?thesis using continue_unfinished_allow [OF unfinished(3) assms(2)] assms(3) by simp
next
  case claim
  then show ?thesis using claim_ready_allow [OF claim(3) assms(2)] assms(3) by auto
qed

definition owned_item :: dict where
  "owned_item = [(''id'', JStr ''i-1''), (''state'', JStr ''IN_PROGRESS''), (''lease_id'', JStr ''l-1''),
     (''workspace_id'', JStr ''w-1''), (''workspace_status'', JStr ''ACTIVE''), (''risk'', JStr ''R1'')]"

definition owning_lease :: dict where
  "owning_lease = [(''lease_id'', JStr ''l-1''), (''issue_id'', JStr ''i-1''), (''status'', JStr ''ACTIVE''),
     (''heartbeat_at'', JStr ''2026-01-01T10:00:00Z''), (''expires_at'', JStr ''2026-01-01T12:00:00Z'')]"

definition owned_queue :: json where
  "owned_queue = JObj [(''issues'', JList [JObj owned_item]), (''leases'', JList [JObj owning_lease])]"

lemma sample_times: "parse_time ''2026-01-01T10:00:00Z'' = Inr 63902858400000000"
  "parse_time ''2026-01-01T12:00:00Z'' = Inr 63902865600000000"
  by code_simp+

lemma sample_continuation: "authorize_next_action owned_queue claim_context None 63902860200000000 45 0
   = Inr (mk_outcome ''CONTINUE_EXISTING'' ''ONE_ACTIVE_WRITER'' (Some owned_item) ''ALLOW'' [])"
proof -
  have c: "queue_contract_errors owned_queue = []" "declared_leases owned_queue = [owning_lease]"
    "queue_issues owned_queue = [owned_item]" by code_simp+
  have e: "effective_lease owning_lease owned_item = [(''lease_id'', JStr ''l-1''), (''issue_id'', JStr ''i-1''), (''status'', JStr ''ACTIVE''),
     (''heartbeat_at'', JStr ''2026-01-01T10:00:00Z''), (''expires_at'', JStr ''2026-01-01T12:00:00Z''),
     (''workspace_status'', JStr ''ACTIVE''), (''workspace_id'', JStr ''w-1'')]" by code_simp
  have i: "id_text (dget owned_item ''lease_id'') = ''l-1''" "id_text (dget owning_lease ''lease_id'') = ''l-1''"
    "id_text (dget owned_item ''workspace_id'') = ''w-1''" "strip ''w-1'' = ''w-1''"
    "py_str (dget owned_item ''id'') = ''i-1''" "py_str (dget owning_lease ''issue_id'') = ''i-1''"
    "state_in LEASED_ISSUE_STATES owned_item = Inr True" "\<not> in_verification owned_item" "\<not> is_recovery owned_item"
    "dget_or owned_item ''risk'' (JStr ''UNKNOWN'') = JStr ''R1''" "issue_type owned_item = JStr ''feature''"
    "id_text (JStr ''w-1'') = ''w-1''"
    by code_simp+
  have f: "lease_freshness_errors (JObj (effective_lease owning_lease owned_item)) 63902860200000000 45 = Inr []"
    by (simp add: e lease_freshness_errors_def declared_active_def expiry_errors_def heartbeat_errors_def
      time_field_def sample_times flagE_def ACTIVE_def)
  have g: "dget (effective_lease owning_lease owned_item) ''workspace_status'' = JStr ''ACTIVE''"
    "dget (effective_lease owning_lease owned_item) ''workspace_id'' = JStr ''w-1''"
    by (simp_all add: e)
  have p: "permission_for claim_context owned_item ''edit'' None True None = Inr (''ALLOW'', [])"
    using sample_permission [OF i(10,11), of "''edit''"] by simp
  have "continue_existing claim_context None 63902860200000000 45 owning_lease [owned_item]
    = Inr (mk_outcome ''CONTINUE_EXISTING'' ''ONE_ACTIVE_WRITER'' (Some owned_item) ''ALLOW'' [])"
    by (simp add: continue_existing_def Let_def i f g p authorized_def)
  then show ?thesis by (simp add: authorize_next_action_def Let_def c claim_context_dict)
qed

lemma continuation_has_one_fresh_writer_witness:
  "\<exists>l. declared_leases owned_queue = [l]
     \<and> lease_freshness_errors (JObj (effective_lease l owned_item)) 63902860200000000 45 = Inr []"
  using continuation_has_one_fresh_writer [OF sample_continuation] by auto

end
