(* ===== verification/Contracts.thy ===== *)
theory Contracts
  imports PyTime
begin

text \<open>
  The schema validator (\<open>.adwf/lib/contracts.py\<close>): the subset of JSON Schema the framework checks its
  contracts with.  A finding is its path and its code; the message texts, which no code reads, are left
  out.  \<open>search\<close> stands for \<open>re.search\<close> on the patterns the schemas carry (\<open>Inl\<close> for a pattern that does
  not compile).  Schemas are values of unknown type like the instances: a malformed schema raises
  where Python does.  The recursion always descends into the schema, which is its measure.
\<close>

section \<open>Findings and tables\<close>

type_synonym finding = "string \<times> string"

definition SUPPORTED_KEYWORDS :: "string list" where
  "SUPPORTED_KEYWORDS = [''$schema'', ''$id'', ''title'', ''description'', ''default'', ''examples'',
    ''type'', ''required'', ''properties'', ''additionalProperties'', ''enum'',
    ''const'', ''items'', ''minItems'', ''maxItems'', ''uniqueItems'', ''minLength'',
    ''maxLength'', ''minimum'', ''maximum'', ''pattern'', ''format'', ''anyOf'',
    ''oneOf'', ''allOf'']"

definition found :: "bool \<Rightarrow> string \<Rightarrow> string \<Rightarrow> finding list" where
  "found b path code = (if b then [(path, code)] else [])"

lemma found_simps [simp]: "found True p c = [(p, c)]" "found False p c = []" "found b p c = [] \<longleftrightarrow> \<not> b"
  by (simp_all add: found_def)

section \<open>Values against one keyword\<close>

text \<open>\<open>_is_number\<close>: \<open>math.isfinite\<close> raises on an integer beyond the doubles.\<close>

fun is_numberE :: "json \<Rightarrow> bool res" where
  "is_numberE (JInt i) = (if overflow_bound \<le> \<bar>of_int i\<bar> then Inl OverflowError else Inr True)"
| "is_numberE (JFloat f r) = Inr (case f of Fin _ \<Rightarrow> True | _ \<Rightarrow> False)"
| "is_numberE _ = Inr False"

text \<open>\<open>_matches_type\<close> builds the whole table, so the number test is made for every type.\<close>

definition matches_type :: "json \<Rightarrow> string \<Rightarrow> bool res" where
  "matches_type v t = bindE (is_numberE v) (\<lambda>num. Inr (
     t = ''null'' \<and> v = JNull \<or> t = ''boolean'' \<and> is_bool v \<or> t = ''integer'' \<and> strict_int v \<or>
     t = ''number'' \<and> num \<or> t = ''string'' \<and> is_str v \<or> t = ''array'' \<and> is_list v \<or> t = ''object'' \<and> is_dict v))"

primrec any_type :: "json \<Rightarrow> string list \<Rightarrow> bool res" where
  "any_type v [] = Inr False"
| "any_type v (t # ts) = bindE (matches_type v t) (\<lambda>b. if b then Inr True else any_type v ts)"

definition valid_datetime :: "string \<Rightarrow> bool" where
  "valid_datetime s = (fromisoformat (replace_Z s) \<noteq> None \<and> CHR ''T'' \<in> set s)"

text \<open>\<open>v in c\<close> for a container of unknown type, and \<open>a < b\<close>.\<close>

fun inE :: "json \<Rightarrow> json \<Rightarrow> bool res" where
  "inE v (JList xs) = Inr (list_ex (py_eq v) xs)"
| "inE v (JObj d) = in_set v (dkeys d)"
| "inE v (JStr s) = (case v of JStr t \<Rightarrow> Inr (contains s t) | _ \<Rightarrow> Inl TypeError)"
| "inE v _ = Inl TypeError"

definition num_lessE :: "json \<Rightarrow> json \<Rightarrow> bool res" where
  "num_lessE v w = (case (num_of v, num_of w) of
     (Some a, Some b) \<Rightarrow> Inr (a \<noteq> NaN \<and> b \<noteq> NaN \<and> a < b) | _ \<Rightarrow> Inl TypeError)"

text \<open>The type, \<open>const\<close> and \<open>enum\<close> keywords; the flag says that validation stops here.\<close>

definition type_findings :: "json \<Rightarrow> dict \<Rightarrow> string \<Rightarrow> (bool \<times> finding list) res" where
  "type_findings v s path = (case dget s ''type'' of JNull \<Rightarrow> Inr (False, []) | e \<Rightarrow>
     (let types = (case e of JList ts \<Rightarrow> ts | _ \<Rightarrow> [e]) in
      if types = [] \<or> \<not> list_all is_str types then Inr (True, [(path, ''invalid_schema_type'')])
      else bindE (any_type v (map str_of types)) (\<lambda>ok. Inr (\<not> ok, found (\<not> ok) path ''type''))))"

definition value_findings :: "json \<Rightarrow> dict \<Rightarrow> string \<Rightarrow> finding list res" where
  "value_findings v s path =
     bindE (case map_of s ''const'' of None \<Rightarrow> Inr [] | Some c \<Rightarrow> Inr (found (\<not> py_eq v c) path ''const'')) (\<lambda>xs.
     bindE (case map_of s ''enum'' of None \<Rightarrow> Inr []
            | Some e \<Rightarrow> bindE (inE v e) (\<lambda>b. Inr (found (\<not> b) path ''enum''))) (\<lambda>ys. Inr (xs @ ys)))"

text \<open>A limit keyword that is present compares with \<open>int\<close> of its value.\<close>

definition limitE :: "dict \<Rightarrow> string \<Rightarrow> (int \<Rightarrow> bool) \<Rightarrow> string \<Rightarrow> finding list res" where
  "limitE s k bad path = (case map_of s k of None \<Rightarrow> Inr []
     | Some v \<Rightarrow> bindE (py_int v) (\<lambda>n. Inr (found (bad n) path k)))"

definition string_findings :: "(string \<Rightarrow> string \<Rightarrow> bool res) \<Rightarrow> json \<Rightarrow> dict \<Rightarrow> string \<Rightarrow> finding list res" where
  "string_findings search v s path = (case v of JStr t \<Rightarrow> concatE [
     limitE s ''minLength'' (\<lambda>n. int (length t) < n) path,
     limitE s ''maxLength'' (\<lambda>n. n < int (length t)) path,
     (case map_of s ''pattern'' of None \<Rightarrow> Inr []
      | Some p \<Rightarrow> bindE (search (py_str p) t) (\<lambda>b. Inr (found (\<not> b) path ''pattern''))),
     (case map_of s ''format'' of None \<Rightarrow> Inr []
      | Some f \<Rightarrow> bindE (in_set f [''date-time'', ''sha256'']) (\<lambda>b. Inr (found (\<not> b) path ''unsupported_format''))),
     Inr (found (dget s ''format'' = JStr ''date-time'' \<and> \<not> valid_datetime t) path ''format''),
     Inr (found (dget s ''format'' = JStr ''sha256'' \<and> \<not> sha256_hex t) path ''format'')]
   | _ \<Rightarrow> Inr [])"

definition number_findings :: "json \<Rightarrow> dict \<Rightarrow> string \<Rightarrow> finding list res" where
  "number_findings v s path = bindE (is_numberE v) (\<lambda>num. if \<not> num then Inr [] else
     bindE (case map_of s ''minimum'' of None \<Rightarrow> Inr []
            | Some m \<Rightarrow> bindE (num_lessE v m) (\<lambda>b. Inr (found b path ''minimum''))) (\<lambda>xs.
     bindE (case map_of s ''maximum'' of None \<Rightarrow> Inr []
            | Some m \<Rightarrow> bindE (num_lessE m v) (\<lambda>b. Inr (found b path ''maximum''))) (\<lambda>ys. Inr (xs @ ys))))"

definition size_findings :: "json \<Rightarrow> dict \<Rightarrow> string \<Rightarrow> finding list res" where
  "size_findings v s path = (case v of JList xs \<Rightarrow> concatE [
     limitE s ''minItems'' (\<lambda>n. int (length xs) < n) path,
     limitE s ''maxItems'' (\<lambda>n. n < int (length xs)) path,
     Inr (found (truthy (dget s ''uniqueItems'') \<and> \<not> distinct (map (dumps '', '' '': '') xs)) path ''uniqueItems'')]
   | _ \<Rightarrow> Inr [])"

definition required_findings :: "json \<Rightarrow> dict \<Rightarrow> string \<Rightarrow> finding list res" where
  "required_findings v s path = (case v of JObj d \<Rightarrow>
     bindE (iterE (dget_or s ''required'' (JList []))) (\<lambda>ks.
     bindE (mapE (\<lambda>k. bindE (in_set k (dkeys d)) (\<lambda>b. Inr (found (\<not> b) (path @ ''.'' @ py_str k) ''required''))) ks)
       (\<lambda>xss. Inr (concat xss)))
   | _ \<Rightarrow> Inr [])"

definition unsupported_findings :: "dict \<Rightarrow> string \<Rightarrow> finding list" where
  "unsupported_findings s path = map (\<lambda>_. (path, ''unsupported_schema_keyword'')) (keys_beyond s SUPPORTED_KEYWORDS)"

section \<open>Subschemas\<close>

text \<open>\<open>key in properties\<close> and then \<open>properties[key]\<close>.\<close>

fun property_schema :: "json \<Rightarrow> string \<Rightarrow> json option res" where
  "property_schema (JObj p) k = Inr (map_of p k)"
| "property_schema (JList xs) k = (if JStr k \<in> set xs then Inl TypeError else Inr None)"
| "property_schema (JStr s) k = (if contains s k then Inl TypeError else Inr None)"
| "property_schema _ k = Inl TypeError"

text \<open>The schema that applies to a key: its property's, else the one of additional properties.\<close>

definition key_schema :: "dict \<Rightarrow> string \<Rightarrow> json option res" where
  "key_schema s k = bindE (property_schema (dget_or s ''properties'' (JObj [])) k) (\<lambda>p. Inr (case p of
     Some q \<Rightarrow> Some q
   | None \<Rightarrow> (case dget s ''additionalProperties'' of JObj a \<Rightarrow> Some (JObj a) | _ \<Rightarrow> None)))"

definition key_forbidden :: "dict \<Rightarrow> string \<Rightarrow> bool" where
  "key_forbidden s k = (property_schema (dget_or s ''properties'' (JObj [])) k = Inr None
     \<and> dget s ''additionalProperties'' = JBool False)"

text \<open>The branches of a combinator: a value without items raises, an item that is no dictionary is refused later.\<close>

fun branchesE :: "json \<Rightarrow> json list res" where
  "branchesE (JList bs) = Inr bs"
| "branchesE (JStr []) = Inr []"
| "branchesE (JStr _) = Inl AttributeError"
| "branchesE (JObj []) = Inr []"
| "branchesE (JObj _) = Inl AttributeError"
| "branchesE _ = Inl TypeError"

definition combine :: "string \<Rightarrow> string \<Rightarrow> finding list list \<Rightarrow> finding list" where
  "combine keyword path results = (let passed = length (filter (\<lambda>r. r = []) results) in
     if keyword = ''allOf'' then concat results
     else if keyword = ''anyOf'' then found (passed = 0) path ''anyOf''
     else found (passed \<noteq> 1) path ''oneOf'')"

text \<open>A schema that is no dictionary: \<open>set(schema)\<close> or \<open>schema.get\<close> raises.\<close>

fun bad_schema :: "json \<Rightarrow> exn" where
  "bad_schema (JStr _) = AttributeError"
| "bad_schema (JList xs) = (if \<not> list_all hashable xs then TypeError else
     (case sortedE (remdups (filter (\<lambda>x. \<not> in_tuple x SUPPORTED_KEYWORDS) xs)) of Inl e \<Rightarrow> e | Inr _ \<Rightarrow> AttributeError))"
| "bad_schema _ = TypeError"

lemma mapE_cong [fundef_cong]:
  "xs = ys \<Longrightarrow> (\<And>x. x \<in> set ys \<Longrightarrow> f x = g x) \<Longrightarrow> mapE f xs = mapE g ys"
  by (induction xs arbitrary: ys) (auto intro!: bindE_cong)

lemma member_size: "x \<in> set xs \<Longrightarrow> size x < Suc (size_list size xs)"
  by (induction xs) auto

lemma map_of_size: "map_of d k = Some v \<Longrightarrow> size v < size (JObj d)"
  by (induction d) (auto split: if_split_asm)

lemma dget_size: "dget d k \<noteq> JNull \<Longrightarrow> size (dget d k) < size (JObj d)"
  by (auto simp: dget_def map_of_size simp del: json.size split: option.splits)

lemma branch_size: "branchesE v = Inr bs \<Longrightarrow> b \<in> set bs \<Longrightarrow> size b < size v"
  by (cases v rule: branchesE.cases) (auto dest: member_size)

lemma combinator_size:
  assumes "map_of s k = Some v" "branchesE v = Inr bs" "b \<in> set bs"
  shows "size b < size (JObj s)"
  using branch_size [OF assms(2,3)] map_of_size [OF assms(1)] by simp

lemma key_schema_size: "key_schema s k = Inr (Some q) \<Longrightarrow> size q < size (JObj s)"
proof -
  assume a: "key_schema s k = Inr (Some q)"
  then obtain p where p: "property_schema (dget_or s ''properties'' (JObj [])) k = Inr p"
    "(case p of Some q \<Rightarrow> Some q | None \<Rightarrow> (case dget s ''additionalProperties'' of JObj a \<Rightarrow> Some (JObj a) | _ \<Rightarrow> None)) = Some q"
    by (auto simp: key_schema_def elim!: bindE_InrE)
  show ?thesis
  proof (cases p)
    case None
    then have "dget s ''additionalProperties'' = q" "q \<noteq> JNull" using p(2) by (auto split: json.splits)
    then show ?thesis using dget_size by metis
  next
    case (Some r)
    then obtain d where d: "dget_or s ''properties'' (JObj []) = JObj d" "map_of d k = Some q"
      using p by (cases "dget_or s ''properties'' (JObj [])") (auto split: if_split_asm)
    then have "dget s ''properties'' = JObj d" by (auto simp: dget_or_def dget_def split: option.splits)
    then show ?thesis using dget_size [of s "''properties''"] map_of_size [OF d(2)] by simp
  qed
qed

function validate :: "(string \<Rightarrow> string \<Rightarrow> bool res) \<Rightarrow> json \<Rightarrow> json \<Rightarrow> string \<Rightarrow> finding list res" where
  "validate search v schema path = (case schema of JObj s \<Rightarrow>
     bindE (type_findings v s path) (\<lambda>(stop, ts).
     if stop then Inr (unsupported_findings s path @ ts) else
     bindE (value_findings v s path) (\<lambda>vs.
     bindE (mapE (\<lambda>kw. case map_of s kw of None \<Rightarrow> Inr []
         | Some b \<Rightarrow> bindE (branchesE b) (\<lambda>bs.
             bindE (mapE (\<lambda>branch. validate search v branch path) bs) (\<lambda>rs. Inr (combine kw path rs))))
       [''allOf'', ''anyOf'', ''oneOf'']) (\<lambda>cs.
     bindE (required_findings v s path) (\<lambda>rq.
     bindE (mapE (\<lambda>(k, w). bindE (key_schema s k) (\<lambda>ks. case ks of
           Some q \<Rightarrow> validate search w q (path @ ''.'' @ k)
         | None \<Rightarrow> Inr (found (key_forbidden s k) (path @ ''.'' @ k) ''additionalProperties'')))
       (dict_of v)) (\<lambda>os.
     bindE (size_findings v s path) (\<lambda>ls.
     bindE (if \<not> is_dict (dget s ''items'') then Inr [] else
        mapE (\<lambda>(i, w). validate search w (dget s ''items'') (path @ ''['' @ nat_str i @ '']''))
       (zip [0..<length (list_of v)] (list_of v))) (\<lambda>is.
     bindE (string_findings search v s path) (\<lambda>ss.
     bindE (number_findings v s path) (\<lambda>ns.
       Inr (unsupported_findings s path @ ts @ vs @ concat cs @ rq @ concat os @ ls @ concat is @ ss @ ns))))))))))
   | _ \<Rightarrow> Inl (bad_schema schema))"
  by pat_completeness auto
termination
  by (relation "measure (\<lambda>(search, v, schema, path). size schema)")
    (auto intro: combinator_size key_schema_size dget_size simp del: json.size simp: is_dict_iff
      dest: combinator_size key_schema_size)

declare validate.simps [simp del]

section \<open>Well-formed schemas and their meaning\<close>

text \<open>Instances whose integers a double can hold.\<close>

fun fits :: "json \<Rightarrow> bool" where
  "fits (JInt i) = (\<bar>of_int i\<bar> < overflow_bound)"
| "fits (JList xs) = list_all fits xs"
| "fits (JObj d) = list_all (\<lambda>(k, v). fits v) d"
| "fits _ = True"

definition type_ok :: "json \<Rightarrow> bool" where
  "type_ok t = (case t of JNull \<Rightarrow> True | JStr _ \<Rightarrow> True | JList ts \<Rightarrow> ts \<noteq> [] \<and> list_all is_str ts | _ \<Rightarrow> False)"

definition opt_ok :: "(json \<Rightarrow> bool) \<Rightarrow> json option \<Rightarrow> bool" where
  "opt_ok p x = (case x of None \<Rightarrow> True | Some v \<Rightarrow> p v)"

definition shallow_ok :: "dict \<Rightarrow> bool" where
  "shallow_ok s = (type_ok (dget s ''type'') \<and> opt_ok is_list (map_of s ''enum'')
     \<and> list_all (\<lambda>k. opt_ok strict_int (map_of s k)) [''minItems'', ''maxItems'', ''minLength'', ''maxLength'']
     \<and> opt_ok hashable (map_of s ''format'')
     \<and> list_all (\<lambda>k. opt_ok (\<lambda>v. num_of v \<noteq> None) (map_of s k)) [''minimum'', ''maximum'']
     \<and> (case dget_or s ''required'' (JList []) of JList ks \<Rightarrow> list_all is_str ks | _ \<Rightarrow> False))"

function schema_ok :: "json \<Rightarrow> bool" where
  "schema_ok schema = (case schema of JObj s \<Rightarrow> shallow_ok s
     \<and> list_all (\<lambda>kw. case map_of s kw of None \<Rightarrow> True
          | Some b \<Rightarrow> (case b of JList bs \<Rightarrow> list_all schema_ok bs | _ \<Rightarrow> False)) [''allOf'', ''anyOf'', ''oneOf'']
     \<and> (case dget_or s ''properties'' (JObj []) of JObj p \<Rightarrow> list_all (\<lambda>(k, q). schema_ok q) p | _ \<Rightarrow> False)
     \<and> (if is_dict (dget s ''additionalProperties'') then schema_ok (dget s ''additionalProperties'') else True)
     \<and> (if is_dict (dget s ''items'') then schema_ok (dget s ''items'') else True)
   | _ \<Rightarrow> False)"
  by pat_completeness auto

lemma pair_size: "(k, v) \<in> set d \<Longrightarrow> size v < size (JObj d)"
  by (induction d) auto

lemma property_size: "dget_or s k (JObj []) = JObj p \<Longrightarrow> (k', q) \<in> set p \<Longrightarrow> size q < size (JObj s)"
  using map_of_size [of s k "JObj p"] pair_size [of k' q p] by (auto simp: dget_or_def simp del: json.size split: option.splits)

lemma listed_size: "map_of s k = Some (JList bs) \<Longrightarrow> b \<in> set bs \<Longrightarrow> size b < size (JObj s)"
  using combinator_size [of s k "JList bs" bs b] by simp

termination schema_ok
  by (relation "measure size")
    (auto intro: listed_size property_size dget_size simp del: json.size simp: is_dict_iff)

declare schema_ok.simps [simp del]

text \<open>
  The reference semantics: when a value conforms to a schema, without paths, findings or exceptions.
  It shares no check with the validator: the types are read off the constructors, the limits of numbers
  off the values, the known keywords, the formats and the schema of a key are written out.  \<open>m\<close> says whether a pattern
  matches a text.
\<close>

fun has_type :: "json \<Rightarrow> string \<Rightarrow> bool" where
  "has_type JNull t = (t = ''null'')"
| "has_type (JBool b) t = (t = ''boolean'')"
| "has_type (JInt i) t = (t = ''integer'' \<or> t = ''number'')"
| "has_type (JFloat (Fin q) r) t = (t = ''number'')"
| "has_type (JFloat _ r) t = False"
| "has_type (JStr u) t = (t = ''string'')"
| "has_type (JList xs) t = (t = ''array'')"
| "has_type (JObj d) t = (t = ''object'')"

definition type_conforms :: "json \<Rightarrow> json \<Rightarrow> bool" where
  "type_conforms v t = (t = JNull \<or> (\<exists>n \<in> set (case t of JList ts \<Rightarrow> map str_of ts | _ \<Rightarrow> [str_of t]).
     has_type v n))"

definition limit_conforms :: "dict \<Rightarrow> string \<Rightarrow> (int \<Rightarrow> bool) \<Rightarrow> bool" where
  "limit_conforms s k good = opt_ok (\<lambda>v. good (int_of v)) (map_of s k)"

definition text_conforms :: "(string \<Rightarrow> string \<Rightarrow> bool) \<Rightarrow> string \<Rightarrow> dict \<Rightarrow> bool" where
  "text_conforms m t s = (limit_conforms s ''minLength'' (\<lambda>n. n \<le> int (length t))
     \<and> limit_conforms s ''maxLength'' (\<lambda>n. int (length t) \<le> n)
     \<and> opt_ok (\<lambda>p. m (py_str p) t) (map_of s ''pattern'')
     \<and> opt_ok (\<lambda>f. f = JStr ''date-time'' \<and> CHR ''T'' \<in> set t
          \<and> fromisoformat (concat (map (\<lambda>c. if c = CHR ''Z'' then ''+00:00'' else [c]) t)) \<noteq> None
        \<or> f = JStr ''sha256'' \<and> length t = 64 \<and> set t \<subseteq> set ''0123456789abcdef'') (map_of s ''format''))"

definition items_conform :: "json list \<Rightarrow> dict \<Rightarrow> bool" where
  "items_conform xs s = (limit_conforms s ''minItems'' (\<lambda>n. n \<le> int (length xs))
     \<and> limit_conforms s ''maxItems'' (\<lambda>n. int (length xs) \<le> n)
     \<and> (truthy (dget s ''uniqueItems'') \<longrightarrow> distinct (map (dumps '', '' '': '') xs)))"

text \<open>Booleans and non-finite floats are no numbers, and nothing lies below or above a NaN.\<close>

definition between_limits :: "rat \<Rightarrow> dict \<Rightarrow> bool" where
  "between_limits q s = (opt_ok (\<lambda>lo. case num_of lo of Some (Fin l) \<Rightarrow> l \<le> q | Some PInf \<Rightarrow> False | _ \<Rightarrow> True) (map_of s ''minimum'')
    \<and> opt_ok (\<lambda>hi. case num_of hi of Some (Fin h) \<Rightarrow> q \<le> h | Some NInf \<Rightarrow> False | _ \<Rightarrow> True) (map_of s ''maximum''))"

fun number_conforms :: "json \<Rightarrow> dict \<Rightarrow> bool" where
  "number_conforms (JInt i) s = between_limits (of_int i) s"
| "number_conforms (JFloat (Fin q) r) s = between_limits q s"
| "number_conforms _ s = True"

text \<open>The keywords of the dialect by their kind.\<close>

definition annotations :: "string set" where
  "annotations = {''$schema'', ''$id'', ''title'', ''description'', ''default'', ''examples''}"

definition assertions :: "string set" where
  "assertions = {''type'', ''required'', ''enum'', ''const'', ''format'', ''pattern'', ''minItems'', ''maxItems'', ''uniqueItems'',
     ''minLength'', ''maxLength'', ''minimum'', ''maximum''}"

definition applicators :: "string set" where
  "applicators = {''properties'', ''additionalProperties'', ''items'', ''anyOf'', ''oneOf'', ''allOf''}"

lemma own_schema_size: "map_of (dict_of (dget_or s ''properties'' (JObj []))) k = Some q \<Longrightarrow> size q < size (JObj s)"
  using property_size [of s "''properties''"] by (cases "dget_or s ''properties'' (JObj [])") (auto simp del: json.size dest: map_of_SomeD)

lemma other_schema_size: "dget s k = JObj a \<Longrightarrow> size (JObj a) < size (JObj s)"
  using dget_size [of s k] by simp

function conforms :: "(string \<Rightarrow> string \<Rightarrow> bool) \<Rightarrow> json \<Rightarrow> json \<Rightarrow> bool" where
  "conforms m v schema = (case schema of JObj s \<Rightarrow>
     set (dkeys s) \<subseteq> annotations \<union> assertions \<union> applicators \<and> type_conforms v (dget s ''type'')
     \<and> opt_ok (py_eq v) (map_of s ''const'') \<and> opt_ok (\<lambda>e. list_ex (py_eq v) (list_of e)) (map_of s ''enum'')
     \<and> (case map_of s ''allOf'' of Some (JList bs) \<Rightarrow> list_all (conforms m v) bs | _ \<Rightarrow> True)
     \<and> (case map_of s ''anyOf'' of Some (JList bs) \<Rightarrow> list_ex (conforms m v) bs | _ \<Rightarrow> True)
     \<and> (case map_of s ''oneOf'' of Some (JList bs) \<Rightarrow> length (filter (conforms m v) bs) = 1 | _ \<Rightarrow> True)
     \<and> (is_dict v \<longrightarrow> set (list_of (dget_or s ''required'' (JList []))) \<subseteq> JStr ` set (dkeys (dict_of v)))
     \<and> list_all (\<lambda>(k, w). case map_of (dict_of (dget_or s ''properties'' (JObj []))) k of Some q \<Rightarrow> conforms m w q
         | None \<Rightarrow> (case dget s ''additionalProperties'' of JBool False \<Rightarrow> False | JObj a \<Rightarrow> conforms m w (JObj a) | _ \<Rightarrow> True)) (dict_of v)
     \<and> (is_list v \<longrightarrow> items_conform (list_of v) s)
     \<and> (if is_dict (dget s ''items'') then list_all (\<lambda>w. conforms m w (dget s ''items'')) (list_of v) else True)
     \<and> (is_str v \<longrightarrow> text_conforms m (str_of v) s) \<and> number_conforms v s
   | _ \<Rightarrow> False)"
  by pat_completeness auto
termination
  by (relation "measure (\<lambda>(m, v, schema). size schema)")
    (auto intro: listed_size own_schema_size other_schema_size dget_size simp del: json.size simp: is_dict_iff)

declare conforms.simps [simp del]

section \<open>Every well-formed schema decides\<close>

text \<open>A check that returns, and finds nothing exactly when a condition holds.\<close>

definition decides :: "'a list res \<Rightarrow> bool \<Rightarrow> bool" where
  "decides r P = (\<exists>fs. r = Inr fs \<and> (fs = [] \<longleftrightarrow> P))"

lemma decides_Inr [simp]: "decides (Inr fs) P \<longleftrightarrow> (fs = [] \<longleftrightarrow> P)"
  by (simp add: decides_def)

lemma decides_cong: "decides r P \<Longrightarrow> P = Q \<Longrightarrow> decides r Q"
  by simp

lemma decides_append:
  "decides a P \<Longrightarrow> decides b Q \<Longrightarrow> decides (bindE a (\<lambda>xs. bindE b (\<lambda>ys. Inr (xs @ ys)))) (P \<and> Q)"
  by (auto simp: decides_def)

lemma decides_concatE:
  "list_all2 decides ms Ps \<Longrightarrow> decides (concatE ms) (list_all id Ps)"
  by (induction rule: list_all2_induct) (auto simp: decides_def)

lemma decides_mapE:
  "(\<And>x. x \<in> set xs \<Longrightarrow> decides (f x) (P x)) \<Longrightarrow>
   \<exists>yss. mapE f xs = Inr yss \<and> (concat yss = [] \<longleftrightarrow> (\<forall>x \<in> set xs. P x))"
proof (induction xs)
  case (Cons x xs)
  then obtain yss where "mapE f xs = Inr yss" "concat yss = [] \<longleftrightarrow> (\<forall>x \<in> set xs. P x)" by auto
  moreover obtain ys where "f x = Inr ys" "ys = [] \<longleftrightarrow> P x" using Cons.prems [of x] by (auto simp: decides_def)
  ultimately show ?case by auto
qed simp

lemma is_numberE_total: "fits v \<Longrightarrow> \<exists>b. is_numberE v = Inr b"
  by (cases v) auto

lemma matches_type_total: "fits v \<Longrightarrow> \<exists>b. matches_type v t = Inr b"
  using is_numberE_total [of v] by (auto simp: matches_type_def)

lemma any_type_total: "fits v \<Longrightarrow> any_type v ts = Inr (\<exists>t \<in> set ts. matches_type v t = Inr True)"
proof (induction ts)
  case (Cons t ts)
  obtain b where "matches_type v t = Inr b" using matches_type_total Cons.prems by blast
  then show ?case using Cons by (cases b) auto
qed simp

text \<open>The checks of the validator against the reference's.\<close>

lemma matches_type_iff: "fits v \<Longrightarrow> matches_type v t = Inr True \<longleftrightarrow> has_type v t"
  by (cases "(v, t)" rule: has_type.cases) (auto simp: matches_type_def strict_int_def)

lemma hex_chars: "list_all is_hex t \<longleftrightarrow> set t \<subseteq> set ''0123456789abcdef''"
  unfolding list_all_iff is_hex_def subset_code(1) by (rule refl)

lemma text_conforms_iff: "text_conforms m t s \<longleftrightarrow> limit_conforms s ''minLength'' (\<lambda>n. n \<le> int (length t))
    \<and> limit_conforms s ''maxLength'' (\<lambda>n. int (length t) \<le> n) \<and> opt_ok (\<lambda>p. m (py_str p) t) (map_of s ''pattern'')
    \<and> opt_ok (\<lambda>f. f = JStr ''date-time'' \<and> valid_datetime t \<or> f = JStr ''sha256'' \<and> sha256_hex t) (map_of s ''format'')"
  unfolding text_conforms_def valid_datetime_def replace_Z_def hex_n_def hex_chars
  by (rule conj_cong refl)+ (simp only: conj_commute)

lemma key_schema_iff:
  assumes "dget_or s ''properties'' (JObj []) = JObj p"
  shows "(case key_schema s k of Inr (Some q) \<Rightarrow> C q | _ \<Rightarrow> \<not> key_forbidden s k) \<longleftrightarrow>
    (case map_of (dict_of (dget_or s ''properties'' (JObj []))) k of Some q \<Rightarrow> C q
     | None \<Rightarrow> (case dget s ''additionalProperties'' of JBool False \<Rightarrow> False | JObj a \<Rightarrow> C (JObj a) | _ \<Rightarrow> True))"
  by (auto simp: key_schema_def key_forbidden_def assms split: option.splits json.splits bool.splits)

lemma type_findings_decides:
  assumes "fits v" "type_ok (dget s ''type'')"
  shows "type_findings v s path = Inr (\<not> type_conforms v (dget s ''type''), found (\<not> type_conforms v (dget s ''type'')) path ''type'')"
  using assms(2) any_type_total [OF assms(1)] matches_type_iff [OF assms(1)]
  by (auto simp: type_findings_def type_ok_def type_conforms_def Let_def simp del: any_type.simps split: json.splits)

lemma value_findings_decides:
  assumes "opt_ok is_list (map_of s ''enum'')"
  shows "decides (value_findings v s path) (opt_ok (py_eq v) (map_of s ''const'')
    \<and> opt_ok (\<lambda>e. list_ex (py_eq v) (list_of e)) (map_of s ''enum''))"
  using assms unfolding value_findings_def
  by (intro decides_append) (auto simp: opt_ok_def is_list_iff split: option.splits)

lemma limit_decides:
  assumes "opt_ok strict_int (map_of s k)" "\<And>n. bad n \<longleftrightarrow> \<not> good n"
  shows "decides (limitE s k bad path) (limit_conforms s k good)"
  using assms by (auto simp: limitE_def limit_conforms_def opt_ok_def strict_int_iff split: option.splits)

lemma format_split: "A \<noteq> JNull \<Longrightarrow> B \<noteq> JNull \<Longrightarrow> A \<noteq> B \<Longrightarrow> (opt_ok (\<lambda>f. f = A \<or> f = B) (map_of s k)
    \<and> \<not> (dget s k = A \<and> \<not> a) \<and> \<not> (dget s k = B \<and> \<not> b)) = opt_ok (\<lambda>f. f = A \<and> a \<or> f = B \<and> b) (map_of s k)"
  by (cases "map_of s k") (auto simp: opt_ok_def dget_def)

lemma string_findings_decides:
  assumes "shallow_ok s"
  shows "decides (string_findings (\<lambda>p t. Inr (m p t)) v s path) (is_str v \<longrightarrow> text_conforms m (str_of v) s)"
proof (cases v)
  case (JStr t)
  have l: "decides (limitE s ''minLength'' (\<lambda>n. int (length t) < n) path) (limit_conforms s ''minLength'' (\<lambda>n. n \<le> int (length t)))"
    "decides (limitE s ''maxLength'' (\<lambda>n. n < int (length t)) path) (limit_conforms s ''maxLength'' (\<lambda>n. int (length t) \<le> n))"
    using assms by (auto simp: shallow_ok_def intro!: limit_decides)
  have p: "decides (case map_of s ''pattern'' of None \<Rightarrow> Inr []
      | Some p \<Rightarrow> bindE (Inr (m (py_str p) t)) (\<lambda>b. Inr (found (\<not> b) path ''pattern'')))
    (opt_ok (\<lambda>p. m (py_str p) t) (map_of s ''pattern''))" by (auto simp: opt_ok_def split: option.splits)
  have f: "decides (case map_of s ''format'' of None \<Rightarrow> Inr []
      | Some f \<Rightarrow> bindE (in_set f [''date-time'', ''sha256'']) (\<lambda>b. Inr (found (\<not> b) path ''unsupported_format'')))
    (opt_ok (\<lambda>f. f = JStr ''date-time'' \<or> f = JStr ''sha256'') (map_of s ''format''))"
  proof (cases "map_of s ''format''")
    case (Some g)
    then have "hashable g" using assms by (simp add: shallow_ok_def opt_ok_def)
    then show ?thesis unfolding Some by (cases g) (auto simp: opt_ok_def in_set_def)
  qed (simp add: opt_ok_def)
  have "decides (string_findings (\<lambda>p t. Inr (m p t)) v s path) (list_all id
    [limit_conforms s ''minLength'' (\<lambda>n. n \<le> int (length t)), limit_conforms s ''maxLength'' (\<lambda>n. int (length t) \<le> n),
     opt_ok (\<lambda>p. m (py_str p) t) (map_of s ''pattern''), opt_ok (\<lambda>f. f = JStr ''date-time'' \<or> f = JStr ''sha256'') (map_of s ''format''),
     \<not> (dget s ''format'' = JStr ''date-time'' \<and> \<not> valid_datetime t), \<not> (dget s ''format'' = JStr ''sha256'' \<and> \<not> sha256_hex t)])"
    unfolding string_findings_def JStr json.case
    by (rule decides_concatE) (simp only: list_all2_Cons list.rel_inject l p f decides_Inr found_simps simp_thms not_not)
  then show ?thesis
    by (rule decides_cong) (simp add: JStr text_conforms_iff
        format_split [of "JStr ''date-time''" "JStr ''sha256''" s "''format''" "valid_datetime t" "sha256_hex t", symmetric])
qed (auto simp: string_findings_def)

lemma size_findings_decides:
  assumes "shallow_ok s"
  shows "decides (size_findings v s path) (is_list v \<longrightarrow> items_conform (list_of v) s)"
proof (cases v)
  case (JList xs)
  have "decides (size_findings v s path) (list_all id
    [limit_conforms s ''minItems'' (\<lambda>n. n \<le> int (length xs)), limit_conforms s ''maxItems'' (\<lambda>n. int (length xs) \<le> n),
     \<not> (truthy (dget s ''uniqueItems'') \<and> \<not> distinct (map (dumps '', '' '': '') xs))])"
    unfolding size_findings_def JList json.case using assms
    by (intro decides_concatE list.rel_intros) (auto simp: shallow_ok_def intro!: limit_decides)
  then show ?thesis by (rule decides_cong) (auto simp: JList items_conform_def)
qed (auto simp: size_findings_def)

lemma num_lessE_total: "num_of v \<noteq> None \<Longrightarrow> num_of w \<noteq> None \<Longrightarrow> \<exists>b. num_lessE v w = Inr b"
  by (auto simp: num_lessE_def)

lemma num_lessE_limits:
  assumes "num_of v = Some (Fin q)" "num_of w = Some b"
  shows "num_lessE v w = Inr (\<not> (case b of Fin l \<Rightarrow> l \<le> q | PInf \<Rightarrow> False | _ \<Rightarrow> True))"
    "num_lessE w v = Inr (\<not> (case b of Fin h \<Rightarrow> q \<le> h | NInf \<Rightarrow> False | _ \<Rightarrow> True))"
  using assms by (cases b; simp add: num_lessE_def less_pyfloat_def not_le)+

lemma finite_number_decides:
  assumes "shallow_ok s" "is_numberE v = Inr True" "num_of v = Some (Fin q)"
  shows "decides (number_findings v s path) (between_limits q s)"
proof -
  have lo: "decides (case map_of s ''minimum'' of None \<Rightarrow> Inr []
          | Some m \<Rightarrow> bindE (num_lessE v m) (\<lambda>b. Inr (found b path ''minimum'')))
      (opt_ok (\<lambda>lo. case num_of lo of Some (Fin l) \<Rightarrow> l \<le> q | Some PInf \<Rightarrow> False | _ \<Rightarrow> True) (map_of s ''minimum''))"
    using assms(1) num_lessE_limits(1) [OF assms(3)]
    by (cases "map_of s ''minimum''") (auto simp: shallow_ok_def opt_ok_def split: pyfloat.splits)
  have hi: "decides (case map_of s ''maximum'' of None \<Rightarrow> Inr []
          | Some m \<Rightarrow> bindE (num_lessE m v) (\<lambda>b. Inr (found b path ''maximum'')))
      (opt_ok (\<lambda>hi. case num_of hi of Some (Fin h) \<Rightarrow> q \<le> h | Some NInf \<Rightarrow> False | _ \<Rightarrow> True) (map_of s ''maximum''))"
    using assms(1) num_lessE_limits(2) [OF assms(3)]
    by (cases "map_of s ''maximum''") (auto simp: shallow_ok_def opt_ok_def split: pyfloat.splits)
  show ?thesis using decides_append [OF lo hi] by (simp add: number_findings_def between_limits_def assms(2))
qed

lemma number_findings_decides:
  assumes "shallow_ok s" "fits v"
  shows "decides (number_findings v s path) (number_conforms v s)"
proof (cases "(v, s)" rule: number_conforms.cases)
  case (1 i s') then show ?thesis using finite_number_decides [of s v "of_int i"] assms by auto
next
  case (2 q r s') then show ?thesis using finite_number_decides [of s v q] assms by auto
qed (auto simp: number_findings_def)

lemma required_findings_decides:
  assumes "shallow_ok s"
  shows "decides (required_findings v s path)
    (is_dict v \<longrightarrow> set (list_of (dget_or s ''required'' (JList []))) \<subseteq> JStr ` set (dkeys (dict_of v)))"
proof (cases v)
  case (JObj d)
  obtain ks where k: "dget_or s ''required'' (JList []) = JList ks" "list_all is_str ks"
    using assms by (auto simp: shallow_ok_def split: json.splits)
  let ?f = "\<lambda>k. bindE (in_set k (dkeys d)) (\<lambda>b. Inr (found (\<not> b) (path @ ''.'' @ py_str k) ''required''))"
  have "decides (?f k) (k \<in> JStr ` set (dkeys d))" if "k \<in> set ks" for k
  proof -
    have "is_str k" using that k(2) by (simp add: list_all_iff)
    then obtain t where "k = JStr t" by (auto simp: is_str_iff)
    then show ?thesis by auto
  qed
  from decides_mapE [of ks ?f "\<lambda>k. k \<in> JStr ` set (dkeys d)", OF this] obtain yss where "mapE ?f ks = Inr yss" "concat yss = [] \<longleftrightarrow> (\<forall>k \<in> set ks. k \<in> JStr ` set (dkeys d))"
    by blast
  then show ?thesis by (auto simp: required_findings_def JObj k(1))
qed (auto simp: required_findings_def)


text \<open>The combinators, the object keys and the items, given that the branches decide.\<close>

lemma combine_simps [simp]:
  "combine ''allOf'' p rs = concat rs"
  "combine ''anyOf'' p rs = found (\<forall>r \<in> set rs. r \<noteq> []) p ''anyOf''"
  "combine ''oneOf'' p rs = found (length (filter (\<lambda>r. r = []) rs) \<noteq> 1) p ''oneOf''"
  by (auto simp: combine_def filter_empty_conv)

lemma branches_decide:
  assumes "\<And>b. b \<in> set bs \<Longrightarrow> decides (f b) (P b)"
  shows "\<exists>rs. mapE f bs = Inr rs \<and> list_all2 (\<lambda>b r. (r = []) = P b) bs rs"
  using assms
proof (induction bs)
  case (Cons b bs)
  then obtain rs where "mapE f bs = Inr rs \<and> list_all2 (\<lambda>b r. (r = []) = P b) bs rs" by auto
  moreover obtain r where "f b = Inr r" "(r = []) = P b" using Cons.prems [of b] by (auto simp: decides_def)
  ultimately show ?case by auto
qed simp

lemma combined:
  assumes "list_all2 (\<lambda>b r. (r = []) = P b) bs rs"
  shows "concat rs = [] \<longleftrightarrow> list_all P bs" "(\<forall>r \<in> set rs. r \<noteq> []) \<longleftrightarrow> \<not> list_ex P bs"
    "length (filter (\<lambda>r. r = []) rs) = length (filter P bs)"
  using assms by (induction rule: list_all2_induct) auto

definition combinator_ok :: "(json \<Rightarrow> bool) \<Rightarrow> string \<Rightarrow> json list \<Rightarrow> bool" where
  "combinator_ok P kw bs = (if kw = ''allOf'' then list_all P bs else if kw = ''anyOf'' then list_ex P bs
     else length (filter P bs) = 1)"

lemma combinator_decides:
  assumes "case map_of s kw of None \<Rightarrow> True | Some b \<Rightarrow> (case b of JList bs \<Rightarrow> \<forall>x \<in> set bs. decides (f x) (P x) | _ \<Rightarrow> False)"
    "kw \<in> {''allOf'', ''anyOf'', ''oneOf''}"
  shows "decides (case map_of s kw of None \<Rightarrow> Inr []
         | Some b \<Rightarrow> bindE (branchesE b) (\<lambda>bs. bindE (mapE f bs) (\<lambda>rs. Inr (combine kw path rs))))
     (case map_of s kw of Some (JList bs) \<Rightarrow> combinator_ok P kw bs | _ \<Rightarrow> True)"
proof (cases "map_of s kw")
  case (Some b)
  then obtain bs where bs: "b = JList bs" "\<forall>x \<in> set bs. decides (f x) (P x)" using assms(1) by (auto split: json.splits)
  obtain rs where r: "mapE f bs = Inr rs" "list_all2 (\<lambda>b r. (r = []) = P b) bs rs"
    using branches_decide [of bs f P] bs(2) by blast
  note c = combined [OF r(2)]
  show ?thesis unfolding Some option.case bs(1) json.case branchesE.simps bindE_Inr r(1) using assms(2)
    by (elim insertE emptyE) (simp_all add: combinator_ok_def c del: concat_eq_Nil_conv)
qed simp

lemma type_conforms_stop: "\<not> type_conforms v (dget s ''type'') \<Longrightarrow> \<not> conforms m v (JObj s)"
  by (simp add: conforms.simps [of m v "JObj s"])

lemma known_keywords: "set SUPPORTED_KEYWORDS = annotations \<union> assertions \<union> applicators"
  by code_simp

lemma unsupported_Nil: "unsupported_findings s path = [] \<longleftrightarrow> set (dkeys s) \<subseteq> annotations \<union> assertions \<union> applicators"
  unfolding unsupported_findings_def map_is_Nil_conv keys_beyond_Nil known_keywords ..

lemma key_schema_total:
  assumes "dget_or s ''properties'' (JObj []) = JObj p"
  shows "\<exists>x. key_schema s k = Inr x"
  by (simp add: key_schema_def assms)

lemma key_schema_ok:
  assumes "schema_ok (JObj s)" "key_schema s k = Inr (Some q)"
  shows "schema_ok q"
proof -
  obtain p where p: "dget_or s ''properties'' (JObj []) = JObj p" "list_all (\<lambda>(k, q). schema_ok q) p"
    using assms(1) by (auto simp: schema_ok.simps [of "JObj s"] split: json.splits)
  have a: "is_dict (dget s ''additionalProperties'') \<Longrightarrow> schema_ok (dget s ''additionalProperties'')"
    using assms(1) by (simp add: schema_ok.simps [of "JObj s"])
  show ?thesis
  proof (cases "map_of p k")
    case None
    then have "(case dget s ''additionalProperties'' of JObj x \<Rightarrow> Some (JObj x) | _ \<Rightarrow> None) = Some q"
      using assms(2) by (simp add: key_schema_def p(1))
    then have "is_dict q" "dget s ''additionalProperties'' = q"
      by (cases "dget s ''additionalProperties''"; auto)+
    then show ?thesis using a by simp
  next
    case (Some r)
    then have "r = q" using assms(2) by (simp add: key_schema_def p(1))
    then show ?thesis using p(2) map_of_SomeD [OF Some] by (auto simp: list_all_iff)
  qed
qed


text \<open>The recursive calls: \<open>IH\<close> is the statement for the smaller schemas.\<close>

definition decided_below :: "(string \<Rightarrow> string \<Rightarrow> bool) \<Rightarrow> dict \<Rightarrow> bool" where
  "decided_below m s = (\<forall>q w p. size q < size (JObj s) \<longrightarrow> schema_ok q \<longrightarrow> fits w \<longrightarrow>
     decides (validate (\<lambda>p t. Inr (m p t)) w q p) (conforms m w q))"

lemma combinators_decide:
  assumes "decided_below m s" "schema_ok (JObj s)" "fits v"
  shows "\<exists>cs. mapE (\<lambda>kw. case map_of s kw of None \<Rightarrow> Inr []
         | Some b \<Rightarrow> bindE (branchesE b) (\<lambda>bs.
             bindE (mapE (\<lambda>branch. validate (\<lambda>p t. Inr (m p t)) v branch path) bs) (\<lambda>rs. Inr (combine kw path rs))))
       [''allOf'', ''anyOf'', ''oneOf''] = Inr cs \<and> (concat cs = [] \<longleftrightarrow> (\<forall>kw \<in> set [''allOf'', ''anyOf'', ''oneOf''].
         case map_of s kw of Some (JList bs) \<Rightarrow> combinator_ok (conforms m v) kw bs | _ \<Rightarrow> True))"
proof (rule decides_mapE, rule combinator_decides)
  fix kw assume k: "kw \<in> set [''allOf'', ''anyOf'', ''oneOf'']"
  have "case map_of s kw of None \<Rightarrow> True | Some b \<Rightarrow> (case b of JList bs \<Rightarrow> list_all schema_ok bs | _ \<Rightarrow> False)"
    using assms(2) k unfolding schema_ok.simps [of "JObj s"] json.case list_all_iff by blast
  then show "case map_of s kw of None \<Rightarrow> True | Some b \<Rightarrow> (case b of
      JList bs \<Rightarrow> \<forall>x \<in> set bs. decides (validate (\<lambda>p t. Inr (m p t)) v x path) (conforms m v x) | _ \<Rightarrow> False)"
    using assms(1,3) listed_size [of s kw] unfolding decided_below_def
    by (auto simp: list_all_iff split: option.splits json.splits)
  show "kw \<in> {''allOf'', ''anyOf'', ''oneOf''}" using k by simp
qed

lemma keys_decide:
  assumes "decided_below m s" "schema_ok (JObj s)" "fits v"
  shows "\<exists>os. mapE (\<lambda>(k, w). bindE (key_schema s k) (\<lambda>ks. case ks of
           Some q \<Rightarrow> validate (\<lambda>p t. Inr (m p t)) w q (path @ ''.'' @ k)
         | None \<Rightarrow> Inr (found (key_forbidden s k) (path @ ''.'' @ k) ''additionalProperties''))) (dict_of v) = Inr os
     \<and> (concat os = [] \<longleftrightarrow> (\<forall>x \<in> set (dict_of v). case x of (k, w) \<Rightarrow>
           (case map_of (dict_of (dget_or s ''properties'' (JObj []))) k of Some q \<Rightarrow> conforms m w q
           | None \<Rightarrow> (case dget s ''additionalProperties'' of JBool False \<Rightarrow> False | JObj a \<Rightarrow> conforms m w (JObj a) | _ \<Rightarrow> True))))"
proof (rule decides_mapE)
  fix x assume xv: "x \<in> set (dict_of v)"
  obtain k w where x: "x = (k, w)" by (cases x)
  have fd: "fits w" using assms(3) xv x by (cases v) (auto simp: list_all_iff)
  obtain pr where pr: "dget_or s ''properties'' (JObj []) = JObj pr"
    using assms(2) unfolding schema_ok.simps [of "JObj s"] by (auto split: json.splits)
  obtain r where r: "key_schema s k = Inr r" using key_schema_total [OF pr] by blast
  show "decides ((\<lambda>(k, w). bindE (key_schema s k) (\<lambda>ks. case ks of
           Some q \<Rightarrow> validate (\<lambda>p t. Inr (m p t)) w q (path @ ''.'' @ k)
         | None \<Rightarrow> Inr (found (key_forbidden s k) (path @ ''.'' @ k) ''additionalProperties''))) x)
      (case x of (k, w) \<Rightarrow> (case map_of (dict_of (dget_or s ''properties'' (JObj []))) k of Some q \<Rightarrow> conforms m w q
           | None \<Rightarrow> (case dget s ''additionalProperties'' of JBool False \<Rightarrow> False | JObj a \<Rightarrow> conforms m w (JObj a) | _ \<Rightarrow> True)))"
    using assms(1) fd key_schema_size [of s k] key_schema_ok [OF assms(2), of k] unfolding decided_below_def
    unfolding x prod.case key_schema_iff [OF pr, symmetric] by (cases r) (simp_all add: r)
qed

lemma items_decide:
  assumes "decided_below m s" "schema_ok (JObj s)" "fits v" "is_dict (dget s ''items'')"
  shows "\<exists>its. mapE (\<lambda>(i, w). validate (\<lambda>p t. Inr (m p t)) w (dget s ''items'') (path @ ''['' @ nat_str i @ '']''))
       (zip [0..<length (list_of v)] (list_of v)) = Inr its
     \<and> (concat its = [] \<longleftrightarrow> (\<forall>w \<in> set (list_of v). conforms m w (dget s ''items'')))"
proof -
  let ?it = "dget s ''items''" and ?xs = "zip [0..<length (list_of v)] (list_of v)"
  let ?I = "\<lambda>(i, w). validate (\<lambda>p t. Inr (m p t)) w ?it (path @ ''['' @ nat_str i @ '']'')"
  have n: "?it \<noteq> JNull" "schema_ok ?it" using assms(2,4) by (auto simp: schema_ok.simps [of "JObj s"])
  have fl: "\<forall>w \<in> set (list_of v). fits w" using assms(3) by (cases v) (auto simp: list_all_iff)
  have "decides (?I x) (conforms m (snd x) ?it)" if "x \<in> set ?xs" for x
  proof -
    obtain i w where x: "x = (i, w)" by (cases x)
    have "w \<in> set (list_of v)" using that unfolding x by (rule set_zip_rightD)
    then have w: "fits w" using fl by blast
    have "decides (validate (\<lambda>p t. Inr (m p t)) w ?it p) (conforms m w ?it)" for p
      using assms(1) dget_size [OF n(1)] n(2) w unfolding decided_below_def by blast
    then show ?thesis by (simp add: x)
  qed
  from decides_mapE [of ?xs ?I "\<lambda>x. conforms m (snd x) ?it", OF this] obtain its where
    i: "mapE ?I ?xs = Inr its" "concat its = [] \<longleftrightarrow> (\<forall>x \<in> set ?xs. conforms m (snd x) ?it)" by blast
  have "(\<forall>x \<in> set ?xs. conforms m (snd x) ?it) \<longleftrightarrow> (\<forall>w \<in> set (map snd ?xs). conforms m w ?it)"
    unfolding set_map by blast
  also have "map snd ?xs = list_of v" by simp
  finally show ?thesis using i by (intro exI [of _ its] conjI) simp_all
qed

lemma combinators_split:
  "(\<forall>kw \<in> set [''allOf'', ''anyOf'', ''oneOf'']. case map_of s kw of Some (JList bs) \<Rightarrow> combinator_ok P kw bs | _ \<Rightarrow> True)
   \<longleftrightarrow> (case map_of s ''allOf'' of Some (JList bs) \<Rightarrow> list_all P bs | _ \<Rightarrow> True)
     \<and> (case map_of s ''anyOf'' of Some (JList bs) \<Rightarrow> list_ex P bs | _ \<Rightarrow> True)
     \<and> (case map_of s ''oneOf'' of Some (JList bs) \<Rightarrow> length (filter P bs) = 1 | _ \<Rightarrow> True)"
proof -
  have "combinator_ok P ''allOf'' = list_all P" "combinator_ok P ''anyOf'' = list_ex P"
    "combinator_ok P ''oneOf'' = (\<lambda>bs. length (filter P bs) = 1)"
    by (simp_all add: combinator_ok_def fun_eq_iff)
  then show ?thesis by (simp cong: option.case_cong json.case_cong)
qed

lemma validate_decides: "schema_ok schema \<Longrightarrow> fits v \<Longrightarrow>
    decides (validate (\<lambda>p t. Inr (m p t)) v schema path) (conforms m v schema)"
proof (induction "size schema" arbitrary: schema v path rule: less_induct)
  case less
  let ?S = "\<lambda>p t. Inr (m p t) :: bool res"
  obtain s where s: "schema = JObj s" and sh: "shallow_ok s"
    using less.prems(1) by (cases schema) (auto simp: schema_ok.simps)
  have IH: "decided_below m s" using less.hyps unfolding decided_below_def s by blast
  have t: "type_ok (dget s ''type'')" "opt_ok is_list (map_of s ''enum'')" using sh by (simp_all add: shallow_ok_def)
  note ty = type_findings_decides [OF less.prems(2) t(1), of path]
  note parts = IH less.prems(1) [unfolded s] less.prems(2)
  obtain vs where vs: "value_findings v s path = Inr vs" "vs = [] \<longleftrightarrow> opt_ok (py_eq v) (map_of s ''const'')
      \<and> opt_ok (\<lambda>e. list_ex (py_eq v) (list_of e)) (map_of s ''enum'')"
    using value_findings_decides [OF t(2)] by (auto simp: decides_def)
  from combinators_decide [OF parts, of path] obtain cs where cs: "mapE (\<lambda>kw. case map_of s kw of None \<Rightarrow> Inr []
       | Some b \<Rightarrow> bindE (branchesE b) (\<lambda>bs.
           bindE (mapE (\<lambda>branch. validate ?S v branch path) bs) (\<lambda>rs. Inr (combine kw path rs))))
     [''allOf'', ''anyOf'', ''oneOf''] = Inr cs" "concat cs = [] \<longleftrightarrow> (\<forall>kw \<in> set [''allOf'', ''anyOf'', ''oneOf''].
       case map_of s kw of Some (JList bs) \<Rightarrow> combinator_ok (conforms m v) kw bs | _ \<Rightarrow> True)" by blast
  obtain rq where rq: "required_findings v s path = Inr rq"
    "rq = [] \<longleftrightarrow> (is_dict v \<longrightarrow> set (list_of (dget_or s ''required'' (JList []))) \<subseteq> JStr ` set (dkeys (dict_of v)))"
    using required_findings_decides [OF sh, of v path] unfolding decides_def by blast
  note os = keys_decide [OF parts, of path]
  obtain ls where ls: "size_findings v s path = Inr ls" "ls = [] \<longleftrightarrow> (is_list v \<longrightarrow> items_conform (list_of v) s)"
    using size_findings_decides [OF sh, of v path] unfolding decides_def by blast
  obtain its where is': "(if \<not> is_dict (dget s ''items'') then Inr [] else
      mapE (\<lambda>(i, w). validate ?S w (dget s ''items'') (path @ ''['' @ nat_str i @ '']'')) (zip [0..<length (list_of v)] (list_of v))) = Inr its"
    "concat its = [] \<longleftrightarrow> (if is_dict (dget s ''items'') then \<forall>w \<in> set (list_of v). conforms m w (dget s ''items'') else True)"
    using items_decide [OF parts, of path] by (cases "is_dict (dget s ''items'')") auto
  obtain ss where ss: "string_findings ?S v s path = Inr ss" "ss = [] \<longleftrightarrow> (is_str v \<longrightarrow> text_conforms m (str_of v) s)"
    using string_findings_decides [OF sh, of m v path] unfolding decides_def by blast
  obtain ns where ns: "number_findings v s path = Inr ns" "ns = [] \<longleftrightarrow> number_conforms v s"
    using number_findings_decides [OF sh less.prems(2), of path] unfolding decides_def by blast
  obtain os where os: "mapE (\<lambda>(k, w). bindE (key_schema s k) (\<lambda>ks. case ks of
           Some q \<Rightarrow> validate ?S w q (path @ ''.'' @ k)
         | None \<Rightarrow> Inr (found (key_forbidden s k) (path @ ''.'' @ k) ''additionalProperties''))) (dict_of v) = Inr os"
     "concat os = [] \<longleftrightarrow> (\<forall>x \<in> set (dict_of v). case x of (k, w) \<Rightarrow>
           (case map_of (dict_of (dget_or s ''properties'' (JObj []))) k of Some q \<Rightarrow> conforms m w q
           | None \<Rightarrow> (case dget s ''additionalProperties'' of JBool False \<Rightarrow> False | JObj a \<Rightarrow> conforms m w (JObj a) | _ \<Rightarrow> True)))"
    using keys_decide [OF parts, of path] by blast
  show ?case
  proof (cases "type_conforms v (dget s ''type'')")
    case False
    then show ?thesis using type_conforms_stop [OF False, of m]
      unfolding s validate.simps [of ?S v "JObj s"] json.case ty bindE_Inr prod.case by simp
  next
    case True
    have "validate ?S v schema path = Inr (unsupported_findings s path @ [] @ vs @ concat cs @ rq @ concat os @ ls @ concat its @ ss @ ns)"
      unfolding s validate.simps [of ?S v "JObj s"] json.case ty bindE_Inr prod.case
      by (simp only: True not_True_eq_False if_False found_simps bindE_Inr vs(1) cs(1) rq(1) os(1) ls(1) is'(1) ss(1) ns(1))
    moreover have "conforms m v schema \<longleftrightarrow> unsupported_findings s path @ [] @ vs @ concat cs @ rq @ concat os @ ls @ concat its @ ss @ ns = []"
      unfolding append_is_Nil_conv unsupported_Nil vs(2) cs(2) combinators_split rq(2) os(2) ls(2) is'(2) ss(2) ns(2)
        s conforms.simps [of m v "JObj s"] json.case list_all_iff
      using True by (simp only: simp_thms if_True if_False cong: if_cong) (simp only: conj_assoc)
    ultimately show ?thesis by (simp only: decides_Inr)
  qed
qed

text \<open>
  C36. The validator decides conformance: against a well-formed schema (\<open>schema_ok\<close>), on an instance whose
  integers a double can hold (\<open>fits\<close>) and when every pattern compiles (\<open>re.search\<close> answers \<open>m\<close>), \<open>validate\<close>
  returns a list of findings, and the list is empty exactly when the instance conforms to the schema in
  the reference semantics, which shares no check with the validator and knows no paths, findings or order.
  Outside these hypotheses the code may raise.
\<close>

theorem validate_decides_conformance:
  assumes "schema_ok schema" "fits v"
  shows "\<exists>fs. validate (\<lambda>p t. Inr (m p t)) v schema path = Inr fs \<and> (fs = [] \<longleftrightarrow> conforms m v schema)"
  using validate_decides [OF assms] by (simp add: decides_def)

text \<open>A closed object with a typed key, and the items of a list.\<close>

definition sample_schema :: json where
  "sample_schema = JObj [(''type'', JStr ''object''), (''additionalProperties'', JBool False),
     (''required'', JList [JStr ''id'']),
     (''properties'', JObj [(''id'', JObj [(''type'', JStr ''string''), (''minLength'', JInt 1)])])]"

lemma validate_decides_conformance_witness:
  "(\<exists>fs. validate (\<lambda>p t. Inr True) (JObj [(''id'', JStr ''a''), (''x'', JNull)]) sample_schema ''$'' = Inr fs \<and> fs \<noteq> [])
   \<and> validate (\<lambda>p t. Inr True) (JObj [(''id'', JStr ''a'')]) sample_schema ''$'' = Inr []"
proof -
  have ok: "schema_ok sample_schema"
    by (simp add: sample_schema_def schema_ok.simps shallow_ok_def type_ok_def opt_ok_def)
  have f: "fits (JObj [(''id'', JStr ''a''), (''x'', JNull)])" "fits (JObj [(''id'', JStr ''a'')])" by simp_all
  have n: "\<not> conforms (\<lambda>p t. True) (JObj [(''id'', JStr ''a''), (''x'', JNull)]) sample_schema"
    by (simp add: sample_schema_def conforms.simps)
  have y: "conforms (\<lambda>p t. True) (JObj [(''id'', JStr ''a'')]) sample_schema"
    by (simp add: sample_schema_def conforms.simps dkeys_def annotations_def assertions_def applicators_def
      type_conforms_def opt_ok_def text_conforms_def limit_conforms_def)
  show ?thesis
    using validate_decides_conformance [OF ok f(1), of "\<lambda>p t. True" "''$''"] n
      validate_decides_conformance [OF ok f(2), of "\<lambda>p t. True" "''$''"] y by auto
qed

text \<open>The empty schema accepts every dictionary.\<close>

lemma empty_schema: "validate s (JObj d) (JObj []) p = Inr []"
proof -
  have m: "mapE (\<lambda>(k, w). Inr ([] :: finding list)) d = Inr (map (\<lambda>_. []) d)"
    by (induction d) auto
  show ?thesis
    by (simp add: validate.simps [of s "JObj d" "JObj []"] type_findings_def value_findings_def required_findings_def key_schema_def
      size_findings_def string_findings_def number_findings_def unsupported_findings_def keys_beyond_def dkeys_def
      key_forbidden_def m)
qed

end
