(* ===== verification/Evidence.thy ===== *)
theory Evidence
  imports Contracts HashChain Policy
begin

text \<open>
  Evidence (\<open>.adwf/lib/evidence.py\<close>): the verification of one record, the append-only event log with its
  digest chain, the index projected from it, and the product verdict that is derived from both.  The
  files are values of the store: the text of the log, the index file, the two schema files.  \<open>en_sha\<close> is
  the hexadecimal SHA-256 of the UTF-8 encoding of a text, \<open>en_loads\<close> is \<open>strict_json.loads\<close> on a
  line, \<open>en_search\<close> is \<open>re.search\<close>, and \<open>en_artifact\<close> what resolving a path below the root finds.
  Spans of time are compared exactly, as the floats of the code do for spans below 285 years.
\<close>

section \<open>The environment\<close>

datatype artifact_state = OutsideRoot | SymbolicLink | NoFile | FileDigest string

datatype json_text = Decoded json | Undecodable | DuplicateKey string

record evidence_env =
  en_sha :: "string \<Rightarrow> string"
  en_loads :: "string \<Rightarrow> json_text"
  en_search :: "string \<Rightarrow> string \<Rightarrow> bool res"
  en_artifact :: "string \<Rightarrow> artifact_state"
  en_event_schema :: json_file
  en_index_schema :: json_file

definition PRODUCT_EVIDENCE_KINDS :: "string list" where
  "PRODUCT_EVIDENCE_KINDS = [''SMOKE'', ''GOLDEN_PATHS'', ''E2E'', ''REALITY'']"

definition TRUSTED_PRODUCT_DOMAINS :: "string list" where
  "TRUSTED_PRODUCT_DOMAINS = [''adwf-runtime-verifier'', ''adwf-trusted-runtime'']"

definition EVENT_RESERVED_FIELDS :: "string list" where
  "EVENT_RESERVED_FIELDS = [''schema_version'', ''sequence'', ''previous_event_sha256'', ''event_sha256'']"

definition DEFAULT_PRODUCT_TTL_HOURS :: dict where
  "DEFAULT_PRODUCT_TTL_HOURS = [(''SMOKE'', JInt 24), (''GOLDEN_PATHS'', JInt 24), (''E2E'', JInt 24), (''REALITY'', JInt 168)]"

section \<open>One record\<close>

record evidence_request =
  rq_schema :: json
  rq_expected_sha :: "string option"
  rq_expected_revision :: "string option"
  rq_root :: bool
  rq_freshness :: bool
  rq_pass :: bool
  rq_artifact :: bool
  rq_provenance :: bool
  rq_sources :: "string list option"
  rq_domains :: "string list option"
  rq_max_ttl :: json

definition default_request :: "json \<Rightarrow> evidence_request" where
  "default_request schema = \<lparr>rq_schema = schema, rq_expected_sha = None, rq_expected_revision = None, rq_root = False,
     rq_freshness = True, rq_pass = True, rq_artifact = False, rq_provenance = False, rq_sources = None,
     rq_domains = None, rq_max_ttl = JNull\<rparr>"

definition schema_codes :: "string \<Rightarrow> finding list \<Rightarrow> string list" where
  "schema_codes prefix fs = map (\<lambda>(p, c). prefix @ p @ '':'' @ c) fs"

definition schema_errors :: "evidence_env \<Rightarrow> json \<Rightarrow> dict \<Rightarrow> string list res" where
  "schema_errors env schema rec = (if \<not> truthy schema then Inr []
     else bindE (validate (en_search env) (JObj rec) schema ''$'') (\<lambda>fs. Inr (schema_codes ''SCHEMA:'' fs)))"

text \<open>The limit on the lifetime of a record: a positive finite number of hours.\<close>

definition ttl_errors :: "json \<Rightarrow> int \<Rightarrow> int \<Rightarrow> string list res" where
  "ttl_errors limit created expires = (case limit of
     JNull \<Rightarrow> Inr []
   | _ \<Rightarrow> (if \<not> (case limit of JInt _ \<Rightarrow> True | JFloat _ _ \<Rightarrow> True | _ \<Rightarrow> False) then Inr [''TTL_POLICY_INVALID'']
      else bindE (py_float limit) (\<lambda>f. case f of
        Fin h \<Rightarrow> (if h \<le> 0 then Inr [''TTL_POLICY_INVALID'']
          else Inr (flag (h * 3600000000 < of_int (expires - created)) ''TTL_EXCEEDS_POLICY''))
      | _ \<Rightarrow> Inr [''TTL_POLICY_INVALID''])))"

definition record_times :: "dict \<Rightarrow> (int \<times> int) option res" where
  "record_times rec = catchE is_ValueError
     (bindE (parse_time (py_str (dget_or rec ''created_at'' (JStr [])))) (\<lambda>c.
      bindE (parse_time (py_str (dget_or rec ''expires_at'' (JStr [])))) (\<lambda>e. Inr (Some (c, e)))))
     (\<lambda>_. Inr None)"

definition time_errors :: "evidence_request \<Rightarrow> int \<Rightarrow> dict \<Rightarrow> string list res" where
  "time_errors rq now rec = bindE (record_times rec) (\<lambda>ts. case ts of
     None \<Rightarrow> Inr [''INVALID_TIME'']
   | Some (c, e) \<Rightarrow> bindE (ttl_errors (rq_max_ttl rq) c e) (\<lambda>ttl. Inr (
       flag (now < c) ''CREATED_IN_FUTURE'' @ flag (rq_freshness rq \<and> e \<le> now) ''STALE'' @
       flag (e \<le> c) ''INVALID_TTL'' @ ttl)))"

definition expected_errors :: "evidence_request \<Rightarrow> dict \<Rightarrow> string list res" where
  "expected_errors rq rec = bindE (case rq_sources rq of None \<Rightarrow> Inr True | Some S \<Rightarrow> in_set (dget rec ''source_type'') S) (\<lambda>src. Inr (
     flag (case rq_expected_sha rq of None \<Rightarrow> False | Some s \<Rightarrow> dget rec ''sha'' \<noteq> JStr s) ''SHA_MISMATCH'' @
     flag (case rq_expected_revision rq of None \<Rightarrow> False | Some s \<Rightarrow> dget rec ''runtime_revision'' \<noteq> JStr s)
       ''RUNTIME_REVISION_MISMATCH'' @
     flag (\<not> src) ''SOURCE_TYPE_NOT_TRUSTED''))"

definition PROVENANCE_FIELDS :: "string list" where
  "PROVENANCE_FIELDS = [''provider'', ''source_identity'', ''trust_domain'', ''repository'', ''workflow'', ''invocation_id'']"

definition provenance_errors :: "evidence_request \<Rightarrow> dict \<Rightarrow> string list res" where
  "provenance_errors rq rec = (if \<not> rq_provenance rq then Inr [] else (case dget rec ''provenance'' of
     JObj p \<Rightarrow> (if list_ex (\<lambda>k. strip (py_str (dget_or p k (JStr []))) = []) PROVENANCE_FIELDS
         then Inr [''PROVENANCE_NOT_VERIFIED'']
       else (case rq_domains rq of None \<Rightarrow> Inr []
         | Some D \<Rightarrow> bindE (in_set (dget p ''trust_domain'') D) (\<lambda>b. Inr (flag (\<not> b) ''TRUST_DOMAIN_NOT_APPROVED''))))
   | _ \<Rightarrow> Inr [''PROVENANCE_NOT_VERIFIED'']))"

definition content_errors :: "evidence_env \<Rightarrow> evidence_request \<Rightarrow> dict \<Rightarrow> string list" where
  "content_errors env rq rec = (let hash = py_str (dget_or rec ''content_sha256'' (JStr [])); art = dget rec ''artifact'' in
     flag (\<not> sha256_hex hash) ''CONTENT_HASH_MISSING'' @
     flag (rq_artifact rq \<and> \<not> truthy art) ''ARTIFACT_REQUIRED'' @
     flag (rq_artifact rq \<and> \<not> rq_root rq) ''EVIDENCE_ROOT_REQUIRED'' @
     (if truthy art \<and> rq_root rq then (case en_artifact env (py_str art) of
         OutsideRoot \<Rightarrow> [''ARTIFACT_OUTSIDE_ROOT'']
       | SymbolicLink \<Rightarrow> [''ARTIFACT_SYMLINK_FORBIDDEN'']
       | NoFile \<Rightarrow> [''ARTIFACT_MISSING'']
       | FileDigest d \<Rightarrow> flag (hash \<noteq> [] \<and> d \<noteq> hash) ''CONTENT_HASH_MISMATCH'') else []))"

text \<open>The errors of a record; a record is valid when there are none.\<close>

definition verify_evidence :: "evidence_env \<Rightarrow> evidence_request \<Rightarrow> int \<Rightarrow> dict \<Rightarrow> string list res" where
  "verify_evidence env rq now rec = bindE (schema_errors env (rq_schema rq) rec) (\<lambda>sc.
     bindE (time_errors rq now rec) (\<lambda>te. bindE (expected_errors rq rec) (\<lambda>ex.
     bindE (provenance_errors rq rec) (\<lambda>pe. Inr (
       sc @ flag (rq_pass rq \<and> dget rec ''status'' \<noteq> JStr ''PASS'') ''STATUS_NOT_PASS'' @
       te @ ex @ pe @ content_errors env rq rec)))))"

definition evidence_status :: "string list \<Rightarrow> string" where
  "evidence_status errors = (if errors = [] then ''VERIFIED'' else if errors = [''STALE''] then ''STALE'' else ''BLOCKED'')"

section \<open>The log and its index\<close>

definition evidence_event_sha256 :: "evidence_env \<Rightarrow> dict \<Rightarrow> string" where
  "evidence_event_sha256 env e = en_sha env (canonical (JObj (ddel ''event_sha256'' e)))"

definition event_log_bytes :: "dict list \<Rightarrow> string" where
  "event_log_bytes events = concat (map (\<lambda>e. canonical (JObj e) @ [char_of (10::nat)]) events)"

definition event_key :: "dict \<Rightarrow> string" where
  "event_key e = join ''|'' (map (\<lambda>k. py_str (py_or (dget e k) (JStr ''-''))) [''kind'', ''sha'', ''runtime_revision'', ''subject''])"

definition index_record :: "dict \<Rightarrow> json res" where
  "index_record e = bindE (ditemE e ''id'') (\<lambda>i. bindE (ditemE e ''sequence'') (\<lambda>q. bindE (ditemE e ''kind'') (\<lambda>k.
     bindE (ditemE e ''status'') (\<lambda>s. bindE (ditemE e ''created_at'') (\<lambda>c. bindE (ditemE e ''expires_at'') (\<lambda>x.
     bindE (ditemE e ''event_sha256'') (\<lambda>h. Inr (JObj [(''key'', JStr (event_key e)), (''event_id'', i), (''sequence'', q),
       (''kind'', k), (''status'', s), (''sha'', dget e ''sha''), (''runtime_revision'', dget e ''runtime_revision''),
       (''created_at'', c), (''expires_at'', x), (''event_sha256'', h)]))))))))"

definition latest_records :: "dict list \<Rightarrow> dict res" where
  "latest_records events = foldE (\<lambda>e latest. bindE (index_record e) (\<lambda>r. Inr (dput (event_key e) r latest))) events []"

definition last_item :: "dict list \<Rightarrow> string \<Rightarrow> json res" where
  "last_item events k = (if events = [] then Inr JNull else ditemE (last events) k)"

definition project_evidence_index :: "evidence_env \<Rightarrow> dict list \<Rightarrow> string option \<Rightarrow> json res" where
  "project_evidence_index env events raw = bindE (latest_records events) (\<lambda>latest.
     bindE (last_item events ''event_sha256'') (\<lambda>h. bindE (last_item events ''created_at'') (\<lambda>c.
       Inr (JObj [(''schema_version'', JInt 1), (''event_count'', JInt (int (length events))),
         (''head_event_sha256'', h),
         (''log_sha256'', JStr (en_sha env (case raw of None \<Rightarrow> event_log_bytes events | Some r \<Rightarrow> r))),
         (''generated_at'', c), (''records'', JList (map snd (sort_key fst latest)))]))))"

text \<open>\<open>bytes.splitlines\<close>: line feed, carriage return, or both.\<close>

fun split_lines :: "string \<Rightarrow> string list" where
  "split_lines [] = []"
| "split_lines (c # cs) =
     (if of_char c = (10::nat) then [] # split_lines cs
      else if of_char c = (13::nat) then
        (case cs of d # ds \<Rightarrow> if of_char d = (10::nat) then [] # split_lines ds else [] # split_lines cs | [] \<Rightarrow> [[]])
      else (case split_lines cs of [] \<Rightarrow> [[c]] | l # ls \<Rightarrow> (c # l) # ls))"

text \<open>The scan of the log, one line at a time.\<close>

record log_scan =
  ls_events :: "dict list"
  ls_ids :: "string list"
  ls_hash :: "string option"
  ls_created :: "int option"
  ls_errors :: "string list"

definition numbered :: "string \<Rightarrow> nat \<Rightarrow> string" where
  "numbered code n = code @ '':'' @ nat_str n"

definition text_or :: "json \<Rightarrow> string" where
  "text_or v = py_str (py_or v (JStr []))"

definition event_time :: "dict \<Rightarrow> int option res" where
  "event_time e = catchE is_KTV (bindE (ditemE e ''created_at'') (\<lambda>v. bindE (parse_time (py_str v)) (\<lambda>t. Inr (Some t))))
     (\<lambda>_. Inr None)"

definition stored_event_request :: "json \<Rightarrow> evidence_request" where
  "stored_event_request schema = default_request schema \<lparr>rq_freshness := False, rq_pass := False, rq_provenance := True\<rparr>"

definition event_errors :: "evidence_env \<Rightarrow> json \<Rightarrow> int \<Rightarrow> nat \<Rightarrow> dict \<Rightarrow> log_scan \<Rightarrow> string list res" where
  "event_errors env schema now n e st =
     bindE (validate (en_search env) (JObj e) schema ''$'') (\<lambda>fs.
     bindE (in_set (dget e ''id'') (ls_ids st)) (\<lambda>dup.
     bindE (verify_evidence env (stored_event_request schema) now e) (\<lambda>ve. Inr (
       schema_codes (numbered ''EVIDENCE_EVENT_SCHEMA'' n @ '':'') fs @
       flag (\<not> py_eq (dget e ''sequence'') (JInt (int n))) (numbered ''EVIDENCE_SEQUENCE_INVALID'' n) @
       flag (dget e ''previous_event_sha256'' \<noteq> opt_json (ls_hash st)) (numbered ''EVIDENCE_CHAIN_PREVIOUS_MISMATCH'' n) @
       flag (dget e ''event_sha256'' \<noteq> JStr (evidence_event_sha256 env e)) (numbered ''EVIDENCE_EVENT_DIGEST_MISMATCH'' n) @
       flag dup (numbered ''EVIDENCE_EVENT_ID_DUPLICATE'' n) @
       map (\<lambda>x. numbered ''EVIDENCE_EVENT_INVALID'' n @ '':'' @ x) ve))))"

definition scan_event :: "evidence_env \<Rightarrow> json \<Rightarrow> int \<Rightarrow> nat \<Rightarrow> dict \<Rightarrow> log_scan \<Rightarrow> log_scan res" where
  "scan_event env schema now n e st = bindE (event_errors env schema now n e st) (\<lambda>errs.
     bindE (event_time e) (\<lambda>created. Inr \<lparr>
       ls_events = ls_events st @ [e],
       ls_ids = ls_ids st @ [py_str (dget e ''id'')],
       ls_hash = Some (text_or (dget e ''event_sha256'')),
       ls_created = (case created of None \<Rightarrow> ls_created st | Some t \<Rightarrow> Some t),
       ls_errors = ls_errors st @ errs @ (case (created, ls_created st) of
          (Some t, Some p) \<Rightarrow> flag (t < p) (numbered ''EVIDENCE_EVENT_TIME_REWIND'' n) | _ \<Rightarrow> [])\<rparr>))"

definition scan_line :: "evidence_env \<Rightarrow> json \<Rightarrow> int \<Rightarrow> nat \<times> string \<Rightarrow> log_scan \<Rightarrow> log_scan res" where
  "scan_line env schema now = (\<lambda>(n, line) st. (case en_loads env line of
     Undecodable \<Rightarrow> Inr (st \<lparr>ls_errors := ls_errors st @ [numbered ''EVIDENCE_EVENT_JSON_INVALID'' n]\<rparr>)
   | DuplicateKey k \<Rightarrow> Inl (ValueError (''DUPLICATE_JSON_KEY:'' @ k))
   | Decoded (JObj e) \<Rightarrow> scan_event env schema now n e st
   | Decoded _ \<Rightarrow> Inr (st \<lparr>ls_errors := ls_errors st @ [numbered ''EVIDENCE_EVENT_NOT_OBJECT'' n]\<rparr>)))"

definition empty_scan :: log_scan where
  "empty_scan = \<lparr>ls_events = [], ls_ids = [], ls_hash = None, ls_created = None, ls_errors = []\<rparr>"

definition scan_lines :: "evidence_env \<Rightarrow> json \<Rightarrow> int \<Rightarrow> string list \<Rightarrow> log_scan \<Rightarrow> log_scan res" where
  "scan_lines env schema now lines st = foldE (scan_line env schema now) (zip [1..<Suc (length lines)] lines) st"

record evidence_store =
  st_log :: "string option"
  st_index :: "json_file option"

definition LF :: string where "LF = [char_of (10::nat)]"

definition read_event_log :: "evidence_env \<Rightarrow> evidence_store \<Rightarrow> int \<Rightarrow> (dict list \<times> string \<times> string list) res" where
  "read_event_log env st now = (case st_log st of
     None \<Rightarrow> Inr ([], [], [''EVIDENCE_LOG_MISSING''])
   | Some raw \<Rightarrow> (case en_event_schema env of
       Unreadable exc \<Rightarrow> Inr ([], raw, [''EVIDENCE_EVENT_SCHEMA_UNREADABLE:'' @ exc])
     | Parsed schema \<Rightarrow> bindE (scan_lines env schema now (split_lines raw) empty_scan) (\<lambda>sc.
         Inr (ls_events sc, raw, uniq (flag (raw \<noteq> [] \<and> \<not> ends_with raw LF) ''EVIDENCE_LOG_TRUNCATED'' @ ls_errors sc)))))"

record evidence_graph =
  gr_errors :: "string list"
  gr_events :: "dict list"
  gr_index :: json
  gr_expected :: json

definition index_errors :: "evidence_env \<Rightarrow> evidence_store \<Rightarrow> json \<Rightarrow> (json \<times> string list) res" where
  "index_errors env st expected = (case st_index st of
     None \<Rightarrow> Inr (JNull, [''EVIDENCE_INDEX_MISSING''])
   | Some (Unreadable exc) \<Rightarrow> Inr (JNull, [''EVIDENCE_INDEX_UNREADABLE:'' @ exc])
   | Some (Parsed stored) \<Rightarrow> (case en_index_schema env of
       Unreadable exc \<Rightarrow> Inr (JNull, [''EVIDENCE_INDEX_UNREADABLE:'' @ exc])
     | Parsed schema \<Rightarrow> catchE is_ValueError
         (bindE (validate (en_search env) stored schema ''$'') (\<lambda>fs. Inr (stored,
            schema_codes ''EVIDENCE_INDEX_SCHEMA:'' fs @ flag (\<not> py_eq stored expected) ''EVIDENCE_INDEX_PROJECTION_MISMATCH'')))
         (\<lambda>_. Inr (JNull, [''EVIDENCE_INDEX_UNREADABLE:ValueError'']))))"

definition read_evidence_graph :: "evidence_env \<Rightarrow> evidence_store \<Rightarrow> int \<Rightarrow> evidence_graph res" where
  "read_evidence_graph env st now = bindE (read_event_log env st now) (\<lambda>(events, raw, errors).
     bindE (project_evidence_index env events (Some raw)) (\<lambda>expected.
     bindE (index_errors env st expected) (\<lambda>(stored, more).
       Inr \<lparr>gr_errors = uniq (errors @ more), gr_events = events, gr_index = stored, gr_expected = expected\<rparr>)))"

definition rebuild_evidence_index :: "evidence_env \<Rightarrow> evidence_store \<Rightarrow> int \<Rightarrow> (evidence_store \<times> json) res" where
  "rebuild_evidence_index env st now = bindE (read_event_log env st now) (\<lambda>(events, raw, errors).
     if errors \<noteq> [] then Inl (ValueError (''EVIDENCE_LOG_NOT_REBUILDABLE:'' @ join '','' errors))
     else bindE (project_evidence_index env events (Some raw)) (\<lambda>index.
       Inr (st \<lparr>st_index := Some (Parsed index)\<rparr>, index)))"

section \<open>Appending\<close>

definition reconciliation_required :: "string list \<Rightarrow> exn" where
  "reconciliation_required errors = ValueError (''EVIDENCE_GRAPH_RECONCILIATION_REQUIRED:'' @ join '','' errors)"

definition recorded_events :: "evidence_env \<Rightarrow> evidence_store \<Rightarrow> int \<Rightarrow> dict list res" where
  "recorded_events env st now = (case st_log st of
     Some _ \<Rightarrow> bindE (read_evidence_graph env st now) (\<lambda>g.
       if gr_errors g \<noteq> [] then Inl (reconciliation_required (gr_errors g)) else Inr (gr_events g))
   | None \<Rightarrow> (if st_index st \<noteq> None then Inl (reconciliation_required [''EVIDENCE_LOG_MISSING_WITH_INDEX'']) else Inr []))"

definition sealed_event :: "evidence_env \<Rightarrow> dict list \<Rightarrow> dict \<Rightarrow> dict res" where
  "sealed_event env events rec = bindE (last_item events ''event_sha256'') (\<lambda>prev.
     (let e = dput ''previous_event_sha256'' prev (dput ''sequence'' (JInt (int (length events) + 1))
                (dput ''schema_version'' (JInt 1) rec))
      in Inr (dput ''event_sha256'' (JStr (evidence_event_sha256 env e)) e)))"

definition created_time :: "dict \<Rightarrow> int res" where
  "created_time e = bindE (ditemE e ''created_at'') (\<lambda>v. case v of JStr t \<Rightarrow> parse_time t | _ \<Rightarrow> Inl AttributeError)"

definition rewinds :: "dict list \<Rightarrow> dict \<Rightarrow> bool res" where
  "rewinds events e = (if events = [] then Inr False else
     bindE (created_time e) (\<lambda>t. bindE (created_time (last events)) (\<lambda>p. Inr (t < p))))"

definition append_evidence_event ::
    "evidence_env \<Rightarrow> evidence_store \<Rightarrow> dict \<Rightarrow> int \<Rightarrow> (evidence_store \<times> dict) res" where
  "append_evidence_event env st rec now =
     (if list_ex (dhas rec) EVENT_RESERVED_FIELDS then Inl (ValueError ''EVIDENCE_RESERVED_FIELDS_FORBIDDEN'') else
     bindE (recorded_events env st now) (\<lambda>events.
     if list_ex (\<lambda>i. py_eq (dget i ''id'') (dget rec ''id'')) events then Inl (ValueError ''EVIDENCE_EVENT_ID_DUPLICATE'') else
     bindE (sealed_event env events rec) (\<lambda>e.
     (case en_event_schema env of
        Unreadable exc \<Rightarrow> Inl (ValueError (''EVIDENCE_EVENT_SCHEMA_UNREADABLE:'' @ exc))
      | Parsed schema \<Rightarrow>
        bindE (verify_evidence env (default_request schema \<lparr>rq_root := True, rq_pass := False, rq_provenance := True\<rparr>) now e) (\<lambda>errs.
        if errs \<noteq> [] then Inl (ValueError (''EVIDENCE_EVENT_INVALID:'' @ join '','' errs)) else
        bindE (rewinds events e) (\<lambda>back. if back then Inl (ValueError ''EVIDENCE_EVENT_TIME_REWIND'') else
        bindE (project_evidence_index env (events @ [e]) None) (\<lambda>index.
          Inr (\<lparr>st_log = Some ((case st_log st of None \<Rightarrow> [] | Some raw \<Rightarrow> raw) @ canonical (JObj e) @ LF),
                 st_index = Some (Parsed index)\<rparr>, e))))))))"

section \<open>The product verdict\<close>

record product_verdict =
  pv_status :: string
  pv_errors :: "string list"
  pv_digest :: json
  pv_events :: "dict list"

text \<open>\<open>max(candidates, key=lambda item: int(item["sequence"]))\<close>: the first of the greatest.\<close>

fun max_by :: "('a \<times> int) list \<Rightarrow> 'a option" where
  "max_by [] = None"
| "max_by ((x, n) # xs) = Some (fst (foldl (\<lambda>(y, m) (z, k). if m < k then (z, k) else (y, m)) (x, n) xs))"

definition latest_of :: "dict list \<Rightarrow> dict option res" where
  "latest_of events = bindE (mapE (\<lambda>e. bindE (ditemE e ''sequence'') (\<lambda>v. bindE (py_int v) (\<lambda>n. Inr (e, n)))) events) (\<lambda>ps.
     Inr (max_by ps))"

definition product_request :: "json \<Rightarrow> dict \<Rightarrow> string \<Rightarrow> string \<Rightarrow> evidence_request" where
  "product_request schema ttls sha kind = default_request schema \<lparr>rq_expected_sha := Some sha, rq_expected_revision := Some sha,
     rq_root := True, rq_artifact := True, rq_provenance := True, rq_sources := Some [''RUNTIME''],
     rq_domains := Some TRUSTED_PRODUCT_DOMAINS, rq_max_ttl := dget ttls kind\<rparr>"

definition kind_errors :: "string \<Rightarrow> string list \<Rightarrow> string list" where
  "kind_errors kind errs = map (\<lambda>x. ''PRODUCT_EVIDENCE_INVALID:'' @ kind @ '':'' @ x) errs"

text \<open>One kind: its errors, whether it failed explicitly, and the event it accepts.\<close>

definition check_kind :: "evidence_env \<Rightarrow> json \<Rightarrow> dict \<Rightarrow> int \<Rightarrow> string \<Rightarrow> dict list \<Rightarrow> string
    \<Rightarrow> (string list \<times> bool \<times> dict list) res" where
  "check_kind env schema ttls now sha events kind =
     (if kind \<notin> set PRODUCT_EVIDENCE_KINDS then Inr ([''PRODUCT_EVIDENCE_KIND_UNSUPPORTED:'' @ kind], False, []) else
     bindE (latest_of (filter (\<lambda>e. dget e ''kind'' = JStr kind \<and> dget e ''sha'' = JStr sha) events)) (\<lambda>found.
     case found of None \<Rightarrow> Inr ([''PRODUCT_EVIDENCE_MISSING:'' @ kind], False, [])
     | Some e \<Rightarrow> (let impact = (dget e ''product_impact'' = JBool True) in
        bindE (verify_evidence env (product_request schema ttls sha kind) now e) (\<lambda>errs.
        bindE (in_set (dget e ''status'') [''FAIL'', ''BLOCKED'']) (\<lambda>failed.
          Inr (flag (\<not> impact) (''PRODUCT_EVIDENCE_INVALID:'' @ kind @ '':PRODUCT_IMPACT_NOT_TRUE'') @ kind_errors kind errs,
               failed, if errs = [] \<and> impact then [e] else []))))))"

definition broken_verdict :: "string \<Rightarrow> string list \<Rightarrow> product_verdict" where
  "broken_verdict status errors = \<lparr>pv_status = status, pv_errors = errors, pv_digest = JNull, pv_events = []\<rparr>"

definition verify_product_evidence ::
    "evidence_env \<Rightarrow> evidence_store \<Rightarrow> int \<Rightarrow> string \<Rightarrow> string list \<Rightarrow> dict option \<Rightarrow> product_verdict res" where
  "verify_product_evidence env st now sha kinds limits = bindE (read_evidence_graph env st now) (\<lambda>g.
     if gr_errors g \<noteq> [] then Inr (broken_verdict
         (if set (gr_errors g) \<subseteq> {''EVIDENCE_LOG_MISSING'', ''EVIDENCE_INDEX_MISSING''} then ''NOT_VERIFIED'' else ''BROKEN'')
         (gr_errors g))
     else (case en_event_schema env of
       Unreadable exc \<Rightarrow> Inr (broken_verdict ''BROKEN'' [''EVIDENCE_EVENT_SCHEMA_UNREADABLE:'' @ exc])
     | Parsed schema \<Rightarrow>
       (let ttls = (case limits of Some (t # ts) \<Rightarrow> t # ts | _ \<Rightarrow> DEFAULT_PRODUCT_TTL_HOURS) in
       bindE (mapE (check_kind env schema ttls now sha (gr_events g)) (sort (remdups kinds))) (\<lambda>rs.
       bindE (itemE (gr_index g) ''log_sha256'') (\<lambda>digest.
       (let errors = concat (map fst rs) in
        Inr \<lparr>pv_status = (if errors = [] then ''VERIFIED'' else if list_ex (fst \<circ> snd) rs then ''BROKEN'' else ''NOT_VERIFIED''),
             pv_errors = uniq errors, pv_digest = digest, pv_events = concat (map (snd \<circ> snd) rs)\<rparr>))))))"

section \<open>What a valid record shows\<close>

lemma record_times_Some: "record_times rec = Inr (Some (c, e)) \<longleftrightarrow>
    parse_time (py_str (dget_or rec ''created_at'' (JStr []))) = Inr c
    \<and> parse_time (py_str (dget_or rec ''expires_at'' (JStr []))) = Inr e"
  by (auto simp: record_times_def catchE_eq_Inr bindE_eq_Inr)

lemma verify_evidence_Nil:
  assumes "verify_evidence env rq now rec = Inr []"
  shows "schema_errors env (rq_schema rq) rec = Inr []"
    "rq_pass rq \<Longrightarrow> dget rec ''status'' = JStr ''PASS''"
    "\<exists>c e. record_times rec = Inr (Some (c, e)) \<and> c \<le> now \<and> c < e \<and> (rq_freshness rq \<longrightarrow> now < e)
        \<and> ttl_errors (rq_max_ttl rq) c e = Inr []"
    "rq_expected_sha rq = Some s \<Longrightarrow> dget rec ''sha'' = JStr s"
    "rq_expected_revision rq = Some r \<Longrightarrow> dget rec ''runtime_revision'' = JStr r"
    "rq_sources rq = Some S \<Longrightarrow> in_set (dget rec ''source_type'') S = Inr True"
    "provenance_errors rq rec = Inr []" "content_errors env rq rec = []"
proof -
  obtain te ex where p: "schema_errors env (rq_schema rq) rec = Inr []" "time_errors rq now rec = Inr te" "te = []"
    "expected_errors rq rec = Inr ex" "ex = []" "provenance_errors rq rec = Inr []" "content_errors env rq rec = []"
    "rq_pass rq \<longrightarrow> dget rec ''status'' = JStr ''PASS''"
    using assms by (auto simp: verify_evidence_def elim!: bindE_InrE)
  show "schema_errors env (rq_schema rq) rec = Inr []" "provenance_errors rq rec = Inr []" "content_errors env rq rec = []"
    "rq_pass rq \<Longrightarrow> dget rec ''status'' = JStr ''PASS''" using p by blast+
  obtain c e where t: "record_times rec = Inr (Some (c, e))"
    using p(2,3) by (auto simp: time_errors_def elim!: bindE_InrE split: option.splits)
  show "\<exists>c e. record_times rec = Inr (Some (c, e)) \<and> c \<le> now \<and> c < e \<and> (rq_freshness rq \<longrightarrow> now < e)
        \<and> ttl_errors (rq_max_ttl rq) c e = Inr []"
    using p(2,3) t by (intro exI [of _ c] exI [of _ e]) (auto simp: time_errors_def elim!: bindE_InrE)
  obtain src where src: "(case rq_sources rq of None \<Rightarrow> Inr True | Some S \<Rightarrow> in_set (dget rec ''source_type'') S) = Inr src"
    and ex: "(case rq_expected_sha rq of None \<Rightarrow> False | Some s \<Rightarrow> dget rec ''sha'' \<noteq> JStr s) = False"
      "(case rq_expected_revision rq of None \<Rightarrow> False | Some s \<Rightarrow> dget rec ''runtime_revision'' \<noteq> JStr s) = False" "src"
    using p(4,5) unfolding expected_errors_def
    by (elim bindE_InrE) (simp only: sum.inject append_is_Nil_conv flag_Nil_iff not_not simp_thms)
  show "rq_expected_sha rq = Some s \<Longrightarrow> dget rec ''sha'' = JStr s" using ex(1) by simp
  show "rq_expected_revision rq = Some r \<Longrightarrow> dget rec ''runtime_revision'' = JStr r" using ex(2) by simp
  show "rq_sources rq = Some S \<Longrightarrow> in_set (dget rec ''source_type'') S = Inr True" using src ex(3) by simp
qed

lemma foldl_pick: "(\<And>a b. f a b = a \<or> f a b = b) \<Longrightarrow> foldl f p ys \<in> insert p (set ys)"
  by (induction ys arbitrary: p) (simp, metis foldl_Cons insert_iff list.set_intros(1,2) list.simps(15))

lemma max_by_mem: "max_by xs = Some x \<Longrightarrow> x \<in> fst ` set xs"
proof (cases xs rule: max_by.cases)
  case (2 y n ys)
  let ?f = "\<lambda>(y, m) (z, k). if m < k then (z, k) else (y :: 'a, m :: int)"
  have "foldl ?f (y, n) ys \<in> insert (y, n) (set ys)" by (rule foldl_pick) (auto split: prod.splits)
  then have "fst (foldl ?f (y, n) ys) \<in> fst ` insert (y, n) (set ys)" by (rule imageI)
  then show "max_by xs = Some x \<Longrightarrow> ?thesis" using 2 by simp
qed simp

lemma max_by_None: "max_by xs = None \<longleftrightarrow> xs = []"
  by (cases xs rule: max_by.cases) auto

lemma latest_of_mem:
  assumes "latest_of events = Inr (Some e)"
  shows "e \<in> set events"
proof -
  obtain ps where ps: "mapE (\<lambda>e. bindE (ditemE e ''sequence'') (\<lambda>v. bindE (py_int v) (\<lambda>n. Inr (e, n)))) events = Inr ps"
    "max_by ps = Some e" using assms unfolding latest_of_def by (elim bindE_InrE) simp
  obtain n where "(e, n) \<in> set ps" using max_by_mem [OF ps(2)] by auto
  from mapE_out [OF ps(1) this] show ?thesis by (auto elim!: bindE_InrE)
qed

text \<open>What the record of a kind must show for the product to count as verified.\<close>

definition trusted_product_evidence :: "evidence_env \<Rightarrow> int \<Rightarrow> string \<Rightarrow> string \<Rightarrow> dict \<Rightarrow> bool" where
  "trusted_product_evidence env now sha kind e = (
     dget e ''kind'' = JStr kind \<and> dget e ''sha'' = JStr sha \<and> dget e ''runtime_revision'' = JStr sha
     \<and> dget e ''status'' = JStr ''PASS'' \<and> dget e ''product_impact'' = JBool True \<and> dget e ''source_type'' = JStr ''RUNTIME''
     \<and> (\<exists>c x. record_times e = Inr (Some (c, x)) \<and> c \<le> now \<and> now < x)
     \<and> (\<exists>p d. dget e ''provenance'' = JObj p \<and> dget p ''trust_domain'' = JStr d \<and> d \<in> set TRUSTED_PRODUCT_DOMAINS)
     \<and> (\<exists>h. h = py_str (dget_or e ''content_sha256'' (JStr [])) \<and> sha256_hex h
          \<and> en_artifact env (py_str (dget e ''artifact'')) = FileDigest h))"

lemma provenance_trusted:
  assumes "provenance_errors rq rec = Inr []" "rq_provenance rq" "rq_domains rq = Some D"
  shows "\<exists>p d. dget rec ''provenance'' = JObj p \<and> dget p ''trust_domain'' = JStr d \<and> d \<in> set D"
  using assms by (auto simp: provenance_errors_def in_set_True elim!: bindE_InrE split: json.splits if_split_asm)

lemma content_found:
  assumes "content_errors env rq rec = []" "rq_artifact rq"
  shows "sha256_hex (py_str (dget_or rec ''content_sha256'' (JStr [])))
    \<and> en_artifact env (py_str (dget rec ''artifact'')) = FileDigest (py_str (dget_or rec ''content_sha256'' (JStr [])))"
proof -
  let ?h = "py_str (dget_or rec ''content_sha256'' (JStr []))"
  have h: "sha256_hex ?h" and t: "truthy (dget rec ''artifact'')" and r: "rq_root rq"
    using assms by (auto simp: content_errors_def Let_def)
  have "?h \<noteq> []" using h by (auto simp: hex_n_def)
  then show ?thesis using assms(1) h t r
    by (cases "en_artifact env (py_str (dget rec ''artifact''))") (simp_all add: content_errors_def Let_def)
qed

lemma check_kind_accepts:
  assumes "check_kind env schema ttls now sha events kind = Inr ([], failed, es)"
  shows "kind \<in> set PRODUCT_EVIDENCE_KINDS \<and> (\<exists>e. es = [e] \<and> e \<in> set events \<and> trusted_product_evidence env now sha kind e)"
proof -
  have k: "kind \<in> set PRODUCT_EVIDENCE_KINDS" using assms by (auto simp: check_kind_def split: if_split_asm)
  let ?cs = "filter (\<lambda>e. dget e ''kind'' = JStr kind \<and> dget e ''sha'' = JStr sha) events"
  let ?rq = "product_request schema ttls sha kind"
  obtain e errs where e: "latest_of ?cs = Inr (Some e)" "verify_evidence env ?rq now e = Inr errs" "errs = []"
    "dget e ''product_impact'' = JBool True" "es = [e]"
    using assms k by (auto simp: check_kind_def Let_def kind_errors_def elim!: bindE_InrE split: option.splits if_split_asm)
  have m: "e \<in> set events" "dget e ''kind'' = JStr kind" using latest_of_mem [OF e(1)] by simp_all
  note v = verify_evidence_Nil [OF e(2) [unfolded e(3)]]
  have rq: "rq_pass ?rq" "rq_expected_sha ?rq = Some sha" "rq_expected_revision ?rq = Some sha" "rq_sources ?rq = Some [''RUNTIME'']"
    "rq_freshness ?rq" "rq_provenance ?rq" "rq_domains ?rq = Some TRUSTED_PRODUCT_DOMAINS" "rq_artifact ?rq"
    by (simp_all add: product_request_def default_request_def)
  have "trusted_product_evidence env now sha kind e"
    unfolding trusted_product_evidence_def
    using m(2) v(4) [OF rq(2)] v(5) [OF rq(3)] v(2) [OF rq(1)] e(4) v(6) [OF rq(4)] v(3) rq(5)
      provenance_trusted [OF v(7) rq(6,7)] content_found [OF v(8) rq(8)]
    by (intro conjI) (auto simp: in_set_True)
  then show ?thesis using k e(5) m(1) by blast
qed

lemma verified_product:
  assumes "verify_product_evidence env st now sha kinds limits = Inr v" "pv_status v = ''VERIFIED''"
  shows "\<exists>g. read_evidence_graph env st now = Inr g \<and> gr_errors g = [] \<and> pv_errors v = []
     \<and> (\<forall>kind \<in> set kinds. kind \<in> set PRODUCT_EVIDENCE_KINDS
       \<and> (\<exists>e \<in> set (pv_events v). e \<in> set (gr_events g) \<and> trusted_product_evidence env now sha kind e))"
proof -
  obtain g where g: "read_evidence_graph env st now = Inr g" and r: "gr_errors g = []"
    using assms by (auto simp: verify_product_evidence_def broken_verdict_def elim!: bindE_InrE split: if_split_asm)
  obtain schema where sc: "en_event_schema env = Parsed schema"
    using assms g r by (cases "en_event_schema env") (auto simp: verify_product_evidence_def broken_verdict_def)
  define ttls where "ttls = (case limits of Some (t # ts) \<Rightarrow> t # ts | _ \<Rightarrow> DEFAULT_PRODUCT_TTL_HOURS)"
  obtain rs where rs: "mapE (check_kind env schema ttls now sha (gr_events g)) (sort (remdups kinds)) = Inr rs"
    and v: "pv_status v = (if concat (map fst rs) = [] then ''VERIFIED'' else if list_ex (fst \<circ> snd) rs then ''BROKEN'' else ''NOT_VERIFIED'')"
      "pv_errors v = uniq (concat (map fst rs))" "pv_events v = concat (map (snd \<circ> snd) rs)"
    using assms(1) g r sc unfolding verify_product_evidence_def Let_def ttls_def
    by (auto elim!: bindE_InrE)
  have none: "concat (map fst rs) = []" using v(1) assms(2) by (auto split: if_split_asm)
  have "kind \<in> set PRODUCT_EVIDENCE_KINDS \<and> (\<exists>e \<in> set (pv_events v). e \<in> set (gr_events g) \<and> trusted_product_evidence env now sha kind e)"
    if "kind \<in> set kinds" for kind
  proof -
    have "kind \<in> set (sort (remdups kinds))" using that by simp
    then obtain x where x: "x \<in> set rs" "check_kind env schema ttls now sha (gr_events g) kind = Inr x"
      using mapE_in [OF rs] by blast
    have "fst x = []" using x(1) none by simp
    then obtain failed es where x': "x = ([], failed, es)" by (metis prod.collapse)
    from check_kind_accepts [OF x(2) [unfolded x']] show ?thesis using x(1) v(3) by (auto simp: x' image_iff intro!: bexI)
  qed
  then show ?thesis using g r v(2) none by auto
qed

section \<open>The chain of the log\<close>

definition evidence_links :: "evidence_env \<Rightarrow> nat \<Rightarrow> string option \<Rightarrow> dict \<Rightarrow> bool" where
  "evidence_links env i p e = (py_eq (dget e ''sequence'') (JInt (int i + 1)) \<and> dget e ''previous_event_sha256'' = opt_json p
     \<and> dget e ''event_sha256'' = JStr (evidence_event_sha256 env e))"

primrec evidence_chained :: "evidence_env \<Rightarrow> nat \<Rightarrow> string option \<Rightarrow> dict list \<Rightarrow> bool" where
  "evidence_chained env i p [] = True"
| "evidence_chained env i p (e # es) = (evidence_links env i p e
     \<and> evidence_chained env (Suc i) (Some (str_of (dget e ''event_sha256''))) es)"

definition previous_of :: "dict \<Rightarrow> string option" where
  "previous_of e = (case dget e ''previous_event_sha256'' of JStr s \<Rightarrow> Some s | _ \<Rightarrow> None)"

interpretation evidence_log: hash_chain "evidence_links env" "evidence_chained env"
    "\<lambda>e. str_of (dget e ''event_sha256'')" previous_of "\<lambda>e. JObj (ddel ''event_sha256'' e)" "\<lambda>j. en_sha env (canonical j)" for env
proof unfold_locales
  fix e e' :: dict
  assume "JObj (ddel ''event_sha256'' e) = JObj (ddel ''event_sha256'' e')"
  then have "dget (ddel ''event_sha256'' e) ''previous_event_sha256'' = dget (ddel ''event_sha256'' e') ''previous_event_sha256''"
    by simp
  then show "previous_of e = previous_of e'" by (simp add: previous_of_def)
qed (auto simp: evidence_links_def previous_of_def opt_json_def evidence_event_sha256_def split: option.splits)

definition evidence_head :: "dict list \<Rightarrow> string option" where
  "evidence_head es = (if es = [] then None else Some (str_of (dget (last es) ''event_sha256'')))"

lemma evidence_log_head [simp]: "evidence_log.head None es = evidence_head es"
  by (simp add: evidence_log.head_def evidence_head_def)

text \<open>A scan that finds nothing has followed the chain.\<close>

definition good_scan :: "evidence_env \<Rightarrow> log_scan \<Rightarrow> bool" where
  "good_scan env st = (evidence_chained env 0 None (ls_events st) \<and> ls_hash st = evidence_head (ls_events st)
     \<and> ls_ids st = map (\<lambda>e. py_str (dget e ''id'')) (ls_events st))"

lemma scan_errors_mono:
  assumes "foldE (scan_line env schema now) xs st = Inr st'" "ls_errors st' = []"
  shows "ls_errors st = []"
  using assms
proof (induction xs arbitrary: st)
  case (Cons x xs)
  then obtain st1 where s: "scan_line env schema now x st = Inr st1" "foldE (scan_line env schema now) xs st1 = Inr st'"
    by (auto elim!: bindE_InrE)
  have "ls_errors st1 = []" using Cons.IH [OF s(2)] Cons.prems(2) by blast
  then show ?case using s(1)
    by (auto simp: scan_line_def scan_event_def split: json_text.splits json.splits prod.splits elim!: bindE_InrE)
qed simp

lemma scan_line_good:
  assumes "scan_line env schema now (n, line) st = Inr st'" "ls_errors st' = []" "good_scan env st" "n = Suc (length (ls_events st))"
  shows "good_scan env st' \<and> length (ls_events st') = n \<and> (\<exists>e. en_loads env line = Decoded (JObj e) \<and> ls_events st' = ls_events st @ [e]
    \<and> in_set (dget e ''id'') (ls_ids st) = Inr False)"
proof -
  obtain e where e: "en_loads env line = Decoded (JObj e)" "scan_event env schema now n e st = Inr st'"
    using assms(1,2) by (auto simp: scan_line_def split: json_text.splits json.splits)
  obtain created where st': "event_errors env schema now n e st = Inr []" "ls_events st' = ls_events st @ [e]"
      "ls_ids st' = ls_ids st @ [py_str (dget e ''id'')]" "ls_hash st' = Some (text_or (dget e ''event_sha256''))"
    using e(2) assms(2) unfolding scan_event_def by (auto elim!: bindE_InrE)
  have ok: "py_eq (dget e ''sequence'') (JInt (int n))" "dget e ''previous_event_sha256'' = opt_json (ls_hash st)"
    "dget e ''event_sha256'' = JStr (evidence_event_sha256 env e)" "in_set (dget e ''id'') (ls_ids st) = Inr False"
    using st'(1) unfolding event_errors_def
    by (auto elim!: bindE_InrE)
  have "evidence_links env (length (ls_events st)) (evidence_head (ls_events st)) e"
    using ok assms(3,4) by (simp add: evidence_links_def good_scan_def add.commute)
  then have "evidence_chained env 0 None (ls_events st @ [e])"
    using assms(3) evidence_log.chained_snoc [of env 0 None "ls_events st" e] by (simp add: good_scan_def)
  moreover have "text_or (dget e ''event_sha256'') = str_of (dget e ''event_sha256'')"
    by (simp add: ok(3) text_or_def py_or_def)
  ultimately show ?thesis using assms(3,4) st' e(1) ok(4) by (auto simp: good_scan_def evidence_head_def)
qed

lemma scan_lines_decoded:
  assumes "foldE (scan_line env schema now) (zip ns ls) st = Inr st'" "ls_errors st' = []" "length ns = length ls"
  shows "\<exists>es. ls_events st' = ls_events st @ es \<and> map (en_loads env) ls = map (\<lambda>e. Decoded (JObj e)) es"
  using assms
proof (induction ls arbitrary: ns st)
  case (Cons l ls)
  then obtain n ns' where n: "ns = n # ns'" "length ns' = length ls" by (cases ns) auto
  obtain st1 where s: "scan_line env schema now (n, l) st = Inr st1" "foldE (scan_line env schema now) (zip ns' ls) st1 = Inr st'"
    using Cons.prems(1) unfolding n(1) by (auto elim!: bindE_InrE)
  have "ls_errors st1 = []" using scan_errors_mono [OF s(2) Cons.prems(2)] .
  then obtain e where e: "en_loads env l = Decoded (JObj e)" "ls_events st1 = ls_events st @ [e]"
    using s(1) by (auto simp: scan_line_def scan_event_def split: json_text.splits json.splits elim!: bindE_InrE)
  obtain es where "ls_events st' = ls_events st1 @ es" "map (en_loads env) ls = map (\<lambda>e. Decoded (JObj e)) es"
    using Cons.IH [OF s(2) Cons.prems(2) n(2)] by blast
  then show ?case using e by (intro exI [of _ "e # es"]) simp
qed simp

lemma scan_lines_good:
  assumes "foldE (scan_line env schema now) (zip [Suc k..<Suc (k + length lines)] lines) st = Inr st'" "ls_errors st' = []"
    "good_scan env st" "k = length (ls_events st)"
  shows "good_scan env st' \<and> length (ls_events st') = k + length lines"
  using assms
proof (induction lines arbitrary: k st)
  case (Cons l lines)
  have z: "zip [Suc k..<Suc (k + length (l # lines))] (l # lines) = (Suc k, l) # zip [Suc (Suc k)..<Suc (Suc k + length lines)] lines"
    by (simp add: upt_conv_Cons del: upt_Suc)
  from Cons.prems(1) obtain st1 where s: "scan_line env schema now (Suc k, l) st = Inr st1"
    "foldE (scan_line env schema now) (zip [Suc (Suc k)..<Suc (Suc k + length lines)] lines) st1 = Inr st'"
    unfolding z by (auto elim!: bindE_InrE)
  have e1: "ls_errors st1 = []" using scan_errors_mono [OF s(2) Cons.prems(2)] .
  from scan_line_good [OF s(1) e1 Cons.prems(3)] Cons.prems(4)
  have "good_scan env st1" "Suc k = length (ls_events st1)" by auto
  from Cons.IH [OF s(2) Cons.prems(2) this] show ?case by simp
qed simp

lemma valid_graph:
  assumes "read_evidence_graph env st now = Inr g" "gr_errors g = []"
  obtains raw where "st_log st = Some raw" "evidence_chained env 0 None (gr_events g)"
    "length (gr_events g) = length (split_lines raw)" "project_evidence_index env (gr_events g) (Some raw) = Inr (gr_expected g)"
proof -
  obtain raw errors where r: "read_event_log env st now = Inr (gr_events g, raw, errors)" "errors = []"
    "project_evidence_index env (gr_events g) (Some raw) = Inr (gr_expected g)"
    using assms by (auto simp: read_evidence_graph_def elim!: bindE_InrE)
  obtain schema sc where sc: "st_log st = Some raw" "en_event_schema env = Parsed schema"
    "scan_lines env schema now (split_lines raw) empty_scan = Inr sc" "gr_events g = ls_events sc" "ls_errors sc = []"
    using r(1,2) by (auto simp: read_event_log_def split: option.splits json_file.splits elim!: bindE_InrE)
  have "good_scan env empty_scan" by (simp add: good_scan_def empty_scan_def evidence_head_def)
  from scan_lines_good [of env schema now 0 "split_lines raw" empty_scan sc, OF _ sc(5) this] sc(3)
  have "good_scan env sc \<and> length (ls_events sc) = length (split_lines raw)"
    by (simp add: scan_lines_def empty_scan_def)
  then show ?thesis using that sc r(3) by (simp add: good_scan_def)
qed

section \<open>Appending extends the chain\<close>

lemma ddel_dput_same [simp]: "ddel k (dput k v d) = ddel k d"
  by (induction d) (auto simp: ddel_def dput_def)

lemma last_item_head:
  assumes "evidence_chained env 0 None events" "last_item events ''event_sha256'' = Inr v"
  shows "v = opt_json (evidence_head events)"
proof (cases events rule: rev_cases)
  case Nil
  then show ?thesis using assms(2) by (simp add: last_item_def evidence_head_def opt_json_def)
next
  case (snoc es e)
  then have "evidence_links env (length es) (evidence_head es) e"
    using assms(1) evidence_log.chained_snoc [of env 0 None es e] by simp
  then have "dget e ''event_sha256'' = JStr (evidence_event_sha256 env e)" by (simp add: evidence_links_def)
  moreover have "dget e ''event_sha256'' = v" using assms(2) snoc by (simp add: last_item_def ditemE_dget)
  ultimately show ?thesis using snoc by (auto simp: evidence_head_def opt_json_def)
qed

lemma sealed_links:
  assumes "sealed_event env events rec = Inr e" "evidence_chained env 0 None events"
  shows "evidence_links env (length events) (evidence_head events) e \<and> (\<forall>k. k \<notin> set EVENT_RESERVED_FIELDS \<longrightarrow> dget e k = dget rec k)"
proof -
  obtain prev e0 where p: "last_item events ''event_sha256'' = Inr prev"
    and e0: "e0 = dput ''previous_event_sha256'' prev (dput ''sequence'' (JInt (int (length events) + 1))
                (dput ''schema_version'' (JInt 1) rec))"
    and e: "e = dput ''event_sha256'' (JStr (evidence_event_sha256 env e0)) e0"
    using assms(1) unfolding sealed_event_def Let_def by (auto elim!: bindE_InrE)
  have "evidence_event_sha256 env e = evidence_event_sha256 env e0" by (simp add: e evidence_event_sha256_def)
  then show ?thesis using last_item_head [OF assms(2) p]
    by (auto simp: evidence_links_def e e0 EVENT_RESERVED_FIELDS_def)
qed

text \<open>What \<open>append_evidence_event\<close> does when it returns.\<close>

lemma append_cases:
  assumes "append_evidence_event env st rec now = Inr (st', e)"
  obtains events schema idx where "\<not> list_ex (dhas rec) EVENT_RESERVED_FIELDS" "recorded_events env st now = Inr events"
    "\<not> list_ex (\<lambda>i. py_eq (dget i ''id'') (dget rec ''id'')) events" "sealed_event env events rec = Inr e"
    "en_event_schema env = Parsed schema"
    "verify_evidence env (default_request schema \<lparr>rq_root := True, rq_pass := False, rq_provenance := True\<rparr>) now e = Inr []"
    "rewinds events e = Inr False" "project_evidence_index env (events @ [e]) None = Inr idx"
    "st' = \<lparr>st_log = Some ((case st_log st of None \<Rightarrow> [] | Some raw \<Rightarrow> raw) @ canonical (JObj e) @ LF), st_index = Some (Parsed idx)\<rparr>"
proof -
  have r: "\<not> list_ex (dhas rec) EVENT_RESERVED_FIELDS" using assms by (auto simp: append_evidence_event_def split: if_split_asm)
  obtain events where ev: "recorded_events env st now = Inr events" "\<not> list_ex (\<lambda>i. py_eq (dget i ''id'') (dget rec ''id'')) events"
    using assms r unfolding append_evidence_event_def by (auto elim!: bindE_InrE split: if_split_asm)
  obtain e' where e': "sealed_event env events rec = Inr e'"
    using assms r ev unfolding append_evidence_event_def by (auto elim!: bindE_InrE split: if_split_asm)
  obtain schema where sc: "en_event_schema env = Parsed schema"
    using assms r ev e' unfolding append_evidence_event_def by (cases "en_event_schema env") auto
  obtain errs bk idx where "verify_evidence env (default_request schema \<lparr>rq_root := True, rq_pass := False, rq_provenance := True\<rparr>) now e' = Inr errs"
    "errs = []" "rewinds events e' = Inr bk" "\<not> bk" "project_evidence_index env (events @ [e']) None = Inr idx"
    "st' = \<lparr>st_log = Some ((case st_log st of None \<Rightarrow> [] | Some raw \<Rightarrow> raw) @ canonical (JObj e') @ LF), st_index = Some (Parsed idx)\<rparr>"
    "e' = e"
    using assms r ev e' sc unfolding append_evidence_event_def by (auto elim!: bindE_InrE split: if_split_asm)
  then show ?thesis using that r ev e' sc by simp
qed

lemma recorded_chain:
  assumes "recorded_events env st now = Inr events"
  shows "evidence_chained env 0 None events"
  using assms
  by (auto simp: recorded_events_def elim!: bindE_InrE valid_graph split: option.splits if_split_asm)

text \<open>
  C37. The product counts as verified only on trusted evidence: a verdict VERIFIED means that the evidence graph
  is intact and that every required kind is a product kind whose accepted record of the graph passed, names the
  exact commit as its sha and its runtime revision, comes from the runtime of a trusted domain, is in its
  period of validity, and refers to an artifact whose digest is the recorded one.
\<close>

theorem product_verdict_needs_evidence:
  assumes "verify_product_evidence env st now sha kinds limits = Inr v" "pv_status v = ''VERIFIED''" "kind \<in> set kinds"
  shows "\<exists>g e. read_evidence_graph env st now = Inr g \<and> gr_errors g = [] \<and> kind \<in> set PRODUCT_EVIDENCE_KINDS
    \<and> e \<in> set (pv_events v) \<and> e \<in> set (gr_events g) \<and> trusted_product_evidence env now sha kind e"
proof -
  from verified_product [OF assms(1,2)] obtain g where g: "read_evidence_graph env st now = Inr g" "gr_errors g = []"
    "\<forall>kind \<in> set kinds. kind \<in> set PRODUCT_EVIDENCE_KINDS
       \<and> (\<exists>e \<in> set (pv_events v). e \<in> set (gr_events g) \<and> trusted_product_evidence env now sha kind e)" by (elim exE conjE) (rule that)
  from bspec [OF g(3) assms(3)] obtain e where "kind \<in> set PRODUCT_EVIDENCE_KINDS" "e \<in> set (pv_events v)"
    "e \<in> set (gr_events g)" "trusted_product_evidence env now sha kind e" by (elim conjE bexE) (rule that)
  with g(1,2) show ?thesis by (intro exI [of _ g] exI [of _ e] conjI)
qed

text \<open>A store with one event, which every codec function reads back.\<close>

definition smoke_event :: dict where
  "smoke_event = [(''id'', JStr ''e-1''), (''kind'', JStr ''SMOKE''), (''status'', JStr ''PASS''), (''sha'', JStr ''c''),
     (''runtime_revision'', JStr ''c''), (''product_impact'', JBool True), (''source_type'', JStr ''RUNTIME''),
     (''created_at'', JStr ''2026-01-01T10:00:00Z''), (''expires_at'', JStr ''2026-01-01T12:00:00Z''),
     (''content_sha256'', JStr (replicate 64 CHR ''a'')), (''artifact'', JStr ''log''),
     (''provenance'', JObj [(''provider'', JStr ''p''), (''source_identity'', JStr ''s''), (''trust_domain'', JStr ''adwf-trusted-runtime''),
        (''repository'', JStr ''r''), (''workflow'', JStr ''w''), (''invocation_id'', JStr ''i'')]),
     (''schema_version'', JInt 1), (''sequence'', JInt 1), (''previous_event_sha256'', JNull), (''event_sha256'', JStr ''d'')]"

definition smoke_env :: evidence_env where
  "smoke_env = \<lparr>en_sha = (\<lambda>_. ''d''), en_loads = (\<lambda>_. Decoded (JObj smoke_event)), en_search = (\<lambda>_ _. Inr True),
     en_artifact = (\<lambda>_. FileDigest (replicate 64 CHR ''a'')), en_event_schema = Parsed (JObj []), en_index_schema = Parsed (JObj [])\<rparr>"

definition smoke_index :: json where
  "smoke_index = JObj [(''schema_version'', JInt 1), (''event_count'', JInt 1), (''head_event_sha256'', JStr ''d''),
     (''log_sha256'', JStr ''d''), (''generated_at'', JStr ''2026-01-01T10:00:00Z''),
     (''records'', JList [JObj [(''key'', JStr (event_key smoke_event)), (''event_id'', JStr ''e-1''), (''sequence'', JInt 1), (''kind'', JStr ''SMOKE''),
       (''status'', JStr ''PASS''), (''sha'', JStr ''c''), (''runtime_revision'', JStr ''c''), (''created_at'', JStr ''2026-01-01T10:00:00Z''),
       (''expires_at'', JStr ''2026-01-01T12:00:00Z''), (''event_sha256'', JStr ''d'')]])]"

definition smoke_store :: evidence_store where
  "smoke_store = \<lparr>st_log = Some (''x'' @ LF), st_index = Some (Parsed smoke_index)\<rparr>"

definition smoke_time :: int where "smoke_time = 63902860200000000"

lemma smoke_clock: "parse_time ''2026-01-01T10:00:00Z'' = Inr 63902858400000000"
  "parse_time ''2026-01-01T12:00:00Z'' = Inr 63902865600000000"
  by code_simp+

lemma smoke_times: "record_times smoke_event = Inr (Some (63902858400000000, 63902865600000000))"
  by (simp add: record_times_def smoke_event_def smoke_clock)

lemma smoke_digest: "sha256_hex (replicate 64 CHR ''a'')"
  by (simp add: hex_n_replicate is_hex_def)

lemma smoke_provenance:
  assumes "rq_domains rq = None \<or> rq_domains rq = Some TRUSTED_PRODUCT_DOMAINS"
  shows "provenance_errors rq smoke_event = Inr []"
proof -
  have "\<not> list_ex (\<lambda>k. strip (py_str (dget_or (dict_of (dget smoke_event ''provenance'')) k (JStr []))) = []) PROVENANCE_FIELDS"
    by code_simp
  then show ?thesis using assms by (auto simp: provenance_errors_def smoke_event_def TRUSTED_PRODUCT_DOMAINS_def)
qed

lemma smoke_content: "rq_artifact rq \<longrightarrow> rq_root rq \<Longrightarrow> content_errors smoke_env rq smoke_event = []"
  using smoke_digest by (auto simp: content_errors_def smoke_event_def smoke_env_def Let_def)

lemmas smoke_checks = verify_evidence_def schema_errors_def time_errors_def smoke_times ttl_errors_def expected_errors_def
  smoke_provenance smoke_content default_request_def smoke_time_def

lemma smoke_verify:
  "verify_evidence smoke_env (stored_event_request (JObj [])) smoke_time smoke_event = Inr []"
  "verify_evidence smoke_env (product_request (JObj []) DEFAULT_PRODUCT_TTL_HOURS ''c'' ''SMOKE'') smoke_time smoke_event = Inr []"
  "verify_evidence smoke_env (default_request (JObj []) \<lparr>rq_root := True, rq_pass := False, rq_provenance := True\<rparr>) smoke_time smoke_event = Inr []"
  by (simp_all add: smoke_checks stored_event_request_def product_request_def DEFAULT_PRODUCT_TTL_HOURS_def overflow_bound_def)
    (simp add: smoke_event_def)

lemma smoke_graph: "read_evidence_graph smoke_env smoke_store smoke_time
   = Inr \<lparr>gr_errors = [], gr_events = [smoke_event], gr_index = smoke_index, gr_expected = smoke_index\<rparr>"
proof -
  have l: "split_lines (CHR ''x'' # LF) = [''x'']" "ends_with (CHR ''x'' # LF) LF" by code_simp+
  have sc: "scan_lines smoke_env (JObj []) smoke_time [''x''] empty_scan = Inr \<lparr>ls_events = [smoke_event], ls_ids = [''e-1''],
      ls_hash = Some ''d'', ls_created = Some 63902858400000000, ls_errors = []\<rparr>"
    by (simp add: scan_lines_def scan_line_def scan_event_def event_errors_def empty_scan_def empty_schema schema_codes_def smoke_verify
        smoke_env_def [THEN arg_cong, of en_loads] event_time_def evidence_event_sha256_def opt_json_def text_or_def py_or_def numeral_eq_Suc)
      (simp add: smoke_env_def smoke_event_def smoke_clock)
  have ix: "project_evidence_index smoke_env [smoke_event] (Some raw) = Inr smoke_index" for raw
    by (simp add: project_evidence_index_def latest_records_def last_item_def index_record_def smoke_index_def smoke_env_def dput_def)
      (simp add: smoke_event_def)
  have eq: "py_eq smoke_index smoke_index"
    by (simp add: smoke_index_def eq_dict_def)
  have vi: "validate s smoke_index (JObj []) p = Inr []" for s p
    using empty_schema by (simp add: smoke_index_def)
  show ?thesis
    by (simp add: read_evidence_graph_def read_event_log_def smoke_store_def l sc ix index_errors_def eq vi schema_codes_def
      smoke_env_def [THEN arg_cong, of en_event_schema] smoke_env_def [THEN arg_cong, of en_index_schema]
      del: split_lines.simps)
qed

lemma smoke_verdict: "\<exists>v. verify_product_evidence smoke_env smoke_store smoke_time ''c'' [''SMOKE''] None = Inr v
   \<and> pv_status v = ''VERIFIED''"
proof -
  have s: "en_event_schema smoke_env = Parsed (JObj [])" by (simp add: smoke_env_def)
  have e: "dget smoke_event ''kind'' = JStr ''SMOKE''" "dget smoke_event ''sha'' = JStr ''c''" "dget smoke_event ''product_impact'' = JBool True"
    "ditemE smoke_event ''sequence'' = Inr (JInt 1)" "dget smoke_event ''status'' = JStr ''PASS''" by (simp_all add: smoke_event_def)
  have k: "check_kind smoke_env (JObj []) DEFAULT_PRODUCT_TTL_HOURS smoke_time ''c'' [smoke_event] ''SMOKE'' = Inr ([], False, [smoke_event])"
    by (simp add: check_kind_def PRODUCT_EVIDENCE_KINDS_def latest_of_def e smoke_verify kind_errors_def Let_def)
  have i: "itemE smoke_index ''log_sha256'' = Inr (JStr ''d'')" by (simp add: smoke_index_def)
  show ?thesis by (simp add: verify_product_evidence_def smoke_graph s k i Let_def)
qed

lemma product_verdict_needs_evidence_witness:
  "\<exists>e. trusted_product_evidence smoke_env smoke_time ''c'' ''SMOKE'' e \<and> e = smoke_event"
proof -
  obtain v where "verify_product_evidence smoke_env smoke_store smoke_time ''c'' [''SMOKE''] None = Inr v" "pv_status v = ''VERIFIED''"
    using smoke_verdict by blast
  from product_verdict_needs_evidence [OF this, of "''SMOKE''"] show ?thesis by (auto simp: smoke_graph)
qed

text \<open>The lines and the stored index of an intact graph, and what a projection holds.\<close>

lemma graph_lines:
  assumes "read_evidence_graph env st now = Inr g" "gr_errors g = []" "st_log st = Some raw"
  shows "map (en_loads env) (split_lines raw) = map (\<lambda>e. Decoded (JObj e)) (gr_events g)"
proof -
  obtain raw' where "read_event_log env st now = Inr (gr_events g, raw', [])"
    using assms by (auto simp: read_evidence_graph_def elim!: bindE_InrE)
  then obtain schema sc where "scan_lines env schema now (split_lines raw) empty_scan = Inr sc" "gr_events g = ls_events sc" "ls_errors sc = []"
    using assms(3) by (auto simp: read_event_log_def split: json_file.splits elim!: bindE_InrE)
  then show ?thesis
    using scan_lines_decoded [of env schema now "[1..<Suc (length (split_lines raw))]" "split_lines raw" empty_scan sc]
    by (auto simp: scan_lines_def empty_scan_def simp del: upt_Suc)
qed

lemma stored_index:
  assumes "read_evidence_graph env st now = Inr g" "gr_errors g = []"
  obtains stored schema where "st_index st = Some (Parsed stored)" "en_index_schema env = Parsed schema"
    "validate (en_search env) stored schema ''$'' = Inr []" "py_eq stored (gr_expected g)" "gr_index g = stored"
proof -
  have i: "index_errors env st (gr_expected g) = Inr (gr_index g, [])"
    using assms by (auto simp: read_evidence_graph_def elim!: bindE_InrE)
  then obtain stored schema where s: "st_index st = Some (Parsed stored)" "en_index_schema env = Parsed schema"
    by (auto simp: index_errors_def split: option.splits json_file.splits)
  with i show ?thesis
    by (intro that [of stored schema])
      (auto simp: index_errors_def schema_codes_def flag_def catchE_def bindE_def split: sum.splits if_splits)
qed

lemma projected_index:
  assumes "evidence_chained env 0 None events" "project_evidence_index env events (Some raw) = Inr p"
  shows "\<exists>latest c. latest_records events = Inr latest \<and> p = JObj [(''schema_version'', JInt 1),
    (''event_count'', JInt (int (length events))), (''head_event_sha256'', opt_json (evidence_head events)),
    (''log_sha256'', JStr (en_sha env raw)), (''generated_at'', c), (''records'', JList (map snd (sort_key fst latest)))]"
  using assms(2) by (auto simp: project_evidence_index_def elim!: bindE_InrE dest!: last_item_head [OF assms(1)])

text \<open>
  C38. An intact evidence graph is one hash chain: its events are numbered from one, each names the digest of its
  predecessor and carries its own, and each line of the log decodes to its event.  The index that is stored
  beside the log was readable, passes its schema and equals the projection of exactly these events: their
  number, the digest of the last one, the digest of the log and the latest record of every key.  So two
  intact graphs with the same head record the same events, unless two of them collide under the digest.
\<close>

theorem intact_evidence_is_one_chain:
  assumes "read_evidence_graph env st now = Inr g" "gr_errors g = []"
  shows "evidence_chained env 0 None (gr_events g)
    \<and> (\<exists>raw stored schema latest c. st_log st = Some raw
         \<and> map (en_loads env) (split_lines raw) = map (\<lambda>e. Decoded (JObj e)) (gr_events g)
         \<and> st_index st = Some (Parsed stored) \<and> en_index_schema env = Parsed schema
         \<and> validate (en_search env) stored schema ''$'' = Inr [] \<and> gr_index g = stored
         \<and> latest_records (gr_events g) = Inr latest
         \<and> py_eq stored (JObj [(''schema_version'', JInt 1), (''event_count'', JInt (int (length (gr_events g)))),
              (''head_event_sha256'', opt_json (evidence_head (gr_events g))), (''log_sha256'', JStr (en_sha env raw)),
              (''generated_at'', c), (''records'', JList (map snd (sort_key fst latest)))]))
    \<and> (\<forall>st' now' g'. read_evidence_graph env st' now' = Inr g' \<and> gr_errors g' = []
         \<and> evidence_head (gr_events g') = evidence_head (gr_events g)
         \<and> inj_on (\<lambda>j. en_sha env (canonical j)) ((\<lambda>e. JObj (ddel ''event_sha256'' e)) ` (set (gr_events g') \<union> set (gr_events g)))
         \<longrightarrow> map (ddel ''event_sha256'') (gr_events g') = map (ddel ''event_sha256'') (gr_events g))"
proof (intro conjI allI impI)
  obtain raw where r: "st_log st = Some raw" "evidence_chained env 0 None (gr_events g)"
    "length (gr_events g) = length (split_lines raw)" "project_evidence_index env (gr_events g) (Some raw) = Inr (gr_expected g)"
    using valid_graph [OF assms] by blast
  show "evidence_chained env 0 None (gr_events g)" by (rule r(2))
  obtain stored schema where s: "st_index st = Some (Parsed stored)" "en_index_schema env = Parsed schema"
    "validate (en_search env) stored schema ''$'' = Inr []" "py_eq stored (gr_expected g)" "gr_index g = stored"
    using stored_index [OF assms] by blast
  obtain latest c where l: "latest_records (gr_events g) = Inr latest" "gr_expected g = JObj [(''schema_version'', JInt 1),
      (''event_count'', JInt (int (length (gr_events g)))), (''head_event_sha256'', opt_json (evidence_head (gr_events g))),
      (''log_sha256'', JStr (en_sha env raw)), (''generated_at'', c), (''records'', JList (map snd (sort_key fst latest)))]"
    using projected_index [OF r(2,4)] by blast
  show "\<exists>raw stored schema latest c. st_log st = Some raw
         \<and> map (en_loads env) (split_lines raw) = map (\<lambda>e. Decoded (JObj e)) (gr_events g)
         \<and> st_index st = Some (Parsed stored) \<and> en_index_schema env = Parsed schema
         \<and> validate (en_search env) stored schema ''$'' = Inr [] \<and> gr_index g = stored
         \<and> latest_records (gr_events g) = Inr latest
         \<and> py_eq stored (JObj [(''schema_version'', JInt 1), (''event_count'', JInt (int (length (gr_events g)))),
              (''head_event_sha256'', opt_json (evidence_head (gr_events g))), (''log_sha256'', JStr (en_sha env raw)),
              (''generated_at'', c), (''records'', JList (map snd (sort_key fst latest)))])"
    unfolding l(2) [symmetric] by (intro exI conjI) (rule r(1) graph_lines [OF assms r(1)] s(1,2,3,5) l(1) s(4) [unfolded l(2)])+
  fix st' now' g'
  let ?C = "\<lambda>e. JObj (ddel ''event_sha256'' e)"
  assume a: "read_evidence_graph env st' now' = Inr g' \<and> gr_errors g' = []
    \<and> evidence_head (gr_events g') = evidence_head (gr_events g)
    \<and> inj_on (\<lambda>j. en_sha env (canonical j)) (?C ` (set (gr_events g') \<union> set (gr_events g)))"
  then have c: "evidence_chained env 0 None (gr_events g')" by (auto elim: valid_graph)
  from evidence_log.same_head_same_content [OF c r(2)] a
  have "map ?C (gr_events g') = map ?C (gr_events g)" by simp
  then have "map dict_of (map ?C (gr_events g')) = map dict_of (map ?C (gr_events g))" by (rule arg_cong)
  then show "map (ddel ''event_sha256'') (gr_events g') = map (ddel ''event_sha256'') (gr_events g)" by (simp add: comp_def)
qed

lemma intact_evidence_is_one_chain_witness:
  "evidence_chained smoke_env 0 None [smoke_event] \<and> map (en_loads smoke_env) (split_lines (''x'' @ LF)) = [Decoded (JObj smoke_event)]
   \<and> (\<exists>stored. st_index smoke_store = Some (Parsed stored) \<and> stored = smoke_index)"
  using intact_evidence_is_one_chain [OF smoke_graph] by (auto simp: smoke_store_def)

text \<open>
  The log is append-only: when \<open>append_evidence_event\<close> returns, the graph was intact (or there was none), the
  log has grown by exactly one line after its old text, the new event carries the record's own
  fields, its id is new, it is linked to the head of the chain (so the events with it are a chain again) and
  its time does not go back.
\<close>

theorem append_extends_the_chain:
  assumes "append_evidence_event env st rec now = Inr (st', e)"
  shows "\<exists>events. recorded_events env st now = Inr events \<and> evidence_chained env 0 None (events @ [e])
    \<and> st_log st' = Some ((case st_log st of None \<Rightarrow> [] | Some raw \<Rightarrow> raw) @ canonical (JObj e) @ LF)
    \<and> (\<forall>k. k \<notin> set EVENT_RESERVED_FIELDS \<longrightarrow> dget e k = dget rec k)
    \<and> (\<forall>i \<in> set events. \<not> py_eq (dget i ''id'') (dget rec ''id''))
    \<and> rewinds events e = Inr False"
proof -
  from append_cases [OF assms] obtain events schema idx where c: "recorded_events env st now = Inr events"
    "\<not> list_ex (\<lambda>i. py_eq (dget i ''id'') (dget rec ''id'')) events" "sealed_event env events rec = Inr e"
    "rewinds events e = Inr False"
    "st' = \<lparr>st_log = Some ((case st_log st of None \<Rightarrow> [] | Some raw \<Rightarrow> raw) @ canonical (JObj e) @ LF), st_index = Some (Parsed idx)\<rparr>"
    by metis
  note ch = recorded_chain [OF c(1)]
  note l = sealed_links [OF c(3) ch]
  have "evidence_chained env 0 None (events @ [e])"
    using l ch evidence_log.chained_snoc [of env 0 None events e] by simp
  then show ?thesis using c l by (intro exI [of _ events]) (simp add: list_ex_iff)
qed

definition smoke_record :: dict where
  "smoke_record = take 12 smoke_event"

lemma smoke_append: "append_evidence_event smoke_env \<lparr>st_log = None, st_index = None\<rparr> smoke_record smoke_time
   = Inr (\<lparr>st_log = Some (canonical (JObj smoke_event) @ LF), st_index = Some (Parsed smoke_index)\<rparr>, smoke_event)"
proof -
  have r: "\<not> list_ex (dhas smoke_record) EVENT_RESERVED_FIELDS"
    by (simp add: smoke_record_def smoke_event_def EVENT_RESERVED_FIELDS_def)
  have s: "sealed_event smoke_env [] smoke_record = Inr smoke_event"
    by (simp add: sealed_event_def smoke_record_def smoke_event_def last_item_def dput_def evidence_event_sha256_def smoke_env_def Let_def)
  have ix: "project_evidence_index smoke_env [smoke_event] None = Inr smoke_index"
    by (simp add: project_evidence_index_def latest_records_def last_item_def index_record_def smoke_index_def smoke_env_def dput_def)
      (simp add: smoke_event_def)
  show ?thesis
    by (simp add: append_evidence_event_def r recorded_events_def s smoke_verify rewinds_def ix smoke_env_def [THEN arg_cong, of en_event_schema])
qed

lemma append_extends_the_chain_witness: "evidence_chained smoke_env 0 None [smoke_event]"
  using append_extends_the_chain [OF smoke_append] by (auto simp: recorded_events_def)

text \<open>
  Two damaged logs that the reader does not report but raises on: a line with a duplicate key, and an event
  without an id.
\<close>

lemma duplicate_key_raises:
  assumes "st_log st = Some raw" "en_event_schema env = Parsed schema" "split_lines raw = l # ls" "en_loads env l = DuplicateKey k"
  shows "read_evidence_graph env st now = Inl (ValueError (''DUPLICATE_JSON_KEY:'' @ k))"
  using assms by (simp add: read_evidence_graph_def read_event_log_def scan_lines_def scan_line_def upt_conv_Cons del: upt_Suc)

lemma missing_id_raises:
  assumes "read_event_log env st now = Inr (e # es, raw, errors)" "\<not> dhas e ''id''"
  shows "read_evidence_graph env st now = Inl (KeyError ''id'')"
  using assms by (simp add: read_evidence_graph_def project_evidence_index_def latest_records_def index_record_def ditemE_def dhas_def)

end
