(* ===== verification/CostGuard.thy ===== *)
theory CostGuard
  imports Contracts "HOL-Library.Log_Nat"
begin

text \<open>
  The cost guard (\<open>.adwf/lib/cost_guard.py\<close>): whether a provider may be used at all under a monetary budget
  of zero.  Registry, request and provider are values of unknown type.  Sums of floats are
  rounded as IEEE doubles round them (\<open>fl_round\<close>).  The usage figures and names the decision echoes for
  reports are left out.
\<close>

section \<open>Doubles\<close>

definition pow2 :: "int \<Rightarrow> rat" where
  "pow2 e = (if 0 \<le> e then 2 ^ nat e else 1 / 2 ^ nat (- e))"

text \<open>The binary exponent of a positive rational.\<close>

definition ilog2 :: "rat \<Rightarrow> int" where
  "ilog2 q = (let (n, d) = quotient_of q; e = int (floorlog 2 (nat n)) - int (floorlog 2 (nat d))
     in if pow2 e \<le> q then e else e - 1)"

definition round_half_even :: "rat \<Rightarrow> int" where
  "round_half_even q = (let f = floor q; r = q - of_int f in
     if r < 1 / 2 then f else if 1 / 2 < r then f + 1 else if even f then f else f + 1)"

definition fl_round :: "rat \<Rightarrow> rat" where
  "fl_round q = (if q = 0 then 0 else
     (let e = max (ilog2 \<bar>q\<bar> - 52) (- 1074) in of_int (round_half_even (q / pow2 e)) * pow2 e))"

definition fl_add :: "rat \<Rightarrow> rat \<Rightarrow> rat" where
  "fl_add a b = fl_round (a + b)"

text \<open>\<open>_number\<close>: a finite number that is not negative.\<close>

definition invalid_number :: exn where
  "invalid_number = ValueError ''invalid non-negative number''"

definition number :: "json \<Rightarrow> rat res" where
  "number v = bindE (py_float v) (\<lambda>f. case f of
     Fin q \<Rightarrow> (if fl_round q < 0 then Inl invalid_number else Inr (fl_round q))
   | _ \<Rightarrow> Inl invalid_number)"

section \<open>The pieces of the decision\<close>

definition CAPABILITY_STATUSES :: "string list" where
  "CAPABILITY_STATUSES = [''FREE_VERIFIED'', ''INCLUDED_QUOTA'', ''CONDITIONAL_FREE'', ''OWNER_PROVIDED'',
    ''METERED'', ''PAID'', ''UNKNOWN'', ''STALE'']"

definition ALLOWED_CLASSIFICATIONS :: "string list" where
  "ALLOWED_CLASSIFICATIONS = [''FREE_VERIFIED'', ''INCLUDED_QUOTA'', ''CONDITIONAL_FREE'', ''OWNER_PROVIDED'']"

definition fresh :: "json \<Rightarrow> json \<Rightarrow> int \<Rightarrow> bool res" where
  "fresh start stop now = bindE (parse_time (py_str start)) (\<lambda>v. bindE (parse_time (py_str stop)) (\<lambda>u.
     Inr (v \<le> now \<and> now < u \<and> v < u)))"

text \<open>
  A \<open>try\<close> block of checks: the reasons of the checks before a caught exception stay, the exception adds
  the code of the handler.
\<close>

primrec attempt :: "(exn \<Rightarrow> bool) \<Rightarrow> string \<Rightarrow> string list res list \<Rightarrow> string list res" where
  "attempt caught code [] = Inr []"
| "attempt caught code (m # ms) = (case m of
     Inl e \<Rightarrow> if caught e then Inr [code] else Inl e
   | Inr xs \<Rightarrow> bindE (attempt caught code ms) (\<lambda>ys. Inr (xs @ ys)))"

definition checkE :: "bool res \<Rightarrow> string \<Rightarrow> string list res" where
  "checkE m code = bindE m (\<lambda>b. Inr (flag b code))"

definition status_reasons :: "dict \<Rightarrow> dict \<Rightarrow> string \<Rightarrow> string list res" where
  "status_reasons registry p c = bindE (in_set (dget p ''billing_model'') [''metered'', ''unknown'']) (\<lambda>metered. Inr (
     flag (dget p ''enabled'' \<noteq> JBool True) ''PROVIDER_DISABLED'' @
     flag (c \<notin> set CAPABILITY_STATUSES) ''CAPABILITY_STATUS_INVALID'' @
     flag (c \<notin> set ALLOWED_CLASSIFICATIONS) ''UNKNOWN_OR_PAID_PROVIDER'' @
     flag (c \<in> {''METERED'', ''PAID'', ''UNKNOWN'', ''STALE''}) (''CAPABILITY_'' @ c @ ''_FORBIDDEN'') @
     flag (metered \<or> dget registry ''allow_metered_provider'' \<noteq> JBool False) ''METERED_PROVIDER_FORBIDDEN''))"

definition freshness_reasons :: "dict \<Rightarrow> int \<Rightarrow> string list res" where
  "freshness_reasons p now = attempt is_TV ''PROVIDER_EVIDENCE_INVALID''
     [checkE (bindE (fresh (dget p ''verified_at'') (dget p ''valid_until'') now) (\<lambda>b. Inr (\<not> b))) ''PROVIDER_EVIDENCE_STALE'']"

definition automation_reasons :: "dict \<Rightarrow> dict \<Rightarrow> string option \<Rightarrow> string list res" where
  "automation_reasons p request mode = bindE
     (case mode of Some (c # cs) \<Rightarrow> (if dget p ''plane'' = JStr ''ci''
          then bindE (in_set (dget p ''provider_mode'') [''local'', c # cs]) (\<lambda>b. Inr (\<not> b)) else Inr False)
        | _ \<Rightarrow> Inr False) (\<lambda>mismatch. Inr (
     flag (\<not> starts_with (py_str (dget_or p ''official_source_url'' (JStr []))) ''https://'') ''OFFICIAL_SOURCE_MISSING'' @
     flag (dget request ''mandatory_ci'' = JBool True \<and> dget p ''requires_ai_api'' = JBool True) ''AI_API_FOR_MANDATORY_CI'' @
     flag (dget request ''mandatory_ci'' = JBool True \<and> dget p ''mandatory_ci_allowed'' \<noteq> JBool True)
       ''CAPABILITY_NOT_ALLOWED_FOR_MANDATORY_CI'' @
     flag (dget request ''automated'' = JBool True \<and> dget p ''automatic_execution_allowed'' \<noteq> JBool True)
       ''AUTOMATIC_EXECUTION_NOT_ALLOWED'' @
     flag mismatch ''CANONICAL_PROVIDER_MISMATCH''))"

text \<open>A number or, when it is refused, a stand-in and a reason.\<close>

definition number_or :: "(exn \<Rightarrow> bool) \<Rightarrow> rat \<Rightarrow> string \<Rightarrow> rat res \<Rightarrow> (rat \<times> string list) res" where
  "number_or caught x code m = catchE caught (bindE m (\<lambda>q. Inr (q, []))) (\<lambda>_. Inr (x, [code]))"

definition budget_reasons :: "dict \<Rightarrow> dict \<Rightarrow> string list res" where
  "budget_reasons registry request =
     bindE (number_or is_TV 1 ''PROJECTED_COST_INVALID'' (number (dget_or request ''projected_cost'' (JInt 0)))) (\<lambda>(cost, r1).
     bindE (number_or is_KTV 0 ''MONETARY_BUDGET_INVALID'' (bindE (ditemE registry ''hard_budget_usd'') number)) (\<lambda>(budget, r2).
       Inr (r1 @ r2 @ flag (budget \<noteq> 0) ''ZERO_COST_POLICY_INVALID'' @ flag (budget < cost) ''MONETARY_BUDGET_EXCEEDED'' @
         flag (dget registry ''allow_overage'' \<noteq> JBool False \<or> dget registry ''allow_credit_purchase'' \<noteq> JBool False
           \<or> dget registry ''allow_unknown_provider'' \<noteq> JBool False) ''ZERO_COST_POLICY_INVALID'')))"

definition scope_reasons :: "dict \<Rightarrow> dict \<Rightarrow> string list res" where
  "scope_reasons p request = (let visibility = upper (py_str (dget_or request ''repository_visibility'' (JStr [])));
       scope = dget p ''repository_visibility_scope'' in
     if scope = JStr ''PUBLIC_ONLY'' \<and> visibility \<noteq> ''PUBLIC'' then Inr [''PUBLIC_REPOSITORY_NOT_VERIFIED'']
     else if scope = JStr ''PRIVATE_ONLY'' \<and> visibility \<noteq> ''PRIVATE'' then Inr [''PRIVATE_REPOSITORY_NOT_VERIFIED'']
     else checkE (bindE (in_set scope [''ANY'', ''PUBLIC_ONLY'', ''PRIVATE_ONLY'', ''NOT_APPLICABLE'']) (\<lambda>b. Inr (\<not> b)))
       ''REPOSITORY_VISIBILITY_SCOPE_INVALID'')"

definition EXECUTION_CLASSES :: "string list" where
  "EXECUTION_CLASSES = [''LOCAL'', ''STANDARD_HOSTED'', ''SELF_HOSTED'', ''LARGER_HOSTED'', ''INTERACTIVE'', ''METERED_API'', ''PLATFORM_CONTROL'']"

definition runner_reasons :: "dict \<Rightarrow> dict \<Rightarrow> string list res" where
  "runner_reasons p request = (let runner = lower (py_str (dget_or request ''runner_class'' (JStr [])));
       cls = dget p ''execution_class'' in
     if cls = JStr ''STANDARD_HOSTED'' \<and> runner \<noteq> ''standard'' then Inr [''STANDARD_RUNNER_NOT_VERIFIED'']
     else if cls = JStr ''SELF_HOSTED'' \<and> runner \<noteq> ''self_hosted'' then Inr [''SELF_HOSTED_RUNNER_NOT_VERIFIED'']
     else checkE (bindE (in_set cls EXECUTION_CLASSES) (\<lambda>b. Inr (\<not> b))) ''EXECUTION_CLASS_INVALID'')"

definition requirements_missing :: "dict \<Rightarrow> bool" where
  "requirements_missing p = (case dget p ''zero_cost_requirements'' of
     JList (x # xs) \<Rightarrow> \<not> list_all (\<lambda>v. case v of JStr s \<Rightarrow> strip s \<noteq> [] | _ \<Rightarrow> False) (x # xs) | _ \<Rightarrow> True)"

section \<open>Quotas, subscriptions and owner resources\<close>

definition or_empty :: "json \<Rightarrow> json" where
  "or_empty v = py_or v (JObj [])"

definition owner_reasons :: "dict \<Rightarrow> int \<Rightarrow> string list res" where
  "owner_reasons request now = (let r = or_empty (dget request ''owner_resource'') in attempt is_KTV ''OWNER_RESOURCE_NOT_VERIFIED'' [
     checkE (bindE (getE r ''confirmed'') (\<lambda>v. Inr (v \<noteq> JBool True))) ''OWNER_RESOURCE_NOT_CONFIRMED'',
     checkE (bindE (getE r ''metered_control_plane'') (\<lambda>v. Inr (v \<noteq> JBool False))) ''OWNER_RESOURCE_METERED_CONTROL_PLANE_NOT_BLOCKED'',
     checkE (bindE (itemE r ''verified_at'') (\<lambda>a. bindE (itemE r ''valid_until'') (\<lambda>b. bindE (fresh a b now) (\<lambda>f. Inr (\<not> f)))))
       ''OWNER_RESOURCE_EVIDENCE_STALE''])"

text \<open>The age limit of usage evidence: between a minute and a day.\<close>

definition evidence_stale :: "dict \<Rightarrow> json \<Rightarrow> int \<Rightarrow> bool res" where
  "evidence_stale registry source now = bindE (itemE source ''observed_at'') (\<lambda>o'. bindE (parse_time (py_str o')) (\<lambda>observed.
     bindE (ditemE registry ''quota_evidence_ttl_minutes'') (\<lambda>t. bindE (py_int t) (\<lambda>ttl.
     if ttl < 1 \<or> 1440 < ttl then Inl (ValueError ''invalid quota evidence TTL'')
     else Inr (now < observed \<or> minutes ttl < now - observed)))))"

definition item_number :: "json \<Rightarrow> string \<Rightarrow> rat res" where
  "item_number v k = bindE (itemE v k) number"

definition internal_limits :: "dict \<Rightarrow> json" where
  "internal_limits p = dget_or p ''internal_limits'' (JObj [])"

definition hard_limit :: "dict \<Rightarrow> rat \<Rightarrow> rat res" where
  "hard_limit p platform = bindE (getE (internal_limits p) ''hard_minutes'') (\<lambda>v.
     if \<not> dhas (dict_of (internal_limits p)) ''hard_minutes'' then Inr platform else number v)"

definition request_number :: "dict \<Rightarrow> string \<Rightarrow> rat res" where
  "request_number request k = number (dget_or request k (JInt 0))"

definition quota_exceeded :: "dict \<Rightarrow> dict \<Rightarrow> json \<Rightarrow> bool res" where
  "quota_exceeded p request quota = bindE (item_number quota ''used'') (\<lambda>used. bindE (item_number quota ''limit'') (\<lambda>limit.
     bindE (request_number request ''projected_units'') (\<lambda>projected. bindE (hard_limit p limit) (\<lambda>hard.
       Inr (limit < used \<or> min limit hard < fl_add used projected)))))"

definition quota_reasons :: "dict \<Rightarrow> dict \<Rightarrow> dict \<Rightarrow> int \<Rightarrow> string list res" where
  "quota_reasons registry p request now = (let quota = or_empty (dget request ''quota'') in attempt is_KTV ''QUOTA_NOT_VERIFIED'' [
     bindE (item_number quota ''used'') (\<lambda>_. bindE (item_number quota ''limit'') (\<lambda>_.
       bindE (request_number request ''projected_units'') (\<lambda>_. checkE (evidence_stale registry quota now) ''QUOTA_EVIDENCE_STALE''))),
     bindE (item_number quota ''limit'') (\<lambda>limit. bindE (hard_limit p limit) (\<lambda>_.
       bindE (getE (internal_limits p) ''platform_minutes'') (\<lambda>d. if d = JNull then Inr []
         else checkE (bindE (number d) (\<lambda>n. Inr (n < limit))) ''QUOTA_LIMIT_EXCEEDS_VERIFIED_PLAN''))),
     checkE (quota_exceeded p request quota) ''FREE_QUOTA_WOULD_BE_EXCEEDED'',
     checkE (bindE (getE quota ''hard_spend_limit_zero'') (\<lambda>a. bindE (getE quota ''allow_overage'') (\<lambda>b.
       Inr (a \<noteq> JBool True \<or> b \<noteq> JBool False)))) ''ZERO_SPEND_LIMIT_NOT_VERIFIED''])"

definition over_stop :: "dict \<Rightarrow> string \<Rightarrow> rat \<Rightarrow> rat \<Rightarrow> bool res" where
  "over_stop p k used projected = bindE (getOrE (internal_limits p) k (JInt 0)) (\<lambda>v. bindE (number v) (\<lambda>stop.
     Inr (stop < fl_add used projected)))"

definition storage_reasons :: "dict \<Rightarrow> dict \<Rightarrow> dict \<Rightarrow> int \<Rightarrow> string list res" where
  "storage_reasons registry p request now =
     bindE (inE (JStr ''artifact_stop_mb'') (internal_limits p)) (\<lambda>a.
     bindE (if a then Inr True else inE (JStr ''cache_stop_mb'') (internal_limits p)) (\<lambda>limited.
     if \<not> limited then Inr [] else
     (let storage = or_empty (dget request ''storage'') in attempt is_KTV ''STORAGE_USAGE_NOT_VERIFIED'' [
        bindE (item_number storage ''artifact_mb'') (\<lambda>_. bindE (item_number storage ''cache_mb'') (\<lambda>_.
        bindE (request_number request ''projected_artifact_mb'') (\<lambda>_. bindE (request_number request ''projected_cache_mb'') (\<lambda>_.
          checkE (evidence_stale registry storage now) ''STORAGE_EVIDENCE_STALE'')))),
        checkE (bindE (item_number storage ''artifact_mb'') (\<lambda>u. bindE (request_number request ''projected_artifact_mb'') (\<lambda>q.
          over_stop p ''artifact_stop_mb'' u q))) ''ARTIFACT_STORAGE_WOULD_EXCEED_INTERNAL_LIMIT'',
        checkE (bindE (item_number storage ''cache_mb'') (\<lambda>u. bindE (request_number request ''projected_cache_mb'') (\<lambda>q.
          over_stop p ''cache_stop_mb'' u q))) ''CACHE_STORAGE_WOULD_EXCEED_INTERNAL_LIMIT''])))"

definition subscription_reasons :: "dict \<Rightarrow> int \<Rightarrow> string list res" where
  "subscription_reasons request now = (let s = or_empty (dget request ''subscription'') in attempt is_KTV ''SUBSCRIPTION_NOT_VERIFIED'' [
     checkE (bindE (itemE s ''verified_at'') (\<lambda>a. bindE (itemE s ''valid_until'') (\<lambda>b. bindE (fresh a b now) (\<lambda>f. Inr (\<not> f)))))
       ''SUBSCRIPTION_EVIDENCE_STALE'',
     checkE (bindE (getE s ''auto_credit_purchase'') (\<lambda>v. Inr (v \<noteq> JBool False))) ''AUTO_CREDIT_PURCHASE_NOT_BLOCKED'',
     Inr (flag (dget request ''mandatory_ci'' = JBool True \<or> dget request ''automated'' = JBool True) ''SUBSCRIPTION_INTERACTIVE_ONLY'')])"

section \<open>The decision\<close>

record provider_decision =
  pd_result :: string
  pd_reasons :: "string list"
  pd_classification :: string
  pd_effective :: string

definition effective_class :: "string \<Rightarrow> string list \<Rightarrow> string" where
  "effective_class c freshness = (if freshness \<noteq> [] then ''STALE'' else if c \<notin> set CAPABILITY_STATUSES then ''UNKNOWN'' else c)"

definition evaluate_provider :: "dict \<Rightarrow> dict \<Rightarrow> int \<Rightarrow> string option \<Rightarrow> provider_decision res" where
  "evaluate_provider registry request now mode =
     bindE (getE (dget_or registry ''providers'' (JObj [])) (py_str (dget_or request ''provider'' (JStr [])))) (\<lambda>provider.
     if \<not> truthy provider then Inr \<lparr>pd_result = ''BLOCK'', pd_reasons = [''UNKNOWN_PROVIDER''],
         pd_classification = ''UNKNOWN'', pd_effective = ''UNKNOWN''\<rparr>
     else (case provider of JObj p \<Rightarrow>
       (let c = py_str (dget_or p ''classification'' (JStr ''UNKNOWN'')) in
       bindE (status_reasons registry p c) (\<lambda>r1. bindE (freshness_reasons p now) (\<lambda>r2.
       bindE (automation_reasons p request mode) (\<lambda>r3. bindE (budget_reasons registry request) (\<lambda>r4.
       bindE (scope_reasons p request) (\<lambda>r5. bindE (runner_reasons p request) (\<lambda>r6.
       bindE (if c = ''OWNER_PROVIDED'' then owner_reasons request now else Inr []) (\<lambda>r7.
       bindE (if c = ''INCLUDED_QUOTA'' then quota_reasons registry p request now else Inr []) (\<lambda>r8.
       bindE (if c = ''INCLUDED_QUOTA'' then storage_reasons registry p request now else Inr []) (\<lambda>r9.
       bindE (if c = ''CONDITIONAL_FREE'' then subscription_reasons request now else Inr []) (\<lambda>r10.
       (let reasons = r1 @ r2 @ r3 @ r4 @ r5 @ r6 @ flag (requirements_missing p) ''ZERO_COST_REQUIREMENTS_MISSING'' @ r7 @ r8 @ r9 @ r10 in
        Inr \<lparr>pd_result = (if reasons = [] then ''ALLOW'' else ''BLOCK''), pd_reasons = uniq reasons,
             pd_classification = c, pd_effective = effective_class c r2\<rparr>))))))))))))
     | _ \<Rightarrow> Inl AttributeError))"

section \<open>What is allowed costs nothing\<close>

lemma attempt_Nil: "attempt caught code ms = Inr [] \<longleftrightarrow> (\<forall>m \<in> set ms. m = Inr [])"
  by (induction ms) (auto split: sum.splits elim!: bindE_InrE)

lemma checkE_Nil: "checkE m code = Inr [] \<longleftrightarrow> m = Inr False"
  by (auto simp: checkE_def elim!: bindE_InrE)

lemma allow_reasons:
  assumes "evaluate_provider registry request now mode = Inr d" "pd_result d = ''ALLOW''"
  obtains p c where "getE (dget_or registry ''providers'' (JObj [])) (py_str (dget_or request ''provider'' (JStr []))) = Inr (JObj p)"
    "c = py_str (dget_or p ''classification'' (JStr ''UNKNOWN''))" "pd_classification d = c" "pd_effective d = c"
    "status_reasons registry p c = Inr []" "freshness_reasons p now = Inr []" "automation_reasons p request mode = Inr []"
    "budget_reasons registry request = Inr []" "scope_reasons p request = Inr []" "runner_reasons p request = Inr []"
    "\<not> requirements_missing p"
    "(if c = ''OWNER_PROVIDED'' then owner_reasons request now else Inr []) = Inr []"
    "(if c = ''INCLUDED_QUOTA'' then quota_reasons registry p request now else Inr []) = Inr []"
    "(if c = ''INCLUDED_QUOTA'' then storage_reasons registry p request now else Inr []) = Inr []"
    "(if c = ''CONDITIONAL_FREE'' then subscription_reasons request now else Inr []) = Inr []"
proof -
  obtain provider where g: "getE (dget_or registry ''providers'' (JObj [])) (py_str (dget_or request ''provider'' (JStr []))) = Inr provider"
    using assms(1) unfolding evaluate_provider_def by (rule bindE_InrE)
  obtain p where p: "provider = JObj p" and t: "truthy provider"
    using assms g unfolding evaluate_provider_def by (cases provider) (auto split: if_split_asm)
  define c where "c = py_str (dget_or p ''classification'' (JStr ''UNKNOWN''))"
  have t': "\<not> \<not> truthy (JObj p)" using t p by simp
  note d = assms(1) [unfolded evaluate_provider_def g bindE_Inr p json.case Let_def c_def [symmetric] if_not_P [OF t']]
  obtain r1 r2 r3 r4 r5 r6 r7 r8 r9 r10 where r: "status_reasons registry p c = Inr r1" "freshness_reasons p now = Inr r2"
    "automation_reasons p request mode = Inr r3" "budget_reasons registry request = Inr r4" "scope_reasons p request = Inr r5"
    "runner_reasons p request = Inr r6" "(if c = ''OWNER_PROVIDED'' then owner_reasons request now else Inr []) = Inr r7"
    "(if c = ''INCLUDED_QUOTA'' then quota_reasons registry p request now else Inr []) = Inr r8"
    "(if c = ''INCLUDED_QUOTA'' then storage_reasons registry p request now else Inr []) = Inr r9"
    "(if c = ''CONDITIONAL_FREE'' then subscription_reasons request now else Inr []) = Inr r10"
    and e: "d = \<lparr>pd_result = (if r1 @ r2 @ r3 @ r4 @ r5 @ r6 @ flag (requirements_missing p) ''ZERO_COST_REQUIREMENTS_MISSING'' @ r7 @ r8 @ r9 @ r10 = [] then ''ALLOW'' else ''BLOCK''),
        pd_reasons = uniq (r1 @ r2 @ r3 @ r4 @ r5 @ r6 @ flag (requirements_missing p) ''ZERO_COST_REQUIREMENTS_MISSING'' @ r7 @ r8 @ r9 @ r10),
             pd_classification = c, pd_effective = effective_class c r2\<rparr>"
    using d by (elim bindE_InrE) (rule that, assumption+, simp only: sum.inject)
  have n: "r1 = []" "r2 = []" "r3 = []" "r4 = []" "r5 = []" "r6 = []" "\<not> requirements_missing p" "r7 = []" "r8 = []" "r9 = []" "r10 = []"
    using assms(2) unfolding e provider_decision.select_convs by (simp_all split: if_split_asm)
  have "c \<in> set CAPABILITY_STATUSES" using r(1) n(1) by (auto simp: status_reasons_def elim!: bindE_InrE)
  then have "pd_effective d = c" "pd_classification d = c" using n e by (simp_all add: effective_class_def)
  then show ?thesis using that [OF g [unfolded p] c_def] r [unfolded n] n(7) by blast
qed


lemma number_budget:
  assumes "budget_reasons registry request = Inr []"
  shows "number (dget_or request ''projected_cost'' (JInt 0)) = Inr 0 \<and> bindE (ditemE registry ''hard_budget_usd'') number = Inr 0
    \<and> dget registry ''allow_overage'' = JBool False \<and> dget registry ''allow_credit_purchase'' = JBool False
    \<and> dget registry ''allow_unknown_provider'' = JBool False"
proof -
  obtain cost r1 budget r2 where b: "number_or is_TV 1 ''PROJECTED_COST_INVALID'' (number (dget_or request ''projected_cost'' (JInt 0))) = Inr (cost, r1)"
    "number_or is_KTV 0 ''MONETARY_BUDGET_INVALID'' (bindE (ditemE registry ''hard_budget_usd'') number) = Inr (budget, r2)"
    "r1 = []" "r2 = []" "budget = 0" "\<not> budget < cost" "dget registry ''allow_overage'' = JBool False"
    "dget registry ''allow_credit_purchase'' = JBool False" "dget registry ''allow_unknown_provider'' = JBool False"
    using assms unfolding budget_reasons_def by (auto elim!: bindE_InrE)
  have c: "number (dget_or request ''projected_cost'' (JInt 0)) = Inr cost"
    using b(1,3) by (auto simp: number_or_def catchE_eq_Inr elim!: bindE_InrE)
  have "bindE (ditemE registry ''hard_budget_usd'') number = Inr budget"
    using b(2,4) unfolding number_or_def catchE_eq_Inr by (auto elim!: bindE_InrE)
  moreover have "0 \<le> cost" using c by (auto simp: number_def elim!: bindE_InrE split: pyfloat.splits if_split_asm)
  ultimately show ?thesis using b c by auto
qed

text \<open>
  What the checks of usage evidence say when they find nothing, on the raw numbers of the request, the
  registry and the provider's internal limits \<open>il\<close>.
\<close>

definition recently_observed :: "dict \<Rightarrow> json \<Rightarrow> int \<Rightarrow> bool" where
  "recently_observed registry source now = (\<exists>v t observed ttl. itemE source ''observed_at'' = Inr v
     \<and> parse_time (py_str v) = Inr observed \<and> ditemE registry ''quota_evidence_ttl_minutes'' = Inr t \<and> py_int t = Inr ttl
     \<and> 1 \<le> ttl \<and> ttl \<le> 1440 \<and> observed \<le> now \<and> now - observed \<le> minutes ttl)"

definition quota_respected :: "dict \<Rightarrow> dict \<Rightarrow> json \<Rightarrow> bool" where
  "quota_respected il request quota = (\<exists>used limit projected hard.
     bindE (itemE quota ''used'') number = Inr used \<and> bindE (itemE quota ''limit'') number = Inr limit
     \<and> number (dget_or request ''projected_units'' (JInt 0)) = Inr projected
     \<and> (case map_of il ''hard_minutes'' of None \<Rightarrow> hard = limit | Some v \<Rightarrow> number v = Inr hard)
     \<and> used \<le> limit \<and> fl_add used projected \<le> limit \<and> fl_add used projected \<le> hard
     \<and> (dget il ''platform_minutes'' \<noteq> JNull \<longrightarrow> (\<exists>n. number (dget il ''platform_minutes'') = Inr n \<and> limit \<le> n)))"

definition storage_respected :: "dict \<Rightarrow> dict \<Rightarrow> json \<Rightarrow> bool" where
  "storage_respected il request storage = (\<exists>artifact cache pa pc artifact_stop cache_stop.
     bindE (itemE storage ''artifact_mb'') number = Inr artifact \<and> bindE (itemE storage ''cache_mb'') number = Inr cache
     \<and> number (dget_or request ''projected_artifact_mb'' (JInt 0)) = Inr pa
     \<and> number (dget_or request ''projected_cache_mb'' (JInt 0)) = Inr pc
     \<and> number (dget_or il ''artifact_stop_mb'' (JInt 0)) = Inr artifact_stop \<and> fl_add artifact pa \<le> artifact_stop
     \<and> number (dget_or il ''cache_stop_mb'' (JInt 0)) = Inr cache_stop \<and> fl_add cache pc \<le> cache_stop)"

lemma stale_False: "evidence_stale registry source now = Inr False \<Longrightarrow> recently_observed registry source now"
  by (auto simp: evidence_stale_def recently_observed_def not_less elim!: bindE_InrE split: if_split_asm)

lemma quota_Nil:
  assumes "quota_reasons registry p request now = Inr []"
  shows "\<exists>il. internal_limits p = JObj il \<and> quota_respected il request (or_empty (dget request ''quota''))
    \<and> recently_observed registry (or_empty (dget request ''quota'')) now
    \<and> getE (or_empty (dget request ''quota'')) ''hard_spend_limit_zero'' = Inr (JBool True)
    \<and> getE (or_empty (dget request ''quota'')) ''allow_overage'' = Inr (JBool False)"
proof -
  let ?q = "or_empty (dget request ''quota'')"
  have a: "evidence_stale registry ?q now = Inr False" "quota_exceeded p request ?q = Inr False"
    "getE ?q ''hard_spend_limit_zero'' = Inr (JBool True)" "getE ?q ''allow_overage'' = Inr (JBool False)"
    using assms unfolding quota_reasons_def Let_def attempt_Nil by (auto simp: checkE_Nil elim!: bindE_InrE)
  from a(2) obtain used limit projected hard where n: "item_number ?q ''used'' = Inr used" "item_number ?q ''limit'' = Inr limit"
    "request_number request ''projected_units'' = Inr projected" "hard_limit p limit = Inr hard"
    "used \<le> limit" "fl_add used projected \<le> min limit hard"
    unfolding quota_exceeded_def by (elim bindE_InrE) (rule that, assumption+, simp_all add: not_less)
  obtain il where l: "internal_limits p = JObj il" using n(4) by (cases "internal_limits p") (auto simp: hard_limit_def)
  have h: "case map_of il ''hard_minutes'' of None \<Rightarrow> hard = limit | Some v \<Rightarrow> number v = Inr hard"
    using n(4) by (auto simp: hard_limit_def l dget_def dhas_def split: option.splits if_split_asm)
  have pl: "\<exists>m. number (dget il ''platform_minutes'') = Inr m \<and> limit \<le> m" if "dget il ''platform_minutes'' \<noteq> JNull"
    using assms that n(2,4) unfolding quota_reasons_def Let_def attempt_Nil
    by (auto simp: checkE_Nil l not_less elim!: bindE_InrE)
  have "quota_respected il request ?q" unfolding quota_respected_def
    using n h pl by (auto simp: item_number_def request_number_def)
  then show ?thesis using l a stale_False [OF a(1)] by blast
qed

lemma storage_Nil:
  assumes "storage_reasons registry p request now = Inr []" "internal_limits p = JObj il"
    "''artifact_stop_mb'' \<in> set (dkeys il) \<or> ''cache_stop_mb'' \<in> set (dkeys il)"
  shows "storage_respected il request (or_empty (dget request ''storage''))
    \<and> recently_observed registry (or_empty (dget request ''storage'')) now"
proof -
  let ?s = "or_empty (dget request ''storage'')"
  have l: "bindE (inE (JStr ''artifact_stop_mb'') (internal_limits p)) (\<lambda>a.
      bindE (if a then Inr True else inE (JStr ''cache_stop_mb'') (internal_limits p)) F) = F True" for F :: "bool \<Rightarrow> string list res"
    using assms(3) by (auto simp: assms(2) in_set_def)
  have "attempt is_KTV ''STORAGE_USAGE_NOT_VERIFIED'' [
        bindE (item_number ?s ''artifact_mb'') (\<lambda>_. bindE (item_number ?s ''cache_mb'') (\<lambda>_.
        bindE (request_number request ''projected_artifact_mb'') (\<lambda>_. bindE (request_number request ''projected_cache_mb'') (\<lambda>_.
          checkE (evidence_stale registry ?s now) ''STORAGE_EVIDENCE_STALE'')))),
        checkE (bindE (item_number ?s ''artifact_mb'') (\<lambda>u. bindE (request_number request ''projected_artifact_mb'') (\<lambda>q.
          over_stop p ''artifact_stop_mb'' u q))) ''ARTIFACT_STORAGE_WOULD_EXCEED_INTERNAL_LIMIT'',
        checkE (bindE (item_number ?s ''cache_mb'') (\<lambda>u. bindE (request_number request ''projected_cache_mb'') (\<lambda>q.
          over_stop p ''cache_stop_mb'' u q))) ''CACHE_STORAGE_WOULD_EXCEED_INTERNAL_LIMIT''] = Inr []"
    using assms(1) by (simp only: storage_reasons_def l Let_def not_True_eq_False if_False)
  then have a: "evidence_stale registry ?s now = Inr False"
    "bindE (item_number ?s ''artifact_mb'') (\<lambda>u. bindE (request_number request ''projected_artifact_mb'') (\<lambda>q.
       over_stop p ''artifact_stop_mb'' u q)) = Inr False"
    "bindE (item_number ?s ''cache_mb'') (\<lambda>u. bindE (request_number request ''projected_cache_mb'') (\<lambda>q.
       over_stop p ''cache_stop_mb'' u q)) = Inr False"
    unfolding attempt_Nil by (auto simp: checkE_Nil elim!: bindE_InrE)
  have "storage_respected il request ?s" unfolding storage_respected_def using a(2,3)
    by (elim bindE_InrE) (auto simp: over_stop_def assms(2) item_number_def request_number_def not_less elim!: bindE_InrE)
  then show ?thesis using stale_False [OF a(1)] by blast
qed

text \<open>
  C39. What the cost guard allows costs nothing: the provider is enabled, classified as free and not metered,
  its evidence is in its period of validity, the projected cost and the budget are both zero, overage, credit
  purchase and unknown providers are switched off, mandatory work uses no AI interface.  For an included
  quota, which was observed recently and has a spending limit of zero without overage, the units used and
  the units used after the projected ones stay within the quota and within the provider's hard limit, the
  quota is no larger than the declared plan, and, where the provider limits its storage, the artifacts and
  the cache stay within their stops.  A subscription is used interactively only and buys no credits; an
  owner's resource is confirmed and its control plane not metered.
\<close>

theorem allowed_provider_costs_nothing:
  assumes "evaluate_provider registry request now mode = Inr d" "pd_result d = ''ALLOW''"
  shows "\<exists>p. getE (dget_or registry ''providers'' (JObj [])) (py_str (dget_or request ''provider'' (JStr []))) = Inr (JObj p)
    \<and> dget p ''enabled'' = JBool True \<and> pd_classification d = py_str (dget_or p ''classification'' (JStr ''UNKNOWN''))
    \<and> pd_classification d \<in> {''FREE_VERIFIED'', ''INCLUDED_QUOTA'', ''CONDITIONAL_FREE'', ''OWNER_PROVIDED''}
    \<and> in_set (dget p ''billing_model'') [''metered'', ''unknown''] = Inr False
    \<and> fresh (dget p ''verified_at'') (dget p ''valid_until'') now = Inr True
    \<and> number (dget_or request ''projected_cost'' (JInt 0)) = Inr 0
    \<and> bindE (ditemE registry ''hard_budget_usd'') number = Inr 0
    \<and> (\<forall>k \<in> {''allow_metered_provider'', ''allow_overage'', ''allow_credit_purchase'', ''allow_unknown_provider''}. dget registry k = JBool False)
    \<and> (dget request ''mandatory_ci'' = JBool True \<longrightarrow> dget p ''requires_ai_api'' \<noteq> JBool True \<and> dget p ''mandatory_ci_allowed'' = JBool True)
    \<and> (dget request ''automated'' = JBool True \<longrightarrow> dget p ''automatic_execution_allowed'' = JBool True)
    \<and> (pd_classification d = ''INCLUDED_QUOTA'' \<longrightarrow> (\<exists>il. internal_limits p = JObj il
        \<and> (let quota = or_empty (dget request ''quota''); storage = or_empty (dget request ''storage'') in
            quota_respected il request quota \<and> recently_observed registry quota now
          \<and> getE quota ''hard_spend_limit_zero'' = Inr (JBool True) \<and> getE quota ''allow_overage'' = Inr (JBool False)
          \<and> (''artifact_stop_mb'' \<in> set (dkeys il) \<or> ''cache_stop_mb'' \<in> set (dkeys il) \<longrightarrow>
               storage_respected il request storage \<and> recently_observed registry storage now))))
    \<and> (pd_classification d = ''CONDITIONAL_FREE'' \<longrightarrow>
        getE (or_empty (dget request ''subscription'')) ''auto_credit_purchase'' = Inr (JBool False)
        \<and> dget request ''mandatory_ci'' \<noteq> JBool True \<and> dget request ''automated'' \<noteq> JBool True)
    \<and> (pd_classification d = ''OWNER_PROVIDED'' \<longrightarrow>
        getE (or_empty (dget request ''owner_resource'')) ''confirmed'' = Inr (JBool True)
        \<and> getE (or_empty (dget request ''owner_resource'')) ''metered_control_plane'' = Inr (JBool False))"
proof -
  obtain p c where a: "getE (dget_or registry ''providers'' (JObj [])) (py_str (dget_or request ''provider'' (JStr []))) = Inr (JObj p)"
    "c = py_str (dget_or p ''classification'' (JStr ''UNKNOWN''))" "pd_classification d = c" "pd_effective d = c"
    "status_reasons registry p c = Inr []" "freshness_reasons p now = Inr []" "automation_reasons p request mode = Inr []"
    "budget_reasons registry request = Inr []" "scope_reasons p request = Inr []" "runner_reasons p request = Inr []"
    "\<not> requirements_missing p"
    "(if c = ''OWNER_PROVIDED'' then owner_reasons request now else Inr []) = Inr []"
    "(if c = ''INCLUDED_QUOTA'' then quota_reasons registry p request now else Inr []) = Inr []"
    "(if c = ''INCLUDED_QUOTA'' then storage_reasons registry p request now else Inr []) = Inr []"
    "(if c = ''CONDITIONAL_FREE'' then subscription_reasons request now else Inr []) = Inr []"
    by (rule allow_reasons [OF assms])
  have s: "dget p ''enabled'' = JBool True" "c \<in> set ALLOWED_CLASSIFICATIONS"
    "in_set (dget p ''billing_model'') [''metered'', ''unknown''] = Inr False" "dget registry ''allow_metered_provider'' = JBool False"
    using a(5) unfolding status_reasons_def by (auto elim!: bindE_InrE)
  have f: "fresh (dget p ''verified_at'') (dget p ''valid_until'') now = Inr True"
    using a(6) unfolding freshness_reasons_def attempt_Nil by (auto simp: checkE_Nil elim!: bindE_InrE)
  have m: "dget request ''mandatory_ci'' = JBool True \<longrightarrow> dget p ''requires_ai_api'' \<noteq> JBool True \<and> dget p ''mandatory_ci_allowed'' = JBool True"
    "dget request ''automated'' = JBool True \<longrightarrow> dget p ''automatic_execution_allowed'' = JBool True"
    using a(7) unfolding automation_reasons_def by (elim bindE_InrE, simp only: sum.inject append_is_Nil_conv flag_Nil_iff not_not de_Morgan_conj simp_thms, blast)+
  have b: "number (dget_or request ''projected_cost'' (JInt 0)) = Inr 0" "bindE (ditemE registry ''hard_budget_usd'') number = Inr 0"
    "dget registry ''allow_overage'' = JBool False" "dget registry ''allow_credit_purchase'' = JBool False"
    "dget registry ''allow_unknown_provider'' = JBool False"
    using number_budget [OF a(8)] by blast+
  have q: "\<exists>il. internal_limits p = JObj il
      \<and> (quota_respected il request (or_empty (dget request ''quota'')) \<and> recently_observed registry (or_empty (dget request ''quota'')) now
        \<and> getE (or_empty (dget request ''quota'')) ''hard_spend_limit_zero'' = Inr (JBool True)
        \<and> getE (or_empty (dget request ''quota'')) ''allow_overage'' = Inr (JBool False)
        \<and> (''artifact_stop_mb'' \<in> set (dkeys il) \<or> ''cache_stop_mb'' \<in> set (dkeys il) \<longrightarrow>
            storage_respected il request (or_empty (dget request ''storage''))
            \<and> recently_observed registry (or_empty (dget request ''storage'')) now))"
    if "c = ''INCLUDED_QUOTA''"
    using quota_Nil [OF a(13) [unfolded if_P [OF that]]] storage_Nil [OF a(14) [unfolded if_P [OF that]]] by blast
  have u: "getE (or_empty (dget request ''subscription'')) ''auto_credit_purchase'' = Inr (JBool False)
      \<and> dget request ''mandatory_ci'' \<noteq> JBool True \<and> dget request ''automated'' \<noteq> JBool True" if "c = ''CONDITIONAL_FREE''"
    using a(15) unfolding if_P [OF that] subscription_reasons_def Let_def attempt_Nil by (auto simp: checkE_Nil elim!: bindE_InrE)
  have o: "getE (or_empty (dget request ''owner_resource'')) ''confirmed'' = Inr (JBool True)
      \<and> getE (or_empty (dget request ''owner_resource'')) ''metered_control_plane'' = Inr (JBool False)" if "c = ''OWNER_PROVIDED''"
    using a(12) unfolding if_P [OF that] owner_reasons_def Let_def attempt_Nil by (auto simp: checkE_Nil elim!: bindE_InrE)
  show ?thesis unfolding a(3) Let_def
  proof (rule exI [of _ p], intro conjI impI)
    show "c \<in> {''FREE_VERIFIED'', ''INCLUDED_QUOTA'', ''CONDITIONAL_FREE'', ''OWNER_PROVIDED''}"
      using s(2) by (simp add: ALLOWED_CLASSIFICATIONS_def)
    show "\<forall>k \<in> {''allow_metered_provider'', ''allow_overage'', ''allow_credit_purchase'', ''allow_unknown_provider''}. dget registry k = JBool False"
      using s(4) b(3,4,5) by simp
  qed (use a(1,2) s f m b q u o in blast)+
qed


definition free_provider :: dict where
  "free_provider = [(''enabled'', JBool True), (''classification'', JStr ''INCLUDED_QUOTA''), (''billing_model'', JStr ''quota''),
     (''verified_at'', JStr ''2026-01-01T10:00:00Z''), (''valid_until'', JStr ''2026-01-01T12:00:00Z''),
     (''official_source_url'', JStr ''https://example.org''), (''repository_visibility_scope'', JStr ''ANY''),
     (''execution_class'', JStr ''LOCAL''), (''zero_cost_requirements'', JList [JStr ''cap'']),
     (''internal_limits'', JObj [(''hard_minutes'', JInt 10), (''artifact_stop_mb'', JInt 20), (''cache_stop_mb'', JInt 20)])]"

definition free_registry :: dict where
  "free_registry = [(''providers'', JObj [(''ci'', JObj free_provider)]), (''hard_budget_usd'', JInt 0),
     (''allow_metered_provider'', JBool False), (''allow_overage'', JBool False), (''allow_credit_purchase'', JBool False),
     (''allow_unknown_provider'', JBool False), (''quota_evidence_ttl_minutes'', JInt 60)]"

definition quota_request :: dict where
  "quota_request = [(''provider'', JStr ''ci''), (''quota'', JObj [(''used'', JInt 10), (''limit'', JInt 20),
     (''observed_at'', JStr ''2026-01-01T10:00:00Z''), (''hard_spend_limit_zero'', JBool True), (''allow_overage'', JBool False)]),
     (''storage'', JObj [(''artifact_mb'', JInt 10), (''cache_mb'', JInt 10), (''observed_at'', JStr ''2026-01-01T10:00:00Z'')])]"

lemma guard_times: "parse_time ''2026-01-01T10:00:00Z'' = Inr 63902858400000000"
  "parse_time ''2026-01-01T12:00:00Z'' = Inr 63902865600000000"
  by code_simp+

lemma guard_numbers: "number (JInt 0) = Inr 0" "number (JInt 10) = Inr 10" "number (JInt 20) = Inr 20" "fl_add 10 0 = 10"
proof -
  have f: "fl_round 0 = 0" "fl_round 10 = 10" "fl_round 20 = 20" by (simp add: fl_round_def) code_simp+
  show "number (JInt 0) = Inr 0" "number (JInt 10) = Inr 10" "number (JInt 20) = Inr 20" "fl_add 10 0 = 10"
    by (simp_all add: number_def overflow_bound_def f fl_add_def)
qed

lemma guard_allows: "evaluate_provider free_registry quota_request 63902860200000000 None
   = Inr \<lparr>pd_result = ''ALLOW'', pd_reasons = [], pd_classification = ''INCLUDED_QUOTA'', pd_effective = ''INCLUDED_QUOTA''\<rparr>"
  by (simp add: evaluate_provider_def free_registry_def quota_request_def free_provider_def status_reasons_def CAPABILITY_STATUSES_def
      ALLOWED_CLASSIFICATIONS_def freshness_reasons_def fresh_def guard_times checkE_def automation_reasons_def starts_with_def
      budget_reasons_def number_or_def guard_numbers scope_reasons_def runner_reasons_def EXECUTION_CLASSES_def requirements_missing_def
      strip_def is_space_def quota_reasons_def or_empty_def py_or_def item_number_def request_number_def evidence_stale_def minutes_def
      hard_limit_def internal_limits_def quota_exceeded_def storage_reasons_def over_stop_def in_set_def effective_class_def dkeys_def Let_def)

lemma allowed_provider_costs_nothing_witness:
  "\<exists>il. internal_limits free_provider = JObj il \<and> quota_respected il quota_request (dget quota_request ''quota'')
     \<and> storage_respected il quota_request (dget quota_request ''storage'')"
proof -
  have p: "getE (dget_or free_registry ''providers'' (JObj [])) (py_str (dget_or quota_request ''provider'' (JStr []))) = Inr (JObj free_provider)"
    by (simp add: free_registry_def quota_request_def)
  have l: "internal_limits free_provider = JObj il \<Longrightarrow> ''artifact_stop_mb'' \<in> set (dkeys il)" for il
    by (auto simp: internal_limits_def free_provider_def dkeys_def)
  have "or_empty (dget quota_request ''quota'') = dget quota_request ''quota''"
    "or_empty (dget quota_request ''storage'') = dget quota_request ''storage''" by (simp_all add: or_empty_def py_or_def quota_request_def)
  then show ?thesis using allowed_provider_costs_nothing [OF guard_allows] l by (auto simp: p Let_def)
qed


text \<open>An amount no double can hold is not answered with a refusal: it raises.\<close>

lemma huge_cost_raises:
  assumes "dget_or request ''projected_cost'' (JInt 0) = JInt n" "overflow_bound \<le> of_int \<bar>n\<bar>"
  shows "budget_reasons registry request = Inl OverflowError"
  using assms by (simp add: budget_reasons_def number_or_def number_def)

end
