(* ===== verification/TextScan.thy ===== *)
theory TextScan
  imports PyVal
begin

text \<open>
  Evaluation of text scans: several validators of the framework render a whole record as JSON,
  lower it and search it for forbidden markers.  The lemmas collected in \<open>text_simps\<close> evaluate
  these three operations on a literal in linear time: tables for the characters, a search that
  compares a marker only where its first character occurs, and congruences that keep the simplifier
  from visiting the rest of the text at every step.
\<close>

named_theorems text_simps

primrec prefix_at :: "string \<Rightarrow> string \<Rightarrow> bool" where
  "prefix_at [] cs = True"
| "prefix_at (d # p) cs = (case cs of [] \<Rightarrow> False | c # cs' \<Rightarrow> c = d \<and> prefix_at p cs')"

lemma prefix_at_iff: "prefix_at p cs \<longleftrightarrow> take (length p) cs = p"
  by (induction p arbitrary: cs) (auto split: list.splits)

lemma prefix_at_Nil [text_simps]: "prefix_at (d # p) [] = False" "prefix_at [] cs = True"
  by simp_all

lemma prefix_at_Cons [text_simps]: "prefix_at (d # p) (c # cs) = (if c = d then prefix_at p cs else False)"
  by simp

lemma contains_empty [text_simps]: "contains [] (d # p) = False"
  by simp

lemma contains_step [text_simps]:
  "contains (c # cs) (d # p) = (if c = d then if prefix_at p cs then True else contains cs (d # p) else contains cs (d # p))"
  by (simp add: prefix_at_iff)

lemma contains_weak_cong: "contains cs p = contains cs p"
  by simp

lemma prefix_at_weak_cong: "prefix_at p cs = prefix_at p cs"
  by simp

lemma lower_char_table [text_simps]:
  shows "lower_char (CHR ''a'') = CHR ''a''" "lower_char (CHR ''b'') = CHR ''b''" "lower_char (CHR ''c'') = CHR ''c''"
    "lower_char (CHR ''d'') = CHR ''d''" "lower_char (CHR ''e'') = CHR ''e''" "lower_char (CHR ''f'') = CHR ''f''"
    "lower_char (CHR ''g'') = CHR ''g''" "lower_char (CHR ''h'') = CHR ''h''" "lower_char (CHR ''i'') = CHR ''i''"
    "lower_char (CHR ''j'') = CHR ''j''" "lower_char (CHR ''k'') = CHR ''k''" "lower_char (CHR ''l'') = CHR ''l''"
    "lower_char (CHR ''m'') = CHR ''m''" "lower_char (CHR ''n'') = CHR ''n''" "lower_char (CHR ''o'') = CHR ''o''"
    "lower_char (CHR ''p'') = CHR ''p''" "lower_char (CHR ''q'') = CHR ''q''" "lower_char (CHR ''r'') = CHR ''r''"
    "lower_char (CHR ''s'') = CHR ''s''" "lower_char (CHR ''t'') = CHR ''t''" "lower_char (CHR ''u'') = CHR ''u''"
    "lower_char (CHR ''v'') = CHR ''v''" "lower_char (CHR ''w'') = CHR ''w''" "lower_char (CHR ''x'') = CHR ''x''"
    "lower_char (CHR ''y'') = CHR ''y''" "lower_char (CHR ''z'') = CHR ''z''" "lower_char (CHR ''A'') = CHR ''a''"
    "lower_char (CHR ''B'') = CHR ''b''" "lower_char (CHR ''C'') = CHR ''c''" "lower_char (CHR ''D'') = CHR ''d''"
    "lower_char (CHR ''E'') = CHR ''e''" "lower_char (CHR ''F'') = CHR ''f''" "lower_char (CHR ''G'') = CHR ''g''"
    "lower_char (CHR ''H'') = CHR ''h''" "lower_char (CHR ''I'') = CHR ''i''" "lower_char (CHR ''J'') = CHR ''j''"
    "lower_char (CHR ''K'') = CHR ''k''" "lower_char (CHR ''L'') = CHR ''l''" "lower_char (CHR ''M'') = CHR ''m''"
    "lower_char (CHR ''N'') = CHR ''n''" "lower_char (CHR ''O'') = CHR ''o''" "lower_char (CHR ''P'') = CHR ''p''"
    "lower_char (CHR ''Q'') = CHR ''q''" "lower_char (CHR ''R'') = CHR ''r''" "lower_char (CHR ''S'') = CHR ''s''"
    "lower_char (CHR ''T'') = CHR ''t''" "lower_char (CHR ''U'') = CHR ''u''" "lower_char (CHR ''V'') = CHR ''v''"
    "lower_char (CHR ''W'') = CHR ''w''" "lower_char (CHR ''X'') = CHR ''x''" "lower_char (CHR ''Y'') = CHR ''y''"
    "lower_char (CHR ''Z'') = CHR ''z''" "lower_char (CHR ''0'') = CHR ''0''" "lower_char (CHR ''1'') = CHR ''1''"
    "lower_char (CHR ''2'') = CHR ''2''" "lower_char (CHR ''3'') = CHR ''3''" "lower_char (CHR ''4'') = CHR ''4''"
    "lower_char (CHR ''5'') = CHR ''5''" "lower_char (CHR ''6'') = CHR ''6''" "lower_char (CHR ''7'') = CHR ''7''"
    "lower_char (CHR ''8'') = CHR ''8''" "lower_char (CHR ''9'') = CHR ''9''" "lower_char (CHR '' '') = CHR '' ''"
    "lower_char (CHR ''$'') = CHR ''$''" "lower_char (CHR ''-'') = CHR ''-''" "lower_char (CHR ''_'') = CHR ''_''"
    "lower_char (CHR ''.'') = CHR ''.''" "lower_char (CHR ''/'') = CHR ''/''" "lower_char (CHR '':'') = CHR '':''"
    "lower_char (CHR '','') = CHR '',''" "lower_char (CHR ''{'') = CHR ''{''" "lower_char (CHR ''}'') = CHR ''}''"
    "lower_char (CHR ''['') = CHR ''[''" "lower_char (CHR '']'') = CHR '']''" "lower_char (CHR ''('') = CHR ''(''"
    "lower_char (CHR '')'') = CHR '')''" "lower_char (CHR ''<'') = CHR ''<''" "lower_char (CHR ''>'') = CHR ''>''"
    "lower_char (CHR ''='') = CHR ''=''" "lower_char (CHR ''+'') = CHR ''+''" "lower_char (CHR ''*'') = CHR ''*''"
    "lower_char (CHR ''?'') = CHR ''?''" "lower_char (CHR ''!'') = CHR ''!''" "lower_char (CHR '';'') = CHR '';''"
    "lower_char (CHR ''#'') = CHR ''#''" "lower_char (CHR ''@'') = CHR ''@''" "lower_char (CHR ''&'') = CHR ''&''"
    "lower_char (CHR ''|'') = CHR ''|''"
  by code_simp+

lemma json_char_table [text_simps]:
  shows "json_char (CHR ''a'') = [CHR ''a'']" "json_char (CHR ''b'') = [CHR ''b'']" "json_char (CHR ''c'') = [CHR ''c'']"
    "json_char (CHR ''d'') = [CHR ''d'']" "json_char (CHR ''e'') = [CHR ''e'']" "json_char (CHR ''f'') = [CHR ''f'']"
    "json_char (CHR ''g'') = [CHR ''g'']" "json_char (CHR ''h'') = [CHR ''h'']" "json_char (CHR ''i'') = [CHR ''i'']"
    "json_char (CHR ''j'') = [CHR ''j'']" "json_char (CHR ''k'') = [CHR ''k'']" "json_char (CHR ''l'') = [CHR ''l'']"
    "json_char (CHR ''m'') = [CHR ''m'']" "json_char (CHR ''n'') = [CHR ''n'']" "json_char (CHR ''o'') = [CHR ''o'']"
    "json_char (CHR ''p'') = [CHR ''p'']" "json_char (CHR ''q'') = [CHR ''q'']" "json_char (CHR ''r'') = [CHR ''r'']"
    "json_char (CHR ''s'') = [CHR ''s'']" "json_char (CHR ''t'') = [CHR ''t'']" "json_char (CHR ''u'') = [CHR ''u'']"
    "json_char (CHR ''v'') = [CHR ''v'']" "json_char (CHR ''w'') = [CHR ''w'']" "json_char (CHR ''x'') = [CHR ''x'']"
    "json_char (CHR ''y'') = [CHR ''y'']" "json_char (CHR ''z'') = [CHR ''z'']" "json_char (CHR ''A'') = [CHR ''A'']"
    "json_char (CHR ''B'') = [CHR ''B'']" "json_char (CHR ''C'') = [CHR ''C'']" "json_char (CHR ''D'') = [CHR ''D'']"
    "json_char (CHR ''E'') = [CHR ''E'']" "json_char (CHR ''F'') = [CHR ''F'']" "json_char (CHR ''G'') = [CHR ''G'']"
    "json_char (CHR ''H'') = [CHR ''H'']" "json_char (CHR ''I'') = [CHR ''I'']" "json_char (CHR ''J'') = [CHR ''J'']"
    "json_char (CHR ''K'') = [CHR ''K'']" "json_char (CHR ''L'') = [CHR ''L'']" "json_char (CHR ''M'') = [CHR ''M'']"
    "json_char (CHR ''N'') = [CHR ''N'']" "json_char (CHR ''O'') = [CHR ''O'']" "json_char (CHR ''P'') = [CHR ''P'']"
    "json_char (CHR ''Q'') = [CHR ''Q'']" "json_char (CHR ''R'') = [CHR ''R'']" "json_char (CHR ''S'') = [CHR ''S'']"
    "json_char (CHR ''T'') = [CHR ''T'']" "json_char (CHR ''U'') = [CHR ''U'']" "json_char (CHR ''V'') = [CHR ''V'']"
    "json_char (CHR ''W'') = [CHR ''W'']" "json_char (CHR ''X'') = [CHR ''X'']" "json_char (CHR ''Y'') = [CHR ''Y'']"
    "json_char (CHR ''Z'') = [CHR ''Z'']" "json_char (CHR ''0'') = [CHR ''0'']" "json_char (CHR ''1'') = [CHR ''1'']"
    "json_char (CHR ''2'') = [CHR ''2'']" "json_char (CHR ''3'') = [CHR ''3'']" "json_char (CHR ''4'') = [CHR ''4'']"
    "json_char (CHR ''5'') = [CHR ''5'']" "json_char (CHR ''6'') = [CHR ''6'']" "json_char (CHR ''7'') = [CHR ''7'']"
    "json_char (CHR ''8'') = [CHR ''8'']" "json_char (CHR ''9'') = [CHR ''9'']" "json_char (CHR '' '') = [CHR '' '']"
    "json_char (CHR ''$'') = [CHR ''$'']" "json_char (CHR ''-'') = [CHR ''-'']" "json_char (CHR ''_'') = [CHR ''_'']"
    "json_char (CHR ''.'') = [CHR ''.'']" "json_char (CHR ''/'') = [CHR ''/'']" "json_char (CHR '':'') = [CHR '':'']"
    "json_char (CHR '','') = [CHR '','']" "json_char (CHR ''{'') = [CHR ''{'']" "json_char (CHR ''}'') = [CHR ''}'']"
    "json_char (CHR ''['') = [CHR ''['']" "json_char (CHR '']'') = [CHR '']'']" "json_char (CHR ''('') = [CHR ''('']"
    "json_char (CHR '')'') = [CHR '')'']" "json_char (CHR ''<'') = [CHR ''<'']" "json_char (CHR ''>'') = [CHR ''>'']"
    "json_char (CHR ''='') = [CHR ''='']" "json_char (CHR ''+'') = [CHR ''+'']" "json_char (CHR ''*'') = [CHR ''*'']"
    "json_char (CHR ''?'') = [CHR ''?'']" "json_char (CHR ''!'') = [CHR ''!'']" "json_char (CHR '';'') = [CHR '';'']"
    "json_char (CHR ''#'') = [CHR ''#'']" "json_char (CHR ''@'') = [CHR ''@'']" "json_char (CHR ''&'') = [CHR ''&'']"
    "json_char (CHR ''|'') = [CHR ''|'']"
  by code_simp+

lemma lower_text [text_simps]: "lower [] = []" "lower (c # cs) = lower_char c # lower cs"
  by (simp_all add: lower_def)

lemma json_quote_text [text_simps]: "json_quote s = char_of (34::nat) # concat (map json_char s) @ [char_of (34::nat)]"
  by (simp add: json_quote_def)

lemma quote_char [text_simps]: "char_of (34::nat) = CHR 0x22" "lower_char (CHR 0x22) = CHR 0x22"
  by code_simp+

lemma digit_char_table [text_simps]:
  shows "digit_char 0 = CHR ''0''" "digit_char (Suc 0) = CHR ''1''" "digit_char 2 = CHR ''2''" "digit_char 3 = CHR ''3''"
    "digit_char 4 = CHR ''4''" "digit_char 5 = CHR ''5''" "digit_char 6 = CHR ''6''" "digit_char 7 = CHR ''7''"
    "digit_char 8 = CHR ''8''" "digit_char 9 = CHR ''9''"
  by code_simp+

end
