(* ===== verification/ExecutionState.thy ===== *)
theory ExecutionState
  imports LeaseRegistry Policy TextScan
begin

text \<open>
  The durable execution state (\<open>.adwf/lib/autonomous_execution_state.py\<close>): its validator, its
  construction, the comparison with fresh provider facts, and the compare-and-set update.  A state is
  a dictionary of unknown contents; \<open>sha\<close> is the hexadecimal SHA-256 of the UTF-8 encoding of a text.
\<close>

section \<open>Tables\<close>

definition EXECUTION_STATES :: "string list" where
  "EXECUTION_STATES = [''RUNNING'', ''WAITING_CI'', ''SUSPENDED'', ''HUMAN_REQUIRED'', ''RECOVERY'', ''COMPLETE'']"

definition LEASE_STATES :: "string list" where
  "LEASE_STATES = [''ACTIVE'', ''SUSPENDED'', ''RELEASED'', ''EXPIRED'', ''NONE'']"

definition BOUNDARY_TYPES :: "string list" where
  "BOUNDARY_TYPES = [''NONE'', ''WAITING_EXTERNAL'', ''HUMAN_REQUIRED'', ''UNAVAILABLE_CAPABILITY'',
    ''AUTHORITY_EXHAUSTED'', ''ROADMAP_END'', ''EXECUTOR_LIMIT'']"

definition FORBIDDEN_MARKERS :: "string list" where
  "FORBIDDEN_MARKERS = [''chain-of-thought'', ''chain of thought'', ''private reasoning'', ''private_reasoning'',
    ''authorization: bearer'', ''api_key'', ''access_token'', ''refresh_token'', ''client_secret'']"

definition STATE_REQUIRED :: "string list" where
  "STATE_REQUIRED = [''$schema'', ''schema_version'', ''project_identity'', ''work_identity'', ''writer'',
    ''conflict_domains'', ''provider_observation'', ''execution_state'', ''boundary_type'',
    ''blockers'', ''last_verified_transition'', ''evidence_refs'', ''next_permitted_action'',
    ''revision'', ''integrity_digest'']"

definition STATE_SCHEMA :: json where
  "STATE_SCHEMA = JStr ''.adwf/schemas/autonomous-execution-state.schema.json''"

section \<open>The validator\<close>

definition contains_forbidden :: "dict \<Rightarrow> bool" where
  "contains_forbidden s = (let text = lower (dumps '', '' '': '' (JObj s)) in list_ex (contains text) FORBIDDEN_MARKERS)"

definition valid_sha :: "json \<Rightarrow> bool \<Rightarrow> bool" where
  "valid_sha v nullable = (case v of JNull \<Rightarrow> nullable | JStr s \<Rightarrow> sha40 s | _ \<Rightarrow> False)"

fun normalize_from :: "string list \<Rightarrow> json list \<Rightarrow> string list res" where
  "normalize_from acc [] = Inr (sort acc)"
| "normalize_from acc (JStr s # vs) = (if strip s = [] \<or> 240 < length s then Inl (ValueError ''CONFLICT_DOMAIN_INVALID'')
     else if strip s \<in> set acc then Inl (ValueError ''CONFLICT_DOMAIN_DUPLICATE'') else normalize_from (acc @ [strip s]) vs)"
| "normalize_from acc (_ # vs) = Inl (ValueError ''CONFLICT_DOMAIN_INVALID'')"

definition normalize_domains :: "json \<Rightarrow> string list res" where
  "normalize_domains v = (case v of JList (x # xs) \<Rightarrow> normalize_from [] (x # xs)
     | _ \<Rightarrow> Inl (ValueError ''CONFLICT_DOMAINS_REQUIRED''))"

definition domain_findings :: "json \<Rightarrow> string list" where
  "domain_findings v = (case normalize_domains v of
     Inr ds \<Rightarrow> flag (v \<noteq> strs ds) ''CONFLICT_DOMAIN_ORDER'' | Inl e \<Rightarrow> [exn_text e])"

definition nonempty_str :: "json \<Rightarrow> bool" where
  "nonempty_str v = (case v of JStr s \<Rightarrow> s \<noteq> [] | _ \<Rightarrow> False)"

definition state_integrity :: "(string \<Rightarrow> string) \<Rightarrow> dict \<Rightarrow> string" where
  "state_integrity sha s = sha (canonical (JObj (ddel ''integrity_digest'' s)))"

definition project_ok :: "json \<Rightarrow> bool" where
  "project_ok v = (case v of JObj p \<Rightarrow> (case dget p ''repository'' of JStr r \<Rightarrow> CHR ''/'' \<in> set r | _ \<Rightarrow> False) | _ \<Rightarrow> False)"

definition work_ok :: "json \<Rightarrow> bool" where
  "work_ok v = (case v of JObj w \<Rightarrow> nonempty_str (dget w ''roadmap_id'') \<and> nonempty_str (dget w ''issue_id'') | _ \<Rightarrow> False)"

definition writer_findings :: "json \<Rightarrow> string list res" where
  "writer_findings v = (case v of JObj w \<Rightarrow> bindE (in_set (dget w ''lease_state'') LEASE_STATES) (\<lambda>ok.
     if \<not> ok then Inr [''WRITER'']
     else if dget w ''lease_state'' = JStr ''NONE'' then flagE (dget w ''lease_id'' \<noteq> JNull) ''LEASE_NONE_WITH_ID''
     else if dget w ''lease_state'' \<in> {JStr ''ACTIVE'', JStr ''SUSPENDED''}
       then flagE (case dget w ''lease_id'' of JStr s \<Rightarrow> \<not> uuid_shape s | _ \<Rightarrow> True) ''LEASE_ID''
     else Inr []) | _ \<Rightarrow> Inr [''WRITER''])"

definition observation_findings :: "json \<Rightarrow> string list" where
  "observation_findings v = (case v of JObj o' \<Rightarrow>
       flag (\<not> valid_sha (dget o' ''main_sha'') False) ''MAIN_SHA'' @
       flag (\<not> valid_sha (dget o' ''head_sha'') True) ''HEAD_SHA'' @
       flag (dget o' ''pr_number'' \<noteq> JNull \<and> \<not> (is_int (dget o' ''pr_number'') \<and> 1 \<le> int_of (dget o' ''pr_number''))) ''PR_NUMBER'' @
       flag (dget o' ''branch'' \<noteq> JNull \<and> \<not> is_str (dget o' ''branch'')) ''BRANCH''
     | _ \<Rightarrow> [''PROVIDER_OBSERVATION''])"

definition phase_findings :: "dict \<Rightarrow> string list res" where
  "phase_findings s = (let x = dget s ''execution_state''; b = dget s ''boundary_type'' in
     bindE (in_set x EXECUTION_STATES) (\<lambda>xok. bindE (in_set b BOUNDARY_TYPES) (\<lambda>bok.
     bindE (if x = JStr ''COMPLETE'' then in_set (dget s ''next_permitted_action'') [''RECONCILE_NEXT'', ''NONE''] else Inr True) (\<lambda>done'. Inr (
       flag (\<not> xok) ''EXECUTION_STATE'' @ flag (\<not> bok) ''BOUNDARY_TYPE'' @
       flag (x = JStr ''RUNNING'' \<and> b \<noteq> JStr ''NONE'') ''RUNNING_BOUNDARY_CONFLICT'' @
       flag (x = JStr ''WAITING_CI'' \<and> b \<noteq> JStr ''WAITING_EXTERNAL'') ''WAITING_CI_BOUNDARY'' @
       flag (x = JStr ''HUMAN_REQUIRED'' \<and> b \<noteq> JStr ''HUMAN_REQUIRED'') ''HUMAN_REQUIRED_BOUNDARY'' @
       flag (\<not> done') ''COMPLETE_NEXT_ACTION'')))))"

definition bounded_texts :: "json \<Rightarrow> nat \<Rightarrow> bool" where
  "bounded_texts v n = (case v of JList xs \<Rightarrow> list_all (\<lambda>x. case x of JStr s \<Rightarrow> length s \<le> n | _ \<Rightarrow> False) xs | _ \<Rightarrow> False)"

definition validate_state :: "(string \<Rightarrow> string) \<Rightarrow> dict \<Rightarrow> string list res" where
  "validate_state sha s =
     bindE (writer_findings (dget s ''writer'')) (\<lambda>wf. bindE (phase_findings s) (\<lambda>pf. Inr (
       flag (\<not> set (dkeys s) \<subseteq> set STATE_REQUIRED \<union> {''executor_audit''}) ''UNKNOWN_FIELDS'' @
       flag (\<not> set STATE_REQUIRED \<subseteq> set (dkeys s)) ''REQUIRED_FIELDS'' @
       flag (\<not> py_eq (dget s ''schema_version'') (JInt 1)) ''SCHEMA_VERSION'' @
       flag (dget s ''$schema'' \<noteq> STATE_SCHEMA) ''SCHEMA_REF'' @
       flag (\<not> project_ok (dget s ''project_identity'')) ''PROJECT_IDENTITY'' @
       flag (\<not> work_ok (dget s ''work_identity'')) ''WORK_IDENTITY'' @
       wf @ domain_findings (dget s ''conflict_domains'') @ observation_findings (dget s ''provider_observation'') @ pf @
       flag (\<not> bounded_texts (dget s ''blockers'') 240) ''BLOCKERS'' @
       flag (\<not> bounded_texts (dget s ''evidence_refs'') 500) ''EVIDENCE_REFS'' @
       flag (\<not> nonempty_str (dget s ''last_verified_transition'')) ''LAST_VERIFIED_TRANSITION'' @
       flag (\<not> nonempty_str (dget s ''next_permitted_action'')) ''NEXT_PERMITTED_ACTION'' @
       flag (\<not> is_int (dget s ''revision'') \<or> int_of (dget s ''revision'') < 0) ''REVISION'' @
       flag (contains_forbidden s) ''FORBIDDEN_CONTENT'' @
       flag (dget s ''integrity_digest'' \<noteq> JStr (state_integrity sha s)) ''INTEGRITY_DIGEST'')))"

definition state_invalid :: "string list \<Rightarrow> exn" where
  "state_invalid findings = ValueError (''AUTONOMOUS_EXECUTION_STATE_INVALID:'' @ join '','' findings)"

definition checked_state :: "(string \<Rightarrow> string) \<Rightarrow> dict \<Rightarrow> dict res" where
  "checked_state sha s = bindE (validate_state sha s) (\<lambda>fs. if fs \<noteq> [] then Inl (state_invalid fs) else Inr s)"

definition sealed_state :: "(string \<Rightarrow> string) \<Rightarrow> dict \<Rightarrow> dict" where
  "sealed_state sha s = dput ''integrity_digest'' (JStr (state_integrity sha s)) s"

section \<open>Operations\<close>

record state_request =
  sr_repository :: json
  sr_roadmap :: json
  sr_issue :: json
  sr_lease_id :: json
  sr_lease_state :: json
  sr_domains :: json
  sr_main_sha :: json
  sr_head_sha :: json
  sr_pr_number :: json
  sr_branch :: json
  sr_execution :: json
  sr_boundary :: json
  sr_blockers :: "json list"
  sr_transition :: json
  sr_evidence :: "json list"
  sr_next :: json
  sr_revision :: int
  sr_audit :: "json option"

definition build_state :: "(string \<Rightarrow> string) \<Rightarrow> state_request \<Rightarrow> dict res" where
  "build_state sha q = bindE (normalize_domains (sr_domains q)) (\<lambda>ds.
     checked_state sha (sealed_state sha ([
       (''$schema'', STATE_SCHEMA), (''schema_version'', JInt 1),
       (''project_identity'', JObj [(''repository'', sr_repository q)]),
       (''work_identity'', JObj [(''roadmap_id'', sr_roadmap q), (''issue_id'', JStr (py_str (sr_issue q)))]),
       (''writer'', JObj [(''lease_id'', sr_lease_id q), (''lease_state'', sr_lease_state q)]),
       (''conflict_domains'', strs ds),
       (''provider_observation'', JObj [(''main_sha'', sr_main_sha q), (''head_sha'', sr_head_sha q),
          (''pr_number'', sr_pr_number q), (''branch'', sr_branch q)]),
       (''execution_state'', sr_execution q), (''boundary_type'', sr_boundary q), (''blockers'', JList (sr_blockers q)),
       (''last_verified_transition'', sr_transition q), (''evidence_refs'', JList (sr_evidence q)),
       (''next_permitted_action'', sr_next q), (''revision'', JInt (sr_revision q)), (''integrity_digest'', JStr [])]
       @ (case sr_audit q of None \<Rightarrow> [] | Some a \<Rightarrow> [(''executor_audit'', a)]))))"

text \<open>Fresh provider facts, and whether the state's observation differs from them.\<close>

record provider_facts =
  pf_main_sha :: json
  pf_head_sha :: json
  pf_pr_number :: json
  pf_branch :: json

definition observation_stale :: "json \<Rightarrow> provider_facts \<Rightarrow> bool res" where
  "observation_stale v f = bindE (getE v ''main_sha'') (\<lambda>m. bindE (getE v ''head_sha'') (\<lambda>h.
     bindE (getE v ''pr_number'') (\<lambda>n. bindE (getE v ''branch'') (\<lambda>b. Inr (
       \<not> py_eq m (pf_main_sha f) \<or> \<not> py_eq h (pf_head_sha f) \<or> \<not> py_eq n (pf_pr_number f) \<or> \<not> py_eq b (pf_branch f))))))"

text \<open>Whether the observation is stale; writing is authorised exactly when it is not.\<close>

definition reconcile_provider_observation :: "(string \<Rightarrow> string) \<Rightarrow> dict \<Rightarrow> provider_facts \<Rightarrow> bool res" where
  "reconcile_provider_observation sha s f = bindE (checked_state sha s) (\<lambda>s.
     bindE (ditemE s ''provider_observation'') (\<lambda>v. observation_stale v f))"

definition IMMUTABLE_FIELDS :: "string list" where
  "IMMUTABLE_FIELDS = [''schema_version'', ''$schema'', ''project_identity'', ''work_identity'']"

definition apply_change :: "string \<times> json \<Rightarrow> dict \<Rightarrow> dict res" where
  "apply_change = (\<lambda>(k, v) s. if \<not> dhas s k \<or> k = ''integrity_digest''
     then Inl (ValueError ''AUTONOMOUS_EXECUTION_STATE_CHANGE_INVALID'') else Inr (dput k v s))"

definition cas_update :: "(string \<Rightarrow> string) \<Rightarrow> dict \<Rightarrow> int \<Rightarrow> dict \<Rightarrow> dict res" where
  "cas_update sha changes expected s = bindE (checked_state sha s) (\<lambda>s.
     if \<not> py_eq (dget s ''revision'') (JInt expected) then Inl (ValueError ''AUTONOMOUS_EXECUTION_STATE_REVISION_CONFLICT'')
     else if list_ex (dhas changes) IMMUTABLE_FIELDS then Inl (ValueError ''AUTONOMOUS_EXECUTION_STATE_IDENTITY_IMMUTABLE'')
     else bindE (foldE apply_change changes s) (\<lambda>u.
       checked_state sha (sealed_state sha (dput ''revision'' (JInt (expected + 1)) u))))"

definition owner_projection :: "(string \<Rightarrow> string) \<Rightarrow> dict \<Rightarrow> dict res" where
  "owner_projection sha s = bindE (checked_state sha s) (\<lambda>s.
     bindE (ditemE s ''project_identity'') (\<lambda>pi. bindE (itemE pi ''repository'') (\<lambda>r.
     bindE (ditemE s ''work_identity'') (\<lambda>w. bindE (itemE w ''roadmap_id'') (\<lambda>rm. bindE (itemE w ''issue_id'') (\<lambda>i.
     bindE (ditemE s ''writer'') (\<lambda>wr. bindE (itemE wr ''lease_state'') (\<lambda>ls. bindE (ditemE s ''blockers'') (\<lambda>bl.
       Inr [(''project'', r), (''work_item'', rm), (''issue'', i), (''writer_lease_state'', ls),
         (''execution_state'', dget s ''execution_state''), (''boundary'', dget s ''boundary_type''),
         (''blocker'', case bl of JList (b # bs) \<Rightarrow> b | _ \<Rightarrow> JNull),
         (''last_verified_transition'', dget s ''last_verified_transition''),
         (''next_allowed_action'', dget s ''next_permitted_action'')])))))))))"

section \<open>The store contract\<close>

definition good_state :: "(string \<Rightarrow> string) \<Rightarrow> dict \<Rightarrow> bool" where
  "good_state sha s = (validate_state sha s = Inr [])"

definition state_revision :: "dict \<Rightarrow> int" where
  "state_revision s = int_of (dget s ''revision'')"

lemma checked_state_Inr: "checked_state sha s = Inr t \<longleftrightarrow> t = s \<and> good_state sha s"
  by (auto simp: checked_state_def good_state_def elim!: bindE_InrE split: if_split_asm)

lemma good_state_facts:
  assumes "good_state sha s"
  shows "is_int (dget s ''revision'')" "0 \<le> state_revision s" "work_ok (dget s ''work_identity'')"
    "project_ok (dget s ''project_identity'')" "\<not> contains_forbidden s"
    "writer_findings (dget s ''writer'') = Inr []" "phase_findings s = Inr []" "domain_findings (dget s ''conflict_domains'') = []"
    "observation_findings (dget s ''provider_observation'') = []" "set (dkeys s) \<subseteq> set STATE_REQUIRED \<union> {''executor_audit''}"
    "set STATE_REQUIRED \<subseteq> set (dkeys s)" "dget s ''integrity_digest'' = JStr (state_integrity sha s)"
  using assms unfolding good_state_def validate_state_def state_revision_def
  by (auto elim!: bindE_InrE)

lemma py_eq_int_of: "is_int v \<Longrightarrow> py_eq v (JInt n) \<longleftrightarrow> int_of v = n"
  by (cases v) (auto simp: num_eq_def)

lemma changes_keep:
  assumes "foldE apply_change cs s = Inr u"
  shows "\<forall>k. k \<notin> set (dkeys cs) \<longrightarrow> dget u k = dget s k"
  using assms
proof (induction cs arbitrary: s)
  case (Cons c cs)
  obtain k v where c: "c = (k, v)" by (cases c)
  from Cons.prems obtain t where t: "apply_change (k, v) s = Inr t" "foldE apply_change cs t = Inr u"
    by (auto simp: c elim!: bindE_InrE)
  have "t = dput k v s" using t(1) by (auto simp: apply_change_def split: if_split_asm)
  with Cons.IH [OF t(2)] show ?case by (auto simp: c dkeys_def)
qed simp

lemma cas_update_shape:
  assumes "cas_update sha changes n s = Inr s'"
  shows "good_state sha s \<and> state_revision s = n \<and> good_state sha s' \<and> state_revision s' = n + 1
    \<and> (\<forall>k. k \<notin> set (dkeys changes) \<union> {''revision'', ''integrity_digest''} \<longrightarrow> dget s' k = dget s k)
    \<and> (\<forall>k \<in> set IMMUTABLE_FIELDS. k \<notin> set (dkeys changes))"
proof -
  obtain u where g: "good_state sha s" and r: "py_eq (dget s ''revision'') (JInt n)" and i: "\<not> list_ex (dhas changes) IMMUTABLE_FIELDS"
    and u: "foldE apply_change changes s = Inr u"
    and s': "checked_state sha (sealed_state sha (dput ''revision'' (JInt (n + 1)) u)) = Inr s'"
    using assms unfolding cas_update_def by (auto simp: checked_state_Inr elim!: bindE_InrE split: if_split_asm)
  have e: "s' = sealed_state sha (dput ''revision'' (JInt (n + 1)) u)" "good_state sha s'"
    using s' by (auto simp: checked_state_Inr)
  have "state_revision s = n" using r py_eq_int_of good_state_facts(1) [OF g] by (simp add: state_revision_def)
  moreover have "state_revision s' = n + 1" by (simp add: e(1) state_revision_def sealed_state_def)
  moreover have "k \<notin> set (dkeys changes)" if "k \<in> set IMMUTABLE_FIELDS" for k
    using i that by (auto simp: list_ex_iff dhas_def dkeys_def map_of_eq_None_iff)
  ultimately show ?thesis using g e changes_keep [OF u] by (auto simp: sealed_state_def)
qed

interpretation state_store: cas_store state_revision "cas_update sha" "good_state sha" for sha
  by unfold_locales (use cas_update_shape in blast)+

section \<open>What validation guarantees\<close>

lemma identity_kept:
  assumes "foldE (\<lambda>(op, n). cas_update sha op n) ops s = Inr s'" "k \<in> set IMMUTABLE_FIELDS"
  shows "dget s' k = dget s k"
  using assms
proof (induction ops arbitrary: s)
  case (Cons x ops)
  obtain op n where x: "x = (op, n)" by (cases x)
  from Cons.prems(1) obtain t where t: "cas_update sha op n s = Inr t" "foldE (\<lambda>(op, n). cas_update sha op n) ops t = Inr s'"
    by (auto simp: x elim!: bindE_InrE)
  have "k \<notin> {''revision'', ''integrity_digest''}" using assms(2) by (auto simp: IMMUTABLE_FIELDS_def)
  then have "dget t k = dget s k" using cas_update_shape [OF t(1)] assms(2) by blast
  then show ?case using Cons.IH [OF t(2) assms(2)] by simp
qed simp

text \<open>A history of accepted updates of the durable execution state is serial: each names the
  revision the one before it wrote, the result is a valid sealed state whose revision has grown by
  the number of updates, and the project and the work item it speaks about are those it began with.\<close>

theorem execution_history_is_serial:
  assumes "foldE (\<lambda>(op, n). cas_update sha op n) ops s = Inr s'" and "good_state sha s"
  shows "good_state sha s' \<and> state_revision s' = state_revision s + int (length ops)
    \<and> (\<forall>i < length ops. snd (ops ! i) = state_revision s + int i)
    \<and> dget s' ''project_identity'' = dget s ''project_identity'' \<and> dget s' ''work_identity'' = dget s ''work_identity''
    \<and> dget s' ''integrity_digest'' = JStr (state_integrity sha s')"
  using state_store.history [OF assms] good_state_facts(12) identity_kept [OF assms(1)]
  by (auto simp: IMMUTABLE_FIELDS_def)

lemma required_present:
  assumes "good_state sha s" "k \<in> set STATE_REQUIRED"
  shows "ditemE s k = Inr (dget s k)"
  using good_state_facts(11) [OF assms(1)] assms(2)
  by (auto simp: ditemE_def dget_def dkeys_def split: option.splits dest!: subsetD simp: map_of_eq_None_iff)

lemma work_ok_item: "work_ok v \<Longrightarrow> \<exists>r i. itemE v ''roadmap_id'' = Inr (JStr r) \<and> itemE v ''issue_id'' = Inr (JStr i) \<and> r \<noteq> [] \<and> i \<noteq> []"
  by (auto simp: work_ok_def nonempty_str_def ditemE_def dget_def split: json.splits option.splits)

lemma project_ok_item: "project_ok v \<Longrightarrow> \<exists>r. itemE v ''repository'' = Inr (JStr r) \<and> CHR ''/'' \<in> set r"
  by (auto simp: project_ok_def ditemE_def dget_def split: json.splits option.splits)

lemma writer_item: "writer_findings v = Inr [] \<Longrightarrow> \<exists>l. itemE v ''lease_state'' = Inr (JStr l) \<and> l \<in> set LEASE_STATES"
  by (cases v) (auto simp: writer_findings_def ditemE_def dget_def in_set_True elim!: bindE_InrE split: option.splits if_split_asm)

lemma phase_facts:
  assumes "phase_findings s = Inr []"
  shows "\<exists>x b. dget s ''execution_state'' = JStr x \<and> x \<in> set EXECUTION_STATES \<and> dget s ''boundary_type'' = JStr b \<and> b \<in> set BOUNDARY_TYPES
    \<and> (x = ''RUNNING'' \<longrightarrow> b = ''NONE'') \<and> (x = ''WAITING_CI'' \<longrightarrow> b = ''WAITING_EXTERNAL'')
    \<and> (x = ''HUMAN_REQUIRED'' \<longrightarrow> b = ''HUMAN_REQUIRED'')"
  using assms by (auto simp: phase_findings_def Let_def in_set_True elim!: bindE_InrE)

lemma complete_facts:
  assumes "phase_findings s = Inr []" "dget s ''execution_state'' = JStr ''COMPLETE''"
  shows "dget s ''next_permitted_action'' = JStr ''RECONCILE_NEXT'' \<or> dget s ''next_permitted_action'' = JStr ''NONE''"
proof -
  from assms(1) obtain ok where "in_set (dget s ''next_permitted_action'') [''RECONCILE_NEXT'', ''NONE''] = Inr ok"
    and "flag (\<not> ok) ''COMPLETE_NEXT_ACTION'' = []"
    unfolding phase_findings_def Let_def
    by (elim bindE_InrE) (simp only: assms(2) simp_thms if_True sum.inject append_is_Nil_conv)
  then have "in_set (dget s ''next_permitted_action'') [''RECONCILE_NEXT'', ''NONE''] = Inr True" by (simp only: flag_Nil_iff not_not)
  then show ?thesis by (auto simp: in_set_True)
qed

lemma item_of_dict: "itemE v k = Inr (JStr t) \<Longrightarrow> \<exists>d. v = JObj d \<and> dget d k = JStr t"
  by (cases v) (auto simp: ditemE_def dget_def split: option.splits)

lemma blockers_of_valid:
  assumes "good_state sha s"
  shows "bounded_texts (dget s ''blockers'') 240"
  using assms unfolding good_state_def validate_state_def by (auto elim!: bindE_InrE)

text \<open>C35. Validation is enough for every reader of a state: on a valid state the owner's view never
  raises, and each of its nine entries is the state's own: the repository of its project identity, the
  roadmap id and issue of its work identity, the lease state of its writer, its execution state, boundary, first blocker if any,
  last transition and next action.  The lease and execution states are known ones, and the boundary is the one the execution state
  requires (running none, waiting for CI an external wait, waiting for a person a human one), so that a run waiting for a
  person is never shown as running.  The comparison with fresh provider facts never raises
  either, and allows writing exactly when all four facts agree.\<close>

theorem valid_state_has_a_truthful_owner_view:
  assumes "good_state sha s"
  shows "(\<exists>pi wi wr r w i l x b bs. dget s ''project_identity'' = JObj pi \<and> dget pi ''repository'' = JStr r
    \<and> dget s ''work_identity'' = JObj wi \<and> dget wi ''roadmap_id'' = JStr w \<and> dget wi ''issue_id'' = JStr i
    \<and> dget s ''writer'' = JObj wr \<and> dget wr ''lease_state'' = JStr l
    \<and> dget s ''execution_state'' = JStr x \<and> dget s ''boundary_type'' = JStr b \<and> dget s ''blockers'' = JList bs
    \<and> owner_projection sha s = Inr
      [(''project'', JStr r), (''work_item'', JStr w), (''issue'', JStr i), (''writer_lease_state'', JStr l),
       (''execution_state'', JStr x), (''boundary'', JStr b), (''blocker'', if bs = [] then JNull else hd bs),
       (''last_verified_transition'', dget s ''last_verified_transition''),
       (''next_allowed_action'', dget s ''next_permitted_action'')]
    \<and> CHR ''/'' \<in> set r \<and> w \<noteq> [] \<and> i \<noteq> [] \<and> l \<in> set LEASE_STATES \<and> x \<in> set EXECUTION_STATES \<and> b \<in> set BOUNDARY_TYPES
    \<and> (x = ''RUNNING'' \<longrightarrow> b = ''NONE'') \<and> (x = ''WAITING_CI'' \<longrightarrow> b = ''WAITING_EXTERNAL'') \<and> (x = ''HUMAN_REQUIRED'' \<longrightarrow> b = ''HUMAN_REQUIRED'')
    \<and> (x = ''COMPLETE'' \<longrightarrow> dget s ''next_permitted_action'' \<in> {JStr ''RECONCILE_NEXT'', JStr ''NONE''}))
    \<and> (\<exists>v. dget s ''provider_observation'' = JObj v \<and> reconcile_provider_observation sha s f =
      Inr (\<not> (py_eq (dget v ''main_sha'') (pf_main_sha f) \<and> py_eq (dget v ''head_sha'') (pf_head_sha f)
        \<and> py_eq (dget v ''pr_number'') (pf_pr_number f) \<and> py_eq (dget v ''branch'') (pf_branch f))))"
  (is "?view \<and> ?fresh")
proof (rule conjI)
  note g = good_state_facts [OF assms]
  note ok = checked_state_Inr [THEN iffD2, OF conjI [OF refl assms]]
  have p: "ditemE s k = Inr (dget s k)" if "k \<in> {''project_identity'', ''work_identity'', ''writer'', ''blockers'', ''provider_observation''}" for k
    by (rule required_present [OF assms]) (use that in \<open>auto simp: STATE_REQUIRED_def\<close>)
  obtain r where r: "itemE (dget s ''project_identity'') ''repository'' = Inr (JStr r)" "CHR ''/'' \<in> set r"
    using project_ok_item [OF g(4)] by blast
  obtain w i where w: "itemE (dget s ''work_identity'') ''roadmap_id'' = Inr (JStr w)"
    "itemE (dget s ''work_identity'') ''issue_id'' = Inr (JStr i)" "w \<noteq> []" "i \<noteq> []"
    using work_ok_item [OF g(3)] by blast
  obtain l where l: "itemE (dget s ''writer'') ''lease_state'' = Inr (JStr l)" "l \<in> set LEASE_STATES"
    using writer_item [OF g(6)] by blast
  obtain x b where x: "dget s ''execution_state'' = JStr x" "x \<in> set EXECUTION_STATES" "dget s ''boundary_type'' = JStr b"
    "b \<in> set BOUNDARY_TYPES" "x = ''RUNNING'' \<longrightarrow> b = ''NONE''" "x = ''WAITING_CI'' \<longrightarrow> b = ''WAITING_EXTERNAL''"
    "x = ''HUMAN_REQUIRED'' \<longrightarrow> b = ''HUMAN_REQUIRED''"
    using phase_facts [OF g(7)] by blast
  have c: "x = ''COMPLETE'' \<longrightarrow> dget s ''next_permitted_action'' \<in> {JStr ''RECONCILE_NEXT'', JStr ''NONE''}"
    using complete_facts [OF g(7)] x(1) by auto
  obtain pi wi wr where d: "dget s ''project_identity'' = JObj pi" "dget pi ''repository'' = JStr r"
    "dget s ''work_identity'' = JObj wi" "dget wi ''roadmap_id'' = JStr w" "dget wi ''issue_id'' = JStr i"
    "dget s ''writer'' = JObj wr" "dget wr ''lease_state'' = JStr l"
    using item_of_dict [OF r(1)] item_of_dict [OF w(1)] item_of_dict [OF w(2)] item_of_dict [OF l(1)] by auto
  obtain bs where bs: "dget s ''blockers'' = JList bs"
    using blockers_of_valid [OF assms] by (auto simp: bounded_texts_def split: json.splits)
  have "owner_projection sha s = Inr
      [(''project'', JStr r), (''work_item'', JStr w), (''issue'', JStr i), (''writer_lease_state'', JStr l),
       (''execution_state'', JStr x), (''boundary'', JStr b), (''blocker'', if bs = [] then JNull else hd bs),
       (''last_verified_transition'', dget s ''last_verified_transition''),
       (''next_allowed_action'', dget s ''next_permitted_action'')]"
    by (simp add: owner_projection_def ok p r w l x bs split: list.split)
  with d bs r(2) w(3,4) l(2) x c show ?view by (intro exI conjI)
  show ?fresh
  proof (cases "dget s ''provider_observation''")
    case (JObj v)
    then show ?thesis by (simp add: reconcile_provider_observation_def ok p observation_stale_def)
  qed (use g(9) in \<open>simp_all add: observation_findings_def\<close>)
qed

section \<open>A sample state\<close>

definition sample_request :: state_request where
  "sample_request = \<lparr>sr_repository = JStr ''o/r'', sr_roadmap = JStr ''R-1'', sr_issue = JStr ''7'', sr_lease_id = JNull,
     sr_lease_state = JStr ''NONE'', sr_domains = strs [''src''], sr_main_sha = JStr sample_sha40, sr_head_sha = JNull,
     sr_pr_number = JNull, sr_branch = JNull, sr_execution = JStr ''RUNNING'', sr_boundary = JStr ''NONE'', sr_blockers = [],
     sr_transition = JStr ''T'', sr_evidence = [], sr_next = JStr ''CONTINUE'', sr_revision = 0, sr_audit = None\<rparr>"

definition sample_state :: "string \<Rightarrow> int \<Rightarrow> dict" where
  "sample_state transition n = [(''$schema'', STATE_SCHEMA), (''schema_version'', JInt 1),
     (''project_identity'', JObj [(''repository'', JStr ''o/r'')]),
     (''work_identity'', JObj [(''roadmap_id'', JStr ''R-1''), (''issue_id'', JStr ''7'')]),
     (''writer'', JObj [(''lease_id'', JNull), (''lease_state'', JStr ''NONE'')]),
     (''conflict_domains'', strs [''src'']),
     (''provider_observation'', JObj [(''main_sha'', JStr sample_sha40), (''head_sha'', JNull), (''pr_number'', JNull), (''branch'', JNull)]),
     (''execution_state'', JStr ''RUNNING''), (''boundary_type'', JStr ''NONE''), (''blockers'', JList []),
     (''last_verified_transition'', JStr transition), (''evidence_refs'', JList []), (''next_permitted_action'', JStr ''CONTINUE''),
     (''revision'', JInt n), (''integrity_digest'', JStr ''digest'')]"

lemma sample_sha40_text: "sample_sha40 = ''aaaaaaaaaaaaaaaaaaaaaaaaaaaaaaaaaaaaaaaa''"
  by (simp add: sample_sha40_def numeral_eq_Suc)

text \<open>The lowered text of the two states used below.\<close>

lemmas sample_text_simps = sample_state_def strs_def STATE_SCHEMA_def sample_sha40_text int_str_def nat_str.simps text_simps

definition sample_text_0 :: string where
  "sample_text_0 = ''{\"$schema\": \".adwf/schemas/autonomous-execution-state.schema.json\", \"blockers\": [], \"boundary_type\": \"none\", \"conflict_domains\": [\"src\"], \"evidence_refs\": [], \"execution_state\": \"running\", \"integrity_digest\": \"digest\", \"last_verified_transition\": \"t\", \"next_permitted_action\": \"continue\", \"project_identity\": {\"repository\": \"o/r\"}, \"provider_observation\": {\"branch\": null, \"head_sha\": null, \"main_sha\": \"aaaaaaaaaaaaaaaaaaaaaaaaaaaaaaaaaaaaaaaa\", \"pr_number\": null}, \"revision\": 0, \"schema_version\": 1, \"work_identity\": {\"issue_id\": \"7\", \"roadmap_id\": \"r-1\"}, \"writer\": {\"lease_id\": null, \"lease_state\": \"none\"}}''"

lemma sample_text_0: "lower (dumps '', '' '': '' (JObj (sample_state ''T'' 0))) = sample_text_0"
  by (simp add: sample_text_0_def sample_text_simps)

lemma sample_scan_0_0: "\<not> contains sample_text_0 ''chain-of-thought''" "\<not> contains sample_text_0 ''chain of thought''" "\<not> contains sample_text_0 ''private reasoning''"
  unfolding sample_text_0_def
  by (simp_all add: text_simps del: contains.simps cong: contains_weak_cong prefix_at_weak_cong)

lemma sample_scan_0_1: "\<not> contains sample_text_0 ''private_reasoning''" "\<not> contains sample_text_0 ''authorization: bearer''" "\<not> contains sample_text_0 ''api_key''"
  unfolding sample_text_0_def
  by (simp_all add: text_simps del: contains.simps cong: contains_weak_cong prefix_at_weak_cong)

lemma sample_scan_0_2: "\<not> contains sample_text_0 ''access_token''" "\<not> contains sample_text_0 ''refresh_token''" "\<not> contains sample_text_0 ''client_secret''"
  unfolding sample_text_0_def
  by (simp_all add: text_simps del: contains.simps cong: contains_weak_cong prefix_at_weak_cong)

definition sample_text_1 :: string where
  "sample_text_1 = ''{\"$schema\": \".adwf/schemas/autonomous-execution-state.schema.json\", \"blockers\": [], \"boundary_type\": \"none\", \"conflict_domains\": [\"src\"], \"evidence_refs\": [], \"execution_state\": \"running\", \"integrity_digest\": \"digest\", \"last_verified_transition\": \"u\", \"next_permitted_action\": \"continue\", \"project_identity\": {\"repository\": \"o/r\"}, \"provider_observation\": {\"branch\": null, \"head_sha\": null, \"main_sha\": \"aaaaaaaaaaaaaaaaaaaaaaaaaaaaaaaaaaaaaaaa\", \"pr_number\": null}, \"revision\": 1, \"schema_version\": 1, \"work_identity\": {\"issue_id\": \"7\", \"roadmap_id\": \"r-1\"}, \"writer\": {\"lease_id\": null, \"lease_state\": \"none\"}}''"

lemma sample_text_1: "lower (dumps '', '' '': '' (JObj (sample_state ''U'' 1))) = sample_text_1"
  by (simp add: sample_text_1_def sample_text_simps)

lemma sample_scan_1_0: "\<not> contains sample_text_1 ''chain-of-thought''" "\<not> contains sample_text_1 ''chain of thought''" "\<not> contains sample_text_1 ''private reasoning''"
  unfolding sample_text_1_def
  by (simp_all add: text_simps del: contains.simps cong: contains_weak_cong prefix_at_weak_cong)

lemma sample_scan_1_1: "\<not> contains sample_text_1 ''private_reasoning''" "\<not> contains sample_text_1 ''authorization: bearer''" "\<not> contains sample_text_1 ''api_key''"
  unfolding sample_text_1_def
  by (simp_all add: text_simps del: contains.simps cong: contains_weak_cong prefix_at_weak_cong)

lemma sample_scan_1_2: "\<not> contains sample_text_1 ''access_token''" "\<not> contains sample_text_1 ''refresh_token''" "\<not> contains sample_text_1 ''client_secret''"
  unfolding sample_text_1_def
  by (simp_all add: text_simps del: contains.simps cong: contains_weak_cong prefix_at_weak_cong)

lemma sample_clean: "\<not> contains_forbidden (sample_state ''T'' 0)" "\<not> contains_forbidden (sample_state ''U'' 1)"
  by (simp_all only: contains_forbidden_def Let_def sample_text_0 sample_text_1 FORBIDDEN_MARKERS_def list_ex_iff list.set ball_simps bex_simps
    sample_scan_0_0 sample_scan_0_1 sample_scan_0_2 sample_scan_1_0 sample_scan_1_1 sample_scan_1_2 simp_thms)

lemma sample_domains: "domain_findings (strs [''src'']) = []"
  by code_simp

lemma sample_state_good: "good_state no_sha (sample_state ''T'' 0)" "good_state no_sha (sample_state ''U'' 1)"
  using sample_clean sample_domains sample_sha40_shape
  by (simp_all add: good_state_def validate_state_def sample_state_def STATE_REQUIRED_def dkeys_def project_ok_def work_ok_def
     nonempty_str_def writer_findings_def LEASE_STATES_def flagE_def observation_findings_def valid_sha_def phase_findings_def
     EXECUTION_STATES_def BOUNDARY_TYPES_def bounded_texts_def state_integrity_def no_sha_def)

lemma sample_state_built: "build_state no_sha sample_request = Inr (sample_state ''T'' 0)"
proof -
  have n: "normalize_domains (strs [''src'']) = Inr [''src'']" by code_simp
  have "build_state no_sha sample_request = checked_state no_sha (sample_state ''T'' 0)"
    by (simp add: build_state_def sample_request_def n sealed_state_def state_integrity_def no_sha_def sample_state_def dput_def)
  with sample_state_good(1) show ?thesis by (simp add: checked_state_def good_state_def)
qed

lemma sample_state_updated: "cas_update no_sha [(''last_verified_transition'', JStr ''U'')] 0 (sample_state ''T'' 0) = Inr (sample_state ''U'' 1)"
proof -
  have "sealed_state no_sha (dput ''revision'' (JInt 1) (dput ''last_verified_transition'' (JStr ''U'') (sample_state ''T'' 0))) = sample_state ''U'' 1"
    by (simp add: sealed_state_def state_integrity_def no_sha_def sample_state_def dput_def)
  moreover have "dget (sample_state ''T'' 0) ''revision'' = JInt 0" "dhas (sample_state ''T'' 0) ''last_verified_transition''"
    by (simp_all add: sample_state_def)
  ultimately show ?thesis using sample_state_good
    by (simp add: cas_update_def checked_state_def good_state_def IMMUTABLE_FIELDS_def apply_change_def)
qed

lemma execution_history_is_serial_witness:
  "state_revision (sample_state ''U'' 1) = state_revision (sample_state ''T'' 0) + 1"
  using execution_history_is_serial [of no_sha "[([(''last_verified_transition'', JStr ''U'')], 0)]" "sample_state ''T'' 0" "sample_state ''U'' 1"]
  by (simp add: sample_state_updated sample_state_good)

lemma valid_state_has_a_truthful_owner_view_witness:
  "\<exists>v. owner_projection no_sha (sample_state ''T'' 0) = Inr v"
  using valid_state_has_a_truthful_owner_view [OF sample_state_good(1), THEN conjunct1] by (elim exE conjE) (rule exI)

end
