(* ===== verification/Effects.thy ===== *)
theory Effects
  imports PyVal
begin

text \<open>
  Effectful code as state passing: a program reads and writes a state and returns a value or
  raises.  What was written before an exception stays written, as in the source.  The weakest
  precondition \<open>wp m Q E\<close> says that \<open>m\<close> started in a state ends with \<open>Q\<close> of its value and the new
  state, or with \<open>E\<close> of its exception and the new state; the rules in \<open>wp_simps\<close> compute it
  along the program text.
\<close>

named_theorems wp_simps

type_synonym ('s, 'a) prog = "'s \<Rightarrow> 'a res \<times> 's"

definition retP :: "'a \<Rightarrow> ('s, 'a) prog" where
  "retP x s = (Inr x, s)"

definition raiseP :: "exn \<Rightarrow> ('s, 'a) prog" where
  "raiseP e s = (Inl e, s)"

text \<open>A computation without effects, a read and a write of the state.\<close>

definition liftP :: "'a res \<Rightarrow> ('s, 'a) prog" where
  "liftP r s = (r, s)"

definition getP :: "('s \<Rightarrow> 'a) \<Rightarrow> ('s, 'a) prog" where
  "getP f s = (Inr (f s), s)"

definition putP :: "('s \<Rightarrow> 's) \<Rightarrow> ('s, unit) prog" where
  "putP f s = (Inr (), f s)"

definition bindP :: "('s, 'a) prog \<Rightarrow> ('a \<Rightarrow> ('s, 'b) prog) \<Rightarrow> ('s, 'b) prog" where
  "bindP m f s = (case m s of (Inl e, t) \<Rightarrow> (Inl e, t) | (Inr x, t) \<Rightarrow> f x t)"

text \<open>\<open>try: m except BaseException as e: h e\<close>.\<close>

definition tryP :: "('s, 'a) prog \<Rightarrow> (exn \<Rightarrow> ('s, 'a) prog) \<Rightarrow> ('s, 'a) prog" where
  "tryP m h s = (case m s of (Inl e, t) \<Rightarrow> h e t | (Inr x, t) \<Rightarrow> (Inr x, t))"

definition whenP :: "bool \<Rightarrow> ('s, unit) prog \<Rightarrow> ('s, unit) prog" where
  "whenP b m = (if b then m else retP ())"

definition wp :: "('s, 'a) prog \<Rightarrow> ('a \<Rightarrow> 's \<Rightarrow> bool) \<Rightarrow> (exn \<Rightarrow> 's \<Rightarrow> bool) \<Rightarrow> 's \<Rightarrow> bool" where
  "wp m Q E s = (case m s of (Inl e, t) \<Rightarrow> E e t | (Inr x, t) \<Rightarrow> Q x t)"

lemma wp_ret [wp_simps]: "wp (retP x) Q E s \<longleftrightarrow> Q x s"
  by (simp add: wp_def retP_def)

lemma wp_raise [wp_simps]: "wp (raiseP e) Q E s \<longleftrightarrow> E e s"
  by (simp add: wp_def raiseP_def)

lemma wp_lift [wp_simps]: "wp (liftP r) Q E s \<longleftrightarrow> (case r of Inl e \<Rightarrow> E e s | Inr x \<Rightarrow> Q x s)"
  by (simp add: wp_def liftP_def split: sum.split)

lemma wp_get [wp_simps]: "wp (getP f) Q E s \<longleftrightarrow> Q (f s) s"
  by (simp add: wp_def getP_def)

lemma wp_put [wp_simps]: "wp (putP f) Q E s \<longleftrightarrow> Q () (f s)"
  by (simp add: wp_def putP_def)

lemma wp_bind [wp_simps]: "wp (bindP m f) Q E s \<longleftrightarrow> wp m (\<lambda>x. wp (f x) Q E) E s"
  by (simp add: wp_def bindP_def split: prod.split sum.split)

lemma wp_try [wp_simps]: "wp (tryP m h) Q E s \<longleftrightarrow> wp m Q (\<lambda>e. wp (h e) Q E) s"
  by (simp add: wp_def tryP_def split: prod.split sum.split)

lemma wp_when [wp_simps]: "wp (whenP b m) Q E s \<longleftrightarrow> (if b then wp m Q E s else Q () s)"
  by (simp add: whenP_def wp_ret)

lemma wp_if [wp_simps]: "wp (if b then m else m') Q E s \<longleftrightarrow> (if b then wp m Q E s else wp m' Q E s)"
  by simp

lemma wp_mono:
  assumes "wp m Q E s" "\<And>x t. Q x t \<Longrightarrow> Q' x t" "\<And>e t. E e t \<Longrightarrow> E' e t"
  shows "wp m Q' E' s"
  using assms by (auto simp: wp_def split: prod.splits sum.splits)

lemma wp_conj: "wp m Q E s \<Longrightarrow> wp m Q' E' s \<Longrightarrow> wp m (\<lambda>x t. Q x t \<and> Q' x t) (\<lambda>e t. E e t \<and> E' e t) s"
  by (auto simp: wp_def split: prod.splits sum.splits)

lemma wp_Inr: "wp m Q E s \<Longrightarrow> m s = (Inr x, t) \<Longrightarrow> Q x t"
  by (simp add: wp_def)

lemma wp_Inl: "wp m Q E s \<Longrightarrow> m s = (Inl e, t) \<Longrightarrow> E e t"
  by (simp add: wp_def)

text \<open>A sequence of two programs, each with a known effect: the second starts where the first ended.\<close>

lemma wp_seq:
  assumes "wp m P E s" "\<And>x t. P x t \<Longrightarrow> wp (f x) Q E t"
  shows "wp (bindP m f) Q E s"
  unfolding wp_bind by (rule wp_mono [OF assms(1)]) (use assms(2) in auto)

text \<open>An item of a set, or a key of a dictionary, must hash.\<close>

definition hashE :: "json \<Rightarrow> json res" where
  "hashE v = (if hashable v then Inr v else Inl TypeError)"

text \<open>What a program keeps, whether it returns or raises; the rules in \<open>keeps_intros\<close> follow its text.\<close>

definition keeps :: "('s \<Rightarrow> bool) \<Rightarrow> ('s, 'a) prog \<Rightarrow> bool" where
  "keeps K m = (\<forall>s. K s \<longrightarrow> wp m (\<lambda>_. K) (\<lambda>_. K) s)"

named_theorems keeps_intros

lemma keepsD: "keeps K m \<Longrightarrow> K s \<Longrightarrow> wp m (\<lambda>_. K) (\<lambda>_. K) s"
  by (simp add: keeps_def)

lemma keeps_bind [keeps_intros]: "keeps K m \<Longrightarrow> (\<And>x. keeps K (f x)) \<Longrightarrow> keeps K (bindP m f)"
  by (auto simp: keeps_def wp_bind elim!: wp_mono)

lemma keeps_try [keeps_intros]: "keeps K m \<Longrightarrow> (\<And>e. keeps K (h e)) \<Longrightarrow> keeps K (tryP m h)"
  by (auto simp: keeps_def wp_try elim!: wp_mono)

lemma keeps_if [keeps_intros]: "(b \<Longrightarrow> keeps K m) \<Longrightarrow> (\<not> b \<Longrightarrow> keeps K m') \<Longrightarrow> keeps K (if b then m else m')"
  by simp

lemma keeps_simple [keeps_intros]: "keeps K (retP x)" "keeps K (raiseP e)" "keeps K (liftP r)" "keeps K (getP g)"
  by (auto simp: keeps_def wp_simps split: sum.split)

lemma keeps_prod [keeps_intros]: "(\<And>x y. p = (x, y) \<Longrightarrow> keeps K (f x y)) \<Longrightarrow> keeps K (case p of (x, y) \<Rightarrow> f x y)"
  by (cases p) auto

lemma keeps_option [keeps_intros]: "keeps K m \<Longrightarrow> (\<And>x. keeps K (f x)) \<Longrightarrow> keeps K (case p of None \<Rightarrow> m | Some x \<Rightarrow> f x)"
  by (cases p) auto

lemma keeps_list [keeps_intros]: "keeps K m \<Longrightarrow> (\<And>x xs. keeps K (f x xs)) \<Longrightarrow> keeps K (case p of [] \<Rightarrow> m | x # xs \<Rightarrow> f x xs)"
  by (cases p) auto

lemma keeps_Let [keeps_intros]: "keeps K (f v) \<Longrightarrow> keeps K (let x = v in f x)"
  by simp

lemmas run_simps = bindP_def retP_def raiseP_def liftP_def getP_def putP_def whenP_def tryP_def

end
