(* ===== verification/RemoteSaga.thy ===== *)
theory RemoteSaga
  imports Effects
begin

text \<open>
  The remote saga (\<open>.adwf/lib/remote_saga.py\<close>): a change of one issue's body and state label, made
  as a journaled sequence of requests because the provider has no transaction for the two.  The
  state of a run is its plan, the journal (one file per saga), the provider, the log of requests
  with their answers, and the number of times the clock has been read.  The transport is a
  parameter: it answers a request or raises, and may change the provider.
\<close>

section \<open>Requests, answers and the state of a run\<close>

record request =
  rq_method :: string
  rq_path :: string
  rq_payload :: "dict option"
  rq_etag :: "string option"

record response =
  rp_data :: dict
  rp_etag :: "string option"

type_synonym 'r transport = "request \<Rightarrow> 'r \<Rightarrow> response res \<times> 'r"

type_synonym journal = "string \<Rightarrow> json res option"

record 'r saga =
  sg_plan :: dict
  sg_journal :: journal
  sg_remote :: 'r
  sg_trace :: "(request \<times> response res) list"
  sg_reads :: nat

text \<open>A journal file is absent, or holds what \<open>strict_loads\<close> makes of its text.\<close>

definition MACHINE_LABELS :: "string list" where
  "MACHINE_LABELS = [''roadmap:ready'', ''roadmap:in-progress'', ''roadmap:review'', ''roadmap:verification'',
    ''roadmap:blocked'', ''roadmap:hold'', ''roadmap:needs-spec'', ''roadmap:needs-split'', ''roadmap:stale'', ''recovery:active'']"

definition STEP_NAMES :: "string list" where
  "STEP_NAMES = [''ADD_TARGET_LABEL'', ''PATCH_MARKER_BODY'', ''REMOVE_OLD_LABEL'', ''VERIFY_POSTCONDITION'']"

definition transition_key :: "(string \<Rightarrow> string) \<Rightarrow> json \<Rightarrow> json \<Rightarrow> json \<Rightarrow> json \<Rightarrow> json \<Rightarrow> json \<Rightarrow> string" where
  "transition_key sha repo number lease from_state to_state policy = sha (canonical (JObj [
     (''repo'', repo), (''issue_number'', number), (''lease_id'', lease), (''from_state'', from_state),
     (''to_state'', to_state), (''policy_hash'', policy)]))"

section \<open>Planning\<close>

record plan_request =
  pr_repo :: string
  pr_lease :: string
  pr_from_label :: string
  pr_target_label :: string
  pr_from_state :: string
  pr_to_state :: string
  pr_desired_body :: string
  pr_policy_hash :: string

definition issue_body :: "dict \<Rightarrow> string" where
  "issue_body issue = py_str (py_or (dget issue ''body'') (JStr []))"

definition label_names :: "dict \<Rightarrow> json list res" where
  "label_names issue = bindE (iterE (dget_or issue ''labels'' (JList []))) (mapE (\<lambda>i. bindE (getE i ''name'') hashE))"

definition new_plan :: "(string \<Rightarrow> string) \<Rightarrow> plan_request \<Rightarrow> dict \<Rightarrow> string \<Rightarrow> string \<Rightarrow> dict" where
  "new_plan sha q issue created updated =
    (let key = transition_key sha (JStr (pr_repo q)) (dget issue ''number'') (JStr (pr_lease q)) (JStr (pr_from_state q))
           (JStr (pr_to_state q)) (JStr (pr_policy_hash q)) in
     [(''$schema'', JStr ''.adwf/schemas/transition-saga.schema.json''), (''schema_version'', JInt 1),
      (''saga_id'', JStr key), (''idempotency_key'', JStr key), (''provider'', JStr ''github''),
      (''repo'', JStr (pr_repo q)), (''issue_number'', dget issue ''number''), (''lease_id'', JStr (pr_lease q)),
      (''from_label'', JStr (pr_from_label q)), (''target_label'', JStr (pr_target_label q)),
      (''from_state'', JStr (pr_from_state q)), (''to_state'', JStr (pr_to_state q)),
      (''original_body'', JStr (issue_body issue)), (''original_body_sha256'', JStr (sha (issue_body issue))),
      (''desired_body'', JStr (pr_desired_body q)), (''desired_body_sha256'', JStr (sha (pr_desired_body q))),
      (''expected_updated_at'', dget issue ''updated_at''), (''policy_hash'', JStr (pr_policy_hash q)),
      (''status'', JStr ''PLANNED''), (''steps'', JObj (map (\<lambda>n. (n, JStr ''PENDING'')) STEP_NAMES)),
      (''attempts'', JInt 0), (''last_error'', JNull), (''created_at'', JStr created), (''updated_at'', JStr updated)])"

definition make_transition_plan :: "(string \<Rightarrow> string) \<Rightarrow> plan_request \<Rightarrow> dict \<Rightarrow> string \<Rightarrow> string \<Rightarrow> dict res" where
  "make_transition_plan sha q issue created updated =
    (if CHR ''/'' \<notin> set (pr_repo q) then Inl (ValueError ''REPOSITORY_INVALID'')
     else if \<not> is_int (dget issue ''number'') then Inl (ValueError ''ISSUE_NUMBER_INVALID'')
     else if pr_from_label q \<notin> set MACHINE_LABELS \<or> pr_target_label q \<notin> set MACHINE_LABELS \<or> pr_from_label q = pr_target_label q
       then Inl (ValueError ''STATE_LABEL_INVALID'')
     else if \<not> truthy (dget issue ''updated_at'') then Inl (ValueError ''ISSUE_PROVIDER_REVISION_MISSING'')
     else bindE (label_names issue) (\<lambda>ls.
       if JStr (pr_from_label q) \<notin> set ls \<or> JStr (pr_target_label q) \<in> set ls then Inl (ValueError ''ISSUE_EXPECTED_LABEL_MISMATCH'')
       else if pr_desired_body q = [] \<or> issue_body issue = pr_desired_body q then Inl (ValueError ''DESIRED_BODY_INVALID'')
       else if length (pr_policy_hash q) \<noteq> 64 then Inl (ValueError ''POLICY_HASH_INVALID'')
       else Inr (new_plan sha q issue created updated)))"

section \<open>The journal\<close>

definition saga_path :: "string \<Rightarrow> string res" where
  "saga_path i = (if sha256_hex i then Inr i else Inl (ValueError ''SAGA_ID_INVALID''))"

definition saga_file :: "journal \<Rightarrow> string \<Rightarrow> json res" where
  "saga_file j i = bindE (saga_path i) (\<lambda>p. case j p of None \<Rightarrow> Inr JNull | Some r \<Rightarrow> r)"

definition load :: "string \<Rightarrow> ('r saga, json) prog" where
  "load i = bindP (getP sg_journal) (\<lambda>j. liftP (saga_file j i))"

definition key_conflict :: "json \<Rightarrow> dict \<Rightarrow> bool res" where
  "key_conflict current v = (if \<not> truthy current then Inr False
     else bindE (getE current ''idempotency_key'') (\<lambda>k. Inr (\<not> py_eq k (dget v ''idempotency_key''))))"

definition read_clock :: "(nat \<Rightarrow> string) \<Rightarrow> ('r saga, string) prog" where
  "read_clock clock = bindP (getP sg_reads) (\<lambda>n. bindP (putP (sg_reads_update Suc)) (\<lambda>_. retP (clock n)))"

definition save :: "(nat \<Rightarrow> string) \<Rightarrow> dict \<Rightarrow> ('r saga, dict) prog" where
  "save clock v = (let i = py_str (dget_or v ''saga_id'' (JStr [])) in
     bindP (load i) (\<lambda>current. bindP (liftP (key_conflict current v)) (\<lambda>conflict.
     if conflict then raiseP (ValueError ''SAGA_IDEMPOTENCY_CONFLICT'')
     else bindP (read_clock clock) (\<lambda>t. let payload = dput ''updated_at'' (JStr t) v in
       bindP (putP (sg_journal_update (\<lambda>j. j(i \<mapsto> Inr (JObj payload))))) (\<lambda>_. retP payload)))))"

text \<open>\<open>plan = journal.save(plan)\<close>.\<close>

definition save_plan :: "(nat \<Rightarrow> string) \<Rightarrow> ('r saga, unit) prog" where
  "save_plan clock = bindP (getP sg_plan) (\<lambda>p. bindP (save clock p) (\<lambda>p'. putP (sg_plan_update (\<lambda>_. p'))))"

section \<open>Reading the issue\<close>

definition machine_labels :: "dict \<Rightarrow> string list res" where
  "machine_labels issue = bindE (iterE (dget_or issue ''labels'' (JList []))) (\<lambda>items.
     bindE (filterE (\<lambda>i. bindE (getE i ''name'') (\<lambda>n. in_set n MACHINE_LABELS)) items) (\<lambda>machine.
     Inr (map (\<lambda>i. py_str (dget (dict_of i) ''name'')) machine)))"

definition issue_path :: "dict \<Rightarrow> string res" where
  "issue_path plan = bindE (ditemE plan ''repo'') (\<lambda>r. bindE (ditemE plan ''issue_number'') (\<lambda>n.
     Inr (''/repos/'' @ py_str r @ ''/issues/'' @ py_str n)))"

definition send :: "'r transport \<Rightarrow> request \<Rightarrow> ('r saga, response) prog" where
  "send t rq s = (let (r, m) = t rq (sg_remote s) in (r, s\<lparr>sg_remote := m, sg_trace := sg_trace s @ [(rq, r)]\<rparr>))"

definition get_request :: "string \<Rightarrow> request" where
  "get_request p = \<lparr>rq_method = ''GET'', rq_path = p, rq_payload = None, rq_etag = None\<rparr>"

definition get_issue :: "'r transport \<Rightarrow> ('r saga, response) prog" where
  "get_issue t = bindP (getP sg_plan) (\<lambda>plan. bindP (liftP (issue_path plan)) (\<lambda>p. send t (get_request p)))"

datatype remote_view = COMMITTED | RESUMABLE | CONFLICT

definition hash_item :: "dict \<Rightarrow> string \<Rightarrow> json res" where
  "hash_item plan k = bindE (ditemE plan k) hashE"

definition view_of :: "json \<Rightarrow> json \<Rightarrow> json \<Rightarrow> json \<Rightarrow> string list \<Rightarrow> string \<Rightarrow> remote_view" where
  "view_of f t original desired labels body_sha =
    (if \<not> list_all (\<lambda>l. JStr l \<in> {f, t}) labels then CONFLICT
     else if JStr body_sha \<notin> {original, desired} then CONFLICT
     else if labels \<noteq> [] \<and> list_all (\<lambda>l. JStr l = t) labels \<and> JStr body_sha = desired then COMMITTED
     else if labels \<noteq> [] then RESUMABLE else CONFLICT)"

definition classify_remote :: "(string \<Rightarrow> string) \<Rightarrow> dict \<Rightarrow> response \<Rightarrow> remote_view res" where
  "classify_remote sha plan r = bindE (machine_labels (rp_data r)) (\<lambda>labels.
     bindE (hash_item plan ''from_label'') (\<lambda>f. bindE (hash_item plan ''target_label'') (\<lambda>t.
     if \<not> list_all (\<lambda>l. JStr l \<in> {f, t}) labels then Inr CONFLICT else
     bindE (hash_item plan ''original_body_sha256'') (\<lambda>original. bindE (hash_item plan ''desired_body_sha256'') (\<lambda>desired.
     Inr (view_of f t original desired labels (sha (issue_body (rp_data r)))))))))"

definition record_error :: "(nat \<Rightarrow> string) \<Rightarrow> exn \<Rightarrow> ('r saga, dict) prog" where
  "record_error clock e = bindP (getP sg_plan) (\<lambda>plan. save clock
     (dput ''last_error'' (JStr (exn_name e @ '':'' @ exn_text e)) (dput ''status'' (JStr ''RECOVERY_REQUIRED'') plan)))"

section \<open>Running a transition\<close>

definition IMMUTABLE :: "string list" where
  "IMMUTABLE = [''idempotency_key'', ''repo'', ''issue_number'', ''lease_id'', ''from_label'', ''target_label'',
     ''from_state'', ''to_state'', ''original_body_sha256'', ''desired_body_sha256'', ''policy_hash'']"

definition differs :: "json \<Rightarrow> dict \<Rightarrow> bool res" where
  "differs stored plan = (case stored of
     JObj d \<Rightarrow> Inr (list_ex (\<lambda>k. \<not> py_eq (dget d k) (dget plan k)) IMMUTABLE) | _ \<Rightarrow> Inl AttributeError)"

definition text_item :: "dict \<Rightarrow> string \<Rightarrow> string res" where
  "text_item d k = bindE (ditemE d k) (\<lambda>v. case v of JStr s \<Rightarrow> Inr s | _ \<Rightarrow> Inl TypeError)"

text \<open>The journaled plan replaces the caller's when it is about the same transition.\<close>

definition open_plan :: "(nat \<Rightarrow> string) \<Rightarrow> dict \<Rightarrow> ('r saga, unit) prog" where
  "open_plan clock plan = bindP (liftP (text_item plan ''saga_id'')) (\<lambda>i. bindP (load i) (\<lambda>stored.
     if truthy stored then bindP (liftP (differs stored plan)) (\<lambda>conflict.
       if conflict then raiseP (SagaError ''SAGA_PLAN_CONFLICT'') else putP (sg_plan_update (\<lambda>_. dict_of stored)))
     else bindP (putP (sg_plan_update (\<lambda>_. plan))) (\<lambda>_. save_plan clock)))"

definition set_field :: "string \<Rightarrow> json \<Rightarrow> ('r saga, unit) prog" where
  "set_field k v = putP (sg_plan_update (dput k v))"

definition pass_step :: "string \<Rightarrow> dict \<Rightarrow> dict res" where
  "pass_step name plan = bindE (ditemE plan ''steps'') (\<lambda>v. case v of
     JObj d \<Rightarrow> Inr (dput ''steps'' (JObj (dput name (JStr ''PASS'') d)) plan) | _ \<Rightarrow> Inl TypeError)"

definition mark :: "string \<Rightarrow> ('r saga, unit) prog" where
  "mark name = bindP (getP sg_plan) (\<lambda>p. bindP (liftP (pass_step name p)) (\<lambda>p'. putP (sg_plan_update (\<lambda>_. p'))))"

definition planP :: "(dict \<Rightarrow> 'a res) \<Rightarrow> ('r saga, 'a) prog" where
  "planP f = bindP (getP sg_plan) (\<lambda>p. liftP (f p))"

definition mutate :: "'r transport \<Rightarrow> string \<Rightarrow> (dict \<Rightarrow> string res) \<Rightarrow> (dict \<Rightarrow> dict option res) \<Rightarrow> response \<Rightarrow> ('r saga, response) prog" where
  "mutate t verb suffix payload current = bindP (planP issue_path) (\<lambda>p. bindP (planP suffix) (\<lambda>x. bindP (planP payload) (\<lambda>b.
     send t \<lparr>rq_method = verb, rq_path = p @ x, rq_payload = b, rq_etag = rp_etag current\<rparr>)))"

definition add_label :: "'r transport \<Rightarrow> string \<Rightarrow> response \<Rightarrow> ('r saga, response) prog" where
  "add_label t k = mutate t ''POST'' (\<lambda>_. Inr ''/labels'') (\<lambda>p. bindE (ditemE p k) (\<lambda>l. Inr (Some [(''labels'', JList [l])])))"

definition patch_body :: "'r transport \<Rightarrow> string \<Rightarrow> response \<Rightarrow> ('r saga, response) prog" where
  "patch_body t k = mutate t ''PATCH'' (\<lambda>_. Inr []) (\<lambda>p. bindE (ditemE p k) (\<lambda>b. Inr (Some [(''body'', b)])))"

definition remove_label :: "'r transport \<Rightarrow> string \<Rightarrow> response \<Rightarrow> ('r saga, response) prog" where
  "remove_label t k = mutate t ''DELETE'' (\<lambda>p. bindE (ditemE p k) (\<lambda>l. Inr (''/labels/'' @ py_str l))) (\<lambda>_. Inr None)"

definition has_label :: "dict \<Rightarrow> string \<Rightarrow> response \<Rightarrow> bool res" where
  "has_label plan k r = bindE (machine_labels (rp_data r)) (\<lambda>labels. bindE (hash_item plan k) (\<lambda>v. Inr (v \<in> JStr ` set labels)))"

definition has_body :: "(string \<Rightarrow> string) \<Rightarrow> dict \<Rightarrow> string \<Rightarrow> response \<Rightarrow> bool res" where
  "has_body sha plan k r = bindE (ditemE plan k) (\<lambda>v. Inr (v = JStr (sha (issue_body (rp_data r)))))"

text \<open>Save the plan, read the issue again and stop unless it is still as the plan expects.\<close>

definition reread :: "(string \<Rightarrow> string) \<Rightarrow> (nat \<Rightarrow> string) \<Rightarrow> 'r transport \<Rightarrow> string \<Rightarrow> ('r saga, response) prog" where
  "reread sha clock t problem = bindP (save_plan clock) (\<lambda>_. bindP (get_issue t) (\<lambda>current.
     bindP (planP (\<lambda>p. classify_remote sha p current)) (\<lambda>v. if v = CONFLICT then raiseP (SagaError problem) else retP current)))"

definition add_stage :: "(string \<Rightarrow> string) \<Rightarrow> (nat \<Rightarrow> string) \<Rightarrow> 'r transport \<Rightarrow> response \<Rightarrow> ('r saga, response) prog" where
  "add_stage sha clock t current = bindP (planP (\<lambda>p. has_label p ''target_label'' current)) (\<lambda>there.
     if \<not> there then bindP (add_label t ''target_label'' current) (\<lambda>_. bindP (mark ''ADD_TARGET_LABEL'') (\<lambda>_.
       reread sha clock t ''REMOTE_STATE_CONFLICT_AFTER_ADD''))
     else bindP (mark ''ADD_TARGET_LABEL'') (\<lambda>_. retP current))"

definition patch_stage :: "(string \<Rightarrow> string) \<Rightarrow> (nat \<Rightarrow> string) \<Rightarrow> 'r transport \<Rightarrow> response \<Rightarrow> ('r saga, response) prog" where
  "patch_stage sha clock t current = bindP (planP (\<lambda>p. has_body sha p ''desired_body_sha256'' current)) (\<lambda>there.
     if \<not> there then bindP (planP (\<lambda>p. has_body sha p ''original_body_sha256'' current)) (\<lambda>original.
       if \<not> original then raiseP (SagaError ''CONCURRENT_BODY_EDIT'')
       else bindP (patch_body t ''desired_body'' current) (\<lambda>_. bindP (mark ''PATCH_MARKER_BODY'') (\<lambda>_.
         reread sha clock t ''REMOTE_STATE_CONFLICT_AFTER_PATCH'')))
     else bindP (mark ''PATCH_MARKER_BODY'') (\<lambda>_. retP current))"

definition remove_stage :: "(nat \<Rightarrow> string) \<Rightarrow> 'r transport \<Rightarrow> response \<Rightarrow> ('r saga, unit) prog" where
  "remove_stage clock t current = bindP (planP (\<lambda>p. has_label p ''from_label'' current)) (\<lambda>there.
     if there then bindP (remove_label t ''from_label'' current) (\<lambda>_. bindP (mark ''REMOVE_OLD_LABEL'') (\<lambda>_. save_plan clock))
     else mark ''REMOVE_OLD_LABEL'')"

definition verify_stage :: "(string \<Rightarrow> string) \<Rightarrow> (nat \<Rightarrow> string) \<Rightarrow> 'r transport \<Rightarrow> ('r saga, dict) prog" where
  "verify_stage sha clock t = bindP (get_issue t) (\<lambda>verified. bindP (planP (\<lambda>p. classify_remote sha p verified)) (\<lambda>v.
     if v \<noteq> COMMITTED then raiseP (SagaError ''POSTCONDITION_FAILED'')
     else bindP (mark ''VERIFY_POSTCONDITION'') (\<lambda>_. bindP (set_field ''status'' (JStr ''COMMITTED'')) (\<lambda>_.
       bindP (set_field ''last_error'' JNull) (\<lambda>_. bindP (getP sg_plan) (save clock))))))"

text \<open>\<open>except BaseException\<close>: journal the error, and raise it on as a \<open>SagaError\<close> unless it is an interrupt.\<close>

definition recover :: "(nat \<Rightarrow> string) \<Rightarrow> exn \<Rightarrow> ('r saga, dict) prog" where
  "recover clock e = bindP (record_error clock e) (\<lambda>_. raiseP (if e = Interrupted then e else SagaError (exn_text e)))"

definition apply_stages :: "(string \<Rightarrow> string) \<Rightarrow> (nat \<Rightarrow> string) \<Rightarrow> 'r transport \<Rightarrow> response \<Rightarrow> ('r saga, dict) prog" where
  "apply_stages sha clock t first = bindP (add_stage sha clock t first) (\<lambda>current.
     bindP (patch_stage sha clock t current) (\<lambda>current. bindP (remove_stage clock t current) (\<lambda>_. verify_stage sha clock t)))"

definition start_attempt :: "(nat \<Rightarrow> string) \<Rightarrow> ('r saga, unit) prog" where
  "start_attempt clock = bindP (set_field ''status'' (JStr ''APPLYING'')) (\<lambda>_.
     bindP (planP (\<lambda>p. py_int (dget_or p ''attempts'' (JInt 0)))) (\<lambda>n. bindP (set_field ''attempts'' (JInt (n + 1))) (\<lambda>_.
     bindP (set_field ''last_error'' JNull) (\<lambda>_. save_plan clock))))"

definition after_opening :: "(string \<Rightarrow> string) \<Rightarrow> (nat \<Rightarrow> string) \<Rightarrow> 'r transport \<Rightarrow> bool \<Rightarrow> response \<Rightarrow> remote_view \<Rightarrow> ('r saga, dict) prog" where
  "after_opening sha clock t do_apply first v = (if v = COMMITTED then bindP (set_field ''status'' (JStr ''COMMITTED'')) (\<lambda>_.
       bindP (set_field ''steps'' (JObj (map (\<lambda>n. (n, JStr ''PASS'')) STEP_NAMES))) (\<lambda>_. bindP (getP sg_plan) (save clock)))
       else if v = CONFLICT then record_error clock (SagaError ''REMOTE_STATE_CONFLICT'')
       else if \<not> do_apply then bindP (set_field ''status'' (JStr ''DRY_RUN'')) (\<lambda>_. bindP (getP sg_plan) (save clock))
       else bindP (start_attempt clock) (\<lambda>_. tryP (apply_stages sha clock t first) (recover clock)))"

definition run_transition ::
    "(string \<Rightarrow> string) \<Rightarrow> (nat \<Rightarrow> string) \<Rightarrow> 'r transport \<Rightarrow> bool \<Rightarrow> dict \<Rightarrow> ('r saga, dict) prog" where
  "run_transition sha clock t do_apply plan = bindP (open_plan clock plan) (\<lambda>_. bindP (getP sg_plan) (\<lambda>p.
     if dget p ''status'' = JStr ''COMMITTED'' then retP p
     else bindP (get_issue t) (\<lambda>first. bindP (planP (\<lambda>p. classify_remote sha p first)) (after_opening sha clock t do_apply first))))"

section \<open>Compensation\<close>

definition undo_body :: "(string \<Rightarrow> string) \<Rightarrow> 'r transport \<Rightarrow> bool \<Rightarrow> response \<Rightarrow> ('r saga, response) prog" where
  "undo_body sha t patched current = (if patched then bindP (patch_body t ''original_body'' current) (\<lambda>_. get_issue t) else retP current)"

definition undo_stages :: "(string \<Rightarrow> string) \<Rightarrow> (nat \<Rightarrow> string) \<Rightarrow> 'r transport \<Rightarrow> response \<Rightarrow> ('r saga, dict) prog" where
  "undo_stages sha clock t current = bindP (planP (\<lambda>p. has_body sha p ''desired_body_sha256'' current)) (\<lambda>patched.
     bindP (undo_body sha t patched current) (\<lambda>current.
     bindP (planP (\<lambda>p. has_label p ''from_label'' current)) (\<lambda>there.
     bindP (if there then retP current else bindP (add_label t ''from_label'' current) (\<lambda>_. get_issue t)) (\<lambda>current.
     bindP (planP (\<lambda>p. has_label p ''target_label'' current)) (\<lambda>there.
     bindP (whenP there (bindP (remove_label t ''target_label'' current) (\<lambda>_. retP ()))) (\<lambda>_.
     bindP (get_issue t) (\<lambda>verified. bindP (liftP (machine_labels (rp_data verified))) (\<lambda>labels.
     bindP (planP (\<lambda>p. hash_item p ''from_label'')) (\<lambda>f.
     bindP (if labels \<noteq> [] \<and> list_all (\<lambda>l. JStr l = f) labels then planP (\<lambda>p. has_body sha p ''original_body_sha256'' verified) else retP False) (\<lambda>restored.
     if \<not> restored then raiseP (SagaError ''COMPENSATION_POSTCONDITION_FAILED'')
     else bindP (set_field ''status'' (JStr ''COMPENSATED'')) (\<lambda>_. bindP (set_field ''last_error'' JNull) (\<lambda>_.
       bindP (getP sg_plan) (save clock)))))))))))))"

definition compensate_transition ::
    "(string \<Rightarrow> string) \<Rightarrow> (nat \<Rightarrow> string) \<Rightarrow> 'r transport \<Rightarrow> string \<Rightarrow> ('r saga, dict) prog" where
  "compensate_transition sha clock t i = bindP (load i) (\<lambda>stored.
     if \<not> truthy stored then raiseP (SagaError ''SAGA_NOT_FOUND'')
     else bindP (case stored of JObj d \<Rightarrow> putP (sg_plan_update (\<lambda>_. d)) | _ \<Rightarrow> raiseP TypeError) (\<lambda>_.
       bindP (get_issue t) (\<lambda>current. bindP (planP (\<lambda>p. classify_remote sha p current)) (\<lambda>v.
       if v = CONFLICT then record_error clock (SagaError ''COMPENSATION_REMOTE_CONFLICT'')
       else bindP (liftP (machine_labels (rp_data current))) (\<lambda>_. tryP (undo_stages sha clock t current) (recover clock))))))"

end
