(* ===== verification/SagaSafety.thy ===== *)
theory SagaSafety
  imports RemoteSaga
begin

text \<open>
  What a run of the remote saga may do to the issue, for every transport: the log of requests, the
  fields no run changes, the effect of each step as a weakest-precondition rule, and the property
  that no write is sent without a read that permits it.
\<close>

section \<open>The log of a run\<close>

text \<open>The answer of the last request, when that was a successful read.\<close>

definition last_read :: "(request \<times> response res) list \<Rightarrow> response option" where
  "last_read tr = (if tr = [] \<or> rq_method (fst (last tr)) \<noteq> ''GET'' then None
     else case snd (last tr) of Inr x \<Rightarrow> Some x | Inl e \<Rightarrow> None)"

text \<open>Every request that changes something comes directly after a read whose answer permits it.\<close>

definition guarded :: "(response \<Rightarrow> request \<Rightarrow> bool) \<Rightarrow> (request \<times> response res) list \<Rightarrow> bool" where
  "guarded R tr = (\<forall>pre rq r post. tr = pre @ (rq, r) # post \<longrightarrow> rq_method rq \<noteq> ''GET'' \<longrightarrow>
     (\<exists>x. last_read pre = Some x \<and> R x rq))"

definition changes :: "(request \<times> response res) list \<Rightarrow> string list" where
  "changes tr = filter (\<lambda>m. m \<noteq> ''GET'') (map (rq_method \<circ> fst) tr)"

lemma last_read_snoc [simp]: "last_read (tr @ [(rq, Inr x)]) = (if rq_method rq = ''GET'' then Some x else None)"
  by (simp add: last_read_def)

lemma guarded_Nil [simp]: "guarded R []"
  by (simp add: guarded_def)

lemma guarded_snoc: "guarded R (tr @ [(rq, r)]) \<longleftrightarrow>
   guarded R tr \<and> (rq_method rq = ''GET'' \<or> (\<exists>x. last_read tr = Some x \<and> R x rq))"
proof
  assume g: "guarded R (tr @ [(rq, r)])"
  have "guarded R tr" unfolding guarded_def
  proof (intro allI impI)
    fix pre rq' r' post assume "tr = pre @ (rq', r') # post" and m: "rq_method rq' \<noteq> ''GET''"
    then have "tr @ [(rq, r)] = pre @ (rq', r') # (post @ [(rq, r)])" by simp
    with g m show "\<exists>x. last_read pre = Some x \<and> R x rq'" unfolding guarded_def by blast
  qed
  moreover have "rq_method rq = ''GET'' \<or> (\<exists>x. last_read tr = Some x \<and> R x rq)" using g unfolding guarded_def by blast
  ultimately show "guarded R tr \<and> (rq_method rq = ''GET'' \<or> (\<exists>x. last_read tr = Some x \<and> R x rq))" ..
next
  assume a: "guarded R tr \<and> (rq_method rq = ''GET'' \<or> (\<exists>x. last_read tr = Some x \<and> R x rq))"
  show "guarded R (tr @ [(rq, r)])" unfolding guarded_def
  proof (intro allI impI)
    fix pre rq' r' post assume e: "tr @ [(rq, r)] = pre @ (rq', r') # post" and m: "rq_method rq' \<noteq> ''GET''"
    show "\<exists>x. last_read pre = Some x \<and> R x rq'"
    proof (cases post rule: rev_cases)
      case Nil
      with e have "pre = tr" "rq' = rq" by simp_all
      with a m show ?thesis by simp
    next
      case (snoc post' z)
      with e have "tr = pre @ (rq', r') # post'" by simp
      with a m show ?thesis unfolding guarded_def by blast
    qed
  qed
qed

lemma changes_snoc [simp]: "changes (tr @ [(rq, r)]) = changes tr @ (if rq_method rq = ''GET'' then [] else [rq_method rq])"
  by (simp add: changes_def)

lemma changes_Nil [simp]: "changes [] = []"
  by (simp add: changes_def)

section \<open>What a plan keeps\<close>

text \<open>Journaling, marking steps and counting attempts leave these fields of a plan alone.\<close>

definition PLAN_FIELDS :: "string list" where
  "PLAN_FIELDS = [''saga_id'', ''idempotency_key'', ''repo'', ''issue_number'', ''from_label'', ''target_label'',
     ''original_body'', ''original_body_sha256'', ''desired_body'', ''desired_body_sha256'', ''lease_id'', ''from_state'',
     ''to_state'', ''policy_hash'']"

definition agrees :: "dict \<Rightarrow> dict \<Rightarrow> bool" where
  "agrees p q = list_all (\<lambda>k. map_of p k = map_of q k) PLAN_FIELDS"

lemma agrees_item: "agrees p q \<Longrightarrow> k \<in> set PLAN_FIELDS \<Longrightarrow> ditemE q k = ditemE p k"
  by (auto simp: agrees_def list_all_iff ditemE_def)

lemma agrees_get: "agrees p q \<Longrightarrow> k \<in> set PLAN_FIELDS \<Longrightarrow> dget q k = dget p k"
  by (auto simp: agrees_def list_all_iff dget_def)

lemma agrees_refl [simp]: "agrees p p"
  by (simp add: agrees_def list_all_iff)

lemma agrees_dput [simp]: "k \<notin> set PLAN_FIELDS \<Longrightarrow> agrees p (dput k v q) \<longleftrightarrow> agrees p q"
  by (auto simp: agrees_def list_all_iff map_of_dput)

lemma agrees_pass_step: "pass_step name q = Inr q' \<Longrightarrow> agrees p q' \<longleftrightarrow> agrees p q"
  by (auto simp: pass_step_def PLAN_FIELDS_def elim!: bindE_InrE split: json.split_asm)

lemma plan_fields [simp]:
  "''saga_id'' \<in> set PLAN_FIELDS" "''idempotency_key'' \<in> set PLAN_FIELDS" "''repo'' \<in> set PLAN_FIELDS"
  "''issue_number'' \<in> set PLAN_FIELDS" "''from_label'' \<in> set PLAN_FIELDS" "''target_label'' \<in> set PLAN_FIELDS"
  "''original_body'' \<in> set PLAN_FIELDS" "''original_body_sha256'' \<in> set PLAN_FIELDS"
  "''desired_body'' \<in> set PLAN_FIELDS" "''desired_body_sha256'' \<in> set PLAN_FIELDS"
  "''updated_at'' \<notin> set PLAN_FIELDS" "''status'' \<notin> set PLAN_FIELDS" "''steps'' \<notin> set PLAN_FIELDS"
  "''attempts'' \<notin> set PLAN_FIELDS" "''last_error'' \<notin> set PLAN_FIELDS"
  by (simp_all add: PLAN_FIELDS_def)

lemma agrees_hash: "agrees p q \<Longrightarrow> k \<in> set PLAN_FIELDS \<Longrightarrow> hash_item q k = hash_item p k"
  by (simp add: hash_item_def agrees_item)

lemma agrees_classify: "agrees p q \<Longrightarrow> classify_remote sha q r = classify_remote sha p r"
  by (simp add: classify_remote_def agrees_hash cong: if_cong)

lemma agrees_path: "agrees p q \<Longrightarrow> issue_path q = issue_path p"
  by (simp add: issue_path_def agrees_item)

lemma agrees_label: "agrees p q \<Longrightarrow> k \<in> set PLAN_FIELDS \<Longrightarrow> has_label q k r = has_label p k r"
  by (simp add: has_label_def hash_item_def agrees_item)

lemma agrees_body: "agrees p q \<Longrightarrow> k \<in> set PLAN_FIELDS \<Longrightarrow> has_body sha q k r = has_body sha p k r"
  by (simp add: has_body_def agrees_item)

lemmas agrees_simps = agrees_hash agrees_classify agrees_path agrees_label agrees_body agrees_item

section \<open>The effect of each step\<close>

lemma wp_save:
  assumes "\<And>w s'. sg_trace s' = sg_trace s \<Longrightarrow> sg_plan s' = sg_plan s \<Longrightarrow> sg_remote s' = sg_remote s \<Longrightarrow> Q (dput ''updated_at'' w v) s'"
    and "\<And>e. E e s"
  shows "wp (save clock v) Q E s"
  unfolding save_def load_def read_clock_def Let_def wp_simps
  by (auto simp: assms split: sum.split)

definition run_inv :: "(response \<Rightarrow> request \<Rightarrow> bool) \<Rightarrow> dict \<Rightarrow> string list list \<Rightarrow> 'r saga \<Rightarrow> bool" where
  "run_inv R p0 ms s = (guarded R (sg_trace s) \<and> agrees p0 (sg_plan s) \<and> changes (sg_trace s) \<in> set ms)"

lemma run_inv_more: "run_inv R p ms s \<Longrightarrow> set ms \<subseteq> set ms' \<Longrightarrow> run_inv R p ms' s"
  by (auto simp: run_inv_def)

lemma wp_save_plan:
  assumes "run_inv R p0 ms s" "\<And>s'. run_inv R p0 ms s' \<Longrightarrow> sg_trace s' = sg_trace s \<Longrightarrow> Q () s'" "\<And>e. E e s"
  shows "wp (save_plan clock) Q E s"
  unfolding save_plan_def wp_simps
  by (rule wp_save) (use assms in \<open>auto simp: run_inv_def\<close>)

lemma wp_mark:
  assumes "run_inv R p0 ms s" "\<And>s'. run_inv R p0 ms s' \<Longrightarrow> sg_trace s' = sg_trace s \<Longrightarrow> Q () s'" "\<And>e. E e s"
  shows "wp (mark name) Q E s"
  unfolding mark_def wp_simps
  using assms by (auto simp: run_inv_def agrees_pass_step split: sum.split)

lemma wp_set_field:
  assumes "run_inv R p0 ms s" "k \<notin> set PLAN_FIELDS" "\<And>s'. run_inv R p0 ms s' \<Longrightarrow> sg_trace s' = sg_trace s \<Longrightarrow> Q () s'"
  shows "wp (set_field k v) Q E s"
  unfolding set_field_def wp_simps using assms by (auto simp: run_inv_def)

lemma wp_planP: "wp (planP f) Q E s \<longleftrightarrow> (case f (sg_plan s) of Inl e \<Rightarrow> E e s | Inr x \<Rightarrow> Q x s)"
  by (simp add: planP_def wp_simps)

lemma wp_get_issue:
  assumes "run_inv R p0 ms s"
    and "\<And>x s'. run_inv R p0 ms s' \<Longrightarrow> last_read (sg_trace s') = Some x \<Longrightarrow> Q x s'"
    and "\<And>e s'. run_inv R p0 ms s' \<Longrightarrow> E e s'"
  shows "wp (get_issue t) Q E s"
  unfolding get_issue_def wp_simps
  by (auto simp: wp_def send_def Let_def get_request_def split: sum.split prod.split intro!: assms(2,3))
     (use assms(1) in \<open>auto simp: run_inv_def guarded_snoc\<close>)

lemma wp_mutate:
  assumes "run_inv R p0 ms s" "last_read (sg_trace s) = Some current" "verb \<noteq> ''GET''"
    and "\<And>p x b. issue_path (sg_plan s) = Inr p \<Longrightarrow> sfx (sg_plan s) = Inr x \<Longrightarrow> payload (sg_plan s) = Inr b \<Longrightarrow>
      R current \<lparr>rq_method = verb, rq_path = p @ x, rq_payload = b, rq_etag = rp_etag current\<rparr>"
    and "\<And>x s'. run_inv R p0 (map (\<lambda>m. m @ [verb]) ms) s' \<Longrightarrow> Q x s'"
    and "\<And>e s'. run_inv R p0 (ms @ map (\<lambda>m. m @ [verb]) ms) s' \<Longrightarrow> E e s'"
  shows "wp (mutate t verb sfx payload current) Q E s"
proof -
  have i: "run_inv R p0 (map (\<lambda>m. m @ [verb]) ms) (s\<lparr>sg_remote := m, sg_trace := sg_trace s @ [(rq, r)]\<rparr>)"
    if "issue_path (sg_plan s) = Inr p" "sfx (sg_plan s) = Inr x" "payload (sg_plan s) = Inr b"
      "rq = \<lparr>rq_method = verb, rq_path = p @ x, rq_payload = b, rq_etag = rp_etag current\<rparr>" for p x b rq m r
    using assms(1-3) assms(4) [OF that(1-3)] that(4) by (auto simp: run_inv_def guarded_snoc)
  then have j: "run_inv R p0 (ms @ map (\<lambda>m. m @ [verb]) ms) (s\<lparr>sg_remote := m, sg_trace := sg_trace s @ [(rq, r)]\<rparr>)"
    if "issue_path (sg_plan s) = Inr p" "sfx (sg_plan s) = Inr x" "payload (sg_plan s) = Inr b"
      "rq = \<lparr>rq_method = verb, rq_path = p @ x, rq_payload = b, rq_etag = rp_etag current\<rparr>" for p x b rq m r
    by (rule run_inv_more) (use that in auto)
  have k: "run_inv R p0 (ms @ map (\<lambda>m. m @ [verb]) ms) s" by (rule run_inv_more [OF assms(1)]) auto
  show ?thesis unfolding mutate_def wp_simps wp_planP
    by (auto simp: wp_def send_def Let_def split: sum.split prod.split intro!: assms(5,6) i j k)
qed

section \<open>What a request may do\<close>

text \<open>
  The requests permitted on a plan after reading \<open>x\<close>: each carries the version tag of that read, the
  read showed the transition half done and nothing foreign, and the part about to be changed was
  read in the state the change starts from.
\<close>

definition permitted :: "(string \<Rightarrow> string) \<Rightarrow> dict \<Rightarrow> response \<Rightarrow> request \<Rightarrow> bool" where
  "permitted sha p x rq = (rq_etag rq = rp_etag x \<and> classify_remote sha p x = Inr RESUMABLE \<and> (\<exists>path. issue_path p = Inr path \<and>
     (rq_method rq = ''POST'' \<and> rq_path rq = path @ ''/labels'' \<and> rq_payload rq = Some [(''labels'', JList [dget p ''target_label''])]
        \<and> has_label p ''target_label'' x = Inr False
    \<or> rq_method rq = ''PATCH'' \<and> rq_path rq = path \<and> rq_payload rq = Some [(''body'', dget p ''desired_body'')]
        \<and> has_body sha p ''original_body_sha256'' x = Inr True
    \<or> rq_method rq = ''DELETE'' \<and> rq_path rq = path @ ''/labels/'' @ py_str (dget p ''from_label'') \<and> rq_payload rq = None
        \<and> has_label p ''from_label'' x = Inr True)))"

lemma has_labelE:
  assumes "has_label p k x = Inr b"
  obtains labels v where "machine_labels (rp_data x) = Inr labels" "hash_item p k = Inr v" "b \<longleftrightarrow> v \<in> JStr ` set labels"
  using assms by (auto simp: has_label_def elim!: bindE_InrE)

lemma hash_item_dget: "hash_item p k = Inr v \<Longrightarrow> v = dget p k \<and> ditemE p k = Inr v"
  by (auto simp: hash_item_def hashE_def ditemE_dget elim!: bindE_InrE split: if_split_asm)

lemma classifyE:
  assumes "classify_remote sha p x = Inr v" "v \<noteq> CONFLICT"
  obtains labels f t original desired where "machine_labels (rp_data x) = Inr labels" "hash_item p ''from_label'' = Inr f"
    "hash_item p ''target_label'' = Inr t" "hash_item p ''original_body_sha256'' = Inr original"
    "hash_item p ''desired_body_sha256'' = Inr desired"
    "v = view_of f t original desired labels (sha (issue_body (rp_data x)))"
  using assms by (auto simp: classify_remote_def elim!: bindE_InrE split: if_split_asm)

lemma committed_labels:
  assumes "classify_remote sha p x = Inr COMMITTED"
  shows "has_label p ''target_label'' x = Inr True" "has_body sha p ''desired_body_sha256'' x = Inr True"
    "dget p ''from_label'' \<noteq> dget p ''target_label'' \<Longrightarrow> has_label p ''from_label'' x = Inr False"
proof -
  obtain labels f t original desired where h: "machine_labels (rp_data x) = Inr labels" "hash_item p ''from_label'' = Inr f"
    "hash_item p ''target_label'' = Inr t" "hash_item p ''original_body_sha256'' = Inr original"
    "hash_item p ''desired_body_sha256'' = Inr desired"
    "COMMITTED = view_of f t original desired labels (sha (issue_body (rp_data x)))"
    using assms by (rule classifyE) simp_all
  then have l: "labels \<noteq> []" "\<forall>l \<in> set labels. JStr l = t" "JStr (sha (issue_body (rp_data x))) = desired"
    by (auto simp: view_of_def list_all_iff split: if_split_asm)
  then have "t \<in> JStr ` set labels" by (cases labels) auto
  with h show "has_label p ''target_label'' x = Inr True" by (simp add: has_label_def)
  show "has_body sha p ''desired_body_sha256'' x = Inr True" using h(5) l(3) by (simp add: has_body_def hash_item_dget)
  assume "dget p ''from_label'' \<noteq> dget p ''target_label''"
  then have "f \<notin> JStr ` set labels" using l(2) hash_item_dget [OF h(2)] hash_item_dget [OF h(3)] by auto
  with h show "has_label p ''from_label'' x = Inr False" by (simp add: has_label_def)
qed

lemma resumable_if:
  assumes "classify_remote sha p x = Inr v" "v \<noteq> CONFLICT" "dget p ''from_label'' \<noteq> dget p ''target_label''"
    and "has_label p ''target_label'' x = Inr False \<or> has_body sha p ''desired_body_sha256'' x = Inr False \<or> has_label p ''from_label'' x = Inr True"
  shows "classify_remote sha p x = Inr RESUMABLE"
  using assms committed_labels [of sha p x] by (cases v) auto

abbreviation trace_inv :: "(string \<Rightarrow> string) \<Rightarrow> dict \<Rightarrow> string list list \<Rightarrow> 'r saga \<Rightarrow> bool" where
  "trace_inv sha p \<equiv> run_inv (permitted sha p) p"

text \<open>The last read is \<open>x\<close> and shows nothing foreign.\<close>

definition at_read :: "(string \<Rightarrow> string) \<Rightarrow> dict \<Rightarrow> response \<Rightarrow> 'r saga \<Rightarrow> bool" where
  "at_read sha p x s = (last_read (sg_trace s) = Some x \<and> classify_remote sha p x \<in> {Inr COMMITTED, Inr RESUMABLE})"

lemma trace_inv_agrees: "run_inv R p ms s \<Longrightarrow> agrees p (sg_plan s)"
  by (simp add: run_inv_def)

lemma wp_reread:
  assumes "trace_inv sha p ms s"
  shows "wp (reread sha clock t problem) (\<lambda>x s'. trace_inv sha p ms s' \<and> at_read sha p x s') (\<lambda>e s'. trace_inv sha p ms s') s"
  unfolding reread_def wp_simps wp_planP
proof (rule wp_save_plan [OF assms])
  fix s' :: "'a saga" assume i: "trace_inv sha p ms s'"
  show "wp (get_issue t) (\<lambda>x sa. case classify_remote sha (sg_plan sa) x of
      Inl e \<Rightarrow> trace_inv sha p ms sa | Inr v \<Rightarrow> if v = CONFLICT then trace_inv sha p ms sa
        else trace_inv sha p ms sa \<and> at_read sha p x sa) (\<lambda>e. trace_inv sha p ms) s'"
  proof (rule wp_get_issue [OF i])
    fix x and sa :: "'a saga" assume j: "trace_inv sha p ms sa" "last_read (sg_trace sa) = Some x"
    have "v = COMMITTED \<or> v = RESUMABLE \<or> v = CONFLICT" for v by (cases v) auto
    then show "case classify_remote sha (sg_plan sa) x of
      Inl e \<Rightarrow> trace_inv sha p ms sa | Inr v \<Rightarrow> if v = CONFLICT then trace_inv sha p ms sa
        else trace_inv sha p ms sa \<and> at_read sha p x sa"
      using j agrees_classify [OF trace_inv_agrees [OF j(1)]] by (auto simp: at_read_def split: sum.split)
  qed
qed (use assms in auto)

lemma wp_mark_stay:
  assumes "trace_inv sha p ms s" "at_read sha p x s"
  shows "wp (mark name) (\<lambda>_ s'. trace_inv sha p ms s' \<and> at_read sha p x s') (\<lambda>e s'. trace_inv sha p ms s') s"
  by (rule wp_mark [OF assms(1)]) (use assms in \<open>auto simp: at_read_def\<close>)

lemma wp_change:
  assumes "trace_inv sha p ms s" "at_read sha p x s" "verb \<noteq> ''GET''" "set (ms @ map (\<lambda>m. m @ [verb]) ms) \<subseteq> set ms'"
    and "\<And>path y b. issue_path p = Inr path \<Longrightarrow> sfx (sg_plan s) = Inr y \<Longrightarrow> payload (sg_plan s) = Inr b \<Longrightarrow>
      permitted sha p x \<lparr>rq_method = verb, rq_path = path @ y, rq_payload = b, rq_etag = rp_etag x\<rparr>"
  shows "wp (mutate t verb sfx payload x) (\<lambda>_ s'. trace_inv sha p ms' s') (\<lambda>e s'. trace_inv sha p ms' s') s"
  by (rule wp_mutate [OF assms(1)])
     (use assms(2-) agrees_path [OF trace_inv_agrees [OF assms(1)]] in \<open>auto simp: at_read_def image_subset_iff subset_iff intro!: assms(5) elim!: run_inv_more\<close>)

lemma wp_change_reread:
  assumes "wp m (\<lambda>_ s'. trace_inv sha p ms s') (\<lambda>e s'. trace_inv sha p ms s') s"
  shows "wp (bindP m (\<lambda>_. bindP (mark n) (\<lambda>_. reread sha clock t z)))
    (\<lambda>y s'. trace_inv sha p ms s' \<and> at_read sha p y s') (\<lambda>e s'. trace_inv sha p ms s') s"
  by (rule wp_seq [OF assms], rule wp_seq, rule wp_mark, assumption, assumption, assumption, rule wp_reread)

lemma wp_add_stage:
  assumes "trace_inv sha p [[]] s" "at_read sha p x s" "dget p ''from_label'' \<noteq> dget p ''target_label''"
  shows "wp (add_stage sha clock t x) (\<lambda>y s'. trace_inv sha p [[], [''POST'']] s' \<and> at_read sha p y s')
    (\<lambda>e s'. trace_inv sha p [[], [''POST'']] s') s"
proof -
  let ?I = "trace_inv sha p [[], [''POST'']]"
  have i: "?I s" by (rule run_inv_more [OF assms(1)]) simp
  note a = trace_inv_agrees [OF assms(1)]
  consider (fail) e where "has_label p ''target_label'' x = Inl e" | (there) "has_label p ''target_label'' x = Inr True"
    | (missing) "has_label p ''target_label'' x = Inr False" by (cases "has_label p ''target_label'' x") auto
  then show ?thesis
  proof cases
    case missing
    have c: "wp (add_label t ''target_label'' x) (\<lambda>_ s'. ?I s') (\<lambda>e s'. ?I s') s"
      unfolding add_label_def
      by (rule wp_change [OF assms(1,2)])
         (use missing assms(2,3) agrees_item [OF a] in \<open>auto simp: permitted_def at_read_def ditemE_dget
           intro: resumable_if elim!: bindE_InrE\<close>)
    show ?thesis using wp_change_reread [OF c] unfolding add_stage_def
      by (simp add: wp_planP agrees_label [OF a] missing wp_bind)
  qed (use i wp_mono [OF wp_mark_stay [OF i assms(2)]] in \<open>simp_all add: add_stage_def wp_simps wp_planP agrees_label [OF a]\<close>)
qed

lemma wp_patch_stage:
  assumes "trace_inv sha p ms s" "at_read sha p x s" "dget p ''from_label'' \<noteq> dget p ''target_label''"
  shows "wp (patch_stage sha clock t x) (\<lambda>y s'. trace_inv sha p (ms @ map (\<lambda>m. m @ [''PATCH'']) ms) s' \<and> at_read sha p y s')
    (\<lambda>e s'. trace_inv sha p (ms @ map (\<lambda>m. m @ [''PATCH'']) ms) s') s"
proof -
  let ?I = "trace_inv sha p (ms @ map (\<lambda>m. m @ [''PATCH'']) ms)"
  have i: "?I s" by (rule run_inv_more [OF assms(1)]) simp
  note a = trace_inv_agrees [OF assms(1)]
  let ?d = "has_body sha p ''desired_body_sha256'' x" and ?o = "has_body sha p ''original_body_sha256'' x"
  consider (fail) e where "?d = Inl e" | (there) "?d = Inr True" | (odd) e where "?d = Inr False" "?o = Inl e"
    | (edit) "?d = Inr False" "?o = Inr False" | (missing) "?d = Inr False" "?o = Inr True"
    by (cases ?d; cases ?o) auto
  then show ?thesis
  proof cases
    case missing
    have c: "wp (patch_body t ''desired_body'' x) (\<lambda>_ s'. ?I s') (\<lambda>e s'. ?I s') s"
      unfolding patch_body_def
      by (rule wp_change [OF assms(1,2)])
         (use missing assms(2,3) agrees_item [OF a] in \<open>auto simp: permitted_def at_read_def ditemE_dget
           intro: resumable_if elim!: bindE_InrE\<close>)
    show ?thesis using wp_change_reread [OF c] unfolding patch_stage_def
      by (simp add: wp_planP agrees_body [OF a] missing wp_bind)
  qed (use i wp_mono [OF wp_mark_stay [OF i assms(2)]] in \<open>simp_all add: patch_stage_def wp_simps wp_planP agrees_body [OF a]\<close>)
qed

lemma wp_remove_stage:
  assumes "trace_inv sha p ms s" "at_read sha p x s" "dget p ''from_label'' \<noteq> dget p ''target_label''"
  shows "wp (remove_stage clock t x) (\<lambda>_ s'. trace_inv sha p (ms @ map (\<lambda>m. m @ [''DELETE'']) ms) s')
    (\<lambda>e s'. trace_inv sha p (ms @ map (\<lambda>m. m @ [''DELETE'']) ms) s') s"
proof -
  let ?I = "trace_inv sha p (ms @ map (\<lambda>m. m @ [''DELETE'']) ms)"
  have i: "?I s" by (rule run_inv_more [OF assms(1)]) simp
  note a = trace_inv_agrees [OF assms(1)]
  consider (fail) e where "has_label p ''from_label'' x = Inl e" | (gone) "has_label p ''from_label'' x = Inr False"
    | (there) "has_label p ''from_label'' x = Inr True" by (cases "has_label p ''from_label'' x") auto
  then show ?thesis
  proof cases
    case there
    have c: "wp (remove_label t ''from_label'' x) (\<lambda>_ s'. ?I s') (\<lambda>e s'. ?I s') s"
      unfolding remove_label_def
      by (rule wp_change [OF assms(1,2)])
         (use there assms(2,3) agrees_item [OF a] in \<open>auto simp: permitted_def at_read_def ditemE_dget
           intro: resumable_if elim!: bindE_InrE\<close>)
    have "wp (bindP (remove_label t ''from_label'' x) (\<lambda>_. bindP (mark n) (\<lambda>_. save_plan clock))) (\<lambda>_ s'. ?I s') (\<lambda>e s'. ?I s') s" for n
      by (rule wp_seq [OF c], rule wp_seq, rule wp_mark, assumption, assumption, assumption, rule wp_save_plan)
    then show ?thesis unfolding remove_stage_def
      by (simp add: wp_planP agrees_label [OF a] there wp_bind)
  qed (use i wp_mark [OF i, where Q = "\<lambda>_. ?I"] in \<open>simp_all add: remove_stage_def wp_simps wp_planP agrees_label [OF a]\<close>)
qed

text \<open>A run that reports the transition committed has last read it so.\<close>

definition committed_is_read :: "(string \<Rightarrow> string) \<Rightarrow> dict \<Rightarrow> dict \<Rightarrow> 'r saga \<Rightarrow> bool" where
  "committed_is_read sha p d s = (dget d ''status'' = JStr ''COMMITTED'' \<longrightarrow>
     (\<exists>x. last_read (sg_trace s) = Some x \<and> classify_remote sha p x = Inr COMMITTED))"

definition ended :: "(string \<Rightarrow> string) \<Rightarrow> dict \<Rightarrow> string list list \<Rightarrow> dict \<Rightarrow> 'r saga \<Rightarrow> bool" where
  "ended sha p ms d s = (trace_inv sha p ms s \<and> committed_is_read sha p d s)"

lemma wp_save_ended:
  assumes "trace_inv sha p ms s" "committed_is_read sha p v s"
  shows "wp (save clock v) (ended sha p ms) (\<lambda>e s'. trace_inv sha p ms s') s"
  by (rule wp_save) (use assms in \<open>auto simp: ended_def committed_is_read_def run_inv_def\<close>)

lemma wp_record_error:
  assumes "trace_inv sha p ms s"
  shows "wp (record_error clock e) (ended sha p ms) (\<lambda>e s'. trace_inv sha p ms s') s"
  unfolding record_error_def wp_simps
  by (rule wp_save_ended [OF assms]) (simp add: committed_is_read_def)

lemma wp_recover:
  assumes "trace_inv sha p ms s"
  shows "wp (recover clock e) (ended sha p ms) (\<lambda>e s'. trace_inv sha p ms s') s"
  unfolding recover_def wp_simps
  by (rule wp_mono [OF wp_record_error [OF assms]]) (simp_all add: ended_def)

lemma wp_verify_stage:
  assumes "trace_inv sha p ms s"
  shows "wp (verify_stage sha clock t) (ended sha p ms) (\<lambda>e s'. trace_inv sha p ms s') s"
  unfolding verify_stage_def wp_bind
proof (rule wp_get_issue [OF assms])
  fix x and s' :: "'a saga" assume i: "trace_inv sha p ms s'" "last_read (sg_trace s') = Some x"
  note a = trace_inv_agrees [OF i(1)]
  have f: "wp (bindP (mark n) (\<lambda>_. bindP (set_field ''status'' v) (\<lambda>_. bindP (set_field ''last_error'' v') (\<lambda>_.
      bindP (getP sg_plan) (save clock))))) (ended sha p ms) (\<lambda>e. trace_inv sha p ms) s'"
    if "classify_remote sha p x = Inr COMMITTED" for n v v'
    unfolding wp_bind wp_get
    by (rule wp_mark [OF i(1)], rule wp_set_field, assumption, simp, rule wp_set_field, assumption, simp,
        rule wp_save_ended, assumption) (use that i in \<open>auto simp: committed_is_read_def\<close>)
  show "wp (planP (\<lambda>p. classify_remote sha p x)) (\<lambda>v. wp (if v \<noteq> COMMITTED then raiseP (SagaError ''POSTCONDITION_FAILED'')
      else bindP (mark ''VERIFY_POSTCONDITION'') (\<lambda>_. bindP (set_field ''status'' (JStr ''COMMITTED'')) (\<lambda>_.
       bindP (set_field ''last_error'' JNull) (\<lambda>_. bindP (getP sg_plan) (save clock)))))
      (ended sha p ms) (\<lambda>e. trace_inv sha p ms)) (\<lambda>e. trace_inv sha p ms) s'"
    using f i(1) by (simp add: wp_planP agrees_classify [OF a] wp_raise split: sum.split)
qed

definition RUN_CHANGES :: "string list list" where
  "RUN_CHANGES = [[], [''POST''], [''PATCH''], [''POST'', ''PATCH''], [''DELETE''], [''POST'', ''DELETE''],
     [''PATCH'', ''DELETE''], [''POST'', ''PATCH'', ''DELETE'']]"

definition run_changes :: "bool \<Rightarrow> string list list" where
  "run_changes do_apply = (if do_apply then RUN_CHANGES else [[]])"

lemma run_changes_more: "trace_inv sha p [[]] s \<Longrightarrow> trace_inv sha p (run_changes b) s"
  by (erule run_inv_more) (simp add: run_changes_def RUN_CHANGES_def)

lemma wp_apply_stages:
  assumes "trace_inv sha p [[]] s" "at_read sha p x s" "dget p ''from_label'' \<noteq> dget p ''target_label''"
  shows "wp (apply_stages sha clock t x) (ended sha p RUN_CHANGES) (\<lambda>e s'. trace_inv sha p RUN_CHANGES s') s"
proof -
  let ?E = "\<lambda>e s'. trace_inv sha p RUN_CHANGES s'"
  have up: "trace_inv sha p RUN_CHANGES s'" if "trace_inv sha p ms s'" "set ms \<subseteq> set RUN_CHANGES" for ms and s' :: "'a saga"
    using that by (rule run_inv_more)
  show ?thesis unfolding apply_stages_def
    by (rule wp_seq [OF wp_mono [OF wp_add_stage [OF assms]]], assumption, erule up, simp add: RUN_CHANGES_def,
        rule wp_seq [OF wp_mono [OF wp_patch_stage [OF _ _ assms(3)]]], elim conjE, assumption, elim conjE, assumption, assumption,
        erule up, simp add: RUN_CHANGES_def,
        rule wp_seq [OF wp_mono [OF wp_remove_stage [OF _ _ assms(3)]]], elim conjE, assumption, elim conjE, assumption, assumption,
        erule up, simp add: RUN_CHANGES_def,
        rule wp_verify_stage, erule up, simp add: RUN_CHANGES_def)
qed

text \<open>\<open>p\<close> is about the transition \<open>plan\<close> is about.\<close>

definition same_transition :: "dict \<Rightarrow> dict \<Rightarrow> bool" where
  "same_transition plan p = list_all (\<lambda>k. py_eq (dget p k) (dget plan k)) IMMUTABLE"

lemma new_plan_gets:
  "\<exists>k. dget (new_plan sha q issue c u) ''idempotency_key'' = JStr k"
  "dget (new_plan sha q issue c u) ''repo'' = JStr (pr_repo q)"
  "dget (new_plan sha q issue c u) ''issue_number'' = dget issue ''number''"
  "dget (new_plan sha q issue c u) ''lease_id'' = JStr (pr_lease q)"
  "dget (new_plan sha q issue c u) ''from_label'' = JStr (pr_from_label q)"
  "dget (new_plan sha q issue c u) ''target_label'' = JStr (pr_target_label q)"
  "dget (new_plan sha q issue c u) ''from_state'' = JStr (pr_from_state q)"
  "dget (new_plan sha q issue c u) ''to_state'' = JStr (pr_to_state q)"
  "dget (new_plan sha q issue c u) ''original_body_sha256'' = JStr (sha (issue_body issue))"
  "dget (new_plan sha q issue c u) ''desired_body_sha256'' = JStr (sha (pr_desired_body q))"
  "dget (new_plan sha q issue c u) ''policy_hash'' = JStr (pr_policy_hash q)"
  by (simp_all add: new_plan_def Let_def)

lemma new_plan_refl:
  assumes "is_int (dget issue ''number'')"
  shows "same_transition (new_plan sha q issue c u) (new_plan sha q issue c u)"
proof -
  have "py_eq (dget issue ''number'') (dget issue ''number'')" using assms by (cases "dget issue ''number''") (simp_all add: num_eq_def)
  then show ?thesis using new_plan_gets(1) [of sha q issue c u]
    by (auto simp: same_transition_def IMMUTABLE_def new_plan_gets(2-))
qed

lemma new_plan_labels:
  assumes "same_transition (new_plan sha q issue c u) p"
  shows "dget p ''from_label'' = JStr (pr_from_label q)" "dget p ''target_label'' = JStr (pr_target_label q)"
  using assms by (simp_all add: same_transition_def IMMUTABLE_def new_plan_gets(2-))

lemma make_planE:
  assumes "make_transition_plan sha q issue c u = Inr plan"
  shows "plan = new_plan sha q issue c u" "is_int (dget issue ''number'')" "pr_from_label q \<noteq> pr_target_label q"
    "pr_from_label q \<in> set MACHINE_LABELS" "pr_target_label q \<in> set MACHINE_LABELS" "issue_body issue \<noteq> pr_desired_body q"
  using assms by (auto simp: make_transition_plan_def split: if_split_asm elim!: bindE_InrE)

text \<open>The journal holds \<open>d\<close> as the record of the planned transition.\<close>

definition journaled :: "dict \<Rightarrow> 'r saga \<Rightarrow> dict \<Rightarrow> bool" where
  "journaled plan s d = (\<exists>i. dget plan ''saga_id'' = JStr i \<and> saga_file (sg_journal s) i = Inr (JObj d))"

lemma wp_open_plan:
  assumes "same_transition plan plan"
  shows "wp (open_plan clock plan) (\<lambda>_ s'. sg_trace s' = sg_trace s \<and> same_transition plan (sg_plan s')
      \<and> (journaled plan s (sg_plan s') \<or> dget (sg_plan s') ''status'' = dget plan ''status''))
    (\<lambda>e s'. sg_trace s' = sg_trace s) s"
proof -
  have n: "same_transition plan (dput ''updated_at'' w plan)" for w
    using assms by (simp add: same_transition_def IMMUTABLE_def)
  have l: "wp (load i) Q E s \<longleftrightarrow> (case saga_file (sg_journal s) i of Inl e \<Rightarrow> E e s | Inr v \<Rightarrow> Q v s)" for i Q E and s :: "'a saga"
    by (simp add: load_def wp_simps)
  have "wp (save_plan clock) (\<lambda>_ s'. sg_trace s' = sg_trace s \<and> same_transition plan (sg_plan s')
      \<and> (journaled plan s (sg_plan s') \<or> dget (sg_plan s') ''status'' = dget plan ''status''))
     (\<lambda>e s'. sg_trace s' = sg_trace s) (s\<lparr>sg_plan := plan\<rparr>)"
    unfolding save_plan_def wp_simps by (rule wp_save) (simp_all add: n)
  moreover have "dget plan ''saga_id'' = JStr i" if "text_item plan ''saga_id'' = Inr i" for i
  proof -
    from that obtain v where v: "ditemE plan ''saga_id'' = Inr v" "(case v of JStr s \<Rightarrow> Inr s | _ \<Rightarrow> Inl TypeError) = Inr i"
      unfolding text_item_def by (elim bindE_InrE)
    then have "v = JStr i" by (cases v) simp_all
    with v(1) show ?thesis by (auto simp: ditemE_def dget_def split: option.splits)
  qed
  ultimately show ?thesis unfolding open_plan_def wp_simps l
    by (auto simp: differs_def same_transition_def journaled_def wp_simps list_ex_iff list_all_iff split: sum.split json.split)
qed

lemma wp_planP_any: "(\<And>n. Q n s) \<Longrightarrow> (\<And>e. E e s) \<Longrightarrow> wp (planP f) Q E s"
  by (simp add: wp_planP split: sum.split)

lemma wp_start_attempt:
  assumes "trace_inv sha p ms s" "at_read sha p x s"
  shows "wp (start_attempt clock) (\<lambda>_ s'. trace_inv sha p ms s' \<and> at_read sha p x s') (\<lambda>e s'. trace_inv sha p ms s') s"
  unfolding start_attempt_def wp_bind
  by (rule wp_set_field [OF assms(1)], simp, rule wp_planP_any, rule wp_set_field, assumption, simp,
      rule wp_set_field, assumption, simp, rule wp_save_plan, assumption)
     (use assms(2) in \<open>auto simp: at_read_def\<close>)

lemma wp_set_save:
  assumes "trace_inv sha p ms s" "v = JStr ''COMMITTED'' \<Longrightarrow> \<exists>x. last_read (sg_trace s) = Some x \<and> classify_remote sha p x = Inr COMMITTED"
  shows "wp (bindP (set_field ''status'' v) (\<lambda>_. bindP (getP sg_plan) (save clock))) (ended sha p ms) (\<lambda>e s'. trace_inv sha p ms s') s"
    "wp (bindP (set_field ''status'' v) (\<lambda>_. bindP (set_field ''steps'' w) (\<lambda>_. bindP (getP sg_plan) (save clock)))) (ended sha p ms) (\<lambda>e s'. trace_inv sha p ms s') s"
  unfolding wp_bind wp_get set_field_def wp_put
  by (rule wp_save_ended; use assms in \<open>auto simp: committed_is_read_def run_inv_def\<close>)+

lemma wp_after_opening:
  assumes "trace_inv sha p [[]] s" "last_read (sg_trace s) = Some x" "classify_remote sha p x = Inr v"
    and "dget p ''from_label'' \<noteq> dget p ''target_label''"
  shows "wp (after_opening sha clock t do_apply x v) (ended sha p (run_changes do_apply))
    (\<lambda>e s'. trace_inv sha p (run_changes do_apply) s') s"
proof -
  define ms where "ms = run_changes do_apply"
  have i: "trace_inv sha p ms s" unfolding ms_def by (rule run_changes_more [OF assms(1)])
  note set_save = wp_set_save [OF i]
  show ?thesis unfolding ms_def [symmetric]
  proof (cases v)
    case RESUMABLE
    show "wp (after_opening sha clock t do_apply x v) (ended sha p ms) (\<lambda>e s'. trace_inv sha p ms s') s"
    proof (cases do_apply)
      case True
      have r: "at_read sha p x s" using assms(2,3) RESUMABLE by (simp add: at_read_def)
      have "wp (bindP (start_attempt clock) (\<lambda>_. tryP (apply_stages sha clock t x) (recover clock))) (ended sha p RUN_CHANGES)
        (\<lambda>e s'. trace_inv sha p RUN_CHANGES s') s"
        by (rule wp_seq [OF wp_mono [OF wp_start_attempt [OF assms(1) r]]], assumption, erule run_inv_more, simp add: RUN_CHANGES_def,
            subst wp_try, rule wp_mono [OF wp_apply_stages [OF _ _ assms(4)]]) (auto intro: wp_recover)
      with True RESUMABLE show ?thesis by (simp add: after_opening_def ms_def run_changes_def)
    next
      case False
      with RESUMABLE set_save(1) [of "JStr ''DRY_RUN''"] show ?thesis by (simp add: after_opening_def)
    qed
  qed (use set_save(2) wp_record_error [OF i] assms(2,3) in \<open>simp_all add: after_opening_def\<close>)
qed

section \<open>No write without a matching read\<close>

lemma wp_run:
  assumes "same_transition plan plan" "\<And>p. same_transition plan p \<Longrightarrow> dget p ''from_label'' \<noteq> dget p ''target_label''" "sg_trace s = []"
    and "dget plan ''status'' \<noteq> JStr ''COMMITTED''"
  shows "wp (run_transition sha clock t do_apply plan)
    (\<lambda>d s'. \<exists>p. same_transition plan p \<and> trace_inv sha p (run_changes do_apply) s' \<and> (sg_trace s' = [] \<and> journaled plan s d \<or> committed_is_read sha p d s'))
    (\<lambda>e s'. \<exists>p. same_transition plan p \<and> guarded (permitted sha p) (sg_trace s') \<and> changes (sg_trace s') \<in> set (run_changes do_apply)) s"
    (is "wp _ ?Q ?E s")
  unfolding run_transition_def
proof (rule wp_seq)
  show "wp (open_plan clock plan) (\<lambda>_ s'. sg_trace s' = [] \<and> same_transition plan (sg_plan s')
      \<and> (journaled plan s (sg_plan s') \<or> dget (sg_plan s') ''status'' = dget plan ''status'')) ?E s"
    by (rule wp_mono [OF wp_open_plan [OF assms(1)]]) (use assms in \<open>auto simp: RUN_CHANGES_def run_changes_def\<close>)
  fix u and s' :: "'a saga" assume o: "sg_trace s' = [] \<and> same_transition plan (sg_plan s')
      \<and> (journaled plan s (sg_plan s') \<or> dget (sg_plan s') ''status'' = dget plan ''status'')"
  define p where "p = sg_plan s'"
  have i: "trace_inv sha p [[]] s'" using o by (simp add: run_inv_def p_def)
  then have i': "trace_inv sha p (run_changes do_apply) s'" by (rule run_changes_more)
  have E: "?E e sa" if "trace_inv sha p (run_changes do_apply) sa" for e and sa :: "'a saga"
    using that o by (auto simp: run_inv_def p_def)
  have r: "wp (bindP (get_issue t) (\<lambda>first. bindP (planP (\<lambda>p. classify_remote sha p first)) (after_opening sha clock t do_apply first))) ?Q ?E s'"
  proof (rule wp_seq [OF wp_get_issue [OF i]])
    show "trace_inv sha p [[]] sa \<and> last_read (sg_trace sa) = Some x"
      if "trace_inv sha p [[]] sa" "last_read (sg_trace sa) = Some x" for x and sa :: "'a saga" using that ..
    show "?E e sa" if "trace_inv sha p [[]] sa" for e and sa :: "'a saga"
      by (rule E, rule run_changes_more [OF that])
    fix x and sa :: "'a saga" assume j: "trace_inv sha p [[]] sa \<and> last_read (sg_trace sa) = Some x"
    then have k: "trace_inv sha p (run_changes do_apply) sa" by (blast intro: run_changes_more)
    have "wp (after_opening sha clock t do_apply x v) ?Q ?E sa" if "classify_remote sha p x = Inr v" for v
      by (rule wp_mono [OF wp_after_opening]) (use j that o assms(2) E in \<open>auto simp: ended_def p_def\<close>)
    then show "wp (bindP (planP (\<lambda>p. classify_remote sha p x)) (after_opening sha clock t do_apply x)) ?Q ?E sa"
      using agrees_classify [OF trace_inv_agrees [OF k]] E [OF k] by (simp add: wp_bind wp_planP split: sum.split)
  qed
  show "wp (bindP (getP sg_plan) (\<lambda>p. if dget p ''status'' = JStr ''COMMITTED'' then retP p
     else bindP (get_issue t) (\<lambda>first. bindP (planP (\<lambda>p. classify_remote sha p first)) (after_opening sha clock t do_apply first)))) ?Q ?E s'"
    unfolding wp_bind [of "getP sg_plan"] wp_get
    using r o i' assms(4) by (auto simp: wp_ret p_def)
qed

text \<open>C32. Whatever the provider answers, and whatever a journal left by an earlier run holds, a run of
  a planned transition sends a changing request only directly after a read of the issue that shows
  the transition half done and nothing foreign: with that read's version tag, for the planned issue
  and labels, and the body only where the body just read has the digest of the original, so an edit
  made by a person in between is never overwritten.  At most one label is added, one body written
  and one label removed, in this order; a dry run changes nothing; and a plan is returned as
  COMMITTED either without any request, when it is the very record of this transition that the journal held before the run
  and that record said COMMITTED, or when the last read showed exactly the target label and the desired body.\<close>

theorem saga_changes_only_what_it_read:
  assumes "make_transition_plan sha q issue created updated = Inr plan" and "sg_trace s = []"
    and "run_transition sha clock t do_apply plan s = (r, s')"
  shows "\<exists>p. same_transition plan p \<and> guarded (permitted sha p) (sg_trace s')
    \<and> changes (sg_trace s') \<in> set (run_changes do_apply)
    \<and> (\<forall>d. r = Inr d \<and> dget d ''status'' = JStr ''COMMITTED'' \<longrightarrow>
        sg_trace s' = [] \<and> (\<exists>i. dget plan ''saga_id'' = JStr i \<and> saga_file (sg_journal s) i = Inr (JObj d))
        \<or> (\<exists>x. last_read (sg_trace s') = Some x \<and> classify_remote sha p x = Inr COMMITTED))"
proof -
  note m = make_planE [OF assms(1)]
  have refl: "same_transition plan plan" using m new_plan_refl by simp
  have "dget p ''from_label'' \<noteq> dget p ''target_label''" if "same_transition plan p" for p
    using that m(3) new_plan_labels [of sha q issue created updated p] by (simp add: m(1))
  moreover have "dget plan ''status'' \<noteq> JStr ''COMMITTED''" by (simp add: m(1) new_plan_def Let_def)
  ultimately have w: "wp (run_transition sha clock t do_apply plan)
    (\<lambda>d s'. \<exists>p. same_transition plan p \<and> trace_inv sha p (run_changes do_apply) s' \<and> (sg_trace s' = [] \<and> journaled plan s d \<or> committed_is_read sha p d s'))
    (\<lambda>e s'. \<exists>p. same_transition plan p \<and> guarded (permitted sha p) (sg_trace s') \<and> changes (sg_trace s') \<in> set (run_changes do_apply)) s"
    using wp_run [OF refl _ assms(2)] by blast
  show ?thesis
  proof (cases r)
    case (Inl e)
    with wp_Inl [OF w] assms(3) show ?thesis by auto
  next
    case (Inr d)
    with wp_Inr [OF w] assms(3) show ?thesis by (fastforce simp: run_inv_def committed_is_read_def journaled_def)
  qed
qed

end
