(* ===== verification/SagaResume.thy ===== *)
theory SagaResume
  imports SagaSafety
begin

text \<open>
  Resumption of a remote saga: every run, whatever its transport does, leaves a journal from which
  the transition can be resumed, and a run against a provider that follows its documentation then
  completes the transition from any half-done state.
\<close>

section \<open>A journal from which a run resumes\<close>

definition resumable :: "dict \<Rightarrow> dict \<Rightarrow> bool" where
  "resumable plan d = (agrees plan d \<and> (\<exists>st n. ditemE d ''steps'' = Inr (JObj st) \<and> dget_or d ''attempts'' (JInt 0) = JInt n))"

definition journal_ok :: "dict \<Rightarrow> journal \<Rightarrow> bool" where
  "journal_ok plan j = (case j (str_of (dget plan ''saga_id'')) of None \<Rightarrow> True
     | Some r \<Rightarrow> (case r of Inr (JObj d) \<Rightarrow> d \<noteq> [] \<and> resumable plan d | _ \<Rightarrow> False))"

definition ready :: "dict \<Rightarrow> 'r saga \<Rightarrow> bool" where
  "ready plan s = (resumable plan (sg_plan s) \<and> journal_ok plan (sg_journal s))"

text \<open>What planning guarantees of the identifiers, for a digest of 64 hexadecimal digits.\<close>

definition named :: "dict \<Rightarrow> bool" where
  "named plan = (\<exists>i. ditemE plan ''saga_id'' = Inr (JStr i) \<and> sha256_hex i \<and> dget plan ''idempotency_key'' = JStr i)"

lemma resumable_dput [simp]: "k \<notin> set PLAN_FIELDS \<Longrightarrow> k \<notin> {''steps'', ''attempts''} \<Longrightarrow> resumable plan (dput k v d) \<longleftrightarrow> resumable plan d"
  by (auto simp: resumable_def)

lemma resumable_steps: "resumable plan d \<Longrightarrow> resumable plan (dput ''steps'' (JObj st) d)"
  by (auto simp: resumable_def)

lemma resumable_attempts: "resumable plan d \<Longrightarrow> resumable plan (dput ''attempts'' (JInt n) d)"
  by (auto simp: resumable_def)

lemma pass_step_ok: "resumable plan d \<Longrightarrow> \<exists>d'. pass_step n d = Inr d' \<and> resumable plan d'"
  by (auto simp: resumable_def pass_step_def)

lemma dput_not_Nil [simp]: "dput k v d \<noteq> []"
  by (simp add: dput_def update_nonempty)

lemma ready_save:
  assumes "named plan" "journal_ok plan (sg_journal s)" "resumable plan v"
    and "\<And>w s'. ready plan (s'\<lparr>sg_plan := v\<rparr>) \<Longrightarrow> journal_ok plan (sg_journal s') \<Longrightarrow> sg_remote s' = sg_remote s \<Longrightarrow> sg_plan s' = sg_plan s \<Longrightarrow> sg_trace s' = sg_trace s
      \<Longrightarrow> sg_journal s' (str_of (dget plan ''saga_id'')) = Some (Inr (JObj (dput ''updated_at'' w v))) \<Longrightarrow> Q (dput ''updated_at'' w v) s'"
  shows "wp (save clock v) Q E s"
proof -
  obtain i where i: "ditemE plan ''saga_id'' = Inr (JStr i)" "sha256_hex i" "dget plan ''idempotency_key'' = JStr i"
    using assms(1) by (auto simp: named_def)
  have a: "agrees plan v" using assms(3) by (simp add: resumable_def)
  have v: "dget_or v ''saga_id'' d = JStr i" for d
    using agrees_item [OF a, of "''saga_id''"] i(1) by (auto simp: ditemE_def dget_or_def split: option.splits)
  have p: "str_of (dget plan ''saga_id'') = i" using i(1) by (simp add: ditemE_dget)
  have k: "dget v ''idempotency_key'' = JStr i" using agrees_get [OF a] i(3) by simp
  have c: "saga_file (sg_journal s) i = Inr JNull \<or> (\<exists>d. saga_file (sg_journal s) i = Inr (JObj d) \<and> dget d ''idempotency_key'' = JStr i)"
  proof (cases "sg_journal s i")
    case None
    then show ?thesis by (simp add: saga_file_def saga_path_def i)
  next
    case (Some r)
    then obtain d where "r = Inr (JObj d)" "resumable plan d"
      using assms(2) by (auto simp: journal_ok_def p split: sum.splits json.splits)
    then show ?thesis using Some agrees_get [of plan d "''idempotency_key''"] i
      by (auto simp: saga_file_def saga_path_def resumable_def)
  qed
  show ?thesis unfolding save_def Let_def v py_str.simps load_def read_clock_def wp_simps
    using c by (auto simp: key_conflict_def k p intro!: assms(4)) (auto simp: ready_def journal_ok_def p assms(2,3))
qed

section \<open>Every run keeps the journal resumable\<close>

lemma keeps_planP [keeps_intros]: "keeps K (planP f)"
  by (auto simp: keeps_def wp_planP split: sum.split)

lemma keeps_send [keeps_intros]: "keeps (ready plan) (send t rq)"
  by (auto simp: keeps_def wp_def send_def ready_def Let_def split: sum.split prod.split)

lemma keeps_set_field [keeps_intros]:
  "k \<notin> set PLAN_FIELDS \<Longrightarrow> k \<notin> {''steps'', ''attempts''} \<Longrightarrow> keeps (ready plan) (set_field k v)"
  by (auto simp: keeps_def set_field_def wp_simps ready_def)

lemma keeps_set_steps [keeps_intros]: "keeps (ready plan) (set_field ''steps'' (JObj d))"
  by (auto simp: keeps_def set_field_def wp_simps ready_def resumable_steps)

lemma keeps_set_attempts [keeps_intros]: "keeps (ready plan) (set_field ''attempts'' (JInt n))"
  by (auto simp: keeps_def set_field_def wp_simps ready_def resumable_attempts)

lemma keeps_mark [keeps_intros]: "keeps (ready plan) (mark n)"
  unfolding keeps_def
proof (intro allI impI)
  fix s :: "'a saga" assume "ready plan s"
  then have r: "resumable plan (sg_plan s)" "journal_ok plan (sg_journal s)" by (simp_all add: ready_def)
  obtain d where d: "pass_step n (sg_plan s) = Inr d" "resumable plan d" using pass_step_ok [OF r(1)] by blast
  then show "wp (mark n) (\<lambda>_. ready plan) (\<lambda>_. ready plan) s" using r by (simp add: mark_def wp_simps ready_def)
qed

lemma keeps_saves [keeps_intros]:
  assumes "named plan"
  shows "keeps (ready plan) (save_plan clock)" "keeps (ready plan) (bindP (getP sg_plan) (save clock))"
    "keeps (ready plan) (record_error clock e)"
  unfolding keeps_def save_plan_def record_error_def wp_simps
  by (auto intro!: ready_save [OF assms] simp: ready_def)

lemma keeps_run:
  assumes "named plan"
  shows "keeps (ready plan) (after_opening sha clock t do_apply x v)"
  unfolding after_opening_def start_attempt_def apply_stages_def add_stage_def patch_stage_def remove_stage_def verify_stage_def
    reread_def recover_def add_label_def patch_body_def remove_label_def mutate_def get_issue_def
  by (intro keeps_intros assms) simp_all

lemma open_ready:
  assumes "named plan" "resumable plan plan" "journal_ok plan (sg_journal s)"
  shows "wp (open_plan clock plan) (\<lambda>_ s'. ready plan s' \<and> sg_remote s' = sg_remote s \<and> (\<exists>w. sg_plan s' = dput ''updated_at'' w plan \<or>
      sg_journal s (str_of (dget plan ''saga_id'')) = Some (Inr (JObj (sg_plan s'))))) (\<lambda>e s'. journal_ok plan (sg_journal s')) s"
proof -
  obtain i where i: "ditemE plan ''saga_id'' = Inr (JStr i)" "sha256_hex i" "str_of (dget plan ''saga_id'') = i"
    using assms(1) by (auto simp: named_def ditemE_dget)
  have t: "text_item plan ''saga_id'' = Inr i" using i by (simp add: text_item_def)
  consider (absent) "sg_journal s i = None" | (there) d where "sg_journal s i = Some (Inr (JObj d))" "d \<noteq> []" "resumable plan d"
    using assms(3) by (auto simp: journal_ok_def i split: option.splits sum.splits json.splits)
  then show ?thesis
  proof cases
    case absent
    have "wp (save_plan clock) (\<lambda>_ s'. ready plan s' \<and> sg_remote s' = sg_remote s \<and> (\<exists>w. sg_plan s' = dput ''updated_at'' w plan))
       (\<lambda>e s'. journal_ok plan (sg_journal s')) (s\<lparr>sg_plan := plan\<rparr>)"
      unfolding save_plan_def wp_simps
      by (rule ready_save [OF assms(1)]) (use assms in \<open>auto simp: ready_def\<close>)
    then show ?thesis using absent
      by (simp add: open_plan_def wp_simps t load_def saga_file_def saga_path_def i)
  next
    case there
    then show ?thesis using assms(3)
      by (simp add: open_plan_def wp_simps t load_def saga_file_def saga_path_def i ready_def differs_def)
  qed
qed

lemma run_keeps_journal:
  assumes "named plan" "resumable plan plan" "journal_ok plan (sg_journal s)"
  shows "journal_ok plan (sg_journal (snd (run_transition sha clock t do_apply plan s)))"
proof -
  have k: "keeps (ready plan) (bindP (getP sg_plan) (\<lambda>p. if dget p ''status'' = JStr ''COMMITTED'' then retP p
     else bindP (get_issue t) (\<lambda>first. bindP (planP (\<lambda>p. classify_remote sha p first)) (after_opening sha clock t do_apply first))))"
    unfolding get_issue_def by (intro keeps_intros keeps_run assms)
  have "wp (run_transition sha clock t do_apply plan) (\<lambda>_ s'. journal_ok plan (sg_journal s')) (\<lambda>_ s'. journal_ok plan (sg_journal s')) s"
    unfolding run_transition_def
    by (rule wp_seq [OF open_ready [OF assms]], rule wp_mono [OF keepsD [OF k]]) (auto simp: ready_def)
  then show ?thesis by (auto simp: wp_def split: prod.splits sum.splits)
qed

section \<open>A provider that follows its documentation\<close>

text \<open>
  What the provider documents of the four requests on the issue at \<open>path\<close>, with no other writer:
  a read answers with the issue as it is, and a write carrying the version tag of the current issue
  is accepted; adding a label adds it and nothing else, patching the body replaces it, and removing
  a label removes it.  \<open>view m\<close> is the answer to a read of the provider's state \<open>m\<close>.
\<close>

definition shows_issue :: "('r \<Rightarrow> response) \<Rightarrow> string set \<Rightarrow> string \<Rightarrow> 'r \<Rightarrow> bool" where
  "shows_issue view L b m = (\<exists>ls. machine_labels (rp_data (view m)) = Inr ls \<and> set ls = L \<and> issue_body (rp_data (view m)) = b)"

definition accepts :: "'r transport \<Rightarrow> ('r \<Rightarrow> response) \<Rightarrow> string \<Rightarrow> string \<Rightarrow> dict option \<Rightarrow> 'r \<Rightarrow> ('r \<Rightarrow> bool) \<Rightarrow> bool" where
  "accepts t view verb p b m P = (\<exists>x m'. t \<lparr>rq_method = verb, rq_path = p, rq_payload = b, rq_etag = rp_etag (view m)\<rparr> m = (Inr x, m') \<and> P m')"

definition honest :: "'r transport \<Rightarrow> string \<Rightarrow> ('r \<Rightarrow> response) \<Rightarrow> bool" where
  "honest t path view = (\<forall>m. t (get_request path) m = (Inr (view m), m) \<and> (\<forall>L b l. shows_issue view L b m \<longrightarrow> l \<in> set MACHINE_LABELS \<longrightarrow>
     accepts t view ''POST'' (path @ ''/labels'') (Some [(''labels'', JList [JStr l])]) m (shows_issue view (insert l L) b) \<and>
     (\<forall>b'. accepts t view ''PATCH'' path (Some [(''body'', JStr b')]) m (shows_issue view L b')) \<and>
     accepts t view ''DELETE'' (path @ ''/labels/'' @ l) None m (shows_issue view (L - {l}) b)))"

lemma wp_get_honest:
  assumes "honest t path view" "issue_path plan = Inr path" "ready plan s"
    and "\<And>s'. ready plan s' \<Longrightarrow> sg_remote s' = sg_remote s \<Longrightarrow> sg_journal s' = sg_journal s \<Longrightarrow> Q (view (sg_remote s')) s'"
  shows "wp (get_issue t) Q E s"
proof -
  have "agrees plan (sg_plan s)" using assms(3) by (simp add: ready_def resumable_def)
  from agrees_path [OF this] have a: "issue_path (sg_plan s) = Inr path" using assms(2) by simp
  have g: "t (get_request path) (sg_remote s) = (Inr (view (sg_remote s)), sg_remote s)" using assms(1) by (simp add: honest_def)
  show ?thesis unfolding get_issue_def wp_simps
    using assms(4) [of "s\<lparr>sg_trace := sg_trace s @ [(get_request path, Inr (view (sg_remote s)))]\<rparr>"] assms(3)
    by (simp add: a wp_def send_def g ready_def)
qed

text \<open>The fields of a plan as texts.\<close>

record plan_texts =
  pt_path :: string
  pt_from :: string
  pt_target :: string
  pt_desired :: string
  pt_original_sha :: string

definition plan_is :: "(string \<Rightarrow> string) \<Rightarrow> dict \<Rightarrow> plan_texts \<Rightarrow> bool" where
  "plan_is sha plan c = (same_transition plan plan \<and> named plan \<and> resumable plan plan \<and> issue_path plan = Inr (pt_path c)
     \<and> ditemE plan ''from_label'' = Inr (JStr (pt_from c)) \<and> ditemE plan ''target_label'' = Inr (JStr (pt_target c))
     \<and> ditemE plan ''desired_body'' = Inr (JStr (pt_desired c)) \<and> ditemE plan ''desired_body_sha256'' = Inr (JStr (sha (pt_desired c)))
     \<and> ditemE plan ''original_body_sha256'' = Inr (JStr (pt_original_sha c)) \<and> pt_from c \<noteq> pt_target c
     \<and> pt_from c \<in> set MACHINE_LABELS \<and> pt_target c \<in> set MACHINE_LABELS)"

lemma plan_is_hash:
  assumes "plan_is sha plan c"
  shows "hash_item plan ''from_label'' = Inr (JStr (pt_from c))" "hash_item plan ''target_label'' = Inr (JStr (pt_target c))"
    "hash_item plan ''desired_body_sha256'' = Inr (JStr (sha (pt_desired c)))"
    "hash_item plan ''original_body_sha256'' = Inr (JStr (pt_original_sha c))"
  using assms by (simp_all add: plan_is_def hash_item_def hashE_def)

lemma classify_shown:
  assumes "plan_is sha plan c" "shows_issue view L b m"
  shows "classify_remote sha plan (view m) = Inr (
    if \<not> L \<subseteq> {pt_from c, pt_target c} \<or> sha b \<notin> {pt_original_sha c, sha (pt_desired c)} \<or> L = {} then CONFLICT
    else if L = {pt_target c} \<and> sha b = sha (pt_desired c) then COMMITTED else RESUMABLE)"
proof -
  obtain ls where ls: "machine_labels (rp_data (view m)) = Inr ls" "set ls = L" "issue_body (rp_data (view m)) = b"
    using assms(2) by (auto simp: shows_issue_def)
  have e: "list_all (\<lambda>l. JStr l \<in> {JStr (pt_from c), JStr (pt_target c)}) ls \<longleftrightarrow> L \<subseteq> {pt_from c, pt_target c}"
    "list_all (\<lambda>l. JStr l = JStr (pt_target c)) ls \<longleftrightarrow> L \<subseteq> {pt_target c}" "ls = [] \<longleftrightarrow> L = {}"
    using ls(2) by (auto simp: list_all_iff)
  show ?thesis unfolding classify_remote_def view_of_def plan_is_hash [OF assms(1)] bindE_Inr ls e by auto
qed

lemma labels_shown:
  assumes "plan_is sha plan c" "shows_issue view L b m"
  shows "has_label plan ''from_label'' (view m) = Inr (pt_from c \<in> L)" "has_label plan ''target_label'' (view m) = Inr (pt_target c \<in> L)"
    "has_body sha plan ''desired_body_sha256'' (view m) = Inr (sha b = sha (pt_desired c))"
    "has_body sha plan ''original_body_sha256'' (view m) = Inr (sha b = pt_original_sha c)"
  using assms plan_is_hash [OF assms(1)]
  by (auto simp: shows_issue_def has_label_def has_body_def plan_is_def)

text \<open>A run's state: ready, and the provider shows labels \<open>L\<close> and a body of digest \<open>h\<close>.\<close>

definition live :: "(string \<Rightarrow> string) \<Rightarrow> dict \<Rightarrow> ('r \<Rightarrow> response) \<Rightarrow> string set \<Rightarrow> string \<Rightarrow> 'r saga \<Rightarrow> bool" where
  "live sha plan view L h s = (ready plan s \<and> (\<exists>b. shows_issue view L b (sg_remote s) \<and> sha b = h))"

lemma live_ready: "live sha plan view L h s \<Longrightarrow> ready plan s" "live sha plan view L h s \<Longrightarrow> agrees plan (sg_plan s)"
  by (auto simp: live_def ready_def resumable_def)

lemma wp_mark_live:
  assumes "live sha plan view L h s" "\<And>s'. live sha plan view L h s' \<Longrightarrow> sg_remote s' = sg_remote s \<Longrightarrow> Q () s'"
  shows "wp (mark n) Q E s"
proof -
  have r: "resumable plan (sg_plan s)" "journal_ok plan (sg_journal s)" using live_ready(1) [OF assms(1)] by (simp_all add: ready_def)
  obtain d where d: "pass_step n (sg_plan s) = Inr d" "resumable plan d" using pass_step_ok [OF r(1)] by blast
  then show ?thesis using r assms by (simp add: mark_def wp_simps live_def ready_def)
qed

lemma wp_save_plan_live:
  assumes "named plan" "live sha plan view L h s" "\<And>s'. live sha plan view L h s' \<Longrightarrow> sg_remote s' = sg_remote s \<Longrightarrow> Q () s'"
  shows "wp (save_plan clock) Q E s"
  unfolding save_plan_def wp_simps
  by (rule ready_save [OF assms(1)]) (use assms(2,3) in \<open>auto simp: live_def ready_def\<close>)

lemma wp_accepted:
  assumes "live sha plan view L h s" "x = view (sg_remote s)" "issue_path plan = Inr path"
    and "sfx (sg_plan s) = Inr y" "payload (sg_plan s) = Inr b" "accepts t view verb (path @ y) b (sg_remote s) (\<lambda>m. shows_issue view L' b' m)"
    and "\<And>w s'. live sha plan view L' (sha b') s' \<Longrightarrow> Q w s'"
  shows "wp (mutate t verb sfx payload x) Q E s"
proof -
  have "issue_path (sg_plan s) = Inr path" using agrees_path [OF live_ready(2) [OF assms(1)]] assms(3) by simp
  then show ?thesis using assms(1,2,4-6) unfolding mutate_def wp_simps wp_planP
    by (auto simp: wp_def send_def accepts_def live_def ready_def intro!: assms(7) exI [of _ b'])
qed

section \<open>The stages complete\<close>

definition never :: "exn \<Rightarrow> 's \<Rightarrow> bool" where
  "never e s = False"

text \<open>The current answer is what the provider shows.\<close>

abbreviation live_at :: "(string \<Rightarrow> string) \<Rightarrow> dict \<Rightarrow> ('r \<Rightarrow> response) \<Rightarrow> string set \<Rightarrow> string \<Rightarrow> response \<Rightarrow> 'r saga \<Rightarrow> bool" where
  "live_at sha plan view L h x s \<equiv> live sha plan view L h s \<and> x = view (sg_remote s)"

lemma live_shown: "live sha plan view L h s \<Longrightarrow> \<exists>b. shows_issue view L b (sg_remote s) \<and> sha b = h"
  by (simp add: live_def)

lemma wp_read_live:
  assumes "honest t path view" "issue_path plan = Inr path" "live sha plan view L h s"
    and "\<And>s'. live sha plan view L h s' \<Longrightarrow> Q (view (sg_remote s')) s'"
  shows "wp (get_issue t) Q E s"
  by (rule wp_get_honest [OF assms(1,2)], use assms(3) in \<open>simp add: live_def\<close>, rule assms(4), use assms(3) in \<open>simp add: live_def\<close>)

definition setting :: "(string \<Rightarrow> string) \<Rightarrow> dict \<Rightarrow> plan_texts \<Rightarrow> 'r transport \<Rightarrow> ('r \<Rightarrow> response) \<Rightarrow> bool" where
  "setting sha plan c t view = (plan_is sha plan c \<and> honest t (pt_path c) view)"

lemma settingD:
  assumes "setting sha plan c t view"
  shows "plan_is sha plan c" "honest t (pt_path c) view" "named plan" "issue_path plan = Inr (pt_path c)"
    "pt_from c \<noteq> pt_target c" "pt_from c \<in> set MACHINE_LABELS" "pt_target c \<in> set MACHINE_LABELS"
    "ditemE plan ''from_label'' = Inr (JStr (pt_from c))" "ditemE plan ''target_label'' = Inr (JStr (pt_target c))"
    "ditemE plan ''desired_body'' = Inr (JStr (pt_desired c))"
  using assms by (simp_all add: setting_def plan_is_def)

lemma live_item: "live sha plan view L h s \<Longrightarrow> k \<in> set PLAN_FIELDS \<Longrightarrow> ditemE (sg_plan s) k = ditemE plan k"
  by (rule agrees_item [OF live_ready(2)])

lemma live_tests:
  assumes "setting sha plan c t view" "live sha plan view L h s"
  shows "has_label (sg_plan s) ''from_label'' (view (sg_remote s)) = Inr (pt_from c \<in> L)"
    "has_label (sg_plan s) ''target_label'' (view (sg_remote s)) = Inr (pt_target c \<in> L)"
    "has_body sha (sg_plan s) ''desired_body_sha256'' (view (sg_remote s)) = Inr (h = sha (pt_desired c))"
    "has_body sha (sg_plan s) ''original_body_sha256'' (view (sg_remote s)) = Inr (h = pt_original_sha c)"
proof -
  obtain b where b: "shows_issue view L b (sg_remote s)" "sha b = h" using live_shown [OF assms(2)] by blast
  note a = live_ready(2) [OF assms(2)]
  note l = labels_shown [OF settingD(1) [OF assms(1)] b(1)]
  show "has_label (sg_plan s) ''from_label'' (view (sg_remote s)) = Inr (pt_from c \<in> L)"
    "has_label (sg_plan s) ''target_label'' (view (sg_remote s)) = Inr (pt_target c \<in> L)"
    using l agrees_label [OF a] by simp_all
  show "has_body sha (sg_plan s) ''desired_body_sha256'' (view (sg_remote s)) = Inr (h = sha (pt_desired c))"
    "has_body sha (sg_plan s) ''original_body_sha256'' (view (sg_remote s)) = Inr (h = pt_original_sha c)"
    using l agrees_body [OF a] b(2) by simp_all
qed

lemma live_classify:
  assumes "setting sha plan c t view" "live sha plan view L h s"
  shows "classify_remote sha (sg_plan s) (view (sg_remote s)) = Inr (
    if \<not> L \<subseteq> {pt_from c, pt_target c} \<or> h \<notin> {pt_original_sha c, sha (pt_desired c)} \<or> L = {} then CONFLICT
    else if L = {pt_target c} \<and> h = sha (pt_desired c) then COMMITTED else RESUMABLE)"
proof -
  obtain b where b: "shows_issue view L b (sg_remote s)" "sha b = h" using live_shown [OF assms(2)] by blast
  then show ?thesis using agrees_classify [OF live_ready(2) [OF assms(2)]] classify_shown [OF settingD(1) [OF assms(1)] b(1)] by simp
qed

lemma wp_reread_live:
  assumes "setting sha plan c t view" "live sha plan view L h s" "L \<subseteq> {pt_from c, pt_target c}" "L \<noteq> {}"
    "h \<in> {pt_original_sha c, sha (pt_desired c)}"
  shows "wp (reread sha clock t z) (\<lambda>x s'. live_at sha plan view L h x s') never s"
  unfolding reread_def wp_bind
proof (rule wp_save_plan_live [OF settingD(3) [OF assms(1)] assms(2)], rule wp_read_live [OF settingD(2,4) [OF assms(1)]], assumption)
  fix s' assume l: "live sha plan view L h s'"
  then show "wp (planP (\<lambda>p. classify_remote sha p (view (sg_remote s')))) (\<lambda>v. wp (if v = CONFLICT then raiseP (SagaError z)
      else retP (view (sg_remote s'))) (\<lambda>x s'. live_at sha plan view L h x s') never) never s'"
    using assms(3-5) by (auto simp: wp_planP wp_simps live_classify [OF assms(1) l])
qed

lemma wp_finish_stage:
  assumes "setting sha plan c t view" "wp m (\<lambda>_ s'. live sha plan view L h s') never s" "L \<subseteq> {pt_from c, pt_target c}" "L \<noteq> {}"
    "h \<in> {pt_original_sha c, sha (pt_desired c)}"
  shows "wp (bindP m (\<lambda>_. bindP (mark n) (\<lambda>_. reread sha clock t z))) (\<lambda>x s'. live_at sha plan view L h x s') never s"
  by (rule wp_seq [OF assms(2)], unfold wp_bind, erule wp_mark_live, rule wp_reread_live [OF assms(1) _ assms(3-5)])

lemma wp_mark_at:
  assumes "live sha plan view L h s"
  shows "wp (bindP (mark n) (\<lambda>_. retP (view (sg_remote s)))) (\<lambda>x s'. live_at sha plan view L h x s') never s"
  unfolding wp_bind wp_ret by (rule wp_mark_live [OF assms]) simp

lemma wp_add_live:
  assumes set: "setting sha plan c t view" and l: "live sha plan view L h s"
    and L: "L \<subseteq> {pt_from c, pt_target c}" "L \<noteq> {}" "h \<in> {pt_original_sha c, sha (pt_desired c)}"
  shows "wp (add_stage sha clock t (view (sg_remote s))) (\<lambda>x s'. live_at sha plan view (insert (pt_target c) L) h x s') never s"
proof (cases "pt_target c \<in> L")
  case True
  then show ?thesis using wp_mark_at [OF l] by (simp add: add_stage_def wp_bind wp_planP live_tests [OF set l] insert_absorb)
next
  case False
  obtain b where b: "shows_issue view L b (sg_remote s)" "sha b = h" using live_shown [OF l] by blast
  have "wp (add_label t ''target_label'' (view (sg_remote s))) (\<lambda>_ s'. live sha plan view (insert (pt_target c) L) h s') never s"
    unfolding add_label_def
  proof (rule wp_accepted [OF l refl settingD(4) [OF set]])
    show "accepts t view ''POST'' (pt_path c @ ''/labels'') (Some [(''labels'', JList [JStr (pt_target c)])]) (sg_remote s)
      (\<lambda>m. shows_issue view (insert (pt_target c) L) b m)"
      using settingD(2,7) [OF set] b(1) by (auto simp: honest_def)
  qed (simp_all add: live_item [OF l] settingD [OF set] b(2))
  note w = wp_finish_stage [OF set this _ _ L(3)]
  show ?thesis using w L by (simp add: add_stage_def wp_planP live_tests [OF set l] False wp_bind [of "planP _"])
qed

lemma wp_patch_live:
  assumes set: "setting sha plan c t view" and l: "live sha plan view L h s"
    and L: "L \<subseteq> {pt_from c, pt_target c}" "L \<noteq> {}" "h \<in> {pt_original_sha c, sha (pt_desired c)}"
  shows "wp (patch_stage sha clock t (view (sg_remote s))) (\<lambda>x s'. live_at sha plan view L (sha (pt_desired c)) x s') never s"
proof (cases "h = sha (pt_desired c)")
  case True
  then show ?thesis using wp_mark_at [OF l] by (simp add: patch_stage_def wp_bind wp_planP live_tests [OF set l])
next
  case False
  then have h: "h = pt_original_sha c" using L(3) by simp
  obtain b where b: "shows_issue view L b (sg_remote s)" using live_shown [OF l] by blast
  have "wp (patch_body t ''desired_body'' (view (sg_remote s))) (\<lambda>_ s'. live sha plan view L (sha (pt_desired c)) s') never s"
    unfolding patch_body_def
  proof (rule wp_accepted [OF l refl settingD(4) [OF set]])
    show "accepts t view ''PATCH'' (pt_path c @ []) (Some [(''body'', JStr (pt_desired c))]) (sg_remote s)
      (\<lambda>m. shows_issue view L (pt_desired c) m)"
      using settingD(2,7) [OF set] b by (auto simp: honest_def)
  qed (simp_all add: live_item [OF l] settingD [OF set])
  note w = wp_finish_stage [OF set this L(1,2)]
  show ?thesis using w h False
    by (simp add: patch_stage_def wp_planP live_tests [OF set l] wp_bind [of "planP _"])
qed

lemma wp_remove_live:
  assumes set: "setting sha plan c t view" and l: "live sha plan view L h s"
  shows "wp (remove_stage clock t (view (sg_remote s))) (\<lambda>_ s'. live sha plan view (L - {pt_from c}) h s') never s"
proof (cases "pt_from c \<in> L")
  case False
  then have "L - {pt_from c} = L" by simp
  then show ?thesis using False wp_mark_live [OF l, of "\<lambda>_. live sha plan view L h"]
    by (simp add: remove_stage_def wp_bind wp_planP live_tests [OF set l])
next
  case True
  obtain b where b: "shows_issue view L b (sg_remote s)" "sha b = h" using live_shown [OF l] by blast
  have r: "wp (remove_label t ''from_label'' (view (sg_remote s))) (\<lambda>_ s'. live sha plan view (L - {pt_from c}) h s') never s"
    unfolding remove_label_def
  proof (rule wp_accepted [OF l refl settingD(4) [OF set]])
    show "accepts t view ''DELETE'' (pt_path c @ (''/labels/'' @ pt_from c)) None (sg_remote s) (\<lambda>m. shows_issue view (L - {pt_from c}) b m)"
      using settingD(2,6) [OF set] b(1) by (auto simp: honest_def)
  qed (simp_all add: live_item [OF l] settingD [OF set] b(2))
  have "wp (bindP (remove_label t ''from_label'' (view (sg_remote s))) (\<lambda>_. bindP (mark n) (\<lambda>_. save_plan clock)))
      (\<lambda>_ s'. live sha plan view (L - {pt_from c}) h s') never s" for n
    by (rule wp_seq [OF r], unfold wp_bind, erule wp_mark_live, rule wp_save_plan_live [OF settingD(3) [OF set]])
  then show ?thesis by (simp add: remove_stage_def wp_planP live_tests [OF set l] True wp_bind [of "planP _"])
qed

text \<open>The end of a completed run: the answer is journaled as committed and the provider shows it.\<close>

definition completed :: "(string \<Rightarrow> string) \<Rightarrow> dict \<Rightarrow> plan_texts \<Rightarrow> ('r \<Rightarrow> response) \<Rightarrow> dict \<Rightarrow> 'r saga \<Rightarrow> bool" where
  "completed sha plan c view d s = (dget d ''status'' = JStr ''COMMITTED'' \<and> live sha plan view {pt_target c} (sha (pt_desired c)) s
     \<and> resumable plan d \<and> sg_journal s (str_of (dget plan ''saga_id'')) = Some (Inr (JObj d)))"

lemma wp_set_live:
  assumes "live sha plan view L h s" "k \<in> {''status'', ''last_error''}" "\<And>s'. live sha plan view L h s' \<Longrightarrow> sg_plan s' = dput k v (sg_plan s) \<Longrightarrow> Q () s'"
  shows "wp (set_field k v) Q E s"
  unfolding set_field_def wp_put by (rule assms(3)) (use assms(1,2) in \<open>auto simp: live_def ready_def\<close>)

lemma wp_save_done:
  assumes "setting sha plan c t view" "live sha plan view {pt_target c} (sha (pt_desired c)) s" "dget (sg_plan s) ''status'' = JStr ''COMMITTED''"
  shows "wp (bindP (getP sg_plan) (save clock)) (completed sha plan c view) never s"
  unfolding wp_bind wp_get
  by (rule ready_save [OF settingD(3) [OF assms(1)]]) (use assms(2,3) in \<open>auto simp: completed_def live_def ready_def\<close>)

lemma wp_verify_live:
  assumes set: "setting sha plan c t view" and "live sha plan view {pt_target c} (sha (pt_desired c)) s"
  shows "wp (verify_stage sha clock t) (completed sha plan c view) never s"
  unfolding verify_stage_def wp_bind [of "get_issue t"]
proof (rule wp_read_live [OF settingD(2,4) [OF set] assms(2)])
  fix s' assume l: "live sha plan view {pt_target c} (sha (pt_desired c)) s'"
  have "wp (bindP (mark n) (\<lambda>_. bindP (set_field ''status'' (JStr ''COMMITTED'')) (\<lambda>_. bindP (set_field ''last_error'' JNull)
     (\<lambda>_. bindP (getP sg_plan) (save clock))))) (completed sha plan c view) never s'" for n
    unfolding wp_bind [of "mark n"] wp_bind [of "set_field ''status'' (JStr ''COMMITTED'')"] wp_bind [of "set_field ''last_error'' JNull"]
    by (rule wp_mark_live [OF l], erule wp_set_live, simp, erule wp_set_live, simp, erule wp_save_done [OF set], simp)
  then show "wp (bindP (planP (\<lambda>p. classify_remote sha p (view (sg_remote s')))) (\<lambda>v. if v \<noteq> COMMITTED
      then raiseP (SagaError ''POSTCONDITION_FAILED'') else bindP (mark ''VERIFY_POSTCONDITION'') (\<lambda>_.
      bindP (set_field ''status'' (JStr ''COMMITTED'')) (\<lambda>_. bindP (set_field ''last_error'' JNull) (\<lambda>_. bindP (getP sg_plan) (save clock))))))
      (completed sha plan c view) never s'"
    by (simp add: wp_bind [of "planP _"] wp_planP live_classify [OF set l])
qed

lemma wp_apply_live:
  assumes set: "setting sha plan c t view" and l: "live sha plan view L h s"
    and L: "L \<subseteq> {pt_from c, pt_target c}" "L \<noteq> {}" "h \<in> {pt_original_sha c, sha (pt_desired c)}"
  shows "wp (apply_stages sha clock t (view (sg_remote s))) (completed sha plan c view) never s"
proof -
  have M: "insert (pt_target c) L \<subseteq> {pt_from c, pt_target c}" "insert (pt_target c) L \<noteq> {}" using L by auto
  have D: "insert (pt_target c) L - {pt_from c} = {pt_target c}" using L settingD(5) [OF set] by auto
  show ?thesis unfolding apply_stages_def
    by (rule wp_seq [OF wp_add_live [OF set l L]], elim conjE, hypsubst,
        rule wp_seq [OF wp_patch_live [OF set _ M L(3)]], assumption, elim conjE, hypsubst,
        rule wp_seq [OF wp_remove_live [OF set]], assumption, unfold D, erule wp_verify_live [OF set])
qed

lemma wp_set_field_eq: "wp (set_field k v) Q E s \<longleftrightarrow> Q () (s\<lparr>sg_plan := dput k v (sg_plan s)\<rparr>)"
  by (cases s) (simp add: set_field_def wp_simps)

lemma agrees_same: "same_transition plan plan \<Longrightarrow> agrees plan d \<Longrightarrow> same_transition plan d"
  by (simp add: same_transition_def IMMUTABLE_def agrees_get PLAN_FIELDS_def)

lemma wp_start_live:
  assumes set: "setting sha plan c t view" and l: "live sha plan view L h s"
  shows "wp (start_attempt clock) (\<lambda>_ s'. live sha plan view L h s' \<and> sg_remote s' = sg_remote s) never s"
proof -
  obtain n where n: "dget_or (sg_plan s) ''attempts'' (JInt 0) = JInt n" using live_ready(1) [OF l] by (auto simp: ready_def resumable_def)
  define s1 where "s1 = s\<lparr>sg_plan := dput ''last_error'' JNull (dput ''attempts'' (JInt (n + 1)) (dput ''status'' (JStr ''APPLYING'') (sg_plan s)))\<rparr>"
  have s1: "live sha plan view L h s1" using l by (auto simp: s1_def live_def ready_def resumable_attempts)
  have "wp (save_plan clock) (\<lambda>_ s'. live sha plan view L h s' \<and> sg_remote s' = sg_remote s) never s1"
    by (rule wp_save_plan_live [OF settingD(3) [OF set] s1]) (simp add: s1_def)
  then show ?thesis by (simp add: start_attempt_def wp_set_field_eq wp_simps wp_planP n s1_def)
qed

lemma wp_after_live:
  assumes set: "setting sha plan c t view" and l: "live sha plan view L h s"
    and v: "classify_remote sha (sg_plan s) (view (sg_remote s)) = Inr v" "v \<noteq> CONFLICT"
  shows "wp (after_opening sha clock t True (view (sg_remote s)) v) (completed sha plan c view) never s"
proof -
  have L: "L \<subseteq> {pt_from c, pt_target c}" "L \<noteq> {}" "h \<in> {pt_original_sha c, sha (pt_desired c)}"
    and com: "v = COMMITTED \<Longrightarrow> L = {pt_target c} \<and> h = sha (pt_desired c)"
    using v live_classify [OF set l] by (auto split: if_split_asm)
  show ?thesis
  proof (cases v)
    case COMMITTED
    define s1 where "s1 = s\<lparr>sg_plan := dput ''steps'' (JObj (map (\<lambda>n. (n, JStr ''PASS'')) STEP_NAMES)) (dput ''status'' (JStr ''COMMITTED'') (sg_plan s))\<rparr>"
    have "live sha plan view {pt_target c} (sha (pt_desired c)) s1"
      using l com [OF COMMITTED] by (auto simp: s1_def live_def ready_def resumable_steps)
    then have "wp (bindP (getP sg_plan) (save clock)) (completed sha plan c view) never s1"
      by (rule wp_save_done [OF set]) (simp add: s1_def)
    then show ?thesis by (simp add: after_opening_def COMMITTED wp_set_field_eq wp_simps s1_def)
  next
    case RESUMABLE
    have "wp (bindP (start_attempt clock) (\<lambda>_. tryP (apply_stages sha clock t (view (sg_remote s))) (recover clock))) (completed sha plan c view) never s"
    proof (rule wp_seq [OF wp_start_live [OF set l]])
      fix u s' assume a: "live sha plan view L h s' \<and> sg_remote s' = sg_remote s"
      then show "wp (tryP (apply_stages sha clock t (view (sg_remote s))) (recover clock)) (completed sha plan c view) never s'"
        unfolding wp_try using wp_mono [OF wp_apply_live [OF set _ L, of s' clock]] by (metis never_def)
    qed
    then show ?thesis by (simp add: after_opening_def RESUMABLE)
  qed (use v(2) in simp)
qed

lemma wp_run_live:
  assumes set: "setting sha plan c t view" and j: "journal_ok plan (sg_journal s)"
    and open': "\<And>d. sg_journal s (str_of (dget plan ''saga_id'')) = Some (Inr (JObj d)) \<Longrightarrow> dget d ''status'' \<noteq> JStr ''COMMITTED''"
    and new: "dget plan ''status'' \<noteq> JStr ''COMMITTED''"
    and sh: "shows_issue view L b (sg_remote s)" "classify_remote sha plan (view (sg_remote s)) \<in> {Inr COMMITTED, Inr RESUMABLE}"
  shows "wp (run_transition sha clock t True plan) (completed sha plan c view) (\<lambda>_ _. False) s"
proof -
  have n: "named plan" and r: "resumable plan plan" using settingD(1) [OF set] by (simp_all add: plan_is_def)
  have ok: "wp (open_plan clock plan) (\<lambda>_ s'. ready plan s' \<and> sg_remote s' = sg_remote s \<and> dget (sg_plan s') ''status'' \<noteq> JStr ''COMMITTED'') never s"
  proof -
    obtain i where i: "ditemE plan ''saga_id'' = Inr (JStr i)" "sha256_hex i" "str_of (dget plan ''saga_id'') = i"
      using n by (auto simp: named_def ditemE_dget)
    have t: "text_item plan ''saga_id'' = Inr i" using i by (simp add: text_item_def)
    consider (absent) "sg_journal s i = None" | (there) d where "sg_journal s i = Some (Inr (JObj d))" "d \<noteq> []" "resumable plan d"
      using j by (auto simp: journal_ok_def i split: option.splits sum.splits json.splits)
    then show ?thesis
    proof cases
      case absent
      have "wp (save_plan clock) (\<lambda>_ s'. ready plan s' \<and> sg_remote s' = sg_remote s \<and> dget (sg_plan s') ''status'' \<noteq> JStr ''COMMITTED'') never (s\<lparr>sg_plan := plan\<rparr>)"
        unfolding save_plan_def wp_simps by (rule ready_save [OF n]) (use j r new in \<open>auto simp: ready_def\<close>)
      then show ?thesis using absent by (simp add: open_plan_def wp_simps t load_def saga_file_def saga_path_def i)
    next
      case there
      then have "same_transition plan d" using agrees_same settingD(1) [OF set] by (simp add: plan_is_def resumable_def)
      then have d: "differs (JObj d) plan = Inr False" by (simp add: differs_def same_transition_def list_ex_iff list_all_iff)
      show ?thesis using there j open' d
        by (simp add: open_plan_def wp_simps t load_def saga_file_def saga_path_def i ready_def)
    qed
  qed
  show ?thesis unfolding run_transition_def
  proof (rule wp_seq [OF wp_mono [OF ok]], assumption, simp add: never_def)
    fix u s' assume o: "ready plan s' \<and> sg_remote s' = sg_remote s \<and> dget (sg_plan s') ''status'' \<noteq> JStr ''COMMITTED''"
    then have l: "live sha plan view L (sha b) s'" using sh(1) by (auto simp: live_def)
    have "wp (bindP (get_issue t) (\<lambda>first. bindP (planP (\<lambda>p. classify_remote sha p first)) (after_opening sha clock t True first)))
      (completed sha plan c view) never s'"
      unfolding wp_bind [of "get_issue t"]
    proof (rule wp_get_honest [OF settingD(2,4) [OF set]])
      fix sa assume a: "ready plan sa" "sg_remote sa = sg_remote s'"
      then have la: "live sha plan view L (sha b) sa" using l by (simp add: live_def)
      obtain v where v: "classify_remote sha (sg_plan sa) (view (sg_remote sa)) = Inr v" "v \<noteq> CONFLICT"
        using agrees_classify [OF live_ready(2) [OF la]] sh(2) a(2) o by auto
      show "wp (bindP (planP (\<lambda>p. classify_remote sha p (view (sg_remote sa)))) (after_opening sha clock t True (view (sg_remote sa)))) (completed sha plan c view) never sa"
        using wp_after_live [OF set la v] v(1) by (simp add: wp_bind wp_planP)
    qed (use o in simp)
    then show "wp (bindP (getP sg_plan) (\<lambda>p. if dget p ''status'' = JStr ''COMMITTED'' then retP p
      else bindP (get_issue t) (\<lambda>first. bindP (planP (\<lambda>p. classify_remote sha p first)) (after_opening sha clock t True first))))
      (completed sha plan c view) (\<lambda>_ _. False) s'"
      using o unfolding wp_bind [of "getP sg_plan"] wp_get by (auto simp: never_def elim!: wp_mono)
  qed
qed

section \<open>Resumption\<close>

text \<open>A sequence of runs of one plan, each with its own transport, mode and state of the provider.\<close>

definition tries :: "(string \<Rightarrow> string) \<Rightarrow> (nat \<Rightarrow> string) \<Rightarrow> dict \<Rightarrow> ('r transport \<times> bool \<times> 'r) list \<Rightarrow> 'r saga \<Rightarrow> 'r saga" where
  "tries sha clock plan ts s = foldl (\<lambda>s (t, b, m). snd (run_transition sha clock t b plan (s\<lparr>sg_remote := m\<rparr>))) s ts"

lemma tries_journal:
  assumes "named plan" "resumable plan plan" "journal_ok plan (sg_journal s)"
  shows "journal_ok plan (sg_journal (tries sha clock plan ts s))"
  using assms(3)
proof (induction ts arbitrary: s)
  case (Cons x ts)
  obtain t b m where x: "x = (t, b, m)" by (cases x)
  have "journal_ok plan (sg_journal (snd (run_transition sha clock t b plan (s\<lparr>sg_remote := m\<rparr>))))"
    by (rule run_keeps_journal [OF assms(1,2)]) (simp add: Cons.prems)
  from Cons.IH [OF this] show ?case by (simp add: tries_def x)
qed (simp add: tries_def)

definition plan_texts_of :: "plan_request \<Rightarrow> dict \<Rightarrow> (string \<Rightarrow> string) \<Rightarrow> plan_texts" where
  "plan_texts_of q issue sha = \<lparr>pt_path = ''/repos/'' @ pr_repo q @ ''/issues/'' @ py_str (dget issue ''number''), pt_from = pr_from_label q,
     pt_target = pr_target_label q, pt_desired = pr_desired_body q, pt_original_sha = sha (issue_body issue)\<rparr>"

lemma plan_texts_of_sel [simp]:
  "pt_path (plan_texts_of q issue sha) = ''/repos/'' @ pr_repo q @ ''/issues/'' @ py_str (dget issue ''number'')"
  "pt_from (plan_texts_of q issue sha) = pr_from_label q" "pt_target (plan_texts_of q issue sha) = pr_target_label q"
  "pt_desired (plan_texts_of q issue sha) = pr_desired_body q" "pt_original_sha (plan_texts_of q issue sha) = sha (issue_body issue)"
  by (simp_all add: plan_texts_of_def)

lemma made_plan_is:
  assumes "make_transition_plan sha q issue created updated = Inr plan" "\<And>x. sha256_hex (sha x)"
  shows "plan_is sha plan (plan_texts_of q issue sha)" "dget plan ''status'' = JStr ''PLANNED''"
proof -
  note m = make_planE [OF assms(1)]
  show "dget plan ''status'' = JStr ''PLANNED''" by (simp add: m(1) new_plan_def Let_def)
  have "named plan" unfolding m(1) named_def new_plan_def Let_def
    by (rule exI [of _ "transition_key sha (JStr (pr_repo q)) (dget issue ''number'') (JStr (pr_lease q)) (JStr (pr_from_state q))
      (JStr (pr_to_state q)) (JStr (pr_policy_hash q))"]) (simp add: transition_key_def assms(2))
  moreover have "resumable plan plan" by (simp add: m(1) resumable_def new_plan_def Let_def)
  moreover have "same_transition plan plan" using m(1,2) new_plan_refl by simp
  ultimately show "plan_is sha plan (plan_texts_of q issue sha)" using m(3-5)
    by (simp add: plan_is_def) (simp add: m(1) new_plan_def Let_def issue_path_def)
qed

lemma completed_rerun:
  assumes "plan_is sha plan c" "completed sha plan c view d s"
  shows "\<exists>s'. run_transition sha clock t a plan s = (Inr d, s') \<and> sg_trace s' = sg_trace s \<and> sg_journal s' = sg_journal s"
proof -
  obtain i where i: "ditemE plan ''saga_id'' = Inr (JStr i)" "sha256_hex i" "str_of (dget plan ''saga_id'') = i"
    using assms(1) by (auto simp: plan_is_def named_def ditemE_dget)
  have d: "sg_journal s i = Some (Inr (JObj d))" "resumable plan d" "dget d ''status'' = JStr ''COMMITTED''"
    using assms(2) i(3) by (simp_all add: completed_def)
  then have "same_transition plan d" using agrees_same assms(1) by (simp add: plan_is_def resumable_def)
  then have "differs (JObj d) plan = Inr False" by (simp add: differs_def same_transition_def list_ex_iff list_all_iff)
  moreover have "text_item plan ''saga_id'' = Inr i" using i by (simp add: text_item_def)
  moreover have "d \<noteq> []" using d(3) by auto
  ultimately show ?thesis
    using d i by (simp add: run_transition_def open_plan_def run_simps load_def saga_file_def saga_path_def)
qed

text \<open>C33. However many runs of a planned transition have failed before, with whatever answers of
  the provider and wherever they stopped: unless the journal says the transition is committed, one
  further run against a provider that follows its documentation and shows the issue in any
  half-done or finished state of this transition commits it.  The provider then shows exactly the
  target label and a body of the desired digest, and running it once more sends nothing and answers
  the same.\<close>

theorem saga_resumes_to_commit:
  assumes "make_transition_plan sha q issue created updated = Inr plan" and "\<And>x. sha256_hex (sha x)"
    and "sg_journal s0 (str_of (dget plan ''saga_id'')) = None" and "s = tries sha clock plan ts s0"
    and "\<And>d. sg_journal s (str_of (dget plan ''saga_id'')) = Some (Inr (JObj d)) \<Longrightarrow> dget d ''status'' \<noteq> JStr ''COMMITTED''"
    and "honest t (''/repos/'' @ pr_repo q @ ''/issues/'' @ py_str (dget issue ''number'')) view"
    and "shows_issue view L b m" and "L \<subseteq> {pr_from_label q, pr_target_label q}" and "L \<noteq> {}"
    and "sha b \<in> {sha (issue_body issue), sha (pr_desired_body q)}"
  shows "\<exists>d s'. run_transition sha clock t True plan (s\<lparr>sg_remote := m\<rparr>) = (Inr d, s') \<and> dget d ''status'' = JStr ''COMMITTED''
    \<and> (\<exists>b'. shows_issue view {pr_target_label q} b' (sg_remote s') \<and> sha b' = sha (pr_desired_body q))
    \<and> (\<exists>s''. run_transition sha clock t' a plan s' = (Inr d, s'') \<and> sg_trace s'' = sg_trace s')"
proof -
  note p = made_plan_is [OF assms(1,2)]
  let ?c = "plan_texts_of q issue sha"
  have set: "setting sha plan ?c t view" using p(1) assms(6) by (simp add: setting_def)
  have "journal_ok plan (sg_journal s)" unfolding assms(4)
    by (rule tries_journal) (use p(1) assms(3) in \<open>auto simp: plan_is_def journal_ok_def\<close>)
  moreover have "classify_remote sha plan (view m) \<in> {Inr COMMITTED, Inr RESUMABLE}"
    using classify_shown [OF p(1) assms(7)] assms(8-10) by auto
  ultimately have w: "wp (run_transition sha clock t True plan) (completed sha plan ?c view) (\<lambda>_ _. False) (s\<lparr>sg_remote := m\<rparr>)"
    using assms(5,7) p(2) by (intro wp_run_live [OF set]) auto
  obtain r s' where r: "run_transition sha clock t True plan (s\<lparr>sg_remote := m\<rparr>) = (r, s')" by (cases "run_transition sha clock t True plan (s\<lparr>sg_remote := m\<rparr>)")
  with w obtain d where d: "r = Inr d" "completed sha plan ?c view d s'" by (cases r) (auto simp: wp_def)
  then show ?thesis using r completed_rerun [OF p(1) d(2), of clock t' a] by (auto simp: completed_def live_def)
qed

end
