(* ===== verification/SagaSample.thy ===== *)
theory SagaSample
  imports SagaResume
begin

text \<open>
  A provider that follows the documentation: the issue store of the repository's saga tests
  (\<open>FakeTransport\<close> in \<open>.adwf/tests/test_remote_saga.py\<close>), and the two saga properties applied to it.
\<close>

record issue_store =
  is_body :: string
  is_labels :: "string list"
  is_revision :: nat

definition label_item :: "string \<Rightarrow> json" where
  "label_item l = JObj [(''name'', JStr l)]"

definition store_view :: "issue_store \<Rightarrow> response" where
  "store_view m = \<lparr>rp_data = [(''number'', JInt 7), (''body'', JStr (is_body m)), (''updated_at'', JStr ''T''),
     (''labels'', JList (map label_item (is_labels m)))], rp_etag = Some (nat_str (is_revision m))\<rparr>"

definition store_changed :: "issue_store \<Rightarrow> issue_store \<Rightarrow> response res \<times> issue_store" where
  "store_changed m m' = (let n = m'\<lparr>is_revision := is_revision m + 1\<rparr> in (Inr (store_view n), n))"

definition store_transport :: "issue_store transport" where
  "store_transport rq m = (if rq_method rq = ''GET'' then (Inr (store_view m), m)
     else if rq_etag rq \<noteq> None \<and> rq_etag rq \<noteq> rp_etag (store_view m) then (Inl (RuntimeError ''PRECONDITION_FAILED''), m)
     else case (rq_method rq = ''POST'', rq_payload rq) of
       (True, Some [(_, JList ls)]) \<Rightarrow> store_changed m (m\<lparr>is_labels := is_labels m @ filter (\<lambda>l. l \<notin> set (is_labels m)) (map str_of ls)\<rparr>)
     | (False, Some [(_, JStr b)]) \<Rightarrow> store_changed m (m\<lparr>is_body := b\<rparr>)
     | _ \<Rightarrow> store_changed m (m\<lparr>is_labels := filter (\<lambda>l. l \<noteq> last (split_on (CHR ''/'') (rq_path rq))) (is_labels m)\<rparr>))"

lemma store_labels: "machine_labels (rp_data (store_view m)) = Inr (filter (\<lambda>l. l \<in> set MACHINE_LABELS) (is_labels m))"
proof -
  have f: "filterE (\<lambda>i. bindE (getE i ''name'') (\<lambda>n. in_set n MACHINE_LABELS)) (map label_item ls)
    = Inr (map label_item (filter (\<lambda>l. l \<in> set MACHINE_LABELS) ls))" for ls
    by (induction ls) (simp_all add: label_item_def)
  have g: "py_str (dget (dict_of (label_item l)) ''name'') = l" for l by (simp add: label_item_def)
  show ?thesis by (simp add: machine_labels_def store_view_def f o_def g)
qed

lemma store_shows: "shows_issue store_view L b m \<longleftrightarrow> set (is_labels m) \<inter> set MACHINE_LABELS = L \<and> is_body m = b"
proof -
  have "issue_body (rp_data (store_view m)) = is_body m" by (simp add: issue_body_def store_view_def py_or_def)
  then show ?thesis by (auto simp: shows_issue_def store_labels)
qed

lemma split_on_last: "c \<notin> set l \<Longrightarrow> \<exists>w ws. split_on c (p @ c # l) = w # ws @ [l]"
proof (induction p)
  case Nil
  then have "split_on c l = [l]" by (induction l) auto
  then show ?case by simp
next
  case (Cons x p)
  then obtain w ws where w: "split_on c (p @ c # l) = w # ws @ [l]" by blast
  show ?case
  proof (cases "x = c")
    case True
    with w have "split_on c ((x # p) @ c # l) = [] # (w # ws) @ [l]" by simp
    then show ?thesis by blast
  qed (use w in simp)
qed

lemma last_split_on: "c \<notin> set l \<Longrightarrow> last (split_on c (p @ c # l)) = l"
  using split_on_last [of c l p] by auto

lemma machine_label_plain: "l \<in> set MACHINE_LABELS \<Longrightarrow> CHR ''/'' \<notin> set l"
  by (auto simp: MACHINE_LABELS_def)

lemma store_honest: "honest store_transport path store_view"
proof -
  have p: "accepts store_transport store_view ''POST'' (path @ ''/labels'') (Some [(''labels'', JList [JStr l])]) m (shows_issue store_view (insert l L) b)"
    if "shows_issue store_view L b m" "l \<in> set MACHINE_LABELS" for L b m l
    using that by (auto simp: accepts_def store_transport_def store_changed_def Let_def store_shows)
  have u: "accepts store_transport store_view ''PATCH'' path (Some [(''body'', JStr b')]) m (shows_issue store_view L b')"
    if "shows_issue store_view L b m" for L b b' m
    using that by (auto simp: accepts_def store_transport_def store_changed_def Let_def store_shows)
  have d: "accepts store_transport store_view ''DELETE'' (path @ ''/labels/'' @ l) None m (shows_issue store_view (L - {l}) b)"
    if "shows_issue store_view L b m" "l \<in> set MACHINE_LABELS" for L b m l
    using that last_split_on [OF machine_label_plain [OF that(2)], of "path @ ''/labels''"]
    by (auto simp: accepts_def store_transport_def store_changed_def Let_def store_shows)
  show ?thesis unfolding honest_def using p u d by (simp add: store_transport_def get_request_def)
qed

definition saga_sha :: "string \<Rightarrow> string" where
  "saga_sha x = replicate 64 (if x = ''State: REVIEW'' then CHR ''b'' else CHR ''a'')"

lemma saga_sha_hex: "sha256_hex (saga_sha x)"
  unfolding saga_sha_def by (rule hex_n_replicate) (simp add: is_hex_def)

definition saga_request :: plan_request where
  "saga_request = \<lparr>pr_repo = ''o/r'', pr_lease = ''lease-7'', pr_from_label = ''roadmap:in-progress'', pr_target_label = ''roadmap:review'',
     pr_from_state = ''IN_PROGRESS'', pr_to_state = ''REVIEW'', pr_desired_body = ''State: REVIEW'', pr_policy_hash = replicate 64 (CHR ''a'')\<rparr>"

definition saga_store :: issue_store where
  "saga_store = \<lparr>is_body = ''State: IN_PROGRESS'', is_labels = [''roadmap:in-progress'', ''type:bug''], is_revision = 1\<rparr>"

definition saga_issue :: dict where
  "saga_issue = rp_data (store_view saga_store)"

definition saga_plan :: dict where
  "saga_plan = new_plan saga_sha saga_request saga_issue ''T'' ''T''"

definition saga_start :: "issue_store saga" where
  "saga_start = \<lparr>sg_plan = [], sg_journal = (\<lambda>_. None), sg_remote = saga_store, sg_trace = [], sg_reads = 0\<rparr>"

lemma saga_planned: "make_transition_plan saga_sha saga_request saga_issue ''T'' ''T'' = Inr saga_plan"
  by (simp add: make_transition_plan_def saga_request_def saga_issue_def store_view_def saga_store_def MACHINE_LABELS_def label_names_def
     label_item_def hashE_def issue_body_def py_or_def saga_plan_def)

lemma saga_body: "issue_body saga_issue = ''State: IN_PROGRESS''"
  by (simp add: issue_body_def saga_issue_def store_view_def saga_store_def py_or_def)

lemma saga_changes_only_what_it_read_witness:
  "\<exists>p. guarded (permitted saga_sha p) (sg_trace (snd (run_transition saga_sha (\<lambda>_. ''T'') store_transport True saga_plan saga_start)))"
  using saga_changes_only_what_it_read [OF saga_planned, of saga_start "\<lambda>_. ''T''" store_transport True,
      OF _ surjective_pairing]
  by (auto simp: saga_start_def)

lemma saga_resumes_to_commit_witness:
  "\<exists>d s'. run_transition saga_sha (\<lambda>_. ''T'') store_transport True saga_plan saga_start = (Inr d, s') \<and> dget d ''status'' = JStr ''COMMITTED''"
proof -
  have s: "tries saga_sha (\<lambda>_. ''T'') saga_plan [] saga_start = saga_start" by (simp add: tries_def)
  have v: "shows_issue store_view {''roadmap:in-progress''} ''State: IN_PROGRESS'' saga_store"
    by (auto simp: store_shows saga_store_def MACHINE_LABELS_def)
  have r: "saga_start\<lparr>sg_remote := saga_store\<rparr> = saga_start" by (simp add: saga_start_def)
  have "\<exists>d s'. run_transition saga_sha (\<lambda>_. ''T'') store_transport True saga_plan (saga_start\<lparr>sg_remote := saga_store\<rparr>) = (Inr d, s')
    \<and> dget d ''status'' = JStr ''COMMITTED''
    \<and> (\<exists>b'. shows_issue store_view {pr_target_label saga_request} b' (sg_remote s') \<and> saga_sha b' = saga_sha (pr_desired_body saga_request))
    \<and> (\<exists>s''. run_transition saga_sha (\<lambda>_. ''T'') store_transport True saga_plan s' = (Inr d, s'') \<and> sg_trace s'' = sg_trace s')"
    by (rule saga_resumes_to_commit [OF saga_planned saga_sha_hex _ s [symmetric] _ store_honest v])
       (simp_all add: saga_start_def saga_body saga_request_def)
  then show ?thesis unfolding r by blast
qed

end
