(* ===== verification/Regex.thy ===== *)
theory Regex
  imports Prelude
begin

text \<open>
  The part of Python's regular expressions that the framework's content scans use: character
  classes, word boundaries, sequence, alternative, option and repetition.  A position in a text is
  the character before it and the rest of the text; \<open>rx_run\<close> lists the positions a match can end at.
  \<open>re_search\<close> looks for a match anywhere.  The semantics is the inductive relation \<open>rx_matches\<close>, and
  \<open>rx_run\<close> computes exactly its end positions.
\<close>

section \<open>Expressions and positions\<close>

datatype rx =
    RChar "char \<Rightarrow> bool"
  | RBound
  | RCat rx rx
  | ROr rx rx
  | RStar rx
  | REmpty

type_synonym position = "char option \<times> string"

definition word_char :: "char \<Rightarrow> bool" where
  "word_char c = (let n = of_char c :: nat in
     is_alnum c \<or> c = CHR ''_'' \<or> n \<in> {170, 178, 179, 181, 185, 186, 188, 189, 190}
     \<or> 192 \<le> n \<and> n \<noteq> 215 \<and> n \<noteq> 247)"

fun at_boundary :: "position \<Rightarrow> bool" where
  "at_boundary (p, s) = ((case p of None \<Rightarrow> False | Some c \<Rightarrow> word_char c) \<noteq> (case s of [] \<Rightarrow> False | c # _ \<Rightarrow> word_char c))"

inductive rx_matches :: "rx \<Rightarrow> position \<Rightarrow> position \<Rightarrow> bool" where
  RChar: "f c \<Longrightarrow> rx_matches (RChar f) (p, c # s) (Some c, s)"
| RBound: "at_boundary x \<Longrightarrow> rx_matches RBound x x"
| RCat: "rx_matches r x y \<Longrightarrow> rx_matches r' y z \<Longrightarrow> rx_matches (RCat r r') x z"
| OrL: "rx_matches r x y \<Longrightarrow> rx_matches (ROr r r') x y"
| OrR: "rx_matches r' x y \<Longrightarrow> rx_matches (ROr r r') x y"
| Stop: "rx_matches (RStar r) x x"
| More: "rx_matches r x y \<Longrightarrow> rx_matches (RStar r) y z \<Longrightarrow> rx_matches (RStar r) x z"
| REmpty: "rx_matches REmpty x x"

inductive_cases rx_matches_RCharE: "rx_matches (RChar f) x y"
inductive_cases rx_matches_BoundE: "rx_matches RBound x y"
inductive_cases rx_matches_CatE: "rx_matches (RCat r r') x z"
inductive_cases rx_matches_OrE: "rx_matches (ROr r r') x z"
inductive_cases rx_matches_EmptyE: "rx_matches REmpty x y"

section \<open>The matcher\<close>

fun step_one :: "(char \<Rightarrow> bool) \<Rightarrow> position \<Rightarrow> position list" where
  "step_one f (p, []) = []"
| "step_one f (p, c # s) = (if f c then [(Some c, s)] else [])"

text \<open>Repetition: every round that makes progress shortens the rest, so the length of the text is fuel enough.\<close>

primrec rounds :: "(position \<Rightarrow> position list) \<Rightarrow> nat \<Rightarrow> position \<Rightarrow> position list" where
  "rounds f 0 x = [x]"
| "rounds f (Suc n) x = x # concat (map (rounds f n) (filter (\<lambda>y. length (snd y) < length (snd x)) (f x)))"

primrec rx_run :: "rx \<Rightarrow> position \<Rightarrow> position list" where
  "rx_run (RChar f) x = step_one f x"
| "rx_run RBound x = (if at_boundary x then [x] else [])"
| "rx_run (RCat r r') x = concat (map (rx_run r') (rx_run r x))"
| "rx_run (ROr r r') x = rx_run r x @ rx_run r' x"
| "rx_run (RStar r) x = rounds (rx_run r) (length (snd x)) x"
| "rx_run REmpty x = [x]"

primrec search_from :: "rx \<Rightarrow> char option \<Rightarrow> string \<Rightarrow> bool" where
  "search_from r p [] = (rx_run r (p, []) \<noteq> [])"
| "search_from r p (c # s) = (rx_run r (p, c # s) \<noteq> [] \<or> search_from r (Some c) s)"

definition re_search :: "rx \<Rightarrow> string \<Rightarrow> bool" where
  "re_search r s = search_from r None s"

section \<open>The matcher computes the semantics\<close>

text \<open>A match never gives text back, and a round without progress ends where it began.\<close>

lemma matches_shrink: "rx_matches r x y \<Longrightarrow> length (snd y) \<le> length (snd x)"
  by (induction rule: rx_matches.induct) auto

lemma matches_suffix: "rx_matches r x y \<Longrightarrow> y = x \<or> length (snd y) < length (snd x)"
  by (induction rule: rx_matches.induct) auto

lemma rounds_sound:
  assumes "\<And>x y. y \<in> set (f x) \<Longrightarrow> rx_matches r x y"
  shows "y \<in> set (rounds f n x) \<Longrightarrow> rx_matches (RStar r) x y"
proof (induction n arbitrary: x)
  case (Suc n)
  then consider "y = x" | z where "z \<in> set (f x)" "y \<in> set (rounds f n z)" by auto
  then show ?case
  proof cases
    case 1
    then show ?thesis by (simp add: rx_matches.Stop)
  next
    case 2
    show ?thesis by (rule rx_matches.More [OF assms [OF 2(1)] Suc.IH [OF 2(2)]])
  qed
qed (auto intro: rx_matches.Stop)

lemma rounds_complete:
  assumes "\<And>x y. rx_matches r x y \<Longrightarrow> y \<in> set (f x)"
  shows "rx_matches q x y \<Longrightarrow> q = RStar r \<Longrightarrow> length (snd x) \<le> n \<Longrightarrow> y \<in> set (rounds f n x)"
proof (induction arbitrary: n rule: rx_matches.induct)
  case (More r' x y z)
  show ?case
  proof (cases "y = x")
    case True
    then show ?thesis using More by simp
  next
    case False
    then have l: "length (snd y) < length (snd x)" using matches_suffix [OF More(1)] by blast
    then obtain m where n: "n = Suc m" using More.prems(2) by (cases n) auto
    have "z \<in> set (rounds f m y)" using More.IH(2) More.prems l n by simp
    moreover have "y \<in> set (f x)" using assms More by simp
    ultimately show ?thesis using l n by (cases y) auto
  qed
next
  case (Stop r' x)
  then show ?case by (cases n) auto
qed simp_all

lemma run_sound: "y \<in> set (rx_run r x) \<Longrightarrow> rx_matches r x y"
proof (induction r arbitrary: x y)
  case (RChar f)
  then show ?case by (cases "(f, x)" rule: step_one.cases) (auto intro: rx_matches.intros split: if_split_asm)
next
  case (RStar r)
  then show ?case using rounds_sound [of "rx_run r" r] by auto
next
  case (RCat r r')
  from RCat.prems obtain z where z: "z \<in> set (rx_run r x)" "y \<in> set (rx_run r' z)" by auto
  show ?case by (rule rx_matches.RCat [OF RCat.IH(1) [OF z(1)] RCat.IH(2) [OF z(2)]])
qed (auto intro: rx_matches.intros split: if_split_asm)

lemma run_complete: "rx_matches r x y \<Longrightarrow> y \<in> set (rx_run r x)"
proof (induction r arbitrary: x y)
  case (RStar r)
  then show ?case using rounds_complete [of r "rx_run r"] by simp
next
  case (RCat r r')
  from RCat.prems obtain z where z: "rx_matches r x z" "rx_matches r' z y" by (rule rx_matches_CatE)
  show ?case using RCat.IH(1) [OF z(1)] RCat.IH(2) [OF z(2)] by (simp add: bexI [of _ z])
qed (auto elim: rx_matches_RCharE rx_matches_BoundE rx_matches_CatE rx_matches_OrE rx_matches_EmptyE)

lemma run_exact: "set (rx_run r x) = {y. rx_matches r x y}"
  using run_sound run_complete by blast

text \<open>The position after \<open>p\<close> in a text that begins after the character \<open>c\<close>.\<close>

definition before :: "char option \<Rightarrow> string \<Rightarrow> char option" where
  "before c p = (if p = [] then c else Some (last p))"

lemma search_from_iff: "search_from r c s \<longleftrightarrow> (\<exists>p t y. s = p @ t \<and> rx_matches r (before c p, t) y)"
proof (induction s arbitrary: c)
  case Nil
  then show ?case using run_exact [of r "(c, [])"] by (auto simp: before_def set_empty [symmetric] simp del: set_empty)
next
  case (Cons x s)
  have h: "rx_run r (c, x # s) \<noteq> [] \<longleftrightarrow> (\<exists>y. rx_matches r (c, x # s) y)"
    using run_exact [of r "(c, x # s)"] by (auto simp: set_empty [symmetric] simp del: set_empty)
  have b: "before (Some x) p = before c (x # p)" for p by (simp add: before_def)
  show ?case (is "_ \<longleftrightarrow> ?R")
  proof
    assume "search_from r c (x # s)"
    then have "(\<exists>y. rx_matches r (c, x # s) y) \<or> (\<exists>p t y. s = p @ t \<and> rx_matches r (before (Some x) p, t) y)"
      unfolding search_from.simps h Cons.IH .
    then consider y where "rx_matches r (c, x # s) y" | p t y where "s = p @ t" "rx_matches r (before (Some x) p, t) y"
      by blast
    then show ?R
    proof cases
      case 1
      then have "x # s = [] @ (x # s) \<and> rx_matches r (before c [], x # s) y" by (simp add: before_def)
      then show ?thesis by blast
    next
      case 2
      then have "x # s = (x # p) @ t \<and> rx_matches r (before c (x # p), t) y" by (simp add: b)
      then show ?thesis by blast
    qed
  next
    assume ?R
    then obtain p t y where p: "x # s = p @ t" "rx_matches r (before c p, t) y" by blast
    show "search_from r c (x # s)"
    proof (cases p)
      case Nil
      then have "rx_matches r (c, x # s) y" using p by (simp add: before_def)
      then have "rx_run r (c, x # s) \<noteq> []" using h by blast
      then show ?thesis by simp
    next
      case (Cons z q)
      then have "s = q @ t \<and> rx_matches r (before (Some x) q, t) y" using p b by simp
      then have "search_from r (Some x) s" unfolding Cons.IH by blast
      then show ?thesis by simp
    qed
  qed
qed

lemma re_search_iff: "re_search r s \<longleftrightarrow> (\<exists>p t y. s = p @ t \<and> rx_matches r (before None p, t) y)"
  by (simp add: re_search_def search_from_iff)

section \<open>Abbreviations of the expressions in use\<close>

definition Lit :: "string \<Rightarrow> rx" where
  "Lit s = foldr (\<lambda>c r. RCat (RChar (\<lambda>d. d = c)) r) s REmpty"

text \<open>A literal under \<open>re.IGNORECASE\<close>, given in lower case.\<close>

definition ILit :: "string \<Rightarrow> rx" where
  "ILit s = foldr (\<lambda>c r. RCat (RChar (\<lambda>d. lower_char d = c)) r) s REmpty"

definition Seq :: "rx list \<Rightarrow> rx" where
  "Seq rs = foldr RCat rs REmpty"

definition Plus :: "rx \<Rightarrow> rx" where
  "Plus r = RCat r (RStar r)"

definition Opt :: "rx \<Rightarrow> rx" where
  "Opt r = ROr r REmpty"

definition AnyOf :: "string \<Rightarrow> rx" where
  "AnyOf s = RChar (\<lambda>c. c \<in> set s)"

text \<open>\<open>r{n,}\<close>.\<close>

definition AtLeast :: "nat \<Rightarrow> rx \<Rightarrow> rx" where
  "AtLeast n r = Seq (replicate n r @ [RStar r])"


end
