(* ===== verification/SessionContinuity.thy ===== *)
theory SessionContinuity
  imports Contracts Regex LeaseRegistry
begin

text \<open>
  Session continuity (\<open>.adwf/lib/session_continuity.py\<close>): checkpoints that carry facts between
  sessions, their validation (the contract schema, the shape of each field, and the scan that keeps
  private reasoning and secrets out), their construction, and the comparison of a checkpoint with
  the provider's present commits.  \<open>schema\<close> is the checkpoint schema read from
  \<open>.adwf/schemas\<close>, \<open>rx\<close> the regular-expression search the contract validator uses for its patterns.
\<close>

section \<open>Tables\<close>

definition CHECKPOINT_BOUNDARIES :: "string list" where
  "CHECKPOINT_BOUNDARIES = [''HUMAN_REQUIRED'', ''OWNER_ATTESTATION_REQUIRED'', ''UAT_REQUIRED'', ''SECURITY_BOUNDARY'',
    ''DESTRUCTIVE_BOUNDARY'', ''SECRETS_BOUNDARY'', ''CAPABILITY_UNAVAILABLE'', ''EXTERNAL_WAIT'', ''AUTHORITY_EXHAUSTED'',
    ''ROADMAP_END'', ''EXECUTOR_LIMIT'']"

definition NON_BOUNDARIES :: "string list" where
  "NON_BOUNDARIES = [''COMMIT'', ''PR_CREATED'', ''PR_OPENED'', ''MERGE'', ''MERGED'', ''TEST_PASS'', ''CI_PASS'']"

definition CONTINUATION_CAPABILITIES :: "string list" where
  "CONTINUATION_CAPABILITIES = [''GENERIC_PROVIDER_RECONCILE'', ''PRIVATE_SESSION_ACCELERATOR_AVAILABLE'']"

definition FORBIDDEN_KEY_FRAGMENTS :: "string list" where
  "FORBIDDEN_KEY_FRAGMENTS = [''chain_of_thought'', ''reasoning_trace'', ''private_reasoning'', ''raw_prompt'',
    ''chat_transcript'', ''access_token'', ''refresh_token'', ''api_key'', ''password'', ''secret'', ''credential'',
    ''conversation_id'', ''session_token'']"

definition token_char :: rx where
  "token_char = RChar (\<lambda>c. is_alnum c \<or> c = CHR ''_'' \<or> c = CHR ''-'')"

definition FORBIDDEN_TEXT_PATTERNS :: "rx list" where
  "FORBIDDEN_TEXT_PATTERNS = [
     Seq [RBound, Lit ''sk-'', AtLeast 12 token_char, RBound],
     Seq [RBound, Lit ''gh'', AnyOf ''opusr'', Lit ''_'', AtLeast 20 (RChar is_alnum), RBound],
     Seq [Lit ''-----BEGIN '', Opt (ROr (Lit ''RSA '') (ROr (Lit ''EC '') (Lit ''OPENSSH ''))), Lit ''PRIVATE KEY-----'']]"

definition gap :: rx where
  "gap = AnyOf '' _-''"

definition blanks :: rx where
  "blanks = RStar (RChar is_space)"

definition FORBIDDEN_PRIVATE_TEXT_PATTERNS :: "rx list" where
  "FORBIDDEN_PRIVATE_TEXT_PATTERNS = [
     Seq [RBound, ILit ''chain'', RStar gap, ILit ''of'', RStar gap, ILit ''thought'', RBound],
     Seq [RBound, ROr (ILit ''private'') (ROr (ILit ''hidden'') (ILit ''internal'')), Plus gap, ILit ''reasoning'', RBound],
     Seq [RBound, ILit ''reasoning'', Plus gap, ILit ''trace'', RBound],
     Seq [RBound, ILit ''raw'', Plus gap, ILit ''prompt'', RBound],
     Seq [RBound, ILit ''chat'', Plus gap, ILit ''transcript'', RBound],
     Seq [RBound, ROr (ILit ''conversation'') (ROr (ILit ''session'') (ILit ''chat'')), RStar gap,
       ROr (ILit ''id'') (ROr (ILit ''identifier'') (ILit ''token'')), RBound, blanks, AnyOf '':='', blanks,
       Plus (RChar (\<lambda>c. \<not> is_space c))]]"

section \<open>Validation\<close>

definition checkpoint_digest :: "(string \<Rightarrow> string) \<Rightarrow> dict \<Rightarrow> string" where
  "checkpoint_digest sha v = sha (canonical (JObj (ddel ''checkpoint_digest'' v)))"

definition checkpoint_schema_errors :: "(string \<Rightarrow> string \<Rightarrow> bool res) \<Rightarrow> json \<Rightarrow> dict \<Rightarrow> string list res" where
  "checkpoint_schema_errors rx schema v = bindE (validate rx (JObj v) schema ''$'') (\<lambda>fs.
     Inr (map (\<lambda>(p, c). ''CONTINUITY_SCHEMA:'' @ p @ '':'' @ c) fs))"

definition scan_text :: "string \<Rightarrow> string \<Rightarrow> string list" where
  "scan_text path s =
     flag (list_ex (\<lambda>r. re_search r s) FORBIDDEN_TEXT_PATTERNS) (''CONTINUITY_FORBIDDEN_SECRET_LIKE_TEXT:'' @ path) @
     flag (list_ex (\<lambda>r. re_search r s) FORBIDDEN_PRIVATE_TEXT_PATTERNS) (''CONTINUITY_FORBIDDEN_PRIVATE_TEXT:'' @ path)"

definition forbidden_key :: "string \<Rightarrow> bool" where
  "forbidden_key k = list_ex (contains (lower (strip k))) FORBIDDEN_KEY_FRAGMENTS"

lemma size_of_item: "v \<in> set xs \<Longrightarrow> size v < size (JList xs)"
  by (induction xs) auto

function scan_public_safe :: "string \<Rightarrow> json \<Rightarrow> string list" where
  "scan_public_safe path (JObj d) = concat (map (\<lambda>(k, v). flag (forbidden_key k) (''CONTINUITY_FORBIDDEN_FIELD:'' @ path @ ''.'' @ k) @
     scan_public_safe (path @ ''.'' @ k) v) d)"
| "scan_public_safe path (JList xs) = concat (map (\<lambda>(i, v). scan_public_safe (path @ ''['' @ nat_str i @ '']'') v) (zip [0..<length xs] xs))"
| "scan_public_safe path (JStr s) = scan_text path s"
| "scan_public_safe path JNull = []"
| "scan_public_safe path (JBool b) = []"
| "scan_public_safe path (JInt i) = []"
| "scan_public_safe path (JFloat f r) = []"
  by pat_completeness auto
termination
  by (relation "measure (size \<circ> snd)") (auto dest!: set_zip_rightD pair_size size_of_item)

definition text_of :: "dict \<Rightarrow> string \<Rightarrow> string" where
  "text_of d k = py_str (py_or (dget d k) (JStr []))"

definition observed_findings :: "json \<Rightarrow> string list" where
  "observed_findings v = (case v of
     JObj o' \<Rightarrow> if \<not> sha40 (text_of o' ''main_sha'') then [''CONTINUITY_OBSERVED_MAIN_SHA'']
       else flag (dget o' ''head_sha'' \<noteq> JNull \<and> \<not> sha40 (py_str (dget o' ''head_sha''))) ''CONTINUITY_OBSERVED_HEAD_SHA''
   | _ \<Rightarrow> [''CONTINUITY_OBSERVED_MAIN_SHA''])"

definition boundary_findings :: "string \<Rightarrow> string list" where
  "boundary_findings b = (if b \<in> set NON_BOUNDARIES then [''CONTINUITY_NOT_NATURAL_BOUNDARY'']
     else flag (b \<notin> set CHECKPOINT_BOUNDARIES) ''CONTINUITY_BOUNDARY_TYPE'')"

definition shape_findings :: "dict \<Rightarrow> string list" where
  "shape_findings v =
     flag (\<not> py_eq (dget v ''schema_version'') (JInt 1)) ''CONTINUITY_SCHEMA_VERSION'' @
     flag (strip (text_of v ''checkpoint_id'') = []) ''CONTINUITY_CHECKPOINT_ID'' @
     flag (\<not> is_int (dget v ''checkpoint_revision'') \<or> int_of (dget v ''checkpoint_revision'') < 0) ''CONTINUITY_CHECKPOINT_REVISION'' @
     flag (strip (text_of v ''project_identity'') = []) ''CONTINUITY_PROJECT_IDENTITY'' @
     flag (case dget v ''work_identity'' of JObj w \<Rightarrow> strip (text_of w ''roadmap_id'') = [] | _ \<Rightarrow> True) ''CONTINUITY_WORK_IDENTITY'' @
     flag (case dget v ''conflict_domains'' of JList ds \<Rightarrow> list_ex (\<lambda>d. strip (py_str d) = []) ds | _ \<Rightarrow> True) ''CONTINUITY_CONFLICT_DOMAINS'' @
     observed_findings (dget v ''observed_provider_state'') @
     boundary_findings (text_of v ''boundary_type'')"

definition summary_findings :: "dict \<Rightarrow> string list" where
  "summary_findings v = flag (strip (text_of v ''next_permitted_action'') = []) ''CONTINUITY_NEXT_ACTION'' @
     flag (strip (text_of v ''safe_handover_summary'') = [] \<or> 2000 < length (strip (text_of v ''safe_handover_summary''))) ''CONTINUITY_SAFE_SUMMARY''"

definition validate_checkpoint ::
    "(string \<Rightarrow> string) \<Rightarrow> (string \<Rightarrow> string \<Rightarrow> bool res) \<Rightarrow> json \<Rightarrow> json \<Rightarrow> string list res" where
  "validate_checkpoint sha rx schema value = (case value of JObj v \<Rightarrow>
     bindE (checkpoint_schema_errors rx schema v) (\<lambda>es.
     bindE (in_set (dget v ''continuation_capability'') CONTINUATION_CAPABILITIES) (\<lambda>capable.
       Inr (sort (remdups (es @ shape_findings v @ flag (\<not> capable) ''CONTINUITY_CAPABILITY'' @ summary_findings v @
         scan_public_safe ''$'' (JObj v) @
         flag (dget v ''checkpoint_digest'' \<noteq> JStr (checkpoint_digest sha v)) ''CONTINUITY_DIGEST'')))))
   | _ \<Rightarrow> Inr [''CONTINUITY_CHECKPOINT_NOT_OBJECT''])"

definition continuity_invalid :: "string list \<Rightarrow> exn" where
  "continuity_invalid errors = ValueError (''SESSION_CONTINUITY_INVALID:'' @ join '','' errors)"

section \<open>Construction and reconciliation\<close>

record checkpoint_request =
  cp_id :: json
  cp_revision :: int
  cp_project :: json
  cp_roadmap :: json
  cp_issue :: json
  cp_main_sha :: json
  cp_boundary :: json
  cp_next_action :: json
  cp_summary :: json
  cp_lease :: json
  cp_domains :: "string list"
  cp_pr_number :: json
  cp_head_sha :: json
  cp_branch :: json
  cp_transition :: json
  cp_evidence :: "json list"
  cp_pending :: dict
  cp_capability :: json
  cp_package_digest :: json
  cp_created :: string
  cp_updated :: string

definition no_pending :: dict where
  "no_pending = [(''provider'', JNull), (''object_ref'', JNull), (''status'', JNull)]"

definition issue_text :: "json \<Rightarrow> json" where
  "issue_text v = (if v = JNull then JNull else JStr (py_str v))"

definition checkpoint_body :: "checkpoint_request \<Rightarrow> string \<Rightarrow> dict" where
  "checkpoint_body q now = (let created = (if cp_created q = [] then now else cp_created q) in
     [(''schema_version'', JInt 1), (''checkpoint_id'', JStr (py_str (cp_id q))), (''checkpoint_revision'', JInt (cp_revision q)),
      (''project_identity'', JStr (py_str (cp_project q))),
      (''work_identity'', JObj [(''roadmap_id'', JStr (py_str (cp_roadmap q))), (''issue_id'', issue_text (cp_issue q)),
         (''ai_work_package_digest'', cp_package_digest q)]),
      (''lease_identity'', cp_lease q), (''conflict_domains'', JList (map JStr (sort (remdups (cp_domains q))))),
      (''observed_provider_state'', JObj [(''main_sha'', JStr (py_str (cp_main_sha q))), (''pr_number'', cp_pr_number q),
         (''head_sha'', cp_head_sha q), (''branch'', cp_branch q)]),
      (''last_verified_transition'', JStr (py_str (cp_transition q))), (''evidence_refs'', JList (cp_evidence q)),
      (''boundary_type'', JStr (py_str (cp_boundary q))),
      (''pending_external'', JObj (if cp_pending q = [] then no_pending else cp_pending q)),
      (''next_permitted_action'', JStr (py_str (cp_next_action q))), (''safe_handover_summary'', JStr (py_str (cp_summary q))),
      (''continuation_capability'', JStr (py_str (cp_capability q))), (''created_at'', JStr created),
      (''updated_at'', JStr (if cp_updated q = [] then created else cp_updated q))])"

definition sealed_checkpoint :: "(string \<Rightarrow> string) \<Rightarrow> dict \<Rightarrow> dict" where
  "sealed_checkpoint sha v = dput ''checkpoint_digest'' (JStr (checkpoint_digest sha v)) v"

definition checked_checkpoint ::
    "(string \<Rightarrow> string) \<Rightarrow> (string \<Rightarrow> string \<Rightarrow> bool res) \<Rightarrow> json \<Rightarrow> dict \<Rightarrow> dict res" where
  "checked_checkpoint sha rx schema v = bindE (validate_checkpoint sha rx schema (JObj v)) (\<lambda>es.
     if es \<noteq> [] then Inl (continuity_invalid es) else Inr v)"

definition build_checkpoint ::
    "(string \<Rightarrow> string) \<Rightarrow> (string \<Rightarrow> string \<Rightarrow> bool res) \<Rightarrow> json \<Rightarrow> checkpoint_request \<Rightarrow> string \<Rightarrow> dict res" where
  "build_checkpoint sha rx schema q now = checked_checkpoint sha rx schema (sealed_checkpoint sha (checkpoint_body q now))"

record checkpoint_view =
  cv_stale_main :: bool
  cv_stale_head :: bool

definition cv_stale :: "checkpoint_view \<Rightarrow> bool" where
  "cv_stale v = (cv_stale_main v \<or> cv_stale_head v)"

definition reconcile_checkpoint ::
    "(string \<Rightarrow> string) \<Rightarrow> (string \<Rightarrow> string \<Rightarrow> bool res) \<Rightarrow> json \<Rightarrow> dict \<Rightarrow> json \<Rightarrow> json \<Rightarrow> checkpoint_view res" where
  "reconcile_checkpoint sha rx schema checkpoint main head =
     bindE (checked_checkpoint sha rx schema checkpoint) (\<lambda>v.
     if \<not> sha40 (py_str main) then Inl (ValueError ''SESSION_CONTINUITY_ACTUAL_MAIN_SHA_INVALID'')
     else if head \<noteq> JNull \<and> \<not> sha40 (py_str head) then Inl (ValueError ''SESSION_CONTINUITY_ACTUAL_HEAD_SHA_INVALID'')
     else bindE (ditemE v ''observed_provider_state'') (\<lambda>o'. bindE (itemE o' ''main_sha'') (\<lambda>m. bindE (getE o' ''head_sha'') (\<lambda>h.
       bindE (ditemE v ''checkpoint_id'') (\<lambda>_. bindE (ditemE v ''checkpoint_revision'') (\<lambda>_.
       Inr \<lparr>cv_stale_main = (\<not> py_eq m main), cv_stale_head = (h \<noteq> JNull \<and> \<not> py_eq h head)\<rparr>))))))"

section \<open>What a valid checkpoint cannot carry\<close>

text \<open>The values inside a value, itself included.\<close>

inductive held_in :: "json \<Rightarrow> json \<Rightarrow> bool" where
  held_self: "held_in v v"
| held_dict: "(k, w) \<in> set d \<Longrightarrow> held_in v w \<Longrightarrow> held_in v (JObj d)"
| held_list: "w \<in> set xs \<Longrightarrow> held_in v w \<Longrightarrow> held_in v (JList xs)"

lemma index_of_member: "x \<in> set xs \<Longrightarrow> \<exists>i. (i, x) \<in> set (zip [0..<length xs] xs)"
  by (metis in_set_conv_nth in_set_zip fst_conv snd_conv length_upt minus_nat.diff_0 nth_upt add_0)

lemma scan_covers: "held_in v w \<Longrightarrow> scan_public_safe path w = [] \<Longrightarrow> \<exists>path'. scan_public_safe path' v = []"
proof (induction arbitrary: path rule: held_in.induct)
  case (held_dict k w d v)
  then have "scan_public_safe (path @ ''.'' @ k) w = []" by fastforce
  then show ?case by (rule held_dict.IH)
next
  case (held_list w xs v)
  then obtain i where "(i, w) \<in> set (zip [0..<length xs] xs)" using index_of_member by metis
  then have "scan_public_safe (path @ ''['' @ nat_str i @ '']'') w = []" using held_list.prems by fastforce
  then show ?case by (rule held_list.IH)
qed auto

lemma scan_text_clean:
  assumes "scan_text path s = []" "r \<in> set (FORBIDDEN_TEXT_PATTERNS @ FORBIDDEN_PRIVATE_TEXT_PATTERNS)"
  shows "\<not> (\<exists>p t y. s = p @ t \<and> rx_matches r (before None p, t) y)"
  using assms unfolding re_search_iff [symmetric] by (auto simp: scan_text_def list_ex_iff)

lemma sort_Nil_iff [simp]: "sort xs = [] \<longleftrightarrow> xs = []"
  by (metis set_sort set_empty)

lemma validate_checkpoint_scan:
  assumes "validate_checkpoint sha rx schema (JObj v) = Inr []"
  shows "scan_public_safe ''$'' (JObj v) = []" "dget v ''checkpoint_digest'' = JStr (checkpoint_digest sha v)"
    "shape_findings v = []" "summary_findings v = []" "checkpoint_schema_errors rx schema v = Inr []"
  using assms by (auto simp: validate_checkpoint_def simp del: scan_public_safe.simps elim!: bindE_InrE)

text \<open>C28. A checkpoint that validates holds nothing the scan forbids, at any depth: no key of any
  dictionary inside it contains a forbidden fragment, and in no text inside it does any of the
  secret-like or private-reasoning patterns match at any position.  Its digest is that of its
  other fields.\<close>

theorem valid_checkpoint_is_public_safe:
  assumes "validate_checkpoint sha rx schema (JObj v) = Inr []"
  shows "(\<forall>d k w. held_in (JObj d) (JObj v) \<and> (k, w) \<in> set d \<longrightarrow> \<not> forbidden_key k)
    \<and> (\<forall>s r p t y. held_in (JStr s) (JObj v) \<and> r \<in> set (FORBIDDEN_TEXT_PATTERNS @ FORBIDDEN_PRIVATE_TEXT_PATTERNS)
        \<and> s = p @ t \<longrightarrow> \<not> rx_matches r (before None p, t) y)
    \<and> dget v ''checkpoint_digest'' = JStr (checkpoint_digest sha v)"
proof -
  note c = validate_checkpoint_scan [OF assms]
  have "\<not> forbidden_key k" if i: "held_in (JObj d) (JObj v)" and k: "(k, w) \<in> set d" for d k w
  proof -
    obtain path where "scan_public_safe path (JObj d) = []" using scan_covers [OF i c(1)] by blast
    with k show ?thesis by fastforce
  qed
  moreover have "\<not> rx_matches r (before None p, t) y"
    if i: "held_in (JStr s) (JObj v)" and r: "r \<in> set (FORBIDDEN_TEXT_PATTERNS @ FORBIDDEN_PRIVATE_TEXT_PATTERNS)" and e: "s = p @ t" for s r p t y
  proof -
    obtain path where "scan_public_safe path (JStr s) = []" using scan_covers [OF i c(1)] by blast
    then have "scan_text path s = []" by simp
    then show ?thesis using scan_text_clean [OF _ r] e by blast
  qed
  ultimately show ?thesis using c(2) by blast
qed

lemma checked_checkpoint_Inr: "checked_checkpoint sha rx schema v = Inr w \<longleftrightarrow> w = v \<and> validate_checkpoint sha rx schema (JObj v) = Inr []"
  by (auto simp: checked_checkpoint_def elim!: bindE_InrE split: if_split_asm)

text \<open>C30. Writing a checkpoint and reading it back: what \<open>build_checkpoint\<close> returns is accepted by
  \<open>reconcile_checkpoint\<close> for any well-formed present commits, the main commit is reported stale
  exactly when it has moved since, and the head commit exactly when one was recorded and it is
  another now; the recorded facts are those of the request.\<close>

theorem built_checkpoint_reconciles:
  assumes "build_checkpoint sha rx schema q now = Inr v" and "sha40 main" and "head = JNull \<or> (\<exists>h. head = JStr h \<and> sha40 h)"
  shows "reconcile_checkpoint sha rx schema v (JStr main) head =
      Inr \<lparr>cv_stale_main = (py_str (cp_main_sha q) \<noteq> main), cv_stale_head = (cp_head_sha q \<noteq> JNull \<and> \<not> py_eq (cp_head_sha q) head)\<rparr>
    \<and> dget v ''project_identity'' = JStr (py_str (cp_project q))
    \<and> dget v ''checkpoint_digest'' = JStr (checkpoint_digest sha v)"
proof -
  have v: "v = sealed_checkpoint sha (checkpoint_body q now)" and ok: "validate_checkpoint sha rx schema (JObj v) = Inr []"
    using assms(1) by (auto simp: build_checkpoint_def checked_checkpoint_Inr)
  define o' where "o' = [(''main_sha'', JStr (py_str (cp_main_sha q))), (''pr_number'', cp_pr_number q), (''head_sha'', cp_head_sha q), (''branch'', cp_branch q)]"
  have i: "ditemE v ''observed_provider_state'' = Inr (JObj o')" "ditemE v ''checkpoint_id'' = Inr (JStr (py_str (cp_id q)))"
    "ditemE v ''checkpoint_revision'' = Inr (JInt (cp_revision q))" "dget v ''project_identity'' = JStr (py_str (cp_project q))"
    by (simp_all add: v sealed_checkpoint_def checkpoint_body_def Let_def o'_def)
  have "checked_checkpoint sha rx schema v = Inr v" using ok by (simp add: checked_checkpoint_Inr)
  then show ?thesis using assms(2,3) validate_checkpoint_scan(2) [OF ok]
    by (auto simp: reconcile_checkpoint_def i o'_def)
qed

end
