(* ===== verification/SessionSample.thy ===== *)
theory SessionSample
  imports SessionContinuity TextScan
begin

text \<open>
  Evaluation of the content scan: a text without a character that every match needs has no match,
  so a plain text passes.  Then a checkpoint that is valid, and the two session properties on it.
\<close>

section \<open>Texts without a needed character\<close>

text \<open>Every match of \<open>r\<close> consumes a character of \<open>P\<close>.\<close>

primrec needs :: "(char \<Rightarrow> bool) \<Rightarrow> rx \<Rightarrow> bool" where
  "needs P (RChar f) = (\<forall>c. f c \<longrightarrow> P c)"
| "needs P RBound = False"
| "needs P (RCat r r') = (needs P r \<or> needs P r')"
| "needs P (ROr r r') = (needs P r \<and> needs P r')"
| "needs P (RStar r) = False"
| "needs P REmpty = False"

lemma rx_matches_rest: "rx_matches r x y \<Longrightarrow> \<exists>u. snd x = u @ snd y"
  by (induction rule: rx_matches.induct) auto

lemma needs_consumes: "rx_matches r x y \<Longrightarrow> needs P r \<Longrightarrow> \<exists>c \<in> set (snd x). P c"
proof (induction rule: rx_matches.induct)
  case (RCat r x y r' z)
  then show ?case using rx_matches_rest [OF RCat(1)] by auto
qed auto

lemma re_search_needs: "needs P r \<Longrightarrow> \<forall>c \<in> set s. \<not> P c \<Longrightarrow> \<not> re_search r s"
  unfolding re_search_iff using needs_consumes [of r _ _ P] by fastforce

lemma lower_char_cases:
  assumes "lower_char d = c"
  shows "d = c \<or> d = char_of (of_char c - (32::nat))"
proof (cases "d \<in> set ''ABCDEFGHIJKLMNOPQRSTUVWXYZ''")
  case True
  have "\<forall>e \<in> set ''ABCDEFGHIJKLMNOPQRSTUVWXYZ''. (of_char e :: nat) < 128" by simp
  then have n: "(of_char d :: nat) < 128" using True by (rule bspec)
  have "c = char_of (of_char d + (32::nat))" unfolding assms [symmetric] lower_char_def using True by (rule if_P)
  then have "(of_char c :: nat) = of_char d + 32" using n by simp
  then show ?thesis by simp
next
  case False
  have "lower_char d = d" unfolding lower_char_def using False by (rule if_not_P)
  then show ?thesis using assms by simp
qed

lemma needs_Seq [simp]: "needs P (Seq rs) \<longleftrightarrow> (\<exists>r \<in> set rs. needs P r)"
  by (induction rs) (auto simp: Seq_def)

lemma needs_Lit: "c \<in> set s \<Longrightarrow> P c \<Longrightarrow> needs P (Lit s)"
  by (induction s) (auto simp: Lit_def)

lemma needs_ILit:
  assumes "c \<in> set s" "P c" "P (char_of (of_char c - (32::nat)))"
  shows "needs P (ILit s)"
proof -
  have "\<forall>d. lower_char d = c \<longrightarrow> P d" using lower_char_cases assms(2,3) by metis
  with assms(1) show ?thesis by (induction s) (auto simp: ILit_def)
qed

definition suspicious :: "char \<Rightarrow> bool" where
  "suspicious c = (c \<in> set ''kgBhHsSwW:='')"

lemma patterns_need: "r \<in> set (FORBIDDEN_TEXT_PATTERNS @ FORBIDDEN_PRIVATE_TEXT_PATTERNS) \<Longrightarrow> needs suspicious r"
proof -
  have l: "needs suspicious (Lit s)" if "list_ex suspicious s" for s
    using that needs_Lit by (auto simp: list_ex_iff)
  have i: "needs suspicious (ILit s)" if "list_ex (\<lambda>c. suspicious c \<and> suspicious (char_of (of_char c - (32::nat)))) s" for s
    using that needs_ILit by (auto simp: list_ex_iff)
  have u: "(char_of (72::nat) :: char) = CHR ''H''" "(char_of (83::nat) :: char) = CHR ''S''" "(char_of (87::nat) :: char) = CHR ''W''"
    by code_simp+
  have t: "needs suspicious (ILit ''thought'')" "needs suspicious (ILit ''reasoning'')" "needs suspicious (ILit ''raw'')"
    "needs suspicious (ILit ''chat'')" "needs suspicious (Lit ''sk-'')" "needs suspicious (Lit ''gh'')" "needs suspicious (Lit ''-----BEGIN '')"
    "needs suspicious (AnyOf '':='')"
    by (rule i l; simp add: suspicious_def u)+ (simp add: AnyOf_def suspicious_def)
  assume "r \<in> set (FORBIDDEN_TEXT_PATTERNS @ FORBIDDEN_PRIVATE_TEXT_PATTERNS)"
  then show ?thesis using t by (auto simp: FORBIDDEN_TEXT_PATTERNS_def FORBIDDEN_PRIVATE_TEXT_PATTERNS_def)
qed

lemma scan_text_plain: "list_all (\<lambda>c. \<not> suspicious c) s \<Longrightarrow> scan_text path s = []"
  using re_search_needs [OF patterns_need] by (auto simp: scan_text_def list_ex_iff list_all_iff)

section \<open>A sample checkpoint\<close>

definition sample_checkpoint_request :: checkpoint_request where
  "sample_checkpoint_request = \<lparr>cp_id = JStr ''c-1'', cp_revision = 0, cp_project = JStr ''o/r'', cp_roadmap = JStr ''R-1'', cp_issue = JStr ''7'',
     cp_main_sha = JStr sample_sha40, cp_boundary = JStr ''EXECUTOR_LIMIT'', cp_next_action = JStr ''CONTINUE'', cp_summary = JStr ''done'',
     cp_lease = JNull, cp_domains = [], cp_pr_number = JNull, cp_head_sha = JNull, cp_branch = JNull, cp_transition = JStr ''T'', cp_evidence = [],
     cp_pending = [], cp_capability = JStr ''GENERIC_PROVIDER_RECONCILE'', cp_package_digest = JNull, cp_created = ''T'', cp_updated = ''T''\<rparr>"

definition plain_sha :: "string \<Rightarrow> string" where
  "plain_sha x = ''d''"

definition sample_checkpoint :: dict where
  "sample_checkpoint = sealed_checkpoint plain_sha (checkpoint_body sample_checkpoint_request [])"

lemma forbidden_key_plain:
  assumes "list_all (\<lambda>c. \<not> is_space c \<and> lower_char c = c) k"
  shows "forbidden_key k \<longleftrightarrow> list_ex (contains k) FORBIDDEN_KEY_FRAGMENTS"
proof -
  have "dropWhile is_space k = k" using assms by (cases k) auto
  moreover have "dropWhile is_space (rev k) = rev k" using assms
    by (cases k rule: rev_cases) auto
  moreover have "lower k = k" using assms unfolding lower_def by (intro map_idI) (auto simp: list_all_iff)
  ultimately show ?thesis by (simp add: forbidden_key_def strip_def)
qed

lemma sample_keys_plain: "list_all (\<lambda>k. \<not> forbidden_key k) [''schema_version'', ''checkpoint_id'', ''checkpoint_revision'', ''project_identity'',
   ''work_identity'', ''roadmap_id'', ''issue_id'', ''ai_work_package_digest'', ''lease_identity'', ''conflict_domains'', ''observed_provider_state'',
   ''main_sha'', ''pr_number'', ''head_sha'', ''branch'', ''last_verified_transition'', ''evidence_refs'', ''boundary_type'', ''pending_external'',
   ''provider'', ''object_ref'', ''status'', ''next_permitted_action'', ''safe_handover_summary'', ''continuation_capability'', ''created_at'',
   ''updated_at'', ''checkpoint_digest'']"
  by (simp add: forbidden_key_plain FORBIDDEN_KEY_FRAGMENTS_def is_space_def text_simps del: contains.simps cong: contains_weak_cong prefix_at_weak_cong)

lemma sample_texts_plain: "list_all (list_all (\<lambda>c. \<not> suspicious c)) [''c-1'', ''o/r'', ''R-1'', ''7'', sample_sha40, ''EXECUTOR_LIMIT'', ''CONTINUE'', ''done'',
   ''T'', ''GENERIC_PROVIDER_RECONCILE'', ''d'']"
  by (simp add: suspicious_def sample_sha40_def list_all_iff)

lemma sample_checkpoint_fields: "sample_checkpoint =
     [(''schema_version'', JInt 1), (''checkpoint_id'', JStr ''c-1''), (''checkpoint_revision'', JInt 0), (''project_identity'', JStr ''o/r''),
      (''work_identity'', JObj [(''roadmap_id'', JStr ''R-1''), (''issue_id'', JStr ''7''), (''ai_work_package_digest'', JNull)]),
      (''lease_identity'', JNull), (''conflict_domains'', JList []),
      (''observed_provider_state'', JObj [(''main_sha'', JStr sample_sha40), (''pr_number'', JNull), (''head_sha'', JNull), (''branch'', JNull)]),
      (''last_verified_transition'', JStr ''T''), (''evidence_refs'', JList []), (''boundary_type'', JStr ''EXECUTOR_LIMIT''),
      (''pending_external'', JObj [(''provider'', JNull), (''object_ref'', JNull), (''status'', JNull)]),
      (''next_permitted_action'', JStr ''CONTINUE''), (''safe_handover_summary'', JStr ''done''),
      (''continuation_capability'', JStr ''GENERIC_PROVIDER_RECONCILE''), (''created_at'', JStr ''T''), (''updated_at'', JStr ''T''),
      (''checkpoint_digest'', JStr ''d'')]"
  by (simp add: sample_checkpoint_def sealed_checkpoint_def checkpoint_body_def sample_checkpoint_request_def issue_text_def no_pending_def
      checkpoint_digest_def plain_sha_def dput_def)

lemma sample_checkpoint_scan: "scan_public_safe p (JObj sample_checkpoint) = []"
  using sample_keys_plain sample_texts_plain scan_text_plain
  by (simp add: sample_checkpoint_fields)

lemma sample_checkpoint_valid: "validate_checkpoint plain_sha rx (JObj []) (JObj sample_checkpoint) = Inr []"
proof -
  have "checkpoint_schema_errors rx (JObj []) v = Inr []" for v by (simp add: checkpoint_schema_errors_def empty_schema)
  moreover have "shape_findings sample_checkpoint = []" "summary_findings sample_checkpoint = []"
    using sample_sha40_shape
    by (simp_all add: sample_checkpoint_fields shape_findings_def summary_findings_def text_of_def py_or_def observed_findings_def
       boundary_findings_def NON_BOUNDARIES_def CHECKPOINT_BOUNDARIES_def strip_def is_space_def hex_n_nonempty)
  moreover have "dget sample_checkpoint ''checkpoint_digest'' = JStr ''d''" "dget sample_checkpoint ''continuation_capability'' = JStr ''GENERIC_PROVIDER_RECONCILE''"
    by (simp_all add: sample_checkpoint_fields)
  ultimately show ?thesis
    by (simp add: validate_checkpoint_def sample_checkpoint_scan CONTINUATION_CAPABILITIES_def checkpoint_digest_def plain_sha_def del: scan_public_safe.simps)
qed

lemma sample_checkpoint_built: "build_checkpoint plain_sha rx (JObj []) sample_checkpoint_request [] = Inr sample_checkpoint"
  using sample_checkpoint_valid by (simp add: build_checkpoint_def checked_checkpoint_def sample_checkpoint_def [symmetric])

lemma valid_checkpoint_is_public_safe_witness:
  "dget sample_checkpoint ''checkpoint_digest'' = JStr (checkpoint_digest plain_sha sample_checkpoint)"
  using valid_checkpoint_is_public_safe [OF sample_checkpoint_valid] by blast

lemma built_checkpoint_reconciles_witness:
  "reconcile_checkpoint plain_sha (\<lambda>p t. Inr True) (JObj []) sample_checkpoint (JStr sample_sha40) JNull
     = Inr \<lparr>cv_stale_main = False, cv_stale_head = False\<rparr>"
  using built_checkpoint_reconciles [OF sample_checkpoint_built sample_sha40_shape, of JNull "\<lambda>p t. Inr True"]
  by (simp add: sample_checkpoint_request_def)

end
