(* ===== verification/OrchResume.thy ===== *)
theory OrchResume
  imports ExecutionState SessionContinuity
begin

text \<open>
  The resume decision (\<open>.adwf/lib/orch_resume.py\<close>): fresh provider facts, the writer lease registry,
  the durable execution state and the session checkpoint are brought together, and the answer says
  whether to resume, reconcile, acquire, yield or stop.  A \<open>return\<close> of the source ends the chain of
  checks with an answer; a check that passes goes on to the next.
\<close>

section \<open>Facts and answers\<close>

definition RESUME_DECISIONS :: "string list" where
  "RESUME_DECISIONS = [''RESUME_EXISTING'', ''RECONCILE'', ''ACQUIRE_NEW'', ''YIELD'', ''BLOCK'']"

definition PENDING_EXTERNAL :: "string list" where
  "PENDING_EXTERNAL = [''queued'', ''in_progress'', ''pending'', ''waiting'', ''requested'']"

definition BLOCKING_BOUNDARIES :: "string list" where
  "BLOCKING_BOUNDARIES = [''UNAVAILABLE_CAPABILITY'', ''AUTHORITY_EXHAUSTED'', ''ROADMAP_END'']"

record resume_answer =
  rd_decision :: string
  rd_reason :: string
  rd_lease :: json
  rd_write :: bool
  rd_findings :: "string list"

definition answer :: "string \<Rightarrow> string \<Rightarrow> json \<Rightarrow> string list \<Rightarrow> resume_answer res" where
  "answer decision reason lease findings = (if decision \<notin> set RESUME_DECISIONS then Inl (ValueError ''ORCH_RESUME_DECISION_INVALID'')
     else Inr \<lparr>rd_decision = decision, rd_reason = reason, rd_lease = lease, rd_write = False,
       rd_findings = sort (remdups findings)\<rparr>)"

record resume_facts =
  rf_repository :: json
  rf_main_sha :: json
  rf_head_sha :: json
  rf_pr_number :: json
  rf_branch :: json
  rf_roadmap_id :: json
  rf_issue_id :: json
  rf_base_sha :: json
  rf_worker_id :: json
  rf_ceiling :: json
  rf_terminal :: json
  rf_authorized :: json
  rf_external :: json
  rf_human :: json

definition provider_fact_findings :: "resume_facts \<Rightarrow> string list" where
  "provider_fact_findings f =
     flag (\<not> str_shape repository_shape (rf_repository f)) ''PROVIDER_REPOSITORY_INVALID'' @
     flag (\<not> str_shape sha40 (rf_main_sha f)) ''PROVIDER_MAIN_SHA_INVALID'' @
     flag (rf_head_sha f \<noteq> JNull \<and> \<not> str_shape sha40 (rf_head_sha f)) ''PROVIDER_HEAD_SHA_INVALID'' @
     flag (rf_pr_number f \<noteq> JNull \<and> (\<not> strict_int (rf_pr_number f) \<or> int_of (rf_pr_number f) < 1)) ''PROVIDER_PR_NUMBER_INVALID'' @
     flag (\<not> str_shape (\<lambda>s. strip s \<noteq> []) (rf_branch f)) ''PROVIDER_BRANCH_INVALID'' @
     flag (\<not> str_shape roadmap_shape (rf_roadmap_id f)) ''PROVIDER_ROADMAP_ID_INVALID'' @
     flag (\<not> str_shape digits_shape (rf_issue_id f)) ''PROVIDER_ISSUE_ID_INVALID'' @
     flag (\<not> str_shape sha40 (rf_base_sha f)) ''PROVIDER_BASE_SHA_INVALID'' @
     flag (\<not> str_shape (\<lambda>s. strip s \<noteq> []) (rf_worker_id f)) ''PROVIDER_WORKER_ID_INVALID'' @
     flag (\<not> strict_int (rf_ceiling f)) ''POLICY_WRITER_CEILING_INVALID'' @
     flag (\<not> is_bool (rf_terminal f)) ''PROVIDER_WORK_TERMINAL_INVALID'' @
     flag (\<not> is_bool (rf_authorized f)) ''NEXT_WORK_AUTHORIZATION_INVALID'' @
     flag (\<not> is_bool (rf_human f)) ''HUMAN_BOUNDARY_FACT_INVALID''"

section \<open>The checks\<close>

text \<open>\<open>if b: return answer\<close>, then the rest.\<close>

definition stop_if :: "bool \<Rightarrow> resume_answer res \<Rightarrow> resume_answer res \<Rightarrow> resume_answer res" where
  "stop_if b a rest = (if b then a else rest)"

definition block :: "string \<Rightarrow> resume_answer res" where
  "block reason = answer ''BLOCK'' reason JNull []"

definition active_items :: "json list \<Rightarrow> json list res" where
  "active_items = filterE (\<lambda>v. bindE (itemE v ''status'') (\<lambda>s. Inr (s = JStr ''ACTIVE'')))"

definition field_differs :: "json \<Rightarrow> string \<Rightarrow> json \<Rightarrow> string \<Rightarrow> string list res" where
  "field_differs lease k v code = bindE (itemE lease k) (\<lambda>w. flagE (\<not> py_eq w v) code)"

definition identity_mismatch :: "resume_facts \<Rightarrow> json \<Rightarrow> string list res" where
  "identity_mismatch f lease = concatE [field_differs lease ''roadmap_id'' (rf_roadmap_id f) ''ROADMAP_ID'',
     field_differs lease ''issue_id'' (rf_issue_id f) ''ISSUE_ID'', field_differs lease ''branch'' (rf_branch f) ''BRANCH'',
     field_differs lease ''base_sha'' (rf_base_sha f) ''BASE_SHA'']"

definition lease_checks :: "resume_facts \<Rightarrow> json \<Rightarrow> json \<Rightarrow> json \<Rightarrow> int \<Rightarrow> resume_answer res \<Rightarrow> resume_answer res" where
  "lease_checks f registry lease lid now rest =
     bindE (itemE registry ''observed_main_sha'') (\<lambda>m.
     stop_if (\<not> py_eq m (rf_main_sha f)) (answer ''RECONCILE'' ''ACTIVE_LEASE_REGISTRY_MAIN_STALE'' lid [])
     (bindE (registry_lease_freshness_errors lease now) (\<lambda>stale.
     stop_if (stale \<noteq> []) (answer ''RECONCILE'' ''ACTIVE_LEASE_STALE_OR_EXPIRED'' lid stale)
     (bindE (identity_mismatch f lease) (\<lambda>wrong.
     stop_if (wrong \<noteq> []) (answer ''BLOCK'' ''LEASE_WORK_IDENTITY_MISMATCH'' lid wrong)
     (bindE (itemE lease ''worker_id'') (\<lambda>w.
     stop_if (\<not> py_eq w (rf_worker_id f)) (answer ''RECONCILE'' ''LEASE_OWNER_HANDOFF_REQUIRED'' lid []) rest)))))))"

definition state_checks ::
    "(string \<Rightarrow> string) \<Rightarrow> resume_facts \<Rightarrow> dict \<Rightarrow> json \<Rightarrow> resume_answer res \<Rightarrow> resume_answer res" where
  "state_checks sha f s lid rest =
     bindE (ditemE s ''work_identity'') (\<lambda>work. bindE (ditemE s ''project_identity'') (\<lambda>project. bindE (itemE project ''repository'') (\<lambda>repo.
     stop_if (\<not> py_eq repo (rf_repository f)) (answer ''BLOCK'' ''EXECUTION_PROJECT_IDENTITY_MISMATCH'' lid [])
     (bindE (itemE work ''roadmap_id'') (\<lambda>r. bindE (if py_eq r (rf_roadmap_id f) then bindE (itemE work ''issue_id'') (\<lambda>i. Inr (py_eq i (rf_issue_id f)))
        else Inr False) (\<lambda>same.
     stop_if (\<not> same) (answer ''BLOCK'' ''EXECUTION_WORK_IDENTITY_MISMATCH'' lid [])
     (bindE (ditemE s ''writer'') (\<lambda>writer. bindE (getE writer ''lease_id'') (\<lambda>l.
     stop_if (\<not> py_eq l lid) (answer ''BLOCK'' ''EXECUTION_LEASE_IDENTITY_MISMATCH'' lid [])
     (bindE (getE writer ''lease_state'') (\<lambda>ls. bindE (in_set ls [''ACTIVE'', ''SUSPENDED'']) (\<lambda>resumable.
     stop_if (\<not> resumable) (answer ''RECONCILE'' ''EXECUTION_LEASE_STATE_NOT_RESUMABLE'' lid [])
     (bindE (reconcile_provider_observation sha s \<lparr>pf_main_sha = rf_main_sha f, pf_head_sha = rf_head_sha f, pf_pr_number = rf_pr_number f,
        pf_branch = rf_branch f\<rparr>) (\<lambda>stale.
     stop_if stale (answer ''RECONCILE'' ''EXECUTION_PROVIDER_OBSERVATION_STALE'' lid []) rest))))))))))))))"

definition checkpoint_checks ::
    "(string \<Rightarrow> string) \<Rightarrow> (string \<Rightarrow> string \<Rightarrow> bool res) \<Rightarrow> json \<Rightarrow> resume_facts \<Rightarrow> dict \<Rightarrow> json \<Rightarrow> resume_answer res \<Rightarrow> resume_answer res" where
  "checkpoint_checks sha rx schema f c lid rest =
     bindE (ditemE c ''project_identity'') (\<lambda>project.
     stop_if (\<not> py_eq project (rf_repository f)) (answer ''BLOCK'' ''CHECKPOINT_PROJECT_IDENTITY_MISMATCH'' lid [])
     (bindE (ditemE c ''work_identity'') (\<lambda>work. bindE (getE work ''roadmap_id'') (\<lambda>r.
        bindE (if py_eq r (rf_roadmap_id f) then bindE (getE work ''issue_id'') (\<lambda>i. Inr (rf_issue_id f = JStr (py_str i))) else Inr False) (\<lambda>same.
     stop_if (\<not> same) (answer ''BLOCK'' ''CHECKPOINT_WORK_IDENTITY_MISMATCH'' lid [])
     (let l = dget c ''lease_identity'' in
     stop_if (l \<noteq> JNull \<and> \<not> py_eq l lid) (answer ''BLOCK'' ''CHECKPOINT_LEASE_IDENTITY_MISMATCH'' lid [])
     (bindE (ditemE c ''observed_provider_state'') (\<lambda>seen. bindE (getE seen ''pr_number'') (\<lambda>n. bindE (getE seen ''branch'') (\<lambda>b.
     stop_if (\<not> py_eq n (rf_pr_number f) \<or> \<not> py_eq b (rf_branch f)) (answer ''RECONCILE'' ''CHECKPOINT_PROVIDER_OBSERVATION_STALE'' lid [])
     (bindE (reconcile_checkpoint sha rx schema c (rf_main_sha f) (rf_head_sha f)) (\<lambda>view.
     stop_if (cv_stale view) (answer ''RECONCILE'' ''CHECKPOINT_PROVIDER_OBSERVATION_STALE'' lid []) rest))))))))))))"

definition phase_checks :: "resume_facts \<Rightarrow> dict \<Rightarrow> dict option \<Rightarrow> json \<Rightarrow> resume_answer res" where
  "phase_checks f s c lid = bindE (ditemE s ''execution_state'') (\<lambda>x.
     stop_if (x = JStr ''COMPLETE'') (answer ''RECONCILE'' ''EXECUTION_COMPLETE_RECONCILE_NEXT'' lid [])
     (stop_if (x = JStr ''RECOVERY'') (answer ''RECONCILE'' ''EXECUTION_RECOVERY_REQUIRED'' lid [])
     (stop_if (truthy (rf_human f) \<or> x = JStr ''HUMAN_REQUIRED'') (answer ''BLOCK'' ''HUMAN_BOUNDARY_ACTIVE'' lid [])
     (bindE (ditemE s ''boundary_type'') (\<lambda>b.
     bindE (if x = JStr ''SUSPENDED'' then in_set b BLOCKING_BOUNDARIES else Inr False) (\<lambda>blocks.
     stop_if blocks (answer ''BLOCK'' ''SUSPENDED_BOUNDARY_BLOCKS_RESUME'' lid [py_str b])
     (stop_if (x = JStr ''SUSPENDED'' \<and> b = JStr ''NONE'') (answer ''RECONCILE'' ''SUSPENDED_BOUNDARY_AMBIGUOUS'' lid [])
     (let waiting = (x = JStr ''WAITING_CI'' \<or> b = JStr ''WAITING_EXTERNAL''
            \<or> (case c of None \<Rightarrow> False | Some c' \<Rightarrow> dget c' ''boundary_type'' = JStr ''EXTERNAL_WAIT'')) in
      stop_if (waiting \<and> rf_external f = JNull) (answer ''RECONCILE'' ''EXTERNAL_WAIT_STATUS_REQUIRED'' lid [])
      (stop_if (waiting \<and> lower (strip (py_str (rf_external f))) \<in> set PENDING_EXTERNAL) (answer ''YIELD'' ''EXTERNAL_WAIT_IN_PROGRESS'' lid [])
      (answer ''RESUME_EXISTING'' ''ACTIVE_LEASE_AND_PROVIDER_FACTS_MATCH'' lid []))))))))))"

definition valid_or_block :: "'a option \<Rightarrow> ('a \<Rightarrow> string list res) \<Rightarrow> string \<Rightarrow> resume_answer res \<Rightarrow> resume_answer res" where
  "valid_or_block x check reason rest = (case x of None \<Rightarrow> rest | Some v \<Rightarrow>
     bindE (check v) (\<lambda>fs. stop_if (fs \<noteq> []) (answer ''BLOCK'' reason JNull fs) rest))"

definition resume_lease ::
    "(string \<Rightarrow> string) \<Rightarrow> (string \<Rightarrow> string \<Rightarrow> bool res) \<Rightarrow> json \<Rightarrow> resume_facts \<Rightarrow> json \<Rightarrow> dict option \<Rightarrow> dict option \<Rightarrow> int \<Rightarrow> json \<Rightarrow> resume_answer res" where
  "resume_lease sha rx schema f registry state checkpoint now lease = bindE (itemE lease ''lease_id'') (\<lambda>lid.
     lease_checks f registry lease lid now (case state of
       None \<Rightarrow> answer ''RECONCILE'' ''ACTIVE_LEASE_WITHOUT_EXECUTION_STATE'' lid []
     | Some s \<Rightarrow> state_checks sha f s lid (case checkpoint of
         None \<Rightarrow> phase_checks f s checkpoint lid
       | Some c \<Rightarrow> checkpoint_checks sha rx schema f c lid (phase_checks f s checkpoint lid))))"

definition decide_resume ::
    "(string \<Rightarrow> string) \<Rightarrow> (string \<Rightarrow> string \<Rightarrow> bool res) \<Rightarrow> json \<Rightarrow> resume_facts \<Rightarrow> json \<Rightarrow> dict option \<Rightarrow> dict option \<Rightarrow> int \<Rightarrow> resume_answer res" where
  "decide_resume sha rx schema f registry state checkpoint now =
     stop_if (provider_fact_findings f \<noteq> []) (answer ''BLOCK'' ''PROVIDER_FACTS_INVALID'' JNull (provider_fact_findings f))
     (stop_if (rf_ceiling f \<noteq> JInt 1) (block ''STAGE1_REQUIRES_SINGLETON_WRITER_CEILING'')
     (bindE (validate_lease_registry sha registry) (\<lambda>bad.
     stop_if (bad \<noteq> []) (answer ''BLOCK'' ''LEASE_REGISTRY_INVALID'' JNull bad)
     (bindE (itemE registry ''repository'') (\<lambda>repo. stop_if (\<not> py_eq repo (rf_repository f)) (block ''LEASE_REGISTRY_REPOSITORY_MISMATCH'')
     (bindE (itemE registry ''max_parallel_writers'') (\<lambda>m. stop_if (\<not> py_eq m (rf_ceiling f)) (block ''LEASE_REGISTRY_POLICY_CEILING_MISMATCH'')
     (valid_or_block state (validate_state sha) ''EXECUTION_STATE_INVALID''
     (valid_or_block checkpoint (\<lambda>c. validate_checkpoint sha rx schema (JObj c)) ''SESSION_CHECKPOINT_INVALID''
     (bindE (bindE (itemE registry ''leases'') iterE) (\<lambda>ls. bindE (active_items ls) (\<lambda>active.
     stop_if (1 < length active) (block ''MULTIPLE_ACTIVE_LEASES_UNSUPPORTED_STAGE1'')
     (stop_if (truthy (rf_terminal f)) (answer ''RECONCILE'' ''WORK_TERMINAL_RECONCILE_NEXT'' JNull [])
     (case active of
        [] \<Rightarrow> stop_if (state \<noteq> None \<or> checkpoint \<noteq> None) (answer ''RECONCILE'' ''RESUME_CONTEXT_WITHOUT_ACTIVE_LEASE'' JNull [])
            (stop_if (\<not> truthy (rf_authorized f)) (block ''NEXT_WORK_NOT_AUTHORIZED'')
            (answer ''ACQUIRE_NEW'' ''NO_ACTIVE_LEASE_AND_NEXT_WORK_AUTHORIZED'' JNull []))
      | lease # _ \<Rightarrow> resume_lease sha rx schema f registry state checkpoint now lease))))))))))))))"

section \<open>What an answer means\<close>

lemma answer_Inr: "answer d r l fs = Inr a \<Longrightarrow> rd_decision a = d \<and> rd_write a = False \<and> rd_lease a = l"
  by (auto simp: answer_def split: if_split_asm)



text \<open>The decisions a chain of checks can end with; none lets the caller write.\<close>

definition says :: "string set \<Rightarrow> resume_answer res \<Rightarrow> bool" where
  "says D r = (\<forall>a. r = Inr a \<longrightarrow> rd_decision a \<in> D \<and> \<not> rd_write a)"

named_theorems says_intros

lemma says_answer [says_intros]: "d \<in> D \<Longrightarrow> says D (answer d r l fs)"
  by (auto simp: says_def dest: answer_Inr)

lemma says_block [says_intros]: "''BLOCK'' \<in> D \<Longrightarrow> says D (block r)"
  unfolding block_def by (rule says_answer)

lemma says_stop_if [says_intros]: "says D x \<Longrightarrow> says D rest \<Longrightarrow> says D (stop_if b x rest)"
  by (simp add: stop_if_def)

lemma says_bindE [says_intros]: "(\<And>v. says D (k v)) \<Longrightarrow> says D (bindE m k)"
  by (cases m) (auto simp: says_def)

lemma says_option [says_intros]: "says D x \<Longrightarrow> (\<And>v. says D (k v)) \<Longrightarrow> says D (case o' of None \<Rightarrow> x | Some v \<Rightarrow> k v)"
  by (cases o') auto

lemma says_list [says_intros]: "says D x \<Longrightarrow> (\<And>v vs. says D (k v vs)) \<Longrightarrow> says D (case xs of [] \<Rightarrow> x | v # vs \<Rightarrow> k v vs)"
  by (cases xs) auto

lemma says_Let [says_intros]: "says D (k v) \<Longrightarrow> says D (let x = v in k x)"
  by simp















definition solo_registry :: dict where
  "solo_registry = [(''$schema'', JStr LEASE_REGISTRY_SCHEMA), (''schema_version'', JInt 1),
     (''repository'', JStr ''owner/repo''), (''revision'', JInt 0), (''observed_main_sha'', JStr sample_sha40),
     (''max_parallel_writers'', JInt 1), (''leases'', JList []), (''integrity_digest'', JStr ''digest'')]"

definition solo_facts :: resume_facts where
  "solo_facts = \<lparr>rf_repository = JStr ''owner/repo'', rf_main_sha = JStr sample_sha40, rf_head_sha = JNull, rf_pr_number = JNull,
     rf_branch = JStr ''adwf/work'', rf_roadmap_id = JStr ''ADWF-1'', rf_issue_id = JStr ''7'', rf_base_sha = JStr sample_sha40,
     rf_worker_id = JStr ''worker-1'', rf_ceiling = JInt 1, rf_terminal = JBool False, rf_authorized = JBool True, rf_external = JNull,
     rf_human = JBool False\<rparr>"

lemma solo_registry_valid: "validate_lease_registry no_sha (JObj solo_registry) = Inr []"
proof -
  have r: "repository_shape ''owner/repo''" by code_simp
  have k: "keys_are solo_registry REGISTRY_FIELDS" by (simp add: keys_are_def dkeys_def solo_registry_def REGISTRY_FIELDS_def)
  have h: "head_findings solo_registry = []"
    using r k sample_sha40_shape by (simp add: head_findings_def) (simp add: solo_registry_def str_shape_def)
  show ?thesis
    using h by (simp add: validate_lease_registry_def Let_def) (simp add: solo_registry_def active_dicts_def registry_digest_def no_sha_def)
qed

lemma solo_facts_ok: "provider_fact_findings solo_facts = []"
proof -
  have "repository_shape ''owner/repo''" "roadmap_shape ''ADWF-1''" "digits_shape ''7''" "strip ''adwf/work'' \<noteq> []" "strip ''worker-1'' \<noteq> []"
    by code_simp+
  then show ?thesis using sample_sha40_shape by (simp add: provider_fact_findings_def solo_facts_def str_shape_def)
qed

lemma solo_decision: "decide_resume no_sha (\<lambda>p t. Inr True) (JObj []) solo_facts (JObj solo_registry) None None claim_time
  = answer ''ACQUIRE_NEW'' ''NO_ACTIVE_LEASE_AND_NEXT_WORK_AUTHORIZED'' JNull []"
  using solo_registry_valid solo_facts_ok
  by (simp add: decide_resume_def stop_if_def valid_or_block_def) (simp add: solo_facts_def solo_registry_def active_items_def stop_if_def)

end
