(* ===== verification/ResumeSample.thy ===== *)
theory ResumeSample
  imports OrchResume
begin

















end
