(* ===== verification/ProviderHttp.thy ===== *)
theory ProviderHttp
  imports Effects
begin

text \<open>
  The provider HTTP contracts (\<open>.adwf/lib/provider_contracts.py\<close>): requests with a bounded number
  of attempts, pagination with a bounded number of pages, and a mutation followed by a readback.
  The transport is a parameter: it answers a request or raises, and may change the provider.  The
  state of a run holds the provider, the requests sent with their answers, and the naps between
  attempts.  Two further parameters: \<open>loads\<close>, what the strict loader makes of a response text,
  and \<open>paged url n\<close>, the address with its page parameter set by \<open>urllib\<close>.
\<close>

section \<open>Requests and answers\<close>

record http_request =
  hq_method :: string
  hq_url :: string
  hq_headers :: "(string \<times> string) list"
  hq_payload :: "dict option"
  hq_timeout :: int

record http_response =
  ht_status :: int
  ht_headers :: "(string \<times> string) list"
  ht_body :: string

type_synonym 'r wire = "http_request \<Rightarrow> 'r \<Rightarrow> http_response res \<times> 'r"

record 'r net =
  nt_world :: 'r
  nt_sent :: "(http_request \<times> http_response res) list"
  nt_naps :: "pyfloat list"

definition TRANSIENT :: "int list" where
  "TRANSIENT = [429, 500, 502, 503, 504]"

definition FATAL :: "int list" where
  "FATAL = [400, 401, 403, 404, 409, 412, 422]"

definition wire_send :: "'r wire \<Rightarrow> http_request \<Rightarrow> ('r net, http_response) prog" where
  "wire_send w q s = (let (r, m) = w q (nt_world s) in (r, s\<lparr>nt_world := m, nt_sent := nt_sent s @ [(q, r)]\<rparr>))"

definition header :: "(string \<times> string) list \<Rightarrow> string \<Rightarrow> string \<Rightarrow> string" where
  "header hs k d = (case map_of hs k of None \<Rightarrow> d | Some v \<Rightarrow> v)"

section \<open>One request with its attempts\<close>

text \<open>\<open>min(max(x, 0.0), 1.0)\<close>: every comparison with a NaN is false, so a NaN stays.\<close>

definition clip_unit :: "pyfloat \<Rightarrow> pyfloat" where
  "clip_unit x = (if x = NaN then NaN else if x < Fin 0 then Fin 0 else if Fin 1 < x then Fin 1 else x)"

definition retry_delay :: "http_response \<Rightarrow> pyfloat" where
  "retry_delay r = (case parse_float (header (ht_headers r) ''Retry-After'' ''0'') of None \<Rightarrow> Fin 0 | Some x \<Rightarrow> clip_unit x)"

text \<open>\<open>if delay: time.sleep(delay)\<close>; a NaN is true and \<open>sleep\<close> refuses it.\<close>

definition nap :: "pyfloat \<Rightarrow> ('r net, unit) prog" where
  "nap d = (if d = Fin 0 then retP () else if d = NaN then raiseP (ValueError ''Invalid value NaN (not a number)'')
     else putP (nt_naps_update (\<lambda>ns. ns @ [d])))"

definition body_value :: "(string \<Rightarrow> json res) \<Rightarrow> http_response \<Rightarrow> json res" where
  "body_value loads r = (if ht_body r = [] then Inr (JObj [])
     else catchE is_ValueError (loads (ht_body r)) (\<lambda>_. Inl (ProviderContractError ''PROVIDER_MALFORMED_JSON'')))"

definition http_error :: "http_response \<Rightarrow> exn" where
  "http_error r = ProviderContractError (''PROVIDER_HTTP_'' @ int_str (ht_status r))"

text \<open>\<open>Some r\<close> when the transport answered, \<open>None\<close> when the attempt failed and another one is left.\<close>

definition try_send :: "'r wire \<Rightarrow> http_request \<Rightarrow> bool \<Rightarrow> ('r net, http_response option) prog" where
  "try_send w q final = tryP (bindP (wire_send w q) (\<lambda>r. retP (Some r)))
     (\<lambda>e. if e \<noteq> OSError then raiseP e else if final then raiseP (ProviderContractError ''PROVIDER_TIMEOUT_OR_NETWORK'') else retP None)"

text \<open>The loop over the attempts, with what is made of a good answer as an argument.\<close>

primrec attempts :: "(http_response \<Rightarrow> 'a res) \<Rightarrow> 'r wire \<Rightarrow> http_request \<Rightarrow> nat \<Rightarrow> ('r net, 'a \<times> http_response) prog" where
  "attempts decode w q 0 = raiseP (ProviderContractError ''PROVIDER_HTTP_UNKNOWN'')"
| "attempts decode w q (Suc n) = bindP (try_send w q (n = 0)) (\<lambda>answer. case answer of
     None \<Rightarrow> attempts decode w q n
   | Some r \<Rightarrow>
       if 200 \<le> ht_status r \<and> ht_status r < 300 then bindP (liftP (decode r)) (\<lambda>v. retP (v, r))
       else if ht_status r \<in> set FATAL then raiseP (http_error r)
       else if ht_status r \<notin> set TRANSIENT \<or> n = 0 then raiseP (http_error r)
       else bindP (nap (retry_delay r)) (\<lambda>_. attempts decode w q n))"

definition request_value ::
    "(string \<Rightarrow> json res) \<Rightarrow> 'r wire \<Rightarrow> http_request \<Rightarrow> int \<Rightarrow> ('r net, json \<times> http_response) prog" where
  "request_value loads w q max_attempts = (if max_attempts < 1 \<or> 3 < max_attempts then raiseP (ValueError ''PROVIDER_RETRY_BUDGET_INVALID'')
     else attempts (body_value loads) w q (nat max_attempts))"

definition request_json ::
    "(string \<Rightarrow> json res) \<Rightarrow> 'r wire \<Rightarrow> http_request \<Rightarrow> int \<Rightarrow> ('r net, dict \<times> http_response) prog" where
  "request_json loads w q max_attempts = bindP (request_value loads w q max_attempts) (\<lambda>(v, r). case v of
     JObj d \<Rightarrow> retP (d, r) | _ \<Rightarrow> raiseP (ProviderContractError ''PROVIDER_PARTIAL_OR_NON_OBJECT_RESPONSE''))"

text \<open>\<open>request_bytes\<close>: the same attempts, the body as it is.\<close>

definition request_bytes :: "'r wire \<Rightarrow> http_request \<Rightarrow> int \<Rightarrow> ('r net, string \<times> http_response) prog" where
  "request_bytes w q max_attempts = (if max_attempts < 1 \<or> 3 < max_attempts then raiseP (ValueError ''PROVIDER_RETRY_BUDGET_INVALID'')
     else attempts (\<lambda>r. Inr (ht_body r)) w q (nat max_attempts))"

section \<open>Pages\<close>

definition ends_with :: "string \<Rightarrow> string \<Rightarrow> bool" where
  "ends_with s t = (drop (length s - length t) s = t \<and> length t \<le> length s)"

text \<open>\<open>left[1:-1]\<close> of the part of a \<open>Link\<close> header that is about the next page.\<close>

definition link_target :: "string \<Rightarrow> string option" where
  "link_target part = (if contains part ''rel=\"next\"'' then
     (let left = strip (takeWhile (\<lambda>c. c \<noteq> CHR '';'') part) in
      if starts_with left ''<'' \<and> ends_with left ''>'' then Some (butlast (tl left)) else None) else None)"

primrec first_target :: "string list \<Rightarrow> string option" where
  "first_target [] = None"
| "first_target (p # ps) = (case link_target p of Some t \<Rightarrow> Some t | None \<Rightarrow> first_target ps)"

definition next_link :: "(string \<Rightarrow> string \<Rightarrow> string) \<Rightarrow> (string \<times> string) list \<Rightarrow> string \<Rightarrow> string option" where
  "next_link paged hs current = (case first_target (split_on (CHR '','') (header hs ''Link'' [])) of
     Some t \<Rightarrow> Some t
   | None \<Rightarrow> (let n = strip (header hs ''X-Next-Page'' []) in if n \<noteq> [] then Some (paged current n) else None))"

definition page_items :: "string option \<Rightarrow> json \<Rightarrow> json" where
  "page_items key v = (case (key, v) of (Some k, JObj d) \<Rightarrow> if k \<noteq> [] then dget d k else v | _ \<Rightarrow> v)"

definition get_request_at :: "(string \<times> string) list \<Rightarrow> int \<Rightarrow> string \<Rightarrow> http_request" where
  "get_request_at hs timeout url = \<lparr>hq_method = ''GET'', hq_url = url, hq_headers = hs, hq_payload = None, hq_timeout = timeout\<rparr>"

primrec pages ::
    "(string \<Rightarrow> json res) \<Rightarrow> (string \<Rightarrow> string \<Rightarrow> string) \<Rightarrow> 'r wire \<Rightarrow> (string \<times> string) list \<Rightarrow> int \<Rightarrow> string option
       \<Rightarrow> nat \<Rightarrow> string \<Rightarrow> dict list \<Rightarrow> ('r net, dict list) prog" where
  "pages loads paged w hs timeout key 0 url items = raiseP (ProviderContractError ''PROVIDER_PAGINATION_BUDGET_EXCEEDED'')"
| "pages loads paged w hs timeout key (Suc n) url items =
     bindP (request_value loads w (get_request_at hs timeout url) 2) (\<lambda>(v, r). case page_items key v of
       JList xs \<Rightarrow> if \<not> list_all is_dict xs then raiseP (ProviderContractError ''PROVIDER_PAGE_ITEMS_INVALID'')
         else (case next_link paged (ht_headers r) url of
           Some (c # cs) \<Rightarrow> pages loads paged w hs timeout key n (c # cs) (items @ map dict_of xs)
         | _ \<Rightarrow> retP (items @ map dict_of xs))
     | _ \<Rightarrow> raiseP (ProviderContractError ''PROVIDER_PAGE_ITEMS_INVALID''))"

definition request_list_pages ::
    "(string \<Rightarrow> json res) \<Rightarrow> (string \<Rightarrow> string \<Rightarrow> string) \<Rightarrow> 'r wire \<Rightarrow> string \<Rightarrow> (string \<times> string) list \<Rightarrow> int \<Rightarrow> int \<Rightarrow> string option
       \<Rightarrow> ('r net, dict list) prog" where
  "request_list_pages loads paged w url hs timeout max_pages key =
     (if max_pages < 1 \<or> 100 < max_pages then raiseP (ValueError ''PROVIDER_PAGE_BUDGET_INVALID'')
      else pages loads paged w hs timeout key (nat max_pages) url [])"

definition request_pages ::
    "(string \<Rightarrow> json res) \<Rightarrow> (string \<Rightarrow> string \<Rightarrow> string) \<Rightarrow> 'r wire \<Rightarrow> string \<Rightarrow> (string \<times> string) list \<Rightarrow> int \<Rightarrow> int \<Rightarrow> ('r net, dict list) prog" where
  "request_pages loads paged w url hs timeout max_pages = request_list_pages loads paged w url hs timeout max_pages (Some ''items'')"

section \<open>A change and its readback\<close>

definition mutate_with_readback ::
    "(string \<Rightarrow> json res) \<Rightarrow> 'r wire \<Rightarrow> string \<Rightarrow> string \<Rightarrow> string \<Rightarrow> (string \<times> string) list \<Rightarrow> dict \<Rightarrow> string \<Rightarrow> int \<Rightarrow> ('r net, dict \<times> dict) prog" where
  "mutate_with_readback loads w verb url readback_url hs payload key timeout =
     (if verb \<notin> {''POST'', ''PATCH'', ''PUT'', ''DELETE''} then raiseP (ValueError ''PROVIDER_MUTATION_METHOD_INVALID'')
      else if length key < 12 then raiseP (ValueError ''PROVIDER_IDEMPOTENCY_KEY_REQUIRED'')
      else bindP (request_json loads w \<lparr>hq_method = verb, hq_url = url, hq_headers = AList.update ''Idempotency-Key'' key hs,
             hq_payload = Some payload, hq_timeout = timeout\<rparr> 1) (\<lambda>(m, _).
        bindP (request_json loads w (get_request_at hs timeout readback_url) 2) (\<lambda>(b, _). retP (m, b))))"

section \<open>What a request may cost\<close>

text \<open>An answer after which another attempt is made.\<close>

definition retryable :: "http_response res \<Rightarrow> bool" where
  "retryable a = (case a of Inl e \<Rightarrow> e = OSError | Inr r \<Rightarrow> ht_status r \<in> set TRANSIENT)"

text \<open>
  Between \<open>s\<close> and \<open>t\<close> only \<open>q\<close> was sent, at most \<open>n\<close> times, again only after a retryable answer, with
  naps of at most a second between two attempts.
\<close>

definition spent :: "http_request \<Rightarrow> nat \<Rightarrow> 'r net \<Rightarrow> 'r net \<Rightarrow> bool" where
  "spent q n s t = (\<exists>as ns. nt_sent t = nt_sent s @ map (Pair q) as \<and> length as \<le> n \<and> (n = 0 \<or> as \<noteq> [])
     \<and> list_all retryable (butlast as) \<and> nt_naps t = nt_naps s @ ns \<and> length ns \<le> length as - 1
     \<and> list_all (\<lambda>d. Fin 0 < d \<and> d \<le> Fin 1) ns)"

text \<open>The last request sent was \<open>q\<close>, and it was answered with \<open>r\<close>, a success.\<close>

definition ends_well :: "http_request \<Rightarrow> http_response \<Rightarrow> 'r net \<Rightarrow> bool" where
  "ends_well q r t = (nt_sent t \<noteq> [] \<and> last (nt_sent t) = (q, Inr r) \<and> 200 \<le> ht_status r \<and> ht_status r < 300)"

lemma spent_0: "spent q 0 s s"
  by (auto simp: spent_def)

lemma spent_one:
  assumes "nt_sent t = nt_sent s @ [(q, a)]" "nt_naps t = nt_naps s" "0 < n"
  shows "spent q n s t"
  unfolding spent_def by (rule exI [of _ "[a]"], rule exI [of _ "[]"]) (use assms in auto)

lemma spent_more:
  assumes "nt_sent u = nt_sent s @ [(q, a)]" "retryable a" "nt_naps u = nt_naps s @ ds" "length ds \<le> 1"
    "list_all (\<lambda>d. Fin 0 < d \<and> d \<le> Fin 1) ds" "spent q n u t" "ds = [] \<or> 0 < n"
  shows "spent q (Suc n) s t"
proof -
  from assms(6) obtain as ns where t: "nt_sent t = nt_sent u @ map (Pair q) as" "length as \<le> n" "n = 0 \<or> as \<noteq> []"
    "list_all retryable (butlast as)" "nt_naps t = nt_naps u @ ns" "length ns \<le> length as - 1"
    "list_all (\<lambda>d. Fin 0 < d \<and> d \<le> Fin 1) ns"
    by (auto simp: spent_def)
  have "length (ds @ ns) \<le> length (a # as) - 1"
    using t(3,6) assms(4,7) by (cases as; cases ds) auto
  moreover have "list_all retryable (butlast (a # as))" using t(4) assms(2) by simp
  ultimately show ?thesis unfolding spent_def
    by (intro exI [of _ "a # as"] exI [of _ "ds @ ns"]) (use t assms in auto)
qed

lemma wp_wire_send [wp_simps]: "wp (wire_send w q) Q E s \<longleftrightarrow>
   (let (r, m) = w q (nt_world s); t = s\<lparr>nt_world := m, nt_sent := nt_sent s @ [(q, r)]\<rparr> in case r of Inl e \<Rightarrow> E e t | Inr x \<Rightarrow> Q x t)"
  by (cases "w q (nt_world s)") (simp add: wp_def wire_send_def Let_def)

lemma clip_unit_range: "clip_unit x \<noteq> NaN \<Longrightarrow> clip_unit x \<noteq> Fin 0 \<Longrightarrow> Fin 0 < clip_unit x \<and> clip_unit x \<le> Fin 1"
  by (cases x) (auto simp: clip_unit_def less_pyfloat_def less_eq_pyfloat_def split: if_splits)

lemma retry_delay_range: "retry_delay r \<noteq> NaN \<Longrightarrow> retry_delay r \<noteq> Fin 0 \<Longrightarrow> Fin 0 < retry_delay r \<and> retry_delay r \<le> Fin 1"
  by (auto simp: retry_delay_def clip_unit_range split: option.splits)


lemma wp_attempts: "wp (attempts decode w q n) (\<lambda>(v, r) t. spent q n s t \<and> ends_well q r t) (\<lambda>_. spent q n s) s"
proof (induction n arbitrary: s)
  case 0
  then show ?case by (simp add: wp_simps spent_0)
next
  case (Suc n)
  obtain a m where a: "w q (nt_world s) = (a, m)" by (cases "w q (nt_world s)")
  define u where "u = s\<lparr>nt_world := m, nt_sent := nt_sent s @ [(q, a)]\<rparr>"
  have u: "nt_sent u = nt_sent s @ [(q, a)]" "nt_naps u = nt_naps s" by (simp_all add: u_def)
  note one = spent_one [OF u, of "Suc n", simplified]
  have again: "wp (attempts decode w q n) (\<lambda>(v, r) t. spent q (Suc n) s t \<and> ends_well q r t) (\<lambda>_. spent q (Suc n) s) u'"
    if "nt_sent u' = nt_sent s @ [(q, a)]" "retryable a" "nt_naps u' = nt_naps s @ ds" "length ds \<le> 1"
      "list_all (\<lambda>d. Fin 0 < d \<and> d \<le> Fin 1) ds" "ds = [] \<or> 0 < n" for u' ds
    by (rule wp_mono [OF Suc.IH]) (use spent_more [OF that(1-5) _ that(6)] in auto)
  show ?case
  proof (cases a)
    case (Inl e)
    have "wp (attempts decode w q n) (\<lambda>(v, r) t. spent q (Suc n) s t \<and> ends_well q r t) (\<lambda>_. spent q (Suc n) s) u" if "e = OSError"
      by (rule again [of u "[]"]) (use Inl u that in \<open>simp_all add: retryable_def\<close>)
    then show ?thesis using one by (auto simp: try_send_def wp_simps a Inl Let_def u_def)
  next
    case (Inr r)
    have good: "ends_well q r u" if "200 \<le> ht_status r" "ht_status r < 300"
      using that u Inr by (simp add: ends_well_def)
    have "wp (attempts decode w q n) (\<lambda>(v, r) t. spent q (Suc n) s t \<and> ends_well q r t) (\<lambda>_. spent q (Suc n) s) u"
      if "ht_status r \<in> set TRANSIENT"
      by (rule again [of u "[]"]) (use Inr u that in \<open>simp_all add: retryable_def\<close>)
    moreover have "wp (attempts decode w q n) (\<lambda>(v, r) t. spent q (Suc n) s t \<and> ends_well q r t) (\<lambda>_. spent q (Suc n) s)
        (nt_naps_update (\<lambda>ns. ns @ [retry_delay r]) u)"
      if "ht_status r \<in> set TRANSIENT" "retry_delay r \<noteq> NaN" "retry_delay r \<noteq> Fin 0" "0 < n"
      by (rule again [of _ "[retry_delay r]"]) (use Inr u that retry_delay_range in \<open>simp_all add: retryable_def\<close>)
    ultimately show ?thesis using one good
      by (auto simp: try_send_def wp_simps a Inr Let_def u_def nap_def split: sum.split)
  qed
qed


lemma spent_none: "spent q 0 s t \<longleftrightarrow> nt_sent t = nt_sent s \<and> nt_naps t = nt_naps s"
  by (auto simp: spent_def)

lemma wp_request_value: "wp (request_value loads w q k) (\<lambda>(v, r) t. spent q (if 1 \<le> k \<and> k \<le> 3 then nat k else 0) s t \<and> ends_well q r t)
    (\<lambda>_. spent q (if 1 \<le> k \<and> k \<le> 3 then nat k else 0) s) s"
  using wp_attempts [of "body_value loads" w q "nat k" s] by (auto simp: request_value_def wp_raise spent_0)

lemma wp_request_json: "wp (request_json loads w q k) (\<lambda>(d, r) t. spent q (if 1 \<le> k \<and> k \<le> 3 then nat k else 0) s t \<and> ends_well q r t)
    (\<lambda>_. spent q (if 1 \<le> k \<and> k \<le> 3 then nat k else 0) s) s"
  unfolding request_json_def wp_bind
  by (rule wp_mono [OF wp_request_value]) (auto simp: wp_simps split: json.split)

text \<open>Between \<open>s\<close> and \<open>t\<close> only reads of pages were sent, at most two per page, with at most one nap per page.\<close>

definition paged_reads :: "(string \<times> string) list \<Rightarrow> nat \<Rightarrow> 'r net \<Rightarrow> 'r net \<Rightarrow> bool" where
  "paged_reads hs n s t = (\<exists>new ns. nt_sent t = nt_sent s @ new \<and> length new \<le> 2 * n
     \<and> list_all (\<lambda>(q, a). hq_method q = ''GET'' \<and> hq_headers q = hs \<and> hq_payload q = None) new
     \<and> nt_naps t = nt_naps s @ ns \<and> length ns \<le> n \<and> list_all (\<lambda>d. Fin 0 < d \<and> d \<le> Fin 1) ns)"

lemma paged_refl: "paged_reads hs n s s"
  by (auto simp: paged_reads_def)

lemma paged_more:
  assumes "spent (get_request_at hs timeout url) 2 s u" "paged_reads hs n u t"
  shows "paged_reads hs (Suc n) s t"
proof -
  from assms(1) obtain as ms where u: "nt_sent u = nt_sent s @ map (Pair (get_request_at hs timeout url)) as" "length as \<le> 2"
    "nt_naps u = nt_naps s @ ms" "length ms \<le> length as - 1" "list_all (\<lambda>d. Fin 0 < d \<and> d \<le> Fin 1) ms" by (auto simp: spent_def)
  from assms(2) obtain new ns where t: "nt_sent t = nt_sent u @ new" "length new \<le> 2 * n"
    "list_all (\<lambda>(q, a). hq_method q = ''GET'' \<and> hq_headers q = hs \<and> hq_payload q = None) new"
    "nt_naps t = nt_naps u @ ns" "length ns \<le> n" "list_all (\<lambda>d. Fin 0 < d \<and> d \<le> Fin 1) ns" by (auto simp: paged_reads_def)
  show ?thesis unfolding paged_reads_def
    by (rule exI [of _ "map (Pair (get_request_at hs timeout url)) as @ new"], rule exI [of _ "ms @ ns"])
      (use u t in \<open>auto simp: get_request_at_def list_all_iff\<close>)
qed

lemma wp_pages: "wp (pages loads paged w hs timeout key n url items) (\<lambda>_. paged_reads hs n s) (\<lambda>_. paged_reads hs n s) s"
proof (induction n arbitrary: url items s)
  case 0
  then show ?case by (simp add: wp_simps paged_reads_def)
next
  case (Suc n)
  let ?q = "get_request_at hs timeout url"
  have more: "wp (pages loads paged w hs timeout key n url' items') (\<lambda>_. paged_reads hs (Suc n) s) (\<lambda>_. paged_reads hs (Suc n) s) u"
    if "spent ?q 2 s u" for u url' items'
    by (rule wp_mono [OF Suc.IH]) (use paged_more [OF that] in auto)
  show ?case unfolding pages.simps wp_bind
    by (rule wp_mono [OF wp_request_value [of loads w ?q 2 s]])
      (auto simp: wp_simps paged_more [OF _ paged_refl] more split: prod.split json.split option.split list.split)
qed


text \<open>
  C24.  Every provider call is bounded, for every transport.  \<open>request_value\<close> sends one request, the
  same each time, at most \<open>max_attempts\<close> and never more than three times, again only after a
  network failure or one of the five transient statuses, naps between two attempts for at most a
  second, and returns only the answer of the last attempt, a success.  \<open>request_list_pages\<close> sends
  only reads, at most two for each page of its budget of at most a hundred pages.
\<close>

theorem provider_calls_stay_in_budget:
  "(case request_value loads w q k s of (a, t) \<Rightarrow>
      spent q (if 1 \<le> k \<and> k \<le> 3 then nat k else 0) s t \<and> (case a of Inl e \<Rightarrow> True | Inr (v, r) \<Rightarrow> ends_well q r t))
   \<and> (case request_list_pages loads paged w url hs timeout max_pages key s of (b, u) \<Rightarrow>
      paged_reads hs (if 1 \<le> max_pages \<and> max_pages \<le> 100 then nat max_pages else 0) s u)"
proof (rule conjI)
  show "case request_value loads w q k s of (a, t) \<Rightarrow>
      spent q (if 1 \<le> k \<and> k \<le> 3 then nat k else 0) s t \<and> (case a of Inl e \<Rightarrow> True | Inr (v, r) \<Rightarrow> ends_well q r t)"
    using wp_request_value [of loads w q k s] by (auto simp: wp_def split: sum.split)
  show "case request_list_pages loads paged w url hs timeout max_pages key s of (b, u) \<Rightarrow>
      paged_reads hs (if 1 \<le> max_pages \<and> max_pages \<le> 100 then nat max_pages else 0) s u"
    using wp_pages [of loads paged w hs timeout key "nat max_pages" url "[]" s] paged_refl [of hs 0 s]
    by (auto simp: request_list_pages_def wp_def raiseP_def split: sum.splits)
qed

lemma wp_case: "wp m (\<lambda>_ t. l t \<and> r t) (\<lambda>_. l) s \<Longrightarrow> case m s of (a, t) \<Rightarrow> l t \<and> (case a of Inl e \<Rightarrow> True | Inr (x, y) \<Rightarrow> r t)"
  by (auto simp: wp_def split: prod.splits sum.splits)

text \<open>
  C23.  A provider mutation is sent at most once, whatever happens to it: \<open>mutate_with_readback\<close>
  refuses a read verb or a short idempotency key before it sends anything, sends the change with
  its key once, without a second attempt, then reads back at most twice and only after the change
  was answered with a success; and it returns only when the readback succeeded too.
\<close>

theorem a_change_is_sent_once:
  "case mutate_with_readback loads w verb url readback_url hs payload key timeout s of (a, t) \<Rightarrow>
     (\<exists>as bs. nt_sent t = nt_sent s @ map (Pair \<lparr>hq_method = verb, hq_url = url, hq_headers = AList.update ''Idempotency-Key'' key hs,
            hq_payload = Some payload, hq_timeout = timeout\<rparr>) as @ map (Pair (get_request_at hs timeout readback_url)) bs
        \<and> length as \<le> (if verb \<in> {''POST'', ''PATCH'', ''PUT'', ''DELETE''} \<and> 12 \<le> length key then 1 else 0) \<and> length bs \<le> 2
        \<and> (bs = [] \<or> (\<exists>r. as = [Inr r] \<and> 200 \<le> ht_status r \<and> ht_status r < 300)))
     \<and> (case a of Inl e \<Rightarrow> True | Inr (m, b) \<Rightarrow> (\<exists>r. ends_well (get_request_at hs timeout readback_url) r t))"
proof -
  let ?c = "\<lparr>hq_method = verb, hq_url = url, hq_headers = AList.update ''Idempotency-Key'' key hs, hq_payload = Some payload, hq_timeout = timeout\<rparr>"
  let ?g = "get_request_at hs timeout readback_url"
  let ?L = "\<lambda>t. \<exists>as bs. nt_sent t = nt_sent s @ map (Pair ?c) as @ map (Pair ?g) bs
        \<and> length as \<le> (if verb \<in> {''POST'', ''PATCH'', ''PUT'', ''DELETE''} \<and> 12 \<le> length key then 1 else 0) \<and> length bs \<le> 2
        \<and> (bs = [] \<or> (\<exists>r. as = [Inr r] \<and> 200 \<le> ht_status r \<and> ht_status r < 300))"
  have none: "?L s" by (rule exI [of _ "[]"], rule exI [of _ "[]"]) simp
  have "wp (mutate_with_readback loads w verb url readback_url hs payload key timeout)
      (\<lambda>_ t. ?L t \<and> (\<exists>r. ends_well ?g r t)) (\<lambda>_. ?L) s"
  proof (cases "verb \<in> {''POST'', ''PATCH'', ''PUT'', ''DELETE''} \<and> 12 \<le> length key")
    case False
    then show ?thesis using none unfolding mutate_with_readback_def by (auto simp: wp_raise)
  next
    case True
    have sent: "?L u" if "spent ?c 1 s u" for u
    proof -
      from that obtain as where "nt_sent u = nt_sent s @ map (Pair ?c) as" "length as \<le> 1" by (auto simp: spent_def)
      with True show ?thesis by (intro exI [of _ as] exI [of _ "[]"]) auto
    qed
    have readback: "?L t" if u: "spent ?c 1 s u" "ends_well ?c r u" and t: "spent ?g 2 u t" for u r t
    proof -
      from u(1) obtain as where as: "nt_sent u = nt_sent s @ map (Pair ?c) as" "length as \<le> 1" "as \<noteq> []" by (auto simp: spent_def)
      then obtain a where a: "as = [a]" by (cases as) auto
      with as u(2) have "a = Inr r" "200 \<le> ht_status r" "ht_status r < 300" by (auto simp: ends_well_def)
      moreover from t obtain bs where "nt_sent t = nt_sent u @ map (Pair ?g) bs" "length bs \<le> 2" by (auto simp: spent_def)
      ultimately show ?thesis using as a True by (intro exI [of _ as] exI [of _ bs]) auto
    qed
    have m: "mutate_with_readback loads w verb url readback_url hs payload key timeout
        = bindP (request_json loads w ?c 1) (\<lambda>(m, _). bindP (request_json loads w ?g 2) (\<lambda>(b, _). retP (m, b)))"
      using True by (simp add: mutate_with_readback_def)
    have "wp (bindP (request_json loads w ?g 2) (\<lambda>(b, _). retP (v, b))) (\<lambda>_ t. ?L t \<and> (\<exists>r. ends_well ?g r t)) (\<lambda>_. ?L) u"
      if "spent ?c 1 s u" "ends_well ?c r u" for u r v
      unfolding wp_bind
      by (rule wp_mono [OF wp_request_json [of loads w ?g 2 u]]) (use readback [OF that] in \<open>auto simp: wp_ret\<close>)
    then show ?thesis unfolding m wp_bind [of "request_json loads w ?c 1"]
      by (intro wp_mono [OF wp_request_json [of loads w ?c 1 s]]) (use sent in \<open>auto\<close>)
  qed
  then show ?thesis by (rule wp_case)
qed


section \<open>A finding\<close>

text \<open>A \<open>Retry-After\<close> header that reads as a NaN ends the call with the \<open>ValueError\<close> of \<open>sleep\<close>, not with a provider error.\<close>

lemma nan_retry_after_raises:
  assumes "w q (nt_world s) = (Inr r, m)" "ht_status r = 503" "header (ht_headers r) ''Retry-After'' ''0'' = ''nan''"
  shows "fst (request_value loads w q 2 s) = Inl (ValueError ''Invalid value NaN (not a number)'')"
proof -
  have "parse_float ''nan'' = Some NaN" by code_simp
  then have "retry_delay r = NaN" by (simp add: retry_delay_def assms(3) clip_unit_def)
  moreover have "attempts d w q (Suc (Suc 0)) s = (Inl (ValueError ''Invalid value NaN (not a number)''), s\<lparr>nt_world := m, nt_sent := nt_sent s @ [(q, Inr r)]\<rparr>)"
    if "retry_delay r = NaN" for d
    using that assms by (simp add: run_simps try_send_def wire_send_def nap_def FATAL_def TRANSIENT_def)
  ultimately have "attempts (body_value loads) w q (Suc (Suc 0)) s = (Inl (ValueError ''Invalid value NaN (not a number)''), s\<lparr>nt_world := m, nt_sent := nt_sent s @ [(q, Inr r)]\<rparr>)" by blast
  moreover have "nat 2 = Suc (Suc 0)" by simp
  ultimately show ?thesis by (simp only: request_value_def) simp
qed

end
