(* ===== verification/GitHubClient.thy ===== *)
theory GitHubClient
  imports ProviderHttp
begin

text \<open>
  The single GitHub API boundary (\<open>.adwf/lib/github_provider.py\<close>) over the HTTP contracts, and the
  rulesets it must prove (\<open>.adwf/lib/github_rulesets.py\<close>).  A client is the repository, the token,
  the base address and the transport with its two parameters; each method of the class is one
  program.  The texts of addresses are percent-encoded from their UTF-8 bytes, file contents are
  encoded in base64, as \<open>urllib.parse.quote\<close> and \<open>base64\<close> do.
\<close>

section \<open>Encodings\<close>

definition utf8_char :: "char \<Rightarrow> string" where
  "utf8_char c = (let n = of_char c :: nat in
     if n < 128 then [c] else [char_of (192 + n div 64), char_of (128 + n mod 64)])"

definition utf8 :: "string \<Rightarrow> string" where
  "utf8 s = concat (map utf8_char s)"

definition hex_upper :: "nat \<Rightarrow> char" where
  "hex_upper n = ''0123456789ABCDEF'' ! n"

definition quote_byte :: "string \<Rightarrow> char \<Rightarrow> string" where
  "quote_byte safe c = (if c \<in> set ''ABCDEFGHIJKLMNOPQRSTUVWXYZabcdefghijklmnopqrstuvwxyz0123456789_.-~'' \<or> c \<in> set safe then [c]
     else (let n = of_char c :: nat in [CHR ''%'', hex_upper (n div 16), hex_upper (n mod 16)]))"

definition url_quote :: "string \<Rightarrow> string \<Rightarrow> string" where
  "url_quote safe s = concat (map (quote_byte safe) (utf8 s))"

definition base64_digit :: "nat \<Rightarrow> char" where
  "base64_digit n = ''ABCDEFGHIJKLMNOPQRSTUVWXYZabcdefghijklmnopqrstuvwxyz0123456789+/'' ! n"

fun base64 :: "string \<Rightarrow> string" where
  "base64 [] = []"
| "base64 [a] = (let n = of_char a * 16 :: nat in [base64_digit (n div 64), base64_digit (n mod 64), CHR ''='', CHR ''=''])"
| "base64 [a, b] = (let n = (of_char a * 256 + of_char b) * 4 :: nat in
     [base64_digit (n div 4096), base64_digit (n div 64 mod 64), base64_digit (n mod 64), CHR ''=''])"
| "base64 (a # b # c # cs) = (let n = (of_char a * 256 + of_char b) * 256 + of_char c :: nat in
     [base64_digit (n div 262144), base64_digit (n div 4096 mod 64), base64_digit (n div 64 mod 64), base64_digit (n mod 64)] @ base64 cs)"

section \<open>The client\<close>

record 'r github =
  gh_repo :: string
  gh_token :: string
  gh_base :: string
  gh_wire :: "'r wire"
  gh_loads :: "string \<Rightarrow> json res"
  gh_paged :: "string \<Rightarrow> string \<Rightarrow> string"

definition gh_headers :: "'r github \<Rightarrow> (string \<times> string) list" where
  "gh_headers c = [(''Authorization'', ''Bearer '' @ gh_token c), (''Accept'', ''application/vnd.github+json''),
     (''X-GitHub-Api-Version'', ''2022-11-28''), (''User-Agent'', ''adwf-v1.6'')]"

definition gh_url :: "'r github \<Rightarrow> string \<Rightarrow> string" where
  "gh_url c path = rev (dropWhile (\<lambda>x. x = CHR ''/'') (rev (gh_base c))) @ path"

definition gh_get :: "'r github \<Rightarrow> string \<Rightarrow> ('r net, dict) prog" where
  "gh_get c path = bindP (request_json (gh_loads c) (gh_wire c) (get_request_at (gh_headers c) 20 (gh_url c path)) 2) (\<lambda>(d, _). retP d)"

text \<open>\<open>post\<close>, \<open>patch\<close> and \<open>put\<close>: one attempt.\<close>

definition gh_change :: "'r github \<Rightarrow> string \<Rightarrow> (string \<times> string) list \<Rightarrow> string \<Rightarrow> dict \<Rightarrow> ('r net, dict) prog" where
  "gh_change c verb hs path payload = bindP (request_json (gh_loads c) (gh_wire c) \<lparr>hq_method = verb, hq_url = gh_url c path, hq_headers = hs,
     hq_payload = Some payload, hq_timeout = 20\<rparr> 1) (\<lambda>(d, _). retP d)"

definition gh_post :: "'r github \<Rightarrow> string \<Rightarrow> dict \<Rightarrow> ('r net, dict) prog" where
  "gh_post c = gh_change c ''POST'' (gh_headers c)"

definition gh_patch :: "'r github \<Rightarrow> string \<Rightarrow> dict \<Rightarrow> ('r net, dict) prog" where
  "gh_patch c = gh_change c ''PATCH'' (gh_headers c)"

definition gh_put :: "'r github \<Rightarrow> string \<Rightarrow> dict \<Rightarrow> ('r net, dict) prog" where
  "gh_put c = gh_change c ''PUT'' (gh_headers c)"

definition gh_list :: "'r github \<Rightarrow> string \<Rightarrow> string option \<Rightarrow> ('r net, dict list) prog" where
  "gh_list c path key = request_list_pages (gh_loads c) (gh_paged c) (gh_wire c) (gh_url c path) (gh_headers c) 20 10 key"

definition gh_path :: "'r github \<Rightarrow> string \<Rightarrow> string" where
  "gh_path c rest = ''/repos/'' @ gh_repo c @ rest"

section \<open>Reads\<close>

definition repo_info :: "'r github \<Rightarrow> ('r net, dict) prog" where
  "repo_info c = gh_get c (gh_path c [])"

definition gh_branch :: "'r github \<Rightarrow> string \<Rightarrow> ('r net, dict) prog" where
  "gh_branch c name = gh_get c (gh_path c (''/branches/'' @ url_quote [] name))"

definition gh_issues :: "'r github \<Rightarrow> ('r net, dict list) prog" where
  "gh_issues c = gh_list c (gh_path c ''/issues?state=all&per_page=100'') None"

definition gh_pulls :: "'r github \<Rightarrow> ('r net, dict list) prog" where
  "gh_pulls c = gh_list c (gh_path c ''/pulls?state=all&sort=updated&direction=desc&per_page=100'') None"

definition gh_runs :: "'r github \<Rightarrow> ('r net, dict list) prog" where
  "gh_runs c = gh_list c (gh_path c ''/actions/runs?per_page=100'') (Some ''workflow_runs'')"

definition event_char :: "char \<Rightarrow> bool" where
  "event_char c = (c \<in> set ''ABCDEFGHIJKLMNOPQRSTUVWXYZabcdefghijklmnopqrstuvwxyz0123456789_.-'')"

definition recent_runs :: "'r github \<Rightarrow> json \<Rightarrow> json \<Rightarrow> ('r net, dict list) prog" where
  "recent_runs c limit event = (if \<not> strict_int limit \<or> int_of limit < 1 \<or> 100 < int_of limit
       then raiseP (ProviderContractError ''PROVIDER_RECENT_RUNS_LIMIT_INVALID'')
     else if event \<noteq> JNull \<and> \<not> (is_str event \<and> 1 \<le> length (str_of event) \<and> length (str_of event) \<le> 64 \<and> list_all event_char (str_of event))
       then raiseP (ProviderContractError ''PROVIDER_RECENT_RUNS_EVENT_INVALID'')
     else bindP (gh_get c (gh_path c (''/actions/runs?per_page='' @ int_str (int_of limit) @
         (if event = JNull then [] else ''&event='' @ url_quote [] (str_of event))))) (\<lambda>v. case dget v ''workflow_runs'' of
       JList rows \<Rightarrow> if list_all is_dict rows \<and> int (length rows) \<le> int_of limit then retP (map dict_of rows)
         else raiseP (ProviderContractError ''PROVIDER_RECENT_RUNS_PAYLOAD_INVALID'')
     | _ \<Rightarrow> raiseP (ProviderContractError ''PROVIDER_RECENT_RUNS_PAYLOAD_INVALID'')))"

definition gh_jobs :: "'r github \<Rightarrow> int \<Rightarrow> ('r net, dict list) prog" where
  "gh_jobs c run = gh_list c (gh_path c (''/actions/runs/'' @ int_str run @ ''/jobs?per_page=100'')) (Some ''jobs'')"

definition job_logs :: "'r github \<Rightarrow> int \<Rightarrow> ('r net, string) prog" where
  "job_logs c job = bindP (request_bytes (gh_wire c) (get_request_at (gh_headers c) 30
     (gh_url c (gh_path c (''/actions/jobs/'' @ int_str job @ ''/logs'')))) 2) (\<lambda>(b, _). retP b)"

definition issue_comments :: "'r github \<Rightarrow> int \<Rightarrow> ('r net, dict list) prog" where
  "issue_comments c n = gh_list c (gh_path c (''/issues/'' @ int_str n @ ''/comments?per_page=100'')) None"

definition git_ref :: "'r github \<Rightarrow> string \<Rightarrow> ('r net, dict) prog" where
  "git_ref c b = gh_get c (gh_path c (''/git/ref/heads/'' @ url_quote [] b))"

definition git_commit :: "'r github \<Rightarrow> string \<Rightarrow> ('r net, dict) prog" where
  "git_commit c s = gh_get c (gh_path c (''/git/commits/'' @ url_quote [] s))"

definition git_tree :: "'r github \<Rightarrow> string \<Rightarrow> bool \<Rightarrow> ('r net, dict) prog" where
  "git_tree c s recursive = gh_get c (gh_path c (''/git/trees/'' @ url_quote [] s @ (if recursive then ''?recursive=1'' else [])))"

definition git_blob :: "'r github \<Rightarrow> string \<Rightarrow> ('r net, dict) prog" where
  "git_blob c s = gh_get c (gh_path c (''/git/blobs/'' @ url_quote [] s))"

definition tag_ref :: "'r github \<Rightarrow> string \<Rightarrow> ('r net, dict) prog" where
  "tag_ref c t = gh_get c (gh_path c (''/git/ref/tags/'' @ url_quote [] t))"

definition matching_tag_refs :: "'r github \<Rightarrow> string \<Rightarrow> ('r net, dict list) prog" where
  "matching_tag_refs c p = gh_list c (gh_path c (''/git/matching-refs/tags/'' @ url_quote [] p)) None"

definition tag_object :: "'r github \<Rightarrow> string \<Rightarrow> ('r net, dict) prog" where
  "tag_object c s = gh_get c (gh_path c (''/git/tags/'' @ s))"

definition release_by_tag :: "'r github \<Rightarrow> string \<Rightarrow> ('r net, dict) prog" where
  "release_by_tag c t = gh_get c (gh_path c (''/releases/tags/'' @ url_quote [] t))"

definition gh_content :: "'r github \<Rightarrow> string \<Rightarrow> string option \<Rightarrow> ('r net, dict) prog" where
  "gh_content c path ref = gh_get c (gh_path c (''/contents/'' @ url_quote ''/'' path @ (case ref of None \<Rightarrow> []
     | Some r \<Rightarrow> if r = [] then [] else ''?ref='' @ url_quote [] r)))"

definition gh_pull :: "'r github \<Rightarrow> int \<Rightarrow> ('r net, dict) prog" where
  "gh_pull c n = gh_get c (gh_path c (''/pulls/'' @ int_str n))"

definition pull_files :: "'r github \<Rightarrow> int \<Rightarrow> ('r net, dict list) prog" where
  "pull_files c n = gh_list c (gh_path c (''/pulls/'' @ int_str n @ ''/files?per_page=100'')) None"

definition pull_reviews :: "'r github \<Rightarrow> int \<Rightarrow> ('r net, dict list) prog" where
  "pull_reviews c n = gh_list c (gh_path c (''/pulls/'' @ int_str n @ ''/reviews?per_page=100'')) None"

definition check_runs :: "'r github \<Rightarrow> string \<Rightarrow> ('r net, dict list) prog" where
  "check_runs c s = gh_list c (gh_path c (''/commits/'' @ s @ ''/check-runs?per_page=100'')) (Some ''check_runs'')"

definition current_user :: "'r github \<Rightarrow> ('r net, dict) prog" where
  "current_user c = gh_get c ''/user''"

definition collaborator_permission :: "'r github \<Rightarrow> string \<Rightarrow> ('r net, dict) prog" where
  "collaborator_permission c login = gh_get c (gh_path c (''/collaborators/'' @ url_quote [] login @ ''/permission''))"

text \<open>A comprehension whose body is a program.\<close>

primrec eachP :: "('a \<Rightarrow> ('s, 'b) prog) \<Rightarrow> 'a list \<Rightarrow> ('s, 'b list) prog" where
  "eachP f [] = retP []"
| "eachP f (x # xs) = bindP (f x) (\<lambda>y. bindP (eachP f xs) (\<lambda>ys. retP (y # ys)))"

definition ruleset_path :: "'r github \<Rightarrow> json \<Rightarrow> string" where
  "ruleset_path c rid = gh_path c (''/rulesets/'' @ py_str rid)"

definition gh_rulesets :: "'r github \<Rightarrow> ('r net, dict list) prog" where
  "gh_rulesets c = bindP (gh_list c (gh_path c ''/rulesets?per_page=100'') None) (\<lambda>items.
     eachP (\<lambda>i. gh_get c (ruleset_path c (dget i ''id''))) (filter (\<lambda>i. dget i ''id'' \<noteq> JNull) items))"

section \<open>Changes\<close>

definition create_ref :: "'r github \<Rightarrow> string \<Rightarrow> string \<Rightarrow> ('r net, dict) prog" where
  "create_ref c b s = gh_post c (gh_path c ''/git/refs'') [(''ref'', JStr (''refs/heads/'' @ b)), (''sha'', JStr s)]"

definition create_blob :: "'r github \<Rightarrow> string \<Rightarrow> ('r net, dict) prog" where
  "create_blob c bytes = gh_post c (gh_path c ''/git/blobs'') [(''content'', JStr (base64 bytes)), (''encoding'', JStr ''base64'')]"

definition create_tree :: "'r github \<Rightarrow> json \<Rightarrow> json \<Rightarrow> ('r net, dict) prog" where
  "create_tree c base entries = (if \<not> is_list entries \<or> \<not> truthy entries then raiseP (ProviderContractError ''GITHUB_GIT_TREE_ENTRIES_INVALID'')
     else gh_post c (gh_path c ''/git/trees'') [(''base_tree'', base), (''tree'', entries)])"

definition create_commit :: "'r github \<Rightarrow> json \<Rightarrow> json \<Rightarrow> json \<Rightarrow> ('r net, dict) prog" where
  "create_commit c message tree parent = (if \<not> is_str message \<or> strip (str_of message) = []
       then raiseP (ProviderContractError ''GITHUB_GIT_COMMIT_MESSAGE_INVALID'')
     else gh_post c (gh_path c ''/git/commits'') [(''message'', message), (''tree'', tree), (''parents'', JList [parent])])"

definition update_branch_ref :: "'r github \<Rightarrow> string \<Rightarrow> string \<Rightarrow> ('r net, dict) prog" where
  "update_branch_ref c b s = gh_patch c (gh_path c (''/git/refs/heads/'' @ url_quote [] b)) [(''sha'', JStr s), (''force'', JBool False)]"

definition create_tag_object :: "'r github \<Rightarrow> string \<Rightarrow> string \<Rightarrow> string \<Rightarrow> ('r net, dict) prog" where
  "create_tag_object c t s message = gh_post c (gh_path c ''/git/tags'') [(''tag'', JStr t), (''message'', JStr message), (''object'', JStr s),
     (''type'', JStr ''commit'')]"

definition create_tag_ref :: "'r github \<Rightarrow> string \<Rightarrow> string \<Rightarrow> ('r net, dict) prog" where
  "create_tag_ref c t s = gh_post c (gh_path c ''/git/refs'') [(''ref'', JStr (''refs/tags/'' @ t)), (''sha'', JStr s)]"

text \<open>The revision of the file is sent when it can be read; any failure of that read is passed over.\<close>

definition put_text_file :: "'r github \<Rightarrow> string \<Rightarrow> string \<Rightarrow> string \<Rightarrow> string \<Rightarrow> ('r net, dict) prog" where
  "put_text_file c path text branch message = (let payload = [(''message'', JStr message), (''content'', JStr (base64 (utf8 text))),
       (''branch'', JStr branch)] in
     bindP (tryP (bindP (gh_content c path (Some branch)) (\<lambda>current. retP (let s = dget current ''sha'' in
         if truthy s then payload @ [(''sha'', s)] else payload)))
       (\<lambda>e. if e = Interrupted then raiseP e else retP payload)) (\<lambda>full.
     gh_put c (gh_path c (''/contents/'' @ url_quote ''/'' path)) full))"

definition workflow_dispatch :: "'r github \<Rightarrow> string \<Rightarrow> string \<Rightarrow> dict \<Rightarrow> ('r net, dict) prog" where
  "workflow_dispatch c workflow ref inputs = bindP (gh_post c (gh_path c (''/actions/workflows/'' @ url_quote [] workflow @ ''/dispatches''))
       [(''ref'', JStr ref), (''inputs'', JObj inputs)]) (\<lambda>_.
     retP [(''status'', JStr ''DISPATCHED''), (''workflow'', JStr workflow), (''ref'', JStr ref)])"

definition repository_dispatch :: "'r github \<Rightarrow> string \<Rightarrow> dict \<Rightarrow> ('r net, dict) prog" where
  "repository_dispatch c event payload = bindP (gh_post c (gh_path c ''/dispatches'') [(''event_type'', JStr event), (''client_payload'', JObj payload)]) (\<lambda>_.
     retP [(''status'', JStr ''DISPATCHED''), (''event_type'', JStr event)])"

definition merge_pull :: "'r github \<Rightarrow> int \<Rightarrow> string \<Rightarrow> string \<Rightarrow> ('r net, dict) prog" where
  "merge_pull c n s how = gh_put c (gh_path c (''/pulls/'' @ int_str n @ ''/merge'')) [(''sha'', JStr s), (''merge_method'', JStr how)]"

definition create_issue :: "'r github \<Rightarrow> string \<Rightarrow> string \<Rightarrow> ('r net, dict) prog" where
  "create_issue c title body = gh_post c (gh_path c ''/issues'') [(''title'', JStr title), (''body'', JStr body)]"

definition create_pull :: "'r github \<Rightarrow> string \<Rightarrow> string \<Rightarrow> string \<Rightarrow> string \<Rightarrow> ('r net, dict) prog" where
  "create_pull c title body head base = gh_post c (gh_path c ''/pulls'') [(''title'', JStr title), (''body'', JStr body), (''head'', JStr head),
     (''base'', JStr base)]"

definition close_issue :: "'r github \<Rightarrow> int \<Rightarrow> ('r net, dict) prog" where
  "close_issue c n = gh_patch c (gh_path c (''/issues/'' @ int_str n)) [(''state'', JStr ''closed'')]"

definition add_issue_comment :: "'r github \<Rightarrow> int \<Rightarrow> string \<Rightarrow> ('r net, dict) prog" where
  "add_issue_comment c n body = gh_post c (gh_path c (''/issues/'' @ int_str n @ ''/comments'')) [(''body'', JStr body)]"

definition create_ruleset :: "'r github \<Rightarrow> dict \<Rightarrow> string \<Rightarrow> ('r net, dict \<times> dict) prog" where
  "create_ruleset c payload key = bindP (gh_change c ''POST'' (AList.update ''Idempotency-Key'' key (gh_headers c)) (gh_path c ''/rulesets'') payload) (\<lambda>m.
     let rid = dget m ''id'' in if rid = JNull then raiseP (ValueError ''GITHUB_RULESET_CREATE_ID_MISSING'')
     else bindP (gh_get c (ruleset_path c rid)) (\<lambda>b. retP (m, b)))"

definition update_ruleset :: "'r github \<Rightarrow> int \<Rightarrow> dict \<Rightarrow> ('r net, dict) prog" where
  "update_ruleset c rid payload = bindP (gh_put c (ruleset_path c (JInt rid)) payload) (\<lambda>_. gh_get c (ruleset_path c (JInt rid)))"

section \<open>Rulesets\<close>

definition REQUIRED_CHECKS :: "string list" where
  "REQUIRED_CHECKS = [''fast-feedback'', ''adwf/governance-gate'', ''adwf/trusted-gate'']"

definition check_item :: "int option \<Rightarrow> string \<Rightarrow> json" where
  "check_item integration context = JObj ((''context'', JStr context) # (case integration of None \<Rightarrow> [] | Some i \<Rightarrow> [(''integration_id'', JInt i)]))"

definition strs_json :: "string list \<Rightarrow> json" where
  "strs_json ss = JList (map JStr ss)"

definition rule_json :: "string \<Rightarrow> dict \<Rightarrow> json" where
  "rule_json t ps = JObj ((''type'', JStr t) # (if ps = [] then [] else [(''parameters'', JObj ps)]))"

definition ref_condition :: "string \<Rightarrow> json" where
  "ref_condition pattern = JObj [(''ref_name'', JObj [(''include'', strs_json [pattern]), (''exclude'', JList [])])]"

definition canonical_ruleset_payload :: "int option \<Rightarrow> dict" where
  "canonical_ruleset_payload integration = [(''name'', JStr ''ADWF protected main''), (''target'', JStr ''branch''), (''enforcement'', JStr ''active''),
     (''bypass_actors'', JList []), (''conditions'', ref_condition ''~DEFAULT_BRANCH''),
     (''rules'', JList [rule_json ''deletion'' [], rule_json ''non_fast_forward'' [],
        rule_json ''pull_request'' [(''dismiss_stale_reviews_on_push'', JBool True), (''require_code_owner_review'', JBool False),
          (''require_last_push_approval'', JBool False), (''required_approving_review_count'', JInt 0), (''required_review_thread_resolution'', JBool False)],
        rule_json ''required_status_checks'' [(''strict_required_status_checks_policy'', JBool True), (''do_not_enforce_on_create'', JBool False),
          (''required_status_checks'', JList (map (check_item integration) REQUIRED_CHECKS))]])]"

definition runtime_anchor_ruleset_payload :: dict where
  "runtime_anchor_ruleset_payload = [(''name'', JStr ''ADWF immutable runtime anchors''), (''target'', JStr ''tag''), (''enforcement'', JStr ''active''),
     (''bypass_actors'', JList []), (''conditions'', ref_condition ''refs/tags/adwf-runtime-anchor-*''),
     (''rules'', JList [rule_json ''deletion'' [], rule_json ''update'' []])]"

text \<open>\<open>x in v\<close> for a text \<open>x\<close>.\<close>

fun memberE :: "string \<Rightarrow> json \<Rightarrow> bool res" where
  "memberE x (JList vs) = Inr (JStr x \<in> set vs)"
| "memberE x (JStr s) = Inr (contains s x)"
| "memberE x (JObj d) = Inr (dhas d x)"
| "memberE x _ = Inl TypeError"

text \<open>\<open>(v.get(k) or {})\<close> and \<open>(v.get(k) or [])\<close> of a value of unknown type.\<close>

definition objE :: "json \<Rightarrow> string \<Rightarrow> json res" where
  "objE v k = bindE (getE v k) (\<lambda>w. Inr (py_or w (JObj [])))"

definition itemsE :: "json \<Rightarrow> string \<Rightarrow> json list res" where
  "itemsE v k = bindE (getE v k) (\<lambda>w. iterE (py_or w (JList [])))"

definition covers_ref :: "dict \<Rightarrow> string \<Rightarrow> bool res" where
  "covers_ref rs pattern = bindE (objE (JObj rs) ''conditions'') (\<lambda>c. bindE (objE c ''ref_name'') (\<lambda>r.
     bindE (getE r ''include'') (\<lambda>i. memberE pattern (py_or i (JList [])))))"

definition rule_types :: "dict \<Rightarrow> json list res" where
  "rule_types rs = bindE (itemsE (JObj rs) ''rules'') (mapE (\<lambda>r. bindE (getE r ''type'') hashE))"

definition head_of_ruleset :: "dict \<Rightarrow> string \<Rightarrow> string \<Rightarrow> string list" where
  "head_of_ruleset rs target pre = flag (dget rs ''target'' \<noteq> JStr target) (pre @ ''_TARGET'') @
     flag (dget rs ''enforcement'' \<noteq> JStr ''active'') (pre @ ''_ENFORCEMENT'') @
     flag (truthy (dget rs ''bypass_actors'')) (pre @ ''_BYPASS_ACTORS_PRESENT'')"

definition anchor_findings :: "dict \<Rightarrow> string list res" where
  "anchor_findings rs = bindE (covers_ref rs ''refs/tags/adwf-runtime-anchor-*'') (\<lambda>ref. bindE (rule_types rs) (\<lambda>types.
     Inr (head_of_ruleset rs ''tag'' ''ANCHOR_RULESET'' @ flag (\<not> ref) ''ANCHOR_RULESET_PATTERN'' @
       flag (\<not> {JStr ''deletion'', JStr ''update''} \<subseteq> set types) ''ANCHOR_RULESET_IMMUTABILITY_RULES_MISSING'')))"

text \<open>The strictness and the sources of the checks a ruleset requires; a later rule overrides.\<close>

definition add_check :: "json \<Rightarrow> dict \<Rightarrow> dict res" where
  "add_check x checks = bindE (getE x ''context'') (\<lambda>n. if \<not> truthy n then Inr checks
     else bindE (getE x ''integration_id'') (\<lambda>i. Inr (dput (py_str n) i checks)))"

definition read_rule :: "json \<Rightarrow> bool \<times> dict \<Rightarrow> (bool \<times> dict) res" where
  "read_rule r acc = bindE (getE r ''type'') (\<lambda>t. if t \<noteq> JStr ''required_status_checks'' then Inr acc
     else bindE (objE r ''parameters'') (\<lambda>ps. bindE (getE ps ''strict_required_status_checks_policy'') (\<lambda>strict.
       bindE (itemsE ps ''required_status_checks'') (\<lambda>xs. bindE (foldE add_check xs (snd acc)) (\<lambda>checks. Inr (strict = JBool True, checks))))))"

definition checks_come_from :: "dict \<Rightarrow> int option \<Rightarrow> bool res" where
  "checks_come_from checks expected = (case expected of None \<Rightarrow> Inr True
     | Some i \<Rightarrow> allE' (\<lambda>c. bindE (py_int (py_or (dget checks c) (JInt (- 1)))) (\<lambda>n. Inr (n = i))) REQUIRED_CHECKS)"

definition ruleset_findings :: "int option \<Rightarrow> dict \<Rightarrow> string list res" where
  "ruleset_findings expected rs = bindE (covers_ref rs ''~DEFAULT_BRANCH'') (\<lambda>ref. bindE (rule_types rs) (\<lambda>types.
     bindE (itemsE (JObj rs) ''rules'') (\<lambda>rules. bindE (foldE read_rule rules (False, [])) (\<lambda>(strict, checks).
     bindE (checks_come_from checks expected) (\<lambda>same.
     Inr (head_of_ruleset rs ''branch'' ''RULESET'' @ flag (\<not> ref) ''RULESET_DEFAULT_BRANCH_CONDITION'' @
       flag (\<not> {JStr ''deletion'', JStr ''non_fast_forward'', JStr ''pull_request'', JStr ''required_status_checks''} \<subseteq> set types) ''RULESET_PROTECTIONS_MISSING'' @
       flag (\<not> list_all (dhas checks) REQUIRED_CHECKS) ''RULESET_REQUIRED_CHECKS_MISSING'' @
       flag (\<not> same) ''RULESET_CHECK_SOURCE_MISMATCH'' @ flag (\<not> strict) ''RULESET_STRICT_STATUS_POLICY_MISSING''))))))"

record ruleset_view =
  rv_matched :: "dict option"
  rv_reasons :: "string list"

text \<open>The first ruleset without findings ends the search; the findings of those before it are kept.\<close>

primrec first_clean :: "(dict \<Rightarrow> string list res) \<Rightarrow> dict list \<Rightarrow> string list \<Rightarrow> ruleset_view res" where
  "first_clean check [] reasons = Inr \<lparr>rv_matched = None, rv_reasons = reasons\<rparr>"
| "first_clean check (rs # rss) reasons = bindE (check rs) (\<lambda>fs. if fs = [] then Inr \<lparr>rv_matched = Some rs, rv_reasons = reasons\<rparr>
     else first_clean check rss (reasons @ fs))"

definition conclude :: "string \<Rightarrow> ruleset_view \<Rightarrow> ruleset_view" where
  "conclude missing v = rv_reasons_update (\<lambda>fs. uniq (fs @ flag (rv_matched v = None) missing)) v"

definition verify_rulesets :: "int option \<Rightarrow> dict list \<Rightarrow> ruleset_view res" where
  "verify_rulesets expected rss = bindE (first_clean (ruleset_findings expected) rss []) (\<lambda>v. Inr (conclude ''CANONICAL_RULESET_NOT_VERIFIED'' v))"

definition verify_runtime_anchor_ruleset :: "dict list \<Rightarrow> ruleset_view res" where
  "verify_runtime_anchor_ruleset rss = bindE (first_clean anchor_findings (filter (\<lambda>rs. dget rs ''name'' = JStr ''ADWF immutable runtime anchors'') rss) [])
     (\<lambda>v. Inr (conclude ''RUNTIME_ANCHOR_RULESET_NOT_VERIFIED'' v))"

text \<open>\<open>readback_verified\<close>, and the ruleset's id.\<close>

definition rv_verified :: "ruleset_view \<Rightarrow> bool" where
  "rv_verified v = (case rv_matched v of None \<Rightarrow> False | Some rs \<Rightarrow> rs \<noteq> [])"

definition rv_id :: "ruleset_view \<Rightarrow> json" where
  "rv_id v = (case rv_matched v of None \<Rightarrow> JNull | Some rs \<Rightarrow> dget rs ''id'')"

text \<open>The payloads the bootstrap sends are the ones the verification accepts.\<close>

lemma anchor_payload_verified: "verify_runtime_anchor_ruleset [runtime_anchor_ruleset_payload]
  = Inr \<lparr>rv_matched = Some runtime_anchor_ruleset_payload, rv_reasons = []\<rparr>"
  by (simp add: verify_runtime_anchor_ruleset_def runtime_anchor_ruleset_payload_def anchor_findings_def covers_ref_def objE_def py_or_def
      ref_condition_def strs_json_def rule_types_def itemsE_def rule_json_def hashE_def head_of_ruleset_def conclude_def)

lemma canonical_payload_verified: "i \<noteq> 0 \<Longrightarrow> verify_rulesets (Some i) [canonical_ruleset_payload (Some i)]
  = Inr \<lparr>rv_matched = Some (canonical_ruleset_payload (Some i)), rv_reasons = []\<rparr>"
  by (simp add: verify_rulesets_def canonical_ruleset_payload_def ruleset_findings_def covers_ref_def objE_def py_or_def
      ref_condition_def strs_json_def rule_types_def itemsE_def rule_json_def hashE_def head_of_ruleset_def conclude_def
      read_rule_def add_check_def check_item_def REQUIRED_CHECKS_def checks_come_from_def dput_def)

end
