(* ===== verification/LeaseStore.thy ===== *)
theory LeaseStore
  imports GitHubClient LeaseRegistry
begin

text \<open>
  The lease registry kept at the provider (\<open>.adwf/lib/github_lease_store.py\<close>): every revision is an
  annotated tag whose name is the revision and whose message is the event with the registry and the
  tag object before it.  Creating the tag reference is the compare-and-set that arbitrates between
  writers; reading walks the whole chain.  The programs run over the GitHub client.
\<close>

section \<open>Events\<close>

definition LEASE_ANCHOR_PREFIX :: string where
  "LEASE_ANCHOR_PREFIX = ''adwf-runtime-anchor-lease-v1-''"

definition LEASE_ANCHOR_ROLE :: string where
  "LEASE_ANCHOR_ROLE = ''ADWF_ORCH_LEASE_REGISTRY_V1''"

definition lease_error :: "string \<Rightarrow> exn" where
  "lease_error code = ValueError (''LEASE_PROVIDER_'' @ code)"

definition event_digest :: "(string \<Rightarrow> string) \<Rightarrow> dict \<Rightarrow> string" where
  "event_digest sha v = sha (canonical (JObj (ddel ''event_digest'' v)))"

definition pad9 :: "nat \<Rightarrow> string" where
  "pad9 n = replicate (9 - length (nat_str n)) (CHR ''0'') @ nat_str n"

definition tag_name :: "int \<Rightarrow> string res" where
  "tag_name n = (if n < 1 \<or> 999999999 < n then Inl (lease_error ''REVISION_INVALID'') else Inr (LEASE_ANCHOR_PREFIX @ pad9 (nat n)))"

definition state_valid :: "(string \<Rightarrow> string) \<Rightarrow> json \<Rightarrow> unit res" where
  "state_valid sha v = bindE (validate_lease_registry sha v) (\<lambda>fs.
     if fs \<noteq> [] then Inl (lease_error (''STATE_INVALID:'' @ join '','' fs)) else Inr ())"

definition opt_str :: "string option \<Rightarrow> json" where
  "opt_str x = (case x of None \<Rightarrow> JNull | Some s \<Rightarrow> JStr s)"

definition build_event :: "(string \<Rightarrow> string) \<Rightarrow> dict \<Rightarrow> string option \<Rightarrow> dict res" where
  "build_event sha registry previous = bindE (state_valid sha (JObj registry)) (\<lambda>_.
     if reg_revision registry < 1 then Inl (lease_error ''REVISION_INVALID'')
     else if (case previous of None \<Rightarrow> False | Some p \<Rightarrow> \<not> sha40 p) then Inl (lease_error ''PREVIOUS_ANCHOR_INVALID'')
     else (let event = [(''schema_version'', JInt 1), (''role'', JStr LEASE_ANCHOR_ROLE), (''revision'', dget registry ''revision''),
         (''previous_tag_object_sha'', opt_str previous), (''registry'', JObj registry), (''event_digest'', JStr [])]
       in Inr (dput ''event_digest'' (JStr (event_digest sha event)) event)))"

definition EVENT_FIELDS :: "string list" where
  "EVENT_FIELDS = [''schema_version'', ''role'', ''revision'', ''previous_tag_object_sha'', ''registry'', ''event_digest'']"

definition check_event :: "(string \<Rightarrow> string) \<Rightarrow> string \<Rightarrow> dict \<Rightarrow> dict res" where
  "check_event sha message d =
     (if \<not> py_eq (dget d ''schema_version'') (JInt 1) \<or> dget d ''role'' \<noteq> JStr LEASE_ANCHOR_ROLE then Inl (lease_error ''EVENT_IDENTITY_INVALID'')
      else if \<not> strict_int (dget d ''revision'') \<or> int_of (dget d ''revision'') < 1 then Inl (lease_error ''EVENT_REVISION_INVALID'')
      else if dget d ''previous_tag_object_sha'' \<noteq> JNull \<and> \<not> str_shape sha40 (dget d ''previous_tag_object_sha'')
        then Inl (lease_error ''EVENT_PREVIOUS_INVALID'')
      else if \<not> str_shape sha256_hex (dget d ''event_digest'') \<or> dget d ''event_digest'' \<noteq> JStr (event_digest sha d)
        then Inl (lease_error ''EVENT_INTEGRITY'')
      else bindE (state_valid sha (dget d ''registry'')) (\<lambda>_. bindE (getE (dget d ''registry'') ''revision'') (\<lambda>r.
        if \<not> py_eq r (dget d ''revision'') then Inl (lease_error ''EVENT_REGISTRY_REVISION_MISMATCH'')
        else if canonical (JObj d) \<noteq> message then Inl (lease_error ''EVENT_NOT_CANONICAL'')
        else Inr d)))"

definition parse_event :: "(string \<Rightarrow> string) \<Rightarrow> (string \<Rightarrow> json res) \<Rightarrow> string \<Rightarrow> dict res" where
  "parse_event sha loads message = bindE (catchE is_ValueError (loads message) (\<lambda>_. Inl (lease_error ''EVENT_JSON_INVALID''))) (\<lambda>v. case v of
     JObj d \<Rightarrow> if \<not> keys_are d EVENT_FIELDS then Inl (lease_error ''EVENT_FIELDS_INVALID'') else check_event sha message d
   | _ \<Rightarrow> Inl (lease_error ''EVENT_FIELDS_INVALID''))"

section \<open>Reading the chain of anchors\<close>

definition store_init :: "string \<Rightarrow> unit res" where
  "store_init p = (if p \<noteq> LEASE_ANCHOR_PREFIX then Inl (lease_error ''ANCHOR_PREFIX_INVALID'') else Inr ())"

text \<open>\<open>str((v.get(k) or {}).get("sha") or "")\<close>.\<close>

definition sha_field :: "dict \<Rightarrow> string \<Rightarrow> string res" where
  "sha_field d k = bindE (objE (JObj d) k) (\<lambda>v. bindE (getE v ''sha'') (\<lambda>s. Inr (py_str (py_or s (JStr [])))))"

definition checkP :: "bool \<Rightarrow> exn \<Rightarrow> ('s, unit) prog" where
  "checkP b e = (if b then retP () else raiseP e)"

definition default_branch_and_main :: "'r github \<Rightarrow> ('r net, string \<times> string) prog" where
  "default_branch_and_main c = bindP (repo_info c) (\<lambda>info. let default = field_text info ''default_branch'' in
     bindP (checkP (default \<noteq> []) (lease_error ''DEFAULT_BRANCH_MISSING'')) (\<lambda>_.
     bindP (gh_branch c default) (\<lambda>b. bindP (liftP (sha_field b ''commit'')) (\<lambda>s.
     bindP (checkP (sha40 s) (lease_error ''MAIN_SHA_INVALID'')) (\<lambda>_. retP (default, s))))))"

definition require_main :: "'r github \<Rightarrow> string \<Rightarrow> ('r net, unit) prog" where
  "require_main c expected = bindP (checkP (sha40 expected) (lease_error ''EXPECTED_MAIN_SHA_INVALID'')) (\<lambda>_.
     bindP (default_branch_and_main c) (\<lambda>(_, current). checkP (current = expected) (lease_error ''MAIN_SHA_DRIFT'')))"

text \<open>\<open>except Exception\<close>: everything but an interrupt becomes the given error.\<close>

definition orP :: "('s, 'a) prog \<Rightarrow> exn \<Rightarrow> ('s, 'a) prog" where
  "orP m e = tryP m (\<lambda>x. raiseP (if x = Interrupted then x else e))"

definition require_anchor_ruleset :: "'r github \<Rightarrow> ('r net, unit) prog" where
  "require_anchor_ruleset c = bindP (orP (bindP (gh_rulesets c) (\<lambda>rss. liftP (verify_runtime_anchor_ruleset rss)))
       (lease_error ''ANCHOR_RULESET_READBACK_FAILED'')) (\<lambda>v.
     checkP (rv_verified v) (lease_error (''ANCHOR_RULESET_NOT_VERIFIED:'' @ join '','' (rv_reasons v))))"

text \<open>\<open>s.split(sep, 1)[-1]\<close>.\<close>

fun after_first :: "string \<Rightarrow> string \<Rightarrow> string option" where
  "after_first sep [] = (if sep = [] then Some [] else None)"
| "after_first sep (c # s) = (if starts_with (c # s) sep then Some (drop (length sep) (c # s)) else after_first sep s)"

definition last_part :: "string \<Rightarrow> string \<Rightarrow> string" where
  "last_part sep s = (case after_first sep s of None \<Rightarrow> s | Some t \<Rightarrow> t)"

definition anchor_revision :: "string \<Rightarrow> nat option" where
  "anchor_revision name = (if starts_with name LEASE_ANCHOR_PREFIX \<and> length name = length LEASE_ANCHOR_PREFIX + 9
       \<and> list_all is_digit (drop (length LEASE_ANCHOR_PREFIX) name)
     then Some (digits_val (drop (length LEASE_ANCHOR_PREFIX) name)) else None)"

type_synonym anchor = "nat \<times> string \<times> dict"

primrec parse_refs :: "nat list \<Rightarrow> dict list \<Rightarrow> anchor list res" where
  "parse_refs seen [] = Inr []"
| "parse_refs seen (ref # refs) = (let name = last_part ''refs/tags/'' (field_text ref ''ref'') in
     case anchor_revision name of
       None \<Rightarrow> Inl (lease_error (''ANCHOR_NAME_INVALID:'' @ take 120 name))
     | Some n \<Rightarrow> if n \<in> set seen then Inl (lease_error ''ANCHOR_REVISION_DUPLICATE'')
         else bindE (parse_refs (n # seen) refs) (\<lambda>rest. Inr ((n, name, ref) # rest)))"

definition matching_refs :: "'r github \<Rightarrow> ('r net, anchor list) prog" where
  "matching_refs c = bindP (matching_tag_refs c LEASE_ANCHOR_PREFIX) (\<lambda>rows. bindP (liftP (parse_refs [] rows)) (\<lambda>parsed.
     retP (sort_key fst parsed)))"

text \<open>The event of a tag object, and the commit the tag is on.\<close>

definition check_anchor :: "(string \<Rightarrow> string) \<Rightarrow> 'r github \<Rightarrow> int \<Rightarrow> string \<Rightarrow> string \<Rightarrow> dict \<Rightarrow> (dict \<times> string) res" where
  "check_anchor sha c revision name tag_sha obj =
     bindE (guard (field_text obj ''sha'' = tag_sha) ''LEASE_PROVIDER_ANCHOR_OBJECT_SHA_MISMATCH'') (\<lambda>_.
     bindE (guard (field_text obj ''tag'' = name) ''LEASE_PROVIDER_ANCHOR_OBJECT_TAG_MISMATCH'') (\<lambda>_.
     bindE (objE (JObj obj) ''object'') (\<lambda>target. bindE (getE target ''sha'') (\<lambda>s. let target_sha = py_str (py_or s (JStr [])) in
     bindE (getE target ''type'') (\<lambda>kind.
     bindE (guard (sha40 target_sha \<and> kind = JStr ''commit'') ''LEASE_PROVIDER_ANCHOR_TARGET_INVALID'') (\<lambda>_.
     bindE (guard (is_str (dget obj ''message'')) ''LEASE_PROVIDER_ANCHOR_MESSAGE_INVALID'') (\<lambda>_.
     bindE (parse_event sha (gh_loads c) (str_of (dget obj ''message''))) (\<lambda>event.
     bindE (guard (py_eq (dget event ''revision'') (JInt revision)) ''LEASE_PROVIDER_ANCHOR_EVENT_REVISION_MISMATCH'') (\<lambda>_.
     let registry = dict_of (dget event ''registry'') in
     bindE (guard (dget registry ''repository'' = JStr (gh_repo c)) ''LEASE_PROVIDER_REPOSITORY_MISMATCH'') (\<lambda>_.
     bindE (guard (dget registry ''observed_main_sha'' = JStr target_sha) ''LEASE_PROVIDER_ANCHOR_MAIN_BINDING_MISMATCH'') (\<lambda>_.
     Inr (event, target_sha))))))))))))"

definition read_anchor :: "(string \<Rightarrow> string) \<Rightarrow> 'r github \<Rightarrow> int \<Rightarrow> string \<Rightarrow> dict \<Rightarrow> ('r net, dict \<times> string \<times> string) prog" where
  "read_anchor sha c revision name ref = bindP (liftP (tag_name revision)) (\<lambda>expected.
     bindP (checkP (name = expected) (lease_error ''ANCHOR_NAME_REVISION_MISMATCH'')) (\<lambda>_.
     bindP (liftP (sha_field ref ''object'')) (\<lambda>tag_sha.
     bindP (checkP (sha40 tag_sha) (lease_error ''ANCHOR_REF_INVALID'')) (\<lambda>_.
     bindP (orP (tag_object c tag_sha) (lease_error ''ANCHOR_OBJECT_UNAVAILABLE'')) (\<lambda>obj.
     bindP (liftP (check_anchor sha c revision name tag_sha obj)) (\<lambda>(event, target_sha). retP (event, tag_sha, target_sha)))))))"

text \<open>
  The walk of \<open>read\<close> and \<open>release\<close>: revisions from the first without a gap, each event naming the
  tag object before it.  The two differ in the text of the error for a gap.
\<close>

primrec walk_anchors :: "(string \<Rightarrow> string) \<Rightarrow> 'r github \<Rightarrow> (nat \<Rightarrow> nat \<Rightarrow> exn) \<Rightarrow> nat \<Rightarrow> string option \<Rightarrow> dict \<Rightarrow> anchor list
      \<Rightarrow> ('r net, dict \<times> string option) prog" where
  "walk_anchors sha c gap i previous latest [] = retP (latest, previous)"
| "walk_anchors sha c gap i previous latest (a # as) =
     bindP (checkP (fst a = i) (gap i (fst a))) (\<lambda>_.
     bindP (read_anchor sha c (int (fst a)) (fst (snd a)) (snd (snd a))) (\<lambda>(event, object_sha, _).
     bindP (checkP (dget event ''previous_tag_object_sha'' = opt_str previous) (lease_error ''ANCHOR_CHAIN_MISMATCH'')) (\<lambda>_.
     walk_anchors sha c gap (Suc i) (Some object_sha) (dict_of (dget event ''registry'')) as)))"

definition gap_of_read :: "nat \<Rightarrow> nat \<Rightarrow> exn" where
  "gap_of_read i n = lease_error (''ANCHOR_SEQUENCE_GAP:expected='' @ nat_str i @ '':actual='' @ nat_str n)"

definition check_ceiling :: "dict \<Rightarrow> int \<Rightarrow> ('s, unit) prog" where
  "check_ceiling d maxw = checkP (py_eq (dget d ''max_parallel_writers'') (JInt maxw)) (ValueError ''LEASE_POLICY_CEILING_MISMATCH'')"

definition read_store :: "(string \<Rightarrow> string) \<Rightarrow> 'r github \<Rightarrow> string \<Rightarrow> int \<Rightarrow> ('r net, dict \<times> string option) prog" where
  "read_store sha c main_sha maxw = bindP (require_main c main_sha) (\<lambda>_. bindP (require_anchor_ruleset c) (\<lambda>_.
     bindP (matching_refs c) (\<lambda>refs. if refs = [] then bindP (require_main c main_sha) (\<lambda>_.
         bindP (liftP (empty_lease_registry sha (gh_repo c) main_sha maxw)) (\<lambda>d. retP (d, None)))
       else bindP (walk_anchors sha c gap_of_read 1 None [] refs) (\<lambda>(latest, previous).
         bindP (require_main c main_sha) (\<lambda>_. bindP (check_ceiling latest maxw) (\<lambda>_. retP (latest, previous)))))))"

section \<open>Appending a revision\<close>

definition append_guards :: "(string \<Rightarrow> string) \<Rightarrow> dict \<Rightarrow> int \<Rightarrow> string \<Rightarrow> unit res" where
  "append_guards sha d expected_previous main_sha = bindE (state_valid sha (JObj d)) (\<lambda>_.
     bindE (guard (reg_revision d = expected_previous + 1) ''LEASE_PROVIDER_REVISION_TRANSITION_INVALID'') (\<lambda>_.
     guard (dget d ''observed_main_sha'' = JStr main_sha) ''LEASE_PROVIDER_STATE_MAIN_BINDING_INVALID''))"

definition is_conflict :: "exn \<Rightarrow> bool" where
  "is_conflict e = (e = ProviderContractError ''PROVIDER_HTTP_409'' \<or> e = ProviderContractError ''PROVIDER_HTTP_422'')"

definition append_cas :: "(string \<Rightarrow> string) \<Rightarrow> 'r github \<Rightarrow> dict \<Rightarrow> string option \<Rightarrow> int \<Rightarrow> string \<Rightarrow> ('r net, dict \<times> string) prog" where
  "append_cas sha c d previous expected_previous main_sha =
     bindP (liftP (append_guards sha d expected_previous main_sha)) (\<lambda>_.
     bindP (require_main c main_sha) (\<lambda>_. bindP (require_anchor_ruleset c) (\<lambda>_.
     bindP (liftP (tag_name (reg_revision d))) (\<lambda>name. bindP (liftP (build_event sha d previous)) (\<lambda>event.
     bindP (create_tag_object c name main_sha (canonical (JObj event))) (\<lambda>created. let tag_sha = field_text created ''sha'' in
     bindP (checkP (sha40 tag_sha) (lease_error ''ANCHOR_OBJECT_CREATE_FAILED'')) (\<lambda>_.
     bindP (tryP (create_tag_ref c name tag_sha) (\<lambda>e. raiseP (if is_conflict e then lease_error ''CAS_CONFLICT'' else e))) (\<lambda>_.
     bindP (orP (tag_ref c name) (lease_error ''ANCHOR_REF_READBACK_FAILED'')) (\<lambda>ref.
     bindP (read_anchor sha c (reg_revision d) name ref) (\<lambda>(event', tag_sha', target).
     bindP (checkP (tag_sha' = tag_sha \<and> target = main_sha \<and> py_eq (JObj event') (JObj event)) (lease_error ''READBACK_MISMATCH'')) (\<lambda>_.
     bindP (require_main c main_sha) (\<lambda>_. bindP (require_anchor_ruleset c) (\<lambda>_. retP (d, tag_sha))))))))))))))"

text \<open>A conflict is reported as a lost race only when the provider shows a revision beyond the one read.\<close>

definition lost_race :: "dict \<times> string option \<Rightarrow> int \<Rightarrow> exn" where
  "lost_race w expected_previous = (case snd w of
     Some a \<Rightarrow> if reg_revision (fst w) \<le> expected_previous then lease_error ''CAS_CONFLICT_UNRESOLVED''
       else lease_error (''CAS_LOST:revision='' @ int_str (reg_revision (fst w)) @ '':anchor='' @ a)
   | None \<Rightarrow> lease_error ''CAS_CONFLICT_UNRESOLVED'')"

definition persist_transition ::
    "(string \<Rightarrow> string) \<Rightarrow> 'r github \<Rightarrow> dict \<Rightarrow> string option \<Rightarrow> int \<Rightarrow> string \<Rightarrow> int \<Rightarrow> ('r net, dict \<times> string) prog" where
  "persist_transition sha c d previous expected_previous main_sha maxw =
     tryP (append_cas sha c d previous expected_previous main_sha) (\<lambda>e. if e \<noteq> lease_error ''CAS_CONFLICT'' then raiseP e
       else bindP (read_store sha c main_sha maxw) (\<lambda>w. raiseP (lost_race w expected_previous)))"

section \<open>The operations of a writer\<close>

definition store_acquire ::
    "(string \<Rightarrow> string) \<Rightarrow> 'r github \<Rightarrow> acquire_request \<Rightarrow> string \<Rightarrow> int \<Rightarrow> ('r net, dict \<times> dict \<times> string) prog" where
  "store_acquire sha c q uuid now = bindP (require_main c (aq_main_sha q)) (\<lambda>_.
     bindP (read_store sha c (aq_main_sha q) (aq_ceiling q)) (\<lambda>(d, previous).
     bindP (checkP (dget d ''observed_main_sha'' = JStr (aq_main_sha q) \<or> reg_active d = []) (lease_error ''RECONCILIATION_REQUIRED'')) (\<lambda>_.
     bindP (liftP (acquire_registry_lease sha (JObj d) (q\<lparr>aq_revision := reg_revision d\<rparr>) uuid now)) (\<lambda>(updated, lease).
     bindP (persist_transition sha c updated previous (reg_revision d) (aq_main_sha q) (aq_ceiling q)) (\<lambda>(persisted, anchor).
     retP (persisted, lease, anchor))))))"

definition store_heartbeat ::
    "(string \<Rightarrow> string) \<Rightarrow> 'r github \<Rightarrow> string \<Rightarrow> int \<Rightarrow> string \<Rightarrow> string \<Rightarrow> int \<Rightarrow> int \<Rightarrow> ('r net, dict \<times> string) prog" where
  "store_heartbeat sha c main_sha maxw lid worker ttl now = bindP (require_main c main_sha) (\<lambda>_.
     bindP (read_store sha c main_sha maxw) (\<lambda>(d, previous).
     bindP (checkP (dget d ''observed_main_sha'' = JStr main_sha) (lease_error ''RECONCILIATION_REQUIRED'')) (\<lambda>_.
     bindP (liftP (heartbeat_registry_lease sha (JObj d) (reg_revision d) lid worker main_sha ttl now)) (\<lambda>updated.
     persist_transition sha c updated previous (reg_revision d) main_sha maxw))))"

definition store_release ::
    "(string \<Rightarrow> string) \<Rightarrow> 'r github \<Rightarrow> string \<Rightarrow> int \<Rightarrow> string \<Rightarrow> string \<Rightarrow> bool \<Rightarrow> string \<Rightarrow> int \<Rightarrow> ('r net, dict \<times> string) prog" where
  "store_release sha c main_sha maxw lid worker reconciled ref now = bindP (require_main c main_sha) (\<lambda>_.
     bindP (require_anchor_ruleset c) (\<lambda>_. bindP (matching_refs c) (\<lambda>refs.
     bindP (checkP (refs \<noteq> []) (lease_error ''RELEASE_WITHOUT_REGISTRY'')) (\<lambda>_.
     bindP (walk_anchors sha c (\<lambda>i n. lease_error ''ANCHOR_SEQUENCE_GAP'') 1 None [] refs) (\<lambda>(d, previous).
     bindP (check_ceiling d maxw) (\<lambda>_.
     bindP (liftP (release_registry_lease sha (JObj d) (reg_revision d) lid worker main_sha reconciled ref now)) (\<lambda>updated.
     persist_transition sha c updated previous (reg_revision d) main_sha maxw)))))))"

end
