(* ===== verification/LeaseRefine.thy ===== *)
theory LeaseRefine
  imports LeaseStore
begin

text \<open>
  The lease store refines a compare-and-set register: what the provider holds, seen through the
  store's reading of it, is a history of registry texts by revision; a writer that succeeds has
  appended to it exactly the registry operation on the revision before, at one moment at which the
  new revision was still free.  The provider is any transport that keeps what GitHub documents.
\<close>

section \<open>What the provider holds\<close>

record provider_view =
  pv_refs :: "string \<Rightarrow> string option"
  pv_tags :: "string \<Rightarrow> dict option"

text \<open>Tag references and tag objects are only added; the anchors are immutable.\<close>

definition later :: "provider_view \<Rightarrow> provider_view \<Rightarrow> bool" where
  "later v v' = (pv_refs v \<subseteq>\<^sub>m pv_refs v' \<and> pv_tags v \<subseteq>\<^sub>m pv_tags v')"

text \<open>The text under a revision.\<close>

definition history :: "provider_view \<Rightarrow> int \<Rightarrow> string option" where
  "history v n = (case tag_name n of Inl e \<Rightarrow> None | Inr t \<Rightarrow> (case pv_refs v t of None \<Rightarrow> None | Some a \<Rightarrow>
     (case pv_tags v a of None \<Rightarrow> None | Some d \<Rightarrow> (case dget d ''message'' of JStr m \<Rightarrow> Some m | _ \<Rightarrow> None))))"

definition ref_request :: "'r github \<Rightarrow> string \<Rightarrow> string \<Rightarrow> http_request" where
  "ref_request c t x = \<lparr>hq_method = ''POST'', hq_url = gh_url c (gh_path c ''/git/refs''), hq_headers = gh_headers c,
     hq_payload = Some [(''ref'', JStr (''refs/tags/'' @ t)), (''sha'', JStr x)], hq_timeout = 20\<rparr>"

definition object_request :: "'r github \<Rightarrow> string \<Rightarrow> http_request" where
  "object_request c x = get_request_at (gh_headers c) 20 (gh_url c (gh_path c (''/git/tags/'' @ x)))"

definition accepted :: "http_response \<Rightarrow> bool" where
  "accepted r = (200 \<le> ht_status r \<and> ht_status r < 300)"

text \<open>
  The provider's documented behaviour, for any transport, other writers between two requests
  included: references and objects are only added; creating a reference succeeds only when the
  name is free, and then it exists; a tag object is answered as it is; the listing shows references
  that exist.  A failed or lost answer says nothing.
\<close>

definition honest_provider :: "'r github \<Rightarrow> ('r \<Rightarrow> provider_view) \<Rightarrow> bool" where
  "honest_provider c view = (
     (\<forall>q w. later (view w) (view (snd (gh_wire c q w)))) \<and>
     (\<forall>t x w r w'. gh_wire c (ref_request c t x) w = (Inr r, w') \<and> accepted r \<longrightarrow> pv_refs (view w) t = None \<and> pv_refs (view w') t = Some x) \<and>
     (\<forall>x w r w' d. gh_wire c (object_request c x) w = (Inr r, w') \<and> accepted r \<and> body_value (gh_loads c) r = Inr (JObj d)
        \<longrightarrow> pv_tags (view w') x = Some d) \<and>
     (\<forall>s rows t. matching_tag_refs c LEASE_ANCHOR_PREFIX s = (Inr rows, t) \<longrightarrow> (\<forall>row \<in> set rows. \<exists>name x.
        dget row ''ref'' = JStr (''refs/tags/'' @ name) \<and> sha_field row ''object'' = Inr x \<and> pv_refs (view (nt_world t)) name = Some x)))"

lemma honest_grows: "honest_provider c view \<Longrightarrow> gh_wire c q w = (a, w') \<Longrightarrow> later (view w) (view w')"
  unfolding honest_provider_def by (elim conjE, drule spec [of _ q], drule spec [of _ w]) simp

lemma honest_create: "honest_provider c view \<Longrightarrow> gh_wire c (ref_request c t x) w = (Inr r, w') \<Longrightarrow> accepted r \<Longrightarrow>
   pv_refs (view w) t = None \<and> pv_refs (view w') t = Some x"
  unfolding honest_provider_def by blast

lemma honest_object: "honest_provider c view \<Longrightarrow> gh_wire c (object_request c x) w = (Inr r, w') \<Longrightarrow> accepted r \<Longrightarrow>
   body_value (gh_loads c) r = Inr (JObj d) \<Longrightarrow> pv_tags (view w') x = Some d"
  unfolding honest_provider_def by blast

lemma honest_rows: "honest_provider c view \<Longrightarrow> matching_tag_refs c LEASE_ANCHOR_PREFIX s = (Inr rows, t) \<Longrightarrow> row \<in> set rows \<Longrightarrow>
   \<exists>name x. dget row ''ref'' = JStr (''refs/tags/'' @ name) \<and> sha_field row ''object'' = Inr x \<and> pv_refs (view (nt_world t)) name = Some x"
  unfolding honest_provider_def by blast

lemma later_refl [simp]: "later v v"
  by (simp add: later_def)

lemma later_trans: "later u v \<Longrightarrow> later v w \<Longrightarrow> later u w"
  by (auto simp: later_def intro: map_le_trans)

lemma later_ref: "later v w \<Longrightarrow> pv_refs v t = Some x \<Longrightarrow> pv_refs w t = Some x"
  by (auto simp: later_def map_le_def dom_def)

lemma later_tag: "later v w \<Longrightarrow> pv_tags v t = Some x \<Longrightarrow> pv_tags w t = Some x"
  by (auto simp: later_def map_le_def dom_def)

section \<open>Every program only lets the provider grow\<close>

definition grown :: "('r \<Rightarrow> provider_view) \<Rightarrow> provider_view \<Rightarrow> 'r net \<Rightarrow> bool" where
  "grown view v s = later v (view (nt_world s))"

lemma grown_send [keeps_intros]: "honest_provider c view \<Longrightarrow> keeps (grown view v) (wire_send (gh_wire c) q)"
  unfolding keeps_def grown_def wp_wire_send
  by (auto simp: Let_def split: prod.split sum.split dest: honest_grows intro: later_trans)

lemma grown_nap [keeps_intros]: "keeps (grown view v) (nap d)"
  by (auto simp: keeps_def nap_def wp_simps grown_def)


lemma grown_attempts [keeps_intros]: "honest_provider c view \<Longrightarrow> keeps (grown view v) (attempts d (gh_wire c) q n)"
  by (induction n) (auto simp: try_send_def intro!: keeps_intros)

lemma grown_request [keeps_intros]:
  assumes "honest_provider c view"
  shows "keeps (grown view v) (request_value loads (gh_wire c) q k)" "keeps (grown view v) (request_json loads (gh_wire c) q k)"
proof -
  show r: "keeps (grown view v) (request_value loads (gh_wire c) q k)" for q k
    unfolding request_value_def by (intro keeps_intros assms)
  show "keeps (grown view v) (request_json loads (gh_wire c) q k)"
    unfolding request_json_def by (intro keeps_intros r) (auto split: json.split intro!: keeps_intros)
qed

lemma grown_pages: "honest_provider c view \<Longrightarrow> keeps (grown view v) (pages loads paged (gh_wire c) hs timeout key n url items)"
  by (induction n arbitrary: url items) (auto split: json.split intro!: keeps_intros)

lemma grown_client [keeps_intros]:
  assumes "honest_provider c view"
  shows "keeps (grown view v) (gh_get c p)" "keeps (grown view v) (gh_change c verb hs p payload)" "keeps (grown view v) (gh_list c p key)"
  unfolding gh_get_def gh_change_def gh_list_def request_list_pages_def
  by (intro keeps_intros grown_pages assms)+

lemma grown_each [keeps_intros]: "(\<And>x. keeps K (f x)) \<Longrightarrow> keeps K (eachP f xs)"
  by (induction xs) (auto intro!: keeps_intros)

lemma grown_calls [keeps_intros]:
  assumes "honest_provider c view"
  shows "keeps (grown view v) (repo_info c)" "keeps (grown view v) (gh_branch c n)" "keeps (grown view v) (gh_rulesets c)"
    "keeps (grown view v) (matching_tag_refs c p)" "keeps (grown view v) (tag_object c x)" "keeps (grown view v) (tag_ref c t)"
    "keeps (grown view v) (create_tag_object c t x m)" "keeps (grown view v) (create_tag_ref c t x)"
  unfolding repo_info_def gh_branch_def gh_rulesets_def matching_tag_refs_def tag_object_def tag_ref_def create_tag_object_def create_tag_ref_def gh_post_def
  by (intro keeps_intros assms)+

lemma keeps_check [keeps_intros]: "keeps K (checkP b e)"
  unfolding checkP_def by (intro keeps_intros)

lemma keeps_or [keeps_intros]: "keeps K m \<Longrightarrow> keeps K (orP m e)"
  unfolding orP_def by (intro keeps_intros)

lemma grown_store [keeps_intros]:
  assumes "honest_provider c view"
  shows "keeps (grown view v) (require_main c m)" "keeps (grown view v) (require_anchor_ruleset c)" "keeps (grown view v) (matching_refs c)"
    "keeps (grown view v) (read_anchor sha c n name ref)"
  unfolding require_main_def default_branch_and_main_def require_anchor_ruleset_def matching_refs_def read_anchor_def
  by (intro keeps_intros assms)+


lemma grown_walk [keeps_intros]:
  "honest_provider c view \<Longrightarrow> keeps (grown view v) (walk_anchors sha c gap i previous latest as)"
  by (induction as arbitrary: i previous latest) (auto intro!: keeps_intros)

lemma grown_read [keeps_intros]:
  assumes "honest_provider c view"
  shows "keeps (grown view v) (read_store sha c m n)"
  unfolding read_store_def check_ceiling_def by (intro keeps_intros assms)

lemma grown_append [keeps_intros]:
  assumes "honest_provider c view"
  shows "keeps (grown view v) (append_cas sha c d p n m)" "keeps (grown view v) (persist_transition sha c d p n m k)"
proof -
  show a: "keeps (grown view v) (append_cas sha c d p n m)"
    unfolding append_cas_def by (intro keeps_intros assms)
  show "keeps (grown view v) (persist_transition sha c d p n m k)"
    unfolding persist_transition_def by (intro keeps_intros assms a)
qed

text \<open>What holds of an early view holds of the later one: the rule for a program inside a run.\<close>

lemma wp_grown:
  assumes "keeps (grown view v) m" "later v (view (nt_world s))" "wp m Q (\<lambda>_ _. True) s"
  shows "wp m (\<lambda>x t. later v (view (nt_world t)) \<and> Q x t) (\<lambda>_ _. True) s"
  by (rule wp_mono [OF wp_conj [OF keepsD [OF assms(1)] assms(3)]]) (use assms(2) in \<open>simp_all add: grown_def\<close>)

lemma grown_step:
  assumes "keeps (grown view v) m" "later v (view (nt_world u))"
  shows "wp m (\<lambda>_ t. later v (view (nt_world t))) (\<lambda>_ _. True) u"
proof -
  have "grown view v u" by (simp add: grown_def assms(2))
  from keepsD [OF assms(1) this] show ?thesis by (rule wp_mono) (simp_all add: grown_def)
qed

section \<open>The calls that matter\<close>

lemma wp_any: "wp m (\<lambda>_ _. True) (\<lambda>_ _. True) s"
  by (simp add: wp_def split: prod.split sum.split)

lemma wp_last_answer: "wp (attempts decode w q n) (\<lambda>(v, r) t. \<exists>m. w q m = (Inr r, nt_world t) \<and> accepted r \<and> decode r = Inr v) (\<lambda>_ _. True) s"
proof (induction n arbitrary: s)
  case (Suc n)
  show ?case unfolding attempts.simps try_send_def wp_bind wp_try wp_wire_send
    using Suc by (auto simp: wp_simps Let_def accepted_def nap_def split: prod.split sum.split option.split) 
qed (simp add: wp_simps)

lemma wp_one_answer: "wp (attempts decode w q (Suc 0)) (\<lambda>(v, r) t. w q (nt_world s) = (Inr r, nt_world t) \<and> accepted r \<and> decode r = Inr v) (\<lambda>_ _. True) s"
  unfolding attempts.simps try_send_def wp_bind wp_try wp_wire_send
  by (auto simp: wp_simps Let_def accepted_def split: prod.split sum.split)

lemma wp_json_one: "wp (request_json loads w q 1) (\<lambda>(d, r) t. w q (nt_world s) = (Inr r, nt_world t) \<and> accepted r
    \<and> body_value loads r = Inr (JObj d)) (\<lambda>_ _. True) s"
  unfolding request_json_def wp_bind request_value_def
  by (simp del: attempts.simps, rule wp_mono [OF wp_one_answer]) (auto simp: wp_simps split: json.split)

lemma wp_json_last: "wp (request_json loads w q 2) (\<lambda>(d, r) t. \<exists>m. w q m = (Inr r, nt_world t) \<and> accepted r
    \<and> body_value loads r = Inr (JObj d)) (\<lambda>_ _. True) s"
  unfolding request_json_def wp_bind request_value_def
  by (simp del: attempts.simps, rule wp_mono [OF wp_last_answer]) (auto simp: wp_simps split: json.split)

lemma create_tag_ref_eq: "create_tag_ref c t x = bindP (request_json (gh_loads c) (gh_wire c) (ref_request c t x) 1) (\<lambda>(d, _). retP d)"
  by (simp add: create_tag_ref_def gh_post_def gh_change_def ref_request_def)

lemma tag_object_eq: "tag_object c x = bindP (request_json (gh_loads c) (gh_wire c) (object_request c x) 2) (\<lambda>(d, _). retP d)"
  by (simp add: tag_object_def gh_get_def object_request_def)

lemma wp_create_tag_ref:
  assumes "honest_provider c view"
  shows "wp (create_tag_ref c t x) (\<lambda>_ u. pv_refs (view (nt_world s)) t = None \<and> pv_refs (view (nt_world u)) t = Some x) (\<lambda>_ _. True) s"
  unfolding create_tag_ref_eq wp_bind
  by (rule wp_mono [OF wp_json_one]) (auto simp: wp_simps dest: honest_create [OF assms])

lemma wp_tag_object:
  assumes "honest_provider c view"
  shows "wp (tag_object c x) (\<lambda>d u. pv_tags (view (nt_world u)) x = Some d) (\<lambda>_ _. True) s"
  unfolding tag_object_eq wp_bind
  by (rule wp_mono [OF wp_json_last]) (auto simp: wp_simps dest: honest_object [OF assms])

text \<open>A pure step at the head of a program.\<close>

lemma seq_simps: "wp (bindP (liftP r) f) Q E s \<longleftrightarrow> (case r of Inl e \<Rightarrow> E e s | Inr x \<Rightarrow> wp (f x) Q E s)"
  "wp (bindP (checkP b e) g) Q E s \<longleftrightarrow> (if b then wp (g ()) Q E s else E e s)"
  by (simp_all add: wp_simps checkP_def split: sum.split)

section \<open>Reading\<close>

text \<open>An event stands under a revision: the tag object of that name holds its text.\<close>

definition stands :: "(string \<Rightarrow> string) \<Rightarrow> 'r github \<Rightarrow> provider_view \<Rightarrow> string \<Rightarrow> dict \<Rightarrow> dict \<Rightarrow> bool" where
  "stands sha c v a e d = (\<exists>t m. tag_name (reg_revision d) = Inr t \<and> pv_refs v t = Some a \<and> history v (reg_revision d) = Some m
     \<and> parse_event sha (gh_loads c) m = Inr e \<and> dget e ''registry'' = JObj d)"

lemma if_Inl_Inr: "(if b then Inl x else m) = Inr y \<longleftrightarrow> \<not> b \<and> m = Inr y"
  by simp

lemma parse_event_facts:
  assumes "parse_event sha loads m = Inr e"
  shows "m = canonical (JObj e) \<and> (\<exists>d. dget e ''registry'' = JObj d \<and> registry_valid sha d \<and> dget e ''revision'' = JInt (reg_revision d))"
proof -
  from assms obtain d0 where "check_event sha m d0 = Inr e" unfolding parse_event_def
    by (elim bindE_InrE) (simp split: json.split_asm add: if_Inl_Inr; blast)
  then have "d0 = e" and r: "strict_int (dget d0 ''revision'')" "canonical (JObj d0) = m"
    and q: "\<exists>x r. state_valid sha (dget d0 ''registry'') = Inr x \<and> getE (dget d0 ''registry'') ''revision'' = Inr r \<and> py_eq r (dget d0 ''revision'')"
    unfolding check_event_def by (simp_all only: if_Inl_Inr bindE_eq_Inr de_Morgan_disj not_not sum.inject) blast+
  note r = r [unfolded \<open>d0 = e\<close>] and q = q [unfolded \<open>d0 = e\<close>]
  from q obtain d x where d: "dget e ''registry'' = JObj d" "py_eq (dget d ''revision'') (dget e ''revision'')"
    and v: "state_valid sha (dget e ''registry'') = Inr x" by (auto simp: getE_Inr)
  have "registry_valid sha d" using v by (auto simp: d state_valid_def registry_valid_def simp: if_Inl_Inr elim!: bindE_InrE)
  moreover from this have "strict_int (dget d ''revision'')" using valid_registry_facts by (simp add: registry_valid_def)
  with r(1) d(2) have "dget e ''revision'' = JInt (reg_revision d)"
    by (auto simp: strict_int_iff reg_revision_def)
  ultimately show ?thesis using r(2) d(1) by blast
qed

lemma check_anchor_facts:
  assumes "check_anchor sha c n name a obj = Inr (e, target)"
  shows "\<exists>m d. dget obj ''message'' = JStr m \<and> parse_event sha (gh_loads c) m = Inr e \<and> dget e ''registry'' = JObj d \<and> reg_revision d = n
    \<and> dget d ''observed_main_sha'' = JStr target"
proof -
  from assms obtain m where m: "dget obj ''message'' = JStr m" "parse_event sha (gh_loads c) m = Inr e" "py_eq (dget e ''revision'') (JInt n)"
    "dget (dict_of (dget e ''registry'')) ''observed_main_sha'' = JStr target"
    unfolding check_anchor_def Let_def by (elim bindE_InrE) (auto simp: guard_Inr is_str_iff)
  from parse_event_facts [OF m(2)] m show ?thesis by auto
qed


lemma stands_later:
  assumes "stands sha c v a e d" "later v v'"
  shows "stands sha c v' a e d"
proof -
  from assms(1) obtain t m where t: "tag_name (reg_revision d) = Inr t" "pv_refs v t = Some a" "history v (reg_revision d) = Some m"
    "parse_event sha (gh_loads c) m = Inr e" "dget e ''registry'' = JObj d" by (auto simp: stands_def)
  from t(1,2,3) obtain o' where o: "pv_tags v a = Some o'" "dget o' ''message'' = JStr m"
    by (auto simp: history_def split: option.splits json.splits)
  have "history v' (reg_revision d) = Some m"
    using later_ref [OF assms(2) t(2)] later_tag [OF assms(2) o(1)] t(1) o(2) by (simp add: history_def)
  with t later_ref [OF assms(2) t(2)] show ?thesis by (auto simp: stands_def)
qed

text \<open>Reading an anchor whose reference exists gives the event that stands there.\<close>

lemma wp_read_anchor:
  assumes "honest_provider c view"
  shows "wp (read_anchor sha c n name ref) (\<lambda>(e, a, target) t. later (view (nt_world s)) (view (nt_world t)) \<and> sha_field ref ''object'' = Inr a
      \<and> (pv_refs (view (nt_world s)) name = Some a \<longrightarrow>
          (\<exists>d. stands sha c (view (nt_world t)) a e d \<and> reg_revision d = n \<and> dget d ''observed_main_sha'' = JStr target))) (\<lambda>_ _. True) s"
proof -
  let ?v = "view (nt_world s)"
  have tag: "wp (tag_object c a) (\<lambda>obj t. later ?v (view (nt_world t)) \<and> pv_tags (view (nt_world t)) a = Some obj) (\<lambda>_ _. True) s" for a
    by (rule wp_grown [OF _ later_refl wp_tag_object [OF assms]]) (rule grown_calls [OF assms])
  have found: "\<exists>d. stands sha c v a e d \<and> reg_revision d = n \<and> dget d ''observed_main_sha'' = JStr target"
    if "check_anchor sha c n name a obj = Inr (e, target)" "later ?v v" "pv_tags v a = Some obj" "tag_name n = Inr name" "pv_refs ?v name = Some a"
    for v obj e target a
  proof -
    from check_anchor_facts [OF that(1)] obtain m d where m: "dget obj ''message'' = JStr m" "parse_event sha (gh_loads c) m = Inr e"
      "dget e ''registry'' = JObj d" "reg_revision d = n" "dget d ''observed_main_sha'' = JStr target" by blast
    have "pv_refs v name = Some a" by (rule later_ref [OF that(2,5)])
    with m that show ?thesis by (intro exI [of _ d]) (simp add: stands_def history_def)
  qed
  have obj: "wp (bindP (orP (tag_object c a) x) (\<lambda>obj. bindP (liftP (check_anchor sha c n name a obj)) (\<lambda>(e, target). retP (e, a, target))))
      (\<lambda>(e, a', target) t. later ?v (view (nt_world t)) \<and> a = a' \<and> (pv_refs ?v name = Some a' \<longrightarrow>
          (\<exists>d. stands sha c (view (nt_world t)) a' e d \<and> reg_revision d = n \<and> dget d ''observed_main_sha'' = JStr target))) (\<lambda>_ _. True) s"
    if "sha_field ref ''object'' = Inr a" "tag_name n = Inr name" for a x
    unfolding wp_bind orP_def wp_try
    by (rule wp_mono [OF tag]) (auto simp: wp_simps that split: sum.split dest: found [OF _ _ _ that(2)])
  show ?thesis unfolding read_anchor_def by (auto simp: seq_simps split: sum.split intro!: obj)
qed

text \<open>Listed anchors whose references exist.\<close>

definition listed :: "provider_view \<Rightarrow> anchor list \<Rightarrow> bool" where
  "listed v as = (\<forall>(n, name, ref) \<in> set as. \<exists>a. sha_field ref ''object'' = Inr a \<and> pv_refs v name = Some a)"

lemma listed_later: "listed v as \<Longrightarrow> later v v' \<Longrightarrow> listed v' as"
  by (fastforce simp: listed_def dest: later_ref)

lemma after_first_prefix: "p \<noteq> [] \<Longrightarrow> after_first p (p @ s) = Some s"
  by (cases p) (auto simp: starts_with_def)

lemma parse_refs_rows: "parse_refs seen rows = Inr as \<Longrightarrow> (n, name, ref) \<in> set as \<Longrightarrow> ref \<in> set rows \<and> name = last_part ''refs/tags/'' (field_text ref ''ref'')"
proof (induction rows arbitrary: seen as)
  case (Cons r rows)
  then obtain k rest where "parse_refs (k # seen) rows = Inr rest" "as = (k, last_part ''refs/tags/'' (field_text r ''ref''), r) # rest"
    by (auto simp: Let_def split: option.splits if_split_asm elim!: bindE_InrE)
  with Cons show ?case by auto
qed simp

lemma stands_registry: "stands sha c v a e d \<Longrightarrow> dget e ''registry'' = JObj d"
  by (auto simp: stands_def)

lemma ref_text: "dget ref ''ref'' = JStr (''refs/tags/'' @ name) \<Longrightarrow> last_part ''refs/tags/'' (field_text ref ''ref'') = name"
  using after_first_prefix [of "''refs/tags/''" name] by (simp add: field_text_def py_or_def last_part_def)

lemma wp_matching_refs:
  assumes "honest_provider c view"
  shows "wp (matching_refs c) (\<lambda>as t. listed (view (nt_world t)) as) (\<lambda>_ _. True) s"
proof -
  have "listed (view (nt_world t)) (sort_key fst as)" if "matching_tag_refs c LEASE_ANCHOR_PREFIX s = (Inr rows, t)" "parse_refs [] rows = Inr as" for rows t as
    unfolding listed_def using parse_refs_rows [OF that(2)] honest_rows [OF assms that(1)] ref_text by fastforce
  then show ?thesis by (auto simp: matching_refs_def wp_def run_simps split: prod.splits sum.splits)
qed

lemma wp_walk:
  assumes "honest_provider c view" "listed (view (nt_world s)) as"
  shows "wp (walk_anchors sha c gap i previous latest as) (\<lambda>(d, p) t. later (view (nt_world s)) (view (nt_world t))
      \<and> (as = [] \<and> d = latest \<and> p = previous \<or> (\<exists>a e. p = Some a \<and> stands sha c (view (nt_world t)) a e d))) (\<lambda>_ _. True) s"
  using assms(2)
proof (induction as arbitrary: i previous latest s)
  case Nil
  then show ?case by (simp add: wp_simps)
next
  case (Cons x as)
  obtain n name ref where x: "x = (n, name, ref)" by (cases x)
  from Cons(2) x obtain a where a: "sha_field ref ''object'' = Inr a" "pv_refs (view (nt_world s)) name = Some a" by (auto simp: listed_def)
  have rest: "wp (walk_anchors sha c gap (Suc i) (Some a) d as) (\<lambda>(d', p) t. later (view (nt_world s)) (view (nt_world t))
      \<and> (\<exists>a e. p = Some a \<and> stands sha c (view (nt_world t)) a e d')) (\<lambda>_ _. True) u"
    if u: "later (view (nt_world s)) (view (nt_world u))" "stands sha c (view (nt_world u)) a e d" for u d e
  proof -
    have "listed (view (nt_world u)) as" using listed_later [OF Cons(2) u(1)] by (simp add: listed_def)
    from Cons.IH [OF this] show ?thesis
      by (rule wp_mono) (use u in \<open>auto intro: later_trans stands_later\<close>)
  qed
  show ?case unfolding walk_anchors.simps wp_bind checkP_def
    apply (simp add: wp_simps x)
    apply (intro impI)
    apply (rule wp_mono [OF wp_read_anchor [OF assms(1)]])
     apply (clarsimp simp: wp_simps a)
     apply (frule stands_registry)
     apply simp
     apply (rule wp_mono [OF rest], assumption, assumption)
      apply auto
    done
qed


text \<open>
  The registry a writer works on: the one that stands under the last revision, or the empty one when
  there is no anchor yet.
\<close>

definition current :: "(string \<Rightarrow> string) \<Rightarrow> 'r github \<Rightarrow> provider_view \<Rightarrow> string \<Rightarrow> int \<Rightarrow> dict \<Rightarrow> string option \<Rightarrow> bool" where
  "current sha c v m n d p = (case p of None \<Rightarrow> empty_lease_registry sha (gh_repo c) m n = Inr d | Some a \<Rightarrow> (\<exists>e. stands sha c v a e d))"

lemma current_later: "current sha c v m n d p \<Longrightarrow> later v v' \<Longrightarrow> current sha c v' m n d p"
  by (auto simp: current_def split: option.splits intro: stands_later)

lemma wp_read_store:
  assumes "honest_provider c view"
  shows "wp (read_store sha c m n) (\<lambda>(d, p) t. current sha c (view (nt_world t)) m n d p) (\<lambda>_ _. True) s"
proof -
  have end_of: "wp (require_main c m) (\<lambda>_ t. stands sha c (view (nt_world t)) a e d) (\<lambda>_ _. True) u"
    if "stands sha c (view (nt_world u)) a e d" for u a e d
    by (rule wp_mono [OF wp_grown [OF grown_store(1) [OF assms] later_refl wp_any]]) (use that in \<open>auto intro: stands_later\<close>)
  have chain: "wp (walk_anchors sha c gap_of_read 1 None [] as) (\<lambda>(d, p) t. \<exists>a e. p = Some a \<and> stands sha c (view (nt_world t)) a e d) (\<lambda>_ _. True) u"
    if "listed (view (nt_world u)) as" "as \<noteq> []" for u as
    by (rule wp_mono [OF wp_walk [OF assms that(1)]]) (use that(2) in auto)
  have tail: "wp (bindP (require_main c m) (\<lambda>_. bindP (check_ceiling d n) (\<lambda>_. retP (d, Some a)))) (\<lambda>(d, p) t. current sha c (view (nt_world t)) m n d p) (\<lambda>_ _. True) u"
    if "stands sha c (view (nt_world u)) a e d" for u a e d
    unfolding wp_bind by (rule wp_mono [OF end_of [OF that]]) (auto simp: check_ceiling_def checkP_def wp_simps current_def)
  have first: "wp (bindP (require_main c m) (\<lambda>_. bindP (liftP (empty_lease_registry sha (gh_repo c) m n)) (\<lambda>d. retP (d, None))))
      (\<lambda>(d, p) t. current sha c (view (nt_world t)) m n d p) (\<lambda>_ _. True) u" for u
    unfolding wp_bind by (rule wp_mono [OF wp_any]) (auto simp: wp_simps current_def split: sum.split)
  have "wp (if as = [] then bindP (require_main c m) (\<lambda>_. bindP (liftP (empty_lease_registry sha (gh_repo c) m n)) (\<lambda>d. retP (d, None)))
      else bindP (walk_anchors sha c gap_of_read 1 None [] as) (\<lambda>(d, p). bindP (require_main c m) (\<lambda>_. bindP (check_ceiling d n) (\<lambda>_. retP (d, p)))))
      (\<lambda>(d, p) t. current sha c (view (nt_world t)) m n d p) (\<lambda>_ _. True) u" if "listed (view (nt_world u)) as" for as u
    using that first by (auto intro!: wp_seq [OF chain [unfolded One_nat_def]] intro: tail)
  then show ?thesis unfolding read_store_def
    by (intro wp_seq [OF wp_any] wp_seq [OF wp_matching_refs [OF assms]]) auto
qed


section \<open>Appending\<close>

text \<open>
  The revision of \<open>d\<close> was appended between \<open>v\<close> and \<open>v'\<close>: at one moment, the provider's answer to the
  request that creates the reference, the name was free before and taken after; and the text that
  stands under the revision is that of an event equal to the one of \<open>d\<close> after \<open>p\<close>.
\<close>

definition appended :: "(string \<Rightarrow> string) \<Rightarrow> 'r github \<Rightarrow> ('r \<Rightarrow> provider_view) \<Rightarrow> provider_view \<Rightarrow> provider_view \<Rightarrow> dict \<Rightarrow> string option \<Rightarrow> string \<Rightarrow> bool" where
  "appended sha c view v v' d p a = (\<exists>t e e' w r w'. tag_name (reg_revision d) = Inr t \<and> build_event sha d p = Inr e
     \<and> gh_wire c (ref_request c t a) w = (Inr r, w') \<and> accepted r \<and> later v (view w) \<and> later (view w') v'
     \<and> pv_refs (view w) t = None \<and> pv_refs (view w') t = Some a
     \<and> history v' (reg_revision d) = Some (canonical (JObj e')) \<and> py_eq (JObj e') (JObj e))"

lemma history_later:
  assumes "history v n = Some m" "later v v'"
  shows "history v' n = Some m"
proof -
  from assms(1) obtain t a d where "tag_name n = Inr t" "pv_refs v t = Some a" "pv_tags v a = Some d" "dget d ''message'' = JStr m"
    by (auto simp: history_def split: sum.splits option.splits json.splits)
  with assms(2) show ?thesis by (simp add: history_def later_ref later_tag)
qed

lemma appended_later: "appended sha c view v v' d p a \<Longrightarrow> later u v \<Longrightarrow> later v' u' \<Longrightarrow> appended sha c view u u' d p a"
  unfolding appended_def by (elim exE conjE) (intro exI conjI, assumption+, (blast intro: later_trans history_later)+)

lemma wp_or: "wp m Q (\<lambda>_ _. True) s \<Longrightarrow> wp (orP m e) Q (\<lambda>_ _. True) s"
  by (auto simp: orP_def wp_try wp_raise elim: wp_mono)

lemma wp_re_raise: "wp m Q (\<lambda>_ _. True) s \<Longrightarrow> wp (tryP m (\<lambda>e. raiseP (f e))) Q (\<lambda>_ _. True) s"
  by (auto simp: wp_try wp_raise elim: wp_mono)

lemma wp_create:
  assumes "honest_provider c view"
  shows "wp (create_tag_ref c t x) (\<lambda>_ u. \<exists>r. gh_wire c (ref_request c t x) (nt_world s) = (Inr r, nt_world u) \<and> accepted r
      \<and> pv_refs (view (nt_world s)) t = None \<and> pv_refs (view (nt_world u)) t = Some x) (\<lambda>_ _. True) s"
  unfolding create_tag_ref_eq wp_bind
  by (rule wp_mono [OF wp_json_one]) (auto simp: wp_simps dest: honest_create [OF assms])

lemma wp_append:
  fixes c :: "'r github"
  assumes "honest_provider c view"
  shows "wp (append_cas sha c d p n m) (\<lambda>(d', a) t. d' = d \<and> reg_revision d = n + 1
      \<and> appended sha c view (view (nt_world s)) (view (nt_world t)) d p a) (\<lambda>_ _. True) s"
proof -
  let ?v = "view (nt_world s)"
  note g = grown_store [OF assms] grown_calls [OF assms]
  note grows = wp_grown [OF g(1) _ wp_any] wp_grown [OF g(2) _ wp_any]
  define P where "P = (\<lambda>(d', a) (t :: 'r net). d' = d \<and> reg_revision d = n + 1 \<and> appended sha c view ?v (view (nt_world t)) d p a)"
  have finish: "wp (bindP (require_main c m) (\<lambda>_. bindP (require_anchor_ruleset c) (\<lambda>_. retP (d, a)))) P (\<lambda>_ _. True) u"
    if "appended sha c view ?v (view (nt_world u)) d p a" "reg_revision d = n + 1" for u a
    by (rule wp_seq [OF grows(1) [OF later_refl]], rule wp_seq [OF grows(2) [OF later_refl]])
      (use that in \<open>auto simp: wp_ret P_def intro: appended_later later_trans\<close>)
  have settled: "appended sha c view ?v (view u) d p a"
    if "stands sha c (view u) a e' d2" "reg_revision d2 = reg_revision d" "py_eq (JObj e') (JObj e)"
      "tag_name (reg_revision d) = Inr t" "build_event sha d p = Inr e" "gh_wire c (ref_request c t a) w = (Inr r, w')" "accepted r"
      "later ?v (view w)" "later (view w') (view u)" "pv_refs (view w) t = None" "pv_refs (view w') t = Some a" for e' d2 e t w r w' u a
  proof -
    from that(1,2) obtain x where "history (view u) (reg_revision d) = Some x" "parse_event sha (gh_loads c) x = Inr e'" by (auto simp: stands_def)
    with parse_event_facts have "history (view u) (reg_revision d) = Some (canonical (JObj e'))" by blast
    with that show ?thesis unfolding appended_def by blast
  qed
  have readback: "wp (bindP (read_anchor sha c (reg_revision d) t ref) (\<lambda>(e', a', target).
       bindP (checkP (a' = a \<and> target = m \<and> py_eq (JObj e') (JObj e)) x) (\<lambda>_.
       bindP (require_main c m) (\<lambda>_. bindP (require_anchor_ruleset c) (\<lambda>_. retP (d, a)))))) P (\<lambda>_ _. True) u"
    if "reg_revision d = n + 1" "tag_name (reg_revision d) = Inr t" "build_event sha d p = Inr e" "gh_wire c (ref_request c t a) w = (Inr r, w')"
      "accepted r" "later ?v (view w)" "later (view w') (view (nt_world u))" "pv_refs (view w) t = None" "pv_refs (view w') t = Some a"
    for e t w r w' u a ref x
  proof (rule wp_seq [OF wp_read_anchor [OF assms]], clarsimp simp: seq_simps)
    fix e' :: dict and q :: "'r net"
    assume q: "later (view (nt_world u)) (view (nt_world q))" "pv_refs (view (nt_world u)) t = Some a \<longrightarrow>
        (\<exists>d2. stands sha c (view (nt_world q)) a e' d2 \<and> reg_revision d2 = reg_revision d \<and> dget d2 ''observed_main_sha'' = JStr m)"
      "eq_dict (map (map_prod id py_eq) e') e"
    have "pv_refs (view (nt_world u)) t = Some a" by (rule later_ref [OF that(7) that(9)])
    with q(2) obtain d2 where "stands sha c (view (nt_world q)) a e' d2" "reg_revision d2 = reg_revision d" by blast
    then have "appended sha c view ?v (view (nt_world q)) d p a"
      by (rule settled [OF _ _ _ that(2-6) later_trans [OF that(7) q(1)] that(8,9)]) (simp add: q(3))
    then show "wp (bindP (require_main c m) (\<lambda>_. bindP (require_anchor_ruleset c) (\<lambda>_. retP (d, a)))) P (\<lambda>_ _. True) q"
      by (rule finish [OF _ that(1)])
  qed
  have created: "wp (bindP (tryP (create_tag_ref c t a) (\<lambda>e. raiseP (if is_conflict e then y else e))) (\<lambda>_.
       bindP (orP (tag_ref c t) z) (\<lambda>ref. bindP (read_anchor sha c k t ref) (\<lambda>(e', a', target).
       bindP (checkP (a' = a \<and> target = m \<and> py_eq (JObj e') (JObj e)) x) (\<lambda>_.
       bindP (require_main c m) (\<lambda>_. bindP (require_anchor_ruleset c) (\<lambda>_. retP (d, a)))))))) P (\<lambda>_ _. True) u"
    if "reg_revision d = n + 1" "tag_name k = Inr t" "build_event sha d p = Inr e" "later ?v (view (nt_world u))" "k = reg_revision d" for e t u a x y z k
  proof (rule wp_seq [OF wp_re_raise [OF wp_create [OF assms]]], elim exE conjE)
    fix r and q :: "'r net"
    assume q: "gh_wire c (ref_request c t a) (nt_world u) = (Inr r, nt_world q)" "accepted r" "pv_refs (view (nt_world u)) t = None"
      "pv_refs (view (nt_world q)) t = Some a"
    show "wp (bindP (orP (tag_ref c t) z) (\<lambda>ref. bindP (read_anchor sha c k t ref) (\<lambda>(e', a', target).
       bindP (checkP (a' = a \<and> target = m \<and> py_eq (JObj e') (JObj e)) x) (\<lambda>_.
       bindP (require_main c m) (\<lambda>_. bindP (require_anchor_ruleset c) (\<lambda>_. retP (d, a))))))) P (\<lambda>_ _. True) q"
      by (rule wp_seq [OF wp_or [OF grown_step [OF grown_calls(6) [OF assms] later_refl]]])
        (unfold that(5), rule readback [OF that(1) that(2) [unfolded that(5)] that(3) q(1,2) that(4) _ q(3,4)])
  qed
  have "reg_revision d = n + 1" if "append_guards sha d n m = Inr u" for u
    using that by (auto simp: append_guards_def guard_Inr elim!: bindE_InrE)
  then have "wp (append_cas sha c d p n m) P (\<lambda>_ _. True) s"
    unfolding append_cas_def Let_def
    by (auto simp: seq_simps simp del: py_eq.simps split: sum.split
      intro!: created wp_seq [OF grown_step [where v = ?v, OF grown_store(1) [OF assms]]] wp_seq [OF grown_step [where v = ?v, OF grown_store(2) [OF assms]]]
        wp_seq [OF grown_step [where v = ?v, OF grown_calls(7) [OF assms]]])
  then show ?thesis unfolding P_def .
qed


lemma wp_persist:
  assumes "honest_provider c view"
  shows "wp (persist_transition sha c d p n m k) (\<lambda>(d', a) t. d' = d \<and> reg_revision d = n + 1
      \<and> appended sha c view (view (nt_world s)) (view (nt_world t)) d p a) (\<lambda>_ _. True) s"
  unfolding persist_transition_def wp_try
proof (rule wp_mono [OF wp_append [OF assms]])
  fix e and t :: "'a net"
  have "wp (bindP (read_store sha c m k) (\<lambda>w. raiseP (lost_race w n))) (\<lambda>(d', a) t. d' = d \<and> reg_revision d = n + 1
      \<and> appended sha c view (view (nt_world s)) (view (nt_world t)) d p a) (\<lambda>_ _. True) t"
    by (rule wp_seq [OF wp_any]) (simp add: wp_raise)
  then show "wp (if e \<noteq> lease_error ''CAS_CONFLICT'' then raiseP e else bindP (read_store sha c m k) (\<lambda>w. raiseP (lost_race w n)))
      (\<lambda>(d', a) t. d' = d \<and> reg_revision d = n + 1 \<and> appended sha c view (view (nt_world s)) (view (nt_world t)) d p a) (\<lambda>_ _. True) t"
    by (simp add: wp_raise)
qed auto

text \<open>
  What a successful writer has done between \<open>v\<close> and \<open>v'\<close>: the operation \<open>op\<close> of the registry on the
  registry that was current, appended under the revision that was then free.
\<close>

definition took_effect :: "(string \<Rightarrow> string) \<Rightarrow> 'r github \<Rightarrow> ('r \<Rightarrow> provider_view) \<Rightarrow> provider_view \<Rightarrow> provider_view \<Rightarrow> string \<Rightarrow> int
    \<Rightarrow> registry_op \<Rightarrow> dict \<Rightarrow> string \<Rightarrow> bool" where
  "took_effect sha c view v v' m n op d' a = (\<exists>d p. current sha c v' m n d p \<and> registry_update sha op (reg_revision d) d = Inr d'
     \<and> appended sha c view v v' d' p a)"

lemma wp_update_then_persist:
  assumes "honest_provider c view" "current sha c (view (nt_world u)) m n d p" "later v (view (nt_world u))"
    "registry_update sha op (reg_revision d) d = Inr d2"
  shows "wp (persist_transition sha c d2 p (reg_revision d) m n) (\<lambda>(d', a) t. d' = d2 \<and> took_effect sha c view v (view (nt_world t)) m n op d' a) (\<lambda>_ _. True) u"
proof (rule wp_mono [OF wp_conj [OF wp_persist [OF assms(1)] grown_step [where v = "view (nt_world u)", OF grown_append(2) [OF assms(1)] later_refl]]], goal_cases)
  case (1 x t)
  then show ?case using assms(2-4) unfolding took_effect_def by (fastforce intro: appended_later [OF _ _ later_refl] current_later)
qed simp

lemma wp_acquire:
  assumes "honest_provider c view"
  shows "wp (store_acquire sha c q uuid now) (\<lambda>(d', l, a) t. took_effect sha c view (view (nt_world s)) (view (nt_world t)) (aq_main_sha q) (aq_ceiling q)
      (Acquire q uuid now) d' a) (\<lambda>_ _. True) s"
proof -
  let ?v = "view (nt_world s)"
  have persist: "wp (bindP (persist_transition sha c d2 p (reg_revision d) (aq_main_sha q) (aq_ceiling q)) (\<lambda>(d', a). retP (d', l, a)))
      (\<lambda>(d', l, a) t. took_effect sha c view ?v (view (nt_world t)) (aq_main_sha q) (aq_ceiling q) (Acquire q uuid now) d' a) (\<lambda>_ _. True) u"
    if "current sha c (view (nt_world u)) (aq_main_sha q) (aq_ceiling q) d p" "later ?v (view (nt_world u))"
      "acquire_registry_lease sha (JObj d) (q\<lparr>aq_revision := reg_revision d\<rparr>) uuid now = Inr (d2, l)" for u d d2 p l
    by (rule wp_seq [OF wp_update_then_persist [OF assms that(1,2), of "Acquire q uuid now"]]) (use that(3) in \<open>auto simp: wp_ret\<close>)
  show ?thesis unfolding store_acquire_def
    by (rule wp_seq [OF grown_step [where v = ?v, OF grown_store(1) [OF assms] later_refl]],
        rule wp_seq [OF wp_grown [where v = ?v, OF grown_read [OF assms] _ wp_read_store [OF assms]]])
      (auto simp: seq_simps split: sum.split intro!: persist)
qed


lemma wp_heartbeat:
  assumes "honest_provider c view"
  shows "wp (store_heartbeat sha c m n lid worker ttl now) (\<lambda>(d', a) t. took_effect sha c view (view (nt_world s)) (view (nt_world t)) m n
      (Heartbeat lid worker m ttl now) d' a) (\<lambda>_ _. True) s"
proof -
  let ?v = "view (nt_world s)"
  have persist: "wp (persist_transition sha c d2 p (reg_revision d) m n) (\<lambda>(d', a) t. took_effect sha c view ?v (view (nt_world t)) m n
      (Heartbeat lid worker m ttl now) d' a) (\<lambda>_ _. True) u"
    if "current sha c (view (nt_world u)) m n d p" "later ?v (view (nt_world u))"
      "heartbeat_registry_lease sha (JObj d) (reg_revision d) lid worker m ttl now = Inr d2" for u d d2 p
    by (rule wp_mono [OF wp_update_then_persist [OF assms that(1,2), of "Heartbeat lid worker m ttl now"]]) (use that(3) in auto)
  show ?thesis unfolding store_heartbeat_def
    by (rule wp_seq [OF grown_step [where v = ?v, OF grown_store(1) [OF assms] later_refl]],
        rule wp_seq [OF wp_grown [where v = ?v, OF grown_read [OF assms] _ wp_read_store [OF assms]]])
      (auto simp: seq_simps split: sum.split intro!: persist)
qed

lemma wp_release:
  assumes "honest_provider c view"
  shows "wp (store_release sha c m n lid worker ok ref now) (\<lambda>(d', a) t. took_effect sha c view (view (nt_world s)) (view (nt_world t)) m n
      (Release lid worker m ok ref now) d' a) (\<lambda>_ _. True) s"
proof -
  let ?v = "view (nt_world s)"
  have persist: "wp (persist_transition sha c d2 p (reg_revision d) m n) (\<lambda>(d', a) t. took_effect sha c view ?v (view (nt_world t)) m n
      (Release lid worker m ok ref now) d' a) (\<lambda>_ _. True) u"
    if "current sha c (view (nt_world u)) m n d p" "later ?v (view (nt_world u))"
      "release_registry_lease sha (JObj d) (reg_revision d) lid worker m ok ref now = Inr d2" for u d d2 p
    by (rule wp_mono [OF wp_update_then_persist [OF assms that(1,2), of "Release lid worker m ok ref now"]]) (use that(3) in auto)
  have walk: "wp (walk_anchors sha c gap 1 None [] as) (\<lambda>(d, p) t. later ?v (view (nt_world t)) \<and> current sha c (view (nt_world t)) m n d p) (\<lambda>_ _. True) u"
    if "listed (view (nt_world u)) as" "as \<noteq> []" "later ?v (view (nt_world u))" for u as gap
    by (rule wp_mono [OF wp_walk [OF assms that(1)]]) (use that(2,3) in \<open>auto simp: current_def intro: later_trans\<close>)
  show ?thesis unfolding store_release_def
    by (rule wp_seq [OF grown_step [where v = ?v, OF grown_store(1) [OF assms] later_refl]],
        rule wp_seq [OF grown_step [where v = ?v, OF grown_store(2) [OF assms]]], assumption,
        rule wp_seq [OF wp_grown [where v = ?v, OF grown_store(3) [OF assms] _ wp_matching_refs [OF assms]]], assumption)
      (auto simp: seq_simps check_ceiling_def split: sum.split intro!: persist wp_seq [OF walk [unfolded One_nat_def]])
qed

text \<open>
  C11.  The lease store refines a compare-and-set register, for every provider that keeps what GitHub
  documents, with other writers at work between any two requests.  The register holds a text for
  each revision and only grows.  When \<open>acquire\<close>, \<open>heartbeat\<close> or \<open>release\<close> returns, the registry it
  returns is exactly the registry operation on the registry that stands under the revision before
  (or on the empty registry when there was none), and its event was appended at one moment: the
  provider's answer to the request that creates the tag reference, before which no writer held the
  new revision and after which this anchor holds it for good.  Nothing is claimed of a run that
  raises: a lost answer may have taken effect.
\<close>

theorem lease_store_refines_a_cas_register:
  assumes "honest_provider c view"
  shows "(case store_acquire sha c q uuid now s of (r, t) \<Rightarrow> (case r of Inl e \<Rightarrow> True | Inr (d', l, a) \<Rightarrow>
        took_effect sha c view (view (nt_world s)) (view (nt_world t)) (aq_main_sha q) (aq_ceiling q) (Acquire q uuid now) d' a))
    \<and> (case store_heartbeat sha c m n lid worker ttl now s of (r, t) \<Rightarrow> (case r of Inl e \<Rightarrow> True | Inr (d', a) \<Rightarrow>
        took_effect sha c view (view (nt_world s)) (view (nt_world t)) m n (Heartbeat lid worker m ttl now) d' a))
    \<and> (case store_release sha c m n lid worker ok ref now s of (r, t) \<Rightarrow> (case r of Inl e \<Rightarrow> True | Inr (d', a) \<Rightarrow>
        took_effect sha c view (view (nt_world s)) (view (nt_world t)) m n (Release lid worker m ok ref now) d' a))"
  using wp_acquire [OF assms, of sha q uuid now s] wp_heartbeat [OF assms, of sha m n lid worker ttl now s]
    wp_release [OF assms, of sha m n lid worker ok ref now s]
  by (auto simp: wp_def split: prod.split sum.split)

end
