(* ===== verification/LeaseStoreSample.thy ===== *)
theory LeaseStoreSample
  imports LeaseRefine
begin

text \<open>
  A small provider on which the lease store runs: it holds at most one anchor and answers every
  address the store reads.  It keeps what the refinement asks of a provider, and a writer acquires
  the first lease on it.
\<close>

section \<open>The provider\<close>

definition sample_tag :: string where
  "sample_tag = LEASE_ANCHOR_PREFIX @ ''000000001''"

definition sample_object_sha :: string where
  "sample_object_sha = replicate 40 (CHR ''b'')"

definition sample_event :: dict where
  "sample_event = [(''schema_version'', JInt 1), (''role'', JStr LEASE_ANCHOR_ROLE), (''revision'', JInt 1),
     (''previous_tag_object_sha'', JNull), (''registry'', JObj (leased_registry 1)), (''event_digest'', JStr flat_digest)]"

definition sample_text :: string where
  "sample_text = canonical (JObj sample_event)"

definition sample_object :: dict where
  "sample_object = [(''sha'', JStr sample_object_sha), (''tag'', JStr sample_tag),
     (''object'', JObj [(''sha'', JStr sample_sha40), (''type'', JStr ''commit'')]), (''message'', JStr sample_text)]"

definition sample_row :: dict where
  "sample_row = [(''ref'', JStr (''refs/tags/'' @ sample_tag)), (''object'', JObj [(''sha'', JStr sample_object_sha)])]"

text \<open>The texts of the answers are letters, and the loader knows them.\<close>

definition sample_loads :: "string \<Rightarrow> json res" where
  "sample_loads s = (if s = ''I'' then Inr (JObj [(''default_branch'', JStr ''main'')])
     else if s = ''B'' then Inr (JObj [(''commit'', JObj [(''sha'', JStr sample_sha40)])])
     else if s = ''L'' then Inr (JList [JObj [(''id'', JInt 1)]])
     else if s = ''R'' then Inr (JObj runtime_anchor_ruleset_payload)
     else if s = ''E'' then Inr (JList []) else if s = ''F'' then Inr (JList [JObj sample_row])
     else if s = ''G'' then Inr (JObj sample_row) else if s = ''T'' then Inr (JObj sample_object)
     else if s = sample_text then Inr (JObj sample_event) else Inl (ValueError []))"

definition repo_path :: "string \<Rightarrow> string" where
  "repo_path p = ''/repos/owner/repo'' @ p"

definition sample_read :: "string \<Rightarrow> nat \<Rightarrow> string" where
  "sample_read url n = (if url = repo_path [] then ''I'' else if url = repo_path ''/branches/main'' then ''B''
     else if url = repo_path ''/rulesets?per_page=100'' then ''L'' else if url = repo_path ''/rulesets/1'' then ''R''
     else if url = repo_path (''/git/matching-refs/tags/'' @ LEASE_ANCHOR_PREFIX) then (if 2 \<le> n then ''F'' else ''E'')
     else if url = repo_path (''/git/ref/tags/'' @ sample_tag) \<and> 2 \<le> n then ''G''
     else if url = repo_path (''/git/tags/'' @ sample_object_sha) \<and> 1 \<le> n then ''T'' else [])"

definition sample_answer :: "string \<Rightarrow> http_response" where
  "sample_answer body = \<lparr>ht_status = (if body = [] then 422 else 200), ht_headers = [], ht_body = body\<rparr>"

definition sample_wire :: "nat wire" where
  "sample_wire q n = (if hq_method q = ''GET'' then (Inr (sample_answer (sample_read (hq_url q) n)), n)
     else if hq_url q = repo_path ''/git/tags'' \<and> n = 0 \<and> hq_payload q = Some [(''tag'', JStr sample_tag), (''message'', JStr sample_text),
         (''object'', JStr sample_sha40), (''type'', JStr ''commit'')] then (Inr (sample_answer ''T''), 1)
     else if hq_url q = repo_path ''/git/refs'' \<and> n = 1 \<and> hq_payload q = Some [(''ref'', JStr (''refs/tags/'' @ sample_tag)),
         (''sha'', JStr sample_object_sha)] then (Inr (sample_answer ''G''), 2)
     else (Inr (sample_answer []), n))"

definition sample_client :: "nat github" where
  "sample_client = \<lparr>gh_repo = ''owner/repo'', gh_token = ''t'', gh_base = [], gh_wire = sample_wire, gh_loads = sample_loads, gh_paged = (\<lambda>u n. u)\<rparr>"

definition sample_view :: "nat \<Rightarrow> provider_view" where
  "sample_view n = \<lparr>pv_refs = (if 2 \<le> n then [sample_tag \<mapsto> sample_object_sha] else Map.empty),
     pv_tags = (if 1 \<le> n then [sample_object_sha \<mapsto> sample_object] else Map.empty)\<rparr>"

lemma sample_tag_1: "tag_name 1 = Inr sample_tag"
proof -
  have "pad9 1 = ''000000001''" by code_simp
  then show ?thesis by (simp add: tag_name_def sample_tag_def)
qed

lemma sample_object_sha40: "sha40 sample_object_sha"
  unfolding sample_object_sha_def by (rule hex_n_replicate) code_simp

lemma sample_text_open: "\<exists>s. sample_text = CHR ''{'' # s"
  by (simp add: sample_text_def canonical_def)

lemma sample_loads_text: "sample_loads sample_text = Inr (JObj sample_event)"
proof -
  from sample_text_open obtain u where "sample_text = CHR ''{'' # u" by blast
  then have "sample_text \<noteq> c # v" if "c \<noteq> CHR ''{''" for c v using that by (metis list.inject)
  then show ?thesis by (simp add: sample_loads_def)
qed

lemma sample_quote: "url_quote [] LEASE_ANCHOR_PREFIX = LEASE_ANCHOR_PREFIX" "url_quote [] sample_tag = sample_tag" "url_quote [] ''main'' = ''main''"
  by code_simp+

section \<open>Programs that succeed\<close>

lemma wp_answered:
  assumes "w q (nt_world s) = (Inr r, m)" "200 \<le> ht_status r" "ht_status r < 300" "decode r = Inr v" "0 < n"
  shows "wp (attempts decode w q n) (\<lambda>x t. x = (v, r) \<and> nt_world t = m) (\<lambda>_ _. False) s"
  using assms by (cases n) (simp_all add: wp_simps try_send_def)

abbreviation never :: "exn \<Rightarrow> 'r net \<Rightarrow> bool" where
  "never \<equiv> \<lambda>_ _. False"

lemma sample_get:
  assumes "sample_read (repo_path p) (nt_world s) = b" "b \<noteq> []" "sample_loads b = Inr (JObj d)"
  shows "wp (gh_get sample_client (gh_path sample_client p)) (\<lambda>x t. x = d \<and> nt_world t = nt_world s) never s"
proof -
  let ?q = "get_request_at (gh_headers sample_client) 20 (repo_path p)"
  have u: "gh_url sample_client (gh_path sample_client p) = repo_path p"
    by (simp add: gh_url_def gh_path_def sample_client_def repo_path_def)
  have a: "sample_wire ?q (nt_world s) = (Inr (sample_answer b), nt_world s)"
    using assms(1) by (simp add: sample_wire_def get_request_at_def)
  have "wp (attempts (body_value sample_loads) sample_wire ?q 2) (\<lambda>x t. x = (JObj d, sample_answer b) \<and> nt_world t = nt_world s) never s"
    by (rule wp_answered [where r = "sample_answer b"]) (use a assms(2,3) in \<open>simp_all add: sample_answer_def body_value_def\<close>)
  then show ?thesis unfolding gh_get_def request_json_def request_value_def u wp_bind
    by (auto simp: sample_client_def wp_simps elim!: wp_mono)
qed


lemma sample_client_fields: "gh_wire sample_client = sample_wire" "gh_loads sample_client = sample_loads" "gh_repo sample_client = ''owner/repo''"
  by (simp_all add: sample_client_def)

lemmas sample_paths = sample_read_def repo_path_def LEASE_ANCHOR_PREFIX_def sample_tag_def

lemma sample_list:
  assumes "sample_read (repo_path p) (nt_world s) = b" "b \<noteq> []" "sample_loads b = Inr (JList (map JObj ds))"
  shows "wp (gh_list sample_client (gh_path sample_client p) None) (\<lambda>x t. x = ds \<and> nt_world t = nt_world s) never s"
proof -
  let ?q = "get_request_at (gh_headers sample_client) 20 (repo_path p)"
  have u: "gh_url sample_client (gh_path sample_client p) = repo_path p"
    by (simp add: gh_url_def gh_path_def sample_client_def repo_path_def)
  have a: "sample_wire ?q (nt_world s) = (Inr (sample_answer b), nt_world s)"
    using assms(1) by (simp add: sample_wire_def get_request_at_def)
  have got: "wp (attempts (body_value sample_loads) sample_wire ?q 2) (\<lambda>x t. x = (JList (map JObj ds), sample_answer b) \<and> nt_world t = nt_world s) never s"
    by (rule wp_answered [where r = "sample_answer b"]) (use a assms(2,3) in \<open>simp_all add: sample_answer_def body_value_def\<close>)
  have stop: "next_link p (ht_headers (sample_answer b)) url = None" for p url
    by (simp add: next_link_def sample_answer_def header_def link_target_def strip_def)
  have first: "request_list_pages l p w u h k 10 o' = pages l p w h k o' (Suc 9) u []" for l p w u h k o'
    by (simp add: request_list_pages_def)
  have two: "request_value l w q 2 = attempts (body_value l) w q 2" for l q and w :: "nat wire"
    by (simp add: request_value_def)
  have d: "list_all is_dict (map JObj ds)" "map (dict_of \<circ> JObj) ds = ds" by (induction ds) simp_all
  show ?thesis unfolding gh_list_def u first pages.simps wp_bind two sample_client_fields
    by (rule wp_mono [OF got]) (auto simp: stop wp_ret page_items_def d)
qed

lemma sample_rows:
  "wp (matching_tag_refs sample_client LEASE_ANCHOR_PREFIX) (\<lambda>rows t. rows = (if 2 \<le> nt_world s then [sample_row] else []) \<and> nt_world t = nt_world s) never s"
  unfolding matching_tag_refs_def sample_quote
  by (rule sample_list [where b = "if 2 \<le> nt_world s then ''F'' else ''E''"]) (simp_all add: sample_paths sample_loads_def)

lemma sample_view_later: "later (sample_view n) (sample_view (Suc n))"
  by (auto simp: later_def sample_view_def map_le_def)

lemma sample_step: "snd (sample_wire q n) = n \<or> snd (sample_wire q n) = Suc n"
  by (auto simp: sample_wire_def)

lemma sample_creates:
  assumes "sample_wire (ref_request sample_client t x) n = (Inr r, n')" "accepted r"
  shows "t = sample_tag \<and> x = sample_object_sha \<and> n = 1 \<and> n' = 2"
  using assms by (auto simp: ref_request_def sample_wire_def accepted_def sample_answer_def split: if_split_asm)

lemma sample_shows:
  assumes "sample_wire (object_request sample_client x) n = (Inr r, n')" "accepted r" "body_value sample_loads r = Inr (JObj d)"
  shows "x = sample_object_sha \<and> 1 \<le> n \<and> n' = n \<and> d = sample_object"
proof -
  have u: "gh_url sample_client (gh_path sample_client (''/git/tags/'' @ x)) = repo_path (''/git/tags/'' @ x)"
    by (simp add: gh_url_def gh_path_def sample_client_def repo_path_def)
  have "sample_read (repo_path (''/git/tags/'' @ x)) n = (if x = sample_object_sha \<and> 1 \<le> n then ''T'' else [])"
    by (simp add: sample_paths)
  with assms(1,2) have "x = sample_object_sha \<and> 1 \<le> n \<and> n' = n \<and> r = sample_answer ''T''"
    unfolding object_request_def u get_request_at_def sample_wire_def
    by (auto simp: accepted_def sample_answer_def split: if_split_asm)
  then show ?thesis using assms(3) by (simp add: sample_answer_def body_value_def sample_loads_def)
qed

lemma sample_honest: "honest_provider sample_client sample_view"
  unfolding honest_provider_def sample_client_fields
proof (intro conjI allI impI ballI)
  show "later (sample_view w) (sample_view (snd (sample_wire q w)))" for q w
    using sample_step [of q w] sample_view_later [of w] by auto
  show "pv_refs (sample_view w) t = None" if "sample_wire (ref_request sample_client t x) w = (Inr r, w') \<and> accepted r" for t x w r w'
    using sample_creates [of t x w r w'] that by (simp add: sample_view_def)
  show "pv_refs (sample_view w') t = Some x" if "sample_wire (ref_request sample_client t x) w = (Inr r, w') \<and> accepted r" for t x w r w'
    using sample_creates [of t x w r w'] that by (simp add: sample_view_def)
  show "pv_tags (sample_view w') x = Some d"
    if "sample_wire (object_request sample_client x) w = (Inr r, w') \<and> accepted r \<and> body_value sample_loads r = Inr (JObj d)" for x w r w' d
    using sample_shows [of x w r w' d] that by (simp add: sample_view_def)
  show "\<exists>name x. dget row ''ref'' = JStr (''refs/tags/'' @ name) \<and> sha_field row ''object'' = Inr x \<and> pv_refs (sample_view (nt_world t)) name = Some x"
    if "matching_tag_refs sample_client LEASE_ANCHOR_PREFIX s = (Inr rows, t)" "row \<in> set rows" for s rows t row
  proof -
    from that(1) have "rows = (if 2 \<le> nt_world s then [sample_row] else [])" "nt_world t = nt_world s"
      using sample_rows [of s] by (auto simp: wp_def)
    with that(2) show ?thesis
      by (auto simp: sample_view_def sample_row_def sha_field_def objE_def py_or_def split: if_split_asm)
  qed
qed


section \<open>A writer acquires the first lease\<close>

abbreviation unmoved :: "'r net \<Rightarrow> 'r net \<Rightarrow> bool" where
  "unmoved s t \<equiv> nt_world t = nt_world s"

lemma sample_reads:
  "sample_read (repo_path []) n = ''I''" "sample_read (repo_path ''/branches/main'') n = ''B''" "sample_read (repo_path ''/rulesets/1'') n = ''R''"
  "sample_read (repo_path (''/git/ref/tags/'' @ sample_tag)) n = (if 2 \<le> n then ''G'' else [])"
  "sample_read (repo_path (''/git/tags/'' @ sample_object_sha)) n = (if 1 \<le> n then ''T'' else [])"
  by (simp_all add: sample_paths)

lemma sample_main:
  "wp (require_main sample_client sample_sha40) (\<lambda>_ t. unmoved s t) never s"
proof -
  have i: "wp (repo_info sample_client) (\<lambda>x t. x = [(''default_branch'', JStr ''main'')] \<and> unmoved u t) never u" for u
    unfolding repo_info_def by (rule sample_get [where b = "''I''"]) (simp_all add: sample_reads sample_loads_def)
  have b: "wp (gh_branch sample_client ''main'') (\<lambda>x t. x = [(''commit'', JObj [(''sha'', JStr sample_sha40)])] \<and> unmoved u t) never u" for u
    unfolding gh_branch_def sample_quote append.simps by (rule sample_get [where b = "''B''"]) (simp_all add: sample_reads sample_loads_def)
  have ne: "sample_sha40 \<noteq> []" by (simp add: sample_sha40_def)
  have "wp (default_branch_and_main sample_client) (\<lambda>x t. x = (''main'', sample_sha40) \<and> unmoved s t) never s"
    unfolding default_branch_and_main_def
    by (auto simp: wp_simps Let_def field_text_def py_or_def sha_field_def objE_def checkP_def sample_sha40_shape ne intro!: wp_mono [OF i] wp_mono [OF b])
  then show ?thesis unfolding require_main_def
    by (auto simp: wp_simps checkP_def sample_sha40_shape elim!: wp_mono)
qed

lemma sample_anchor:
  "wp (require_anchor_ruleset sample_client) (\<lambda>_ t. unmoved s t) never s"
proof -
  let ?q = "get_request_at (gh_headers sample_client) 20 (repo_path ''/rulesets?per_page=100'')"
  have l: "wp (gh_list sample_client (gh_path sample_client ''/rulesets?per_page=100'') None) (\<lambda>x t. x = [[(''id'', JInt 1)]] \<and> unmoved s t) never s"
    by (rule sample_list [where b = "''L''" and ds = "[[(''id'', JInt 1)]]", simplified]) (simp_all add: sample_paths sample_loads_def)
  have py_one: "py_str (JInt 1) = ''1''" by code_simp
  have r: "wp (gh_get sample_client (ruleset_path sample_client (JInt 1))) (\<lambda>x t. x = runtime_anchor_ruleset_payload \<and> unmoved u t) never u" for u
    unfolding ruleset_path_def py_one append.simps by (rule sample_get [where b = "''R''"]) (simp_all add: sample_reads sample_loads_def)
  have "wp (gh_rulesets sample_client) (\<lambda>x t. x = [runtime_anchor_ruleset_payload] \<and> unmoved s t) never s"
    unfolding gh_rulesets_def by (auto simp: wp_simps intro!: wp_mono [OF l] wp_mono [OF r])
  moreover have "runtime_anchor_ruleset_payload \<noteq> []" by (simp add: runtime_anchor_ruleset_payload_def)
  ultimately show ?thesis unfolding require_anchor_ruleset_def orP_def
    by (auto simp: wp_simps checkP_def anchor_payload_verified rv_verified_def elim!: wp_mono)
qed

lemma sample_read_store:
  assumes "nt_world s = 0"
  shows "wp (read_store flat_sha sample_client sample_sha40 2) (\<lambda>x t. x = (sample_registry, None) \<and> unmoved s t) never s"
proof -
  have m: "wp (matching_refs sample_client) (\<lambda>x t. x = [] \<and> unmoved u t) never u" if "nt_world u = 0" for u
    unfolding matching_refs_def using that by (auto simp: wp_simps intro!: wp_mono [OF sample_rows])
  have rep: "repository_shape ''owner/repo''" by code_simp
  have e: "empty_lease_registry flat_sha (gh_repo sample_client) sample_sha40 2 = Inr sample_registry" 
    using rep by (simp add: empty_lease_registry_def sample_sha40_shape sample_client_fields sample_registry_def registry_digest_def flat_sha_def dput_def)
  show ?thesis unfolding read_store_def using assms
    by (auto simp: wp_simps e intro!: wp_mono [OF sample_main] wp_mono [OF sample_anchor] wp_mono [OF m])
qed

lemma sample_acquire_fields: "aq_main_sha sample_acquire = sample_sha40" "aq_ceiling sample_acquire = 2" "sample_acquire\<lparr>aq_revision := 0\<rparr> = sample_acquire"
  by (simp_all add: sample_acquire_def)

abbreviation sample_start :: "nat net" where
  "sample_start \<equiv> \<lparr>nt_world = 0, nt_sent = [], nt_naps = []\<rparr>"

lemma sample_change:
  assumes "sample_wire \<lparr>hq_method = ''POST'', hq_url = repo_path p, hq_headers = gh_headers sample_client, hq_payload = Some d, hq_timeout = 20\<rparr> (nt_world s)
      = (Inr (sample_answer b), n)" "b \<noteq> []" "sample_loads b = Inr (JObj x)"
  shows "wp (gh_post sample_client (gh_path sample_client p) d) (\<lambda>y t. y = x \<and> nt_world t = n) never s"
proof -
  have u: "gh_url sample_client (gh_path sample_client p) = repo_path p"
    by (simp add: gh_url_def gh_path_def sample_client_def repo_path_def)
  have one: "request_json l w q 1 = bindP (attempts (body_value l) w q (Suc 0)) (\<lambda>(v, r). case v of
     JObj d \<Rightarrow> retP (d, r) | _ \<Rightarrow> raiseP (ProviderContractError ''PROVIDER_PARTIAL_OR_NON_OBJECT_RESPONSE''))" for l q and w :: "nat wire"
    by (simp add: request_json_def request_value_def)
  show ?thesis unfolding gh_post_def gh_change_def u one wp_bind sample_client_fields
    by (rule wp_mono [OF wp_answered [where w = sample_wire and r = "sample_answer b" and m = n and v = "JObj x"]])
      (use assms in \<open>auto simp: sample_answer_def body_value_def wp_simps\<close>)
qed

lemma sample_event_built: "build_event flat_sha (leased_registry 1) None = Inr sample_event"
  using leased_registry_valid [of 1]
  by (simp add: build_event_def state_valid_def leased_registry_fields opt_str_def Let_def event_digest_def flat_sha_def sample_event_def dput_def)
    (simp add: leased_registry_def)

lemma sample_shas: "field_text sample_object ''sha'' = sample_object_sha" "sha_field sample_row ''object'' = Inr sample_object_sha"
proof -
  have "sample_object_sha \<noteq> []" by (simp add: sample_object_sha_def)
  then show "field_text sample_object ''sha'' = sample_object_sha" "sha_field sample_row ''object'' = Inr sample_object_sha"
    by (simp_all add: field_text_def sample_object_def sample_row_def sha_field_def objE_def py_or_def)
qed

lemma sample_anchor_read:
  assumes "nt_world s = 2"
  shows "wp (read_anchor flat_sha sample_client 1 sample_tag sample_row) (\<lambda>x t. x = (sample_event, sample_object_sha, sample_sha40) \<and> unmoved s t) never s"
proof -
  have o': "wp (tag_object sample_client sample_object_sha) (\<lambda>x t. x = sample_object \<and> unmoved s t) never s"
    unfolding tag_object_def by (rule sample_get [where b = "''T''"]) (use assms in \<open>simp_all add: sample_reads [unfolded append.simps] sample_loads_def\<close>)
  have p: "parse_event flat_sha sample_loads sample_text = Inr sample_event"
  proof -
    have k: "keys_are sample_event EVENT_FIELDS" by (simp add: keys_are_def dkeys_def sample_event_def EVENT_FIELDS_def)
    have d: "dget sample_event ''schema_version'' = JInt 1" "dget sample_event ''role'' = JStr LEASE_ANCHOR_ROLE" "dget sample_event ''revision'' = JInt 1"
      "dget sample_event ''previous_tag_object_sha'' = JNull" "dget sample_event ''registry'' = JObj (leased_registry 1)" "dget sample_event ''event_digest'' = JStr flat_digest"
      by (simp_all add: sample_event_def)
    have "sha256_hex flat_digest" unfolding flat_digest_def by (rule hex_n_replicate) code_simp
    moreover have "dget (leased_registry 1) ''revision'' = JInt 1" by (simp add: leased_registry_def)
    ultimately have "check_event flat_sha sample_text sample_event = Inr sample_event"
      using leased_registry_valid [of 1]
      by (simp add: check_event_def d str_shape_def event_digest_def flat_sha_def [of "canonical v" for v] state_valid_def sample_text_def)
    with k show ?thesis by (simp add: parse_event_def sample_loads_text)
  qed
  have c: "check_anchor flat_sha sample_client 1 sample_tag sample_object_sha sample_object = Inr (sample_event, sample_sha40)"
  proof -
    have "sample_sha40 \<noteq> []" "sample_tag \<noteq> []" by (simp_all add: sample_sha40_def sample_tag_def LEASE_ANCHOR_PREFIX_def)
    moreover have "dget sample_event ''revision'' = JInt 1" "dget sample_event ''registry'' = JObj (leased_registry 1)"
      "dget (leased_registry 1) ''repository'' = JStr ''owner/repo''" by (simp_all add: sample_event_def leased_registry_def)
    ultimately show ?thesis using p sample_sha40_shape
      by (simp add: check_anchor_def sample_shas guard_def sample_client_fields leased_registry_fields)
        (simp add: sample_object_def field_text_def objE_def py_or_def leased_registry_def)
  qed
  show ?thesis unfolding read_anchor_def orP_def
    by (auto simp: wp_simps sample_tag_1 checkP_def c sample_object_sha40 sample_shas intro!: wp_mono [OF o'])
qed

lemma py_eq_dict_self:
  assumes "distinct (dkeys d)" "\<And>k v. (k, v) \<in> set d \<Longrightarrow> py_eq v v"
  shows "py_eq (JObj d) (JObj d)"
  using assms by (auto simp: eq_dict_def list_all_iff dkeys_def)

lemma sample_event_equal: "py_eq (JObj sample_event) (JObj sample_event)"
proof -
  have r: "py_eq (resource_json sample_resource) (resource_json sample_resource)" by code_simp
  have "py_eq (JObj sample_lease) (JObj sample_lease)"
    by (rule py_eq_dict_self) (auto simp: sample_lease_def registry_lease_def dkeys_def eq_list_def r num_eq_def)
  then have "py_eq (JObj (leased_registry 1)) (JObj (leased_registry 1))"
    by (intro py_eq_dict_self) (auto simp: leased_registry_def dkeys_def eq_list_def num_eq_def simp del: py_eq.simps(7))
  then show ?thesis by (intro py_eq_dict_self) (auto simp: sample_event_def dkeys_def num_eq_def simp del: py_eq.simps(7))
qed

lemma sample_append:
  assumes "nt_world s = 0"
  shows "wp (append_cas flat_sha sample_client (leased_registry 1) None 0 sample_sha40) (\<lambda>x t. x = (leased_registry 1, sample_object_sha) \<and> nt_world t = 2) never s"
proof -
  have g: "append_guards flat_sha (leased_registry 1) 0 sample_sha40 = Inr ()"
    using leased_registry_valid [of 1] by (simp add: append_guards_def state_valid_def leased_registry_fields guard_def)
  have t: "wp (create_tag_object sample_client sample_tag sample_sha40 sample_text) (\<lambda>x t. x = sample_object \<and> nt_world t = 1) never u" if "nt_world u = 0" for u
    unfolding create_tag_object_def by (rule sample_change [where b = "''T''"]) (use that in \<open>simp_all add: sample_wire_def sample_loads_def\<close>)
  have r: "wp (create_tag_ref sample_client sample_tag sample_object_sha) (\<lambda>x t. x = sample_row \<and> nt_world t = 2) never u" if "nt_world u = 1" for u
    unfolding create_tag_ref_def by (rule sample_change [where b = "''G''"]) (use that in \<open>simp_all add: sample_wire_def sample_loads_def repo_path_def\<close>)
  have b: "wp (tag_ref sample_client sample_tag) (\<lambda>x t. x = sample_row \<and> unmoved u t) never u" if "nt_world u = 2" for u
    unfolding tag_ref_def sample_quote by (rule sample_get [where b = "''G''"]) (use that in \<open>simp_all add: sample_reads [unfolded append.simps] sample_loads_def\<close>)
  show ?thesis unfolding append_cas_def orP_def using assms
    by (auto simp: wp_simps g sample_event_equal leased_registry_fields sample_tag_1 sample_event_built Let_def checkP_def sample_text_def [symmetric]
       sample_object_sha40 sample_shas simp del: py_eq.simps
       intro!: wp_mono [OF sample_main] wp_mono [OF sample_anchor] wp_mono [OF t] wp_mono [OF r] wp_mono [OF b] wp_mono [OF sample_anchor_read])
qed

lemma sample_store_acquires:
  "wp (store_acquire flat_sha sample_client sample_acquire sample_uuid claim_time)
     (\<lambda>x t. x = (leased_registry 1, sample_lease, sample_object_sha) \<and> nt_world t = 2) never sample_start"
proof -
  have p: "wp (persist_transition flat_sha sample_client (leased_registry 1) None 0 sample_sha40 2)
      (\<lambda>x t. x = (leased_registry 1, sample_object_sha) \<and> nt_world t = 2) never u" if "nt_world u = 0" for u
    unfolding persist_transition_def wp_try by (rule wp_mono [OF sample_append [OF that]]) auto
  have r: "reg_revision sample_registry = 0" "dget sample_registry ''observed_main_sha'' = JStr sample_sha40"
    by (simp_all add: sample_registry_def reg_revision_def)
  show ?thesis unfolding store_acquire_def
    by (auto simp: wp_simps checkP_def r sample_acquire_fields sample_acquired intro!: wp_mono [OF sample_main] wp_mono [OF sample_read_store] wp_mono [OF p])
qed

theorem lease_store_refines_a_cas_register_witness:
  "\<exists>t. store_acquire flat_sha sample_client sample_acquire sample_uuid claim_time sample_start = (Inr (leased_registry 1, sample_lease, sample_object_sha), t)
     \<and> nt_world t = 2 \<and> took_effect flat_sha sample_client sample_view (sample_view 0) (sample_view 2) sample_sha40 2
        (Acquire sample_acquire sample_uuid claim_time) (leased_registry 1) sample_object_sha"
proof -
  obtain r t where run: "store_acquire flat_sha sample_client sample_acquire sample_uuid claim_time sample_start = (r, t)" by fastforce
  with sample_store_acquires have got: "r = Inr (leased_registry 1, sample_lease, sample_object_sha)" "nt_world t = 2"
    by (auto simp: wp_def split: sum.splits)
  from lease_store_refines_a_cas_register [OF sample_honest, where sha = flat_sha and q = sample_acquire and uuid = sample_uuid
      and now = claim_time and m = sample_sha40 and n = 2 and lid = sample_uuid and worker = sample_uuid and ttl = 60
      and ok = True and ref = sample_uuid and s = "sample_start", THEN conjunct1, unfolded run sample_acquire_fields]
  show ?thesis using run by (simp add: got)
qed

end
