(* ===== verification/WorkMemory.thy ===== *)
theory WorkMemory
  imports Effects PyTime
begin

text \<open>
  The work memory (\<open>.adwf/lib/work_memory.py\<close>): one file of decisions and hand-offs, changed by a
  compare-and-set on its revision.  The file is absent, or reading and parsing it raises or gives
  a value.  The file lock and the replacement of the file are atomic here.  The clock is the text
  of the current time, SHA-256 an argument, and the Russian texts are the argument \<open>ru\<close>.
\<close>

type_synonym memory_file = "json res option"

definition ALLOWED_STATUS :: "string list" where
  "ALLOWED_STATUS = [''NEW'', ''ACTIVE'', ''WAITING_CI'', ''WAITING_OWNER'', ''RECOVERY'', ''BLOCKED'', ''DONE'']"

definition MEMORY_LISTS :: "string list" where
  "MEMORY_LISTS = [''decisions'', ''constraints'', ''completed'', ''verification'', ''blockers'', ''open_questions'', ''session_handoffs'']"

definition memory_digest :: "(string \<Rightarrow> string) \<Rightarrow> dict \<Rightarrow> string" where
  "memory_digest sha d = sha (canonical (JObj (ddel ''memory_digest'' d)))"

definition seal_memory :: "(string \<Rightarrow> string) \<Rightarrow> dict \<Rightarrow> dict" where
  "seal_memory sha d = dput ''memory_digest'' (JStr (memory_digest sha d)) d"

definition new_work_memory :: "(string \<Rightarrow> string) \<Rightarrow> (string \<Rightarrow> string) \<Rightarrow> string \<Rightarrow> string \<Rightarrow> string \<Rightarrow> json \<Rightarrow> dict res" where
  "new_work_memory sha ru now brief_id task run_id = (let t = strip task in
     bindE (guard (5 \<le> length t) ''WORK_MEMORY_TASK_TOO_SHORT'') (\<lambda>_. Inr (seal_memory sha
       ([(''schema_version'', JInt 1), (''brief_id'', JStr brief_id), (''run_id'', run_id), (''status'', JStr ''NEW''), (''task_ru'', JStr t),
         (''product_brief'', JObj []), (''decisions'', JList []), (''constraints'', JList []), (''completed'', JList []),
         (''verification'', JList []), (''blockers'', JList []), (''open_questions'', JList []),
         (''next_action_ru'', JStr (ru ''first_step'')),
         (''references'', JObj [(''issues'', JList []), (''pull_requests'', JList []), (''commits'', JList []), (''previews'', JList [])]),
         (''session_handoffs'', JList []), (''created_at'', JStr now), (''updated_at'', JStr now), (''revision'', JInt 0)]))))"

definition validate_work_memory :: "(string \<Rightarrow> string) \<Rightarrow> dict \<Rightarrow> string list res" where
  "validate_work_memory sha d = bindE (in_set (dget d ''status'') ALLOWED_STATUS) (\<lambda>known. Inr (
     flag (\<not> py_eq (dget d ''schema_version'') (JInt 1)) ''WORK_MEMORY_SCHEMA''
     @ flag (\<not> known) ''WORK_MEMORY_STATUS''
     @ flag (strip (field_text d ''brief_id'') = []) ''WORK_MEMORY_BRIEF''
     @ flag (length (strip (field_text d ''task_ru'')) < 5) ''WORK_MEMORY_TASK''
     @ concat (map (\<lambda>k. flag (\<not> is_list (dget d k)) (''WORK_MEMORY_'' @ upper k)) MEMORY_LISTS)
     @ flag (dget d ''memory_digest'' \<noteq> JStr (memory_digest sha d)) ''WORK_MEMORY_DIGEST''))"

section \<open>The store\<close>

definition memory_load :: "(string \<Rightarrow> string) \<Rightarrow> memory_file \<Rightarrow> dict option res" where
  "memory_load sha file = (case file of None \<Rightarrow> Inr None
   | Some r \<Rightarrow> bindE r (\<lambda>v. case v of
       JObj d \<Rightarrow> bindE (validate_work_memory sha d) (\<lambda>errors.
         bindE (guard (errors = []) (''WORK_MEMORY_INVALID:'' @ join '','' errors)) (\<lambda>_. Inr (Some d)))
     | _ \<Rightarrow> Inl AttributeError))"

text \<open>\<open>int((current or {}).get("revision", -1))\<close>.\<close>

definition current_revision :: "dict option \<Rightarrow> int res" where
  "current_revision current = py_int (dget_or (case current of None \<Rightarrow> [] | Some d \<Rightarrow> d) ''revision'' (JInt (- 1)))"

definition written_memory :: "(string \<Rightarrow> string) \<Rightarrow> string \<Rightarrow> dict \<Rightarrow> int \<Rightarrow> dict" where
  "written_memory sha now value n = seal_memory sha (dput ''updated_at'' (JStr now) (dput ''revision'' (JInt n) value))"

text \<open>What a save writes over the current memory; an expected revision of \<open>None\<close> is not compared.\<close>

definition save_over :: "(string \<Rightarrow> string) \<Rightarrow> string \<Rightarrow> dict \<Rightarrow> json \<Rightarrow> dict option \<Rightarrow> dict res" where
  "save_over sha now value expected current =
     bindE (if expected = JNull then Inr () else bindE (current_revision current) (\<lambda>a. bindE (py_int expected) (\<lambda>b.
       guard (a = b) ''WORK_MEMORY_REVISION_CONFLICT''))) (\<lambda>_.
     bindE (current_revision current) (\<lambda>n. Inr (written_memory sha now value (n + 1))))"

definition memory_save :: "(string \<Rightarrow> string) \<Rightarrow> string \<Rightarrow> dict \<Rightarrow> json \<Rightarrow> (memory_file, dict) prog" where
  "memory_save sha now value expected = bindP (getP (\<lambda>file. bindE (memory_load sha file) (save_over sha now value expected))) (\<lambda>r.
     bindP (liftP r) (\<lambda>payload. bindP (putP (\<lambda>_. Some (Inr (JObj payload)))) (\<lambda>_. retP payload)))"

definition FIXED_FIELDS :: "string list" where
  "FIXED_FIELDS = [''revision'', ''memory_digest'', ''created_at'', ''updated_at'']"

primrec apply_changes :: "dict \<Rightarrow> dict \<Rightarrow> dict res" where
  "apply_changes [] d = Inr d"
| "apply_changes (kv # kvs) d = (if \<not> dhas d (fst kv) \<or> fst kv \<in> set FIXED_FIELDS then Inl (ValueError (''WORK_MEMORY_FIELD_FORBIDDEN:'' @ fst kv))
     else apply_changes kvs (dput (fst kv) (snd kv) d))"

definition load_existing :: "(string \<Rightarrow> string) \<Rightarrow> (memory_file, dict) prog" where
  "load_existing sha = bindP (getP (memory_load sha)) (\<lambda>loaded. bindP (liftP loaded) (\<lambda>current. case current of
     None \<Rightarrow> raiseP (ValueError ''WORK_MEMORY_NOT_FOUND'') | Some d \<Rightarrow> retP d))"

definition memory_update :: "(string \<Rightarrow> string) \<Rightarrow> string \<Rightarrow> dict \<Rightarrow> (memory_file, dict) prog" where
  "memory_update sha now changes = bindP (load_existing sha) (\<lambda>d. bindP (liftP (ditemE d ''revision'')) (\<lambda>revision.
     bindP (liftP (apply_changes changes d)) (\<lambda>d'. memory_save sha now d' revision)))"

definition handoff_entry :: "json \<Rightarrow> string \<Rightarrow> string \<Rightarrow> string \<Rightarrow> json" where
  "handoff_entry session summary step now = JObj [(''session_id'', session), (''summary_ru'', JStr summary), (''next_action_ru'', JStr step), (''at'', JStr now)]"

definition memory_handoff :: "(string \<Rightarrow> string) \<Rightarrow> string \<Rightarrow> string \<Rightarrow> string \<Rightarrow> json \<Rightarrow> (memory_file, dict) prog" where
  "memory_handoff sha now summary step session = bindP (load_existing sha) (\<lambda>d. bindP (liftP (ditemE d ''revision'')) (\<lambda>revision.
     bindP (liftP (guard (5 \<le> length (strip summary) \<and> 3 \<le> length (strip step)) ''WORK_MEMORY_HANDOFF_INCOMPLETE'')) (\<lambda>_.
     memory_save sha now (dput ''next_action_ru'' (JStr (strip step)) (dput ''session_handoffs''
       (JList (list_of (dget d ''session_handoffs'') @ [handoff_entry session (strip summary) (strip step) now])) d)) revision)))"

section \<open>What a save leaves\<close>

lemma ddel_dput: "ddel k (dput k v d) = ddel k d"
  by (induction d) (auto simp: ddel_def dput_def)

lemma written_fields: "dget (written_memory sha now value n) ''revision'' = JInt n" "dget (written_memory sha now value n) ''updated_at'' = JStr now"
  "k \<notin> {''revision'', ''updated_at'', ''memory_digest''} \<Longrightarrow> dget (written_memory sha now value n) k = dget value k"
  by (simp_all add: written_memory_def seal_memory_def)

lemma written_digest: "dget (written_memory sha now value n) ''memory_digest'' = JStr (memory_digest sha (written_memory sha now value n))"
  by (simp add: written_memory_def seal_memory_def memory_digest_def ddel_dput)

lemma written_findings: "validate_work_memory sha (written_memory sha now value n)
   = bindE (in_set (dget value ''status'') ALLOWED_STATUS) (\<lambda>known. Inr (
       flag (\<not> py_eq (dget value ''schema_version'') (JInt 1)) ''WORK_MEMORY_SCHEMA'' @ flag (\<not> known) ''WORK_MEMORY_STATUS''
       @ flag (strip (field_text value ''brief_id'') = []) ''WORK_MEMORY_BRIEF'' @ flag (length (strip (field_text value ''task_ru'')) < 5) ''WORK_MEMORY_TASK''
       @ concat (map (\<lambda>k. flag (\<not> is_list (dget value k)) (''WORK_MEMORY_'' @ upper k)) MEMORY_LISTS)))"
  unfolding validate_work_memory_def written_digest by (simp add: written_fields field_text_def MEMORY_LISTS_def)

text \<open>A valid memory is still valid after it was saved, and is what the next load returns.\<close>

lemma written_valid:
  assumes "validate_work_memory sha value = Inr []"
  shows "validate_work_memory sha (written_memory sha now value n) = Inr []"
  using assms unfolding written_findings by (auto simp: validate_work_memory_def bindE_eq_Inr)

lemma load_written:
  assumes "validate_work_memory sha value = Inr []"
  shows "memory_load sha (Some (Inr (JObj (written_memory sha now value n)))) = Inr (Some (written_memory sha now value n))"
  by (simp add: memory_load_def written_valid [OF assms] guard_def)

lemma load_valid:
  assumes "memory_load sha file = Inr (Some d)"
  shows "file = Some (Inr (JObj d)) \<and> validate_work_memory sha d = Inr []"
proof -
  from assms obtain v where v: "file = Some (Inr v)" by (auto simp: memory_load_def bindE_eq_Inr split: option.splits)
  with assms show ?thesis by (cases v) (auto simp: memory_load_def guard_def bindE_eq_Inr split: if_split_asm)
qed

lemma wp_memory_save: "wp (memory_save sha now value expected)
   (\<lambda>d t. \<exists>current. memory_load sha s = Inr current \<and> save_over sha now value expected current = Inr d \<and> t = Some (Inr (JObj d)))
   (\<lambda>e t. t = s \<and> bindE (memory_load sha s) (save_over sha now value expected) = Inl e) s"
  unfolding memory_save_def by (auto simp: wp_simps bindE_eq_Inr split: sum.split)

section \<open>The compare-and-set\<close>

text \<open>The stored revision; a memory written by the store has a whole number there.\<close>

definition memory_revision :: "dict option \<Rightarrow> int" where
  "memory_revision current = (case current of None \<Rightarrow> - 1 | Some d \<Rightarrow> int_of (dget d ''revision''))"

definition numbered_memory :: "dict option \<Rightarrow> bool" where
  "numbered_memory current = (case current of None \<Rightarrow> True | Some d \<Rightarrow> \<exists>n. dget d ''revision'' = JInt n)"

definition memory_cas :: "(string \<Rightarrow> string) \<Rightarrow> string \<times> dict \<Rightarrow> int \<Rightarrow> dict option \<Rightarrow> dict option res" where
  "memory_cas sha op n current = bindE (save_over sha (fst op) (snd op) (JInt n) current) (\<lambda>d. Inr (Some d))"

lemma current_revision_numbered: "numbered_memory current \<Longrightarrow> current_revision current = Inr (memory_revision current)"
  by (auto simp: numbered_memory_def current_revision_def memory_revision_def dget_or_def dget_def split: option.splits)

interpretation memory_store: cas_store memory_revision "memory_cas sha" numbered_memory for sha
proof
  fix s :: "dict option" and op n s'
  assume g: "numbered_memory s" and u: "memory_cas sha op n s = Inr s'"
  from u have s': "memory_revision s = n" "s' = Some (written_memory sha (fst op) (snd op) (memory_revision s + 1))"
    by (auto simp: memory_cas_def save_over_def current_revision_numbered [OF g] guard_def bindE_eq_Inr split: if_split_asm)
  then show "memory_revision s = n \<and> memory_revision s' = n + 1" "numbered_memory s'"
    by (auto simp: memory_revision_def numbered_memory_def written_fields)
qed

text \<open>Of two savers that computed from the same revision, the second is refused.\<close>

lemma second_saver_refused:
  assumes "numbered_memory current" "save_over sha t1 v1 (JInt n) current = Inr d1"
  shows "\<exists>e. save_over sha t2 v2 (JInt n) (Some d1) = Inl e"
proof -
  have "memory_cas sha (t1, v1) n current = Inr (Some d1)" using assms(2) by (simp add: memory_cas_def)
  from memory_store.stale_update_refused [OF assms(1) this, of "(t2, v2)"] show ?thesis
    by (auto simp: memory_cas_def bindE_def split: sum.splits)
qed

section \<open>A finding\<close>

text \<open>
  \<open>update\<close> does not validate what it writes: an unknown status is saved, and every later load,
  update or hand-off raises.
\<close>

lemma unknown_status_breaks_memory:
  assumes "memory_load sha s = Inr (Some d)" "dget d ''revision'' = JInt n" "status \<notin> set ALLOWED_STATUS"
    and "memory_update sha now [(''status'', JStr status)] s = (Inr d', t)"
  shows "\<exists>msg. memory_load sha t = Inl (ValueError msg)"
proof -
  have "wp (memory_update sha now [(''status'', JStr status)])
     (\<lambda>v t. \<exists>m. t = Some (Inr (JObj (written_memory sha now (dput ''status'' (JStr status) d) m)))) (\<lambda>_ _. True) s"
    unfolding memory_update_def load_existing_def
    by (auto simp: wp_simps assms(1) FIXED_FIELDS_def save_over_def bindE_eq_Inr split: sum.split intro!: wp_mono [OF wp_memory_save] elim!: bindE_InrE)
  from wp_Inr [OF this assms(4)] obtain m where t: "t = Some (Inr (JObj (written_memory sha now (dput ''status'' (JStr status) d) m)))" by blast
  have "in_set (JStr status) ALLOWED_STATUS = Inr False" using assms(3) by simp
  then show ?thesis unfolding t memory_load_def by (auto simp: written_findings guard_def)
qed

end
