(* ===== verification/OrchNext.thy ===== *)
theory OrchNext
  imports Delivery Orchestration LeaseRegistry TrustedContext WorkMemory "HOL-Library.Multiset"
begin

text \<open>
  The start of the next run (\<open>.adwf/lib/orch_next.py\<close>): when no run is active, fresh provider facts,
  the lease registry and the assurance snapshot are checked, the canonical authorisation picks an
  issue, and one durable run with its work memory is created.  The state is the directory of
  journals and the file of the work memory.  \<open>now\<close> is the caller's time, \<open>e_now en\<close> the system
  clock, read once.
\<close>

section \<open>The facts\<close>

record next_world =
  nw_dir :: journal_dir
  nw_memory :: memory_file

text \<open>\<open>(d.get(k) or {})\<close>, of which something is got next.\<close>

definition sub_obj :: "dict \<Rightarrow> string \<Rightarrow> dict res" where
  "sub_obj d k = (case py_or (dget d k) (JObj []) of JObj x \<Rightarrow> Inr x | _ \<Rightarrow> Inl AttributeError)"

definition snapshot_time :: "dict \<Rightarrow> string \<Rightarrow> int res" where
  "snapshot_time snap k = parse_time (py_str (dget snap k))"

definition snapshot_times :: "dict \<Rightarrow> (int \<times> int) res" where
  "snapshot_times snap = catchE is_TV (bindE (snapshot_time snap ''observed_at'') (\<lambda>observed.
     bindE (snapshot_time snap ''valid_until'') (\<lambda>valid_until. Inr (observed, valid_until))))
     (\<lambda>_. Inl (ValueError ''ORCH_NEXT_SNAPSHOT_TIME_INVALID''))"

definition reconciled :: "dict \<Rightarrow> bool res" where
  "reconciled p = (if dget p ''status'' \<noteq> JStr ''ACTIVE'' then Inr False
     else bindE (sub_obj p ''health'') (\<lambda>h. in_set (dget h ''adwf'') SAFE_HEALTH))"

text \<open>The project state: its main commit, reconciled and fresh.\<close>

definition fresh_project :: "int \<Rightarrow> json \<Rightarrow> string res" where
  "fresh_project now project = (case project of
     JObj p \<Rightarrow> bindE (sub_obj p ''main'') (\<lambda>main. bindE (sub_obj p ''snapshot'') (\<lambda>snap. let main_sha = field_text main ''head'' in
       bindE (guard (sha40 main_sha \<and> field_text snap ''source_main_sha'' = main_sha) ''ORCH_NEXT_MAIN_BINDING_INVALID'') (\<lambda>_.
       bindE (reconciled p) (\<lambda>ok. bindE (guard ok ''ORCH_NEXT_RECONCILIATION_NOT_HEALTHY'') (\<lambda>_.
       bindE (snapshot_times snap) (\<lambda>times.
       bindE (guard (fst times \<le> now \<and> now < snd times) ''ORCH_NEXT_SNAPSHOT_STALE'') (\<lambda>_. Inr main_sha)))))))
   | _ \<Rightarrow> Inl (ValueError ''ORCH_NEXT_PROJECT_STATE_INVALID''))"

text \<open>The assurance snapshot and the provider readback: about that commit, public, and free of cost.\<close>

definition fresh_assurance :: "env \<Rightarrow> string \<Rightarrow> dict \<Rightarrow> json \<Rightarrow> dict \<Rightarrow> unit res" where
  "fresh_assurance en main_sha policy assurance provider =
     bindE (validate_assurance_snapshot (e_sha en) (e_now en) assurance (Some main_sha) (Some (str_of (dget policy ''policy_hash'')))) (\<lambda>errors.
     bindE (guard (errors = []) (''ORCH_NEXT_ASSURANCE_INVALID:'' @ join '','' errors)) (\<lambda>_.
     bindE (guard (dget provider ''subject_sha'' = JStr main_sha \<and> dget provider ''facts_readback_verified'' = JBool True) ''ORCH_NEXT_PROVIDER_READBACK_INVALID'') (\<lambda>_.
     bindE (guard (dget provider ''repository_visibility'' = JStr ''PUBLIC'' \<and> dget provider ''larger_runner'' \<noteq> JBool True) ''ORCH_NEXT_PROVIDER_PROFILE_INVALID'') (\<lambda>_.
     let cost = dict_of (dget (dict_of assurance) ''cost'') in
     bindE (guard (dget cost ''status'' = JStr ''VERIFIED_ZERO'') ''ORCH_NEXT_COST_NOT_VERIFIED_ZERO'') (\<lambda>_.
     bindE (py_float (dget_or cost ''projected_cost_usd'' (JInt (- 1)))) (\<lambda>c. guard (c = Fin 0) ''ORCH_NEXT_COST_NOT_ZERO''))))))"

definition active_writers :: "json \<Rightarrow> dict list" where
  "active_writers registry = filter (\<lambda>l. dget l ''status'' = JStr ''ACTIVE'') (map dict_of (list_of (dget (dict_of registry) ''leases'')))"

definition fresh_registry :: "env \<Rightarrow> string \<Rightarrow> dict \<Rightarrow> json \<Rightarrow> unit res" where
  "fresh_registry en main_sha policy registry =
     bindE (validate_lease_registry (e_sha en) registry) (\<lambda>errors.
     bindE (guard (errors = []) (''ORCH_NEXT_LEASE_REGISTRY_INVALID:'' @ join '','' errors)) (\<lambda>_.
     bindE (guard (dget (dict_of registry) ''observed_main_sha'' = JStr main_sha \<or> active_writers registry = []) ''ORCH_NEXT_LEASE_MAIN_DRIFT'') (\<lambda>_.
     guard (py_eq (dget (dict_of registry) ''max_parallel_writers'') (dget policy ''max_parallel_writers'')) ''ORCH_NEXT_LEASE_POLICY_DRIFT'')))"

definition validate_fresh_inputs :: "env \<Rightarrow> int \<Rightarrow> json \<Rightarrow> json \<Rightarrow> json \<Rightarrow> dict \<Rightarrow> (string \<times> dict) res" where
  "validate_fresh_inputs en now project registry assurance provider =
     bindE (fresh_project now project) (\<lambda>main_sha.
     bindE (load_effective_policy (e_sha en) (e_policy en)) (\<lambda>policy.
     bindE (fresh_assurance en main_sha policy assurance provider) (\<lambda>_.
     bindE (fresh_registry en main_sha policy registry) (\<lambda>_. Inr (main_sha, policy)))))"

section \<open>The queue and the policy context\<close>

definition selector_queue :: "json \<Rightarrow> json \<Rightarrow> json res" where
  "selector_queue project registry = (let items = dget (dict_of project) ''work_items'' in
     bindE (guard (dict_list items) ''ORCH_NEXT_WORK_ITEMS_INVALID'') (\<lambda>_.
     Inr (JObj [(''issues'', items), (''leases'', JList (map JObj (active_writers registry)))])))"

definition policy_context :: "dict \<Rightarrow> dict \<Rightarrow> json" where
  "policy_context policy a = JObj [(''action'', JStr ''claim''), (''autonomy'', dget policy ''active_autonomy''), (''risk'', JStr ''R0''),
     (''max_autonomous_risk'', dget policy ''max_autonomous_risk''), (''health'', JObj (dict_of (dget a ''health''))),
     (''provider_allowed'', JBool True), (''provider_potentially_paid'', JBool False), (''projected_cost'', JFloat (Fin 0) ''0.0''),
     (''writer_conflict'', JBool False), (''exact_sha'', JBool True),
     (''evidence_fresh'', JBool (dget (dict_of (dget a ''evidence'')) ''refs_resolved'' = JBool True)), (''provider_facts_fresh'', JBool True)]"

section \<open>The run\<close>

definition claimed_number :: "dict \<Rightarrow> int option" where
  "claimed_number issue = (case dget issue ''number'' of JInt n \<Rightarrow> if 1 \<le> n then Some n else None | _ \<Rightarrow> None)"

definition roadmap_of :: "dict \<Rightarrow> string" where
  "roadmap_of issue = py_str (py_or (py_or (dget issue ''roadmap_id'') (dget issue ''id'')) (JStr []))"

definition provenance :: "string \<Rightarrow> dict \<Rightarrow> json \<Rightarrow> json \<Rightarrow> dict \<Rightarrow> int \<Rightarrow> json" where
  "provenance main_sha policy project registry issue n = JObj [(''main_sha'', JStr main_sha),
     (''snapshot_digest'', dget (dict_of (py_or (dget (dict_of project) ''snapshot'') (JObj []))) ''evidence_digest''),
     (''lease_registry_revision'', dget (dict_of registry) ''revision''), (''roadmap_id'', JStr (roadmap_of issue)),
     (''issue_number'', JInt n), (''policy_hash'', dget policy ''policy_hash'')]"

definition next_request :: "(string \<Rightarrow> string) \<Rightarrow> dict \<Rightarrow> int \<Rightarrow> json \<Rightarrow> run_request" where
  "next_request sha issue n origin = \<lparr>rq_roadmap_id = roadmap_of issue, rq_issue_id = int_str n,
     rq_risk = py_str (py_or (dget issue ''risk'') (JStr ''R1'')), rq_work_type = py_str (py_or (dget issue ''type'') (JStr ''feature'')),
     rq_product_impact = truthy (dget issue ''product_impact''), rq_owner_request_digest = sha (canonical origin), rq_run_id = [],
     rq_max_attempts = 3, rq_max_cycles = 100, rq_max_elapsed_minutes = 1440\<rparr>"

definition task_of :: "dict \<Rightarrow> string" where
  "task_of issue = strip (py_str (py_or (py_or (dget issue ''goal'') (dget issue ''title'')) (JStr (''Roadmap '' @ roadmap_of issue))))"

definition next_memory :: "(string \<Rightarrow> string) \<Rightarrow> string \<Rightarrow> int \<Rightarrow> dict \<Rightarrow> dict" where
  "next_memory ru main_sha n m = dput ''next_action_ru'' (JStr (ru ''continue''))
     (dput ''references'' (JObj (dput ''issues'' (JList [JInt n]) (dict_of (dget m ''references''))))
     (dput ''constraints'' (strs [''FREE_ONLY monetary budget $0.'', ''Fail closed on stale provider facts, policy drift, or writer conflict.'',
        ''Exact bootstrap main SHA: '' @ main_sha @ ''.'']) (dput ''status'' (JStr ''ACTIVE'') m)))"

section \<open>The bootstrap\<close>

definition started_answer :: "run \<Rightarrow> dict \<Rightarrow> int \<Rightarrow> string \<Rightarrow> json \<Rightarrow> dict" where
  "started_answer v issue n main_sha registry = [(''status'', JStr ''RUN_CREATED''), (''reason'', JStr ''ROADMAP_AUTHORIZED_SUCCESSOR''),
     (''run_id'', JStr (run_id v)), (''roadmap_id'', JStr (roadmap_of issue)), (''issue_id'', JStr (int_str n)), (''main_sha'', JStr main_sha),
     (''lease_registry_revision'', dget (dict_of registry) ''revision''), (''durable_run_created'', JBool True),
     (''provider_claim_mutation'', JBool False), (''monetary_cost_usd'', JInt 0)]"

definition start_run :: "env \<Rightarrow> run_request \<Rightarrow> (next_world, run) prog" where
  "start_run en q = bindP (getP (\<lambda>w. new_run en (nw_dir w) q)) (\<lambda>r. bindP (liftP r) (\<lambda>vd.
     bindP (putP (\<lambda>w. w\<lparr>nw_dir := snd vd\<rparr>)) (\<lambda>_. retP (fst vd))))"

definition on_memory :: "(memory_file, 'a) prog \<Rightarrow> (next_world, 'a) prog" where
  "on_memory m w = (case m (nw_memory w) of (r, f) \<Rightarrow> (r, w\<lparr>nw_memory := f\<rparr>))"

definition create_next_run :: "env \<Rightarrow> (string \<Rightarrow> string) \<Rightarrow> string \<Rightarrow> dict \<Rightarrow> json \<Rightarrow> json \<Rightarrow> dict \<Rightarrow> int \<Rightarrow> (next_world, dict) prog" where
  "create_next_run en ru main_sha policy project registry issue n =
     bindP (start_run en (next_request (e_sha en) issue n (provenance main_sha policy project registry issue n))) (\<lambda>v.
     bindP (liftP (new_work_memory (e_sha en) ru (iso (e_now en)) (roadmap_of issue) (task_of issue) (JStr (run_id v)))) (\<lambda>m.
     bindP (on_memory (memory_save (e_sha en) (iso (e_now en)) (next_memory ru main_sha n m) JNull)) (\<lambda>_.
     retP (started_answer v issue n main_sha registry))))"

definition no_run :: "string \<Rightarrow> json \<Rightarrow> dict \<Rightarrow> dict" where
  "no_run status reason rest = [(''status'', JStr status), (''reason'', reason)] @ rest @ [(''durable_run_created'', JBool False)]"

definition refused :: "outcome \<Rightarrow> dict" where
  "refused oc = no_run (if oc_action oc = ''ROADMAP_COMPLETE_OR_EMPTY'' then ''NO_ROADMAP_WORK'' else ''BLOCK'') (JStr (oc_reason oc))
     [(''decision'', JStr (oc_action oc)), (''reason_codes'', strs (oc_reason_codes oc))]"

definition writer_busy :: "dict list \<Rightarrow> dict" where
  "writer_busy ls = no_run ''WRITER_BUSY'' (JStr ''PROVIDER_WRITER_ACTIVE'') [(''lease_id'', if length ls = 1 then dget (hd ls) ''lease_id'' else JNull)]"

definition bootstrap_idle :: "env \<Rightarrow> (string \<Rightarrow> string) \<Rightarrow> int \<Rightarrow> json \<Rightarrow> json \<Rightarrow> json \<Rightarrow> dict \<Rightarrow> (next_world, dict) prog" where
  "bootstrap_idle en ru now project registry assurance provider =
     (case validate_fresh_inputs en now project registry assurance provider of
       Inl e \<Rightarrow> if is_TV e then retP (no_run ''BLOCK'' (JStr (take 240 (exn_text e))) []) else raiseP e
     | Inr (main_sha, policy) \<Rightarrow>
         if active_writers registry \<noteq> [] then retP (writer_busy (active_writers registry))
         else bindP (liftP (selector_queue project registry)) (\<lambda>queue.
           bindP (liftP (authorize_next_action queue (policy_context policy (dict_of assurance)) (Some policy) now
             DEFAULT_HEARTBEAT_TIMEOUT_MINUTES (e_now en))) (\<lambda>oc.
           if oc_action oc \<noteq> ''CLAIM_ONE_READY'' then retP (refused oc)
           else (let issue = (case oc_issue oc of Some i \<Rightarrow> i | None \<Rightarrow> []) in
             case claimed_number issue of
               None \<Rightarrow> retP (no_run ''BLOCK'' (JStr ''ORCH_NEXT_ISSUE_NUMBER_INVALID'') [])
             | Some n \<Rightarrow> create_next_run en ru main_sha policy project registry issue n))))"

definition run_active :: "run \<Rightarrow> dict" where
  "run_active v = [(''status'', JStr ''ACTIVE_RUN_EXISTS''), (''reason'', JStr ''DURABLE_RUN_ALREADY_ACTIVE''), (''run_id'', JStr (run_id v)),
     (''durable_run_created'', JBool False)]"

definition bootstrap_next_run :: "env \<Rightarrow> (string \<Rightarrow> string) \<Rightarrow> int \<Rightarrow> json \<Rightarrow> json \<Rightarrow> json \<Rightarrow> dict \<Rightarrow> (next_world, dict) prog" where
  "bootstrap_next_run en ru now project registry assurance provider =
     bindP (getP (\<lambda>w. list_active en (nw_dir w))) (\<lambda>r. bindP (liftP r) (\<lambda>active.
     case active of
       [] \<Rightarrow> bootstrap_idle en ru now project registry assurance provider
     | [ActiveRun v] \<Rightarrow> retP (run_active v)
     | _ \<Rightarrow> retP (no_run ''BLOCK'' (JStr ''MULTIPLE_OR_BROKEN_ACTIVE_RUNS'') [])))"

section \<open>Effects of the parts\<close>

lemma wp_on_memory [wp_simps]: "wp (on_memory m) Q E w \<longleftrightarrow>
   wp m (\<lambda>x f. Q x (w\<lparr>nw_memory := f\<rparr>)) (\<lambda>e f. E e (w\<lparr>nw_memory := f\<rparr>)) (nw_memory w)"
  by (auto simp: wp_def on_memory_def split: prod.split sum.split)

lemma wp_start: "wp (start_run en q) (\<lambda>v t. new_run en (nw_dir w) q = Inr (v, nw_dir t) \<and> nw_memory t = nw_memory w) (\<lambda>_ t. t = w) w"
  unfolding start_run_def by (auto simp: wp_simps split: sum.split)

lemma new_memory_fields:
  assumes "new_work_memory sha ru now b task r = Inr m"
  shows "dget m ''brief_id'' = JStr b \<and> dget m ''run_id'' = r \<and> dget m ''schema_version'' = JInt 1 \<and> dget m ''task_ru'' = JStr (strip task)
    \<and> 5 \<le> length (strip task) \<and> (\<forall>k \<in> set MEMORY_LISTS. is_list (dget m k))"
  using assms by (auto simp: new_work_memory_def Let_def bindE_eq_Inr seal_memory_def MEMORY_LISTS_def)

lemma new_memory_raises: "new_work_memory sha ru now b task r = Inl e \<Longrightarrow> e = ValueError ''WORK_MEMORY_TASK_TOO_SHORT''"
  by (auto simp: new_work_memory_def Let_def bindE_eq_Inl guard_def split: if_split_asm)

lemma is_list_strs: "is_list (strs xs)"
  by (simp add: strs_def)

lemma next_memory_fields: "dget (next_memory ru main_sha n m) k = (if k = ''next_action_ru'' then JStr (ru ''continue'')
    else if k = ''references'' then JObj (dput ''issues'' (JList [JInt n]) (dict_of (dget m ''references'')))
    else if k = ''constraints'' then strs [''FREE_ONLY monetary budget $0.'', ''Fail closed on stale provider facts, policy drift, or writer conflict.'',
        ''Exact bootstrap main SHA: '' @ main_sha @ ''.'']
    else if k = ''status'' then JStr ''ACTIVE'' else dget m k)"
  by (simp add: next_memory_def)

lemma strip_strip: "strip (strip s) = strip s"
proof -
  define t where "t = dropWhile is_space s"
  define u where "u = rev (dropWhile is_space (rev t))"
  have "dropWhile is_space u = u"
  proof (cases u)
    case (Cons c u')
    have "t = u @ rev (takeWhile is_space (rev t))" unfolding u_def by (metis rev_append rev_rev_ident takeWhile_dropWhile_id)
    then have "hd t = c" "t \<noteq> []" using Cons by (metis append_Cons list.sel(1), auto)
    then have "\<not> is_space c" using hd_dropWhile [of is_space s] by (simp add: t_def)
    then show ?thesis by (simp add: Cons)
  qed simp
  moreover have "dropWhile is_space (rev u) = rev u" by (simp add: u_def)
  ultimately show ?thesis by (simp add: strip_def t_def [symmetric] u_def [symmetric])
qed

text \<open>The memory that is saved loads again, when the roadmap item has a name.\<close>

lemma next_memory_loads:
  assumes "new_work_memory sha ru now b task r = Inr m" "strip b \<noteq> []"
  shows "memory_load sha (Some (Inr (JObj (written_memory sha t (next_memory ru' main_sha n m) k)))) = Inr (Some (written_memory sha t (next_memory ru' main_sha n m) k))"
proof -
  note f = new_memory_fields [OF assms(1)]
  have b: "b \<noteq> []" using assms(2) by (cases b) (auto simp: strip_def)
  have t: "strip task \<noteq> []" using f by auto
  have "validate_work_memory sha (written_memory sha t (next_memory ru' main_sha n m) k) = Inr []"
    unfolding written_findings using f assms(2) b t
    by (auto simp: next_memory_fields field_text_def py_or_def strip_strip ALLOWED_STATUS_def MEMORY_LISTS_def num_eq_def is_list_strs)
  then show ?thesis by (simp add: memory_load_def guard_def)
qed

section \<open>What the authorisation decided\<close>

lemma continue_existing_claims_nothing: "continue_existing context ir now timeout l issues = Inr oc \<Longrightarrow> oc_action oc \<noteq> ''CLAIM_ONE_READY''"
  unfolding continue_existing_def Let_def authorized_def conflict_def by (auto elim!: bindE_InrE split: if_split_asm)

lemma continue_unfinished_claims_nothing: "continue_unfinished context ir i = Inr oc \<Longrightarrow> oc_action oc \<noteq> ''CLAIM_ONE_READY''"
  unfolding continue_unfinished_def Let_def authorized_def by (auto elim!: bindE_InrE split: if_split_asm)

lemma claim_ready_claims:
  assumes "claim_ready queue context ir clock = Inr oc" "oc_action oc = ''CLAIM_ONE_READY''"
  shows "\<exists>i. oc_issue oc = Some i \<and> i \<in> set (queue_issues queue) \<and> allowed_work context ir i ''claim'' (issue_type i) True"
proof -
  have n: "nothing_claimable queue \<noteq> oc" using assms(2) by (auto simp: nothing_claimable_def)
  then obtain i answer where i: "choose_next queue context ir clock = Inr (Some i)" "permission_for context i ''claim'' None True ir = Inr answer"
     "oc = authorized ''CLAIM_ONE_READY'' ''DETERMINISTIC_ROADMAP_ORDER'' ''CLAIM_NOT_AUTHORIZED'' i answer"
    using assms unfolding claim_ready_def by (auto elim!: bindE_InrE split: if_split_asm option.split_asm)
  then have "fst answer = ''ALLOW''" "oc_issue oc = Some i" using assms(2) by (auto simp: authorized_def split: if_split_asm)
  then show ?thesis using permission_for_allow [OF i(2)] choose_next_in [OF i(1)] by auto
qed

lemma claim_was_allowed:
  assumes "authorize_next_action queue context ir now timeout clock = Inr oc" "oc_action oc = ''CLAIM_ONE_READY''"
  shows "\<exists>i. oc_issue oc = Some i \<and> i \<in> set (queue_issues queue) \<and> allowed_work context ir i ''claim'' (issue_type i) True"
  using assms unfolding authorize_next_action_def Let_def
  by (auto elim!: bindE_InrE split: if_split_asm list.split_asm dest: continue_existing_claims_nothing)
    (use continue_unfinished_claims_nothing claim_ready_claims in blast)+

section \<open>The directory after the start\<close>

lemma concatE_single:
  assumes "f y = Inr [z]" "\<forall>x \<in> set a \<union> set b. f x = Inr []" "mset xs = mset (a @ y # b)"
  shows "concatE (map f xs) = Inr [z]"
proof -
  have "y \<in> set xs" using assms(3) by (metis in_set_conv_decomp set_mset_mset)
  then obtain c d where xs: "xs = c @ y # d" by (auto simp: in_set_conv_decomp)
  then have "mset (c @ d) = mset (a @ b)" using assms(3) by simp
  then have "set c \<union> set d = set a \<union> set b" by (metis set_append set_mset_mset)
  then have "concatE (map f c) = Inr []" "concatE (map f d) = Inr []" using assms(2) unfolding concatE_Nil_iff by auto
  then show ?thesis by (simp add: xs concatE_append assms(1))
qed

lemma update_split: "\<exists>a b. AList.update k v d = a @ (k, v) # b \<and> set a \<union> set b \<subseteq> set d"
proof (induction d)
  case (Cons x d)
  then obtain a b where ab: "AList.update k v d = a @ (k, v) # b" "set a \<union> set b \<subseteq> set d" by blast
  then have "AList.update k v (x # d) = (if fst x = k then [] @ (k, v) # d else (x # a) @ (k, v) # b)" by (cases x) auto
  with ab(2) show ?case by (cases "fst x = k") (fastforce simp del: append.simps)+
qed auto

lemma fresh_run_valid: "validate_journal sha (fresh_run en q rid policy deadline\<lparr>run_revision := n, run_updated_at := t\<rparr>) = Inr []"
  by (simp add: validate_journal_def delivery_findings_def last_hash_def fresh_run_def PHASES_def DELIVERY_STATE_PHASES_def num_eq_def overflow_bound_def)

lemma started_run:
  assumes "new_run en dir q = Inr (v, dir')"
  shows "list_active en dir = Inr [] \<and> run_phase v = ''RECONCILE'' \<and> run_status v = ''RUNNING'' \<and> run_events v = []
    \<and> run_roadmap_id v = rq_roadmap_id q \<and> run_issue_id v = rq_issue_id q
    \<and> (\<forall>en'. e_sha en' = e_sha en \<longrightarrow> list_active en' dir' = Inr [ActiveRun v])"
proof -
  obtain v0 policy deadline where v0: "list_active en dir = Inr []" "v0 = fresh_run en q (run_id v0) policy deadline"
    "journal_save en dir v0 None = Inr (v, dir')"
    using new_run_shape [OF assms] by blast
  obtain r actual where r: "v = v0\<lparr>run_revision := actual + 1, run_updated_at := iso (e_now en)\<rparr>" "dir' = AList.update r (Journal v) dir"
    using journal_save_shape [OF v0(3)] by blast
  obtain a b where ab: "dir' = a @ (r, Journal v) # b" "set a \<union> set b \<subseteq> set dir" using update_split r(2) by metis
  have v: "validate_journal (e_sha en) v = Inr []" by (simp only: r(1)) (subst v0(2), rule fresh_run_valid)
  have fields: "run_phase v0 = ''RECONCILE''" "run_status v0 = ''RUNNING''" "run_events v0 = []" "run_roadmap_id v0 = rq_roadmap_id q" "run_issue_id v0 = rq_issue_id q"
    by (subst v0(2); simp add: fresh_run_def)+
  have old: "\<forall>x \<in> set dir. active_entry (e_sha en) x = Inr []"
    using v0(1) by (simp add: list_active_def concatE_Nil_iff)
  have act: "active_entry (e_sha en) (r, Journal v) = Inr [ActiveRun v]" using v fields by (simp add: r(1) ACTIVE_STATUSES_def)
  have "list_active en' dir' = Inr [ActiveRun v]" if "e_sha en' = e_sha en" for en'
    unfolding list_active_def that
    by (rule concatE_single [of _ "(r, Journal v)" _ a b]) (use old ab act in auto)
  then show ?thesis using v0(1) fields by (simp add: r(1))
qed

section \<open>Properties\<close>

text \<open>What holds when a run was started: the facts that were checked, the permission, the run and its memory.\<close>

definition next_run_started :: "env \<Rightarrow> int \<Rightarrow> json \<Rightarrow> json \<Rightarrow> json \<Rightarrow> dict \<Rightarrow> next_world \<Rightarrow> next_world \<Rightarrow> dict \<Rightarrow> run \<Rightarrow> dict \<Rightarrow> bool" where
  "next_run_started en now project registry assurance provider w w' i v m = (\<exists>main_sha policy queue n q.
     validate_fresh_inputs en now project registry assurance provider = Inr (main_sha, policy) \<and> active_writers registry = []
     \<and> selector_queue project registry = Inr queue \<and> i \<in> set (queue_issues queue)
     \<and> allowed_work (policy_context policy (dict_of assurance)) (Some policy) i ''claim'' (issue_type i) True
     \<and> claimed_number i = Some n \<and> new_run en (nw_dir w) q = Inr (v, nw_dir w')
     \<and> run_phase v = ''RECONCILE'' \<and> run_events v = [] \<and> run_roadmap_id v = roadmap_of i \<and> run_issue_id v = int_str n
     \<and> nw_memory w' = Some (Inr (JObj m)) \<and> dget m ''run_id'' = JStr (run_id v) \<and> dget m ''status'' = JStr ''ACTIVE''
     \<and> (strip (roadmap_of i) \<noteq> [] \<longrightarrow> memory_load (e_sha en) (nw_memory w') = Inr (Some m)))"

lemma wp_create_next:
  "wp (create_next_run en ru main_sha policy project registry issue n)
     (\<lambda>ans t. \<exists>q v m. new_run en (nw_dir w) q = Inr (v, nw_dir t) \<and> rq_roadmap_id q = roadmap_of issue \<and> rq_issue_id q = int_str n
        \<and> ans = started_answer v issue n main_sha registry
        \<and> nw_memory t = Some (Inr (JObj m)) \<and> dget m ''run_id'' = JStr (run_id v) \<and> dget m ''status'' = JStr ''ACTIVE''
        \<and> (strip (roadmap_of issue) \<noteq> [] \<longrightarrow> memory_load (e_sha en) (nw_memory t) = Inr (Some m)))
     (\<lambda>e t. t = w \<or> (\<exists>q v. new_run en (nw_dir w) q = Inr (v, nw_dir t) \<and> nw_memory t = nw_memory w
        \<and> (e = ValueError ''WORK_MEMORY_TASK_TOO_SHORT'' \<or> bindE (memory_load (e_sha en) (nw_memory w)) current_revision = Inl e))) w"
  (is "wp _ ?Q ?E w")
proof -
  let ?q = "next_request (e_sha en) issue n (provenance main_sha policy project registry issue n)"
  have q: "rq_roadmap_id ?q = roadmap_of issue" "rq_issue_id ?q = int_str n" by (simp_all add: next_request_def)
  have rest: "wp (bindP (liftP (new_work_memory (e_sha en) ru (iso (e_now en)) (roadmap_of issue) (task_of issue) (JStr (run_id v)))) (\<lambda>m.
     bindP (on_memory (memory_save (e_sha en) (iso (e_now en)) (next_memory ru main_sha n m) JNull)) (\<lambda>_.
     retP (started_answer v issue n main_sha registry)))) ?Q ?E t"
    if v: "new_run en (nw_dir w) ?q = Inr (v, nw_dir t)" "nw_memory t = nw_memory w" for v t
  proof (cases "new_work_memory (e_sha en) ru (iso (e_now en)) (roadmap_of issue) (task_of issue) (JStr (run_id v))")
    case (Inl e)
    then show ?thesis using v new_memory_raises [OF Inl] by (auto simp: wp_simps)
  next
    case (Inr m)
    have f: "dget (written_memory (e_sha en) now (next_memory ru main_sha n m) k) ''run_id'' = JStr (run_id v)"
      "dget (written_memory (e_sha en) now (next_memory ru main_sha n m) k) ''status'' = JStr ''ACTIVE''" for now k
      using new_memory_fields [OF Inr] by (simp_all add: written_fields next_memory_fields)
    have raised: "bindE (memory_load (e_sha en) (nw_memory w)) current_revision = Inl e"
      if "bindE (memory_load (e_sha en) (nw_memory w)) (save_over (e_sha en) now val JNull) = Inl e" for e now val
      using that by (auto simp: save_over_def bindE_eq_Inl)
    show ?thesis unfolding wp_bind wp_on_memory Inr wp_lift sum.case v(2)
      by (rule wp_mono [OF wp_memory_save])
        (use v q f raised next_memory_loads [OF Inr] in \<open>auto simp: wp_simps save_over_def bindE_eq_Inr intro!: exI [of _ ?q]\<close>)
  qed
  show ?thesis unfolding create_next_run_def wp_bind
    by (rule wp_mono [OF wp_start]) (use rest [unfolded wp_bind] in auto)
qed

lemma answer_flags [simp]: "dget (no_run status reason rest) ''status'' = JStr status" "dget (refused oc) ''durable_run_created'' = JBool False"
  "dget (no_run status reason []) ''durable_run_created'' = JBool False" "dget (writer_busy ls) ''durable_run_created'' = JBool False"
  "dget (run_active v) ''durable_run_created'' = JBool False" "dget (started_answer v i n sha registry) ''durable_run_created'' = JBool True"
  "dget (started_answer v i n sha registry) ''run_id'' = JStr (run_id v)"
  by (simp_all add: no_run_def refused_def writer_busy_def run_active_def started_answer_def)

lemma next_run_startedI:
  assumes "validate_fresh_inputs en now project registry assurance provider = Inr (main_sha, policy)" "active_writers registry = []"
    "selector_queue project registry = Inr queue" "i \<in> set (queue_issues queue)" "claimed_number i = Some n"
    "allowed_work (policy_context policy (dict_of assurance)) (Some policy) i ''claim'' (issue_type i) True"
    and "new_run en (nw_dir w) q = Inr (v, nw_dir t)" "rq_roadmap_id q = roadmap_of i" "rq_issue_id q = int_str n"
    "nw_memory t = Some (Inr (JObj m))" "dget m ''run_id'' = JStr (run_id v)" "dget m ''status'' = JStr ''ACTIVE''"
    "strip (roadmap_of i) \<noteq> [] \<longrightarrow> memory_load (e_sha en) (nw_memory t) = Inr (Some m)"
  shows "next_run_started en now project registry assurance provider w t i v m"
  unfolding next_run_started_def
  by (rule exI [of _ main_sha], rule exI [of _ policy], rule exI [of _ queue], rule exI [of _ n], rule exI [of _ q])
    (use assms started_run [OF assms(7)] in simp)

lemma wp_idle:
  "wp (bootstrap_idle en ru now project registry assurance provider)
     (\<lambda>ans t. dget ans ''durable_run_created'' = JBool False \<and> t = w \<or> dget ans ''durable_run_created'' = JBool True
        \<and> (\<exists>i v m. dget ans ''run_id'' = JStr (run_id v) \<and> next_run_started en now project registry assurance provider w t i v m))
     (\<lambda>e t. t = w \<or> (\<exists>q v. new_run en (nw_dir w) q = Inr (v, nw_dir t) \<and> nw_memory t = nw_memory w
        \<and> (e = ValueError ''WORK_MEMORY_TASK_TOO_SHORT'' \<or> bindE (memory_load (e_sha en) (nw_memory w)) current_revision = Inl e))) w"
  (is "wp _ ?Q ?E w")
proof (cases "validate_fresh_inputs en now project registry assurance provider")
  case (Inl e)
  then show ?thesis by (simp add: bootstrap_idle_def wp_simps)
next
  case (Inr mp)
  obtain main_sha policy where mp: "mp = (main_sha, policy)" by (cases mp)
  have claim: "wp (create_next_run en ru main_sha policy project registry i n) ?Q ?E w"
    if c: "selector_queue project registry = Inr queue" "i \<in> set (queue_issues queue)" "claimed_number i = Some n" "active_writers registry = []"
      "allowed_work (policy_context policy (dict_of assurance)) (Some policy) i ''claim'' (issue_type i) True" for queue i n
    by (rule wp_mono [OF wp_create_next])
      (use next_run_startedI [OF Inr [unfolded mp] c(4,1,2,3,5)] answer_flags in metis, blast)
  have authorized: "wp (if oc_action oc \<noteq> ''CLAIM_ONE_READY'' then retP (refused oc)
           else (let issue = (case oc_issue oc of Some i \<Rightarrow> i | None \<Rightarrow> []) in
             case claimed_number issue of
               None \<Rightarrow> retP (no_run ''BLOCK'' (JStr ''ORCH_NEXT_ISSUE_NUMBER_INVALID'') [])
             | Some n \<Rightarrow> create_next_run en ru main_sha policy project registry issue n)) ?Q ?E w"
    if a: "selector_queue project registry = Inr queue" "active_writers registry = []"
      "authorize_next_action queue (policy_context policy (dict_of assurance)) (Some policy) now DEFAULT_HEARTBEAT_TIMEOUT_MINUTES (e_now en) = Inr oc"
    for queue oc
  proof (cases "oc_action oc = ''CLAIM_ONE_READY''")
    case True
    obtain i where i: "oc_issue oc = Some i" "i \<in> set (queue_issues queue)"
      "allowed_work (policy_context policy (dict_of assurance)) (Some policy) i ''claim'' (issue_type i) True"
      using claim_was_allowed [OF a(3) True] by blast
    show ?thesis
    proof (cases "claimed_number i")
      case (Some n)
      have "(if oc_action oc \<noteq> ''CLAIM_ONE_READY'' then retP (refused oc)
           else (let issue = (case oc_issue oc of Some i \<Rightarrow> i | None \<Rightarrow> []) in
             case claimed_number issue of
               None \<Rightarrow> retP (no_run ''BLOCK'' (JStr ''ORCH_NEXT_ISSUE_NUMBER_INVALID'') [])
             | Some n \<Rightarrow> create_next_run en ru main_sha policy project registry issue n))
         = create_next_run en ru main_sha policy project registry i n" by (simp add: True i(1) Some)
      then show ?thesis using claim [OF a(1) i(2) Some a(2) i(3)] by simp
    qed (simp add: True i(1) wp_ret)
  qed (simp add: wp_simps)
  obtain Q E where QE: "Q = ?Q" "E = ?E" by blast
  have none: "Q (writer_busy (active_writers registry)) w" "E e w" for e by (simp_all add: QE)
  have "wp (bootstrap_idle en ru now project registry assurance provider) Q E w"
    unfolding bootstrap_idle_def Inr mp sum.case prod.case
    using none authorized [folded QE] by (cases "active_writers registry = []") (simp_all add: wp_bind wp_lift wp_ret split: sum.split split del: if_split)
  then show ?thesis unfolding QE .
qed

text \<open>
  C13.  The start of the next run is all or nothing, except for one named case.  An answer that says
  no run was created left the journals and the memory as they were.  An answer that says one was
  created found no active run, fresh facts and no active writer, the policy allowed the claim of an
  issue of the queue, and left one new journal at its first phase and a work memory that names the
  run and loads again; whoever calls next, however the facts have changed, finds that run and starts
  no other.  An exception left everything as it was, or the new journal without its memory, and then
  the task text was too short or the old memory did not load.
\<close>

theorem next_run_is_started_once:
  assumes "bootstrap_next_run en ru now project registry assurance provider w = (r, w')"
  shows "case r of
    Inr ans \<Rightarrow> dget ans ''durable_run_created'' = JBool False \<and> w' = w
      \<or> dget ans ''durable_run_created'' = JBool True \<and> list_active en (nw_dir w) = Inr []
        \<and> (\<exists>i v m. dget ans ''run_id'' = JStr (run_id v) \<and> next_run_started en now project registry assurance provider w w' i v m
          \<and> (\<forall>en' ru' now' project' registry' assurance' provider'. e_sha en' = e_sha en \<longrightarrow>
               bootstrap_next_run en' ru' now' project' registry' assurance' provider' w' = (Inr (run_active v), w')))
  | Inl e \<Rightarrow> w' = w \<or> nw_memory w' = nw_memory w
      \<and> (\<exists>q v. new_run en (nw_dir w) q = Inr (v, nw_dir w'))
      \<and> (e = ValueError ''WORK_MEMORY_TASK_TOO_SHORT'' \<or> bindE (memory_load (e_sha en) (nw_memory w)) current_revision = Inl e)"
proof (cases "list_active en (nw_dir w)")
  case (Inl e)
  then show ?thesis using assms by (auto simp: bootstrap_next_run_def run_simps)
next
  case (Inr active)
  show ?thesis
  proof (cases "active = []")
    case True
    have idle: "bootstrap_idle en ru now project registry assurance provider w = (r, w')"
      using assms Inr True by (simp add: bootstrap_next_run_def run_simps)
    have next_call: "bootstrap_next_run en' ru' now' project' registry' assurance' provider' w' = (Inr (run_active v), w')"
      if "next_run_started en now project registry assurance provider w w' i v m" "e_sha en' = e_sha en"
      for i v m en' ru' now' project' registry' assurance' provider'
      using that started_run by (fastforce simp: next_run_started_def bootstrap_next_run_def run_simps)
    show ?thesis
    proof (cases r)
      case (Inl e)
      then show ?thesis using wp_Inl [OF wp_idle idle [unfolded Inl]] by auto
    next
      case (Inr ans)
      then show ?thesis using wp_Inr [OF wp_idle idle [unfolded Inr]] next_call True \<open>list_active en (nw_dir w) = Inr active\<close> by (simp, blast)
    qed
  next
    case False
    then show ?thesis using assms Inr
      by (auto simp: bootstrap_next_run_def run_simps neq_Nil_conv split: list.splits active.splits)
  qed
qed

section \<open>Findings\<close>

text \<open>
  The source says the run and its memory are created atomically.  When the task of the chosen issue
  is shorter than five characters, or the memory of the finished run does not load, the exception
  leaves the new run without a work memory.
\<close>

lemma short_task_leaves_run_without_memory:
  assumes "new_run en (nw_dir w) (next_request (e_sha en) issue n (provenance main_sha policy project registry issue n)) = Inr (v, dir')"
    and "length (strip (task_of issue)) < 5"
  shows "create_next_run en ru main_sha policy project registry issue n w
     = (Inl (ValueError ''WORK_MEMORY_TASK_TOO_SHORT''), w\<lparr>nw_dir := dir'\<rparr>)"
  using assms by (simp add: create_next_run_def start_run_def run_simps new_work_memory_def guard_def)

text \<open>Malformed work items raise where every other malformed fact is answered with \<open>BLOCK\<close>.\<close>

lemma malformed_work_items_raise:
  assumes "list_active en (nw_dir w) = Inr []" "validate_fresh_inputs en now project registry assurance provider = Inr mp"
    and "active_writers registry = []" "\<not> dict_list (dget (dict_of project) ''work_items'')"
  shows "bootstrap_next_run en ru now project registry assurance provider w = (Inl (ValueError ''ORCH_NEXT_WORK_ITEMS_INVALID''), w)"
  using assms by (cases mp) (simp add: bootstrap_next_run_def bootstrap_idle_def run_simps selector_queue_def guard_def)

end
