(* ===== verification/OrchNextSample.thy ===== *)
theory OrchNextSample
  imports OrchNext
begin

text \<open>
  A project with one ready issue, fresh facts and an empty registry: the start of the next run
  creates its run, and the property of the start applied to it.
\<close>

definition next_item :: dict where
  "next_item = ready_item ''R-1'' ''P1'' @ [(''number'', JInt 7), (''title'', JStr ''Build the core'')]"

definition next_project :: json where
  "next_project = JObj [(''status'', JStr ''ACTIVE''), (''main'', JObj [(''head'', JStr sample_sha40)]),
     (''snapshot'', JObj [(''source_main_sha'', JStr sample_sha40), (''observed_at'', JStr ''2026-01-01T10:00:00Z''),
        (''valid_until'', JStr ''2026-01-01T12:00:00Z'')]),
     (''health'', JObj [(''adwf'', JStr ''HEALTHY'')]), (''work_items'', JList [JObj next_item])]"

definition next_queue :: json where
  "next_queue = JObj [(''issues'', JList [JObj next_item]), (''leases'', JList [])]"

definition next_context :: json where
  "next_context = policy_context (dict_of sample_policy) sample_snapshot"

lemma sample_env_uuid: "e_uuid (sample_env t) = ''00000000-0000-4000-8000-000000000000''"
  by (simp add: sample_env_def)

lemma next_project_fresh: "fresh_project sample_now next_project = Inr sample_sha40"
proof -
  have t: "parse_time ''2026-01-01T10:00:00Z'' = Inr 63902858400000000" "parse_time ''2026-01-01T12:00:00Z'' = Inr 63902865600000000" by code_simp+
  have ne: "sample_sha40 \<noteq> []" by (simp add: sample_sha40_def)
  show ?thesis using sample_sha40_shape ne
    by (simp add: fresh_project_def next_project_def sub_obj_def py_or_def field_text_def reconciled_def SAFE_HEALTH_def guard_def
        snapshot_times_def snapshot_time_def t sample_now_def)
qed

lemma next_assurance_fresh: "fresh_assurance (sample_env sample_now) sample_sha40 (dict_of sample_policy) (JObj sample_snapshot) sample_provider = Inr ()"
proof -
  have h: "str_of (dget (dict_of sample_policy) ''policy_hash'') = replicate 64 (CHR ''a'')" by (simp add: sample_policy_def)
  have p: "dget sample_provider ''subject_sha'' = JStr sample_sha40" "dget sample_provider ''facts_readback_verified'' = JBool True"
    "dget sample_provider ''repository_visibility'' = JStr ''PUBLIC''" "dget sample_provider ''larger_runner'' \<noteq> JBool True"
    by (simp_all add: sample_provider_def)
  have c: "dget sample_snapshot ''cost'' = JObj [(''status'', JStr ''VERIFIED_ZERO''), (''projected_cost_usd'', JInt 0)]" by (simp add: sample_snapshot_def)
  show ?thesis by (simp add: fresh_assurance_def h sample_snapshot_valid p c guard_def dget_or_def overflow_bound_def)
qed

lemma next_registry: "active_writers (JObj sample_registry) = []" "fresh_registry (sample_env sample_now) sample_sha40 (dict_of sample_policy) (JObj sample_registry) = Inr ()"
proof -
  show a: "active_writers (JObj sample_registry) = []" by (simp add: active_writers_def sample_registry_def)
  have "dget sample_registry ''observed_main_sha'' = JStr sample_sha40" "dget sample_registry ''max_parallel_writers'' = JInt 2"
    "dget (dict_of sample_policy) ''max_parallel_writers'' = JInt 2"
    by (simp_all add: sample_registry_def sample_policy_def)
  then show "fresh_registry (sample_env sample_now) sample_sha40 (dict_of sample_policy) (JObj sample_registry) = Inr ()"
    by (simp add: fresh_registry_def sample_registry_valid guard_def a num_eq_def)
qed

lemma next_inputs: "validate_fresh_inputs (sample_env sample_now) sample_now next_project (JObj sample_registry) (JObj sample_snapshot) sample_provider
    = Inr (sample_sha40, dict_of sample_policy)"
  by (simp add: validate_fresh_inputs_def next_project_fresh load_sample next_assurance_fresh next_registry)

lemma next_selector: "selector_queue next_project (JObj sample_registry) = Inr next_queue"
  by (simp add: selector_queue_def next_registry next_project_def dict_list_def guard_def next_queue_def)

lemma next_preflight: "common_safety_findings next_context True = Inr []"
proof -
  have "\<not> overflow_bound \<le> 0" by (simp add: overflow_bound_def)
  then show ?thesis by (simp add: next_context_def policy_context_def sample_snapshot_def common_safety_findings_def not_safe_def SAFE_HEALTH_def
        cost_findings_def is_number_def flagE_def)
qed

definition next_decision_context :: decision_context where
  "next_decision_context = \<lparr>
     dc_action = JStr ''claim'', dc_autonomy = JStr ''A3'', dc_risk = JStr ''R1'', dc_max_autonomous_risk = JStr ''R2'',
     dc_work_type = JStr ''feature'', dc_health = dget sample_snapshot ''health'', dc_gates = JObj [],
     dc_required_gates = [], dc_exact_sha = JBool True, dc_evidence_fresh = JBool True, dc_human_approved = JBool False,
     dc_destructive = JBool False, dc_trust_change = JBool False, dc_writer_conflict = JBool False,
     dc_provider_allowed = JBool True, dc_provider_potentially_paid = JBool False, dc_projected_cost = JFloat (Fin 0) ''0.0'',
     dc_expected_policy_hash = JNull, dc_provider_facts_fresh = JBool True, dc_owner_acceptance_exact = JBool False\<rparr>"

lemma next_from_dict: "context_from_dict (dput ''work_type'' (JStr ''feature'') (dput ''risk'' (JStr ''R1'')
    (dput ''action'' (JStr ''claim'') (dict_of next_context)))) = Inr next_decision_context"
  by (simp add: next_decision_context_def context_from_dict_def next_context_def policy_context_def keys_beyond_def dkeys_def
      dput_def CONTEXT_FIELDS_def Let_def dhas_def) (simp add: sample_policy_def sample_snapshot_def)

lemma next_item_fields: "dget_or next_item ''risk'' (JStr ''UNKNOWN'') = JStr ''R1''" "issue_type next_item = JStr ''feature''" "next_item \<noteq> []"
  "claimable_shape next_item" "claimed_number next_item = Some 7" "roadmap_of next_item = ''R-1''"
  by (simp_all add: next_item_def ready_item_def issue_type_def claimable_shape_def claimed_number_def roadmap_of_def py_or_def)

lemma next_allowed: "evaluate_permission next_decision_context (Some (dict_of sample_policy)) = Inr (mk_decision ''ALLOW'' [] (Some (replicate 64 (CHR ''a''))))"
  unfolding evaluate_permission_def rules_sample prod.case by code_simp

lemma next_ask: "\<exists>d. ask_policy (dict_of next_context) next_item ''claim'' (JStr ''feature'') (Some (dict_of sample_policy)) = Inr d \<and> d_result d = ''ALLOW''"
  by (simp add: ask_policy_def next_item_fields next_from_dict next_allowed mk_decision_def)

lemma next_permission: "\<exists>codes. permission_for next_context next_item ''claim'' None True (Some (dict_of sample_policy)) = Inr (''ALLOW'', codes)"
  using next_ask by (auto simp: permission_for_def next_preflight next_item_fields)

lemma next_claimable: "claimable [] (dict_of next_context) (Some (dict_of sample_policy)) clock next_item = Inr True"
proof -
  have "conflict_domains (JObj next_item) [] clock = Inr []"
    by (simp add: conflict_domains_def next_item_def ready_item_def hash_listE_def active_leases_def sortedE_def)
  then show ?thesis using next_ask by (auto simp: claimable_def next_item_fields)
qed

lemma next_queue_contents: "queue_contract_errors next_queue = []" "declared_leases next_queue = []" "queue_leases next_queue = []"
  "queue_issues next_queue = [next_item]" "list_ex (\<lambda>i. dget i ''state'' = JStr ''READY'') [next_item]"
  by code_simp+

lemma next_sort: "sort_issues [next_item] = Inr [next_item]"
  by (simp add: sort_issues_def issue_sort_key_def next_item_def ready_item_def rank_ofE_def PRIORITY_RANK_def RISK_RANK_def)

lemma next_choice: "\<exists>oc. authorize_next_action next_queue next_context (Some (dict_of sample_policy)) now timeout clock = Inr oc
   \<and> oc_action oc = ''CLAIM_ONE_READY'' \<and> oc_issue oc = Some next_item"
proof -
  have f: "choose_next next_queue next_context (Some (dict_of sample_policy)) clock = Inr (Some next_item)"
    by (simp add: choose_next_def next_queue_contents next_preflight active_leases_def next_claimable next_sort)
  obtain codes where p: "permission_for next_context next_item ''claim'' None True (Some (dict_of sample_policy)) = Inr (''ALLOW'', codes)"
    using next_permission by blast
  have d: "is_dict next_context" by (simp add: next_context_def policy_context_def)
  have "state_in S next_item = Inr (''READY'' \<in> set S)" for S
    by (simp add: state_in_def next_item_def ready_item_def)
  then show ?thesis
    by (simp add: authorize_next_action_def Let_def next_queue_contents d ACTIVE_ISSUE_STATES_def sort_issues_def claim_ready_def f
        next_preflight p next_item_fields authorized_def)
qed

definition empty_world :: next_world where
  "empty_world = \<lparr>nw_dir = [], nw_memory = None\<rparr>"

text \<open>The start on these facts creates a run.\<close>

lemma sample_bootstrap: "\<exists>ans t. bootstrap_next_run (sample_env sample_now) ru sample_now next_project (JObj sample_registry) (JObj sample_snapshot) sample_provider empty_world
     = (Inr ans, t) \<and> dget ans ''durable_run_created'' = JBool True"
proof -
  obtain oc where oc: "authorize_next_action next_queue next_context (Some (dict_of sample_policy)) sample_now DEFAULT_HEARTBEAT_TIMEOUT_MINUTES sample_now = Inr oc"
    "oc_action oc = ''CLAIM_ONE_READY''" "oc_issue oc = Some next_item" using next_choice by blast
  have id: "check_run_id u ''00000000-0000-4000-8000-000000000000'' = Inr ''00000000-0000-4000-8000-000000000000''"
    "check_run_id ''00000000-0000-4000-8000-000000000000'' [] = Inr ''00000000-0000-4000-8000-000000000000''" for u by code_simp+
  have range: "in_range (sample_now + minutes 1440)" by code_simp
  have task: "strip (task_of next_item) = ''Build the core''" by code_simp
  let ?q = "next_request flat_sha next_item 7 (provenance sample_sha40 (dict_of sample_policy) next_project (JObj sample_registry) next_item 7)"
  have q: "rq_run_id ?q = []" "rq_max_elapsed_minutes ?q = 1440" by (simp_all add: next_request_def)
  obtain v d where new: "new_run (sample_env sample_now) [] ?q = Inr (v, d)"
    by (simp add: new_run_def list_active_def load_sample q sample_env_uuid id range Let_def journal_save_def fresh_run_def Orchestrator.stored_revision_def)
  obtain m where m: "new_work_memory flat_sha ru (iso sample_now) ''R-1'' (task_of next_item) (JStr (run_id v)) = Inr m"
    by (auto simp: new_work_memory_def task guard_def)
  show ?thesis
    by (simp add: bootstrap_next_run_def run_simps list_active_def empty_world_def bootstrap_idle_def next_inputs next_registry next_selector
        oc [unfolded next_context_def] next_item_fields create_next_run_def start_run_def new m on_memory_def memory_save_def memory_load_def
        save_over_def current_revision_def)
qed

lemma next_run_is_started_once_witness:
  "\<exists>t v m. run_phase v = ''RECONCILE'' \<and> run_roadmap_id v = ''R-1'' \<and> dget m ''run_id'' = JStr (run_id v)
     \<and> memory_load flat_sha (nw_memory t) = Inr (Some m)
     \<and> bootstrap_next_run (sample_env sample_start) id sample_now next_project (JObj sample_registry) (JObj sample_snapshot) sample_provider t = (Inr (run_active v), t)"
proof -
  obtain ans t where b: "bootstrap_next_run (sample_env sample_now) id sample_now next_project (JObj sample_registry) (JObj sample_snapshot) sample_provider empty_world
     = (Inr ans, t)" "dget ans ''durable_run_created'' = JBool True" using sample_bootstrap by blast
  obtain i v m where i: "next_run_started (sample_env sample_now) sample_now next_project (JObj sample_registry) (JObj sample_snapshot) sample_provider empty_world t i v m"
    and n: "bootstrap_next_run (sample_env sample_start) id sample_now next_project (JObj sample_registry) (JObj sample_snapshot) sample_provider t = (Inr (run_active v), t)"
    using next_run_is_started_once [OF b(1)] b(2) by auto
  then have "i = next_item" by (auto simp: next_run_started_def next_selector next_queue_contents)
  moreover have "strip ''R-1'' \<noteq> []" by code_simp
  ultimately show ?thesis using i n next_item_fields(6) by (fastforce simp: next_run_started_def)
qed

end
