(* ===== verification/Supervisor.thy ===== *)
theory Supervisor
  imports Delivery TrustedContext WorkContracts WorkMemory
begin

text \<open>
  The runtime supervisor (\<open>.adwf/lib/runtime_supervisor.py\<close>) and the projection of the run into the
  project state (\<open>.adwf/lib/durable_projection.py\<close>): the loop that asks an executor for the result of
  the current phase and advances the run under a context compiled from trusted files.  The world
  is the directory of journals and the other files.  Executors (agents, provider calls, commands)
  and the reconciliation process are parameters: they may do anything to the files and to what lies
  outside, \<open>'x\<close>, but only the orchestrator writes journals.  \<open>en i\<close> is the environment of step \<open>i\<close>.
\<close>

section \<open>The files\<close>

record 'x files =
  sf_memory :: memory_file
  sf_requests :: "string \<Rightarrow> json res option"
  sf_results :: "string \<Rightarrow> json res option"
  sf_assurance :: "json res option"
  sf_provider :: "json res option"
  sf_project :: "json res option"
  sf_outside :: 'x

record 'x sup_world =
  sw_dir :: journal_dir
  sw_files :: "'x files"

text \<open>A program over the files, over the memory.\<close>

definition on_files :: "('x files, 'a) prog \<Rightarrow> ('x sup_world, 'a) prog" where
  "on_files m w = (case m (sw_files w) of (r, f) \<Rightarrow> (r, w\<lparr>sw_files := f\<rparr>))"

definition on_memory_file :: "(memory_file, 'a) prog \<Rightarrow> ('x files, 'a) prog" where
  "on_memory_file m f = (case m (sf_memory f) of (r, t) \<Rightarrow> (r, f\<lparr>sf_memory := t\<rparr>))"

text \<open>Reading a file that must be there; the result of reading and parsing it is the content.\<close>

definition read_file :: "json res option \<Rightarrow> json res" where
  "read_file file = (case file of None \<Rightarrow> Inl OSError | Some r \<Rightarrow> r)"

section \<open>Requests and results\<close>

definition envelope_key :: "(string \<Rightarrow> string) \<Rightarrow> run \<Rightarrow> string" where
  "envelope_key sha s = sha (run_id s @ '':'' @ run_phase s @ '':'' @ int_str (run_revision s))"

text \<open>What the package compiler reads of a run.\<close>

definition run_facts :: "run \<Rightarrow> dict" where
  "run_facts s = [(''run_id'', JStr (run_id s)), (''roadmap_id'', JStr (run_roadmap_id s)), (''issue_id'', JStr (run_issue_id s)),
     (''risk'', JStr (run_risk s)), (''work_type'', JStr (run_work_type s)), (''phase'', JStr (run_phase s)),
     (''revision'', JInt (run_revision s)), (''subject_sha'', run_subject_sha s)]"

definition phase_action :: "run \<Rightarrow> string res" where
  "phase_action s = (case map_of ACTION_BY_PHASE (run_phase s) of None \<Rightarrow> Inl (KeyError (run_phase s)) | Some a \<Rightarrow> Inr a)"

definition request_payload :: "string \<Rightarrow> run \<Rightarrow> string \<Rightarrow> string \<Rightarrow> dict" where
  "request_payload key s capability now = [(''schema_version'', JInt 3), (''idempotency_key'', JStr key), (''run_id'', JStr (run_id s)),
     (''revision'', JInt (run_revision s)), (''brief_id'', JStr (run_roadmap_id s)), (''phase'', JStr (run_phase s)),
     (''capability'', JStr capability), (''subject_sha'', run_subject_sha s), (''delivery_sha'', run_delivery_sha s),
     (''work_branch'', opt_json (run_work_branch s)), (''preview_digest'', run_preview_digest s), (''risk'', JStr (run_risk s)),
     (''work_type'', JStr (run_work_type s)), (''monetary_budget_usd'', JInt 0), (''created_at'', JStr now)]"

definition plain_options :: package_options where
  "plain_options = \<lparr>po_allowed = None, po_forbidden = None, po_evidence = None, po_created_at = []\<rparr>"

definition package_entries :: "env \<Rightarrow> (string \<Rightarrow> string) \<Rightarrow> run \<Rightarrow> memory_file \<Rightarrow> dict res" where
  "package_entries en ru s memory = (if run_phase s \<notin> set CREATIVE_PHASES then Inr []
     else bindE (memory_load (e_sha en) memory) (\<lambda>m.
       bindE (compile_work_package (e_sha en) ru (iso (e_now en)) (run_facts s) m plain_options) (\<lambda>package.
       Inr [(''work_package'', JObj package), (''work_package_digest'', dget package ''package_digest'')])))"

definition request_of :: "env \<Rightarrow> (string \<Rightarrow> string) \<Rightarrow> run \<Rightarrow> memory_file \<Rightarrow> json res" where
  "request_of en ru s memory = bindE (phase_action s) (\<lambda>a. bindE (package_entries en ru s memory) (\<lambda>entries.
     Inr (JObj (request_payload (envelope_key (e_sha en) s) s a (iso (e_now en)) @ entries))))"

definition ensure_request :: "env \<Rightarrow> (string \<Rightarrow> string) \<Rightarrow> run \<Rightarrow> ('x files, string) prog" where
  "ensure_request en ru s = (let key = envelope_key (e_sha en) s in
     bindP (getP (\<lambda>f. sf_requests f key)) (\<lambda>present.
     if present \<noteq> None then retP key
     else bindP (getP (\<lambda>f. request_of en ru s (sf_memory f))) (\<lambda>r. bindP (liftP r) (\<lambda>payload.
       bindP (putP (\<lambda>f. f\<lparr>sf_requests := (sf_requests f)(key \<mapsto> Inr payload)\<rparr>)) (\<lambda>_. retP key)))))"

definition write_result :: "string \<Rightarrow> dict \<Rightarrow> ('x files, unit) prog" where
  "write_result key d = (if dget d ''idempotency_key'' \<noteq> JStr key then raiseP (ValueError ''SUPERVISOR_RESULT_IDEMPOTENCY_MISMATCH'')
     else bindP (getP (\<lambda>f. sf_results f key)) (\<lambda>present. case present of
       Some r \<Rightarrow> bindP (liftP r) (\<lambda>existing.
         if \<not> py_eq existing (JObj d) then raiseP (ValueError ''SUPERVISOR_RESULT_IDEMPOTENCY_CONFLICT'') else retP ())
     | None \<Rightarrow> putP (\<lambda>f. f\<lparr>sf_results := (sf_results f)(key \<mapsto> Inr (JObj d))\<rparr>)))"

definition read_result :: "string \<Rightarrow> 'x files \<Rightarrow> dict option res" where
  "read_result key f = (case sf_results f key of None \<Rightarrow> Inr None
     | Some r \<Rightarrow> bindE r (\<lambda>v. case v of JObj d \<Rightarrow> Inr (Some d) | _ \<Rightarrow> Inl (ValueError ''SUPERVISOR_RESULT_INVALID'')))"

section \<open>Trusted inputs\<close>

definition trusted_inputs :: "'x files \<Rightarrow> (json \<times> json) res" where
  "trusted_inputs f = (case (sf_assurance f, sf_provider f) of
     (Some a, Some p) \<Rightarrow> bindE a (\<lambda>av. bindE p (\<lambda>pv. Inr (av, pv)))
   | _ \<Rightarrow> Inl (ValueError ''TRUSTED_RUNTIME_INPUTS_NOT_READY''))"

definition inputs_current :: "string \<Rightarrow> json \<times> json \<Rightarrow> bool res" where
  "inputs_current subject ap = bindE (getE (fst ap) ''subject_sha'') (\<lambda>a. if a \<noteq> JStr subject then Inr False
     else bindE (getE (snd ap) ''subject_sha'') (\<lambda>p. Inr (p = JStr subject)))"

text \<open>
  The reconciliation process: \<open>None\<close> when no repository or token is known, else its exit code.
\<close>

type_synonym 'x reconciler = "string \<Rightarrow> ('x files, int option) prog"

definition refresh_trusted_inputs :: "'x reconciler \<Rightarrow> string \<Rightarrow> bool \<Rightarrow> ('x files, unit) prog" where
  "refresh_trusted_inputs reconcile subject force = (if length subject \<noteq> 40 then retP () else
     bindP (if force then retP False else bindP (getP (\<lambda>f. bindE (trusted_inputs f) (inputs_current subject))) (\<lambda>r.
       case r of Inr b \<Rightarrow> retP b | Inl e \<Rightarrow> if is_ValueError e then retP False else raiseP e)) (\<lambda>current.
     if current then retP () else bindP (reconcile subject) (\<lambda>code. case code of
       None \<Rightarrow> retP ()
     | Some c \<Rightarrow> if c \<noteq> 0 \<and> c \<noteq> 1 then raiseP (ValueError ''TRUSTED_RECONCILIATION_FAILED'') else retP ())))"

section \<open>The projection\<close>

text \<open>\<open>state.setdefault(k, {})[k'] = v\<close>: an existing value must be a dictionary.\<close>

definition set_in :: "string \<Rightarrow> string \<Rightarrow> json \<Rightarrow> dict \<Rightarrow> dict res" where
  "set_in k k' v d = (case dget_or d k (JObj []) of JObj x \<Rightarrow> Inr (dput k (JObj (dput k' v x)) d) | _ \<Rightarrow> Inl TypeError)"

definition projected_run :: "run \<Rightarrow> dict \<Rightarrow> dict" where
  "projected_run v d = dput ''active'' (JObj [(''roadmap_id'', JStr (run_roadmap_id v)), (''issue_id'', JStr (run_issue_id v)),
       (''phase'', JStr (run_phase v)), (''run_id'', JStr (run_id v))])
     (dput ''durable_projection'' (JObj [(''authoritative_source'', JStr ''DURABLE_ORCHESTRATOR''), (''run_id'', JStr (run_id v)),
       (''run_revision'', JInt (run_revision v)), (''brief_id'', JStr (run_roadmap_id v)), (''phase'', JStr (run_phase v)),
       (''status'', JStr (run_status v)), (''subject_sha'', run_subject_sha v), (''preview_digest'', run_preview_digest v),
       (''event_head'', opt_json (run_event_head v))]) d)"

text \<open>The brief of the memory, else the one already projected.\<close>

definition projected_brief :: "dict \<Rightarrow> dict \<Rightarrow> json res" where
  "projected_brief m d = (let brief = dget m ''product_brief'' in
     if truthy brief then Inr brief else getE (dget_or d ''owner_experience'' (JObj [])) ''product_brief'')"

definition projected_state :: "run \<Rightarrow> dict option \<Rightarrow> dict \<Rightarrow> dict res" where
  "projected_state v memory d0 = (let d1 = projected_run v d0 in
     bindE (set_in ''orchestration'' ''authority'' (JStr ''DURABLE_ORCHESTRATOR'') d1) (\<lambda>d2.
     bindE (set_in ''orchestration'' ''phase'' (JStr (run_phase v)) d2) (\<lambda>d3.
     bindE (set_in ''orchestration'' ''status'' (JStr (run_status v)) d3) (\<lambda>d4.
     bindE (set_in ''orchestration'' ''revision'' (JInt (run_revision v)) d4) (\<lambda>d5.
     case memory of None \<Rightarrow> Inr d5
     | Some m \<Rightarrow> bindE (projected_brief m d5) (\<lambda>brief. bindE (set_in ''owner_experience'' ''product_brief'' brief d5) (\<lambda>d6.
         set_in ''owner_experience'' ''next_action_ru'' (dget m ''next_action_ru'') d6)))))))"

definition sync_project_state :: "(string \<Rightarrow> string) \<Rightarrow> run \<Rightarrow> ('x files, unit) prog" where
  "sync_project_state sha v = bindP (getP (\<lambda>f.
       bindE (case sf_project f of None \<Rightarrow> Inr (JObj []) | Some r \<Rightarrow> r) (\<lambda>state.
       bindE (memory_load sha (sf_memory f)) (\<lambda>memory.
       case state of JObj d \<Rightarrow> projected_state v memory d | _ \<Rightarrow> Inl TypeError)))) (\<lambda>r.
     bindP (liftP r) (\<lambda>d. putP (\<lambda>f. f\<lparr>sf_project := Some (Inr (JObj d))\<rparr>)))"

section \<open>One advance\<close>

definition step_subject :: "run \<Rightarrow> dict \<Rightarrow> string" where
  "step_subject s result = py_str (py_or (py_or (dget result ''subject_sha'') (run_subject_sha s)) (JStr []))"

definition trusted_request :: "run \<Rightarrow> dict \<Rightarrow> json \<Rightarrow> dict" where
  "trusted_request s result key = [(''request_id'', key), (''subject_sha'', JStr (step_subject s result)),
     (''preview_digest'', py_or (dget result ''preview_digest'') (run_preview_digest s))]"

text \<open>The readback is read with \<open>.get\<close> only after the checks before it.\<close>

definition compile_from_files :: "env \<Rightarrow> string \<Rightarrow> run \<Rightarrow> dict \<Rightarrow> json \<Rightarrow> json \<Rightarrow> json \<Rightarrow> decision_context res" where
  "compile_from_files en action s result key assurance provider =
     (let compile = compile_trusted_context (e_sha en) (e_policy en) (e_now en) action (run_risk s) (operational_work_type s)
        (trusted_request s result key) assurance in
      case provider of JObj p \<Rightarrow> compile p
      | _ \<Rightarrow> (case compile [] of Inl e \<Rightarrow> Inl (if e = ValueError ''PROVIDER_READBACK_SHA_MISMATCH'' then AttributeError else e)
           | Inr c \<Rightarrow> Inl AttributeError))"

definition memory_status :: "run \<Rightarrow> string" where
  "memory_status v = (if run_status v = ''RECOVERY'' then ''RECOVERY'' else if run_status v = ''COMPLETE'' then ''DONE''
     else if run_phase v = ''OWNER_ACCEPTANCE'' then ''WAITING_OWNER'' else if run_phase v = ''CI'' then ''WAITING_CI'' else ''ACTIVE'')"

definition advanced_memory :: "(string \<Rightarrow> string) \<Rightarrow> run \<Rightarrow> dict \<Rightarrow> dict" where
  "advanced_memory ru v m = dput ''next_action_ru'' (JStr (if run_status v = ''COMPLETE'' then ru ''finished'' else ru ''next_phase'' @ run_phase v))
     (dput ''status'' (JStr (memory_status v)) m)"

definition update_memory :: "env \<Rightarrow> (string \<Rightarrow> string) \<Rightarrow> run \<Rightarrow> run \<Rightarrow> (memory_file, unit) prog" where
  "update_memory en ru s v = bindP (getP (memory_load (e_sha en))) (\<lambda>r. bindP (liftP r) (\<lambda>memory. case memory of
     None \<Rightarrow> retP ()
   | Some m \<Rightarrow> if dget m ''run_id'' \<noteq> JStr (run_id s) then retP ()
       else bindP (liftP (ditemE m ''revision'')) (\<lambda>revision.
         bindP (memory_save (e_sha en) (iso (e_now en)) (advanced_memory ru v m) revision) (\<lambda>_. retP ()))))"

definition advance_journal :: "env \<Rightarrow> run \<Rightarrow> dict \<Rightarrow> decision_context \<Rightarrow> ('x sup_world, run) prog" where
  "advance_journal en s result c = bindP (getP (\<lambda>w. advance_run_trusted en (sw_dir w) (run_id s) result c)) (\<lambda>r.
     bindP (liftP r) (\<lambda>vd. bindP (putP (\<lambda>w. w\<lparr>sw_dir := snd vd\<rparr>)) (\<lambda>_. retP (fst vd))))"

definition supervisor_advance :: "env \<Rightarrow> (string \<Rightarrow> string) \<Rightarrow> 'x reconciler \<Rightarrow> run \<Rightarrow> dict \<Rightarrow> ('x sup_world, run) prog" where
  "supervisor_advance en ru reconcile s result =
     bindP (on_files (refresh_trusted_inputs reconcile (step_subject s result) (run_phase s \<in> {''OWNER_ACCEPTANCE'', ''MERGE''}))) (\<lambda>_.
     bindP (getP (\<lambda>w. trusted_inputs (sw_files w))) (\<lambda>r. bindP (liftP r) (\<lambda>inputs.
     bindP (liftP (ditemE result ''idempotency_key'')) (\<lambda>key. bindP (liftP (phase_action s)) (\<lambda>action.
     bindP (liftP (compile_from_files en action s result key (fst inputs) (snd inputs))) (\<lambda>c.
     bindP (advance_journal en s result c) (\<lambda>v.
     bindP (on_files (sync_project_state (e_sha en) v)) (\<lambda>_.
     bindP (on_files (on_memory_file (update_memory en ru s v))) (\<lambda>_. retP v)))))))))"

section \<open>The loop\<close>

record executor_wait =
  ew_status :: string
  ew_reason :: string
  ew_capability :: string
  ew_details :: dict

definition wait_dict :: "executor_wait \<Rightarrow> dict" where
  "wait_dict e = dupdate [(''status'', JStr (ew_status e)), (''reason'', JStr (ew_reason e)), (''capability'', JStr (ew_capability e))] (ew_details e)"

datatype produced = Waiting executor_wait | Produced dict

type_synonym 'x executors = "run \<Rightarrow> string \<Rightarrow> json \<Rightarrow> ('x files, produced) prog"

record transition =
  tr_from :: string
  tr_outcome :: json
  tr_to :: string
  tr_revision :: int

datatype tick_answer = TickRun string run "transition list" | TickWait dict string string "transition list"

definition STOP_STATUSES :: "string list" where
  "STOP_STATUSES = [''COMPLETE'', ''BLOCKED'', ''HUMAN_REQUIRED'', ''RECOVERY'', ''RETRY_WAIT'']"

text \<open>The result of the current phase: the one on file, else what the executor produces.\<close>

definition phase_result :: "env \<Rightarrow> (string \<Rightarrow> string) \<Rightarrow> 'x executors \<Rightarrow> run \<Rightarrow> ('x files, produced) prog" where
  "phase_result en ru execute s = bindP (ensure_request en ru s) (\<lambda>key.
     bindP (getP (read_result key)) (\<lambda>r. bindP (liftP r) (\<lambda>found. case found of
       Some d \<Rightarrow> retP (Produced d)
     | None \<Rightarrow> bindP (getP (\<lambda>f. read_file (sf_requests f key))) (\<lambda>r. bindP (liftP r) (\<lambda>envelope.
         bindP (execute s key envelope) (\<lambda>made. case made of
           Waiting e \<Rightarrow> retP (Waiting e)
         | Produced d \<Rightarrow> bindP (write_result key d) (\<lambda>_. retP (Produced d))))))))"

definition supervised_step :: "env \<Rightarrow> (string \<Rightarrow> string) \<Rightarrow> 'x executors \<Rightarrow> 'x reconciler \<Rightarrow> run \<Rightarrow> ('x sup_world, produced \<times> run) prog" where
  "supervised_step en ru execute reconcile s = bindP (on_files (phase_result en ru execute s)) (\<lambda>made. case made of
     Waiting e \<Rightarrow> retP (made, s)
   | Produced d \<Rightarrow> if dget d ''idempotency_key'' \<noteq> JStr (envelope_key (e_sha en) s) then raiseP (ValueError ''SUPERVISOR_RESULT_IDEMPOTENCY_MISMATCH'')
       else bindP (supervisor_advance en ru reconcile s d) (\<lambda>v. retP (made, v)))"

definition load_run :: "env \<Rightarrow> string \<Rightarrow> ('x sup_world, run) prog" where
  "load_run en rid = bindP (getP (\<lambda>w. journal_load en (sw_dir w) rid)) (\<lambda>r. liftP r)"

primrec tick_loop :: "(nat \<Rightarrow> env) \<Rightarrow> (string \<Rightarrow> string) \<Rightarrow> 'x executors \<Rightarrow> 'x reconciler \<Rightarrow> string \<Rightarrow> nat \<Rightarrow> nat \<Rightarrow> transition list
    \<Rightarrow> ('x sup_world, tick_answer) prog" where
  "tick_loop en ru execute reconcile rid 0 i past = bindP (load_run (en i) rid) (\<lambda>s. retP (TickRun ''STEP_BUDGET_REACHED'' s past))"
| "tick_loop en ru execute reconcile rid (Suc n) i past = bindP (load_run (en i) rid) (\<lambda>s.
     if run_status s \<in> {''COMPLETE'', ''BLOCKED''} then retP (TickRun (run_status s) s past)
     else bindP (supervised_step (en i) ru execute reconcile s) (\<lambda>mv. case mv of
       (Waiting e, v) \<Rightarrow> retP (TickWait (wait_dict e) (run_phase s) (envelope_key (e_sha (en i)) s) past)
     | (Produced d, v) \<Rightarrow> (let t = past @ [\<lparr>tr_from = run_phase s, tr_outcome = dget d ''outcome'', tr_to = run_phase v, tr_revision = run_revision v\<rparr>] in
         if run_status v \<in> set STOP_STATUSES then retP (TickRun (run_status v) v t)
         else tick_loop en ru execute reconcile rid n (Suc i) t)))"

definition tick_budget :: "int \<Rightarrow> nat" where
  "tick_budget max_steps = nat (max 1 (min max_steps 32))"

definition tick :: "(nat \<Rightarrow> env) \<Rightarrow> (string \<Rightarrow> string) \<Rightarrow> 'x executors \<Rightarrow> 'x reconciler \<Rightarrow> string \<Rightarrow> int \<Rightarrow> ('x sup_world, tick_answer) prog" where
  "tick en ru execute reconcile rid max_steps = tick_loop en ru execute reconcile rid (tick_budget max_steps) 0 []"

record supervisor_status =
  ss_phase :: string
  ss_status :: string
  ss_revision :: int
  ss_waiting_for :: "string option"
  ss_next_action :: json

definition supervisor_status_of :: "env \<Rightarrow> (string \<Rightarrow> string) \<Rightarrow> string \<Rightarrow> ('x sup_world, supervisor_status) prog" where
  "supervisor_status_of en ru rid = bindP (load_run en rid) (\<lambda>s. bindP (on_files (ensure_request en ru s)) (\<lambda>key.
     bindP (getP (\<lambda>w. read_result key (sw_files w))) (\<lambda>r. bindP (liftP r) (\<lambda>result.
     bindP (getP (\<lambda>w. memory_load (e_sha en) (sf_memory (sw_files w)))) (\<lambda>r. bindP (liftP r) (\<lambda>memory.
     bindP (liftP (if result \<noteq> None \<and> result \<noteq> Some [] then Inr None else bindE (phase_action s) (\<lambda>a. Inr (Some a)))) (\<lambda>waiting.
     retP \<lparr>ss_phase = run_phase s, ss_status = run_status s, ss_revision = run_revision s, ss_waiting_for = waiting,
       ss_next_action = py_or (dget (case memory of None \<Rightarrow> [] | Some m \<Rightarrow> m) ''next_action_ru'') (JStr (ru ''run_phase'' @ run_phase s))\<rparr>)))))))"

section \<open>What a tick does to the journals\<close>

text \<open>
  One supervised advance of a run: its request and context were compiled, for the action of the
  current phase, from a snapshot and a readback, and the orchestrator advanced the run under that context.
\<close>

definition trusted_advance :: "env \<Rightarrow> run \<Rightarrow> dict \<Rightarrow> decision_context \<Rightarrow> json \<Rightarrow> dict \<Rightarrow> journal_dir \<Rightarrow> run \<Rightarrow> journal_dir \<Rightarrow> bool" where
  "trusted_advance en s result c snapshot p dir v dir' = (\<exists>action. phase_action s = Inr action
     \<and> compile_trusted_context (e_sha en) (e_policy en) (e_now en) action (run_risk s) (operational_work_type s)
         (trusted_request s result (JStr (envelope_key (e_sha en) s))) snapshot p = Inr c
     \<and> advance_run_trusted en dir (run_id s) result c = Inr (v, dir'))"

definition supervised_advance :: "env \<Rightarrow> string \<Rightarrow> journal_dir \<Rightarrow> transition \<Rightarrow> journal_dir \<Rightarrow> bool" where
  "supervised_advance en rid dir t dir' = (\<exists>s result c snapshot p v. journal_load en dir rid = Inr s
     \<and> trusted_advance en s result c snapshot p dir v dir'
     \<and> t = \<lparr>tr_from = run_phase s, tr_outcome = dget result ''outcome'', tr_to = run_phase v, tr_revision = run_revision v\<rparr>)"

inductive supervised_run :: "(nat \<Rightarrow> env) \<Rightarrow> string \<Rightarrow> nat \<Rightarrow> journal_dir \<Rightarrow> transition list \<Rightarrow> journal_dir \<Rightarrow> bool" for en rid where
  stay: "supervised_run en rid i dir [] dir"
| step: "\<lbrakk>supervised_advance (en i) rid dir t dir'; supervised_run en rid (Suc i) dir' ts dir''\<rbrakk> \<Longrightarrow> supervised_run en rid i dir (t # ts) dir''"

inductive_simps supervised_run_Nil [simp]: "supervised_run en rid i dir [] dir'"
inductive_simps supervised_run_Cons: "supervised_run en rid i dir (t # ts) dir'"

lemma wp_on_files [wp_simps]: "wp (on_files m) Q E w \<longleftrightarrow> wp m (\<lambda>x f. Q x (w\<lparr>sw_files := f\<rparr>)) (\<lambda>e f. E e (w\<lparr>sw_files := f\<rparr>)) (sw_files w)"
  by (auto simp: wp_def on_files_def split: prod.split sum.split)

text \<open>A program over the files leaves the journals alone.\<close>

lemma wp_files_only: "(\<And>x t. sw_dir t = sw_dir w \<Longrightarrow> Q x t) \<Longrightarrow> (\<And>e t. sw_dir t = sw_dir w \<Longrightarrow> E e t) \<Longrightarrow> wp (on_files m) Q E w"
  unfolding wp_on_files by (simp add: wp_def split: prod.split sum.split)

lemma compile_from_files_Inr: "compile_from_files en action s result key assurance provider = Inr c \<Longrightarrow>
   \<exists>p. provider = JObj p \<and> compile_trusted_context (e_sha en) (e_policy en) (e_now en) action (run_risk s) (operational_work_type s)
     (trusted_request s result key) assurance p = Inr c"
  by (auto simp: compile_from_files_def Let_def split: json.splits sum.splits)

lemma wp_advance_journal: "wp (advance_journal en s result c)
   (\<lambda>v t. advance_run_trusted en (sw_dir w) (run_id s) result c = Inr (v, sw_dir t)) (\<lambda>_ t. t = w) w"
  unfolding advance_journal_def by (auto simp: wp_simps split: sum.split)

lemma wp_supervisor_advance:
  assumes "dget result ''idempotency_key'' = JStr (envelope_key (e_sha en) s)"
  shows "wp (supervisor_advance en ru reconcile s result)
     (\<lambda>v t. \<exists>c snapshot p. trusted_advance en s result c snapshot p (sw_dir w) v (sw_dir t))
     (\<lambda>_ t. sw_dir t = sw_dir w \<or> (\<exists>c snapshot p v. trusted_advance en s result c snapshot p (sw_dir w) v (sw_dir t))) w"
  (is "wp _ ?Q ?E w")
proof -
  have key: "ditemE result ''idempotency_key'' = Inr (JStr (envelope_key (e_sha en) s))"
    using assms by (auto simp: ditemE_def dget_def split: option.splits)
  have rest: "wp (bindP (on_files (sync_project_state (e_sha en) v)) (\<lambda>_.
     bindP (on_files (on_memory_file (update_memory en ru s v))) (\<lambda>_. retP v))) ?Q ?E t"
    if "trusted_advance en s result c snapshot p (sw_dir w) v (sw_dir t)" for v t c snapshot p
    unfolding wp_bind by (intro wp_files_only) (use that in \<open>auto simp: wp_simps\<close>)
  have journal: "wp (bindP (advance_journal en s result c) (\<lambda>v. bindP (on_files (sync_project_state (e_sha en) v)) (\<lambda>_.
     bindP (on_files (on_memory_file (update_memory en ru s v))) (\<lambda>_. retP v)))) ?Q ?E t"
    if c: "phase_action s = Inr action" "compile_from_files en action s result (JStr (envelope_key (e_sha en) s)) a p = Inr c"
      "sw_dir t = sw_dir w" for action c a p t
  proof -
    obtain pd where pd: "compile_trusted_context (e_sha en) (e_policy en) (e_now en) action (run_risk s) (operational_work_type s)
       (trusted_request s result (JStr (envelope_key (e_sha en) s))) a pd = Inr c" using compile_from_files_Inr [OF c(2)] by blast
    show ?thesis unfolding wp_bind [of "advance_journal en s result c"]
      by (rule wp_mono [OF wp_advance_journal])
        (use rest c pd in \<open>auto simp: trusted_advance_def\<close>)
  qed
  show ?thesis unfolding supervisor_advance_def wp_bind [of "on_files (refresh_trusted_inputs _ _ _)"]
    by (rule wp_files_only)
      (use journal in \<open>auto simp: wp_bind [of "getP _"] wp_bind [of "liftP _"] wp_get wp_lift key split: sum.split\<close>)
qed

lemma wp_supervised_step:
  "wp (supervised_step en ru execute reconcile s)
     (\<lambda>mv t. case mv of (Waiting e, v) \<Rightarrow> sw_dir t = sw_dir w
       | (Produced d, v) \<Rightarrow> \<exists>c snapshot p. trusted_advance en s d c snapshot p (sw_dir w) v (sw_dir t))
     (\<lambda>_ t. sw_dir t = sw_dir w \<or> (\<exists>d c snapshot p v. trusted_advance en s d c snapshot p (sw_dir w) v (sw_dir t))) w"
  (is "wp _ ?Q ?E w")
proof -
  have "wp (case made of Waiting e \<Rightarrow> retP (made, s)
   | Produced d \<Rightarrow> if dget d ''idempotency_key'' \<noteq> JStr (envelope_key (e_sha en) s) then raiseP (ValueError ''SUPERVISOR_RESULT_IDEMPOTENCY_MISMATCH'')
       else bindP (supervisor_advance en ru reconcile s d) (\<lambda>v. retP (made, v))) ?Q ?E t"
    if "sw_dir t = sw_dir w" for made t
  proof (cases made)
    case (Produced d)
    show ?thesis
    proof (cases "dget d ''idempotency_key'' = JStr (envelope_key (e_sha en) s)")
      case True
      have "wp (bindP (supervisor_advance en ru reconcile s d) (\<lambda>v. retP (made, v))) ?Q ?E t"
        unfolding wp_bind wp_ret Produced prod.case produced.case
        by (rule wp_mono [OF wp_supervisor_advance [OF True]]) (use that in auto)
      then show ?thesis using True by (simp add: Produced)
    qed (use that in \<open>simp add: Produced wp_raise\<close>)
  qed (use that in \<open>simp add: wp_ret\<close>)
  then show ?thesis unfolding supervised_step_def wp_bind by (intro wp_files_only) auto
qed

text \<open>What the answer of a tick records, given the transitions before it.\<close>

fun records :: "transition list \<Rightarrow> tick_answer \<Rightarrow> bool" where
  "records ts (TickRun status v ts') = (ts' = ts \<and> (status = ''STEP_BUDGET_REACHED'' \<or> status = run_status v))"
| "records ts (TickWait e phase key ts') = (ts' = ts)"

lemma wp_load_run: "wp (load_run en rid) (\<lambda>s t. t = w \<and> journal_load en (sw_dir w) rid = Inr s) (\<lambda>_ t. t = w) w"
  unfolding load_run_def by (auto simp: wp_simps split: sum.split)

definition ticked :: "(nat \<Rightarrow> env) \<Rightarrow> string \<Rightarrow> nat \<Rightarrow> nat \<Rightarrow> transition list \<Rightarrow> journal_dir \<Rightarrow> tick_answer \<Rightarrow> journal_dir \<Rightarrow> bool" where
  "ticked en rid i n before dir ans dir' = (\<exists>ts. supervised_run en rid i dir ts dir' \<and> length ts \<le> n \<and> records (before @ ts) ans
     \<and> (\<forall>v ts'. ans = TickRun ''STEP_BUDGET_REACHED'' v ts' \<longrightarrow> length ts = n \<or> run_status v = ''STEP_BUDGET_REACHED''))"

definition ticking :: "(nat \<Rightarrow> env) \<Rightarrow> string \<Rightarrow> nat \<Rightarrow> nat \<Rightarrow> journal_dir \<Rightarrow> journal_dir \<Rightarrow> bool" where
  "ticking en rid i n dir dir' = (\<exists>ts. supervised_run en rid i dir ts dir' \<and> length ts \<le> n)"

lemma supervised_one: "supervised_advance (en i) rid dir t dir' \<Longrightarrow> supervised_run en rid i dir [t] dir'"
  by (simp add: supervised_run_Cons)

lemma supervised_advanceI: "journal_load en dir rid = Inr s \<Longrightarrow> trusted_advance en s d c snapshot p dir v dir' \<Longrightarrow>
   supervised_advance en rid dir \<lparr>tr_from = run_phase s, tr_outcome = dget d ''outcome'', tr_to = run_phase v, tr_revision = run_revision v\<rparr> dir'"
  unfolding supervised_advance_def by blast

lemma ticked_stay: "records before ans \<Longrightarrow> (\<forall>v ts'. ans = TickRun ''STEP_BUDGET_REACHED'' v ts' \<longrightarrow> n = 0 \<or> run_status v = ''STEP_BUDGET_REACHED'')
   \<Longrightarrow> ticked en rid i n before dir ans dir"
  unfolding ticked_def by (intro exI [of _ "[]"]) auto

lemma ticking_stay: "ticking en rid i n dir dir"
  unfolding ticking_def by (intro exI [of _ "[]"]) auto

lemma ticked_stop:
  assumes "supervised_advance (en i) rid dir x dir'"
  shows "ticked en rid i (Suc n) before dir (TickRun (run_status v) v (before @ [x])) dir'"
  unfolding ticked_def using supervised_one [where en = en and i = i, OF assms] by (intro exI [of _ "[x]"]) auto

lemma ticking_one: "supervised_advance (en i) rid dir x dir' \<Longrightarrow> ticking en rid i (Suc n) dir dir'"
  unfolding ticking_def using supervised_one by fastforce

lemma ticked_later:
  assumes "supervised_advance (en i) rid dir x dir'" "ticked en rid (Suc i) n (before @ [x]) dir' ans dir''"
  shows "ticked en rid i (Suc n) before dir ans dir''"
proof -
  from assms(2) obtain ts where "supervised_run en rid (Suc i) dir' ts dir''" "length ts \<le> n" "records ((before @ [x]) @ ts) ans"
    "\<forall>v ts'. ans = TickRun ''STEP_BUDGET_REACHED'' v ts' \<longrightarrow> length ts = n \<or> run_status v = ''STEP_BUDGET_REACHED''"
    unfolding ticked_def by blast
  then show ?thesis unfolding ticked_def using supervised_run.step [where en = en and i = i and ts = ts, OF assms(1)] by (intro exI [of _ "x # ts"]) simp
qed

lemma ticking_later:
  assumes "supervised_advance (en i) rid dir x dir'" "ticking en rid (Suc i) n dir' dir''"
  shows "ticking en rid i (Suc n) dir dir''"
proof -
  from assms(2) obtain ts where "supervised_run en rid (Suc i) dir' ts dir''" "length ts \<le> n" unfolding ticking_def by blast
  then show ?thesis unfolding ticking_def using supervised_run.step [where en = en and i = i and ts = ts, OF assms(1)] by (intro exI [of _ "x # ts"]) simp
qed

lemma wp_tick_loop:
  "wp (tick_loop en ru execute reconcile rid n i before)
     (\<lambda>ans t. ticked en rid i n before (sw_dir w) ans (sw_dir t)) (\<lambda>_ t. ticking en rid i n (sw_dir w) (sw_dir t)) w"
proof (induction n arbitrary: i before w)
  case 0
  show ?case unfolding tick_loop.simps wp_bind
    by (rule wp_mono [OF wp_load_run]) (auto simp: wp_ret intro: ticked_stay ticking_stay)
next
  case (Suc n)
  let ?Q = "\<lambda>ans t. ticked en rid i (Suc n) before (sw_dir w) ans (sw_dir t)" and ?E = "\<lambda>_ t. ticking en rid i (Suc n) (sw_dir w) (sw_dir t)"
  have answered: "wp (case mv of
       (Waiting e, v) \<Rightarrow> retP (TickWait (wait_dict e) (run_phase s) (envelope_key (e_sha (en i)) s) before)
     | (Produced d, v) \<Rightarrow> (let t = before @ [\<lparr>tr_from = run_phase s, tr_outcome = dget d ''outcome'', tr_to = run_phase v, tr_revision = run_revision v\<rparr>] in
         if run_status v \<in> set STOP_STATUSES then retP (TickRun (run_status v) v t)
         else tick_loop en ru execute reconcile rid n (Suc i) t)) ?Q ?E t"
    if l: "journal_load (en i) (sw_dir w) rid = Inr s"
      and mv: "case mv of (Waiting e, v) \<Rightarrow> sw_dir t = sw_dir w
        | (Produced d, v) \<Rightarrow> \<exists>c snapshot p. trusted_advance (en i) s d c snapshot p (sw_dir w) v (sw_dir t)" for s mv t
  proof -
    obtain made v where m: "mv = (made, v)" by (cases mv)
    show ?thesis
    proof (cases made)
      case (Waiting e)
      then show ?thesis using mv by (simp add: m wp_ret ticked_stay)
    next
      case (Produced d)
      note x = supervised_advanceI [OF l]
      obtain c snapshot p where ta: "trusted_advance (en i) s d c snapshot p (sw_dir w) v (sw_dir t)" using mv by (auto simp: m Produced)
      show ?thesis using ticked_stop [where en = en and i = i, OF x [OF ta]]
        by (auto simp: m Produced Let_def wp_ret intro: wp_mono [OF Suc.IH] ticked_later [where en = en and i = i, OF x [OF ta]] ticking_later [where en = en and i = i, OF x [OF ta]])
    qed
  qed
  have step: "wp (bindP (supervised_step (en i) ru execute reconcile s) (\<lambda>mv. case mv of
       (Waiting e, v) \<Rightarrow> retP (TickWait (wait_dict e) (run_phase s) (envelope_key (e_sha (en i)) s) before)
     | (Produced d, v) \<Rightarrow> (let t = before @ [\<lparr>tr_from = run_phase s, tr_outcome = dget d ''outcome'', tr_to = run_phase v, tr_revision = run_revision v\<rparr>] in
         if run_status v \<in> set STOP_STATUSES then retP (TickRun (run_status v) v t)
         else tick_loop en ru execute reconcile rid n (Suc i) t))) ?Q ?E w"
    if l: "journal_load (en i) (sw_dir w) rid = Inr s" for s
    unfolding wp_bind
  proof (rule wp_mono [OF wp_supervised_step])
    fix e :: exn and t :: "'a sup_world"
    assume "sw_dir t = sw_dir w \<or> (\<exists>d c snapshot p v. trusted_advance (en i) s d c snapshot p (sw_dir w) v (sw_dir t))"
    then show "?E e t" using ticking_stay ticking_one supervised_advanceI [OF l] by metis
  qed (rule answered [OF l])
  show ?case unfolding tick_loop.simps wp_bind [of "load_run _ _"]
  proof (rule wp_mono [OF wp_load_run])
    fix s t assume t: "t = w \<and> journal_load (en i) (sw_dir w) rid = Inr s"
    show "wp (if run_status s \<in> {''COMPLETE'', ''BLOCKED''} then retP (TickRun (run_status s) s before)
     else bindP (supervised_step (en i) ru execute reconcile s) (\<lambda>mv. case mv of
       (Waiting e, v) \<Rightarrow> retP (TickWait (wait_dict e) (run_phase s) (envelope_key (e_sha (en i)) s) before)
     | (Produced d, v) \<Rightarrow> (let t = before @ [\<lparr>tr_from = run_phase s, tr_outcome = dget d ''outcome'', tr_to = run_phase v, tr_revision = run_revision v\<rparr>] in
         if run_status v \<in> set STOP_STATUSES then retP (TickRun (run_status v) v t)
         else tick_loop en ru execute reconcile rid n (Suc i) t))) ?Q ?E t"
      using step t by (auto simp: wp_ret intro: ticked_stay)
  qed (auto intro: ticking_stay)
qed

section \<open>What each supervised advance rests on\<close>

text \<open>An advance that moves the run to another phase was allowed under the compiled context.\<close>

lemma moving_advance_allowed:
  assumes "journal_load en dir rid = Inr s" "advance_run_trusted en dir rid d c = Inr (v, dir')" "run_phase v \<noteq> run_phase s"
  shows "\<exists>dec. evaluate_with_effective_policy (e_sha en) (e_policy en) c = Inr dec \<and> d_result dec = ''ALLOW''"
proof -
  have same: "run_phase v = run_phase s'" if "journal_save en dir s' e = Inr (v, dir')" for s' e
    using journal_save_shape [OF that] by auto
  obtain r dec s' where r: "evaluate_with_effective_policy (e_sha en) (e_policy en) c = Inr dec" "decide_step en r dec s = Inr s'"
    "journal_save en dir s' (Some (run_revision s)) = Inr (v, dir')"
    using assms same unfolding advance_run_trusted_def advance_run_def
    by (auto simp: bind_context_def block_run_def elim!: bindE_InrE split: if_split_asm option.split_asm)
  have "d_result dec = ''ALLOW''"
  proof (rule ccontr)
    assume "d_result dec \<noteq> ''ALLOW''"
    then have "run_phase s' = run_phase s" using r(2) by (auto simp: decide_step_def append_event_def Let_def split: if_split_asm)
    then show False using same [OF r(3)] assms(3) by simp
  qed
  then show ?thesis using r(1) by blast
qed

lemma supervised_advance_facts:
  assumes "supervised_advance en rid dir t dir'" "reachable (e_sha en) dir"
  shows "reachable (e_sha en) dir' \<and> (rid \<noteq> [] \<longrightarrow> (\<forall>k. k \<noteq> rid \<longrightarrow> map_of dir' k = map_of dir k))"
proof -
  obtain s result c snapshot p v where s: "journal_load en dir rid = Inr s" "trusted_advance en s result c snapshot p dir v dir'"
    using assms(1) unfolding supervised_advance_def by auto
  have adv: "advance_run en dir (run_id s) result None (Some c) = Inr (v, dir')"
    using s(2) by (auto simp: trusted_advance_def advance_run_trusted_def)
  note l = loaded [OF reachable_dir_ok [OF assms(2)] s(1)]
  have id: "rid \<noteq> [] \<Longrightarrow> run_id s = rid" using l check_run_id_Inr by blast
  have again: "journal_load en dir (run_id s) = Inr s"
    using l check_run_id_nonempty [of "e_uuid en" rid "run_id s" "e_uuid en"] by (simp add: journal_load_def)
  have "reachable (e_sha en) dir'" using reachable.advanced [OF assms(2) refl adv] .
  moreover have "map_of dir' k = map_of dir k" if "k \<noteq> run_id s" for k
    using reachable_dir_ok [OF assms(2)] adv
  proof (cases rule: advance_run_saved)
    case (saved s1 s2)
    then show ?thesis using that again by (simp add: update_conv')
  qed simp
  ultimately show ?thesis using id by auto
qed

lemma supervised_run_facts:
  assumes "supervised_run en rid i dir ts dir'" "\<forall>j. e_sha (en j) = sha" "reachable sha dir"
  shows "reachable sha dir' \<and> (rid \<noteq> [] \<longrightarrow> (\<forall>k. k \<noteq> rid \<longrightarrow> map_of dir' k = map_of dir k))"
  using assms(1,3)
proof (induction rule: supervised_run.induct)
  case (step i dir t dir' ts dir'')
  have "reachable (e_sha (en i)) dir" using step.prems assms(2) by simp
  note f = supervised_advance_facts [OF step.hyps(1) this]
  then have "reachable sha dir'" using assms(2) by simp
  from step.IH [OF this] f show ?case by simp
qed simp

fun transitions_of :: "tick_answer \<Rightarrow> transition list" where
  "transitions_of (TickRun status v ts) = ts"
| "transitions_of (TickWait e phase key ts) = ts"

lemma records_transitions: "records ts ans \<Longrightarrow> transitions_of ans = ts"
  by (cases ans) auto

lemma tick_runs:
  assumes "tick en ru execute reconcile rid max_steps w = (r, w')"
  obtains ts where "supervised_run en rid 0 (sw_dir w) ts (sw_dir w')" "length ts \<le> tick_budget max_steps"
    "\<forall>ans. r = Inr ans \<longrightarrow> records ts ans \<and> (\<forall>v ts'. ans = TickRun ''STEP_BUDGET_REACHED'' v ts' \<longrightarrow>
       length ts = tick_budget max_steps \<or> run_status v = ''STEP_BUDGET_REACHED'')"
proof (cases r)
  case (Inl e)
  then show ?thesis using wp_Inl [OF wp_tick_loop assms [unfolded tick_def Inl]] that unfolding ticking_def by blast
next
  case (Inr ans)
  then show ?thesis using wp_Inr [OF wp_tick_loop assms [unfolded tick_def Inr]] that unfolding ticked_def by auto
qed

section \<open>The worlds a tick goes through\<close>

text \<open>
  The advances of a tick over the whole world: each starts from the journals and the files that the advance before it left.
\<close>

lemma bindP_InrE:
  assumes "bindP m f w = (Inr y, t)"
  obtains x u where "m w = (Inr x, u)" "f x u = (Inr y, t)"
  using assms by (auto simp: bindP_def split: prod.splits sum.splits)

lemma on_files_InrE:
  assumes "on_files m w = (Inr x, t)"
  obtains f where "m (sw_files w) = (Inr x, f)" "t = w\<lparr>sw_files := f\<rparr>"
  using assms by (auto simp: on_files_def split: prod.splits)

inductive tick_path :: "(nat \<Rightarrow> env) \<Rightarrow> (string \<Rightarrow> string) \<Rightarrow> 'x executors \<Rightarrow> 'x reconciler \<Rightarrow> string \<Rightarrow> nat
    \<Rightarrow> 'x sup_world \<Rightarrow> transition list \<Rightarrow> 'x sup_world \<Rightarrow> bool" for en ru execute reconcile rid where
  path_stay: "tick_path en ru execute reconcile rid i w [] w"
| path_step: "\<lbrakk>journal_load (en i) (sw_dir w) rid = Inr s; supervised_step (en i) ru execute reconcile s w = (Inr (Produced d, v), w1);
     tick_path en ru execute reconcile rid (Suc i) w1 ts w'\<rbrakk> \<Longrightarrow> tick_path en ru execute reconcile rid i w
       (\<lparr>tr_from = run_phase s, tr_outcome = dget d ''outcome'', tr_to = run_phase v, tr_revision = run_revision v\<rparr> # ts) w'"

inductive_cases tick_path_ConsE: "tick_path en ru execute reconcile rid i w (t # ts) w'"

lemma tick_path_split:
  "tick_path en ru execute reconcile rid i w (ts1 @ t # ts2) w' \<Longrightarrow>
   \<exists>w1. tick_path en ru execute reconcile rid i w ts1 w1 \<and> tick_path en ru execute reconcile rid (i + length ts1) w1 (t # ts2) w'"
proof (induction ts1 arbitrary: i w)
  case (Cons x ts1)
  from Cons.prems show ?case unfolding append_Cons
    by (elim tick_path_ConsE) (use Cons.IH in \<open>fastforce intro: path_step\<close>)
qed (auto intro: path_stay)

lemma load_run_Inr: "load_run e rid w = (Inr s, t) \<longleftrightarrow> journal_load e (sw_dir w) rid = Inr s \<and> t = w"
  by (auto simp: load_run_def run_simps split: sum.splits)

lemma tick_loop_path:
  assumes "tick_loop en ru execute reconcile rid n i past w = (Inr ans, w')"
  shows "\<exists>ts w1. tick_path en ru execute reconcile rid i w ts w1 \<and> length ts \<le> n \<and> transitions_of ans = past @ ts"
  using assms
proof (induction n arbitrary: i past w)
  case 0
  then show ?case
    by (auto elim!: bindP_InrE simp: load_run_Inr retP_def intro: path_stay)
next
  case (Suc n)
  from Suc.prems obtain s where s: "journal_load (en i) (sw_dir w) rid = Inr s"
    "(if run_status s \<in> {''COMPLETE'', ''BLOCKED''} then retP (TickRun (run_status s) s past)
     else bindP (supervised_step (en i) ru execute reconcile s) (\<lambda>mv. case mv of
       (Waiting e, v) \<Rightarrow> retP (TickWait (wait_dict e) (run_phase s) (envelope_key (e_sha (en i)) s) past)
     | (Produced d, v) \<Rightarrow> (let t = past @ [\<lparr>tr_from = run_phase s, tr_outcome = dget d ''outcome'', tr_to = run_phase v, tr_revision = run_revision v\<rparr>] in
         if run_status v \<in> set STOP_STATUSES then retP (TickRun (run_status v) v t)
         else tick_loop en ru execute reconcile rid n (Suc i) t))) w = (Inr ans, w')"
    unfolding tick_loop.simps by (elim bindP_InrE) (auto simp: load_run_Inr)
  show ?case
  proof (cases "run_status s \<in> {''COMPLETE'', ''BLOCKED''}")
    case True
    then have "ans = TickRun (run_status s) s past" using s(2) by (simp add: retP_def)
    then show ?thesis using path_stay by fastforce
  next
    case False
    then obtain made v u where u: "supervised_step (en i) ru execute reconcile s w = (Inr (made, v), u)" "(case made of
       Waiting e \<Rightarrow> retP (TickWait (wait_dict e) (run_phase s) (envelope_key (e_sha (en i)) s) past)
     | Produced d \<Rightarrow> (let t = past @ [\<lparr>tr_from = run_phase s, tr_outcome = dget d ''outcome'', tr_to = run_phase v, tr_revision = run_revision v\<rparr>] in
         if run_status v \<in> set STOP_STATUSES then retP (TickRun (run_status v) v t)
         else tick_loop en ru execute reconcile rid n (Suc i) t)) u = (Inr ans, w')"
      using s(2) by (simp only: if_False) (elim bindP_InrE, auto)
    show ?thesis
    proof (cases made)
      case (Waiting e)
      then have "transitions_of ans = past" using u(2) by (simp add: retP_def) auto
      then show ?thesis using path_stay by fastforce
    next
      case (Produced d)
      note step = path_step [where en = en, OF s(1) u(1) [unfolded Produced]]
      show ?thesis
      proof (cases "run_status v \<in> set STOP_STATUSES")
        case True
        then have "transitions_of ans = past @ [\<lparr>tr_from = run_phase s, tr_outcome = dget d ''outcome'', tr_to = run_phase v, tr_revision = run_revision v\<rparr>]"
          using u(2) by (auto simp: Produced retP_def Let_def)
        then show ?thesis using step [OF path_stay] by fastforce
      next
        case False
        with u(2) have "tick_loop en ru execute reconcile rid n (Suc i)
            (past @ [\<lparr>tr_from = run_phase s, tr_outcome = dget d ''outcome'', tr_to = run_phase v, tr_revision = run_revision v\<rparr>]) u = (Inr ans, w')"
          by (simp add: Produced Let_def)
        from Suc.IH [OF this] obtain ts w1 where "tick_path en ru execute reconcile rid (Suc i) u ts w1" "length ts \<le> n"
          "transitions_of ans = (past @ [\<lparr>tr_from = run_phase s, tr_outcome = dget d ''outcome'', tr_to = run_phase v, tr_revision = run_revision v\<rparr>]) @ ts" by blast
        then show ?thesis using step by (metis append.assoc append_Cons append_Nil length_Cons Suc_le_mono)
      qed
    qed
  qed
qed

text \<open>
  The files an advance reads: what the executor left for the result \<open>d\<close>, after the refresh of the trusted inputs
  for the commit of the result, or of the run when it names none.
\<close>

definition files_read :: "env \<Rightarrow> (string \<Rightarrow> string) \<Rightarrow> 'x executors \<Rightarrow> 'x reconciler \<Rightarrow> run \<Rightarrow> 'x files \<Rightarrow> dict \<Rightarrow> 'x files \<Rightarrow> bool" where
  "files_read en ru execute reconcile s f d f2 = (\<exists>f1. phase_result en ru execute s f = (Inr (Produced d), f1)
     \<and> refresh_trusted_inputs reconcile (step_subject s d) (run_phase s \<in> {''OWNER_ACCEPTANCE'', ''MERGE''}) f1 = (Inr (), f2))"

lemma supervised_step_reads:
  assumes "supervised_step en ru execute reconcile s w = (Inr (Produced d, v), w')"
  shows "\<exists>f2 a p c action. files_read en ru execute reconcile s (sw_files w) d f2 \<and> sf_assurance f2 = Some (Inr a) \<and> sf_provider f2 = Some (Inr p)
     \<and> phase_action s = Inr action \<and> compile_from_files en action s d (JStr (envelope_key (e_sha en) s)) a p = Inr c
     \<and> advance_run_trusted en (sw_dir w) (run_id s) d c = Inr (v, sw_dir w')"
proof -
  from assms obtain f1 where f1: "phase_result en ru execute s (sw_files w) = (Inr (Produced d), f1)"
      "dget d ''idempotency_key'' = JStr (envelope_key (e_sha en) s)"
      "supervisor_advance en ru reconcile s d (w\<lparr>sw_files := f1\<rparr>) = (Inr v, w')"
    unfolding supervised_step_def
    by (elim bindP_InrE on_files_InrE) (auto simp: retP_def raiseP_def split: produced.splits if_splits elim!: bindP_InrE)
  have key: "ditemE d ''idempotency_key'' = Inr (JStr (envelope_key (e_sha en) s))"
    using f1(2) by (auto simp: ditemE_def dget_def split: option.splits)
  from f1(3) obtain f2 ap action c v' u where r: "refresh_trusted_inputs reconcile (step_subject s d) (run_phase s \<in> {''OWNER_ACCEPTANCE'', ''MERGE''}) f1 = (Inr (), f2)"
      "trusted_inputs f2 = Inr ap" "phase_action s = Inr action"
      "compile_from_files en action s d (JStr (envelope_key (e_sha en) s)) (fst ap) (snd ap) = Inr c"
      "advance_journal en s d c (w\<lparr>sw_files := f2\<rparr>) = (Inr v', u)"
      "v' = v" "sw_dir w' = sw_dir u"
    unfolding supervisor_advance_def
    by (elim bindP_InrE on_files_InrE) (auto simp: getP_def liftP_def retP_def key simp del: split_paired_Ex)
  have "advance_run_trusted en (sw_dir w) (run_id s) d c = Inr (v', sw_dir u)" using r(5)
    by (auto simp: advance_journal_def getP_def liftP_def putP_def retP_def elim!: bindP_InrE)
  moreover obtain a p where "sf_assurance f2 = Some (Inr a)" "sf_provider f2 = Some (Inr p)" "ap = (a, p)"
    using r(2) by (auto simp: trusted_inputs_def bindE_eq_Inr split: option.splits)
  ultimately show ?thesis using f1(1) r unfolding files_read_def by auto
qed

text \<open>
  What a moving advance rests on: the snapshot and the readback it read are \<open>a\<close> and \<open>p\<close>, and the context it was allowed
  under was compiled from them, for the action of the phase, the risk and the work type of the run and the commit of the result.
\<close>

definition readback_facts :: "env \<Rightarrow> run \<Rightarrow> dict \<Rightarrow> dict \<Rightarrow> dict \<Rightarrow> decision_context \<Rightarrow> bool" where
  "readback_facts en s d a p c = (\<exists>policy hash gates action dec.
     load_effective_policy (e_sha en) (e_policy en) = Inr policy \<and> dget policy ''policy_hash'' = JStr hash
     \<and> sound_snapshot (e_sha en) (e_now en) (step_subject s d) hash a \<and> gates_of a = Inr gates
     \<and> dget p ''subject_sha'' = JStr (step_subject s d) \<and> dget p ''facts_readback_verified'' = JBool True
     \<and> dget p ''repository_visibility'' = JStr ''PUBLIC'' \<and> dget p ''larger_runner'' \<noteq> JBool True
     \<and> map_of ACTION_BY_PHASE (run_phase s) = Some action \<and> (action \<in> set RUNNER_ACTIONS \<longrightarrow> dget p ''runner'' = JStr ''ubuntu-24.04'')
     \<and> c = trusted_context action (run_risk s) (operational_work_type s) policy a gates
         (owner_exact (step_subject s d) (py_or (dget d ''preview_digest'') (run_preview_digest s)) p)
     \<and> evaluate_permission c (Some policy) = Inr dec \<and> d_result dec = ''ALLOW'')"

lemma moving_step_facts:
  assumes "compile_from_files en action s d key av pv = Inr c" "phase_action s = Inr action"
    and "advance_run_trusted en dir (run_id s) d c = Inr (v, dir')" "journal_load en dir (run_id s) = Inr s" "run_phase v \<noteq> run_phase s"
  shows "\<exists>a p. av = JObj a \<and> pv = JObj p \<and> readback_facts en s d a p c"
proof -
  obtain dec where dec: "evaluate_with_effective_policy (e_sha en) (e_policy en) c = Inr dec" "d_result dec = ''ALLOW''"
    using moving_advance_allowed [OF assms(4,3,5)] by blast
  obtain p where p: "pv = JObj p" "compile_trusted_context (e_sha en) (e_policy en) (e_now en) action (run_risk s) (operational_work_type s)
     (trusted_request s d key) av p = Inr c" using compile_from_files_Inr [OF assms(1)] by blast
  have subject: "py_str (py_or (dget (trusted_request s d key) ''subject_sha'') (JStr [])) = step_subject s d"
    "dget (trusted_request s d key) ''preview_digest'' = py_or (dget d ''preview_digest'') (run_preview_digest s)"
    by (cases "step_subject s d"; simp add: trusted_request_def py_or_def)+
  from compiled [OF p(2)] obtain policy h a gates where k: "load_effective_policy (e_sha en) (e_policy en) = Inr policy"
    "dget policy ''policy_hash'' = JStr h" "av = JObj a" "sound_snapshot (e_sha en) (e_now en) (step_subject s d) h a"
    "provider_error action (step_subject s d) p = None" "gates_of a = Inr gates"
    "c = trusted_context action (run_risk s) (operational_work_type s) policy a gates
       (owner_exact (step_subject s d) (py_or (dget d ''preview_digest'') (run_preview_digest s)) p)"
    unfolding subject by blast
  have provider: "dget p ''subject_sha'' = JStr (step_subject s d)" "dget p ''facts_readback_verified'' = JBool True"
     "dget p ''repository_visibility'' = JStr ''PUBLIC''" "dget p ''larger_runner'' \<noteq> JBool True"
     "action \<in> set RUNNER_ACTIONS \<longrightarrow> dget p ''runner'' = JStr ''ubuntu-24.04''"
    using k(5) by (auto simp: provider_error_def split: if_split_asm)
  have "map_of ACTION_BY_PHASE (run_phase s) = Some action" using assms(2) by (simp add: phase_action_def split: option.splits)
  then show ?thesis unfolding readback_facts_def using k p(1) provider dec(2) decided_by_policy [OF dec(1) k(1)] by blast
qed

lemma tick_path_reachable:
  assumes "tick_path en ru execute reconcile rid i w ts w'" "\<forall>j. e_sha (en j) = sha" "reachable sha (sw_dir w)"
  shows "reachable sha (sw_dir w')"
  using assms(1,3)
proof (induction rule: tick_path.induct)
  case (path_step i w s d v w1 ts w')
  from supervised_step_reads [OF path_step.hyps(2)] obtain c where "advance_run (en i) (sw_dir w) (run_id s) d None (Some c) = Inr (v, sw_dir w1)"
    unfolding advance_run_trusted_def by blast
  with path_step.prems assms(2) have "reachable sha (sw_dir w1)" using reachable.advanced by blast
  then show ?case by (rule path_step.IH)
qed

section \<open>Properties\<close>

text \<open>
  C14.  A tick ends within its budget.  Whatever the executors and the reconciliation do, a tick
  advances the run at most as often as asked and never more than 32 times, each time from the
  journal the advance before left; the answer records exactly these advances, and says that the
  budget was reached only when it was used up.  A tick, even one that raises, keeps the directory
  among those the orchestrator can reach and touches no other run.
\<close>

theorem tick_ends_within_its_budget:
  assumes "tick en ru execute reconcile rid max_steps w = (r, w')" "reachable sha (sw_dir w)" "\<forall>j. e_sha (en j) = sha"
  shows "\<exists>ts. supervised_run en rid 0 (sw_dir w) ts (sw_dir w') \<and> length ts \<le> tick_budget max_steps \<and> tick_budget max_steps \<le> 32
    \<and> reachable sha (sw_dir w') \<and> (rid \<noteq> [] \<longrightarrow> (\<forall>k. k \<noteq> rid \<longrightarrow> map_of (sw_dir w') k = map_of (sw_dir w) k))
    \<and> (\<forall>ans. r = Inr ans \<longrightarrow> transitions_of ans = ts)
    \<and> (\<forall>status v ts'. r = Inr (TickRun status v ts') \<longrightarrow> status = run_status v \<or> length ts = tick_budget max_steps)"
proof -
  obtain ts where ts: "supervised_run en rid 0 (sw_dir w) ts (sw_dir w')" "length ts \<le> tick_budget max_steps"
    "\<forall>ans. r = Inr ans \<longrightarrow> records ts ans \<and> (\<forall>v ts'. ans = TickRun ''STEP_BUDGET_REACHED'' v ts' \<longrightarrow>
       length ts = tick_budget max_steps \<or> run_status v = ''STEP_BUDGET_REACHED'')"
    using tick_runs [OF assms(1)] by blast
  have "status = run_status v \<or> length ts = tick_budget max_steps" if "r = Inr (TickRun status v ts')" for status v ts'
  proof -
    have "status = ''STEP_BUDGET_REACHED'' \<or> status = run_status v" using ts(3) [rule_format, OF that] by simp
    then show ?thesis using ts(3) [rule_format, OF that] by auto
  qed
  moreover have "transitions_of ans = ts" if "r = Inr ans" for ans using ts(3) [rule_format, OF that] records_transitions by simp
  ultimately show ?thesis using ts(1,2) supervised_run_facts [OF ts(1) assms(3,2)]
    by (intro exI [of _ ts]) (simp add: tick_budget_def)
qed

text \<open>
  C6. Executors decide nothing: whatever they return and whatever they write to the files, a transition of a tick to
  another phase was made at the step the answer records it for, from the world that the steps before it left, on the files
  as they were after the executor and the refresh of the trusted inputs.  The two files then held an assurance snapshot, intact,
  current and under the hash of the effective policy, and a readback that is verified, of a public repository, on the
  standard runner where the action needs one; both are about the very commit of the result (of the run when the result
  names none).  The context compiled from exactly these two, for the action of the phase that was left and the
  risk and work type of the run, was allowed by the effective policy, and the run was advanced under it.
\<close>

theorem tick_moves_only_on_readback:
  assumes "tick en ru execute reconcile rid max_steps w = (Inr ans, w')" "reachable sha (sw_dir w)" "\<forall>j. e_sha (en j) = sha"
    and "transitions_of ans = before @ t # rest" "tr_from t \<noteq> tr_to t"
  shows "length before < tick_budget max_steps \<and> (\<exists>w1 s d v f a p c dir'. tick_path en ru execute reconcile rid 0 w before w1
    \<and> journal_load (en (length before)) (sw_dir w1) rid = Inr s
    \<and> t = \<lparr>tr_from = run_phase s, tr_outcome = dget d ''outcome'', tr_to = run_phase v, tr_revision = run_revision v\<rparr>
    \<and> files_read (en (length before)) ru execute reconcile s (sw_files w1) d f
    \<and> sf_assurance f = Some (Inr (JObj a)) \<and> sf_provider f = Some (Inr (JObj p))
    \<and> readback_facts (en (length before)) s d a p c
    \<and> advance_run_trusted (en (length before)) (sw_dir w1) (run_id s) d c = Inr (v, dir'))"
proof -
  obtain ts u where ts: "tick_path en ru execute reconcile rid 0 w ts u" "length ts \<le> tick_budget max_steps" "transitions_of ans = ts"
    using tick_loop_path [OF assms(1) [unfolded tick_def]] by auto
  then obtain w1 where w1: "tick_path en ru execute reconcile rid 0 w before w1"
      "tick_path en ru execute reconcile rid (length before) w1 (t # rest) u"
    using tick_path_split [of en ru execute reconcile rid 0 w before t rest u] assms(4) by auto
  from w1(2) obtain s d v w2 where s: "journal_load (en (length before)) (sw_dir w1) rid = Inr s"
      "supervised_step (en (length before)) ru execute reconcile s w1 = (Inr (Produced d, v), w2)"
      "t = \<lparr>tr_from = run_phase s, tr_outcome = dget d ''outcome'', tr_to = run_phase v, tr_revision = run_revision v\<rparr>"
    by (elim tick_path_ConsE) blast
  have "reachable (e_sha (en (length before))) (sw_dir w1)" using tick_path_reachable [OF w1(1) assms(3,2)] assms(3) by simp
  note l = loaded [OF reachable_dir_ok [OF this] s(1)]
  have again: "journal_load (en (length before)) (sw_dir w1) (run_id s) = Inr s"
    using l check_run_id_nonempty [of "e_uuid (en (length before))" rid "run_id s" "e_uuid (en (length before))"] by (simp add: journal_load_def)
  from supervised_step_reads [OF s(2)] obtain f a p c action where r: "files_read (en (length before)) ru execute reconcile s (sw_files w1) d f"
      "sf_assurance f = Some (Inr a)" "sf_provider f = Some (Inr p)" "phase_action s = Inr action"
      "compile_from_files (en (length before)) action s d (JStr (envelope_key (e_sha (en (length before))) s)) a p = Inr c"
      "advance_run_trusted (en (length before)) (sw_dir w1) (run_id s) d c = Inr (v, sw_dir w2)" by blast
  have "run_phase v \<noteq> run_phase s" using assms(5) s(3) by simp
  from moving_step_facts [OF r(5,4,6) again this] obtain a' p' where
    "a = JObj a'" "p = JObj p'" "readback_facts (en (length before)) s d a' p' c" by blast
  moreover have "length before < tick_budget max_steps" using ts(2,3) assms(4) by auto
  ultimately show ?thesis using w1(1) s r by blast
qed

end
