(* ===== verification/SupervisorSample.thy ===== *)
theory SupervisorSample
  imports Supervisor
begin

text \<open>
  A run at its first phase, current trusted files and an executor that reconciles: one tick moves
  the run, and the two properties of the supervisor applied to it.
\<close>

definition tick_run :: run where
  "tick_run = (fresh_run (sample_env sample_now) sample_request ''run-0001'' (dict_of sample_policy) (sample_now + minutes 1440))
     \<lparr>run_updated_at := iso sample_now\<rparr>"

definition tick_result :: dict where
  "tick_result = [(''phase'', JStr ''RECONCILE''), (''outcome'', JStr ''PASS''), (''idempotency_key'', JStr flat_digest),
     (''subject_sha'', JStr sample_sha40)]"

definition tick_world :: "unit sup_world" where
  "tick_world = \<lparr>sw_dir = [(''run-0001'', Journal tick_run)], sw_files = \<lparr>sf_memory = None, sf_requests = Map.empty, sf_results = Map.empty,
     sf_assurance = Some (Inr (JObj sample_snapshot)), sf_provider = Some (Inr (JObj sample_provider)), sf_project = None, sf_outside = ()\<rparr>\<rparr>"

definition tick_executors :: "unit executors" where
  "tick_executors s key envelope = retP (Produced tick_result)"

definition tick_reconciler :: "unit reconciler" where
  "tick_reconciler subject = retP None"

definition tick_env :: "nat \<Rightarrow> env" where
  "tick_env i = sample_env sample_now"

definition tick_context :: decision_context where
  "tick_context = trusted_context ''reconcile'' ''R1'' ''feature'' (dict_of sample_policy) sample_snapshot [JStr ''governance-gate''] False"

definition tick_step_result :: step_result where
  "tick_step_result = \<lparr>st_phase = ''RECONCILE'', st_outcome = ''PASS'', st_key = flat_digest,
     st_subject_sha = JStr sample_sha40, st_preview_digest = JNull, st_evidence_refs = [], st_reason_codes = [],
     st_transient = False, st_metadata = []\<rparr>"

lemma tick_created: "new_run (sample_env sample_now) [] sample_request = Inr (tick_run, [(''run-0001'', Journal tick_run)])"
proof -
  have d: "in_range (sample_now + minutes 1440)" by code_simp
  show ?thesis
    by (simp add: new_run_def list_active_def load_sample sample_id d sample_request_def Let_def journal_save_def
        fresh_run_def Orchestrator.stored_revision_def tick_run_def)
qed

lemma tick_reachable: "reachable flat_sha (sw_dir tick_world)"
  using reachable.created [OF reachable.empty _ tick_created] by (simp add: tick_world_def)

lemma tick_run_fields [simp]: "run_id tick_run = ''run-0001''" "run_status tick_run = ''RUNNING''"
   "run_phase tick_run = ''RECONCILE''" "run_events tick_run = []" "run_revision tick_run = 0"
   "run_deadline_at tick_run = iso (sample_now + minutes 1440)" "run_risk tick_run = ''R1''" "run_subject_sha tick_run = JNull" "run_preview_digest tick_run = JNull"
   "run_work_type tick_run = ''feature''" "run_policy_hash tick_run = replicate 64 (CHR ''a'')"
  by (simp_all add: tick_run_def fresh_run_def sample_request_def sample_policy_def)

lemma tick_loaded: "journal_load (sample_env t) [(''run-0001'', Journal tick_run)] ''run-0001'' = Inr tick_run"
proof -
  have "validate_journal flat_sha tick_run = Inr []"
    by (simp add: validate_journal_def delivery_findings_def last_hash_def tick_run_def fresh_run_def overflow_bound_def)
  then show ?thesis by (simp add: journal_load_def sample_id)
qed

lemma tick_fields: "keys_beyond tick_result Orchestrator.RESULT_FIELDS = []" "dget tick_result ''evidence_refs'' = JNull" "dget tick_result ''reason_codes'' = JNull"
    "dget_or tick_result ''cost_usd'' (JInt 0) = JInt 0" "dget tick_result ''metadata'' = JNull" "dget tick_result ''phase'' = JStr ''RECONCILE''"
    "dget tick_result ''outcome'' = JStr ''PASS''" "dget tick_result ''idempotency_key'' = JStr flat_digest"
    "dget tick_result ''subject_sha'' = JStr sample_sha40" "dget tick_result ''preview_digest'' = JNull" "dget tick_result ''transient'' = JNull"
    "ditemE tick_result ''idempotency_key'' = Inr (JStr flat_digest)"
  by (simp_all add: tick_result_def keys_beyond_def dkeys_def Orchestrator.RESULT_FIELDS_def dget_or_def ditemE_def)

lemma tick_normal: "normalize_result tick_result tick_run = Inr tick_step_result"
proof -
  have p: "''PASS'' \<in> set Orchestrator.OUTCOMES" "''RECONCILE'' \<in> set PHASES" by code_simp+
  have l: "\<not> length flat_digest < 8" by (simp add: flat_digest_def)
  show ?thesis
    by (simp add: normalize_result_def tick_fields p l py_or_def overflow_bound_def bind_sha_def check_merge_def check_delivery_def
       check_outcome_def SHA_PHASES_def DELIVERY_RESULT_PHASES_def EVIDENCE_PHASES_def tick_step_result_def)
qed

lemma tick_compiled: "compile_from_files (sample_env sample_now) ''reconcile'' tick_run tick_result (JStr flat_digest) (JObj sample_snapshot) (JObj sample_provider)
    = Inr tick_context"
proof -
  have ne: "sample_sha40 \<noteq> []" by (simp add: sample_sha40_def)
  have h: "dget (dict_of sample_policy) ''policy_hash'' = JStr (replicate 64 (CHR ''a''))" by (simp add: sample_policy_def)
  have p: "provider_error ''reconcile'' sample_sha40 sample_provider = None" by (simp add: provider_error_def sample_provider_def RUNNER_ACTIONS_def)
  have s: "policy_source (dict_of sample_policy) = Inr ()" by (simp add: policy_source_def sample_policy_def)
  have g: "gates_of sample_snapshot = Inr [JStr ''governance-gate'']" by (simp add: gates_of_def sample_snapshot_def py_or_def)
  have o': "\<not> owner_exact s v sample_provider" for s v by (simp add: owner_exact_def sample_provider_def)
  have u: "step_subject tick_run tick_result = sample_sha40" using ne by (simp add: step_subject_def tick_fields py_or_def)
  have r: "keys_beyond (trusted_request tick_run tick_result (JStr flat_digest)) ALLOWED_REQUEST_FIELDS = []"
    "dget (trusted_request tick_run tick_result (JStr flat_digest)) ''subject_sha'' = JStr sample_sha40"
    by (simp_all add: trusted_request_def keys_beyond_def dkeys_def ALLOWED_REQUEST_FIELDS_def u)
  have w: "operational_work_type tick_run = ''feature''" by (simp add: operational_work_type_def)
  show ?thesis using sample_sha40_shape ne
    by (simp add: compile_from_files_def compile_trusted_context_def r py_or_def load_sample h sample_snapshot_valid p s g o' w tick_context_def)
qed

lemma tick_decision: "evaluate_with_effective_policy flat_sha (Parsed sample_policy) tick_context = Inr (mk_decision ''ALLOW'' [] (Some (replicate 64 (CHR ''a''))))"
  unfolding evaluate_with_effective_policy_def load_sample sum.case evaluate_permission_def rules_sample prod.case by code_simp

lemma tick_advanced:
  "\<exists>v. advance_run_trusted (sample_env sample_now) [(''run-0001'', Journal tick_run)] ''run-0001'' tick_result tick_context
     = Inr (v, [(''run-0001'', Journal v)]) \<and> run_phase v = ''AUTHORIZE'' \<and> run_status v = ''RUNNING''"
proof -
  have r: "in_range (sample_now + minutes 1440)" by code_simp
  have dl: "check_deadline sample_now (iso (sample_now + minutes 1440)) = Inr Ahead"
    using check_deadline_iso [OF r, of sample_now] by (simp add: minutes_def)
  have c: "bind_context tick_run r None (Some tick_context) = Inr tick_context" for r
    by (simp add: bind_context_def tick_context_def trusted_context_def operational_work_type_def lookup_def ACTION_BY_PHASE_def)
      (simp add: sample_policy_def)
  have nx: "lookup NEXT_PHASE ''RECONCILE'' ''RECONCILE'' = ''AUTHORIZE''" by code_simp
  have b: "\<exists>s'. apply_bindings tick_step_result s = Inr s' \<and> run_phase s' = ''RECONCILE'' \<and> run_id s' = run_id s"
    if "run_phase s = ''RECONCILE''" for s
    using that by (simp add: apply_bindings_def tick_step_result_def bind_subject_def bind_branch_def bind_pull_request_def
      bind_references_def Let_def)
  have f: "run_phase (append_event e r d tick_run) = ''RECONCILE''" "run_id (append_event e r d tick_run) = ''run-0001''" for e r d
    by (simp_all add: append_event_def Let_def)
  obtain s' where s': "apply_bindings tick_step_result (append_event (sample_env sample_now) tick_step_result
      (mk_decision ''ALLOW'' [] (Some (replicate 64 (CHR ''a'')))) tick_run) = Inr s'" "run_phase s' = ''RECONCILE''" "run_id s' = ''run-0001''"
    using b [of "append_event (sample_env sample_now) tick_step_result (mk_decision ''ALLOW'' [] (Some (replicate 64 (CHR ''a'')))) tick_run"] f by auto
  have o': "st_outcome tick_step_result = ''PASS''" by (simp add: tick_step_result_def)
  show ?thesis
    by (simp add: advance_run_trusted_def advance_run_def tick_loaded dl tick_fields find_duplicate_def tick_normal c tick_decision
        decide_step_def s' journal_save_def sample_id Orchestrator.stored_revision_def Let_def apply_outcome_def on_pass_def nx o')
qed

text \<open>The whole tick.\<close>

lemma tick_request: "\<exists>payload. request_of (sample_env sample_now) ru tick_run None = Inr payload"
  by (simp add: request_of_def phase_action_def ACTION_BY_PHASE_def package_entries_def CREATIVE_PHASES_def)

lemma tick_advances: "\<exists>v t. supervised_step (sample_env sample_now) ru tick_executors tick_reconciler tick_run tick_world = (Inr (Produced tick_result, v), t)
   \<and> run_phase v = ''AUTHORIZE'' \<and> run_status v = ''RUNNING'' \<and> sw_dir t = [(''run-0001'', Journal v)]
   \<and> advance_run (sample_env sample_now) (sw_dir tick_world) ''run-0001'' tick_result None (Some tick_context) = Inr (v, sw_dir t)"
proof -
  obtain payload where payload: "request_of (sample_env sample_now) ru tick_run None = Inr payload" using tick_request by blast
  obtain v where v: "advance_run_trusted (sample_env sample_now) [(''run-0001'', Journal tick_run)] ''run-0001'' tick_result tick_context
     = Inr (v, [(''run-0001'', Journal v)])" "run_phase v = ''AUTHORIZE''" "run_status v = ''RUNNING''" using tick_advanced by blast
  have key: "envelope_key flat_sha s = flat_digest" for s by (simp add: envelope_key_def flat_sha_def)
  have a: "phase_action tick_run = Inr ''reconcile''" by (simp add: phase_action_def ACTION_BY_PHASE_def)
  have ne: "sample_sha40 \<noteq> []" "length sample_sha40 = 40" by (simp_all add: sample_sha40_def)
  have u: "step_subject tick_run tick_result = sample_sha40" using ne by (simp add: step_subject_def tick_fields py_or_def)
  have current: "inputs_current sample_sha40 (JObj sample_snapshot, JObj sample_provider) = Inr True"
    by (simp add: inputs_current_def sample_snapshot_def sample_provider_def)
  have project: "\<exists>d. projected_state v None [] = Inr d"
    by (simp add: projected_state_def projected_run_def set_in_def)
  then obtain d where project: "projected_state v None [] = Inr d" by blast
  show ?thesis
    by (simp add: supervised_step_def phase_result_def ensure_request_def read_result_def tick_world_def run_simps on_files_def key payload read_file_def
        tick_executors_def write_result_def tick_fields supervisor_advance_def refresh_trusted_inputs_def u ne trusted_inputs_def current a
        tick_compiled advance_journal_def v v(1) [unfolded advance_run_trusted_def] sync_project_state_def memory_load_def project on_memory_file_def update_memory_def)
qed

lemma ticked_world: "\<exists>v t. tick tick_env ru tick_executors tick_reconciler ''run-0001'' 1 tick_world
    = (Inr (TickRun ''STEP_BUDGET_REACHED'' v [\<lparr>tr_from = ''RECONCILE'', tr_outcome = JStr ''PASS'', tr_to = ''AUTHORIZE'', tr_revision = run_revision v\<rparr>]), t)"
proof -
  obtain v t where v: "supervised_step (sample_env sample_now) ru tick_executors tick_reconciler tick_run tick_world = (Inr (Produced tick_result, v), t)"
    "run_phase v = ''AUTHORIZE''" "run_status v = ''RUNNING''" "sw_dir t = [(''run-0001'', Journal v)]"
    "advance_run (sample_env sample_now) (sw_dir tick_world) ''run-0001'' tick_result None (Some tick_context) = Inr (v, sw_dir t)"
    using tick_advances by blast
  have r: "reachable flat_sha (sw_dir t)" using reachable.advanced [OF tick_reachable _ v(5)] by simp
  have "run_ok flat_sha v" using dir_okD [OF reachable_dir_ok [OF r], of "''run-0001''"] by (simp add: v(4))
  then have ok: "validate_journal flat_sha v = Inr []" by (rule run_ok_valid) (simp add: v(2) DELIVERY_STATE_PHASES_def)
  have valid: "journal_load (sample_env sample_now) [(''run-0001'', Journal v)] ''run-0001'' = Inr v" by (simp add: journal_load_def sample_id ok)
  have w: "sw_dir tick_world = [(''run-0001'', Journal tick_run)]" by (simp add: tick_world_def)
  show ?thesis
    by (simp add: tick_def tick_budget_def load_run_def run_simps tick_env_def tick_loaded w v(1-4) valid STOP_STATUSES_def tick_fields)
qed

lemma tick_ends_within_its_budget_witness:
  "\<exists>r t. tick tick_env id tick_executors tick_reconciler ''run-0001'' 1 tick_world = (r, t) \<and> reachable flat_sha (sw_dir t)
     \<and> (\<exists>x. supervised_run tick_env ''run-0001'' 0 (sw_dir tick_world) [x] (sw_dir t) \<and> tr_to x = ''AUTHORIZE'')"
proof -
  obtain v t where t: "tick tick_env id tick_executors tick_reconciler ''run-0001'' 1 tick_world
    = (Inr (TickRun ''STEP_BUDGET_REACHED'' v [\<lparr>tr_from = ''RECONCILE'', tr_outcome = JStr ''PASS'', tr_to = ''AUTHORIZE'', tr_revision = run_revision v\<rparr>]), t)"
    using ticked_world by blast
  have sha: "\<forall>j. e_sha (tick_env j) = flat_sha" by (simp add: tick_env_def)
  show ?thesis using tick_ends_within_its_budget [OF t tick_reachable sha] t by fastforce
qed

lemma tick_moves_only_on_readback_witness:
  "\<exists>s d a p c. journal_load (tick_env 0) (sw_dir tick_world) ''run-0001'' = Inr s \<and> run_phase s = ''RECONCILE''
     \<and> dget p ''subject_sha'' = JStr (step_subject s d) \<and> readback_facts (tick_env 0) s d a p c"
proof -
  obtain v t where t: "tick tick_env id tick_executors tick_reconciler ''run-0001'' 1 tick_world
    = (Inr (TickRun ''STEP_BUDGET_REACHED'' v [\<lparr>tr_from = ''RECONCILE'', tr_outcome = JStr ''PASS'', tr_to = ''AUTHORIZE'', tr_revision = run_revision v\<rparr>]), t)"
    using ticked_world by blast
  have sha: "\<forall>j. e_sha (tick_env j) = flat_sha" by (simp add: tick_env_def)
  obtain w1 s d f a p c where "tick_path tick_env id tick_executors tick_reconciler ''run-0001'' 0 tick_world [] w1"
      "journal_load (tick_env 0) (sw_dir w1) ''run-0001'' = Inr s" "run_phase s = ''RECONCILE''" "readback_facts (tick_env 0) s d a p c"
    using tick_moves_only_on_readback [OF t tick_reachable sha, of "[]" _ "[]"] by auto
  moreover have "w1 = tick_world" using calculation(1) by cases
  ultimately show ?thesis unfolding readback_facts_def by blast
qed

end
