(* ===== verification/WriterGate.thy ===== *)
theory WriterGate
  imports Supervisor LeaseStore
begin

text \<open>
  The first half of the phase executors (\<open>.adwf/lib/action_executors.py\<close>): what every executor shares,
  and the writer lease.  An executor runs over the files of the supervisor; the provider, the other
  files an executor reads and whatever else there is lie in \<open>outside\<close>.  The environment holds the
  clock (\<open>xe_clock i\<close> is the \<open>i\<close>-th reading of one execution), the client of the detected repository and
  token, and the processes and adapters the executors call, which are parameters.
\<close>

section \<open>The world of the executors\<close>

record process =
  pr_code :: int
  pr_stdout :: string
  pr_stderr :: string

record ('r, 'y) outside =
  xo_net :: "'r net"
  xo_config :: "json res option"
  xo_preview :: "json res option"
  xo_delivery :: "string \<Rightarrow> json res option"
  xo_rest :: 'y

type_synonym ('r, 'y) place = "('r, 'y) outside files"

record ('r, 'y) exec_env =
  xe_sha :: "string \<Rightarrow> string"
  xe_ru :: "string \<Rightarrow> string"
  xe_clock :: "nat \<Rightarrow> int"
  xe_uuid :: string
  xe_client :: "'r github option"
  xe_auth :: dict
  xe_var :: "string \<Rightarrow> string"
  xe_head :: "('r, 'y) place \<Rightarrow> string res"
  xe_reconcile :: "string \<Rightarrow> (('r, 'y) place, process) prog"
  xe_command :: "string \<Rightarrow> string \<Rightarrow> string \<Rightarrow> int \<Rightarrow> (('r, 'y) place, process) prog"
  xe_promote :: "string \<Rightarrow> (('r, 'y) place, dict) prog"
  xe_observe :: "string \<Rightarrow> (('r, 'y) place, dict) prog"
  xe_adapter :: "string \<Rightarrow> string \<Rightarrow> ('r, 'y) place \<Rightarrow> dict res"
  xe_agent :: "dict \<Rightarrow> string \<Rightarrow> (('r, 'y) place, process option) prog"
  xe_binding :: "dict \<Rightarrow> dict \<Rightarrow> ('r, 'y) place \<Rightarrow> json list res"

definition net_of :: "('r, 'y) place \<Rightarrow> 'r net" where
  "net_of f = xo_net (sf_outside f)"

definition on_net :: "('r net, 'a) prog \<Rightarrow> (('r, 'y) place, 'a) prog" where
  "on_net m f = (case m (net_of f) of (r, n) \<Rightarrow> (r, f\<lparr>sf_outside := (sf_outside f)\<lparr>xo_net := n\<rparr>\<rparr>))"

text \<open>\<open>try: ... except Exception as exc\<close>: what was raised, as a value.\<close>

definition attemptP :: "('s, 'a) prog \<Rightarrow> ('s, exn + 'a) prog" where
  "attemptP m = tryP (bindP m (\<lambda>x. retP (Inr x))) (\<lambda>e. if e = Interrupted then raiseP e else retP (Inl e))"

section \<open>Results\<close>

definition wait_for :: "string \<Rightarrow> string \<Rightarrow> string \<Rightarrow> dict \<Rightarrow> executor_wait" where
  "wait_for status reason capability details = \<lparr>ew_status = status, ew_reason = reason, ew_capability = capability, ew_details = details\<rparr>"

definition waitP :: "string \<Rightarrow> string \<Rightarrow> string \<Rightarrow> dict \<Rightarrow> ('s, produced) prog" where
  "waitP status reason capability details = retP (Waiting (wait_for status reason capability details))"

definition contract_error :: "exn \<Rightarrow> dict" where
  "contract_error e = [(''contract_error'', JStr (take 300 (exn_text e)))]"

definition RESULT_FIELDS :: "string list" where
  "RESULT_FIELDS = [''subject_sha'', ''preview_digest'', ''evidence_refs'', ''reason_codes'', ''metadata'']"

definition step_result :: "run \<Rightarrow> string \<Rightarrow> string \<Rightarrow> dict \<Rightarrow> dict res" where
  "step_result s key outcome kw = (let unknown = keys_beyond kw RESULT_FIELDS in
     if unknown \<noteq> [] then Inl (ValueError (''EXECUTOR_UNKNOWN_RESULT_FIELDS:'' @ join '','' (sort unknown)))
     else Inr [(''phase'', JStr (run_phase s)), (''outcome'', JStr outcome), (''idempotency_key'', JStr key),
       (''subject_sha'', dget_or kw ''subject_sha'' (run_subject_sha s)), (''preview_digest'', dget_or kw ''preview_digest'' (run_preview_digest s)),
       (''evidence_refs'', dget_or kw ''evidence_refs'' (JList [])), (''reason_codes'', dget_or kw ''reason_codes'' (JList [])),
       (''cost_usd'', JInt 0), (''metadata'', dget_or kw ''metadata'' (JObj []))])"

definition resultP :: "run \<Rightarrow> string \<Rightarrow> string \<Rightarrow> dict \<Rightarrow> ('s, produced) prog" where
  "resultP s key outcome kw = bindP (liftP (step_result s key outcome kw)) (\<lambda>d. retP (Produced d))"

text \<open>\<open>_github\<close>: without a repository or a token the executor waits for the owner.\<close>

definition with_client :: "('r, 'y) exec_env \<Rightarrow> string \<Rightarrow> ('r github \<Rightarrow> (('r, 'y) place, produced) prog) \<Rightarrow> (('r, 'y) place, produced) prog" where
  "with_client en capability k = (case xe_client en of
     None \<Rightarrow> waitP ''HUMAN_REQUIRED'' ''GITHUB_CONNECTION_REQUIRED'' capability (xe_auth en) | Some c \<Rightarrow> k c)"

text \<open>\<open>_evidence_refs\<close>: nothing when the readback is absent or cannot be read.\<close>

definition evidence_refs :: "('r, 'y) place \<Rightarrow> json list" where
  "evidence_refs f = (case sf_provider f of None \<Rightarrow> []
     | Some r \<Rightarrow> (case bindE r (\<lambda>v. bindE (getE (py_or v (JObj [])) ''evidence_refs'') (\<lambda>w. iterE (py_or w (JList [])))) of
         Inl e \<Rightarrow> [] | Inr refs \<Rightarrow> refs))"

text \<open>\<open>str(state.get("subject_sha") or "")\<close> and the like.\<close>

definition text_or :: "json \<Rightarrow> string \<Rightarrow> string" where
  "text_or v d = py_str (py_or v (JStr d))"

definition subject_of :: "run \<Rightarrow> string" where
  "subject_of s = text_or (run_subject_sha s) []"

text \<open>\<open>str.isdigit\<close>, which also holds of superscript digits.\<close>

definition isdigit :: "string \<Rightarrow> bool" where
  "isdigit s = (s \<noteq> [] \<and> list_all (\<lambda>c. is_digit c \<or> (of_char c :: nat) \<in> {178, 179, 185}) s)"

section \<open>The policy of the lease\<close>

record lease_policy =
  lp_ceiling :: json
  lp_ttl :: int
  lp_heartbeat :: int

definition int_within :: "json \<Rightarrow> int \<Rightarrow> bool" where
  "int_within v n = (strict_int v \<and> 1 \<le> int_of v \<and> int_of v \<le> n)"

definition policy_of_config :: "json \<Rightarrow> (string + lease_policy) res" where
  "policy_of_config cfg = bindE (getE cfg ''orchestration'') (\<lambda>v. let orch = dict_of v; maxw = dget orch ''max_parallel_writers'';
       ttl = dget orch ''lease_ttl_minutes''; heartbeat = dget orch ''heartbeat_minutes'' in
     Inr (if \<not> py_eq maxw (JInt 1) then Inl ''STAGE1_WRITER_CEILING_NOT_SINGLETON''
       else if \<not> int_within ttl 240 then Inl ''LEASE_TTL_POLICY_INVALID''
       else if \<not> int_within heartbeat 120 then Inl ''LEASE_HEARTBEAT_POLICY_INVALID''
       else Inr \<lparr>lp_ceiling = maxw, lp_ttl = int_of ttl, lp_heartbeat = int_of heartbeat\<rparr>))"

definition orchestration_policy :: "(('r, 'y) place, string + lease_policy) prog" where
  "orchestration_policy = bindP (getP (\<lambda>f. bindE (read_file (xo_config (sf_outside f))) policy_of_config)) liftP"

section \<open>The identity of the writer\<close>

definition current_main :: "'r github \<Rightarrow> ('r net, string \<times> string) prog" where
  "current_main c = bindP (repo_info c) (\<lambda>info. let default = text_or (dget info ''default_branch'') ''main'' in
     bindP (gh_branch c default) (\<lambda>b. bindP (liftP (sha_field b ''commit'')) (\<lambda>s.
     bindP (checkP (sha40 s) (ValueError ''DEFAULT_BRANCH_SHA_NOT_VERIFIED'')) (\<lambda>_. retP (default, s)))))"

definition writer_id :: "run \<Rightarrow> string res" where
  "writer_id s = (if run_id s = [] then Inl (ValueError ''WRITER_RUN_ID_REQUIRED'') else Inr (''adwf-runtime:'' @ run_id s))"

text \<open>\<open>re.sub(r"[^a-z0-9-]+", "-", s)\<close>.\<close>

fun dash_runs :: "bool \<Rightarrow> string \<Rightarrow> string" where
  "dash_runs inside [] = []"
| "dash_runs inside (c # cs) = (if slug_char c \<or> c = CHR ''-'' then c # dash_runs False cs
     else if inside then dash_runs True cs else CHR ''-'' # dash_runs True cs)"

definition writer_branch :: "(string \<Rightarrow> string) \<Rightarrow> run \<Rightarrow> string" where
  "writer_branch sha s = (let roadmap = map (\<lambda>c. if c = CHR ''_'' then CHR ''-'' else c) (lower (run_roadmap_id s));
       name = strip_hyphens (dash_runs False roadmap) in
     ''adwf/'' @ take 120 (if name = [] then ''work'' else name) @ ''-'' @ take 12 (sha (run_id s)))"

text \<open>The resource of every lease of this stage: the whole repository.\<close>

definition STAGE1_RESOURCES :: json where
  "STAGE1_RESOURCES = JList [JObj [(''kind'', JStr ''provider''), (''scope'', JStr ''global''), (''shared'', JBool True), (''global'', JBool True)]]"

definition same_lease :: "run \<Rightarrow> string \<Rightarrow> dict \<Rightarrow> bool res" where
  "same_lease s branch l = (if dget l ''status'' \<noteq> JStr ''ACTIVE'' \<or> dget l ''issue_id'' \<noteq> JStr (run_issue_id s)
       \<or> dget l ''roadmap_id'' \<noteq> JStr (run_roadmap_id s) then Inr False
     else bindE (writer_id s) (\<lambda>w. Inr (dget l ''worker_id'' = JStr w \<and> dget l ''branch'' = JStr branch
       \<and> py_eq (dget l ''resources'') STAGE1_RESOURCES)))"

definition minutes_us :: "int \<Rightarrow> int" where
  "minutes_us n = n * 60 * 1000000"

definition lease_is_fresh :: "int \<Rightarrow> int \<Rightarrow> dict \<Rightarrow> bool res" where
  "lease_is_fresh now heartbeat_minutes l = catchE is_TV
     (bindE (get_time l ''heartbeat_at'') (\<lambda>h. bindE (get_time l ''expires_at'') (\<lambda>e.
       Inr (now < e \<and> h \<le> now \<and> now - h \<le> minutes_us heartbeat_minutes)))) (\<lambda>_. Inr False)"

text \<open>The leases of a registry the store returned, which are dictionaries.\<close>

definition lease_dicts :: "dict \<Rightarrow> dict list" where
  "lease_dicts d = map dict_of (reg_leases d)"

text \<open>
  The ceiling of the configuration is any value equal to 1; an empty registry is built only with an
  integer, a registry read from the provider is compared with it.
\<close>

definition read_registry :: "(string \<Rightarrow> string) \<Rightarrow> 'r github \<Rightarrow> string \<Rightarrow> json \<Rightarrow> ('r net, dict \<times> string option) prog" where
  "read_registry sha c main_sha maxw = bindP (read_store sha c main_sha 1) (\<lambda>(d, anchor).
     bindP (checkP (anchor \<noteq> None \<or> strict_int maxw) (ValueError ''LEASE_REGISTRY_CEILING_INVALID'')) (\<lambda>_. retP (d, anchor)))"

section \<open>The live writer\<close>

definition POSTMERGE_PHASES :: "string list" where
  "POSTMERGE_PHASES = [''PROMOTE'', ''OBSERVE'', ''DONE'', ''CLEANUP'', ''RECOVERY'']"

definition blockedP :: "string \<Rightarrow> string \<Rightarrow> dict \<Rightarrow> ('s, executor_wait option) prog" where
  "blockedP status reason details = retP (Some (wait_for status reason ''claim'' details))"

text \<open>A lease is renewed when half the interval, and at least a minute, has passed since its heartbeat.\<close>

definition renew_lease :: "('r, 'y) exec_env \<Rightarrow> 'r github \<Rightarrow> lease_policy \<Rightarrow> run \<Rightarrow> string \<Rightarrow> dict \<Rightarrow> (('r, 'y) place, executor_wait option) prog" where
  "renew_lease en c p s main_sha l = bindP (liftP (ditemE l ''heartbeat_at'')) (\<lambda>h. bindP (liftP (parse_time (py_str h))) (\<lambda>heartbeat.
     if xe_clock en 1 - heartbeat < max 60 (lp_heartbeat p * 30) * 1000000 then retP None
     else bindP (attemptP (bindP (liftP (ditemE l ''lease_id'')) (\<lambda>lid. bindP (liftP (writer_id s)) (\<lambda>w.
         on_net (store_heartbeat (xe_sha en) c main_sha 1 (py_str lid) w (lp_ttl p) (xe_clock en 2)))))) (\<lambda>r. case r of
       Inl e \<Rightarrow> blockedP ''NOT_VERIFIED'' ''LEASE_HEARTBEAT_FAILED'' (contract_error e) | Inr _ \<Rightarrow> retP None)))"

definition lease_gate :: "('r, 'y) exec_env \<Rightarrow> 'r github \<Rightarrow> lease_policy \<Rightarrow> run \<Rightarrow> string \<Rightarrow> string \<Rightarrow> dict \<Rightarrow> dict
    \<Rightarrow> (('r, 'y) place, executor_wait option) prog" where
  "lease_gate en c p s phase main_sha d l = bindP (liftP (lease_is_fresh (xe_clock en 0) (lp_heartbeat p) l)) (\<lambda>fresh.
     let delivery = text_or (run_delivery_sha s) [] in
     if \<not> fresh then blockedP ''NOT_VERIFIED'' ''LEASE_RECONCILIATION_REQUIRED'' [(''lease_id'', dget l ''lease_id'')]
     else if phase \<in> set POSTMERGE_PHASES \<and> sha40 delivery then
       (if main_sha \<noteq> delivery then blockedP ''NOT_VERIFIED'' ''DELIVERY_MAIN_RECONCILIATION_REQUIRED''
           [(''current_main'', JStr main_sha), (''delivery_sha'', JStr delivery)]
        else retP None)
     else if dget d ''observed_main_sha'' \<noteq> JStr main_sha \<or> dget l ''base_sha'' \<noteq> JStr main_sha then
       blockedP ''NOT_VERIFIED'' ''LEASE_MAIN_RECONCILIATION_REQUIRED'' [(''current_main'', JStr main_sha),
         (''registry_main'', dget d ''observed_main_sha''), (''lease_base'', dget l ''base_sha'')]
     else renew_lease en c p s main_sha l)"

definition read_at_main :: "(string \<Rightarrow> string) \<Rightarrow> 'r github \<Rightarrow> json \<Rightarrow> ('r net, string \<times> dict) prog" where
  "read_at_main sha c maxw = bindP (current_main c) (\<lambda>(_, main_sha). bindP (read_registry sha c main_sha maxw) (\<lambda>(d, _). retP (main_sha, d)))"

definition work_branch :: "run \<Rightarrow> string" where
  "work_branch s = (case run_work_branch s of None \<Rightarrow> [] | Some b \<Rightarrow> b)"

definition require_live_writer_authority :: "('r, 'y) exec_env \<Rightarrow> run \<Rightarrow> string \<Rightarrow> (('r, 'y) place, executor_wait option) prog" where
  "require_live_writer_authority en s phase = (case xe_client en of
     None \<Rightarrow> blockedP ''HUMAN_REQUIRED'' ''GITHUB_CONNECTION_REQUIRED'' (xe_auth en)
   | Some c \<Rightarrow> bindP orchestration_policy (\<lambda>policy. case policy of
       Inl code \<Rightarrow> blockedP ''NOT_VERIFIED'' code []
     | Inr p \<Rightarrow> bindP (attemptP (on_net (read_at_main (xe_sha en) c (lp_ceiling p)))) (\<lambda>got. case got of
         Inl e \<Rightarrow> blockedP ''NOT_VERIFIED'' ''LEASE_PROVIDER_READBACK_FAILED'' (contract_error e)
       | Inr (main_sha, d) \<Rightarrow> bindP (liftP (filterE (same_lease s (work_branch s)) (lease_dicts d))) (\<lambda>matches. case matches of
           [l] \<Rightarrow> lease_gate en c p s phase main_sha d l
         | _ \<Rightarrow> blockedP ''NOT_VERIFIED'' ''LIVE_PROVIDER_LEASE_REQUIRED''
             [(''matches'', JInt (int (length matches))), (''registry_revision'', dget d ''revision'')]))))"

section \<open>Claim\<close>

definition stage1_request :: "('r, 'y) exec_env \<Rightarrow> lease_policy \<Rightarrow> run \<Rightarrow> string \<Rightarrow> string \<Rightarrow> acquire_request" where
  "stage1_request en p s worker main_sha = \<lparr>aq_revision = 0, aq_main_sha = main_sha, aq_ceiling = 1, aq_issue_id = run_issue_id s,
     aq_roadmap_id = run_roadmap_id s, aq_worker_id = worker, aq_base_sha = subject_of s, aq_branch = writer_branch (xe_sha en) s,
     aq_resources = STAGE1_RESOURCES, aq_ttl_minutes = lp_ttl p, aq_lease_id = []\<rparr>"

definition lease_metadata :: "dict \<Rightarrow> string option \<Rightarrow> dict \<Rightarrow> string \<Rightarrow> bool \<Rightarrow> json res" where
  "lease_metadata l anchor d branch resumed = bindE (ditemE l ''lease_id'') (\<lambda>lid. bindE (ditemE d ''revision'') (\<lambda>revision.
     Inr (JObj [(''lease_model'', JStr ''PROVIDER_DURABLE_CAS''), (''lease_id'', lid), (''lease_anchor'', opt_str anchor),
       (''lease_registry_revision'', revision), (''branch'', JStr branch), (''resumed_existing'', JBool resumed)])))"

definition is_active :: "dict \<Rightarrow> bool" where
  "is_active l = (dget l ''status'' = JStr ''ACTIVE'')"

definition claim_body :: "('r, 'y) exec_env \<Rightarrow> 'r github \<Rightarrow> lease_policy \<Rightarrow> run \<Rightarrow> string \<Rightarrow> string \<Rightarrow> (('r, 'y) place, produced) prog" where
  "claim_body en c p s key worker = (let base = subject_of s; branch = writer_branch (xe_sha en) s in
     bindP (on_net (current_main c)) (\<lambda>(_, main_sha).
     if main_sha \<noteq> base then waitP ''NOT_VERIFIED'' ''LEASE_BASE_MAIN_DRIFT'' ''claim'' [(''expected'', JStr base), (''actual'', JStr main_sha)]
     else bindP (on_net (read_store (xe_sha en) c main_sha 1)) (\<lambda>(d, anchor). let active = filter is_active (lease_dicts d) in
     bindP (liftP (filterE (\<lambda>l. bindE (same_lease s branch l) (\<lambda>b. Inr (b \<and> dget l ''base_sha'' = JStr base))) active)) (\<lambda>compatible.
     if active = [] then bindP (on_net (store_acquire (xe_sha en) c (stage1_request en p s worker main_sha) (xe_uuid en) (xe_clock en 1)))
       (\<lambda>(d', l, anchor'). bindP (liftP (lease_metadata l (Some anchor') d' branch False)) (\<lambda>metadata.
         resultP s key ''PASS'' [(''metadata'', metadata)]))
     else bindP (liftP (case (active, compatible) of
         ([_], [l]) \<Rightarrow> lease_is_fresh (xe_clock en 0) (lp_heartbeat p) l | _ \<Rightarrow> Inr False)) (\<lambda>resumed.
       if resumed then bindP (liftP (lease_metadata (hd compatible) anchor d branch True)) (\<lambda>metadata.
         resultP s key ''PASS'' [(''metadata'', metadata)])
       else waitP ''NOT_VERIFIED'' ''ACTIVE_PROVIDER_LEASE_INCOMPATIBLE'' ''claim'' [(''active'', JInt (int (length active))),
         (''compatible'', JInt (int (length compatible))), (''registry_revision'', dget d ''revision'')])))))"

text \<open>A body under \<open>try\<close>: any exception becomes a wait.\<close>

definition guardedP :: "('s, produced) prog \<Rightarrow> string \<Rightarrow> string \<Rightarrow> ('s, produced) prog" where
  "guardedP m reason capability = bindP (attemptP m) (\<lambda>r. case r of
     Inl e \<Rightarrow> waitP ''NOT_VERIFIED'' reason capability (contract_error e) | Inr made \<Rightarrow> retP made)"

definition claim_executor :: "('r, 'y) exec_env \<Rightarrow> run \<Rightarrow> string \<Rightarrow> json \<Rightarrow> (('r, 'y) place, produced) prog" where
  "claim_executor en s key envelope = with_client en ''claim'' (\<lambda>c. bindP orchestration_policy (\<lambda>policy. case policy of
     Inl code \<Rightarrow> waitP ''NOT_VERIFIED'' code ''claim'' []
   | Inr p \<Rightarrow> if \<not> isdigit (run_issue_id s) then waitP ''NOT_VERIFIED'' ''LEASE_ISSUE_ID_REQUIRED'' ''claim'' []
       else if \<not> sha40 (subject_of s) then waitP ''NOT_VERIFIED'' ''LEASE_BASE_SHA_REQUIRED'' ''claim'' []
       else bindP (liftP (writer_id s)) (\<lambda>worker. guardedP (claim_body en c p s key worker) ''LEASE_PROVIDER_ACQUIRE_FAILED'' ''claim'')))"

section \<open>Cleanup\<close>

definition close_work_item :: "'r github \<Rightarrow> string \<Rightarrow> ('r net, bool option) prog" where
  "close_work_item c issue = (if \<not> isdigit issue then retP None
     else bindP (liftP (py_int (JStr issue))) (\<lambda>n. bindP (close_issue c n) (\<lambda>item. retP (Some (field_text item ''state'' = ''closed'')))))"

definition cleanup_metadata :: "json \<Rightarrow> string \<Rightarrow> dict \<Rightarrow> string \<Rightarrow> bool \<Rightarrow> json res" where
  "cleanup_metadata lid anchor d main_sha shut = bindE (ditemE d ''revision'') (\<lambda>revision. Inr (JObj [
     (''cleanup'', JStr ''RUNTIME_PROJECTIONS_RETAINED_AUDIT_LOG_IMMUTABLE''), (''lease_id'', lid), (''lease_release_anchor'', JStr anchor),
     (''lease_registry_revision'', revision), (''provider_reconciliation_ref'', JStr (''github:commit:'' @ main_sha)), (''issue_closed'', JBool shut)]))"

definition finish_cleanup :: "'r github \<Rightarrow> run \<Rightarrow> string \<Rightarrow> json \<Rightarrow> string \<Rightarrow> dict \<Rightarrow> string \<Rightarrow> (('r, 'y) place, produced) prog" where
  "finish_cleanup c s key lid anchor d main_sha = bindP (on_net (close_work_item c (run_issue_id s))) (\<lambda>shut.
     if shut = Some False then waitP ''NOT_VERIFIED'' ''ISSUE_CLOSE_READBACK_NOT_CONFIRMED'' ''cleanup'' []
     else bindP (liftP (cleanup_metadata lid anchor d main_sha (shut = Some True))) (\<lambda>metadata.
       resultP s key ''PASS'' [(''metadata'', metadata)]))"

definition release_and_reread :: "('r, 'y) exec_env \<Rightarrow> 'r github \<Rightarrow> run \<Rightarrow> string \<Rightarrow> string \<Rightarrow> dict \<Rightarrow> (('r, 'y) place, produced) prog" where
  "release_and_reread en c s key main_sha l = bindP (liftP (ditemE l ''lease_id'')) (\<lambda>lid. bindP (liftP (writer_id s)) (\<lambda>worker.
     bindP (on_net (store_release (xe_sha en) c main_sha 1 (py_str lid) worker True (''github:commit:'' @ main_sha) (xe_clock en 1))) (\<lambda>(released, anchor).
     bindP (on_net (read_store (xe_sha en) c main_sha 1)) (\<lambda>(reread, _).
     if list_ex (\<lambda>x. is_active x \<and> py_eq (dget x ''lease_id'') lid) (lease_dicts reread)
       then waitP ''NOT_VERIFIED'' ''LEASE_RELEASE_READBACK_ACTIVE'' ''cleanup'' []
     else finish_cleanup c s key lid anchor released main_sha))))"

definition cleanup_body :: "('r, 'y) exec_env \<Rightarrow> 'r github \<Rightarrow> run \<Rightarrow> string \<Rightarrow> (('r, 'y) place, produced) prog" where
  "cleanup_body en c s key = bindP (on_net (current_main c)) (\<lambda>(_, main_sha). let delivery = text_or (run_delivery_sha s) [] in
     if \<not> sha40 delivery \<or> main_sha \<noteq> delivery then waitP ''NOT_VERIFIED'' ''CLEANUP_DELIVERY_MAIN_REQUIRED'' ''cleanup''
       [(''current_main'', JStr main_sha), (''delivery_sha'', JStr delivery)]
     else bindP (on_net (read_store (xe_sha en) c main_sha 1)) (\<lambda>(d, _).
       bindP (liftP (filterE (same_lease s (work_branch s)) (lease_dicts d))) (\<lambda>matches. case matches of
         [l] \<Rightarrow> release_and_reread en c s key main_sha l
       | _ \<Rightarrow> waitP ''NOT_VERIFIED'' ''CLEANUP_ACTIVE_LEASE_REQUIRED'' ''cleanup'' [(''matches'', JInt (int (length matches)))])))"

definition cleanup_executor :: "('r, 'y) exec_env \<Rightarrow> run \<Rightarrow> string \<Rightarrow> json \<Rightarrow> (('r, 'y) place, produced) prog" where
  "cleanup_executor en s key envelope = with_client en ''cleanup'' (\<lambda>c. bindP orchestration_policy (\<lambda>policy. case policy of
     Inl code \<Rightarrow> waitP ''NOT_VERIFIED'' code ''cleanup'' []
   | Inr p \<Rightarrow> guardedP (cleanup_body en c s key) ''LEASE_PROVIDER_RELEASE_FAILED'' ''cleanup''))"

end
