(* ===== verification/ActionExecutors.thy ===== *)
theory ActionExecutors
  imports WriterGate
begin

text \<open>
  The second half of the phase executors (\<open>.adwf/lib/action_executors.py\<close>): one executor per phase, the
  registry that runs the executor of a phase behind the writer gate, and the adapter of commands
  (\<open>.adwf/lib/delivery_adapters.py\<close>).  Executors only produce claims and provider facts; what a run does with them is
  decided afterwards by the trusted code.
\<close>

section \<open>Reconcile\<close>

text \<open>\<open>_memory\<close>: a memory that is absent or refused counts as none.\<close>

definition memory_or_none :: "(string \<Rightarrow> string) \<Rightarrow> ('r, 'y) place \<Rightarrow> dict res" where
  "memory_or_none sha f = catchE is_ValueError (bindE (memory_load sha (sf_memory f)) (\<lambda>m. Inr (case m of None \<Rightarrow> [] | Some d \<Rightarrow> d)))
     (\<lambda>_. Inr [])"

text \<open>\<open>memory.setdefault("references", {}).setdefault(k, [])\<close>, and an item appended to it.\<close>

definition references_of :: "string \<Rightarrow> dict \<Rightarrow> (dict \<times> json list) res" where
  "references_of k m = (case dget_or m ''references'' (JObj []) of
     JObj refs \<Rightarrow> (case dget_or refs k (JList []) of JList xs \<Rightarrow> Inr (refs, xs) | _ \<Rightarrow> Inl AttributeError)
   | _ \<Rightarrow> Inl AttributeError)"

definition add_reference :: "string \<Rightarrow> json \<Rightarrow> dict \<Rightarrow> dict res" where
  "add_reference k item m = bindE (references_of k m) (\<lambda>(refs, xs).
     Inr (dput ''references'' (JObj (dput k (JList (xs @ [item])) refs)) m))"

definition save_memory :: "('r, 'y) exec_env \<Rightarrow> nat \<Rightarrow> dict res \<Rightarrow> dict \<Rightarrow> (('r, 'y) place, unit) prog" where
  "save_memory en i changed m = bindP (liftP (ditemE m ''revision'')) (\<lambda>revision. bindP (liftP changed) (\<lambda>m'.
     bindP (on_memory_file (memory_save (xe_sha en) (iso (xe_clock en i)) m' revision)) (\<lambda>_. retP ())))"

definition reconcile_process :: "('r, 'y) exec_env \<Rightarrow> 'r github \<Rightarrow> run \<Rightarrow> string \<Rightarrow> string \<Rightarrow> string \<Rightarrow> string \<Rightarrow> (('r, 'y) place, produced) prog" where
  "reconcile_process en c s key issue dflt main_sha = bindP (xe_reconcile en main_sha) (\<lambda>p.
     if pr_code p \<noteq> 0 \<and> pr_code p \<noteq> 1 then waitP ''NOT_VERIFIED'' ''GITHUB_RECONCILIATION_FAILED'' ''reconcile''
       [(''stderr'', JStr (drop (length (pr_stderr p) - 300) (pr_stderr p)))]
     else resultP s key ''PASS'' [(''subject_sha'', JStr main_sha), (''metadata'', JObj [(''issue_id'', JStr issue),
       (''repository'', JStr (gh_repo c)), (''default_branch'', JStr dflt)])])"

definition intent_body :: "run \<Rightarrow> string \<Rightarrow> string" where
  "intent_body s task = ''ADWF Owner Intent'' @ [CHR 10, CHR 10] @ ''Brief: '' @ [CHR 0x60] @ run_roadmap_id s @ [CHR 0x60, CHR 10]
     @ ''Run: '' @ [CHR 0x60] @ run_id s @ [CHR 0x60, CHR 10, CHR 10] @ task @ [CHR 10]"

definition create_work_item :: "('r, 'y) exec_env \<Rightarrow> 'r github \<Rightarrow> run \<Rightarrow> string \<Rightarrow> string \<Rightarrow> string \<Rightarrow> (('r, 'y) place, produced) prog" where
  "create_work_item en c s key dflt main_sha = bindP (getP (memory_or_none (xe_sha en))) (\<lambda>r. bindP (liftP r) (\<lambda>m.
     let task = strip (text_or (dget m ''task_ru'') (xe_ru en ''owner_task'')) in
     bindP (on_net (create_issue c (''[ADWF] '' @ take 90 task) (intent_body s task))) (\<lambda>issue. let n = field_text issue ''number'' in
     if n = [] then waitP ''NOT_VERIFIED'' ''ISSUE_CREATE_READBACK_MISSING'' ''reconcile'' []
     else bindP (if m = [] then retP () else save_memory en 0 (bindE (references_of ''issues'' m) (\<lambda>_. bindE (py_int (JStr n)) (\<lambda>i.
         add_reference ''issues'' (JObj [(''number'', JInt i), (''url'', dget issue ''html_url'')]) m))) m) (\<lambda>_.
       reconcile_process en c s key n dflt main_sha))))"

definition check_work_item :: "'r github \<Rightarrow> string \<Rightarrow> (('r, 'y) place, executor_wait option) prog" where
  "check_work_item c issue = (let wait = (\<lambda>reason details. retP (Some (wait_for ''NOT_VERIFIED'' reason ''reconcile'' ((''issue_id'', JStr issue) # details)))) in
     tryP (bindP (liftP (py_int (JStr issue))) (\<lambda>n. bindP (on_net (gh_get c (gh_path c (''/issues/'' @ int_str n)))) (\<lambda>d.
         if dget d ''state'' \<noteq> JStr ''open'' then wait ''WORK_ITEM_PROVIDER_TERMINAL'' [(''issue_state'', dget d ''state'')] else retP None)))
       (\<lambda>e. case e of ProviderContractError t \<Rightarrow> wait ''WORK_ITEM_PROVIDER_READBACK_FAILED'' (contract_error e) | _ \<Rightarrow> raiseP e))"

definition repository_main :: "'r github \<Rightarrow> ('r net, string \<times> string) prog" where
  "repository_main c = bindP (repo_info c) (\<lambda>info. let dflt = text_or (dget info ''default_branch'') ''main'' in
     bindP (gh_branch c dflt) (\<lambda>b. bindP (liftP (sha_field b ''commit'')) (\<lambda>s. retP (dflt, s))))"

definition reconcile_executor :: "('r, 'y) exec_env \<Rightarrow> run \<Rightarrow> string \<Rightarrow> json \<Rightarrow> (('r, 'y) place, produced) prog" where
  "reconcile_executor en s key envelope = with_client en ''reconcile'' (\<lambda>c. bindP (on_net (repository_main c)) (\<lambda>(dflt, main_sha).
     let issue = (if run_issue_id s = [] then ''PENDING'' else run_issue_id s) in
     if \<not> sha40 main_sha then waitP ''NOT_VERIFIED'' ''DEFAULT_BRANCH_SHA_NOT_VERIFIED'' ''reconcile'' []
     else if issue = ''PENDING'' then create_work_item en c s key dflt main_sha
     else bindP (if isdigit issue then check_work_item c issue else retP None) (\<lambda>w. case w of
       Some e \<Rightarrow> retP (Waiting e) | None \<Rightarrow> reconcile_process en c s key issue dflt main_sha)))"

definition authorize_executor :: "('r, 'y) exec_env \<Rightarrow> run \<Rightarrow> string \<Rightarrow> json \<Rightarrow> (('r, 'y) place, produced) prog" where
  "authorize_executor en s key envelope = resultP s key ''PASS'' [(''metadata'', JObj [(''authorization_source'', JStr ''TRUSTED_CONTEXT_COMPILER'')])]"

definition workspace_executor :: "('r, 'y) exec_env \<Rightarrow> run \<Rightarrow> string \<Rightarrow> json \<Rightarrow> (('r, 'y) place, produced) prog" where
  "workspace_executor en s key envelope = resultP s key ''PASS'' [(''metadata'', JObj [(''workspace_mode'', JStr ''REPLACEABLE_AGENT_DISPOSABLE_WORKSPACE''),
     (''trust'', JStr ''LOW'')])]"

section \<open>Creative work\<close>

definition agent_fails :: "run \<Rightarrow> string \<Rightarrow> string \<Rightarrow> dict \<Rightarrow> (('r, 'y) place, produced option) prog" where
  "agent_fails s key code metadata = bindP (resultP s key ''FAIL'' ((''reason_codes'', strs [code]) #
     (if metadata = [] then [] else [(''metadata'', JObj metadata)]))) (\<lambda>made. retP (Some made))"

definition agent_result :: "run \<Rightarrow> string \<Rightarrow> dict \<Rightarrow> dict \<Rightarrow> dict res" where
  "agent_result s key adapter w = bindE (ditemE w ''outcome'') (\<lambda>outcome. bindE (ditemE w ''reason_codes'') (\<lambda>codes.
     bindE (ditemE adapter ''id'') (\<lambda>i. bindE (ditemE adapter ''version'') (\<lambda>v. Inr [(''phase'', JStr (run_phase s)), (''outcome'', outcome),
       (''idempotency_key'', JStr key), (''subject_sha'', dget w ''head_sha''), (''preview_digest'', run_preview_digest s), (''evidence_refs'', JList []),
       (''reason_codes'', codes), (''transient'', JBool (outcome = JStr ''RETRY'')), (''cost_usd'', JInt 0),
       (''metadata'', JObj [(''source'', JStr ''LOW_TRUST_AGENT_COMMAND''), (''adapter_id'', i), (''adapter_version'', v), (''ai_work_result'', JObj w)])]))))"

text \<open>The result file of the agent, bound to its work package.\<close>

definition bind_agent_result :: "('r, 'y) exec_env \<Rightarrow> run \<Rightarrow> string \<Rightarrow> dict \<Rightarrow> dict \<Rightarrow> dict \<Rightarrow> (('r, 'y) place, produced option) prog" where
  "bind_agent_result en s key adapter package said = bindP (getP (\<lambda>f.
       canonicalize_low_trust_claim (xe_sha en) said package (iso (xe_clock en 3)))) (\<lambda>r. case r of
     Inl e \<Rightarrow> if is_ValueError e then agent_fails s key ''AGENT_RESULT_CONTRACT_INVALID'' (contract_error e) else raiseP e
   | Inr w \<Rightarrow> bindP (getP (xe_binding en package w)) (\<lambda>b. bindP (liftP b) (\<lambda>errors.
       if errors \<noteq> [] then agent_fails s key ''AGENT_RESULT_LOCAL_BINDING_INVALID'' [(''binding_errors'', JList errors)]
       else bindP (liftP (agent_result s key adapter w)) (\<lambda>d. retP (Some (Produced d))))))"

definition read_agent_result :: "('r, 'y) exec_env \<Rightarrow> run \<Rightarrow> string \<Rightarrow> dict \<Rightarrow> dict \<Rightarrow> (('r, 'y) place, produced option) prog" where
  "read_agent_result en s key adapter package = bindP (getP (\<lambda>f. sf_results f key)) (\<lambda>file. case file of
     None \<Rightarrow> agent_fails s key ''AGENT_RESULT_MISSING'' []
   | Some (Inl e) \<Rightarrow> if e = OSError \<or> is_ValueError e then agent_fails s key ''AGENT_RESULT_INVALID'' (contract_error e) else raiseP e
   | Some (Inr (JObj said)) \<Rightarrow> bind_agent_result en s key adapter package said
   | Some (Inr _) \<Rightarrow> agent_fails s key ''AGENT_RESULT_INVALID'' [])"

definition run_agent :: "('r, 'y) exec_env \<Rightarrow> run \<Rightarrow> string \<Rightarrow> dict \<Rightarrow> dict \<Rightarrow> (('r, 'y) place, produced option) prog" where
  "run_agent en s key adapter package = bindP (tryP (bindP (xe_agent en adapter key) (\<lambda>p. retP (Inr p)))
       (\<lambda>e. if e = OSError \<or> is_ValueError e then retP (Inl e) else raiseP e)) (\<lambda>did. case did of
     Inl e \<Rightarrow> agent_fails s key ''AGENT_COMMAND_START_FAILED'' (contract_error e)
   | Inr None \<Rightarrow> agent_fails s key ''AGENT_COMMAND_TIMEOUT'' []
   | Inr (Some p) \<Rightarrow> if pr_code p \<noteq> 0 then agent_fails s key ''AGENT_COMMAND_FAILED'' [(''exit_code'', JInt (pr_code p)),
         (''stderr_tail'', JStr (drop (length (pr_stderr p) - 500) (pr_stderr p)))]
       else read_agent_result en s key adapter package)"

text \<open>\<open>envelope.get("work_package_digest") not in {None, package.get("package_digest")}\<close>.\<close>

definition package_bound :: "json \<Rightarrow> dict \<Rightarrow> bool res" where
  "package_bound envelope package = bindE (getE envelope ''work_package_digest'') (\<lambda>w. bindE (hashE (dget package ''package_digest'')) (\<lambda>d.
     bindE (hashE w) (\<lambda>_. Inr (w = JNull \<or> py_eq w d))))"

definition run_agent_package :: "('r, 'y) exec_env \<Rightarrow> run \<Rightarrow> string \<Rightarrow> json \<Rightarrow> dict \<Rightarrow> (('r, 'y) place, produced option) prog" where
  "run_agent_package en s key envelope adapter = bindP (liftP (getE envelope ''work_package'')) (\<lambda>v. case v of
     JObj package \<Rightarrow> bindP (liftP (package_bound envelope package)) (\<lambda>bound.
       if \<not> bound then agent_fails s key ''AI_WORK_PACKAGE_DIGEST_MISMATCH'' [] else run_agent en s key adapter package)
   | _ \<Rightarrow> agent_fails s key ''AI_WORK_PACKAGE_MISSING'' [])"

definition run_agent_command :: "('r, 'y) exec_env \<Rightarrow> run \<Rightarrow> string \<Rightarrow> json \<Rightarrow> (('r, 'y) place, produced option) prog" where
  "run_agent_command en s key envelope = (let raw = strip (xe_var en ''ADWF_AGENT_COMMAND''); aid = strip (xe_var en ''ADWF_AGENT_ADAPTER_ID'') in
     if raw = [] \<and> aid = [] then retP None
     else if aid = [] then agent_fails s key ''AGENT_COMMAND_UNQUALIFIED'' []
     else if raw \<noteq> [] then agent_fails s key ''AGENT_COMMAND_OVERRIDE_FORBIDDEN'' []
     else bindP (getP (xe_adapter en aid (run_phase s))) (\<lambda>r. case r of
       Inl e \<Rightarrow> if e = OSError \<or> is_ValueError e then agent_fails s key ''AGENT_ADAPTER_UNQUALIFIED'' (contract_error e) else raiseP e
     | Inr adapter \<Rightarrow> if dget adapter ''kind'' = JStr ''REFERENCE_DETERMINISTIC'' \<and> xe_var en ''ADWF_ALLOW_REFERENCE_AGENT'' \<noteq> ''1''
         then agent_fails s key ''REFERENCE_AGENT_RUNTIME_FORBIDDEN'' [] else run_agent_package en s key envelope adapter))"

definition creative_executor :: "('r, 'y) exec_env \<Rightarrow> run \<Rightarrow> string \<Rightarrow> json \<Rightarrow> (('r, 'y) place, produced) prog" where
  "creative_executor en s key envelope = bindP (run_agent_command en s key envelope) (\<lambda>made. case made of
     Some d \<Rightarrow> retP d
   | None \<Rightarrow> bindP (liftP (getE envelope ''capability'')) (\<lambda>capability. waitP ''WAITING_AGENT'' ''CREATIVE_AGENT_RESULT_REQUIRED''
       (text_or capability ''edit'') [(''idempotency_key'', JStr key), (''agent_inbox_supported'', JBool True)]))"

section \<open>The pull request\<close>

text \<open>The open pull requests whose head is a commit.\<close>

definition open_at :: "string \<Rightarrow> dict list \<Rightarrow> dict list res" where
  "open_at sha pulls = filterE (\<lambda>p. bindE (sha_field p ''head'') (\<lambda>h. Inr (h = sha \<and> dget p ''state'' = JStr ''open''))) pulls"

definition open_pulls :: "'r github \<Rightarrow> string \<Rightarrow> ('r net, dict list) prog" where
  "open_pulls c sha = bindP (gh_pulls c) (\<lambda>pulls. liftP (open_at sha pulls))"

text \<open>The last branch the memory names for the commit.\<close>

definition branch_of_memory :: "string \<Rightarrow> dict \<Rightarrow> string res" where
  "branch_of_memory sha m = bindE (objE (JObj m) ''references'') (\<lambda>refs. bindE (getE refs ''branches'') (\<lambda>v. bindE (iterE (py_or v (JList []))) (\<lambda>bs.
     Inr (case filter (\<lambda>b. is_dict b \<and> dget (dict_of b) ''sha'' = JStr sha \<and> truthy (dget (dict_of b) ''name'')) (rev bs) of
       [] \<Rightarrow> [] | b # _ \<Rightarrow> py_str (dget (dict_of b) ''name'')))))"

definition pull_branch :: "run \<Rightarrow> string \<Rightarrow> dict \<Rightarrow> string res" where
  "pull_branch s sha m = bindE (objE (JObj m) ''references'') (\<lambda>refs. bindE (getE refs ''branches'') (\<lambda>_.
     if work_branch s \<noteq> [] then Inr (work_branch s) else branch_of_memory sha m))"

definition create_run_pull :: "'r github \<Rightarrow> run \<Rightarrow> dict \<Rightarrow> string \<Rightarrow> ('r net, dict) prog" where
  "create_run_pull c s m branch = bindP (repo_info c) (\<lambda>info.
     create_pull c (''[ADWF] '' @ take 90 (text_or (dget m ''task_ru'') ''ADWF change''))
       (''Automated ADWF run '' @ [CHR 0x60] @ run_id s @ [CHR 0x60] @ '' for brief '' @ [CHR 0x60] @ run_roadmap_id s @ [CHR 0x60] @ ''.'')
       branch (text_or (dget info ''default_branch'') ''main''))"

definition names_pull :: "int \<Rightarrow> json \<Rightarrow> bool" where
  "names_pull n x = py_eq (case x of JObj d \<Rightarrow> dget d ''number'' | _ \<Rightarrow> x) (JInt n)"

definition remember_pull :: "('r, 'y) exec_env \<Rightarrow> dict \<Rightarrow> dict \<Rightarrow> int \<Rightarrow> string \<Rightarrow> (('r, 'y) place, unit) prog" where
  "remember_pull en m p n sha = (if m = [] then retP () else save_memory en 3 (bindE (references_of ''pull_requests'' m) (\<lambda>(refs, xs).
     if list_ex (names_pull n) xs then Inr (dput ''references'' (JObj (dput ''pull_requests'' (JList xs) refs)) m)
     else add_reference ''pull_requests'' (JObj [(''number'', JInt n), (''url'', dget p ''html_url''), (''head_sha'', JStr sha)]) m)) m)"

definition finish_open_pr :: "('r, 'y) exec_env \<Rightarrow> run \<Rightarrow> string \<Rightarrow> string \<Rightarrow> dict \<Rightarrow> dict \<Rightarrow> (('r, 'y) place, produced) prog" where
  "finish_open_pr en s key sha m p = bindP (liftP (py_int (dget p ''number''))) (\<lambda>n. bindP (remember_pull en m p n sha) (\<lambda>_.
     resultP s key ''PASS'' [(''subject_sha'', JStr sha), (''metadata'', JObj [(''pull_request_number'', JInt n),
       (''pull_request_url'', dget p ''html_url'')])]))"

definition open_pr_executor :: "('r, 'y) exec_env \<Rightarrow> run \<Rightarrow> string \<Rightarrow> json \<Rightarrow> (('r, 'y) place, produced) prog" where
  "open_pr_executor en s key envelope = (let sha = subject_of s in
     if \<not> sha40 sha then waitP ''WAITING_AGENT'' ''AGENT_COMMIT_SHA_REQUIRED'' ''open_pr'' []
     else with_client en ''open_pr'' (\<lambda>c. bindP (on_net (open_pulls c sha)) (\<lambda>pulls.
       bindP (getP (memory_or_none (xe_sha en))) (\<lambda>r. bindP (liftP r) (\<lambda>m. case pulls of
         p # _ \<Rightarrow> finish_open_pr en s key sha m p
       | [] \<Rightarrow> bindP (liftP (pull_branch s sha m)) (\<lambda>branch.
           if branch = [] then waitP ''WAITING_AGENT'' ''AGENT_BRANCH_REFERENCE_REQUIRED'' ''open_pr'' [(''subject_sha'', JStr sha)]
           else bindP (on_net (create_run_pull c s m branch)) (finish_open_pr en s key sha m)))))))"

section \<open>Gates and merge\<close>

text \<open>The required checks that succeeded for a commit under GitHub Actions, and the apps they came from.\<close>

definition gate_check :: "string \<Rightarrow> dict \<Rightarrow> string list \<times> int list \<Rightarrow> (string list \<times> int list) res" where
  "gate_check sha c acc = bindE (in_set (dget c ''name'') REQUIRED_CHECKS) (\<lambda>required.
     if \<not> required \<or> dget c ''head_sha'' \<noteq> JStr sha \<or> dget c ''status'' \<noteq> JStr ''completed'' \<or> dget c ''conclusion'' \<noteq> JStr ''success'' then Inr acc
     else bindE (objE (JObj c) ''app'') (\<lambda>app. bindE (getE app ''slug'') (\<lambda>slug. if slug \<noteq> JStr ''github-actions'' then Inr acc
       else bindE (getE app ''id'') (\<lambda>i. Inr (if is_int i then (List.insert (str_of (dget c ''name'')) (fst acc), List.insert (int_of i) (snd acc)) else acc)))))"

definition required_gates :: "string \<Rightarrow> dict list \<Rightarrow> (string list \<times> int list) res" where
  "required_gates sha checks = foldE (gate_check sha) checks ([], [])"

definition missing_gates :: "string list \<Rightarrow> string list" where
  "missing_gates passed = sort (filter (\<lambda>n. n \<notin> set passed) REQUIRED_CHECKS)"

definition gate_details :: "string list \<times> int list \<Rightarrow> dict" where
  "gate_details g = [(''missing'', strs (missing_gates (fst g))), (''check_app_ids'', JList (map JInt (sort (snd g))))]"

definition gates_passed :: "string list \<times> int list \<Rightarrow> bool" where
  "gates_passed g = (missing_gates (fst g) = [] \<and> length (snd g) = 1)"

definition ci_executor :: "('r, 'y) exec_env \<Rightarrow> run \<Rightarrow> string \<Rightarrow> json \<Rightarrow> (('r, 'y) place, produced) prog" where
  "ci_executor en s key envelope = (let sha = subject_of s in with_client en ''test'' (\<lambda>c. bindP (on_net (check_runs c sha)) (\<lambda>checks.
     bindP (liftP (required_gates sha checks)) (\<lambda>g.
     if \<not> gates_passed g then waitP ''WAITING_CI'' ''PROVIDER_ATTESTED_REQUIRED_CHECKS_PENDING'' ''test'' (gate_details g)
     else bindP (getP evidence_refs) (\<lambda>refs.
       if refs = [] then waitP ''NOT_VERIFIED'' ''CI_EVIDENCE_REFS_REQUIRED'' ''test'' [(''required_checks'', strs (sort REQUIRED_CHECKS))]
       else resultP s key ''PASS'' [(''subject_sha'', JStr sha), (''evidence_refs'', JList refs),
         (''metadata'', JObj [(''required_checks'', strs (sort REQUIRED_CHECKS)), (''check_app_id'', JInt (hd (snd g)))])])))))"

definition exact_approval :: "string \<Rightarrow> dict \<Rightarrow> bool" where
  "exact_approval sha r = (upper (field_text r ''state'') = ''APPROVED'' \<and> field_text r ''commit_id'' = sha)"

definition run_reviews :: "'r github \<Rightarrow> run \<Rightarrow> ('r net, dict list) prog" where
  "run_reviews c s = (case run_pull_request_number s of None \<Rightarrow> retP []
     | Some n \<Rightarrow> if n = 0 then retP [] else tryP (pull_reviews c n) (\<lambda>e. if e = Interrupted then raiseP e else retP []))"

definition review_executor :: "('r, 'y) exec_env \<Rightarrow> run \<Rightarrow> string \<Rightarrow> json \<Rightarrow> (('r, 'y) place, produced) prog" where
  "review_executor en s key envelope = (let sha = subject_of s in with_client en ''review'' (\<lambda>c. bindP (getP evidence_refs) (\<lambda>refs.
     bindP (on_net (run_reviews c s)) (\<lambda>reviews. resultP s key ''PASS'' [(''subject_sha'', JStr sha), (''evidence_refs'', JList refs),
       (''metadata'', JObj [(''exact_head_reviews'', JInt (int (length (filter (exact_approval sha) reviews)))), (''optional_ai_review_required'', JBool False),
         (''not_applicable_reason'', if refs = [] then JStr ''REVIEW_COVERED_BY_TRUSTED_DETERMINISTIC_GATES'' else JNull)])]))))"

definition merge_executor :: "('r, 'y) exec_env \<Rightarrow> run \<Rightarrow> string \<Rightarrow> json \<Rightarrow> (('r, 'y) place, produced) prog" where
  "merge_executor en s key envelope = (let sha = subject_of s in with_client en ''merge'' (\<lambda>c. bindP (on_net (open_pulls c sha)) (\<lambda>pulls. case pulls of
     [p] \<Rightarrow> bindP (on_net (check_runs c sha)) (\<lambda>checks. bindP (liftP (required_gates sha checks)) (\<lambda>g.
       if \<not> gates_passed g then waitP ''NOT_VERIFIED'' ''ALL_PROVIDER_ATTESTED_REQUIRED_GATES_REQUIRED'' ''merge'' (gate_details g)
       else bindP (liftP (ditemE p ''number'')) (\<lambda>v. bindP (liftP (py_int v)) (\<lambda>n. bindP (on_net (merge_pull c n sha ''squash'')) (\<lambda>merged.
         if dget merged ''merged'' \<noteq> JBool True
           then waitP ''NOT_VERIFIED'' ''MERGE_READBACK_NOT_CONFIRMED'' ''merge'' [(''message'', dget merged ''message'')]
         else bindP (getP evidence_refs) (\<lambda>refs. resultP s key ''PASS'' [(''subject_sha'', JStr sha), (''evidence_refs'', JList refs),
           (''metadata'', JObj [(''merge_sha'', dget merged ''sha''), (''pull_request_number'', v)])]))))))
   | _ \<Rightarrow> waitP ''NOT_VERIFIED'' ''SINGLE_EXACT_HEAD_PR_REQUIRED'' ''merge'' [(''matches'', JInt (int (length pulls)))])))"

section \<open>Preview and owner\<close>

definition preview_provenance :: "string \<Rightarrow> string res \<Rightarrow> json \<Rightarrow> bool res" where
  "preview_provenance sha head v = bindE (getE v ''provider_attestation'') (\<lambda>a. let p = dict_of a in
     bindE (case head of Inl e \<Rightarrow> Inr False | Inr h \<Rightarrow> if h \<noteq> sha then Inr False
       else (case bindE (getOrE v ''source_attestation'' (JObj [])) (\<lambda>x. getE x ''mode'') of Inl e \<Rightarrow> Inr False
         | Inr m \<Rightarrow> Inr (m = JStr ''LOCAL_EXACT_GIT_HEAD''))) (\<lambda>local.
     Inr (local \<or> (dget p ''provider'' = JStr ''github'' \<and> dget p ''provider_readback'' = JBool True \<and> dget p ''head_sha'' = JStr sha
       \<and> is_int (dget p ''workflow_run_id'') \<and> is_int (dget p ''job_id'')))))"

definition preview_attested :: "string \<Rightarrow> json \<Rightarrow> bool res" where
  "preview_attested sha v = bindE (getE v ''head_sha'') (\<lambda>h. if h \<noteq> JStr sha then Inr False
     else bindE (getOrE v ''source_attestation'' (JObj [])) (\<lambda>a. bindE (getE a ''verified'') (\<lambda>b. Inr (b = JBool True))))"

definition preview_refs :: "('r, 'y) place \<Rightarrow> json \<Rightarrow> json list res" where
  "preview_refs f v = bindE (getE v ''evidence_refs'') (\<lambda>w. if truthy w then iterE w else Inr (evidence_refs f))"

definition preview_result :: "('r, 'y) exec_env \<Rightarrow> run \<Rightarrow> string \<Rightarrow> string \<Rightarrow> json \<Rightarrow> (('r, 'y) place, produced) prog" where
  "preview_result en s key sha v = bindP (liftP (getE v ''preview_digest'')) (\<lambda>d. let digest = text_or d [] in
     if \<not> sha256_hex digest then waitP ''NOT_VERIFIED'' ''PREVIEW_DIGEST_INVALID'' ''verify'' []
     else bindP (getP (\<lambda>f. preview_refs f v)) (\<lambda>r. bindP (liftP r) (\<lambda>refs. bindP (liftP (getE v ''attestation_id'')) (\<lambda>aid.
       resultP s key ''PASS'' [(''subject_sha'', JStr sha), (''preview_digest'', JStr digest), (''evidence_refs'', JList refs),
         (''metadata'', JObj [(''attestation_id'', aid)])]))))"

definition preview_executor :: "('r, 'y) exec_env \<Rightarrow> run \<Rightarrow> string \<Rightarrow> json \<Rightarrow> (('r, 'y) place, produced) prog" where
  "preview_executor en s key envelope = (let sha = subject_of s in bindP (getP (\<lambda>f. xo_preview (sf_outside f))) (\<lambda>file. case file of
     None \<Rightarrow> waitP ''WAITING_PREVIEW'' ''EXACT_REVISION_PREVIEW_ATTESTATION_REQUIRED'' ''verify'' [(''subject_sha'', JStr sha)]
   | Some content \<Rightarrow> bindP (liftP content) (\<lambda>v. bindP (liftP (preview_attested sha v)) (\<lambda>attested.
       if \<not> attested then waitP ''NOT_VERIFIED'' ''PREVIEW_EXACT_REVISION_NOT_ATTESTED'' ''verify'' []
       else bindP (getP (\<lambda>f. preview_provenance sha (xe_head en f) v)) (\<lambda>r. bindP (liftP r) (\<lambda>trusted.
         if \<not> trusted then waitP ''NOT_VERIFIED'' ''PREVIEW_TRUSTED_PROVENANCE_REQUIRED'' ''verify'' []
         else preview_result en s key sha v))))))"

definition owner_executor :: "('r, 'y) exec_env \<Rightarrow> run \<Rightarrow> string \<Rightarrow> json \<Rightarrow> (('r, 'y) place, produced) prog" where
  "owner_executor en s key envelope = waitP ''WAITING_OWNER'' ''PROVIDER_ATTESTED_OWNER_DECISION_REQUIRED'' ''owner_accept''
     [(''subject_sha'', run_subject_sha s), (''preview_digest'', run_preview_digest s)]"

section \<open>Delivery\<close>

text \<open>\<open>run_command_adapter\<close>: the exit code is not enough, the attestation file must name the commit.\<close>

definition attestation_exact :: "string \<Rightarrow> dict \<Rightarrow> bool" where
  "attestation_exact sha att = (let digest = field_text att ''artifact_digest'' in
     dget att ''status'' = JStr ''PASS'' \<and> dget att ''subject_sha'' = JStr sha \<and> dget att ''provider_readback'' = JBool True
     \<and> length digest = 64 \<and> list_all (\<lambda>c. c \<in> set ''0123456789abcdef'') digest
     \<and> is_list (dget att ''evidence_refs'') \<and> list_of (dget att ''evidence_refs'') \<noteq> [])"

definition command_outcome :: "string \<Rightarrow> string \<Rightarrow> dict \<Rightarrow> json res option \<Rightarrow> dict res" where
  "command_outcome kind sha did file = (case file of
     None \<Rightarrow> Inr (dupdate did [(''status'', JStr ''NOT_VERIFIED''), (''reason'', JStr ''DELIVERY_ATTESTATION_MISSING'')])
   | Some (Inl e) \<Rightarrow> if e = Interrupted then Inl e
       else Inr (dupdate did [(''status'', JStr ''NOT_VERIFIED''), (''reason'', JStr ''DELIVERY_ATTESTATION_INVALID_JSON'')])
   | Some (Inr (JObj att)) \<Rightarrow> Inr (if \<not> attestation_exact sha att
       then dupdate did [(''status'', JStr ''NOT_VERIFIED''), (''reason'', JStr ''DELIVERY_ATTESTATION_NOT_EXACT''), (''attestation'', JObj att)]
       else dupdate did [(''status'', JStr ''PASS''), (''subject_sha'', JStr sha), (''artifact_digest'', JStr (field_text att ''artifact_digest'')),
         (''provider_readback'', JBool True), (''evidence_refs'', dget att ''evidence_refs''), (''readback_id'', dget att ''readback_id''),
         (''attestation_path'', JStr (''.adwf-runtime/delivery/'' @ kind @ ''-result.json''))])
   | Some (Inr _) \<Rightarrow> Inl AttributeError)"

definition set_delivery :: "string \<Rightarrow> json res option \<Rightarrow> ('r, 'y) place \<Rightarrow> ('r, 'y) place" where
  "set_delivery kind v f = f\<lparr>sf_outside := (sf_outside f)\<lparr>xo_delivery := (xo_delivery (sf_outside f))(kind := v)\<rparr>\<rparr>"

definition run_command_adapter :: "('r, 'y) exec_env \<Rightarrow> string \<Rightarrow> string \<Rightarrow> int \<Rightarrow> string \<Rightarrow> (('r, 'y) place, dict) prog" where
  "run_command_adapter en command sha timeout kind = bindP (putP (set_delivery kind None)) (\<lambda>_. bindP (xe_command en command kind sha timeout) (\<lambda>p.
     let did = [(''status'', JStr (if pr_code p = 0 then ''PASS'' else ''FAIL'')), (''exit_code'', JInt (pr_code p)),
       (''stdout_tail'', JStr (drop (length (pr_stdout p) - 500) (pr_stdout p))), (''stderr_tail'', JStr (drop (length (pr_stderr p) - 500) (pr_stderr p)))] in
     if pr_code p \<noteq> 0 then retP did
     else bindP (getP (\<lambda>f. command_outcome kind sha did (xo_delivery (sf_outside f) kind))) liftP))"

definition delivery_config :: "(('r, 'y) place, json) prog" where
  "delivery_config = bindP (getP (\<lambda>f. bindE (read_file (xo_config (sf_outside f))) (\<lambda>cfg. objE cfg ''delivery''))) liftP"

definition deliver_command :: "('r, 'y) exec_env \<Rightarrow> run \<Rightarrow> string \<Rightarrow> string \<Rightarrow> string \<Rightarrow> int \<Rightarrow> string \<Rightarrow> string \<Rightarrow> string \<Rightarrow> string \<times> string
    \<Rightarrow> (('r, 'y) place, produced) prog" where
  "deliver_command en s key sha command timeout kind capability prefix_code mark =
     bindP (run_command_adapter en command sha timeout kind) (\<lambda>out. bindP (liftP (ditemE out ''status'')) (\<lambda>status.
     if status = JStr ''FAIL'' then resultP s key ''FAIL'' [(''reason_codes'', strs [fst mark]), (''metadata'', JObj out)]
     else if status \<noteq> JStr ''PASS'' then waitP ''NOT_VERIFIED'' (text_or (dget out ''reason'') (prefix_code @ ''_ATTESTATION_REQUIRED'')) capability []
     else bindP (liftP (ditemE out ''artifact_digest'')) (\<lambda>digest. bindP (liftP (bindE (ditemE out ''evidence_refs'') iterE)) (\<lambda>refs.
       resultP s key ''PASS'' [(''subject_sha'', JStr sha), (''evidence_refs'', JList refs),
         (''metadata'', JObj [(kind, JStr (snd mark)), (''adapter'', JStr ''COMMAND''), (''artifact_digest'', digest),
           (''provider_readback'', JBool True), (''readback_id'', dget out ''readback_id'')])]))))"

definition promote_executor :: "('r, 'y) exec_env \<Rightarrow> run \<Rightarrow> string \<Rightarrow> json \<Rightarrow> (('r, 'y) place, produced) prog" where
  "promote_executor en s key envelope = bindP delivery_config (\<lambda>delivery. bindP (liftP (getE delivery ''promotion_adapter'')) (\<lambda>a.
     let adapter = text_or a ''NONE''; sha = subject_of s in
     if adapter = ''REFERENCE_LOCAL'' then bindP (xe_promote en sha) (\<lambda>att. bindP (liftP (ditemE att ''artifact_digest'')) (\<lambda>digest.
       resultP s key ''PASS'' [(''subject_sha'', JStr sha), (''metadata'', JObj [(''promotion'', JStr ''COMPLETED''), (''adapter'', JStr ''REFERENCE_LOCAL''),
         (''artifact_digest'', digest), (''production_verified'', JBool False), (''not_applicable_reason'', JStr ''REFERENCE_LOCAL_NON_PRODUCTION_DELIVERY'')])]))
     else if adapter = ''COMMAND'' then (let command = strip (xe_var en ''ADWF_PROMOTE_COMMAND'') in
       if command = [] then waitP ''HUMAN_REQUIRED'' ''DEPLOYMENT_COMMAND_REQUIRED'' ''promote'' []
       else deliver_command en s key sha command 900 ''promotion'' ''promote'' ''PROMOTION'' (''PROMOTION_COMMAND_FAILED'', ''COMPLETED''))
     else bindP (liftP (getE delivery ''deployment_required'')) (\<lambda>required.
       if required = JBool True then waitP ''HUMAN_REQUIRED'' ''DEPLOYMENT_ADAPTER_REQUIRED'' ''promote'' []
       else resultP s key ''PASS'' [(''subject_sha'', JStr sha),
         (''metadata'', JObj [(''not_applicable_reason'', JStr ''DEPLOYMENT_EXPLICITLY_NOT_REQUIRED'')])])))"

definition observe_executor :: "('r, 'y) exec_env \<Rightarrow> run \<Rightarrow> string \<Rightarrow> json \<Rightarrow> (('r, 'y) place, produced) prog" where
  "observe_executor en s key envelope = bindP delivery_config (\<lambda>delivery. bindP (liftP (getE delivery ''observation_adapter'')) (\<lambda>a.
     let adapter = text_or a ''NONE''; sha = subject_of s in
     if adapter = ''REFERENCE_LOCAL'' then bindP (xe_observe en sha) (\<lambda>out. bindP (liftP (ditemE out ''status'')) (\<lambda>status.
       if status \<noteq> JStr ''PASS'' then resultP s key ''FAIL'' [(''reason_codes'', strs [text_or (dget out ''reason'') ''OBSERVATION_FAILED'']), (''metadata'', JObj out)]
       else bindP (liftP (ditemE out ''artifact_digest'')) (\<lambda>digest. resultP s key ''PASS'' [(''subject_sha'', JStr sha),
         (''metadata'', JObj [(''observation'', JStr ''PASS''), (''adapter'', JStr ''REFERENCE_LOCAL''), (''artifact_digest'', digest),
           (''production_verified'', JBool False), (''not_applicable_reason'', JStr ''REFERENCE_LOCAL_NON_PRODUCTION_OBSERVATION'')])])))
     else if adapter = ''COMMAND'' then (let command = strip (xe_var en ''ADWF_OBSERVE_COMMAND'') in
       if command = [] then waitP ''HUMAN_REQUIRED'' ''OBSERVATION_COMMAND_REQUIRED'' ''observe'' []
       else deliver_command en s key sha command 300 ''observation'' ''observe'' ''OBSERVATION'' (''OBSERVATION_FAILED'', ''PASS''))
     else bindP (liftP (getE delivery ''observation_required'')) (\<lambda>required.
       if required = JBool True then waitP ''HUMAN_REQUIRED'' ''OBSERVATION_ADAPTER_REQUIRED'' ''observe'' []
       else resultP s key ''PASS'' [(''subject_sha'', JStr sha),
         (''metadata'', JObj [(''not_applicable_reason'', JStr ''OBSERVATION_EXPLICITLY_NOT_REQUIRED'')])])))"

definition done_executor :: "('r, 'y) exec_env \<Rightarrow> run \<Rightarrow> string \<Rightarrow> json \<Rightarrow> (('r, 'y) place, produced) prog" where
  "done_executor en s key envelope = bindP (getP evidence_refs) (\<lambda>refs. resultP s key ''PASS'' [(''subject_sha'', run_subject_sha s),
     (''evidence_refs'', JList refs), (''metadata'', JObj [(''issue_close_deferred_to_cleanup'', JBool True),
       (''not_applicable_reason'', if refs = [] then JStr ''NO_EXTERNAL_CLOSE_EVIDENCE_REQUIRED'' else JNull)])])"

definition next_executor :: "('r, 'y) exec_env \<Rightarrow> run \<Rightarrow> string \<Rightarrow> json \<Rightarrow> (('r, 'y) place, produced) prog" where
  "next_executor en s key envelope = resultP s key ''ROADMAP_COMPLETE'' [(''metadata'', JObj [(''queue_handled_by_owner_intent_service'', JBool True)])]"

section \<open>The registry\<close>

definition EXECUTORS :: "(string \<times> (('r, 'y) exec_env \<Rightarrow> run \<Rightarrow> string \<Rightarrow> json \<Rightarrow> (('r, 'y) place, produced) prog)) list" where
  "EXECUTORS = [(''RECONCILE'', reconcile_executor), (''AUTHORIZE'', authorize_executor), (''CLAIM'', claim_executor), (''WORKSPACE'', workspace_executor),
     (''EXECUTE'', creative_executor), (''OPEN_PR'', open_pr_executor), (''CI'', ci_executor), (''REVIEW'', review_executor), (''PREVIEW'', preview_executor),
     (''OWNER_ACCEPTANCE'', owner_executor), (''MERGE'', merge_executor), (''PROMOTE'', promote_executor), (''OBSERVE'', observe_executor),
     (''DONE'', done_executor), (''CLEANUP'', cleanup_executor), (''NEXT'', next_executor), (''RECOVERY'', creative_executor)]"

definition WRITER_PHASES :: "string list" where
  "WRITER_PHASES = [''WORKSPACE'', ''EXECUTE'', ''OPEN_PR'', ''CI'', ''REVIEW'', ''PREVIEW'', ''OWNER_ACCEPTANCE'', ''MERGE'', ''PROMOTE'', ''OBSERVE'',
     ''DONE'', ''CLEANUP'', ''RECOVERY'']"

definition execute_phase :: "('r, 'y) exec_env \<Rightarrow> run \<Rightarrow> string \<Rightarrow> json \<Rightarrow> (('r, 'y) place, produced) prog" where
  "execute_phase en s key envelope = (case map_of EXECUTORS (run_phase s) of
     None \<Rightarrow> raiseP (ValueError (''PHASE_EXECUTOR_MISSING:'' @ run_phase s))
   | Some executor \<Rightarrow> if run_phase s \<notin> set WRITER_PHASES then executor en s key envelope
       else bindP (require_live_writer_authority en s (run_phase s)) (\<lambda>blocked. case blocked of
         Some e \<Rightarrow> retP (Waiting e) | None \<Rightarrow> executor en s key envelope))"

end
