(* ===== verification/ExecutorProps.thy ===== *)
theory ExecutorProps
  imports ActionExecutors LeaseRefine
begin

text \<open>
  What the executors guarantee: programs that only read send only reads, the writer gate lets an
  executor run only for the holder of the one active lease of the repository, a claim returns with
  that lease, and a merge is sent only for an attested commit.
\<close>

section \<open>Programs that only read\<close>

definition reads_since :: "'r net \<Rightarrow> 'r net \<Rightarrow> bool" where
  "reads_since n0 n = (\<exists>new. nt_sent n = nt_sent n0 @ new \<and> list_all (\<lambda>qa. hq_method (fst qa) = ''GET'') new)"

lemma reads_since_refl [simp]: "reads_since n n"
  by (simp add: reads_since_def)

lemma reads_since_trans: "reads_since a b \<Longrightarrow> reads_since b c \<Longrightarrow> reads_since a c"
  by (auto simp: reads_since_def)

lemma reads_send: "hq_method q = ''GET'' \<Longrightarrow> keeps (reads_since n0) (wire_send w q)"
  unfolding keeps_def wp_wire_send reads_since_def by (auto simp: Let_def split: prod.split sum.split)

lemma reads_nap: "keeps (reads_since n0) (nap d)"
  by (auto simp: keeps_def nap_def wp_simps reads_since_def)

lemma reads_attempts: "hq_method q = ''GET'' \<Longrightarrow> keeps (reads_since n0) (attempts d w q n)"
  by (induction n) (auto simp: try_send_def intro!: keeps_intros reads_send reads_nap)

lemma reads_value: "hq_method q = ''GET'' \<Longrightarrow> keeps (reads_since n0) (request_value loads w q k)"
  unfolding request_value_def by (intro keeps_intros reads_attempts)

lemma reads_json: "hq_method q = ''GET'' \<Longrightarrow> keeps (reads_since n0) (request_json loads w q k)"
  unfolding request_json_def by (intro keeps_intros reads_value) (auto split: json.split intro!: keeps_intros)

lemma reads_pages: "keeps (reads_since n0) (pages loads paged w hs timeout key n url items)"
  by (induction n arbitrary: url items) (auto simp: get_request_at_def split: json.split intro!: keeps_intros reads_value)

lemma reads_client [keeps_intros]: "keeps (reads_since n0) (gh_get c p)" "keeps (reads_since n0) (gh_list c p key)"
  unfolding gh_get_def gh_list_def request_list_pages_def
  by (intro keeps_intros reads_json reads_pages; simp add: get_request_at_def)+

lemma reads_calls [keeps_intros]: "keeps (reads_since n0) (repo_info c)" "keeps (reads_since n0) (gh_branch c n)" "keeps (reads_since n0) (gh_rulesets c)"
  "keeps (reads_since n0) (matching_tag_refs c p)" "keeps (reads_since n0) (tag_object c x)" "keeps (reads_since n0) (gh_pulls c)"
  "keeps (reads_since n0) (check_runs c x)"
  unfolding repo_info_def gh_branch_def gh_rulesets_def matching_tag_refs_def tag_object_def gh_pulls_def check_runs_def
  by (intro keeps_intros)+

lemma reads_store [keeps_intros]: "keeps (reads_since n0) (require_main c m)" "keeps (reads_since n0) (require_anchor_ruleset c)"
  "keeps (reads_since n0) (matching_refs c)" "keeps (reads_since n0) (read_anchor sha c n name ref)"
  unfolding require_main_def default_branch_and_main_def require_anchor_ruleset_def matching_refs_def read_anchor_def
  by (intro keeps_intros)+

lemma reads_walk [keeps_intros]: "keeps (reads_since n0) (walk_anchors sha c gap i previous latest as)"
  by (induction as arbitrary: i previous latest) (auto intro!: keeps_intros)

lemma reads_read [keeps_intros]: "keeps (reads_since n0) (read_store sha c m n)" "keeps (reads_since n0) (current_main c)"
  "keeps (reads_since n0) (open_pulls c sha')"
  unfolding read_store_def check_ceiling_def current_main_def open_pulls_def by (intro keeps_intros)+

lemma reads_registry [keeps_intros]: "keeps (reads_since n0) (read_registry sha c m cap)" "keeps (reads_since n0) (read_at_main sha c cap)"
proof -
  show r: "keeps (reads_since n0) (read_registry sha c m cap)" for m
    unfolding read_registry_def by (intro keeps_intros)
  show "keeps (reads_since n0) (read_at_main sha c cap)"
    unfolding read_at_main_def by (intro keeps_intros r)
qed

section \<open>Programs over the provider and the files\<close>

definition set_net :: "'r net \<Rightarrow> ('r, 'y) place \<Rightarrow> ('r, 'y) place" where
  "set_net n f = f\<lparr>sf_outside := (sf_outside f)\<lparr>xo_net := n\<rparr>\<rparr>"

lemma net_of_set [simp]: "net_of (set_net n f) = n" "set_net (net_of f) f = f" "set_net m (set_net n f) = set_net m f"
  by (simp_all add: net_of_def set_net_def)

lemma wp_on_net [wp_simps]: "wp (on_net m) Q E f \<longleftrightarrow> wp m (\<lambda>x n. Q x (set_net n f)) (\<lambda>e n. E e (set_net n f)) (net_of f)"
  by (auto simp: wp_def on_net_def set_net_def split: prod.split sum.split)

lemma wp_attempt [wp_simps]: "wp (attemptP m) Q E s \<longleftrightarrow> wp m (\<lambda>x. Q (Inr x)) (\<lambda>e t. if e = Interrupted then E e t else Q (Inl e) t) s"
  unfolding attemptP_def wp_try wp_bind wp_ret wp_if wp_raise ..

lemma wp_wait [wp_simps]: "wp (waitP a b c d) Q E s \<longleftrightarrow> Q (Waiting (wait_for a b c d)) s"
  by (simp add: waitP_def wp_simps)

lemma wp_blocked [wp_simps]: "wp (blockedP a b d) Q E s \<longleftrightarrow> Q (Some (wait_for a b ''claim'' d)) s"
  by (simp add: blockedP_def wp_simps)

lemma wp_result [wp_simps]: "wp (resultP s key outcome kw) Q E w \<longleftrightarrow>
   (case step_result s key outcome kw of Inl e \<Rightarrow> E e w | Inr d \<Rightarrow> Q (Produced d) w)"
  by (simp add: resultP_def wp_simps split: sum.split)

lemma wp_check [wp_simps]: "wp (checkP b e) Q E s \<longleftrightarrow> (if b then Q () s else E e s)"
  by (simp add: checkP_def wp_simps)

lemma wp_policy [wp_simps]: "wp orchestration_policy Q E f \<longleftrightarrow>
   (case bindE (read_file (xo_config (sf_outside f))) policy_of_config of Inl e \<Rightarrow> E e f | Inr p \<Rightarrow> Q p f)"
  by (simp add: orchestration_policy_def wp_simps split: sum.split)

text \<open>Two ends of a run of the provider: what was sent between them is only reads and no file changed.\<close>

definition only_read :: "('r, 'y) place \<Rightarrow> ('r, 'y) place \<Rightarrow> bool" where
  "only_read f t = (reads_since (net_of f) (net_of t) \<and> t = set_net (net_of t) f)"

lemma only_read_refl [simp]: "only_read f f"
  by (simp add: only_read_def)

lemma only_read_net: "reads_since (net_of f) n \<Longrightarrow> only_read f (set_net n f)"
  by (simp add: only_read_def)

text \<open>A program over the provider that only reads, with its result and the provider it ended with.\<close>

lemma wp_reads:
  assumes "\<And>n0. keeps (reads_since n0) m"
  shows "wp m (\<lambda>x t. reads_since n t \<and> m n = (Inr x, t)) (\<lambda>_ t. reads_since n t) n"
proof -
  have "reads_since n n" by simp
  from keepsD [OF assms this] show ?thesis by (auto simp: wp_def split: prod.splits sum.splits)
qed

section \<open>What the store returns\<close>

lemma valid_from_store: "registry_valid sha d \<Longrightarrow> py_eq (dget d ''max_parallel_writers'') (JInt n) \<Longrightarrow> length (reg_active d) \<le> nat n"
  using valid_registry_facts [of sha d] by (auto simp: registry_valid_def strict_int_iff)

lemma anchor_valid: "check_anchor sha c n name a obj = Inr (e, target) \<Longrightarrow> \<exists>d. dget e ''registry'' = JObj d \<and> registry_valid sha d"
  using check_anchor_facts parse_event_facts by fastforce

lemma wp_read_anchor_valid: "wp (read_anchor sha c n name ref) (\<lambda>(e, a, m) _. \<exists>d. dget e ''registry'' = JObj d \<and> registry_valid sha d) (\<lambda>_ _. True) s"
proof -
  have r: "wp (bindP (liftP (check_anchor sha c n name a obj)) (\<lambda>(event, target_sha). retP (event, a, target_sha)))
      (\<lambda>(e, a, m) _. \<exists>d. dget e ''registry'' = JObj d \<and> registry_valid sha d) (\<lambda>_ _. True) t" for a obj t
    using anchor_valid by (fastforce simp: wp_bind wp_lift wp_ret split: sum.split)
  show ?thesis unfolding read_anchor_def wp_bind [of "liftP (tag_name _)"] wp_bind [of "checkP _ _"] wp_bind [of "liftP (sha_field _ _)"]
      wp_bind [of "orP _ _"] wp_lift wp_check
    by (auto intro!: wp_mono [OF wp_any] r split: sum.split)
qed

lemma wp_walk_valid: "wp (walk_anchors sha c gap i previous latest as) (\<lambda>(d, _) _. if as = [] then d = latest else registry_valid sha d) (\<lambda>_ _. True) s"
proof (induction as arbitrary: i previous latest s)
  case (Cons a as)
  have r: "wp (walk_anchors sha c gap j p d as) (\<lambda>(d, _) _. registry_valid sha d) (\<lambda>_ _. True) t" if "registry_valid sha d" for j p d t
    by (rule wp_mono [OF Cons.IH]) (use that in \<open>auto split: if_split_asm\<close>)
  show ?case unfolding walk_anchors.simps wp_bind wp_check
    by (auto intro!: wp_mono [OF wp_read_anchor_valid] r simp: wp_bind wp_check)
qed (simp add: wp_simps)

lemma empty_registry_valid:
  assumes "empty_lease_registry sha repo m n = Inr d"
  shows "registry_valid sha d \<and> dget d ''max_parallel_writers'' = JInt n"
proof -
  have k: "dkeys (dput ''integrity_digest'' v [(''$schema'', a), (''schema_version'', b), (''repository'', c), (''revision'', r), (''observed_main_sha'', m'),
      (''max_parallel_writers'', w), (''leases'', l), (''integrity_digest'', i)]) = REGISTRY_FIELDS" for v a b c r m' w l i
    by (simp add: dput_def dkeys_def REGISTRY_FIELDS_def)
  from assms show ?thesis
    by (auto simp: empty_lease_registry_def Let_def registry_valid_def validate_lease_registry_def head_findings_def active_dicts_def
        registry_digest_def ddel_dput keys_are_def k strict_int_iff str_shape_def REGISTRY_FIELDS_def split: if_split_asm)
qed

lemma wp_read_store_valid: "wp (read_store sha c m n) (\<lambda>(d, _) _. registry_valid sha d \<and> length (reg_active d) \<le> nat n) (\<lambda>_ _. True) s"
proof -
  have e: "registry_valid sha d \<and> length (reg_active d) \<le> nat n" if "empty_lease_registry sha (gh_repo c) m n = Inr d" for d
    using empty_registry_valid [OF that] valid_from_store [of sha d n] by simp
  have w: "wp (walk_anchors sha c gap_of_read 1 None [] refs) (\<lambda>(d, _) _. registry_valid sha d) (\<lambda>_ _. True) t" if "refs \<noteq> []" for refs t
    by (rule wp_mono [OF wp_walk_valid]) (use that in \<open>auto split: if_split_asm\<close>)
  have tail: "wp (bindP (walk_anchors sha c gap_of_read 1 None [] refs) (\<lambda>(latest, previous).
         bindP (require_main c m) (\<lambda>_. bindP (check_ceiling latest n) (\<lambda>_. retP (latest, previous)))))
      (\<lambda>(d, _) _. registry_valid sha d \<and> length (reg_active d) \<le> nat n) (\<lambda>_ _. True) t" if "refs \<noteq> []" for refs t
  proof (rule wp_seq [OF w [OF that]])
    show "wp (case x of (latest, previous) \<Rightarrow> bindP (require_main c m) (\<lambda>_. bindP (check_ceiling latest n) (\<lambda>_. retP (latest, previous))))
      (\<lambda>(d, _) _. registry_valid sha d \<and> length (reg_active d) \<le> nat n) (\<lambda>_ _. True) t"
      if "(\<lambda>(d, _) _. registry_valid sha d) x t" for x t
      using that by (cases x) (auto simp: check_ceiling_def wp_bind wp_check wp_ret valid_from_store intro!: wp_mono [OF wp_any [of "require_main c m"]])
  qed
  show ?thesis unfolding read_store_def wp_bind [of "require_main _ _"] wp_bind [of "require_anchor_ruleset _"] wp_bind [of "matching_refs _"] wp_if
    by (auto intro!: wp_mono [OF wp_any [of "require_main c m"]] wp_mono [OF wp_any [of "require_anchor_ruleset c"]]
        wp_mono [OF wp_any [of "matching_refs c"]] tail simp: wp_bind [of "liftP _"] wp_ret wp_lift e simp del: One_nat_def split: sum.split)
qed

section \<open>The gate\<close>

text \<open>
  The run holds the only active lease of the repository: a valid registry, the lease of its item, issue,
  worker and branch over the whole repository.
\<close>

definition sole_lease :: "(string \<Rightarrow> string) \<Rightarrow> run \<Rightarrow> string \<Rightarrow> dict \<Rightarrow> dict \<Rightarrow> bool" where
  "sole_lease sha s branch d l = (registry_valid sha d \<and> reg_active d = [l] \<and> dget l ''issue_id'' = JStr (run_issue_id s)
     \<and> dget l ''roadmap_id'' = JStr (run_roadmap_id s) \<and> dget l ''worker_id'' = JStr (''adwf-runtime:'' @ run_id s)
     \<and> dget l ''branch'' = JStr branch \<and> py_eq (dget l ''resources'') STAGE1_RESOURCES)"

definition fresh_lease :: "int \<Rightarrow> int \<Rightarrow> dict \<Rightarrow> bool" where
  "fresh_lease now mins l = (\<exists>h e. get_time l ''heartbeat_at'' = Inr h \<and> get_time l ''expires_at'' = Inr e
     \<and> now < e \<and> h \<le> now \<and> now - h \<le> minutes_us mins)"

text \<open>And it is fresh, and bound to the current main: taken on it, or the main is the delivered commit.\<close>

definition live_writer :: "('r, 'y) exec_env \<Rightarrow> lease_policy \<Rightarrow> run \<Rightarrow> string \<Rightarrow> dict \<Rightarrow> dict \<Rightarrow> bool" where
  "live_writer en p s main_sha d l = (sole_lease (xe_sha en) s (work_branch s) d l \<and> fresh_lease (xe_clock en 0) (lp_heartbeat p) l
     \<and> (if run_phase s \<in> set POSTMERGE_PHASES \<and> sha40 (text_or (run_delivery_sha s) []) then main_sha = text_or (run_delivery_sha s) []
        else dget d ''observed_main_sha'' = JStr main_sha \<and> dget l ''base_sha'' = JStr main_sha))"

lemma lease_is_fresh_True: "lease_is_fresh now mins l = Inr True \<longleftrightarrow> fresh_lease now mins l"
  by (auto simp: lease_is_fresh_def fresh_lease_def catchE_eq_Inr bindE_eq_Inr)

lemma same_lease_True: "same_lease s branch l = Inr True \<longleftrightarrow> dget l ''status'' = JStr ''ACTIVE'' \<and> dget l ''issue_id'' = JStr (run_issue_id s)
   \<and> dget l ''roadmap_id'' = JStr (run_roadmap_id s) \<and> run_id s \<noteq> [] \<and> dget l ''worker_id'' = JStr (''adwf-runtime:'' @ run_id s)
   \<and> dget l ''branch'' = JStr branch \<and> py_eq (dget l ''resources'') STAGE1_RESOURCES"
  by (auto simp: same_lease_def writer_id_def)

lemma filterE_member: "filterE p xs = Inr ys \<Longrightarrow> y \<in> set ys \<Longrightarrow> y \<in> set xs \<and> p y = Inr True"
  by (induction xs arbitrary: ys) (auto elim!: bindE_InrE split: if_split_asm)

text \<open>In a valid registry with a ceiling of one, an active lease is the only one.\<close>

lemma active_of_valid:
  assumes "registry_valid sha d"
  shows "reg_active d = filter is_active (lease_dicts d)"
proof -
  have "\<forall>v \<in> set (reg_leases d). is_dict v" using valid_registry_facts [of sha d] assms by (simp add: registry_valid_def)
  then have "filter is_dict (reg_leases d) = reg_leases d" by simp
  then show ?thesis by (simp add: reg_active_def active_dicts_def lease_dicts_def is_active_def [abs_def])
qed

lemma sole_leaseI:
  assumes "registry_valid sha d" "length (reg_active d) \<le> 1" "l \<in> set (lease_dicts d)" "same_lease s branch l = Inr True"
  shows "sole_lease sha s branch d l"
proof -
  have "l \<in> set (reg_active d)" using assms(3,4) by (simp add: active_of_valid [OF assms(1)] is_active_def same_lease_True)
  with assms(2) have "reg_active d = [l]" by (cases "reg_active d") auto
  then show ?thesis using assms(1,4) by (simp add: sole_lease_def same_lease_True)
qed

text \<open>What the gate has read when it lets the executor run.\<close>

definition gate_open :: "('r, 'y) exec_env \<Rightarrow> run \<Rightarrow> ('r, 'y) place \<Rightarrow> bool" where
  "gate_open en s f = (\<exists>c p main_sha d n l. xe_client en = Some c \<and> bindE (read_file (xo_config (sf_outside f))) policy_of_config = Inr (Inr p)
     \<and> read_at_main (xe_sha en) c (lp_ceiling p) (net_of f) = (Inr (main_sha, d), n) \<and> live_writer en p s main_sha d l)"

lemma wp_read_at_main: "wp (read_at_main sha c cap) (\<lambda>(m, d) t. reads_since n t \<and> registry_valid sha d \<and> length (reg_active d) \<le> 1
    \<and> read_at_main sha c cap n = (Inr (m, d), t)) (\<lambda>_ t. reads_since n t) n"
proof -
  have v: "wp (read_at_main sha c cap) (\<lambda>(m, d) _. registry_valid sha d \<and> length (reg_active d) \<le> 1) (\<lambda>_ _. True) n"
    unfolding read_at_main_def read_registry_def
    by (auto simp: wp_bind wp_check wp_ret split: prod.split intro!: wp_mono [OF wp_any [of "current_main c"]] wp_mono [OF wp_read_store_valid])
  have k: "keeps (reads_since n0) (read_at_main sha c cap)" for n0 by (rule reads_registry)
  show ?thesis by (rule wp_mono [OF wp_conj [OF wp_reads [OF k] v]]) auto
qed

lemma wp_renew: "wp (renew_lease en c p s m l) (\<lambda>_ _. True) (\<lambda>_ _. True) f"
  by (rule wp_any)

definition gated :: "('r, 'y) exec_env \<Rightarrow> run \<Rightarrow> ('r, 'y) place \<Rightarrow> executor_wait option \<Rightarrow> ('r, 'y) place \<Rightarrow> bool" where
  "gated en s f b t = ((b \<noteq> None \<and> only_read f t) \<or> gate_open en s f)"

lemma gatedI: "only_read f t \<Longrightarrow> gated en s f (Some e) t" "gate_open en s f \<Longrightarrow> gated en s f b t"
  by (simp_all add: gated_def)

lemma wp_gate: "wp (require_live_writer_authority en s (run_phase s)) (gated en s f) (\<lambda>_ t. only_read f t \<or> gate_open en s f) f" (is "wp _ ?Q ?E f")
proof -
  have lease: "wp (lease_gate en c p s (run_phase s) m d l) ?Q ?E (set_net n f)"
    if "xe_client en = Some c" "bindE (read_file (xo_config (sf_outside f))) policy_of_config = Inr (Inr p)"
      "reads_since (net_of f) n" "read_at_main (xe_sha en) c (lp_ceiling p) (net_of f) = (Inr (m, d), n)" "sole_lease (xe_sha en) s (work_branch s) d l"
    for c p m d n l
  proof -
    have r: "only_read f (set_net n f)" using that(3) by (rule only_read_net)
    have o: "gate_open en s f" if "live_writer en p s m d l"
      unfolding gate_open_def using that \<open>xe_client en = Some c\<close> \<open>bindE _ _ = _\<close> \<open>read_at_main _ _ _ _ = _\<close> by blast
    show ?thesis
      using that(5) o r unfolding lease_gate_def
      by (auto simp: wp_bind [of "liftP _"] wp_lift lease_is_fresh_True Let_def wp_blocked wp_ret live_writer_def gatedI split: sum.split
          intro!: wp_mono [OF wp_renew])
  qed
  have matched: "sole_lease (xe_sha en) s (work_branch s) d l"
    if "registry_valid (xe_sha en) d" "length (reg_active d) \<le> 1" "filterE (same_lease s (work_branch s)) (lease_dicts d) = Inr [l]" for d l
    by (rule sole_leaseI) (use that filterE_member [OF that(3), of l] in auto)
  have read: "wp (bindP (liftP (filterE (same_lease s (work_branch s)) (lease_dicts d))) (\<lambda>matches. case matches of
           [l] \<Rightarrow> lease_gate en c p s (run_phase s) m d l
         | _ \<Rightarrow> blockedP ''NOT_VERIFIED'' ''LIVE_PROVIDER_LEASE_REQUIRED''
             [(''matches'', JInt (int (length matches))), (''registry_revision'', dget d ''revision'')])) ?Q ?E (set_net n f)"
    if "xe_client en = Some c" "bindE (read_file (xo_config (sf_outside f))) policy_of_config = Inr (Inr p)" "reads_since (net_of f) n"
      "read_at_main (xe_sha en) c (lp_ceiling p) (net_of f) = (Inr (m, d), n)" "registry_valid (xe_sha en) d" "length (reg_active d) \<le> Suc 0"
    for c p n m d
    using that only_read_net [OF that(3)]
    by (auto simp: wp_simps gatedI intro!: lease matched split: sum.split list.split)
  show ?thesis unfolding require_live_writer_authority_def
    by (auto simp: wp_blocked wp_bind [of orchestration_policy] wp_policy wp_bind [of "attemptP _"] wp_attempt wp_on_net only_read_net gatedI
        split: option.split sum.split intro!: read wp_mono [OF wp_read_at_main])
qed

section \<open>Attested commits\<close>

text \<open>A check run of a required name that succeeded for the commit, reported by GitHub Actions under an app.\<close>

definition good_check :: "string \<Rightarrow> string \<Rightarrow> int \<Rightarrow> dict \<Rightarrow> bool" where
  "good_check sha name i c = (dget c ''name'' = JStr name \<and> dget c ''head_sha'' = JStr sha \<and> dget c ''status'' = JStr ''completed''
     \<and> dget c ''conclusion'' = JStr ''success'' \<and> (\<exists>app. dget c ''app'' = JObj app \<and> dget app ''slug'' = JStr ''github-actions''
       \<and> is_int (dget app ''id'') \<and> int_of (dget app ''id'') = i))"

text \<open>Every required check succeeded, and all of them came from the one app.\<close>

definition attested_commit :: "string \<Rightarrow> dict list \<Rightarrow> int \<Rightarrow> bool" where
  "attested_commit sha checks i = (\<forall>name \<in> set REQUIRED_CHECKS. (\<exists>c \<in> set checks. good_check sha name i c)
     \<and> (\<forall>c \<in> set checks. \<forall>j. good_check sha name j c \<longrightarrow> j = i))"

definition good_by :: "string \<Rightarrow> dict \<Rightarrow> (string \<times> int) set" where
  "good_by sha c = {(name, i). name \<in> set REQUIRED_CHECKS \<and> good_check sha name i c}"

lemma gate_check_step:
  assumes "gate_check sha c acc = Inr acc'"
  shows "(\<exists>name i. good_by sha c = {(name, i)} \<and> acc' = (List.insert name (fst acc), List.insert i (snd acc))) \<or> (good_by sha c = {} \<and> acc' = acc)"
proof -
  obtain b where b: "in_set (dget c ''name'') REQUIRED_CHECKS = Inr b" using assms by (auto simp: gate_check_def bindE_eq_Inr)
  show ?thesis
  proof (cases "\<not> b \<or> dget c ''head_sha'' \<noteq> JStr sha \<or> dget c ''status'' \<noteq> JStr ''completed'' \<or> dget c ''conclusion'' \<noteq> JStr ''success''")
    case True
    moreover have "acc' = acc" using assms b True by (auto simp: gate_check_def)
    moreover have "name \<in> set REQUIRED_CHECKS \<Longrightarrow> dget c ''name'' = JStr name \<Longrightarrow> b" for name using b by simp
    ultimately show ?thesis by (auto simp: good_by_def good_check_def)
  next
    case False
    then obtain name where n: "dget c ''name'' = JStr name" "name \<in> set REQUIRED_CHECKS"
      using b by (cases "dget c ''name''") (auto simp: in_set_def split: if_split_asm)
    from assms b False obtain w slug where w: "objE (JObj c) ''app'' = Inr w" "getE w ''slug'' = Inr slug"
      and r: "(if slug \<noteq> JStr ''github-actions'' then Inr acc else bindE (getE w ''id'') (\<lambda>i. Inr (if is_int i
         then (List.insert (str_of (dget c ''name'')) (fst acc), List.insert (int_of i) (snd acc)) else acc))) = Inr acc'"
      by (auto simp: gate_check_def bindE_eq_Inr)
    obtain app where app: "w = JObj app" "dget app ''slug'' = slug" using w(2) by (cases w) auto
    have c: "dget c ''app'' = JObj app" if "app \<noteq> []" using w(1) app(1) that by (auto simp: objE_def py_or_def split: if_split_asm)
    have e: "dget c ''app'' = JObj a \<Longrightarrow> a = app" for a using w(1) app(1) by (cases "a = []") (auto simp: objE_def py_or_def)
    show ?thesis
    proof (cases "slug = JStr ''github-actions'' \<and> is_int (dget app ''id'')")
      case True
      then have "app \<noteq> []" using app(2) by (auto simp: dget_def)
      from c [OF this] have "good_by sha c = {(name, int_of (dget app ''id''))}"
        using n False True app(2) by (auto simp: good_by_def good_check_def)
      moreover have "acc' = (List.insert name (fst acc), List.insert (int_of (dget app ''id'')) (snd acc))"
        using r True n(1) app(1) by simp
      ultimately show ?thesis by blast
    next
      case False
      then have "good_by sha c = {}" "acc' = acc" using r app e by (auto simp: good_by_def good_check_def split: if_split_asm)
      then show ?thesis by simp
    qed
  qed
qed

lemma gates_fold:
  "foldE (gate_check sha) checks acc = Inr g \<Longrightarrow> set (fst g) = set (fst acc) \<union> fst ` (\<Union>c \<in> set checks. good_by sha c)
     \<and> set (snd g) = set (snd acc) \<union> snd ` (\<Union>c \<in> set checks. good_by sha c)"
proof (induction checks arbitrary: acc)
  case (Cons c checks)
  from Cons.prems obtain acc' where step: "gate_check sha c acc = Inr acc'" and rest: "foldE (gate_check sha) checks acc' = Inr g"
    by (auto elim!: bindE_InrE)
  from gate_check_step [OF step] Cons.IH [OF rest] show ?case by (elim disjE exE conjE) (simp_all add: image_Un)
qed simp

lemma gates_attest:
  assumes "required_gates sha checks = Inr g" "gates_passed g"
  shows "attested_commit sha checks (hd (snd g))"
proof -
  from assms(2) obtain i where i: "snd g = [i]" by (cases "snd g") (auto simp: gates_passed_def)
  have "filter (\<lambda>n. n \<notin> set (fst g)) REQUIRED_CHECKS = []" using assms(2) by (metis gates_passed_def missing_gates_def set_sort set_empty)
  then have all: "set REQUIRED_CHECKS \<subseteq> set (fst g)" by (auto simp: filter_empty_conv)
  note f = gates_fold [OF assms(1) [unfolded required_gates_def], simplified]
  have one: "j = i" if "good_check sha name j c" "c \<in> set checks" "name \<in> set REQUIRED_CHECKS" for name j c
  proof -
    have "(name, j) \<in> (\<Union>c \<in> set checks. good_by sha c)" using that by (auto simp: good_by_def)
    then have "j \<in> set (snd g)" using f by force
    then show ?thesis by (simp add: i)
  qed
  have "\<exists>c \<in> set checks. good_check sha name i c" if "name \<in> set REQUIRED_CHECKS" for name
  proof -
    have "name \<in> fst ` (\<Union>c \<in> set checks. good_by sha c)" using f all that by auto
    then obtain c j where "c \<in> set checks" "good_check sha name j c" by (auto simp: good_by_def)
    then show ?thesis using one [OF _ _ that] by blast
  qed
  then show ?thesis using one by (auto simp: attested_commit_def i)
qed

section \<open>The merge\<close>

definition open_head :: "string \<Rightarrow> dict \<Rightarrow> bool" where
  "open_head sha p = (sha_field p ''head'' = Inr sha \<and> dget p ''state'' = JStr ''open'')"

lemma open_at_filter: "open_at sha ps = Inr qs \<Longrightarrow> qs = filter (open_head sha) ps"
  unfolding open_at_def by (induction ps arbitrary: qs) (auto simp: open_head_def elim!: bindE_InrE split: if_split_asm)

definition merge_request :: "'r github \<Rightarrow> int \<Rightarrow> string \<Rightarrow> http_request" where
  "merge_request c n sha = \<lparr>hq_method = ''PUT'', hq_url = gh_url c (gh_path c (''/pulls/'' @ int_str n @ ''/merge'')), hq_headers = gh_headers c,
     hq_payload = Some [(''sha'', JStr sha), (''merge_method'', JStr ''squash'')], hq_timeout = 20\<rparr>"

text \<open>One change is sent once, whatever is answered.\<close>

lemma sent_once: "spent q 1 s t \<Longrightarrow> \<exists>answer. nt_sent t = nt_sent s @ [(q, answer)]"
  by (auto simp: spent_def le_Suc_eq length_Suc_conv)

lemma wp_merge_pull: "wp (merge_pull c n sha ''squash'') (\<lambda>d t. (\<exists>answer. nt_sent t = nt_sent m @ [(merge_request c n sha, answer)])
      \<and> merge_pull c n sha ''squash'' m = (Inr d, t)) (\<lambda>e t. (\<exists>answer. nt_sent t = nt_sent m @ [(merge_request c n sha, answer)]) \<and> merge_pull c n sha ''squash'' m = (Inl e, t)) m"
proof -
  have j: "wp (request_json (gh_loads c) (gh_wire c) (merge_request c n sha) 1)
     (\<lambda>_ t. \<exists>answer. nt_sent t = nt_sent m @ [(merge_request c n sha, answer)]) (\<lambda>_ t. \<exists>answer. nt_sent t = nt_sent m @ [(merge_request c n sha, answer)]) m"
    by (rule wp_mono [OF wp_request_json]) (auto dest: sent_once [unfolded One_nat_def])
  have "wp (merge_pull c n sha ''squash'') (\<lambda>_ t. \<exists>answer. nt_sent t = nt_sent m @ [(merge_request c n sha, answer)])
     (\<lambda>_ t. \<exists>answer. nt_sent t = nt_sent m @ [(merge_request c n sha, answer)]) m"
    unfolding merge_pull_def gh_put_def gh_change_def merge_request_def [symmetric] wp_bind
    by (rule wp_mono [OF j]) (auto simp: wp_ret split: prod.split)
  then show ?thesis by (auto simp: wp_def split: prod.splits sum.splits)
qed

text \<open>
  The one merge of a run of the executor: the last request, for the only open pull request at the
  commit, after its checks attested the commit; \<open>r\<close> is what the client made of the answer.
\<close>

definition merge_sent :: "'r github \<Rightarrow> string \<Rightarrow> 'r net \<Rightarrow> 'r net \<Rightarrow> dict res \<Rightarrow> bool" where
  "merge_sent c sha n0 t r = (\<exists>pulls p n1 checks n2 app v n answer. gh_pulls c n0 = (Inr pulls, n1) \<and> filter (open_head sha) pulls = [p]
     \<and> check_runs c sha n1 = (Inr checks, n2) \<and> attested_commit sha checks app \<and> reads_since n0 n2
     \<and> ditemE p ''number'' = Inr v \<and> py_int v = Inr n \<and> merge_pull c n sha ''squash'' n2 = (r, t)
     \<and> nt_sent t = nt_sent n2 @ [(merge_request c n sha, answer)])"

text \<open>What the executor produces: nothing, or the result of a merge the provider confirmed.\<close>

definition confirms_merge :: "run \<Rightarrow> dict \<Rightarrow> dict res \<Rightarrow> bool" where
  "confirms_merge s d r = (\<exists>merged v. r = Inr merged \<and> dget merged ''merged'' = JBool True \<and> dget d ''outcome'' = JStr ''PASS''
     \<and> dget d ''subject_sha'' = JStr (subject_of s)
     \<and> dget d ''metadata'' = JObj [(''merge_sha'', dget merged ''sha''), (''pull_request_number'', v)])"

fun produces_nothing :: "produced res \<Rightarrow> bool" where
  "produces_nothing (Inr (Produced d)) = False"
| "produces_nothing _ = True"

definition merge_ends :: "('r, 'y) exec_env \<Rightarrow> run \<Rightarrow> ('r, 'y) place \<Rightarrow> produced res \<Rightarrow> ('r, 'y) place \<Rightarrow> bool" where
  "merge_ends en s f a t = ((only_read f t \<and> produces_nothing a)
     \<or> (\<exists>c r. xe_client en = Some c \<and> merge_sent c (subject_of s) (net_of f) (net_of t) r \<and> t = set_net (net_of t) f
         \<and> (case a of Inr (Produced d) \<Rightarrow> confirms_merge s d r | _ \<Rightarrow> True)))"

lemma merge_ends_read: "only_read f t \<Longrightarrow> merge_ends en s f (Inr (Waiting e)) t" "only_read f t \<Longrightarrow> merge_ends en s f (Inl x) t"
  by (simp_all add: merge_ends_def)

lemma merge_ends_sent: "xe_client en = Some c \<Longrightarrow> merge_sent c (subject_of s) (net_of f) n r \<Longrightarrow> merge_ends en s f (Inr (Waiting e)) (set_net n f)"
  "xe_client en = Some c \<Longrightarrow> merge_sent c (subject_of s) (net_of f) n r \<Longrightarrow> merge_ends en s f (Inl x) (set_net n f)"
  "xe_client en = Some c \<Longrightarrow> merge_sent c (subject_of s) (net_of f) n r \<Longrightarrow> confirms_merge s d r \<Longrightarrow> merge_ends en s f (Inr (Produced d)) (set_net n f)"
  by (auto simp: merge_ends_def)

lemma wp_open_pulls: "wp (open_pulls c sha) (\<lambda>ps t. reads_since n t \<and> (\<exists>pulls. gh_pulls c n = (Inr pulls, t) \<and> ps = filter (open_head sha) pulls))
    (\<lambda>_ t. reads_since n t) n"
proof -
  have k: "keeps (reads_since n0) (gh_pulls c)" for n0 by (rule reads_calls)
  show ?thesis unfolding open_pulls_def wp_bind wp_lift
    by (rule wp_mono [OF wp_reads [OF k]]) (auto dest: open_at_filter split: sum.split)
qed

lemma wp_check_runs: "wp (check_runs c sha) (\<lambda>x t. reads_since n t \<and> check_runs c sha n = (Inr x, t)) (\<lambda>_ t. reads_since n t) n"
proof -
  have k: "keeps (reads_since n0) (check_runs c sha)" for n0 by (rule reads_calls)
  show ?thesis by (rule wp_reads [OF k])
qed

lemma step_result_fields: "step_result s key outcome kw = Inr d \<Longrightarrow> dget d ''outcome'' = JStr outcome
    \<and> dget d ''subject_sha'' = dget_or kw ''subject_sha'' (run_subject_sha s) \<and> dget d ''metadata'' = dget_or kw ''metadata'' (JObj [])"
  by (auto simp: step_result_def Let_def split: if_split_asm)

lemma wp_merge: "wp (merge_executor en s key envelope) (\<lambda>m. merge_ends en s f (Inr m)) (\<lambda>e. merge_ends en s f (Inl e)) f"
  (is "wp _ ?Q ?E f")
proof -
  have sent: "wp (bindP (on_net (merge_pull c n (subject_of s) ''squash'')) (\<lambda>merged.
         if dget merged ''merged'' \<noteq> JBool True
           then waitP ''NOT_VERIFIED'' ''MERGE_READBACK_NOT_CONFIRMED'' ''merge'' [(''message'', dget merged ''message'')]
         else bindP (getP evidence_refs) (\<lambda>refs. resultP s key ''PASS'' [(''subject_sha'', JStr (subject_of s)), (''evidence_refs'', JList refs),
           (''metadata'', JObj [(''merge_sha'', dget merged ''sha''), (''pull_request_number'', v)])]))) ?Q ?E (set_net n2 f)"
    if "xe_client en = Some c" "gh_pulls c (net_of f) = (Inr pulls, n1)" "filter (open_head (subject_of s)) pulls = [p]"
      "check_runs c (subject_of s) n1 = (Inr checks, n2)" "attested_commit (subject_of s) checks app" "reads_since (net_of f) n2"
      "ditemE p ''number'' = Inr v" "py_int v = Inr n" for c pulls p n1 checks n2 app v n
  proof -
    have m: "merge_sent c (subject_of s) (net_of f) t r"
      if "merge_pull c n (subject_of s) ''squash'' n2 = (r, t)" "nt_sent t = nt_sent n2 @ [(merge_request c n (subject_of s), answer)]" for r t answer
      unfolding merge_sent_def using that \<open>gh_pulls _ _ = _\<close> \<open>filter _ _ = _\<close> \<open>check_runs _ _ _ = _\<close> \<open>attested_commit _ _ _\<close> \<open>reads_since _ _\<close>
        \<open>ditemE _ _ = _\<close> \<open>py_int _ = _\<close> by blast
    show ?thesis unfolding wp_bind [of "on_net _"] wp_on_net net_of_set
    proof (rule wp_mono [OF wp_merge_pull])
      fix merged t
      assume t: "(\<exists>answer. nt_sent t = nt_sent n2 @ [(merge_request c n (subject_of s), answer)]) \<and> merge_pull c n (subject_of s) ''squash'' n2 = (Inr merged, t)"
      then have x: "merge_sent c (subject_of s) (net_of f) t (Inr merged)" using m by blast
      show "wp (if dget merged ''merged'' \<noteq> JBool True
           then waitP ''NOT_VERIFIED'' ''MERGE_READBACK_NOT_CONFIRMED'' ''merge'' [(''message'', dget merged ''message'')]
         else bindP (getP evidence_refs) (\<lambda>refs. resultP s key ''PASS'' [(''subject_sha'', JStr (subject_of s)), (''evidence_refs'', JList refs),
           (''metadata'', JObj [(''merge_sha'', dget merged ''sha''), (''pull_request_number'', v)])])) ?Q ?E (set_net t f)"
        using merge_ends_sent [OF \<open>xe_client en = Some c\<close> x]
        by (auto simp: wp_simps confirms_merge_def dest!: step_result_fields split: sum.split)
    next
      fix e t
      assume t: "(\<exists>answer. nt_sent t = nt_sent n2 @ [(merge_request c n (subject_of s), answer)]) \<and> merge_pull c n (subject_of s) ''squash'' n2 = (Inl e, t)"
      then have "merge_sent c (subject_of s) (net_of f) t (Inl e)" using m by blast
      from merge_ends_sent(2) [OF \<open>xe_client en = Some c\<close> this] show "?E e (set_net t f)" by simp
    qed
  qed
  have checked: "wp (bindP (on_net (check_runs c (subject_of s))) (\<lambda>checks. bindP (liftP (required_gates (subject_of s) checks)) (\<lambda>g.
       if \<not> gates_passed g then waitP ''NOT_VERIFIED'' ''ALL_PROVIDER_ATTESTED_REQUIRED_GATES_REQUIRED'' ''merge'' (gate_details g)
       else bindP (liftP (ditemE p ''number'')) (\<lambda>v. bindP (liftP (py_int v)) (\<lambda>n. bindP (on_net (merge_pull c n (subject_of s) ''squash'')) (\<lambda>merged.
         if dget merged ''merged'' \<noteq> JBool True
           then waitP ''NOT_VERIFIED'' ''MERGE_READBACK_NOT_CONFIRMED'' ''merge'' [(''message'', dget merged ''message'')]
         else bindP (getP evidence_refs) (\<lambda>refs. resultP s key ''PASS'' [(''subject_sha'', JStr (subject_of s)), (''evidence_refs'', JList refs),
           (''metadata'', JObj [(''merge_sha'', dget merged ''sha''), (''pull_request_number'', v)])]))))))) ?Q ?E (set_net n1 f)"
    if "xe_client en = Some c" "gh_pulls c (net_of f) = (Inr pulls, n1)" "filter (open_head (subject_of s)) pulls = [p]" "reads_since (net_of f) n1"
    for c pulls p n1
    unfolding wp_bind [of "on_net (check_runs _ _)"] wp_on_net net_of_set
  proof (rule wp_mono [OF wp_check_runs], goal_cases)
    case (1 checks n2)
    then have r: "reads_since (net_of f) n2" using that(4) reads_since_trans by blast
    note e = merge_ends_read [OF only_read_net [OF r]]
    have a: "attested_commit (subject_of s) checks (hd (snd g))" if "required_gates (subject_of s) checks = Inr g" "gates_passed g" for g
      by (rule gates_attest [OF that])
    show ?case using e sent [OF that(1-3) _ a r] 1
      by (auto simp: wp_bind [of "liftP _"] wp_lift wp_wait simp del: split_paired_All split: sum.split)
  next
    case (2 x n2)
    then show ?case using that(4) reads_since_trans by (blast intro: merge_ends_read only_read_net)
  qed
  show ?thesis
  proof (cases "xe_client en")
    case None
    then show ?thesis using merge_ends_read(1) [OF only_read_refl] by (simp add: merge_executor_def with_client_def Let_def wp_wait)
  next
    case (Some c)
    show ?thesis unfolding merge_executor_def with_client_def Let_def Some option.case wp_bind [of "on_net (open_pulls _ _)"] wp_on_net
    proof (rule wp_mono [OF wp_open_pulls], goal_cases)
      case (1 ps n1)
      then obtain pulls where p: "gh_pulls c (net_of f) = (Inr pulls, n1)" "ps = filter (open_head (subject_of s)) pulls" and r: "reads_since (net_of f) n1"
        by blast
      show ?case using checked [OF Some p(1) _ r] merge_ends_read [OF only_read_net [OF r]]
        unfolding p(2) by (auto simp: wp_wait split: list.split)
    next
      case (2 x n1)
      then show ?case by (blast intro: merge_ends_read only_read_net)
    qed
  qed
qed

text \<open>
  C7.  A merge is sent at most once, and only for an attested commit.  For every provider, run, key and envelope, the
  executor of the MERGE phase either only reads and produces no result; or the last thing it
  sends is one squash merge pinned to the candidate commit, of the only open pull request
  whose head is that commit, after every required check succeeded for it and all of them were
  reported by one GitHub Actions app, and it produces a result exactly for a merge that the
  provider confirmed, naming the commit that the provider says it merged.  It changes no file.
\<close>

theorem merge_is_sent_for_an_attested_commit:
  "case merge_executor en s key envelope f of (a, t) \<Rightarrow> merge_ends en s f a t"
  using wp_merge [of en s key envelope f] by (auto simp: wp_def split: prod.splits sum.splits)

text \<open>Conversely, the gate lets a live writer through, at once while its heartbeat needs no renewal.\<close>

lemma filterE_sole:
  assumes "filter is_active ls = [l]" "same_lease s branch l = Inr True"
  shows "filterE (same_lease s branch) ls = Inr [l]"
proof -
  have off: "same_lease s branch x = Inr False" if "\<not> is_active x" for x using that by (simp add: same_lease_def is_active_def)
  have none: "filterE (same_lease s branch) xs = Inr []" if "filter is_active xs = []" for xs
    using that by (induction xs) (auto simp: off split: if_split_asm)
  show ?thesis using assms by (induction ls) (auto simp: off none split: if_split_asm)
qed

lemma live_writer_runs:
  assumes "xe_client en = Some c" "bindE (read_file (xo_config (sf_outside f))) policy_of_config = Inr (Inr p)"
    "read_at_main (xe_sha en) c (lp_ceiling p) (net_of f) = (Inr (m, d), n)" "live_writer en p s m d l" "run_id s \<noteq> []"
    "get_time l ''heartbeat_at'' = Inr h" "xe_clock en 1 - h < 60 * 1000000" "run_phase s \<in> set WRITER_PHASES"
    "map_of EXECUTORS (run_phase s) = Some executor"
  shows "execute_phase en s key envelope f = executor en s key envelope (set_net n f)"
proof -
  have sole: "registry_valid (xe_sha en) d" "reg_active d = [l]" "same_lease s (work_branch s) l = Inr True"
    "lease_is_fresh (xe_clock en 0) (lp_heartbeat p) l = Inr True"
    using assms(4,5) by (auto simp: live_writer_def sole_lease_def same_lease_True lease_is_fresh_True reg_active_def active_dicts_def
        dest!: arg_cong [where f = set])
  have only: "filterE (same_lease s (work_branch s)) (lease_dicts d) = Inr [l]"
    using sole by (intro filterE_sole) (simp_all add: active_of_valid)
  have beat: "ditemE l ''heartbeat_at'' = Inr (dget l ''heartbeat_at'')" 
  proof -
    have "fromisoformat ''None'' = None" by code_simp
    then show ?thesis using assms(6) by (auto simp: ditemE_def dget_def get_time_def parse_time_def split: option.splits)
  qed
  have read: "attemptP (on_net (read_at_main (xe_sha en) c (lp_ceiling p))) f = (Inr (Inr (m, d)), set_net n f)"
    using assms(3) by (simp add: attemptP_def on_net_def run_simps set_net_def)
  have gate: "lease_gate en c p s (run_phase s) m d l g = (Inr None, g)" for g :: "('a, 'b) place"
    using assms(4) sole(4) assms(6,7) unfolding lease_gate_def renew_lease_def
    by (auto simp: run_simps live_writer_def Let_def beat get_time_def)
  show ?thesis using assms(8,9)
    by (simp add: execute_phase_def require_live_writer_authority_def assms(1,2) run_simps read only gate orchestration_policy_def)
qed

lemma writer_phase_executor: "phase \<in> set WRITER_PHASES \<Longrightarrow> map_of EXECUTORS phase \<noteq> None"
  by (auto simp: WRITER_PHASES_def EXECUTORS_def)

text \<open>
  C8.  Nothing happens in a writer phase without the writer lease.  For every provider, files and run,
  running the executor of one of the thirteen guarded phases either finds the gate open: the
  provider's registry is valid and the run holds its only active lease, for its own issue, item,
  worker and branch over the whole repository, unexpired with a fresh heartbeat, taken on the
  current main commit, or after the merge with the main commit still the delivered one; or it sends nothing
  but reads, changes no file and produces no result.
\<close>

theorem writer_phases_need_the_writer_lease:
  "case execute_phase en s key envelope f of (a, t) \<Rightarrow>
     if run_phase s \<in> set WRITER_PHASES then gate_open en s f \<or> (only_read f t \<and> produces_nothing a) else True"
proof -
  let ?P = "\<lambda>a t. if run_phase s \<in> set WRITER_PHASES then gate_open en s f \<or> (only_read f t \<and> produces_nothing a) else True"
  have "wp (execute_phase en s key envelope) (\<lambda>m. ?P (Inr m)) (\<lambda>e. ?P (Inl e)) f"
  proof (cases "run_phase s \<in> set WRITER_PHASES")
    case True
    have run: "wp (ex en s key envelope) (\<lambda>m. ?P (Inr m)) (\<lambda>e. ?P (Inl e)) t" if "gate_open en s f" for t ex
      by (rule wp_mono [OF wp_any]) (use that in simp_all)
    have gate: "wp (bindP (require_live_writer_authority en s (run_phase s)) (\<lambda>blocked. case blocked of
         Some e \<Rightarrow> retP (Waiting e) | None \<Rightarrow> ex en s key envelope)) (\<lambda>m. ?P (Inr m)) (\<lambda>e. ?P (Inl e)) f" for ex
    proof (unfold wp_bind, rule wp_mono [OF wp_gate], goal_cases)
      case (1 b t)
      then show ?case using run True by (cases b) (auto simp: gated_def wp_ret)
    qed (use True in auto)
    show ?thesis unfolding execute_phase_def
    proof (split option.split, intro conjI impI allI, goal_cases)
      case 1
      then show ?case using writer_phase_executor [OF True] by blast
    next
      case (2 ex)
      then show ?case using gate True by simp
    qed
  qed (simp add: wp_any)
  then show ?thesis by (auto simp: wp_def split: prod.splits sum.splits)
qed

section \<open>The claim\<close>

text \<open>What every value a program returns satisfies, in any state.\<close>

definition returns :: "('a \<Rightarrow> bool) \<Rightarrow> ('s, 'a) prog \<Rightarrow> bool" where
  "returns P m = (\<forall>s. wp m (\<lambda>x _. P x) (\<lambda>_ _. True) s)"

named_theorems returns_intros

lemma returns_simple [returns_intros]: "P x \<Longrightarrow> returns P (retP x)" "returns P (raiseP e)"
  by (simp_all add: returns_def wp_simps)

lemma returns_bind: "(\<And>x. returns P (f x)) \<Longrightarrow> returns P (bindP m f)"
  unfolding returns_def wp_bind by (blast intro: wp_mono [OF wp_any])

lemma returns_seq: "returns R m \<Longrightarrow> (\<And>x. R x \<Longrightarrow> returns P (f x)) \<Longrightarrow> returns P (bindP m f)"
  unfolding returns_def wp_bind by (blast intro: wp_mono)

lemma returns_lift [returns_intros]: "(\<And>x. r = Inr x \<Longrightarrow> returns P (f x)) \<Longrightarrow> returns P (bindP (liftP r) f)"
  by (auto simp: returns_def wp_simps split: sum.split)

lemma returns_check: "(b \<Longrightarrow> returns P (f ())) \<Longrightarrow> returns P (bindP (checkP b e) f)"
  by (auto simp: returns_def wp_simps)

lemma returns_try: "returns P m \<Longrightarrow> (\<And>e. returns P (h e)) \<Longrightarrow> returns P (tryP m h)"
  unfolding returns_def wp_try by (blast intro: wp_mono)

lemma returns_if [returns_intros]: "(b \<Longrightarrow> returns P m) \<Longrightarrow> (\<not> b \<Longrightarrow> returns P m') \<Longrightarrow> returns P (if b then m else m')"
  by simp

lemma returns_prod [returns_intros]: "(\<And>x y. p = (x, y) \<Longrightarrow> returns P (f x y)) \<Longrightarrow> returns P (case p of (x, y) \<Rightarrow> f x y)"
  by (cases p) simp

lemma returns_Let [returns_intros]: "returns P (f v) \<Longrightarrow> returns P (let x = v in f x)"
  by simp

lemma append_returns: "returns (\<lambda>(d', a). d' = d) (append_cas sha c d p n m)"
  unfolding append_cas_def by (intro returns_intros returns_bind) simp

lemma persist_returns: "returns (\<lambda>(d', a). d' = d) (persist_transition sha c d p n m k)"
  unfolding persist_transition_def by (intro returns_try append_returns returns_intros returns_bind)

lemma acquire_returns: "returns (\<lambda>(d, l, a). \<exists>d0. acquire_registry_lease sha (JObj d0) (q\<lparr>aq_revision := reg_revision d0\<rparr>) uuid now = Inr (d, l))
    (store_acquire sha c q uuid now)"
proof -
  have "returns (\<lambda>(d, l, a). \<exists>d0. acquire_registry_lease sha (JObj d0) (q\<lparr>aq_revision := reg_revision d0\<rparr>) uuid now = Inr (d, l))
    (bindP (persist_transition sha c d1 p n m k) (\<lambda>(d, a). retP (d, l, a)))"
    if "acquire_registry_lease sha (JObj d0) (q\<lparr>aq_revision := reg_revision d0\<rparr>) uuid now = Inr (d1, l)" for d0 d1 l p n m k
    by (rule returns_seq [OF persist_returns]) (use that in \<open>auto intro!: returns_intros\<close>)
  then show ?thesis unfolding store_acquire_def
    by (auto intro!: returns_bind [where m = "require_main _ _"] returns_bind [where m = "read_store _ _ _ _"] returns_check returns_intros)
qed

text \<open>The lease that was acquired is the one active lease of the registry it is in.\<close>

lemma acquired_sole:
  assumes "acquire_registry_lease sha (JObj d0) (stage1_request en p s (''adwf-runtime:'' @ run_id s) m\<lparr>aq_revision := n\<rparr>) uuid now = Inr (d, l)"
    and "run_id s \<noteq> []"
  shows "sole_lease sha s (writer_branch (xe_sha en) s) d l \<and> dget l ''base_sha'' = JStr (subject_of s)"
  using assms(1)
proof (elim acquire_shape)
  let ?q = "stage1_request en p s (''adwf-runtime:'' @ run_id s) m\<lparr>aq_revision := n\<rparr>"
  fix rs lid ttl
  assume g: "acquire_guards d0 ?q now = Inr rs" and l: "l = registry_lease d0 ?q lid rs now (now + minutes ttl)"
    and c: "commit_registry sha ''LEASE_REGISTRY_INVALID_AFTER_ACQUIRE'' d0 (reg_leases d0 @ [JObj l]) (aq_main_sha ?q) = Inr d"
  note g = acquire_guards_facts [OF g] and c = commit_registry_facts [OF c]
  have rs: "JList (map resource_json rs) = STAGE1_RESOURCES"
  proof -
    have "require_canonical_conflict_resources STAGE1_RESOURCES = Inr [\<lparr>rs_kind = ''provider'', rs_scope = ''global'', rs_shared = True, rs_global = True\<rparr>]"
      by code_simp
    moreover have "require_canonical_conflict_resources STAGE1_RESOURCES = Inr rs" using g by (simp add: stage1_request_def)
    ultimately show ?thesis by (auto simp: resource_json_def STAGE1_RESOURCES_def)
  qed
  have v: "registry_valid sha d" "dget d ''max_parallel_writers'' = JInt 1" using g c by (simp_all add: registry_valid_def stage1_request_def)
  then have one: "length (reg_active d) \<le> 1" using valid_from_store [OF v(1), of 1] by simp
  have "py_eq STAGE1_RESOURCES STAGE1_RESOURCES" by code_simp
  have same: "same_lease s (writer_branch (xe_sha en) s) l = Inr True"
    using assms(2) \<open>py_eq STAGE1_RESOURCES STAGE1_RESOURCES\<close> by (simp add: same_lease_True l registry_lease_def stage1_request_def rs)
  have "l \<in> set (lease_dicts d)" using c by (simp add: lease_dicts_def)
  from sole_leaseI [OF v(1) one this same] show ?thesis by (simp add: l registry_lease_def stage1_request_def)
qed

lemma returns_run: "returns (\<lambda>x. \<exists>s t. m s = (Inr x, t)) m"
  by (auto simp: returns_def wp_def split: prod.split sum.split)

lemma returns_conj: "returns P m \<Longrightarrow> returns Q m \<Longrightarrow> returns (\<lambda>x. P x \<and> Q x) m"
  unfolding returns_def using wp_conj [where E = "\<lambda>_ _. True" and E' = "\<lambda>_ _. True"] by fastforce

lemma returns_net: "returns P m \<Longrightarrow> returns P (on_net m)"
  by (simp add: returns_def wp_on_net)

lemma returns_wait [returns_intros]: "P (Waiting (wait_for a b c d)) \<Longrightarrow> returns P (waitP a b c d)"
  by (simp add: returns_def wp_wait)

lemma returns_result [returns_intros]: "(\<And>d. step_result s key outcome kw = Inr d \<Longrightarrow> P (Produced d)) \<Longrightarrow> returns P (resultP s key outcome kw)"
  by (auto simp: returns_def wp_result split: sum.split)

lemma returns_guarded: "returns P m \<Longrightarrow> (\<And>e. P (Waiting e)) \<Longrightarrow> returns P (guardedP m reason cap)"
  unfolding returns_def guardedP_def wp_bind wp_attempt
  by (intro allI, rule wp_mono [where Q = "\<lambda>x _. P x" and E = "\<lambda>_ _. True"]) (auto simp: wp_simps)

text \<open>
  What a claim that passes has: the only active lease of a valid registry, its own, on the candidate
  commit; found there, fresh, or just acquired; and the result names that lease.
\<close>

definition claims_lease :: "('r, 'y) exec_env \<Rightarrow> 'r github \<Rightarrow> lease_policy \<Rightarrow> run \<Rightarrow> dict \<Rightarrow> bool" where
  "claims_lease en c p s r = (\<exists>d l anchor resumed metadata. sole_lease (xe_sha en) s (writer_branch (xe_sha en) s) d l
     \<and> dget l ''base_sha'' = JStr (subject_of s)
     \<and> (if resumed then fresh_lease (xe_clock en 0) (lp_heartbeat p) l \<and> (\<exists>n0 n1. read_store (xe_sha en) c (subject_of s) 1 n0 = (Inr (d, anchor), n1))
        else (\<exists>q n0 n1 a. store_acquire (xe_sha en) c q (xe_uuid en) (xe_clock en 1) n0 = (Inr (d, l, a), n1) \<and> anchor = Some a))
     \<and> lease_metadata l anchor d (writer_branch (xe_sha en) s) resumed = Inr metadata
     \<and> dget r ''outcome'' = JStr ''PASS'' \<and> dget r ''metadata'' = metadata)"

definition claim_result :: "('r, 'y) exec_env \<Rightarrow> run \<Rightarrow> produced \<Rightarrow> bool" where
  "claim_result en s made = (case made of Waiting e \<Rightarrow> True
     | Produced r \<Rightarrow> sha40 (subject_of s) \<and> (\<exists>c p. xe_client en = Some c \<and> claims_lease en c p s r))"

lemma claim_waits [simp]: "claim_result en s (Waiting e)"
  by (simp add: claim_result_def)

lemma claim_resumed:
  assumes "registry_valid (xe_sha en) d" "length (reg_active d) \<le> 1" "read_store (xe_sha en) c (subject_of s) 1 n0 = (Inr (d, anchor), n1)"
    "filterE (\<lambda>l. bindE (same_lease s (writer_branch (xe_sha en) s) l) (\<lambda>b. Inr (b \<and> dget l ''base_sha'' = JStr (subject_of s))))
       (filter is_active (lease_dicts d)) = Inr [l]"
    "lease_is_fresh (xe_clock en 0) (lp_heartbeat p) l = Inr True" "lease_metadata l anchor d (writer_branch (xe_sha en) s) True = Inr metadata"
    "step_result s key ''PASS'' [(''metadata'', metadata)] = Inr r"
  shows "claims_lease en c p s r"
proof -
  from filterE_member [OF assms(4), of l] have l: "l \<in> set (lease_dicts d)" "same_lease s (writer_branch (xe_sha en) s) l = Inr True"
    "dget l ''base_sha'' = JStr (subject_of s)" by (auto simp: bindE_eq_Inr)
  have sole: "sole_lease (xe_sha en) s (writer_branch (xe_sha en) s) d l" by (rule sole_leaseI [OF assms(1,2) l(1,2)])
  have "dget r ''outcome'' = JStr ''PASS'' \<and> dget r ''metadata'' = metadata"
    using step_result_fields [OF assms(7)] by (simp add: dget_or_def)
  then show ?thesis unfolding claims_lease_def
    using sole l(3) assms(3,5,6) by (intro exI [of _ d] exI [of _ l] exI [of _ anchor] exI [of _ True] exI [of _ metadata]) (auto simp: lease_is_fresh_True)
qed

lemma claim_acquired:
  assumes "store_acquire (xe_sha en) c (stage1_request en p s (''adwf-runtime:'' @ run_id s) m) (xe_uuid en) (xe_clock en 1) n0 = (Inr (d, l, a), n1)"
    "acquire_registry_lease (xe_sha en) (JObj d0) (stage1_request en p s (''adwf-runtime:'' @ run_id s) m\<lparr>aq_revision := reg_revision d0\<rparr>)
      (xe_uuid en) (xe_clock en 1) = Inr (d, l)" "run_id s \<noteq> []"
    "lease_metadata l (Some a) d (writer_branch (xe_sha en) s) False = Inr metadata" "step_result s key ''PASS'' [(''metadata'', metadata)] = Inr r"
  shows "claims_lease en c p s r"
proof -
  have "dget r ''outcome'' = JStr ''PASS'' \<and> dget r ''metadata'' = metadata"
    using step_result_fields [OF assms(5)] by (simp add: dget_or_def)
  then show ?thesis unfolding claims_lease_def using acquired_sole [OF assms(2,3)] assms(1,4)
    by (intro exI [of _ d] exI [of _ l] exI [of _ "Some a"] exI [of _ False] exI [of _ metadata]) auto
qed

lemma read_store_returns: "returns (\<lambda>(d, a). registry_valid sha d \<and> length (reg_active d) \<le> nat n) (read_store sha c m n)"
  unfolding returns_def using wp_read_store_valid by (auto simp: case_prod_unfold)

lemma claim_body_returns:
  assumes "xe_client en = Some c" "sha40 (subject_of s)" "run_id s \<noteq> []"
  shows "returns (claim_result en s) (claim_body en c p s key (''adwf-runtime:'' @ run_id s))"
proof -
  let ?w = "''adwf-runtime:'' @ run_id s" and ?b = "writer_branch (xe_sha en) s" and ?base = "subject_of s"
  have made: "claim_result en s (Produced r)" if "claims_lease en c p s r" for r
    using that assms(1,2) by (auto simp: claim_result_def)
  have acquired: "returns (claim_result en s) (bindP (on_net (store_acquire (xe_sha en) c (stage1_request en p s ?w ?base) (xe_uuid en) (xe_clock en 1)))
       (\<lambda>(d', l, anchor'). bindP (liftP (lease_metadata l (Some anchor') d' ?b False)) (\<lambda>metadata. resultP s key ''PASS'' [(''metadata'', metadata)])))"
    by (rule returns_seq [OF returns_net [OF returns_conj [OF returns_run acquire_returns]]])
      (auto intro!: returns_intros made claim_acquired [OF _ _ assms(3)])
  have resumed: "returns (claim_result en s) (bindP (liftP (case (active, compatible) of
         ([_], [l]) \<Rightarrow> lease_is_fresh (xe_clock en 0) (lp_heartbeat p) l | _ \<Rightarrow> Inr False)) (\<lambda>resumed.
       if resumed then bindP (liftP (lease_metadata (hd compatible) anchor d ?b True)) (\<lambda>metadata. resultP s key ''PASS'' [(''metadata'', metadata)])
       else waitP ''NOT_VERIFIED'' ''ACTIVE_PROVIDER_LEASE_INCOMPATIBLE'' ''claim'' details))"
    if "registry_valid (xe_sha en) d" "length (reg_active d) \<le> 1" "\<exists>n0 n1. read_store (xe_sha en) c ?base 1 n0 = (Inr (d, anchor), n1)"
      "active = filter is_active (lease_dicts d)"
      "filterE (\<lambda>l. bindE (same_lease s ?b l) (\<lambda>b. Inr (b \<and> dget l ''base_sha'' = JStr ?base))) active = Inr compatible"
    for d anchor active compatible details
  proof -
    from that(3) obtain n0 n1 where "read_store (xe_sha en) c ?base 1 n0 = (Inr (d, anchor), n1)" by blast
    then show ?thesis using that(4,5)
      by (auto intro!: returns_intros made claim_resumed [OF that(1,2)] split: list.split_asm)
  qed
  show ?thesis unfolding claim_body_def Let_def
    by (rule returns_bind, rule returns_prod, rule returns_if, rule returns_wait, simp,
        rule returns_seq [OF returns_net [OF returns_conj [OF returns_run read_store_returns]]],
        rule returns_prod, rule returns_lift, rule returns_if, use acquired in fastforce, rule resumed) auto
qed

text \<open>
  A claim that passes holds the lease.  For every provider, run and key, when the executor of the CLAIM phase produces a
  result, the candidate is a commit and the registry it read or its own acquisition returned is valid with exactly one active
  lease, held by this run: its issue, roadmap item, worker identity and branch, the whole
  repository, based on the candidate; a lease that was found is fresh, any other was acquired by
  this execution; and the result names that lease, its anchor and the revision of its registry.
\<close>

theorem claim_holds_the_lease:
  "case claim_executor en s key envelope f of (Inr made, t) \<Rightarrow> claim_result en s made | (Inl e, t) \<Rightarrow> True"
proof -
  have b: "returns (claim_result en s) (guardedP (claim_body en c p s key worker) reason cap)"
    if "xe_client en = Some c" "sha40 (subject_of s)" "writer_id s = Inr worker" for c p worker reason cap
    using that claim_body_returns [OF that(1,2)] by (intro returns_guarded) (auto simp: writer_id_def split: if_split_asm)
  have "returns (claim_result en s) (claim_executor en s key envelope)"
    unfolding claim_executor_def with_client_def
    by (auto intro!: returns_intros returns_bind [where m = orchestration_policy] b split: option.split sum.split)
  then have "wp (claim_executor en s key envelope) (\<lambda>m _. claim_result en s m) (\<lambda>_ _. True) f" by (simp add: returns_def)
  then show ?thesis by (auto simp: wp_def split: prod.splits sum.splits)
qed

end
