(* ===== verification/ExecutorSample.thy ===== *)
theory ExecutorSample
  imports ExecutorProps
begin

text \<open>
  A small provider on which the executor of the MERGE phase runs: two pull requests have the candidate
  as their head, one of them open, the three required checks succeeded, and the merge is confirmed once.
\<close>

definition merge_commit :: string where "merge_commit = replicate 40 (CHR ''c'')"

definition merge_check :: "string \<Rightarrow> json" where
  "merge_check name = JObj [(''name'', JStr name), (''head_sha'', JStr merge_commit), (''status'', JStr ''completed''), (''conclusion'', JStr ''success''),
     (''app'', JObj [(''slug'', JStr ''github-actions''), (''id'', JInt 15368)])]"

definition merge_row :: "int \<Rightarrow> string \<Rightarrow> json" where
  "merge_row n state = JObj [(''number'', JInt n), (''state'', JStr state), (''head'', JObj [(''sha'', JStr merge_commit)])]"

definition merge_loads :: "string \<Rightarrow> json res" where
  "merge_loads s = (if s = ''P'' then Inr (JList [merge_row 5 ''closed'', merge_row 7 ''open''])
     else if s = ''C'' then Inr (JObj [(''check_runs'', JList (map merge_check REQUIRED_CHECKS))])
     else if s = ''M'' then Inr (JObj [(''merged'', JBool True), (''sha'', JStr merge_commit)]) else Inl (ValueError []))"

definition merge_path :: "string \<Rightarrow> string" where "merge_path p = ''/repos/owner/repo'' @ p"

definition merge_answer :: "string \<Rightarrow> http_response" where
  "merge_answer b = \<lparr>ht_status = (if b = [] then 404 else 200), ht_headers = [], ht_body = b\<rparr>"

definition merge_wire :: "nat wire" where
  "merge_wire q n = (if hq_method q = ''PUT'' then
       (if hq_url q = merge_path ''/pulls/7/merge'' \<and> n = 0 then (Inr (merge_answer ''M''), 1) else (Inr (merge_answer []), n))
     else (Inr (merge_answer (if hq_url q = merge_path ''/pulls?state=all&sort=updated&direction=desc&per_page=100'' then ''P''
       else if hq_url q = merge_path (''/commits/'' @ merge_commit @ ''/check-runs?per_page=100'') then ''C'' else [])), n))"

definition merge_client :: "nat github" where
  "merge_client = \<lparr>gh_repo = ''owner/repo'', gh_token = ''t'', gh_base = [], gh_wire = merge_wire, gh_loads = merge_loads, gh_paged = (\<lambda>u n. u)\<rparr>"

definition merge_env :: "(nat, unit) exec_env" where
  "merge_env = \<lparr>xe_sha = flat_sha, xe_ru = id, xe_clock = (\<lambda>_. claim_time), xe_uuid = sample_uuid, xe_client = Some merge_client, xe_auth = [],
     xe_var = (\<lambda>_. []), xe_head = (\<lambda>_. Inl OSError), xe_reconcile = (\<lambda>_. raiseP OSError), xe_command = (\<lambda>_ _ _ _. raiseP OSError),
     xe_promote = (\<lambda>_. raiseP OSError), xe_observe = (\<lambda>_. raiseP OSError), xe_adapter = (\<lambda>_ _ _. Inl OSError),
     xe_agent = (\<lambda>_ _. raiseP OSError), xe_binding = (\<lambda>_ _ _. Inl OSError)\<rparr>"

definition merge_start :: "(nat, unit) place" where
  "merge_start = \<lparr>sf_memory = None, sf_requests = (\<lambda>_. None), sf_results = (\<lambda>_. None), sf_assurance = None, sf_provider = None, sf_project = None,
     sf_outside = \<lparr>xo_net = \<lparr>nt_world = 0, nt_sent = [], nt_naps = []\<rparr>, xo_config = None, xo_preview = None, xo_delivery = (\<lambda>_. None), xo_rest = ()\<rparr>\<rparr>"

definition merge_run :: run where
  "merge_run = sample_run\<lparr>run_phase := ''MERGE'', run_subject_sha := JStr merge_commit\<rparr>"

definition merged_result :: dict where
  "merged_result = [(''phase'', JStr ''MERGE''), (''outcome'', JStr ''PASS''), (''idempotency_key'', JStr ''key''), (''subject_sha'', JStr merge_commit),
     (''preview_digest'', JNull), (''evidence_refs'', JList []), (''reason_codes'', JList []), (''cost_usd'', JInt 0),
     (''metadata'', JObj [(''merge_sha'', JStr merge_commit), (''pull_request_number'', JInt 7)])]"

lemma merge_runs: "(case merge_executor merge_env merge_run ''key'' JNull merge_start of (a, t) \<Rightarrow> (a, nt_world (net_of t))) = (Inr (Produced merged_result), 1)"
  by code_simp

text \<open>The provider's checks attest the commit, and the merge is the last of the requests.\<close>

lemma merge_is_sent_for_an_attested_commit_witness:
  "\<exists>t r. merge_executor merge_env merge_run ''key'' JNull merge_start = (Inr (Produced merged_result), t)
     \<and> merge_sent merge_client merge_commit (net_of merge_start) (net_of t) r \<and> confirms_merge merge_run merged_result r"
proof -
  obtain t where t: "merge_executor merge_env merge_run ''key'' JNull merge_start = (Inr (Produced merged_result), t)"
    using merge_runs by (auto split: prod.splits)
  have c: "xe_client merge_env = Some merge_client" by (simp add: merge_env_def)
  have s: "subject_of merge_run = merge_commit" by code_simp
  show ?thesis
    using merge_is_sent_for_an_attested_commit [where en = merge_env and s = merge_run and key = "''key''" and envelope = JNull and f = merge_start] t
    by (auto simp: merge_ends_def c s)
qed

section \<open>A finding\<close>

text \<open>
  The executor of RECONCILE creates the issue of a run that has none before it starts the reconciliation process,
  and remembers the issue only in a work memory, not in the run.  When that process fails, the phase
  is executed again and creates a second issue: on this provider, two executions leave two.
\<close>

definition intake_wire :: "nat wire" where
  "intake_wire q n = (if hq_method q = ''POST'' \<and> hq_url q = merge_path ''/issues'' then (Inr (merge_answer ''N''), n + 1)
     else (Inr (merge_answer (if hq_url q = merge_path [] then ''I'' else if hq_url q = merge_path ''/branches/main'' then ''B'' else [])), n))"

definition intake_loads :: "string \<Rightarrow> json res" where
  "intake_loads s = (if s = ''N'' then Inr (JObj [(''number'', JInt 11)]) else if s = ''I'' then Inr (JObj [(''default_branch'', JStr ''main'')])
     else if s = ''B'' then Inr (JObj [(''commit'', JObj [(''sha'', JStr merge_commit)])]) else Inl (ValueError []))"

definition intake_env :: "(nat, unit) exec_env" where
  "intake_env = merge_env\<lparr>xe_client := Some (merge_client\<lparr>gh_wire := intake_wire, gh_loads := intake_loads\<rparr>),
     xe_reconcile := (\<lambda>_. retP \<lparr>pr_code = 2, pr_stdout = [], pr_stderr = []\<rparr>)\<rparr>"

definition intake_run :: run where
  "intake_run = sample_run\<lparr>run_issue_id := ''PENDING''\<rparr>"

lemma failed_reconciliation_creates_another_issue:
  "(case bindP (reconcile_executor intake_env intake_run ''key'' JNull) (\<lambda>first. bindP (reconcile_executor intake_env intake_run ''key'' JNull) (\<lambda>second.
       retP (produces_nothing (Inr first), produces_nothing (Inr second)))) merge_start of (a, t) \<Rightarrow> (a, nt_world (net_of t))) = (Inr (True, True), 2)"
  by code_simp

end
