(* ===== verification/RegexFind.thy ===== *)
theory RegexFind
  imports Regex
begin

text \<open>
  \<open>finditer\<close>: where a match ends matters there, so the positions come in the order in which Python's
  matcher tries them, an alternative before the next one and a repetition as long as possible first.
  The match is the first of them, and it is one of the semantics.
\<close>

section \<open>Ends in the order of preference\<close>

primrec greedy :: "(position \<Rightarrow> position list) \<Rightarrow> nat \<Rightarrow> position \<Rightarrow> position list" where
  "greedy f 0 x = [x]"
| "greedy f (Suc n) x = concat (map (greedy f n) (filter (\<lambda>y. length (snd y) < length (snd x)) (f x))) @ [x]"

primrec rx_ends :: "rx \<Rightarrow> position \<Rightarrow> position list" where
  "rx_ends (RChar f) x = step_one f x"
| "rx_ends RBound x = (if at_boundary x then [x] else [])"
| "rx_ends (RCat r r') x = concat (map (rx_ends r') (rx_ends r x))"
| "rx_ends (ROr r r') x = rx_ends r x @ rx_ends r' x"
| "rx_ends (RStar r) x = greedy (rx_ends r) (length (snd x)) x"
| "rx_ends REmpty x = [x]"

lemma greedy_rounds: "(\<And>x. set (f x) = set (g x)) \<Longrightarrow> set (greedy f n x) = set (rounds g n x)"
  by (induction n arbitrary: x) auto

lemma ends_run: "set (rx_ends r x) = set (rx_run r x)"
  by (induction r arbitrary: x) (simp_all add: greedy_rounds)

lemma ends_exact: "set (rx_ends r x) = {y. rx_matches r x y}"
  by (simp add: ends_run run_exact)

section \<open>All matches\<close>

definition first_end :: "rx \<Rightarrow> position \<Rightarrow> position option" where
  "first_end r x = (case rx_ends r x of [] \<Rightarrow> None | y # _ \<Rightarrow> Some y)"

lemma first_end_matches: "first_end r x = Some y \<Longrightarrow> rx_matches r x y"
  using ends_exact [of r x] by (auto simp: first_end_def split: list.splits)

lemma first_end_None: "first_end r x = None \<longleftrightarrow> (\<forall>y. \<not> rx_matches r x y)"
proof -
  have "first_end r x = None \<longleftrightarrow> set (rx_ends r x) = {}" by (simp add: first_end_def split: list.splits)
  then show ?thesis unfolding ends_exact by simp
qed

lemma run_Nil: "rx_run r x = [] \<longleftrightarrow> (\<forall>y. \<not> rx_matches r x y)"
proof -
  have "rx_run r x = [] \<longleftrightarrow> set (rx_run r x) = {}" by simp
  then show ?thesis unfolding run_exact by simp
qed

text \<open>The texts of the matches from left to right, of an expression that never matches the empty text.\<close>

function find_texts :: "rx \<Rightarrow> char option \<Rightarrow> string \<Rightarrow> string list" where
  "find_texts r p s = (case first_end r (p, s) of
     Some y \<Rightarrow> if length (snd y) < length s then take (length s - length (snd y)) s # find_texts r (fst y) (snd y)
       else (case s of [] \<Rightarrow> [] | c # t \<Rightarrow> find_texts r (Some c) t)
   | None \<Rightarrow> (case s of [] \<Rightarrow> [] | c # t \<Rightarrow> find_texts r (Some c) t))"
  by pat_completeness auto
termination by (relation "measure (\<lambda>(r, p, s). length s)") auto

declare find_texts.simps [simp del]

definition re_findall :: "rx \<Rightarrow> string \<Rightarrow> string list" where
  "re_findall r s = find_texts r None s"

text \<open>Something is found exactly where \<open>re.search\<close> finds it.\<close>

definition never_empty :: "rx \<Rightarrow> bool" where
  "never_empty r = (\<forall>x y. rx_matches r x y \<longrightarrow> length (snd y) < length (snd x))"

lemma find_texts_search:
  assumes "never_empty r"
  shows "find_texts r p s \<noteq> [] \<longleftrightarrow> search_from r p s"
proof (induction s arbitrary: p)
  case Nil
  have "rx_run r (p, []) = []" unfolding run_Nil using assms by (fastforce simp: never_empty_def)
  moreover have "first_end r (p, []) = None" unfolding first_end_None using assms by (fastforce simp: never_empty_def)
  ultimately show ?case by (simp add: find_texts.simps)
next
  case (Cons c s)
  show ?case
  proof (cases "first_end r (p, c # s)")
    case None
    then have "rx_run r (p, c # s) = []" unfolding run_Nil first_end_None .
    with None show ?thesis using Cons.IH by (subst find_texts.simps) simp
  next
    case (Some y)
    have m: "rx_matches r (p, c # s) y" by (rule first_end_matches [OF Some])
    then have "length (snd y) < length (c # s)" using assms unfolding never_empty_def by (metis snd_conv)
    moreover have "rx_run r (p, c # s) \<noteq> []" using m unfolding run_Nil by blast
    ultimately show ?thesis using Some by (subst find_texts.simps) simp
  qed
qed

section \<open>Bounded repetition\<close>

text \<open>\<open>r{0,n}\<close>, the longest first.\<close>

primrec UpTo :: "nat \<Rightarrow> rx \<Rightarrow> rx" where
  "UpTo 0 r = REmpty"
| "UpTo (Suc n) r = ROr (RCat r (UpTo n r)) REmpty"

section \<open>How much a match consumes\<close>

primrec min_len :: "rx \<Rightarrow> nat" where
  "min_len (RChar f) = 1"
| "min_len RBound = 0"
| "min_len (RCat r r') = min_len r + min_len r'"
| "min_len (ROr r r') = min (min_len r) (min_len r')"
| "min_len (RStar r) = 0"
| "min_len REmpty = 0"

lemma match_consumes: "rx_matches r x y \<Longrightarrow> length (snd y) + min_len r \<le> length (snd x)"
  by (induction rule: rx_matches.induct) auto

lemma min_len_never_empty: "0 < min_len r \<Longrightarrow> never_empty r"
  using match_consumes by (fastforce simp: never_empty_def)

lemma min_len_search: "length s < min_len r \<Longrightarrow> \<not> re_search r s"
  using match_consumes [of r] unfolding re_search_iff by fastforce

lemma min_len_findall: "length s < min_len r \<Longrightarrow> re_findall r s = []"
  using find_texts_search [OF min_len_never_empty, of r None s] min_len_search [of s r] by (simp add: re_findall_def re_search_def)

lemma min_len_words: "min_len (Lit s) = length s" "min_len (ILit s) = length s"
    "min_len (Plus r) = min_len r" "min_len (Opt r) = 0" "min_len (AnyOf s) = 1"
  unfolding Lit_def ILit_def Plus_def Opt_def AnyOf_def
  by (induction s) simp_all

lemma min_len_Seq: "min_len (Seq rs) = sum_list (map min_len rs)"
  unfolding Seq_def by (induction rs) simp_all

end
