(* ===== verification/TrustDiff.thy ===== *)
theory TrustDiff
  imports RegexFind PyTime
begin

text \<open>
  Classification of a change against the trust policy of its base revision, and the provenance of
  checks and reviews (\<open>.adwf/lib/trust.py\<close>).  The strict JSON loader is the argument \<open>loads\<close>, the
  digest \<open>sha\<close>; git and the decoding of its output are arguments of the functions that inspect a repository.
\<close>

section \<open>Paths and patterns\<close>

definition unsafe_path :: exn where
  "unsafe_path = ValueError ''unsafe repository path''"

text \<open>The parts of \<open>PurePosixPath\<close>: empty ones and single dots disappear.\<close>

definition path_parts :: "string \<Rightarrow> string list" where
  "path_parts s = filter (\<lambda>p. p \<noteq> [] \<and> p \<noteq> ''.'') (split_on (CHR ''/'') s)"

definition as_posix :: "string list \<Rightarrow> string" where
  "as_posix ps = (if ps = [] then ''.'' else join ''/'' ps)"

definition normalize_repo_path :: "string \<Rightarrow> string res" where
  "normalize_repo_path s = (if strip s = [] \<or> CHR 0x5C \<in> set s then Inl unsafe_path
     else (let raw = (if starts_with s ''./'' then drop 2 s else s); parts = path_parts raw in
       if starts_with raw ''/'' \<or> ''..'' \<in> set parts then Inl unsafe_path else Inr (as_posix parts)))"

text \<open>
  A pattern as \<open>_glob_regex\<close> reads it: \<open>**\<close> becomes \<open>.*\<close>, which stops at a newline, \<open>*\<close> and \<open>?\<close> stop at a slash.
\<close>

datatype glob_part = Deep | Level | OneOf | Just char

fun glob_parts :: "string \<Rightarrow> glob_part list" where
  "glob_parts [] = []"
| "glob_parts (c # p) = (if c = CHR ''*'' then (case p of d # q \<Rightarrow> if d = CHR ''*'' then Deep # glob_parts q else Level # glob_parts p | [] \<Rightarrow> [Level])
     else if c = CHR ''?'' then OneOf # glob_parts p else Just c # glob_parts p)"

fun part_has :: "glob_part \<Rightarrow> char \<Rightarrow> bool" where
  "part_has Deep c = (c \<noteq> CHR 0x0A)"
| "part_has Level c = (c \<noteq> CHR ''/'')"
| "part_has OneOf c = (c \<noteq> CHR ''/'')"
| "part_has (Just d) c = (c = d)"

fun many :: "glob_part \<Rightarrow> bool" where
  "many Deep = True" | "many Level = True" | "many _ = False"

fun path_fits :: "glob_part list \<Rightarrow> string \<Rightarrow> bool" where
  "path_fits [] s = (s = [])"
| "path_fits (g # gs) s = (if many g
     then path_fits gs s \<or> (case s of [] \<Rightarrow> False | c # t \<Rightarrow> part_has g c \<and> path_fits (g # gs) t)
     else (case s of [] \<Rightarrow> False | c # t \<Rightarrow> part_has g c \<and> path_fits gs t))"

definition glob_regex :: "string \<Rightarrow> glob_part list res" where
  "glob_regex pattern = bindE (normalize_repo_path pattern) (\<lambda>s. Inr (glob_parts s))"

definition readable :: "json \<Rightarrow> bool" where
  "readable pattern = (case glob_regex (py_str pattern) of Inl _ \<Rightarrow> False | Inr _ \<Rightarrow> True)"

text \<open>A pattern that cannot be read protects nothing here; \<open>classify_diff\<close> has validated them before.\<close>

definition pattern_fits :: "string \<Rightarrow> json \<Rightarrow> bool" where
  "pattern_fits path pattern = (case glob_regex (py_str pattern) of Inl _ \<Rightarrow> False | Inr g \<Rightarrow> path_fits g path)"

definition is_protected_path :: "string \<Rightarrow> json list \<Rightarrow> bool res" where
  "is_protected_path path patterns = bindE (normalize_repo_path path) (\<lambda>s. Inr (list_ex (pattern_fits s) patterns))"

definition INTEGRITY_PROJECTIONS :: "string list" where
  "INTEGRITY_PROJECTIONS = [''MANIFEST.json'', ''SHA256SUMS.txt'', ''.gitattributes'']"

definition GENERATED_TRUST_PROJECTIONS :: "string list" where
  "GENERATED_TRUST_PROJECTIONS = [''MANIFEST.json'', ''SHA256SUMS.txt'', ''.adwf/docs-registry.json'']"

definition is_trust_sensitive_path :: "string \<Rightarrow> json list \<Rightarrow> bool res" where
  "is_trust_sensitive_path path patterns = bindE (normalize_repo_path path) (\<lambda>s.
     if s \<in> set INTEGRITY_PROJECTIONS then Inr True else is_protected_path s patterns)"

section \<open>The standing authorization of the base policy\<close>

record standing =
  st_present :: bool
  st_valid :: bool
  st_status :: json
  st_digest :: "string option"
  st_revision :: json
  st_manual :: "json list"

definition invalid_standing :: standing where
  "invalid_standing = \<lparr>st_present = True, st_valid = False, st_status = JStr ''INVALID'', st_digest = None, st_revision = JNull, st_manual = []\<rparr>"

definition STANDING_KEYS :: "string list" where
  "STANDING_KEYS = [''schema_version'', ''revision'', ''status'', ''mode'', ''issued_by'', ''scope'', ''require_exact_current_base'',
     ''manual_required_paths'', ''non_overridable_invariants'', ''revocation'']"

definition INVARIANTS :: "string list" where
  "INVARIANTS = [''FREE_ONLY'', ''NO_BYPASS'', ''EVIDENCE_INTEGRITY'', ''NO_SELF_AUTHORIZATION'']"

text \<open>\<open>set(xs) == {...}\<close> hashes the elements first.\<close>

definition set_isE :: "json list \<Rightarrow> string list \<Rightarrow> bool res" where
  "set_isE xs S = (if list_all hashable xs then Inr (list_all (\<lambda>x. in_tuple x S) xs \<and> list_all (\<lambda>s. JStr s \<in> set xs) S) else Inl TypeError)"

definition fixed_terms :: "dict \<Rightarrow> bool" where
  "fixed_terms d = (dget d ''mode'' = JStr ''HUMAN_BY_EXCEPTION'' \<and> dget d ''issued_by'' = JStr ''REPOSITORY_OWNER''
     \<and> dget d ''scope'' = JStr ''PULL_REQUEST_TRUST_CHANGES'' \<and> dget d ''require_exact_current_base'' = JBool True)"

definition manual_valid :: "json \<Rightarrow> bool" where
  "manual_valid v = (is_list v \<and> list_of v \<noteq> [] \<and> distinct (map py_str (list_of v))
     \<and> list_all readable (list_of v))"

text \<open>The chain of \<open>valid and ...\<close>: what comes after the first false is not evaluated.\<close>

definition standing_valid :: "dict \<Rightarrow> bool res" where
  "standing_valid d =
     (if \<not> keys_are d STANDING_KEYS \<or> \<not> py_eq (dget d ''schema_version'') (JInt 1)
          \<or> \<not> (is_int (dget d ''revision'') \<and> 1 \<le> int_of (dget d ''revision'')) then Inr False
      else bindE (in_set (dget d ''status'') [''ACTIVE'', ''REVOKED'']) (\<lambda>known.
        if \<not> known \<or> \<not> fixed_terms d \<or> \<not> manual_valid (dget d ''manual_required_paths'') \<or> \<not> is_list (dget d ''non_overridable_invariants'') then Inr False
        else bindE (set_isE (list_of (dget d ''non_overridable_invariants'')) INVARIANTS) (\<lambda>same.
          Inr (same \<and> dget d ''revocation'' = JStr ''HUMAN_GATED_BASE_POLICY_CHANGE''))))"

definition standing_authorization_policy_metadata :: "(string \<Rightarrow> string) \<Rightarrow> dict \<Rightarrow> standing res" where
  "standing_authorization_policy_metadata sha policy = (case dget policy ''standing_authorization'' of
     JNull \<Rightarrow> Inr \<lparr>st_present = False, st_valid = True, st_status = JStr ''LEGACY'', st_digest = None, st_revision = JNull, st_manual = []\<rparr>
   | JObj d \<Rightarrow> bindE (standing_valid d) (\<lambda>ok. Inr (if \<not> ok then invalid_standing else
       \<lparr>st_present = True, st_valid = True, st_status = dget d ''status'', st_digest = Some (sha (canonical (JObj d))),
        st_revision = dget d ''revision'', st_manual = list_of (dget d ''manual_required_paths'')\<rparr>))
   | _ \<Rightarrow> Inr invalid_standing)"

section \<open>Structural weakening\<close>

definition SAFE_WORDS :: "string list" where
  "SAFE_WORDS = [''required'', ''enforce'', ''guard'', ''protected'', ''independent'', ''human'', ''fail_closed'', ''runtime_truth'',
     ''separate_trust'', ''block'', ''forbid'', ''mandatory'']"

definition DANGEROUS_WORDS :: "string list" where
  "DANGEROUS_WORDS = [''allow_overage'', ''allow_credit'', ''allow_metered'', ''allow_unknown'', ''allow_paid'', ''secondary_write'',
     ''automatic_merge'', ''automatic_execution'', ''a4_automatic'', ''larger_runners_allowed'']"

text \<open>\<open>re.search\<close> of an alternative of lower case words, ignoring case.\<close>

definition has_word :: "string list \<Rightarrow> string \<Rightarrow> bool" where
  "has_word ws s = list_ex (contains (lower s)) ws"

definition safe_key :: "string \<Rightarrow> bool" where "safe_key = has_word SAFE_WORDS"
definition dangerous_key :: "string \<Rightarrow> bool" where "dangerous_key = has_word DANGEROUS_WORDS"

definition AUTONOMY_LEVELS :: "string list" where "AUTONOMY_LEVELS = [''A0'', ''A1'', ''A2'', ''A3'', ''A4'']"
definition RISK_LEVELS :: "string list" where "RISK_LEVELS = [''R0'', ''R1'', ''R2'', ''R3'', ''R4'']"

text \<open>A level that rises; membership in the table hashes the value.  Levels are two characters, so they compare by the second.\<close>

definition level_rises :: "string list \<Rightarrow> json \<Rightarrow> json \<Rightarrow> bool res" where
  "level_rises levels old new = bindE (in_set old levels) (\<lambda>a. if \<not> a then Inr False else
     bindE (in_set new levels) (\<lambda>b. Inr (b \<and> (of_char (str_of old ! 1) :: nat) < of_char (str_of new ! 1))))"

text \<open>\<open>float(new) > float(old)\<close>; a text or a value that is no number is caught, an overflow is not.\<close>

definition budget_findings :: "string \<Rightarrow> json \<Rightarrow> json \<Rightarrow> string list res" where
  "budget_findings child old new = catchE is_TV
     (bindE (py_float new) (\<lambda>n. bindE (py_float old) (\<lambda>p.
        Inr (flag (n \<noteq> NaN \<and> p \<noteq> NaN \<and> p < n) (''MONETARY_BUDGET_INCREASED:'' @ child)))))
     (\<lambda>_. Inr [''MONETARY_BUDGET_INVALID:'' @ child])"

definition key_findings :: "string \<Rightarrow> string \<Rightarrow> json \<Rightarrow> json \<Rightarrow> string list res" where
  "key_findings key child old new =
     bindE (if key \<in> {''hard_budget_usd'', ''monetary_budget''} then budget_findings child old new else Inr []) (\<lambda>budget.
     bindE (if key \<in> {''requested_autonomy'', ''active_autonomy''} then level_rises AUTONOMY_LEVELS old new else Inr False) (\<lambda>autonomy.
     bindE (if key = ''max_autonomous_risk'' then level_rises RISK_LEVELS old new else Inr False) (\<lambda>risk.
     Inr (flag (old = JBool True \<and> new = JBool False \<and> safe_key key) (''SAFETY_TRUE_TO_FALSE:'' @ child)
       @ flag (old = JBool False \<and> new = JBool True \<and> dangerous_key key) (''DANGEROUS_FALSE_TO_TRUE:'' @ child)
       @ budget @ flag autonomy (''AUTONOMY_INCREASED:'' @ child) @ flag risk (''AUTONOMOUS_RISK_INCREASED:'' @ child)))))"

text \<open>\<open>if item in removed: removed.remove(item)\<close>.\<close>

primrec remove_item :: "json \<Rightarrow> json list \<Rightarrow> json list" where
  "remove_item v [] = []"
| "remove_item v (x # xs) = (if py_eq x v then xs else x # remove_item v xs)"

definition removed_items :: "json list \<Rightarrow> json list \<Rightarrow> json list" where
  "removed_items old new = fold remove_item new old"

definition key_of_child :: "string \<Rightarrow> string \<Rightarrow> string" where
  "key_of_child prefix key = prefix @ ''.'' @ key"

lemma dict_value_size: "map_of d k = Some v \<Longrightarrow> size v < Suc (size_list (size_prod (\<lambda>_. 0) size) d)"
  by (induction d) (auto split: if_splits)

function walk_changes :: "json \<Rightarrow> json \<Rightarrow> string \<Rightarrow> string list res" where
  "walk_changes old new prefix = (case (old, new) of
     (JObj a, JObj b) \<Rightarrow> bindE (mapE (\<lambda>k. let child = key_of_child prefix k in
         case map_of b k of
           None \<Rightarrow> Inr (flag (safe_key k \<or> k \<in> {''tests'', ''checks'', ''required_status_checks''}) (''SAFETY_CONTROL_REMOVED:'' @ child))
         | Some w \<Rightarrow> (case map_of a k of
             None \<Rightarrow> Inr []
           | Some v \<Rightarrow> bindE (key_findings k child v w) (\<lambda>here. bindE (walk_changes v w child) (\<lambda>below. Inr (here @ below)))))
       (sort (remdups (dkeys a @ dkeys b)))) (\<lambda>rs. Inr (concat rs))
   | (JList xs, JList ys) \<Rightarrow> Inr (flag (removed_items xs ys \<noteq> [] \<and> has_word [''checks'', ''tests'', ''protected'', ''required'', ''paths''] prefix)
       (''REQUIRED_LIST_ITEMS_REMOVED:'' @ prefix))
   | _ \<Rightarrow> Inr [])"
  by pat_completeness auto
termination
  by (relation "measure (\<lambda>(old, new, prefix). size old)") (auto dest: dict_value_size)

declare walk_changes.simps [simp del]

section \<open>Textual weakening\<close>

definition marker_char :: "char \<Rightarrow> bool" where
  "marker_char c = (is_alnum c \<or> c \<in> set ''_.-'')"

definition Spaces :: rx where
  "Spaces = RStar (RChar is_space)"

definition OneOfWords :: "(string \<Rightarrow> rx) \<Rightarrow> string list \<Rightarrow> rx" where
  "OneOfWords lit ws = foldr (\<lambda>w r. ROr (lit w) r) (butlast ws) (lit (last ws))"

text \<open>The protective signatures, the alternatives in the order of the expression.\<close>

definition PROTECTIVE :: rx where
  "PROTECTIVE = ROr (RCat (ILit ''validate_'') (Plus (RChar marker_char)))
     (ROr (ILit ''self-test'') (ROr (ILit ''unittest'')
     (ROr (RCat (ILit ''required_status'') (RStar (RChar marker_char)))
     (ROr (ILit ''human-gated'')
     (ROr (Seq [ILit ''fail'', Opt (AnyOf ''_ -''), ILit ''closed''])
     (ROr (Seq [OneOfWords ILit [''contents'', ''issues'', ''checks'', ''pull-requests''], ILit '':'', Spaces, ILit ''read''])
       (Seq [OneOfWords ILit [''required'', ''enforce'', ''protected'', ''independent''],
         UpTo 80 (RChar (\<lambda>c. c \<noteq> CHR '','' \<and> c \<noteq> CHR 0x0A)), OneOfWords ILit [''true'', ''yes'']])))))))"

definition WRITE_PERMISSION :: rx where
  "WRITE_PERMISSION = Seq [OneOfWords Lit [''contents'', ''issues'', ''checks'', ''pull-requests'', ''id-token''], Lit '':'', Spaces, Lit ''write'']"

definition FAIL_OPEN :: rx where
  "FAIL_OPEN = Seq [OneOfWords ILit [''fail_mode'', ''fail-mode''], ILit '':'', Spaces, Opt (AnyOf [CHR 0x22, CHR 0x27]), ILit ''open'']"

text \<open>\<open>str.lower\<close> on the whole range of the model's characters.\<close>

definition lower_latin :: "string \<Rightarrow> string" where
  "lower_latin s = map (\<lambda>c. let n = of_char c :: nat in
     if 192 \<le> n \<and> n \<le> 222 \<and> n \<noteq> 215 then char_of (n + 32) else lower_char c) s"

definition protective_markers :: "string \<Rightarrow> string list" where
  "protective_markers text = map lower_latin (re_findall PROTECTIVE text)"

text \<open>
  What the strict loader makes of a text: \<open>json.JSONDecodeError\<close>, which the caller catches, is
  \<open>NotJson\<close>; a repeated key is a plain \<open>ValueError\<close>, which it does not.
\<close>

datatype parsed = Parsed json | NotJson | RepeatedKey string

definition structural_findings :: "(string \<Rightarrow> parsed) \<Rightarrow> string \<Rightarrow> string \<Rightarrow> string list res" where
  "structural_findings loads old new = (case loads old of
     NotJson \<Rightarrow> Inr [] | RepeatedKey k \<Rightarrow> Inl (ValueError (''DUPLICATE_JSON_KEY:'' @ k))
   | Parsed v \<Rightarrow> (case loads new of
       NotJson \<Rightarrow> Inr [] | RepeatedKey k \<Rightarrow> Inl (ValueError (''DUPLICATE_JSON_KEY:'' @ k))
     | Parsed w \<Rightarrow> catchE (\<lambda>e. e = TypeError) (walk_changes v w ''$'') (\<lambda>_. Inr [])))"

definition textual_findings :: "string \<Rightarrow> string \<Rightarrow> string \<Rightarrow> string list" where
  "textual_findings path old new =
     flag (\<not> set (protective_markers old) \<subseteq> set (protective_markers new)) (''PROTECTIVE_LINE_REMOVED:'' @ path)
     @ flag (re_search WRITE_PERMISSION new \<and> \<not> re_search WRITE_PERMISSION old) (''PERMISSION_EXPANDED:'' @ path)
     @ flag (re_search FAIL_OPEN new) (''FAIL_MODE_OPEN:'' @ path)"

text \<open>The texts of a change are of unknown type; anything but a text or None ends in a \<open>TypeError\<close> of the scans.\<close>

definition detect_gate_weakening :: "(string \<Rightarrow> parsed) \<Rightarrow> string \<Rightarrow> json \<Rightarrow> json \<Rightarrow> string \<Rightarrow> string list res" where
  "detect_gate_weakening loads path old new status = bindE (normalize_repo_path path) (\<lambda>p.
     if starts_with (upper status) ''D'' \<or> new = JNull then Inr [''PROTECTED_FILE_DELETED:'' @ p]
     else if old = JNull then Inr []
     else (case (old, new) of
       (JStr a, JStr b) \<Rightarrow> bindE (structural_findings loads a b) (\<lambda>found. Inr (uniq (found @ textual_findings p a b)))
     | (JStr a, _) \<Rightarrow> (case loads a of RepeatedKey k \<Rightarrow> Inl (ValueError (''DUPLICATE_JSON_KEY:'' @ k)) | _ \<Rightarrow> Inl TypeError)
     | _ \<Rightarrow> Inl TypeError))"

section \<open>The classification\<close>

record change =
  ch_path :: string
  ch_status :: string
  ch_old_path :: "string option"
  ch_old_text :: json
  ch_new_text :: json

text \<open>\<open>[ACDMRTUXB][0-9]*\<close>.\<close>

definition git_status :: "string \<Rightarrow> bool" where
  "git_status s = (s \<noteq> [] \<and> hd s \<in> set ''ACDMRTUXB'' \<and> list_all is_digit (tl s))"

definition change_record :: "json \<Rightarrow> change res" where
  "change_record item = (case item of
     JStr s \<Rightarrow> bindE (normalize_repo_path s) (\<lambda>p. Inr \<lparr>ch_path = p, ch_status = ''M'', ch_old_path = None, ch_old_text = JNull, ch_new_text = JNull\<rparr>)
   | JObj d \<Rightarrow> (let status = upper (py_str (dget_or d ''status'' (JStr ''M''))) in
       if \<not> git_status status then Inl (ValueError ''invalid git change status'')
       else bindE (normalize_repo_path (py_str (dget_or d ''path'' (JStr [])))) (\<lambda>p.
         bindE (if truthy (dget d ''old_path'') then bindE (normalize_repo_path (py_str (dget d ''old_path''))) (\<lambda>o'. Inr (Some o')) else Inr None) (\<lambda>old.
         Inr \<lparr>ch_path = p, ch_status = status, ch_old_path = old, ch_old_text = dget d ''old_text'', ch_new_text = dget d ''new_text''\<rparr>)))
   | _ \<Rightarrow> Inl (ValueError ''invalid diff record''))"

definition candidates :: "change \<Rightarrow> string list" where
  "candidates r = ch_path r # (case ch_old_path r of None \<Rightarrow> [] | Some p \<Rightarrow> [p])"

primrec anyE :: "('a \<Rightarrow> bool res) \<Rightarrow> 'a list \<Rightarrow> bool res" where
  "anyE p [] = Inr False"
| "anyE p (x # xs) = bindE (p x) (\<lambda>b. if b then Inr True else anyE p xs)"

definition protected_change :: "json list \<Rightarrow> change \<Rightarrow> bool res" where
  "protected_change patterns r = (if ch_path r \<in> set INTEGRITY_PROJECTIONS then Inr True
     else anyE (\<lambda>p. is_protected_path p patterns) (candidates r))"

text \<open>Was the content of the change available on the sides that its status needs?\<close>

definition inspected :: "change \<Rightarrow> bool" where
  "inspected r = ((hd (ch_status r) = CHR ''A'' \<or> ch_old_text r \<noteq> JNull) \<and> (hd (ch_status r) = CHR ''D'' \<or> ch_new_text r \<noteq> JNull))"

record trust_verdict =
  tv_result :: string
  tv_reasons :: "string list"
  tv_changed :: "string list"
  tv_protected :: "string list"
  tv_generated :: "string list"
  tv_authoritative :: "string list"
  tv_feature :: "string list"
  tv_weakening :: "(string \<times> string list) list"
  tv_unverified :: "string list"
  tv_manual :: "string list"
  tv_required_risk :: "string option"
  tv_required_work_type :: "string option"
  tv_human :: bool
  tv_mode :: string
  tv_standing :: standing

text \<open>A refusal before the classification carries only its reason, with the result \<open>BLOCK\<close>.\<close>

datatype classified = Refused string | Classified trust_verdict

definition sorted_set :: "string list \<Rightarrow> string list" where
  "sorted_set xs = sort (remdups xs)"

text \<open>The loop over the records: each with the weakening found in it when it is protected, none when it is not.\<close>

definition split_record :: "(string \<Rightarrow> parsed) \<Rightarrow> json list \<Rightarrow> change \<Rightarrow> (change \<times> string list option) res" where
  "split_record loads patterns r = bindE (protected_change patterns r) (\<lambda>prot.
     if prot then bindE (detect_gate_weakening loads (ch_path r) (ch_old_text r) (ch_new_text r) (ch_status r)) (\<lambda>w. Inr (r, Some w))
     else Inr (r, None))"

definition policy_reasons :: "dict \<Rightarrow> bool \<Rightarrow> standing \<Rightarrow> string list" where
  "policy_reasons policy prot st =
     flag (prot \<and> dget policy ''weakening_requires_human'' \<noteq> JBool True) ''BASE_TRUST_POLICY_INVALID''
     @ flag (prot \<and> dget policy ''weakening_is_risk'' \<noteq> JStr ''R4'') ''BASE_TRUST_POLICY_INVALID''
     @ flag (dget policy ''self_modification_in_feature_pr'' \<noteq> JStr ''FORBIDDEN'') ''BASE_TRUST_POLICY_INVALID''
     @ flag (st_present st \<and> \<not> st_valid st) ''BASE_STANDING_AUTHORIZATION_POLICY_INVALID''"

definition reserved :: "standing \<Rightarrow> string \<Rightarrow> bool res" where
  "reserved st path = (if st_valid st \<and> st_present st
     then anyE (\<lambda>p. bindE (glob_regex (py_str p)) (\<lambda>g. Inr (path_fits g path))) (st_manual st) else Inr False)"

definition verdict :: "dict \<Rightarrow> standing \<Rightarrow> (change \<times> string list option) list \<Rightarrow> string list \<Rightarrow> trust_verdict" where
  "verdict policy st rs manual = (let
       protected = map (ch_path \<circ> fst) (filter (\<lambda>x. snd x \<noteq> None) rs);
       generated = filter (\<lambda>p. p \<in> set GENERATED_TRUST_PROJECTIONS) protected;
       authoritative = filter (\<lambda>p. p \<notin> set GENERATED_TRUST_PROJECTIONS) protected;
       feature = map (ch_path \<circ> fst) (filter (\<lambda>x. snd x = None) rs);
       weakening = concat (map (\<lambda>(r, w). case w of None \<Rightarrow> [] | Some ws \<Rightarrow> if ws = [] then [] else [(ch_path r, ws)]) rs);
       unverified = map ch_path (filter (\<lambda>r. ch_path r \<in> set protected \<and> \<not> inspected r) (map fst rs));
       mixed = (authoritative \<noteq> [] \<and> feature \<noteq> []);
       policy_bad = policy_reasons policy (protected \<noteq> []) st;
       auto = (protected \<noteq> [] \<and> st_valid st \<and> st_status st = JStr ''ACTIVE'' \<and> weakening = [] \<and> manual = [] \<and> unverified = [] \<and> \<not> mixed);
       result = (if policy_bad \<noteq> [] \<or> mixed then ''BLOCK'' else if protected \<noteq> [] \<and> auto then ''ALLOW''
         else if protected \<noteq> [] then ''HUMAN_REQUIRED'' else ''ALLOW'');
       human = (result = ''HUMAN_REQUIRED'')
     in \<lparr>tv_result = result,
         tv_reasons = uniq (flag mixed ''TRUST_CHANGE_MIXED_WITH_FEATURE'' @ flag (weakening \<noteq> []) ''GATE_WEAKENING_DETECTED'' @ policy_bad
           @ flag (st_status st = JStr ''REVOKED'' \<and> protected \<noteq> []) ''STANDING_AUTHORIZATION_REVOKED''
           @ flag (manual \<noteq> []) ''STANDING_POLICY_RESERVED_SURFACE'' @ flag (unverified \<noteq> []) ''PROTECTED_CONTENT_NOT_VERIFIED''),
         tv_changed = sort (map (ch_path \<circ> fst) rs), tv_protected = sorted_set protected, tv_generated = sorted_set generated,
         tv_authoritative = sorted_set authoritative, tv_feature = sorted_set feature, tv_weakening = weakening,
         tv_unverified = sorted_set unverified, tv_manual = sorted_set manual,
         tv_required_risk = (if human then Some ''R4'' else None), tv_required_work_type = (if human then Some ''GOV'' else None),
         tv_human = human, tv_mode = (if human then ''EXPLICIT_HUMAN_REQUIRED'' else if auto then ''STANDING_OWNER_POLICY'' else ''NORMAL''),
         tv_standing = st\<rparr>)"

definition classify_diff :: "(string \<Rightarrow> string) \<Rightarrow> (string \<Rightarrow> parsed) \<Rightarrow> json list \<Rightarrow> dict \<Rightarrow> classified res" where
  "classify_diff sha loads items policy = bindE (mapE change_record items) (\<lambda>records.
     let patterns = list_of (dget policy ''paths'') in
     if patterns = [] \<or> \<not> list_all readable patterns then Inr (Refused ''BASE_TRUST_POLICY_INVALID'')
     else if records = [] then Inr (Refused ''EMPTY_DIFF'')
     else bindE (mapE (split_record loads patterns) records) (\<lambda>rs.
       bindE (standing_authorization_policy_metadata sha policy) (\<lambda>st.
       bindE (filterE (reserved st) (map (ch_path \<circ> fst) (filter (\<lambda>x. snd x \<noteq> None) rs))) (\<lambda>manual.
       Inr (Classified (verdict policy st rs manual))))))"

section \<open>The difference between two revisions\<close>

text \<open>
  The repository: a git command gives a return code and bytes or raises (a timeout is a \<open>ValueError\<close>);
  strict and lenient decoding of UTF-8 and the strict JSON loader.
\<close>

record repository =
  rp_git :: "string list \<Rightarrow> (int \<times> string) res"
  rp_utf8 :: "string \<Rightarrow> string res"
  rp_lenient :: "string \<Rightarrow> string"
  rp_loads :: "string \<Rightarrow> parsed"

definition require_sha :: "string \<Rightarrow> string res" where
  "require_sha s = (if sha40 (lower s) then Inr (lower s) else Inl (ValueError ''exact 40-character commit SHA required''))"

definition blob_at :: "repository \<Rightarrow> string \<Rightarrow> string \<Rightarrow> string option res" where
  "blob_at g revision path = bindE (require_sha revision) (\<lambda>s. bindE (normalize_repo_path path) (\<lambda>p.
     bindE (rp_git g [''show'', s @ '':'' @ p]) (\<lambda>(rc, out). if rc \<noteq> 0 then Inr None
       else if 2097152 < length out then Inl (ValueError ''protected file exceeds inspection limit'') else Inr (Some (rp_lenient g out)))))"

definition POLICY_PATH :: string where
  "POLICY_PATH = ''.adwf/policies/trust-boundary.json''"

definition load_base_trust_policy :: "repository \<Rightarrow> string \<Rightarrow> dict res" where
  "load_base_trust_policy g base_sha = bindE (blob_at g base_sha POLICY_PATH) (\<lambda>raw. case raw of
     None \<Rightarrow> Inl (ValueError ''base trust policy missing'')
   | Some text \<Rightarrow> (case rp_loads g text of
       NotJson \<Rightarrow> Inl (ValueError [])
     | RepeatedKey k \<Rightarrow> Inl (ValueError (''DUPLICATE_JSON_KEY:'' @ k))
     | Parsed v \<Rightarrow> (case v of JObj d \<Rightarrow> Inr d | _ \<Rightarrow> Inl (ValueError ''base trust policy invalid''))))"

definition ascii :: "string \<Rightarrow> string res" where
  "ascii s = (if list_all (\<lambda>c. (of_char c :: nat) < 128) s then Inr s else Inl (ValueError []))"

text \<open>Is the content of a path wanted?  Patterns that are None ask for everything, others are iterated.\<close>

definition wanted_path :: "json \<Rightarrow> string \<Rightarrow> bool res" where
  "wanted_path patterns c = bindE (normalize_repo_path c) (\<lambda>s. if s \<in> set INTEGRITY_PROJECTIONS then Inr True
     else bindE (normalize_repo_path s) (\<lambda>_. bindE (iterE patterns) (is_protected_path s)))"

definition wants_content :: "json \<Rightarrow> string list \<Rightarrow> bool res" where
  "wants_content patterns paths = (if patterns = JNull then Inr True else anyE (wanted_path patterns) paths)"

text \<open>The content of one side, not read when the status says that there is none, and required otherwise.\<close>

definition side :: "repository \<Rightarrow> bool \<Rightarrow> string \<Rightarrow> string \<Rightarrow> json res" where
  "side g absent revision path = (if absent then Inr JNull else bindE (blob_at g revision path) (\<lambda>b. Inr (case b of None \<Rightarrow> JNull | Some t \<Rightarrow> JStr t)))"

definition contents :: "repository \<Rightarrow> string \<Rightarrow> string \<Rightarrow> string \<Rightarrow> string \<Rightarrow> string \<Rightarrow> (json \<times> json) res" where
  "contents g base head status old_path path =
     bindE (side g (starts_with status ''A'') base old_path) (\<lambda>old. bindE (side g (starts_with status ''D'') head path) (\<lambda>new.
     if \<not> starts_with status ''A'' \<and> old = JNull then Inl (ValueError ''unable to inspect base blob'')
     else if \<not> starts_with status ''D'' \<and> new = JNull then Inl (ValueError ''unable to inspect head blob'') else Inr (old, new)))"

definition diff_record :: "repository \<Rightarrow> json \<Rightarrow> string \<Rightarrow> string \<Rightarrow> string \<Rightarrow> string \<Rightarrow> string \<Rightarrow> json res" where
  "diff_record g patterns base head status old_path token = bindE (rp_utf8 g token) (\<lambda>raw. bindE (normalize_repo_path raw) (\<lambda>path.
     bindE (if old_path \<noteq> [] then normalize_repo_path old_path else Inr path) (\<lambda>old.
     bindE (wants_content patterns [path, old]) (\<lambda>inspect.
     bindE (if inspect then contents g base head status old path else Inr (JNull, JNull)) (\<lambda>(a, b).
     Inr (JObj [(''path'', JStr path), (''old_path'', if old_path \<noteq> [] then JStr old else JNull), (''status'', JStr status),
       (''old_text'', a), (''new_text'', b)]))))))"

definition is_move :: "string \<Rightarrow> bool" where
  "is_move status = (starts_with status ''R'' \<or> starts_with status ''C'')"

fun diff_records :: "repository \<Rightarrow> json \<Rightarrow> string \<Rightarrow> string \<Rightarrow> nat \<Rightarrow> string list \<Rightarrow> json list res" where
  "diff_records g patterns base head n [] = Inr []"
| "diff_records g patterns base head n [s] = bindE (ascii s) (\<lambda>_. Inl (ValueError ''malformed git diff''))"
| "diff_records g patterns base head n (s # t # ts) = bindE (ascii s) (\<lambda>status.
     bindE (if is_move status then rp_utf8 g t else Inr []) (\<lambda>old_path.
     if is_move status then (case ts of [] \<Rightarrow> Inl (ValueError ''malformed git rename'')
       | u # us \<Rightarrow> bindE (diff_record g patterns base head status old_path u) (\<lambda>r.
           if 10000 < Suc n then Inl (ValueError ''diff exceeds inspection limit'')
           else bindE (diff_records g patterns base head (Suc n) us) (\<lambda>rs. Inr (r # rs))))
     else bindE (diff_record g patterns base head status [] t) (\<lambda>r.
       if 10000 < Suc n then Inl (ValueError ''diff exceeds inspection limit'')
       else bindE (diff_records g patterns base head (Suc n) ts) (\<lambda>rs. Inr (r # rs)))))"

definition diff_tokens :: "string \<Rightarrow> string list" where
  "diff_tokens out = (let ts = split_on (CHR 0x00) out in if last ts = [] then butlast ts else ts)"

definition git_diff_records :: "repository \<Rightarrow> string \<Rightarrow> string \<Rightarrow> json \<Rightarrow> json list res" where
  "git_diff_records g base_sha head_sha patterns = bindE (require_sha base_sha) (\<lambda>base. bindE (require_sha head_sha) (\<lambda>head.
     bindE (rp_git g [''diff'', ''--name-status'', ''-z'', ''--find-renames'', base @ ''...'' @ head, ''--'']) (\<lambda>(rc, out).
     if rc \<noteq> 0 then Inl (ValueError ''unable to inspect exact base...head diff'')
     else diff_records g patterns base head 0 (diff_tokens out))))"

definition classify_git_diff :: "(string \<Rightarrow> string) \<Rightarrow> repository \<Rightarrow> string \<Rightarrow> string \<Rightarrow> classified res" where
  "classify_git_diff sha g base_sha head_sha = bindE (load_base_trust_policy g base_sha) (\<lambda>policy.
     bindE (git_diff_records g base_sha head_sha (dget_or policy ''paths'' (JList []))) (\<lambda>items.
     classify_diff sha (rp_loads g) items policy))"

section \<open>The provenance of checks and reviews\<close>

record provenance_result =
  pr_valid :: bool
  pr_errors :: "string list"
  pr_head :: string
  pr_reviewers :: "string list"

text \<open>\<open>_utc(item[key])\<close>.\<close>

definition utc_of :: "json \<Rightarrow> string \<Rightarrow> int res" where
  "utc_of item key = bindE (itemE item key) (\<lambda>v. parse_time (py_str v))"

definition hours :: "int \<Rightarrow> int" where
  "hours n = n * 3600000000"

text \<open>Older than the time to live, or from the future, or there is no time to live.\<close>

definition out_of_date :: "int \<Rightarrow> int \<Rightarrow> int \<Rightarrow> bool" where
  "out_of_date now ttl t = (now < t \<or> ttl < 1 \<or> hours ttl < now - t)"

definition same_name :: "string \<Rightarrow> json \<Rightarrow> bool res" where
  "same_name name item = bindE (getE item ''name'') (\<lambda>v. Inr (v = JStr name))"

definition time_problem :: "json \<Rightarrow> string \<Rightarrow> int \<Rightarrow> int \<Rightarrow> string \<Rightarrow> string list res" where
  "time_problem item key now ttl name = catchE is_KTV
     (bindE (utc_of item key) (\<lambda>t. Inr (flag (out_of_date now ttl t) (''CHECK_STALE:'' @ name))))
     (\<lambda>_. Inr [''CHECK_TIME_INVALID:'' @ name])"

definition check_problems :: "string \<Rightarrow> string list \<Rightarrow> int \<Rightarrow> int \<Rightarrow> json list \<Rightarrow> string \<Rightarrow> string list res" where
  "check_problems sha apps now ttl checks name = bindE (filterE (same_name name) checks) (\<lambda>matches. case matches of
     [item] \<Rightarrow> (let d = dict_of item in
       bindE (getE (py_or (dget d ''app'') (JObj [])) ''slug'') (\<lambda>slug. bindE (in_set slug apps) (\<lambda>trusted.
       bindE (time_problem item ''completed_at'' now ttl name) (\<lambda>times.
       Inr (flag (lower (py_str (dget_or d ''head_sha'' (JStr []))) \<noteq> sha) (''CHECK_HEAD_MISMATCH:'' @ name)
         @ flag (dget d ''status'' \<noteq> JStr ''completed'' \<or> dget d ''conclusion'' \<noteq> JStr ''success'') (''CHECK_NOT_SUCCESSFUL:'' @ name)
         @ flag (\<not> trusted) (''CHECK_APP_UNTRUSTED:'' @ name) @ times)))))
   | _ \<Rightarrow> Inr [''CHECK_CARDINALITY:'' @ name @ '':'' @ nat_str (length matches)])"

definition validate_check_provenance ::
    "json list \<Rightarrow> string \<Rightarrow> string list \<Rightarrow> string list \<Rightarrow> int \<Rightarrow> int \<Rightarrow> provenance_result res" where
  "validate_check_provenance checks expected_sha names apps now ttl = bindE (require_sha expected_sha) (\<lambda>sha.
     bindE (mapE (check_problems sha apps now ttl checks) names) (\<lambda>found.
     let errors = flag (names = [] \<or> \<not> distinct names) ''EXPECTED_CHECK_NAMES_INVALID'' @ flag (apps = []) ''TRUSTED_CHECK_APPS_EMPTY''
       @ flag (ttl < 1) ''CHECK_TTL_INVALID'' @ concat found
     in Inr \<lparr>pr_valid = (errors = []), pr_errors = uniq errors, pr_head = sha, pr_reviewers = []\<rparr>))"

text \<open>\<open>str.casefold\<close>; of the characters of the model only the sharp s becomes two.\<close>

definition casefold :: "string \<Rightarrow> string" where
  "casefold s = concat (map (\<lambda>c. if c = CHR 0xDF then ''ss'' else [c]) (lower_latin s))"

type_synonym latest = "(string \<times> int \<times> json) list"

text \<open>One review in the loop: the login's latest one is kept, an unreadable time is an error.\<close>

definition note_review :: "json \<Rightarrow> string list \<times> latest \<Rightarrow> (string list \<times> latest) res" where
  "note_review review st = bindE (getE review ''user'') (\<lambda>u. bindE (getE review ''author'') (\<lambda>a.
     bindE (getOrE (py_or u (py_or a (JObj []))) ''login'' (JStr [])) (\<lambda>l. let login = casefold (py_str l) in
     if login = [] then Inr st
     else (case utc_of review ''submitted_at'' of
       Inl e \<Rightarrow> if is_KTV e then Inr (fst st @ [''REVIEW_TIME_INVALID:'' @ login], snd st) else Inl e
     | Inr t \<Rightarrow> Inr (fst st, case map_of (snd st) login of
         None \<Rightarrow> AList.update login (t, review) (snd st)
       | Some (t', _) \<Rightarrow> if t' < t then AList.update login (t, review) (snd st) else snd st)))))"

datatype review_verdict = Skipped | Rejected string | Accepted

definition judge_review :: "string \<Rightarrow> string \<Rightarrow> int \<Rightarrow> int \<Rightarrow> latest \<Rightarrow> string \<Rightarrow> review_verdict" where
  "judge_review sha author now ttl ls login = (case map_of ls login of None \<Rightarrow> Skipped
     | Some (submitted, review) \<Rightarrow> (let d = dict_of review in
         if login = author then Rejected (''REVIEW_NOT_INDEPENDENT:'' @ login)
         else if dget d ''state'' \<noteq> JStr ''APPROVED'' then Skipped
         else if lower (py_str (dget_or d ''commit_id'' (JStr []))) \<noteq> sha then Rejected (''REVIEW_HEAD_MISMATCH:'' @ login)
         else if out_of_date now ttl submitted then Rejected (''REVIEW_STALE:'' @ login) else Accepted))"

definition rejections :: "review_verdict list \<Rightarrow> string list" where
  "rejections vs = concat (map (\<lambda>v. case v of Rejected e \<Rightarrow> [e] | _ \<Rightarrow> []) vs)"

definition validate_review_provenance ::
    "json list \<Rightarrow> string \<Rightarrow> string \<Rightarrow> string list \<Rightarrow> int \<Rightarrow> int \<Rightarrow> int \<Rightarrow> provenance_result res" where
  "validate_review_provenance reviews expected_sha author_login trusted_logins now ttl required = bindE (require_sha expected_sha) (\<lambda>sha.
     let allowed = sorted_set (map casefold (filter (\<lambda>l. l \<noteq> []) trusted_logins)); author = casefold author_login in
     bindE (foldE note_review reviews ([], [])) (\<lambda>(late, ls).
     let verdicts = map (judge_review sha author now ttl ls) allowed;
         accepted = filter (\<lambda>l. judge_review sha author now ttl ls l = Accepted) allowed;
         errors = flag (allowed = []) ''TRUSTED_REVIEWERS_EMPTY'' @ flag (ttl < 1) ''REVIEW_TTL_INVALID''
           @ flag (required < 1) ''REQUIRED_APPROVAL_COUNT_INVALID'' @ late @ rejections verdicts
           @ flag (1 \<le> required \<and> int (length accepted) < required) (''REQUIRED_APPROVALS_MISSING:'' @ nat_str (length accepted) @ ''/'' @ int_str required)
     in Inr \<lparr>pr_valid = (errors = []), pr_errors = uniq errors, pr_head = sha, pr_reviewers = accepted\<rparr>))"

end
