(* ===== verification/TrustProps.thy ===== *)
theory TrustProps
  imports TrustDiff
begin

text \<open>
  What the classification of a change guarantees: which findings the structural comparison cannot miss,
  what an ALLOW of a change to protected files rests on, and what valid check and review provenance means.
\<close>

section \<open>The expressions of the textual comparison\<close>

lemma min_len_OneOfWords: "(\<And>w. min_len (lit w) = length w) \<Longrightarrow> ws \<noteq> [] \<Longrightarrow> min_len (OneOfWords lit ws) = Min (length ` set ws)"
proof (induction ws)
  case (Cons w ws)
  show ?case
  proof (cases "ws = []")
    case False
    then have "OneOfWords lit (w # ws) = ROr (lit w) (OneOfWords lit ws)" by (simp add: OneOfWords_def)
    then show ?thesis using Cons False by simp
  qed (simp add: OneOfWords_def Cons.prems)
qed simp

lemma protective_len: "min_len PROTECTIVE = 8"
  by (simp add: PROTECTIVE_def Spaces_def min_len_words min_len_Seq min_len_OneOfWords)

lemma permission_len: "min_len WRITE_PERMISSION = 12" "min_len FAIL_OPEN = 14"
  by (simp_all add: WRITE_PERMISSION_def FAIL_OPEN_def Spaces_def min_len_words min_len_Seq min_len_OneOfWords)

text \<open>A marker has characters, so that \<open>re_findall\<close> finds the markers as \<open>finditer\<close> does; short texts have none.\<close>

lemma protective_never_empty: "never_empty PROTECTIVE"
  by (rule min_len_never_empty) (simp add: protective_len)

lemma short_texts: "length a < 8 \<Longrightarrow> length b < 8 \<Longrightarrow> textual_findings p a b = []"
  by (simp add: textual_findings_def protective_markers_def min_len_findall min_len_search protective_len permission_len)

section \<open>The structural comparison reaches every depth\<close>

primrec along :: "string list \<Rightarrow> json \<Rightarrow> json option" where
  "along [] v = Some v"
| "along (k # ks) v = (case v of JObj d \<Rightarrow> (case map_of d k of None \<Rightarrow> None | Some w \<Rightarrow> along ks w) | _ \<Rightarrow> None)"

definition child_name :: "string \<Rightarrow> string list \<Rightarrow> string" where
  "child_name prefix ks = foldl key_of_child prefix ks"

lemma child_name_simps [simp]: "child_name p [] = p" "child_name p (k # ks) = child_name (key_of_child p k) ks"
  by (simp_all add: child_name_def)

lemma child_name_append [simp]: "child_name p (ks @ [k]) = key_of_child (child_name p ks) k"
  by (simp add: child_name_def)

text \<open>What the comparison of two dictionaries finds at one key.\<close>

definition at_key :: "dict \<Rightarrow> dict \<Rightarrow> string \<Rightarrow> string \<Rightarrow> string list res" where
  "at_key a b p k = (let child = key_of_child p k in
     case map_of b k of
       None \<Rightarrow> Inr (flag (safe_key k \<or> k \<in> {''tests'', ''checks'', ''required_status_checks''}) (''SAFETY_CONTROL_REMOVED:'' @ child))
     | Some w \<Rightarrow> (case map_of a k of
         None \<Rightarrow> Inr []
       | Some v \<Rightarrow> bindE (key_findings k child v w) (\<lambda>here. bindE (walk_changes v w child) (\<lambda>below. Inr (here @ below)))))"

lemma walk_dicts: "walk_changes (JObj a) (JObj b) p =
    bindE (mapE (at_key a b p) (sort (remdups (dkeys a @ dkeys b)))) (\<lambda>rs. Inr (concat rs))"
  unfolding at_key_def by (subst walk_changes.simps) simp

lemma key_present: "map_of a k = Some v \<Longrightarrow> k \<in> set (sort (remdups (dkeys a @ dkeys b)))"
  using map_of_SomeD [of a k v] by (force simp: dkeys_def)

lemma walk_at_key:
  assumes "walk_changes (JObj a) (JObj b) p = Inr ws" "map_of a k = Some v"
  shows "\<exists>us. at_key a b p k = Inr us \<and> set us \<subseteq> set ws"
proof -
  from assms(1) obtain rs where r: "mapE (at_key a b p) (sort (remdups (dkeys a @ dkeys b))) = Inr rs" "ws = concat rs"
    unfolding walk_dicts by (elim bindE_InrE) auto
  from mapE_in [OF r(1) key_present [OF assms(2)]] r(2) show ?thesis by auto
qed

lemma walk_shared:
  assumes "walk_changes (JObj a) (JObj b) p = Inr ws" "map_of a k = Some v" "map_of b k = Some w"
  shows "\<exists>here below. key_findings k (key_of_child p k) v w = Inr here \<and> walk_changes v w (key_of_child p k) = Inr below
    \<and> set here \<union> set below \<subseteq> set ws"
proof -
  from walk_at_key [OF assms(1,2)] obtain us where "at_key a b p k = Inr us" "set us \<subseteq> set ws" by blast
  with assms(2,3) show ?thesis by (fastforce simp: at_key_def Let_def elim!: bindE_InrE)
qed

lemma walk_below:
  assumes "walk_changes old new p = Inr ws" "along ks old = Some v" "along ks new = Some w"
  shows "\<exists>us. walk_changes v w (child_name p ks) = Inr us \<and> set us \<subseteq> set ws"
  using assms
proof (induction ks arbitrary: old new p ws)
  case (Cons k ks)
  from Cons.prems(2) obtain a v' where a: "old = JObj a" "map_of a k = Some v'" "along ks v' = Some v"
    by (auto split: json.splits option.splits)
  from Cons.prems(3) obtain b w' where b: "new = JObj b" "map_of b k = Some w'" "along ks w' = Some w"
    by (auto split: json.splits option.splits)
  from walk_shared [OF Cons.prems(1) [unfolded a b] a(2) b(2)] obtain below where
    "walk_changes v' w' (key_of_child p k) = Inr below" "set below \<subseteq> set ws" by auto
  with Cons.IH [OF this(1) a(3) b(3)] show ?case by auto
qed simp

text \<open>
  A list loses items when some class of items that equality does not split occurs less often in the new one.
\<close>

definition loses_items :: "json list \<Rightarrow> json list \<Rightarrow> bool" where
  "loses_items xs ys \<longleftrightarrow> (\<exists>P. (\<forall>x \<in> set xs. \<forall>y \<in> set ys. py_eq x y \<longrightarrow> P x = P y) \<and> length (filter P ys) < length (filter P xs))"

lemma remove_item_counts:
  assumes "\<forall>x \<in> set xs. py_eq x y \<longrightarrow> P x = P y"
  shows "length (filter P xs) \<le> length (filter P (remove_item y xs)) + (if P y then 1 else 0) \<and> set (remove_item y xs) \<subseteq> set xs"
  using assms by (induction xs) auto

lemma removed_items_count:
  assumes "\<forall>x \<in> set xs. \<forall>y \<in> set ys. py_eq x y \<longrightarrow> P x = P y"
  shows "length (filter P xs) \<le> length (filter P (removed_items xs ys)) + length (filter P ys)"
  using assms
proof (induction ys arbitrary: xs)
  case (Cons y ys)
  from Cons.prems have r: "length (filter P xs) \<le> length (filter P (remove_item y xs)) + (if P y then 1 else 0)" "set (remove_item y xs) \<subseteq> set xs"
    using remove_item_counts [of xs y P] by auto
  with Cons.prems have "length (filter P (remove_item y xs)) \<le> length (filter P (removed_items (remove_item y xs) ys)) + length (filter P ys)"
    by (intro Cons.IH) auto
  then show ?case using r(1) by (auto simp: removed_items_def)
qed (simp add: removed_items_def)

lemma lost_items_found:
  assumes "loses_items xs ys"
  shows "removed_items xs ys \<noteq> []"
proof -
  obtain P where P: "\<forall>x \<in> set xs. \<forall>y \<in> set ys. py_eq x y \<longrightarrow> P x = P y" "length (filter P ys) < length (filter P xs)"
    using assms unfolding loses_items_def by blast
  from removed_items_count [OF P(1)] P(2) show ?thesis by auto
qed

text \<open>
  The changes of one key, at the path \<open>c\<close>, that weaken a control, with the code that reports them.
  A budget is compared as a number; one that is no number on either side is reported too.
\<close>

definition weakens :: "string \<Rightarrow> string \<Rightarrow> json option \<Rightarrow> json option \<Rightarrow> string \<Rightarrow> bool" where
  "weakens c k old new code \<longleftrightarrow>
     (code = ''SAFETY_TRUE_TO_FALSE:'' \<and> old = Some (JBool True) \<and> new = Some (JBool False) \<and> safe_key k)
   \<or> (code = ''DANGEROUS_FALSE_TO_TRUE:'' \<and> old = Some (JBool False) \<and> new = Some (JBool True) \<and> dangerous_key k)
   \<or> (code = ''MONETARY_BUDGET_INCREASED:'' \<and> k \<in> {''hard_budget_usd'', ''monetary_budget''}
        \<and> (\<exists>v w x y. old = Some v \<and> new = Some w \<and> py_float v = Inr x \<and> py_float w = Inr y \<and> x \<noteq> NaN \<and> y \<noteq> NaN \<and> x < y))
   \<or> (code = ''MONETARY_BUDGET_INVALID:'' \<and> k \<in> {''hard_budget_usd'', ''monetary_budget''}
        \<and> (\<exists>v w e. old = Some v \<and> new = Some w \<and> is_TV e \<and> (py_float w = Inl e \<or> (\<exists>y. py_float w = Inr y) \<and> py_float v = Inl e)))
   \<or> (code = ''AUTONOMY_INCREASED:'' \<and> k \<in> {''requested_autonomy'', ''active_autonomy''}
        \<and> (\<exists>i j. i < j \<and> j < 5 \<and> old = Some (JStr ([''A0'', ''A1'', ''A2'', ''A3'', ''A4''] ! i)) \<and> new = Some (JStr ([''A0'', ''A1'', ''A2'', ''A3'', ''A4''] ! j))))
   \<or> (code = ''AUTONOMOUS_RISK_INCREASED:'' \<and> k = ''max_autonomous_risk''
        \<and> (\<exists>i j. i < j \<and> j < 5 \<and> old = Some (JStr ([''R0'', ''R1'', ''R2'', ''R3'', ''R4''] ! i)) \<and> new = Some (JStr ([''R0'', ''R1'', ''R2'', ''R3'', ''R4''] ! j))))
   \<or> (code = ''REQUIRED_LIST_ITEMS_REMOVED:'' \<and> (\<exists>word \<in> {''checks'', ''tests'', ''protected'', ''required'', ''paths''}. contains (lower c) word)
        \<and> (\<exists>xs ys. old = Some (JList xs) \<and> new = Some (JList ys) \<and> loses_items xs ys))
   \<or> (code = ''SAFETY_CONTROL_REMOVED:'' \<and> old \<noteq> None \<and> new = None \<and> (safe_key k \<or> k \<in> {''tests'', ''checks'', ''required_status_checks''}))"

lemma level_steps:
  assumes "i < j" "j < (5::nat)"
  shows "level_rises AUTONOMY_LEVELS (JStr ([''A0'', ''A1'', ''A2'', ''A3'', ''A4''] ! i)) (JStr ([''A0'', ''A1'', ''A2'', ''A3'', ''A4''] ! j)) = Inr True"
    "level_rises RISK_LEVELS (JStr ([''R0'', ''R1'', ''R2'', ''R3'', ''R4''] ! i)) (JStr ([''R0'', ''R1'', ''R2'', ''R3'', ''R4''] ! j)) = Inr True"
proof -
  have "i = 0 \<and> j = 1 \<or> i = 0 \<and> j = 2 \<or> i = 0 \<and> j = 3 \<or> i = 0 \<and> j = 4 \<or> i = 1 \<and> j = 2 \<or> i = 1 \<and> j = 3 \<or> i = 1 \<and> j = 4
      \<or> i = 2 \<and> j = 3 \<or> i = 2 \<and> j = 4 \<or> i = 3 \<and> j = 4" using assms by presburger
  then show "level_rises AUTONOMY_LEVELS (JStr ([''A0'', ''A1'', ''A2'', ''A3'', ''A4''] ! i)) (JStr ([''A0'', ''A1'', ''A2'', ''A3'', ''A4''] ! j)) = Inr True"
    "level_rises RISK_LEVELS (JStr ([''R0'', ''R1'', ''R2'', ''R3'', ''R4''] ! i)) (JStr ([''R0'', ''R1'', ''R2'', ''R3'', ''R4''] ! j)) = Inr True"
    by (elim disjE conjE; simp add: level_rises_def in_set_def AUTONOMY_LEVELS_def RISK_LEVELS_def)+
qed

lemma value_parts:
  assumes "key_findings k c v w = Inr here"
  shows "\<exists>budget autonomy risk.
      (if k \<in> {''hard_budget_usd'', ''monetary_budget''} then budget_findings c v w else Inr []) = Inr budget
    \<and> (if k \<in> {''requested_autonomy'', ''active_autonomy''} then level_rises AUTONOMY_LEVELS v w else Inr False) = Inr autonomy
    \<and> (if k = ''max_autonomous_risk'' then level_rises RISK_LEVELS v w else Inr False) = Inr risk
    \<and> here = flag (v = JBool True \<and> w = JBool False \<and> safe_key k) (''SAFETY_TRUE_TO_FALSE:'' @ c)
       @ flag (v = JBool False \<and> w = JBool True \<and> dangerous_key k) (''DANGEROUS_FALSE_TO_TRUE:'' @ c)
       @ budget @ flag autonomy (''AUTONOMY_INCREASED:'' @ c) @ flag risk (''AUTONOMOUS_RISK_INCREASED:'' @ c)"
  using assms unfolding key_findings_def by (elim bindE_InrE) (simp only: sum.inject, blast)

lemma budget_reported:
  assumes "budget_findings c v w = Inr bs"
  shows "py_float v = Inr x \<Longrightarrow> py_float w = Inr y \<Longrightarrow> x \<noteq> NaN \<Longrightarrow> y \<noteq> NaN \<Longrightarrow> x < y \<Longrightarrow> ''MONETARY_BUDGET_INCREASED:'' @ c \<in> set bs"
    "is_TV e \<Longrightarrow> py_float w = Inl e \<or> (\<exists>y. py_float w = Inr y) \<and> py_float v = Inl e \<Longrightarrow> ''MONETARY_BUDGET_INVALID:'' @ c \<in> set bs"
  using assms unfolding budget_findings_def catchE_def by (auto simp del: py_float.simps split: if_split_asm)

lemma weakens_value:
  assumes "key_findings k c v w = Inr here" "weakens c k (Some v) (Some w) code" "code \<noteq> ''REQUIRED_LIST_ITEMS_REMOVED:''"
  shows "code @ c \<in> set here"
proof -
  from value_parts [OF assms(1)] obtain budget autonomy risk where
    p: "(if k \<in> {''hard_budget_usd'', ''monetary_budget''} then budget_findings c v w else Inr []) = Inr budget"
      "(if k \<in> {''requested_autonomy'', ''active_autonomy''} then level_rises AUTONOMY_LEVELS v w else Inr False) = Inr autonomy"
      "(if k = ''max_autonomous_risk'' then level_rises RISK_LEVELS v w else Inr False) = Inr risk"
    and here: "here = flag (v = JBool True \<and> w = JBool False \<and> safe_key k) (''SAFETY_TRUE_TO_FALSE:'' @ c)
       @ flag (v = JBool False \<and> w = JBool True \<and> dangerous_key k) (''DANGEROUS_FALSE_TO_TRUE:'' @ c)
       @ budget @ flag autonomy (''AUTONOMY_INCREASED:'' @ c) @ flag risk (''AUTONOMOUS_RISK_INCREASED:'' @ c)" by blast
  show ?thesis
    using assms(2,3) unfolding weakens_def
    apply (elim disjE conjE exE)
    subgoal unfolding here set_append set_flag by simp
    subgoal unfolding here set_append set_flag by simp
    subgoal premises prems for v' w' x y
    proof -
      have "budget_findings c v w = Inr budget" using p(1) prems(3) by (simp only: if_True)
      from budget_reported(1) [OF this, of x y] prems show ?thesis unfolding here set_append by (intro UnI1 UnI2) simp
    qed
    subgoal premises prems for v' w' e
    proof -
      have "budget_findings c v w = Inr budget" using p(1) prems(3) by (simp only: if_True)
      from budget_reported(2) [OF this, of e] prems show ?thesis unfolding here set_append by (intro UnI1 UnI2) simp
    qed
    subgoal premises prems for v' w' e y
    proof -
      have "budget_findings c v w = Inr budget" using p(1) prems(3) by (simp only: if_True)
      from budget_reported(2) [OF this, of e] prems show ?thesis unfolding here set_append by (intro UnI1 UnI2) simp
    qed
    subgoal premises prems for i j
    proof -
      have "autonomy" using p(2) prems level_steps(1) [of i j] by simp
      then show ?thesis unfolding here prems(2) set_append set_flag by simp
    qed
    subgoal premises prems for i j
    proof -
      have "risk" using p(3) prems level_steps(2) [of i j] by simp
      then show ?thesis unfolding here prems(2) set_append set_flag by simp
    qed
    by simp_all
qed

lemma weakens_reported:
  assumes "walk_changes (JObj a) (JObj b) p = Inr ws" "weakens (key_of_child p k) k (map_of a k) (map_of b k) code"
  shows "code @ key_of_child p k \<in> set ws"
proof -
  obtain v where v: "map_of a k = Some v" using assms(2) unfolding weakens_def by auto
  show ?thesis
  proof (cases "map_of b k")
    case None
    with assms(2) v have "code = ''SAFETY_CONTROL_REMOVED:''" "safe_key k \<or> k \<in> {''tests'', ''checks'', ''required_status_checks''}"
      unfolding weakens_def by simp_all
    then have "at_key a b p k = Inr [code @ key_of_child p k]" using None by (simp only: at_key_def Let_def option.case flag_simps)
    with walk_at_key [OF assms(1) v] show ?thesis by auto
  next
    case (Some w)
    from walk_shared [OF assms(1) v Some] obtain here below where
      w: "key_findings k (key_of_child p k) v w = Inr here" "walk_changes v w (key_of_child p k) = Inr below" "set here \<union> set below \<subseteq> set ws" by blast
    show ?thesis
    proof (cases "code = ''REQUIRED_LIST_ITEMS_REMOVED:''")
      case True
      with assms(2) v Some obtain xs ys word where l: "v = JList xs" "w = JList ys" "loses_items xs ys"
          "word \<in> {''checks'', ''tests'', ''protected'', ''required'', ''paths''}" "contains (lower (key_of_child p k)) word"
        unfolding weakens_def by auto
      have "has_word [''checks'', ''tests'', ''protected'', ''required'', ''paths''] (key_of_child p k)"
        unfolding has_word_def list_ex_iff using l(4,5) by auto
      then have "walk_changes v w (key_of_child p k) = Inr [code @ key_of_child p k]"
        using lost_items_found [OF l(3)] by (subst walk_changes.simps) (simp add: l(1,2) True)
      with w(2,3) show ?thesis by auto
    next
      case False
      with weakens_value [OF w(1)] assms(2) v Some w(3) show ?thesis by auto
    qed
  qed
qed

text \<open>
  C22.  The structural comparison of two JSON files, when it returns, misses none of the changes it is about,
  at any depth below keys that both files share: a safety switch turned from true to false, a
  dangerous one from false to true, a monetary budget raised (read as a number, of whatever JSON type) or no number on one side, an autonomy
  level or the ceiling of autonomous risk raised, items lost from a list whose path speaks of checks, tests, protected or
  required things or paths, and a safety control removed are all among its findings, with the path to them.
\<close>

theorem no_nested_weakening_is_missed:
  assumes "walk_changes old new p = Inr ws" "along ks old = Some (JObj a)" "along ks new = Some (JObj b)"
    and "weakens (child_name p (ks @ [k])) k (map_of a k) (map_of b k) code"
  shows "code @ child_name p (ks @ [k]) \<in> set ws"
proof -
  from walk_below [OF assms(1-3)] obtain us where u: "walk_changes (JObj a) (JObj b) (child_name p ks) = Inr us" "set us \<subseteq> set ws" by blast
  show ?thesis using weakens_reported [OF u(1)] assms(4) u(2) by auto
qed

section \<open>What an ALLOW of a protected change rests on\<close>

lemma anyE_hit: "anyE p xs = Inr b \<Longrightarrow> x \<in> set xs \<Longrightarrow> p x = Inr True \<Longrightarrow> b"
  by (induction xs) (auto elim!: bindE_InrE split: if_split_asm)

lemma anyE_witness: "anyE p xs = Inr True \<Longrightarrow> \<exists>x \<in> set xs. p x = Inr True"
  by (induction xs) (auto elim!: bindE_InrE split: if_split_asm)

lemma anyE_False: "anyE p xs = Inr False \<longleftrightarrow> (\<forall>x \<in> set xs. p x = Inr False)"
  by (induction xs) (auto elim!: bindE_InrE split: if_split_asm)

lemma split_record_Some: "split_record loads ps r = Inr (r', Some w) \<Longrightarrow>
   r' = r \<and> protected_change ps r = Inr True \<and> detect_gate_weakening loads (ch_path r) (ch_old_text r) (ch_new_text r) (ch_status r) = Inr w"
  by (auto simp: split_record_def elim!: bindE_InrE split: if_split_asm)

lemma split_record_None: "split_record loads ps r = Inr (r', None) \<Longrightarrow> r' = r \<and> protected_change ps r = Inr False"
  by (auto simp: split_record_def elim!: bindE_InrE split: if_split_asm)

lemma split_record_fst: "split_record loads ps r = Inr x \<Longrightarrow> fst x = r"
  by (auto simp: split_record_def elim!: bindE_InrE split: if_split_asm)

lemma split_record_of:
  assumes "mapE (split_record loads ps) records = Inr rs" "r \<in> set records"
  shows "\<exists>w. (r, w) \<in> set rs \<and> split_record loads ps r = Inr (r, w)"
proof -
  from mapE_in [OF assms] obtain x where x: "x \<in> set rs" "split_record loads ps r = Inr x" by blast
  then have "(r, snd x) \<in> set rs \<and> split_record loads ps r = Inr (r, snd x)" using split_record_fst [OF x(2)] by (metis prod.collapse)
  then show ?thesis ..
qed

lemma classified_by:
  assumes "classify_diff sha loads items policy = Inr (Classified v)"
  shows "\<exists>records patterns rs st manual. mapE change_record items = Inr records \<and> records \<noteq> [] \<and> dget policy ''paths'' = JList patterns
    \<and> mapE (split_record loads patterns) records = Inr rs \<and> standing_authorization_policy_metadata sha policy = Inr st
    \<and> filterE (reserved st) (map (ch_path \<circ> fst) (filter (\<lambda>x. snd x \<noteq> None) rs)) = Inr manual \<and> v = verdict policy st rs manual"
proof -
  from assms obtain records where r: "mapE change_record items = Inr records"
    and rest: "records \<noteq> []" "list_of (dget policy ''paths'') \<noteq> []"
      "\<exists>rs st manual. mapE (split_record loads (list_of (dget policy ''paths''))) records = Inr rs
        \<and> standing_authorization_policy_metadata sha policy = Inr st
        \<and> filterE (reserved st) (map (ch_path \<circ> fst) (filter (\<lambda>x. snd x \<noteq> None) rs)) = Inr manual \<and> v = verdict policy st rs manual"
    unfolding classify_diff_def Let_def by (auto elim!: bindE_InrE split: if_split_asm)
  from rest(2) obtain patterns where "dget policy ''paths'' = JList patterns" by (cases "dget policy ''paths''") auto
  with r rest show ?thesis by auto
qed

text \<open>The standing authorization that the base policy holds: complete, of the owner, active, and the one the verdict names.\<close>

definition standing_in_force :: "(string \<Rightarrow> string) \<Rightarrow> dict \<Rightarrow> standing \<Rightarrow> dict \<Rightarrow> bool" where
  "standing_in_force sha policy st d = (dget policy ''standing_authorization'' = JObj d \<and> standing_valid d = Inr True
     \<and> dget d ''status'' = JStr ''ACTIVE'' \<and> dget d ''issued_by'' = JStr ''REPOSITORY_OWNER'' \<and> st_digest st = Some (sha (canonical (JObj d))))"

lemma standing_active:
  assumes "standing_authorization_policy_metadata sha policy = Inr st" "st_valid st" "st_status st = JStr ''ACTIVE''"
  shows "\<exists>d. standing_in_force sha policy st d \<and> st_present st \<and> st_manual st = list_of (dget d ''manual_required_paths'')
    \<and> list_all readable (st_manual st)"
proof -
  from assms obtain d where d: "dget policy ''standing_authorization'' = JObj d" "standing_valid d = Inr True"
    "st = \<lparr>st_present = True, st_valid = True, st_status = dget d ''status'', st_digest = Some (sha (canonical (JObj d))),
        st_revision = dget d ''revision'', st_manual = list_of (dget d ''manual_required_paths'')\<rparr>"
    by (auto simp: standing_authorization_policy_metadata_def invalid_standing_def elim!: bindE_InrE split: json.splits if_split_asm)
  from d(2) have "fixed_terms d" "manual_valid (dget d ''manual_required_paths'')"
    by (auto simp: standing_valid_def elim!: bindE_InrE split: if_split_asm)
  with d assms(3) show ?thesis by (auto simp: standing_in_force_def fixed_terms_def manual_valid_def)
qed

lemma reserved_False:
  assumes "reserved st path = Inr False" "st_valid st" "st_present st" "p \<in> set (st_manual st)"
  shows "\<not> pattern_fits path p"
  using assms by (auto simp: reserved_def anyE_False pattern_fits_def elim!: bindE_InrE split: sum.splits)

text \<open>The verdict ALLOW on a record list with something protected in it.\<close>

lemma verdict_allows:
  assumes "tv_result (verdict policy st rs manual) = ''ALLOW''" "(r, Some w) \<in> set rs"
  shows "st_valid st" "st_status st = JStr ''ACTIVE''" "w = []" "manual = []" "inspected r"
    and "ch_path r \<notin> set GENERATED_TRUST_PROJECTIONS \<Longrightarrow> (r', w') \<in> set rs \<Longrightarrow> w' \<noteq> None"
proof -
  define prot where "prot = map (ch_path \<circ> fst) (filter (\<lambda>x. snd x \<noteq> None) rs)"
  have p: "ch_path r \<in> set prot" using assms(2) by (force simp: prot_def)
  have auto: "st_valid st \<and> st_status st = JStr ''ACTIVE''
      \<and> concat (map (\<lambda>(r, w). case w of None \<Rightarrow> [] | Some ws \<Rightarrow> if ws = [] then [] else [(ch_path r, ws)]) rs) = [] \<and> manual = []
      \<and> map ch_path (filter (\<lambda>r. ch_path r \<in> set prot \<and> \<not> inspected r) (map fst rs)) = []
      \<and> \<not> (filter (\<lambda>p. p \<notin> set GENERATED_TRUST_PROJECTIONS) prot \<noteq> [] \<and> map (ch_path \<circ> fst) (filter (\<lambda>x. snd x = None) rs) \<noteq> [])"
    using assms(1) p unfolding verdict_def Let_def trust_verdict.simps prot_def [symmetric] by (auto split: if_split_asm)
  then show "st_valid st" "st_status st = JStr ''ACTIVE''" "manual = []" by blast+
  have "\<forall>x \<in> set rs. (case x of (r, None) \<Rightarrow> [] | (r, Some ws) \<Rightarrow> if ws = [] then [] else [(ch_path r, ws)]) = []"
    using auto by (simp add: case_prod_beta)
  from bspec [OF this assms(2)] show "w = []" by (simp split: if_split_asm)
  show "inspected r" using auto assms(2) p by (force simp: filter_empty_conv)
  show "w' \<noteq> None" if "ch_path r \<notin> set GENERATED_TRUST_PROJECTIONS" "(r', w') \<in> set rs"
  proof -
    have "filter (\<lambda>p. p \<notin> set GENERATED_TRUST_PROJECTIONS) prot \<noteq> []" using that(1) p by (auto simp: filter_empty_conv)
    with auto have "filter (\<lambda>x. snd x = None) rs = []" by blast
    then show ?thesis using that(2) by (force simp: filter_empty_conv)
  qed
qed

lemma classify_allows:
  assumes "classify_diff sha loads items policy = Inr (Classified v)" "tv_result v = ''ALLOW''"
  shows "\<exists>records patterns. mapE change_record items = Inr records \<and> records \<noteq> [] \<and> dget policy ''paths'' = JList patterns
    \<and> (\<forall>r \<in> set records. protected_change patterns r = Inr True \<longrightarrow>
         (\<exists>d. standing_in_force sha policy (tv_standing v) d \<and> (\<forall>p \<in> set (list_of (dget d ''manual_required_paths'')). \<not> pattern_fits (ch_path r) p))
       \<and> detect_gate_weakening loads (ch_path r) (ch_old_text r) (ch_new_text r) (ch_status r) = Inr [] \<and> inspected r
       \<and> (ch_path r \<in> set GENERATED_TRUST_PROJECTIONS \<or> (\<forall>r' \<in> set records. protected_change patterns r' = Inr True)))"
proof -
  from classified_by [OF assms(1)] obtain records patterns rs st manual where
    c: "mapE change_record items = Inr records" "records \<noteq> []" "dget policy ''paths'' = JList patterns"
      "mapE (split_record loads patterns) records = Inr rs" "standing_authorization_policy_metadata sha policy = Inr st"
      "filterE (reserved st) (map (ch_path \<circ> fst) (filter (\<lambda>x. snd x \<noteq> None) rs)) = Inr manual" and v: "v = verdict policy st rs manual" by blast
  have tv: "tv_standing v = st" unfolding v verdict_def Let_def by simp
  have "(\<exists>d. standing_in_force sha policy (tv_standing v) d \<and> (\<forall>p \<in> set (list_of (dget d ''manual_required_paths'')). \<not> pattern_fits (ch_path r) p))
       \<and> detect_gate_weakening loads (ch_path r) (ch_old_text r) (ch_new_text r) (ch_status r) = Inr [] \<and> inspected r
       \<and> (ch_path r \<in> set GENERATED_TRUST_PROJECTIONS \<or> (\<forall>r' \<in> set records. protected_change patterns r' = Inr True))"
    if r: "r \<in> set records" "protected_change patterns r = Inr True" for r
  proof -
    from split_record_of [OF c(4) r(1)] obtain w where w: "(r, Some w) \<in> set rs" "split_record loads patterns r = Inr (r, Some w)"
      using split_record_None r(2) by (metis (no_types, lifting) not_None_eq sum.inject(2))
    note a = verdict_allows [OF assms(2) [unfolded v] w(1)]
    from standing_active [OF c(5) a(1,2)] obtain d where d: "standing_in_force sha policy st d" "st_present st"
      "st_manual st = list_of (dget d ''manual_required_paths'')" by blast
    have "reserved st (ch_path r) = Inr False"
      using c(6) [unfolded a(4) filterE_Nil_iff] w(1) by force
    with d a(1) have "\<forall>p \<in> set (list_of (dget d ''manual_required_paths'')). \<not> pattern_fits (ch_path r) p" using reserved_False by metis
    moreover have "protected_change patterns r' = Inr True"
      if g: "ch_path r \<notin> set GENERATED_TRUST_PROJECTIONS" and r': "r' \<in> set records" for r'
    proof -
      from split_record_of [OF c(4) r'] obtain w' where w': "(r', w') \<in> set rs" "split_record loads patterns r' = Inr (r', w')" by blast
      from a(6) [OF g w'(1)] w'(2) split_record_Some show ?thesis by blast
    qed
    ultimately show ?thesis using d(1) a(3,5) split_record_Some [OF w(2)] unfolding tv by blast
  qed
  with c(1-3) show ?thesis by blast
qed

section \<open>The contents that a verdict on a repository has read\<close>

lemma join_nonempty: "xs \<noteq> [] \<Longrightarrow> [] \<notin> set xs \<Longrightarrow> join sep xs \<noteq> []"
  by (cases "(sep, xs)" rule: join.cases) auto

lemma normalized_nonempty: "normalize_repo_path s = Inr p \<Longrightarrow> p \<noteq> []"
proof -
  assume "normalize_repo_path s = Inr p"
  then obtain raw where "p = as_posix (path_parts raw)" by (auto simp: normalize_repo_path_def Let_def split: if_split_asm)
  moreover have "[] \<notin> set (path_parts raw)" by (simp add: path_parts_def)
  ultimately show ?thesis by (simp add: as_posix_def join_nonempty)
qed

text \<open>The text of one side of a change is that of the file at the revision.\<close>

definition read_at :: "repository \<Rightarrow> string \<Rightarrow> string \<Rightarrow> json \<Rightarrow> bool" where
  "read_at g revision path text = (\<exists>p t. normalize_repo_path p = Inr path \<and> blob_at g revision p = Inr (Some t) \<and> text = JStr t)"

definition read_from_git :: "repository \<Rightarrow> string \<Rightarrow> string \<Rightarrow> change \<Rightarrow> bool" where
  "read_from_git g base head r =
     ((hd (ch_status r) = CHR ''A'' \<or> read_at g base (case ch_old_path r of None \<Rightarrow> ch_path r | Some p \<Rightarrow> p) (ch_old_text r))
    \<and> (hd (ch_status r) = CHR ''D'' \<or> read_at g head (ch_path r) (ch_new_text r)))"

lemma upper_starts: "starts_with s [c] \<Longrightarrow> c \<in> {CHR ''A'', CHR ''D''} \<Longrightarrow> hd (upper s) = c"
  by (cases s) (auto simp: starts_with_def upper_def upper_char_def)

lemma side_reads:
  assumes "side g absent revision p = Inr v" "v \<noteq> JNull \<or> absent" "normalize_repo_path p = Inr path"
  shows "absent \<or> read_at g revision path v"
  using assms by (auto simp: side_def read_at_def elim!: bindE_InrE split: if_split_asm option.splits)

text \<open>The fields of a record that \<open>git_diff_records\<close> makes, and what the classification takes from it.\<close>

lemma diff_record_read:
  assumes "diff_record g (JList patterns) base head status old_path token = Inr item" "change_record item = Inr r"
    and "protected_change patterns r = Inr True"
  shows "read_from_git g base head r"
proof -
  from assms(1) obtain raw path old inspect a b where
    d: "normalize_repo_path raw = Inr path" "(if old_path \<noteq> [] then normalize_repo_path old_path else Inr path) = Inr old"
      "wants_content (JList patterns) [path, old] = Inr inspect"
      "(if inspect then contents g base head status old path else Inr (JNull, JNull)) = Inr (a, b)"
    and item: "item = JObj [(''path'', JStr path), (''old_path'', if old_path \<noteq> [] then JStr old else JNull), (''status'', JStr status),
       (''old_text'', a), (''new_text'', b)]"
    unfolding diff_record_def by (elim bindE_InrE) auto
  have old_nonempty: "old \<noteq> []" using d(1,2) normalized_nonempty by (auto split: if_split_asm)
  from assms(2) item old_nonempty obtain p o' where
    r: "normalize_repo_path path = Inr p" "r = \<lparr>ch_path = p, ch_status = upper status, ch_old_path = o', ch_old_text = a, ch_new_text = b\<rparr>"
      "if old_path \<noteq> [] then \<exists>q. normalize_repo_path old = Inr q \<and> o' = Some q else o' = None"
    by (auto simp: change_record_def Let_def elim!: bindE_InrE split: if_split_asm)
  have inspect
  proof (cases "p \<in> set INTEGRITY_PROJECTIONS")
    case True
    then show ?thesis using d(3) r(1) by (auto simp: wants_content_def wanted_path_def split: if_split_asm)
  next
    case False
    with assms(3) r(2) obtain c where c: "c \<in> set (candidates r)" "is_protected_path c patterns = Inr True"
      unfolding protected_change_def using anyE_witness by fastforce
    then obtain x where x: "x \<in> {path, old}" "normalize_repo_path x = Inr c" using r by (auto simp: candidates_def split: if_split_asm)
    have "wanted_path (JList patterns) x = Inr True"
      using c(2) x(2) by (auto simp: wanted_path_def is_protected_path_def elim!: bindE_InrE)
    then show ?thesis using anyE_hit [of "wanted_path (JList patterns)" "[path, old]" inspect x] d(3) x(1) by (auto simp: wants_content_def)
  qed
  with d(4) have s: "side g (starts_with status ''A'') base old = Inr a" "side g (starts_with status ''D'') head path = Inr b"
      "starts_with status ''A'' \<or> a \<noteq> JNull" "starts_with status ''D'' \<or> b \<noteq> JNull"
    unfolding contents_def by (auto elim!: bindE_InrE split: if_split_asm)
  have old_norm: "normalize_repo_path old = Inr (case ch_old_path r of None \<Rightarrow> ch_path r | Some q \<Rightarrow> q)"
    using r d(2) by (auto split: if_split_asm)
  show ?thesis unfolding read_from_git_def
    using side_reads [OF s(1) _ old_norm] side_reads [OF s(2) _ r(1)] s(3,4) upper_starts [of status] r(2) by auto
qed

lemma diff_records_item:
  assumes "diff_records g patterns base head n ts = Inr items" "item \<in> set items"
  shows "\<exists>status old_path token. diff_record g patterns base head status old_path token = Inr item"
  using assms
proof (induction g patterns base head n ts arbitrary: items rule: diff_records.induct)
  case (3 g patterns base head n s t ts)
  then show ?case by (fastforce elim!: bindE_InrE split: if_split_asm list.splits)
qed (auto elim!: bindE_InrE)

text \<open>
  C10.  When the classification of a git diff against the policy of its base revision answers ALLOW, every
  changed path that this policy protects is covered by a complete, active standing authorization of the
  owner in that policy, whose digest the verdict names; none of the paths it reserves for people fits the path
  that the change leads to (the path that a rename leads away from is not compared, and \<open>reserved_file_renamed_away\<close> shows
  a reserved file removed that way under ALLOW); both
  sides of the change were read from the two revisions (but for the missing side of an added or deleted
  file) and comparing them found no weakening; and unless the file is a generated projection, the diff
  holds no file that is not protected.
\<close>

theorem protected_changes_need_the_standing_policy:
  assumes "classify_git_diff sha g base_sha head_sha = Inr (Classified v)" "tv_result v = ''ALLOW''"
  shows "\<exists>policy patterns items records base head. load_base_trust_policy g base_sha = Inr policy \<and> dget policy ''paths'' = JList patterns
    \<and> require_sha base_sha = Inr base \<and> require_sha head_sha = Inr head
    \<and> git_diff_records g base_sha head_sha (JList patterns) = Inr items \<and> mapE change_record items = Inr records \<and> records \<noteq> []
    \<and> (\<forall>r \<in> set records. protected_change patterns r = Inr True \<longrightarrow>
         (\<exists>d. standing_in_force sha policy (tv_standing v) d \<and> (\<forall>p \<in> set (list_of (dget d ''manual_required_paths'')). \<not> pattern_fits (ch_path r) p))
       \<and> read_from_git g base head r
       \<and> detect_gate_weakening (rp_loads g) (ch_path r) (ch_old_text r) (ch_new_text r) (ch_status r) = Inr []
       \<and> (ch_path r \<in> set GENERATED_TRUST_PROJECTIONS \<or> (\<forall>r' \<in> set records. protected_change patterns r' = Inr True)))"
proof -
  from assms(1) obtain policy items where p: "load_base_trust_policy g base_sha = Inr policy"
    "git_diff_records g base_sha head_sha (dget_or policy ''paths'' (JList [])) = Inr items"
    "classify_diff sha (rp_loads g) items policy = Inr (Classified v)"
    unfolding classify_git_diff_def by (elim bindE_InrE)
  from classify_allows [OF p(3) assms(2)] obtain records patterns where
    c: "mapE change_record items = Inr records" "records \<noteq> []" "dget policy ''paths'' = JList patterns"
    and each: "\<forall>r \<in> set records. protected_change patterns r = Inr True \<longrightarrow>
         (\<exists>d. standing_in_force sha policy (tv_standing v) d \<and> (\<forall>p \<in> set (list_of (dget d ''manual_required_paths'')). \<not> pattern_fits (ch_path r) p))
       \<and> detect_gate_weakening (rp_loads g) (ch_path r) (ch_old_text r) (ch_new_text r) (ch_status r) = Inr [] \<and> inspected r
       \<and> (ch_path r \<in> set GENERATED_TRUST_PROJECTIONS \<or> (\<forall>r' \<in> set records. protected_change patterns r' = Inr True))" by blast
  have paths: "dget_or policy ''paths'' (JList []) = JList patterns" using c(3) by (auto simp: dget_def dget_or_def split: option.splits)
  from p(2) obtain base head rc out where d: "require_sha base_sha = Inr base" "require_sha head_sha = Inr head"
    "diff_records g (JList patterns) base head 0 (diff_tokens out) = Inr items"
    unfolding paths git_diff_records_def by (auto elim!: bindE_InrE split: if_split_asm)
  have "read_from_git g base head r" if "r \<in> set records" "protected_change patterns r = Inr True" for r
  proof -
    from mapE_out [OF c(1) that(1)] obtain item where "item \<in> set items" "change_record item = Inr r" by blast
    with diff_records_item [OF d(3)] diff_record_read that(2) show ?thesis by metis
  qed
  with p(1,2) c d(1,2) each show ?thesis unfolding paths by blast
qed

section \<open>The provenance of checks and reviews\<close>

text \<open>
  The reviews of one login with their readable times.
\<close>

definition reviews_by :: "string \<Rightarrow> json list \<Rightarrow> (int \<times> json) set" where
  "reviews_by login reviews = {(t, r). r \<in> set reviews \<and> utc_of r ''submitted_at'' = Inr t
     \<and> (\<exists>d u. r = JObj d \<and> py_or (dget d ''user'') (py_or (dget d ''author'') (JObj [])) = JObj u
          \<and> casefold (py_str (dget_or u ''login'' (JStr []))) = login)}"

definition latest_ok :: "json list \<Rightarrow> latest \<Rightarrow> bool" where
  "latest_ok reviews ls \<longleftrightarrow> (\<forall>login. login \<noteq> [] \<longrightarrow> (case map_of ls login of None \<Rightarrow> reviews_by login reviews = {}
     | Some (t, r) \<Rightarrow> (t, r) \<in> reviews_by login reviews \<and> (\<forall>(t', r') \<in> reviews_by login reviews. t' \<le> t)))"

lemma reviews_by_snoc: "reviews_by login (rs @ [r]) = reviews_by login rs \<union> reviews_by login [r]"
  unfolding reviews_by_def by auto

lemma note_review_latest:
  assumes "note_review r (late, ls) = Inr (late', ls')" "latest_ok rs ls"
  shows "latest_ok (rs @ [r]) ls'"
proof -
  from assms(1) obtain d u where r: "r = JObj d" "py_or (dget d ''user'') (py_or (dget d ''author'') (JObj [])) = JObj u"
    unfolding note_review_def by (cases r; cases "py_or (dget (dict_of r) ''user'') (py_or (dget (dict_of r) ''author'') (JObj []))") (auto elim!: bindE_InrE)
  define login where "login = casefold (py_str (dget_or u ''login'' (JStr [])))"
  have own: "reviews_by l [r] = (if l = login then (case utc_of r ''submitted_at'' of Inl e \<Rightarrow> {} | Inr t \<Rightarrow> {(t, r)}) else {})" for l
    unfolding reviews_by_def login_def using r by (auto split: sum.splits)
  have step: "(if login = [] then Inr (late, ls)
     else (case utc_of r ''submitted_at'' of
       Inl e \<Rightarrow> if is_KTV e then Inr (late @ [''REVIEW_TIME_INVALID:'' @ login], ls) else Inl e
     | Inr t \<Rightarrow> Inr (late, case map_of ls login of
         None \<Rightarrow> AList.update login (t, r) ls
       | Some (t', _) \<Rightarrow> if t' < t then AList.update login (t, r) ls else ls))) = Inr (late', ls')"
    using assms(1) unfolding r(1) note_review_def login_def by (simp only: getE.simps bindE_Inr r(2) getOrE.simps Let_def fst_conv snd_conv)
  show ?thesis
    unfolding latest_ok_def
  proof (intro allI impI)
    fix l :: string
    assume l: "l \<noteq> []"
    have old: "case map_of ls l of None \<Rightarrow> reviews_by l rs = {}
     | Some (t, r) \<Rightarrow> (t, r) \<in> reviews_by l rs \<and> (\<forall>(t', r') \<in> reviews_by l rs. t' \<le> t)" using assms(2) l unfolding latest_ok_def by blast
    show "case map_of ls' l of None \<Rightarrow> reviews_by l (rs @ [r]) = {}
     | Some (t, r') \<Rightarrow> (t, r') \<in> reviews_by l (rs @ [r]) \<and> (\<forall>(t', r'') \<in> reviews_by l (rs @ [r]). t' \<le> t)"
      using step old l unfolding reviews_by_snoc own by (auto simp: update_conv split: if_split_asm sum.splits option.splits)
  qed
qed

lemma notes_latest:
  assumes "foldE note_review reviews (late, ls) = Inr (late', ls')" "latest_ok rs ls"
  shows "latest_ok (rs @ reviews) ls'"
  using assms
proof (induction reviews arbitrary: late ls rs)
  case (Cons r reviews)
  from Cons.prems(1) obtain late1 ls1 where s: "note_review r (late, ls) = Inr (late1, ls1)" "foldE note_review reviews (late1, ls1) = Inr (late', ls')"
    by (auto elim!: bindE_InrE)
  from Cons.IH [OF s(2) note_review_latest [OF s(1) Cons.prems(2)]] show ?case by simp
qed simp

lemma casefold_nonempty: "s \<noteq> [] \<Longrightarrow> casefold s \<noteq> []"
  by (cases s) (auto simp: casefold_def lower_latin_def)

text \<open>An approval that counts: the latest review of a trusted login that is not the author, of exactly this commit, and fresh.\<close>

definition approves :: "string \<Rightarrow> string \<Rightarrow> int \<Rightarrow> int \<Rightarrow> json list \<Rightarrow> string \<Rightarrow> bool" where
  "approves sha author now ttl reviews login = (login \<noteq> author \<and> (\<exists>t d. (t, JObj d) \<in> reviews_by login reviews
     \<and> (\<forall>(t', r) \<in> reviews_by login reviews. t' \<le> t) \<and> dget d ''state'' = JStr ''APPROVED''
     \<and> lower (py_str (dget_or d ''commit_id'' (JStr []))) = sha \<and> t \<le> now \<and> now - t \<le> hours ttl))"

lemma accepted_approves:
  assumes "judge_review sha author now ttl ls login = Accepted" "latest_ok reviews ls" "login \<noteq> []"
  shows "approves sha author now ttl reviews login"
proof -
  from assms(1) obtain t r where t: "map_of ls login = Some (t, r)" "login \<noteq> author" "dget (dict_of r) ''state'' = JStr ''APPROVED''"
    "lower (py_str (dget_or (dict_of r) ''commit_id'' (JStr []))) = sha" "\<not> out_of_date now ttl t"
    unfolding judge_review_def Let_def by (auto split: option.splits if_split_asm prod.splits)
  from assms(2,3) t(1) have l: "(t, r) \<in> reviews_by login reviews" "\<forall>(t', r') \<in> reviews_by login reviews. t' \<le> t"
    unfolding latest_ok_def by (metis (no_types, lifting) case_prod_conv option.simps(5))+
  from l(1) obtain d where "r = JObj d" unfolding reviews_by_def by auto
  with t(3-5) l have "(t, JObj d) \<in> reviews_by login reviews \<and> (\<forall>(t', r) \<in> reviews_by login reviews. t' \<le> t) \<and> dget d ''state'' = JStr ''APPROVED''
     \<and> lower (py_str (dget_or d ''commit_id'' (JStr []))) = sha \<and> t \<le> now \<and> now - t \<le> hours ttl" by (auto simp: out_of_date_def)
  with t(2) show ?thesis unfolding approves_def by blast
qed

text \<open>
  C20.  When the review provenance of a commit is valid, at least the required number of different logins
  approve it, and at least one: each is a trusted reviewer and not the author (logins compare without
  case), and the latest review of that login is an approval of exactly this commit, neither from the
  future nor older than the time to live.
\<close>

theorem valid_reviews_are_independent_approvals:
  assumes "validate_review_provenance reviews expected_sha author_login trusted now ttl required = Inr v" "pr_valid v"
  shows "require_sha expected_sha = Inr (pr_head v) \<and> distinct (pr_reviewers v) \<and> required \<le> int (length (pr_reviewers v)) \<and> 1 \<le> required
    \<and> (\<forall>l \<in> set (pr_reviewers v). l \<in> casefold ` set trusted \<and> approves (pr_head v) (casefold author_login) now ttl reviews l)"
proof -
  define allowed where "allowed = sorted_set (map casefold (filter (\<lambda>l. l \<noteq> []) trusted))"
  from assms(1) obtain sha late ls where s: "require_sha expected_sha = Inr sha" "foldE note_review reviews ([], []) = Inr (late, ls)"
    and v: "pr_head v = sha" "pr_reviewers v = filter (\<lambda>l. judge_review sha (casefold author_login) now ttl ls l = Accepted) allowed"
      "pr_valid v \<Longrightarrow> 1 \<le> required \<and> \<not> (1 \<le> required \<and> int (length (pr_reviewers v)) < required)"
    unfolding validate_review_provenance_def Let_def allowed_def by (auto elim!: bindE_InrE split: prod.splits)
  have "latest_ok ([] @ reviews) ls" by (rule notes_latest [OF s(2)]) (simp add: latest_ok_def reviews_by_def)
  moreover have "l \<noteq> [] \<and> l \<in> casefold ` set trusted" if "l \<in> set allowed" for l
    using that casefold_nonempty unfolding allowed_def sorted_set_def by auto
  moreover have "distinct (pr_reviewers v)" unfolding v(2) allowed_def sorted_set_def by simp
  ultimately show ?thesis using s(1) v assms(2) accepted_approves by auto
qed

text \<open>A check that counts: exactly one of the name, of this commit, successful, of a trusted app, and fresh.\<close>

definition passes :: "string \<Rightarrow> string list \<Rightarrow> int \<Rightarrow> int \<Rightarrow> json list \<Rightarrow> string \<Rightarrow> bool" where
  "passes sha apps now ttl checks name = (\<exists>d app slug t. filterE (same_name name) checks = Inr [JObj d]
     \<and> lower (py_str (dget_or d ''head_sha'' (JStr []))) = sha \<and> dget d ''status'' = JStr ''completed'' \<and> dget d ''conclusion'' = JStr ''success''
     \<and> dget d ''app'' = JObj app \<and> dget app ''slug'' = JStr slug \<and> slug \<in> set apps
     \<and> utc_of (JObj d) ''completed_at'' = Inr t \<and> t \<le> now \<and> now - t \<le> hours ttl)"

lemma no_problems_passes:
  assumes "check_problems sha apps now ttl checks name = Inr []"
  shows "passes sha apps now ttl checks name"
proof -
  from assms obtain item where m: "filterE (same_name name) checks = Inr [item]"
    unfolding check_problems_def by (auto elim!: bindE_InrE split: list.splits)
  then have "item \<in> set (filter (\<lambda>x. same_name name x = Inr True) checks)" unfolding filterE_eq_Inr by (metis list.set_intros(1))
  then have "same_name name item = Inr True" by simp
  then obtain d where d: "item = JObj d" by (cases item) (auto simp: same_name_def)
  from assms m d obtain slug trusted where p: "getE (py_or (dget d ''app'') (JObj [])) ''slug'' = Inr slug" "in_set slug apps = Inr trusted" "trusted"
    "time_problem (JObj d) ''completed_at'' now ttl name = Inr []"
    "lower (py_str (dget_or d ''head_sha'' (JStr []))) = sha" "dget d ''status'' = JStr ''completed''" "dget d ''conclusion'' = JStr ''success''"
    unfolding check_problems_def by (auto simp: Let_def elim!: bindE_InrE)
  from p(2,3) obtain s where slug: "slug = JStr s" "s \<in> set apps" by (auto simp: in_set_True)
  from p(1) slug obtain app where "dget d ''app'' = JObj app" "dget app ''slug'' = JStr s"
    by (auto simp: getE_Inr py_or_def split: if_split_asm)
  moreover from p(4) obtain t where "utc_of (JObj d) ''completed_at'' = Inr t" "\<not> out_of_date now ttl t"
    by (auto simp: time_problem_def catchE_eq_Inr elim!: bindE_InrE)
  ultimately show ?thesis using m d p slug unfolding passes_def out_of_date_def by auto
qed

text \<open>
  C21.  When the check provenance of a commit is valid, every expected check has exactly one run of its
  name, and that run is completed with success for exactly this commit, comes from a trusted app, and is
  neither from the future nor older than the time to live; at least one check is expected.
\<close>

theorem valid_checks_bind_the_commit:
  assumes "validate_check_provenance checks expected_sha names apps now ttl = Inr v" "pr_valid v"
  shows "require_sha expected_sha = Inr (pr_head v) \<and> names \<noteq> [] \<and> distinct names \<and> (\<forall>n \<in> set names. passes (pr_head v) apps now ttl checks n)"
proof -
  from assms obtain sha found where s: "require_sha expected_sha = Inr sha" "mapE (check_problems sha apps now ttl checks) names = Inr found"
    "pr_head v = sha" "names \<noteq> []" "distinct names" "concat found = []"
    unfolding validate_check_provenance_def Let_def by (auto elim!: bindE_InrE)
  have "passes sha apps now ttl checks n" if "n \<in> set names" for n
    using mapE_in [OF s(2) that] s(6) no_problems_passes by auto
  with s show ?thesis by simp
qed

end
