(* ===== verification/TrustSample.thy ===== *)
theory TrustSample
  imports TrustProps
begin

text \<open>
  A repository whose base policy protects \<open>.adwf\<close> under an active standing authorization, the properties
  applied to it, and two changes that the classification lets through.
\<close>

section \<open>A repository\<close>

definition standing_terms :: dict where
  "standing_terms = [(''schema_version'', JInt 1), (''revision'', JInt 1), (''status'', JStr ''ACTIVE''), (''mode'', JStr ''HUMAN_BY_EXCEPTION''),
     (''issued_by'', JStr ''REPOSITORY_OWNER''), (''scope'', JStr ''PULL_REQUEST_TRUST_CHANGES''), (''require_exact_current_base'', JBool True),
     (''manual_required_paths'', JList [JStr ''.adwf/p'']), (''non_overridable_invariants'', JList (map JStr INVARIANTS)),
     (''revocation'', JStr ''HUMAN_GATED_BASE_POLICY_CHANGE'')]"

definition trust_policy :: dict where
  "trust_policy = [(''paths'', JList [JStr ''.adwf/**'']), (''weakening_requires_human'', JBool True), (''weakening_is_risk'', JStr ''R4''),
     (''self_modification_in_feature_pr'', JStr ''FORBIDDEN''), (''standing_authorization'', JObj standing_terms)]"

definition trust_loads :: "string \<Rightarrow> parsed" where
  "trust_loads text = (if text = ''policy'' then Parsed (JObj trust_policy) else NotJson)"

definition trust_git :: "string \<Rightarrow> string list \<Rightarrow> (int \<times> string) res" where
  "trust_git diff args = Inr (0, if hd args = ''diff'' then diff else if ends_with (last args) POLICY_PATH then ''policy'' else ''x'')"

definition trust_repo :: "string \<Rightarrow> repository" where
  "trust_repo diff = \<lparr>rp_git = trust_git diff, rp_utf8 = Inr, rp_lenient = id, rp_loads = trust_loads\<rparr>"

definition nul :: string where
  "nul = [CHR 0x00]"

text \<open>A modified file, and a reserved file renamed away.\<close>

definition modified :: string where "modified = ''M'' @ nul @ ''.adwf/a'' @ nul"
definition moved :: string where "moved = ''R100'' @ nul @ ''.adwf/p'' @ nul @ ''.adwf/q'' @ nul"

definition allows :: "classified res \<Rightarrow> bool" where
  "allows c = (case c of Inr (Classified v) \<Rightarrow> tv_result v = ''ALLOW'' | _ \<Rightarrow> False)"

lemma allows_iff: "allows c \<longleftrightarrow> (\<exists>v. c = Inr (Classified v) \<and> tv_result v = ''ALLOW'')"
  by (auto simp: allows_def split: sum.splits classified.splits)

lemma trust_parts [simp]: "rp_git (trust_repo d) = trust_git d" "rp_utf8 (trust_repo d) = Inr" "rp_lenient (trust_repo d) = id"
    "rp_loads (trust_repo d) = trust_loads"
  by (simp_all add: trust_repo_def)

lemma trust_sha: "require_sha sample_sha40 = Inr sample_sha40"
  by code_simp

lemma trust_policy_path: "normalize_repo_path POLICY_PATH = Inr POLICY_PATH"
  by code_simp

lemma policy_read: "load_base_trust_policy (trust_repo d) sample_sha40 = Inr trust_policy"
  by (simp add: load_base_trust_policy_def blob_at_def trust_sha trust_policy_path trust_git_def trust_loads_def ends_with_def)

lemma terms_valid: "standing_valid standing_terms = Inr True"
  by code_simp

lemma modified_tokens: "diff_tokens modified = [''M'', ''.adwf/a'']" "diff_tokens moved = [''R100'', ''.adwf/p'', ''.adwf/q'']"
  by code_simp+

lemma paths_ok: "normalize_repo_path ''.adwf/a'' = Inr ''.adwf/a''" "normalize_repo_path ''.adwf/p'' = Inr ''.adwf/p''"
  "normalize_repo_path ''.adwf/q'' = Inr ''.adwf/q''" "glob_regex ''.adwf/**'' = Inr (map Just ''.adwf/'' @ [Deep])"
  "glob_regex ''.adwf/p'' = Inr (map Just ''.adwf/p'')"
  by code_simp+

lemma protected_a: "is_protected_path ''.adwf/a'' [JStr ''.adwf/**''] = Inr True" 
  "is_protected_path ''.adwf/p'' [JStr ''.adwf/**''] = Inr True" "is_protected_path ''.adwf/q'' [JStr ''.adwf/**''] = Inr True" 
  by code_simp+

lemma file_read: "p \<in> {''.adwf/a'', ''.adwf/p'', ''.adwf/q''} \<Longrightarrow> blob_at (trust_repo d) sample_sha40 p = Inr (Some ''x'')"
  using paths_ok by (auto simp: blob_at_def trust_sha trust_git_def ends_with_def POLICY_PATH_def)

text \<open>The two records.\<close>

definition modified_change :: change where
  "modified_change = \<lparr>ch_path = ''.adwf/a'', ch_status = ''M'', ch_old_path = None, ch_old_text = JStr ''x'', ch_new_text = JStr ''x''\<rparr>"

definition moved_change :: change where
  "moved_change = \<lparr>ch_path = ''.adwf/q'', ch_status = ''R100'', ch_old_path = Some ''.adwf/p'', ch_old_text = JStr ''x'', ch_new_text = JStr ''x''\<rparr>"

definition item_of :: "change \<Rightarrow> json" where
  "item_of r = JObj [(''path'', JStr (ch_path r)), (''old_path'', case ch_old_path r of None \<Rightarrow> JNull | Some p \<Rightarrow> JStr p), (''status'', JStr (ch_status r)),
     (''old_text'', ch_old_text r), (''new_text'', ch_new_text r)]"

lemma wanted: "wanted_path (JList [JStr ''.adwf/**'']) p = Inr True" if "p \<in> {''.adwf/a'', ''.adwf/p'', ''.adwf/q''}"
  using that paths_ok protected_a by (auto simp: wanted_path_def INTEGRITY_PROJECTIONS_def)

lemma statuses: "ascii ''M'' = Inr ''M''" "ascii ''R100'' = Inr ''R100''" "\<not> is_move ''M''" "is_move ''R100''"
  "upper ''M'' = ''M''" "upper ''R100'' = ''R100''" "git_status ''M''" "git_status ''R100''"
  by code_simp+

lemma modified_items: "git_diff_records (trust_repo modified) sample_sha40 sample_sha40 (JList [JStr ''.adwf/**'']) = Inr [item_of modified_change]"
  by (simp add: git_diff_records_def trust_sha trust_git_def modified_tokens statuses diff_record_def paths_ok wants_content_def wanted
    contents_def side_def file_read starts_with_def item_of_def modified_change_def)

lemma moved_items: "git_diff_records (trust_repo moved) sample_sha40 sample_sha40 (JList [JStr ''.adwf/**'']) = Inr [item_of moved_change]"
  by (simp add: git_diff_records_def trust_sha trust_git_def modified_tokens statuses diff_record_def paths_ok wants_content_def wanted
    contents_def side_def file_read starts_with_def item_of_def moved_change_def)

lemma sample_records: "change_record (item_of modified_change) = Inr modified_change" "change_record (item_of moved_change) = Inr moved_change"
  by (simp_all add: change_record_def item_of_def modified_change_def moved_change_def statuses paths_ok)

lemma sample_protected: "protected_change [JStr ''.adwf/**''] modified_change = Inr True" "protected_change [JStr ''.adwf/**''] moved_change = Inr True"
  by (simp_all add: protected_change_def modified_change_def moved_change_def candidates_def protected_a INTEGRITY_PROJECTIONS_def)

lemma no_weakening: "p \<in> {''.adwf/a'', ''.adwf/p'', ''.adwf/q''} \<Longrightarrow> s \<in> {''M'', ''R100''} \<Longrightarrow>
    detect_gate_weakening trust_loads p (JStr ''x'') (JStr ''x'') s = Inr []"
  using paths_ok by (auto simp: detect_gate_weakening_def statuses starts_with_def structural_findings_def trust_loads_def short_texts)

lemma sample_standing: "standing_authorization_policy_metadata flat_sha trust_policy =
    Inr \<lparr>st_present = True, st_valid = True, st_status = JStr ''ACTIVE'', st_digest = Some flat_digest, st_revision = JInt 1, st_manual = [JStr ''.adwf/p'']\<rparr>"
  by (simp add: standing_authorization_policy_metadata_def trust_policy_def terms_valid flat_sha_def) (simp add: standing_terms_def)

lemma trust_paths: "dget trust_policy ''paths'' = JList [JStr ''.adwf/**'']" "dget_or trust_policy ''paths'' (JList []) = JList [JStr ''.adwf/**'']"
  by (simp_all add: trust_policy_def)

lemma sample_allowed_change:
  assumes "r \<in> {modified_change, moved_change}"
  shows "\<exists>v. classify_diff flat_sha trust_loads [item_of r] trust_policy = Inr (Classified v) \<and> tv_result v = ''ALLOW''"
proof -
  define st where "st = \<lparr>st_present = True, st_valid = True, st_status = JStr ''ACTIVE'', st_digest = Some flat_digest, st_revision = JInt 1, st_manual = [JStr ''.adwf/p'']\<rparr>"
  have "split_record trust_loads [JStr ''.adwf/**''] r = Inr (r, Some [])"
    using assms sample_protected no_weakening by (auto simp: split_record_def modified_change_def moved_change_def)
  moreover have "reserved st (ch_path r) = Inr False"
    using assms by (auto simp: reserved_def st_def paths_ok modified_change_def moved_change_def)
  moreover have "readable (JStr ''.adwf/**'')" by (simp add: readable_def paths_ok)
  ultimately have "classify_diff flat_sha trust_loads [item_of r] trust_policy = Inr (Classified (verdict trust_policy st [(r, Some [])] []))"
    using assms sample_records sample_standing by (auto simp: classify_diff_def trust_paths st_def)
  moreover have "tv_result (verdict trust_policy st [(r, Some [])] []) = ''ALLOW''"
    using assms by (auto simp: verdict_def Let_def policy_reasons_def trust_policy_def st_def inspected_def modified_change_def moved_change_def)
  ultimately show ?thesis by blast
qed

lemma modified_allowed: "\<exists>v. classify_git_diff flat_sha (trust_repo modified) sample_sha40 sample_sha40 = Inr (Classified v) \<and> tv_result v = ''ALLOW''"
  using sample_allowed_change [of modified_change] by (simp add: classify_git_diff_def policy_read trust_paths modified_items)

definition modified_verdict :: trust_verdict where
  "modified_verdict = (case classify_git_diff flat_sha (trust_repo modified) sample_sha40 sample_sha40 of Inr (Classified v) \<Rightarrow> v)"

lemma modified_verdict_allowed: "classify_git_diff flat_sha (trust_repo modified) sample_sha40 sample_sha40 = Inr (Classified modified_verdict)"
  "tv_result modified_verdict = ''ALLOW''"
  using modified_allowed by (auto simp: modified_verdict_def)

theorem protected_changes_need_the_standing_policy_witness:
  "standing_in_force flat_sha trust_policy (tv_standing modified_verdict) standing_terms
   \<and> read_from_git (trust_repo modified) sample_sha40 sample_sha40 modified_change"
proof -
  from protected_changes_need_the_standing_policy [OF modified_verdict_allowed] obtain policy patterns items records base head where
    p: "load_base_trust_policy (trust_repo modified) sample_sha40 = Inr policy" "dget policy ''paths'' = JList patterns"
      "require_sha sample_sha40 = Inr base" "require_sha sample_sha40 = Inr head"
      "git_diff_records (trust_repo modified) sample_sha40 sample_sha40 (JList patterns) = Inr items" "mapE change_record items = Inr records"
    and each: "\<forall>r \<in> set records. protected_change patterns r = Inr True \<longrightarrow>
         (\<exists>d. standing_in_force flat_sha policy (tv_standing modified_verdict) d \<and> (\<forall>p \<in> set (list_of (dget d ''manual_required_paths'')). \<not> pattern_fits (ch_path r) p))
       \<and> read_from_git (trust_repo modified) base head r
       \<and> detect_gate_weakening (rp_loads (trust_repo modified)) (ch_path r) (ch_old_text r) (ch_new_text r) (ch_status r) = Inr []
       \<and> (ch_path r \<in> set GENERATED_TRUST_PROJECTIONS \<or> (\<forall>r' \<in> set records. protected_change patterns r' = Inr True))" by blast
  from p have e: "policy = trust_policy" "patterns = [JStr ''.adwf/**'']" "base = sample_sha40" "head = sample_sha40"
    by (simp_all add: policy_read trust_paths trust_sha)
  with p(5) have "items = [item_of modified_change]" by (simp add: modified_items)
  with p(6) have "records = [modified_change]" by (simp add: sample_records)
  with each sample_protected e obtain d where "standing_in_force flat_sha trust_policy (tv_standing modified_verdict) d"
    "read_from_git (trust_repo modified) sample_sha40 sample_sha40 modified_change" by auto
  moreover have "d = standing_terms" using calculation(1) by (simp add: standing_in_force_def trust_policy_def)
  ultimately show ?thesis by simp
qed

text \<open>
  A reserved file that is renamed inside the protected area is removed without a person: only the new
  path is compared with the reserved ones, and a rename is no deletion for the search for weakening.
\<close>

lemma reserved_file_renamed_away:
  "(\<exists>v. classify_git_diff flat_sha (trust_repo moved) sample_sha40 sample_sha40 = Inr (Classified v) \<and> tv_result v = ''ALLOW'')
   \<and> JStr ''.adwf/p'' \<in> set (list_of (dget standing_terms ''manual_required_paths'')) \<and> ch_old_path moved_change = Some ''.adwf/p''"
  using sample_allowed_change [of moved_change]
  by (simp add: classify_git_diff_def policy_read trust_paths moved_items standing_terms_def moved_change_def)

text \<open>
  A level of a type that cannot be looked up ends the whole structural comparison, and with it the findings
  of every other key.
\<close>

definition level_text :: "string \<Rightarrow> parsed" where
  "level_text text = (if text = ''old''
     then Parsed (JObj [(''requested_autonomy'', JStr ''A1''), (''hard_budget_usd'', JInt 0), (''human_gate'', JBool True)])
     else Parsed (JObj [(''requested_autonomy'', JList []), (''hard_budget_usd'', JInt 100), (''human_gate'', JBool False)]))"

lemma mapE_error:
  assumes "\<forall>x \<in> set xs. f x = Inl e \<or> (\<exists>y. f x = Inr y)" "\<exists>x \<in> set xs. f x = Inl e"
  shows "mapE f xs = Inl e"
  using assms by (induction xs) (auto simp: bindE_eq_Inl)

lemma level_budget: "budget_findings c (JInt 0) (JInt 100) = Inr [''MONETARY_BUDGET_INCREASED:'' @ c]"
proof -
  have "\<not> overflow_bound \<le> 0" "\<not> overflow_bound \<le> 100" by (simp_all add: overflow_bound_def)
  then show ?thesis by (simp add: budget_findings_def less_pyfloat_def)
qed

lemma level_autonomy: "level_rises AUTONOMY_LEVELS (JStr ''A1'') (JList []) = Inl TypeError"
  by (simp add: level_rises_def AUTONOMY_LEVELS_def in_set_def)

lemma level_walk: "walk_changes (JObj [(''requested_autonomy'', JStr ''A1''), (''hard_budget_usd'', JInt 0), (''human_gate'', JBool True)])
   (JObj [(''requested_autonomy'', JList []), (''hard_budget_usd'', JInt 100), (''human_gate'', JBool False)]) ''$'' = Inl TypeError"
proof -
  have "mapE (at_key [(''requested_autonomy'', JStr ''A1''), (''hard_budget_usd'', JInt 0), (''human_gate'', JBool True)]
      [(''requested_autonomy'', JList []), (''hard_budget_usd'', JInt 100), (''human_gate'', JBool False)] ''$'')
     (sort (remdups (dkeys [(''requested_autonomy'', JStr ''A1''), (''hard_budget_usd'', JInt 0), (''human_gate'', JBool True)]
       @ dkeys [(''requested_autonomy'', JList []), (''hard_budget_usd'', JInt 100), (''human_gate'', JBool False)]))) = Inl TypeError"
    by (rule mapE_error) (simp_all add: dkeys_def at_key_def Let_def key_findings_def level_budget level_autonomy walk_changes.simps)
  then show ?thesis unfolding walk_dicts by simp
qed

lemma mistyped_level_hides_weakening:
  "detect_gate_weakening level_text ''.adwf/a'' (JStr ''old'') (JStr ''new'') ''M'' = Inr []"
  by (simp add: detect_gate_weakening_def paths_ok statuses starts_with_def structural_findings_def level_text_def level_walk short_texts)

section \<open>Reviews, checks and nested controls\<close>

definition sample_review :: json where
  "sample_review = JObj [(''user'', JObj [(''login'', JStr ''Ann'')]), (''state'', JStr ''APPROVED''), (''commit_id'', JStr sample_sha40),
     (''submitted_at'', JStr ''2026-01-01T00:00:00Z'')]"

definition sample_check :: json where
  "sample_check = JObj [(''name'', JStr ''gate''), (''head_sha'', JStr sample_sha40), (''status'', JStr ''completed''), (''conclusion'', JStr ''success''),
     (''app'', JObj [(''slug'', JStr ''ci'')]), (''completed_at'', JStr ''2026-01-01T00:00:00Z'')]"

definition new_year :: int where
  "new_year = (case parse_time ''2026-01-01T00:00:00Z'' of Inr t \<Rightarrow> t)"

lemma new_year_parsed: "parse_time ''2026-01-01T00:00:00Z'' = Inr new_year"
  unfolding new_year_def by code_simp

lemma sample_folds: "casefold ''bob'' = ''bob''" "casefold ''ann'' = ''ann''" "casefold ''Ann'' = ''ann''"
  by code_simp+

lemma sample_sha_lower: "lower sample_sha40 = sample_sha40"
  by code_simp

lemma sample_review_valid:
  "validate_review_provenance [sample_review] sample_sha40 ''bob'' [''ann''] new_year 1 1 =
     Inr \<lparr>pr_valid = True, pr_errors = [], pr_head = sample_sha40, pr_reviewers = [''ann'']\<rparr>"
  by (simp add: validate_review_provenance_def trust_sha Let_def sorted_set_def sample_folds note_review_def sample_review_def utc_of_def new_year_parsed
    py_or_def judge_review_def sample_sha_lower out_of_date_def hours_def rejections_def)

lemma sample_check_valid:
  "validate_check_provenance [sample_check] sample_sha40 [''gate''] [''ci''] new_year 1 =
     Inr \<lparr>pr_valid = True, pr_errors = [], pr_head = sample_sha40, pr_reviewers = []\<rparr>"
  by (simp add: validate_check_provenance_def trust_sha check_problems_def sample_check_def same_name_def py_or_def time_problem_def utc_of_def
    new_year_parsed sample_sha_lower out_of_date_def hours_def)

theorem valid_reviews_are_independent_approvals_witness:
  "approves sample_sha40 ''bob'' new_year 1 [sample_review] ''ann''"
  using valid_reviews_are_independent_approvals [OF sample_review_valid] sample_folds by simp

theorem valid_checks_bind_the_commit_witness: "passes sample_sha40 [''ci''] new_year 1 [sample_check] ''gate''"
  using valid_checks_bind_the_commit [OF sample_check_valid] by simp

theorem no_nested_weakening_is_missed_witness:
  "\<exists>ws. walk_changes (JObj [(''a'', JObj [(''max_autonomous_risk'', JStr ''R1''), (''required_paths'', JList [JStr ''x'', JStr ''y''])])])
       (JObj [(''a'', JObj [(''max_autonomous_risk'', JStr ''R3''), (''required_paths'', JList [JStr ''y''])])]) ''$'' = Inr ws
     \<and> {''AUTONOMOUS_RISK_INCREASED:$.a.max_autonomous_risk'', ''REQUIRED_LIST_ITEMS_REMOVED:$.a.required_paths''} \<subseteq> set ws"
proof -
  define before where "before = [(''max_autonomous_risk'', JStr ''R1''), (''required_paths'', JList [JStr ''x'', JStr ''y''])]"
  define behind where "behind = [(''max_autonomous_risk'', JStr ''R3''), (''required_paths'', JList [JStr ''y''])]"
  have "\<exists>ws. walk_changes (JObj [(''a'', JObj before)]) (JObj [(''a'', JObj behind)]) ''$'' = Inr ws"
    unfolding before_def behind_def
    by (simp add: walk_dicts at_key_def dkeys_def key_findings_def walk_changes.simps level_rises_def in_set_def Let_def RISK_LEVELS_def)
  then obtain ws where w: "walk_changes (JObj [(''a'', JObj before)]) (JObj [(''a'', JObj behind)]) ''$'' = Inr ws" ..
  have along: "along [''a''] (JObj [(''a'', JObj before)]) = Some (JObj before)" "along [''a''] (JObj [(''a'', JObj behind)]) = Some (JObj behind)" by simp_all
  note reported = no_nested_weakening_is_missed [OF w along]
  have "weakens (child_name ''$'' ([''a''] @ [''max_autonomous_risk''])) ''max_autonomous_risk'' (map_of before ''max_autonomous_risk'')
      (map_of behind ''max_autonomous_risk'') ''AUTONOMOUS_RISK_INCREASED:''"
  proof -
    have "\<exists>i j. i < j \<and> j < (5::nat) \<and> ''R1'' = [''R0'', ''R1'', ''R2'', ''R3'', ''R4''] ! i \<and> ''R3'' = [''R0'', ''R1'', ''R2'', ''R3'', ''R4''] ! j"
      by (intro exI [of _ 1] exI [of _ 3]) simp
    then show ?thesis unfolding weakens_def before_def behind_def by simp
  qed
  from reported [OF this] have risk: "''AUTONOMOUS_RISK_INCREASED:$.a.max_autonomous_risk'' \<in> set ws" by (simp add: key_of_child_def)
  have "weakens (child_name ''$'' ([''a''] @ [''required_paths''])) ''required_paths'' (map_of before ''required_paths'')
      (map_of behind ''required_paths'') ''REQUIRED_LIST_ITEMS_REMOVED:''"
  proof -
    have "loses_items [JStr ''x'', JStr ''y''] [JStr ''y'']"
      unfolding loses_items_def by (intro exI [of _ "\<lambda>v. v = JStr ''x''"]) simp
    moreover have "contains (lower ''$.a.required_paths'') ''required''" by code_simp
    ultimately show ?thesis unfolding weakens_def before_def behind_def by (simp add: key_of_child_def)
  qed
  from reported [OF this] have "''REQUIRED_LIST_ITEMS_REMOVED:$.a.required_paths'' \<in> set ws" by (simp add: key_of_child_def)
  with risk w show ?thesis unfolding before_def behind_def by blast
qed

end
