(* ===== verification/OwnerDecisions.thy ===== *)
theory OwnerDecisions
  imports ExecutorProps TrustedContext
begin

text \<open>
  Owner decisions kept as comments of one provider issue (\<open>.adwf/lib/github_owner_decisions.py\<close>): recording one
  and reading the latest one for a commit.  \<open>json.loads\<close> is the argument \<open>loads\<close>, which is None where
  it raises \<open>JSONDecodeError\<close>; the clock and the fresh nonce are arguments.
\<close>

section \<open>The store\<close>

definition DECISION_TITLE :: string where
  "DECISION_TITLE = ''[ADWF] Owner Decisions''"

definition newline :: string where
  "newline = [CHR 0x0A]"

definition fence :: string where
  "fence = [CHR 0x60, CHR 0x60, CHR 0x60]"

definition DECISION_PREFIX :: string where
  "DECISION_PREFIX = ''<!-- ADWF-OWNER-DECISION v1 -->'' @ newline @ fence @ ''json'' @ newline"

definition DECISION_SUFFIX :: string where
  "DECISION_SUFFIX = newline @ fence"

definition decision_hash :: "(string \<Rightarrow> string) \<Rightarrow> dict \<Rightarrow> string" where
  "decision_hash sha d = sha (canonical (JObj d))"

text \<open>\<open>body[len(PREFIX):-len(SUFFIX)]\<close> of a body with both ends.\<close>

definition parse_decision :: "(string \<Rightarrow> json option) \<Rightarrow> string \<Rightarrow> dict option" where
  "parse_decision loads body = (if \<not> starts_with body DECISION_PREFIX \<or> \<not> ends_with body DECISION_SUFFIX then None
     else (case loads (drop (length DECISION_PREFIX) (take (length body - length DECISION_SUFFIX) body)) of
       Some (JObj d) \<Rightarrow> Some d | _ \<Rightarrow> None))"

definition decision_issue :: "dict \<Rightarrow> bool" where
  "decision_issue i = (dget i ''title'' = JStr DECISION_TITLE \<and> dget i ''state'' = JStr ''open'')"

definition issue_number :: "dict \<Rightarrow> int res" where
  "issue_number i = bindE (ditemE i ''number'') py_int"

text \<open>\<open>str((comment.get('user') or {}).get('login') or '')\<close> and the permission of a login.\<close>

definition login_of :: "dict \<Rightarrow> string res" where
  "login_of c = bindE (getE (py_or (dget c ''user'') (JObj [])) ''login'') (\<lambda>l. Inr (py_str (py_or l (JStr []))))"

definition AUTHORITY :: "string list" where
  "AUTHORITY = [''admin'', ''maintain'']"

definition authority_level :: "'r github \<Rightarrow> string \<Rightarrow> ('r net, string) prog" where
  "authority_level c login = bindP (collaborator_permission c login) (\<lambda>p. retP (field_text p ''permission''))"

section \<open>Recording a decision\<close>

definition ensure_decision_issue :: "'r github \<Rightarrow> ('r net, dict) prog" where
  "ensure_decision_issue c = bindP (gh_issues c) (\<lambda>is. let matches = filter decision_issue is in
     if 1 < length matches then raiseP (ValueError ''MULTIPLE_OWNER_DECISION_ISSUES'')
     else if matches \<noteq> [] then retP (hd matches)
     else create_issue c DECISION_TITLE ''Provider-authenticated ADWF owner decisions. Technical metadata only; never edit comments manually.'')"

definition decision_payload :: "(string \<Rightarrow> string) \<Rightarrow> string \<Rightarrow> string \<Rightarrow> string \<Rightarrow> string \<Rightarrow> string \<Rightarrow> string \<Rightarrow> string \<Rightarrow> dict" where
  "decision_payload sha decision head_sha preview_digest policy_hash nonce login time = (let
       payload = [(''schema_version'', JInt 1), (''decision'', JStr decision), (''head_sha'', JStr head_sha), (''preview_digest'', JStr preview_digest),
         (''policy_hash'', JStr policy_hash), (''nonce'', JStr nonce), (''actor_login'', JStr login), (''recorded_at'', JStr time)]
     in payload @ [(''decision_digest'', JStr (decision_hash sha payload))])"

definition record_decision ::
    "(string \<Rightarrow> string) \<Rightarrow> int \<Rightarrow> string \<Rightarrow> 'r github \<Rightarrow> string \<Rightarrow> string \<Rightarrow> string \<Rightarrow> string \<Rightarrow> string option \<Rightarrow> ('r net, dict) prog" where
  "record_decision sha now fresh c decision head_sha preview_digest policy_hash nonce =
     (if decision \<notin> {''ACCEPTED'', ''CHANGES_REQUESTED'', ''DEFERRED''} then raiseP (ValueError ''OWNER_DECISION_INVALID'')
      else if \<not> sha40 head_sha \<or> \<not> sha256_hex preview_digest \<or> \<not> sha256_hex policy_hash then raiseP (ValueError ''OWNER_DECISION_BINDING_INVALID'')
      else bindP (current_user c) (\<lambda>actor. let login = field_text actor ''login'' in
        if login = [] then raiseP (ValueError ''OWNER_IDENTITY_READBACK_MISSING'')
        else bindP (authority_level c login) (\<lambda>level.
        if level \<notin> set AUTHORITY then raiseP (ValueError ''OWNER_AUTHORITY_INSUFFICIENT'')
        else bindP (ensure_decision_issue c) (\<lambda>issue.
        let payload = decision_payload sha decision head_sha preview_digest policy_hash
              (case nonce of Some n \<Rightarrow> if n = [] then fresh else n | None \<Rightarrow> fresh) login (iso now) in
        bindP (liftP (issue_number issue)) (\<lambda>n.
        bindP (add_issue_comment c n (DECISION_PREFIX @ canonical (JObj payload) @ DECISION_SUFFIX)) (\<lambda>comment.
        if \<not> truthy (dget comment ''id'') then raiseP (ValueError ''OWNER_DECISION_PROVIDER_READBACK_FAILED'')
        else bindP (liftP (login_of comment)) (\<lambda>by.
        if by \<noteq> login then raiseP (ValueError ''OWNER_DECISION_PROVIDER_READBACK_FAILED'')
        else retP ([(''readback_verified'', JBool True), (''issue_number'', dget issue ''number''), (''comment_id'', dget comment ''id'')] @ payload))))))))"

section \<open>Reading the latest decision for a commit\<close>

text \<open>\<open>{..., **value}\<close>: the fields of the comment come last and win.\<close>

definition with_fields :: "dict \<Rightarrow> dict \<Rightarrow> dict" where
  "with_fields base v = fold (\<lambda>p d. dput (fst p) (snd p) d) v base"

definition decision_of :: "dict \<Rightarrow> dict \<Rightarrow> dict" where
  "decision_of comment v = with_fields [(''readback_verified'', JBool True), (''comment_id'', dget comment ''id'')] v"

text \<open>One comment in the loop: what makes it no candidate ends with None; any exception of the permission read does too.\<close>

definition weigh_comment :: "(string \<Rightarrow> string) \<Rightarrow> (string \<Rightarrow> json option) \<Rightarrow> 'r github \<Rightarrow> string \<Rightarrow> dict \<Rightarrow> ('r net, dict option) prog" where
  "weigh_comment sha loads c head_sha comment = (case parse_decision loads (field_text comment ''body'') of
     None \<Rightarrow> retP None
   | Some v \<Rightarrow> if v = [] \<or> dget v ''head_sha'' \<noteq> JStr head_sha then retP None
       else bindP (liftP (login_of comment)) (\<lambda>login.
         if login = [] \<or> dget v ''actor_login'' \<noteq> JStr login then retP None
         else if dget v ''decision_digest'' \<noteq> JStr (decision_hash sha (ddel ''decision_digest'' v)) then retP None
         else bindP (attemptP (authority_level c login)) (\<lambda>level. case level of
           Inl _ \<Rightarrow> retP None
         | Inr l \<Rightarrow> if l \<notin> set AUTHORITY then retP None else retP (Some (decision_of comment v)))))"

definition recorded_at :: "dict \<Rightarrow> string" where
  "recorded_at d = field_text d ''recorded_at''"

definition newest :: "dict option list \<Rightarrow> dict option" where
  "newest found = (let candidates = concat (map (\<lambda>o'. case o' of None \<Rightarrow> [] | Some d \<Rightarrow> [d]) found) in
     if candidates = [] then None else Some (last (sort_key recorded_at candidates)))"

definition latest_for_sha :: "(string \<Rightarrow> string) \<Rightarrow> (string \<Rightarrow> json option) \<Rightarrow> 'r github \<Rightarrow> string \<Rightarrow> ('r net, dict option) prog" where
  "latest_for_sha sha loads c head_sha = bindP (gh_issues c) (\<lambda>is. case filter decision_issue is of
     [i] \<Rightarrow> bindP (liftP (issue_number i)) (\<lambda>n. bindP (issue_comments c n) (\<lambda>cs.
       bindP (eachP (weigh_comment sha loads c head_sha) cs) (\<lambda>found. retP (newest found))))
   | _ \<Rightarrow> retP None)"

section \<open>Where a decision comes from\<close>

lemma fold_dput_last: "map_of (fold (\<lambda>p d. dput (fst p) (snd p) d) v base) k = (case map_of (rev v) k of None \<Rightarrow> map_of base k | Some x \<Rightarrow> Some x)"
  by (induction v arbitrary: base) (auto simp: map_of_dput map_add_def split: option.splits)

lemma with_fields_get: "dict_ok v \<Longrightarrow> map_of v k = Some x \<Longrightarrow> dget (with_fields base v) k = x"
proof -
  assume v: "dict_ok v" "map_of v k = Some x"
  then have "map_of (rev v) k = Some x" by (metis dict_ok_def map_of_eq_Some_iff distinct_rev rev_map set_rev)
  then show ?thesis by (simp add: with_fields_def dget_def fold_dput_last)
qed

text \<open>What a comment must show to be a candidate.\<close>

definition attested :: "(string \<Rightarrow> string) \<Rightarrow> (string \<Rightarrow> json option) \<Rightarrow> string \<Rightarrow> dict \<Rightarrow> string \<Rightarrow> dict \<Rightarrow> bool" where
  "attested sha loads head_sha comment login v = (parse_decision loads (field_text comment ''body'') = Some v
     \<and> login_of comment = Inr login \<and> login \<noteq> [] \<and> dget v ''actor_login'' = JStr login \<and> dget v ''head_sha'' = JStr head_sha
     \<and> dget v ''decision_digest'' = JStr (decision_hash sha (ddel ''decision_digest'' v)))"

text \<open>The provider answered, at some moment since \<open>n0\<close>, that the login may administer or maintain the repository.\<close>

definition has_authority :: "'r github \<Rightarrow> string \<Rightarrow> 'r net \<Rightarrow> bool" where
  "has_authority c login n0 = (\<exists>n p n'. reads_since n0 n \<and> collaborator_permission c login n = (Inr p, n') \<and> field_text p ''permission'' \<in> set AUTHORITY)"

lemma reads_decisions [keeps_intros]: "keeps (reads_since n0) (collaborator_permission c l)" "keeps (reads_since n0) (gh_issues c)"
    "keeps (reads_since n0) (issue_comments c k)"
  unfolding collaborator_permission_def gh_issues_def issue_comments_def by (intro keeps_intros)+

text \<open>A program that only reads, run after other reads.\<close>

lemma wp_reads_after:
  assumes "\<And>n0. keeps (reads_since n0) m" "reads_since n0 n"
  shows "wp m (\<lambda>x t. reads_since n0 t \<and> m n = (Inr x, t)) (\<lambda>_ t. reads_since n0 t) n"
  by (rule wp_mono [OF wp_reads [OF assms(1)]]) (use assms(2) reads_since_trans in blast)+

definition candidate :: "(string \<Rightarrow> string) \<Rightarrow> (string \<Rightarrow> json option) \<Rightarrow> 'r github \<Rightarrow> string \<Rightarrow> 'r net \<Rightarrow> dict \<Rightarrow> dict \<Rightarrow> bool" where
  "candidate sha loads c head_sha n0 comment d = (\<exists>login v. attested sha loads head_sha comment login v \<and> has_authority c login n0 \<and> d = decision_of comment v)"

lemma wp_authority:
  assumes "reads_since n0 n"
  shows "wp (authority_level c login) (\<lambda>l t. reads_since n0 t \<and> (l \<in> set AUTHORITY \<longrightarrow> has_authority c login n0)) (\<lambda>_ t. reads_since n0 t) n"
proof -
  have "wp (collaborator_permission c login) (\<lambda>x t. reads_since n0 t \<and> collaborator_permission c login n = (Inr x, t)) (\<lambda>_ t. reads_since n0 t) n"
    by (rule wp_reads_after [OF _ assms]) (rule reads_decisions)
  then show ?thesis unfolding authority_level_def wp_bind wp_ret
    by (rule wp_mono) (use assms in \<open>auto simp: has_authority_def\<close>)
qed

lemma wp_weigh:
  assumes "reads_since n0 n"
  shows "wp (weigh_comment sha loads c head_sha comment) (\<lambda>r t. reads_since n0 t \<and> (\<forall>d. r = Some d \<longrightarrow> candidate sha loads c head_sha n0 comment d))
    (\<lambda>_ t. reads_since n0 t) n"
proof (cases "parse_decision loads (field_text comment ''body'')")
  case (Some v)
  have "wp (bindP (attemptP (authority_level c login)) (\<lambda>level. case level of
           Inl _ \<Rightarrow> retP None
         | Inr l \<Rightarrow> if l \<notin> set AUTHORITY then retP None else retP (Some (decision_of comment v))))
      (\<lambda>r t. reads_since n0 t \<and> (\<forall>d. r = Some d \<longrightarrow> candidate sha loads c head_sha n0 comment d)) (\<lambda>_ t. reads_since n0 t) n"
    if "attested sha loads head_sha comment login v" for login
    unfolding wp_bind wp_attempt
    by (rule wp_mono [OF wp_authority [OF assms]]) (use that in \<open>auto simp: wp_simps candidate_def\<close>)
  with Some assms show ?thesis
    by (auto simp: weigh_comment_def wp_bind [of "liftP _"] wp_lift wp_ret attested_def split: sum.split)
qed (simp add: weigh_comment_def wp_ret assms)

lemma wp_weigh_all:
  assumes "reads_since n0 n"
  shows "wp (eachP (weigh_comment sha loads c head_sha) cs) (\<lambda>rs t. reads_since n0 t \<and>
      (\<forall>d. Some d \<in> set rs \<longrightarrow> (\<exists>comment \<in> set cs. candidate sha loads c head_sha n0 comment d))) (\<lambda>_ t. reads_since n0 t) n"
  using assms
proof (induction cs arbitrary: n)
  case (Cons x cs)
  show ?case unfolding eachP.simps
  proof (rule wp_seq [OF wp_weigh [OF Cons.prems]])
    fix r t
    assume r: "reads_since n0 t \<and> (\<forall>d. r = Some d \<longrightarrow> candidate sha loads c head_sha n0 x d)"
    show "wp (bindP (eachP (weigh_comment sha loads c head_sha) cs) (\<lambda>ys. retP (r # ys))) (\<lambda>rs t. reads_since n0 t \<and>
      (\<forall>d. Some d \<in> set rs \<longrightarrow> (\<exists>comment \<in> set (x # cs). candidate sha loads c head_sha n0 comment d))) (\<lambda>_ t. reads_since n0 t) t"
      unfolding wp_bind wp_ret by (rule wp_mono [OF Cons.IH]) (use r in auto)
  qed
qed (simp add: wp_ret)

text \<open>The program in three parts: the choice among the candidates, the comments of the issue, the issue.\<close>

lemma newest_in: "newest found = Some d \<Longrightarrow> Some d \<in> set found"
proof -
  define candidates where "candidates = concat (map (\<lambda>o'. case o' of None \<Rightarrow> [] | Some d \<Rightarrow> [d]) found)"
  assume "newest found = Some d"
  then have d: "candidates \<noteq> []" "d = last (sort_key recorded_at candidates)"
    by (auto simp: newest_def Let_def candidates_def [symmetric] split: if_split_asm)
  then have "sort_key recorded_at candidates \<noteq> []" by (metis set_empty set_sort)
  then have "d \<in> set candidates" using d(2) last_in_set [of "sort_key recorded_at candidates"] by simp
  then show ?thesis unfolding candidates_def by (auto split: option.splits)
qed

definition among_comments :: "(string \<Rightarrow> string) \<Rightarrow> (string \<Rightarrow> json option) \<Rightarrow> 'r github \<Rightarrow> string \<Rightarrow> 'r net \<Rightarrow> 'r net \<Rightarrow> int \<Rightarrow> dict \<Rightarrow> bool" where
  "among_comments sha loads c head_sha n0 n1 number d = (\<exists>n2 comments comment. issue_comments c number n1 = (Inr comments, n2)
     \<and> comment \<in> set comments \<and> candidate sha loads c head_sha n0 comment d)"

lemma wp_comments:
  assumes "reads_since n0 n"
  shows "wp (bindP (issue_comments c number) (\<lambda>cs. bindP (eachP (weigh_comment sha loads c head_sha) cs) (\<lambda>found. retP (newest found))))
    (\<lambda>r t. reads_since n0 t \<and> (\<forall>d. r = Some d \<longrightarrow> among_comments sha loads c head_sha n0 n number d)) (\<lambda>_ t. reads_since n0 t) n"
proof (rule wp_seq [OF wp_reads_after [OF reads_decisions(3) assms]])
  fix cs t
  assume t: "reads_since n0 t \<and> issue_comments c number n = (Inr cs, t)"
  have among: "among_comments sha loads c head_sha n0 n number d" if "comment \<in> set cs" "candidate sha loads c head_sha n0 comment d" for comment d
    unfolding among_comments_def using that t assms by blast
  show "wp (bindP (eachP (weigh_comment sha loads c head_sha) cs) (\<lambda>found. retP (newest found)))
    (\<lambda>r t. reads_since n0 t \<and> (\<forall>d. r = Some d \<longrightarrow> among_comments sha loads c head_sha n0 n number d)) (\<lambda>_ t. reads_since n0 t) t"
    unfolding wp_bind wp_ret by (rule wp_mono [OF wp_weigh_all [OF conjunct1 [OF t]]]) (use among newest_in in blast)+
qed

lemma wp_latest:
  "wp (latest_for_sha sha loads c head_sha) (\<lambda>r t. reads_since n0 t \<and> (\<forall>d. r = Some d \<longrightarrow> (\<exists>is n1 issue number. gh_issues c n0 = (Inr is, n1)
      \<and> filter decision_issue is = [issue] \<and> issue_number issue = Inr number \<and> among_comments sha loads c head_sha n0 n1 number d))) (\<lambda>_ t. reads_since n0 t) n0" (is "wp _ ?Q ?E _")
  unfolding latest_for_sha_def
proof (rule wp_seq [OF wp_reads_after [OF reads_decisions(2) reads_since_refl]])
  fix "is" t
  assume t: "reads_since n0 t \<and> gh_issues c n0 = (Inr is, t)"
  show "wp (case filter decision_issue is of
     [i] \<Rightarrow> bindP (liftP (issue_number i)) (\<lambda>n. bindP (issue_comments c n) (\<lambda>cs.
       bindP (eachP (weigh_comment sha loads c head_sha) cs) (\<lambda>found. retP (newest found))))
   | _ \<Rightarrow> retP None) ?Q ?E t"
  proof (cases "\<exists>i. filter decision_issue is = [i]")
    case True
    then obtain i where i: "filter decision_issue is = [i]" ..
    then show ?thesis
      unfolding i list.case wp_bind [of "liftP _"] wp_lift
      by (cases "issue_number i") (use t i in \<open>auto intro!: wp_mono [OF wp_comments]\<close>)
  qed (use t in \<open>auto simp: wp_ret split: list.split\<close>)
qed

text \<open>
  C3. An owner decision that is read for a commit was attested by the provider.  Reading it sent nothing but
  reads; the first of them listed the issues, exactly one of the listed issues is open and has the title of
  the decisions, and the decision holds exactly the fields that a comment of this very issue carries between
  the decision marks.  The comment's author, as the provider names it, is the actor those fields name; the provider
  answered during this reading that the author may administer or maintain the repository; and the fields
  name this very commit and carry the digest over the rest of them.
\<close>

theorem owner_decision_is_attested:
  assumes "latest_for_sha sha loads c head_sha n0 = (Inr (Some d), n')"
    and "\<And>t w. loads t = Some (JObj w) \<Longrightarrow> dict_ok w"
  shows "reads_since n0 n' \<and> (\<exists>issues n1 issue number comments n2 comment v login m perm m'.
      gh_issues c n0 = (Inr issues, n1)
    \<and> filter (\<lambda>i. dget i ''title'' = JStr ''[ADWF] Owner Decisions'' \<and> dget i ''state'' = JStr ''open'') issues = [issue]
    \<and> issue_number issue = Inr number \<and> issue_comments c number n1 = (Inr comments, n2) \<and> comment \<in> set comments
    \<and> starts_with (field_text comment ''body'') DECISION_PREFIX \<and> ends_with (field_text comment ''body'') DECISION_SUFFIX
    \<and> loads (drop (length DECISION_PREFIX) (take (length (field_text comment ''body'') - length DECISION_SUFFIX) (field_text comment ''body''))) = Some (JObj v)
    \<and> login_of comment = Inr login \<and> login \<noteq> [] \<and> dget v ''actor_login'' = JStr login \<and> dget v ''head_sha'' = JStr head_sha
    \<and> dget v ''decision_digest'' = JStr (sha (canonical (JObj (ddel ''decision_digest'' v))))
    \<and> reads_since n0 m \<and> collaborator_permission c login m = (Inr perm, m')
    \<and> (field_text perm ''permission'' = ''admin'' \<or> field_text perm ''permission'' = ''maintain'')
    \<and> (\<forall>k x. map_of v k = Some x \<longrightarrow> dget d k = x))"
proof -
  from wp_Inr [OF wp_latest assms(1)] obtain issues n1 issue number n2 comments comment where
    r: "reads_since n0 n'" "gh_issues c n0 = (Inr issues, n1)" "filter decision_issue issues = [issue]" "issue_number issue = Inr number"
      "issue_comments c number n1 = (Inr comments, n2)" "comment \<in> set comments" "candidate sha loads c head_sha n0 comment d"
    unfolding among_comments_def by blast
  from r(7) obtain login v where v: "attested sha loads head_sha comment login v" "has_authority c login n0" "d = decision_of comment v"
    unfolding candidate_def by blast
  from v(1) have body: "starts_with (field_text comment ''body'') DECISION_PREFIX" "ends_with (field_text comment ''body'') DECISION_SUFFIX"
     "loads (drop (length DECISION_PREFIX) (take (length (field_text comment ''body'') - length DECISION_SUFFIX) (field_text comment ''body''))) = Some (JObj v)"
    by (auto simp: attested_def parse_decision_def split: if_split_asm option.splits json.splits)
  with v(3) have "\<forall>k x. map_of v k = Some x \<longrightarrow> dget d k = x" using assms(2) by (simp add: decision_of_def with_fields_get)
  moreover obtain m p m' where "reads_since n0 m" "collaborator_permission c login m = (Inr p, m')"
      "field_text p ''permission'' = ''admin'' \<or> field_text p ''permission'' = ''maintain''"
    using v(2) by (auto simp: has_authority_def AUTHORITY_def)
  moreover have "filter (\<lambda>i. dget i ''title'' = JStr ''[ADWF] Owner Decisions'' \<and> dget i ''state'' = JStr ''open'') issues = [issue]"
    using r(3) by (simp add: decision_issue_def [abs_def] DECISION_TITLE_def)
  ultimately show ?thesis using r v(1) body unfolding attested_def decision_hash_def by blast
qed

section \<open>A provider with one decision\<close>

definition owner_commit :: string where "owner_commit = replicate 40 (CHR ''c'')"

definition owner_value :: dict where
  "owner_value = [(''actor_login'', JStr ''ann''), (''decision'', JStr ''ACCEPTED''), (''decision_digest'', JStr flat_digest), (''head_sha'', JStr owner_commit)]"

definition owner_body :: string where
  "owner_body = DECISION_PREFIX @ ''V'' @ DECISION_SUFFIX"

definition owner_loads :: "string \<Rightarrow> json option" where
  "owner_loads t = (if t = ''V'' then Some (JObj owner_value) else None)"

definition owner_answers :: "string \<Rightarrow> json res" where
  "owner_answers s = (if s = ''I'' then Inr (JList [JObj [(''number'', JInt 3), (''title'', JStr DECISION_TITLE), (''state'', JStr ''open'')]])
     else if s = ''C'' then Inr (JList [JObj [(''id'', JInt 9), (''body'', JStr owner_body), (''user'', JObj [(''login'', JStr ''ann'')])]])
     else if s = ''P'' then Inr (JObj [(''permission'', JStr ''admin'')]) else Inl (ValueError []))"

definition owner_path :: "string \<Rightarrow> string" where "owner_path p = ''/repos/owner/repo'' @ p"

definition owner_wire :: "unit wire" where
  "owner_wire q u = (Inr \<lparr>ht_status = 200, ht_headers = [],
     ht_body = (if hq_url q = owner_path ''/issues?state=all&per_page=100'' then ''I''
       else if hq_url q = owner_path ''/issues/3/comments?per_page=100'' then ''C''
       else if hq_url q = owner_path ''/collaborators/ann/permission'' then ''P'' else [])\<rparr>, ())"

definition owner_client :: "unit github" where
  "owner_client = \<lparr>gh_repo = ''owner/repo'', gh_token = ''t'', gh_base = [], gh_wire = owner_wire, gh_loads = owner_answers, gh_paged = (\<lambda>u n. u)\<rparr>"

definition owner_start :: "unit net" where
  "owner_start = \<lparr>nt_world = (), nt_sent = [], nt_naps = []\<rparr>"

lemma owner_decision_read: "fst (latest_for_sha flat_sha owner_loads owner_client owner_commit owner_start) =
    Inr (Some ([(''readback_verified'', JBool True), (''comment_id'', JInt 9)] @ owner_value))"
  by code_simp

theorem owner_decision_is_attested_witness:
  "\<exists>n'. latest_for_sha flat_sha owner_loads owner_client owner_commit owner_start =
      (Inr (Some ([(''readback_verified'', JBool True), (''comment_id'', JInt 9)] @ owner_value)), n')
    \<and> reads_since owner_start n' \<and> (\<exists>issues n1. gh_issues owner_client owner_start = (Inr issues, n1)
        \<and> filter (\<lambda>i. dget i ''title'' = JStr ''[ADWF] Owner Decisions'' \<and> dget i ''state'' = JStr ''open'') issues \<noteq> [])"
proof -
  obtain n' where n: "latest_for_sha flat_sha owner_loads owner_client owner_commit owner_start =
      (Inr (Some ([(''readback_verified'', JBool True), (''comment_id'', JInt 9)] @ owner_value)), n')"
    using owner_decision_read by (cases "latest_for_sha flat_sha owner_loads owner_client owner_commit owner_start") auto
  have ok: "dict_ok w" if "owner_loads t = Some (JObj w)" for t w
    using that by (auto simp: owner_loads_def owner_value_def dict_ok_def split: if_split_asm)
  have "\<exists>issues n1 issue. reads_since owner_start n' \<and> gh_issues owner_client owner_start = (Inr issues, n1)
      \<and> filter (\<lambda>i. dget i ''title'' = JStr ''[ADWF] Owner Decisions'' \<and> dget i ''state'' = JStr ''open'') issues = [issue]"
    by (rule owner_decision_is_attested [OF n, THEN conjE]) (erule ok, (erule exE conjE)+, intro exI conjI, assumption+)
  then obtain issues n1 issue where "reads_since owner_start n'" "gh_issues owner_client owner_start = (Inr issues, n1)"
      "filter (\<lambda>i. dget i ''title'' = JStr ''[ADWF] Owner Decisions'' \<and> dget i ''state'' = JStr ''open'') issues = [issue]" by blast
  with n show ?thesis by (intro exI [of _ n'] conjI exI [of _ issues] exI [of _ n1]) simp_all
qed

end
