(* ===== verification/AssuranceBuilder.thy ===== *)
theory AssuranceBuilder
  imports TrustedContext
begin

text \<open>
  Where an assurance snapshot comes from: the resolution of evidence references
  (\<open>.adwf/lib/evidence_resolver.py\<close>) and the builder of the snapshot (\<open>.adwf/lib/assurance_builder.py\<close>).
  The clock is read twice by the builder, for the snapshot and by the validation at its end.
\<close>

section \<open>Resolving evidence references\<close>

record resolution =
  er_status :: string
  er_refs_resolved :: bool
  er_reasons :: "string list"
  er_resolved :: "string list"

definition unresolved :: "string \<Rightarrow> resolution" where
  "unresolved reason = \<lparr>er_status = ''NOT_VERIFIED'', er_refs_resolved = False, er_reasons = [reason], er_resolved = []\<rparr>"

definition PRODUCERS :: "string list" where
  "PRODUCERS = [''github'', ''gitlab'', ''local_trusted'']"

text \<open>The records by their text: a later record of a reference replaces an earlier one.\<close>

definition record_of :: "json list \<Rightarrow> string \<Rightarrow> dict option" where
  "record_of records ref = map_of (rev (concat (map (\<lambda>r. case r of JObj d \<Rightarrow> if truthy (dget d ''ref_id'') then [(py_str (dget d ''ref_id''), d)] else [] | _ \<Rightarrow> []) records))) ref"

definition tagged :: "string \<Rightarrow> string \<Rightarrow> string" where
  "tagged code ref = code @ '':'' @ ref"

definition sub_dict :: "dict \<Rightarrow> string \<Rightarrow> dict" where
  "sub_dict d k = dict_of (dget d k)"

definition time_reasons :: "int \<Rightarrow> dict \<Rightarrow> string \<Rightarrow> string list res" where
  "time_reasons now d ref = catchE is_TV
     (bindE (parse_time (py_str (dget d ''observed_at''))) (\<lambda>observed. bindE (parse_time (py_str (dget d ''expires_at''))) (\<lambda>expires.
        Inr (flag (expires \<le> observed \<or> expires \<le> now) (tagged ''EVIDENCE_STALE'' ref)))))
     (\<lambda>_. Inr [tagged ''EVIDENCE_TIME_INVALID'' ref])"

definition ref_reasons :: "json list \<Rightarrow> string \<Rightarrow> string \<Rightarrow> int \<Rightarrow> string \<Rightarrow> string list res" where
  "ref_reasons records subject_sha policy_hash now ref = (case record_of records ref of
     None \<Rightarrow> Inr [tagged ''EVIDENCE_REF_MISSING'' ref]
   | Some d \<Rightarrow> (let producer = sub_dict d ''producer''; anchor = sub_dict d ''external_anchor'' in
       bindE (in_set (dget producer ''provider'') PRODUCERS) (\<lambda>known.
       bindE (in_set (dget producer ''provider'') [''github'', ''gitlab'']) (\<lambda>hosted.
       bindE (time_reasons now d ref) (\<lambda>times.
       Inr (flag (dget d ''subject_sha'' \<noteq> JStr subject_sha) (tagged ''EVIDENCE_SHA_MISMATCH'' ref)
         @ flag (dget d ''policy_hash'' \<noteq> JStr policy_hash) (tagged ''EVIDENCE_POLICY_MISMATCH'' ref)
         @ flag (\<not> sha256_hex (field_text d ''artifact_digest'')) (tagged ''EVIDENCE_DIGEST_INVALID'' ref)
         @ flag (\<not> known) (tagged ''EVIDENCE_PRODUCER_INVALID'' ref)
         @ flag (dget producer ''readback_verified'' \<noteq> JBool True) (tagged ''EVIDENCE_PRODUCER_NOT_ATTESTED'' ref)
         @ flag (hosted \<and> \<not> truthy (dget producer ''run_id'')) (tagged ''EVIDENCE_RUN_ID_MISSING'' ref)
         @ flag (dget anchor ''readback_verified'' \<noteq> JBool True \<or> \<not> truthy (dget anchor ''anchor_id'')) (tagged ''EVIDENCE_EXTERNAL_ANCHOR_MISSING'' ref)
         @ times))))))"

text \<open>
  The loop.  A missing record does not reach the test for a resolved reference; the test looks at all the
  reasons so far, those of other references whose code ends alike included.
\<close>

definition resolve_step ::
    "json list \<Rightarrow> string \<Rightarrow> string \<Rightarrow> int \<Rightarrow> string \<Rightarrow> string list \<times> string list \<Rightarrow> (string list \<times> string list) res" where
  "resolve_step records subject_sha policy_hash now ref st = bindE (ref_reasons records subject_sha policy_hash now ref) (\<lambda>rs.
     let reasons = fst st @ rs in
     Inr (reasons, if record_of records ref = None \<or> list_ex (\<lambda>code. ends_with code ('':'' @ ref)) reasons then snd st else snd st @ [ref]))"

definition resolve_evidence_refs :: "json list \<Rightarrow> string list \<Rightarrow> string \<Rightarrow> string \<Rightarrow> int \<Rightarrow> resolution res" where
  "resolve_evidence_refs records refs subject_sha policy_hash now =
     (if refs = [] then Inr (unresolved ''EVIDENCE_REFS_REQUIRED'')
      else if \<not> sha40 subject_sha \<or> \<not> sha256_hex policy_hash then Inr (unresolved ''TRUST_BINDING_INVALID'')
      else bindE (foldE (resolve_step records subject_sha policy_hash now) refs ([], [])) (\<lambda>(reasons, resolved).
        let ok = (length resolved = length refs \<and> reasons = []) in
        Inr \<lparr>er_status = (if ok then ''VERIFIED'' else ''NOT_VERIFIED''), er_refs_resolved = ok, er_reasons = uniq reasons, er_resolved = resolved\<rparr>))"

section \<open>Building the snapshot\<close>

definition resolution_json :: "resolution \<Rightarrow> json" where
  "resolution_json r = JObj [(''status'', JStr (er_status r)), (''refs_resolved'', JBool (er_refs_resolved r)),
     (''reason_codes'', JList (map JStr (er_reasons r))), (''resolved'', JList (map JStr (er_resolved r)))]"

definition projected_cost :: "dict \<Rightarrow> json" where
  "projected_cost cost = py_or (dget_or cost ''projected_cost_usd'' (dget_or cost ''projected_cost'' (JInt 0))) (JInt 0)"

definition cost_zero :: "dict \<Rightarrow> bool res" where
  "cost_zero cost = (if dget cost ''result'' \<noteq> JStr ''ALLOW'' then Inr False else bindE (py_float (projected_cost cost)) (\<lambda>f. Inr (f = Fin 0)))"

definition provider_ok :: "dict \<Rightarrow> string \<Rightarrow> bool" where
  "provider_ok p subject_sha = (dget p ''readback_verified'' = JBool True \<and> dget p ''subject_sha'' = JStr subject_sha)"

definition expiry :: "int \<Rightarrow> int \<Rightarrow> int res" where
  "expiry now ttl = (let t = now + minutes (max 1 (min ttl 1440)) in if in_range t then Inr t else Inl OverflowError)"

definition unsigned_snapshot ::
    "string \<Rightarrow> string \<Rightarrow> dict \<Rightarrow> dict \<Rightarrow> json list \<Rightarrow> resolution \<Rightarrow> dict \<Rightarrow> bool \<Rightarrow> int \<Rightarrow> int \<Rightarrow> dict" where
  "unsigned_snapshot subject_sha policy_hash health gates required evidence provider free now expires =
     [(''schema_version'', JInt 1), (''subject_sha'', JStr subject_sha), (''policy_hash'', JStr policy_hash), (''health'', JObj health), (''gates'', JObj gates),
      (''required_gates'', JList required), (''evidence'', resolution_json evidence),
      (''provider'', JObj (dput ''readback_verified'' (JBool (provider_ok provider subject_sha)) provider)),
      (''cost'', JObj [(''status'', JStr (if free then ''VERIFIED_ZERO'' else ''NOT_VERIFIED'')),
         (''projected_cost_usd'', if free then JFloat (Fin 0) ''0.0'' else JNull)]),
      (''verified_at'', JStr (iso now)), (''expires_at'', JStr (iso expires))]"

definition build_assurance_snapshot ::
    "(string \<Rightarrow> string) \<Rightarrow> json_file \<Rightarrow> int \<Rightarrow> int \<Rightarrow> string \<Rightarrow> dict \<Rightarrow> dict \<Rightarrow> json list \<Rightarrow> json list \<Rightarrow> string list \<Rightarrow> dict \<Rightarrow> dict \<Rightarrow> int \<Rightarrow> dict res" where
  "build_assurance_snapshot sha file now later subject_sha health gates required records refs provider cost ttl =
     bindE (load_effective_policy sha file) (\<lambda>policy. let policy_hash = str_of (dget policy ''policy_hash'') in
     bindE (resolve_evidence_refs records refs subject_sha policy_hash now) (\<lambda>evidence.
     bindE (cost_zero cost) (\<lambda>free.
     bindE (expiry now ttl) (\<lambda>expires.
     let body = unsigned_snapshot subject_sha policy_hash health gates required evidence provider free now expires;
         snapshot = body @ [(''snapshot_digest'', JStr (snapshot_digest sha body))] in
     bindE (validate_assurance_snapshot sha later (JObj snapshot) (Some subject_sha) (Some policy_hash)) (\<lambda>errors.
     if errors \<noteq> [] then Inl (ValueError (''ASSURANCE_BUILD_INVALID:'' @ join '','' errors)) else Inr snapshot)))))"

section \<open>What a reference that resolves rests on\<close>

definition attested_record :: "string \<Rightarrow> string \<Rightarrow> int \<Rightarrow> dict \<Rightarrow> bool" where
  "attested_record subject_sha policy_hash now d = (dget d ''subject_sha'' = JStr subject_sha \<and> dget d ''policy_hash'' = JStr policy_hash
     \<and> sha256_hex (field_text d ''artifact_digest'')
     \<and> (\<exists>who. dget (sub_dict d ''producer'') ''provider'' = JStr who \<and> who \<in> set PRODUCERS
          \<and> (who \<noteq> ''local_trusted'' \<longrightarrow> truthy (dget (sub_dict d ''producer'') ''run_id'')))
     \<and> dget (sub_dict d ''producer'') ''readback_verified'' = JBool True
     \<and> dget (sub_dict d ''external_anchor'') ''readback_verified'' = JBool True \<and> truthy (dget (sub_dict d ''external_anchor'') ''anchor_id'')
     \<and> (\<exists>observed expires. parse_time (py_str (dget d ''observed_at'')) = Inr observed \<and> parse_time (py_str (dget d ''expires_at'')) = Inr expires
          \<and> observed < expires \<and> now < expires))"

lemma record_of_Some: "record_of records ref = Some d \<Longrightarrow> JObj d \<in> set records \<and> py_str (dget d ''ref_id'') = ref"
  unfolding record_of_def by (drule map_of_SomeD) (auto split: json.splits if_split_asm)

lemma time_reasons_Nil: "time_reasons now d ref = Inr [] \<Longrightarrow> \<exists>observed expires. parse_time (py_str (dget d ''observed_at'')) = Inr observed
    \<and> parse_time (py_str (dget d ''expires_at'')) = Inr expires \<and> observed < expires \<and> now < expires"
  by (auto simp: time_reasons_def catchE_eq_Inr elim!: bindE_InrE)

lemma no_reasons_attested:
  assumes "ref_reasons records subject_sha policy_hash now ref = Inr []"
  shows "\<exists>d. JObj d \<in> set records \<and> py_str (dget d ''ref_id'') = ref \<and> attested_record subject_sha policy_hash now d"
proof -
  from assms obtain d where d: "record_of records ref = Some d" by (auto simp: ref_reasons_def split: option.splits)
  from assms d obtain known hosted where r: "in_set (dget (sub_dict d ''producer'') ''provider'') PRODUCERS = Inr known" "known"
    "in_set (dget (sub_dict d ''producer'') ''provider'') [''github'', ''gitlab''] = Inr hosted" "time_reasons now d ref = Inr []"
    "dget d ''subject_sha'' = JStr subject_sha" "dget d ''policy_hash'' = JStr policy_hash" "sha256_hex (field_text d ''artifact_digest'')"
    "dget (sub_dict d ''producer'') ''readback_verified'' = JBool True" "hosted \<longrightarrow> truthy (dget (sub_dict d ''producer'') ''run_id'')"
    "dget (sub_dict d ''external_anchor'') ''readback_verified'' = JBool True" "truthy (dget (sub_dict d ''external_anchor'') ''anchor_id'')"
    unfolding ref_reasons_def by (auto simp: Let_def elim!: bindE_InrE)
  from r(1,2) obtain who where who: "dget (sub_dict d ''producer'') ''provider'' = JStr who" "who \<in> set PRODUCERS" by (auto simp: in_set_True)
  then have "who \<noteq> ''local_trusted'' \<longrightarrow> hosted" using r(3) by (auto simp: PRODUCERS_def)
  then have "attested_record subject_sha policy_hash now d"
    unfolding attested_record_def using r who time_reasons_Nil [OF r(4)] by blast
  with record_of_Some [OF d] show ?thesis by blast
qed

lemma resolve_step_adds: "resolve_step records subject_sha policy_hash now x st = Inr st' \<Longrightarrow>
    \<exists>rs. ref_reasons records subject_sha policy_hash now x = Inr rs \<and> fst st' = fst st @ rs"
  by (auto simp: resolve_step_def Let_def elim!: bindE_InrE)

lemma resolve_steps:
  assumes "foldE (resolve_step records subject_sha policy_hash now) refs st = Inr (reasons, resolved)" "reasons = []" "ref \<in> set refs"
  shows "ref_reasons records subject_sha policy_hash now ref = Inr []"
proof -
  have keep: "foldE (resolve_step records subject_sha policy_hash now) refs st = Inr (rs, ys) \<Longrightarrow> set (fst st) \<subseteq> set rs" for refs st rs ys
    by (induction refs arbitrary: st) (fastforce simp: resolve_step_def Let_def elim!: bindE_InrE)+
  show ?thesis using assms
  proof (induction refs arbitrary: st)
    case (Cons x xs)
    from Cons.prems(1) obtain st' where st: "resolve_step records subject_sha policy_hash now x st = Inr st'"
      "foldE (resolve_step records subject_sha policy_hash now) xs st' = Inr (reasons, resolved)" by (auto elim!: bindE_InrE)
    from resolve_step_adds [OF st(1)] st(2) obtain rs where s: "ref_reasons records subject_sha policy_hash now x = Inr rs" "fst st' = fst st @ rs"
      "foldE (resolve_step records subject_sha policy_hash now) xs st' = Inr (reasons, resolved)" by blast
    have "rs = []" using keep [OF s(3)] s(2) Cons.prems(2) by auto
    with s Cons.IH [OF s(3) Cons.prems(2)] Cons.prems(3) show ?case by auto
  qed simp
qed

lemma resolved_attested:
  assumes "resolve_evidence_refs records refs subject_sha policy_hash now = Inr r" "er_refs_resolved r"
  shows "refs \<noteq> [] \<and> (\<forall>ref \<in> set refs. \<exists>d. JObj d \<in> set records \<and> py_str (dget d ''ref_id'') = ref \<and> attested_record subject_sha policy_hash now d)"
proof -
  from assms obtain reasons resolved where r: "refs \<noteq> []" "foldE (resolve_step records subject_sha policy_hash now) refs ([], []) = Inr (reasons, resolved)" "reasons = []"
    unfolding resolve_evidence_refs_def by (auto simp: unresolved_def Let_def elim!: bindE_InrE split: if_split_asm prod.splits)
  with no_reasons_attested resolve_steps [OF r(2,3)] show ?thesis by blast
qed

text \<open>
  C5.  Every positive fact of a snapshot that the builder returns was attested for its commit: the snapshot is
  sound for the policy file's hash (which covers its digest and times); its references are resolved only if
  there are any and each names a record of the evidence about this commit and this policy, from a known
  producer with provider readback, with an external anchor, a digest, and not expired; its provider
  readback is verified only if it was and is about this commit; its cost is zero only if the cost guard
  allowed a projected cost of zero.
\<close>

theorem built_snapshot_holds_attested_facts:
  assumes "build_assurance_snapshot sha file now later subject_sha health gates required records refs provider cost ttl = Inr s"
  shows "\<exists>policy h. load_effective_policy sha file = Inr policy \<and> dget policy ''policy_hash'' = JStr h \<and> sound_snapshot sha later subject_sha h s
    \<and> dget s ''health'' = JObj health \<and> dget s ''gates'' = JObj gates \<and> dget s ''required_gates'' = JList required
    \<and> (dget (dict_of (dget s ''evidence'')) ''refs_resolved'' = JBool True \<longrightarrow> refs \<noteq> [] \<and> (\<forall>ref \<in> set refs.
         \<exists>d. JObj d \<in> set records \<and> py_str (dget d ''ref_id'') = ref \<and> attested_record subject_sha h now d))
    \<and> (dget (dict_of (dget s ''provider'')) ''readback_verified'' = JBool True \<longrightarrow> provider_ok provider subject_sha)
    \<and> (dget (dict_of (dget s ''cost'')) ''status'' = JStr ''VERIFIED_ZERO'' \<longrightarrow> dget cost ''result'' = JStr ''ALLOW'' \<and> py_float (projected_cost cost) = Inr (Fin 0))"
proof -
  from assms obtain policy evidence free expires body where
    b: "load_effective_policy sha file = Inr policy" "resolve_evidence_refs records refs subject_sha (str_of (dget policy ''policy_hash'')) now = Inr evidence"
      "cost_zero cost = Inr free" "s = body @ [(''snapshot_digest'', JStr (snapshot_digest sha body))]"
      "validate_assurance_snapshot sha later (JObj s) (Some subject_sha) (Some (str_of (dget policy ''policy_hash''))) = Inr []"
    and body: "body = unsigned_snapshot subject_sha (str_of (dget policy ''policy_hash'')) health gates required evidence provider free now expires"
    unfolding build_assurance_snapshot_def Let_def by (auto elim!: bindE_InrE split: if_split_asm)
  from b(1) obtain h where h: "dget policy ''policy_hash'' = JStr h"
    by (auto simp: load_effective_policy_def verify_policy_ir_def Let_def split: json_file.splits if_splits json.splits)
  from snapshot_sound [OF b(5)] h have "sound_snapshot sha later subject_sha h s" by simp
  moreover have "dget s ''health'' = JObj health" "dget s ''gates'' = JObj gates" "dget s ''required_gates'' = JList required"
    "dget s ''evidence'' = resolution_json evidence"
    "dget (dict_of (dget s ''provider'')) ''readback_verified'' = JBool (provider_ok provider subject_sha)"
    "dget (dict_of (dget s ''cost'')) ''status'' = JStr (if free then ''VERIFIED_ZERO'' else ''NOT_VERIFIED'')"
    unfolding b(4) body unsigned_snapshot_def by simp_all
  moreover have "dget (dict_of (resolution_json evidence)) ''refs_resolved'' = JBool (er_refs_resolved evidence)" by (simp add: resolution_json_def)
  moreover have "free \<Longrightarrow> dget cost ''result'' = JStr ''ALLOW'' \<and> py_float (projected_cost cost) = Inr (Fin 0)"
    using b(3) by (auto simp: cost_zero_def elim!: bindE_InrE split: if_split_asm)
  ultimately show ?thesis using b(1) h resolved_attested [OF b(2)] by simp
qed

section \<open>A snapshot that is built\<close>

text \<open>What the builder prints is read back as the same instant.\<close>

lemma iso_instant: "in_range t \<Longrightarrow> \<exists>x off. fromisoformat (replace_Z (iso t)) = Some (x, Some off) \<and> x - off = t"
  using utc.parse_print [of t] by (auto simp: parse_time_def split: option.splits if_split_asm)

definition sample_record :: dict where
  "sample_record = [(''ref_id'', JStr ''run-1''), (''subject_sha'', JStr sample_sha40), (''policy_hash'', JStr flat_digest), (''artifact_digest'', JStr flat_digest),
     (''producer'', JObj [(''provider'', JStr ''github''), (''readback_verified'', JBool True), (''run_id'', JInt 7)]),
     (''external_anchor'', JObj [(''readback_verified'', JBool True), (''anchor_id'', JStr ''a'')]),
     (''observed_at'', JStr ''2026-01-01T10:00:00Z''), (''expires_at'', JStr ''2026-01-01T12:00:00Z'')]"

definition sample_body :: dict where
  "sample_body = unsigned_snapshot sample_sha40 flat_digest [] [] [] \<lparr>er_status = ''VERIFIED'', er_refs_resolved = True, er_reasons = [], er_resolved = [''run-1'']\<rparr>
     [(''readback_verified'', JBool True), (''subject_sha'', JStr sample_sha40)] True sample_now 63902865600000000"

definition sample_built :: dict where
  "sample_built = sample_body @ [(''snapshot_digest'', JStr flat_digest)]"

lemma built_times: "parse_time ''2026-01-01T10:00:00Z'' = Inr 63902858400000000" "parse_time ''2026-01-01T12:00:00Z'' = Inr 63902865600000000"
  by code_simp+

lemma sample_expiry: "expiry sample_now 60 = Inr 63902865600000000" "in_range sample_now" "in_range 63902865600000000"
  by (simp_all add: expiry_def minutes_def sample_now_def in_range_def max_ordinal_def day_us_def)

lemma sample_evidence: "resolve_evidence_refs [JObj sample_record] [''run-1''] sample_sha40 flat_digest sample_now =
    Inr \<lparr>er_status = ''VERIFIED'', er_refs_resolved = True, er_reasons = [], er_resolved = [''run-1'']\<rparr>"
proof -
  have "flat_digest \<noteq> []" by (simp add: flat_digest_def)
  moreover have "record_of [JObj sample_record] ''run-1'' = Some sample_record" by (simp add: record_of_def sample_record_def)
  ultimately have "ref_reasons [JObj sample_record] sample_sha40 flat_digest sample_now ''run-1'' = Inr []"
    using flat_digest_shape
    by (simp add: ref_reasons_def Let_def) (simp add: sample_record_def sub_dict_def PRODUCERS_def time_reasons_def built_times sample_now_def field_text_def py_or_def)
  then show ?thesis using flat_digest_shape sample_sha40_shape
    by (simp add: resolve_evidence_refs_def resolve_step_def record_of_def sample_record_def)
qed

lemma sample_built_valid: "validate_assurance_snapshot flat_sha sample_now (JObj sample_built) (Some sample_sha40) (Some flat_digest) = Inr []"
proof -
  have "time_text sample_built ''verified_at'' = replace_Z (iso sample_now)" "time_text sample_built ''expires_at'' = replace_Z (iso 63902865600000000)"
    by (simp_all add: time_text_def sample_built_def sample_body_def unsigned_snapshot_def dget_or_def)
  then have "time_findings sample_now sample_built = Inr []"
    unfolding time_findings_Nil using iso_instant [OF sample_expiry(2)] iso_instant [OF sample_expiry(3)] by (fastforce simp: sample_now_def)
  then show ?thesis using flat_digest_shape sample_sha40_shape
    by (simp add: validate_assurance_snapshot_def bound_id_Nil snapshot_digest_def flat_sha_def)
      (simp add: sample_built_def sample_body_def unsigned_snapshot_def resolution_json_def bound_id_def num_eq_def)
qed

lemma sample_builds: "build_assurance_snapshot flat_sha (Parsed sample_policy) sample_now sample_now sample_sha40 [] [] [] [JObj sample_record] [''run-1'']
    [(''readback_verified'', JBool True), (''subject_sha'', JStr sample_sha40)] [(''result'', JStr ''ALLOW'')] 60 = Inr sample_built"
proof -
  have h: "str_of (dget (dict_of sample_policy) ''policy_hash'') = flat_digest" by (simp add: sample_policy_def flat_digest_def)
  have c: "cost_zero [(''result'', JStr ''ALLOW'')] = Inr True" by (simp add: cost_zero_def projected_cost_def py_or_def overflow_bound_def)
  have d: "snapshot_digest flat_sha b = flat_digest" for b by (simp add: snapshot_digest_def flat_sha_def)
  show ?thesis using sample_built_valid
    by (simp add: build_assurance_snapshot_def load_sample h sample_evidence c sample_expiry d sample_built_def sample_body_def)
qed

theorem built_snapshot_holds_attested_facts_witness:
  "sound_snapshot flat_sha sample_now sample_sha40 flat_digest sample_built
   \<and> (\<exists>d. JObj d \<in> set [JObj sample_record] \<and> py_str (dget d ''ref_id'') = ''run-1'' \<and> attested_record sample_sha40 flat_digest sample_now d)"
proof -
  have h: "dget (dict_of sample_policy) ''policy_hash'' = JStr flat_digest" by (simp add: sample_policy_def flat_digest_def)
  have "dget (dict_of (dget sample_built ''evidence'')) ''refs_resolved'' = JBool True"
    by (simp add: sample_built_def sample_body_def unsigned_snapshot_def resolution_json_def)
  with built_snapshot_holds_attested_facts [OF sample_builds] h show ?thesis by (auto simp: load_sample)
qed

end
