(* ===== verification/Spec2Isabelle.thy ===== *)
theory Spec2Isabelle
  imports TrustedContext WorkContracts Delivery StateEngine LeaseRegistry Orchestration Evidence CostGuard ExecutionState SagaSample SessionSample ResumeSample LeaseStoreSample OrchNextSample SupervisorSample ExecutorSample TrustSample OwnerDecisions AssuranceBuilder
begin

text \<open>
  ADWF, the AI Development Framework, drives software delivery by autonomous agents: a durable run walks
  through phases (clarify, plan, claim, execute, CI, review, preview, acceptance, merge, ...), and every
  step must be permitted by a policy on facts read back from the provider, with one writer per work item
  and nothing that costs money.  This development models the decision core of the framework, the
  library \<open>.adwf/lib/\<close>, and proves what makes it safe: what an agent, an issue or a pull request says
  never authorises anything, histories are append-only and tamper-evident, and writers exclude each other.

  \<^bold>\<open>The parts and how they interact.\<close>  An untrusted step result reaches the durable orchestrator
  (\<open>Orchestrator\<close>); it asks the policy engine (\<open>Policy\<close>), whose context is compiled from provider
  readbacks, the owner's decision (\<open>OwnerDecisions\<close>) and an assurance snapshot (\<open>AssuranceBuilder\<close>, \<open>TrustedContext\<close>), and appends to the hash-chained journal of
  the run.  Creative phases hand a bounded work package to an agent and bind what it claims to that package
  (\<open>WorkContracts\<close>); what they propose is a git diff, which the base revision's trust policy classifies (\<open>TrustDiff\<close>).
  The supervisor
  (\<open>Supervisor\<close>) feeds it the results that the executors of the phases produce (\<open>ActionExecutors\<close>, behind the
  \<open>WriterGate\<close>) and keeps the work memory (\<open>WorkMemory\<close>) and the project state current; when a run is complete,
  \<open>OrchNext\<close> starts the next.  The next work item is chosen from the roadmap queue (\<open>Orchestration\<close>) under the
  local leases (\<open>Leases\<close>) or the writer lease registry (\<open>LeaseRegistry\<close>), which several machines
  share through immutable tags at the provider (\<open>LeaseStore\<close> over \<open>GitHubClient\<close> over
  \<open>ProviderHttp\<close>).  Work that stops and continues elsewhere is carried by the execution state
  (\<open>ExecutionState\<close>), the session checkpoint (\<open>SessionContinuity\<close>) and the resume decision
  (\<open>OrchResume\<close>).  Issue bodies and labels change through a resumable saga (\<open>RemoteSaga\<close>).  Evidence
  (\<open>Evidence\<close>), cost (\<open>CostGuard\<close>), the item machine (\<open>StateEngine\<close>) and the schema validator
  (\<open>Contracts\<close>) serve all of them.

  \<^bold>\<open>Theories and sources\<close> (files under \<open>src/.adwf/lib/\<close>).

  \<^item> \<open>Prelude\<close>, \<open>PyVal\<close>, \<open>PyTime\<close>, \<open>Regex\<close>, \<open>TextScan\<close>, \<open>Glob\<close>, \<open>Effects\<close>, \<open>HashChain\<close>: the
    library.  Exceptions as a sum type, Python values of unknown type, timestamps, regular expressions,
    shell patterns, state-passing programs with weakest preconditions, and the contracts that several
    components share: \<open>hash_chain\<close> (event logs), \<open>cas_store\<close> (compare-and-set on a revision) and
    \<open>time_codec\<close> (parsing inverts printing), each interpreted on the modelled operations where they are
    defined.  \<open>Glob\<close> also holds \<open>trust_boundary.py\<close>.
  \<^item> \<open>Policy\<close>: \<open>policy.py\<close>, \<open>policy_runtime.py\<close>.  \<open>TrustedContext\<close>: \<open>assurance.py\<close>, \<open>trusted_context.py\<close>.
  \<^item> \<open>Orchestrator\<close>: \<open>durable_orchestrator.py\<close>; \<open>OrchestratorProps\<close> its step relation and
    invariants, \<open>Delivery\<close> the properties of the reachable directories of journals.
  \<^item> \<open>StateEngine\<close>: \<open>state_engine.py\<close>.  \<open>Contracts\<close>: \<open>contracts.py\<close>.  \<open>Evidence\<close>: \<open>evidence.py\<close>.
    \<open>CostGuard\<close>: \<open>cost_guard.py\<close>.  \<open>WorkContracts\<close>: \<open>ai_work_contracts.py\<close>.
  \<^item> \<open>Leases\<close>: \<open>leases.py\<close>.  \<open>LeaseRegistry\<close>: \<open>lease_registry.py\<close>.  \<open>Orchestration\<close>: \<open>orchestration.py\<close>.
  \<^item> \<open>ExecutionState\<close>: \<open>autonomous_execution_state.py\<close>.  \<open>SessionContinuity\<close>, \<open>SessionSample\<close>:
    \<open>session_continuity.py\<close>.  \<open>OrchResume\<close>, \<open>ResumeSample\<close>: \<open>orch_resume.py\<close>, and a run that is resumed.
  \<^item> \<open>RemoteSaga\<close>, \<open>SagaSafety\<close>, \<open>SagaResume\<close>, \<open>SagaSample\<close>: \<open>remote_saga.py\<close>, what any run may do,
    why it can be resumed, and a provider on which it runs.
  \<^item> \<open>ProviderHttp\<close>: \<open>provider_contracts.py\<close>.  \<open>GitHubClient\<close>: \<open>github_provider.py\<close>,
    \<open>github_rulesets.py\<close>.  \<open>LeaseStore\<close>, \<open>LeaseRefine\<close>, \<open>LeaseStoreSample\<close>: \<open>github_lease_store.py\<close>, its
    refinement of an atomic register, and a provider on which it runs.
  \<^item> \<open>WorkMemory\<close>: \<open>work_memory.py\<close>.  \<open>OrchNext\<close>, \<open>OrchNextSample\<close>: \<open>orch_next.py\<close>, the start of the next run.
  \<^item> \<open>Supervisor\<close>, \<open>SupervisorSample\<close>: \<open>runtime_supervisor.py\<close>, \<open>durable_projection.py\<close>.  Executors and the
    reconciliation process are parameters that may change every file but the journals.
  \<^item> \<open>WriterGate\<close>, \<open>ActionExecutors\<close>: \<open>action_executors.py\<close> and the command adapter of
    \<open>delivery_adapters.py\<close>, one executor per phase over the provider client and the lease store, an
    instance of the supervisor's executors; \<open>ExecutorProps\<close>, \<open>ExecutorSample\<close> what they guarantee and a provider
    on which a merge runs.
  \<^item> \<open>RegexFind\<close>, \<open>TrustDiff\<close>, \<open>TrustProps\<close>, \<open>TrustSample\<close>: \<open>trust.py\<close>, the classification of a change against the
    trust policy of its base revision and the provenance of checks and reviews; what they guarantee and a
    repository on which they run.
  \<^item> \<open>AssuranceBuilder\<close>: \<open>evidence_resolver.py\<close>, \<open>assurance_builder.py\<close>.  \<open>OwnerDecisions\<close>: \<open>github_owner_decisions.py\<close>
    over the provider client, with a provider that holds one decision.

  A definition has the name of its function, with a suffix or prefix where HOL or another theory uses the name;
  a method of a class takes the fields of the object as arguments.  A raise is \<open>Inl\<close> of an exception, a
  return \<open>Inr\<close> of the value.  Values read from files, providers and agents stay of unknown type
  (\<open>json\<close>), so that a value of the wrong type raises in the model where it raises in Python.

  \<^bold>\<open>What the lemmas show.\<close>
  Authority: an ALLOW is bound to the verified policy, fresh provider facts and the risk ceiling or an exact
  human approval; the orchestrator changes phase, candidate and acceptance only under such an ALLOW, and merges
  a product change only after the owner accepted the very commit and preview.
  History: every reachable journal is a valid hash chain with its budgets respected, advancing only appends,
  a repeated step result changes nothing as long as the journal it left validates, and equal heads mean equal histories unless a digest collides; the
  evidence log is such a chain as well, with the stored index as its projection.
  Exclusion: claims, registry leases and their provider-backed store never give colliding surfaces to two
  writers, and concurrent writers of the store behave as an atomic compare-and-set.
  Recovery: a saga writes only what a read permits and completes after any number of failures; checkpoints
  carry no private text and tell exactly when they are stale; resuming rests on matching fresh facts.
  Containment: an agent's claim stays within its write surfaces, an allowed provider costs nothing, provider calls
  keep their attempt and page budgets, a change is sent once.
  Reference semantics: the schema validator decides conformance (\<open>Contracts.conforms\<close>, which shares no check with it), resource keys decide path overlap, item
  transitions are the edges of the machine.
  Execution: whatever executors return, a tick of the supervisor moves a run only on a verified readback and ends
  within its budget; the start of the next run is all or nothing, but for the one half it names; an executor of a guarded phase
  runs only for the holder of the one live lease, and a merge is sent only for an attested commit.
  Trust: protected files change without a person only under the owner's standing policy of the base revision, after
  both sides were read and compared; approvals and checks count for exactly one commit; the owner's
  decision comes from an account the provider named and whose authority it confirmed, and a built snapshot holds
  attested facts only.

  \<^bold>\<open>Parameters.\<close>  SHA-256 of the UTF-8 encoding of a text (\<open>sha\<close>; no property assumes it injective,
  collisions appear in the conclusions), clocks and fresh UUIDs, the policy file and the other files as
  values, HTTP transports (any function that answers or raises and may change the provider), the strict loader
  of response texts, \<open>re.search\<close> on schema patterns, the Russian texts, git commands and the decoding of their output, the processes that executors
  start (agents, commands, reconciliation) with the qualified adapters they load, and the local reference delivery.  Properties over transports that
  need one to follow its documentation say so as a hypothesis and are applied to a concrete provider.

  \<^bold>\<open>Bounds.\<close>  No definition runs on fuel that the code does not have: attempts (at most three), pages and
  steps are the code's own budgets; the recursions of the validator, the scans and the patterns have measures
  (the schema, the text).  A tick of the supervisor takes \<open>max 1 (min n 32)\<close> steps, as the code does.  Loops over dictionaries and lists are structural.

  \<^bold>\<open>Not modelled, and why.\<close>
  Characters are the code points below 256; \<open>-0.0\<close> prints like Python only up to its sign.
  Message texts of the interpreter, of the validator and for people are empty or left out: no code reads them.
  Of the timestamp forms only the extended calendar ones are read; spans of time are exact, as doubles are
  below 285 years.  Reversed ranges in shell patterns are empty.  File locks and atomic file
  replacement make an operation one step; a crash between the two writes of one operation is not modelled,
  an exception between them is.  A call that starts the next run, or one supervised
  step, reads the clock once.
  Parsing of JSON text, \<open>urllib\<close>, sockets, subprocesses, git worktrees and the browser are outside: the modelled
  code takes their results as arguments.  Left out as whole components are the renderings for people, the
  transactions over consumer trees, the provider gateways, the collectors that turn provider answers into
  the facts the core takes, the scripts and the command line.
\<close>

end
